(* ===== verification/Prelude.thy ===== *)
theory Prelude
  imports
    Main
    "HOL-Library.AList"
    "HOL-Library.Finite_Map"
    "HOL-Library.Char_ord"
    "HOL-Library.List_Lexorder"
begin

text \<open>
  Shared vocabulary of the development: JSON values, rows (Python dictionaries keyed by column
  name), the exceptions the backend raises as values of a sum type, and the sequencing operator
  of that sum.

  A character stands for one code point below U+0100, so a \<open>string\<close> is a Python \<open>str\<close> over that
  range and \<open>length\<close> is Python's \<open>len\<close>; the order on \<open>string\<close> (theories \<open>Char_ord\<close> and
  \<open>List_Lexorder\<close>) is Python's code point order on \<open>str\<close>. JSON floats do not occur in the rows and
  payloads modelled here and are left out. A frozen JSON array (a tuple) and a JSON array (a list)
  are the same \<open>JList\<close>, as \<open>deep_freeze_json\<close> turns the one into the other.
\<close>

named_theorems result_simps "how sequenced results succeed and fail"
named_theorems row_simps "reading an updated row"

section \<open>JSON values and rows\<close>

datatype json =
    JNull
  | JBool bool
  | JInt int
  | JStr string
  | JList "json list"
  | JObj "(string \<times> json) list"

type_synonym row = "(string, json) fmap"

text \<open>
  Reading a column. \<open>fld\<close> is \<open>row[k]\<close> on a complete database row, where every column is present
  (it is unspecified elsewhere); \<open>get\<close> is \<open>row.get(k)\<close>; \<open>get_or\<close> is \<open>row.get(k, default)\<close>.
\<close>

definition fld :: "row \<Rightarrow> string \<Rightarrow> json" where
  "fld r k = the (fmlookup r k)"

definition get_or :: "row \<Rightarrow> string \<Rightarrow> json \<Rightarrow> json" where
  "get_or r k d = (case fmlookup r k of None \<Rightarrow> d | Some v \<Rightarrow> v)"

abbreviation get :: "row \<Rightarrow> string \<Rightarrow> json" where
  "get r k \<equiv> get_or r k JNull"

definition has_key :: "row \<Rightarrow> string \<Rightarrow> bool" where
  "has_key r k = (fmlookup r k \<noteq> None)"

text \<open>\<open>{**row, k1: v1, k2: v2, ...}\<close>: later entries win.\<close>

fun updates :: "row \<Rightarrow> (string \<times> json) list \<Rightarrow> row" where
  "updates r [] = r"
| "updates r ((k, v) # kvs) = updates (fmupd k v r) kvs"

definition dict :: "(string \<times> json) list \<Rightarrow> row" where
  "dict kvs = updates fmempty kvs"

text \<open>
  \<open>str(v)\<close> and \<open>int(v)\<close> on the scalar values the code applies them to; the text of an array or
  object, and the integer of a string, are left unspecified.
\<close>

definition digit_char :: "nat \<Rightarrow> char" where
  "digit_char n = ''0123456789'' ! n"

fun nat_digits :: "nat \<Rightarrow> string" where
  "nat_digits n = (if n < 10 then [digit_char n]
                   else nat_digits (n div 10) @ [digit_char (n mod 10)])"

declare nat_digits.simps [simp del]

definition int_text :: "int \<Rightarrow> string" where
  "int_text i = (if i < 0 then CHR ''-'' # nat_digits (nat (- i)) else nat_digits (nat i))"

fun str_of :: "json \<Rightarrow> string" where
  "str_of (JStr s) = s"
| "str_of JNull = ''None''"
| "str_of (JBool b) = (if b then ''True'' else ''False'')"
| "str_of (JInt i) = int_text i"

fun int_of :: "json \<Rightarrow> int" where
  "int_of (JInt i) = i"
| "int_of (JBool b) = of_bool b"

text \<open>Truthiness of a value, as \<open>not v\<close>, \<open>v or d\<close> and \<open>bool(v)\<close> read it.\<close>

fun truthy :: "json \<Rightarrow> bool" where
  "truthy JNull = False"
| "truthy (JBool b) = b"
| "truthy (JInt i) = (i \<noteq> 0)"
| "truthy (JStr s) = (s \<noteq> [])"
| "truthy (JList xs) = (xs \<noteq> [])"
| "truthy (JObj kvs) = (kvs \<noteq> [])"

text \<open>\<open>a or b\<close>.\<close>

definition or_else :: "json \<Rightarrow> json \<Rightarrow> json" where
  "or_else a b = (if truthy a then a else b)"

text \<open>
  Python's \<open>==\<close>: booleans are the integers 0 and 1, arrays compare element by element, objects
  compare as dictionaries (their keys are distinct).
\<close>

lemma zip_size [termination_simp]:
  "(x, y) \<in> set (zip xs ys) \<Longrightarrow> size x < Suc (size_list size xs)"
proof -
  assume "(x, y) \<in> set (zip xs ys)"
  then have "x \<in> set xs" by (rule set_zip_leftD)
  then have "size x \<le> size_list size xs" by (rule size_list_estimation') simp
  then show ?thesis by simp
qed

fun py_eq :: "json \<Rightarrow> json \<Rightarrow> bool" where
  "py_eq (JBool a) (JInt j) = (of_bool a = j)"
| "py_eq (JInt i) (JBool b) = (i = of_bool b)"
| "py_eq (JList xs) (JList ys) = (length xs = length ys \<and> (\<forall>(x, y) \<in> set (zip xs ys). py_eq x y))"
| "py_eq (JObj kvs) (JObj kws) = (length kvs = length kws \<and>
     (\<forall>(k, v) \<in> set kvs. case map_of kws k of None \<Rightarrow> False | Some w \<Rightarrow> py_eq v w))"
| "py_eq x y = (x = y)"

definition row_eq :: "row \<Rightarrow> row \<Rightarrow> bool" where
  "row_eq r s = fmrel py_eq r s"

section \<open>Exceptions and results\<close>

text \<open>
  Every exception the modelled code can raise. \<open>RuleViolation code details retryable\<close> is
  \<open>MutationRuleViolation\<close>; the others are named after the Python class. \<open>Diverges\<close> is no exception: it
  stands for a loop of the code that never ends.
\<close>

datatype exc =
    RuleViolation string "(string \<times> json) list" bool
  | RuntimeErr string
  | KeyErr string
  | ValueErr string
  | TypeErr string
  | OverflowErr string
  | ImportErr string
  | Diverges
  | SpaceRecoveryRequired string
  | InvalidNoteDocument string
  | UnsupportedContentVersion string
  | IllegalMutationTransition string
  | IntegrityErr string
  | FileNotFound string
  | FileExistsErr string
  | StageIntegrity string
  | RecoveryUnprovable string
  | IdempotencyConflict "(string \<times> string) list"
  | MutationRejected string

type_synonym 'a res = "exc + 'a"

text \<open>Sequencing: the first exception ends the computation.\<close>

definition rbind :: "'a res \<Rightarrow> ('a \<Rightarrow> 'b res) \<Rightarrow> 'b res" where
  "rbind m f = (case m of Inl e \<Rightarrow> Inl e | Inr x \<Rightarrow> f x)"

lemma rbind_simps [simp]: "rbind (Inl e) f = Inl e" "rbind (Inr x) f = f x"
  by (simp_all add: rbind_def)

lemma rbind_Inr [result_simps]: "rbind m f = Inr y \<longleftrightarrow> (\<exists>x. m = Inr x \<and> f x = Inr y)"
  by (cases m) auto

lemma rbind_Inl [result_simps]:
  "rbind m f = Inl e \<longleftrightarrow> m = Inl e \<or> (\<exists>x. m = Inr x \<and> f x = Inl e)"
  by (cases m) auto

lemma rbind_cong [fundef_cong]:
  "m = m' \<Longrightarrow> (\<And>x. m' = Inr x \<Longrightarrow> f x = g x) \<Longrightarrow> rbind m f = rbind m' g"
  by (cases m') auto

definition require :: "bool \<Rightarrow> exc \<Rightarrow> unit res" where
  "require b e = (if b then Inr () else Inl e)"

lemma require_Inr [result_simps]: "require b e = Inr u \<longleftrightarrow> b"
  by (simp add: require_def)

lemma require_Inl [result_simps]: "require b e = Inl e' \<longleftrightarrow> \<not> b \<and> e = e'"
  by (auto simp: require_def)

lemma require_simps [simp]: "require True e = Inr ()" "require False e = Inl e"
  by (simp_all add: require_def)

text \<open>Reading a request payload: \<open>payload[k]\<close> raises \<open>KeyError\<close> when the key is absent.\<close>

definition pget :: "row \<Rightarrow> string \<Rightarrow> json res" where
  "pget r k = (case fmlookup r k of None \<Rightarrow> Inl (KeyErr k) | Some v \<Rightarrow> Inr v)"

lemma pget_Inr [result_simps]: "pget r k = Inr v \<longleftrightarrow> fmlookup r k = Some v"
  by (simp add: pget_def split: option.splits)

fun rmap :: "('a \<Rightarrow> 'b res) \<Rightarrow> 'a list \<Rightarrow> 'b list res" where
  "rmap f [] = Inr []"
| "rmap f (x # xs) = rbind (f x) (\<lambda>y. rbind (rmap f xs) (\<lambda>ys. Inr (y # ys)))"

fun rforeach :: "('a \<Rightarrow> unit res) \<Rightarrow> 'a list \<Rightarrow> unit res" where
  "rforeach f [] = Inr ()"
| "rforeach f (x # xs) = rbind (f x) (\<lambda>_. rforeach f xs)"

lemma rforeach_Inr [result_simps]:
  "rforeach f xs = Inr u \<longleftrightarrow> (\<forall>x \<in> set xs. f x = Inr ())"
  by (induction xs) (auto simp: rbind_Inr)

lemma rmap_Inr_length: "rmap f xs = Inr ys \<Longrightarrow> length ys = length xs"
  by (induction xs arbitrary: ys) (auto simp: rbind_Inr)

lemma rmap_Inr_nth: "rmap f xs = Inr ys \<Longrightarrow> i < length xs \<Longrightarrow> f (xs ! i) = Inr (ys ! i)"
  by (induction xs arbitrary: ys i) (auto simp: rbind_Inr nth_Cons split: nat.splits)

lemma rmap_cong [fundef_cong]:
  "xs = ys \<Longrightarrow> (\<And>x. x \<in> set ys \<Longrightarrow> f x = g x) \<Longrightarrow> rmap f xs = rmap g ys"
  by (induction ys arbitrary: xs) auto

text \<open>\<open>s.split(c)\<close> for a one-character separator.\<close>

fun split_on :: "char \<Rightarrow> string \<Rightarrow> string list" where
  "split_on c [] = [[]]"
| "split_on c (x # xs) = (if x = c then [] # split_on c xs
     else (case split_on c xs of [] \<Rightarrow> [[x]] | p # ps \<Rightarrow> (x # p) # ps))"

lemma split_on_not_Nil [simp]: "split_on c s \<noteq> []"
  by (cases s) (auto split: list.split)

section \<open>Sorting\<close>

text \<open>A change of the elements that keeps their keys keeps their order.\<close>

lemma insort_key_map: "(\<And>x. k (f x) = k x) \<Longrightarrow> insort_key k (f x) (map f xs) = map f (insort_key k x xs)"
  by (induction xs) auto

lemma sort_key_keeps: "(\<And>x. k (f x) = k x) \<Longrightarrow> sort_key k (map f xs) = map f (sort_key k xs)"
  by (induction xs) (simp_all add: insort_key_map)

section \<open>Reading updated rows\<close>

lemma fmlookup_updates: "fmlookup (updates r kvs) k =
    (case map_of (rev kvs) k of None \<Rightarrow> fmlookup r k | Some v \<Rightarrow> Some v)"
  by (induction r kvs rule: updates.induct) (auto simp: map_add_def split: option.splits)

lemma fmdom_updates: "fmdom' (updates r kvs) = fmdom' r \<union> fst ` set kvs"
  by (induction r kvs rule: updates.induct) auto

lemma fld_fmupd [simp, row_simps]: "fld (fmupd k v r) k' = (if k = k' then v else fld r k')"
  by (simp add: fld_def)

lemma get_or_fmupd [simp, row_simps]:
  "get_or (fmupd k v r) k' d = (if k = k' then v else get_or r k' d)"
  by (simp add: get_or_def)

lemma get_or_empty [simp]: "get_or fmempty k d = d"
  by (simp add: get_or_def)

lemma has_key_fmupd [simp, row_simps]: "has_key (fmupd k v r) k' = (k = k' \<or> has_key r k')"
  by (simp add: has_key_def)

lemma fld_get: "has_key r k \<Longrightarrow> fld r k = get_or r k d"
  by (auto simp: has_key_def fld_def get_or_def)

lemma fld_pget: "pget r k = Inr v \<Longrightarrow> fld r k = v"
  by (simp add: pget_Inr fld_def)

lemma dict_Nil [simp]: "dict [] = fmempty"
  by (simp add: dict_def)

lemma dict_Cons: "dict ((k, v) # kvs) = updates (fmupd k v fmempty) kvs"
  by (simp add: dict_def)

section \<open>Equality of values\<close>

text \<open>Objects as Python builds them: the keys of a dictionary are distinct.\<close>

fun distinct_keys :: "json \<Rightarrow> bool" where
  "distinct_keys (JList xs) = (\<forall>x \<in> set xs. distinct_keys x)"
| "distinct_keys (JObj kvs) = (distinct (map fst kvs) \<and> (\<forall>kv \<in> set kvs. distinct_keys (snd kv)))"
| "distinct_keys _ = True"

lemma py_eq_refl: "distinct_keys v \<Longrightarrow> py_eq v v"
proof (induction v rule: distinct_keys.induct)
  case (1 xs)
  then show ?case by (auto simp: zip_same_conv_map)
next
  case (2 kvs)
  then show ?case by force
qed auto

end
