(* ===== verification/Timestamps.thy ===== *)
theory Timestamps
  imports Prelude
begin

text \<open>
  UTC timestamps: the strict RFC 3339 shape of \<open>app/mutation/types.py\<close>, the calendar arithmetic of
  Python's \<open>datetime\<close> the code uses on it (parsing, comparison, difference, \<open>+ 1 ms\<close>,
  \<open>isoformat(timespec="milliseconds")\<close>), and the timestamp helpers of the Task Space compiler and
  the Focus Session policy. Strings outside the strict shape are rejected by this parser; the other
  ISO forms \<open>datetime.fromisoformat\<close> reads are needed once, where a stored stamp is compared, and have
  a reader of their own at the end.
\<close>

section \<open>Digits\<close>

definition is_digit :: "char \<Rightarrow> bool" where
  "is_digit c = (48 \<le> (of_char c :: nat) \<and> (of_char c :: nat) \<le> 57)"

definition digit_val :: "char \<Rightarrow> nat" where
  "digit_val c = of_char c - 48"

definition num_of :: "string \<Rightarrow> nat" where
  "num_of s = foldl (\<lambda>a c. 10 * a + digit_val c) 0 s"

text \<open>\<open>f"{n:0kd}"\<close> for \<open>n < 10 ^ k\<close>.\<close>

fun pad :: "nat \<Rightarrow> nat \<Rightarrow> string" where
  "pad 0 n = []"
| "pad (Suc k) n = pad k (n div 10) @ [digit_char (n mod 10)]"

lemma pad_numeral [simp]:
  "pad (numeral k) n = pad (pred_numeral k) (n div 10) @ [digit_char (n mod 10)]"
  by (subst numeral_eq_Suc) (rule pad.simps)

definition digits_at :: "nat list \<Rightarrow> string \<Rightarrow> bool" where
  "digits_at is s = (\<forall>i \<in> set is. is_digit (s ! i))"

definition slice :: "nat \<Rightarrow> nat \<Rightarrow> string \<Rightarrow> string" where
  "slice i n s = take n (drop i s)"

section \<open>The strict shape and the calendar\<close>

text \<open>\<open>SYNC_UTC_RFC3339.fullmatch(s)\<close>: \<open>YYYY-MM-DDTHH:MM:SS[.f{1,9}]Z\<close>.\<close>

definition SYNC_UTC_RFC3339 :: "string \<Rightarrow> bool" where
  "SYNC_UTC_RFC3339 s =
     (20 \<le> length s \<and> length s \<le> 30 \<and>
      digits_at [0, 1, 2, 3, 5, 6, 8, 9, 11, 12, 14, 15, 17, 18] s \<and>
      s ! 4 = CHR ''-'' \<and> s ! 7 = CHR ''-'' \<and> s ! 10 = CHR ''T'' \<and>
      s ! 13 = CHR '':'' \<and> s ! 16 = CHR '':'' \<and> last s = CHR ''Z'' \<and>
      (length s = 20 \<or>
       22 \<le> length s \<and> s ! 19 = CHR ''.'' \<and> list_all is_digit (butlast (drop 20 s))))"

record datetime =
  year :: nat
  month :: nat
  day :: nat
  hour :: nat
  minute :: nat
  second :: nat
  microsecond :: nat

definition is_leap :: "nat \<Rightarrow> bool" where
  "is_leap y = (y mod 4 = 0 \<and> (y mod 100 \<noteq> 0 \<or> y mod 400 = 0))"

definition days_in_month :: "nat \<Rightarrow> nat \<Rightarrow> nat" where
  "days_in_month y m =
     (if m = 2 then (if is_leap y then 29 else 28) else if m \<in> {4, 6, 9, 11} then 30 else 31)"

definition days_before_month :: "nat \<Rightarrow> nat \<Rightarrow> nat" where
  "days_before_month y m = (\<Sum>k \<leftarrow> [1..<m]. days_in_month y k)"

definition days_before_year :: "nat \<Rightarrow> int" where
  "days_before_year y = (let p = int y - 1 in p * 365 + p div 4 - p div 100 + p div 400)"

definition ymd2ord :: "nat \<Rightarrow> nat \<Rightarrow> nat \<Rightarrow> int" where
  "ymd2ord y m d = days_before_year y + int (days_before_month y m) + int d"

definition valid_datetime :: "datetime \<Rightarrow> bool" where
  "valid_datetime t =
     (1 \<le> year t \<and> year t \<le> 9999 \<and> 1 \<le> month t \<and> month t \<le> 12 \<and>
      1 \<le> day t \<and> day t \<le> days_in_month (year t) (month t) \<and>
      hour t \<le> 23 \<and> minute t \<le> 59 \<and> second t \<le> 59 \<and> microsecond t < 1000000)"

text \<open>The instant in microseconds; \<open>datetime\<close> comparison and subtraction read it.\<close>

definition instant :: "datetime \<Rightarrow> int" where
  "instant t =
     (((ymd2ord (year t) (month t) (day t) * 24 + int (hour t)) * 60 + int (minute t)) * 60
        + int (second t)) * 1000000 + int (microsecond t)"

text \<open>\<open>datetime.fromisoformat(s[:-1] + "+00:00")\<close>; digits past the sixth are dropped.\<close>

definition split_timestamp :: "string \<Rightarrow> datetime" where
  "split_timestamp s =
     (let frac = take 6 (butlast (drop 20 s)) in
      \<lparr>year = num_of (slice 0 4 s), month = num_of (slice 5 2 s), day = num_of (slice 8 2 s),
       hour = num_of (slice 11 2 s), minute = num_of (slice 14 2 s), second = num_of (slice 17 2 s),
       microsecond = num_of frac * 10 ^ (6 - length frac)\<rparr>)"

definition parse_timestamp :: "string \<Rightarrow> datetime res" where
  "parse_timestamp s =
     (if SYNC_UTC_RFC3339 s \<and> valid_datetime (split_timestamp s) then Inr (split_timestamp s)
      else Inl (ValueErr ''Invalid isoformat string''))"

text \<open>\<open>validate_canonical_timestamp\<close>: null is accepted, anything else must be a valid timestamp.\<close>

definition validate_canonical_timestamp :: "json \<Rightarrow> unit res" where
  "validate_canonical_timestamp v =
     (case v of
        JNull \<Rightarrow> Inr ()
      | JStr s \<Rightarrow>
          (if \<not> SYNC_UTC_RFC3339 s then Inl (ValueErr ''timestamp must be strict UTC RFC 3339'')
           else rbind (parse_timestamp s) (\<lambda>_. Inr ()))
      | _ \<Rightarrow> Inl (ValueErr ''timestamp must be strict UTC RFC 3339''))"

section \<open>One millisecond later\<close>

text \<open>\<open>t + timedelta(milliseconds=1)\<close>, carried field by field; the year after 9999 overflows.\<close>

definition next_day :: "datetime \<Rightarrow> datetime res" where
  "next_day t =
     (if day t < days_in_month (year t) (month t) then Inr (t\<lparr>day := day t + 1\<rparr>)
      else if month t < 12 then Inr (t\<lparr>month := month t + 1, day := 1\<rparr>)
      else if year t < 9999 then Inr (t\<lparr>year := year t + 1, month := 1, day := 1\<rparr>)
      else Inl (OverflowErr ''date value out of range''))"

definition add_millisecond :: "datetime \<Rightarrow> datetime res" where
  "add_millisecond t =
     (if microsecond t + 1000 < 1000000 then Inr (t\<lparr>microsecond := microsecond t + 1000\<rparr>)
      else let t = t\<lparr>microsecond := microsecond t + 1000 - 1000000\<rparr> in
        if second t < 59 then Inr (t\<lparr>second := second t + 1\<rparr>)
        else let t = t\<lparr>second := 0\<rparr> in
          if minute t < 59 then Inr (t\<lparr>minute := minute t + 1\<rparr>)
          else let t = t\<lparr>minute := 0\<rparr> in
            if hour t < 23 then Inr (t\<lparr>hour := hour t + 1\<rparr>)
            else next_day (t\<lparr>hour := 0\<rparr>))"

text \<open>\<open>isoformat(timespec="milliseconds").replace("+00:00", "Z")\<close>, also \<open>utc_now_iso_ms\<close>'s format.\<close>

definition iso_ms :: "datetime \<Rightarrow> string" where
  "iso_ms t = pad 4 (year t) @ ''-'' @ pad 2 (month t) @ ''-'' @ pad 2 (day t) @ ''T'' @
     pad 2 (hour t) @ '':'' @ pad 2 (minute t) @ '':'' @ pad 2 (second t) @ ''.'' @
     pad 3 (microsecond t div 1000) @ ''Z''"

text \<open>\<open>_monotonic_updated_at\<close> of the Task Space compiler.\<close>

definition monotonic_updated_at :: "string \<Rightarrow> string \<Rightarrow> string res" where
  "monotonic_updated_at previous candidate =
     (if candidate > previous then Inr candidate
      else rbind (parse_timestamp previous) (\<lambda>timestamp.
           rbind (add_millisecond timestamp) (\<lambda>later. Inr (iso_ms later))))"

text \<open>The millisecond form \<open>utc_now_iso_ms\<close> writes: 24 characters.\<close>

definition canonical_ms :: "string \<Rightarrow> bool" where
  "canonical_ms s = (SYNC_UTC_RFC3339 s \<and> length s = 24 \<and> valid_datetime (split_timestamp s))"

section \<open>Zero-padded decimals\<close>

lemma of_char_digit_char: "n < 10 \<Longrightarrow> (of_char (digit_char n) :: nat) = 48 + n"
proof -
  assume "n < 10"
  then have "n = 0 \<or> n = 1 \<or> n = 2 \<or> n = 3 \<or> n = 4 \<or> n = 5 \<or> n = 6 \<or> n = 7 \<or> n = 8 \<or> n = 9"
    by arith
  then show ?thesis by (elim disjE) (simp_all add: digit_char_def)
qed

lemma is_digit_digit_char [simp]: "n < 10 \<Longrightarrow> is_digit (digit_char n)"
  by (simp add: is_digit_def of_char_digit_char)

lemma digit_val_digit_char [simp]: "n < 10 \<Longrightarrow> digit_val (digit_char n) = n"
  by (simp add: digit_val_def of_char_digit_char)

lemma digit_val_less: "is_digit c \<Longrightarrow> digit_val c < 10"
  by (auto simp: is_digit_def digit_val_def)

lemma digit_char_digit_val: "is_digit c \<Longrightarrow> digit_char (digit_val c) = c"
proof -
  assume c: "is_digit c"
  then have "(of_char (digit_char (digit_val c)) :: nat) = of_char c"
    using of_char_digit_char [OF digit_val_less [OF c]] by (simp add: is_digit_def digit_val_def)
  then show ?thesis by simp
qed

lemma length_pad [simp]: "length (pad k n) = k"
  by (induction k arbitrary: n) (simp_all del: pad_numeral)

lemma digits_pad: "list_all is_digit (pad k n)"
  by (induction k arbitrary: n) simp_all

lemma is_digit_pad_nth [simp]: "i < k \<Longrightarrow> is_digit (pad k n ! i)"
  using digits_pad [of k n] by (simp add: list_all_length)

lemma num_of_snoc: "num_of (s @ [c]) = 10 * num_of s + digit_val c"
  by (simp add: num_of_def)

lemma num_of_pad [simp]: "n < 10 ^ k \<Longrightarrow> num_of (pad k n) = n"
proof (induction k arbitrary: n)
  case 0
  then show ?case by (simp add: num_of_def)
next
  case (Suc k)
  then have "n div 10 < 10 ^ k" by (simp add: less_mult_imp_div_less mult.commute)
  with Suc.IH show ?case by (simp add: num_of_snoc)
qed

lemma pad_num_of: "list_all is_digit s \<Longrightarrow> length s = k \<Longrightarrow> pad k (num_of s) = s"
proof (induction s arbitrary: k rule: rev_induct)
  case Nil
  then show ?case by simp
next
  case (snoc c s)
  then obtain j where k: "k = Suc j" "length s = j" by (cases k) auto
  from snoc.prems have c: "is_digit c" and s: "list_all is_digit s" by auto
  from snoc.IH [OF s k(2)] c show ?case
    by (simp add: k(1) num_of_snoc digit_val_less digit_char_digit_val)
qed

lemma num_of_less: "list_all is_digit s \<Longrightarrow> num_of s < 10 ^ length s"
proof (induction s rule: rev_induct)
  case Nil
  then show ?case by (simp add: num_of_def)
next
  case (snoc c s)
  then have "num_of s < 10 ^ length s" "digit_val c < 10" by (auto intro: digit_val_less)
  then show ?case by (simp add: num_of_snoc)
qed

lemma append_less:
  fixes xs :: string
  assumes "length xs = length ys"
  shows "xs @ u < ys @ v \<longleftrightarrow> xs < ys \<or> xs = ys \<and> u < v"
  using assms by (induction xs ys rule: list_induct2) auto

lemma pad_inject: "a < 10 ^ k \<Longrightarrow> b < 10 ^ k \<Longrightarrow> pad k a = pad k b \<longleftrightarrow> a = b"
  by (metis num_of_pad)

lemma div_mod_less:
  fixes a b :: nat
  shows "a div 10 < b div 10 \<or> a div 10 = b div 10 \<and> a mod 10 < b mod 10 \<longleftrightarrow> a < b"
proof -
  have "a = 10 * (a div 10) + a mod 10" "b = 10 * (b div 10) + b mod 10" by simp_all
  moreover have "a mod 10 < 10" "b mod 10 < 10" by simp_all
  ultimately show ?thesis by linarith
qed

lemma pad_less: "a < 10 ^ k \<Longrightarrow> b < 10 ^ k \<Longrightarrow> pad k a < pad k b \<longleftrightarrow> a < b"
proof (induction k arbitrary: a b)
  case 0
  then show ?case by simp
next
  case (Suc k)
  then have ab: "a div 10 < 10 ^ k" "b div 10 < 10 ^ k"
    by (simp_all add: less_mult_imp_div_less mult.commute)
  have "pad (Suc k) a < pad (Suc k) b \<longleftrightarrow>
      a div 10 < b div 10 \<or> a div 10 = b div 10 \<and> a mod 10 < b mod 10"
    using Suc.IH [OF ab] pad_inject [OF ab] by (simp add: append_less less_char_def of_char_digit_char)
  also have "\<dots> \<longleftrightarrow> a < b" by (rule div_mod_less)
  finally show ?case .
qed

section \<open>The calendar is monotone\<close>

lemma days_in_month_bounds: "28 \<le> days_in_month y m" "days_in_month y m \<le> 31"
  by (auto simp: days_in_month_def)

lemma days_before_month_Suc:
  "1 \<le> m \<Longrightarrow> days_before_month y (Suc m) = days_before_month y m + days_in_month y m"
  by (simp add: days_before_month_def)

lemma days_before_month_mono: "1 \<le> m \<Longrightarrow> m < m' \<Longrightarrow>
    days_before_month y m + days_in_month y m \<le> days_before_month y m'"
proof (induction m')
  case (Suc m')
  show ?case
  proof (cases "m = m'")
    case True
    then show ?thesis using Suc.prems by (simp add: days_before_month_Suc)
  next
    case False
    with Suc have "days_before_month y m + days_in_month y m \<le> days_before_month y m'" by simp
    also have "\<dots> \<le> days_before_month y (Suc m')"
      using Suc.prems by (simp add: days_before_month_Suc)
    finally show ?thesis .
  qed
qed simp

definition year_days :: "nat \<Rightarrow> nat" where
  "year_days y = (if is_leap y then 366 else 365)"

lemma days_before_month_12: "days_before_month y 12 + 31 = year_days y"
  by (simp add: days_before_month_def days_in_month_def year_days_def upt_rec)

lemma days_before_year_Suc:
  assumes "1 \<le> y"
  shows "days_before_year (Suc y) = days_before_year y + int (year_days y)"
proof -
  have step: "int y div k = (int y - 1) div k + of_bool (int y mod k = 0)"
    if "1 < k" for k :: int
  proof (cases "int y mod k = 0")
    case True
    then obtain q where "int y = k * q" by fastforce
    moreover have "(k * q - 1) div k = q - 1"
      using that by (intro int_div_pos_eq [where r = "k - 1"]) (simp_all add: algebra_simps)
    ultimately show ?thesis using that by simp
  next
    case False
    have "(int y - 1) div k = int y div k"
    proof (rule int_div_pos_eq [where r = "int y mod k - 1"])
      show "int y - 1 = k * (int y div k) + (int y mod k - 1)" by simp
      show "0 \<le> int y mod k - 1" using False pos_mod_sign [of k "int y"] that by linarith
      show "int y mod k - 1 < k" using pos_mod_bound [of k "int y"] that by linarith
    qed
    with False show ?thesis by simp
  qed
  have leap: "of_bool (int y mod 4 = 0) - of_bool (int y mod 100 = 0) + of_bool (int y mod 400 = 0)
      = (of_bool (is_leap y) :: int)"
  proof -
    have bools: "of_bool a - of_bool b + of_bool c = (of_bool (a \<and> (\<not> b \<or> c)) :: int)"
      if "c \<Longrightarrow> b" "b \<Longrightarrow> a" for a b c using that by (cases a; cases b; cases c) simp_all
    have "(100::int) dvd 400" "(4::int) dvd 100" by simp_all
    note dvds = this
    have "int y mod 400 = 0 \<Longrightarrow> int y mod 100 = 0" "int y mod 100 = 0 \<Longrightarrow> int y mod 4 = 0"
      unfolding mod_eq_0_iff_dvd by (rule dvd_trans [OF dvds(1)], assumption)
        (rule dvd_trans [OF dvds(2)], assumption)
    note sum = bools [OF this]
    have "(int y mod int k = 0) = (y mod k = 0)" for k
      by (simp only: zmod_int [symmetric] of_nat_eq_0_iff)
    from this [of 4] this [of 100] this [of 400] sum show ?thesis
      by (simp only: is_leap_def of_nat_numeral)
  qed
  have days: "int (year_days y) = 365 + of_bool (is_leap y)" by (simp add: year_days_def)
  have s: "days_before_year (Suc y) = int y * 365 + int y div 4 - int y div 100 + int y div 400"
  proof -
    have "int (Suc y) - 1 = int y" by simp
    then show ?thesis by (simp only: days_before_year_def Let_def)
  qed
  have p: "days_before_year y =
      (int y - 1) * 365 + (int y - 1) div 4 - (int y - 1) div 100 + (int y - 1) div 400"
    by (simp only: days_before_year_def Let_def)
  have sum: "Y * 365 + a4 - a100 + a400 = (Y - 1) * 365 + d4 - d100 + d400 + (365 + l)"
    if "a4 = d4 + b4" "a100 = d100 + b100" "a400 = d400 + b400" "b4 - b100 + b400 = l"
    for Y a4 a100 a400 d4 d100 d400 b4 b100 b400 l :: int
    using that by simp
  have "1 < (4::int)" "1 < (100::int)" "1 < (400::int)" by simp_all
  note steps = this [THEN step]
  show ?thesis unfolding s p days by (rule sum [OF steps leap])
qed

lemma days_before_year_mono: "1 \<le> y \<Longrightarrow> y < y' \<Longrightarrow>
    days_before_year y + int (year_days y) \<le> days_before_year y'"
proof (induction y')
  case (Suc y')
  show ?case
  proof (cases "y = y'")
    case True
    then show ?thesis using Suc.prems by (simp add: days_before_year_Suc)
  next
    case False
    with Suc have "days_before_year y + int (year_days y) \<le> days_before_year y'" by simp
    also have "\<dots> \<le> days_before_year (Suc y')"
      using Suc.prems by (simp add: days_before_year_Suc)
    finally show ?thesis .
  qed
qed simp

lemma day_of_year_le:
  assumes "1 \<le> m" "m \<le> 12" "d \<le> days_in_month y m"
  shows "days_before_month y m + d \<le> year_days y"
proof (cases "m = 12")
  case True
  with assms show ?thesis using days_before_month_12 [of y] days_in_month_bounds [of y 12] by simp
next
  case False
  with assms have "m < 12" by simp
  from days_before_month_mono [OF assms(1) this, of y] assms(3) days_before_month_12 [of y]
  show ?thesis by linarith
qed

lemma ymd2ord_less:
  assumes d: "1 \<le> y" "1 \<le> m" "m \<le> 12" "d \<le> days_in_month y m"
    and d': "1 \<le> m'" "1 \<le> d'"
    and less: "y < y' \<or> y = y' \<and> m < m' \<or> y = y' \<and> m = m' \<and> d < d'"
  shows "ymd2ord y m d < ymd2ord y' m' d'"
proof -
  consider "y < y'" | "y = y'" "m < m'" | "y = y'" "m = m'" "d < d'" using less by blast
  then show ?thesis
  proof cases
    case 1
    from days_before_year_mono [OF d(1) 1] day_of_year_le [OF d(2-4)] d'(2)
    show ?thesis unfolding ymd2ord_def by linarith
  next
    case 2
    from days_before_month_mono [OF d(2) 2(2), of y] d(4) d'(2) 2(1)
    show ?thesis by (simp add: ymd2ord_def)
  next
    case 3
    then show ?thesis by (simp add: ymd2ord_def)
  qed
qed

text \<open>Field-by-field comparison, most significant field first.\<close>

definition date_less :: "datetime \<Rightarrow> datetime \<Rightarrow> bool" where
  "date_less t u = (year t < year u \<or> year t = year u \<and> month t < month u \<or>
     year t = year u \<and> month t = month u \<and> day t < day u)"

definition same_date :: "datetime \<Rightarrow> datetime \<Rightarrow> bool" where
  "same_date t u = (year t = year u \<and> month t = month u \<and> day t = day u)"

definition time_us :: "datetime \<Rightarrow> int" where
  "time_us t = ((int (hour t) * 60 + int (minute t)) * 60 + int (second t)) * 1000000
     + int (microsecond t)"

lemma instant_split:
  "instant t = ymd2ord (year t) (month t) (day t) * 86400000000 + time_us t"
  by (simp add: instant_def time_us_def algebra_simps)

lemma time_us_bounds: "valid_datetime t \<Longrightarrow> 0 \<le> time_us t \<and> time_us t < 86400000000"
  by (auto simp: valid_datetime_def time_us_def)

lemma instant_less_date:
  assumes "valid_datetime t" "valid_datetime u" "date_less t u"
  shows "instant t < instant u"
proof -
  have "ymd2ord (year t) (month t) (day t) < ymd2ord (year u) (month u) (day u)"
    by (rule ymd2ord_less) (use assms in \<open>auto simp: valid_datetime_def date_less_def\<close>)
  with time_us_bounds [OF assms(1)] time_us_bounds [OF assms(2)] show ?thesis
    unfolding instant_split by linarith
qed

lemma instant_less_iff:
  assumes "valid_datetime t" "valid_datetime u"
  shows "instant t < instant u \<longleftrightarrow> date_less t u \<or> same_date t u \<and> time_us t < time_us u"
proof -
  consider "date_less t u" | "same_date t u" | "date_less u t"
    unfolding date_less_def same_date_def by linarith
  then show ?thesis
  proof cases
    case 1
    then show ?thesis using instant_less_date [OF assms] by auto
  next
    case 2
    then show ?thesis by (auto simp: instant_split same_date_def date_less_def)
  next
    case 3
    then show ?thesis using instant_less_date [OF assms(2,1)]
      by (auto simp: date_less_def same_date_def)
  qed
qed

section \<open>One millisecond later is one millisecond later\<close>

lemma next_day_correct:
  assumes v: "valid_datetime t" and n: "next_day t = Inr u"
  shows "valid_datetime u \<and> time_us u = time_us t \<and> microsecond u = microsecond t \<and>
    ymd2ord (year u) (month u) (day u) = ymd2ord (year t) (month t) (day t) + 1"
proof -
  have d28: "Suc 0 \<le> days_in_month y m" for y m using days_in_month_bounds(1) [of y m] by linarith
  consider (day) "u = t\<lparr>day := day t + 1\<rparr>" "day t < days_in_month (year t) (month t)"
    | (month) "u = t\<lparr>month := month t + 1, day := 1\<rparr>" "day t = days_in_month (year t) (month t)"
        "month t < 12"
    | (year) "u = t\<lparr>year := year t + 1, month := 1, day := 1\<rparr>"
        "day t = days_in_month (year t) (month t)" "month t = 12" "year t < 9999"
    using n v by (auto simp: next_day_def valid_datetime_def split: if_splits)
  then show ?thesis
  proof cases
    case day
    with v show ?thesis by (auto simp: valid_datetime_def time_us_def ymd2ord_def)
  next
    case month
    with v show ?thesis
      by (auto simp: valid_datetime_def time_us_def ymd2ord_def days_before_month_Suc d28)
  next
    case year
    have "days_in_month (year t) 12 = 31" by (simp add: days_in_month_def)
    with year v days_before_month_12 [of "year t"] days_before_year_Suc [of "year t"] show ?thesis
      by (auto simp: valid_datetime_def time_us_def ymd2ord_def d28 days_before_month_def)
  qed
qed

lemma add_millisecond_correct:
  assumes v: "valid_datetime t" and a: "add_millisecond t = Inr u"
  shows "valid_datetime u \<and> instant u = instant t + 1000"
proof (cases "next_day (t\<lparr>microsecond := microsecond t - 999000, second := 0, minute := 0, hour := 0\<rparr>)
    = Inr u \<and> microsecond t \<ge> 999000 \<and> second t = 59 \<and> minute t = 59 \<and> hour t = 23")
  case True
  let ?t = "t\<lparr>microsecond := microsecond t - 999000, second := 0, minute := 0, hour := 0\<rparr>"
  from True v have "valid_datetime ?t" by (auto simp: valid_datetime_def)
  from next_day_correct [OF this] True v show ?thesis
    by (auto simp: instant_split time_us_def valid_datetime_def)
next
  case False
  with v a show ?thesis
    by (auto simp: add_millisecond_def Let_def instant_split time_us_def valid_datetime_def
        split: if_splits)
qed

lemma add_millisecond_micro:
  "add_millisecond t = Inr u \<Longrightarrow> microsecond t mod 1000 = 0 \<Longrightarrow> microsecond u mod 1000 = 0"
  by (auto simp: add_millisecond_def next_day_def Let_def mod_Suc split: if_splits)

text \<open>Only the last millisecond of the year 9999 has no successor.\<close>

lemma add_millisecond_total:
  assumes "valid_datetime t" "year t < 9999"
  shows "\<exists>u. add_millisecond t = Inr u"
  using assms by (auto simp: add_millisecond_def next_day_def Let_def)

section \<open>Printing and reading the millisecond form\<close>

lemma iso_ms_less_iff:
  assumes "valid_datetime t" "valid_datetime u"
  shows "iso_ms t < iso_ms u \<longleftrightarrow> date_less t u \<or> same_date t u \<and>
    (hour t < hour u \<or> hour t = hour u \<and> (minute t < minute u \<or> minute t = minute u \<and>
      (second t < second u \<or> second t = second u \<and>
        microsecond t div 1000 < microsecond u div 1000)))"
proof -
  have bounds: "year r < 10 ^ 4" "month r < 10 ^ 2" "day r < 10 ^ 2" "hour r < 10 ^ 2"
    "minute r < 10 ^ 2" "second r < 10 ^ 2" "microsecond r div 1000 < 10 ^ 3"
    if "valid_datetime r" for r
    using that days_in_month_bounds(2) [of "year r" "month r"]
    by (auto simp: valid_datetime_def)
  note b = bounds [OF assms(1)] bounds [OF assms(2)]
  show ?thesis
    by (simp add: iso_ms_def append_less pad_less [OF b(1) b(8)] pad_less [OF b(2) b(9)]
        pad_less [OF b(3) b(10)] pad_less [OF b(4) b(11)] pad_less [OF b(5) b(12)]
        pad_less [OF b(6) b(13)] pad_less [OF b(7) b(14)] pad_inject [OF b(1) b(8)]
        pad_inject [OF b(2) b(9)] pad_inject [OF b(3) b(10)] pad_inject [OF b(4) b(11)]
        pad_inject [OF b(5) b(12)] pad_inject [OF b(6) b(13)] date_less_def same_date_def
        del: pad_numeral) blast
qed

lemma time_us_less_iff:
  assumes "valid_datetime t" "valid_datetime u"
    "microsecond t mod 1000 = 0" "microsecond u mod 1000 = 0"
  shows "time_us t < time_us u \<longleftrightarrow>
    hour t < hour u \<or> hour t = hour u \<and> (minute t < minute u \<or> minute t = minute u \<and>
      (second t < second u \<or> second t = second u \<and>
        microsecond t div 1000 < microsecond u div 1000))"
proof -
  have m: "microsecond t = 1000 * (microsecond t div 1000)"
    "microsecond u = 1000 * (microsecond u div 1000)" using assms(3,4) by auto
  have "microsecond t div 1000 < 1000" "microsecond u div 1000 < 1000"
    "minute t < 60" "minute u < 60" "second t < 60" "second u < 60"
    using assms(1,2) by (auto simp: valid_datetime_def)
  moreover define mt mu where "mt = microsecond t div 1000" and "mu = microsecond u div 1000"
  ultimately show ?thesis
    unfolding time_us_def m [folded mt_def mu_def] by simp linarith
qed

text \<open>On whole milliseconds the text order is the order of the instants.\<close>

lemma iso_ms_order:
  assumes "valid_datetime t" "valid_datetime u"
    "microsecond t mod 1000 = 0" "microsecond u mod 1000 = 0"
  shows "iso_ms t < iso_ms u \<longleftrightarrow> instant t < instant u"
  using iso_ms_less_iff [OF assms(1,2)] instant_less_iff [OF assms(1,2)] time_us_less_iff [OF assms]
  by blast

lemma split_iso_ms:
  assumes v: "valid_datetime t" and m: "microsecond t mod 1000 = 0"
  shows "split_timestamp (iso_ms t) = t"
proof -
  have b: "year t < 10 ^ 4" "month t < 10 ^ 2" "day t < 10 ^ 2" "hour t < 10 ^ 2"
    "minute t < 10 ^ 2" "second t < 10 ^ 2" "microsecond t div 1000 < 10 ^ 3"
    using v days_in_month_bounds(2) [of "year t" "month t"] by (auto simp: valid_datetime_def)
  have us: "microsecond t div 1000 * 1000 = microsecond t" using m by auto
  show ?thesis
    using num_of_pad [OF b(1)] num_of_pad [OF b(2)] num_of_pad [OF b(3)] num_of_pad [OF b(4)]
      num_of_pad [OF b(5)] num_of_pad [OF b(6)] num_of_pad [OF b(7)] us
    by (simp add: split_timestamp_def iso_ms_def slice_def Let_def butlast_append
        del: pad_numeral num_of_pad)
qed

lemma iso_ms_shape: "SYNC_UTC_RFC3339 (iso_ms t) \<and> length (iso_ms t) = 24"
proof -
  have len: "length (iso_ms t) = 24" by (simp add: iso_ms_def del: pad_numeral)
  have "list_all is_digit (pad 3 (microsecond t div 1000))" by (rule digits_pad)
  then have tail: "list_all is_digit (butlast (drop 20 (iso_ms t)))"
    by (simp add: iso_ms_def butlast_append del: pad_numeral)
  have last: "last (iso_ms t) = CHR ''Z''" by (simp add: iso_ms_def del: pad_numeral)
  have "digits_at [0, 1, 2, 3, 5, 6, 8, 9, 11, 12, 14, 15, 17, 18] (iso_ms t)"
    "iso_ms t ! 4 = CHR ''-''" "iso_ms t ! 7 = CHR ''-''" "iso_ms t ! 10 = CHR ''T''"
    "iso_ms t ! 13 = CHR '':''" "iso_ms t ! 16 = CHR '':''" "iso_ms t ! 19 = CHR ''.''"
    by (simp_all add: iso_ms_def digits_at_def nth_append del: pad_numeral)
  with len tail last show ?thesis by (simp add: SYNC_UTC_RFC3339_def)
qed

lemma canonical_iso_ms:
  "valid_datetime t \<Longrightarrow> microsecond t mod 1000 = 0 \<Longrightarrow> canonical_ms (iso_ms t)"
  by (simp add: canonical_ms_def iso_ms_shape split_iso_ms)

lemma iso_ms_split:
  assumes "canonical_ms s"
  shows "iso_ms (split_timestamp s) = s \<and> microsecond (split_timestamp s) mod 1000 = 0"
proof -
  from assms have "length s = 24" by (simp add: canonical_ms_def)
  then obtain a b c d e f g h i j k l m n p q r t u v w x y z
    where s: "s = [a, b, c, d, e, f, g, h, i, j, k, l, m, n, p, q, r, t, u, v, w, x, y, z]"
    by (auto simp: length_Suc_conv numeral_eq_Suc)
  from assms have dig: "list_all is_digit [a, b, c, d]" "list_all is_digit [f, g]"
    "list_all is_digit [i, j]" "list_all is_digit [l, m]" "list_all is_digit [p, q]"
    "list_all is_digit [t, u]" "list_all is_digit [w, x, y]"
    and sep: "e = CHR ''-''" "h = CHR ''-''" "k = CHR ''T''" "n = CHR '':''" "r = CHR '':''"
      "v = CHR ''.''" "z = CHR ''Z''"
    by (auto simp: canonical_ms_def SYNC_UTC_RFC3339_def digits_at_def s)
  note pads = dig(1) [THEN pad_num_of] dig(2) [THEN pad_num_of] dig(3) [THEN pad_num_of]
    dig(4) [THEN pad_num_of] dig(5) [THEN pad_num_of] dig(6) [THEN pad_num_of]
    dig(7) [THEN pad_num_of]
  show ?thesis
    by (simp add: iso_ms_def split_timestamp_def slice_def Let_def s pads sep del: pad_numeral)
qed

lemma canonical_ms_order:
  assumes "canonical_ms s" "canonical_ms t"
  shows "s < t \<longleftrightarrow> instant (split_timestamp s) < instant (split_timestamp t)"
proof -
  have v: "valid_datetime (split_timestamp s)" "valid_datetime (split_timestamp t)"
    using assms by (simp_all add: canonical_ms_def)
  from iso_ms_split [OF assms(1)] iso_ms_split [OF assms(2)] iso_ms_order [OF v] show ?thesis
    by simp
qed

lemma canonical_ms_parse: "canonical_ms s \<Longrightarrow> parse_timestamp s = Inr (split_timestamp s)"
  by (simp add: canonical_ms_def parse_timestamp_def)

text \<open>
  On millisecond timestamps the stamp of an update is later than the stored one, in the text order
  the sync protocol compares rows by and in time, and never earlier than the clock.
\<close>

lemma monotonic_updated_at_canonical:
  assumes p: "canonical_ms previous" and c: "canonical_ms candidate"
    and m: "monotonic_updated_at previous candidate = Inr now"
  shows "canonical_ms now \<and> previous < now \<and> candidate \<le> now"
proof (cases "candidate > previous")
  case True
  with m c show ?thesis by (simp add: monotonic_updated_at_def)
next
  case False
  let ?t = "split_timestamp previous"
  from False m obtain u where u: "add_millisecond ?t = Inr u" and now: "now = iso_ms u"
    by (auto simp: monotonic_updated_at_def canonical_ms_parse [OF p] result_simps)
  from p have v: "valid_datetime ?t" by (simp add: canonical_ms_def)
  from add_millisecond_correct [OF v u] have vu: "valid_datetime u" and i: "instant ?t < instant u"
    by auto
  from add_millisecond_micro [OF u] iso_ms_split [OF p] have mu: "microsecond u mod 1000 = 0"
    by simp
  have "canonical_ms now" unfolding now by (rule canonical_iso_ms [OF vu mu])
  moreover have "previous < now"
    using canonical_ms_order [OF p \<open>canonical_ms now\<close>] i
    by (simp add: now split_iso_ms [OF vu mu])
  ultimately show ?thesis using False by auto
qed

lemma monotonic_updated_at_total:
  assumes p: "canonical_ms previous" and y: "year (split_timestamp previous) < 9999"
  shows "\<exists>now. monotonic_updated_at previous candidate = Inr now"
proof -
  from p have "valid_datetime (split_timestamp previous)" by (simp add: canonical_ms_def)
  from add_millisecond_total [OF this y] show ?thesis
    by (auto simp: monotonic_updated_at_def canonical_ms_parse [OF p])
qed

section \<open>Properties\<close>

text \<open>
  C37: The stamp an update writes over a stored millisecond timestamp always exists before the
  year 9999, is again a millisecond timestamp, is later than the stored one both as a text (the
  order rows are compared by) and in time, is not earlier than the clock, and is the clock itself
  whenever the clock is later than the stored stamp.
\<close>

theorem update_stamp_monotonic:
  assumes "canonical_ms previous" "canonical_ms clock" "year (split_timestamp previous) < 9999"
  shows "\<exists>now. monotonic_updated_at previous clock = Inr now \<and> canonical_ms now \<and> previous < now \<and>
    instant (split_timestamp previous) < instant (split_timestamp now) \<and> clock \<le> now \<and>
    (previous < clock \<longrightarrow> now = clock)"
proof -
  obtain now where now: "monotonic_updated_at previous clock = Inr now"
    using monotonic_updated_at_total [OF assms(1,3)] by blast
  note later = monotonic_updated_at_canonical [OF assms(1,2) now]
  moreover have "previous < clock \<longrightarrow> now = clock"
    using now by (auto simp: monotonic_updated_at_def)
  ultimately show ?thesis
    using now canonical_ms_order [OF assms(1)] by blast
qed

lemma update_stamp_monotonic_witness:
  "\<exists>now. monotonic_updated_at ''2024-02-29T23:59:59.999Z'' ''2024-02-29T23:59:58.000Z'' = Inr now \<and>
     ''2024-02-29T23:59:59.999Z'' < now"
  using update_stamp_monotonic [of "''2024-02-29T23:59:59.999Z''" "''2024-02-29T23:59:58.000Z''"]
  by (auto simp: canonical_ms_def SYNC_UTC_RFC3339_def digits_at_def is_digit_def valid_datetime_def
      split_timestamp_def slice_def num_of_def digit_val_def days_in_month_def is_leap_def)

text \<open>
  C38: Comparing millisecond timestamps as texts is comparing the instants they denote, and
  formatting the fields of such a text gives the text back.
\<close>

theorem timestamp_order_is_time:
  assumes "canonical_ms s" "canonical_ms t"
  shows "(s < t \<longleftrightarrow> instant (split_timestamp s) < instant (split_timestamp t)) \<and>
    iso_ms (split_timestamp s) = s \<and> parse_timestamp s = Inr (split_timestamp s)"
  using canonical_ms_order [OF assms] iso_ms_split [OF assms(1)] canonical_ms_parse [OF assms(1)] by blast

lemma timestamp_order_is_time_witness:
  "instant (split_timestamp ''2023-12-31T23:59:59.999Z'') < instant (split_timestamp ''2024-01-01T00:00:00.000Z'')"
proof -
  have "canonical_ms ''2023-12-31T23:59:59.999Z''" "canonical_ms ''2024-01-01T00:00:00.000Z''"
    by (simp_all add: canonical_ms_def SYNC_UTC_RFC3339_def digits_at_def is_digit_def valid_datetime_def
        split_timestamp_def slice_def num_of_def digit_val_def days_in_month_def is_leap_def)
  from timestamp_order_is_time [OF this] show ?thesis by simp
qed

text \<open>
  The stored stamp must be in the millisecond form: over a stamp in whole seconds, which the wire
  format admits, the stamp of an update is a smaller text than the one it replaces.
\<close>

lemma stamp_over_seconds_goes_back:
  "SYNC_UTC_RFC3339 ''2026-01-01T00:00:05Z'' \<and>
   monotonic_updated_at ''2026-01-01T00:00:05Z'' ''2026-01-01T00:00:04.000Z'' = Inr ''2026-01-01T00:00:05.001Z'' \<and>
   ''2026-01-01T00:00:05.001Z'' < ''2026-01-01T00:00:05Z''"
  by (simp add: monotonic_updated_at_def parse_timestamp_def SYNC_UTC_RFC3339_def digits_at_def
      is_digit_def valid_datetime_def split_timestamp_def slice_def num_of_def digit_val_def
      days_in_month_def is_leap_def add_millisecond_def next_day_def iso_ms_def digit_char_def)

section \<open>Any ISO form\<close>

text \<open>
  \<open>datetime.fromisoformat\<close> of Python 3.13 on the formats it documents: a calendar or week date, with
  dashes or without, one character of any kind, a time of hours, minutes, seconds and a fraction whose
  digits past the sixth are dropped, and an offset. The result is the instant, and whether the text
  has an offset (an aware \<open>datetime\<close>).
\<close>

definition take_digits :: "nat \<Rightarrow> string \<Rightarrow> (nat \<times> string) option" where
  "take_digits n s = (if n \<le> length s \<and> list_all is_digit (take n s) then Some (num_of (take n s), drop n s) else None)"

definition iso_fraction :: "string \<Rightarrow> nat option" where
  "iso_fraction s = (case s of [] \<Rightarrow> Some 0
     | c # ds \<Rightarrow> if c \<in> {CHR ''.'', CHR '',''} \<and> ds \<noteq> [] \<and> list_all is_digit ds
         then Some (num_of (take 6 ds) * 10 ^ (6 - length (take 6 ds))) else None)"

text \<open>\<open>HH\<close>, \<open>HH:MM\<close>, \<open>HH:MM:SS\<close> and \<open>HH:MM:SS.f\<close>, and the same without colons.\<close>

definition iso_clock :: "string \<Rightarrow> (nat \<times> nat \<times> nat \<times> nat) option" where
  "iso_clock s =
     (case take_digits 2 s of
        None \<Rightarrow> None
      | Some (h, []) \<Rightarrow> Some (h, 0, 0, 0)
      | Some (h, c # r) \<Rightarrow>
          let sep = (c = CHR '':'') in
          (case take_digits 2 (if sep then r else c # r) of
             None \<Rightarrow> None
           | Some (m, []) \<Rightarrow> Some (h, m, 0, 0)
           | Some (m, d # q) \<Rightarrow>
               if sep \<and> d \<noteq> CHR '':'' then None
               else (case take_digits 2 (if sep then q else d # q) of
                  None \<Rightarrow> None
                | Some (sec, f) \<Rightarrow> map_option (\<lambda>u. (h, m, sec, u)) (iso_fraction f))))"

definition clock_micros :: "nat \<times> nat \<times> nat \<times> nat \<Rightarrow> int" where
  "clock_micros t = (case t of (h, m, sec, u) \<Rightarrow> ((int h * 60 + int m) * 60 + int sec) * 1000000 + int u)"

text \<open>The local time of day, and the offset when there is one.\<close>

definition iso_offset :: "string \<Rightarrow> int option option" where
  "iso_offset s = (case s of
     [] \<Rightarrow> Some None
   | c # r \<Rightarrow>
       if c = CHR ''Z'' then (if r = [] then Some (Some 0) else None)
       else (case iso_clock r of
          None \<Rightarrow> None
        | Some t \<Rightarrow> if 86400000000 \<le> clock_micros t then None
            else Some (Some (if c = CHR ''-'' then - clock_micros t else clock_micros t))))"

definition iso_time :: "string \<Rightarrow> (int \<times> int option) option" where
  "iso_time s =
     (if s = [] then Some (0, None)
      else
        let local = takeWhile (\<lambda>c. c \<notin> {CHR ''+'', CHR ''-'', CHR ''Z''}) s in
        (case (iso_clock local, iso_offset (drop (length local) s)) of
           (Some (h, m, sec, u), Some off) \<Rightarrow>
             if h \<le> 23 \<and> m \<le> 59 \<and> sec \<le> 59 then Some (clock_micros (h, m, sec, u), off) else None
         | _ \<Rightarrow> None))"

text \<open>The ordinal of a day given by its ISO week; a year has 53 weeks when it starts on a Thursday, or on a Wednesday of a leap year.\<close>

definition iso_week :: "nat \<Rightarrow> nat \<Rightarrow> nat \<Rightarrow> int option" where
  "iso_week y w d =
     (let first = ymd2ord y 1 1; weekday = (first + 6) mod 7;
          monday = first - weekday + (if 3 < weekday then 7 else 0);
          ord = monday + (int w - 1) * 7 + int d - 1 in
      if 1 \<le> y \<and> y \<le> 9999 \<and> 1 \<le> w \<and> (w < 53 \<or> w = 53 \<and> (first mod 7 = 4 \<or> first mod 7 = 3 \<and> is_leap y)) \<and>
         1 \<le> d \<and> d \<le> 7 \<and> ord \<le> ymd2ord 9999 12 31
      then Some ord else None)"

definition iso_date :: "string \<Rightarrow> int option" where
  "iso_date s =
     (case take_digits 4 s of
        None \<Rightarrow> None
      | Some (y, r) \<Rightarrow>
          let dashed = (\<lambda>q. q \<noteq> [] \<and> hd q = CHR ''-''); sep = dashed r; r1 = (if sep then tl r else r) in
          if r1 \<noteq> [] \<and> hd r1 = CHR ''W'' then
            (case take_digits 2 (tl r1) of
               None \<Rightarrow> None
             | Some (w, r2) \<Rightarrow>
                 if r2 = [] then iso_week y w 1
                 else if dashed r2 \<noteq> sep then None
                 else (case take_digits 1 (if sep then tl r2 else r2) of
                    Some (d, []) \<Rightarrow> iso_week y w d | _ \<Rightarrow> None))
          else
            (case take_digits 2 r1 of
               None \<Rightarrow> None
             | Some (m, r2) \<Rightarrow>
                 if dashed r2 \<noteq> sep then None
                 else (case take_digits 2 (if sep then tl r2 else r2) of
                    Some (d, []) \<Rightarrow>
                      if 1 \<le> y \<and> 1 \<le> m \<and> m \<le> 12 \<and> 1 \<le> d \<and> d \<le> days_in_month y m
                      then Some (ymd2ord y m d) else None
                  | _ \<Rightarrow> None)))"

text \<open>Where the date ends; in a week date without dashes the digits decide.\<close>

definition iso_date_end :: "string \<Rightarrow> nat" where
  "iso_date_end s =
     (if length s = 7 then 7
      else if s ! 4 = CHR ''-'' then
        (if s ! 5 \<noteq> CHR ''W'' then 10
         else if 8 < length s \<and> s ! 8 = CHR ''-'' then (if 10 < length s \<and> is_digit (s ! 10) then 8 else 10)
         else 8)
      else if s ! 4 = CHR ''W'' then
        (let n = 7 + length (takeWhile is_digit (drop 7 s)) in
         if n < 9 then n else if n mod 2 = 0 then 7 else 8)
      else 8)"

definition fromisoformat :: "string \<Rightarrow> (int \<times> bool) option" where
  "fromisoformat s =
     (if length s < 7 then None
      else case (iso_date (take (iso_date_end s) s), iso_time (drop (Suc (iso_date_end s)) s)) of
        (Some ord, Some (micros, off)) \<Rightarrow>
          Some (ord * 86400000000 + micros - (case off of None \<Rightarrow> 0 | Some n \<Rightarrow> n), off \<noteq> None)
      | _ \<Rightarrow> None)"

text \<open>\<open>datetime.fromisoformat(s[:-1] + "+00:00")\<close>.\<close>

definition iso_instant :: "string \<Rightarrow> (int \<times> bool) option" where
  "iso_instant s = fromisoformat (butlast s @ ''+00:00'')"

end
