(* ===== verification/Mutation.thy ===== *)
theory Mutation
  imports Timestamps
begin

text \<open>
  The immutable records of the mutation pipeline (\<open>app/mutation/types.py\<close>) and the closed table
  of rejection codes (\<open>app/errors.py\<close>). A class whose \<open>__post_init__\<close> checks its fields is a
  record together with a function of the class's name that returns the record or the exception.

  SHA-256 and the RFC 8785 serialiser are fields of \<open>digests\<close>: the model is parametric in both.
  Where a lemma needs more than that they are functions, the need is an explicit hypothesis.
\<close>

section \<open>Rejection codes\<close>

datatype mutation_rejection_spec =
  MutationRejectionSpec (rj_status_code: int) (rj_message: string) (rj_legacy_error_type: string)
    (rj_retryable: bool)

definition MUTATION_REJECTION_SPECS :: "(string \<times> mutation_rejection_spec) list" where
  "MUTATION_REJECTION_SPECS = [
  (''space_scope_mismatch'', MutationRejectionSpec 403 ''Mutation does not belong to the authorized Space''
     ''authorization_error'' False),
  (''version_conflict'', MutationRejectionSpec 409 ''Entity version conflict''
     ''conflict'' False),
  (''tombstone_conflict'', MutationRejectionSpec 409 ''Entity was deleted and cannot be resurrected''
     ''conflict'' False),
  (''cycle_detected'', MutationRejectionSpec 409 ''Mutation would create a cycle''
     ''conflict'' False),
  (''relation_endpoint_missing'', MutationRejectionSpec 409 ''Relation endpoint does not exist''
     ''conflict'' False),
  (''entity_id_mismatch'', MutationRejectionSpec 422 ''Entity identity does not match payload''
     ''validation_error'' False),
  (''delete_payload_not_empty'', MutationRejectionSpec 422 ''Delete payload must be empty''
     ''validation_error'' False),
  (''idempotency_conflict'', MutationRejectionSpec 409 ''Operation ID is already bound to a different request''
     ''conflict'' False),
  (''invalid_payload_hash'', MutationRejectionSpec 422 ''Payload hash does not match canonical payload''
     ''validation_error'' False),
  (''invalid_project_key'', MutationRejectionSpec 422 ''Project key is invalid''
     ''validation_error'' False),
  (''project_key_conflict'', MutationRejectionSpec 409 ''Project key conflict''
     ''conflict'' False),
  (''unsupported_content_version'', MutationRejectionSpec 422 ''Content version is unsupported''
     ''validation_error'' False),
  (''invalid_note_document'', MutationRejectionSpec 422 ''Note document is invalid''
     ''validation_error'' False),
  (''invalid_work_item_tree'', MutationRejectionSpec 422 ''Work item tree is invalid''
     ''validation_error'' False),
  (''not_found'', MutationRejectionSpec 404 ''Entity not found''
     ''not_found'' False),
  (''active_child_conflict'', MutationRejectionSpec 409 ''An active child prevents this mutation''
     ''conflict'' False),
  (''active_session_exists'', MutationRejectionSpec 409 ''An active Session already exists''
     ''conflict'' False),
  (''stale_session_owner'', MutationRejectionSpec 409 ''Session ownership is stale''
     ''conflict'' False),
  (''session_activation_conflict'', MutationRejectionSpec 409 ''Session activation conflict''
     ''conflict'' False),
  (''offline_formal_creation_forbidden'', MutationRejectionSpec 409 ''Formal offline creation is forbidden''
     ''conflict'' False),
  (''command_result_unknown'', MutationRejectionSpec 503 ''Command result requires recovery''
     ''service_unavailable'' True),
  (''active_session_recovery_required'', MutationRejectionSpec 503 ''Active Session coordination requires recovery''
     ''service_unavailable'' True),
  (''work_item_structure_changed'', MutationRejectionSpec 409 ''Work item structure changed''
     ''conflict'' False),
  (''label_name_conflict'', MutationRejectionSpec 409 ''Label name conflict''
     ''conflict'' False),
  (''archived_work_item_immutable'', MutationRejectionSpec 409 ''Archived work items cannot gain or lose dependencies''
     ''conflict'' False),
  (''entity_not_sync_enabled'', MutationRejectionSpec 422 ''Entity type is not sync-enabled''
     ''validation_error'' False),
  (''payload_field_not_allowed'', MutationRejectionSpec 422 ''Payload field is not allowed''
     ''validation_error'' False),
  (''server_managed_field_changed'', MutationRejectionSpec 409 ''Server-managed field cannot be changed by clients''
     ''conflict'' False)]"

definition S3_MUTATION_REJECTION_CODES :: "string list" where
  "S3_MUTATION_REJECTION_CODES = [''space_scope_mismatch'', 
     ''version_conflict'', ''idempotency_conflict'', ''cycle_detected'', 
     ''relation_endpoint_missing'', ''entity_id_mismatch'', ''delete_payload_not_empty'', 
     ''invalid_note_document'', ''not_found'', ''server_managed_field_changed'']"

definition RESERVED_TS_CODES :: "string list" where
  "RESERVED_TS_CODES = [''space_scope_mismatch'', 
     ''version_conflict'', ''idempotency_conflict'', ''invalid_payload_hash'', 
     ''invalid_project_key'', ''project_key_conflict'', ''unsupported_content_version'', 
     ''invalid_note_document'', ''invalid_work_item_tree'', ''active_child_conflict'', 
     ''active_session_exists'', ''stale_session_owner'', ''session_activation_conflict'', 
     ''offline_formal_creation_forbidden'', ''command_result_unknown'', 
     ''active_session_recovery_required'', ''work_item_structure_changed'', 
     ''label_name_conflict'', ''cycle_detected'', ''archived_work_item_immutable'', 
     ''payload_field_not_allowed'']"

definition RESERVED_S4_MAPPING_CODES :: "string list" where
  "RESERVED_S4_MAPPING_CODES = [''entity_not_sync_enabled'', 
     ''payload_field_not_allowed'', ''tombstone_conflict'']"

text \<open>The import-time check that the table and the three closed code sets agree.\<close>

definition check_rejection_map :: "unit res" where
  "check_rejection_map = require
     (set (map fst MUTATION_REJECTION_SPECS) =
        set S3_MUTATION_REJECTION_CODES \<union> set RESERVED_TS_CODES \<union> set RESERVED_S4_MAPPING_CODES)
     (RuntimeErr ''mutation rejection map does not match closed code sets'')"

definition validate_rejection :: "string \<Rightarrow> bool \<Rightarrow> unit res" where
  "validate_rejection code retryable =
     (case map_of MUTATION_REJECTION_SPECS code of
        None \<Rightarrow> Inl (ValueErr (''unknown mutation rejection code: '' @ code))
      | Some spec \<Rightarrow> require (retryable = rj_retryable spec)
                      (ValueErr ''persisted retryable does not match rejection spec''))"

text \<open>
  Raising \<open>MutationRuleViolation(code, details, retryable=...)\<close>: building the exception checks the
  code against the table, and a failed check is itself the exception that is raised.
\<close>

definition violation :: "string \<Rightarrow> (string \<times> json) list \<Rightarrow> bool \<Rightarrow> exc" where
  "violation code details retryable =
     (case validate_rejection code retryable of
        Inl e \<Rightarrow> e
      | Inr _ \<Rightarrow> RuleViolation code details retryable)"

abbreviation violate :: "string \<Rightarrow> (string \<times> json) list \<Rightarrow> bool \<Rightarrow> 'a res" where
  "violate code details retryable \<equiv> Inl (violation code details retryable)"

section \<open>States and identifiers\<close>

datatype mutation_state =
    INTENT | STAGED | DB_COMMITTED | FINALIZING | FORWARD_APPLIED | FINALIZED
  | ABORTED | COMPENSATING | COMPENSATED | FAILED_MANUAL

datatype step_state = StepPending | StepApplied | StepCompensated

definition is_hex :: "char \<Rightarrow> bool" where
  "is_hex c = (c \<in> set ''0123456789abcdef'')"

definition PAYLOAD_SHA256 :: "string \<Rightarrow> bool" where
  "PAYLOAD_SHA256 s = (length s = 64 \<and> list_all is_hex s)"

definition PRINTABLE_ASCII_OPERATION_ID :: "string \<Rightarrow> bool" where
  "PRINTABLE_ASCII_OPERATION_ID s =
     (1 \<le> length s \<and> length s \<le> 128 \<and>
      list_all (\<lambda>c. 0x21 \<le> (of_char c :: nat) \<and> (of_char c :: nat) \<le> 0x7e) s)"

record digests =
  sha256_hex :: "string \<Rightarrow> string"
  rfc8785_dumps :: "json \<Rightarrow> string"

definition validate_sha256 :: "string \<Rightarrow> string \<Rightarrow> unit res" where
  "validate_sha256 v label =
     require (PAYLOAD_SHA256 v) (ValueErr (label @ '' must be 64 lowercase hex characters''))"

definition validate_operation_id :: "string \<Rightarrow> unit res" where
  "validate_operation_id v = require (PRINTABLE_ASCII_OPERATION_ID v)
     (ValueErr ''operation and batch IDs must use the exact 1-128-byte printable-ASCII validator'')"

definition child_suffix_chars :: string where
  "child_suffix_chars =
     ''ABCDEFGHIJKLMNOPQRSTUVWXYZabcdefghijklmnopqrstuvwxyz0123456789._:-''"

text \<open>The bytes hashed for a long child identifier: a tag, the parent's length, both parts.\<close>

definition child_message :: "string \<Rightarrow> string \<Rightarrow> string" where
  "child_message parent_id suffix =
     ''child-v1'' @ [CHR 0x00, char_of (length parent_id div 256), char_of (length parent_id)] @
     parent_id @ suffix"

definition bounded_child_operation_id :: "digests \<Rightarrow> string \<Rightarrow> string \<Rightarrow> string res" where
  "bounded_child_operation_id dg parent_id suffix =
     rbind (validate_operation_id parent_id) (\<lambda>_.
     if suffix = [] \<or> \<not> list_all (\<lambda>c. (of_char c :: nat) < 128) suffix \<or> 512 < length suffix \<or>
        (\<exists>c \<in> set suffix. c \<notin> set child_suffix_chars)
     then Inl (ValueErr ''invalid child operation suffix'')
     else let candidate = ''childp:'' @ nat_digits (length parent_id) @ '':'' @ parent_id @
                            '':'' @ suffix in
       if length candidate \<le> 128
       then rbind (validate_operation_id candidate) (\<lambda>_. Inr candidate)
       else let bounded = ''childh:'' @ sha256_hex dg (child_message parent_id suffix) in
         rbind (validate_operation_id bounded) (\<lambda>_. Inr bounded))"

definition validate_expected_version :: "int option \<Rightarrow> unit res" where
  "validate_expected_version v =
     require (case v of None \<Rightarrow> True | Some n \<Rightarrow> 0 \<le> n)
       (ValueErr ''expected_version must be null or a nonnegative integer'')"

definition validate_resolution :: "string option \<Rightarrow> unit res" where
  "validate_resolution r = require (r = None \<or> r = Some ''remote'')
     (ValueErr ''resolution must be null or remote'')"

section \<open>Canonical bytes\<close>

text \<open>A row, and an optional text or version, as the JSON they are hashed as.\<close>

definition json_of_row :: "row \<Rightarrow> json" where
  "json_of_row r = JObj (map (\<lambda>k. (k, fld r k)) (sorted_list_of_fset (fmdom r)))"

definition json_opt :: "('a \<Rightarrow> json) \<Rightarrow> 'a option \<Rightarrow> json" where
  "json_opt f v = (case v of None \<Rightarrow> JNull | Some x \<Rightarrow> f x)"

definition canonical_payload_hash :: "digests \<Rightarrow> row \<Rightarrow> string" where
  "canonical_payload_hash dg payload = sha256_hex dg (rfc8785_dumps dg (json_of_row payload))"

definition require_payload_hash :: "digests \<Rightarrow> string \<Rightarrow> row \<Rightarrow> unit res" where
  "require_payload_hash dg declared payload =
     rbind (require (PAYLOAD_SHA256 declared)
              (ValueErr ''payload hash must be 64 lowercase hex characters'')) (\<lambda>_.
     require (declared = canonical_payload_hash dg payload)
       (ValueErr ''payload hash does not match canonical payload''))"

definition canonical_request_bytes ::
    "digests \<Rightarrow> string \<Rightarrow> string \<Rightarrow> string \<Rightarrow> row \<Rightarrow> int option \<Rightarrow> string option \<Rightarrow> string" where
  "canonical_request_bytes dg name etype eid payload ev cua = rfc8785_dumps dg (JObj
     [(''client_updated_at'', json_opt JStr cua),
      (''entity_id'', JStr eid),
      (''entity_type'', JStr etype),
      (''expected_version'', json_opt JInt ev),
      (''name'', JStr name),
      (''payload'', json_of_row payload)])"

section \<open>Projections\<close>

datatype projection_action_tag = MARKDOWN_WRITE | PATH_RENAME | PATH_REMOVE | INDEX_REPLACE | FTS_REPLACE

definition tag_text :: "projection_action_tag \<Rightarrow> string" where
  "tag_text t = (case t of
     MARKDOWN_WRITE \<Rightarrow> ''markdown_write'' | PATH_RENAME \<Rightarrow> ''path_rename''
   | PATH_REMOVE \<Rightarrow> ''path_remove'' | INDEX_REPLACE \<Rightarrow> ''index_replace''
   | FTS_REPLACE \<Rightarrow> ''fts_replace'')"

text \<open>\<open>ContainedProjectionActionField(value)\<close>: the accepted text itself, or the exception.\<close>

definition contained_projection_action_field :: "string \<Rightarrow> string res" where
  "contained_projection_action_field value =
     (if value = [] \<or> CHR 0x00 \<in> set value \<or> CHR 0x5C \<in> set value
      then Inl (ValueErr ''projection action field must be a contained relative path'')
      else if CHR '':'' \<in> set value \<or> hd value = CHR ''/''
      then Inl (ValueErr ''projection action field must be a contained relative path'')
      else let parts = split_on (CHR ''/'') value in
        if \<exists>part \<in> set parts. part \<in> {'''', ''.'', ''..''}
        then Inl (ValueErr ''projection action field must be a contained relative path'')
        else if hd parts = ''.mutations'' \<or> hd parts \<in> {''before'', ''after''} \<or>
                value = ''manifest.json'' \<or>
                (3 \<le> length parts \<and> PAYLOAD_SHA256 (hd parts) \<and>
                 parts ! 1 \<in> {''before'', ''after''})
        then Inl (ValueErr ''projection action field must not name staged content'')
        else Inr value)"

text \<open>
  The check compares the images it is given: the bytes of a plan, or the digests of a persisted
  descriptor.
\<close>

definition validate_projection_images ::
    "projection_action_tag \<Rightarrow> string option \<Rightarrow> string option \<Rightarrow> string option \<Rightarrow> unit res" where
  "validate_projection_images tag source before after =
     (if (tag = PATH_RENAME) \<noteq> (source \<noteq> None)
      then Inl (ValueErr ''projection source is required only for path rename'')
      else if tag = PATH_RENAME \<and> (before = None \<or> after = None \<or> before \<noteq> after)
      then Inl (ValueErr ''path rename requires equal before and after images'')
      else if tag = PATH_REMOVE \<and> (before = None \<or> after \<noteq> None)
      then Inl (ValueErr ''path remove requires before and no after image'')
      else if tag = MARKDOWN_WRITE \<and> after = None
      then Inl (ValueErr ''markdown write requires an after image'')
      else if tag \<in> {INDEX_REPLACE, FTS_REPLACE} \<and> before = None \<and> after = None
      then Inl (ValueErr ''replace projection requires an image'')
      else Inr ())"

record projection_plan =
  pj_tag :: projection_action_tag
  pj_source :: "string option"
  pj_target :: string
  pj_ordinal :: int
  pj_before :: "string option"
  pj_after :: "string option"

definition ProjectionPlan :: "projection_action_tag \<Rightarrow> string option \<Rightarrow> string \<Rightarrow> int \<Rightarrow>
    string option \<Rightarrow> string option \<Rightarrow> projection_plan res" where
  "ProjectionPlan tag source target ordinal before after =
     rbind (require (0 \<le> ordinal) (ValueErr ''projection ordinal must be nonnegative'')) (\<lambda>_.
     rbind (validate_projection_images tag source before after) (\<lambda>_.
     Inr \<lparr>pj_tag = tag, pj_source = source, pj_target = target, pj_ordinal = ordinal,
          pj_before = before, pj_after = after\<rparr>))"

record persisted_projection_descriptor =
  pd_tag :: projection_action_tag
  pd_source :: "string option"
  pd_target :: string
  pd_ordinal :: int
  pd_before_sha256 :: "string option"
  pd_before_size :: "int option"
  pd_after_sha256 :: "string option"
  pd_after_size :: "int option"

definition check_descriptor_image :: "string \<Rightarrow> string option \<Rightarrow> int option \<Rightarrow> unit res" where
  "check_descriptor_image label digest sz =
     rbind (require ((digest = None) = (sz = None))
              (ValueErr (label @ '' hash and size must both be null or present''))) (\<lambda>_.
     case (digest, sz) of
       (Some d, Some n) \<Rightarrow> rbind (validate_sha256 d (label @ ''_sha256'')) (\<lambda>_.
         require (0 \<le> n) (ValueErr (label @ ''_size must be a nonnegative integer'')))
     | _ \<Rightarrow> Inr ())"

definition PersistedProjectionDescriptor :: "projection_action_tag \<Rightarrow> string option \<Rightarrow> string \<Rightarrow>
    int \<Rightarrow> string option \<Rightarrow> int option \<Rightarrow> string option \<Rightarrow> int option \<Rightarrow>
    persisted_projection_descriptor res" where
  "PersistedProjectionDescriptor tag source target ordinal bd bs ad asz =
     rbind (require (0 \<le> ordinal) (ValueErr ''projection ordinal must be a nonnegative integer''))
       (\<lambda>_.
     rbind (check_descriptor_image ''before'' bd bs) (\<lambda>_.
     rbind (check_descriptor_image ''after'' ad asz) (\<lambda>_.
     rbind (validate_projection_images tag source bd ad) (\<lambda>_.
     Inr \<lparr>pd_tag = tag, pd_source = source, pd_target = target, pd_ordinal = ordinal,
          pd_before_sha256 = bd, pd_before_size = bs, pd_after_sha256 = ad, pd_after_size = asz\<rparr>))))"

definition validate_projection_ordinals :: "int list \<Rightarrow> unit res" where
  "validate_projection_ordinals ordinals =
     require (ordinals = map int [0..<length ordinals])
       (ValueErr ''projection ordinals must be unique, ordered, and contiguous'')"

section \<open>Plans, events and requests\<close>

datatype operation = Insert | Update | Delete

record db_plan =
  pl_table :: string
  pl_pk :: row
  pl_op :: operation
  pl_expected :: "int option"
  pl_before :: "row option"
  pl_after :: "row option"

definition DbMutationPlan ::
    "string \<Rightarrow> row \<Rightarrow> operation \<Rightarrow> int option \<Rightarrow> row option \<Rightarrow> row option \<Rightarrow> db_plan res" where
  "DbMutationPlan table pk op ev before after =
     rbind (validate_expected_version ev) (\<lambda>_.
     Inr \<lparr>pl_table = table, pl_pk = pk, pl_op = op, pl_expected = ev, pl_before = before,
          pl_after = after\<rparr>)"

datatype sync_action = EvCreate | EvUpdate | EvDelete

record sync_event =
  ev_type :: string
  ev_id :: string
  ev_action :: sync_action
  ev_payload :: row
  ev_version :: int
  ev_created_at :: string

definition SyncEventPlan ::
    "string \<Rightarrow> string \<Rightarrow> sync_action \<Rightarrow> row \<Rightarrow> json \<Rightarrow> json \<Rightarrow> sync_event res" where
  "SyncEventPlan etype eid action payload version created_at =
     (case version of
        JInt n \<Rightarrow>
          rbind (require (0 \<le> n) (ValueErr ''SyncEventPlan.version must be a nonnegative integer''))
            (\<lambda>_. rbind (validate_canonical_timestamp created_at) (\<lambda>_.
          case created_at of
            JStr ts \<Rightarrow> Inr \<lparr>ev_type = etype, ev_id = eid, ev_action = action, ev_payload = payload,
                         ev_version = n, ev_created_at = ts\<rparr>
          | _ \<Rightarrow> Inl (ValueErr ''SyncEventPlan.created_at is required'')))
      | _ \<Rightarrow> Inl (ValueErr ''SyncEventPlan.version must be a nonnegative integer''))"

record request =
  rq_name :: string
  rq_entity_type :: string
  rq_entity_id :: string
  rq_payload :: row
  rq_expected_version :: "int option"
  rq_client_updated_at :: "string option"
  rq_hash :: string

definition MutationRequest :: "digests \<Rightarrow> string \<Rightarrow> string \<Rightarrow> string \<Rightarrow> row \<Rightarrow> int option \<Rightarrow>
    string option \<Rightarrow> string \<Rightarrow> request res" where
  "MutationRequest dg name etype eid payload ev cua hash =
     rbind (validate_expected_version ev) (\<lambda>_.
     rbind (validate_canonical_timestamp (json_opt JStr cua)) (\<lambda>_.
     rbind (require (hash = sha256_hex dg (canonical_request_bytes dg name etype eid payload ev cua))
              (ValueErr ''request_hash does not match frozen request'')) (\<lambda>_.
     Inr \<lparr>rq_name = name, rq_entity_type = etype, rq_entity_id = eid, rq_payload = payload,
          rq_expected_version = ev, rq_client_updated_at = cua, rq_hash = hash\<rparr>)))"

definition request_from_payload :: "digests \<Rightarrow> string \<Rightarrow> string \<Rightarrow> string \<Rightarrow> row \<Rightarrow> int option \<Rightarrow>
    string option \<Rightarrow> request res" where
  "request_from_payload dg name etype eid payload ev cua =
     MutationRequest dg name etype eid payload ev cua
       (sha256_hex dg (canonical_request_bytes dg name etype eid payload ev cua))"

section \<open>Commands\<close>

text \<open>The wire form of the records a command hash covers, field by field as the classes have them.\<close>

definition db_plan_json :: "db_plan \<Rightarrow> json" where
  "db_plan_json p = JObj
     [(''table'', JStr (pl_table p)),
      (''primary_key'', json_of_row (pl_pk p)),
      (''operation'', JStr (case pl_op p of Insert \<Rightarrow> ''insert'' | Update \<Rightarrow> ''update''
                                        | Delete \<Rightarrow> ''delete'')),
      (''expected_version'', json_opt JInt (pl_expected p)),
      (''before_row'', json_opt json_of_row (pl_before p)),
      (''after_row'', json_opt json_of_row (pl_after p))]"

definition sync_event_json :: "sync_event \<Rightarrow> json" where
  "sync_event_json e = JObj
     [(''entity_type'', JStr (ev_type e)),
      (''entity_id'', JStr (ev_id e)),
      (''action'', JStr (case ev_action e of EvCreate \<Rightarrow> ''create'' | EvUpdate \<Rightarrow> ''update''
                                         | EvDelete \<Rightarrow> ''delete'')),
      (''payload'', json_of_row (ev_payload e)),
      (''version'', JInt (ev_version e)),
      (''created_at'', JStr (ev_created_at e))]"

definition request_json :: "request \<Rightarrow> json" where
  "request_json r = JObj
     [(''name'', JStr (rq_name r)),
      (''entity_type'', JStr (rq_entity_type r)),
      (''entity_id'', JStr (rq_entity_id r)),
      (''payload'', json_of_row (rq_payload r)),
      (''expected_version'', json_opt JInt (rq_expected_version r)),
      (''client_updated_at'', json_opt JStr (rq_client_updated_at r)),
      (''request_hash'', JStr (rq_hash r))]"

definition descriptor_json :: "persisted_projection_descriptor \<Rightarrow> json" where
  "descriptor_json d = JObj
     [(''tag'', JStr (tag_text (pd_tag d))),
      (''source'', json_opt JStr (pd_source d)),
      (''target'', JStr (pd_target d)),
      (''ordinal'', JInt (pd_ordinal d)),
      (''before_sha256'', json_opt JStr (pd_before_sha256 d)),
      (''before_size'', json_opt JInt (pd_before_size d)),
      (''after_sha256'', json_opt JStr (pd_after_sha256 d)),
      (''after_size'', json_opt JInt (pd_after_size d))]"

definition persisted_descriptor ::
    "digests \<Rightarrow> projection_plan \<Rightarrow> persisted_projection_descriptor res" where
  "persisted_descriptor dg p = PersistedProjectionDescriptor
     (pj_tag p) (pj_source p) (pj_target p) (pj_ordinal p)
     (map_option (sha256_hex dg) (pj_before p)) (map_option (\<lambda>b. int (length b)) (pj_before p))
     (map_option (sha256_hex dg) (pj_after p)) (map_option (\<lambda>b. int (length b)) (pj_after p))"

definition calculate_persisted_command_hash :: "digests \<Rightarrow> request \<Rightarrow> db_plan list \<Rightarrow>
    persisted_projection_descriptor list \<Rightarrow> sync_event list \<Rightarrow> row \<Rightarrow> string option \<Rightarrow> string" where
  "calculate_persisted_command_hash dg rq plans projections events result resolution =
     sha256_hex dg (rfc8785_dumps dg (JObj
       [(''db_plans'', JList (map db_plan_json plans)),
        (''projections'', JList (map descriptor_json projections)),
        (''request'', request_json rq),
        (''resolution'', json_opt JStr resolution),
        (''result_value'', json_of_row result),
        (''sync_events'', JList (map sync_event_json events))]))"

record command =
  cm_request :: request
  cm_plans :: "db_plan list"
  cm_projections :: "projection_plan list"
  cm_events :: "sync_event list"
  cm_value :: row
  cm_resolution :: "string option"
  cm_hash :: string

definition MutationCommand :: "digests \<Rightarrow> request \<Rightarrow> db_plan list \<Rightarrow> projection_plan list \<Rightarrow>
    sync_event list \<Rightarrow> row \<Rightarrow> string option \<Rightarrow> string \<Rightarrow> command res" where
  "MutationCommand dg rq plans projections events result resolution hash =
     rbind (validate_projection_ordinals (map pj_ordinal projections)) (\<lambda>_.
     rbind (validate_resolution resolution) (\<lambda>_.
     rbind (rmap (persisted_descriptor dg) projections) (\<lambda>descriptors.
     rbind (require (hash = calculate_persisted_command_hash dg rq plans descriptors events result
                              resolution)
              (ValueErr ''command_hash does not match persisted command'')) (\<lambda>_.
     Inr \<lparr>cm_request = rq, cm_plans = plans, cm_projections = projections, cm_events = events,
          cm_value = result, cm_resolution = resolution, cm_hash = hash\<rparr>))))"

definition command_from_effects :: "digests \<Rightarrow> request \<Rightarrow> db_plan list \<Rightarrow> projection_plan list \<Rightarrow>
    sync_event list \<Rightarrow> row \<Rightarrow> string option \<Rightarrow> command res" where
  "command_from_effects dg rq plans projections events result resolution =
     rbind (rmap (persisted_descriptor dg) projections) (\<lambda>descriptors.
     MutationCommand dg rq plans projections events result resolution
       (calculate_persisted_command_hash dg rq plans descriptors events result resolution))"

record persisted_command =
  pc_request :: request
  pc_plans :: "db_plan list"
  pc_projections :: "persisted_projection_descriptor list"
  pc_events :: "sync_event list"
  pc_value :: row
  pc_resolution :: "string option"
  pc_hash :: string

definition PersistedMutationCommand :: "digests \<Rightarrow> request \<Rightarrow> db_plan list \<Rightarrow>
    persisted_projection_descriptor list \<Rightarrow> sync_event list \<Rightarrow> row \<Rightarrow> string option \<Rightarrow> string \<Rightarrow>
    persisted_command res" where
  "PersistedMutationCommand dg rq plans projections events result resolution hash =
     rbind (validate_projection_ordinals (map pd_ordinal projections)) (\<lambda>_.
     rbind (validate_resolution resolution) (\<lambda>_.
     rbind (require (hash = calculate_persisted_command_hash dg rq plans projections events result
                              resolution)
              (ValueErr ''command_hash does not match persisted command'')) (\<lambda>_.
     Inr \<lparr>pc_request = rq, pc_plans = plans, pc_projections = projections, pc_events = events,
          pc_value = result, pc_resolution = resolution, pc_hash = hash\<rparr>)))"

definition persisted :: "digests \<Rightarrow> command \<Rightarrow> persisted_command res" where
  "persisted dg c =
     rbind (rmap (persisted_descriptor dg) (cm_projections c)) (\<lambda>projections.
     PersistedMutationCommand dg (cm_request c) (cm_plans c) projections (cm_events c) (cm_value c)
       (cm_resolution c) (cm_hash c))"

section \<open>Results and prepared batches\<close>

record mutation_result =
  mr_operation_id :: string
  mr_batch_id :: string
  mr_entity_type :: string
  mr_entity_id :: string
  mr_version :: "int option"
  mr_resolution :: "string option"
  mr_state :: mutation_state
  mr_value :: row

record mutation_rejection =
  mj_request_index :: int
  mj_operation_id :: string
  mj_entity_type :: string
  mj_entity_id :: string
  mj_code :: string
  mj_retryable :: bool
  mj_details :: "(string \<times> json) list"

definition MutationRejection :: "int \<Rightarrow> string \<Rightarrow> string \<Rightarrow> string \<Rightarrow> string \<Rightarrow> bool \<Rightarrow>
    (string \<times> json) list \<Rightarrow> mutation_rejection res" where
  "MutationRejection i op etype eid code retryable details =
     rbind (require (0 \<le> i) (ValueErr ''request_index must be a nonnegative integer'')) (\<lambda>_.
     rbind (validate_rejection code retryable) (\<lambda>_.
     Inr \<lparr>mj_request_index = i, mj_operation_id = op, mj_entity_type = etype, mj_entity_id = eid,
          mj_code = code, mj_retryable = retryable, mj_details = details\<rparr>))"

record prepared_item =
  pi_request_index :: int
  pi_operation_id :: string
  pi_intent_hash :: string
  pi_request :: "request option"
  pi_pre_rejection :: "mutation_rejection option"

definition PreparedBatchItem :: "int \<Rightarrow> string \<Rightarrow> string \<Rightarrow> request option \<Rightarrow>
    mutation_rejection option \<Rightarrow> prepared_item res" where
  "PreparedBatchItem i op hash rq rej =
     rbind (require (0 \<le> i) (ValueErr ''request_index must be a nonnegative integer'')) (\<lambda>_.
     rbind (validate_sha256 hash ''intent_hash'') (\<lambda>_.
     rbind (require ((rq = None) \<noteq> (rej = None))
              (ValueErr ''prepared item requires exactly one outcome'')) (\<lambda>_.
     rbind (require (case rej of None \<Rightarrow> True
                     | Some r \<Rightarrow> mj_request_index r = i \<and> mj_operation_id r = op)
              (ValueErr ''prepared rejection identity mismatch'')) (\<lambda>_.
     Inr \<lparr>pi_request_index = i, pi_operation_id = op, pi_intent_hash = hash, pi_request = rq,
          pi_pre_rejection = rej\<rparr>))))"

record batch_result =
  br_batch_id :: string
  br_applied :: "mutation_result list"
  br_rejected :: "mutation_rejection list"
  br_derivations :: "(string \<times> (string \<times> json) list) list"
  br_input_count :: int

text \<open>
  \<open>BatchMutationResult(...)\<close>: the input count defaults to the number of items, and each declared
  derivation must reproduce the identifier of one of them.
\<close>

definition derivation_valid :: "digests \<Rightarrow> string set \<Rightarrow> string \<times> (string \<times> json) list \<Rightarrow> bool res" where
  "derivation_valid dg result_ids entry = (case entry of (op, d) \<Rightarrow>
     if op \<notin> result_ids \<or> set (map fst d) \<noteq> {''parent_id'', ''suffix''} then Inr False
     else (case (map_of d ''parent_id'', map_of d ''suffix'') of
         (Some (JStr parent_id), Some (JStr suffix)) \<Rightarrow>
           rbind (bounded_child_operation_id dg parent_id suffix) (\<lambda>derived. Inr (derived = op))
       | _ \<Rightarrow> Inr False))"

definition BatchMutationResult :: "digests \<Rightarrow> string \<Rightarrow> mutation_result list \<Rightarrow>
    mutation_rejection list \<Rightarrow> (string \<times> (string \<times> json) list) list \<Rightarrow> int option \<Rightarrow>
    batch_result res" where
  "BatchMutationResult dg batch_id applied rejected derivations input_count =
     (let expected = int (length applied) + int (length rejected);
          result_ids = set (map mr_operation_id applied) \<union> set (map mj_operation_id rejected) in
      rbind (require (input_count = None \<or> input_count = Some expected)
               (ValueErr ''batch result input_count does not cover every input item'')) (\<lambda>_.
      rbind (rforeach (\<lambda>entry. rbind (derivation_valid dg result_ids entry) (\<lambda>ok.
               require ok (ValueErr ''operation ID derivation is invalid''))) derivations) (\<lambda>_.
      Inr \<lparr>br_batch_id = batch_id, br_applied = applied, br_rejected = rejected,
           br_derivations = derivations, br_input_count = expected\<rparr>)))"

section \<open>Rejections\<close>

lemma rejection_map_checked: "check_rejection_map = Inr ()"
  by (simp add: check_rejection_map_def MUTATION_REJECTION_SPECS_def S3_MUTATION_REJECTION_CODES_def
      RESERVED_TS_CODES_def RESERVED_S4_MAPPING_CODES_def require_def insert_commute)

lemma violation_known:
  "map_of MUTATION_REJECTION_SPECS code = Some spec \<Longrightarrow>
   violation code details (rj_retryable spec) = RuleViolation code details (rj_retryable spec)"
  by (simp add: violation_def validate_rejection_def)

lemma violation_simps [simp]:
  "violation ''space_scope_mismatch'' d False = RuleViolation ''space_scope_mismatch'' d False"
  "violation ''version_conflict'' d False = RuleViolation ''version_conflict'' d False"
  "violation ''tombstone_conflict'' d False = RuleViolation ''tombstone_conflict'' d False"
  "violation ''cycle_detected'' d False = RuleViolation ''cycle_detected'' d False"
  "violation ''relation_endpoint_missing'' d False = RuleViolation ''relation_endpoint_missing'' d False"
  "violation ''entity_id_mismatch'' d False = RuleViolation ''entity_id_mismatch'' d False"
  "violation ''delete_payload_not_empty'' d False = RuleViolation ''delete_payload_not_empty'' d False"
  "violation ''idempotency_conflict'' d False = RuleViolation ''idempotency_conflict'' d False"
  "violation ''invalid_payload_hash'' d False = RuleViolation ''invalid_payload_hash'' d False"
  "violation ''invalid_project_key'' d False = RuleViolation ''invalid_project_key'' d False"
  "violation ''project_key_conflict'' d False = RuleViolation ''project_key_conflict'' d False"
  "violation ''unsupported_content_version'' d False = RuleViolation ''unsupported_content_version'' d False"
  "violation ''invalid_note_document'' d False = RuleViolation ''invalid_note_document'' d False"
  "violation ''invalid_work_item_tree'' d False = RuleViolation ''invalid_work_item_tree'' d False"
  "violation ''not_found'' d False = RuleViolation ''not_found'' d False"
  "violation ''active_child_conflict'' d False = RuleViolation ''active_child_conflict'' d False"
  "violation ''active_session_exists'' d False = RuleViolation ''active_session_exists'' d False"
  "violation ''stale_session_owner'' d False = RuleViolation ''stale_session_owner'' d False"
  "violation ''session_activation_conflict'' d False = RuleViolation ''session_activation_conflict'' d False"
  "violation ''offline_formal_creation_forbidden'' d False =
     RuleViolation ''offline_formal_creation_forbidden'' d False"
  "violation ''command_result_unknown'' d True = RuleViolation ''command_result_unknown'' d True"
  "violation ''active_session_recovery_required'' d True =
     RuleViolation ''active_session_recovery_required'' d True"
  "violation ''work_item_structure_changed'' d False = RuleViolation ''work_item_structure_changed'' d False"
  "violation ''label_name_conflict'' d False = RuleViolation ''label_name_conflict'' d False"
  "violation ''archived_work_item_immutable'' d False = RuleViolation ''archived_work_item_immutable'' d False"
  "violation ''payload_field_not_allowed'' d False = RuleViolation ''payload_field_not_allowed'' d False"
  "violation ''server_managed_field_changed'' d False = RuleViolation ''server_managed_field_changed'' d False"
  by (simp_all add: violation_def validate_rejection_def MUTATION_REJECTION_SPECS_def)

section \<open>Child identifiers\<close>

lemma num_of_nat_digits [simp]: "num_of (nat_digits n) = n"
proof (induction n rule: nat_digits.induct)
  case (1 n)
  then show ?case
    by (cases "n < 10") (simp_all add: nat_digits.simps [of n] num_of_snoc num_of_def)
qed

lemma digits_nat_digits: "list_all is_digit (nat_digits n)"
proof (induction n rule: nat_digits.induct)
  case (1 n)
  then show ?case
    by (cases "n < 10") (simp_all add: nat_digits.simps [of n])
qed

lemma colon_not_digit [simp]: "\<not> is_digit (CHR '':'')"
  by (simp add: is_digit_def)

lemma prefix_before_colon:
  assumes "xs @ CHR '':'' # s = ys @ CHR '':'' # t" "list_all is_digit xs" "list_all is_digit ys"
  shows "xs = ys \<and> s = t"
  using assms
proof (induction xs arbitrary: ys)
  case Nil
  then show ?case by (cases ys) (auto simp: is_digit_def)
next
  case (Cons x xs)
  then show ?case by (cases ys) (auto simp: is_digit_def)
qed

lemma candidate_inject:
  assumes "nat_digits (length p) @ '':'' @ p @ '':'' @ s = nat_digits (length q) @ '':'' @ q @ '':'' @ t"
  shows "p = q \<and> s = t"
proof -
  have "nat_digits (length p) = nat_digits (length q) \<and> p @ '':'' @ s = q @ '':'' @ t"
    using assms by (intro prefix_before_colon) (simp_all add: digits_nat_digits)
  moreover from this have "length p = length q"
    by (metis num_of_nat_digits)
  ultimately show ?thesis by simp
qed

lemma child_message_inject:
  assumes "child_message p s = child_message q t" "length p \<le> 128" "length q \<le> 128"
  shows "p = q \<and> s = t"
proof -
  have "(char_of (length p) :: char) = char_of (length q)"
    using assms(1) by (simp add: child_message_def)
  then have "length p mod 256 = length q mod 256"
    by (metis of_char_of)
  with assms show ?thesis by (simp add: child_message_def)
qed

definition sha256_is_hex :: "digests \<Rightarrow> bool" where
  "sha256_is_hex dg = (\<forall>m. PAYLOAD_SHA256 (sha256_hex dg m))"

definition child_suffix_ok :: "string \<Rightarrow> bool" where
  "child_suffix_ok s = (s \<noteq> [] \<and> length s \<le> 512 \<and> set s \<subseteq> set child_suffix_chars)"

lemma child_suffix_ascii: "set s \<subseteq> set child_suffix_chars \<Longrightarrow> c \<in> set s \<Longrightarrow>
    0x21 \<le> (of_char c :: nat) \<and> (of_char c :: nat) < 128"
  by (auto simp: child_suffix_chars_def dest!: subsetD)

lemma child_suffix_guard:
  "(s = [] \<or> \<not> list_all (\<lambda>c. (of_char c :: nat) < 128) s \<or> 512 < length s \<or>
    (\<exists>c \<in> set s. c \<notin> set child_suffix_chars)) \<longleftrightarrow> \<not> child_suffix_ok s"
  using child_suffix_ascii [of s] by (auto simp: child_suffix_ok_def list_all_iff)

lemma bounded_child_cases:
  assumes "PRINTABLE_ASCII_OPERATION_ID p" "child_suffix_ok s" "sha256_is_hex dg"
  shows "bounded_child_operation_id dg p s =
     Inr (if length (nat_digits (length p)) + length p + length s \<le> 119
          then ''childp:'' @ nat_digits (length p) @ '':'' @ p @ '':'' @ s
          else ''childh:'' @ sha256_hex dg (child_message p s))"
    and "\<And>c. bounded_child_operation_id dg p s = Inr c \<Longrightarrow> PRINTABLE_ASCII_OPERATION_ID c"
proof -
  let ?c = "''childp:'' @ nat_digits (length p) @ '':'' @ p @ '':'' @ s"
  let ?b = "''childh:'' @ sha256_hex dg (child_message p s)"
  have digits: "list_all (\<lambda>c. 0x21 \<le> (of_char c :: nat) \<and> (of_char c :: nat) \<le> 0x7e)
      (nat_digits (length p))"
    using digits_nat_digits [of "length p"]
    by (auto simp: list_all_iff is_digit_def less_eq_char_def)
  have suffix: "list_all (\<lambda>c. 0x21 \<le> (of_char c :: nat) \<and> (of_char c :: nat) \<le> 0x7e) s"
    using assms(2) unfolding child_suffix_ok_def list_all_iff child_suffix_chars_def
    by (auto dest!: subsetD)
  have c: "length ?c \<le> 128 \<Longrightarrow> PRINTABLE_ASCII_OPERATION_ID ?c"
    using digits suffix assms(1) by (simp add: PRINTABLE_ASCII_OPERATION_ID_def)
  have hex: "PAYLOAD_SHA256 (sha256_hex dg (child_message p s))"
    using assms(3) by (simp add: sha256_is_hex_def)
  have "list_all (\<lambda>c. 0x21 \<le> (of_char c :: nat) \<and> (of_char c :: nat) \<le> 0x7e)
      (sha256_hex dg (child_message p s))"
    using hex unfolding PAYLOAD_SHA256_def by (auto simp: list_all_iff is_hex_def dest!: bspec)
  then have b: "PRINTABLE_ASCII_OPERATION_ID ?b"
    using hex by (simp add: PRINTABLE_ASCII_OPERATION_ID_def PAYLOAD_SHA256_def)
  show eq: "bounded_child_operation_id dg p s = Inr (if length (nat_digits (length p)) + length p + length s \<le> 119
          then ?c else ?b)"
    unfolding bounded_child_operation_id_def validate_operation_id_def child_suffix_guard Let_def
    using assms(1,2) c b by (simp add: add.assoc)
  show "PRINTABLE_ASCII_OPERATION_ID d" if "bounded_child_operation_id dg p s = Inr d" for d
    using that eq c b by (auto simp del: append.simps split: if_splits)
qed

lemma bounded_child_Inr:
  assumes "bounded_child_operation_id dg p s = Inr c"
  shows "PRINTABLE_ASCII_OPERATION_ID p \<and> child_suffix_ok s \<and> PRINTABLE_ASCII_OPERATION_ID c \<and>
    (c = ''childp:'' @ nat_digits (length p) @ '':'' @ p @ '':'' @ s \<or>
     c = ''childh:'' @ sha256_hex dg (child_message p s))"
  using assms unfolding bounded_child_operation_id_def child_suffix_guard Let_def validate_operation_id_def
  by (auto simp: result_simps simp del: append.simps split: if_splits)

text \<open>
  The child identifier of a valid parent and suffix always exists, is itself a valid
  operation identifier (so it can be stored, and be a parent again), and determines the parent and
  the suffix it was derived from, unless SHA-256 maps two different framed messages to one digest.
\<close>

theorem child_operation_id_unique:
  assumes "sha256_is_hex dg"
  assumes "PRINTABLE_ASCII_OPERATION_ID p" "child_suffix_ok s"
  assumes "PRINTABLE_ASCII_OPERATION_ID q" "child_suffix_ok t"
  shows "\<exists>c d. bounded_child_operation_id dg p s = Inr c \<and> bounded_child_operation_id dg q t = Inr d \<and>
    PRINTABLE_ASCII_OPERATION_ID c \<and> PRINTABLE_ASCII_OPERATION_ID d \<and>
    (c = d \<longrightarrow> (p = q \<and> s = t) \<or>
       (child_message p s \<noteq> child_message q t \<and>
        sha256_hex dg (child_message p s) = sha256_hex dg (child_message q t)))"
proof -
  obtain c d where c: "bounded_child_operation_id dg p s = Inr c"
    and d: "bounded_child_operation_id dg q t = Inr d"
    using bounded_child_cases(1) assms by metis
  have len: "length p \<le> 128" "length q \<le> 128"
    using assms(2,4) by (simp_all add: PRINTABLE_ASCII_OPERATION_ID_def)
  have "(p = q \<and> s = t) \<or> (child_message p s \<noteq> child_message q t \<and>
      sha256_hex dg (child_message p s) = sha256_hex dg (child_message q t))" if "c = d"
    using that bounded_child_Inr [OF c] bounded_child_Inr [OF d]
      candidate_inject [of p s q t] child_message_inject [OF _ len, of s t]
    by auto
  with c d bounded_child_Inr [OF c] bounded_child_Inr [OF d] show ?thesis by blast
qed

lemma child_operation_id_unique_witness:
  "\<exists>dg c. bounded_child_operation_id dg ''op-1'' ''0'' = Inr c \<and> PRINTABLE_ASCII_OPERATION_ID c"
proof -
  let ?dg = "\<lparr>sha256_hex = \<lambda>_. replicate 64 (CHR ''0''), rfc8785_dumps = \<lambda>_. []\<rparr>"
  have "sha256_is_hex ?dg"
    by (simp add: sha256_is_hex_def PAYLOAD_SHA256_def is_hex_def list_all_iff)
  moreover have "PRINTABLE_ASCII_OPERATION_ID ''op-1''" "child_suffix_ok ''0''"
    by (simp_all add: PRINTABLE_ASCII_OPERATION_ID_def child_suffix_ok_def child_suffix_chars_def)
  ultimately show ?thesis
    using child_operation_id_unique [of ?dg "''op-1''" "''0''" "''op-1''" "''0''"] by blast
qed

section \<open>Contained paths\<close>

lemma split_on_parts: "c \<notin> set s \<Longrightarrow> split_on c s = [s]"
  by (induction s) auto

fun join_with :: "char \<Rightarrow> string list \<Rightarrow> string" where
  "join_with c [] = []"
| "join_with c [p] = p"
| "join_with c (p # q # ps) = p @ c # join_with c (q # ps)"

lemma join_split_on: "join_with c (split_on c s) = s"
proof (induction s)
  case (Cons x xs)
  obtain p ps where "split_on c xs = p # ps" by (cases "split_on c xs") simp_all
  with Cons show ?case by (cases ps) auto
qed simp

text \<open>
  What a POSIX file system does with a relative path below a directory: empty and \<open>.\<close> components
  stay, \<open>..\<close> goes to the parent (\<open>None\<close> when that would leave the root of the file system).
\<close>

fun resolve_path :: "string list \<Rightarrow> string list \<Rightarrow> string list option" where
  "resolve_path dir [] = Some dir"
| "resolve_path dir (p # ps) =
     (if p = '''' \<or> p = ''.'' then resolve_path dir ps
      else if p = ''..'' then (if dir = [] then None else resolve_path (butlast dir) ps)
      else resolve_path (dir @ [p]) ps)"

lemma resolve_plain:
  "\<forall>p \<in> set ps. p \<notin> {'''', ''.'', ''..''} \<Longrightarrow> resolve_path dir ps = Some (dir @ ps)"
  by (induction dir ps rule: resolve_path.induct) auto

definition names_staged_image :: "string list \<Rightarrow> bool" where
  "names_staged_image parts = (\<exists>batch side file rest. parts = batch # side # file # rest \<and>
     PAYLOAD_SHA256 batch \<and> side \<in> {''before'', ''after''})"

lemma names_staged_image_iff:
  "names_staged_image parts \<longleftrightarrow> 3 \<le> length parts \<and> PAYLOAD_SHA256 (hd parts) \<and> parts ! 1 \<in> {''before'', ''after''}"
  by (cases parts rule: remdups_adj.cases; cases "tl (tl parts)") (auto simp: names_staged_image_def)

lemma contained_field_Inr:
  "contained_projection_action_field v = Inr w \<Longrightarrow>
   w = v \<and> v \<noteq> [] \<and> (\<forall>p \<in> set (split_on (CHR ''/'') v). p \<notin> {'''', ''.'', ''..''}) \<and>
   hd (split_on (CHR ''/'') v) \<notin> {''.mutations'', ''before'', ''after''} \<and> v \<noteq> ''manifest.json'' \<and>
   \<not> names_staged_image (split_on (CHR ''/'') v)"
  by (auto simp: contained_projection_action_field_def names_staged_image_iff Let_def split: if_split_asm)

text \<open>
  C39: An accepted projection location resolves, below any directory, to a place properly
  inside that directory, and two different accepted locations never resolve to the same place. The place
  is none of the staging locations: it is not below \<open>.mutations\<close>, \<open>before\<close> or \<open>after\<close>, it is not the
  manifest, and it is not below the \<open>before\<close> or \<open>after\<close> directory of a batch directory, which is named by
  a digest of 64 lowercase hex characters.
\<close>

theorem contained_field_stays_inside:
  assumes "contained_projection_action_field v = Inr w" "contained_projection_action_field v' = Inr w'"
  shows "\<exists>parts parts'. resolve_path dir (split_on (CHR ''/'') w) = Some (dir @ parts) \<and>
    resolve_path dir (split_on (CHR ''/'') w') = Some (dir @ parts') \<and>
    parts \<noteq> [] \<and> hd parts \<notin> {''.mutations'', ''before'', ''after''} \<and> parts \<noteq> [''manifest.json''] \<and>
    \<not> names_staged_image parts \<and>
    (parts = parts' \<longleftrightarrow> v = v')"
proof -
  note v = contained_field_Inr [OF assms(1)] and v' = contained_field_Inr [OF assms(2)]
  have "resolve_path dir (split_on (CHR ''/'') w) = Some (dir @ split_on (CHR ''/'') v)"
    "resolve_path dir (split_on (CHR ''/'') w') = Some (dir @ split_on (CHR ''/'') v')"
    using v v' by (simp_all add: resolve_plain)
  moreover have "split_on (CHR ''/'') v \<noteq> [''manifest.json'']"
    using v join_split_on [of "CHR ''/''" v] by (metis join_with.simps(2))
  moreover have "split_on (CHR ''/'') v = split_on (CHR ''/'') v' \<longleftrightarrow> v = v'"
    by (metis join_split_on)
  ultimately show ?thesis using v by (intro exI conjI) simp_all
qed

lemma contained_field_stays_inside_witness:
  "\<exists>parts. resolve_path [''space''] (split_on (CHR ''/'') ''notes/a.md'') = Some ([''space''] @ parts) \<and>
     parts \<noteq> []"
  using contained_field_stays_inside [of "''notes/a.md''" "''notes/a.md''" "''notes/a.md''" "''notes/a.md''"
      "[''space'']"]
  by (simp add: contained_projection_action_field_def PAYLOAD_SHA256_def)

section \<open>Requests and commands carry their own digest\<close>

lemma request_from_payload_Inr:
  "request_from_payload dg n t e p ev cua = Inr rq \<Longrightarrow>
   rq_name rq = n \<and> rq_entity_type rq = t \<and> rq_entity_id rq = e \<and> rq_payload rq = p \<and>
   rq_expected_version rq = ev \<and> rq_client_updated_at rq = cua"
  by (auto simp: request_from_payload_def MutationRequest_def result_simps)

lemma command_from_effects_Inr:
  "command_from_effects dg rq plans projections events result resolution = Inr c \<Longrightarrow>
   cm_request c = rq \<and> cm_plans c = plans \<and> cm_projections c = projections \<and> cm_events c = events \<and>
   cm_value c = result \<and> cm_resolution c = resolution"
  by (auto simp: command_from_effects_def MutationCommand_def result_simps)

lemma command_without_projections:
  assumes "resolution = None \<or> resolution = Some ''remote''"
  shows "\<exists>c. command_from_effects dg rq plans [] events result resolution = Inr c"
  using assms by (simp add: command_from_effects_def MutationCommand_def validate_projection_ordinals_def
      validate_resolution_def)

lemma persisted_Inr:
  assumes "command_from_effects dg rq plans projections events result resolution = Inr c"
  shows "\<exists>p. persisted dg c = Inr p \<and> pc_hash p = cm_hash c"
  using assms
proof -
  obtain ds where ds: "rmap (persisted_descriptor dg) projections = Inr ds"
    and ok: "MutationCommand dg rq plans projections events result resolution
      (calculate_persisted_command_hash dg rq plans ds events result resolution) = Inr c"
    using assms by (auto simp: command_from_effects_def result_simps)
  have "map pd_ordinal ds = map pj_ordinal projections"
    using ds
    by (induction projections arbitrary: ds)
       (auto simp: result_simps persisted_descriptor_def PersistedProjectionDescriptor_def)
  then show ?thesis
    using ds ok
    by (clarsimp simp: MutationCommand_def result_simps) (simp add: persisted_def PersistedMutationCommand_def)
qed

end
