(* ===== verification/Catalog.thy ===== *)
theory Catalog
  imports Mutation "HOL-Library.Multiset"
begin

text \<open>
  The entity vocabulary (\<open>app/registry/entities.py\<close>), the registry and its compilation into an
  immutable catalog (\<open>app/registry/__init__.py\<close>, \<open>app/registry/catalog.py\<close>).

  What the compiler asks of the Python process while it runs (does a dotted path import, has a
  module an attribute, what is the primary key column of a mapped model) is the record
  \<open>process\<close>, a parameter.
\<close>

section \<open>Entity specifications\<close>

datatype sync_conflict_policy = TIMESTAMP_LWW | STRICT_CAS

definition require_sync_conflict_policy :: "string \<Rightarrow> sync_conflict_policy res" where
  "require_sync_conflict_policy v =
     (if v = ''timestamp_lww'' then Inr TIMESTAMP_LWW
      else if v = ''strict_cas'' then Inr STRICT_CAS
      else Inl (ValueErr (''unsupported sync_conflict_policy: '' @ v)))"

datatype storage_type = DB_ONLY | FS_DB_SPLIT | SYSTEM

datatype entity_category = BUSINESS | SYNC_INFRA | META | SETTING

datatype field_spec = FieldSpec
  (f_name: string) (f_type: string) (f_nullable: bool) (f_default: json) (f_indexed: bool)
  (f_unique: bool) (f_description: string)

record entity_spec =
  es_name :: string
  es_model_path :: string
  es_table_name :: string
  es_storage_type :: storage_type
  es_category :: entity_category
  es_sync_enabled :: bool
  es_soft_delete :: bool
  es_fields :: "field_spec list"
  es_primary_key :: string
  es_composite_primary_key :: "string list option"
  es_sync_entity_type :: "string option"
  es_pull_key :: "string option"
  es_route_prefix :: "string option"
  es_service_path :: "string option"
  es_schema_module :: "string option"
  es_schema_prefix :: "string option"
  es_delete_strategy :: string
  es_route_enabled :: bool
  es_mcp_schema_enabled :: bool
  es_sync_conflict_policy :: string
  es_junction_endpoints :: "(string \<times> string) list option"
  es_description :: string

text \<open>The positional fields of \<open>EntitySpec\<close>; every other field has its class default.\<close>

definition EntitySpec :: "string \<Rightarrow> string \<Rightarrow> string \<Rightarrow> storage_type \<Rightarrow> entity_category \<Rightarrow> bool \<Rightarrow>
    bool \<Rightarrow> field_spec list \<Rightarrow> entity_spec" where
  "EntitySpec name model_path table_name storage_type category sync_enabled soft_delete flds =
     \<lparr>es_name = name, es_model_path = model_path, es_table_name = table_name,
      es_storage_type = storage_type, es_category = category, es_sync_enabled = sync_enabled,
      es_soft_delete = soft_delete, es_fields = flds, es_primary_key = ''id'',
      es_composite_primary_key = None, es_sync_entity_type = None, es_pull_key = None,
      es_route_prefix = None, es_service_path = None, es_schema_module = None,
      es_schema_prefix = None, es_delete_strategy = ''hard_tombstone'', es_route_enabled = False,
      es_mcp_schema_enabled = True, es_sync_conflict_policy = ''timestamp_lww'',
      es_junction_endpoints = None, es_description = []\<rparr>"

definition field_names :: "entity_spec \<Rightarrow> string list" where
  "field_names spec = map f_name (es_fields spec)"

text \<open>\<open>sync_entity_type or name\<close>: an empty text counts as absent.\<close>

definition or_default :: "string option \<Rightarrow> string \<Rightarrow> string" where
  "or_default v d = (case v of Some (c # cs) \<Rightarrow> c # cs | _ \<Rightarrow> d)"

definition effective_sync_entity_type :: "entity_spec \<Rightarrow> string" where
  "effective_sync_entity_type spec = or_default (es_sync_entity_type spec) (es_name spec)"

definition effective_pull_key :: "entity_spec \<Rightarrow> string" where
  "effective_pull_key spec = or_default (es_pull_key spec) (es_name spec @ ''s'')"

section \<open>The registry\<close>

record registry =
  rg_specs :: "(string \<times> entity_spec) list"
  rg_compiled :: bool

definition register :: "registry \<Rightarrow> entity_spec \<Rightarrow> registry res" where
  "register rg spec =
     (if rg_compiled rg then Inl (ValueErr ''entity registry is sealed'')
      else if map_of (rg_specs rg) (es_name spec) \<noteq> None
      then Inl (ValueErr (''Entity '' @ es_name spec @ '' already registered''))
      else Inr (rg\<lparr>rg_specs := rg_specs rg @ [(es_name spec, spec)]\<rparr>))"

fun register_all :: "registry \<Rightarrow> entity_spec list \<Rightarrow> registry res" where
  "register_all rg [] = Inr rg"
| "register_all rg (s # ss) = rbind (register rg s) (\<lambda>rg'. register_all rg' ss)"

definition registry_list :: "registry \<Rightarrow> entity_spec list" where
  "registry_list rg = map snd (rg_specs rg)"

section \<open>Compiling a catalog\<close>

record catalog =
  ct_version :: string
  ct_hash :: string
  ct_by_name :: "(string \<times> entity_spec) list"
  ct_by_sync_key :: "(string \<times> entity_spec) list"
  ct_sync_enabled :: "entity_spec list"

record process =
  pr_resolves :: "string \<Rightarrow> bool"
  pr_imports :: "string \<Rightarrow> bool"
  pr_schema_attr :: "string \<Rightarrow> string \<Rightarrow> bool"
  pr_pk_column :: "string \<Rightarrow> string \<Rightarrow> (bool \<times> string) option"
  pr_sha256_json :: "json \<Rightarrow> string"

definition storage_text :: "storage_type \<Rightarrow> string" where
  "storage_text t = (case t of DB_ONLY \<Rightarrow> ''db_only'' | FS_DB_SPLIT \<Rightarrow> ''fs_db_split''
     | SYSTEM \<Rightarrow> ''system'')"

definition category_text :: "entity_category \<Rightarrow> string" where
  "category_text c = (case c of BUSINESS \<Rightarrow> ''business'' | SYNC_INFRA \<Rightarrow> ''sync_infra''
     | META \<Rightarrow> ''meta'' | SETTING \<Rightarrow> ''setting'')"

definition canonical_spec :: "entity_spec \<Rightarrow> json" where
  "canonical_spec s = JObj
     [(''name'', JStr (es_name s)),
      (''model_path'', JStr (es_model_path s)),
      (''table_name'', JStr (es_table_name s)),
      (''storage_type'', JStr (storage_text (es_storage_type s))),
      (''category'', JStr (category_text (es_category s))),
      (''sync_enabled'', JBool (es_sync_enabled s)),
      (''soft_delete'', JBool (es_soft_delete s)),
      (''primary_key'', JStr (es_primary_key s)),
      (''composite_primary_key'',
         json_opt (\<lambda>ks. JList (map JStr ks)) (es_composite_primary_key s)),
      (''fields'', JList (map (\<lambda>f. JObj
         [(''name'', JStr (f_name f)), (''type'', JStr (f_type f)),
          (''nullable'', JBool (f_nullable f)), (''default'', f_default f),
          (''indexed'', JBool (f_indexed f)), (''unique'', JBool (f_unique f)),
          (''description'', JStr (f_description f))]) (es_fields s))),
      (''sync_entity_type'', json_opt JStr (es_sync_entity_type s)),
      (''pull_key'', json_opt JStr (es_pull_key s)),
      (''route_prefix'', json_opt JStr (es_route_prefix s)),
      (''delete_strategy'', JStr (es_delete_strategy s)),
      (''route_enabled'', JBool (es_route_enabled s)),
      (''mcp_schema_enabled'', JBool (es_mcp_schema_enabled s)),
      (''sync_conflict_policy'', JStr (es_sync_conflict_policy s)),
      (''junction_endpoints'',
         json_opt (\<lambda>ps. JList (map (\<lambda>(f, t). JList [JStr f, JStr t]) ps)) (es_junction_endpoints s))]"

definition opt_truthy :: "string option \<Rightarrow> bool" where
  "opt_truthy v = (case v of Some s \<Rightarrow> s \<noteq> [] | None \<Rightarrow> False)"

definition resolve_attribute :: "process \<Rightarrow> string \<Rightarrow> string \<Rightarrow> unit res" where
  "resolve_attribute pr path label =
     require (pr_resolves pr path) (ValueErr (label @ '' cannot be resolved: '' @ path))"

record compile_state =
  cs_names :: "string list"
  cs_tables :: "string list"
  cs_routes :: "string list"
  cs_sync_keys :: "string list"

definition check_routes :: "compile_state \<Rightarrow> entity_spec \<Rightarrow> unit res" where
  "check_routes st spec =
     (if es_route_enabled spec \<and>
         (\<not> opt_truthy (es_route_prefix spec) \<or> the (es_route_prefix spec) \<in> set (cs_routes st))
      then Inl (ValueErr (''duplicate or missing route: '' @
                          (case es_route_prefix spec of None \<Rightarrow> ''None'' | Some r \<Rightarrow> r)))
      else require
        (es_route_enabled spec \<longrightarrow> opt_truthy (es_service_path spec) \<and>
           opt_truthy (es_schema_module spec) \<and> opt_truthy (es_schema_prefix spec))
        (ValueErr (''route contract incomplete: '' @ es_name spec)))"

definition check_contracts :: "process \<Rightarrow> entity_spec \<Rightarrow> unit res" where
  "check_contracts pr spec =
     rbind (if opt_truthy (es_service_path spec)
            then resolve_attribute pr (the (es_service_path spec)) ''service path'' else Inr ()) (\<lambda>_.
     if opt_truthy (es_schema_module spec) \<and> opt_truthy (es_schema_prefix spec)
     then rbind (require (pr_imports pr (the (es_schema_module spec)))
                   (ImportErr (the (es_schema_module spec)))) (\<lambda>_.
          require (pr_schema_attr pr (the (es_schema_module spec)) (the (es_schema_prefix spec)))
            (ValueErr (''schema prefix cannot be resolved: '' @ the (es_schema_prefix spec))))
     else require
        (\<not> (es_route_enabled spec \<or> es_mcp_schema_enabled spec \<and> opt_truthy (es_schema_module spec)))
        (ValueErr (''schema contract incomplete: '' @ es_name spec)))"

definition check_keys :: "entity_spec \<Rightarrow> unit res" where
  "check_keys spec =
     rbind (require (es_primary_key spec \<in> set (field_names spec))
              (ValueErr (''primary key missing: '' @ es_primary_key spec))) (\<lambda>_.
     rbind (case es_composite_primary_key spec of
              None \<Rightarrow> Inr ()
            | Some ks \<Rightarrow>
                if length ks < 2
                then Inl (ValueErr (''composite primary key needs at least two fields: '' @ es_name spec))
                else (case filter (\<lambda>k. k \<notin> set (field_names spec)) ks of
                        [] \<Rightarrow> Inr ()
                      | missing \<Rightarrow> Inl (ValueErr (''composite primary key field missing: '' @
                          es_name spec @ ''.'' @ join_with (CHR '','') missing)))) (\<lambda>_.
     case es_junction_endpoints spec of
       None \<Rightarrow> Inr ()
     | Some eps \<Rightarrow> rforeach (\<lambda>(f, _). require (f \<in> set (field_names spec))
         (ValueErr (''junction endpoint field not in spec fields: '' @ f))) eps))"

definition check_sync_pk :: "process \<Rightarrow> entity_spec \<Rightarrow> unit res" where
  "check_sync_pk pr spec =
     (if \<not> es_sync_enabled spec then Inr ()
      else case pr_pk_column pr (es_model_path spec) (es_primary_key spec) of
        None \<Rightarrow> Inl (ValueErr (''primary key cannot be resolved: '' @ es_primary_key spec))
      | Some (nullable, type_name) \<Rightarrow>
          require (\<not> nullable \<and> type_name \<in> {''string'', ''varchar'', ''text''})
            (ValueErr (''sync primary key must be nonnullable string: '' @ es_primary_key spec)))"

definition compile_step :: "process \<Rightarrow> compile_state \<Rightarrow> entity_spec \<Rightarrow> compile_state res" where
  "compile_step pr st spec =
     rbind (require_sync_conflict_policy (es_sync_conflict_policy spec)) (\<lambda>_.
     rbind (require (es_name spec \<notin> set (cs_names st))
              (ValueErr (''duplicate entity name: '' @ es_name spec))) (\<lambda>_.
     rbind (require (es_table_name spec \<notin> set (cs_tables st))
              (ValueErr (''duplicate table: '' @ es_table_name spec))) (\<lambda>_.
     rbind (check_routes st spec) (\<lambda>_.
     rbind (check_contracts pr spec) (\<lambda>_.
     rbind (require (\<not> (es_sync_enabled spec \<and>
                        effective_sync_entity_type spec \<in> set (cs_sync_keys st)))
              (ValueErr (''duplicate sync key: '' @ effective_sync_entity_type spec))) (\<lambda>_.
     rbind (require (es_delete_strategy spec \<in>
                       {''hard_tombstone'', ''soft_delete'', ''cascade_soft_delete'', ''fs_saga''})
              (ValueErr (''unknown delete strategy: '' @ es_delete_strategy spec))) (\<lambda>_.
     rbind (check_keys spec) (\<lambda>_.
     rbind (require (pr_resolves pr (es_model_path spec))
              (ValueErr (''model path cannot be resolved: '' @ es_model_path spec))) (\<lambda>_.
     rbind (check_sync_pk pr spec) (\<lambda>_.
     Inr \<lparr>cs_names = es_name spec # cs_names st,
          cs_tables = es_table_name spec # cs_tables st,
          cs_routes = (if opt_truthy (es_route_prefix spec)
                       then the (es_route_prefix spec) # cs_routes st else cs_routes st),
          cs_sync_keys = (if es_sync_enabled spec
                          then effective_sync_entity_type spec # cs_sync_keys st
                          else cs_sync_keys st)\<rparr>))))))))))"

fun compile_steps :: "process \<Rightarrow> compile_state \<Rightarrow> entity_spec list \<Rightarrow> compile_state res" where
  "compile_steps pr st [] = Inr st"
| "compile_steps pr st (s # ss) = rbind (compile_step pr st s) (\<lambda>st'. compile_steps pr st' ss)"

definition check_endpoints :: "string list \<Rightarrow> entity_spec \<Rightarrow> unit res" where
  "check_endpoints names spec = (case es_junction_endpoints spec of
       None \<Rightarrow> Inr ()
     | Some eps \<Rightarrow> rforeach (\<lambda>(_, t). require (t \<in> set names)
         (ValueErr (''junction endpoint entity type not in catalog: '' @ t))) eps)"

definition compile_catalog :: "process \<Rightarrow> entity_spec list \<Rightarrow> string \<Rightarrow> catalog res" where
  "compile_catalog pr specs version =
     (let ordered = sort_key es_name specs in
      rbind (require (ordered \<noteq> []) (ValueErr ''catalog cannot be empty'')) (\<lambda>_.
      rbind (compile_steps pr \<lparr>cs_names = [], cs_tables = [], cs_routes = [], cs_sync_keys = []\<rparr> ordered)
        (\<lambda>st.
      rbind (rforeach (check_endpoints (cs_names st)) ordered) (\<lambda>_.
      Inr \<lparr>ct_version = version,
           ct_hash = pr_sha256_json pr (JList (map canonical_spec ordered)),
           ct_by_name = map (\<lambda>s. (es_name s, s)) ordered,
           ct_by_sync_key = map (\<lambda>s. (effective_sync_entity_type s, s)) (filter es_sync_enabled ordered),
           ct_sync_enabled = filter es_sync_enabled ordered\<rparr>))))"

text \<open>Reading a catalog. The keys of both maps are distinct, so the first match is the only one.\<close>

definition catalog_get :: "catalog \<Rightarrow> string \<Rightarrow> entity_spec option" where
  "catalog_get ct name = map_of (ct_by_name ct) name"

definition catalog_try_get_by_sync_key :: "catalog \<Rightarrow> string \<Rightarrow> entity_spec option" where
  "catalog_try_get_by_sync_key ct key = map_of (ct_by_sync_key ct) key"

definition catalog_list :: "catalog \<Rightarrow> entity_spec list" where
  "catalog_list ct = map snd (ct_by_name ct)"

definition catalog_list_by_category :: "catalog \<Rightarrow> entity_category \<Rightarrow> entity_spec list" where
  "catalog_list_by_category ct c = filter (\<lambda>s. es_category s = c) (catalog_list ct)"

definition catalog_list_soft_delete :: "catalog \<Rightarrow> entity_spec list" where
  "catalog_list_soft_delete ct = filter es_soft_delete (catalog_list ct)"

definition junction_endpoints_for :: "catalog \<Rightarrow> string \<Rightarrow> (string \<times> string) list option" where
  "junction_endpoints_for ct name =
     (case catalog_get ct name of None \<Rightarrow> None | Some spec \<Rightarrow> es_junction_endpoints spec)"

section \<open>What a compiled catalog guarantees\<close>

definition catalog_wf :: "catalog \<Rightarrow> bool" where
  "catalog_wf ct =
     (distinct (map fst (ct_by_name ct)) \<and>
      distinct (map es_table_name (catalog_list ct)) \<and>
      distinct (map fst (ct_by_sync_key ct)) \<and>
      (\<forall>(n, s) \<in> set (ct_by_name ct). n = es_name s \<and> es_primary_key s \<in> set (field_names s) \<and>
         (\<forall>ks. es_composite_primary_key s = Some ks \<longrightarrow> 2 \<le> length ks \<and> set ks \<subseteq> set (field_names s))))"

lemma map_of_keyed: "distinct (map f xs) \<Longrightarrow> x \<in> set xs \<Longrightarrow> map_of (map (\<lambda>x. (f x, x)) xs) (f x) = Some x"
  by (induction xs) (auto simp: rev_image_eqI)

lemma compile_step_Inr:
  assumes "compile_step pr st spec = Inr st'"
  shows "cs_names st' = es_name spec # cs_names st" "es_name spec \<notin> set (cs_names st)"
    and "cs_tables st' = es_table_name spec # cs_tables st" "es_table_name spec \<notin> set (cs_tables st)"
    and "cs_sync_keys st' = (if es_sync_enabled spec then [effective_sync_entity_type spec] else []) @ cs_sync_keys st"
    and "es_sync_enabled spec \<Longrightarrow> effective_sync_entity_type spec \<notin> set (cs_sync_keys st)"
    and "check_keys spec = Inr ()"
  using assms unfolding compile_step_def result_simps by auto

lemma check_keys_Inr:
  assumes "check_keys spec = Inr ()"
  shows "es_primary_key spec \<in> set (field_names spec)"
    and "es_composite_primary_key spec = Some ks \<Longrightarrow> 2 \<le> length ks \<and> set ks \<subseteq> set (field_names spec)"
  using assms unfolding check_keys_def result_simps
  by (auto split: if_splits list.splits simp: filter_empty_conv)

lemma compile_steps_Inr:
  assumes "compile_steps pr st specs = Inr st'" "distinct (cs_names st)" "distinct (cs_tables st)"
    "distinct (cs_sync_keys st)"
  shows "cs_names st' = rev (map es_name specs) @ cs_names st \<and> distinct (cs_names st') \<and>
    cs_tables st' = rev (map es_table_name specs) @ cs_tables st \<and> distinct (cs_tables st') \<and>
    cs_sync_keys st' = rev (map effective_sync_entity_type (filter es_sync_enabled specs)) @ cs_sync_keys st \<and>
    distinct (cs_sync_keys st') \<and> (\<forall>s \<in> set specs. check_keys s = Inr ())"
  using assms
proof (induction specs arbitrary: st)
  case (Cons s specs)
  then obtain st1 where st1: "compile_step pr st s = Inr st1" "compile_steps pr st1 specs = Inr st'"
    by (auto simp: rbind_Inr)
  note step = compile_step_Inr [OF st1(1)]
  have "distinct (cs_names st1)" "distinct (cs_tables st1)" "distinct (cs_sync_keys st1)"
    using step Cons.prems by auto
  note IH = Cons.IH [OF st1(2) this]
  have names: "cs_names st' = rev (map es_name (s # specs)) @ cs_names st"
    and tables: "cs_tables st' = rev (map es_table_name (s # specs)) @ cs_tables st"
    and keys: "cs_sync_keys st' =
      rev (map effective_sync_entity_type (filter es_sync_enabled (s # specs))) @ cs_sync_keys st"
    using IH step(1,3,5) by simp_all
  have "distinct (cs_names st')" "distinct (cs_tables st')" "distinct (cs_sync_keys st')"
    using IH by blast+
  with names tables keys show ?case using IH step(7) by simp
qed simp

lemma compile_catalog_facts:
  assumes "compile_catalog pr specs version = Inr ct"
  shows "catalog_wf ct \<and> mset (catalog_list ct) = mset specs \<and>
    (\<forall>s \<in> set specs. catalog_get ct (es_name s) = Some s) \<and>
    (\<forall>s \<in> set specs. es_sync_enabled s \<longrightarrow>
       catalog_try_get_by_sync_key ct (effective_sync_entity_type s) = Some s)"
proof -
  let ?o = "sort_key es_name specs"
  obtain st where st: "compile_steps pr \<lparr>cs_names = [], cs_tables = [], cs_routes = [], cs_sync_keys = []\<rparr> ?o = Inr st"
    and ct: "ct_by_name ct = map (\<lambda>s. (es_name s, s)) ?o"
      "ct_by_sync_key ct = map (\<lambda>s. (effective_sync_entity_type s, s)) (filter es_sync_enabled ?o)"
    using assms by (auto simp: compile_catalog_def Let_def result_simps)
  have d: "distinct (map es_name ?o)" "distinct (map es_table_name ?o)"
    "distinct (map effective_sync_entity_type (filter es_sync_enabled ?o))"
    "\<forall>s \<in> set ?o. check_keys s = Inr ()"
    using compile_steps_Inr [OF st] by (simp_all) (metis distinct_rev)+
  have fst1: "map fst (ct_by_name ct) = map es_name ?o" and list: "catalog_list ct = ?o"
    and fst2: "map fst (ct_by_sync_key ct) = map effective_sync_entity_type (filter es_sync_enabled ?o)"
    by (simp_all add: ct catalog_list_def comp_def)
  have "catalog_wf ct"
    unfolding catalog_wf_def fst1 fst2 list
    using d check_keys_Inr by (fastforce simp: ct)
  moreover have "catalog_get ct (es_name s) = Some s" if "s \<in> set specs" for s
    using that d(1) by (simp add: catalog_get_def ct(1) map_of_keyed)
  moreover have "catalog_try_get_by_sync_key ct (effective_sync_entity_type s) = Some s"
    if "s \<in> set specs" "es_sync_enabled s" for s
    using that d(3) by (simp add: catalog_try_get_by_sync_key_def ct(2) map_of_keyed)
  moreover have "mset (catalog_list ct) = mset specs"
    by (simp add: list)
  ultimately show ?thesis by blast
qed

text \<open>
  C40: A catalog that compiles is well formed: entity names, tables and sync keys are unique, every
  entity is found under its own name, and its (single or composite) primary key is made of declared
  fields. Every registered entity is in it.
\<close>

theorem compile_catalog_wf:
  assumes "compile_catalog pr specs version = Inr ct"
  shows "catalog_wf ct \<and> mset (catalog_list ct) = mset specs \<and>
    (\<forall>s \<in> set specs. catalog_get ct (es_name s) = Some s) \<and>
    (\<forall>s \<in> set specs. es_sync_enabled s \<longrightarrow>
       catalog_try_get_by_sync_key ct (effective_sync_entity_type s) = Some s)"
  using assms by (rule compile_catalog_facts)

section \<open>When a catalog compiles\<close>

text \<open>What the process must provide for the declared paths: they import, and keys are text columns.\<close>

definition process_loads :: "process \<Rightarrow> entity_spec \<Rightarrow> bool" where
  "process_loads pr s =
     (pr_resolves pr (es_model_path s) \<and>
      (\<forall>p. es_service_path s = Some p \<longrightarrow> pr_resolves pr p) \<and>
      (\<forall>m a. es_schema_module s = Some m \<longrightarrow> es_schema_prefix s = Some a \<longrightarrow>
         pr_imports pr m \<and> pr_schema_attr pr m a) \<and>
      (es_sync_enabled s \<longrightarrow>
         pr_pk_column pr (es_model_path s) (es_primary_key s) = Some (False, ''string'')))"

text \<open>What a declaration must satisfy by itself.\<close>

definition declaration_ok :: "entity_spec \<Rightarrow> bool" where
  "declaration_ok s =
     (es_sync_conflict_policy s \<in> {''timestamp_lww'', ''strict_cas''} \<and>
      es_delete_strategy s \<in> {''hard_tombstone'', ''soft_delete'', ''cascade_soft_delete'', ''fs_saga''} \<and>
      (es_route_enabled s \<longrightarrow> opt_truthy (es_route_prefix s) \<and> opt_truthy (es_service_path s)) \<and>
      (es_route_enabled s \<or> es_schema_module s \<noteq> None \<longrightarrow>
         opt_truthy (es_schema_module s) \<and> opt_truthy (es_schema_prefix s)) \<and>
      check_keys s = Inr ())"

definition route_prefixes :: "entity_spec list \<Rightarrow> string list" where
  "route_prefixes specs = map (the \<circ> es_route_prefix) (filter (opt_truthy \<circ> es_route_prefix) specs)"

lemma opt_truthy_Some: "opt_truthy v \<Longrightarrow> \<exists>s. v = Some s \<and> s \<noteq> []"
  by (cases v) (simp_all add: opt_truthy_def)

lemma check_contracts_ok:
  "process_loads pr s \<Longrightarrow> declaration_ok s \<Longrightarrow> check_contracts pr s = Inr ()"
  unfolding process_loads_def declaration_ok_def check_contracts_def resolve_attribute_def
  by (cases "es_service_path s"; cases "es_schema_module s"; cases "es_schema_prefix s")
     (auto simp: opt_truthy_def require_def)

lemma compile_step_ok:
  assumes "process_loads pr s" "declaration_ok s"
    "es_name s \<notin> set (cs_names st)" "es_table_name s \<notin> set (cs_tables st)"
    "opt_truthy (es_route_prefix s) \<Longrightarrow> the (es_route_prefix s) \<notin> set (cs_routes st)"
    "es_sync_enabled s \<Longrightarrow> effective_sync_entity_type s \<notin> set (cs_sync_keys st)"
  shows "\<exists>st'. compile_step pr st s = Inr st' \<and>
    set (cs_names st') = insert (es_name s) (set (cs_names st)) \<and>
    set (cs_tables st') = insert (es_table_name s) (set (cs_tables st)) \<and>
    set (cs_routes st') = set (route_prefixes [s]) \<union> set (cs_routes st) \<and>
    set (cs_sync_keys st') =
      set (map effective_sync_entity_type (filter es_sync_enabled [s])) \<union> set (cs_sync_keys st)"
proof -
  have "require_sync_conflict_policy (es_sync_conflict_policy s) \<in> range Inr"
    using assms(2) by (auto simp: declaration_ok_def require_sync_conflict_policy_def)
  then obtain p where p: "require_sync_conflict_policy (es_sync_conflict_policy s) = Inr p"
    by auto
  have r: "check_routes st s = Inr ()"
    using assms(2,5) by (auto simp: declaration_ok_def check_routes_def require_def)
  have k: "check_sync_pk pr s = Inr ()"
    using assms(1) by (simp add: process_loads_def check_sync_pk_def)
  have c: "check_contracts pr s = Inr ()"
    using assms(1,2) by (rule check_contracts_ok)
  show ?thesis
    using assms p r k c
    by (auto simp: compile_step_def declaration_ok_def process_loads_def require_def route_prefixes_def)
qed

lemma compile_steps_ok:
  assumes "\<forall>s \<in> set specs. process_loads pr s \<and> declaration_ok s"
    "distinct (map es_name specs)" "distinct (map es_table_name specs)"
    "distinct (route_prefixes specs)"
    "distinct (map effective_sync_entity_type (filter es_sync_enabled specs))"
    "set (cs_names st) \<inter> es_name ` set specs = {}"
    "set (cs_tables st) \<inter> es_table_name ` set specs = {}"
    "set (cs_routes st) \<inter> set (route_prefixes specs) = {}"
    "set (cs_sync_keys st) \<inter> effective_sync_entity_type ` set (filter es_sync_enabled specs) = {}"
  shows "\<exists>st'. compile_steps pr st specs = Inr st' \<and>
    set (cs_names st') = es_name ` set specs \<union> set (cs_names st)"
  using assms
proof (induction specs arbitrary: st)
  case (Cons s specs)
  have split: "route_prefixes (s # specs) = route_prefixes [s] @ route_prefixes specs"
    by (simp add: route_prefixes_def)
  obtain st1 where st1: "compile_step pr st s = Inr st1"
    "set (cs_names st1) = insert (es_name s) (set (cs_names st))"
    "set (cs_tables st1) = insert (es_table_name s) (set (cs_tables st))"
    "set (cs_routes st1) = set (route_prefixes [s]) \<union> set (cs_routes st)"
    "set (cs_sync_keys st1) =
      set (map effective_sync_entity_type (filter es_sync_enabled [s])) \<union> set (cs_sync_keys st)"
    using compile_step_ok [of pr s st] Cons.prems
    by (force simp: route_prefixes_def)
  have "\<exists>st'. compile_steps pr st1 specs = Inr st' \<and>
    set (cs_names st') = es_name ` set specs \<union> set (cs_names st1)"
    using Cons.prems unfolding split
    by (intro Cons.IH) (auto simp: st1 split: if_splits)
  with st1 show ?case by auto
qed simp

text \<open>
  Compilation is complete as well: declarations that are valid by themselves, whose names,
  tables, route prefixes and sync keys do not clash and whose junction endpoints are declared,
  always compile, in whatever order they were registered.
\<close>

lemma compile_catalog_complete:
  assumes "specs \<noteq> []" "\<forall>s \<in> set specs. process_loads pr s \<and> declaration_ok s"
    "distinct (map es_name specs)" "distinct (map es_table_name specs)"
    "distinct (route_prefixes specs)"
    "distinct (map effective_sync_entity_type (filter es_sync_enabled specs))"
    "\<forall>s \<in> set specs. check_endpoints (map es_name specs) s = Inr ()"
  shows "\<exists>ct. compile_catalog pr specs version = Inr ct"
proof -
  let ?o = "sort_key es_name specs"
  let ?s = "\<lparr>cs_names = [], cs_tables = [], cs_routes = [], cs_sync_keys = []\<rparr>"
  have perm: "mset ?o = mset specs" by simp
  have d: "distinct (map f (filter p ?o)) \<longleftrightarrow> distinct (map f (filter p specs))"
    for f :: "entity_spec \<Rightarrow> string" and p
    by (intro mset_eq_imp_distinct_iff) (simp add: mset_filter)
  have "distinct (map es_name ?o)" "distinct (map es_table_name ?o)"
    using assms(3,4) d [of _ "\<lambda>_. True"] by simp_all
  moreover have "distinct (route_prefixes ?o)"
    using assms(5) unfolding route_prefixes_def d .
  moreover have "distinct (map effective_sync_entity_type (filter es_sync_enabled ?o))"
    using assms(6) unfolding d .
  ultimately obtain st where st: "compile_steps pr ?s ?o = Inr st" "set (cs_names st) = es_name ` set specs"
    using compile_steps_ok [of ?o pr ?s] assms(2) by auto
  have "check_endpoints (cs_names st) s = Inr ()" if "s \<in> set specs" for s
    using assms(7) that st(2) unfolding check_endpoints_def
    by (auto simp: result_simps split: option.splits)
  then have "rforeach (check_endpoints (cs_names st)) ?o = Inr ()"
    by (simp add: rforeach_Inr)
  with st(1) assms(1) show ?thesis
    by (cases specs) (simp_all add: compile_catalog_def Let_def require_def)
qed

end
