(* ===== verification/Builtin.thy ===== *)
theory Builtin
  imports Catalog
begin

text \<open>
  The built-in entity registrations (\<open>app/registry/builtin.py\<close>), one definition per \<open>register\<close>
  call, in the order of the file. Texts outside ASCII are written as their UTF-8 bytes.
\<close>

text \<open>The columns \<open>SyncMixin\<close> provides.\<close>

definition sync_fields :: "field_spec list" where
  "sync_fields = [
     FieldSpec ''id'' ''string'' False JNull True False
       ''UUID hex primary key'',
     FieldSpec ''created_at'' ''datetime'' False JNull False False
       ''UTC ISO-8601 creation timestamp'',
     FieldSpec ''updated_at'' ''datetime'' False JNull False False
       ''UTC ISO-8601 last-update timestamp'',
     FieldSpec ''version'' ''integer'' False (JInt 1) False False
       ''Optimistic concurrency counter'']"

definition note_spec :: entity_spec where
  "note_spec = (EntitySpec ''note'' ''app.models.note.Note'' ''notes''
     FS_DB_SPLIT BUSINESS True True
     (sync_fields @ [
     FieldSpec ''title'' ''string'' False (JStr '''') False False '''',
     FieldSpec ''content_hash'' ''string'' False (JStr '''') False False '''',
     FieldSpec ''word_count'' ''integer'' False (JInt 0) False False '''',
     FieldSpec ''summary'' ''string'' False (JStr '''') False False '''',
     FieldSpec ''tags'' ''json'' False (JStr ''[]'') False False '''',
     FieldSpec ''category'' ''string'' True JNull True False '''',
     FieldSpec ''folder_id'' ''string'' True JNull True False '''',
     FieldSpec ''status'' ''string'' False (JStr ''active'') True False
       ''active|archived'',
     FieldSpec ''trashed_at'' ''datetime'' True JNull True False '''']))
   \<lparr>es_pull_key := Some ''notes'',
    es_delete_strategy := ''fs_saga'',
    es_route_enabled := True,
    es_route_prefix := Some ''/notes'',
    es_service_path := Some ''app.services.note.NoteService'',
    es_schema_module := Some ''app.schemas.note'',
    es_schema_prefix := Some ''NoteResponse'',
    es_description := ''Lightweight knowledge-base entry; content lives in FS, meta in DB''\<rparr>"

definition folder_spec :: entity_spec where
  "folder_spec = (EntitySpec ''folder'' ''app.models.folder.Folder'' ''folders''
     DB_ONLY BUSINESS True True
     (sync_fields @ [
     FieldSpec ''name'' ''string'' False JNull False False '''',
     FieldSpec ''parent_id'' ''string'' True JNull True False '''',
     FieldSpec ''icon'' ''string'' True (JStr ([CHR 0xF0, CHR 0x9F, CHR 0x93, CHR 0x81])) False False '''',
     FieldSpec ''color'' ''string'' True JNull False False '''',
     FieldSpec ''sort_order'' ''integer'' False (JInt 0) False False '''',
     FieldSpec ''is_system'' ''boolean'' False (JBool False) False False '''',
     FieldSpec ''trashed_at'' ''datetime'' True JNull True False '''']))
   \<lparr>es_pull_key := Some ''folders'',
    es_delete_strategy := ''cascade_soft_delete'',
    es_route_enabled := True,
    es_route_prefix := Some ''/folders'',
    es_service_path := Some ''app.services.folder.FolderService'',
    es_schema_module := Some ''app.schemas.folder'',
    es_schema_prefix := Some ''FolderResponse'',
    es_description := ''Self-referencing VFS folder for organising notes/quick_notes''\<rparr>"

definition quick_note_spec :: entity_spec where
  "quick_note_spec = (EntitySpec ''quick_note'' ''app.models.quick_note.QuickNote'' ''quick_notes''
     DB_ONLY BUSINESS True True
     (sync_fields @ [
     FieldSpec ''content'' ''text'' False (JStr '''') False False '''',
     FieldSpec ''mood'' ''string'' True JNull False False '''',
     FieldSpec ''tags'' ''json'' False (JStr ''[]'') False False '''',
     FieldSpec ''pinned'' ''boolean'' False (JBool False) False False '''',
     FieldSpec ''archived_at'' ''datetime'' True JNull True False '''',
     FieldSpec ''archive_file_path'' ''string'' True JNull False False '''',
     FieldSpec ''folder_id'' ''string'' True JNull True False '''',
     FieldSpec ''trashed_at'' ''datetime'' True JNull True False '''',
     FieldSpec ''migrated_to_note_id'' ''string'' True JNull True False '''']))
   \<lparr>es_sync_entity_type := Some ''quickNote'',
    es_pull_key := Some ''quickNotes'',
    es_delete_strategy := ''soft_delete'',
    es_route_enabled := True,
    es_route_prefix := Some ''/quick-notes'',
    es_service_path := Some ''app.services.quick_note.QuickNoteService'',
    es_schema_module := Some ''app.schemas.quick_note'',
    es_schema_prefix := Some ''QuickNoteResponse'',
    es_description := ''Rapid-capture note with optional session link''\<rparr>"

definition reflection_spec :: entity_spec where
  "reflection_spec = (EntitySpec ''reflection'' ''app.models.reflection.Reflection'' ''reflections''
     DB_ONLY BUSINESS True False
     (sync_fields @ [
     FieldSpec ''date'' ''string'' False JNull True False '''',
     FieldSpec ''content'' ''text'' False (JStr '''') False False '''',
     FieldSpec ''mood'' ''string'' True JNull True False '''',
     FieldSpec ''tags'' ''json'' False (JStr ''[]'') False False '''',
     FieldSpec ''sections'' ''json'' False (JStr ''[]'') False False '''',
     FieldSpec ''is_structured'' ''boolean'' False (JBool False) False False '''']))
   \<lparr>es_pull_key := Some ''reflections'',
    es_route_enabled := True,
    es_route_prefix := Some ''/reflections'',
    es_service_path := Some ''app.services.reflection.ReflectionService'',
    es_schema_module := Some ''app.schemas.reflection'',
    es_schema_prefix := Some ''ReflectionResponse'',
    es_description := ''Daily retrospective with structured sections''\<rparr>"

definition habit_spec :: entity_spec where
  "habit_spec = (EntitySpec ''habit'' ''app.models.habit.Habit'' ''habits''
     DB_ONLY BUSINESS True False
     (sync_fields @ [
     FieldSpec ''title'' ''string'' False JNull False False '''',
     FieldSpec ''description'' ''string'' False (JStr '''') False False '''',
     FieldSpec ''color'' ''string'' False (JStr ''#7F77DD'') False False '''',
     FieldSpec ''icon'' ''string'' False (JStr ([CHR 0xE2, CHR 0x9C, CHR 0x85])) False False '''',
     FieldSpec ''target_count'' ''integer'' False (JInt 1) False False '''',
     FieldSpec ''rest_day_protection'' ''boolean'' False (JBool False) False False '''',
     FieldSpec ''rest_days'' ''json'' False (JStr ''[]'') False False '''',
     FieldSpec ''sort_order'' ''integer'' False (JInt 0) False False '''',
     FieldSpec ''archived'' ''boolean'' False (JBool False) False False '''']))
   \<lparr>es_pull_key := Some ''habits'',
    es_route_enabled := True,
    es_route_prefix := Some ''/habits'',
    es_service_path := Some ''app.services.habit.HabitService'',
    es_schema_module := Some ''app.schemas.habit'',
    es_schema_prefix := Some ''HabitResponse'',
    es_description := ''Habit streak chain with rest-day protection''\<rparr>"

definition habit_check_in_spec :: entity_spec where
  "habit_check_in_spec = (EntitySpec ''habit_check_in'' ''app.models.habit_check_in.HabitCheckIn'' ''habit_check_ins''
     DB_ONLY BUSINESS True False
     (sync_fields @ [
     FieldSpec ''habit_id'' ''string'' False JNull True False '''',
     FieldSpec ''date'' ''string'' False JNull True False '''',
     FieldSpec ''count'' ''integer'' False (JInt 1) False False '''',
     FieldSpec ''note'' ''string'' False (JStr '''') False False '''']))
   \<lparr>es_sync_entity_type := Some ''habitCheckIn'',
    es_pull_key := Some ''habitCheckIns'',
    es_description := ''Daily check-in record for a habit''\<rparr>"

definition schedule_spec :: entity_spec where
  "schedule_spec = (EntitySpec ''schedule'' ''app.models.schedule.Schedule'' ''schedules''
     DB_ONLY BUSINESS True False
     (sync_fields @ [
     FieldSpec ''title'' ''string'' False JNull False False '''',
     FieldSpec ''due_at'' ''datetime'' False JNull False False '''',
     FieldSpec ''completed_at'' ''datetime'' True JNull False False '''',
     FieldSpec ''priority'' ''string'' False (JStr ''medium'') False False
       ''high|medium|low'',
     FieldSpec ''color'' ''string'' False (JStr ''#3b82f6'') False False '''',
     FieldSpec ''all_day'' ''boolean'' False (JBool False) False False '''',
     FieldSpec ''start_time'' ''string'' True JNull False False '''',
     FieldSpec ''end_time'' ''string'' True JNull False False '''']))
   \<lparr>es_pull_key := Some ''schedules'',
    es_route_enabled := True,
    es_route_prefix := Some ''/schedules'',
    es_service_path := Some ''app.services.schedule.ScheduleService'',
    es_schema_module := Some ''app.schemas.schedule'',
    es_schema_prefix := Some ''ScheduleResponse'',
    es_description := ''Calendar event with completion status''\<rparr>"

definition time_block_spec :: entity_spec where
  "time_block_spec = (EntitySpec ''time_block'' ''app.models.time_block.TimeBlock'' ''time_blocks''
     DB_ONLY BUSINESS True False
     (sync_fields @ [
     FieldSpec ''title'' ''string'' False (JStr '''') False False '''',
     FieldSpec ''date'' ''string'' False JNull True False '''',
     FieldSpec ''start_time'' ''string'' False JNull False False '''',
     FieldSpec ''end_time'' ''string'' False JNull False False '''',
     FieldSpec ''planned_duration'' ''integer'' False (JInt 0) False False '''',
     FieldSpec ''actual_duration'' ''integer'' False (JInt 0) False False '''',
     FieldSpec ''block_type'' ''string'' False (JStr ''work'') False False
       ''work|short_break|long_break'',
     FieldSpec ''status'' ''string'' False (JStr ''planned'') False False
       ''planned|in_progress|completed|skipped'',
     FieldSpec ''sort_order'' ''integer'' False (JInt 0) False False '''']))
   \<lparr>es_sync_entity_type := Some ''timeBlock'',
    es_pull_key := Some ''timeBlocks'',
    es_route_enabled := True,
    es_route_prefix := Some ''/time-blocks'',
    es_service_path := Some ''app.services.time_block.TimeBlockService'',
    es_schema_module := Some ''app.schemas.time_block'',
    es_schema_prefix := Some ''TimeBlockResponse'',
    es_description := ''Planned time block on a given date''\<rparr>"

definition memo_comment_spec :: entity_spec where
  "memo_comment_spec = (EntitySpec ''memo_comment'' ''app.models.memo_comment.MemoComment'' ''memo_comments''
     DB_ONLY BUSINESS True False
     (sync_fields @ [
     FieldSpec ''note_id'' ''string'' False JNull True False '''',
     FieldSpec ''content'' ''text'' False (JStr '''') False False '''']))
   \<lparr>es_sync_entity_type := Some ''memoComment'',
    es_pull_key := Some ''memoComments'',
    es_description := (''Comment on a quick note ('' @ [CHR 0xE5, CHR 0xB0, CHR 0x8F, CHR 0xE8, CHR 0xAE, CHR 0xB0, CHR 0xE8, CHR 0xAF, CHR 0x84, CHR 0xE8, CHR 0xAE, CHR 0xBA] @ '')'')\<rparr>"

definition schedule_quick_note_spec :: entity_spec where
  "schedule_quick_note_spec = (EntitySpec ''schedule_quick_note'' ''app.models.schedule_quick_note.ScheduleQuickNote'' ''schedule_quick_notes''
     DB_ONLY BUSINESS True False
     (sync_fields @ [
     FieldSpec ''schedule_id'' ''string'' False JNull True False '''',
     FieldSpec ''quick_note_id'' ''string'' False JNull True False '''']))
   \<lparr>es_sync_entity_type := Some ''scheduleQuickNote'',
    es_pull_key := Some ''scheduleQuickNotes'',
    es_description := ''Junction: schedule <-> quick note'',
    es_junction_endpoints := Some [(''schedule_id'', ''schedule''), (''quick_note_id'', ''quick_note'')]\<rparr>"

definition project_spec :: entity_spec where
  "project_spec = (EntitySpec ''project'' ''app.models.project.Project'' ''projects''
     DB_ONLY BUSINESS True False
     (sync_fields @ [
     FieldSpec ''key'' ''string'' False JNull False True '''',
     FieldSpec ''next_work_item_number'' ''integer'' False (JInt 1) False False '''',
     FieldSpec ''name'' ''string'' False JNull False False '''',
     FieldSpec ''description'' ''text'' True JNull False False '''',
     FieldSpec ''rank'' ''integer'' False (JInt 0) False False '''',
     FieldSpec ''default_status_definition_id'' ''string'' False JNull False False '''',
     FieldSpec ''default_type_definition_id'' ''string'' False JNull False False '''',
     FieldSpec ''archived_at'' ''datetime'' True JNull False False '''']))
   \<lparr>es_sync_conflict_policy := ''strict_cas'',
    es_sync_entity_type := Some ''project'',
    es_pull_key := Some ''projects'',
    es_description := ''Task Space project with human-readable key and work item numbering''\<rparr>"

definition status_definition_spec :: entity_spec where
  "status_definition_spec = (EntitySpec ''status_definition'' ''app.models.work_item_definition.StatusDefinition'' ''status_definitions''
     DB_ONLY BUSINESS True False
     (sync_fields @ [
     FieldSpec ''name'' ''string'' False JNull False False '''',
     FieldSpec ''category'' ''string'' False JNull False False '''',
     FieldSpec ''icon'' ''string'' True JNull False False '''',
     FieldSpec ''color'' ''string'' True JNull False False '''',
     FieldSpec ''rank'' ''integer'' False (JInt 0) False False '''',
     FieldSpec ''system'' ''boolean'' False (JBool False) False False '''',
     FieldSpec ''archived_at'' ''datetime'' True JNull False False '''']))
   \<lparr>es_sync_conflict_policy := ''strict_cas'',
    es_sync_entity_type := Some ''statusDefinition'',
    es_pull_key := Some ''statusDefinitions'',
    es_description := ''Work item status definition with category and visual properties''\<rparr>"

definition type_definition_spec :: entity_spec where
  "type_definition_spec = (EntitySpec ''type_definition'' ''app.models.work_item_definition.TypeDefinition'' ''type_definitions''
     DB_ONLY BUSINESS True False
     (sync_fields @ [
     FieldSpec ''name'' ''string'' False JNull False False '''',
     FieldSpec ''icon'' ''string'' True JNull False False '''',
     FieldSpec ''color'' ''string'' True JNull False False '''',
     FieldSpec ''rank'' ''integer'' False (JInt 0) False False '''',
     FieldSpec ''system'' ''boolean'' False (JBool False) False False '''',
     FieldSpec ''archived_at'' ''datetime'' True JNull False False '''']))
   \<lparr>es_sync_conflict_policy := ''strict_cas'',
    es_sync_entity_type := Some ''typeDefinition'',
    es_pull_key := Some ''typeDefinitions'',
    es_description := ''Work item type definition with visual properties''\<rparr>"

definition label_spec :: entity_spec where
  "label_spec = (EntitySpec ''label'' ''app.models.work_item_definition.Label'' ''labels''
     DB_ONLY BUSINESS True False
     (sync_fields @ [
     FieldSpec ''name'' ''string'' False JNull False True '''',
     FieldSpec ''color'' ''string'' True JNull False False '''',
     FieldSpec ''archived_at'' ''datetime'' True JNull False False '''']))
   \<lparr>es_sync_conflict_policy := ''strict_cas'',
    es_sync_entity_type := Some ''label'',
    es_pull_key := Some ''labels'',
    es_description := ''Work item label with color''\<rparr>"

definition work_item_label_spec :: entity_spec where
  "work_item_label_spec = (EntitySpec ''work_item_label'' ''app.models.work_item_definition.WorkItemLabel'' ''work_item_labels''
     DB_ONLY BUSINESS False False
     ([
     FieldSpec ''work_item_id'' ''string'' False JNull True False '''',
     FieldSpec ''label_id'' ''string'' False JNull True False '''']))
   \<lparr>es_sync_conflict_policy := ''strict_cas'',
    es_primary_key := ''work_item_id'',
    es_composite_primary_key := Some [''work_item_id'', ''label_id''],
    es_sync_entity_type := Some ''workItemLabel'',
    es_pull_key := Some ''workItemLabels'',
    es_description := ''Junction: work item <-> label'',
    es_junction_endpoints := Some [(''work_item_id'', ''work_item''), (''label_id'', ''label'')]\<rparr>"

definition asset_spec :: entity_spec where
  "asset_spec = (EntitySpec ''asset'' ''app.models.asset.Asset'' ''assets''
     DB_ONLY BUSINESS False False
     (sync_fields @ [
     FieldSpec ''filename'' ''string'' False (JStr '''') False False
       (''Original filename, display only '' @ [CHR 0xE2, CHR 0x80, CHR 0x94] @ '' never used as a path''),
     FieldSpec ''mime'' ''string'' False (JStr ''application/octet-stream'') False False
       ''Normalised MIME type, whitelisted on upload'',
     FieldSpec ''size'' ''integer'' False (JInt 0) False False
       ''Size in bytes'',
     FieldSpec ''sha256'' ''string'' False (JStr '''') True False
       (''Content hash '' @ [CHR 0xE2, CHR 0x80, CHR 0x94] @ '' content-addressed dedup key''),
     FieldSpec ''storage_key'' ''string'' False (JStr '''') False False
       ''Path relative to the space root, e.g. assets/ab/<sha>.png'']))
   \<lparr>es_sync_conflict_policy := ''strict_cas'',
    es_pull_key := Some ''assets'',
    es_route_enabled := False,
    es_description := ''Binary asset attached to notes (image/PDF); content lives on disk, meta in DB''\<rparr>"

definition work_item_spec :: entity_spec where
  "work_item_spec = (EntitySpec ''work_item'' ''app.models.work_item.WorkItem'' ''work_items''
     DB_ONLY BUSINESS True False
     (sync_fields @ [
     FieldSpec ''project_id'' ''string'' False JNull True False '''',
     FieldSpec ''display_key'' ''string'' False JNull False True '''',
     FieldSpec ''title'' ''string'' False JNull False False '''',
     FieldSpec ''description'' ''text'' True JNull False False '''',
     FieldSpec ''type_definition_id'' ''string'' False JNull False False '''',
     FieldSpec ''status_definition_id'' ''string'' False JNull False False '''',
     FieldSpec ''pre_waiting_status_definition_id'' ''string'' True JNull False False '''',
     FieldSpec ''priority'' ''string'' True JNull False False '''',
     FieldSpec ''parent_id'' ''string'' True JNull True False '''',
     FieldSpec ''child_rank'' ''integer'' False (JInt 0) False False '''',
     FieldSpec ''completion_window_start'' ''datetime'' True JNull False False '''',
     FieldSpec ''completion_window_end'' ''datetime'' True JNull False False '''',
     FieldSpec ''review_point'' ''datetime'' True JNull False False '''',
     FieldSpec ''hard_deadline'' ''datetime'' True JNull False False '''',
     FieldSpec ''effort_estimate_lower_seconds'' ''integer'' True JNull False False '''',
     FieldSpec ''effort_estimate_upper_seconds'' ''integer'' True JNull False False '''',
     FieldSpec ''effort_actual_seconds'' ''integer'' False (JInt 0) False False '''',
     FieldSpec ''confidence'' ''string'' True JNull False False '''',
     FieldSpec ''completed_at'' ''datetime'' True JNull False False '''',
     FieldSpec ''cancelled_at'' ''datetime'' True JNull False False '''',
     FieldSpec ''archived_at'' ''datetime'' True JNull False False '''',
     FieldSpec ''marked_as_attention'' ''boolean'' False (JBool False) False False '''']))
   \<lparr>es_sync_conflict_policy := ''strict_cas'',
    es_sync_entity_type := Some ''workItem'',
    es_pull_key := Some ''workItems'',
    es_description := ''Task Space work item with display key and hierarchy support''\<rparr>"

definition work_item_note_spec :: entity_spec where
  "work_item_note_spec = (EntitySpec ''work_item_note'' ''app.models.work_item_note.WorkItemNote'' ''work_item_notes''
     DB_ONLY BUSINESS True False
     (sync_fields @ [
     FieldSpec ''work_item_id'' ''string'' False JNull False True '''',
     FieldSpec ''document_json'' ''text'' False JNull False False '''']))
   \<lparr>es_sync_conflict_policy := ''strict_cas'',
    es_sync_entity_type := Some ''workItemNote'',
    es_pull_key := Some ''workItemNotes'',
    es_description := ''Work item note document; sync payload is full document_json post-image''\<rparr>"

definition relation_spec :: entity_spec where
  "relation_spec = (EntitySpec ''relation'' ''app.models.relation.Relation'' ''relations''
     DB_ONLY BUSINESS True False
     (sync_fields @ [
     FieldSpec ''space_id'' ''string'' False JNull True False '''',
     FieldSpec ''from_work_item_id'' ''string'' False JNull True False
       ([CHR 0xE8, CHR 0xA2, CHR 0xAB, CHR 0xE9, CHR 0x98, CHR 0xBB, CHR 0xE5, CHR 0xA1, CHR 0x9E, CHR 0xE6, CHR 0x96, CHR 0xB9, CHR 0xEF, CHR 0xBC, CHR 0x88, CHR 0xE4, CHR 0xB8, CHR 0x8B, CHR 0xE6, CHR 0xB8, CHR 0xB8] @ '' / '' @ [CHR 0xE4, CHR 0xBE, CHR 0x9D, CHR 0xE8, CHR 0xB5, CHR 0x96, CHR 0xE8, CHR 0x80, CHR 0x85, CHR 0xEF, CHR 0xBC, CHR 0x89, CHR 0xE2, CHR 0x80, CHR 0x94, CHR 0xE2, CHR 0x80, CHR 0x94] @ '' '' @ [CHR 0xE8, CHR 0xA7, CHR 0x84, CHR 0xE8, CHR 0x8C, CHR 0x83, CHR 0xE8, CHR 0xBE, CHR 0xB9, CHR 0xE7, CHR 0x9A, CHR 0x84, CHR 0xE8, CHR 0xB5, CHR 0xB7, CHR 0xE7, CHR 0x82, CHR 0xB9]),
     FieldSpec ''to_work_item_id'' ''string'' False JNull True False
       ([CHR 0xE4, CHR 0xB8, CHR 0x8A, CHR 0xE6, CHR 0xB8, CHR 0xB8] @ '' blocker'' @ [CHR 0xEF, CHR 0xBC, CHR 0x88, CHR 0xE8, CHR 0xA2, CHR 0xAB, CHR 0xE4, CHR 0xBE, CHR 0x9D, CHR 0xE8, CHR 0xB5, CHR 0x96, CHR 0xE8, CHR 0x80, CHR 0x85, CHR 0xEF, CHR 0xBC, CHR 0x89, CHR 0xE2, CHR 0x80, CHR 0x94, CHR 0xE2, CHR 0x80, CHR 0x94] @ '' '' @ [CHR 0xE8, CHR 0xA7, CHR 0x84, CHR 0xE8, CHR 0x8C, CHR 0x83, CHR 0xE8, CHR 0xBE, CHR 0xB9, CHR 0xE7, CHR 0x9A, CHR 0x84, CHR 0xE7, CHR 0xBB, CHR 0x88, CHR 0xE7, CHR 0x82, CHR 0xB9]),
     FieldSpec ''relation_type'' ''string'' False JNull False False
       (''depends_on|blocks '' @ [CHR 0xE5, CHR 0x8F, CHR 0x82, CHR 0xE4, CHR 0xB8, CHR 0x8E, CHR 0xE9, CHR 0x98, CHR 0xBB, CHR 0xE5, CHR 0xA1, CHR 0x9E, CHR 0xEF, CHR 0xBC, CHR 0x9B] @ ''relates_to '' @ [CHR 0xE4, CHR 0xB8, CHR 0x8D, CHR 0xE9, CHR 0x98, CHR 0xBB, CHR 0xE5, CHR 0xA1, CHR 0x9E]),
     FieldSpec ''resolution'' ''string'' True JNull False False
       (''confirmed_not_required | NULL'' @ [CHR 0xEF, CHR 0xBC, CHR 0x88, CHR 0xE6, CHR 0x9C, CHR 0x8D, CHR 0xE5, CHR 0x8A, CHR 0xA1, CHR 0xE7, CHR 0xAB, CHR 0xAF, CHR 0xE8, CHR 0x87, CHR 0xAA, CHR 0xE6, CHR 0x8C, CHR 0x81, CHR 0xEF, CHR 0xBC, CHR 0x8C, CHR 0xE5, CHR 0x94, CHR 0xAF, CHR 0xE4, CHR 0xB8, CHR 0x80, CHR 0xE5, CHR 0x86, CHR 0x99, CHR 0xE5, CHR 0x85, CHR 0xA5, CHR 0xE8, CHR 0x80, CHR 0x85] @ '' = ResolveDependency'' @ [CHR 0xEF, CHR 0xBC, CHR 0x89]),
     FieldSpec ''resolved_at'' ''string'' True JNull False False
       ([CHR 0xE6, CHR 0x9C, CHR 0x8D, CHR 0xE5, CHR 0x8A, CHR 0xA1, CHR 0xE7, CHR 0xAB, CHR 0xAF, CHR 0xE5, CHR 0x8D, CHR 0x95, CHR 0xE8, CHR 0xB0, CHR 0x83, CHR 0xE6, CHR 0x97, CHR 0xB6, CHR 0xE9, CHR 0x92, CHR 0x9F, CHR 0xE6, CHR 0x88, CHR 0xB3, CHR 0xEF, CHR 0xBC, CHR 0x88, CHR 0xE9, CHR 0x98, CHR 0xB2, CHR 0xE4, CHR 0xBC, CHR 0xAA, CHR 0xEF, CHR 0xBC, CHR 0x8C, CHR 0xE5, CHR 0xAE, CHR 0xA2, CHR 0xE6, CHR 0x88, CHR 0xB7, CHR 0xE7, CHR 0xAB, CHR 0xAF, CHR 0xE4, CHR 0xB8, CHR 0x8D, CHR 0xE5, CHR 0xBE, CHR 0x97, CHR 0xE4, CHR 0xB8, CHR 0x8A, CHR 0xE8, CHR 0xA1, CHR 0x8C, CHR 0xEF, CHR 0xBC, CHR 0x89])]))
   \<lparr>es_sync_conflict_policy := ''strict_cas'',
    es_sync_entity_type := Some ''relation'',
    es_pull_key := Some ''relations'',
    es_junction_endpoints := Some [(''from_work_item_id'', ''work_item''), (''to_work_item_id'', ''work_item'')],
    es_description := ''Work item dependency edge (single-sided storage, dual-view projection). from = blocked side, to = upstream blocker.''\<rparr>"

definition focus_session_spec :: entity_spec where
  "focus_session_spec = (EntitySpec ''focus_session'' ''app.models.focus_session.FocusSession'' ''focus_sessions''
     DB_ONLY BUSINESS True False
     (sync_fields @ [
     FieldSpec ''session_revision'' ''integer'' False (JInt 1) False False '''',
     FieldSpec ''session_type'' ''string'' False (JStr ''work'') False False '''',
     FieldSpec ''started_at'' ''datetime'' False JNull False False '''',
     FieldSpec ''ended_at'' ''datetime'' True JNull False False '''',
     FieldSpec ''pause_started_at'' ''datetime'' True JNull False False '''',
     FieldSpec ''planned_seconds'' ''integer'' False (JInt 0) False False '''',
     FieldSpec ''gross_seconds'' ''integer'' False (JInt 0) False False '''',
     FieldSpec ''paused_seconds'' ''integer'' False (JInt 0) False False '''',
     FieldSpec ''break_seconds'' ''integer'' False (JInt 0) False False '''',
     FieldSpec ''focused_seconds'' ''integer'' False (JInt 0) False False '''',
     FieldSpec ''timer_completion'' ''datetime'' True JNull False False '''',
     FieldSpec ''validity'' ''string'' False (JStr ''pending'') False False '''',
     FieldSpec ''validity_reason'' ''string'' True JNull False False '''',
     FieldSpec ''overall_progress'' ''string'' True JNull False False '''',
     FieldSpec ''mood'' ''string'' True JNull False False '''',
     FieldSpec ''session_note'' ''text'' False (JStr '''') False False '''',
     FieldSpec ''review_state'' ''string'' False (JStr ''not_required'') False False '''',
     FieldSpec ''ownership_state'' ''string'' False (JStr ''authoritative'') False False '''']))
   \<lparr>es_sync_conflict_policy := ''strict_cas'',
    es_sync_entity_type := Some ''focusSession'',
    es_pull_key := Some ''focusSessions'',
    es_description := ''Focus session with timer metrics, validity, and ownership state''\<rparr>"

definition session_task_context_spec :: entity_spec where
  "session_task_context_spec = (EntitySpec ''session_task_context'' ''app.models.focus_session.SessionTaskContext'' ''session_task_contexts''
     DB_ONLY BUSINESS True False
     (sync_fields @ [
     FieldSpec ''session_id'' ''string'' False JNull False True '''',
     FieldSpec ''project_id'' ''string'' False JNull False False '''',
     FieldSpec ''level2_work_item_id'' ''string'' False JNull False False '''',
     FieldSpec ''title_snapshot'' ''string'' False JNull False False '''',
     FieldSpec ''parent_snapshot'' ''string'' True JNull False False '''',
     FieldSpec ''estimate_snapshot'' ''string'' True JNull False False '''',
     FieldSpec ''status_snapshot'' ''string'' True JNull False False '''',
     FieldSpec ''structure_snapshot'' ''text'' False (JStr ''{}'') False False '''',
     FieldSpec ''linked_at'' ''datetime'' False JNull False False '''',
     FieldSpec ''link_method'' ''string'' False JNull False False '''']))
   \<lparr>es_sync_conflict_policy := ''strict_cas'',
    es_sync_entity_type := Some ''sessionTaskContext'',
    es_pull_key := Some ''sessionTaskContexts'',
    es_description := ''Immutable task context snapshot linked to a focus session''\<rparr>"

definition session_attribution_revision_spec :: entity_spec where
  "session_attribution_revision_spec = (EntitySpec ''session_attribution_revision'' ''app.models.session_revision.SessionAttributionRevision'' ''session_attribution_revisions''
     DB_ONLY BUSINESS True False
     (sync_fields @ [
     FieldSpec ''session_id'' ''string'' False JNull True False '''',
     FieldSpec ''revision'' ''integer'' False JNull False False '''',
     FieldSpec ''project_id'' ''string'' False JNull False False '''',
     FieldSpec ''level2_work_item_id'' ''string'' False JNull False False '''',
     FieldSpec ''reason'' ''string'' True JNull False False '''',
     FieldSpec ''corrected_from_revision'' ''integer'' True JNull False False '''',
     FieldSpec ''effective'' ''boolean'' False (JBool True) False False '''']))
   \<lparr>es_sync_conflict_policy := ''strict_cas'',
    es_sync_entity_type := Some ''sessionAttributionRevision'',
    es_pull_key := Some ''sessionAttributionRevisions'',
    es_description := ''Append-only attribution revision for a focus session''\<rparr>"

definition session_work_item_plan_spec :: entity_spec where
  "session_work_item_plan_spec = (EntitySpec ''session_work_item_plan'' ''app.models.session_revision.SessionWorkItemPlan'' ''session_work_item_plans''
     DB_ONLY BUSINESS True False
     (sync_fields @ [
     FieldSpec ''session_id'' ''string'' False JNull True False '''',
     FieldSpec ''work_item_id'' ''string'' False JNull False False '''',
     FieldSpec ''title_snapshot'' ''string'' False JNull False False '''',
     FieldSpec ''level2_snapshot'' ''string'' True JNull False False '''',
     FieldSpec ''work_item_version_snapshot'' ''integer'' False (JInt 0) False False '''',
     FieldSpec ''plan_rank'' ''integer'' False (JInt 0) False False '''',
     FieldSpec ''source'' ''string'' False JNull False False '''',
     FieldSpec ''added_at'' ''datetime'' False JNull False False '''',
     FieldSpec ''removed_at'' ''datetime'' True JNull False False '''',
     FieldSpec ''removal_reason'' ''string'' True JNull False False '''',
     FieldSpec ''current_during_session'' ''boolean'' False (JBool False) False False '''',
     FieldSpec ''completion_draft'' ''boolean'' False (JBool False) False False '''']))
   \<lparr>es_sync_conflict_policy := ''strict_cas'',
    es_sync_entity_type := Some ''sessionWorkItemPlan'',
    es_pull_key := Some ''sessionWorkItemPlans'',
    es_description := ''Planned work item within a focus session with lifecycle tracking''\<rparr>"

definition session_work_item_outcome_spec :: entity_spec where
  "session_work_item_outcome_spec = (EntitySpec ''session_work_item_outcome'' ''app.models.session_revision.SessionWorkItemOutcome'' ''session_work_item_outcomes''
     DB_ONLY BUSINESS True False
     (sync_fields @ [
     FieldSpec ''session_id'' ''string'' False JNull True False '''',
     FieldSpec ''session_revision'' ''integer'' False JNull False False '''',
     FieldSpec ''revision'' ''integer'' False JNull False False '''',
     FieldSpec ''corrected_from_revision'' ''integer'' True JNull False False '''',
     FieldSpec ''effective'' ''boolean'' False (JBool True) False False '''',
     FieldSpec ''work_item_id'' ''string'' False JNull False False '''',
     FieldSpec ''touched'' ''boolean'' False (JBool False) False False '''',
     FieldSpec ''result'' ''string'' False JNull False False '''',
     FieldSpec ''persona'' ''string'' True JNull False False '''',
     FieldSpec ''execution_persona'' ''string'' True JNull False False '''',
     FieldSpec ''persona_switched'' ''boolean'' True JNull False False '''',
     FieldSpec ''persona_note'' ''string'' True JNull False False '''',
     FieldSpec ''state_command'' ''string'' False (JStr ''none'') False False '''',
     FieldSpec ''command_id'' ''string'' True JNull False False '''',
     FieldSpec ''reviewed_at'' ''datetime'' True JNull False False '''']))
   \<lparr>es_sync_conflict_policy := ''strict_cas'',
    es_sync_entity_type := Some ''sessionWorkItemOutcome'',
    es_pull_key := Some ''sessionWorkItemOutcomes'',
    es_description := ''Append-only outcome record for a work item in a focus session''\<rparr>"

definition session_command_envelope_spec :: entity_spec where
  "session_command_envelope_spec = (EntitySpec ''session_command_envelope'' ''app.models.session_command.SessionCommandEnvelope'' ''session_command_envelopes''
     SYSTEM SYNC_INFRA False False
     ([
     FieldSpec ''command_id'' ''string'' False JNull False False '''',
     FieldSpec ''space_id'' ''string'' False JNull False False '''',
     FieldSpec ''session_id'' ''string'' False JNull True False '''',
     FieldSpec ''session_revision'' ''integer'' False JNull False False '''',
     FieldSpec ''work_item_id'' ''string'' False JNull False False '''',
     FieldSpec ''expected_version'' ''integer'' False JNull False False '''',
     FieldSpec ''target_transition'' ''string'' False JNull False False '''',
     FieldSpec ''replay_safe'' ''boolean'' False JNull False False '''',
     FieldSpec ''payload_hash'' ''string'' False JNull False False '''',
     FieldSpec ''created_at'' ''datetime'' False JNull False False '''']))
   \<lparr>es_sync_conflict_policy := ''strict_cas'',
    es_primary_key := ''command_id'',
    es_description := ''Immutable command envelope for session state transitions''\<rparr>"

definition session_command_receipt_spec :: entity_spec where
  "session_command_receipt_spec = (EntitySpec ''session_command_receipt'' ''app.models.session_command.SessionCommandReceipt'' ''session_command_receipts''
     SYSTEM SYNC_INFRA False False
     ([
     FieldSpec ''command_id'' ''string'' False JNull False False '''',
     FieldSpec ''state'' ''string'' False JNull False False '''',
     FieldSpec ''error_code'' ''string'' True JNull False False '''',
     FieldSpec ''retryable'' ''boolean'' False (JBool False) False False '''',
     FieldSpec ''details_json'' ''text'' True JNull False False '''',
     FieldSpec ''result_json'' ''text'' True JNull False False '''',
     FieldSpec ''updated_at'' ''datetime'' False JNull False False '''']))
   \<lparr>es_sync_conflict_policy := ''strict_cas'',
    es_primary_key := ''command_id'',
    es_description := ''Command receipt tracking state machine outcome''\<rparr>"

definition active_session_locator_spec :: entity_spec where
  "active_session_locator_spec = (EntitySpec ''active_session_locator'' ''app.db.models.meta.ActiveSessionLocator'' ''active_session_locator''
     DB_ONLY META False False
     ([
     FieldSpec ''singleton_key'' ''string'' False JNull False False '''',
     FieldSpec ''space_id'' ''string'' False JNull False False '''',
     FieldSpec ''session_id'' ''string'' False JNull False False '''',
     FieldSpec ''operation_id'' ''string'' False JNull False False '''',
     FieldSpec ''state'' ''string'' False JNull False False '''',
     FieldSpec ''owner_device_id'' ''string'' False JNull False False '''',
     FieldSpec ''owner_tab_id'' ''string'' False JNull False False '''',
     FieldSpec ''ownership_epoch'' ''integer'' False JNull False False '''',
     FieldSpec ''lease_expires_at'' ''datetime'' False JNull False False '''',
     FieldSpec ''updated_at'' ''datetime'' False JNull False False '''']))
   \<lparr>es_sync_conflict_policy := ''strict_cas'',
    es_primary_key := ''singleton_key'',
    es_description := ''Application-wide singleton owning the currently active focus session''\<rparr>"

definition tombstone_spec :: entity_spec where
  "tombstone_spec = (EntitySpec ''tombstone'' ''app.models.tombstone.Tombstone'' ''tombstones''
     SYSTEM SYNC_INFRA False False
     ([
     FieldSpec ''id'' ''integer'' False JNull False False '''',
     FieldSpec ''entity_type'' ''string'' False JNull True False '''',
     FieldSpec ''entity_id'' ''string'' False JNull True False '''',
     FieldSpec ''deleted_at'' ''datetime'' False JNull True False '''']))
   \<lparr>es_primary_key := ''id'',
    es_description := ''Anti-resurrection tombstone for sync deletions''\<rparr>"

definition sync_outbox_spec :: entity_spec where
  "sync_outbox_spec = (EntitySpec ''sync_outbox'' ''app.models.sync_outbox.SyncOutbox'' ''sync_outbox''
     SYSTEM SYNC_INFRA False False
     ([
     FieldSpec ''id'' ''integer'' False JNull False False '''',
     FieldSpec ''entity_type'' ''string'' False JNull False False '''',
     FieldSpec ''entity_id'' ''string'' False JNull False False '''',
     FieldSpec ''action'' ''string'' False JNull False False
       ''create|update|delete'',
     FieldSpec ''payload'' ''text'' False JNull False False '''',
     FieldSpec ''created_at'' ''datetime'' False JNull False False '''',
     FieldSpec ''synced_at'' ''datetime'' True JNull False False '''']))
   \<lparr>es_primary_key := ''id'',
    es_description := ''Pending sync event queue (ephemeral)''\<rparr>"

definition sync_audit_log_spec :: entity_spec where
  "sync_audit_log_spec = (EntitySpec ''sync_audit_log'' ''app.models.sync_audit_log.SyncAuditLog'' ''sync_audit_log''
     SYSTEM SYNC_INFRA False False
     ([
     FieldSpec ''id'' ''integer'' False JNull False False '''',
     FieldSpec ''event_type'' ''string'' False JNull False False '''',
     FieldSpec ''entity_type'' ''string'' False JNull False False '''',
     FieldSpec ''entity_id'' ''string'' False JNull False False '''',
     FieldSpec ''details'' ''text'' False JNull False False '''',
     FieldSpec ''created_at'' ''datetime'' False JNull False False '''']))
   \<lparr>es_primary_key := ''id'',
    es_description := ''Immutable append-only audit log for sync events''\<rparr>"

definition space_spec :: entity_spec where
  "space_spec = (EntitySpec ''space'' ''app.db.models.meta.Space'' ''spaces''
     DB_ONLY META False False
     ([
     FieldSpec ''id'' ''string'' False JNull False False '''',
     FieldSpec ''name'' ''string'' False JNull False False '''',
     FieldSpec ''db_path'' ''string'' False JNull False False '''',
     FieldSpec ''notes_dir'' ''string'' False JNull False False '''',
     FieldSpec ''is_default'' ''boolean'' False (JBool False) False False '''',
     FieldSpec ''created_at'' ''datetime'' False JNull False False '''',
     FieldSpec ''updated_at'' ''datetime'' False JNull False False '''']))
   \<lparr>es_route_enabled := True,
    es_route_prefix := Some ''/spaces'',
    es_service_path := Some ''app.routes.v1.spaces.create_space'',
    es_schema_module := Some ''app.schemas.space'',
    es_schema_prefix := Some ''SpaceResponse'',
    es_primary_key := ''id'',
    es_description := ''Space registry row (meta DB); owns its own SQLite DB + notes dir''\<rparr>"

definition meta_setting_spec :: entity_spec where
  "meta_setting_spec = (EntitySpec ''meta_setting'' ''app.db.models.meta.MetaSetting'' ''meta_settings''
     DB_ONLY META False False
     ([
     FieldSpec ''id'' ''string'' False JNull False False '''',
     FieldSpec ''key'' ''string'' False JNull False True '''',
     FieldSpec ''value'' ''string'' True JNull False False '''',
     FieldSpec ''created_at'' ''datetime'' False JNull False False '''',
     FieldSpec ''updated_at'' ''datetime'' False JNull False False '''']))
   \<lparr>es_primary_key := ''id'',
    es_description := ''Global key/value setting stored in the meta DB''\<rparr>"

definition setting_spec :: entity_spec where
  "setting_spec = (EntitySpec ''setting'' ''app.models.setting.Setting'' ''settings''
     DB_ONLY SETTING False False
     ([
     FieldSpec ''key'' ''string'' False JNull False True '''',
     FieldSpec ''value'' ''string'' False JNull False False '''',
     FieldSpec ''updated_at'' ''datetime'' False JNull False False '''']))
   \<lparr>es_route_enabled := True,
    es_route_prefix := Some ''/settings'',
    es_service_path := Some ''app.routes.v1.settings.get_settings'',
    es_schema_module := Some ''app.schemas.settings'',
    es_schema_prefix := Some ''SettingsResponse'',
    es_primary_key := ''key'',
    es_description := ''Per-space key/value configuration (natural key PK)''\<rparr>"

definition builtin_specs :: "entity_spec list" where
  "builtin_specs = [note_spec,
     folder_spec,
     quick_note_spec,
     reflection_spec,
     habit_spec,
     habit_check_in_spec,
     schedule_spec,
     time_block_spec,
     memo_comment_spec,
     schedule_quick_note_spec,
     project_spec,
     status_definition_spec,
     type_definition_spec,
     label_spec,
     work_item_label_spec,
     asset_spec,
     work_item_spec,
     work_item_note_spec,
     relation_spec,
     focus_session_spec,
     session_task_context_spec,
     session_attribution_revision_spec,
     session_work_item_plan_spec,
     session_work_item_outcome_spec,
     session_command_envelope_spec,
     session_command_receipt_spec,
     active_session_locator_spec,
     tombstone_spec,
     sync_outbox_spec,
     sync_audit_log_spec,
     space_spec,
     meta_setting_spec,
     setting_spec]"

text \<open>The calls of \<open>REGISTRY.register\<close> in order, from an empty registry.\<close>

definition REGISTRY :: "registry res" where
  "REGISTRY = register_all \<lparr>rg_specs = [], rg_compiled = False\<rparr> builtin_specs"

lemmas builtin_spec_defs = 
  note_spec_def folder_spec_def quick_note_spec_def reflection_spec_def habit_spec_def 
  habit_check_in_spec_def schedule_spec_def time_block_spec_def memo_comment_spec_def 
  schedule_quick_note_spec_def project_spec_def status_definition_spec_def 
  type_definition_spec_def label_spec_def work_item_label_spec_def asset_spec_def 
  work_item_spec_def work_item_note_spec_def relation_spec_def focus_session_spec_def 
  session_task_context_spec_def session_attribution_revision_spec_def 
  session_work_item_plan_spec_def session_work_item_outcome_spec_def 
  session_command_envelope_spec_def session_command_receipt_spec_def 
  active_session_locator_spec_def tombstone_spec_def sync_outbox_spec_def 
  sync_audit_log_spec_def space_spec_def meta_setting_spec_def setting_spec_def

lemma es_name_builtin [simp]:
  "es_name note_spec = ''note''"
  "es_name folder_spec = ''folder''"
  "es_name quick_note_spec = ''quick_note''"
  "es_name reflection_spec = ''reflection''"
  "es_name habit_spec = ''habit''"
  "es_name habit_check_in_spec = ''habit_check_in''"
  "es_name schedule_spec = ''schedule''"
  "es_name time_block_spec = ''time_block''"
  "es_name memo_comment_spec = ''memo_comment''"
  "es_name schedule_quick_note_spec = ''schedule_quick_note''"
  "es_name project_spec = ''project''"
  "es_name status_definition_spec = ''status_definition''"
  "es_name type_definition_spec = ''type_definition''"
  "es_name label_spec = ''label''"
  "es_name work_item_label_spec = ''work_item_label''"
  "es_name asset_spec = ''asset''"
  "es_name work_item_spec = ''work_item''"
  "es_name work_item_note_spec = ''work_item_note''"
  "es_name relation_spec = ''relation''"
  "es_name focus_session_spec = ''focus_session''"
  "es_name session_task_context_spec = ''session_task_context''"
  "es_name session_attribution_revision_spec = ''session_attribution_revision''"
  "es_name session_work_item_plan_spec = ''session_work_item_plan''"
  "es_name session_work_item_outcome_spec = ''session_work_item_outcome''"
  "es_name session_command_envelope_spec = ''session_command_envelope''"
  "es_name session_command_receipt_spec = ''session_command_receipt''"
  "es_name active_session_locator_spec = ''active_session_locator''"
  "es_name tombstone_spec = ''tombstone''"
  "es_name sync_outbox_spec = ''sync_outbox''"
  "es_name sync_audit_log_spec = ''sync_audit_log''"
  "es_name space_spec = ''space''"
  "es_name meta_setting_spec = ''meta_setting''"
  "es_name setting_spec = ''setting''"
  by (simp_all add: builtin_spec_defs EntitySpec_def)

lemma es_table_name_builtin [simp]:
  "es_table_name note_spec = ''notes''"
  "es_table_name folder_spec = ''folders''"
  "es_table_name quick_note_spec = ''quick_notes''"
  "es_table_name reflection_spec = ''reflections''"
  "es_table_name habit_spec = ''habits''"
  "es_table_name habit_check_in_spec = ''habit_check_ins''"
  "es_table_name schedule_spec = ''schedules''"
  "es_table_name time_block_spec = ''time_blocks''"
  "es_table_name memo_comment_spec = ''memo_comments''"
  "es_table_name schedule_quick_note_spec = ''schedule_quick_notes''"
  "es_table_name project_spec = ''projects''"
  "es_table_name status_definition_spec = ''status_definitions''"
  "es_table_name type_definition_spec = ''type_definitions''"
  "es_table_name label_spec = ''labels''"
  "es_table_name work_item_label_spec = ''work_item_labels''"
  "es_table_name asset_spec = ''assets''"
  "es_table_name work_item_spec = ''work_items''"
  "es_table_name work_item_note_spec = ''work_item_notes''"
  "es_table_name relation_spec = ''relations''"
  "es_table_name focus_session_spec = ''focus_sessions''"
  "es_table_name session_task_context_spec = ''session_task_contexts''"
  "es_table_name session_attribution_revision_spec = ''session_attribution_revisions''"
  "es_table_name session_work_item_plan_spec = ''session_work_item_plans''"
  "es_table_name session_work_item_outcome_spec = ''session_work_item_outcomes''"
  "es_table_name session_command_envelope_spec = ''session_command_envelopes''"
  "es_table_name session_command_receipt_spec = ''session_command_receipts''"
  "es_table_name active_session_locator_spec = ''active_session_locator''"
  "es_table_name tombstone_spec = ''tombstones''"
  "es_table_name sync_outbox_spec = ''sync_outbox''"
  "es_table_name sync_audit_log_spec = ''sync_audit_log''"
  "es_table_name space_spec = ''spaces''"
  "es_table_name meta_setting_spec = ''meta_settings''"
  "es_table_name setting_spec = ''settings''"
  by (simp_all add: builtin_spec_defs EntitySpec_def)

lemma es_primary_key_builtin [simp]:
  "es_primary_key note_spec = ''id''"
  "es_primary_key folder_spec = ''id''"
  "es_primary_key quick_note_spec = ''id''"
  "es_primary_key reflection_spec = ''id''"
  "es_primary_key habit_spec = ''id''"
  "es_primary_key habit_check_in_spec = ''id''"
  "es_primary_key schedule_spec = ''id''"
  "es_primary_key time_block_spec = ''id''"
  "es_primary_key memo_comment_spec = ''id''"
  "es_primary_key schedule_quick_note_spec = ''id''"
  "es_primary_key project_spec = ''id''"
  "es_primary_key status_definition_spec = ''id''"
  "es_primary_key type_definition_spec = ''id''"
  "es_primary_key label_spec = ''id''"
  "es_primary_key work_item_label_spec = ''work_item_id''"
  "es_primary_key asset_spec = ''id''"
  "es_primary_key work_item_spec = ''id''"
  "es_primary_key work_item_note_spec = ''id''"
  "es_primary_key relation_spec = ''id''"
  "es_primary_key focus_session_spec = ''id''"
  "es_primary_key session_task_context_spec = ''id''"
  "es_primary_key session_attribution_revision_spec = ''id''"
  "es_primary_key session_work_item_plan_spec = ''id''"
  "es_primary_key session_work_item_outcome_spec = ''id''"
  "es_primary_key session_command_envelope_spec = ''command_id''"
  "es_primary_key session_command_receipt_spec = ''command_id''"
  "es_primary_key active_session_locator_spec = ''singleton_key''"
  "es_primary_key tombstone_spec = ''id''"
  "es_primary_key sync_outbox_spec = ''id''"
  "es_primary_key sync_audit_log_spec = ''id''"
  "es_primary_key space_spec = ''id''"
  "es_primary_key meta_setting_spec = ''id''"
  "es_primary_key setting_spec = ''key''"
  by (simp_all add: builtin_spec_defs EntitySpec_def)

lemma es_composite_builtin [simp]:
  "es_composite_primary_key note_spec = None"
  "es_composite_primary_key folder_spec = None"
  "es_composite_primary_key quick_note_spec = None"
  "es_composite_primary_key reflection_spec = None"
  "es_composite_primary_key habit_spec = None"
  "es_composite_primary_key habit_check_in_spec = None"
  "es_composite_primary_key schedule_spec = None"
  "es_composite_primary_key time_block_spec = None"
  "es_composite_primary_key memo_comment_spec = None"
  "es_composite_primary_key schedule_quick_note_spec = None"
  "es_composite_primary_key project_spec = None"
  "es_composite_primary_key status_definition_spec = None"
  "es_composite_primary_key type_definition_spec = None"
  "es_composite_primary_key label_spec = None"
  "es_composite_primary_key work_item_label_spec = Some [''work_item_id'', ''label_id'']"
  "es_composite_primary_key asset_spec = None"
  "es_composite_primary_key work_item_spec = None"
  "es_composite_primary_key work_item_note_spec = None"
  "es_composite_primary_key relation_spec = None"
  "es_composite_primary_key focus_session_spec = None"
  "es_composite_primary_key session_task_context_spec = None"
  "es_composite_primary_key session_attribution_revision_spec = None"
  "es_composite_primary_key session_work_item_plan_spec = None"
  "es_composite_primary_key session_work_item_outcome_spec = None"
  "es_composite_primary_key session_command_envelope_spec = None"
  "es_composite_primary_key session_command_receipt_spec = None"
  "es_composite_primary_key active_session_locator_spec = None"
  "es_composite_primary_key tombstone_spec = None"
  "es_composite_primary_key sync_outbox_spec = None"
  "es_composite_primary_key sync_audit_log_spec = None"
  "es_composite_primary_key space_spec = None"
  "es_composite_primary_key meta_setting_spec = None"
  "es_composite_primary_key setting_spec = None"
  by (simp_all add: builtin_spec_defs EntitySpec_def)



lemma es_sync_enabled_builtin [simp]:
  "es_sync_enabled note_spec = True"
  "es_sync_enabled folder_spec = True"
  "es_sync_enabled quick_note_spec = True"
  "es_sync_enabled reflection_spec = True"
  "es_sync_enabled habit_spec = True"
  "es_sync_enabled habit_check_in_spec = True"
  "es_sync_enabled schedule_spec = True"
  "es_sync_enabled time_block_spec = True"
  "es_sync_enabled memo_comment_spec = True"
  "es_sync_enabled schedule_quick_note_spec = True"
  "es_sync_enabled project_spec = True"
  "es_sync_enabled status_definition_spec = True"
  "es_sync_enabled type_definition_spec = True"
  "es_sync_enabled label_spec = True"
  "es_sync_enabled work_item_label_spec = False"
  "es_sync_enabled asset_spec = False"
  "es_sync_enabled work_item_spec = True"
  "es_sync_enabled work_item_note_spec = True"
  "es_sync_enabled relation_spec = True"
  "es_sync_enabled focus_session_spec = True"
  "es_sync_enabled session_task_context_spec = True"
  "es_sync_enabled session_attribution_revision_spec = True"
  "es_sync_enabled session_work_item_plan_spec = True"
  "es_sync_enabled session_work_item_outcome_spec = True"
  "es_sync_enabled session_command_envelope_spec = False"
  "es_sync_enabled session_command_receipt_spec = False"
  "es_sync_enabled active_session_locator_spec = False"
  "es_sync_enabled tombstone_spec = False"
  "es_sync_enabled sync_outbox_spec = False"
  "es_sync_enabled sync_audit_log_spec = False"
  "es_sync_enabled space_spec = False"
  "es_sync_enabled meta_setting_spec = False"
  "es_sync_enabled setting_spec = False"
  by (simp_all add: builtin_spec_defs EntitySpec_def)

lemma effective_sync_entity_type_builtin [simp]:
  "effective_sync_entity_type note_spec = ''note''"
  "effective_sync_entity_type folder_spec = ''folder''"
  "effective_sync_entity_type quick_note_spec = ''quickNote''"
  "effective_sync_entity_type reflection_spec = ''reflection''"
  "effective_sync_entity_type habit_spec = ''habit''"
  "effective_sync_entity_type habit_check_in_spec = ''habitCheckIn''"
  "effective_sync_entity_type schedule_spec = ''schedule''"
  "effective_sync_entity_type time_block_spec = ''timeBlock''"
  "effective_sync_entity_type memo_comment_spec = ''memoComment''"
  "effective_sync_entity_type schedule_quick_note_spec = ''scheduleQuickNote''"
  "effective_sync_entity_type project_spec = ''project''"
  "effective_sync_entity_type status_definition_spec = ''statusDefinition''"
  "effective_sync_entity_type type_definition_spec = ''typeDefinition''"
  "effective_sync_entity_type label_spec = ''label''"
  "effective_sync_entity_type work_item_label_spec = ''workItemLabel''"
  "effective_sync_entity_type asset_spec = ''asset''"
  "effective_sync_entity_type work_item_spec = ''workItem''"
  "effective_sync_entity_type work_item_note_spec = ''workItemNote''"
  "effective_sync_entity_type relation_spec = ''relation''"
  "effective_sync_entity_type focus_session_spec = ''focusSession''"
  "effective_sync_entity_type session_task_context_spec = ''sessionTaskContext''"
  "effective_sync_entity_type session_attribution_revision_spec = ''sessionAttributionRevision''"
  "effective_sync_entity_type session_work_item_plan_spec = ''sessionWorkItemPlan''"
  "effective_sync_entity_type session_work_item_outcome_spec = ''sessionWorkItemOutcome''"
  "effective_sync_entity_type session_command_envelope_spec = ''session_command_envelope''"
  "effective_sync_entity_type session_command_receipt_spec = ''session_command_receipt''"
  "effective_sync_entity_type active_session_locator_spec = ''active_session_locator''"
  "effective_sync_entity_type tombstone_spec = ''tombstone''"
  "effective_sync_entity_type sync_outbox_spec = ''sync_outbox''"
  "effective_sync_entity_type sync_audit_log_spec = ''sync_audit_log''"
  "effective_sync_entity_type space_spec = ''space''"
  "effective_sync_entity_type meta_setting_spec = ''meta_setting''"
  "effective_sync_entity_type setting_spec = ''setting''"
  by (simp_all add: effective_sync_entity_type_def or_default_def builtin_spec_defs EntitySpec_def)

lemma field_names_builtin:
  "field_names note_spec = [''id'', ''created_at'', ''updated_at'', ''version'', ''title'',
     ''content_hash'', ''word_count'', ''summary'', ''tags'', ''category'', ''folder_id'',
     ''status'', ''trashed_at'']"
  "field_names folder_spec = [''id'', ''created_at'', ''updated_at'', ''version'', ''name'',
     ''parent_id'', ''icon'', ''color'', ''sort_order'', ''is_system'', ''trashed_at'']"
  "field_names quick_note_spec = [''id'', ''created_at'', ''updated_at'', ''version'',
     ''content'', ''mood'', ''tags'', ''pinned'', ''archived_at'', ''archive_file_path'',
     ''folder_id'', ''trashed_at'', ''migrated_to_note_id'']"
  "field_names reflection_spec = [''id'', ''created_at'', ''updated_at'', ''version'',
     ''date'', ''content'', ''mood'', ''tags'', ''sections'', ''is_structured'']"
  "field_names habit_spec = [''id'', ''created_at'', ''updated_at'', ''version'', ''title'',
     ''description'', ''color'', ''icon'', ''target_count'', ''rest_day_protection'',
     ''rest_days'', ''sort_order'', ''archived'']"
  "field_names habit_check_in_spec = [''id'', ''created_at'', ''updated_at'', ''version'',
     ''habit_id'', ''date'', ''count'', ''note'']"
  "field_names schedule_spec = [''id'', ''created_at'', ''updated_at'', ''version'', ''title'',
     ''due_at'', ''completed_at'', ''priority'', ''color'', ''all_day'', ''start_time'',
     ''end_time'']"
  "field_names time_block_spec = [''id'', ''created_at'', ''updated_at'', ''version'',
     ''title'', ''date'', ''start_time'', ''end_time'', ''planned_duration'',
     ''actual_duration'', ''block_type'', ''status'', ''sort_order'']"
  "field_names memo_comment_spec = [''id'', ''created_at'', ''updated_at'', ''version'',
     ''note_id'', ''content'']"
  "field_names schedule_quick_note_spec = [''id'', ''created_at'', ''updated_at'', ''version'',
     ''schedule_id'', ''quick_note_id'']"
  "field_names project_spec = [''id'', ''created_at'', ''updated_at'', ''version'', ''key'',
     ''next_work_item_number'', ''name'', ''description'', ''rank'',
     ''default_status_definition_id'', ''default_type_definition_id'', ''archived_at'']"
  "field_names status_definition_spec = [''id'', ''created_at'', ''updated_at'', ''version'',
     ''name'', ''category'', ''icon'', ''color'', ''rank'', ''system'', ''archived_at'']"
  "field_names type_definition_spec = [''id'', ''created_at'', ''updated_at'', ''version'',
     ''name'', ''icon'', ''color'', ''rank'', ''system'', ''archived_at'']"
  "field_names label_spec = [''id'', ''created_at'', ''updated_at'', ''version'', ''name'',
     ''color'', ''archived_at'']"
  "field_names work_item_label_spec = [''work_item_id'', ''label_id'']"
  "field_names asset_spec = [''id'', ''created_at'', ''updated_at'', ''version'', ''filename'',
     ''mime'', ''size'', ''sha256'', ''storage_key'']"
  "field_names work_item_spec = [''id'', ''created_at'', ''updated_at'', ''version'',
     ''project_id'', ''display_key'', ''title'', ''description'', ''type_definition_id'',
     ''status_definition_id'', ''pre_waiting_status_definition_id'', ''priority'',
     ''parent_id'', ''child_rank'', ''completion_window_start'', ''completion_window_end'',
     ''review_point'', ''hard_deadline'', ''effort_estimate_lower_seconds'',
     ''effort_estimate_upper_seconds'', ''effort_actual_seconds'', ''confidence'',
     ''completed_at'', ''cancelled_at'', ''archived_at'', ''marked_as_attention'']"
  "field_names work_item_note_spec = [''id'', ''created_at'', ''updated_at'', ''version'',
     ''work_item_id'', ''document_json'']"
  "field_names relation_spec = [''id'', ''created_at'', ''updated_at'', ''version'',
     ''space_id'', ''from_work_item_id'', ''to_work_item_id'', ''relation_type'',
     ''resolution'', ''resolved_at'']"
  "field_names focus_session_spec = [''id'', ''created_at'', ''updated_at'', ''version'',
     ''session_revision'', ''session_type'', ''started_at'', ''ended_at'',
     ''pause_started_at'', ''planned_seconds'', ''gross_seconds'', ''paused_seconds'',
     ''break_seconds'', ''focused_seconds'', ''timer_completion'', ''validity'',
     ''validity_reason'', ''overall_progress'', ''mood'', ''session_note'', ''review_state'',
     ''ownership_state'']"
  "field_names session_task_context_spec = [''id'', ''created_at'', ''updated_at'',
     ''version'', ''session_id'', ''project_id'', ''level2_work_item_id'', ''title_snapshot'',
     ''parent_snapshot'', ''estimate_snapshot'', ''status_snapshot'', ''structure_snapshot'',
     ''linked_at'', ''link_method'']"
  "field_names session_attribution_revision_spec = [''id'', ''created_at'', ''updated_at'',
     ''version'', ''session_id'', ''revision'', ''project_id'', ''level2_work_item_id'',
     ''reason'', ''corrected_from_revision'', ''effective'']"
  "field_names session_work_item_plan_spec = [''id'', ''created_at'', ''updated_at'',
     ''version'', ''session_id'', ''work_item_id'', ''title_snapshot'', ''level2_snapshot'',
     ''work_item_version_snapshot'', ''plan_rank'', ''source'', ''added_at'', ''removed_at'',
     ''removal_reason'', ''current_during_session'', ''completion_draft'']"
  "field_names session_work_item_outcome_spec = [''id'', ''created_at'', ''updated_at'',
     ''version'', ''session_id'', ''session_revision'', ''revision'',
     ''corrected_from_revision'', ''effective'', ''work_item_id'', ''touched'', ''result'',
     ''persona'', ''execution_persona'', ''persona_switched'', ''persona_note'',
     ''state_command'', ''command_id'', ''reviewed_at'']"
  "field_names session_command_envelope_spec = [''command_id'', ''space_id'', ''session_id'',
     ''session_revision'', ''work_item_id'', ''expected_version'', ''target_transition'',
     ''replay_safe'', ''payload_hash'', ''created_at'']"
  "field_names session_command_receipt_spec = [''command_id'', ''state'', ''error_code'',
     ''retryable'', ''details_json'', ''result_json'', ''updated_at'']"
  "field_names active_session_locator_spec = [''singleton_key'', ''space_id'', ''session_id'',
     ''operation_id'', ''state'', ''owner_device_id'', ''owner_tab_id'', ''ownership_epoch'',
     ''lease_expires_at'', ''updated_at'']"
  "field_names tombstone_spec = [''id'', ''entity_type'', ''entity_id'', ''deleted_at'']"
  "field_names sync_outbox_spec = [''id'', ''entity_type'', ''entity_id'', ''action'',
     ''payload'', ''created_at'', ''synced_at'']"
  "field_names sync_audit_log_spec = [''id'', ''event_type'', ''entity_type'', ''entity_id'',
     ''details'', ''created_at'']"
  "field_names space_spec = [''id'', ''name'', ''db_path'', ''notes_dir'', ''is_default'',
     ''created_at'', ''updated_at'']"
  "field_names meta_setting_spec = [''id'', ''key'', ''value'', ''created_at'', ''updated_at'']"
  "field_names setting_spec = [''key'', ''value'', ''updated_at'']"
  by (simp_all add: field_names_def builtin_spec_defs EntitySpec_def sync_fields_def)

lemma builtin_declarations_ok: "\<forall>s \<in> set builtin_specs. declaration_ok s"
  by code_simp

lemma builtin_distinct:
  "distinct (map es_name builtin_specs)"
  "distinct (map es_table_name builtin_specs)"
  "distinct (route_prefixes builtin_specs)"
  "distinct (map effective_sync_entity_type (filter es_sync_enabled builtin_specs))"
  by code_simp+

lemma builtin_endpoints: "\<forall>s \<in> set builtin_specs. check_endpoints (map es_name builtin_specs) s = Inr ()"
  by code_simp

text \<open>
  The built-in registrations register without a clash and compile into a well-formed catalog,
  given that the declared modules import and the key columns are text. The catalog holds 33
  entities, 24 of them business entities and 22 sync-enabled.
\<close>

theorem builtin_catalog:
  assumes "\<forall>s \<in> set builtin_specs. process_loads pr s"
  shows "\<exists>rg ct. REGISTRY = Inr rg \<and> registry_list rg = builtin_specs \<and>
    compile_catalog pr (registry_list rg) version = Inr ct \<and> catalog_wf ct \<and>
    length (catalog_list ct) = 33 \<and> length (catalog_list_by_category ct BUSINESS) = 24 \<and>
    length (filter es_sync_enabled (catalog_list ct)) = 22"
proof -
  have reg: "register_all \<lparr>rg_specs = map (\<lambda>s. (es_name s, s)) pre, rg_compiled = False\<rparr> specs =
      Inr \<lparr>rg_specs = map (\<lambda>s. (es_name s, s)) (pre @ specs), rg_compiled = False\<rparr>"
    if "distinct (map es_name (pre @ specs))" for pre specs
    using that
  proof (induction specs arbitrary: pre)
    case (Cons s specs)
    have "map_of (map (\<lambda>s. (es_name s, s)) pre) (es_name s) = None"
      using Cons.prems by (simp add: map_of_eq_None_iff image_image)
    then show ?case using Cons.IH [of "pre @ [s]"] Cons.prems by (simp add: register_def)
  qed simp
  have 1: "REGISTRY = Inr \<lparr>rg_specs = map (\<lambda>s. (es_name s, s)) builtin_specs, rg_compiled = False\<rparr>"
    using reg [of "[]" builtin_specs] builtin_distinct(1) by (simp add: REGISTRY_def)
  have ne: "builtin_specs \<noteq> []" by (simp add: builtin_specs_def)
  obtain ct where ct: "compile_catalog pr builtin_specs version = Inr ct"
    using compile_catalog_complete [of builtin_specs pr version] assms builtin_declarations_ok
      builtin_distinct builtin_endpoints ne
    by blast
  have count: "length (filter p (catalog_list ct)) = length (filter p builtin_specs)" for p
    using compile_catalog_facts [OF ct] by (metis mset_filter size_mset)
  have "length (catalog_list ct) = 33"
    using count [of "\<lambda>_. True"] by (simp add: builtin_specs_def)
  moreover have "length (filter (\<lambda>s. es_category s = BUSINESS) builtin_specs) = 24"
    "length (filter es_sync_enabled builtin_specs) = 22"
    by code_simp+
  moreover have "registry_list \<lparr>rg_specs = map (\<lambda>s. (es_name s, s)) builtin_specs, rg_compiled = False\<rparr> =
      builtin_specs"
    by (simp add: registry_list_def comp_def)
  moreover have "catalog_wf ct"
    using compile_catalog_facts [OF ct] ..
  ultimately show ?thesis
    using 1 ct unfolding catalog_list_by_category_def count [symmetric] by fastforce
qed

lemma builtin_catalog_witness:
  "\<exists>pr rg ct. REGISTRY = Inr rg \<and> compile_catalog pr (registry_list rg) ''1'' = Inr ct \<and>
     length (catalog_list ct) = 33"
proof -
  let ?pr = "\<lparr>pr_resolves = \<lambda>_. True, pr_imports = \<lambda>_. True, pr_schema_attr = \<lambda>_ _. True,
    pr_pk_column = \<lambda>_ _. Some (False, ''string''), pr_sha256_json = \<lambda>_. []\<rparr>"
  have "\<forall>s \<in> set builtin_specs. process_loads ?pr s"
    by (simp add: process_loads_def)
  from builtin_catalog [OF this, of "''1''"] show ?thesis by blast
qed

lemma compile_catalog_wf_witness:
  "\<exists>pr ct. compile_catalog pr [label_spec, work_item_spec] ''1'' = Inr ct \<and>
     catalog_get ct ''label'' = Some label_spec"
proof -
  let ?pr = "\<lparr>pr_resolves = \<lambda>_. True, pr_imports = \<lambda>_. True, pr_schema_attr = \<lambda>_ _. True,
    pr_pk_column = \<lambda>_ _. Some (False, ''string''), pr_sha256_json = \<lambda>_. []\<rparr>"
  have "\<forall>s \<in> set [label_spec, work_item_spec]. process_loads ?pr s \<and> declaration_ok s"
    using builtin_declarations_ok by (simp add: process_loads_def builtin_specs_def)
  then obtain ct where ct: "compile_catalog ?pr [label_spec, work_item_spec] ''1'' = Inr ct"
    using compile_catalog_complete [of "[label_spec, work_item_spec]" ?pr "''1''"]
    by (auto simp: route_prefixes_def effective_sync_entity_type_def or_default_def check_endpoints_def
        label_spec_def work_item_spec_def EntitySpec_def opt_truthy_def)
  moreover have "catalog_get ct (es_name label_spec) = Some label_spec"
    using compile_catalog_wf [OF ct] by simp
  ultimately show ?thesis by auto
qed
end
