(* ===== verification/Json.thy ===== *)
theory Json
  imports Mutation "HOL-Library.Multiset"
begin

text \<open>
  The part of the standard module \<open>json\<close> the backend stores documents with: \<open>json.dumps\<close> with
  compact separators and sorted keys, and \<open>json.loads\<close>. Numbers are the integers (a text with a
  fraction or an exponent is outside the model, and so is an escape of a code point above U+00FF).
\<close>

section \<open>Writing\<close>

definition hex_digit :: "nat \<Rightarrow> char" where
  "hex_digit n = ''0123456789abcdef'' ! n"

definition escape_char :: "char \<Rightarrow> string" where
  "escape_char c =
     (if c = CHR 0x22 then [CHR 0x5C, CHR 0x22]
      else if c = CHR 0x5C then [CHR 0x5C, CHR 0x5C]
      else if c = CHR 0x0A then [CHR 0x5C, CHR ''n'']
      else if c = CHR 0x0D then [CHR 0x5C, CHR ''r'']
      else if c = CHR 0x09 then [CHR 0x5C, CHR ''t'']
      else if c = CHR 0x08 then [CHR 0x5C, CHR ''b'']
      else if c = CHR 0x0C then [CHR 0x5C, CHR ''f'']
      else if (of_char c :: nat) < 32
      then CHR 0x5C # ''u00'' @ [hex_digit (of_char c div 16), hex_digit (of_char c mod 16)]
      else [c])"

definition quote :: "string \<Rightarrow> string" where
  "quote s = CHR 0x22 # concat (map escape_char s) @ [CHR 0x22]"

fun intersperse :: "string list \<Rightarrow> string" where
  "intersperse [] = []"
| "intersperse [x] = x"
| "intersperse (x # y # xs) = x @ CHR '','' # intersperse (y # xs)"

text \<open>\<open>sort_keys=True\<close> orders the keys of every object; \<open>normal\<close> is the value so ordered.\<close>

fun normal :: "json \<Rightarrow> json" where
  "normal (JList xs) = JList (map normal xs)"
| "normal (JObj kvs) = JObj (sort_key fst (map (\<lambda>(k, v). (k, normal v)) kvs))"
| "normal v = v"

fun dumps_plain :: "json \<Rightarrow> string" where
  "dumps_plain JNull = ''null''"
| "dumps_plain (JBool b) = (if b then ''true'' else ''false'')"
| "dumps_plain (JInt i) = int_text i"
| "dumps_plain (JStr s) = quote s"
| "dumps_plain (JList xs) = CHR ''['' # intersperse (map dumps_plain xs) @ '']''"
| "dumps_plain (JObj kvs) =
     CHR ''{'' # intersperse (map (\<lambda>(k, v). quote k @ CHR '':'' # dumps_plain v) kvs) @ ''}''"

definition json_dumps :: "json \<Rightarrow> string" where
  "json_dumps v = dumps_plain (normal v)"

text \<open>\<open>ensure_ascii=True\<close>: the code points above U+007F, which occur in string literals only, are escaped.\<close>

definition ascii_char :: "char \<Rightarrow> string" where
  "ascii_char c = (if (of_char c :: nat) < 128 then [c]
     else CHR 0x5C # ''u00'' @ [hex_digit (of_char c div 16), hex_digit (of_char c mod 16)])"

definition canonical_ascii :: "json \<Rightarrow> string" where
  "canonical_ascii v = concat (map ascii_char (json_dumps v))"

section \<open>Reading\<close>

definition is_ws :: "char \<Rightarrow> bool" where
  "is_ws c = (c = CHR '' '' \<or> c = CHR 0x09 \<or> c = CHR 0x0A \<or> c = CHR 0x0D)"

definition skip_ws :: "string \<Rightarrow> string" where
  "skip_ws s = dropWhile is_ws s"

definition hex_val :: "char \<Rightarrow> nat option" where
  "hex_val c =
     (if CHR ''0'' \<le> c \<and> c \<le> CHR ''9'' then Some (of_char c - 48)
      else if CHR ''a'' \<le> c \<and> c \<le> CHR ''f'' then Some (of_char c - 87)
      else if CHR ''A'' \<le> c \<and> c \<le> CHR ''F'' then Some (of_char c - 55)
      else None)"

definition unescape :: "char \<Rightarrow> char option" where
  "unescape c =
     (if c = CHR 0x22 \<or> c = CHR 0x5C \<or> c = CHR ''/'' then Some c
      else if c = CHR ''n'' then Some (CHR 0x0A)
      else if c = CHR ''r'' then Some (CHR 0x0D)
      else if c = CHR ''t'' then Some (CHR 0x09)
      else if c = CHR ''b'' then Some (CHR 0x08)
      else if c = CHR ''f'' then Some (CHR 0x0C)
      else None)"

definition unicode_char :: "char \<Rightarrow> char \<Rightarrow> char \<Rightarrow> char \<Rightarrow> char option" where
  "unicode_char a b c d =
     (case (hex_val a, hex_val b, hex_val c, hex_val d) of
        (Some 0, Some 0, Some m, Some n) \<Rightarrow> Some (char_of (16 * m + n))
      | _ \<Rightarrow> None)"

text \<open>The rest of a string literal, after its opening quote; the result ends before what follows.\<close>

fun parse_string :: "string \<Rightarrow> (string \<times> string) option" where
  "parse_string [] = None"
| "parse_string (c # cs) =
     (if c = CHR 0x22 then Some ([], cs)
      else if c = CHR 0x5C then
        (case cs of
           [] \<Rightarrow> None
         | e # r \<Rightarrow>
             if e = CHR ''u'' then
               (case r of
                  h1 # h2 # h3 # h4 # r' \<Rightarrow>
                    (case unicode_char h1 h2 h3 h4 of
                       None \<Rightarrow> None
                     | Some x \<Rightarrow> map_option (\<lambda>(s, t). (x # s, t)) (parse_string r'))
                | _ \<Rightarrow> None)
             else (case unescape e of
                     None \<Rightarrow> None
                   | Some x \<Rightarrow> map_option (\<lambda>(s, t). (x # s, t)) (parse_string r)))
      else if (of_char c :: nat) < 32 then None
      else map_option (\<lambda>(s, t). (c # s, t)) (parse_string cs))"

definition starts_float :: "string \<Rightarrow> bool" where
  "starts_float s = (case s of
     c # d # _ \<Rightarrow> (c = CHR ''.'' \<and> is_digit d) \<or>
       ((c = CHR ''e'' \<or> c = CHR ''E'') \<and>
        (is_digit d \<or> (d = CHR ''+'' \<or> d = CHR ''-'') \<and> (case drop 2 s of x # _ \<Rightarrow> is_digit x | [] \<Rightarrow> False)))
   | _ \<Rightarrow> False)"

definition parse_nat :: "string \<Rightarrow> (nat \<times> string) option" where
  "parse_nat s =
     (case s of
        [] \<Rightarrow> None
      | c # r \<Rightarrow>
          if c = CHR ''0'' then (if starts_float r then None else Some (0, r))
          else if is_digit c then
            (let ds = takeWhile is_digit s; rest = dropWhile is_digit s in
             if starts_float rest then None else Some (num_of ds, rest))
          else None)"

definition parse_number :: "string \<Rightarrow> (json \<times> string) option" where
  "parse_number s =
     (case s of
        [] \<Rightarrow> None
      | c # r \<Rightarrow>
          if c = CHR ''-'' then map_option (\<lambda>(n, t). (JInt (- int n), t)) (parse_nat r)
          else map_option (\<lambda>(n, t). (JInt (int n), t)) (parse_nat s))"

text \<open>
  One value at the front of a text, with fuel: every recursive call has consumed a character, so
  the length of the text is always enough.
\<close>

fun parse_value :: "nat \<Rightarrow> string \<Rightarrow> (json \<times> string) option"
and parse_elements :: "nat \<Rightarrow> json list \<Rightarrow> string \<Rightarrow> (json \<times> string) option"
and parse_members :: "nat \<Rightarrow> (string \<times> json) list \<Rightarrow> string \<Rightarrow> (json \<times> string) option" where
  "parse_value 0 s = None"
| "parse_value (Suc n) s =
     (case s of
        [] \<Rightarrow> None
      | c # r \<Rightarrow>
          if c = CHR 0x22 then map_option (\<lambda>(x, t). (JStr x, t)) (parse_string r)
          else if c = CHR ''['' then
            (case skip_ws r of
               [] \<Rightarrow> None
             | d # r' \<Rightarrow> if d = CHR '']'' then Some (JList [], r') else parse_elements n [] (d # r'))
          else if c = CHR ''{'' then
            (case skip_ws r of
               [] \<Rightarrow> None
             | d # r' \<Rightarrow> if d = CHR ''}'' then Some (JObj [], r') else parse_members n [] (d # r'))
          else if take 4 s = ''null'' then Some (JNull, drop 4 s)
          else if take 4 s = ''true'' then Some (JBool True, drop 4 s)
          else if take 5 s = ''false'' then Some (JBool False, drop 5 s)
          else parse_number s)"
| "parse_elements 0 acc s = None"
| "parse_elements (Suc n) acc s =
     (case parse_value n s of
        None \<Rightarrow> None
      | Some (v, r) \<Rightarrow>
          (case skip_ws r of
             [] \<Rightarrow> None
           | d # r' \<Rightarrow>
               if d = CHR '']'' then Some (JList (acc @ [v]), r')
               else if d = CHR '','' then parse_elements n (acc @ [v]) (skip_ws r')
               else None))"
| "parse_members 0 acc s = None"
| "parse_members (Suc n) acc s =
     (case s of
        [] \<Rightarrow> None
      | q # r \<Rightarrow>
          if q \<noteq> CHR 0x22 then None
          else (case parse_string r of
                  None \<Rightarrow> None
                | Some (k, r1) \<Rightarrow>
                    (case skip_ws r1 of
                       [] \<Rightarrow> None
                     | x # r2 \<Rightarrow>
                         if x \<noteq> CHR '':'' then None
                         else (case parse_value n (skip_ws r2) of
                                 None \<Rightarrow> None
                               | Some (v, r3) \<Rightarrow>
                                   (case skip_ws r3 of
                                      [] \<Rightarrow> None
                                    | d # r4 \<Rightarrow>
                                        if d = CHR ''}'' then Some (JObj (AList.update k v acc), r4)
                                        else if d = CHR '',''
                                        then parse_members n (AList.update k v acc) (skip_ws r4)
                                        else None)))))"

definition json_loads :: "string \<Rightarrow> json option" where
  "json_loads s =
     (case parse_value (Suc (length s)) (skip_ws s) of
        Some (v, r) \<Rightarrow> if skip_ws r = [] then Some v else None
      | None \<Rightarrow> None)"


section \<open>Reading back what was written\<close>

lemma hex_val_hex_digit: "n < 16 \<Longrightarrow> hex_val (hex_digit n) = Some n"
proof -
  have "\<forall>k \<in> set [0..<16]. hex_val (hex_digit k) = Some k"
    by (simp add: upt_rec hex_digit_def hex_val_def less_eq_char_def)
  then show "n < 16 \<Longrightarrow> ?thesis" by simp
qed

lemma parse_string_escape:
  "parse_string (escape_char c @ t) = map_option (\<lambda>(s, r). (c # s, r)) (parse_string t)"
proof -
  have ctl: "unicode_char (CHR ''0'') (CHR ''0'') (hex_digit (of_char c div 16))
      (hex_digit (of_char c mod 16)) = Some c" if "(of_char c :: nat) < 32"
  proof -
    have "hex_val (CHR ''0'') = Some 0" by (simp add: hex_val_def less_eq_char_def)
    moreover have "(of_char c :: nat) div 16 < 16" "(of_char c :: nat) mod 16 < 16"
      using that by simp_all
    ultimately show ?thesis
      by (simp add: unicode_char_def hex_val_hex_digit)
  qed
  show ?thesis
    by (simp add: escape_char_def unescape_def ctl)
qed

lemma parse_string_quote:
  "parse_string (concat (map escape_char s) @ CHR 0x22 # r) = Some (s, r)"
  by (induction s) (simp_all add: parse_string_escape)

text \<open>What may follow a number without being read as part of it.\<close>

definition number_end :: "string \<Rightarrow> bool" where
  "number_end r = (case r of [] \<Rightarrow> True | c # _ \<Rightarrow> is_ws c \<or> c \<in> {CHR '','', CHR '']'', CHR ''}''})"

lemma number_end_not_digit: "number_end r \<Longrightarrow> takeWhile is_digit r = [] \<and> dropWhile is_digit r = r"
  by (cases r) (auto simp: number_end_def is_ws_def is_digit_def less_eq_char_def)

lemma number_end_not_float: "number_end r \<Longrightarrow> \<not> starts_float r"
  by (auto simp: number_end_def is_ws_def starts_float_def split: list.splits)

lemma nat_digits_head: "0 < n \<Longrightarrow> \<exists>c cs. nat_digits n = c # cs \<and> is_digit c \<and> c \<noteq> CHR ''0''"
proof (induction n rule: nat_digits.induct)
  case (1 n)
  show ?case
  proof (cases "n < 10")
    case True
    have "\<forall>k \<in> set [1..<10]. is_digit (digit_char k) \<and> digit_char k \<noteq> CHR ''0''"
      by (simp add: upt_rec digit_char_def is_digit_def less_eq_char_def)
    with 1 True have "is_digit (digit_char n) \<and> digit_char n \<noteq> CHR ''0''" by simp
    with True show ?thesis by (simp add: nat_digits.simps [of n])
  next
    case False
    then have "0 < n div 10" by (simp add: div_greater_zero_iff)
    with 1 False show ?thesis by (auto simp: nat_digits.simps [of n])
  qed
qed

lemma nat_digits_Cons: "\<exists>c cs. nat_digits n = c # cs \<and> is_digit c"
proof -
  have "nat_digits n \<noteq> []" by (simp add: nat_digits.simps [of n])
  then obtain c cs where "nat_digits n = c # cs" by (cases "nat_digits n") simp_all
  then show ?thesis using digits_nat_digits [of n] by simp
qed

lemma takeWhile_digits: "list_all is_digit ds \<Longrightarrow> number_end r \<Longrightarrow>
    takeWhile is_digit (ds @ r) = ds \<and> dropWhile is_digit (ds @ r) = r"
  by (induction ds) (auto simp: number_end_not_digit)

lemma parse_nat_digits: "number_end r \<Longrightarrow> parse_nat (nat_digits n @ r) = Some (n, r)"
proof (cases "n = 0")
  case True
  then show "number_end r \<Longrightarrow> ?thesis"
    by (simp add: nat_digits.simps [of 0] digit_char_def parse_nat_def number_end_not_float)
next
  case False
  assume r: "number_end r"
  obtain c cs where c: "nat_digits n = c # cs" "is_digit c" "c \<noteq> CHR ''0''"
    using nat_digits_head False by blast
  have "list_all is_digit cs"
    using digits_nat_digits [of n] by (simp add: c)
  then have "takeWhile is_digit (cs @ r) = cs" "dropWhile is_digit (cs @ r) = r"
    using takeWhile_digits r by blast+
  moreover have "num_of (c # cs) = n" using num_of_nat_digits [of n] by (simp add: c)
  ultimately show ?thesis
    using c r by (simp add: parse_nat_def Let_def number_end_not_float)
qed

lemma parse_number_int: "number_end r \<Longrightarrow> parse_number (int_text i @ r) = Some (JInt i, r)"
proof (cases "i < 0")
  case True
  then show "number_end r \<Longrightarrow> ?thesis"
    by (simp add: int_text_def parse_number_def parse_nat_digits)
next
  case False
  assume r: "number_end r"
  obtain c cs where c: "nat_digits (nat i) = c # cs" "is_digit c"
    using nat_digits_Cons by blast
  have "c \<noteq> CHR ''-''" using c(2) by (auto simp: is_digit_def less_eq_char_def)
  then show ?thesis
    using False c parse_nat_digits [OF r, of "nat i"]
    by (simp add: int_text_def parse_number_def)
qed

lemma skip_ws_cons: "\<not> is_ws c \<Longrightarrow> skip_ws (c # s) = c # s"
  by (simp add: skip_ws_def)

lemma int_text_head: "\<exists>c cs. int_text i = c # cs \<and> (c = CHR ''-'' \<or> is_digit c)"
  using nat_digits_Cons [of "nat i"] nat_digits_Cons [of "nat (- i)"] by (auto simp: int_text_def)

text \<open>The first character of a written value: no blank, and no closing bracket.\<close>

definition value_head :: "char \<Rightarrow> bool" where
  "value_head c = (\<not> is_ws c \<and> c \<noteq> CHR '']'' \<and> c \<noteq> CHR ''}'')"

lemma dumps_plain_head: "\<exists>c cs. dumps_plain v = c # cs \<and> value_head c"
proof (cases v)
  case (JInt i)
  then show ?thesis using int_text_head [of i]
    by (auto simp: value_head_def is_ws_def is_digit_def less_eq_char_def)
qed (auto simp: value_head_def is_ws_def quote_def)

lemma skip_ws_dumps: "skip_ws (dumps_plain v @ r) = dumps_plain v @ r"
  using dumps_plain_head [of v] by (auto simp: value_head_def skip_ws_cons)

lemma length_int_text: "0 < length (int_text i)"
  using int_text_head [of i] by auto

lemma is_ws_simps [simp]:
  "\<not> is_ws (CHR '','')" "\<not> is_ws (CHR '':'')" "\<not> is_ws (CHR '']'')" "\<not> is_ws (CHR ''}'')"
  "\<not> is_ws (CHR 0x22)"
  by (simp_all add: is_ws_def)

text \<open>
  Reading a written value back. \<open>reads v\<close>: whatever properly follows the value, enough fuel reads
  exactly the value.
\<close>

definition reads :: "json \<Rightarrow> bool" where
  "reads v = (\<forall>n r. length (dumps_plain v) \<le> n \<longrightarrow> number_end r \<longrightarrow>
     parse_value n (dumps_plain v @ r) = Some (v, r))"

lemma parse_elements_dumps:
  assumes "\<forall>v \<in> set (x # xs). reads v" "length (intersperse (map dumps_plain (x # xs))) < n"
  shows "parse_elements n acc (intersperse (map dumps_plain (x # xs)) @ '']'' @ r) =
    Some (JList (acc @ x # xs), r)"
  using assms
proof (induction xs arbitrary: x acc n)
  case Nil
  obtain m where n: "n = Suc m" using Nil by (cases n) simp_all
  have "parse_value m (dumps_plain x @ CHR '']'' # r) = Some (x, CHR '']'' # r)"
    using Nil by (simp add: reads_def n number_end_def)
  then show ?case by (simp add: n skip_ws_cons)
next
  case (Cons y ys)
  obtain m where n: "n = Suc m" using Cons.prems by (cases n) simp_all
  let ?rest = "intersperse (map dumps_plain (y # ys)) @ '']'' @ r"
  have len: "length (dumps_plain x) \<le> m" "length (intersperse (map dumps_plain (y # ys))) < m"
    using Cons.prems(2) by (simp_all add: n)
  have "parse_value m (dumps_plain x @ CHR '','' # ?rest) = Some (x, CHR '','' # ?rest)"
    using Cons.prems(1) len by (simp add: reads_def number_end_def)
  moreover have "skip_ws ?rest = ?rest"
    using skip_ws_dumps [of y] by (cases ys) simp_all
  ultimately show ?case
    using Cons.IH [of y m "acc @ [x]"] Cons.prems(1) len
    by (simp add: n skip_ws_cons)
qed

definition member :: "string \<times> json \<Rightarrow> string" where
  "member kv = quote (fst kv) @ CHR '':'' # dumps_plain (snd kv)"

lemma update_fresh: "k \<notin> fst ` set acc \<Longrightarrow> AList.update k v acc = acc @ [(k, v)]"
  by (induction acc) auto

lemma parse_member:
  assumes "reads v" "length (dumps_plain v) \<le> m" "number_end (d # r)" "\<not> is_ws d"
  shows "parse_members (Suc m) acc (member (k, v) @ d # r) =
    (if d = CHR ''}'' then Some (JObj (AList.update k v acc), r)
     else if d = CHR '','' then parse_members m (AList.update k v acc) (skip_ws r) else None)"
proof -
  have "parse_value m (dumps_plain v @ d # r) = Some (v, d # r)"
    using assms by (simp add: reads_def)
  then show ?thesis
    using assms(4) by (simp add: member_def quote_def parse_string_quote skip_ws_cons skip_ws_dumps)
qed

lemma parse_members_dumps:
  assumes "\<forall>kv \<in> set (x # xs). reads (snd kv)" "length (intersperse (map member (x # xs))) < n"
    "distinct (map fst (acc @ x # xs))"
  shows "parse_members n acc (intersperse (map member (x # xs)) @ ''}'' @ r) =
    Some (JObj (acc @ x # xs), r)"
  using assms
proof (induction xs arbitrary: x acc n)
  case Nil
  obtain m k v where n: "n = Suc m" and x: "x = (k, v)" using Nil by (cases n; cases x) simp_all
  have "length (dumps_plain v) \<le> m" using Nil by (simp add: n x member_def)
  then show ?case
    using Nil parse_member [of v m "CHR ''}''" r acc k]
    by (simp add: n x number_end_def update_fresh)
next
  case (Cons y ys)
  obtain m k v where n: "n = Suc m" and x: "x = (k, v)" using Cons.prems by (cases n; cases x) simp_all
  let ?rest = "intersperse (map member (y # ys)) @ ''}'' @ r"
  have len: "length (dumps_plain v) \<le> m" "length (intersperse (map member (y # ys))) < m"
    using Cons.prems(2) by (simp_all add: n x) (simp add: member_def)
  have "skip_ws ?rest = ?rest"
    by (cases ys) (simp_all add: member_def quote_def skip_ws_cons)
  moreover have "AList.update k v acc = acc @ [(k, v)]"
    using Cons.prems(3) by (intro update_fresh) (auto simp: x)
  ultimately show ?case
    using Cons.IH [of y m "acc @ [x]"] Cons.prems len parse_member [of v m "CHR '',''" ?rest acc k]
    by (simp add: n x number_end_def)
qed

lemma reads_scalar: "reads JNull" "reads (JBool b)" "reads (JInt i)" "reads (JStr s)"
proof -
  show "reads JNull" "reads (JBool b)"
    by (auto simp: reads_def Suc_le_eq gr0_conv_Suc dest!: less_imp_Suc_add)
  obtain c cs where c: "int_text i = c # cs" "c = CHR ''-'' \<or> is_digit c"
    using int_text_head by blast
  then have no: "c \<noteq> CHR 0x22" "c \<noteq> CHR ''[''" "c \<noteq> CHR ''{''" "c \<noteq> CHR ''n''" "c \<noteq> CHR ''t''" "c \<noteq> CHR ''f''"
    by (auto simp: is_digit_def less_eq_char_def)
  show "reads (JInt i)"
    unfolding reads_def
  proof (intro allI impI)
    fix n r assume "length (dumps_plain (JInt i)) \<le> n" and r: "number_end r"
    then obtain m where "n = Suc m" using c by (cases n) simp_all
    then show "parse_value n (dumps_plain (JInt i) @ r) = Some (JInt i, r)"
      using no parse_number_int [OF r, of i] by (simp add: c)
  qed
  show "reads (JStr s)"
    unfolding reads_def
  proof (intro allI impI)
    fix n r assume "length (dumps_plain (JStr s)) \<le> n"
    then obtain m where "n = Suc m" by (cases n) (simp_all add: quote_def)
    then show "parse_value n (dumps_plain (JStr s) @ r) = Some (JStr s, r)"
      by (simp add: quote_def parse_string_quote)
  qed
qed

lemma reads_value: "distinct_keys v \<Longrightarrow> reads v"
proof (induction v rule: distinct_keys.induct)
  case (1 xs)
  have *: "\<forall>v \<in> set xs. reads v" using 1 by simp
  show ?case
  proof (cases xs)
    case Nil
    then show ?thesis by (auto simp: reads_def skip_ws_cons Suc_le_eq dest!: less_imp_Suc_add)
  next
    case (Cons y ys)
    obtain c cs where c: "dumps_plain y = c # cs" "value_head c" using dumps_plain_head by blast
    then obtain t where t: "intersperse (map dumps_plain xs) = c # t"
      using Cons by (cases ys) simp_all
    show ?thesis
      unfolding reads_def
    proof (intro allI impI)
      fix n r assume "length (dumps_plain (JList xs)) \<le> n"
      then obtain m where "n = Suc m" "length (intersperse (map dumps_plain xs)) < m"
        by (cases n) auto
      then show "parse_value n (dumps_plain (JList xs) @ r) = Some (JList xs, r)"
        using parse_elements_dumps [of y ys m "[]" r] * Cons c t
        by (simp add: skip_ws_cons value_head_def)
    qed
  qed
next
  case (2 kvs)
  have *: "\<forall>kv \<in> set kvs. reads (snd kv)" and d: "distinct (map fst kvs)" using 2 by auto
  have m: "dumps_plain (JObj kvs) = CHR ''{'' # intersperse (map member kvs) @ ''}''"
    by (simp add: member_def case_prod_beta cong: map_cong)
  show ?case
  proof (cases kvs)
    case Nil
    then show ?thesis by (auto simp: reads_def skip_ws_cons Suc_le_eq dest!: less_imp_Suc_add)
  next
    case (Cons y ys)
    obtain t where t: "intersperse (map member kvs) = CHR 0x22 # t"
      using Cons by (cases ys) (simp_all add: member_def quote_def)
    have w: "dumps_plain (JObj kvs) = CHR ''{'' # CHR 0x22 # t @ ''}''"
      unfolding m t by simp
    show ?thesis
      unfolding reads_def
    proof (intro allI impI)
      fix n r assume "length (dumps_plain (JObj kvs)) \<le> n"
      then obtain k where "n = Suc k" "length (intersperse (map member kvs)) < k"
        by (cases n) (auto simp: w t simp del: dumps_plain.simps)
      then show "parse_value n (dumps_plain (JObj kvs) @ r) = Some (JObj kvs, r)"
        using parse_members_dumps [of y ys k "[]" r] * d
        unfolding w t Cons [symmetric] by (simp add: skip_ws_cons)
    qed
  qed
qed (simp_all add: reads_scalar)

lemma fst_keyed [simp]: "fst \<circ> (\<lambda>(k, v). (k, f v)) = fst"
  by auto

lemma distinct_sort_key: "distinct (map fst (sort_key fst xs)) = distinct (map fst xs)"
  by (intro mset_eq_imp_distinct_iff) simp

lemma distinct_keys_normal: "distinct_keys v \<Longrightarrow> distinct_keys (normal v)"
proof (induction v rule: distinct_keys.induct)
  case (2 kvs)
  then show ?case by (auto simp: distinct_sort_key)
qed auto

lemma map_of_sort: "distinct (map fst kvs) \<Longrightarrow> map_of (sort_key fst kvs) k = map_of kvs k"
proof -
  assume "distinct (map fst kvs)"
  then have "map_of (sort_key fst kvs) k = Some v \<longleftrightarrow> map_of kvs k = Some v" for v
    by (simp add: distinct_sort_key)
  then show ?thesis by (metis not_None_eq)
qed

lemma py_eq_normal: "distinct_keys v \<Longrightarrow> py_eq v (normal v)"
proof (induction v rule: distinct_keys.induct)
  case (1 xs)
  then show ?case by (auto simp: zip_map2 zip_same_conv_map)
next
  case (2 kvs)
  let ?kws = "map (\<lambda>(k, v). (k, normal v)) kvs"
  have d: "distinct (map fst ?kws)" using 2 by simp
  have "map_of (sort_key fst ?kws) k = Some (normal v) \<and> py_eq v (normal v)" if kv: "(k, v) \<in> set kvs" for k v
  proof
    have "(k, normal v) \<in> set ?kws" using kv by force
    with d show "map_of (sort_key fst ?kws) k = Some (normal v)"
      unfolding map_of_sort [OF d] by (rule map_of_is_SomeI)
    show "py_eq v (normal v)" using 2 kv by force
  qed
  then show ?case by (auto split: option.split)
qed auto

lemma json_loads_padded:
  assumes "distinct_keys v" "list_all is_ws pre" "list_all is_ws post"
  shows "json_loads (pre @ json_dumps v @ post) = Some (normal v)"
proof -
  let ?t = "dumps_plain (normal v)"
  have strip: "skip_ws (ws @ s) = skip_ws s" if "list_all is_ws ws" for ws s
    using that by (induction ws) (simp_all add: skip_ws_def)
  have ws: "skip_ws (pre @ ?t @ post) = ?t @ post"
    using strip [OF assms(2)] skip_ws_dumps by simp
  have end_: "skip_ws post = []" using strip [OF assms(3), of "[]"] by (simp add: skip_ws_def)
  have "parse_value (Suc (length (pre @ ?t @ post))) (?t @ post) = Some (normal v, post)"
  proof -
    have "number_end post"
      using assms(3) by (cases post) (simp_all add: number_end_def)
    then show ?thesis
      using reads_value [OF distinct_keys_normal [OF assms(1)]]
      by (simp add: reads_def del: parse_value.simps)
  qed
  then show ?thesis by (simp add: json_loads_def json_dumps_def ws end_)
qed

lemma json_loads_dumps: "distinct_keys v \<Longrightarrow> json_loads (json_dumps v) = Some (normal v)"
  using json_loads_padded [of v "[]" "[]"] by simp

text \<open>
  Writing a value (any nesting of objects with distinct keys, arrays, texts, integers,
  booleans and null) and reading the text back, with blanks around it, gives the same value up to
  the order of object keys, which \<open>==\<close> does not see. In particular reading never fails on a written
  text, and the fuel of the reader is always enough.
\<close>

theorem json_round_trip:
  assumes "distinct_keys v" "list_all is_ws pre" "list_all is_ws post"
  shows "\<exists>w. json_loads (pre @ json_dumps v @ post) = Some w \<and> w = normal v \<and> py_eq v w"
  using json_loads_padded [OF assms] py_eq_normal [OF assms(1)] by blast

lemma json_round_trip_witness:
  "json_loads ('' '' @ json_dumps (JObj [(''b'', JInt (-12)), (''a'', JList [JNull, JStr ''x''])]) @ []) =
     Some (JObj [(''a'', JList [JNull, JStr ''x'']), (''b'', JInt (-12))])"
  using json_round_trip [of "JObj [(''b'', JInt (-12)), (''a'', JList [JNull, JStr ''x''])]" "'' ''" "[]"]
  by (simp add: is_ws_def)

end
