(* ===== verification/Overlay.thy ===== *)
theory Overlay
  imports Builtin Json "HOL-Library.Product_Lexorder"
begin

text \<open>
  The authority overlay (\<open>app/mutation/unit_of_work.py\<close>): the rows, tombstones and projections of a
  Space as the commands accepted so far in a batch leave them, and the context a command is
  compiled in. A row is found under its entity type and its identity, the list of its key values
  (one value, or all of a composite key). The dictionaries are association lists, because the
  insertion order shows where a sort ties.
\<close>

section \<open>Texts of identities\<close>

text \<open>\<open>repr\<close> of a text of code points below U+0100, and \<open>str\<close> of an identity.\<close>

definition printable :: "char \<Rightarrow> bool" where
  "printable c = (let n = (of_char c :: nat) in (32 \<le> n \<and> n < 127) \<or> (161 \<le> n \<and> n \<noteq> 173))"

definition repr_char :: "char \<Rightarrow> char \<Rightarrow> string" where
  "repr_char q c =
     (if c = q \<or> c = CHR 0x5C then [CHR 0x5C, c]
      else if c = CHR 0x0A then [CHR 0x5C, CHR ''n'']
      else if c = CHR 0x0D then [CHR 0x5C, CHR ''r'']
      else if c = CHR 0x09 then [CHR 0x5C, CHR ''t'']
      else if printable c then [c]
      else [CHR 0x5C, CHR ''x'', hex_digit (of_char c div 16), hex_digit (of_char c mod 16)])"

definition repr_str :: "string \<Rightarrow> string" where
  "repr_str s =
     (let q = (if CHR 0x27 \<in> set s \<and> CHR 0x22 \<notin> set s then CHR 0x22 else CHR 0x27) in
      q # concat (map (repr_char q) s) @ [q])"

definition repr_of :: "json \<Rightarrow> string" where
  "repr_of v = (case v of JStr s \<Rightarrow> repr_str s | _ \<Rightarrow> str_of v)"

fun comma_sep :: "string list \<Rightarrow> string" where
  "comma_sep [] = []"
| "comma_sep [x] = x"
| "comma_sep (x # y # xs) = x @ '', '' @ comma_sep (y # xs)"

definition identity_text :: "json list \<Rightarrow> string" where
  "identity_text ident = (case ident of [v] \<Rightarrow> str_of v | vs \<Rightarrow> ''('' @ comma_sep (map repr_of vs) @ '')'')"

section \<open>The overlay\<close>

definition pk_field_set :: "entity_spec \<Rightarrow> string list" where
  "pk_field_set spec = (case es_composite_primary_key spec of
     Some (k # ks) \<Rightarrow> k # ks | _ \<Rightarrow> [es_primary_key spec])"

definition pk_values :: "entity_spec \<Rightarrow> row \<Rightarrow> json list" where
  "pk_values spec r = map (fld r) (pk_field_set spec)"

record overlay =
  ov_catalog :: catalog
  ov_map :: "((string \<times> json list) \<times> row) list"
  ov_tombstones :: "(string \<times> string) set"
  ov_markdown :: "(string, string) fmap"
  ov_derived :: "(projection_action_tag \<times> string, string option) fmap"
  ov_reserved :: "string set"

definition ov_row :: "overlay \<Rightarrow> string \<Rightarrow> json list \<Rightarrow> row option" where
  "ov_row ov t ident = map_of (ov_map ov) (t, ident)"

definition ov_rows :: "overlay \<Rightarrow> string \<Rightarrow> row list res" where
  "ov_rows ov t =
     (case catalog_get (ov_catalog ov) t of
        None \<Rightarrow> Inl (KeyErr t)
      | Some spec \<Rightarrow> Inr
          (map snd (filter (\<lambda>((kind, _), r). kind = t \<and> has_key r (es_primary_key spec))
             (sort_key (\<lambda>((kind, ident), _). (kind, identity_text ident)) (ov_map ov)))))"

definition is_tombstoned :: "overlay \<Rightarrow> string \<Rightarrow> string \<Rightarrow> bool" where
  "is_tombstoned ov t eid = ((t, eid) \<in> ov_tombstones ov)"

definition path_is_reserved :: "overlay \<Rightarrow> string \<Rightarrow> bool" where
  "path_is_reserved ov target = (target \<in> ov_reserved ov)"

section \<open>Applying a command\<close>

definition spec_by_table :: "overlay \<Rightarrow> string \<Rightarrow> entity_spec option" where
  "spec_by_table ov table =
     map_of (rev (map (\<lambda>s. (es_table_name s, s)) (catalog_list (ov_catalog ov)))) table"

text \<open>\<open>row.get(field) != plan.primary_key[field]\<close> compares with \<open>==\<close> of Python, here \<open>py_eq\<close>.\<close>

definition complete_row :: "entity_spec \<Rightarrow> db_plan \<Rightarrow> row \<Rightarrow> bool" where
  "complete_row spec plan r =
     (fmdom' r = set (field_names spec) \<and>
      (\<forall>f \<in> set (pk_field_set spec). py_eq (get r f) (fld (pl_pk plan) f)))"

definition require_complete_row :: "entity_spec \<Rightarrow> db_plan \<Rightarrow> row option \<Rightarrow> string \<Rightarrow> row res" where
  "require_complete_row spec plan r label =
     (case r of
        None \<Rightarrow> Inl (SpaceRecoveryRequired (''mutation plan has no complete '' @ label @ '' image''))
      | Some x \<Rightarrow> if complete_row spec plan x then Inr x
          else Inl (SpaceRecoveryRequired (''mutation plan has no complete '' @ label @ '' image'')))"

text \<open>Rows are compared as Python compares dictionaries.\<close>

definition version_is :: "row \<Rightarrow> int option \<Rightarrow> bool" where
  "version_is r expected = (case expected of None \<Rightarrow> True
     | Some n \<Rightarrow> py_eq (get r ''version'') (JInt n))"

definition apply_plan :: "overlay \<Rightarrow> db_plan \<Rightarrow> overlay res" where
  "apply_plan ov plan =
     (case spec_by_table ov (pl_table plan) of
        None \<Rightarrow> Inl (SpaceRecoveryRequired ''mutation plan is not owned by the compiled catalog'')
      | Some spec \<Rightarrow>
        if fmdom' (pl_pk plan) \<noteq> set (pk_field_set spec)
        then Inl (SpaceRecoveryRequired ''mutation plan is not owned by the compiled catalog'')
        else
          let key = (es_name spec, pk_values spec (pl_pk plan));
              current = map_of (ov_map ov) key in
          (case pl_op plan of
             Insert \<Rightarrow>
               rbind (require_complete_row spec plan (pl_after plan) ''after'') (\<lambda>after.
               rbind (require (current = None \<and> pl_before plan = None \<and> pl_expected plan = None)
                        (SpaceRecoveryRequired ''insert plan conflicts with authoritative state'')) (\<lambda>_.
               Inr (ov\<lparr>ov_map := AList.update key after (ov_map ov)\<rparr>)))
           | Update \<Rightarrow>
               rbind (require_complete_row spec plan (pl_before plan) ''before'') (\<lambda>before.
               rbind (require_complete_row spec plan (pl_after plan) ''after'') (\<lambda>after.
               rbind (require (case current of None \<Rightarrow> False | Some c \<Rightarrow> row_eq c before)
                        (SpaceRecoveryRequired ''update plan conflicts with authoritative state'')) (\<lambda>_.
               rbind (require (version_is (the current) (pl_expected plan))
                        (SpaceRecoveryRequired ''update plan version conflicts with authoritative state''))
                 (\<lambda>_.
               Inr (ov\<lparr>ov_map := AList.update key after (ov_map ov)\<rparr>)))))
           | Delete \<Rightarrow>
               rbind (require_complete_row spec plan (pl_before plan) ''before'') (\<lambda>before.
               rbind (require ((case current of None \<Rightarrow> False | Some c \<Rightarrow> row_eq c before) \<and>
                               pl_after plan = None)
                        (SpaceRecoveryRequired ''delete plan conflicts with authoritative state'')) (\<lambda>_.
               rbind (require (version_is (the current) (pl_expected plan))
                        (SpaceRecoveryRequired ''delete plan version conflicts with authoritative state''))
                 (\<lambda>_.
               Inr (ov\<lparr>ov_map := AList.delete key (ov_map ov)\<rparr>))))))"

definition apply_event :: "overlay \<Rightarrow> sync_event \<Rightarrow> overlay res" where
  "apply_event ov e =
     (if ev_action e \<noteq> EvDelete then Inr ov
      else case catalog_get (ov_catalog ov) (ev_type e) of
             None \<Rightarrow> Inl (KeyErr (ev_type e))
           | Some spec \<Rightarrow> Inr (ov\<lparr>ov_tombstones :=
               insert (effective_sync_entity_type spec, ev_id e) (ov_tombstones ov)\<rparr>))"

definition apply_projection :: "overlay \<Rightarrow> projection_plan \<Rightarrow> overlay res" where
  "apply_projection ov p =
     (let target = pj_target p; current = fmlookup (ov_markdown ov) target in
      case pj_tag p of
        MARKDOWN_WRITE \<Rightarrow>
          (case pj_after p of
             None \<Rightarrow> Inl (SpaceRecoveryRequired ''markdown projection has no after image'')
           | Some after \<Rightarrow>
               rbind (require (current = None \<or> pj_before p = current)
                        (SpaceRecoveryRequired ''markdown projection conflicts with authoritative state''))
                 (\<lambda>_.
               Inr (ov\<lparr>ov_markdown := fmupd target after (ov_markdown ov),
                      ov_reserved := insert target (ov_reserved ov)\<rparr>)))
      | PATH_RENAME \<Rightarrow>
          (case pj_source p of
             None \<Rightarrow> Inl (SpaceRecoveryRequired ''path rename has no source'')
           | Some source \<Rightarrow>
               (case fmlookup (ov_markdown ov) source of
                  None \<Rightarrow> Inl (SpaceRecoveryRequired ''path rename conflicts with authoritative state'')
                | Some body \<Rightarrow>
                    if target \<noteq> source \<and> target \<in> ov_reserved ov
                    then Inl (SpaceRecoveryRequired ''path rename conflicts with authoritative state'')
                    else Inr (ov\<lparr>ov_markdown := fmupd target body (fmdrop source (ov_markdown ov)),
                                ov_reserved := insert target (ov_reserved ov - {source})\<rparr>)))
      | PATH_REMOVE \<Rightarrow>
          rbind (require (\<not> (current = None \<and> pj_before p = None))
                   (SpaceRecoveryRequired ''path remove conflicts with authoritative state'')) (\<lambda>_.
          rbind (require (current = None \<or> pj_before p = current)
                   (SpaceRecoveryRequired ''path remove conflicts with authoritative state'')) (\<lambda>_.
          Inr (ov\<lparr>ov_markdown := fmdrop target (ov_markdown ov),
                 ov_reserved := ov_reserved ov - {target}\<rparr>)))
      | _ \<Rightarrow> Inr (ov\<lparr>ov_derived := fmupd (pj_tag p, target) (pj_after p) (ov_derived ov)\<rparr>))"

fun rfold :: "('s \<Rightarrow> 'a \<Rightarrow> 's res) \<Rightarrow> 's \<Rightarrow> 'a list \<Rightarrow> 's res" where
  "rfold f s [] = Inr s"
| "rfold f s (x # xs) = rbind (f s x) (\<lambda>s'. rfold f s' xs)"

lemma rfold_append: "rfold f s (xs @ ys) = rbind (rfold f s xs) (\<lambda>s'. rfold f s' ys)"
proof (induction xs arbitrary: s)
  case (Cons x xs)
  then show ?case by (cases "f s x") simp_all
qed simp

text \<open>\<open>apply\<close> works on copies and stores them at the end, so an exception leaves the overlay alone.\<close>

definition ov_apply :: "overlay \<Rightarrow> command \<Rightarrow> overlay res" where
  "ov_apply ov c =
     rbind (rfold apply_plan ov (cm_plans c)) (\<lambda>ov1.
     rbind (rfold apply_event ov1 (cm_events c)) (\<lambda>ov2.
     rfold apply_projection ov2 (cm_projections c)))"

section \<open>The compile context\<close>

record ctx =
  cx_space_id :: string
  cx_overlay :: overlay
  cx_operation_id :: string
  cx_now :: string
  cx_digests :: digests
  cx_uuid5 :: "string \<Rightarrow> string"

definition cx_catalog :: "ctx \<Rightarrow> catalog" where
  "cx_catalog cx = ov_catalog (cx_overlay cx)"

definition require_space :: "ctx \<Rightarrow> string \<Rightarrow> unit res" where
  "require_space cx payload_space_id =
     require (payload_space_id = cx_space_id cx)
       (violation ''space_scope_mismatch''
          [(''scopeSpaceId'', JStr (cx_space_id cx)), (''payloadSpaceId'', JStr payload_space_id)] False)"

definition cx_command :: "ctx \<Rightarrow> request \<Rightarrow> db_plan list \<Rightarrow> sync_event list \<Rightarrow> row \<Rightarrow>
    string option \<Rightarrow> command res" where
  "cx_command cx rq plans events result resolution =
     command_from_effects (cx_digests cx) rq plans [] events result resolution"

lemma apply_events_nodelete: "\<forall>e \<in> set events. ev_action e \<noteq> EvDelete \<Longrightarrow> rfold apply_event ov events = Inr ov"
  by (induction events) (simp_all add: apply_event_def)

section \<open>Well-formed overlays\<close>

definition row_ok :: "row \<Rightarrow> bool" where
  "row_ok r = (\<forall>v \<in> fmran' r. distinct_keys v)"

definition row_shape :: "catalog \<Rightarrow> string \<Rightarrow> json list \<Rightarrow> row \<Rightarrow> bool" where
  "row_shape ct t ident r = (\<exists>spec. catalog_get ct t = Some spec \<and> fmdom' r = set (field_names spec) \<and>
     ident = pk_values spec r \<and> row_ok r)"

definition overlay_wf :: "overlay \<Rightarrow> bool" where
  "overlay_wf ov = (catalog_wf (ov_catalog ov) \<and> distinct (map fst (ov_map ov)) \<and>
     (\<forall>((t, ident), r) \<in> set (ov_map ov). row_shape (ov_catalog ov) t ident r))"

definition with_row :: "overlay \<Rightarrow> string \<Rightarrow> json list \<Rightarrow> row \<Rightarrow> overlay" where
  "with_row ov t ident r = ov\<lparr>ov_map := AList.update (t, ident) r (ov_map ov)\<rparr>"

definition without_row :: "overlay \<Rightarrow> string \<Rightarrow> json list \<Rightarrow> overlay" where
  "without_row ov t ident = ov\<lparr>ov_map := AList.delete (t, ident) (ov_map ov)\<rparr>"

lemma ov_row_with_row [simp]:
  "ov_row (with_row ov t ident r) t' ident' =
     (if t' = t \<and> ident' = ident then Some r else ov_row ov t' ident')"
  by (auto simp: ov_row_def with_row_def update_conv')

lemma ov_row_without_row [simp]:
  "ov_row (without_row ov t ident) t' ident' =
     (if t' = t \<and> ident' = ident then None else ov_row ov t' ident')"
  by (auto simp: ov_row_def without_row_def delete_conv')

lemma ov_select_with_row [simp]:
  "ov_catalog (with_row ov t ident r) = ov_catalog ov"
  "ov_tombstones (with_row ov t ident r) = ov_tombstones ov"
  "ov_catalog (without_row ov t ident) = ov_catalog ov"
  "ov_tombstones (without_row ov t ident) = ov_tombstones ov"
  by (simp_all add: with_row_def without_row_def)

lemma overlay_wf_iff:
  "overlay_wf ov \<longleftrightarrow> catalog_wf (ov_catalog ov) \<and> distinct (map fst (ov_map ov)) \<and>
     (\<forall>t ident r. ov_row ov t ident = Some r \<longrightarrow> row_shape (ov_catalog ov) t ident r)"
proof -
  have "((t, ident), r) \<in> set (ov_map ov) \<longleftrightarrow> ov_row ov t ident = Some r"
    if "distinct (map fst (ov_map ov))" for t ident r
    using that by (simp add: ov_row_def)
  then show ?thesis unfolding overlay_wf_def by blast
qed

lemma overlay_wf_row:
  assumes "overlay_wf ov" "ov_row ov t ident = Some r" "catalog_get (ov_catalog ov) t = Some spec"
  shows "fmdom' r = set (field_names spec)" "ident = pk_values spec r" "row_ok r"
proof -
  have "row_shape (ov_catalog ov) t ident r"
    using assms(1,2) by (simp add: overlay_wf_iff)
  then show "fmdom' r = set (field_names spec)" "ident = pk_values spec r" "row_ok r"
    using assms(3) by (simp_all add: row_shape_def)
qed

lemma overlay_wf_with_row:
  assumes "overlay_wf ov" "row_shape (ov_catalog ov) t ident r"
  shows "overlay_wf (with_row ov t ident r)"
  using assms unfolding overlay_wf_iff
  by (auto simp: distinct_update with_row_def [of ov t ident r, THEN arg_cong, of ov_map] split: if_splits)

lemma overlay_wf_without_row: "overlay_wf ov \<Longrightarrow> overlay_wf (without_row ov t ident)"
  unfolding overlay_wf_iff
  by (auto simp: distinct_delete without_row_def [of ov t ident, THEN arg_cong, of ov_map] split: if_splits)

lemma overlay_wf_tombstones [simp]:
  "overlay_wf (ov\<lparr>ov_tombstones := ts\<rparr>) = overlay_wf ov"
  "ov_row (ov\<lparr>ov_tombstones := ts\<rparr>) = ov_row ov"
  by (auto simp: overlay_wf_def ov_row_def [abs_def])

lemma row_eq_refl: "row_ok r \<Longrightarrow> row_eq r r"
  unfolding row_ok_def row_eq_def fmrel_iff
  by (auto simp: option.rel_refl_strong intro!: option.rel_refl_strong py_eq_refl fmran'I)

lemma row_ok_iff: "row_ok r \<longleftrightarrow> (\<forall>k v. fmlookup r k = Some v \<longrightarrow> distinct_keys v)"
  unfolding row_ok_def by (blast intro: fmran'I elim: fmran'E)

lemma row_ok_fmupd: "row_ok r \<Longrightarrow> distinct_keys v \<Longrightarrow> row_ok (fmupd k v r)"
  by (simp add: row_ok_iff)

lemma row_ok_empty [simp]: "row_ok fmempty"
  by (auto simp: row_ok_def)

lemma row_ok_fld: "row_ok r \<Longrightarrow> k \<in> fmdom' r \<Longrightarrow> distinct_keys (fld r k)"
  unfolding row_ok_def fld_def by (auto simp: fmlookup_dom'_iff intro: fmran'I)

lemma row_ok_lookup: "row_ok r \<Longrightarrow> fmlookup r k = Some v \<Longrightarrow> distinct_keys v"
  unfolding row_ok_def by (auto intro: fmran'I)

lemma row_ok_updates: "row_ok r \<Longrightarrow> \<forall>(k, v) \<in> set kvs. distinct_keys v \<Longrightarrow> row_ok (updates r kvs)"
  by (induction r kvs rule: updates.induct) (auto simp: row_ok_fmupd)

lemma get_fld: "k \<in> fmdom' r \<Longrightarrow> get_or r k d = fld r k"
  by (auto simp: get_or_def fld_def fmlookup_dom'_iff)

lemma fld_lookup: "k \<in> fmdom' r \<Longrightarrow> fmlookup r k = Some (fld r k)"
  by (auto simp: fld_def fmlookup_dom'_iff)

lemma spec_by_table_catalog:
  assumes "catalog_wf (ov_catalog ov)" "catalog_get (ov_catalog ov) t = Some spec"
  shows "spec_by_table ov (es_table_name spec) = Some spec" "es_name spec = t"
proof -
  have "(t, spec) \<in> set (ct_by_name (ov_catalog ov))"
    using assms(2) by (auto simp: catalog_get_def dest: map_of_SomeD)
  then have s: "spec \<in> set (catalog_list (ov_catalog ov))" and n: "es_name spec = t"
    using assms(1) by (auto simp: catalog_list_def catalog_wf_def rev_image_eqI)
  have d: "distinct (map es_table_name (rev (catalog_list (ov_catalog ov))))"
    using assms(1) by (simp add: catalog_wf_def rev_map [symmetric])
  have "spec_by_table ov (es_table_name spec) =
      map_of (map (\<lambda>s. (es_table_name s, s)) (rev (catalog_list (ov_catalog ov)))) (es_table_name spec)"
    by (simp add: spec_by_table_def rev_map)
  also have "\<dots> = Some spec" using map_of_keyed [OF d] s by simp
  finally show "spec_by_table ov (es_table_name spec) = Some spec" .
  show "es_name spec = t" by (rule n)
qed

lemma pk_fields_declared:
  assumes "catalog_wf ct" "catalog_get ct t = Some spec"
  shows "set (pk_field_set spec) \<subseteq> set (field_names spec)"
proof -
  have "(t, spec) \<in> set (ct_by_name ct)"
    using assms(2) by (auto simp: catalog_get_def dest: map_of_SomeD)
  then have "es_primary_key spec \<in> set (field_names spec)"
    "\<And>ks. es_composite_primary_key spec = Some ks \<Longrightarrow> set ks \<subseteq> set (field_names spec)"
    using assms(1) by (fastforce simp: catalog_wf_def)+
  then show ?thesis by (auto simp: pk_field_set_def split: option.splits list.splits)
qed

lemma complete_row_shape:
  assumes "catalog_wf ct" "row_shape ct t ident r" "catalog_get ct t = Some spec"
    "pk_values spec (pl_pk plan) = ident"
  shows "complete_row spec plan r"
proof -
  have r: "fmdom' r = set (field_names spec)" "ident = pk_values spec r" "row_ok r"
    using assms(2,3) by (auto simp: row_shape_def)
  have "py_eq (get r f) (fld (pl_pk plan) f)" if f: "f \<in> set (pk_field_set spec)" for f
  proof -
    have "f \<in> fmdom' r" using f pk_fields_declared [OF assms(1,3)] r(1) by auto
    moreover have "fld (pl_pk plan) f = fld r f"
      using assms(4) r(2) f by (simp add: pk_values_def)
    ultimately show ?thesis using r(3) by (simp add: get_fld py_eq_refl row_ok_fld)
  qed
  with r(1) show ?thesis by (simp add: complete_row_def)
qed

text \<open>
  When the three kinds of plan apply, and to what. The facts are collected so that each compiled
  command is shown to apply by computing its plans.
\<close>

lemma apply_insert:
  assumes "overlay_wf ov" "catalog_get (ov_catalog ov) t = Some spec" "pl_table plan = es_table_name spec"
    "fmdom' (pl_pk plan) = set (pk_field_set spec)" "pl_op plan = Insert" "pl_before plan = None"
    "pl_expected plan = None" "pl_after plan = Some after"
    "row_shape (ov_catalog ov) t (pk_values spec (pl_pk plan)) after"
    "ov_row ov t (pk_values spec (pl_pk plan)) = None"
  shows "apply_plan ov plan = Inr (with_row ov t (pk_values spec (pl_pk plan)) after)"
    "overlay_wf (with_row ov t (pk_values spec (pl_pk plan)) after)"
proof -
  have ct: "catalog_wf (ov_catalog ov)" using assms(1) by (simp add: overlay_wf_iff)
  have "complete_row spec plan after" using complete_row_shape [OF ct assms(9,2)] by simp
  then show "apply_plan ov plan = Inr (with_row ov t (pk_values spec (pl_pk plan)) after)"
    using assms spec_by_table_catalog [OF ct assms(2)]
    by (simp add: apply_plan_def require_complete_row_def with_row_def ov_row_def Let_def)
  show "overlay_wf (with_row ov t (pk_values spec (pl_pk plan)) after)"
    using assms by (intro overlay_wf_with_row)
qed

lemma apply_update:
  assumes "overlay_wf ov" "catalog_get (ov_catalog ov) t = Some spec" "pl_table plan = es_table_name spec"
    "fmdom' (pl_pk plan) = set (pk_field_set spec)" "pl_op plan = Update" "pl_before plan = Some before"
    "pl_after plan = Some after" "version_is before (pl_expected plan)"
    "row_shape (ov_catalog ov) t (pk_values spec (pl_pk plan)) after"
    "ov_row ov t (pk_values spec (pl_pk plan)) = Some before"
  shows "apply_plan ov plan = Inr (with_row ov t (pk_values spec (pl_pk plan)) after)"
    "overlay_wf (with_row ov t (pk_values spec (pl_pk plan)) after)"
proof -
  have ct: "catalog_wf (ov_catalog ov)" using assms(1) by (simp add: overlay_wf_iff)
  have b: "row_shape (ov_catalog ov) t (pk_values spec (pl_pk plan)) before"
    using assms(1,10) by (simp add: overlay_wf_iff)
  have "complete_row spec plan after" "complete_row spec plan before"
    using complete_row_shape [OF ct _ assms(2)] assms(9) b by simp_all
  moreover have "row_eq before before"
    using b assms(2) by (auto simp: row_shape_def intro: row_eq_refl)
  ultimately show "apply_plan ov plan = Inr (with_row ov t (pk_values spec (pl_pk plan)) after)"
    using assms spec_by_table_catalog [OF ct assms(2)]
    by (simp add: apply_plan_def require_complete_row_def with_row_def ov_row_def Let_def)
  show "overlay_wf (with_row ov t (pk_values spec (pl_pk plan)) after)"
    using assms by (intro overlay_wf_with_row)
qed

lemma apply_delete:
  assumes "overlay_wf ov" "catalog_get (ov_catalog ov) t = Some spec" "pl_table plan = es_table_name spec"
    "fmdom' (pl_pk plan) = set (pk_field_set spec)" "pl_op plan = Delete" "pl_before plan = Some before"
    "pl_after plan = None" "version_is before (pl_expected plan)"
    "ov_row ov t (pk_values spec (pl_pk plan)) = Some before"
  shows "apply_plan ov plan = Inr (without_row ov t (pk_values spec (pl_pk plan)))"
    "overlay_wf (without_row ov t (pk_values spec (pl_pk plan)))"
proof -
  have ct: "catalog_wf (ov_catalog ov)" using assms(1) by (simp add: overlay_wf_iff)
  have b: "row_shape (ov_catalog ov) t (pk_values spec (pl_pk plan)) before"
    using assms(1,9) by (simp add: overlay_wf_iff)
  have "complete_row spec plan before"
    using complete_row_shape [OF ct b assms(2)] by simp
  moreover have "row_eq before before"
    using b assms(2) by (auto simp: row_shape_def intro: row_eq_refl)
  ultimately show "apply_plan ov plan = Inr (without_row ov t (pk_values spec (pl_pk plan)))"
    using assms spec_by_table_catalog [OF ct assms(2)]
    by (simp add: apply_plan_def require_complete_row_def without_row_def ov_row_def Let_def)
  show "overlay_wf (without_row ov t (pk_values spec (pl_pk plan)))"
    using assms(1) by (rule overlay_wf_without_row)
qed

end
