(* ===== verification/EntityCommand.thy ===== *)
theory EntityCommand
  imports Overlay
begin

text \<open>
  The generic create, update and delete commands of catalog entities, and the dispatch of a request
  to its domain policy (\<open>app/mutation/unit_of_work.py\<close>, from \<open>_require_catalog_spec\<close> to
  \<open>MutationCompiler.compile_against_overlay\<close>), with the Session envelope check a policy calls
  (\<open>app/focus_session/receipts.py\<close>).

  A stored \<open>updated_at\<close> that is not in the form \<open>SYNC_UTC_RFC3339\<close> counts as not parsable.
\<close>

section \<open>Payload and version checks\<close>

definition require_catalog_spec :: "catalog \<Rightarrow> string \<Rightarrow> entity_spec res" where
  "require_catalog_spec ct t = (case catalog_get ct t of
     None \<Rightarrow> violate ''not_found'' [(''entityType'', JStr t)] False
   | Some spec \<Rightarrow> Inr spec)"

definition require_payload_fields :: "entity_spec \<Rightarrow> row \<Rightarrow> unit res" where
  "require_payload_fields spec payload =
     (let unknown = sorted_list_of_fset (fmdom payload |-| fset_of_list (field_names spec)) in
      require (unknown = [])
        (violation ''payload_field_not_allowed''
           [(''entityType'', JStr (es_name spec)), (''fields'', JList (map JStr unknown))] False))"

fun i_json_ok :: "json \<Rightarrow> bool" where
  "i_json_ok (JInt i) = (abs i \<le> 2 ^ 53 - 1)"
| "i_json_ok (JList xs) = (\<forall>x \<in> set xs. i_json_ok x)"
| "i_json_ok (JObj kvs) = (\<forall>kv \<in> set kvs. i_json_ok (snd kv))"
| "i_json_ok _ = True"

text \<open>Columns of type \<open>json\<close> hold a text; on the wire they are the value it denotes.\<close>

definition wire_field :: "entity_spec \<Rightarrow> row \<Rightarrow> field_spec \<Rightarrow> row res" where
  "wire_field spec payload f =
     (case (f_type f = ''json'', get payload (f_name f)) of
        (True, JStr s) \<Rightarrow>
          (case json_loads s of
             Some v \<Rightarrow> if i_json_ok v then Inr (fmupd (f_name f) v payload)
               else Inl (SpaceRecoveryRequired
                 (''authoritative '' @ es_name spec @ ''.'' @ f_name f @ '' JSON is invalid''))
           | None \<Rightarrow> Inl (SpaceRecoveryRequired
                 (''authoritative '' @ es_name spec @ ''.'' @ f_name f @ '' JSON is invalid'')))
      | _ \<Rightarrow> Inr payload)"

definition sync_wire_payload :: "entity_spec \<Rightarrow> row \<Rightarrow> row res" where
  "sync_wire_payload spec r = rfold (wire_field spec) r (es_fields spec)"

definition version_conflict :: "entity_spec \<Rightarrow> request \<Rightarrow> row \<Rightarrow> (string \<times> json) list \<Rightarrow> 'a res" where
  "version_conflict spec rq current details =
     rbind (sync_wire_payload spec current) (\<lambda>snapshot.
     violate ''version_conflict''
       ([(''entityId'', JStr (rq_entity_id rq))] @ details @
        [(''snapshot'', json_of_row snapshot), (''version'', get current ''version'')]) False)"

definition require_current_version :: "entity_spec \<Rightarrow> request \<Rightarrow> row \<Rightarrow> string option res" where
  "require_current_version spec rq current =
     (case rq_expected_version rq of
        None \<Rightarrow>
          if es_sync_conflict_policy spec = ''strict_cas'' then version_conflict spec rq current []
          else Inr None
      | Some expected \<Rightarrow>
          if py_eq (get current ''version'') (JInt expected) then Inr None
          else
            (case (es_sync_conflict_policy spec = ''timestamp_lww'', rq_client_updated_at rq) of
               (True, Some client) \<Rightarrow>
                 (case get current ''updated_at'' of
                    JStr authoritative \<Rightarrow>
                      (case (iso_instant client, iso_instant authoritative) of
                         (Some (c, aware), Some (a, aware')) \<Rightarrow>
                           if aware \<noteq> aware'
                           then Inl (TypeErr ''can't compare offset-naive and offset-aware datetimes'')
                           else if a < c then Inr (Some ''remote'')
                           else version_conflict spec rq current [(''resolution'', JStr ''local'')]
                       | _ \<Rightarrow> version_conflict spec rq current [(''resolution'', JStr ''manual'')])
                  | _ \<Rightarrow> version_conflict spec rq current [(''resolution'', JStr ''manual'')])
             | _ \<Rightarrow> version_conflict spec rq current []))"

section \<open>Rows\<close>

definition require_entity_id :: "entity_spec \<Rightarrow> request \<Rightarrow> unit res" where
  "require_entity_id spec rq =
     (let supplied = get (rq_payload rq) (es_primary_key spec) in
      require (supplied = JNull \<or> supplied = JStr (rq_entity_id rq))
        (violation ''entity_id_mismatch''
           [(''entityType'', JStr (es_name spec)), (''entityId'', JStr (rq_entity_id rq))] False))"

text \<open>\<open>request.client_updated_at or timestamp\<close>: an empty text counts as absent.\<close>

definition stamp_or :: "string option \<Rightarrow> string \<Rightarrow> string" where
  "stamp_or v d = or_default v d"

definition create_field :: "entity_spec \<Rightarrow> request \<Rightarrow> string \<Rightarrow> row \<Rightarrow> field_spec \<Rightarrow> row res" where
  "create_field spec rq ts r f =
     (let name = f_name f; put = (\<lambda>v. Inr (fmupd name v r)) in
      if name = es_primary_key spec then put (JStr (rq_entity_id rq))
      else if name = ''created_at'' then put (get_or (rq_payload rq) name (JStr ts))
      else if name = ''updated_at'' then put (JStr (stamp_or (rq_client_updated_at rq) ts))
      else if name = ''version'' then put (JInt 1)
      else if has_key (rq_payload rq) name then put (fld (rq_payload rq) name)
      else if f_default f \<noteq> JNull then put (f_default f)
      else if f_nullable f then put JNull
      else Inl (ValueErr (''required catalog field is missing: '' @ es_name spec @ ''.'' @ name)))"

definition complete_create_row :: "entity_spec \<Rightarrow> request \<Rightarrow> string \<Rightarrow> row res" where
  "complete_create_row spec rq ts =
     rbind (require_payload_fields spec (rq_payload rq)) (\<lambda>_.
     rbind (require_entity_id spec rq) (\<lambda>_.
     rfold (create_field spec rq ts) fmempty (es_fields spec)))"

definition protected_keys :: "entity_spec \<Rightarrow> string list" where
  "protected_keys spec = [es_primary_key spec, ''created_at'', ''updated_at'', ''version'']"

definition authoritative_version :: "row \<Rightarrow> int res" where
  "authoritative_version current =
     (case get current ''version'' of
        JInt n \<Rightarrow> if 0 \<le> n then Inr n
          else Inl (SpaceRecoveryRequired ''authoritative entity version is invalid'')
      | _ \<Rightarrow> Inl (SpaceRecoveryRequired ''authoritative entity version is invalid''))"

section \<open>The generic commands\<close>

text \<open>What the three branches hand to the common end: the plan, the action, the value, the resolution.\<close>

definition compile_create :: "ctx \<Rightarrow> request \<Rightarrow> entity_spec \<Rightarrow> row option \<Rightarrow>
    (db_plan \<times> sync_action \<times> row \<times> string option) res" where
  "compile_create cx rq spec current =
     (case current of
        Some c \<Rightarrow> version_conflict spec rq c []
      | None \<Rightarrow>
          rbind (require (rq_expected_version rq = None)
                   (violation ''version_conflict'' [(''entityId'', JStr (rq_entity_id rq))] False)) (\<lambda>_.
          rbind (complete_create_row spec rq (cx_now cx)) (\<lambda>after.
          rbind (DbMutationPlan (es_table_name spec) (dict [(es_primary_key spec, JStr (rq_entity_id rq))])
                   Insert None None (Some after)) (\<lambda>plan.
          Inr (plan, EvCreate, after, None)))))"

definition compile_update :: "ctx \<Rightarrow> request \<Rightarrow> entity_spec \<Rightarrow> row option \<Rightarrow>
    (db_plan \<times> sync_action \<times> row \<times> string option) res" where
  "compile_update cx rq spec current =
     (case current of
        None \<Rightarrow> violate ''not_found'' [(''entityId'', JStr (rq_entity_id rq))] False
      | Some c \<Rightarrow>
          rbind (require_entity_id spec rq) (\<lambda>_.
          rbind (require_current_version spec rq c) (\<lambda>resolution.
          rbind (authoritative_version c) (\<lambda>version.
          let patch = fmfilter (\<lambda>k. k \<notin> set (protected_keys spec)) (rq_payload rq);
              after = updates (c ++\<^sub>f patch)
                [(''version'', JInt (version + 1)),
                 (''updated_at'', JStr (stamp_or (rq_client_updated_at rq) (cx_now cx)))] in
          rbind (DbMutationPlan (es_table_name spec) (dict [(es_primary_key spec, JStr (rq_entity_id rq))])
                   Update (if resolution = Some ''remote'' then Some version else rq_expected_version rq)
                   (Some c) (Some after)) (\<lambda>plan.
          Inr (plan, EvUpdate, after, resolution))))))"

definition compile_delete :: "ctx \<Rightarrow> request \<Rightarrow> entity_spec \<Rightarrow> row option \<Rightarrow>
    (db_plan \<times> sync_action \<times> row \<times> string option) res" where
  "compile_delete cx rq spec current =
     (case current of
        None \<Rightarrow> violate ''not_found'' [(''entityId'', JStr (rq_entity_id rq))] False
      | Some c \<Rightarrow>
          rbind (require (rq_payload rq = fmempty \<or>
                          rq_payload rq = dict [(es_primary_key spec, JStr (rq_entity_id rq))])
                   (violation ''delete_payload_not_empty'' [(''entityId'', JStr (rq_entity_id rq))] False))
            (\<lambda>_.
          rbind (require_current_version spec rq c) (\<lambda>resolution.
          rbind (authoritative_version c) (\<lambda>version.
          rbind (DbMutationPlan (es_table_name spec) (dict [(es_primary_key spec, JStr (rq_entity_id rq))])
                   Delete (if resolution = Some ''remote'' then Some version else rq_expected_version rq)
                   (Some c) None) (\<lambda>plan.
          Inr (plan, EvDelete,
               dict [(''id'', JStr (rq_entity_id rq)), (''deleted_at'', JStr (cx_now cx))], resolution))))))"

definition compile_branch :: "ctx \<Rightarrow> request \<Rightarrow> entity_spec \<Rightarrow> row option \<Rightarrow>
    (db_plan \<times> sync_action \<times> row \<times> string option) res" where
  "compile_branch cx rq spec current =
     (if rq_name rq = ''entity.create'' then compile_create cx rq spec current
      else if rq_name rq = ''entity.update'' then compile_update cx rq spec current
      else if rq_name rq = ''entity.delete'' then compile_delete cx rq spec current
      else Inl (ValueErr (''unsupported catalog mutation request: '' @ rq_name rq)))"

definition entity_events :: "ctx \<Rightarrow> request \<Rightarrow> entity_spec \<Rightarrow> row option \<Rightarrow> sync_action \<Rightarrow> row \<Rightarrow>
    sync_event list res" where
  "entity_events cx rq spec current action after =
     (if \<not> es_sync_enabled spec then Inr []
      else
        let version = (if action \<noteq> EvDelete then get after ''version''
                       else JInt (int_of (get_or (the current) ''version'' (JInt 0)) + 1));
            payload = (if action \<noteq> EvDelete then after
                       else dict [(''deleted_at'', JStr (cx_now cx))]) in
        rbind (require (case version of JInt n \<Rightarrow> 0 \<le> n | _ \<Rightarrow> False)
                 (SpaceRecoveryRequired ''compiled sync version is invalid'')) (\<lambda>_.
        rbind (SyncEventPlan (es_name spec) (rq_entity_id rq) action payload version
                 (JStr (cx_now cx))) (\<lambda>event. Inr [event])))"

definition compile_catalog_entity_command :: "ctx \<Rightarrow> request \<Rightarrow> command res" where
  "compile_catalog_entity_command cx rq =
     rbind (require_catalog_spec (cx_catalog cx) (rq_entity_type rq)) (\<lambda>spec.
     rbind (require_payload_fields spec (rq_payload rq)) (\<lambda>_.
     let current = ov_row (cx_overlay cx) (es_name spec) [JStr (rq_entity_id rq)] in
     rbind (compile_branch cx rq spec current) (\<lambda>(plan, action, after, resolution).
     rbind (entity_events cx rq spec current action after) (\<lambda>events.
     cx_command cx rq [plan] events after resolution))))"

section \<open>Dispatch to a policy\<close>

type_synonym policies = "(string \<times> (ctx \<Rightarrow> request \<Rightarrow> command res)) list"

text \<open>\<open>MutationCompiler(...)\<close>: the policies, as (entity types, compile) pairs, own disjoint types.\<close>

fun register_policies :: "policies \<Rightarrow> (string list \<times> (ctx \<Rightarrow> request \<Rightarrow> command res)) list \<Rightarrow> policies res" where
  "register_policies acc [] = Inr acc"
| "register_policies acc (([], p) # ps) = register_policies acc ps"
| "register_policies acc ((t # ts, p) # ps) =
     (if map_of acc t \<noteq> None then Inl (ValueErr (''duplicate mutation policy: '' @ t))
      else register_policies (acc @ [(t, p)]) ((ts, p) # ps))"

definition compile_against_overlay :: "policies \<Rightarrow> ctx \<Rightarrow> request \<Rightarrow> command res" where
  "compile_against_overlay policies cx rq =
     (let policy = map_of policies (rq_entity_type rq);
          spec = catalog_get (cx_catalog cx) (rq_entity_type rq) in
      rbind (require (spec \<noteq> None \<or> policy \<noteq> None)
               (violation ''not_found'' [(''entityType'', JStr (rq_entity_type rq))] False)) (\<lambda>_.
      rbind (require (\<not> (spec \<noteq> None \<and> rq_name rq \<in> {''entity.create'', ''entity.update''} \<and>
                        is_tombstoned (cx_overlay cx) (effective_sync_entity_type (the spec))
                          (rq_entity_id rq)))
               (violation ''tombstone_conflict''
                  [(''entityId'', JStr (rq_entity_id rq)), (''resolution'', JStr ''tombstone'')] False))
        (\<lambda>_.
      case policy of
        Some compile \<Rightarrow> compile cx rq
      | None \<Rightarrow>
          if es_storage_type (the spec) = FS_DB_SPLIT \<or>
             es_delete_strategy (the spec) = ''cascade_soft_delete''
          then Inl (SpaceRecoveryRequired ''projection-backed entity requires a registered domain policy'')
          else compile_catalog_entity_command cx rq)))"

section \<open>Session command envelopes\<close>

datatype receipt_state = RcNotNeeded | RcPending | RcSucceeded | RcFailed | RcConflict | RcUnknown | RcAbandoned

definition receipt_state_of :: "string \<Rightarrow> receipt_state res" where
  "receipt_state_of s =
     (if s = ''not_needed'' then Inr RcNotNeeded else if s = ''pending'' then Inr RcPending
      else if s = ''succeeded'' then Inr RcSucceeded else if s = ''failed'' then Inr RcFailed
      else if s = ''conflict'' then Inr RcConflict else if s = ''unknown'' then Inr RcUnknown
      else if s = ''abandoned'' then Inr RcAbandoned
      else Inl (ValueErr (s @ '' is not a valid CommandReceiptState'')))"

text \<open>The decoded coordination, its kind and root command; \<open>None\<close> when there is none.\<close>

definition decode_reconcile_coordination ::
    "receipt_state \<Rightarrow> json \<Rightarrow> (string \<times> string) option res" where
  "decode_reconcile_coordination state result_json =
     rbind (case result_json of
              JStr s \<Rightarrow> (case json_loads s of None \<Rightarrow> Inl (ValueErr ''invalid JSON'') | Some v \<Rightarrow> Inr v)
            | _ \<Rightarrow> Inr JNull) (\<lambda>decoded.
     let nonterminal = state \<in> {RcPending, RcUnknown} in
     case decoded of
       JNull \<Rightarrow> Inr None
     | JObj kvs \<Rightarrow>
         (case map_of kvs ''_reconcileCoordination'' of
            None \<Rightarrow> if nonterminal
              then Inl (ValueErr ''nonterminal receipt result must be reconciliation coordination'')
              else Inr None
          | Some coordination \<Rightarrow>
              rbind (require nonterminal
                       (ValueErr ''terminal receipt cannot carry reconciliation coordination'')) (\<lambda>_.
              rbind (require (set (map fst kvs) = {''_reconcileCoordination''})
                       (ValueErr ''coordination result_json cannot mix public result fields'')) (\<lambda>_.
              case coordination of
                JObj vs \<Rightarrow>
                  (case (set (map fst vs) = {''kind'', ''rootCommandId''},
                         map_of vs ''kind'', map_of vs ''rootCommandId'') of
                     (True, Some (JStr kind), Some (JStr root)) \<Rightarrow>
                       rbind (require (kind \<in> {''replay_claimed'', ''replay_finished_unknown''})
                                (ValueErr ''unknown reconciliation coordination kind'')) (\<lambda>_.
                       rbind (validate_operation_id root) (\<lambda>_. Inr (Some (kind, root))))
                   | _ \<Rightarrow> Inl (ValueErr ''invalid reconciliation coordination projection''))
              | _ \<Rightarrow> Inl (ValueErr ''invalid reconciliation coordination projection''))))
     | _ \<Rightarrow> if nonterminal
         then Inl (ValueErr ''nonterminal receipt result must be reconciliation coordination'')
         else Inr None)"

definition receipt_coordination :: "row \<Rightarrow> (string \<times> string) option res" where
  "receipt_coordination receipt =
     (case rbind (receipt_state_of (str_of (fld receipt ''state''))) (\<lambda>state.
             decode_reconcile_coordination state (get receipt ''result_json'')) of
        Inl (ValueErr _) \<Rightarrow>
          violate ''idempotency_conflict'' [(''reason'', JStr ''malformed_coordination'')] False
      | r \<Rightarrow> r)"

text \<open>The conjunction of the identity check, read from the left as the code does.\<close>

definition claim_matches :: "row \<Rightarrow> request \<Rightarrow> string \<Rightarrow> bool res" where
  "claim_matches envelope rq target_status_id =
     rbind (pget (rq_payload rq) ''space_id'') (\<lambda>space_id.
     if \<not> (str_of (fld envelope ''space_id'') = str_of space_id \<and>
            str_of (fld envelope ''work_item_id'') = rq_entity_id rq \<and>
            Some (int_of (fld envelope ''expected_version'')) = rq_expected_version rq)
     then Inr False
     else rbind (pget (rq_payload rq) ''payload_hash'') (\<lambda>payload_hash.
       if str_of (fld envelope ''payload_hash'') \<noteq> str_of payload_hash then Inr False
       else rbind (pget (rq_payload rq) ''status_definition_id'') (\<lambda>status_id.
         Inr (target_status_id = str_of status_id))))"

definition require_session_envelope_dispatch_claim ::
    "ctx \<Rightarrow> request \<Rightarrow> (string \<times> string) list \<Rightarrow> unit res" where
  "require_session_envelope_dispatch_claim cx rq target_status_map =
     (let command_id = cx_operation_id cx; declared = get (rq_payload rq) ''command_id'' in
      rbind (require (declared = JNull \<or> str_of declared = command_id)
               (violation ''idempotency_conflict'' [(''reason'', JStr ''operation_identity_mismatch'')]
                  False)) (\<lambda>_.
      case ov_row (cx_overlay cx) ''session_command_envelope'' [JStr command_id] of
        None \<Rightarrow> Inr ()
      | Some envelope \<Rightarrow>
          rbind (case map_of target_status_map (str_of (fld envelope ''target_transition'')) of
                   None \<Rightarrow> Inl (KeyErr (str_of (fld envelope ''target_transition'')))
                 | Some s \<Rightarrow> Inr s) (\<lambda>target_status_id.
          rbind (claim_matches envelope rq target_status_id) (\<lambda>identity_matches.
          rbind (case ov_row (cx_overlay cx) ''session_command_receipt'' [JStr command_id] of
                   None \<Rightarrow> Inr None
                 | Some receipt \<Rightarrow> receipt_coordination receipt) (\<lambda>coordination.
          require (identity_matches \<and> (case coordination of None \<Rightarrow> False
                     | Some (kind, _) \<Rightarrow> kind = ''replay_claimed''))
            (violation ''idempotency_conflict''
               [(''reason'', JStr ''session_command_not_replay_claimed'')] False))))))"

section \<open>What a generic command does\<close>

lemma DbMutationPlan_Inr [result_simps]:
  "DbMutationPlan t pk op ev b a = Inr p \<longleftrightarrow> validate_expected_version ev = Inr () \<and>
     p = \<lparr>pl_table = t, pl_pk = pk, pl_op = op, pl_expected = ev, pl_before = b, pl_after = a\<rparr>"
  by (auto simp: DbMutationPlan_def result_simps)

lemma SyncEventPlan_Inr:
  "SyncEventPlan t i a p v ts = Inr e \<Longrightarrow> ev_type e = t \<and> ev_id e = i \<and> ev_action e = a \<and>
     ev_payload e = p \<and> JInt (ev_version e) = v \<and> 0 \<le> ev_version e \<and> JStr (ev_created_at e) = ts"
  by (auto simp: SyncEventPlan_def result_simps split: json.splits)

lemma cx_command_Inr:
  "cx_command cx rq plans events v resolution = Inr c \<Longrightarrow> cm_request c = rq \<and> cm_plans c = plans \<and>
     cm_projections c = [] \<and> cm_events c = events \<and> cm_value c = v \<and> cm_resolution c = resolution"
  unfolding cx_command_def by (drule command_from_effects_Inr) simp

lemma cx_command_None:
  "cx_command cx rq plans events v None = Inr \<lparr>cm_request = rq, cm_plans = plans, cm_projections = [],
     cm_events = events, cm_value = v, cm_resolution = None,
     cm_hash = calculate_persisted_command_hash (cx_digests cx) rq plans [] events v None\<rparr>"
  by (simp add: cx_command_def command_from_effects_def MutationCommand_def
      validate_projection_ordinals_def validate_resolution_def)

lemma require_payload_fields_Inr:
  "require_payload_fields spec payload = Inr u \<longleftrightarrow> fmdom' payload \<subseteq> set (field_names spec)"
proof -
  let ?d = "fmdom payload |-| fset_of_list (field_names spec)"
  have "sorted_list_of_fset ?d = [] \<longleftrightarrow> fset ?d = {}"
    by (metis sorted_list_of_fset_simps(1) set_empty)
  also have "\<dots> \<longleftrightarrow> fmdom' payload \<subseteq> set (field_names spec)"
    unfolding minus_fset.rep_eq fset_of_list.rep_eq fmdom'_alt_def by blast
  finally show ?thesis by (simp add: require_payload_fields_def Let_def require_Inr)
qed

text \<open>An entity the generic commands can serve: one key column, and the sync columns beside it.\<close>

definition generic_entity :: "entity_spec \<Rightarrow> bool" where
  "generic_entity spec = (es_composite_primary_key spec = None \<and> distinct (field_names spec) \<and>
     {''version'', ''updated_at''} \<subseteq> set (field_names spec) \<and>
     es_primary_key spec \<notin> {''version'', ''updated_at'', ''created_at''} \<and>
     (\<forall>f \<in> set (es_fields spec). distinct_keys (f_default f)))"

lemma generic_pk: "generic_entity spec \<Longrightarrow> pk_field_set spec = [es_primary_key spec]"
  by (simp add: generic_entity_def pk_field_set_def)

lemma create_fields_shape:
  assumes "rfold (create_field spec rq ts) r flds = Inr after" "row_ok r" "row_ok (rq_payload rq)"
    "\<forall>f \<in> set flds. distinct_keys (f_default f)"
  shows "fmdom' after = fmdom' r \<union> f_name ` set flds \<and> row_ok after \<and>
    (es_primary_key spec \<in> f_name ` set flds \<or> fmlookup r (es_primary_key spec) = Some (JStr (rq_entity_id rq)) \<longrightarrow>
       fmlookup after (es_primary_key spec) = Some (JStr (rq_entity_id rq)))"
  using assms
proof (induction flds arbitrary: r)
  case (Cons f flds)
  obtain r1 where r1: "create_field spec rq ts r f = Inr r1" "rfold (create_field spec rq ts) r1 flds = Inr after"
    using Cons.prems(1) by (auto simp: rbind_Inr)
  have "\<exists>v. r1 = fmupd (f_name f) v r \<and> distinct_keys v \<and>
      (f_name f = es_primary_key spec \<longrightarrow> v = JStr (rq_entity_id rq))"
    using r1(1) Cons.prems(3,4)
    by (auto simp: create_field_def Let_def get_or_def has_key_def fld_def split: if_splits option.splits
        dest: row_ok_lookup)
  then obtain v where v: "r1 = fmupd (f_name f) v r" "distinct_keys v"
    "f_name f = es_primary_key spec \<longrightarrow> v = JStr (rq_entity_id rq)" by blast
  have "row_ok r1" using v Cons.prems(2) by (simp add: row_ok_fmupd)
  from Cons.IH [OF r1(2) this Cons.prems(3)] Cons.prems(4) v show ?case by auto
qed auto

lemma version_field:
  assumes "rfold (create_field spec rq ts) r flds = Inr after" "es_primary_key spec \<noteq> ''version''"
  shows "''version'' \<in> f_name ` set flds \<or> fmlookup r ''version'' = Some (JInt 1) \<Longrightarrow>
    fmlookup after ''version'' = Some (JInt 1)"
  using assms
proof (induction flds arbitrary: r)
  case (Cons f flds)
  obtain r1 where r1: "create_field spec rq ts r f = Inr r1" "rfold (create_field spec rq ts) r1 flds = Inr after"
    using Cons.prems(2) by (auto simp: rbind_Inr)
  have "f_name f = ''version'' \<or> fmlookup r ''version'' = Some (JInt 1) \<Longrightarrow> fmlookup r1 ''version'' = Some (JInt 1)"
    using r1(1) Cons.prems(3) by (auto simp: create_field_def Let_def split: if_splits)
  with Cons.IH [OF _ r1(2) Cons.prems(3)] Cons.prems(1) show ?case by auto
qed auto

lemma create_field_keeps: "create_field spec rq ts r f = Inr r' \<Longrightarrow> k \<noteq> f_name f \<Longrightarrow> fmlookup r' k = fmlookup r k"
  by (auto simp: create_field_def Let_def split: if_splits)

lemma create_field_value:
  assumes "rfold (create_field spec rq ts) r flds = Inr after" "distinct (map f_name flds)"
  shows "(\<forall>f \<in> set flds. \<exists>q q'. create_field spec rq ts q f = Inr q' \<and> fmlookup after (f_name f) = fmlookup q' (f_name f)) \<and>
    (\<forall>k. k \<notin> f_name ` set flds \<longrightarrow> fmlookup after k = fmlookup r k)"
  using assms
proof (induction flds arbitrary: r)
  case (Cons f flds)
  obtain r1 where r1: "create_field spec rq ts r f = Inr r1" "rfold (create_field spec rq ts) r1 flds = Inr after"
    using Cons.prems(1) by (auto simp: rbind_Inr)
  have f: "f_name f \<notin> f_name ` set flds" "distinct (map f_name flds)" using Cons.prems(2) by auto
  note rest = Cons.IH [OF r1(2) f(2)]
  have "fmlookup after (f_name f) = fmlookup r1 (f_name f)" using rest f(1) by blast
  then show ?case using rest r1(1) create_field_keeps [OF r1(1)] by auto
qed simp

text \<open>
  The rows of the commands. A created row has the columns of the entity: its key, version 1, the creation
  stamp of the payload or the present, and as update stamp the client's or the present; every other
  column has its value from the payload, else its default. An updated row differs from the old one in
  the payload's columns, which take the payload's values unless they are the key or a sync column, in
  the version, which is one more, and in the update stamp.
\<close>

definition created_row :: "ctx \<Rightarrow> entity_spec \<Rightarrow> request \<Rightarrow> row \<Rightarrow> bool" where
  "created_row cx spec rq r = (fmdom' r = set (field_names spec) \<and>
     fld r (es_primary_key spec) = JStr (rq_entity_id rq) \<and> fld r ''version'' = JInt 1 \<and>
     fld r ''updated_at'' = JStr (stamp_or (rq_client_updated_at rq) (cx_now cx)) \<and>
     (''created_at'' \<in> fmdom' r \<longrightarrow> fld r ''created_at'' = get_or (rq_payload rq) ''created_at'' (JStr (cx_now cx))) \<and>
     (\<forall>f \<in> set (es_fields spec). f_name f \<notin> set (protected_keys spec) \<longrightarrow>
        fld r (f_name f) = get_or (rq_payload rq) (f_name f) (f_default f)))"

definition updated_row :: "ctx \<Rightarrow> entity_spec \<Rightarrow> request \<Rightarrow> row \<Rightarrow> row \<Rightarrow> bool" where
  "updated_row cx spec rq r s = (fmdom' s = fmdom' r \<and> (\<forall>k \<in> fmdom' r. fld s k =
     (if k = ''version'' then JInt (int_of (fld r ''version'') + 1)
      else if k = ''updated_at'' then JStr (stamp_or (rq_client_updated_at rq) (cx_now cx))
      else if k \<in> set (protected_keys spec) then fld r k
      else get_or (rq_payload rq) k (fld r k))))"

text \<open>What a command leaves behind, by action; everything it does not name is as before.\<close>

definition generic_effect :: "ctx \<Rightarrow> overlay \<Rightarrow> entity_spec \<Rightarrow> request \<Rightarrow> bool" where
  "generic_effect cx ov' spec rq =
     (let ov = cx_overlay cx; ident = [JStr (rq_entity_id rq)];
          before = ov_row ov (es_name spec) ident; after = ov_row ov' (es_name spec) ident;
          key = (effective_sync_entity_type spec, rq_entity_id rq) in
      (rq_name rq = ''entity.create'' \<longrightarrow> before = None \<and> (\<exists>r. after = Some r \<and> created_row cx spec rq r)) \<and>
      (rq_name rq = ''entity.update'' \<longrightarrow> (\<exists>r s. before = Some r \<and> after = Some s \<and> updated_row cx spec rq r s)) \<and>
      (rq_name rq = ''entity.delete'' \<longrightarrow> before \<noteq> None \<and> after = None) \<and>
      ov_tombstones ov' = (if rq_name rq = ''entity.delete'' \<and> es_sync_enabled spec then insert key (ov_tombstones ov)
        else ov_tombstones ov) \<and>
      (\<forall>t i. (t, i) \<noteq> (es_name spec, ident) \<longrightarrow> ov_row ov' t i = ov_row ov t i) \<and>
      ov_markdown ov' = ov_markdown ov \<and> ov_derived ov' = ov_derived ov \<and> ov_reserved ov' = ov_reserved ov)"

lemma with_row_rest [simp]: "ov_tombstones (with_row ov t i r) = ov_tombstones ov" "ov_markdown (with_row ov t i r) = ov_markdown ov"
  "ov_derived (with_row ov t i r) = ov_derived ov" "ov_reserved (with_row ov t i r) = ov_reserved ov"
  by (simp_all add: with_row_def)

lemma without_row_rest [simp]: "ov_tombstones (without_row ov t i) = ov_tombstones ov" "ov_markdown (without_row ov t i) = ov_markdown ov"
  "ov_derived (without_row ov t i) = ov_derived ov" "ov_reserved (without_row ov t i) = ov_reserved ov"
  by (simp_all add: without_row_def)

lemma dict_single: "dict [(k, v)] = fmupd k v fmempty"
  by (simp add: dict_def)

lemma pk_values_single: "generic_entity spec \<Longrightarrow> pk_values spec r = [fld r (es_primary_key spec)]"
  by (simp add: pk_values_def generic_pk)

lemma fld_pk: "catalog_wf (ov_catalog ov) \<Longrightarrow> overlay_wf ov \<Longrightarrow> generic_entity spec \<Longrightarrow>
   catalog_get (ov_catalog ov) t = Some spec \<Longrightarrow> ov_row ov t [v] = Some r \<Longrightarrow>
   fmlookup r (es_primary_key spec) = Some v"
  using overlay_wf_row [of ov t "[v]" r spec] pk_fields_declared [of "ov_catalog ov" t spec]
  by (auto simp: pk_values_single generic_pk fld_lookup)

lemma create_field_column:
  assumes "create_field spec rq ts q f = Inr q'"
  shows "the (fmlookup q' (f_name f)) =
      (if f_name f = es_primary_key spec then JStr (rq_entity_id rq)
       else if f_name f = ''created_at'' then get_or (rq_payload rq) ''created_at'' (JStr ts)
       else if f_name f = ''updated_at'' then JStr (stamp_or (rq_client_updated_at rq) ts)
       else if f_name f = ''version'' then JInt 1 else get_or (rq_payload rq) (f_name f) (f_default f))"
  using assms
  by (auto simp: create_field_def Let_def get_or_def has_key_def fld_def split: if_split_asm option.split)

lemma create_row_created:
  assumes fields: "rfold (create_field spec rq (cx_now cx)) fmempty (es_fields spec) = Inr after" and g: "generic_entity spec"
    and dom: "fmdom' after = set (field_names spec)" and pk: "es_primary_key spec \<in> set (field_names spec)"
  shows "created_row cx spec rq after"
proof -
  have "distinct (map f_name (es_fields spec))" using g by (simp add: generic_entity_def field_names_def)
  note val = create_field_value [OF fields this, THEN conjunct1]
  have column: "fld after (f_name f) =
      (if f_name f = es_primary_key spec then JStr (rq_entity_id rq)
       else if f_name f = ''created_at'' then get_or (rq_payload rq) ''created_at'' (JStr (cx_now cx))
       else if f_name f = ''updated_at'' then JStr (stamp_or (rq_client_updated_at rq) (cx_now cx))
       else if f_name f = ''version'' then JInt 1 else get_or (rq_payload rq) (f_name f) (f_default f))"
    if f: "f \<in> set (es_fields spec)" for f
  proof -
    obtain q q' where q: "create_field spec rq (cx_now cx) q f = Inr q'" "fmlookup after (f_name f) = fmlookup q' (f_name f)"
      using val f by blast
    show ?thesis unfolding fld_def [of after] q(2) by (rule create_field_column [OF q(1)])
  qed
  have named: "\<exists>f \<in> set (es_fields spec). f_name f = k" if "k \<in> set (field_names spec)" for k
    using that by (auto simp: field_names_def)
  have g': "''version'' \<in> set (field_names spec)" "''updated_at'' \<in> set (field_names spec)"
    "es_primary_key spec \<noteq> ''version''" "es_primary_key spec \<noteq> ''updated_at''" "es_primary_key spec \<noteq> ''created_at''"
    using g by (auto simp: generic_entity_def)
  have "fld after (es_primary_key spec) = JStr (rq_entity_id rq)"
    using named [OF pk] column by (metis (full_types))
  moreover have "fld after ''version'' = JInt 1"
    using named [OF g'(1)] column g'(3) by fastforce
  moreover have "fld after ''updated_at'' = JStr (stamp_or (rq_client_updated_at rq) (cx_now cx))"
    using named [OF g'(2)] column g'(4) by fastforce
  moreover have "fld after ''created_at'' = get_or (rq_payload rq) ''created_at'' (JStr (cx_now cx))"
    if "''created_at'' \<in> set (field_names spec)"
    using named [OF that] column g'(5) by fastforce
  moreover have "fld after (f_name f) = get_or (rq_payload rq) (f_name f) (f_default f)"
    if "f \<in> set (es_fields spec)" "f_name f \<notin> set (protected_keys spec)" for f
    using column [OF that(1)] that(2) by (simp add: protected_keys_def)
  ultimately show ?thesis unfolding created_row_def dom by blast
qed

lemma compile_create_Inr:
  assumes "overlay_wf (cx_overlay cx)" "catalog_get (cx_catalog cx) t = Some spec" "generic_entity spec"
    "row_ok (rq_payload rq)" "ov_row (cx_overlay cx) t [JStr (rq_entity_id rq)] = current"
    "compile_create cx rq spec current = Inr (plan, action, after, resolution)"
  shows "action = EvCreate \<and> current = None \<and> created_row cx spec rq after \<and>
    apply_plan (cx_overlay cx) plan = Inr (with_row (cx_overlay cx) t [JStr (rq_entity_id rq)] after) \<and>
    overlay_wf (with_row (cx_overlay cx) t [JStr (rq_entity_id rq)] after) \<and> resolution = None"
proof -
  let ?pk = "dict [(es_primary_key spec, JStr (rq_entity_id rq))]"
  obtain c: "current = None" and row: "complete_create_row spec rq (cx_now cx) = Inr after"
    and plan: "plan = \<lparr>pl_table = es_table_name spec, pl_pk = ?pk, pl_op = Insert, pl_expected = None,
        pl_before = None, pl_after = Some after\<rparr>" and act: "action = EvCreate" "resolution = None"
    using assms(6) by (auto simp: compile_create_def version_conflict_def result_simps split: option.splits)
  have ct: "catalog_wf (cx_catalog cx)" using assms(1) by (simp add: overlay_wf_iff cx_catalog_def)
  have fields: "rfold (create_field spec rq (cx_now cx)) fmempty (es_fields spec) = Inr after"
    using row by (auto simp: complete_create_row_def rbind_Inr)
  have pkf: "es_primary_key spec \<in> set (field_names spec)"
    using pk_fields_declared [OF ct assms(2)] assms(3) by (simp add: generic_pk)
  have shape: "fmdom' after = set (field_names spec)" "row_ok after"
    "fmlookup after (es_primary_key spec) = Some (JStr (rq_entity_id rq))"
    using create_fields_shape [OF fields] assms(3,4) pkf by (simp_all add: generic_entity_def field_names_def)
  have created: "created_row cx spec rq after" by (rule create_row_created [OF fields assms(3) shape(1) pkf])
  have pk: "pk_values spec (pl_pk plan) = [JStr (rq_entity_id rq)]"
    by (simp add: plan pk_values_single [OF assms(3)] dict_single)
  have "row_shape (ov_catalog (cx_overlay cx)) t [JStr (rq_entity_id rq)] after"
    using assms(2) shape by (simp add: row_shape_def cx_catalog_def pk_values_single [OF assms(3)] fld_def)
  then show ?thesis
    using apply_insert [of "cx_overlay cx" t spec plan after] assms c created act
    unfolding pk by (simp add: plan cx_catalog_def generic_pk dict_single)
qed

lemma require_current_version_Inr:
  assumes "require_current_version spec rq current = Inr resolution"
  shows "resolution = None \<and> (case rq_expected_version rq of None \<Rightarrow> es_sync_conflict_policy spec \<noteq> ''strict_cas''
      | Some e \<Rightarrow> py_eq (get current ''version'') (JInt e)) \<or>
    resolution = Some ''remote'' \<and> es_sync_conflict_policy spec = ''timestamp_lww'' \<and>
      (\<exists>client c a aware s. rq_client_updated_at rq = Some client \<and> get current ''updated_at'' = JStr s \<and>
         iso_instant client = Some (c, aware) \<and> iso_instant s = Some (a, aware) \<and> a < c)"
  using assms
  by (auto simp: require_current_version_def version_conflict_def result_simps
      split: option.splits bool.splits json.splits if_splits)

lemma authoritative_version_Inr:
  "authoritative_version r = Inr n \<longleftrightarrow> fmlookup r ''version'' = Some (JInt n) \<and> 0 \<le> n"
  by (auto simp: authoritative_version_def get_or_def split: option.splits json.splits)

lemma resolved_version_is:
  assumes "require_current_version spec rq c = Inr resolution" "authoritative_version c = Inr n"
  shows "version_is c (if resolution = Some ''remote'' then Some n else rq_expected_version rq)"
  using require_current_version_Inr [OF assms(1)] assms(2)
  by (auto simp: version_is_def authoritative_version_Inr get_or_def split: option.splits)

lemma patched_column:
  "fld (c ++\<^sub>f fmfilter P p) k = (if P k then get_or p k (fld c k) else fld c k)"
  by (cases "fmlookup p k") (simp_all add: fld_def get_or_def fmlookup_add fmlookup_filter fmdom_notI fmdomI)

lemma update_row_columns:
  assumes "authoritative_version c = Inr n"
  shows "fld (updates (c ++\<^sub>f fmfilter (\<lambda>k. k \<notin> set (protected_keys spec)) p) [(''version'', JInt (n + 1)), (''updated_at'', v)]) k =
    (if k = ''version'' then JInt (int_of (fld c ''version'') + 1)
     else if k = ''updated_at'' then v
     else if k \<in> set (protected_keys spec) then fld c k
     else get_or p k (fld c k))"
proof -
  have v: "int_of (fld c ''version'') = n"
    using assms by (simp add: authoritative_version_Inr fld_def)
  consider "k = ''version''" | "k = ''updated_at''" | "k \<noteq> ''version''" "k \<noteq> ''updated_at''" by blast
  then show ?thesis
  proof cases
    case 3
    then have "fld (updates r [(''version'', a), (''updated_at'', v)]) k = fld r k" for r a
      by (simp add: fld_def)
    then show ?thesis using 3 by (simp only: patched_column if_False) simp
  qed (simp_all add: fld_def v [unfolded fld_def])
qed

lemma compile_update_Inr:
  assumes "overlay_wf (cx_overlay cx)" "catalog_get (cx_catalog cx) t = Some spec" "generic_entity spec"
    "row_ok (rq_payload rq)" "ov_row (cx_overlay cx) t [JStr (rq_entity_id rq)] = current"
    "fmdom' (rq_payload rq) \<subseteq> set (field_names spec)"
    "compile_update cx rq spec current = Inr (plan, action, after, resolution)"
  shows "action = EvUpdate \<and> (\<exists>c. current = Some c \<and> updated_row cx spec rq c after \<and>
      require_current_version spec rq c = Inr resolution) \<and>
    apply_plan (cx_overlay cx) plan = Inr (with_row (cx_overlay cx) t [JStr (rq_entity_id rq)] after) \<and>
    overlay_wf (with_row (cx_overlay cx) t [JStr (rq_entity_id rq)] after)"
proof -
  let ?pk = "dict [(es_primary_key spec, JStr (rq_entity_id rq))]"
  obtain c where c: "current = Some c"
    using assms(7) by (cases current) (auto simp: compile_update_def)
  obtain n where cur: "require_current_version spec rq c = Inr resolution" "authoritative_version c = Inr n"
    and after: "after = updates (c ++\<^sub>f fmfilter (\<lambda>k. k \<notin> set (protected_keys spec)) (rq_payload rq))
       [(''version'', JInt (n + 1)), (''updated_at'', JStr (stamp_or (rq_client_updated_at rq) (cx_now cx)))]"
    and plan: "plan = \<lparr>pl_table = es_table_name spec, pl_pk = ?pk, pl_op = Update,
       pl_expected = (if resolution = Some ''remote'' then Some n else rq_expected_version rq),
       pl_before = Some c, pl_after = Some after\<rparr>" and act: "action = EvUpdate"
    using assms(7) c by (auto simp: compile_update_def Let_def result_simps)
  have ct: "catalog_wf (cx_catalog cx)" using assms(1) by (simp add: overlay_wf_iff cx_catalog_def)
  have cr: "fmdom' c = set (field_names spec)" "row_ok c" "fmlookup c (es_primary_key spec) = Some (JStr (rq_entity_id rq))"
    using overlay_wf_row [OF assms(1)] fld_pk [OF _ assms(1,3)] ct assms(2,5) c
    by (auto simp: cx_catalog_def)
  have g: "''version'' \<in> set (field_names spec)" "''updated_at'' \<in> set (field_names spec)"
    "es_primary_key spec \<noteq> ''version''" "es_primary_key spec \<noteq> ''updated_at''"
    using assms(3) by (auto simp: generic_entity_def)
  have dom: "fmdom' after = set (field_names spec)"
    using cr(1) g assms(6) by (auto simp: after fmdom'_filter)
  have pkv: "fmlookup after (es_primary_key spec) = Some (JStr (rq_entity_id rq))"
    using cr(3) g by (simp add: after protected_keys_def)
  have ok: "row_ok after"
    using cr(2) assms(4) by (auto simp: after row_ok_iff split: if_splits)
  have pk: "pk_values spec (pl_pk plan) = [JStr (rq_entity_id rq)]"
    by (simp add: plan pk_values_single [OF assms(3)] dict_single)
  have "row_shape (ov_catalog (cx_overlay cx)) t [JStr (rq_entity_id rq)] after"
    using assms(2) dom ok pkv
    by (simp add: row_shape_def cx_catalog_def pk_values_single [OF assms(3)] fld_def)
  moreover have "version_is c (pl_expected plan)"
    using resolved_version_is [OF cur] by (simp add: plan)
  ultimately have "apply_plan (cx_overlay cx) plan = Inr (with_row (cx_overlay cx) t [JStr (rq_entity_id rq)] after)"
    "overlay_wf (with_row (cx_overlay cx) t [JStr (rq_entity_id rq)] after)"
    using apply_update [of "cx_overlay cx" t spec plan c after] assms c
    unfolding pk by (simp_all add: plan cx_catalog_def generic_pk dict_single)
  moreover have "updated_row cx spec rq c after"
    unfolding updated_row_def using dom cr(1) by (simp only: after update_row_columns [OF cur(2)] simp_thms ball_triv)
  ultimately show ?thesis using act c cur(1) by auto
qed

lemma compile_delete_Inr:
  assumes "overlay_wf (cx_overlay cx)" "catalog_get (cx_catalog cx) t = Some spec" "generic_entity spec"
    "ov_row (cx_overlay cx) t [JStr (rq_entity_id rq)] = current"
    "compile_delete cx rq spec current = Inr (plan, action, after, resolution)"
  shows "action = EvDelete \<and> (\<exists>c. current = Some c \<and> require_current_version spec rq c = Inr resolution) \<and>
    apply_plan (cx_overlay cx) plan = Inr (without_row (cx_overlay cx) t [JStr (rq_entity_id rq)]) \<and>
    overlay_wf (without_row (cx_overlay cx) t [JStr (rq_entity_id rq)])"
proof -
  let ?pk = "dict [(es_primary_key spec, JStr (rq_entity_id rq))]"
  obtain c where c: "current = Some c"
    using assms(5) by (cases current) (auto simp: compile_delete_def)
  obtain n where cur: "require_current_version spec rq c = Inr resolution" "authoritative_version c = Inr n"
    and plan: "plan = \<lparr>pl_table = es_table_name spec, pl_pk = ?pk, pl_op = Delete,
       pl_expected = (if resolution = Some ''remote'' then Some n else rq_expected_version rq),
       pl_before = Some c, pl_after = None\<rparr>" and act: "action = EvDelete"
    using assms(5) c by (auto simp: compile_delete_def Let_def result_simps)
  have pk: "pk_values spec (pl_pk plan) = [JStr (rq_entity_id rq)]"
    by (simp add: plan pk_values_single [OF assms(3)] dict_single)
  have "version_is c (pl_expected plan)"
    using resolved_version_is [OF cur] by (simp add: plan)
  then show ?thesis
    using apply_delete [of "cx_overlay cx" t spec plan c] assms c act cur
    unfolding pk by (simp add: plan cx_catalog_def generic_pk dict_single)
qed

lemma entity_events_Inr:
  assumes "entity_events cx rq spec current action after = Inr events"
  shows "(\<forall>e \<in> set events. es_sync_enabled spec \<and> ev_type e = es_name spec \<and>
      ev_id e = rq_entity_id rq \<and> ev_action e = action) \<and>
    (es_sync_enabled spec \<longrightarrow> length events = 1)"
  using assms
  by (auto simp: entity_events_def Let_def result_simps dest!: SyncEventPlan_Inr split: if_splits)

text \<open>
  C1: A generic create, update or delete command that compiles applies to the overlay it was compiled
  against, keeps the overlay well formed and has exactly the effect of its name. Create inserts, where no
  row was, the row of the payload's columns and the defaults, at version 1; update writes the payload's
  columns, the next version and the stamp (the client's, or the present) and keeps every other column,
  the key and \<open>created_at\<close> among them; delete removes the row and, for a synchronised entity, leaves a
  tombstone. No other row, tombstone or projection changes.
\<close>

theorem generic_command_effect:
  assumes "overlay_wf (cx_overlay cx)" "catalog_get (cx_catalog cx) (rq_entity_type rq) = Some spec"
    "generic_entity spec" "row_ok (rq_payload rq)"
    "compile_catalog_entity_command cx rq = Inr c"
  shows "\<exists>ov'. ov_apply (cx_overlay cx) c = Inr ov' \<and> overlay_wf ov' \<and>
    generic_effect cx ov' spec rq"
proof -
  let ?ov = "cx_overlay cx" and ?id = "[JStr (rq_entity_id rq)]"
  define current where "current = ov_row ?ov (es_name spec) ?id"
  have ct: "catalog_wf (ov_catalog ?ov)" using assms(1) by (simp add: overlay_wf_iff)
  have name: "es_name spec = rq_entity_type rq"
    using spec_by_table_catalog(2) [OF ct] assms(2) by (simp add: cx_catalog_def)
  obtain plan action after resolution events where
    fields: "fmdom' (rq_payload rq) \<subseteq> set (field_names spec)" and
    branch: "rq_name rq = ''entity.create'' \<and> compile_create cx rq spec current = Inr (plan, action, after, resolution) \<or>
      rq_name rq = ''entity.update'' \<and> compile_update cx rq spec current = Inr (plan, action, after, resolution) \<or>
      rq_name rq = ''entity.delete'' \<and> compile_delete cx rq spec current = Inr (plan, action, after, resolution)"
    and events: "\<forall>e \<in> set events. es_sync_enabled spec \<and> ev_type e = es_name spec \<and>
      ev_id e = rq_entity_id rq \<and> ev_action e = action" "es_sync_enabled spec \<longrightarrow> length events = 1"
    and cmd: "cx_command cx rq [plan] events after resolution = Inr c"
    using assms(5) assms(2) unfolding compile_catalog_entity_command_def require_catalog_spec_def Let_def
    by (auto simp: current_def rbind_Inr require_payload_fields_Inr compile_branch_def dest!: entity_events_Inr
        split: if_splits)
  have c: "cm_plans c = [plan]" "cm_events c = events" "cm_projections c = []"
    using cx_command_Inr [OF cmd] by simp_all
  have cur: "ov_row ?ov (rq_entity_type rq) ?id = current" by (simp add: current_def name)
  from branch show ?thesis
  proof (elim disjE conjE)
    assume n: "rq_name rq = ''entity.create''" and b: "compile_create cx rq spec current = Inr (plan, action, after, resolution)"
    note step = compile_create_Inr [OF assms(1-4) cur b]
    have "rfold apply_event ov' events = Inr ov'" for ov'
      using events(1) step by (intro apply_events_nodelete) simp
    then have a: "ov_apply ?ov c = Inr (with_row ?ov (rq_entity_type rq) ?id after)"
      using step by (simp add: ov_apply_def c)
    have "generic_effect cx (with_row ?ov (rq_entity_type rq) ?id after) spec rq"
      unfolding generic_effect_def Let_def name cur using step n by auto
    with a step show ?thesis by blast
  next
    assume n: "rq_name rq = ''entity.update''" and b: "compile_update cx rq spec current = Inr (plan, action, after, resolution)"
    note step = compile_update_Inr [OF assms(1-4) cur fields b]
    have "rfold apply_event ov' events = Inr ov'" for ov'
      using events(1) step by (intro apply_events_nodelete) simp
    then have a: "ov_apply ?ov c = Inr (with_row ?ov (rq_entity_type rq) ?id after)"
      using step by (simp add: ov_apply_def c)
    have "generic_effect cx (with_row ?ov (rq_entity_type rq) ?id after) spec rq"
      unfolding generic_effect_def Let_def name cur using step n by auto
    with a step show ?thesis by blast
  next
    assume n: "rq_name rq = ''entity.delete''" and b: "compile_delete cx rq spec current = Inr (plan, action, after, resolution)"
    note step = compile_delete_Inr [OF assms(1-3) cur b]
    let ?ov' = "without_row ?ov (rq_entity_type rq) ?id"
    have "\<exists>ts. rfold apply_event ?ov' events = Inr (?ov'\<lparr>ov_tombstones := ts\<rparr>) \<and>
      ts = (if es_sync_enabled spec then insert (effective_sync_entity_type spec, rq_entity_id rq) (ov_tombstones ?ov) else ov_tombstones ?ov)"
    proof (cases "es_sync_enabled spec")
      case True
      then obtain e where "events = [e]" using events(2) by (cases events) auto
      then show ?thesis
        using events(1) step assms(2) by (auto simp: apply_event_def cx_catalog_def name)
    next
      case False
      then have "events = []" using events(1) by (cases events) auto
      then show ?thesis using False by (intro exI [of _ "ov_tombstones ?ov'"]) simp
    qed
    then obtain ts where ts: "rfold apply_event ?ov' events = Inr (?ov'\<lparr>ov_tombstones := ts\<rparr>)"
      "ts = (if es_sync_enabled spec then insert (effective_sync_entity_type spec, rq_entity_id rq) (ov_tombstones ?ov) else ov_tombstones ?ov)"
      by blast
    then have a: "ov_apply ?ov c = Inr (?ov'\<lparr>ov_tombstones := ts\<rparr>)"
      using step by (simp add: ov_apply_def c)
    have "generic_effect cx (?ov'\<lparr>ov_tombstones := ts\<rparr>) spec rq"
      unfolding generic_effect_def Let_def name cur using step n ts by auto
    with a step show ?thesis by auto
  qed
qed

section \<open>Deleted entities stay deleted\<close>

lemma apply_plan_tombstones: "apply_plan ov p = Inr ov' \<Longrightarrow>
    ov_tombstones ov' = ov_tombstones ov \<and> ov_catalog ov' = ov_catalog ov"
  unfolding apply_plan_def Let_def
  by (cases "pl_op p") (auto simp: result_simps split: option.splits if_splits)

lemma apply_event_tombstones: "apply_event ov e = Inr ov' \<Longrightarrow>
    ov_tombstones ov \<subseteq> ov_tombstones ov' \<and> ov_catalog ov' = ov_catalog ov"
  by (auto simp: apply_event_def split: if_splits option.splits)

lemma apply_projection_tombstones: "apply_projection ov p = Inr ov' \<Longrightarrow>
    ov_tombstones ov' = ov_tombstones ov \<and> ov_catalog ov' = ov_catalog ov"
  unfolding apply_projection_def Let_def
  by (cases "pj_tag p") (auto simp: result_simps split: option.splits if_splits)

lemma rfold_invariant:
  assumes "rfold f s xs = Inr s'" "\<And>s x s'. f s x = Inr s' \<Longrightarrow> I s s'" "\<And>s. I s s"
    "\<And>a b c. I a b \<Longrightarrow> I b c \<Longrightarrow> I a c"
  shows "I s s'"
  using assms(1)
proof (induction xs arbitrary: s)
  case Nil
  then show ?case using assms(3) by simp
next
  case (Cons x xs)
  then obtain s1 where "f s x = Inr s1" "rfold f s1 xs = Inr s'" by (auto simp: rbind_Inr)
  with Cons.IH assms(2,4) show ?case by blast
qed

definition grows :: "overlay \<Rightarrow> overlay \<Rightarrow> bool" where
  "grows a b = (ov_tombstones a \<subseteq> ov_tombstones b \<and> ov_catalog b = ov_catalog a)"

lemma grows_refl: "grows a a"
  by (simp add: grows_def)

lemma grows_trans: "grows a b \<Longrightarrow> grows b c \<Longrightarrow> grows a c"
  by (auto simp: grows_def)

lemma ov_apply_grows:
  assumes "ov_apply ov c = Inr ov'"
  shows "grows ov ov'"
proof -
  obtain ov1 ov2 where folds: "rfold apply_plan ov (cm_plans c) = Inr ov1"
    "rfold apply_event ov1 (cm_events c) = Inr ov2" "rfold apply_projection ov2 (cm_projections c) = Inr ov'"
    using assms by (auto simp: ov_apply_def rbind_Inr)
  have "grows ov ov1"
    by (rule rfold_invariant [OF folds(1)]) (auto simp: grows_def dest: apply_plan_tombstones)
  moreover have "grows ov1 ov2"
    by (rule rfold_invariant [OF folds(2)]) (auto simp: grows_def dest: apply_event_tombstones)
  moreover have "grows ov2 ov'"
    by (rule rfold_invariant [OF folds(3)]) (auto simp: grows_def dest: apply_projection_tombstones)
  ultimately show ?thesis by (blast intro: grows_trans)
qed

text \<open>
  C9: Once an entity of a synchronised type is tombstoned, no \<open>entity.create\<close> and no
  \<open>entity.update\<close> of it is ever compiled again: whatever commands the overlay has accepted since, and
  whichever policies are registered, the request is rejected with \<open>tombstone_conflict\<close>. The check is
  of these two request names only: a command of another name is compiled by its policy, and
  \<open>CreateRelation\<close> inserts a removed relation again.
\<close>

theorem no_resurrection:
  assumes "catalog_get (ov_catalog ov) (rq_entity_type rq) = Some spec"
    "is_tombstoned ov (effective_sync_entity_type spec) (rq_entity_id rq)"
    "rfold ov_apply ov commands = Inr ov'" "cx_overlay cx = ov'"
    "rq_name rq \<in> {''entity.create'', ''entity.update''}"
  shows "compile_against_overlay policies cx rq = Inl (RuleViolation ''tombstone_conflict''
    [(''entityId'', JStr (rq_entity_id rq)), (''resolution'', JStr ''tombstone'')] False)"
proof -
  have "grows ov ov'"
    using assms(3) ov_apply_grows grows_refl grows_trans by (rule rfold_invariant)
  then show ?thesis
    using assms by (auto simp: grows_def compile_against_overlay_def Let_def cx_catalog_def is_tombstoned_def)
qed

section \<open>A sample Space\<close>

text \<open>
  The built-in catalog and an empty Space, at which the properties are instantiated: a clock that
  stands, and digests that map everything to one text.
\<close>

definition sample_catalog :: catalog where
  "sample_catalog = \<lparr>ct_version = ''1'', ct_hash = [],
     ct_by_name = map (\<lambda>s. (es_name s, s)) builtin_specs,
     ct_by_sync_key = map (\<lambda>s. (effective_sync_entity_type s, s)) (filter es_sync_enabled builtin_specs),
     ct_sync_enabled = filter es_sync_enabled builtin_specs\<rparr>"

definition sample_digests :: digests where
  "sample_digests = \<lparr>sha256_hex = (\<lambda>_. replicate 64 (CHR ''0'')), rfc8785_dumps = dumps_plain\<rparr>"

definition sample_overlay :: "((string \<times> json list) \<times> row) list \<Rightarrow> overlay" where
  "sample_overlay rows = \<lparr>ov_catalog = sample_catalog, ov_map = rows, ov_tombstones = {},
     ov_markdown = fmempty, ov_derived = fmempty, ov_reserved = {}\<rparr>"

definition sample_ctx :: "((string \<times> json list) \<times> row) list \<Rightarrow> ctx" where
  "sample_ctx rows = \<lparr>cx_space_id = ''s1'', cx_overlay = sample_overlay rows, cx_operation_id = ''op-1'',
     cx_now = ''2026-01-02T03:04:05.678Z'', cx_digests = sample_digests, cx_uuid5 = (\<lambda>s. ''u-'' @ s)\<rparr>"

definition sample_request :: "string \<Rightarrow> string \<Rightarrow> string \<Rightarrow> (string \<times> json) list \<Rightarrow> int option \<Rightarrow> request" where
  "sample_request name etype eid payload expected = \<lparr>rq_name = name, rq_entity_type = etype,
     rq_entity_id = eid, rq_payload = dict payload, rq_expected_version = expected,
     rq_client_updated_at = None, rq_hash = replicate 64 (CHR ''0'')\<rparr>"

lemma sample_catalog_get: "s \<in> set builtin_specs \<Longrightarrow> catalog_get sample_catalog (es_name s) = Some s"
  unfolding sample_catalog_def catalog_get_def
  using map_of_keyed [OF builtin_distinct(1)] by simp

lemma sample_catalog_wf: "catalog_wf sample_catalog"
proof -
  have "\<forall>s \<in> set builtin_specs. check_keys s = Inr ()"
    using builtin_declarations_ok by (simp add: declaration_ok_def)
  then show ?thesis
    unfolding catalog_wf_def
    using builtin_distinct check_keys_Inr
    by (auto simp: sample_catalog_def catalog_list_def comp_def)
qed

lemma sample_overlay_simps [simp]:
  "ov_catalog (sample_overlay rows) = sample_catalog" "ov_map (sample_overlay rows) = rows"
  "ov_tombstones (sample_overlay rows) = {}"
  "cx_overlay (sample_ctx rows) = sample_overlay rows" "cx_space_id (sample_ctx rows) = ''s1''"
  "cx_operation_id (sample_ctx rows) = ''op-1''" "cx_now (sample_ctx rows) = ''2026-01-02T03:04:05.678Z''"
  "cx_digests (sample_ctx rows) = sample_digests" "cx_uuid5 (sample_ctx rows) = (\<lambda>s. ''u-'' @ s)"
  "cx_catalog (sample_ctx rows) = sample_catalog"
  by (simp_all add: sample_overlay_def sample_ctx_def cx_catalog_def)

lemma sample_request_simps [simp]:
  "rq_name (sample_request n t e p v) = n" "rq_entity_type (sample_request n t e p v) = t"
  "rq_entity_id (sample_request n t e p v) = e" "rq_payload (sample_request n t e p v) = dict p"
  "rq_expected_version (sample_request n t e p v) = v" "rq_client_updated_at (sample_request n t e p v) = None"
  by (simp_all add: sample_request_def)

lemma sample_empty_wf: "overlay_wf (sample_overlay [])"
  by (simp add: overlay_wf_def sample_catalog_wf)

lemma sample_label: "catalog_get sample_catalog ''label'' = Some label_spec"
  using sample_catalog_get [of label_spec] by (simp add: builtin_specs_def)

lemma label_generic: "generic_entity label_spec"
  by (simp add: generic_entity_def field_names_builtin) (simp add: label_spec_def EntitySpec_def sync_fields_def)

lemma validate_sample_now: "validate_canonical_timestamp (JStr ''2026-01-02T03:04:05.678Z'') = Inr ()"
  by (simp add: validate_canonical_timestamp_def parse_timestamp_def SYNC_UTC_RFC3339_def digits_at_def
      is_digit_def valid_datetime_def split_timestamp_def slice_def num_of_def digit_val_def
      days_in_month_def is_leap_def)

lemma generic_command_effect_witness:
  "\<exists>c ov'. compile_catalog_entity_command (sample_ctx [])
      (sample_request ''entity.create'' ''label'' ''l1'' [(''name'', JStr ''red'')] None) = Inr c \<and>
    ov_apply (sample_overlay []) c = Inr ov' \<and> overlay_wf ov' \<and>
    (\<exists>r. ov_row ov' ''label'' [JStr ''l1''] = Some r \<and> fld r ''version'' = JInt 1 \<and> fld r ''name'' = JStr ''red'')"
proof -
  let ?cx = "sample_ctx []"
  let ?rq = "sample_request ''entity.create'' ''label'' ''l1'' [(''name'', JStr ''red'')] None"
  have row: "ov_row (sample_overlay []) ''label'' [JStr ''l1''] = None"
    by (simp add: ov_row_def)
  have p: "require_payload_fields label_spec (dict [(''name'', JStr ''red'')]) = Inr ()"
    by (simp add: require_payload_fields_Inr field_names_builtin dict_single)
  have e: "require_entity_id label_spec ?rq = Inr ()"
    by (simp add: require_entity_id_def Let_def dict_single)
  have flds: "\<exists>after. rfold (create_field label_spec ?rq ''2026-01-02T03:04:05.678Z'') fmempty (es_fields label_spec) = Inr after
      \<and> get after ''version'' = JInt 1"
    by (simp add: label_spec_def EntitySpec_def sync_fields_def create_field_def Let_def stamp_or_def
        or_default_def dict_single has_key_def get_or_def)
  then obtain after where a: "complete_create_row label_spec ?rq ''2026-01-02T03:04:05.678Z'' = Inr after"
    "get after ''version'' = JInt 1"
    using p e by (auto simp: complete_create_row_def)
  obtain c where c: "compile_catalog_entity_command ?cx ?rq = Inr c"
    using a
    by (auto simp: compile_catalog_entity_command_def require_catalog_spec_def sample_label p row Let_def
        compile_branch_def compile_create_def DbMutationPlan_def validate_expected_version_def
        entity_events_def SyncEventPlan_def validate_sample_now cx_command_None)
  have "row_ok (rq_payload ?rq)" by (simp add: dict_single row_ok_fmupd)
  from generic_command_effect [OF _ _ label_generic this c] sample_empty_wf sample_label
  obtain ov' r where ov': "ov_apply (sample_overlay []) c = Inr ov'" "overlay_wf ov'" "ov_row ov' ''label'' [JStr ''l1''] = Some r"
    and made: "created_row ?cx label_spec ?rq r"
    by (auto simp: generic_effect_def Let_def)
  have "\<exists>f \<in> set (es_fields label_spec). f_name f = ''name''"
    by (simp add: label_spec_def EntitySpec_def sync_fields_def)
  then have "fld r ''name'' = JStr ''red''"
    using made by (auto simp: created_row_def protected_keys_def get_or_def dict_single label_spec_def EntitySpec_def)
  then show ?thesis using c ov' made by (auto simp: created_row_def)
qed

lemma no_resurrection_witness:
  "compile_against_overlay []
      (\<lparr>cx_space_id = ''s1'', cx_overlay = (sample_overlay [])\<lparr>ov_tombstones := {(''label'', ''l1'')}\<rparr>,
        cx_operation_id = ''op-1'', cx_now = [], cx_digests = sample_digests, cx_uuid5 = id\<rparr>)
      (sample_request ''entity.create'' ''label'' ''l1'' [] None) =
    Inl (RuleViolation ''tombstone_conflict''
      [(''entityId'', JStr ''l1''), (''resolution'', JStr ''tombstone'')] False)"
  using no_resurrection [of "(sample_overlay [])\<lparr>ov_tombstones := {(''label'', ''l1'')}\<rparr>"
      "sample_request ''entity.create'' ''label'' ''l1'' [] None" label_spec "[]"
      "(sample_overlay [])\<lparr>ov_tombstones := {(''label'', ''l1'')}\<rparr>"]
  by (simp add: sample_label is_tombstoned_def)

end
