(* ===== verification/TaskSpace.thy ===== *)
theory TaskSpace
  imports EntityCommand
begin

text \<open>
  What the Task Space commands share (\<open>app/task_space/contracts.py\<close> and the helpers of
  \<open>app/task_space/compiler.py\<close>): closed value domains, keys and identities, the row and version
  checks, the update command of a work item, and the creation of a project.

  Identifiers in payloads are texts, as the wire schemas of the commands require.
\<close>

section \<open>Contracts\<close>

definition WORK_ITEM_PRIORITY_VALUES :: "string list" where
  "WORK_ITEM_PRIORITY_VALUES = [''low'', ''medium'', ''high'', ''urgent'']"

definition WORK_ITEM_CONFIDENCE_VALUES :: "string list" where
  "WORK_ITEM_CONFIDENCE_VALUES = [''low'', ''medium'', ''high'']"

definition require_enum_value :: "string \<Rightarrow> json \<Rightarrow> string list \<Rightarrow> unit res" where
  "require_enum_value field v allowed =
     (case v of
        JNull \<Rightarrow> Inr ()
      | JStr s \<Rightarrow> require (s \<in> set allowed) (ValueErr (''invalid_'' @ field))
      | _ \<Rightarrow> Inl (ValueErr (''invalid_'' @ field)))"

definition BLOCKING_RELATION_TYPES :: "string list" where
  "BLOCKING_RELATION_TYPES = [''depends_on'', ''blocks'']"

definition RELATION_TYPES :: "string list" where
  "RELATION_TYPES = [''depends_on'', ''blocks'', ''relates_to'']"

definition RELATION_RESOLUTION_CONFIRMED_NOT_REQUIRED :: string where
  "RELATION_RESOLUTION_CONFIRMED_NOT_REQUIRED = ''confirmed_not_required''"

definition SYSTEM_STATUS_IDS :: "(string \<times> string) list" where
  "SYSTEM_STATUS_IDS =
     [(''not_started'', ''sys-status-not-started''), (''in_progress'', ''sys-status-in-progress''),
      (''paused'', ''sys-status-paused''), (''waiting'', ''sys-status-waiting''),
      (''completed'', ''sys-status-completed''), (''cancelled'', ''sys-status-cancelled'')]"

definition SYSTEM_TYPE_ID :: string where
  "SYSTEM_TYPE_ID = ''sys-type-work-item''"

text \<open>\<open>str.strip()\<close> and \<open>str.upper()\<close> on code points below U+0100 (whose upper case stays there).\<close>

definition is_space :: "char \<Rightarrow> bool" where
  "is_space c = (let n = (of_char c :: nat) in
     (9 \<le> n \<and> n \<le> 13) \<or> (28 \<le> n \<and> n \<le> 32) \<or> n = 133 \<or> n = 160)"

definition py_strip :: "string \<Rightarrow> string" where
  "py_strip s = rev (dropWhile is_space (rev (dropWhile is_space s)))"

definition upper_char :: "char \<Rightarrow> string" where
  "upper_char c = (let n = (of_char c :: nat) in
     if n = 223 then ''SS''
     else if (97 \<le> n \<and> n \<le> 122) \<or> (224 \<le> n \<and> n \<le> 254 \<and> n \<noteq> 247) then [char_of (n - 32)]
     else [c])"

definition py_upper :: "string \<Rightarrow> string" where
  "py_upper s = concat (map upper_char s)"

definition PROJECT_KEY_PATTERN :: "string \<Rightarrow> bool" where
  "PROJECT_KEY_PATTERN s = (2 \<le> length s \<and> length s \<le> 10 \<and>
     CHR ''A'' \<le> hd s \<and> hd s \<le> CHR ''Z'' \<and>
     list_all (\<lambda>c. (CHR ''A'' \<le> c \<and> c \<le> CHR ''Z'') \<or> is_digit c) s)"

definition normalize_project_key :: "string \<Rightarrow> string res" where
  "normalize_project_key v =
     (let normalized = py_upper (py_strip v) in
      if PROJECT_KEY_PATTERN normalized then Inr normalized else Inl (ValueErr ''project_key''))"

definition format_work_item_display_key :: "string \<Rightarrow> int \<Rightarrow> string res" where
  "format_work_item_display_key project_key number =
     rbind (normalize_project_key project_key) (\<lambda>canonical_key.
     rbind (require (1 \<le> number) (ValueErr ''work_item_number'')) (\<lambda>_.
     Inr (canonical_key @ ''-'' @ int_text number)))"

definition relation_id :: "digests \<Rightarrow> string \<Rightarrow> string \<Rightarrow> string \<Rightarrow> string \<Rightarrow> string" where
  "relation_id dg space_id from_id to_id relation_type =
     (let digest = canonical_payload_hash dg (dict
        [(''space_id'', JStr space_id), (''from_work_item_id'', JStr from_id),
         (''to_work_item_id'', JStr to_id), (''relation_type'', JStr relation_type)]) in
      ''rel_'' @ take 32 digest)"

section \<open>Shared checks of the compiler\<close>

definition require_space_scope :: "ctx \<Rightarrow> request \<Rightarrow> unit res" where
  "require_space_scope cx rq =
     rbind (pget (rq_payload rq) ''space_id'') (\<lambda>space_id.
     require (str_of space_id = cx_space_id cx)
       (violation ''space_scope_mismatch''
          [(''scopeSpaceId'', JStr (cx_space_id cx)), (''payloadSpaceId'', JStr (str_of space_id))] False))"

text \<open>\<open>uuid.uuid5(TASK_SPACE_NAMESPACE, f"{kind}\0{command_id}").hex\<close>.\<close>

definition stable_id :: "ctx \<Rightarrow> string \<Rightarrow> string \<Rightarrow> string" where
  "stable_id cx kind command_id = cx_uuid5 cx (kind @ [CHR 0x00] @ command_id)"

definition require_work_item_enum :: "string \<Rightarrow> json \<Rightarrow> string list \<Rightarrow> unit res" where
  "require_work_item_enum field v allowed =
     (case require_enum_value field v allowed of
        Inl (ValueErr m) \<Rightarrow> violate ''payload_field_not_allowed''
          [(''field'', JStr field), (''value'', v), (''reason'', JStr m),
           (''allowed'', JList (map JStr allowed))] False
      | r \<Rightarrow> r)"

definition require_expected_version :: "row \<Rightarrow> int option \<Rightarrow> unit res" where
  "require_expected_version item expected =
     require (expected = Some (int_of (fld item ''version'')))
       (violation ''version_conflict'' [(''current_version'', fld item ''version'')] False)"

definition require_row :: "overlay \<Rightarrow> string \<Rightarrow> json \<Rightarrow> row res" where
  "require_row ov t eid =
     (case ov_row ov t [eid] of
        None \<Rightarrow> violate ''not_found'' [(''entity_type'', JStr t), (''id'', eid)] False
      | Some r \<Rightarrow> Inr r)"

definition label_ids_for_work_item :: "overlay \<Rightarrow> string \<Rightarrow> string list res" where
  "label_ids_for_work_item ov work_item_id =
     rbind (ov_rows ov ''work_item_label'') (\<lambda>rows.
     Inr (sort (map (\<lambda>r. str_of (fld r ''label_id''))
        (filter (\<lambda>r. str_of (fld r ''work_item_id'') = work_item_id) rows))))"

definition bump :: "row \<Rightarrow> json" where
  "bump r = JInt (int_of (fld r ''version'') + 1)"

definition work_item_update_command :: "ctx \<Rightarrow> request \<Rightarrow> row \<Rightarrow> row \<Rightarrow> string \<Rightarrow> command res" where
  "work_item_update_command cx rq before after timestamp =
     rbind (DbMutationPlan ''work_items'' (dict [(''id'', fld before ''id'')]) Update
              (rq_expected_version rq) (Some before) (Some after)) (\<lambda>plan.
     rbind (label_ids_for_work_item (cx_overlay cx) (str_of (fld before ''id''))) (\<lambda>labels.
     let post = updates after [(''label_ids'', JList (map JStr labels))] in
     rbind (SyncEventPlan ''work_item'' (str_of (fld before ''id'')) EvUpdate post
              (JInt (int_of (fld after ''version''))) (JStr timestamp)) (\<lambda>event.
     cx_command cx rq [plan] [event] post None)))"

section \<open>Projects\<close>

definition compile_CreateProject :: "ctx \<Rightarrow> request \<Rightarrow> command res" where
  "compile_CreateProject cx rq =
     rbind (pget (rq_payload rq) ''key'') (\<lambda>raw_key.
     rbind (case normalize_project_key (str_of raw_key) of
              Inl _ \<Rightarrow> violate ''invalid_project_key'' [(''key'', JStr (str_of raw_key))] False
            | Inr key \<Rightarrow> Inr key) (\<lambda>key.
     rbind (ov_rows (cx_overlay cx) ''project'') (\<lambda>projects.
     rbind (require (\<forall>r \<in> set projects. str_of (fld r ''key'') \<noteq> key)
              (violation ''project_key_conflict'' [(''key'', JStr key)] False)) (\<lambda>_.
     rbind (pget (rq_payload rq) ''command_id'') (\<lambda>command_id.
     let project_id = stable_id cx ''project'' (str_of command_id); now = JStr (cx_now cx) in
     rbind (pget (rq_payload rq) ''name'') (\<lambda>name.
     let after = dict
       [(''id'', JStr project_id),
        (''key'', JStr key),
        (''name'', JStr (py_strip (str_of name))),
        (''description'', get (rq_payload rq) ''description''),
        (''rank'', JInt (int (length projects))),
        (''next_work_item_number'', JInt 1),
        (''default_status_definition_id'', JStr (the (map_of SYSTEM_STATUS_IDS ''not_started''))),
        (''default_type_definition_id'', JStr SYSTEM_TYPE_ID),
        (''archived_at'', JNull),
        (''created_at'', now),
        (''updated_at'', now),
        (''version'', JInt 1)] in
     rbind (DbMutationPlan ''projects'' (dict [(''id'', JStr project_id)]) Insert None None (Some after))
       (\<lambda>plan.
     rbind (SyncEventPlan ''project'' project_id EvCreate after (JInt 1) now) (\<lambda>event.
     cx_command cx rq [plan] [event] after None))))))))"

end
