(* ===== verification/WorkItemTree.thy ===== *)
theory WorkItemTree
  imports TaskSpace
begin

text \<open>
  The tree of work items (the tree helpers of \<open>app/task_space/compiler.py\<close>): the depth of a parent,
  the descendants of an item, the depth of its subtree and the next rank below a parent; the tree
  invariant, and what each helper computes on a tree.

  The two loops that walk pointers without remembering where they were may run forever on a graph
  that is no tree. They are partial functions whose value is \<open>None\<close> then, and a command that runs
  into one has the result \<open>Diverges\<close>.
\<close>

section \<open>The helpers\<close>

definition work_item_ids :: "overlay \<Rightarrow> json set" where
  "work_item_ids ov = {hd ident | ident. (''work_item'', ident) \<in> set (map fst (ov_map ov))}"

lemma finite_work_item_ids: "finite (work_item_ids ov)"
proof -
  have "work_item_ids ov \<subseteq> (\<lambda>k. hd (snd k)) ` set (map fst (ov_map ov))"
    unfolding work_item_ids_def by force
  then show ?thesis by (rule finite_subset) simp
qed

lemma require_row_Inr [result_simps]: "require_row ov t i = Inr r \<longleftrightarrow> ov_row ov t [i] = Some r"
  by (simp add: require_row_def split: option.splits)

lemma ov_row_id: "ov_row ov ''work_item'' [i] = Some r \<Longrightarrow> i \<in> work_item_ids ov"
proof -
  assume "ov_row ov ''work_item'' [i] = Some r"
  then have "((''work_item'', [i]), r) \<in> set (ov_map ov)"
    by (auto simp: ov_row_def dest: map_of_SomeD)
  then have "(''work_item'', [i]) \<in> set (map fst (ov_map ov))" by force
  then show ?thesis unfolding work_item_ids_def by force
qed

text \<open>The loop of \<open>_parent_depth\<close>; each round visits one more row of the Space.\<close>

function climb :: "overlay \<Rightarrow> string \<Rightarrow> json list \<Rightarrow> nat \<Rightarrow> json \<Rightarrow> nat res" where
  "climb ov project_id visited depth current =
     (if current = JNull then Inr depth
      else if current \<in> set visited
      then violate ''invalid_work_item_tree'' [(''reason'', JStr ''cycle'')] False
      else rbind (require_row ov ''work_item'' current) (\<lambda>parent.
        if fld parent ''project_id'' \<noteq> JStr project_id
        then violate ''invalid_work_item_tree'' [(''reason'', JStr ''cross_project_parent'')] False
        else climb ov project_id (current # visited) (depth + 1) (fld parent ''parent_id'')))"
  by pat_completeness auto

lemma visit_decreases:
  assumes "current \<notin> set visited" "require_row ov ''work_item'' current = Inr r"
  shows "card (work_item_ids ov - set (current # visited)) < card (work_item_ids ov - set visited)"
proof -
  have "current \<in> work_item_ids ov" using assms(2) by (simp add: require_row_Inr ov_row_id)
  then have "work_item_ids ov - set (current # visited) \<subset> work_item_ids ov - set visited"
    using assms(1) by auto
  then show ?thesis by (rule psubset_card_mono [rotated]) (simp add: finite_work_item_ids)
qed

termination climb
  by (relation "measure (\<lambda>(ov, p, visited, d, c). card (work_item_ids ov - set visited))")
    (use visit_decreases in auto)

declare climb.simps [simp del]

definition parent_depth :: "overlay \<Rightarrow> json \<Rightarrow> string \<Rightarrow> nat res" where
  "parent_depth ov parent_id project_id = climb ov project_id [] 0 parent_id"

text \<open>\<open>_descendants\<close>: the frontier is a stack whose last element is popped.\<close>

definition children_of :: "row list \<Rightarrow> string \<Rightarrow> row list" where
  "children_of rows parent = filter (\<lambda>r. fld r ''parent_id'' = JStr parent) rows"

definition id_of :: "row \<Rightarrow> string" where
  "id_of r = str_of (fld r ''id'')"

partial_function (option) descend :: "row list \<Rightarrow> string list \<Rightarrow> row list \<Rightarrow> row list option" where
  "descend rows frontier output =
     (if frontier = [] then Some output
      else let children = children_of rows (last frontier) in
        descend rows (butlast frontier @ map id_of children) (output @ children))"

definition returns :: "'a option \<Rightarrow> 'a res" where
  "returns v = (case v of None \<Rightarrow> Inl Diverges | Some x \<Rightarrow> Inr x)"

lemma returns_simps [simp]: "returns (Some x) = Inr x" "returns None = Inl Diverges"
  by (simp_all add: returns_def)

definition descendants :: "overlay \<Rightarrow> string \<Rightarrow> row list res" where
  "descendants ov root_id =
     rbind (ov_rows ov ''work_item'') (\<lambda>rows. returns (descend rows [root_id] []))"

text \<open>The inner loop of \<open>_subtree_relative_depth\<close>, over the parents of the descendants.\<close>

partial_function (option) chain_depth :: "(string \<times> json) list \<Rightarrow> nat \<Rightarrow> json \<Rightarrow> nat option" where
  "chain_depth parent_by_id depth parent =
     (case parent of
        JStr p \<Rightarrow> (case map_of parent_by_id p of
            None \<Rightarrow> Some depth
          | Some q \<Rightarrow> chain_depth parent_by_id (depth + 1) q)
      | _ \<Rightarrow> Some depth)"

definition subtree_relative_depth :: "overlay \<Rightarrow> string \<Rightarrow> nat res" where
  "subtree_relative_depth ov root_id =
     rbind (descendants ov root_id) (\<lambda>rows.
     if rows = [] then Inr 1
     else let parent_by_id = rev (map (\<lambda>r. (id_of r, fld r ''parent_id'')) rows) in
       rbind (rmap (\<lambda>r. returns (chain_depth parent_by_id 2 (fld r ''parent_id''))) rows) (\<lambda>depths.
       Inr (fold max depths 1)))"

definition authoritative_child_rank :: "overlay \<Rightarrow> string \<Rightarrow> json \<Rightarrow> int res" where
  "authoritative_child_rank ov project_id parent_id =
     rbind (ov_rows ov ''work_item'') (\<lambda>rows.
     let ranks = map (\<lambda>r. int_of (fld r ''child_rank''))
       (filter (\<lambda>r. str_of (fld r ''project_id'') = project_id \<and> fld r ''parent_id'' = parent_id) rows) in
     Inr ((if ranks = [] then - 1 else Max (set ranks)) + 1))"

section \<open>The rows of a type\<close>

lemma ov_rows_Inr:
  assumes "catalog_get (ov_catalog ov) t = Some spec"
  shows "\<exists>rows. ov_rows ov t = Inr rows"
  using assms by (simp add: ov_rows_def)

lemma ov_rows_iff:
  assumes "overlay_wf ov" "ov_rows ov t = Inr rows"
  shows "r \<in> set rows \<longleftrightarrow> (\<exists>ident. ov_row ov t ident = Some r)"
proof -
  obtain spec where spec: "catalog_get (ov_catalog ov) t = Some spec"
    using assms(2) by (auto simp: ov_rows_def split: option.splits)
  have "catalog_wf (ov_catalog ov)" and d: "distinct (map fst (ov_map ov))"
    using assms(1) by (simp_all add: overlay_wf_iff)
  have mem: "ov_row ov t ident = Some r \<longleftrightarrow> ((t, ident), r) \<in> set (ov_map ov)" for ident r
    using d by (simp add: ov_row_def)
  have "(t, spec) \<in> set (ct_by_name (ov_catalog ov))"
    using spec by (auto simp: catalog_get_def dest: map_of_SomeD)
  then have "es_primary_key spec \<in> set (field_names spec)"
    using \<open>catalog_wf _\<close> by (fastforce simp: catalog_wf_def)
  then have key: "has_key r (es_primary_key spec)" if "ov_row ov t ident = Some r" for ident r
    using overlay_wf_row(1) [OF assms(1) that spec] fld_lookup [of "es_primary_key spec" r]
    by (auto simp: has_key_def)
  have "set rows = snd ` {p \<in> set (ov_map ov). fst (fst p) = t \<and> has_key (snd p) (es_primary_key spec)}"
    using assms(2) spec unfolding ov_rows_def by (auto simp: split_beta image_iff)
  then have "r \<in> set rows \<longleftrightarrow>
      (\<exists>ident. ((t, ident), r) \<in> set (ov_map ov) \<and> has_key r (es_primary_key spec))"
    by (simp add: image_iff Bex_def)
  then show ?thesis using mem key by blast
qed

text \<open>The rows of a table are different, since each determines its identity.\<close>

lemma ov_rows_distinct:
  assumes "overlay_wf ov" "ov_rows ov t = Inr rows"
  shows "distinct rows"
proof -
  obtain spec where spec: "catalog_get (ov_catalog ov) t = Some spec"
    using assms(2) by (auto simp: ov_rows_def split: option.splits)
  let ?f = "\<lambda>((kind, ident), _ :: row). (kind, identity_text ident)"
    and ?P = "\<lambda>((kind, _), r :: row). kind = t \<and> has_key r (es_primary_key spec)"
  have rows: "rows = map snd (filter ?P (sort_key ?f (ov_map ov)))"
    using assms(2) by (auto simp: ov_rows_def spec)
  have d: "distinct (map fst (ov_map ov))" using assms(1) by (simp add: overlay_wf_def)
  have "distinct (sort_key ?f (ov_map ov))" using d by (simp add: distinct_map)
  moreover have "inj_on snd (set (filter ?P (sort_key ?f (ov_map ov))))"
  proof (rule inj_onI)
    fix x y assume *: "x \<in> set (filter ?P (sort_key ?f (ov_map ov)))" "y \<in> set (filter ?P (sort_key ?f (ov_map ov)))"
      "snd x = snd y"
    have z: "fst (fst z) = t \<and> z \<in> set (ov_map ov)" if "z \<in> set (filter ?P (sort_key ?f (ov_map ov)))" for z
      using that by auto
    have "row_shape (ov_catalog ov) t (snd (fst z)) (snd z)" if "z \<in> set (filter ?P (sort_key ?f (ov_map ov)))" for z
      using z [OF that] assms(1) unfolding overlay_wf_def by (cases z) auto
    from this [OF *(1)] this [OF *(2)] *(3) have "snd (fst x) = snd (fst y)" by (auto simp: row_shape_def)
    then show "x = y" using z [OF *(1)] z [OF *(2)] *(3) by (simp add: prod_eq_iff)
  qed
  ultimately show ?thesis unfolding rows by (simp add: distinct_map)
qed

text \<open>The built-in catalog is what the Task Space commands run against.\<close>

definition builtin_space :: "overlay \<Rightarrow> bool" where
  "builtin_space ov = (overlay_wf ov \<and>
     (\<forall>s \<in> set builtin_specs. catalog_get (ov_catalog ov) (es_name s) = Some s))"

lemma builtin_space_get:
  assumes "builtin_space ov"
  shows "catalog_get (ov_catalog ov) ''work_item'' = Some work_item_spec"
    "catalog_get (ov_catalog ov) ''project'' = Some project_spec"
    "catalog_get (ov_catalog ov) ''relation'' = Some relation_spec"
    "catalog_get (ov_catalog ov) ''label'' = Some label_spec"
    "catalog_get (ov_catalog ov) ''work_item_label'' = Some work_item_label_spec"
    "catalog_get (ov_catalog ov) ''work_item_note'' = Some work_item_note_spec"
    "catalog_get (ov_catalog ov) ''status_definition'' = Some status_definition_spec"
proof -
  have *: "s \<in> set builtin_specs \<Longrightarrow> catalog_get (ov_catalog ov) (es_name s) = Some s" for s
    using assms by (simp add: builtin_space_def)
  show "catalog_get (ov_catalog ov) ''work_item'' = Some work_item_spec"
    "catalog_get (ov_catalog ov) ''project'' = Some project_spec"
    "catalog_get (ov_catalog ov) ''relation'' = Some relation_spec"
    "catalog_get (ov_catalog ov) ''label'' = Some label_spec"
    "catalog_get (ov_catalog ov) ''work_item_label'' = Some work_item_label_spec"
    "catalog_get (ov_catalog ov) ''work_item_note'' = Some work_item_note_spec"
    "catalog_get (ov_catalog ov) ''status_definition'' = Some status_definition_spec"
    using * [of work_item_spec] * [of project_spec] * [of relation_spec] * [of label_spec]
      * [of work_item_label_spec] * [of work_item_note_spec] * [of status_definition_spec]
    by (simp_all add: builtin_specs_def)
qed

section \<open>The tree invariant\<close>

text \<open>
  \<open>at_depth ov pid p n\<close>: following \<open>parent_id\<close> from the pointer \<open>p\<close> visits exactly \<open>n\<close> rows, all of the
  project \<open>pid\<close>, and ends at a root.
\<close>

inductive at_depth :: "overlay \<Rightarrow> string \<Rightarrow> json \<Rightarrow> nat \<Rightarrow> bool" for ov pid where
  root: "at_depth ov pid JNull 0"
| child: "ov_row ov ''work_item'' [JStr i] = Some r \<Longrightarrow> fld r ''project_id'' = JStr pid \<Longrightarrow>
    at_depth ov pid (fld r ''parent_id'') n \<Longrightarrow> at_depth ov pid (JStr i) (Suc n)"

inductive_cases at_depth_JNull: "at_depth ov pid JNull n"
inductive_cases at_depth_JStr: "at_depth ov pid (JStr i) n"
inductive_simps at_depth_simps: "at_depth ov pid JNull n" "at_depth ov pid (JStr i) n"

definition MAX_DEPTH :: nat where
  "MAX_DEPTH = 3"

text \<open>What the columns of a work item hold, as far as the tree depends on them.\<close>

definition work_item_ok :: "row \<Rightarrow> bool" where
  "work_item_ok r = (\<exists>i pid v. fld r ''id'' = JStr i \<and> fld r ''project_id'' = JStr pid \<and>
     fld r ''version'' = JInt v)"

definition tree_ok :: "overlay \<Rightarrow> bool" where
  "tree_ok ov = (\<forall>ident r. ov_row ov ''work_item'' ident = Some r \<longrightarrow>
     work_item_ok r \<and>
     (\<exists>d \<le> MAX_DEPTH. at_depth ov (str_of (fld r ''project_id'')) (JStr (id_of r)) d))"

lemma at_depth_unique: "at_depth ov pid p n \<Longrightarrow> at_depth ov pid' p m \<Longrightarrow> n = m"
proof (induction arbitrary: m pid' rule: at_depth.induct)
  case root
  then show ?case by (auto elim: at_depth_JNull)
next
  case (child i r n)
  from child.prems show ?case
    by (cases rule: at_depth.cases) (use child in auto)
qed

lemma at_depth_project:
  "at_depth ov pid (JStr i) n \<Longrightarrow> ov_row ov ''work_item'' [JStr i] = Some r \<Longrightarrow>
    fld r ''project_id'' = JStr pid \<and> at_depth ov pid (fld r ''parent_id'') (n - 1) \<and> 0 < n"
  by (erule at_depth_JStr) auto

text \<open>On a path to a root the climb counts the rows, whatever it has visited further down.\<close>

lemma climb_at_depth:
  assumes "at_depth ov pid p n"
    "\<And>v. v \<in> set visited \<Longrightarrow> \<exists>m > n. at_depth ov pid v m"
  shows "climb ov pid visited depth p = Inr (depth + n)"
  using assms
proof (induction arbitrary: visited depth rule: at_depth.induct)
  case root
  show ?case by (simp add: climb.simps)
next
  case (child i r n)
  have here: "at_depth ov pid (JStr i) (Suc n)" using child(1-3) by (rule at_depth.child)
  have "JStr i \<notin> set visited" using child.prems at_depth_unique [OF here] by fastforce
  moreover have "climb ov pid (JStr i # visited) (depth + 1) (fld r ''parent_id'') = Inr (depth + 1 + n)"
  proof (rule child.IH)
    fix v
    assume "v \<in> set (JStr i # visited)"
    then show "\<exists>m > n. at_depth ov pid v m"
      using here child.prems by (auto dest: Suc_lessD)
  qed
  ultimately show ?case using child(1,2) by (simp add: climb.simps [of ov pid visited] require_row_def)
qed

lemma parent_depth_at_depth: "at_depth ov pid p n \<Longrightarrow> parent_depth ov p pid = Inr n"
  unfolding parent_depth_def by (drule climb_at_depth [where visited = "[]" and depth = 0]) simp_all

lemma climb_Inr:
  assumes "climb ov pid visited depth p = Inr n"
    "\<And>i r. ov_row ov ''work_item'' [i] = Some r \<Longrightarrow> \<exists>s. i = JStr s"
  shows "\<exists>k. n = depth + k \<and> at_depth ov pid p k"
  using assms
proof (induction ov pid visited depth p rule: climb.induct)
  case (1 ov pid visited depth current)
  show ?case
  proof (cases "current = JNull")
    case True
    then show ?thesis using "1.prems"(1) by (auto simp: climb.simps at_depth.root)
  next
    case False
    then have "current \<notin> set visited" using "1.prems"(1) by (auto simp: climb.simps split: if_splits)
    with False "1.prems"(1) obtain r where r: "ov_row ov ''work_item'' [current] = Some r"
      "fld r ''project_id'' = JStr pid"
      "climb ov pid (current # visited) (depth + 1) (fld r ''parent_id'') = Inr n"
      by (subst (asm) climb.simps) (auto simp: result_simps split: if_splits)
    obtain k where "n = depth + 1 + k" "at_depth ov pid (fld r ''parent_id'') k"
      using "1.IH" [of r] False \<open>current \<notin> set visited\<close> r "1.prems"(2) by (auto simp: require_row_Inr)
    moreover obtain s where "current = JStr s" using "1.prems"(2) r(1) by blast
    ultimately show ?thesis using r by (auto intro: at_depth.child)
  qed
qed

lemma parent_depth_Inr:
  assumes "parent_depth ov p pid = Inr n" "tree_ok ov" "builtin_space ov"
  shows "at_depth ov pid p n"
proof -
  have "\<exists>s. i = JStr s" if "ov_row ov ''work_item'' [i] = Some r" for i r
  proof -
    have "[i] = pk_values work_item_spec r"
      using assms(3) that builtin_space_get(1) overlay_wf_row(2) by (fastforce simp: builtin_space_def)
    moreover have "work_item_ok r" using assms(2) that by (simp add: tree_ok_def)
    ultimately show ?thesis by (auto simp: pk_values_def pk_field_set_def work_item_ok_def)
  qed
  then show ?thesis using climb_Inr [OF assms(1) [unfolded parent_depth_def]] by auto
qed

section \<open>Subtrees\<close>

text \<open>\<open>below ov x y k\<close>: the item \<open>y\<close> is reached from \<open>x\<close> by going down \<open>k\<close> levels.\<close>

inductive below :: "overlay \<Rightarrow> json \<Rightarrow> json \<Rightarrow> nat \<Rightarrow> bool" for ov x where
  self: "below ov x x 0"
| down: "ov_row ov ''work_item'' [JStr i] = Some r \<Longrightarrow> below ov x (fld r ''parent_id'') k \<Longrightarrow>
    below ov x (JStr i) (Suc k)"

inductive_cases below_Suc: "below ov x y (Suc k)"

lemma below_zero: "below ov x y 0 \<longleftrightarrow> x = y"
  by (auto intro: below.self elim: below.cases)

lemma below_trans: "below ov y z j \<Longrightarrow> below ov x y k \<Longrightarrow> below ov x z (k + j)"
  by (induction rule: below.induct) (auto intro: below.down)

lemma below_top:
  "below ov x y (Suc k) \<longleftrightarrow>
     (\<exists>i r. ov_row ov ''work_item'' [JStr i] = Some r \<and> fld r ''parent_id'' = x \<and> below ov (JStr i) y k)"
proof
  show "below ov x y (Suc k) \<Longrightarrow>
      \<exists>i r. ov_row ov ''work_item'' [JStr i] = Some r \<and> fld r ''parent_id'' = x \<and> below ov (JStr i) y k"
  proof (induction k arbitrary: y)
    case 0
    then show ?case by (auto elim!: below_Suc simp: below_zero)
  next
    case (Suc k)
    from Suc.prems show ?case
    proof (cases rule: below.cases)
      case (down i r)
      from Suc.IH [OF down(3)] down(1,2) show ?thesis by (blast intro: below.down)
    qed
  qed
next
  assume "\<exists>i r. ov_row ov ''work_item'' [JStr i] = Some r \<and> fld r ''parent_id'' = x \<and> below ov (JStr i) y k"
  then obtain i r where i: "ov_row ov ''work_item'' [JStr i] = Some r" "fld r ''parent_id'' = x"
    "below ov (JStr i) y k" by blast
  have "below ov x (JStr i) (Suc 0)" using i(1,2) by (auto intro: below.intros)
  from below_trans [OF i(3) this] show "below ov x y (Suc k)" by simp
qed

lemma below_depth:
  "below ov x y k \<Longrightarrow> at_depth ov pid y n \<Longrightarrow> \<exists>m. n = m + k \<and> at_depth ov pid x m"
proof (induction arbitrary: n rule: below.induct)
  case (down i r k)
  from down.prems obtain m where "n = Suc m" "at_depth ov pid (fld r ''parent_id'') m"
    using down.hyps(1) by (auto elim: at_depth_JStr)
  with down.IH show ?case by fastforce
qed auto

text \<open>The rows of the work items, by identity.\<close>

definition listed :: "overlay \<Rightarrow> row list \<Rightarrow> bool" where
  "listed ov rows = ((\<forall>r. r \<in> set rows \<longleftrightarrow> ov_row ov ''work_item'' [JStr (id_of r)] = Some r) \<and>
     (\<forall>i r. ov_row ov ''work_item'' [JStr i] = Some r \<longrightarrow> id_of r = i))"

lemma work_item_identity:
  assumes "builtin_space ov" "ov_row ov ''work_item'' ident = Some r" "work_item_ok r"
  shows "fld r ''id'' = JStr (id_of r)" "ident = [JStr (id_of r)]"
proof -
  have "ident = pk_values work_item_spec r"
    using overlay_wf_row(2) [OF _ assms(2) builtin_space_get(1)] assms(1) by (simp add: builtin_space_def)
  moreover show "fld r ''id'' = JStr (id_of r)" using assms(3) by (auto simp: work_item_ok_def id_of_def)
  ultimately show "ident = [JStr (id_of r)]" by (simp add: pk_values_def pk_field_set_def)
qed

lemma tree_ok_row:
  assumes "tree_ok ov" "ov_row ov ''work_item'' ident = Some r"
  shows "work_item_ok r" "\<exists>d \<le> MAX_DEPTH. at_depth ov (str_of (fld r ''project_id'')) (JStr (id_of r)) d"
  using assms by (auto simp: tree_ok_def)

lemma tree_listed:
  assumes "builtin_space ov" "tree_ok ov"
  shows "\<exists>rows. ov_rows ov ''work_item'' = Inr rows \<and> listed ov rows"
proof -
  obtain rows where rows: "ov_rows ov ''work_item'' = Inr rows"
    using ov_rows_Inr builtin_space_get(1) [OF assms(1)] by blast
  have id: "ident = [JStr (id_of r)]" if "ov_row ov ''work_item'' ident = Some r" for ident r
    using work_item_identity(2) [OF assms(1) that] tree_ok_row(1) [OF assms(2) that] by blast
  have "overlay_wf ov" using assms(1) by (simp add: builtin_space_def)
  from ov_rows_iff [OF this rows] id have "listed ov rows" unfolding listed_def by fastforce
  with rows show ?thesis by blast
qed

text \<open>The descendants of an item within \<open>k\<close> levels, in the order the loop finds them.\<close>

primrec dfs :: "nat \<Rightarrow> row list \<Rightarrow> string \<Rightarrow> row list" where
  "dfs 0 rows x = []"
| "dfs (Suc k) rows x =
     children_of rows x @ concat (map (\<lambda>r. dfs k rows (id_of r)) (rev (children_of rows x)))"

primrec shallow :: "nat \<Rightarrow> row list \<Rightarrow> string \<Rightarrow> bool" where
  "shallow 0 rows x = (children_of rows x = [])"
| "shallow (Suc k) rows x = (\<forall>r \<in> set (children_of rows x). shallow k rows (id_of r))"

lemma descend_shallow:
  "shallow k rows x \<Longrightarrow> descend rows (frontier @ [x]) out = descend rows frontier (out @ dfs k rows x)"
proof (induction k arbitrary: x frontier out)
  case 0
  then show ?case by (subst descend.simps) (simp add: Let_def)
next
  case (Suc k)
  have "descend rows (frontier @ map id_of cs) out =
      descend rows frontier (out @ concat (map (\<lambda>r. dfs k rows (id_of r)) (rev cs)))"
    if "\<forall>r \<in> set cs. shallow k rows (id_of r)" for cs out
    using that
  proof (induction cs arbitrary: out rule: rev_induct)
    case (snoc c cs)
    then show ?case using Suc.IH [of "id_of c" "frontier @ map id_of cs"] by simp
  qed simp
  with Suc.prems show ?case by (subst descend.simps) (simp add: Let_def)
qed

lemma descend_total: "shallow k rows x \<Longrightarrow> descend rows [x] [] = Some (dfs k rows x)"
  using descend_shallow [of k rows x "[]" "[]"] by (simp add: descend.simps [of rows "[]"])

lemma set_children: "listed ov rows \<Longrightarrow> r \<in> set (children_of rows x) \<longleftrightarrow>
    ov_row ov ''work_item'' [JStr (id_of r)] = Some r \<and> fld r ''parent_id'' = JStr x"
  by (auto simp: children_of_def listed_def)

lemma below_children:
  assumes "listed ov rows"
  shows "below ov (JStr x) y (Suc k) \<longleftrightarrow> (\<exists>r \<in> set (children_of rows x). below ov (JStr (id_of r)) y k)"
  unfolding below_top set_children [OF assms] Bex_def using assms unfolding listed_def by blast

lemma set_dfs:
  assumes "listed ov rows"
  shows "r \<in> set (dfs k rows x) \<longleftrightarrow> r \<in> set rows \<and> (\<exists>j < k. below ov (JStr x) (fld r ''parent_id'') j)"
proof (induction k arbitrary: x)
  case (Suc k)
  have "r \<in> set (dfs (Suc k) rows x) \<longleftrightarrow> r \<in> set (children_of rows x) \<or>
      (\<exists>c \<in> set (children_of rows x). r \<in> set (dfs k rows (id_of c)))" by auto
  also have "\<dots> \<longleftrightarrow> r \<in> set rows \<and> (below ov (JStr x) (fld r ''parent_id'') 0 \<or>
      (\<exists>j < k. below ov (JStr x) (fld r ''parent_id'') (Suc j)))"
    unfolding Suc.IH below_children [OF assms] by (auto simp: children_of_def below_zero)
  also have "\<dots> \<longleftrightarrow> r \<in> set rows \<and> (\<exists>j < Suc k. below ov (JStr x) (fld r ''parent_id'') j)"
    by (auto simp: less_Suc_eq_0_disj)
  finally show ?case .
qed simp

lemma not_shallow:
  assumes "listed ov rows"
  shows "\<not> shallow k rows x \<Longrightarrow> \<exists>y. below ov (JStr x) (JStr y) (Suc k)"
proof (induction k arbitrary: x)
  case 0
  then obtain r where "r \<in> set (children_of rows x)" by (cases "children_of rows x") auto
  then show ?case using below_children [OF assms, of x "JStr (id_of r)" 0] below.self by blast
next
  case (Suc k)
  then obtain r where r: "r \<in> set (children_of rows x)" "\<not> shallow k rows (id_of r)" by auto
  from Suc.IH [OF r(2)] obtain y where "below ov (JStr (id_of r)) (JStr y) (Suc k)" ..
  with r(1) show ?case using below_children [OF assms, of x "JStr y" "Suc k"] by blast
qed

text \<open>On a tree the loops end: no item lies more than three levels below another.\<close>

lemma below_in_tree:
  assumes "builtin_space ov" "tree_ok ov" "below ov x (JStr y) (Suc k)"
  shows "\<exists>pid d m. at_depth ov pid (JStr y) d \<and> at_depth ov pid x m \<and> d = m + Suc k \<and> d \<le> MAX_DEPTH"
proof -
  from assms(3) obtain r where r: "ov_row ov ''work_item'' [JStr y] = Some r" by (auto elim: below_Suc)
  have y: "id_of r = y"
    using work_item_identity(2) [OF assms(1) r tree_ok_row(1) [OF assms(2) r]] by simp
  obtain d where d: "d \<le> MAX_DEPTH" "at_depth ov (str_of (fld r ''project_id'')) (JStr y) d"
    using tree_ok_row(2) [OF assms(2) r] y by auto
  with below_depth [OF assms(3)] show ?thesis by blast
qed

lemma tree_shallow:
  assumes "builtin_space ov" "tree_ok ov" "listed ov rows"
  shows "shallow MAX_DEPTH rows x"
proof (rule ccontr)
  assume "\<not> shallow MAX_DEPTH rows x"
  then obtain y where "below ov (JStr x) (JStr y) (Suc MAX_DEPTH)" using not_shallow [OF assms(3)] by blast
  with below_in_tree [OF assms(1,2)] show False by fastforce
qed

lemma descendants_tree:
  assumes "builtin_space ov" "tree_ok ov"
  shows "\<exists>ds. descendants ov x = Inr ds \<and>
    (\<forall>r. r \<in> set ds \<longleftrightarrow> ov_row ov ''work_item'' [JStr (id_of r)] = Some r \<and>
       (\<exists>k. below ov (JStr x) (JStr (id_of r)) (Suc k)))"
proof -
  obtain rows where rows: "ov_rows ov ''work_item'' = Inr rows" and l: "listed ov rows"
    using tree_listed [OF assms] by blast
  let ?ds = "dfs MAX_DEPTH rows x"
  have "descendants ov x = Inr ?ds"
    using descend_total [OF tree_shallow [OF assms l]] by (simp add: descendants_def rows)
  moreover have "r \<in> set ?ds \<longleftrightarrow> ov_row ov ''work_item'' [JStr (id_of r)] = Some r \<and>
       (\<exists>k. below ov (JStr x) (JStr (id_of r)) (Suc k))" for r
  proof
    assume "r \<in> set ?ds"
    then have "ov_row ov ''work_item'' [JStr (id_of r)] = Some r" "\<exists>k. below ov (JStr x) (fld r ''parent_id'') k"
      using set_dfs [OF l] l [unfolded listed_def] by blast+
    then show "ov_row ov ''work_item'' [JStr (id_of r)] = Some r \<and>
       (\<exists>k. below ov (JStr x) (JStr (id_of r)) (Suc k))" by (blast intro: below.down)
  next
    assume r: "ov_row ov ''work_item'' [JStr (id_of r)] = Some r \<and>
       (\<exists>k. below ov (JStr x) (JStr (id_of r)) (Suc k))"
    then obtain k where k: "below ov (JStr x) (JStr (id_of r)) (Suc k)" by blast
    then have "below ov (JStr x) (fld r ''parent_id'') k" using r by (auto elim: below_Suc)
    moreover have "k < MAX_DEPTH" using below_in_tree [OF assms k] by auto
    ultimately show "r \<in> set ?ds" using r set_dfs [OF l] l [unfolded listed_def] by blast
  qed
  ultimately show ?thesis by blast
qed

lemma chain_depth_below:
  assumes "below ov (JStr x) y j" "map_of m x = None"
    "\<And>i r k. ov_row ov ''work_item'' [JStr i] = Some r \<Longrightarrow> below ov (JStr x) (JStr i) (Suc k) \<Longrightarrow>
      map_of m i = Some (fld r ''parent_id'')"
  shows "chain_depth m d y = Some (d + j)"
  using assms(1)
proof (induction arbitrary: d rule: below.induct)
  case self
  show ?case using assms(2) by (simp add: chain_depth.simps [of m])
next
  case (down i r k)
  have "map_of m i = Some (fld r ''parent_id'')"
    using assms(3) [OF down(1)] down(1,2) by (blast intro: below.down)
  then show ?case using down.IH [of "Suc d"] by (simp add: chain_depth.simps [of m d "JStr i"])
qed

lemma fold_max_ge: "y = a \<or> y \<in> set xs \<Longrightarrow> y \<le> fold max xs (a :: nat)"
proof (induction xs arbitrary: a y)
  case (Cons x xs)
  then show ?case using Cons.IH [of "max x a" "max x a"] Cons.IH [of y "max x a"] by auto
qed simp

lemma fold_max_in: "fold max xs (a :: nat) = a \<or> fold max xs a \<in> set xs"
proof (induction xs arbitrary: a)
  case (Cons x xs)
  then show ?case using Cons.IH [of "max x a"] by (auto simp: max_def)
qed simp

lemma rmap_returns:
  "\<forall>x \<in> set xs. \<exists>y. f x = Some y \<Longrightarrow> rmap (\<lambda>x. returns (f x)) xs = Inr (map (\<lambda>x. the (f x)) xs)"
  by (induction xs) auto

text \<open>What the list of descendants of \<open>x\<close> holds, and the distances read off it.\<close>

definition descendants_are :: "overlay \<Rightarrow> string \<Rightarrow> row list \<Rightarrow> bool" where
  "descendants_are ov x ds = (\<forall>r. r \<in> set ds \<longleftrightarrow> ov_row ov ''work_item'' [JStr (id_of r)] = Some r \<and>
     (\<exists>k. below ov (JStr x) (JStr (id_of r)) (Suc k)))"

lemma descendant_below:
  assumes "builtin_space ov" "tree_ok ov" "descendants_are ov x ds" "below ov (JStr x) (JStr i) (Suc k)"
  shows "\<exists>r \<in> set ds. id_of r = i \<and> ov_row ov ''work_item'' [JStr i] = Some r \<and>
    below ov (JStr x) (fld r ''parent_id'') k"
  using assms(4)
proof (cases rule: below.cases)
  case (down r)
  then have "id_of r = i" using tree_listed [OF assms(1,2)] by (auto simp: listed_def)
  with down assms(3,4) show ?thesis unfolding descendants_are_def by blast
qed

lemma descendant_parent:
  assumes "descendants_are ov x ds" "r \<in> set ds"
  shows "\<exists>k. below ov (JStr x) (fld r ''parent_id'') k"
proof -
  from assms obtain k where k: "below ov (JStr x) (JStr (id_of r)) (Suc k)"
    "ov_row ov ''work_item'' [JStr (id_of r)] = Some r" unfolding descendants_are_def by blast
  from k(1) show ?thesis by (cases rule: below.cases) (use k(2) in auto)
qed

lemma chain_depth_descendants:
  assumes "builtin_space ov" "tree_ok ov" "descendants_are ov x ds"
    "below ov (JStr x) (fld r ''parent_id'') k"
  shows "chain_depth (rev (map (\<lambda>r. (id_of r, fld r ''parent_id'')) ds)) 2 (fld r ''parent_id'') = Some (2 + k)"
proof (rule chain_depth_below [OF assms(4)])
  let ?m = "rev (map (\<lambda>r. (id_of r, fld r ''parent_id'')) ds)"
  have m_Some: "\<exists>r \<in> set ds. id_of r = i \<and> v = fld r ''parent_id''" if "map_of ?m i = Some v" for i v
    using map_of_SomeD [OF that] by auto
  show "map_of ?m i = Some (fld r ''parent_id'')"
    if "ov_row ov ''work_item'' [JStr i] = Some r" "below ov (JStr x) (JStr i) (Suc k)" for i r k
  proof -
    have "map_of ?m i \<noteq> None"
      using descendant_below [OF assms(1-3) that(2)] by (auto simp: map_of_eq_None_iff image_image)
    then show ?thesis using m_Some that(1) assms(3) unfolding descendants_are_def by fastforce
  qed
  show "map_of ?m x = None"
  proof (rule ccontr)
    assume "map_of ?m x \<noteq> None"
    then obtain k where "below ov (JStr x) (JStr x) (Suc k)"
      using m_Some assms(3) unfolding descendants_are_def by blast
    from below_in_tree [OF assms(1,2) this] show False using at_depth_unique by fastforce
  qed
qed

text \<open>The subtree depth of an item is one more than its greatest distance to an item below it.\<close>

lemma subtree_relative_depth_tree:
  assumes "builtin_space ov" "tree_ok ov"
  shows "\<exists>h. subtree_relative_depth ov x = Inr h \<and>
    (\<forall>y k. below ov (JStr x) y k \<longrightarrow> k < h) \<and> (\<exists>y k. below ov (JStr x) y k \<and> h = Suc k)"
proof -
  obtain ds where ds: "descendants ov x = Inr ds" "descendants_are ov x ds"
    using descendants_tree [OF assms] unfolding descendants_are_def by blast
  let ?m = "rev (map (\<lambda>r. (id_of r, fld r ''parent_id'')) ds)"
  note chain = chain_depth_descendants [OF assms ds(2)]
  define depths where "depths = map (\<lambda>r. the (chain_depth ?m 2 (fld r ''parent_id''))) ds"
  have "rmap (\<lambda>r. returns (chain_depth ?m 2 (fld r ''parent_id''))) ds = Inr depths"
    unfolding depths_def using descendant_parent [OF ds(2)] chain by (intro rmap_returns) blast
  then have h: "subtree_relative_depth ov x = Inr (fold max depths 1)"
    using ds(1) by (cases "ds = []") (simp_all add: subtree_relative_depth_def Let_def depths_def)
  have upper: "k < fold max depths 1" if "below ov (JStr x) y k" for y k
  proof (cases k)
    case 0
    then show ?thesis using fold_max_ge [of 1 1 depths] by simp
  next
    case (Suc j)
    then have y: "below ov (JStr x) y (Suc j)" using that by simp
    then obtain i where "y = JStr i" by (auto elim: below_Suc)
    with y obtain r where "r \<in> set ds" "below ov (JStr x) (fld r ''parent_id'') j"
      using descendant_below [OF assms ds(2)] by blast
    then have "2 + j \<in> set depths" using chain by (force simp: depths_def)
    then show ?thesis using fold_max_ge [of "2 + j" 1 depths] Suc by simp
  qed
  have "\<exists>y k. below ov (JStr x) y k \<and> fold max depths 1 = Suc k"
    using fold_max_in [of depths 1]
  proof
    assume "fold max depths 1 \<in> set depths"
    then obtain r where r: "r \<in> set ds" "fold max depths 1 = the (chain_depth ?m 2 (fld r ''parent_id''))"
      by (auto simp: depths_def)
    with descendant_parent [OF ds(2)] obtain k where k: "below ov (JStr x) (fld r ''parent_id'') k" by blast
    then have "below ov (JStr x) (JStr (id_of r)) (Suc k)"
      using r(1) ds(2) unfolding descendants_are_def by (blast intro: below.down)
    with r(2) chain [OF k] show ?thesis by fastforce
  qed (use below.self in fastforce)
  with h upper show ?thesis by blast
qed

end
