(* ===== verification/RowCommands.thy ===== *)
theory RowCommands
  imports WorkItemTree
begin

text \<open>
  Commands that write one row of a table keyed by \<open>id\<close>: the stamped row of an update, and what the
  insertion, the update and the removal of one row do to the Space. The commands on work items,
  relations, labels and notes rest on these facts.
\<close>

text \<open>The update stamp and version every change of a work item writes last.\<close>

definition stamped :: "row \<Rightarrow> (string \<times> json) list \<Rightarrow> string \<Rightarrow> row" where
  "stamped item changes now = updates item
     (changes @ [(''updated_at'', JStr now), (''version'', JInt (int_of (fld item ''version'') + 1))])"

section \<open>Reading rows that were changed\<close>

lemma fld_updates: "fld (updates r kvs) k = (case map_of (rev kvs) k of None \<Rightarrow> fld r k | Some v \<Rightarrow> v)"
  by (simp add: fld_def fmlookup_updates split: option.split)

lemma fld_stamped: "fld (stamped item changes now) k =
    (if k = ''version'' then JInt (int_of (fld item ''version'') + 1)
     else if k = ''updated_at'' then JStr now
     else case map_of (rev changes) k of None \<Rightarrow> fld item k | Some v \<Rightarrow> v)"
  by (simp add: stamped_def fld_updates)

lemma fmdom_stamped: "fst ` set changes \<subseteq> fmdom' item \<Longrightarrow> ''updated_at'' \<in> fmdom' item \<Longrightarrow>
    ''version'' \<in> fmdom' item \<Longrightarrow> fmdom' (stamped item changes now) = fmdom' item"
  by (auto simp: stamped_def fmdom_updates)

lemma row_ok_stamped: "row_ok item \<Longrightarrow> \<forall>(k, v) \<in> set changes. distinct_keys v \<Longrightarrow>
    row_ok (stamped item changes now)"
  unfolding stamped_def by (rule row_ok_updates) auto

lemma require_expected_version_Inr [result_simps]:
  "require_expected_version item expected = Inr u \<longleftrightarrow> expected = Some (int_of (fld item ''version''))"
  by (simp add: require_expected_version_def result_simps)

lemma builtin_space_with_row:
  assumes "builtin_space ov" "overlay_wf (with_row ov t ident r)"
  shows "builtin_space (with_row ov t ident r)"
  using assms by (simp add: builtin_space_def)

section \<open>Tables keyed by \<open>id\<close>\<close>

definition id_keyed :: "entity_spec \<Rightarrow> bool" where
  "id_keyed spec = (pk_field_set spec = [''id''] \<and> ''id'' \<in> set (field_names spec) \<and>
     ''version'' \<in> set (field_names spec) \<and> ''updated_at'' \<in> set (field_names spec))"

lemma id_keyed_specs:
  "id_keyed work_item_spec" "id_keyed project_spec" "id_keyed relation_spec" "id_keyed label_spec"
  "id_keyed work_item_note_spec" "id_keyed status_definition_spec"
  by (simp_all add: id_keyed_def pk_field_set_def field_names_builtin)

lemmas work_item_keys = id_keyed_specs(1)
lemmas project_keys = id_keyed_specs(2)
lemmas relation_keys = id_keyed_specs(3)
lemmas label_keys = id_keyed_specs(4)
lemmas note_keys = id_keyed_specs(5)

lemma tables:
  "''work_items'' = es_table_name work_item_spec" "''projects'' = es_table_name project_spec"
  "''relations'' = es_table_name relation_spec" "''labels'' = es_table_name label_spec"
  "''work_item_notes'' = es_table_name work_item_note_spec"
  by simp_all

lemma table_row:
  assumes "builtin_space ov" "catalog_get (ov_catalog ov) t = Some spec" "id_keyed spec" "ov_row ov t ident = Some r"
  shows "fmdom' r = set (field_names spec)" "ident = [fld r ''id'']" "row_ok r"
proof -
  have wf: "overlay_wf ov" using assms(1) by (simp add: builtin_space_def)
  note row = overlay_wf_row [OF wf assms(4,2)]
  show "fmdom' r = set (field_names spec)" "row_ok r" using row by simp_all
  show "ident = [fld r ''id'']" using row(2) assms(3) by (simp add: pk_values_def id_keyed_def)
qed

lemma update_command:
  assumes "builtin_space (cx_overlay cx)" "catalog_get (ov_catalog (cx_overlay cx)) t = Some spec" "id_keyed spec" "table = es_table_name spec"
    "ov_row (cx_overlay cx) t [i] = Some before" "fld before ''version'' = JInt v"
    "DbMutationPlan table (dict [(''id'', i)]) Update (Some (int_of (fld before ''version'')))
       (Some before) (Some after) = Inr plan"
    "SyncEventPlan et ei act payload ver ts = Inr event" "act \<noteq> EvDelete"
    "cx_command cx rq [plan] [event] post None = Inr c"
    "fmdom' after = fmdom' before" "fld after ''id'' = fld before ''id''" "row_ok after"
  shows "ov_apply (cx_overlay cx) c = Inr (with_row (cx_overlay cx) t [i] after)"
    "builtin_space (with_row (cx_overlay cx) t [i] after)"
proof -
  let ?ov = "cx_overlay cx"
  have wf: "overlay_wf ?ov" using assms(1) by (simp add: builtin_space_def)
  note row = table_row [OF assms(1-3,5)]
  have k: "pk_field_set spec = [''id'']" using assms(3) by (simp add: id_keyed_def)
  have p: "plan = \<lparr>pl_table = es_table_name spec, pl_pk = dict [(''id'', i)], pl_op = Update,
      pl_expected = Some (int_of (fld before ''version'')), pl_before = Some before, pl_after = Some after\<rparr>"
    using assms(7) by (simp add: DbMutationPlan_Inr assms(4))
  have "version_is before (pl_expected plan)"
    using assms(3,6) row(1) by (simp add: version_is_def p get_fld id_keyed_def)
  moreover have "row_shape (ov_catalog ?ov) t (pk_values spec (pl_pk plan)) after"
    using assms(2,11-13) row(1,2) k by (simp add: row_shape_def pk_values_def p dict_single)
  ultimately have "apply_plan ?ov plan = Inr (with_row ?ov t [i] after)"
    and wf': "overlay_wf (with_row ?ov t [i] after)"
    using apply_update [OF wf assms(2), of plan before after] assms(5) k
    by (simp_all add: p pk_values_def dict_single)
  moreover have "ev_action event \<noteq> EvDelete" using SyncEventPlan_Inr [OF assms(8)] assms(9) by simp
  ultimately show "ov_apply ?ov c = Inr (with_row ?ov t [i] after)"
    using cx_command_Inr [OF assms(10)] by (simp add: ov_apply_def apply_event_def)
  show "builtin_space (with_row ?ov t [i] after)" using builtin_space_with_row [OF assms(1) wf'] .
qed

lemma insert_command:
  assumes "builtin_space (cx_overlay cx)" "catalog_get (ov_catalog (cx_overlay cx)) t = Some spec" "id_keyed spec" "table = es_table_name spec"
    "ov_row (cx_overlay cx) t [i] = None"
    "DbMutationPlan table (dict [(''id'', i)]) Insert None None (Some after) = Inr plan"
    "SyncEventPlan et ei act payload ver ts = Inr event" "act \<noteq> EvDelete"
    "cx_command cx rq [plan] [event] post None = Inr c"
    "fmdom' after = set (field_names spec)" "fld after ''id'' = i" "row_ok after"
  shows "ov_apply (cx_overlay cx) c = Inr (with_row (cx_overlay cx) t [i] after)"
    "builtin_space (with_row (cx_overlay cx) t [i] after)"
proof -
  let ?ov = "cx_overlay cx"
  have wf: "overlay_wf ?ov" using assms(1) by (simp add: builtin_space_def)
  have k: "pk_field_set spec = [''id'']" using assms(3) by (simp add: id_keyed_def)
  have p: "plan = \<lparr>pl_table = es_table_name spec, pl_pk = dict [(''id'', i)], pl_op = Insert,
      pl_expected = None, pl_before = None, pl_after = Some after\<rparr>"
    using assms(6) by (simp add: DbMutationPlan_Inr assms(4))
  have "row_shape (ov_catalog ?ov) t (pk_values spec (pl_pk plan)) after"
    using assms(2,10-12) k by (simp add: row_shape_def pk_values_def p dict_single)
  then have "apply_plan ?ov plan = Inr (with_row ?ov t [i] after)"
    and wf': "overlay_wf (with_row ?ov t [i] after)"
    using apply_insert [OF wf assms(2), of plan after] assms(5) k
    by (simp_all add: p pk_values_def dict_single)
  moreover have "ev_action event \<noteq> EvDelete" using SyncEventPlan_Inr [OF assms(7)] assms(8) by simp
  ultimately show "ov_apply ?ov c = Inr (with_row ?ov t [i] after)"
    using cx_command_Inr [OF assms(9)] by (simp add: ov_apply_def apply_event_def)
  show "builtin_space (with_row ?ov t [i] after)" using builtin_space_with_row [OF assms(1) wf'] .
qed

lemma builtin_space_without_row: "builtin_space ov \<Longrightarrow> builtin_space (without_row ov t ident)"
  by (simp add: builtin_space_def overlay_wf_without_row)

lemma builtin_space_tombstones [simp]: "builtin_space (ov\<lparr>ov_tombstones := ts\<rparr>) = builtin_space ov"
  by (simp add: builtin_space_def)

lemma delete_command:
  assumes "builtin_space (cx_overlay cx)" "catalog_get (ov_catalog (cx_overlay cx)) t = Some spec" "id_keyed spec" "table = es_table_name spec"
    "ov_row (cx_overlay cx) t [i] = Some before" "fld before ''version'' = JInt v"
    "DbMutationPlan table (dict [(''id'', i)]) Delete (Some v) (Some before) None = Inr plan"
    "SyncEventPlan t ei EvDelete payload ver ts = Inr event"
    "cx_command cx rq [plan] [event] post None = Inr c"
  shows "ov_apply (cx_overlay cx) c = Inr ((without_row (cx_overlay cx) t [i])
      \<lparr>ov_tombstones := insert (effective_sync_entity_type spec, ei) (ov_tombstones (cx_overlay cx))\<rparr>)"
proof -
  let ?ov = "cx_overlay cx"
  have wf: "overlay_wf ?ov" using assms(1) by (simp add: builtin_space_def)
  note row = table_row [OF assms(1-3,5)]
  have k: "pk_field_set spec = [''id'']" using assms(3) by (simp add: id_keyed_def)
  have p: "plan = \<lparr>pl_table = es_table_name spec, pl_pk = dict [(''id'', i)], pl_op = Delete,
      pl_expected = Some v, pl_before = Some before, pl_after = None\<rparr>"
    using assms(7) by (simp add: DbMutationPlan_Inr assms(4))
  have "version_is before (pl_expected plan)"
    using assms(3,6) row(1) by (simp add: version_is_def p get_fld id_keyed_def)
  then have "apply_plan ?ov plan = Inr (without_row ?ov t [i])"
    using apply_delete(1) [OF wf assms(2), of plan before] assms(5) k
    by (simp add: p pk_values_def dict_single)
  then show ?thesis
    using cx_command_Inr [OF assms(9)] SyncEventPlan_Inr [OF assms(8)] assms(2)
    by (simp add: ov_apply_def apply_event_def)
qed

end
