(* ===== verification/WorkItems.thy ===== *)
theory WorkItems
  imports RowCommands
begin

text \<open>
  The commands on one work item (\<open>_compile_CreateWorkItem\<close> to \<open>_compile_RestoreWorkItem\<close> of
  \<open>app/task_space/compiler.py\<close>): each compiles to one command against the overlay of its Space, and
  each keeps the tree invariant.
\<close>

section \<open>The commands\<close>

definition WORK_ITEM_SCALAR_FIELDS :: "string list" where
  "WORK_ITEM_SCALAR_FIELDS =
     [''title'', ''description'', ''type_definition_id'', ''priority'', ''completion_window_start'',
      ''completion_window_end'', ''review_point'', ''hard_deadline'', ''effort_estimate_lower_seconds'',
      ''effort_estimate_upper_seconds'', ''confidence'', ''archived_at'', ''marked_as_attention'']"

definition PRE_WAITING_STATUS_FIELD :: string where
  "PRE_WAITING_STATUS_FIELD = ''pre_waiting_status_definition_id''"

definition reject_work_item_sync :: "string \<Rightarrow> (string \<times> json) list \<Rightarrow> 'a res" where
  "reject_work_item_sync reason details =
     violate ''work_item_structure_changed'' ((''reason'', JStr reason) # details) False"

definition require_tree :: "bool \<Rightarrow> string \<Rightarrow> unit res" where
  "require_tree ok reason =
     require ok (violation ''invalid_work_item_tree'' [(''reason'', JStr reason)] False)"

lemma require_tree_Inr [result_simps]: "require_tree ok reason = Inr u \<longleftrightarrow> ok"
  by (simp add: require_tree_def require_Inr)

definition closing_stamp :: "string \<Rightarrow> string \<Rightarrow> string \<Rightarrow> json" where
  "closing_stamp category wanted now = (if category = wanted then JStr now else JNull)"

definition new_work_item :: "request \<Rightarrow> row \<Rightarrow> string \<Rightarrow> string \<Rightarrow> string \<Rightarrow> json \<Rightarrow> json \<Rightarrow> string \<Rightarrow>
    json \<Rightarrow> int \<Rightarrow> string \<Rightarrow> row" where
  "new_work_item rq project work_item_id display_key title type_id status_id category parent_id rank now =
     dict
       [(''id'', JStr work_item_id),
        (''project_id'', fld project ''id''),
        (''display_key'', JStr display_key),
        (''title'', JStr (py_strip title)),
        (''description'', get (rq_payload rq) ''description''),
        (''type_definition_id'', type_id),
        (''status_definition_id'', status_id),
        (''priority'', get (rq_payload rq) ''priority''),
        (''parent_id'', parent_id),
        (''child_rank'', JInt rank),
        (''completion_window_start'', JNull),
        (''completion_window_end'', JNull),
        (''review_point'', JNull),
        (''hard_deadline'', JNull),
        (''effort_estimate_lower_seconds'', JNull),
        (''effort_estimate_upper_seconds'', JNull),
        (''effort_actual_seconds'', JInt 0),
        (''confidence'', JNull),
        (''completed_at'', closing_stamp category ''completed'' now),
        (''cancelled_at'', closing_stamp category ''cancelled'' now),
        (''archived_at'', JNull),
        (''marked_as_attention'', JBool False),
        (PRE_WAITING_STATUS_FIELD, JNull),
        (''created_at'', JStr now),
        (''updated_at'', JStr now),
        (''version'', JInt 1)]"

definition create_work_item_command :: "ctx \<Rightarrow> request \<Rightarrow> row \<Rightarrow> row \<Rightarrow> row \<Rightarrow> string \<Rightarrow> command res" where
  "create_work_item_command cx rq project project_after item_after now =
     (let work_item_id = str_of (fld item_after ''id''); post = updates item_after [(''label_ids'', JList [])] in
      rbind (DbMutationPlan ''projects'' (dict [(''id'', fld project ''id'')]) Update
               (Some (int_of (fld project ''version''))) (Some project) (Some project_after)) (\<lambda>plan1.
      rbind (DbMutationPlan ''work_items'' (dict [(''id'', JStr work_item_id)]) Insert None None
               (Some item_after)) (\<lambda>plan2.
      rbind (SyncEventPlan ''project'' (str_of (fld project ''id'')) EvUpdate project_after
               (JInt (int_of (fld project_after ''version''))) (JStr now)) (\<lambda>event1.
      rbind (SyncEventPlan ''work_item'' work_item_id EvCreate post (JInt 1) (JStr now)) (\<lambda>event2.
      cx_command cx rq [plan1, plan2] [event1, event2] post None)))))"

definition compile_CreateWorkItem :: "ctx \<Rightarrow> request \<Rightarrow> command res" where
  "compile_CreateWorkItem cx rq =
     (let ov = cx_overlay cx; payload = rq_payload rq in
      rbind (require_work_item_enum ''priority'' (get payload ''priority'') WORK_ITEM_PRIORITY_VALUES) (\<lambda>_.
      rbind (pget payload ''project_id'') (\<lambda>project_id.
      rbind (require_row ov ''project'' (JStr (str_of project_id))) (\<lambda>project.
      let parent_id = get payload ''parent_id'' in
      rbind (parent_depth ov parent_id (str_of (fld project ''id''))) (\<lambda>depth.
      rbind (require_tree (depth < 3) ''depth_exceeds_three'') (\<lambda>_.
      let number = int_of (fld project ''next_work_item_number'') in
      rbind (pget payload ''command_id'') (\<lambda>command_id.
      let work_item_id = stable_id cx ''work_item'' (str_of command_id) in
      rbind (monotonic_updated_at (str_of (fld project ''updated_at'')) (cx_now cx)) (\<lambda>now.
      let type_id = or_else (get payload ''type_definition_id'') (fld project ''default_type_definition_id'');
          status_id = or_else (get payload ''status_definition_id'') (fld project ''default_status_definition_id'') in
      rbind (require_row ov ''type_definition'' (JStr (str_of type_id))) (\<lambda>_.
      rbind (require_row ov ''status_definition'' (JStr (str_of status_id))) (\<lambda>status.
      let project_after = updates project
        [(''next_work_item_number'', JInt (number + 1)), (''updated_at'', JStr now),
         (''version'', JInt (int_of (fld project ''version'') + 1))] in
      rbind (format_work_item_display_key (str_of (fld project ''key'')) number) (\<lambda>display_key.
      rbind (pget payload ''title'') (\<lambda>title.
      rbind (authoritative_child_rank ov (str_of (fld project ''id'')) parent_id) (\<lambda>rank.
      create_work_item_command cx rq project project_after
        (new_work_item rq project work_item_id display_key (str_of title) type_id (fld status ''id'')
           (str_of (fld status ''category'')) parent_id rank now) now)))))))))))))"

definition dict_of :: "json \<Rightarrow> (string \<times> json) list res" where
  "dict_of v = (case v of JObj kvs \<Rightarrow> Inr kvs | _ \<Rightarrow> Inl (TypeErr ''object is not a mapping''))"

lemma dict_of_Inr [result_simps]: "dict_of v = Inr kvs \<longleftrightarrow> v = JObj kvs"
  by (cases v) (simp_all add: dict_of_def)

definition require_patch :: "overlay \<Rightarrow> (string \<times> json) list \<Rightarrow> unit res" where
  "require_patch ov patch =
     rbind (require (fst ` set patch \<subseteq> set WORK_ITEM_SCALAR_FIELDS)
              (RuntimeErr ''unregistered WorkItem patch fields'')) (\<lambda>_.
     rbind (case map_of patch ''priority'' of None \<Rightarrow> Inr ()
            | Some v \<Rightarrow> require_work_item_enum ''priority'' v WORK_ITEM_PRIORITY_VALUES) (\<lambda>_.
     rbind (case map_of patch ''confidence'' of None \<Rightarrow> Inr ()
            | Some v \<Rightarrow> require_work_item_enum ''confidence'' v WORK_ITEM_CONFIDENCE_VALUES) (\<lambda>_.
     case map_of patch ''type_definition_id'' of None \<Rightarrow> Inr () | Some JNull \<Rightarrow> Inr ()
     | Some v \<Rightarrow> rbind (require_row ov ''type_definition'' (JStr (str_of v))) (\<lambda>_. Inr ()))))"

lemma require_patch_Inr:
  "require_patch ov patch = Inr u \<Longrightarrow> fst ` set patch \<subseteq> set WORK_ITEM_SCALAR_FIELDS"
  unfolding require_patch_def by (simp add: rbind_Inr require_Inr)

definition compile_UpdateWorkItem :: "ctx \<Rightarrow> request \<Rightarrow> command res" where
  "compile_UpdateWorkItem cx rq =
     (let ov = cx_overlay cx in
      rbind (require_row ov ''work_item'' (JStr (rq_entity_id rq))) (\<lambda>item.
      rbind (require_expected_version item (rq_expected_version rq)) (\<lambda>_.
      rbind (pget (rq_payload rq) ''patch'') (\<lambda>raw.
      rbind (dict_of raw) (\<lambda>patch.
      rbind (require_patch ov patch) (\<lambda>_.
      rbind (monotonic_updated_at (str_of (fld item ''updated_at'')) (cx_now cx)) (\<lambda>now.
      work_item_update_command cx rq item (stamped item patch now) now)))))))"

definition move_rank :: "ctx \<Rightarrow> request \<Rightarrow> row \<Rightarrow> json \<Rightarrow> int res" where
  "move_rank cx rq item parent_id =
     (case get (rq_payload rq) ''child_rank'' of
        JNull \<Rightarrow> authoritative_child_rank (cx_overlay cx) (str_of (fld item ''project_id'')) parent_id
      | JInt n \<Rightarrow> if n < 0 then reject_work_item_sync ''invalid_child_rank'' [] else Inr n
      | _ \<Rightarrow> reject_work_item_sync ''invalid_child_rank'' [])"

text \<open>The new parent must be a work item of the same project outside the moved subtree.\<close>

definition require_move_target :: "overlay \<Rightarrow> row \<Rightarrow> string \<Rightarrow> json \<Rightarrow> unit res" where
  "require_move_target ov item project_id parent_id =
     rbind (if parent_id = JNull then Inr ()
            else rbind (require_row ov ''work_item'' (JStr (str_of parent_id))) (\<lambda>parent.
              require_tree (str_of (fld parent ''project_id'') = project_id) ''cross_project_parent'')) (\<lambda>_.
     rbind (require_tree (parent_id \<noteq> fld item ''id'') ''cycle'') (\<lambda>_.
     rbind (descendants ov (str_of (fld item ''id''))) (\<lambda>rows.
     rbind (require_tree (parent_id \<notin> set (map (\<lambda>r. fld r ''id'') rows)) ''cycle'') (\<lambda>_.
     rbind (parent_depth ov parent_id (str_of (fld item ''project_id''))) (\<lambda>new_parent_depth.
     rbind (subtree_relative_depth ov (str_of (fld item ''id''))) (\<lambda>relative.
     require_tree (new_parent_depth + relative \<le> 3) ''subtree_depth''))))))"

definition compile_MoveWorkItem :: "ctx \<Rightarrow> request \<Rightarrow> command res" where
  "compile_MoveWorkItem cx rq =
     (let ov = cx_overlay cx in
      rbind (require_row ov ''work_item'' (JStr (rq_entity_id rq))) (\<lambda>item.
      rbind (require_expected_version item (rq_expected_version rq)) (\<lambda>_.
      rbind (pget (rq_payload rq) ''project_id'') (\<lambda>project_id.
      rbind (require_row ov ''project'' (JStr (str_of project_id))) (\<lambda>_.
      rbind (require_tree (str_of project_id = str_of (fld item ''project_id'')) ''cross_project_move'') (\<lambda>_.
      let parent_id = get (rq_payload rq) ''new_parent_id'' in
      rbind (require_move_target ov item (str_of project_id) parent_id) (\<lambda>_.
      rbind (monotonic_updated_at (str_of (fld item ''updated_at'')) (cx_now cx)) (\<lambda>now.
      rbind (move_rank cx rq item parent_id) (\<lambda>rank.
      work_item_update_command cx rq item
        (stamped item [(''parent_id'', parent_id), (''child_rank'', JInt rank)] now) now)))))))))"

text \<open>The children of an item whose status is still active, by the status table of the Space.\<close>

fun active_children :: "(json \<times> json) list \<Rightarrow> json \<Rightarrow> row list \<Rightarrow> json list res" where
  "active_children statuses item_id [] = Inr []"
| "active_children statuses item_id (r # rs) =
     (if fld r ''parent_id'' = item_id
      then (case map_of statuses (fld r ''status_definition_id'') of
              None \<Rightarrow> Inl (KeyErr (str_of (fld r ''status_definition_id'')))
            | Some category \<Rightarrow> rbind (active_children statuses item_id rs) (\<lambda>ids.
                Inr (if category \<in> set (map JStr [''not_started'', ''in_progress'', ''paused'', ''waiting''])
                     then fld r ''id'' # ids else ids)))
      else active_children statuses item_id rs)"

definition require_no_active_children :: "overlay \<Rightarrow> row \<Rightarrow> unit res" where
  "require_no_active_children ov item =
     rbind (ov_rows ov ''status_definition'') (\<lambda>status_rows.
     rbind (ov_rows ov ''work_item'') (\<lambda>rows.
     rbind (active_children (rev (map (\<lambda>r. (fld r ''id'', fld r ''category'')) status_rows))
              (fld item ''id'') rows) (\<lambda>active.
     if active = [] then Inr ()
     else violate ''active_child_conflict'' [(''work_item_ids'', JList active)] False)))"

text \<open>The status that is remembered on entering a waiting status from one that is not waiting.\<close>

definition pre_waiting :: "overlay \<Rightarrow> row \<Rightarrow> string \<Rightarrow> (string \<times> json) list" where
  "pre_waiting ov item category =
     (case ov_row ov ''status_definition'' [JStr (str_of (fld item ''status_definition_id''))] of
        None \<Rightarrow> []
      | Some current \<Rightarrow>
          if category = ''waiting'' \<and> str_of (fld current ''category'') \<noteq> ''waiting''
          then [(PRE_WAITING_STATUS_FIELD, fld item ''status_definition_id'')] else [])"

definition compile_TransitionWorkItem :: "ctx \<Rightarrow> request \<Rightarrow> command res" where
  "compile_TransitionWorkItem cx rq =
     (let ov = cx_overlay cx in
      rbind (require_session_envelope_dispatch_claim cx rq
        [(''complete'', the (map_of SYSTEM_STATUS_IDS ''completed'')),
         (''cancel'', the (map_of SYSTEM_STATUS_IDS ''cancelled''))]) (\<lambda>_.
      rbind (require_row ov ''work_item'' (JStr (rq_entity_id rq))) (\<lambda>item.
      rbind (pget (rq_payload rq) ''status_definition_id'') (\<lambda>status_id.
      rbind (require_row ov ''status_definition'' (JStr (str_of status_id))) (\<lambda>status.
      rbind (require_expected_version item (rq_expected_version rq)) (\<lambda>_.
      rbind (parent_depth ov (fld item ''parent_id'') (str_of (fld item ''project_id''))) (\<lambda>depth.
      rbind (if fld status ''category'' = JStr ''completed'' \<and> depth + 1 = 2
             then require_no_active_children ov item else Inr ()) (\<lambda>_.
      rbind (monotonic_updated_at (str_of (fld item ''updated_at'')) (cx_now cx)) (\<lambda>now.
      let category = str_of (fld status ''category'') in
      work_item_update_command cx rq item
        (updates (stamped item
           [(''status_definition_id'', fld status ''id''),
            (''completed_at'', closing_stamp category ''completed'' now),
            (''cancelled_at'', closing_stamp category ''cancelled'' now)] now)
           (pre_waiting ov item category)) now)))))))))"

definition compile_archived_at_mutation :: "bool \<Rightarrow> ctx \<Rightarrow> request \<Rightarrow> command res" where
  "compile_archived_at_mutation trashed cx rq =
     (let ov = cx_overlay cx in
      rbind (require_row ov ''work_item'' (JStr (rq_entity_id rq))) (\<lambda>item.
      rbind (require_expected_version item (rq_expected_version rq)) (\<lambda>_.
      if (fld item ''archived_at'' \<noteq> JNull) = trashed
      then rbind (label_ids_for_work_item ov (str_of (fld item ''id''))) (\<lambda>labels.
        cx_command cx rq [] [] (updates item [(''label_ids'', JList (map JStr labels))]) None)
      else rbind (monotonic_updated_at (str_of (fld item ''updated_at'')) (cx_now cx)) (\<lambda>now.
        work_item_update_command cx rq item
          (stamped item [(''archived_at'', if trashed then JStr now else JNull)] now) now))))"

definition compile_TrashWorkItem :: "ctx \<Rightarrow> request \<Rightarrow> command res" where
  "compile_TrashWorkItem = compile_archived_at_mutation True"

definition compile_RestoreWorkItem :: "ctx \<Rightarrow> request \<Rightarrow> command res" where
  "compile_RestoreWorkItem = compile_archived_at_mutation False"

section \<open>Rows the commands write\<close>

text \<open>An item of the Space, with the facts every command starts from.\<close>

lemma work_item_row:
  assumes "builtin_space ov" "ov_row ov ''work_item'' ident = Some r"
  shows "fmdom' r = set (field_names work_item_spec)" "ident = [fld r ''id'']" "row_ok r"
  using table_row [OF assms(1) builtin_space_get(1) [OF assms(1)] work_item_keys assms(2)] by simp_all

text \<open>What an update command of a work item does to the Space.\<close>

lemma work_item_update_command_Inr:
  assumes "builtin_space (cx_overlay cx)" "ov_row (cx_overlay cx) ''work_item'' [i] = Some before"
    "work_item_ok before" "work_item_update_command cx rq before after ts = Inr c"
    "rq_expected_version rq = Some (int_of (fld before ''version''))"
    "fmdom' after = fmdom' before" "fld after ''id'' = fld before ''id''" "row_ok after"
  shows "ov_apply (cx_overlay cx) c = Inr (with_row (cx_overlay cx) ''work_item'' [i] after)"
    "builtin_space (with_row (cx_overlay cx) ''work_item'' [i] after)"
    "cm_request c = rq" "length (cm_events c) = 1" "length (cm_plans c) = 1"
proof -
  note row = work_item_row [OF assms(1,2)]
  obtain plan event post where plan: "DbMutationPlan ''work_items'' (dict [(''id'', fld before ''id'')]) Update
      (rq_expected_version rq) (Some before) (Some after) = Inr plan"
    and event: "SyncEventPlan ''work_item'' (str_of (fld before ''id'')) EvUpdate post
      (JInt (int_of (fld after ''version''))) (JStr ts) = Inr event"
    and c: "cx_command cx rq [plan] [event] post None = Inr c"
    using assms(4) unfolding work_item_update_command_def Let_def by (auto simp: rbind_Inr)
  obtain v where v: "fld before ''version'' = JInt v" using assms(3) by (auto simp: work_item_ok_def)
  have i: "fld before ''id'' = i" using row(2) by simp
  note upd = update_command [OF assms(1) builtin_space_get(1) [OF assms(1)] work_item_keys tables(1) assms(2) v
      plan [unfolded assms(5) i] event _ c assms(6-8)]
  show "ov_apply (cx_overlay cx) c = Inr (with_row (cx_overlay cx) ''work_item'' [i] after)"
    "builtin_space (with_row (cx_overlay cx) ''work_item'' [i] after)"
    using upd by simp_all
  show "cm_request c = rq" "length (cm_events c) = 1" "length (cm_plans c) = 1"
    using cx_command_Inr [OF c] by simp_all
qed

end
