(* ===== verification/WorkItemInvariant.thy ===== *)
theory WorkItemInvariant
  imports WorkItems
begin

text \<open>
  The commands on work items keep the tree: every work item lies in a chain of parents of its own
  project that ends at a root after at most three items. First the tree under the changes the
  commands make, then each command, then the property of all of them.
\<close>

section \<open>The tree under a change of rows\<close>

lemma at_depth_other:
  assumes "t \<noteq> ''work_item''"
  shows "at_depth (with_row ov t ident r) pid p n \<longleftrightarrow> at_depth ov pid p n"
proof
  show "at_depth (with_row ov t ident r) pid p n \<Longrightarrow> at_depth ov pid p n"
    by (induction rule: at_depth.induct) (use assms in \<open>auto intro: at_depth.intros\<close>)
  show "at_depth ov pid p n \<Longrightarrow> at_depth (with_row ov t ident r) pid p n"
    by (induction rule: at_depth.induct) (use assms in \<open>auto intro: at_depth.intros\<close>)
qed

lemma tree_ok_other: "t \<noteq> ''work_item'' \<Longrightarrow> tree_ok (with_row ov t ident r) \<longleftrightarrow> tree_ok ov"
  by (simp add: tree_ok_def at_depth_other)

text \<open>The tree and the life cycle depend on the rows alone.\<close>

lemma at_depth_cong:
  assumes "\<forall>i. ov_row ov' ''work_item'' [JStr i] = ov_row ov ''work_item'' [JStr i]" "at_depth ov pid p n"
  shows "at_depth ov' pid p n"
  using assms(2) by (induction rule: at_depth.induct) (use assms(1) in \<open>auto intro: at_depth.intros\<close>)

lemma tree_ok_cong:
  assumes "\<forall>ident. ov_row ov' ''work_item'' ident = ov_row ov ''work_item'' ident" "tree_ok ov"
  shows "tree_ok ov'"
  using assms(2) at_depth_cong [of ov' ov] unfolding tree_ok_def spec [OF assms(1)]
  by (simp add: assms(1)) blast

text \<open>The tree is kept by a change of other columns.\<close>

definition same_place :: "row \<Rightarrow> row \<Rightarrow> bool" where
  "same_place r r' = (fld r' ''id'' = fld r ''id'' \<and> fld r' ''project_id'' = fld r ''project_id'' \<and>
     fld r' ''parent_id'' = fld r ''parent_id'' \<and> (\<exists>v. fld r' ''version'' = JInt v))"

lemma at_depth_same_place:
  assumes "at_depth ov pid p n" "ov_row ov ''work_item'' [j] = Some r" "same_place r r'"
  shows "at_depth (with_row ov ''work_item'' [j] r') pid p n"
  using assms(1)
proof (induction rule: at_depth.induct)
  case (child i q n)
  show ?case
  proof (cases "JStr i = j")
    case True
    then have "q = r" using child(1) assms(2) by simp
    then show ?thesis using child True assms(3)
      by (intro at_depth.child [of _ _ r']) (simp_all add: same_place_def)
  next
    case False
    then show ?thesis using child by (intro at_depth.child [of _ _ q]) auto
  qed
qed (rule at_depth.root)

lemma tree_ok_same_place:
  assumes "tree_ok ov" "ov_row ov ''work_item'' [j] = Some r" "same_place r r'"
  shows "tree_ok (with_row ov ''work_item'' [j] r')"
  unfolding tree_ok_def
proof (intro allI impI)
  fix ident q
  assume q: "ov_row (with_row ov ''work_item'' [j] r') ''work_item'' ident = Some q"
  obtain q' where q': "ov_row ov ''work_item'' ident = Some q'" "fld q ''project_id'' = fld q' ''project_id''"
    "fld q ''id'' = fld q' ''id''" "work_item_ok q' \<longrightarrow> work_item_ok q"
    using q assms(2,3) by (cases "ident = [j]") (auto simp: same_place_def work_item_ok_def)
  note tree = tree_ok_row [OF assms(1) q'(1)]
  have "work_item_ok q" using q'(4) tree(1) by blast
  moreover have "\<exists>d \<le> MAX_DEPTH. at_depth (with_row ov ''work_item'' [j] r')
      (str_of (fld q ''project_id'')) (JStr (id_of q)) d"
    using tree(2) at_depth_same_place [OF _ assms(2,3)] q'(2,3) by (auto simp: id_of_def)
  ultimately show "work_item_ok q \<and> (\<exists>d \<le> MAX_DEPTH. at_depth (with_row ov ''work_item'' [j] r')
      (str_of (fld q ''project_id'')) (JStr (id_of q)) d)" by blast
qed

text \<open>A new leaf below a parent that lies at most two levels deep.\<close>

lemma at_depth_new:
  assumes "at_depth ov pid p n" "ov_row ov ''work_item'' [j] = None"
  shows "at_depth (with_row ov ''work_item'' [j] r) pid p n"
  using assms(1)
proof (induction rule: at_depth.induct)
  case (child i q n)
  then show ?case using assms(2) by (intro at_depth.child [of _ _ q]) auto
qed (rule at_depth.root)

lemma tree_ok_new:
  assumes "tree_ok ov" "ov_row ov ''work_item'' [JStr j] = None" "fld r ''id'' = JStr j"
    "fld r ''project_id'' = JStr pid" "at_depth ov pid (fld r ''parent_id'') n" "n < MAX_DEPTH"
    "fld r ''version'' = JInt v"
  shows "tree_ok (with_row ov ''work_item'' [JStr j] r)"
  unfolding tree_ok_def
proof (intro allI impI)
  let ?ov = "with_row ov ''work_item'' [JStr j] r"
  fix ident q
  assume q: "ov_row ?ov ''work_item'' ident = Some q"
  show "work_item_ok q \<and> (\<exists>d \<le> MAX_DEPTH. at_depth ?ov (str_of (fld q ''project_id'')) (JStr (id_of q)) d)"
  proof (cases "ident = [JStr j]")
    case True
    then have "q = r" using q by simp
    moreover have "at_depth ?ov pid (JStr j) (Suc n)"
      using assms(4) at_depth_new [OF assms(5,2)] by (intro at_depth.child [of _ _ r]) simp_all
    moreover have "Suc n \<le> MAX_DEPTH" using assms(6) by simp
    ultimately show ?thesis using assms(3,4,7) by (auto simp: work_item_ok_def id_of_def)
  next
    case False
    then have "ov_row ov ''work_item'' ident = Some q" using q by simp
    from tree_ok_row [OF assms(1) this] show ?thesis using at_depth_new [OF _ assms(2)] by blast
  qed
qed

text \<open>
  An item moved below a new parent outside its subtree: items outside the subtree keep their depth,
  and those inside keep their distance to the moved item.
\<close>

lemma at_depth_outside:
  assumes "at_depth ov pid p n" "\<nexists>k. below ov (JStr j) p k"
  shows "at_depth (with_row ov ''work_item'' [JStr j] r) pid p n"
  using assms
proof (induction rule: at_depth.induct)
  case (child i q n)
  have "i \<noteq> j" using child.prems below.self by blast
  moreover have "\<nexists>k. below ov (JStr j) (fld q ''parent_id'') k"
    using child.prems child.hyps(1) below.down by blast
  ultimately show ?case using child by (intro at_depth.child [of _ _ q]) simp_all
qed (rule at_depth.root)

lemma at_depth_inside:
  assumes "below ov (JStr j) y k" "\<nexists>k. below ov (JStr j) (JStr j) (Suc k)"
    "\<And>i q k. ov_row ov ''work_item'' [JStr i] = Some q \<Longrightarrow> below ov (JStr j) (JStr i) k \<Longrightarrow>
      fld q ''project_id'' = JStr pid"
    "at_depth (with_row ov ''work_item'' [JStr j] r) pid (JStr j) m"
  shows "at_depth (with_row ov ''work_item'' [JStr j] r) pid y (m + k)"
  using assms(1)
proof (induction rule: below.induct)
  case self
  show ?case using assms(4) by simp
next
  case (down i q k)
  then have b: "below ov (JStr j) (JStr i) (Suc k)" by (blast intro: below.down)
  then have "i \<noteq> j" using assms(2) by blast
  then have "at_depth (with_row ov ''work_item'' [JStr j] r) pid (JStr i) (Suc (m + k))"
    using down assms(3) [OF down(1) b] by (intro at_depth.child [of _ _ q]) simp_all
  then show ?case by simp
qed

lemma subtree_project:
  assumes "builtin_space ov" "tree_ok ov" "ov_row ov ''work_item'' [JStr j] = Some r"
    "fld r ''project_id'' = JStr pid" "ov_row ov ''work_item'' [JStr i] = Some q" "below ov (JStr j) (JStr i) k"
  shows "fld q ''project_id'' = JStr pid"
proof -
  note q = tree_ok_row [OF assms(2,5)]
  have i: "id_of q = i" using work_item_identity(2) [OF assms(1,5) q(1)] by simp
  obtain pid' where pid': "fld q ''project_id'' = JStr pid'" using q(1) by (auto simp: work_item_ok_def)
  with q(2) i obtain d where "at_depth ov pid' (JStr i) d" by auto
  with below_depth [OF assms(6)] obtain m where "at_depth ov pid' (JStr j) m" by blast
  from at_depth_project [OF this assms(3)] assms(4) pid' show ?thesis by simp
qed

lemma tree_ok_move:
  assumes "builtin_space ov" "tree_ok ov" "ov_row ov ''work_item'' [JStr j] = Some item"
    "at_depth ov (str_of (fld item ''project_id'')) (fld r ''parent_id'') n"
    "\<nexists>k. below ov (JStr j) (fld r ''parent_id'') k"
    "\<And>y k. below ov (JStr j) y k \<Longrightarrow> n + k < MAX_DEPTH"
    "fld r ''id'' = fld item ''id''" "fld r ''project_id'' = fld item ''project_id''"
    "fld r ''version'' = JInt v"
  shows "tree_ok (with_row ov ''work_item'' [JStr j] r)"
  unfolding tree_ok_def
proof (intro allI impI)
  let ?ov = "with_row ov ''work_item'' [JStr j] r"
  fix ident q
  assume q: "ov_row ?ov ''work_item'' ident = Some q"
  note item = tree_ok_row [OF assms(2,3)]
  obtain pid where pid: "fld item ''project_id'' = JStr pid" using item(1) by (auto simp: work_item_ok_def)
  have j: "fld item ''id'' = JStr j" using work_item_identity [OF assms(1,3) item(1)] by simp
  have no: "\<nexists>k. below ov (JStr j) (JStr j) (Suc k)"
    using below_in_tree [OF assms(1,2)] at_depth_unique by fastforce
  have moved: "at_depth ?ov pid (JStr j) (Suc n)"
    using at_depth_outside [OF assms(4,5)] assms(8) pid by (intro at_depth.child [of _ _ r]) simp_all
  have inside: "at_depth ?ov pid y (Suc n + k)" if "below ov (JStr j) y k" for y k
    by (rule at_depth_inside [OF that no _ moved]) (rule subtree_project [OF assms(1-3) pid])
  show "work_item_ok q \<and> (\<exists>d \<le> MAX_DEPTH. at_depth ?ov (str_of (fld q ''project_id'')) (JStr (id_of q)) d)"
  proof (cases "ident = [JStr j]")
    case True
    then have "q = r" using q by simp
    moreover have "Suc n \<le> MAX_DEPTH" using assms(6) [OF below.self] by simp
    ultimately show ?thesis using moved j pid assms(7-9) by (auto simp: work_item_ok_def id_of_def)
  next
    case False
    then have old: "ov_row ov ''work_item'' ident = Some q" using q by simp
    note q_tree = tree_ok_row [OF assms(2) old]
    note q_id = work_item_identity [OF assms(1) old q_tree(1)]
    show ?thesis
    proof (cases "\<exists>k. below ov (JStr j) (JStr (id_of q)) k")
      case True
      then obtain k where k: "below ov (JStr j) (JStr (id_of q)) k" by blast
      moreover have "fld q ''project_id'' = JStr pid"
        using subtree_project [OF assms(1-3) pid _ k] old q_id(2) by simp
      moreover have "Suc n + k \<le> MAX_DEPTH" using assms(6) [OF k] by simp
      ultimately show ?thesis using inside [OF k] q_tree(1) by fastforce
    next
      case False
      then show ?thesis using q_tree at_depth_outside by blast
    qed
  qed
qed

text \<open>What the checks of a move establish.\<close>

lemma require_move_target_Inr:
  assumes "builtin_space ov" "tree_ok ov" "ov_row ov ''work_item'' [JStr j] = Some item"
    "require_move_target ov item project_id p = Inr u"
  shows "\<exists>n. at_depth ov (str_of (fld item ''project_id'')) p n \<and> (\<nexists>k. below ov (JStr j) p k) \<and>
    (\<forall>y k. below ov (JStr j) y k \<longrightarrow> n + k < MAX_DEPTH)"
proof -
  have j: "fld item ''id'' = JStr j"
    using work_item_identity [OF assms(1,3) tree_ok_row(1) [OF assms(2,3)]] by simp
  obtain ds where ds: "descendants ov j = Inr ds" "descendants_are ov j ds"
    using descendants_tree [OF assms(1,2)] unfolding descendants_are_def by blast
  obtain h where h: "subtree_relative_depth ov j = Inr h" "\<forall>y k. below ov (JStr j) y k \<longrightarrow> k < h"
    using subtree_relative_depth_tree [OF assms(1,2)] by blast
  have p: "p \<noteq> JStr j" "p \<notin> (\<lambda>r. fld r ''id'') ` set ds"
    using assms(4) j ds(1) by (simp_all add: require_move_target_def rbind_Inr require_tree_Inr)
  obtain n where n: "parent_depth ov p (str_of (fld item ''project_id'')) = Inr n" "n + h \<le> 3"
    using assms(4) j ds(1) h(1) by (auto simp: require_move_target_def rbind_Inr require_tree_Inr)
  have "\<nexists>k. below ov (JStr j) p k"
  proof
    assume "\<exists>k. below ov (JStr j) p k"
    then obtain k where "below ov (JStr j) p k" ..
    with p(1) obtain k' where k: "below ov (JStr j) p (Suc k')" by (cases k) (auto simp: below_zero)
    then obtain i where i: "p = JStr i" by (auto elim: below_Suc)
    then obtain r where r: "r \<in> set ds" "ov_row ov ''work_item'' [JStr i] = Some r" 
      using descendant_below [OF assms(1,2) ds(2)] k by blast
    have "fld r ''id'' = p" using work_item_identity [OF assms(1) r(2) tree_ok_row(1) [OF assms(2) r(2)]] i by simp
    with p(2) r(1) show False by blast
  qed
  moreover have "n + k < MAX_DEPTH" if "below ov (JStr j) y k" for y k
    using h(2) that n(2) by (fastforce simp: MAX_DEPTH_def)
  ultimately show ?thesis using parent_depth_Inr [OF n(1) assms(2,1)] by blast
qed

section \<open>The commands\<close>

text \<open>A command keeps an invariant of the Space: it applies, and the invariant holds afterwards.\<close>

definition keeps :: "(overlay \<Rightarrow> bool) \<Rightarrow> overlay \<Rightarrow> command \<Rightarrow> bool" where
  "keeps I ov c = (\<exists>ov'. ov_apply ov c = Inr ov' \<and> I ov')"

definition projects_ok :: "overlay \<Rightarrow> bool" where
  "projects_ok ov = (\<forall>ident r. ov_row ov ''project'' ident = Some r \<longrightarrow> (\<exists>v. fld r ''version'' = JInt v))"

text \<open>
  The life cycle of an item: the closing stamps agree with the category of its status, and the
  remembered status, when there is one, is not a waiting one.
\<close>

definition category_of :: "overlay \<Rightarrow> json \<Rightarrow> string option" where
  "category_of ov status_id = map_option (\<lambda>r. str_of (fld r ''category'')) (ov_row ov ''status_definition'' [status_id])"

definition row_lifecycle :: "overlay \<Rightarrow> row \<Rightarrow> bool" where
  "row_lifecycle ov r =
     ((\<exists>i c. fld r ''status_definition_id'' = JStr i \<and> category_of ov (JStr i) = Some c \<and>
        (fld r ''completed_at'' \<noteq> JNull \<longleftrightarrow> c = ''completed'') \<and>
        (fld r ''cancelled_at'' \<noteq> JNull \<longleftrightarrow> c = ''cancelled'')) \<and>
      (fld r PRE_WAITING_STATUS_FIELD = JNull \<or>
        (\<exists>c. category_of ov (fld r PRE_WAITING_STATUS_FIELD) = Some c \<and> c \<noteq> ''waiting'')))"

definition lifecycle_ok :: "overlay \<Rightarrow> bool" where
  "lifecycle_ok ov = (\<forall>ident r. ov_row ov ''work_item'' ident = Some r \<longrightarrow> row_lifecycle ov r)"

definition work_space :: "overlay \<Rightarrow> bool" where
  "work_space ov = (builtin_space ov \<and> tree_ok ov \<and> projects_ok ov \<and> lifecycle_ok ov)"

lemma row_lifecycle_other:
  "t \<noteq> ''status_definition'' \<Longrightarrow> row_lifecycle (with_row ov t ident q) r \<longleftrightarrow> row_lifecycle ov r"
  by (simp add: row_lifecycle_def category_of_def)

lemma lifecycle_other:
  "t \<noteq> ''status_definition'' \<Longrightarrow> t \<noteq> ''work_item'' \<Longrightarrow> lifecycle_ok (with_row ov t ident q) \<longleftrightarrow> lifecycle_ok ov"
  by (simp add: lifecycle_ok_def row_lifecycle_other)

lemma lifecycle_with_row:
  "lifecycle_ok ov \<Longrightarrow> row_lifecycle ov r \<Longrightarrow> lifecycle_ok (with_row ov ''work_item'' ident r)"
  by (simp add: lifecycle_ok_def row_lifecycle_other)

definition same_lifecycle :: "row \<Rightarrow> row \<Rightarrow> bool" where
  "same_lifecycle r r' = (\<forall>k \<in> {''status_definition_id'', ''completed_at'', ''cancelled_at'',
     PRE_WAITING_STATUS_FIELD}. fld r' k = fld r k)"

lemma same_lifecycle_keeps: "same_lifecycle r r' \<Longrightarrow> row_lifecycle ov r \<Longrightarrow> row_lifecycle ov r'"
  by (simp add: same_lifecycle_def row_lifecycle_def)

lemma projects_ok_other: "t \<noteq> ''project'' \<Longrightarrow> projects_ok (with_row ov t ident r) \<longleftrightarrow> projects_ok ov"
  by (simp add: projects_ok_def)

lemma work_space_same_place:
  assumes "work_space ov" "ov_row ov ''work_item'' [j] = Some r" "same_place r r'"
    "builtin_space (with_row ov ''work_item'' [j] r')" "row_lifecycle ov r'"
  shows "work_space (with_row ov ''work_item'' [j] r')"
  using assms tree_ok_same_place [OF _ assms(2,3)]
  by (simp add: work_space_def projects_ok_other lifecycle_with_row)

lemma keeps_no_effect:
  assumes "cx_command cx rq [] [] v None = Inr c" "I (cx_overlay cx)"
  shows "keeps I (cx_overlay cx) c"
  using cx_command_Inr [OF assms(1)] assms(2) by (simp add: keeps_def ov_apply_def)

text \<open>The common end of the update commands: other columns, or the checked move.\<close>

lemma update_keeps:
  assumes "work_space (cx_overlay cx)" "require_row (cx_overlay cx) ''work_item'' (JStr j) = Inr item"
    "require_expected_version item (rq_expected_version rq) = Inr u"
    "work_item_update_command cx rq item after now = Inr c"
    "fmdom' after = fmdom' item" "fld after ''id'' = fld item ''id''" "row_ok after"
    "builtin_space (with_row (cx_overlay cx) ''work_item'' [JStr j] after) \<Longrightarrow>
      I (with_row (cx_overlay cx) ''work_item'' [JStr j] after)"
  shows "keeps I (cx_overlay cx) c"
proof -
  have item: "ov_row (cx_overlay cx) ''work_item'' [JStr j] = Some item" "work_item_ok item"
    "rq_expected_version rq = Some (int_of (fld item ''version''))"
    using assms(1-3) by (auto simp: result_simps work_space_def tree_ok_def)
  have b: "builtin_space (cx_overlay cx)" using assms(1) by (simp add: work_space_def)
  note upd = work_item_update_command_Inr [OF b item(1,2) assms(4) item(3) assms(5-7)]
  show ?thesis unfolding keeps_def using upd(1,2) assms(8) by blast
qed

lemma stamped_other: "\<forall>k \<in> A. k \<notin> fst ` set changes \<and> k \<noteq> ''version'' \<and> k \<noteq> ''updated_at'' \<Longrightarrow>
    \<forall>k \<in> A. fld (stamped item changes now) k = fld item k"
proof
  fix k
  assume "\<forall>k \<in> A. k \<notin> fst ` set changes \<and> k \<noteq> ''version'' \<and> k \<noteq> ''updated_at''" "k \<in> A"
  then have "map_of (rev changes) k = None" "k \<noteq> ''version''" "k \<noteq> ''updated_at''"
    unfolding map_of_eq_None_iff set_rev by blast+
  then show "fld (stamped item changes now) k = fld item k" by (simp add: fld_stamped)
qed

lemma stamped_place:
  assumes "\<forall>k \<in> {''id'', ''project_id'', ''parent_id'', ''version'', ''updated_at''}. k \<notin> fst ` set changes"
  shows "same_place item (stamped item changes now)"
  using assms stamped_other [of "{''id'', ''project_id'', ''parent_id''}" changes item now]
  by (simp add: same_place_def fld_stamped [of _ _ _ "''version''"])

lemma work_item_columns:
  assumes "builtin_space ov" "ov_row ov ''work_item'' [j] = Some item" "fst ` set changes \<subseteq> set (field_names work_item_spec)"
  shows "fmdom' (stamped item changes now) = fmdom' item"
  using assms(3) work_item_row(1) [OF assms(1,2)]
  by (intro fmdom_stamped) (simp_all add: field_names_builtin)

text \<open>Commands that change other columns than those of the tree.\<close>

lemma placed_update_keeps:
  assumes "work_space (cx_overlay cx)" "require_row (cx_overlay cx) ''work_item'' (JStr j) = Inr item"
    "require_expected_version item (rq_expected_version rq) = Inr u"
    "work_item_update_command cx rq item (stamped item changes now) now = Inr c"
    "fst ` set changes \<subseteq> set (field_names work_item_spec) -
       {''id'', ''project_id'', ''parent_id'', ''version'', ''updated_at''}"
    "\<forall>(k, v) \<in> set changes. distinct_keys v" "row_lifecycle (cx_overlay cx) (stamped item changes now)"
  shows "keeps work_space (cx_overlay cx) c"
proof (rule update_keeps [OF assms(1-4)])
  have item: "ov_row (cx_overlay cx) ''work_item'' [JStr j] = Some item" "builtin_space (cx_overlay cx)"
    using assms(1,2) by (simp_all add: result_simps work_space_def)
  have place: "same_place item (stamped item changes now)" using assms(5) by (intro stamped_place) blast
  show "fmdom' (stamped item changes now) = fmdom' item"
    using work_item_columns [OF item(2,1)] assms(5) by blast
  show "fld (stamped item changes now) ''id'' = fld item ''id''" using place by (simp add: same_place_def)
  show "row_ok (stamped item changes now)"
    using work_item_row(3) [OF item(2,1)] assms(6) by (rule row_ok_stamped)
  show "work_space (with_row (cx_overlay cx) ''work_item'' [JStr j] (stamped item changes now))"
    if "builtin_space (with_row (cx_overlay cx) ''work_item'' [JStr j] (stamped item changes now))"
    using work_space_same_place [OF assms(1) item(1) place that assms(7)] .
qed

lemma avoids: "X \<subseteq> F - B \<Longrightarrow> k \<in> B \<Longrightarrow> k \<notin> X"
  by blast

lemma plain_update_keeps:
  assumes "work_space (cx_overlay cx)" "require_row (cx_overlay cx) ''work_item'' (JStr j) = Inr item"
    "require_expected_version item (rq_expected_version rq) = Inr u"
    "work_item_update_command cx rq item (stamped item changes now) now = Inr c"
    "fst ` set changes \<subseteq> set (field_names work_item_spec) -
       {''id'', ''project_id'', ''parent_id'', ''version'', ''updated_at'', ''status_definition_id'',
        ''completed_at'', ''cancelled_at'', PRE_WAITING_STATUS_FIELD}"
    "\<forall>(k, v) \<in> set changes. distinct_keys v"
  shows "keeps work_space (cx_overlay cx) c"
proof (rule placed_update_keeps [OF assms(1-4) _ assms(6)])
  have "row_lifecycle (cx_overlay cx) item"
    using assms(1,2) by (auto simp: work_space_def lifecycle_ok_def require_row_Inr)
  moreover have "same_lifecycle item (stamped item changes now)"
    unfolding same_lifecycle_def
  proof (rule stamped_other)
    show "\<forall>k \<in> {''status_definition_id'', ''completed_at'', ''cancelled_at'', PRE_WAITING_STATUS_FIELD}.
        k \<notin> fst ` set changes \<and> k \<noteq> ''version'' \<and> k \<noteq> ''updated_at''"
      using avoids [OF assms(5)] by (simp add: PRE_WAITING_STATUS_FIELD_def)
  qed
  ultimately show "row_lifecycle (cx_overlay cx) (stamped item changes now)"
    by (rule same_lifecycle_keeps [rotated])
qed (rule order_trans [OF assms(5)], rule Diff_mono, simp_all)

lemma UpdateWorkItem_keeps:
  assumes "work_space (cx_overlay cx)" "row_ok (rq_payload rq)" "compile_UpdateWorkItem cx rq = Inr c"
  shows "keeps work_space (cx_overlay cx) c"
proof -
  obtain item patch now u where
    item: "require_row (cx_overlay cx) ''work_item'' (JStr (rq_entity_id rq)) = Inr item"
    and ver: "require_expected_version item (rq_expected_version rq) = Inr u"
    and patch: "pget (rq_payload rq) ''patch'' = Inr (JObj patch)"
      "require_patch (cx_overlay cx) patch = Inr ()"
    and c: "work_item_update_command cx rq item (stamped item patch now) now = Inr c"
    using assms(3) unfolding compile_UpdateWorkItem_def Let_def
    by (auto simp: rbind_Inr dict_of_Inr)
  have "distinct_keys (JObj patch)"
    using row_ok_lookup [OF assms(2)] patch(1) unfolding pget_Inr by blast
  then have d: "\<forall>(k, v) \<in> set patch. distinct_keys v" by auto
  have "set WORK_ITEM_SCALAR_FIELDS \<subseteq> set (field_names work_item_spec) -
      {''id'', ''project_id'', ''parent_id'', ''version'', ''updated_at'', ''status_definition_id'',
        ''completed_at'', ''cancelled_at'', PRE_WAITING_STATUS_FIELD}"
    by (simp add: PRE_WAITING_STATUS_FIELD_def WORK_ITEM_SCALAR_FIELDS_def field_names_builtin)
  from plain_update_keeps [OF assms(1) item ver c order_trans [OF require_patch_Inr [OF patch(2)] this] d]
  show ?thesis .
qed

lemma archived_at_keeps:
  assumes "work_space (cx_overlay cx)" "compile_archived_at_mutation trashed cx rq = Inr c"
  shows "keeps work_space (cx_overlay cx) c"
proof -
  obtain item u where
    item: "require_row (cx_overlay cx) ''work_item'' (JStr (rq_entity_id rq)) = Inr item"
    and ver: "require_expected_version item (rq_expected_version rq) = Inr u"
    and rest: "(\<exists>v. cx_command cx rq [] [] v None = Inr c) \<or>
      (\<exists>a now. distinct_keys a \<and>
        work_item_update_command cx rq item (stamped item [(''archived_at'', a)] now) now = Inr c)"
    using assms(2) unfolding compile_archived_at_mutation_def Let_def
    by (auto simp: rbind_Inr split: if_splits) (metis distinct_keys.simps)+
  from rest show ?thesis
  proof (elim disjE exE conjE)
    fix v
    assume "cx_command cx rq [] [] v None = Inr c"
    then show ?thesis using assms(1) by (rule keeps_no_effect)
  next
    fix a now
    assume "distinct_keys a"
      "work_item_update_command cx rq item (stamped item [(''archived_at'', a)] now) now = Inr c"
    then show ?thesis by (intro plain_update_keeps [OF assms(1) item ver])
      (auto simp: field_names_builtin PRE_WAITING_STATUS_FIELD_def)
  qed
qed

lemma closing_stamp_distinct [simp]: "distinct_keys (closing_stamp category wanted now)"
  by (simp add: closing_stamp_def)

text \<open>A transition: the remembered status is one more column, written at the end.\<close>

lemma updates_pre_waiting: "updates (stamped item changes now) (pre_waiting ov item category) =
    stamped item (changes @ pre_waiting ov item category) now"
proof -
  have "fmlookup (updates (stamped item changes now) (pre_waiting ov item category)) k =
      fmlookup (stamped item (changes @ pre_waiting ov item category) now) k" for k
    by (auto simp: stamped_def fmlookup_updates pre_waiting_def PRE_WAITING_STATUS_FIELD_def
        map_add_def split: option.splits)
  then show ?thesis by (intro fmap_ext)
qed

lemma TransitionWorkItem_Inr:
  assumes "compile_TransitionWorkItem cx rq = Inr c"
  obtains item status now u where
    "require_row (cx_overlay cx) ''work_item'' (JStr (rq_entity_id rq)) = Inr item"
    "require_expected_version item (rq_expected_version rq) = Inr u"
    "\<exists>i. ov_row (cx_overlay cx) ''status_definition'' [JStr i] = Some status"
    "work_item_update_command cx rq item (stamped item
       ([(''status_definition_id'', fld status ''id''),
         (''completed_at'', closing_stamp (str_of (fld status ''category'')) ''completed'' now),
         (''cancelled_at'', closing_stamp (str_of (fld status ''category'')) ''cancelled'' now)] @
        pre_waiting (cx_overlay cx) item (str_of (fld status ''category''))) now) now = Inr c"
  using assms unfolding compile_TransitionWorkItem_def Let_def updates_pre_waiting
  by (auto simp: rbind_Inr require_row_Inr)

lemma transition_lifecycle:
  assumes "row_lifecycle ov item" "ov_row ov ''status_definition'' [JStr i] = Some status" "fld status ''id'' = JStr i"
  shows "row_lifecycle ov (stamped item
       ([(''status_definition_id'', fld status ''id''),
         (''completed_at'', closing_stamp (str_of (fld status ''category'')) ''completed'' now),
         (''cancelled_at'', closing_stamp (str_of (fld status ''category'')) ''cancelled'' now)] @
        pre_waiting ov item (str_of (fld status ''category''))) now)"
proof -
  let ?c = "str_of (fld status ''category'')"
  have c: "category_of ov (JStr i) = Some ?c" using assms(2) by (simp add: category_of_def)
  obtain j where j: "fld item ''status_definition_id'' = JStr j" using assms(1) by (auto simp: row_lifecycle_def)
  show ?thesis
  proof (cases "pre_waiting ov item ?c = []")
    case True
    then show ?thesis using assms c
      by (simp add: row_lifecycle_def fld_stamped closing_stamp_def PRE_WAITING_STATUS_FIELD_def)
  next
    case False
    then obtain d where "pre_waiting ov item ?c = [(PRE_WAITING_STATUS_FIELD, JStr j)]"
      "category_of ov (JStr j) = Some d" "d \<noteq> ''waiting''"
      by (auto simp: pre_waiting_def j category_of_def split: option.splits if_splits)
    then show ?thesis using assms(3) c
      by (simp add: row_lifecycle_def fld_stamped closing_stamp_def PRE_WAITING_STATUS_FIELD_def)
  qed
qed

lemma pre_waiting_cases:
  "pre_waiting ov item c = [] \<or> pre_waiting ov item c = [(PRE_WAITING_STATUS_FIELD, fld item ''status_definition_id'')]"
  by (cases "ov_row ov ''status_definition'' [JStr (str_of (fld item ''status_definition_id''))]")
    (simp_all add: pre_waiting_def)

lemma TransitionWorkItem_keeps:
  assumes "work_space (cx_overlay cx)" "compile_TransitionWorkItem cx rq = Inr c"
  shows "keeps work_space (cx_overlay cx) c"
proof -
  obtain item status now u where
    item: "require_row (cx_overlay cx) ''work_item'' (JStr (rq_entity_id rq)) = Inr item"
    and ver: "require_expected_version item (rq_expected_version rq) = Inr u"
    and status: "\<exists>i. ov_row (cx_overlay cx) ''status_definition'' [JStr i] = Some status"
    and c: "work_item_update_command cx rq item (stamped item
       ([(''status_definition_id'', fld status ''id''),
         (''completed_at'', closing_stamp (str_of (fld status ''category'')) ''completed'' now),
         (''cancelled_at'', closing_stamp (str_of (fld status ''category'')) ''cancelled'' now)] @
        pre_waiting (cx_overlay cx) item (str_of (fld status ''category''))) now) now = Inr c"
    by (rule TransitionWorkItem_Inr [OF assms(2)])
  have b: "builtin_space (cx_overlay cx)" and wf: "overlay_wf (cx_overlay cx)"
    using assms(1) by (simp_all add: work_space_def builtin_space_def)
  from status obtain i where i: "ov_row (cx_overlay cx) ''status_definition'' [JStr i] = Some status" ..
  note st = overlay_wf_row [OF wf i builtin_space_get(7) [OF b]]
  have "fld status ''id'' = JStr i" using st(2) by (simp add: pk_values_def pk_field_set_def)
  moreover have "distinct_keys (fld item ''status_definition_id'')"
  proof -
    have "ov_row (cx_overlay cx) ''work_item'' [JStr (rq_entity_id rq)] = Some item"
      using item by (simp add: require_row_Inr)
    from work_item_row [OF b this] show ?thesis by (simp add: row_ok_fld field_names_builtin)
  qed
  moreover have "row_lifecycle (cx_overlay cx) item"
    using assms(1) item by (auto simp: work_space_def lifecycle_ok_def require_row_Inr)
  then have "row_lifecycle (cx_overlay cx) (stamped item
       ([(''status_definition_id'', fld status ''id''),
         (''completed_at'', closing_stamp (str_of (fld status ''category'')) ''completed'' now),
         (''cancelled_at'', closing_stamp (str_of (fld status ''category'')) ''cancelled'' now)] @
        pre_waiting (cx_overlay cx) item (str_of (fld status ''category''))) now)"
    by (rule transition_lifecycle [OF _ i \<open>fld status ''id'' = JStr i\<close>])
  ultimately show ?thesis
    using pre_waiting_cases [of "cx_overlay cx" item "str_of (fld status ''category'')"]
    by (intro placed_update_keeps [OF assms(1) item ver c])
      (auto simp: field_names_builtin PRE_WAITING_STATUS_FIELD_def)
qed

lemma MoveWorkItem_Inr:
  assumes "compile_MoveWorkItem cx rq = Inr c"
  obtains item now u project_id rank where
    "require_row (cx_overlay cx) ''work_item'' (JStr (rq_entity_id rq)) = Inr item"
    "require_expected_version item (rq_expected_version rq) = Inr u"
    "project_id = str_of (fld item ''project_id'')"
    "require_move_target (cx_overlay cx) item project_id (get (rq_payload rq) ''new_parent_id'') = Inr ()"
    "move_rank cx rq item (get (rq_payload rq) ''new_parent_id'') = Inr rank"
    "work_item_update_command cx rq item
      (stamped item [(''parent_id'', get (rq_payload rq) ''new_parent_id''), (''child_rank'', JInt rank)] now) now = Inr c"
  using assms unfolding compile_MoveWorkItem_def Let_def by (auto simp: rbind_Inr require_tree_Inr)

lemma MoveWorkItem_keeps:
  assumes "work_space (cx_overlay cx)" "row_ok (rq_payload rq)" "compile_MoveWorkItem cx rq = Inr c"
  shows "keeps work_space (cx_overlay cx) c"
proof -
  let ?ov = "cx_overlay cx" and ?p = "get (rq_payload rq) ''new_parent_id''"
  obtain item now u project_id rank where
    item: "require_row ?ov ''work_item'' (JStr (rq_entity_id rq)) = Inr item"
    and ver: "require_expected_version item (rq_expected_version rq) = Inr u"
    and target: "require_move_target ?ov item project_id ?p = Inr ()"
    and c: "work_item_update_command cx rq item
      (stamped item [(''parent_id'', ?p), (''child_rank'', JInt rank)] now) now = Inr c"
    by (rule MoveWorkItem_Inr [OF assms(3)])
  let ?after = "stamped item [(''parent_id'', ?p), (''child_rank'', JInt rank)] now"
  have b: "builtin_space ?ov" and t: "tree_ok ?ov" and pr: "projects_ok ?ov" and life: "lifecycle_ok ?ov"
    using assms(1) by (simp_all add: work_space_def)
  have row: "ov_row ?ov ''work_item'' [JStr (rq_entity_id rq)] = Some item"
    using item by (simp add: require_row_Inr)
  obtain n where n: "at_depth ?ov (str_of (fld item ''project_id'')) ?p n"
    "\<nexists>k. below ?ov (JStr (rq_entity_id rq)) ?p k"
    "\<And>y k. below ?ov (JStr (rq_entity_id rq)) y k \<Longrightarrow> n + k < MAX_DEPTH"
    using require_move_target_Inr [OF b t row target] by blast
  have p: "distinct_keys ?p" using n(1) by (auto elim: at_depth.cases)
  show ?thesis
  proof (rule update_keeps [OF assms(1) item ver c])
    show "fmdom' ?after = fmdom' item"
      by (rule work_item_columns [OF b row]) (simp add: field_names_builtin)
    show "fld ?after ''id'' = fld item ''id''" by (simp add: fld_stamped)
    show "row_ok ?after" using p by (intro row_ok_stamped work_item_row(3) [OF b row]) simp
    assume "builtin_space (with_row ?ov ''work_item'' [JStr (rq_entity_id rq)] ?after)"
    moreover have "tree_ok (with_row ?ov ''work_item'' [JStr (rq_entity_id rq)] ?after)"
      by (rule tree_ok_move [OF b t row, of _ n]) (use n in \<open>simp_all add: fld_stamped\<close>)
    moreover have "same_lifecycle item ?after"
      by (simp add: same_lifecycle_def fld_stamped PRE_WAITING_STATUS_FIELD_def)
    then have "row_lifecycle ?ov ?after"
      using life row by (auto simp: lifecycle_ok_def intro: same_lifecycle_keeps)
    ultimately show "work_space (with_row ?ov ''work_item'' [JStr (rq_entity_id rq)] ?after)"
      using pr life by (simp add: work_space_def projects_ok_other lifecycle_with_row)
  qed
qed

text \<open>Creation: the project counts on, then the item is inserted as a leaf.\<close>

lemma CreateWorkItem_Inr:
  assumes "compile_CreateWorkItem cx rq = Inr c"
  obtains project p depth command_id now status_i status number display_key type_id rank title where
    "ov_row (cx_overlay cx) ''project'' [JStr p] = Some project"
    "parent_depth (cx_overlay cx) (get (rq_payload rq) ''parent_id'') (str_of (fld project ''id'')) = Inr depth"
    "depth < 3"
    "pget (rq_payload rq) ''command_id'' = Inr command_id"
    "ov_row (cx_overlay cx) ''status_definition'' [JStr status_i] = Some status"
    "number = int_of (fld project ''next_work_item_number'')"
    "type_id = or_else (get (rq_payload rq) ''type_definition_id'') (fld project ''default_type_definition_id'')"
    "format_work_item_display_key (str_of (fld project ''key'')) number = Inr display_key"
    "require_work_item_enum ''priority'' (get (rq_payload rq) ''priority'') WORK_ITEM_PRIORITY_VALUES = Inr ()"
    "authoritative_child_rank (cx_overlay cx) (str_of (fld project ''id'')) (get (rq_payload rq) ''parent_id'') = Inr rank"
    "create_work_item_command cx rq project
       (updates project [(''next_work_item_number'', JInt (number + 1)), (''updated_at'', JStr now),
          (''version'', JInt (int_of (fld project ''version'') + 1))])
       (new_work_item rq project (stable_id cx ''work_item'' (str_of command_id)) display_key (str_of title)
          type_id (fld status ''id'') (str_of (fld status ''category''))
          (get (rq_payload rq) ''parent_id'') rank now) now = Inr c"
  using assms unfolding compile_CreateWorkItem_def Let_def
  by (auto simp: rbind_Inr require_tree_Inr require_row_Inr)

lemma new_work_item_facts:
  "fmdom' (new_work_item rq project i key title ty st cat p rank now) = set (field_names work_item_spec)"
  "fld (new_work_item rq project i key title ty st cat p rank now) ''id'' = JStr i"
  "fld (new_work_item rq project i key title ty st cat p rank now) ''project_id'' = fld project ''id''"
  "fld (new_work_item rq project i key title ty st cat p rank now) ''parent_id'' = p"
  "fld (new_work_item rq project i key title ty st cat p rank now) ''version'' = JInt 1"
  by (auto simp: new_work_item_def dict_def PRE_WAITING_STATUS_FIELD_def field_names_builtin)

lemma new_work_item_row_ok:
  assumes "row_ok (rq_payload rq)" "distinct_keys (fld project ''id'')" "distinct_keys ty" "distinct_keys st"
    "distinct_keys p"
  shows "row_ok (new_work_item rq project i key title ty st cat p rank now)"
proof -
  have "distinct_keys (get (rq_payload rq) k)" for k
    using assms(1) by (auto simp: get_or_def row_ok_lookup split: option.splits)
  then show ?thesis
    unfolding new_work_item_def dict_def using assms by (intro row_ok_updates) simp_all
qed

lemma create_work_item_command_Inr:
  assumes "builtin_space (cx_overlay cx)" "ov_row (cx_overlay cx) ''project'' [pk] = Some project"
    "fld project ''version'' = JInt v" "create_work_item_command cx rq project project_after item now = Inr c"
    "fmdom' project_after = fmdom' project" "fld project_after ''id'' = fld project ''id''" "row_ok project_after"
    "fmdom' item = set (field_names work_item_spec)" "row_ok item" "fld item ''id'' = JStr i"
    "ov_row (cx_overlay cx) ''work_item'' [JStr i] = None"
  shows "ov_apply (cx_overlay cx) c =
      Inr (with_row (with_row (cx_overlay cx) ''project'' [pk] project_after) ''work_item'' [JStr i] item)"
    "builtin_space (with_row (with_row (cx_overlay cx) ''project'' [pk] project_after) ''work_item'' [JStr i] item)"
proof -
  let ?ov = "cx_overlay cx"
  let ?ov1 = "with_row ?ov ''project'' [pk] project_after"
  have wf: "overlay_wf ?ov" using assms(1) by (simp add: builtin_space_def)
  note get = builtin_space_get [OF assms(1)]
  note row = overlay_wf_row [OF wf assms(2) get(2)]
  have pk: "fld project ''id'' = pk" using row(2) by (simp add: pk_values_def pk_field_set_def)
  obtain plan1 plan2 event1 event2 post where plan1: "DbMutationPlan ''projects'' (dict [(''id'', fld project ''id'')])
      Update (Some (int_of (fld project ''version''))) (Some project) (Some project_after) = Inr plan1"
    and plan2: "DbMutationPlan ''work_items'' (dict [(''id'', JStr i)]) Insert None None (Some item) = Inr plan2"
    and event1: "SyncEventPlan ''project'' (str_of (fld project ''id'')) EvUpdate project_after
      (JInt (int_of (fld project_after ''version''))) (JStr now) = Inr event1"
    and event2: "SyncEventPlan ''work_item'' i EvCreate post (JInt 1) (JStr now) = Inr event2"
    and c: "cx_command cx rq [plan1, plan2] [event1, event2] post None = Inr c"
    using assms(4,10) unfolding create_work_item_command_def Let_def by (auto simp: rbind_Inr)
  have p1: "plan1 = \<lparr>pl_table = ''projects'', pl_pk = dict [(''id'', pk)], pl_op = Update,
      pl_expected = Some (int_of (fld project ''version'')), pl_before = Some project, pl_after = Some project_after\<rparr>"
    using plan1 pk by (simp add: DbMutationPlan_Inr)
  have p2: "plan2 = \<lparr>pl_table = ''work_items'', pl_pk = dict [(''id'', JStr i)], pl_op = Insert,
      pl_expected = None, pl_before = None, pl_after = Some item\<rparr>"
    using plan2 by (simp add: DbMutationPlan_Inr)
  have "''version'' \<in> fmdom' project" using row(1) by (simp add: field_names_builtin)
  then have "version_is project (pl_expected plan1)" using assms(3) by (simp add: version_is_def p1 get_fld)
  moreover have "row_shape (ov_catalog ?ov) ''project'' [pk] project_after"
    using assms(5-7) row(1) pk get(2) by (simp add: row_shape_def pk_values_def pk_field_set_def)
  ultimately have a1: "apply_plan ?ov plan1 = Inr ?ov1" and wf1: "overlay_wf ?ov1"
    using apply_update [OF wf get(2), of plan1 project project_after] assms(2)
    by (simp_all add: p1 pk_values_def pk_field_set_def dict_single)
  have get1: "catalog_get (ov_catalog ?ov1) ''work_item'' = Some work_item_spec" using get(1) by simp
  have "row_shape (ov_catalog ?ov1) ''work_item'' [JStr i] item"
    using assms(8-10) get(1) by (simp add: row_shape_def pk_values_def pk_field_set_def)
  then have a2: "apply_plan ?ov1 plan2 = Inr (with_row ?ov1 ''work_item'' [JStr i] item)"
    and wf2: "overlay_wf (with_row ?ov1 ''work_item'' [JStr i] item)"
    using apply_insert [OF wf1 get1, of plan2 item] assms(11)
    by (simp_all add: p2 pk_values_def pk_field_set_def dict_single)
  have "ev_action event1 = EvUpdate" "ev_action event2 = EvCreate"
    using SyncEventPlan_Inr [OF event1] SyncEventPlan_Inr [OF event2] by simp_all
  then show "ov_apply ?ov c = Inr (with_row ?ov1 ''work_item'' [JStr i] item)"
    using cx_command_Inr [OF c] a1 a2 by (simp add: ov_apply_def apply_event_def)
  show "builtin_space (with_row ?ov1 ''work_item'' [JStr i] item)"
    using wf2 assms(1) by (simp add: builtin_space_def)
qed

lemma require_work_item_enum_Inr:
  "require_work_item_enum field v allowed = Inr u \<Longrightarrow> distinct_keys v"
  by (cases v) (auto simp: require_work_item_enum_def require_enum_value_def require_def)

lemma CreateWorkItem_keeps:
  assumes "work_space (cx_overlay cx)" "row_ok (rq_payload rq)" "compile_CreateWorkItem cx rq = Inr c"
    "ov_row (cx_overlay cx) ''work_item''
       [JStr (stable_id cx ''work_item'' (str_of (fld (rq_payload rq) ''command_id'')))] = None"
  shows "keeps work_space (cx_overlay cx) c"
proof -
  let ?ov = "cx_overlay cx" and ?p = "get (rq_payload rq) ''parent_id''"
  obtain project p depth command_id now status_i status number display_key type_id rank title where
    project: "ov_row ?ov ''project'' [JStr p] = Some project"
    and depth: "parent_depth ?ov ?p (str_of (fld project ''id'')) = Inr depth" "depth < 3"
    and id: "pget (rq_payload rq) ''command_id'' = Inr command_id"
    and status: "ov_row ?ov ''status_definition'' [JStr status_i] = Some status"
    and type: "type_id = or_else (get (rq_payload rq) ''type_definition_id'') (fld project ''default_type_definition_id'')"
    and c: "create_work_item_command cx rq project
       (updates project [(''next_work_item_number'', JInt (number + 1)), (''updated_at'', JStr now),
          (''version'', JInt (int_of (fld project ''version'') + 1))])
       (new_work_item rq project (stable_id cx ''work_item'' (str_of command_id)) display_key (str_of title)
          type_id (fld status ''id'') (str_of (fld status ''category'')) ?p rank now) now = Inr c"
    by (rule CreateWorkItem_Inr [OF assms(3)])
  let ?i = "stable_id cx ''work_item'' (str_of command_id)"
  let ?project = "updates project [(''next_work_item_number'', JInt (number + 1)), (''updated_at'', JStr now),
          (''version'', JInt (int_of (fld project ''version'') + 1))]"
  let ?item = "new_work_item rq project ?i display_key (str_of title) type_id (fld status ''id'')
      (str_of (fld status ''category'')) ?p rank now"
  have b: "builtin_space ?ov" and t: "tree_ok ?ov" and pr: "projects_ok ?ov" and life: "lifecycle_ok ?ov"
    and wf: "overlay_wf ?ov" using assms(1) by (simp_all add: work_space_def builtin_space_def)
  note prow = overlay_wf_row [OF wf project builtin_space_get(2) [OF b]]
  note srow = overlay_wf_row [OF wf status builtin_space_get(7) [OF b]]
  have ids: "fld project ''id'' = JStr p" "fld status ''id'' = JStr status_i"
    using prow(2) srow(2) by (simp_all add: pk_values_def pk_field_set_def)
  have p: "at_depth ?ov p ?p depth" using parent_depth_Inr [OF depth(1) t b] ids(1) by simp
  obtain v where v: "fld project ''version'' = JInt v" using pr project by (auto simp: projects_ok_def)
  have "distinct_keys (get (rq_payload rq) k)" for k
    using assms(2) by (auto simp: get_or_def row_ok_lookup split: option.splits)
  moreover have "distinct_keys (fld project ''default_type_definition_id'')"
    using row_ok_fld [OF prow(3)] prow(1) by (simp add: field_names_builtin)
  ultimately have item_ok: "row_ok ?item"
    using p ids by (intro new_work_item_row_ok [OF assms(2)]) (auto simp: type or_else_def elim: at_depth.cases)
  have fresh: "ov_row ?ov ''work_item'' [JStr ?i] = None"
    using assms(4) id by (simp add: pget_Inr fld_def)
  have "fmdom' ?project = fmdom' project" "fld ?project ''id'' = fld project ''id''"
    using prow(1) by (auto simp: fmdom_updates field_names_builtin fld_updates)
  moreover have "row_ok ?project" using prow(3) by (rule row_ok_updates) simp
  ultimately have applied: "ov_apply ?ov c =
      Inr (with_row (with_row ?ov ''project'' [JStr p] ?project) ''work_item'' [JStr ?i] ?item)"
    and b': "builtin_space (with_row (with_row ?ov ''project'' [JStr p] ?project) ''work_item'' [JStr ?i] ?item)"
    using create_work_item_command_Inr [OF b project v c _ _ _ new_work_item_facts(1) item_ok new_work_item_facts(2) fresh]
    by blast+
  have "tree_ok (with_row ?ov ''project'' [JStr p] ?project)" using t by (simp add: tree_ok_other)
  then have t': "tree_ok (with_row (with_row ?ov ''project'' [JStr p] ?project) ''work_item'' [JStr ?i] ?item)"
    using fresh ids p depth(2)
    by (intro tree_ok_new [of _ _ _ p depth 1]) (simp_all add: new_work_item_facts at_depth_other MAX_DEPTH_def)
  have "projects_ok (with_row ?ov ''project'' [JStr p] ?project)"
    using pr by (simp add: projects_ok_def fld_updates)
  moreover have "row_lifecycle (with_row ?ov ''project'' [JStr p] ?project) ?item"
    using ids(2) status
    by (simp add: row_lifecycle_other row_lifecycle_def category_of_def new_work_item_def dict_def
        PRE_WAITING_STATUS_FIELD_def closing_stamp_def)
  ultimately have "work_space (with_row (with_row ?ov ''project'' [JStr p] ?project) ''work_item'' [JStr ?i] ?item)"
    using b' t' life by (simp add: work_space_def projects_ok_other lifecycle_with_row lifecycle_other)
  with applied show ?thesis by (auto simp: keeps_def)
qed

end
