(* ===== verification/CycleDetector.thy ===== *)
theory CycleDetector
  imports Prelude
begin

text \<open>
  The incremental cycle detector of the dependency domain (\<open>app/task_space/cycle_detector.py\<close>):
  an iterative depth-first search with an explicit stack. The stack has its top first; \<open>parent\<close> is
  the dictionary that rebuilds the path, newest entry first.
\<close>

section \<open>The search\<close>

definition adjacency :: "(string \<times> string) list \<Rightarrow> string \<Rightarrow> string list" where
  "adjacency edges node = map snd (filter (\<lambda>e. fst e = node) edges)"

type_synonym parents = "(string \<times> string option) list"

text \<open>The inner loop: the node whose neighbour closes the cycle, or the new parents and stack.\<close>

fun scan :: "string \<Rightarrow> string \<Rightarrow> string list \<Rightarrow> parents \<Rightarrow> string list \<Rightarrow> (parents \<times> string list) option" where
  "scan target node [] parent stack = Some (parent, stack)"
| "scan target node (n # ns) parent stack =
     (if n = target then None
      else if map_of parent n \<noteq> None then scan target node ns parent stack
      else scan target node ns ((n, Some node) # parent) (n # stack))"

text \<open>The parents at the moment the inner loop meets the target.\<close>

fun scanned_parents :: "string \<Rightarrow> string \<Rightarrow> string list \<Rightarrow> parents \<Rightarrow> parents" where
  "scanned_parents target node [] parent = parent"
| "scanned_parents target node (n # ns) parent =
     (if n = target then parent
      else if map_of parent n \<noteq> None then scanned_parents target node ns parent
      else scanned_parents target node ns ((n, Some node) # parent))"

text \<open>The walk from a node along \<open>parent\<close>; the length of \<open>parent\<close> is enough fuel.\<close>

fun walk_back :: "nat \<Rightarrow> parents \<Rightarrow> string \<Rightarrow> string list" where
  "walk_back 0 parent c = []"
| "walk_back (Suc k) parent c =
     c # (case map_of parent c of Some (Some q) \<Rightarrow> walk_back k parent q | _ \<Rightarrow> [])"

definition node_set :: "(string \<times> string) list \<Rightarrow> string set" where
  "node_set edges = set (map snd edges)"

definition unseen :: "(string \<times> string) list \<Rightarrow> parents \<Rightarrow> nat" where
  "unseen edges parent = card (node_set edges - fst ` set parent)"

lemma finite_node_set [simp]: "finite (node_set edges)"
  by (simp add: node_set_def)

lemma set_adjacency: "set (adjacency edges node) = {m. (node, m) \<in> set edges}"
  by (auto simp: adjacency_def) force

lemma adjacency_nodes: "set (adjacency edges node) \<subseteq> node_set edges"
  by (auto simp: adjacency_def node_set_def)

lemma scan_decreases:
  assumes "scan target node ns parent stack = Some (parent', stack')" "set ns \<subseteq> node_set edges"
  shows "2 * unseen edges parent' + length stack' \<le> 2 * unseen edges parent + length stack"
  using assms
proof (induction target node ns parent stack rule: scan.induct)
  case (2 target node n ns parent stack)
  show ?case
  proof (cases "map_of parent n \<noteq> None \<or> n = target")
    case True
    then show ?thesis using 2 by (auto split: if_splits)
  next
    case False
    then have "n \<in> node_set edges - fst ` set parent" using 2 by (auto simp: map_of_eq_None_iff)
    then have "unseen edges ((n, Some node) # parent) < unseen edges parent"
      unfolding unseen_def by (intro psubset_card_mono) auto
    then show ?thesis using 2 False by (auto split: if_splits)
  qed
qed simp

function (sequential) search ::
    "(string \<times> string) list \<Rightarrow> string \<Rightarrow> parents \<Rightarrow> string list \<Rightarrow> bool \<times> string list" where
  "search edges target parent [] = (False, [])"
| "search edges target parent (node # stack) =
     (case scan target node (adjacency edges node) parent stack of
        None \<Rightarrow>
          let p = scanned_parents target node (adjacency edges node) parent in
          (True, target # rev (walk_back (length p) p node) @ [target])
      | Some (parent', stack') \<Rightarrow> search edges target parent' stack')"
  by pat_completeness auto
termination
  by (relation "measure (\<lambda>(edges, target, parent, stack). 2 * unseen edges parent + length stack)")
     (auto dest!: scan_decreases [OF _ adjacency_nodes])

definition detect_cycle_incremental ::
    "(string \<times> string) list \<Rightarrow> string \<times> string \<Rightarrow> bool \<times> string list" where
  "detect_cycle_incremental existing_edges candidate =
     (case candidate of (candidate_from, candidate_to) \<Rightarrow>
        if candidate_from = candidate_to then (True, [candidate_from, candidate_from])
        else search existing_edges candidate_from [(candidate_to, None)] [candidate_to])"

section \<open>The path that is reported\<close>

text \<open>Every entry but the first was reached from an older entry along an edge.\<close>

fun parents_ok :: "(string \<times> string) set \<Rightarrow> string \<Rightarrow> parents \<Rightarrow> bool" where
  "parents_ok E root [] = False"
| "parents_ok E root ((n, None) # ps) = (n = root \<and> ps = [])"
| "parents_ok E root ((n, Some q) # ps) =
     (parents_ok E root ps \<and> n \<notin> fst ` set ps \<and> q \<in> fst ` set ps \<and> (q, n) \<in> E)"

lemma parents_ok_lookup:
  "parents_ok E root ps \<Longrightarrow> c \<in> fst ` set ps \<Longrightarrow>
   (\<exists>v. map_of ps c = Some v \<and> (\<forall>q. v = Some q \<longrightarrow> q \<in> fst ` set ps))"
  by (induction E root ps rule: parents_ok.induct) auto

lemma walk_back_Cons:
  assumes "parents_ok E root ps" "n \<notin> fst ` set ps" "c \<in> fst ` set ps"
  shows "walk_back k ((n, q) # ps) c = walk_back k ps c"
  using assms(3)
proof (induction k arbitrary: c)
  case (Suc k)
  moreover from Suc.prems assms(2) have "c \<noteq> n" by auto
  moreover obtain v where "map_of ps c = Some v" "\<And>p. v = Some p \<Longrightarrow> p \<in> fst ` set ps"
    using parents_ok_lookup [OF assms(1) Suc.prems] by blast
  ultimately show ?case by (auto split: option.splits)
qed simp

lemma walk_back_path:
  assumes "parents_ok E root ps" "c \<in> fst ` set ps" "length ps \<le> k"
  shows "successively (\<lambda>a b. (b, a) \<in> E) (walk_back k ps c) \<and> walk_back k ps c \<noteq> [] \<and>
    hd (walk_back k ps c) = c \<and> last (walk_back k ps c) = root"
  using assms
proof (induction E root ps arbitrary: c k rule: parents_ok.induct)
  case (2 E root n ps)
  then obtain k' where "k = Suc k'" by (cases k) auto
  with 2 show ?case by auto
next
  case (3 E root n q ps)
  then obtain k' where k: "k = Suc k'" by (cases k) auto
  show ?case
  proof (cases "c = n")
    case True
    have "walk_back k' ((n, Some q) # ps) q = walk_back k' ps q"
      using 3 by (intro walk_back_Cons) auto
    then show ?thesis
      using 3 k True by (auto simp: successively_Cons)
  next
    case False
    then have "walk_back k ((n, Some q) # ps) c = walk_back k ps c"
      using 3 by (intro walk_back_Cons) auto
    then show ?thesis using 3 False by auto
  qed
qed simp

section \<open>What the search keeps\<close>

text \<open>
  \<open>expanded\<close>: every neighbour of a visited node that has left the stack is visited, and none is
  the target.
\<close>

definition expanded :: "(string \<times> string) list \<Rightarrow> string \<Rightarrow> parents \<Rightarrow> string list \<Rightarrow> bool" where
  "expanded edges target parent stack =
     (set stack \<subseteq> fst ` set parent \<and> target \<notin> fst ` set parent \<and>
      (\<forall>n \<in> fst ` set parent - set stack. set (adjacency edges n) \<subseteq> fst ` set parent))"

text \<open>One expansion, as a fact about the sets: \<open>P\<close> the visited nodes, \<open>K\<close> the stack, \<open>A\<close> the neighbours.\<close>

lemma expand_sets:
  assumes "node \<in> P" "K \<subseteq> P" "\<forall>n \<in> P - insert node K. A n \<subseteq> P"
    "P' = P \<union> A node" "K' = K \<union> (A node - P)"
  shows "K' \<subseteq> P'" "\<forall>n \<in> P' - K'. A n \<subseteq> P'"
proof -
  show "K' \<subseteq> P'" using assms by auto
  show "\<forall>n \<in> P' - K'. A n \<subseteq> P'"
  proof
    fix n assume n: "n \<in> P' - K'"
    show "A n \<subseteq> P'"
    proof (cases "n = node")
      case True
      then show ?thesis using assms(4) by simp
    next
      case False
      then have "n \<in> P - insert node K" using n assms(4,5) by auto
      then show ?thesis using assms(3,4) by auto
    qed
  qed
qed

lemma scan_Some:
  assumes "scan target node ns parent stack = Some (parent', stack')"
  shows "target \<notin> set ns \<and> fst ` set parent' = fst ` set parent \<union> set ns \<and>
    set stack' = set stack \<union> (set ns - fst ` set parent) \<and>
    (parents_ok E root parent \<longrightarrow> node \<in> fst ` set parent \<longrightarrow> (\<forall>n \<in> set ns. (node, n) \<in> E) \<longrightarrow>
       parents_ok E root parent')"
  using assms
  by (induction target node ns parent stack rule: scan.induct)
     (auto simp: map_of_eq_None_iff insert_absorb split: if_splits)

lemma scan_None:
  assumes "scan target node ns parent stack = None"
    "parents_ok E root parent" "node \<in> fst ` set parent" "\<forall>n \<in> set ns. (node, n) \<in> E"
  shows "target \<in> set ns \<and> parents_ok E root (scanned_parents target node ns parent) \<and>
    node \<in> fst ` set (scanned_parents target node ns parent)"
  using assms
  by (induction target node ns parent stack rule: scan.induct)
     (auto simp: map_of_eq_None_iff split: if_splits)

lemma search_True:
  assumes "search edges target parent stack = (True, path)" "parents_ok (set edges) root parent"
    "set stack \<subseteq> fst ` set parent"
  shows "\<exists>mid. path = target # root # mid @ [target] \<and>
    successively (\<lambda>a b. (a, b) \<in> set edges) (root # mid @ [target])"
  using assms
proof (induction edges target parent stack rule: search.induct)
  case (2 edges target parent node stack)
  let ?adj = "adjacency edges node"
  have adj: "\<forall>n \<in> set ?adj. (node, n) \<in> set edges" by (simp add: set_adjacency)
  have node: "node \<in> fst ` set parent" using 2 by simp
  show ?case
  proof (cases "scan target node ?adj parent stack")
    case None
    let ?p = "scanned_parents target node ?adj parent"
    let ?w = "walk_back (length ?p) ?p node"
    note s = scan_None [OF None "2.prems"(2) node adj]
    have w: "successively (\<lambda>a b. (b, a) \<in> set edges) ?w" "?w \<noteq> []" "hd ?w = node" "last ?w = root"
      using walk_back_path [of "set edges" root ?p node] s by auto
    have path: "path = target # rev ?w @ [target]" using "2.prems"(1) None by (simp add: Let_def)
    obtain ys where r: "rev ?w = root # ys" using w by (cases "rev ?w") (auto simp: hd_rev [symmetric])
    have "successively (\<lambda>a b. (a, b) \<in> set edges) (rev ?w)" using w(1) by (simp add: successively_rev)
    moreover have "last (rev ?w) = node" using w by (simp add: last_rev)
    moreover have "(node, target) \<in> set edges" using s adj by blast
    ultimately have "successively (\<lambda>a b. (a, b) \<in> set edges) (rev ?w @ [target])"
      using w(2) by (simp add: successively_append_iff)
    then show ?thesis using path r by auto
  next
    case (Some x)
    obtain parent' stack' where x: "x = (parent', stack')" by (cases x)
    note s = scan_Some [OF Some [unfolded x]]
    have "search edges target parent' stack' = (True, path)" using "2.prems"(1) Some x by simp
    moreover have "parents_ok (set edges) root parent'" using s adj node 2 by blast
    moreover have "set stack' \<subseteq> fst ` set parent'" using s "2.prems"(3) by auto
    ultimately show ?thesis using "2.IH" Some x by blast
  qed
qed simp

lemma search_False:
  assumes "search edges target parent stack = (False, path)" "expanded edges target parent stack"
  shows "path = [] \<and> (\<exists>S. fst ` set parent \<subseteq> S \<and> target \<notin> S \<and> (\<forall>(n, m) \<in> set edges. n \<in> S \<longrightarrow> m \<in> S))"
  using assms
proof (induction edges target parent stack rule: search.induct)
  case (1 edges target parent)
  then show ?case
    by (intro conjI exI [of _ "fst ` set parent"]) (auto simp: expanded_def set_adjacency)
next
  case (2 edges target parent node stack)
  let ?adj = "adjacency edges node"
  obtain parent' stack' where x: "scan target node ?adj parent stack = Some (parent', stack')"
    using "2.prems"(1) by (cases "scan target node ?adj parent stack") (auto simp: Let_def)
  note s = scan_Some [OF x, of "{}" "''''"]
  have e: "node \<in> fst ` set parent" "set stack \<subseteq> fst ` set parent" "target \<notin> fst ` set parent"
    "\<forall>n \<in> fst ` set parent - insert node (set stack). set (adjacency edges n) \<subseteq> fst ` set parent"
    using "2.prems"(2) unfolding expanded_def by simp_all
  have p': "fst ` set parent' = fst ` set parent \<union> set ?adj"
    "set stack' = set stack \<union> (set ?adj - fst ` set parent)" "target \<notin> set ?adj"
    using s by blast+
  have "target \<notin> fst ` set parent'" unfolding p'(1) using e(3) p'(3) by simp
  note sets = expand_sets [where A = "\<lambda>n. set (adjacency edges n)", OF e(1,2,4) p'(1,2)]
  have "expanded edges target parent' stack'"
    unfolding expanded_def
    by (intro conjI sets \<open>target \<notin> fst ` set parent'\<close>)
  moreover have "search edges target parent' stack' = (False, path)"
    using "2.prems"(1) x by simp
  ultimately obtain S where S: "path = []" "fst ` set parent' \<subseteq> S" "target \<notin> S"
    "\<forall>(n, m) \<in> set edges. n \<in> S \<longrightarrow> m \<in> S"
    using "2.IH" [OF x refl] by blast
  have "fst ` set parent \<subseteq> S" using S(2) unfolding p'(1) by simp
  with S show ?case by (intro conjI exI [of _ S]) simp_all
qed

lemma closed_reachable:
  "(a, b) \<in> (set edges)\<^sup>* \<Longrightarrow> a \<in> S \<Longrightarrow> \<forall>(n, m) \<in> set edges. n \<in> S \<longrightarrow> m \<in> S \<Longrightarrow> b \<in> S"
  by (induction rule: rtrancl_induct) auto

lemma successively_reachable:
  "successively (\<lambda>a b. (a, b) \<in> E) (x # xs) \<Longrightarrow> y \<in> set (x # xs) \<Longrightarrow> (x, y) \<in> E\<^sup>*"
  by (induction xs arbitrary: x) (auto intro: converse_rtrancl_into_rtrancl)

lemma cycle_detected_facts:
  "(fst (detect_cycle_incremental edges (f, t)) \<longleftrightarrow> (t, f) \<in> (set edges)\<^sup>*) \<and>
   (\<forall>path. detect_cycle_incremental edges (f, t) = (True, path) \<longrightarrow>
      hd path = f \<and> path ! 1 = t \<and> last path = f \<and>
      successively (\<lambda>a b. (a, b) \<in> set edges) (tl path)) \<and>
   (\<forall>path. detect_cycle_incremental edges (f, t) = (False, path) \<longrightarrow> path = [])"
proof (cases "f = t")
  case True
  then show ?thesis by (simp add: detect_cycle_incremental_def)
next
  case False
  obtain b path where r: "search edges f [(t, None)] [t] = (b, path)"
    by (cases "search edges f [(t, None)] [t]")
  have d: "detect_cycle_incremental edges (f, t) = (b, path)"
    using False r by (simp add: detect_cycle_incremental_def)
  show ?thesis
  proof (cases b)
    case True
    obtain mid where m: "path = f # t # mid @ [f]"
      "successively (\<lambda>a b. (a, b) \<in> set edges) (t # mid @ [f])"
      using search_True [of edges f "[(t, None)]" "[t]" path t] r True by auto
    then have "(t, f) \<in> (set edges)\<^sup>*" using successively_reachable by force
    with d m True show ?thesis by auto
  next
    case b: False
    obtain S where S: "path = []" "t \<in> S" "f \<notin> S" "\<forall>(n, m) \<in> set edges. n \<in> S \<longrightarrow> m \<in> S"
      using search_False [of edges f "[(t, None)]" "[t]" path] r b False
      by (auto simp: expanded_def)
    then have "(t, f) \<notin> (set edges)\<^sup>*" using closed_reachable by metis
    with d S b show ?thesis by auto
  qed
qed

lemma accepted_edge_acyclic:
  assumes "acyclic (set edges)" "\<not> fst (detect_cycle_incremental edges (f, t))"
  shows "acyclic (insert (f, t) (set edges))"
  using assms cycle_detected_facts [of edges f t] by (simp add: acyclic_insert)

text \<open>
  C32: The detector reports a cycle exactly when the candidate closes one: when the upstream end
  already reaches the blocked end along the existing edges (or is the same item). The reported path
  is a real one: it starts with the candidate edge, follows existing edges only, and ends where it
  began. A candidate that is not reported keeps the
  dependency graph acyclic.
\<close>

theorem cycle_detected_iff:
  "(fst (detect_cycle_incremental edges (f, t)) \<longleftrightarrow> (t, f) \<in> (set edges)\<^sup>*) \<and>
   (\<forall>path. detect_cycle_incremental edges (f, t) = (True, path) \<longrightarrow>
      hd path = f \<and> path ! 1 = t \<and> last path = f \<and>
      successively (\<lambda>a b. (a, b) \<in> set edges) (tl path)) \<and>
   (acyclic (set edges) \<longrightarrow> \<not> fst (detect_cycle_incremental edges (f, t)) \<longrightarrow>
      acyclic (insert (f, t) (set edges)))"
  using cycle_detected_facts [of edges f t] accepted_edge_acyclic [of edges f t] by blast

lemma cycle_detected_iff_witness:
  "detect_cycle_incremental [(''b'', ''c''), (''c'', ''a'')] (''a'', ''b'') = (True, [''a'', ''b'', ''c'', ''a'']) \<and>
   (''b'', ''a'') \<in> {(''b'', ''c''), (''c'', ''a'')}\<^sup>*"
proof -
  have d: "detect_cycle_incremental [(''b'', ''c''), (''c'', ''a'')] (''a'', ''b'') = (True, [''a'', ''b'', ''c'', ''a''])"
    by (simp add: detect_cycle_incremental_def adjacency_def)
  then show ?thesis
    using cycle_detected_iff [of "[(''b'', ''c''), (''c'', ''a'')]" "''a''" "''b''"] by simp
qed

section \<open>The upstream closure\<close>

fun scan_seen :: "string list \<Rightarrow> string list \<Rightarrow> string list \<Rightarrow> string list \<times> string list" where
  "scan_seen [] seen stack = (seen, stack)"
| "scan_seen (n # ns) seen stack =
     (if n \<in> set seen then scan_seen ns seen stack else scan_seen ns (n # seen) (n # stack))"

lemma scan_seen_decreases:
  assumes "scan_seen ns seen stack = (seen', stack')" "set ns \<subseteq> node_set edges"
  shows "2 * card (node_set edges - set seen') + length stack' \<le> 2 * card (node_set edges - set seen) + length stack"
  using assms
proof (induction ns seen stack rule: scan_seen.induct)
  case (2 n ns seen stack)
  show ?case
  proof (cases "n \<in> set seen")
    case False
    then have "card (node_set edges - set (n # seen)) < card (node_set edges - set seen)"
      using 2 by (intro psubset_card_mono) auto
    then show ?thesis using 2 False by auto
  qed (use 2 in auto)
qed simp

function (sequential) reach :: "(string \<times> string) list \<Rightarrow> string list \<Rightarrow> string list \<Rightarrow> string list" where
  "reach edges seen [] = seen"
| "reach edges seen (node # stack) =
     (case scan_seen (adjacency edges node) seen stack of (seen', stack') \<Rightarrow> reach edges seen' stack')"
  by pat_completeness auto
termination
  by (relation "measure (\<lambda>(edges, seen, stack). 2 * card (node_set edges - set seen) + length stack)")
     (auto split: prod.splits dest: scan_seen_decreases [OF _ adjacency_nodes] simp: less_Suc_eq_le)

definition blocking_reachable_set :: "(string \<times> string) list \<Rightarrow> string \<Rightarrow> string set" where
  "blocking_reachable_set existing_edges origin = set (reach existing_edges [] [origin])"

lemma scan_seen_sets:
  "scan_seen ns seen stack = (seen', stack') \<Longrightarrow>
   set seen' = set seen \<union> set ns \<and> set stack' = set stack \<union> (set ns - set seen)"
  by (induction ns seen stack rule: scan_seen.induct) (auto split: if_splits)

lemma reach_closure:
  assumes "set seen \<subseteq> (set edges)\<^sup>+ `` {origin}" "set stack \<subseteq> insert origin (set seen)"
    "\<forall>n \<in> insert origin (set seen) - set stack. set (adjacency edges n) \<subseteq> set seen"
  shows "set (reach edges seen stack) = (set edges)\<^sup>+ `` {origin}"
  using assms
proof (induction edges seen stack rule: reach.induct)
  case (1 edges seen)
  have "b \<in> set seen" if "(origin, b) \<in> (set edges)\<^sup>+" for b
    using that
  proof (induction rule: trancl_induct)
    case (base y)
    then show ?case using 1 by (auto simp: set_adjacency)
  next
    case (step y z)
    then show ?case using 1 by (auto simp: set_adjacency)
  qed
  with 1 show ?case by auto
next
  case (2 edges seen node stack)
  let ?A = "set (adjacency edges node)"
  obtain seen' stack' where x: "scan_seen (adjacency edges node) seen stack = (seen', stack')"
    by (cases "scan_seen (adjacency edges node) seen stack")
  have s: "set seen' = set seen \<union> ?A" "set stack' = set stack \<union> (?A - set seen)"
    using scan_seen_sets [OF x] by blast+
  have node: "node = origin \<or> (origin, node) \<in> (set edges)\<^sup>+" using "2.prems"(1,2) by auto
  have "?A \<subseteq> (set edges)\<^sup>+ `` {origin}"
    using node by (auto simp: set_adjacency intro: trancl_into_trancl)
  then have 1: "set seen' \<subseteq> (set edges)\<^sup>+ `` {origin}" using s(1) "2.prems"(1) by blast
  have 2: "set stack' \<subseteq> insert origin (set seen')" using s "2.prems"(2) by auto
  have 3: "\<forall>n \<in> insert origin (set seen') - set stack'. set (adjacency edges n) \<subseteq> set seen'"
  proof
    fix n assume n: "n \<in> insert origin (set seen') - set stack'"
    show "set (adjacency edges n) \<subseteq> set seen'"
    proof (cases "n = node")
      case False
      then have "n \<in> insert origin (set seen) - set (node # stack)" using n s by auto
      then show ?thesis using "2.prems"(3) s(1) by blast
    qed (use s(1) in blast)
  qed
  from "2.IH" [OF x [symmetric] 1 2 3] show ?case using x by simp
qed

text \<open>
  C36: The upstream closure of an item is the set of items reachable from it in one step or more;
  the item itself belongs to it exactly when it lies on a cycle.
\<close>

theorem upstream_closure:
  "blocking_reachable_set edges origin = {n. (origin, n) \<in> (set edges)\<^sup>+} \<and>
   (acyclic (set edges) \<longrightarrow> origin \<notin> blocking_reachable_set edges origin)"
proof -
  have "blocking_reachable_set edges origin = (set edges)\<^sup>+ `` {origin}"
    unfolding blocking_reachable_set_def by (rule reach_closure) auto
  then show ?thesis by (auto simp: acyclic_def)
qed

lemma upstream_closure_witness:
  "blocking_reachable_set [(''a'', ''b''), (''b'', ''c'')] ''a'' = {''b'', ''c''} \<and>
   (''a'', ''c'') \<in> {(''a'', ''b''), (''b'', ''c'')}\<^sup>+"
proof -
  have "blocking_reachable_set [(''a'', ''b''), (''b'', ''c'')] ''a'' = {''b'', ''c''}"
    by (auto simp: blocking_reachable_set_def adjacency_def)
  then show ?thesis using upstream_closure [of "[(''a'', ''b''), (''b'', ''c'')]" "''a''"] by auto
qed

text \<open>On a cyclic graph the origin is included, although the function's comment says it never is.\<close>

lemma upstream_closure_includes_origin:
  "''a'' \<in> blocking_reachable_set [(''a'', ''b''), (''b'', ''a'')] ''a''"
  by (simp add: blocking_reachable_set_def adjacency_def)

end
