(* ===== verification/Relations.thy ===== *)
theory Relations
  imports WorkItemInvariant CycleDetector
begin

text \<open>
  The dependency commands (\<open>_compile_CreateRelation\<close>, \<open>_compile_ResolveDependency\<close> and
  \<open>_compile_RemoveRelation\<close> of \<open>app/task_space/compiler.py\<close>): edges between work items with an
  identity derived from what they connect, the check that the blocking edges stay acyclic, the
  confirmation that an edge is no longer needed, and removal.
\<close>

section \<open>The commands\<close>

definition relation_rows :: "overlay \<Rightarrow> string \<Rightarrow> row list res" where
  "relation_rows ov space_id =
     rbind (ov_rows ov ''relation'') (\<lambda>rows. Inr (filter (\<lambda>r. str_of (fld r ''space_id'') = space_id) rows))"

definition blocking_edges :: "row list \<Rightarrow> (string \<times> string) list" where
  "blocking_edges rows =
     map (\<lambda>r. (str_of (fld r ''from_work_item_id''), str_of (fld r ''to_work_item_id'')))
       (filter (\<lambda>r. str_of (fld r ''relation_type'') \<in> set BLOCKING_RELATION_TYPES) rows)"

fun require_relation_endpoints :: "overlay \<Rightarrow> string list \<Rightarrow> unit res" where
  "require_relation_endpoints ov [] = Inr ()"
| "require_relation_endpoints ov (i # is) =
     rbind (require_row ov ''work_item'' (JStr i)) (\<lambda>r.
     rbind (require (fld r ''archived_at'' = JNull)
              (violation ''archived_work_item_immutable'' [(''workItemId'', JStr i)] False)) (\<lambda>_.
     require_relation_endpoints ov is))"

record edge =
  eg_space :: string
  eg_from :: string
  eg_to :: string
  eg_type :: string
  eg_id :: string

definition relation_identity :: "ctx \<Rightarrow> request \<Rightarrow> edge res" where
  "relation_identity cx rq =
     rbind (pget (rq_payload rq) ''space_id'') (\<lambda>space_id.
     rbind (pget (rq_payload rq) ''from_work_item_id'') (\<lambda>from_id.
     rbind (pget (rq_payload rq) ''to_work_item_id'') (\<lambda>to_id.
     rbind (pget (rq_payload rq) ''relation_type'') (\<lambda>relation_type.
     Inr \<lparr>eg_space = str_of space_id, eg_from = str_of from_id, eg_to = str_of to_id,
          eg_type = str_of relation_type,
          eg_id = relation_id (cx_digests cx) (str_of space_id) (str_of from_id) (str_of to_id)
                    (str_of relation_type)\<rparr>))))"

definition cycle_violation :: "edge \<Rightarrow> string list \<Rightarrow> (string \<times> json) list \<Rightarrow> exc" where
  "cycle_violation e path extra = violation ''cycle_detected''
     ([(''cycle_path'', JList (map JStr path)),
       (''conflicting_edge'', JList [JStr (eg_from e), JStr (eg_to e)])] @ extra) False"

definition type_violation :: "edge \<Rightarrow> exc" where
  "type_violation e = violation ''payload_field_not_allowed''
     [(''field'', JStr ''relation_type''), (''value'', JStr (eg_type e))] False"

definition new_relation :: "edge \<Rightarrow> string \<Rightarrow> row" where
  "new_relation e now = dict
     [(''id'', JStr (eg_id e)),
      (''space_id'', JStr (eg_space e)),
      (''from_work_item_id'', JStr (eg_from e)),
      (''to_work_item_id'', JStr (eg_to e)),
      (''relation_type'', JStr (eg_type e)),
      (''resolution'', JNull),
      (''resolved_at'', JNull),
      (''created_at'', JStr now),
      (''updated_at'', JStr now),
      (''version'', JInt 1)]"

definition insert_relation :: "ctx \<Rightarrow> request \<Rightarrow> edge \<Rightarrow> command res" where
  "insert_relation cx rq e =
     rbind (relation_rows (cx_overlay cx) (eg_space e)) (\<lambda>rows.
     let cycle = detect_cycle_incremental (blocking_edges rows) (eg_from e, eg_to e) in
     rbind (require (\<not> fst cycle) (cycle_violation e (snd cycle) [])) (\<lambda>_.
     let now = cx_now cx; after = new_relation e now in
     rbind (DbMutationPlan ''relations'' (dict [(''id'', JStr (eg_id e))]) Insert None None (Some after)) (\<lambda>plan.
     rbind (SyncEventPlan ''relation'' (eg_id e) EvCreate after (JInt 1) (JStr now)) (\<lambda>event.
     cx_command cx rq [plan] [event] after None))))"

definition compile_CreateRelation :: "ctx \<Rightarrow> request \<Rightarrow> command res" where
  "compile_CreateRelation cx rq =
     rbind (relation_identity cx rq) (\<lambda>e.
     rbind (require (eg_type e \<in> set RELATION_TYPES) (type_violation e)) (\<lambda>_.
     rbind (require_relation_endpoints (cx_overlay cx) [eg_from e, eg_to e]) (\<lambda>_.
     rbind (require (eg_from e \<noteq> eg_to e)
              (cycle_violation e [eg_from e, eg_from e] [(''reason'', JStr ''self_loop'')])) (\<lambda>_.
     case ov_row (cx_overlay cx) ''relation'' [JStr (eg_id e)] of
       Some existing \<Rightarrow> cx_command cx rq [] [] existing None
     | None \<Rightarrow> insert_relation cx rq e))))"

definition relation_row :: "overlay \<Rightarrow> edge \<Rightarrow> row res" where
  "relation_row ov e =
     (case ov_row ov ''relation'' [JStr (eg_id e)] of
        None \<Rightarrow> violate ''not_found'' [(''entity_type'', JStr ''relation''), (''id'', JStr (eg_id e))] False
      | Some r \<Rightarrow> Inr r)"

definition confirm_relation :: "ctx \<Rightarrow> request \<Rightarrow> edge \<Rightarrow> row \<Rightarrow> command res" where
  "confirm_relation cx rq e before =
     rbind (monotonic_updated_at (str_of (fld before ''updated_at'')) (cx_now cx)) (\<lambda>now.
     let after = stamped before
           [(''resolution'', JStr RELATION_RESOLUTION_CONFIRMED_NOT_REQUIRED), (''resolved_at'', JStr now)] now in
     rbind (DbMutationPlan ''relations'' (dict [(''id'', JStr (eg_id e))]) Update
              (rq_expected_version rq) (Some before) (Some after)) (\<lambda>plan.
     rbind (SyncEventPlan ''relation'' (eg_id e) EvUpdate after
              (JInt (int_of (fld after ''version''))) (JStr now)) (\<lambda>event.
     cx_command cx rq [plan] [event] after None)))"

definition compile_ResolveDependency :: "ctx \<Rightarrow> request \<Rightarrow> command res" where
  "compile_ResolveDependency cx rq =
     rbind (relation_identity cx rq) (\<lambda>e.
     rbind (require (eg_type e \<in> set BLOCKING_RELATION_TYPES) (type_violation e)) (\<lambda>_.
     rbind (relation_row (cx_overlay cx) e) (\<lambda>before.
     rbind (require_expected_version before (rq_expected_version rq)) (\<lambda>_.
     if fld before ''resolution'' \<noteq> JNull then cx_command cx rq [] [] before None
     else confirm_relation cx rq e before))))"

text \<open>The plan of a removal carries the stored version itself as the expected one.\<close>

definition stored_version :: "row \<Rightarrow> int option res" where
  "stored_version r =
     (case fld r ''version'' of JNull \<Rightarrow> Inr None | JInt n \<Rightarrow> Inr (Some n)
      | _ \<Rightarrow> Inl (ValueErr ''expected_version must be null or a nonnegative integer''))"

definition compile_RemoveRelation :: "ctx \<Rightarrow> request \<Rightarrow> command res" where
  "compile_RemoveRelation cx rq =
     rbind (relation_identity cx rq) (\<lambda>e.
     rbind (relation_row (cx_overlay cx) e) (\<lambda>before.
     rbind (require_expected_version before (rq_expected_version rq)) (\<lambda>_.
     rbind (require_relation_endpoints (cx_overlay cx) [eg_from e, eg_to e]) (\<lambda>_.
     let now = cx_now cx in
     rbind (stored_version before) (\<lambda>version.
     rbind (DbMutationPlan ''relations'' (dict [(''id'', JStr (eg_id e))]) Delete version (Some before) None)
       (\<lambda>plan.
     rbind (SyncEventPlan ''relation'' (eg_id e) EvDelete (dict [(''deleted_at'', JStr now)])
              (JInt (int_of (fld before ''version'') + 1)) (JStr now)) (\<lambda>event.
     cx_command cx rq [plan] [event] before None)))))))"

section \<open>The blocking graph\<close>

definition blocking_graph :: "overlay \<Rightarrow> string \<Rightarrow> (string \<times> string) set" where
  "blocking_graph ov space_id =
     {(str_of (fld r ''from_work_item_id''), str_of (fld r ''to_work_item_id'')) | r ident.
        ov_row ov ''relation'' ident = Some r \<and> str_of (fld r ''space_id'') = space_id \<and>
        str_of (fld r ''relation_type'') \<in> set BLOCKING_RELATION_TYPES}"

definition dependencies_ok :: "overlay \<Rightarrow> bool" where
  "dependencies_ok ov = (\<forall>space_id. acyclic (blocking_graph ov space_id))"

definition relations_ok :: "overlay \<Rightarrow> bool" where
  "relations_ok ov = (\<forall>ident r. ov_row ov ''relation'' ident = Some r \<longrightarrow> (\<exists>v. fld r ''version'' = JInt v))"

lemma blocking_edges_graph:
  assumes "overlay_wf ov" "relation_rows ov space_id = Inr rows"
  shows "set (blocking_edges rows) = blocking_graph ov space_id"
proof -
  obtain all where all: "ov_rows ov ''relation'' = Inr all"
    "rows = filter (\<lambda>r. str_of (fld r ''space_id'') = space_id) all"
    using assms(2) by (auto simp: relation_rows_def rbind_Inr)
  note mem = ov_rows_iff [OF assms(1) all(1)]
  show ?thesis
  proof
    show "set (blocking_edges rows) \<subseteq> blocking_graph ov space_id"
      using mem by (auto simp: blocking_edges_def blocking_graph_def all(2))
    show "blocking_graph ov space_id \<subseteq> set (blocking_edges rows)"
      using mem by (auto simp: blocking_edges_def blocking_graph_def all(2) image_iff)
  qed
qed

lemma blocking_graph_new:
  assumes "ov_row ov ''relation'' [i] = None"
  shows "blocking_graph (with_row ov ''relation'' [i] r) space_id \<subseteq>
    (if str_of (fld r ''space_id'') = space_id
     then insert (str_of (fld r ''from_work_item_id''), str_of (fld r ''to_work_item_id'')) (blocking_graph ov space_id)
     else blocking_graph ov space_id)"
  unfolding blocking_graph_def by auto

lemma blocking_graph_same:
  assumes "ov_row ov ''relation'' [i] = Some r"
    "\<forall>k \<in> {''space_id'', ''from_work_item_id'', ''to_work_item_id'', ''relation_type''}. fld r' k = fld r k"
  shows "blocking_graph (with_row ov ''relation'' [i] r') space_id \<subseteq> blocking_graph ov space_id"
  unfolding blocking_graph_def using assms by auto

lemma blocking_graph_removed: "blocking_graph (without_row ov ''relation'' ident) space_id \<subseteq> blocking_graph ov space_id"
  unfolding blocking_graph_def by auto

lemma dependencies_mono:
  "dependencies_ok ov \<Longrightarrow> (\<And>space_id. blocking_graph ov' space_id \<subseteq> blocking_graph ov space_id) \<Longrightarrow> dependencies_ok ov'"
  unfolding dependencies_ok_def by (meson acyclic_subset)

definition dependency_space :: "overlay \<Rightarrow> bool" where
  "dependency_space ov = (builtin_space ov \<and> relations_ok ov \<and> dependencies_ok ov)"

section \<open>What the commands do\<close>

lemma new_relation_facts:
  "fmdom' (new_relation e now) = set (field_names relation_spec)" "row_ok (new_relation e now)"
  "fld (new_relation e now) ''id'' = JStr (eg_id e)" "fld (new_relation e now) ''version'' = JInt 1"
  "fld (new_relation e now) ''space_id'' = JStr (eg_space e)"
  "fld (new_relation e now) ''from_work_item_id'' = JStr (eg_from e)"
  "fld (new_relation e now) ''to_work_item_id'' = JStr (eg_to e)"
  "fld (new_relation e now) ''relation_type'' = JStr (eg_type e)"
  by (auto simp: new_relation_def dict_def field_names_builtin row_ok_fmupd)

text \<open>A creation either finds the edge and does nothing, or inserts an edge that closes no cycle.\<close>

lemma insert_relation_Inr:
  assumes "builtin_space (cx_overlay cx)" "ov_row (cx_overlay cx) ''relation'' [JStr (eg_id e)] = None"
    "insert_relation cx rq e = Inr c"
  shows "(eg_to e, eg_from e) \<notin> (blocking_graph (cx_overlay cx) (eg_space e))\<^sup>*"
    "ov_apply (cx_overlay cx) c =
       Inr (with_row (cx_overlay cx) ''relation'' [JStr (eg_id e)] (new_relation e (cx_now cx)))"
    "builtin_space (with_row (cx_overlay cx) ''relation'' [JStr (eg_id e)] (new_relation e (cx_now cx)))"
proof -
  let ?ov = "cx_overlay cx" and ?after = "new_relation e (cx_now cx)"
  have wf: "overlay_wf ?ov" using assms(1) by (simp add: builtin_space_def)
  obtain rows plan event where rows: "relation_rows ?ov (eg_space e) = Inr rows"
    "\<not> fst (detect_cycle_incremental (blocking_edges rows) (eg_from e, eg_to e))"
    and plan: "DbMutationPlan ''relations'' (dict [(''id'', JStr (eg_id e))]) Insert None None (Some ?after) = Inr plan"
    and event: "SyncEventPlan ''relation'' (eg_id e) EvCreate ?after (JInt 1) (JStr (cx_now cx)) = Inr event"
    and c: "cx_command cx rq [plan] [event] ?after None = Inr c"
    using assms(3) unfolding insert_relation_def Let_def rbind_Inr require_Inr by blast
  show "(eg_to e, eg_from e) \<notin> (blocking_graph ?ov (eg_space e))\<^sup>*"
    using rows(2) cycle_detected_facts [of "blocking_edges rows" "eg_from e" "eg_to e"]
    by (simp add: blocking_edges_graph [OF wf rows(1)])
  note ins = insert_command [OF assms(1) builtin_space_get(3) [OF assms(1)] relation_keys tables(3) assms(2)
      plan event _ c new_relation_facts(1,3,2)]
  show "ov_apply ?ov c = Inr (with_row ?ov ''relation'' [JStr (eg_id e)] ?after)"
    "builtin_space (with_row ?ov ''relation'' [JStr (eg_id e)] ?after)" using ins by simp_all
qed

lemma CreateRelation_Inr:
  assumes "compile_CreateRelation cx rq = Inr c"
  obtains (existing) e existing where "relation_identity cx rq = Inr e"
    "ov_row (cx_overlay cx) ''relation'' [JStr (eg_id e)] = Some existing"
    "cx_command cx rq [] [] existing None = Inr c"
  | (inserted) e where "relation_identity cx rq = Inr e" "eg_from e \<noteq> eg_to e"
    "ov_row (cx_overlay cx) ''relation'' [JStr (eg_id e)] = None" "insert_relation cx rq e = Inr c"
proof -
  obtain e where e: "relation_identity cx rq = Inr e" "eg_from e \<noteq> eg_to e"
    and c: "(case ov_row (cx_overlay cx) ''relation'' [JStr (eg_id e)] of
       Some existing \<Rightarrow> cx_command cx rq [] [] existing None
     | None \<Rightarrow> insert_relation cx rq e) = Inr c"
    using assms unfolding compile_CreateRelation_def rbind_Inr require_Inr by blast
  show thesis
    using c e existing inserted by (cases "ov_row (cx_overlay cx) ''relation'' [JStr (eg_id e)]") auto
qed

lemma CreateRelation_keeps:
  assumes "dependency_space (cx_overlay cx)" "compile_CreateRelation cx rq = Inr c"
  shows "keeps dependency_space (cx_overlay cx) c"
  using assms(2)
proof (cases rule: CreateRelation_Inr)
  case (existing e existing)
  from existing(3) assms(1) show ?thesis by (rule keeps_no_effect)
next
  case (inserted e)
  let ?ov = "cx_overlay cx" and ?r = "new_relation e (cx_now cx)"
  let ?ov' = "with_row ?ov ''relation'' [JStr (eg_id e)] ?r"
  have b: "builtin_space ?ov" and v: "relations_ok ?ov" and d: "dependencies_ok ?ov"
    using assms(1) by (simp_all add: dependency_space_def)
  note ins = insert_relation_Inr [OF b inserted(3,4)]
  have "acyclic (blocking_graph ?ov' s)" for s
  proof -
    have "blocking_graph ?ov' s \<subseteq> (if eg_space e = s then insert (eg_from e, eg_to e) (blocking_graph ?ov s)
        else blocking_graph ?ov s)"
      using blocking_graph_new [OF inserted(3), of ?r s] unfolding new_relation_facts str_of.simps .
    moreover have "acyclic (if eg_space e = s then insert (eg_from e, eg_to e) (blocking_graph ?ov s)
        else blocking_graph ?ov s)"
      using d ins(1) by (auto simp: dependencies_ok_def acyclic_insert)
    ultimately show ?thesis by (rule acyclic_subset [rotated])
  qed
  moreover have "relations_ok ?ov'" using v by (simp add: relations_ok_def new_relation_facts)
  ultimately show ?thesis using ins(2,3) by (auto simp: keeps_def dependency_space_def dependencies_ok_def)
qed

text \<open>A confirmation either finds it made and does nothing, or marks the edge.\<close>

lemma relation_row_Inr [result_simps]:
  "relation_row ov e = Inr r \<longleftrightarrow> ov_row ov ''relation'' [JStr (eg_id e)] = Some r"
  by (simp add: relation_row_def split: option.splits)

definition confirmed :: "row \<Rightarrow> string \<Rightarrow> row" where
  "confirmed before now = stamped before
     [(''resolution'', JStr RELATION_RESOLUTION_CONFIRMED_NOT_REQUIRED), (''resolved_at'', JStr now)] now"

lemma confirm_relation_Inr:
  assumes "builtin_space (cx_overlay cx)" "relations_ok (cx_overlay cx)"
    "ov_row (cx_overlay cx) ''relation'' [JStr (eg_id e)] = Some before"
    "rq_expected_version rq = Some (int_of (fld before ''version''))" "confirm_relation cx rq e before = Inr c"
  shows "\<exists>now. ov_apply (cx_overlay cx) c =
      Inr (with_row (cx_overlay cx) ''relation'' [JStr (eg_id e)] (confirmed before now)) \<and>
    builtin_space (with_row (cx_overlay cx) ''relation'' [JStr (eg_id e)] (confirmed before now))"
proof -
  obtain v where v: "fld before ''version'' = JInt v" using assms(2,3) by (auto simp: relations_ok_def)
  note get = builtin_space_get(3) [OF assms(1)]
  note cols = table_row [OF assms(1) get relation_keys assms(3)]
  obtain now plan event where
    plan: "DbMutationPlan ''relations'' (dict [(''id'', JStr (eg_id e))]) Update
      (Some (int_of (fld before ''version''))) (Some before) (Some (confirmed before now)) = Inr plan"
    and event: "SyncEventPlan ''relation'' (eg_id e) EvUpdate (confirmed before now)
                (JInt (int_of (fld (confirmed before now) ''version''))) (JStr now) = Inr event"
    and c: "cx_command cx rq [plan] [event] (confirmed before now) None = Inr c"
    using assms(5) unfolding confirm_relation_def Let_def confirmed_def [symmetric] rbind_Inr assms(4) by blast
  have "fmdom' (confirmed before now) = fmdom' before"
    unfolding confirmed_def using cols(1) by (intro fmdom_stamped) (auto simp: field_names_builtin)
  moreover have "row_ok (confirmed before now)" unfolding confirmed_def by (intro row_ok_stamped cols(3)) simp
  moreover have "fld (confirmed before now) ''id'' = fld before ''id''" by (simp add: confirmed_def fld_stamped)
  ultimately show ?thesis
    using update_command [OF assms(1) get relation_keys tables(3) assms(3) v plan event _ c] by blast
qed

lemma ResolveDependency_Inr:
  assumes "compile_ResolveDependency cx rq = Inr c"
  obtains e before where "relation_identity cx rq = Inr e"
    "ov_row (cx_overlay cx) ''relation'' [JStr (eg_id e)] = Some before"
    "rq_expected_version rq = Some (int_of (fld before ''version''))"
    "if fld before ''resolution'' \<noteq> JNull then cx_command cx rq [] [] before None = Inr c
     else confirm_relation cx rq e before = Inr c"
  using assms unfolding compile_ResolveDependency_def
  by (auto simp: rbind_Inr require_expected_version_Inr relation_row_Inr split: if_splits)

lemma ResolveDependency_keeps:
  assumes "dependency_space (cx_overlay cx)" "compile_ResolveDependency cx rq = Inr c"
  shows "keeps dependency_space (cx_overlay cx) c"
  using assms(2)
proof (cases rule: ResolveDependency_Inr)
  case (1 e before)
  let ?ov = "cx_overlay cx"
  have b: "builtin_space ?ov" and v: "relations_ok ?ov" and d: "dependencies_ok ?ov"
    using assms(1) by (simp_all add: dependency_space_def)
  show ?thesis
  proof (cases "fld before ''resolution'' = JNull")
    case True
    then have "confirm_relation cx rq e before = Inr c" using 1(4) by simp
    then obtain now where c: "ov_apply ?ov c = Inr (with_row ?ov ''relation'' [JStr (eg_id e)] (confirmed before now))"
      "builtin_space (with_row ?ov ''relation'' [JStr (eg_id e)] (confirmed before now))"
      using confirm_relation_Inr [OF b v 1(2,3)] by blast
    have "dependencies_ok (with_row ?ov ''relation'' [JStr (eg_id e)] (confirmed before now))"
      by (rule dependencies_mono [OF d blocking_graph_same [OF 1(2)]]) (simp add: confirmed_def fld_stamped)
    moreover have "relations_ok (with_row ?ov ''relation'' [JStr (eg_id e)] (confirmed before now))"
      using v by (simp add: relations_ok_def confirmed_def fld_stamped)
    ultimately show ?thesis using c by (auto simp: keeps_def dependency_space_def)
  next
    case False
    then have "cx_command cx rq [] [] before None = Inr c" using 1(4) by simp
    then show ?thesis using assms(1) by (rule keeps_no_effect)
  qed
qed

text \<open>A removal deletes the edge and leaves a tombstone.\<close>

lemma RemoveRelation_Inr:
  assumes "builtin_space (cx_overlay cx)" "relations_ok (cx_overlay cx)" "compile_RemoveRelation cx rq = Inr c"
  shows "\<exists>e. relation_identity cx rq = Inr e \<and>
    ov_row (cx_overlay cx) ''relation'' [JStr (eg_id e)] \<noteq> None \<and>
    ov_apply (cx_overlay cx) c = Inr ((without_row (cx_overlay cx) ''relation'' [JStr (eg_id e)])
      \<lparr>ov_tombstones := insert (effective_sync_entity_type relation_spec, eg_id e) (ov_tombstones (cx_overlay cx))\<rparr>)"
proof -
  obtain e before version plan event where e: "relation_identity cx rq = Inr e"
    and row: "ov_row (cx_overlay cx) ''relation'' [JStr (eg_id e)] = Some before"
    and version: "stored_version before = Inr version"
    and plan: "DbMutationPlan ''relations'' (dict [(''id'', JStr (eg_id e))]) Delete version (Some before) None = Inr plan"
    and event: "SyncEventPlan ''relation'' (eg_id e) EvDelete (dict [(''deleted_at'', JStr (cx_now cx))])
              (JInt (int_of (fld before ''version'') + 1)) (JStr (cx_now cx)) = Inr event"
    and c: "cx_command cx rq [plan] [event] before None = Inr c"
    using assms(3) unfolding compile_RemoveRelation_def Let_def rbind_Inr relation_row_Inr by blast
  obtain v where v: "fld before ''version'' = JInt v" using assms(2) row by (auto simp: relations_ok_def)
  then have "version = Some v" using version by (simp add: stored_version_def)
  with delete_command [OF assms(1) builtin_space_get(3) [OF assms(1)] relation_keys tables(3) row v _ event c]
    plan e row show ?thesis by auto
qed

lemma RemoveRelation_keeps:
  assumes "dependency_space (cx_overlay cx)" "compile_RemoveRelation cx rq = Inr c"
  shows "keeps dependency_space (cx_overlay cx) c"
proof -
  let ?ov = "cx_overlay cx"
  have b: "builtin_space ?ov" and v: "relations_ok ?ov" and d: "dependencies_ok ?ov"
    using assms(1) by (simp_all add: dependency_space_def)
  obtain e :: edge where c: "ov_apply ?ov c = Inr ((without_row ?ov ''relation'' [JStr (eg_id e)])
      \<lparr>ov_tombstones := insert (effective_sync_entity_type relation_spec, eg_id e) (ov_tombstones ?ov)\<rparr>)"
    using RemoveRelation_Inr [OF b v assms(2)] by blast
  let ?ov' = "(without_row ?ov ''relation'' [JStr (eg_id e)])
      \<lparr>ov_tombstones := insert (effective_sync_entity_type relation_spec, eg_id e) (ov_tombstones ?ov)\<rparr>"
  have "dependencies_ok ?ov'"
  proof (rule dependencies_mono [OF d])
    show "blocking_graph ?ov' s \<subseteq> blocking_graph ?ov s" for s
      using blocking_graph_removed [of ?ov "[JStr (eg_id e)]" s] by (simp add: blocking_graph_def)
  qed
  moreover have "relations_ok ?ov'" using v by (simp add: relations_ok_def)
  moreover have "builtin_space ?ov'" using b by (simp add: builtin_space_without_row)
  ultimately show ?thesis using c by (simp add: keeps_def dependency_space_def)
qed

end
