(* ===== verification/WorkItemProperties.thy ===== *)
theory WorkItemProperties
  imports WorkItemInvariant
begin

text \<open>
  What the commands on work items promise: the tree and the life cycle are kept by every command,
  the checks of a move accept exactly the moves that keep the tree, new items come last among their
  siblings, and trashing and restoring are idempotent and inverse. The last section holds a small
  Space at which the properties are instantiated.
\<close>

section \<open>The properties\<close>

definition work_item_handlers :: "(string \<times> (ctx \<Rightarrow> request \<Rightarrow> command res)) list" where
  "work_item_handlers =
     [(''CreateWorkItem'', compile_CreateWorkItem), (''UpdateWorkItem'', compile_UpdateWorkItem),
      (''MoveWorkItem'', compile_MoveWorkItem), (''TransitionWorkItem'', compile_TransitionWorkItem),
      (''TrashWorkItem'', compile_TrashWorkItem), (''RestoreWorkItem'', compile_RestoreWorkItem)]"

lemma work_item_handler_keeps:
  assumes "(name, handler) \<in> set work_item_handlers" "work_space (cx_overlay cx)" "row_ok (rq_payload rq)"
    "handler cx rq = Inr c"
    "name = ''CreateWorkItem'' \<longrightarrow> ov_row (cx_overlay cx) ''work_item''
       [JStr (stable_id cx ''work_item'' (str_of (fld (rq_payload rq) ''command_id'')))] = None"
  shows "keeps work_space (cx_overlay cx) c"
proof -
  have "handler \<in> {compile_UpdateWorkItem, compile_MoveWorkItem, compile_TransitionWorkItem,
      compile_TrashWorkItem, compile_RestoreWorkItem} \<or>
      handler = compile_CreateWorkItem \<and> name = ''CreateWorkItem''"
    using assms(1) by (auto simp: work_item_handlers_def)
  then show ?thesis
    using assms(2-5) UpdateWorkItem_keeps MoveWorkItem_keeps TransitionWorkItem_keeps CreateWorkItem_keeps
    by (auto simp: compile_TrashWorkItem_def compile_RestoreWorkItem_def intro: archived_at_keeps)
qed

text \<open>
  C4: Every command on a work item that compiles applies to the Space it was
  compiled against, and keeps the tree (each item ends at a root of its own project after at most
  three items) and the life cycle (an item is stamped completed or cancelled exactly when its status
  has that category, and never remembers a waiting status).
\<close>

theorem work_item_commands_keep_space:
  assumes "(name, handler) \<in> set work_item_handlers" "work_space (cx_overlay cx)" "row_ok (rq_payload rq)"
    "handler cx rq = Inr c"
    "name = ''CreateWorkItem'' \<longrightarrow> ov_row (cx_overlay cx) ''work_item''
       [JStr (stable_id cx ''work_item'' (str_of (fld (rq_payload rq) ''command_id'')))] = None"
  shows "\<exists>ov'. ov_apply (cx_overlay cx) c = Inr ov' \<and> overlay_wf ov' \<and>
    (\<forall>i r. ov_row ov' ''work_item'' [JStr i] = Some r \<longrightarrow>
       (\<exists>pid. fld r ''project_id'' = JStr pid \<and> (\<exists>d \<le> 3. at_depth ov' pid (JStr i) d)) \<and> row_lifecycle ov' r)"
proof -
  obtain ov' where ov': "ov_apply (cx_overlay cx) c = Inr ov'" "work_space ov'"
    using work_item_handler_keeps [OF assms] by (auto simp: keeps_def)
  have "(\<exists>pid. fld r ''project_id'' = JStr pid \<and> (\<exists>d \<le> 3. at_depth ov' pid (JStr i) d)) \<and> row_lifecycle ov' r"
    if r: "ov_row ov' ''work_item'' [JStr i] = Some r" for i r
  proof -
    have "builtin_space ov'" and t: "tree_ok ov'" using ov'(2) by (simp_all add: work_space_def)
    note tr = tree_ok_row [OF t r]
    have "id_of r = i" using work_item_identity(2) [OF \<open>builtin_space ov'\<close> r tr(1)] by simp
    with tr ov'(2) r show ?thesis
      by (auto simp: work_item_ok_def MAX_DEPTH_def work_space_def lifecycle_ok_def)
  qed
  moreover have "overlay_wf ov'" using ov'(2) by (simp add: work_space_def builtin_space_def)
  ultimately show ?thesis using ov'(1) by blast
qed

text \<open>
  C24: In a Space that keeps the tree the loops of the tree helpers end: the depth of a
  parent is the number of items up to the root, the descendants are exactly the items below, and the
  subtree depth is one more than the greatest distance to an item below.
\<close>

theorem tree_helpers_return:
  assumes "builtin_space ov" "tree_ok ov"
  shows "(\<forall>pid p n. parent_depth ov p pid = Inr n \<longleftrightarrow> at_depth ov pid p n) \<and>
    (\<exists>ds. descendants ov x = Inr ds \<and>
       (\<forall>r. r \<in> set ds \<longleftrightarrow> ov_row ov ''work_item'' [JStr (id_of r)] = Some r \<and>
          (\<exists>k. below ov (JStr x) (JStr (id_of r)) (Suc k)))) \<and>
    (\<exists>h. subtree_relative_depth ov x = Inr h \<and>
       (\<forall>y k. below ov (JStr x) y k \<longrightarrow> k < h) \<and> (\<exists>y k. below ov (JStr x) y k \<and> h = Suc k))"
  using parent_depth_at_depth parent_depth_Inr [OF _ assms(2,1)] descendants_tree [OF assms]
    subtree_relative_depth_tree [OF assms] by blast

lemma require_move_target_accepts:
  assumes "builtin_space ov" "tree_ok ov" "ov_row ov ''work_item'' [JStr j] = Some item"
    "fld item ''project_id'' = JStr pid" "at_depth ov pid p n" "\<nexists>k. below ov (JStr j) p k"
    "\<And>y k. below ov (JStr j) y k \<Longrightarrow> n + k < MAX_DEPTH"
  shows "require_move_target ov item pid p = Inr ()"
proof -
  have j: "fld item ''id'' = JStr j"
    using work_item_identity [OF assms(1,3) tree_ok_row(1) [OF assms(2,3)]] by simp
  obtain ds where ds: "descendants ov j = Inr ds" "descendants_are ov j ds"
    using descendants_tree [OF assms(1,2)] unfolding descendants_are_def by blast
  obtain h y k where h: "subtree_relative_depth ov j = Inr h" "below ov (JStr j) y k" "h = Suc k"
    using subtree_relative_depth_tree [OF assms(1,2)] by blast
  have "p \<noteq> JStr j" using assms(6) below.self by blast
  moreover have "p \<notin> (\<lambda>r. fld r ''id'') ` set ds"
  proof
    assume "p \<in> (\<lambda>r. fld r ''id'') ` set ds"
    then obtain r k where "ov_row ov ''work_item'' [JStr (id_of r)] = Some r" "p = fld r ''id''"
      "below ov (JStr j) (JStr (id_of r)) k" using ds(2) unfolding descendants_are_def by blast
    with work_item_identity(1) [OF assms(1) this(1) tree_ok_row(1) [OF assms(2) this(1)]] assms(6)
    show False by simp
  qed
  moreover have "p = JNull \<or> (\<exists>i r. p = JStr i \<and> ov_row ov ''work_item'' [JStr i] = Some r \<and>
      fld r ''project_id'' = JStr pid)"
    using assms(5) by (auto elim: at_depth.cases)
  moreover have "n + h \<le> 3" using assms(7) [OF h(2)] h(3) by (simp add: MAX_DEPTH_def)
  ultimately show ?thesis
    using j ds(1) h(1) assms(4) parent_depth_at_depth [OF assms(5)]
    by (auto simp: require_move_target_def require_row_def require_tree_def)
qed

text \<open>
  C23: A move is accepted exactly when the new parent is a place of the same project that
  does not lie in the moved subtree and below which the whole subtree fits into three levels.
\<close>

theorem move_accepted_iff:
  assumes "builtin_space ov" "tree_ok ov" "ov_row ov ''work_item'' [JStr j] = Some item"
    "fld item ''project_id'' = JStr pid"
  shows "require_move_target ov item pid p = Inr () \<longleftrightarrow>
    (\<exists>n. at_depth ov pid p n \<and> (\<nexists>k. below ov (JStr j) p k) \<and> (\<forall>y k. below ov (JStr j) y k \<longrightarrow> n + k < 3))"
  using require_move_target_Inr [OF assms(1-3)] require_move_target_accepts [OF assms]
  by (fastforce simp: assms(4) MAX_DEPTH_def)

text \<open>
  The rank given to a new or moved child is greater than the rank of every item below
  the same parent, and 0 when there is none, so children keep the order in which they were appended.
\<close>

theorem child_rank_is_last:
  assumes "builtin_space ov" "authoritative_child_rank ov project_id parent_id = Inr rank"
  shows "(\<forall>ident r. ov_row ov ''work_item'' ident = Some r \<longrightarrow> str_of (fld r ''project_id'') = project_id \<longrightarrow>
      fld r ''parent_id'' = parent_id \<longrightarrow> int_of (fld r ''child_rank'') < rank) \<and>
    ((\<nexists>ident r. ov_row ov ''work_item'' ident = Some r \<and> str_of (fld r ''project_id'') = project_id \<and>
      fld r ''parent_id'' = parent_id) \<longrightarrow> rank = 0)"
proof -
  have wf: "overlay_wf ov" using assms(1) by (simp add: builtin_space_def)
  obtain rows where rows: "ov_rows ov ''work_item'' = Inr rows"
    using ov_rows_Inr builtin_space_get(1) [OF assms(1)] by blast
  note mem = ov_rows_iff [OF wf rows]
  define siblings where
    "siblings = filter (\<lambda>r. str_of (fld r ''project_id'') = project_id \<and> fld r ''parent_id'' = parent_id) rows"
  let ?ranks = "map (\<lambda>r. int_of (fld r ''child_rank'')) siblings"
  have rank: "rank = (if siblings = [] then - 1 else Max (set ?ranks)) + 1"
    using assms(2) unfolding authoritative_child_rank_def rows rbind_simps Let_def map_is_Nil_conv
      siblings_def [symmetric] by simp
  have "int_of (fld r ''child_rank'') < rank" if "r \<in> set siblings" for r
  proof -
    have "int_of (fld r ''child_rank'') \<le> Max (set ?ranks)" using that by (intro Max_ge) auto
    then show ?thesis using that by (auto simp: rank)
  qed
  moreover have "(\<nexists>r. r \<in> set siblings) \<longrightarrow> rank = 0" by (auto simp: rank)
  moreover have "r \<in> set siblings \<longleftrightarrow> (\<exists>ident. ov_row ov ''work_item'' ident = Some r) \<and>
      str_of (fld r ''project_id'') = project_id \<and> fld r ''parent_id'' = parent_id" for r
    using mem by (auto simp: siblings_def)
  ultimately show ?thesis by blast
qed

section \<open>Trashing and restoring\<close>

lemma archived_effect:
  assumes "work_space (cx_overlay cx)" "ov_row (cx_overlay cx) ''work_item'' [JStr (rq_entity_id rq)] = Some item"
    "compile_archived_at_mutation trashed cx rq = Inr c" "(fld item ''archived_at'' = JNull) = trashed"
  shows "\<exists>now. monotonic_updated_at (str_of (fld item ''updated_at'')) (cx_now cx) = Inr now \<and>
    ov_apply (cx_overlay cx) c = Inr (with_row (cx_overlay cx) ''work_item''
      [JStr (rq_entity_id rq)] (stamped item [(''archived_at'', if trashed then JStr now else JNull)] now))"
proof -
  let ?ov = "cx_overlay cx"
  have b: "builtin_space ?ov" and t: "tree_ok ?ov" using assms(1) by (simp_all add: work_space_def)
  obtain now where stamp: "monotonic_updated_at (str_of (fld item ''updated_at'')) (cx_now cx) = Inr now"
    and ver: "rq_expected_version rq = Some (int_of (fld item ''version''))"
    and c: "work_item_update_command cx rq item
      (stamped item [(''archived_at'', if trashed then JStr now else JNull)] now) now = Inr c"
    using assms(2-4) unfolding compile_archived_at_mutation_def Let_def
    by (auto simp: rbind_Inr require_row_def require_expected_version_Inr split: if_splits)
  have "fmdom' (stamped item [(''archived_at'', if trashed then JStr now else JNull)] now) = fmdom' item"
    by (rule work_item_columns [OF b assms(2)]) (simp add: field_names_builtin)
  moreover have "row_ok (stamped item [(''archived_at'', if trashed then JStr now else JNull)] now)"
    by (intro row_ok_stamped work_item_row(3) [OF b assms(2)]) simp
  ultimately show ?thesis
    using work_item_update_command_Inr(1) [OF b assms(2) tree_ok_row(1) [OF t assms(2)] c ver] stamp
    by (auto simp: fld_stamped)
qed

lemma label_ids_total: "builtin_space ov \<Longrightarrow> \<exists>labels. label_ids_for_work_item ov i = Inr labels"
  using ov_rows_Inr [OF builtin_space_get(5)] by (fastforce simp: label_ids_for_work_item_def)

text \<open>
  Trashing an item that is in the trash, and restoring one that is not, is a
  receipt without effect: it writes no row and publishes no event, whatever the clock says.
\<close>

theorem repeated_trash_no_effect:
  assumes "work_space (cx_overlay cx)" "ov_row (cx_overlay cx) ''work_item'' [JStr (rq_entity_id rq)] = Some item"
    "rq_expected_version rq = Some (int_of (fld item ''version''))"
    "handler = (if fld item ''archived_at'' = JNull then compile_RestoreWorkItem else compile_TrashWorkItem)"
  shows "\<exists>c. handler cx rq = Inr c \<and> cm_plans c = [] \<and> cm_events c = [] \<and>
    ov_apply (cx_overlay cx) c = Inr (cx_overlay cx)"
proof -
  have b: "builtin_space (cx_overlay cx)" using assms(1) by (simp add: work_space_def)
  obtain labels where "label_ids_for_work_item (cx_overlay cx) (str_of (fld item ''id'')) = Inr labels"
    using label_ids_total [OF b] by blast
  then show ?thesis
    using assms(2-4)
    by (simp add: compile_RestoreWorkItem_def compile_TrashWorkItem_def compile_archived_at_mutation_def
        require_row_def require_expected_version_def cx_command_None ov_apply_def)
qed

text \<open>
  C34: Restoring an item right after it was trashed gives every column its value back
  except the stamp and the version, which has grown by two; no other row changes.
\<close>

theorem trash_restore_round_trip:
  assumes "work_space (cx_overlay cx)" "ov_row (cx_overlay cx) ''work_item'' [JStr (rq_entity_id rq)] = Some item"
    "fld item ''archived_at'' = JNull" "compile_TrashWorkItem cx rq = Inr c"
    "ov_apply (cx_overlay cx) c = Inr (cx_overlay cx')" "rq_entity_id rq' = rq_entity_id rq"
    "compile_RestoreWorkItem cx' rq' = Inr c'"
  shows "\<exists>ov2 item2. ov_apply (cx_overlay cx') c' = Inr ov2 \<and>
    ov_row ov2 ''work_item'' [JStr (rq_entity_id rq)] = Some item2 \<and>
    (\<forall>k. k \<noteq> ''updated_at'' \<and> k \<noteq> ''version'' \<longrightarrow> fmlookup item2 k = fmlookup item k) \<and>
    fld item2 ''version'' = JInt (int_of (fld item ''version'') + 2) \<and>
    (\<forall>t ident. (t, ident) \<noteq> (''work_item'', [JStr (rq_entity_id rq)]) \<longrightarrow>
       ov_row ov2 t ident = ov_row (cx_overlay cx) t ident)"
proof -
  let ?ov = "cx_overlay cx" and ?id = "[JStr (rq_entity_id rq)]"
  note defs = compile_TrashWorkItem_def compile_RestoreWorkItem_def
  obtain now where now: "cx_overlay cx' = with_row ?ov ''work_item'' ?id (stamped item [(''archived_at'', JStr now)] now)"
    using archived_effect [OF assms(1,2) assms(4) [unfolded defs]] assms(3,5) by auto
  let ?item1 = "stamped item [(''archived_at'', JStr now)] now"
  have "work_space (cx_overlay cx')"
    using archived_at_keeps [OF assms(1) assms(4) [unfolded defs]] assms(5) by (simp add: keeps_def)
  moreover have row1: "ov_row (cx_overlay cx') ''work_item'' [JStr (rq_entity_id rq')] = Some ?item1"
    by (simp add: now assms(6))
  moreover have "fld ?item1 ''archived_at'' \<noteq> JNull" by (simp add: fld_stamped)
  ultimately obtain now' where now': "ov_apply (cx_overlay cx') c' =
      Inr (with_row (cx_overlay cx') ''work_item'' ?id (stamped ?item1 [(''archived_at'', JNull)] now'))"
    using archived_effect [OF _ row1 assms(7) [unfolded defs]] assms(6) by auto
  have "''archived_at'' \<in> fmdom' item"
    using work_item_row(1) [OF _ assms(2)] assms(1) by (simp add: work_space_def field_names_builtin)
  then have "fmlookup item ''archived_at'' = Some JNull" using assms(3) fld_lookup by metis
  with now' now show ?thesis
    by (simp add: stamped_def fmlookup_updates fld_updates)
qed

section \<open>A small Space\<close>

text \<open>
  A project with two statuses, an item and an item below it. Columns that are not named hold null.
\<close>

definition blank_row :: "entity_spec \<Rightarrow> (string \<times> json) list \<Rightarrow> row" where
  "blank_row spec kvs = updates (dict (map (\<lambda>f. (f, JNull)) (field_names spec))) kvs"

definition sample_stamp :: json where
  "sample_stamp = JStr ''2026-01-01T00:00:00.000Z''"

definition sample_item :: "string \<Rightarrow> json \<Rightarrow> row" where
  "sample_item i parent = blank_row work_item_spec
     [(''id'', JStr i), (''project_id'', JStr ''p1''), (''parent_id'', parent), (''version'', JInt 1),
      (''child_rank'', JInt 0), (''updated_at'', sample_stamp), (''status_definition_id'', JStr ''s1'')]"

definition sample_rows :: "((string \<times> json list) \<times> row) list" where
  "sample_rows =
     [((''project'', [JStr ''p1'']), blank_row project_spec [(''id'', JStr ''p1''), (''version'', JInt 1)]),
      ((''status_definition'', [JStr ''s1'']), blank_row status_definition_spec
         [(''id'', JStr ''s1''), (''category'', JStr ''not_started'')]),
      ((''status_definition'', [JStr ''s2'']), blank_row status_definition_spec
         [(''id'', JStr ''s2''), (''category'', JStr ''completed'')]),
      ((''work_item'', [JStr ''a'']), sample_item ''a'' JNull),
      ((''work_item'', [JStr ''b'']), sample_item ''b'' (JStr ''a''))]"

lemma dom_dict: "fmdom' (dict kvs) = fst ` set kvs"
  by (simp add: dict_def fmdom_updates)

lemma fld_dict: "fld (dict kvs) k = (case map_of (rev kvs) k of None \<Rightarrow> fld fmempty k | Some v \<Rightarrow> v)"
  by (simp add: dict_def fld_updates)

lemma blank_row_shape:
  assumes "catalog_get ct t = Some spec" "fst ` set kvs \<subseteq> set (field_names spec)"
    "pk_values spec (blank_row spec kvs) = ident" "\<forall>(k, v) \<in> set kvs. distinct_keys v"
  shows "row_shape ct t ident (blank_row spec kvs)"
proof -
  have "fmdom' (blank_row spec kvs) = set (field_names spec)"
    using assms(2) by (auto simp: blank_row_def fmdom_updates dom_dict image_image)
  moreover have "row_ok (dict (map (\<lambda>f. (f, JNull)) (field_names spec)))"
    unfolding dict_def by (rule row_ok_updates) auto
  then have "row_ok (blank_row spec kvs)" unfolding blank_row_def using assms(4) by (rule row_ok_updates)
  ultimately show ?thesis using assms(1,3) by (simp add: row_shape_def)
qed

lemma fld_blank_row: "fld (blank_row spec kvs) k =
    (case map_of (rev kvs) k of Some v \<Rightarrow> v
     | None \<Rightarrow> if k \<in> set (field_names spec) then JNull else fld fmempty k)"
proof -
  have "map_of (rev (map (\<lambda>f. (f, JNull)) xs)) k = (if k \<in> set xs then Some JNull else None)" for xs
    by (induction xs) (auto simp: map_add_def)
  then show ?thesis by (simp add: blank_row_def fld_updates fld_dict split: option.split)
qed

lemma sample_builtin: "builtin_space (sample_overlay rows) = overlay_wf (sample_overlay rows)"
  using sample_catalog_get by (auto simp: builtin_space_def)

lemmas sample_specs = sample_catalog_get [of project_spec, simplified builtin_specs_def, simplified]
  sample_catalog_get [of status_definition_spec, simplified builtin_specs_def, simplified]
  sample_catalog_get [of work_item_spec, simplified builtin_specs_def, simplified]

lemma sample_wf: "overlay_wf (sample_overlay sample_rows)"
proof -
  have "row_shape sample_catalog t ident r" if "((t, ident), r) \<in> set sample_rows" for t ident r
    using that
    by (auto simp: sample_rows_def sample_item_def sample_stamp_def intro!: blank_row_shape [OF sample_specs(1)]
        blank_row_shape [OF sample_specs(2)] blank_row_shape [OF sample_specs(3)])
      (simp_all add: field_names_builtin pk_values_def pk_field_set_def fld_blank_row)
  moreover have "distinct (map fst sample_rows)" by (simp add: sample_rows_def)
  ultimately show ?thesis by (auto simp: overlay_wf_def sample_catalog_wf)
qed

lemma sample_lookup: "ov_row (sample_overlay sample_rows) t ident = map_of sample_rows (t, ident)"
  by (simp add: ov_row_def)

lemma sample_item_columns:
  "fld (sample_item i p) ''id'' = JStr i" "fld (sample_item i p) ''project_id'' = JStr ''p1''"
  "fld (sample_item i p) ''parent_id'' = p" "fld (sample_item i p) ''version'' = JInt 1"
  "fld (sample_item i p) ''archived_at'' = JNull" "fld (sample_item i p) ''completed_at'' = JNull"
  "fld (sample_item i p) ''cancelled_at'' = JNull" "fld (sample_item i p) PRE_WAITING_STATUS_FIELD = JNull"
  "fld (sample_item i p) ''status_definition_id'' = JStr ''s1''" "fld (sample_item i p) ''updated_at'' = sample_stamp"
  "fld (sample_item i p) ''child_rank'' = JInt 0"
  by (simp_all add: sample_item_def fld_blank_row field_names_builtin PRE_WAITING_STATUS_FIELD_def)

lemma sample_items: "ov_row (sample_overlay sample_rows) ''work_item'' ident = Some r \<longleftrightarrow>
    ident = [JStr ''a''] \<and> r = sample_item ''a'' JNull \<or> ident = [JStr ''b''] \<and> r = sample_item ''b'' (JStr ''a'')"
  unfolding sample_lookup by (auto simp: sample_rows_def)

lemma sample_depths:
  "at_depth (sample_overlay sample_rows) ''p1'' (JStr ''a'') 1"
  "at_depth (sample_overlay sample_rows) ''p1'' (JStr ''b'') 2"
proof -
  show a: "at_depth (sample_overlay sample_rows) ''p1'' (JStr ''a'') 1"
    unfolding One_nat_def by (rule at_depth.child) (auto simp: sample_items sample_item_columns at_depth.root)
  have "at_depth (sample_overlay sample_rows) ''p1'' (JStr ''b'') (Suc 1)"
    by (rule at_depth.child) (use a in \<open>auto simp: sample_items sample_item_columns\<close>)
  then show "at_depth (sample_overlay sample_rows) ''p1'' (JStr ''b'') 2" by (simp add: numeral_2_eq_2)
qed

lemma sample_space: "work_space (sample_overlay sample_rows)"
proof -
  have "tree_ok (sample_overlay sample_rows)"
    unfolding tree_ok_def
    using sample_depths
    by (auto simp: sample_items sample_item_columns work_item_ok_def id_of_def MAX_DEPTH_def
        intro: exI [of _ 1] exI [of _ 2])
  moreover have "projects_ok (sample_overlay sample_rows)"
    unfolding projects_ok_def sample_lookup by (auto simp: sample_rows_def fld_blank_row)
  moreover have "category_of (sample_overlay sample_rows) (JStr ''s1'') = Some ''not_started''"
    unfolding category_of_def sample_lookup by (simp add: sample_rows_def fld_blank_row)
  then have "lifecycle_ok (sample_overlay sample_rows)"
    by (auto simp: lifecycle_ok_def row_lifecycle_def sample_items sample_item_columns)
  ultimately show ?thesis by (simp add: work_space_def sample_builtin sample_wf)
qed

definition trash_request :: request where
  "trash_request = sample_request ''task_space.TrashWorkItem'' ''task_space'' ''b'' [] (Some 1)"

lemma sample_labels: "label_ids_for_work_item (sample_overlay sample_rows) i = Inr []"
proof -
  have l: "catalog_get (ov_catalog (sample_overlay sample_rows)) ''work_item_label'' = Some work_item_label_spec"
    using builtin_space_get(5) sample_space unfolding work_space_def by blast
  then obtain rows where rows: "ov_rows (sample_overlay sample_rows) ''work_item_label'' = Inr rows"
    using ov_rows_Inr by blast
  have "rows = []"
  proof (rule ccontr)
    assume "rows \<noteq> []"
    then obtain r where "r \<in> set rows" by (cases rows) auto
    then show False using ov_rows_iff [OF sample_wf rows, of r] unfolding sample_lookup
      by (auto simp: sample_rows_def)
  qed
  then show ?thesis using rows by (simp add: label_ids_for_work_item_def)
qed

lemma sample_trash: "\<exists>c. compile_TrashWorkItem (sample_ctx sample_rows) trash_request = Inr c"
proof -
  have "ov_row (sample_overlay sample_rows) ''work_item'' [JStr ''b''] = Some (sample_item ''b'' (JStr ''a''))"
    by (simp add: sample_items)
  moreover have "monotonic_updated_at ''2026-01-01T00:00:00.000Z'' ''2026-01-02T03:04:05.678Z'' =
      Inr ''2026-01-02T03:04:05.678Z''" by (simp add: monotonic_updated_at_def)
  ultimately show ?thesis
    by (simp add: compile_TrashWorkItem_def compile_archived_at_mutation_def trash_request_def Let_def
        require_row_def require_expected_version_def sample_item_columns sample_stamp_def
        work_item_update_command_def sample_labels DbMutationPlan_def validate_expected_version_def
        SyncEventPlan_def validate_sample_now cx_command_None fld_stamped)
qed

lemma work_item_commands_keep_space_witness:
  "\<exists>c ov'. compile_TrashWorkItem (sample_ctx sample_rows) trash_request = Inr c \<and>
    ov_apply (sample_overlay sample_rows) c = Inr ov' \<and>
    (\<forall>i r. ov_row ov' ''work_item'' [JStr i] = Some r \<longrightarrow> row_lifecycle ov' r)"
proof -
  obtain c where c: "compile_TrashWorkItem (sample_ctx sample_rows) trash_request = Inr c"
    using sample_trash by blast
  have h: "(''TrashWorkItem'', compile_TrashWorkItem) \<in> set work_item_handlers" by (simp add: work_item_handlers_def)
  have "work_space (cx_overlay (sample_ctx sample_rows))" "row_ok (rq_payload trash_request)"
    using sample_space by (simp_all add: trash_request_def)
  from work_item_commands_keep_space [OF h this c] show ?thesis using c by auto
qed

lemma tree_helpers_return_witness:
  "parent_depth (sample_overlay sample_rows) (JStr ''b'') ''p1'' = Inr 2"
proof -
  have "builtin_space (sample_overlay sample_rows)" "tree_ok (sample_overlay sample_rows)"
    using sample_space by (simp_all add: work_space_def)
  from tree_helpers_return [OF this] sample_depths(2) show ?thesis by blast
qed

lemma move_accepted_iff_witness:
  "require_move_target (sample_overlay sample_rows) (sample_item ''b'' (JStr ''a'')) ''p1'' JNull = Inr ()"
proof -
  let ?ov = "sample_overlay sample_rows"
  have s: "builtin_space ?ov" "tree_ok ?ov" using sample_space by (simp_all add: work_space_def)
  have "\<nexists>k. below ?ov (JStr ''b'') JNull k" by (auto elim: below.cases)
  moreover have "k < 3" if "below ?ov (JStr ''b'') y k" for y k
  proof (cases k)
    case (Suc j)
    then have "below ?ov (JStr ''b'') y (Suc j)" using that by simp
    then obtain i where "below ?ov (JStr ''b'') (JStr i) (Suc j)" by (auto elim: below_Suc intro: below.down)
    from below_in_tree [OF s this] obtain pid m where "at_depth ?ov pid (JStr ''b'') m" "m + Suc j \<le> MAX_DEPTH"
      by auto
    moreover have "0 < m" using \<open>at_depth ?ov pid (JStr ''b'') m\<close> by (auto elim: at_depth_JStr)
    ultimately show ?thesis using Suc by (simp add: MAX_DEPTH_def)
  qed simp
  ultimately have "\<exists>n. at_depth ?ov ''p1'' JNull n \<and> (\<nexists>k. below ?ov (JStr ''b'') JNull k) \<and>
      (\<forall>y k. below ?ov (JStr ''b'') y k \<longrightarrow> n + k < 3)"
    using at_depth.root by (intro exI [of _ 0]) simp
  moreover have "ov_row ?ov ''work_item'' [JStr ''b''] = Some (sample_item ''b'' (JStr ''a''))"
    "fld (sample_item ''b'' (JStr ''a'')) ''project_id'' = JStr ''p1''"
    by (simp_all add: sample_items sample_item_columns)
  ultimately show ?thesis using move_accepted_iff [OF s] by blast
qed

lemma child_rank_is_last_witness:
  "\<exists>rank. authoritative_child_rank (sample_overlay sample_rows) ''p1'' (JStr ''a'') = Inr rank \<and> 0 < rank"
proof -
  let ?ov = "sample_overlay sample_rows"
  have b: "builtin_space ?ov" using sample_space by (simp add: work_space_def)
  obtain rank where rank: "authoritative_child_rank ?ov ''p1'' (JStr ''a'') = Inr rank"
    using ov_rows_Inr [OF builtin_space_get(1) [OF b]] by (auto simp: authoritative_child_rank_def Let_def)
  have "ov_row ?ov ''work_item'' [JStr ''b''] = Some (sample_item ''b'' (JStr ''a''))" by (simp add: sample_items)
  moreover have "str_of (fld (sample_item ''b'' (JStr ''a'')) ''project_id'') = ''p1''"
    "fld (sample_item ''b'' (JStr ''a'')) ''parent_id'' = JStr ''a''" by (simp_all add: sample_item_columns)
  ultimately have "int_of (fld (sample_item ''b'' (JStr ''a'')) ''child_rank'') < rank"
    using child_rank_is_last [OF b rank] by blast
  then show ?thesis using rank by (simp add: sample_item_columns)
qed

lemma repeated_trash_no_effect_witness:
  "\<exists>c. compile_RestoreWorkItem (sample_ctx sample_rows) trash_request = Inr c \<and> cm_plans c = []"
  using repeated_trash_no_effect [of "sample_ctx sample_rows" trash_request "sample_item ''b'' (JStr ''a'')"]
    sample_space
  by (auto simp: trash_request_def sample_items sample_item_columns)

lemma validate_sample_later: "validate_canonical_timestamp (JStr ''2026-01-03T00:00:00.000Z'') = Inr ()"
  by (simp add: validate_canonical_timestamp_def parse_timestamp_def SYNC_UTC_RFC3339_def digits_at_def
      is_digit_def valid_datetime_def split_timestamp_def slice_def num_of_def digit_val_def
      days_in_month_def is_leap_def)

lemma trash_restore_round_trip_witness:
  "\<exists>c ov1 c' ov2. compile_TrashWorkItem (sample_ctx sample_rows) trash_request = Inr c \<and>
    ov_apply (sample_overlay sample_rows) c = Inr ov1 \<and>
    compile_RestoreWorkItem ((sample_ctx sample_rows)\<lparr>cx_overlay := ov1, cx_now := ''2026-01-03T00:00:00.000Z''\<rparr>)
      (trash_request\<lparr>rq_expected_version := Some 2\<rparr>) = Inr c' \<and> ov_apply ov1 c' = Inr ov2"
proof -
  let ?cx = "sample_ctx sample_rows" and ?item = "sample_item ''b'' (JStr ''a'')"
  obtain c where c: "compile_TrashWorkItem ?cx trash_request = Inr c" using sample_trash by blast
  have row: "ov_row (cx_overlay ?cx) ''work_item'' [JStr (rq_entity_id trash_request)] = Some ?item"
    by (simp add: trash_request_def sample_items)
  have sp: "work_space (cx_overlay ?cx)" using sample_space by simp
  have a: "fld ?item ''archived_at'' = JNull" by (simp add: sample_item_columns)
  define item1 where "item1 = stamped ?item [(''archived_at'', JStr ''2026-01-02T03:04:05.678Z'')] ''2026-01-02T03:04:05.678Z''"
  define ov1 where "ov1 = with_row (sample_overlay sample_rows) ''work_item'' [JStr ''b''] item1"
  have "monotonic_updated_at (str_of (fld ?item ''updated_at'')) (cx_now ?cx) = Inr ''2026-01-02T03:04:05.678Z''"
    by (simp add: monotonic_updated_at_def sample_item_columns sample_stamp_def)
  then have ov1: "ov_apply (sample_overlay sample_rows) c = Inr ov1"
    using archived_effect [OF sp row c [unfolded compile_TrashWorkItem_def]] a
    by (simp add: ov1_def item1_def trash_request_def)
  have "builtin_space ov1"
    using archived_at_keeps [OF sp c [unfolded compile_TrashWorkItem_def]] ov1 by (simp add: keeps_def work_space_def)
  then obtain labels where labels: "label_ids_for_work_item ov1 ''b'' = Inr labels"
    using label_ids_total by blast
  let ?cx' = "?cx\<lparr>cx_overlay := ov1, cx_now := ''2026-01-03T00:00:00.000Z''\<rparr>"
  let ?rq' = "trash_request\<lparr>rq_expected_version := Some 2\<rparr>"
  have "ov_row ov1 ''work_item'' [JStr ''b''] = Some item1" by (simp add: ov1_def)
  moreover have "monotonic_updated_at ''2026-01-02T03:04:05.678Z'' ''2026-01-03T00:00:00.000Z'' =
      Inr ''2026-01-03T00:00:00.000Z''" by (simp add: monotonic_updated_at_def)
  ultimately obtain c' where c': "compile_RestoreWorkItem ?cx' ?rq' = Inr c'"
    using labels
    by (simp add: compile_RestoreWorkItem_def compile_archived_at_mutation_def trash_request_def Let_def
        require_row_def require_expected_version_def sample_item_columns sample_stamp_def item1_def
        work_item_update_command_def DbMutationPlan_def validate_expected_version_def
        SyncEventPlan_def validate_sample_later cx_command_None fld_stamped)
  show ?thesis
    using trash_restore_round_trip [OF sp row a c _ _ c'] ov1 c c' by auto
qed

end
