(* ===== verification/RelationProperties.thy ===== *)
theory RelationProperties
  imports Relations WorkItemProperties
begin

text \<open>
  What the dependency commands promise: the blocking edges of every Space stay acyclic, an edge is
  refused exactly when it would close a cycle and the cycle is reported, repeated commands have no
  effect, and a removed edge leaves a tombstone.
\<close>

section \<open>The properties\<close>

definition relation_handlers :: "(ctx \<Rightarrow> request \<Rightarrow> command res) list" where
  "relation_handlers = [compile_CreateRelation, compile_ResolveDependency, compile_RemoveRelation]"

lemma relation_handler_keeps:
  assumes "handler \<in> set relation_handlers" "dependency_space (cx_overlay cx)" "handler cx rq = Inr c"
  shows "keeps dependency_space (cx_overlay cx) c"
  using assms CreateRelation_keeps ResolveDependency_keeps RemoveRelation_keeps
  by (auto simp: relation_handlers_def)

text \<open>
  C5: Every dependency command that compiles applies to the Space it was compiled
  against, and the blocking edges (\<open>depends_on\<close> and \<open>blocks\<close>) of every Space stay free of cycles.
\<close>

theorem dependencies_stay_acyclic:
  assumes "handler \<in> set relation_handlers" "builtin_space (cx_overlay cx)" "relations_ok (cx_overlay cx)"
    "\<forall>s. acyclic (blocking_graph (cx_overlay cx) s)" "handler cx rq = Inr c"
  shows "\<exists>ov'. ov_apply (cx_overlay cx) c = Inr ov' \<and> overlay_wf ov' \<and> (\<forall>s. acyclic (blocking_graph ov' s))"
proof -
  have "dependency_space (cx_overlay cx)" using assms(2-4) by (simp add: dependency_space_def dependencies_ok_def)
  from relation_handler_keeps [OF assms(1) this assms(5)] show ?thesis
    by (auto simp: keeps_def dependency_space_def dependencies_ok_def builtin_space_def)
qed

lemma cycle_violation_rule: "cycle_violation e path extra = RuleViolation ''cycle_detected''
     ([(''cycle_path'', JList (map JStr path)),
       (''conflicting_edge'', JList [JStr (eg_from e), JStr (eg_to e)])] @ extra) False"
  by (simp add: cycle_violation_def)

lemma blocking_graph_unblocking:
  assumes "ov_row ov ''relation'' [i] = None" "str_of (fld r ''relation_type'') \<notin> set BLOCKING_RELATION_TYPES"
  shows "blocking_graph (with_row ov ''relation'' [i] r) space_id = blocking_graph ov space_id"
proof -
  have "ov_row (with_row ov ''relation'' [i] r) ''relation'' ident = Some q \<and>
      str_of (fld q ''relation_type'') \<in> set BLOCKING_RELATION_TYPES \<longleftrightarrow>
    ov_row ov ''relation'' ident = Some q \<and> str_of (fld q ''relation_type'') \<in> set BLOCKING_RELATION_TYPES" for ident q
    using assms by auto
  then show ?thesis unfolding blocking_graph_def by meson
qed

lemma insert_relation_cycle:
  assumes "builtin_space (cx_overlay cx)"
  shows "insert_relation cx rq e = Inl (cycle_violation e path []) \<Longrightarrow>
      (eg_to e, eg_from e) \<in> (blocking_graph (cx_overlay cx) (eg_space e))\<^sup>*"
    "(eg_to e, eg_from e) \<in> (blocking_graph (cx_overlay cx) (eg_space e))\<^sup>* \<Longrightarrow>
      \<exists>path. insert_relation cx rq e = Inl (cycle_violation e path []) \<and> hd path = eg_from e \<and>
        last path = eg_from e \<and>
        successively (\<lambda>a b. (a, b) \<in> blocking_graph (cx_overlay cx) (eg_space e)) (tl path)"
proof -
  let ?ov = "cx_overlay cx"
  have wf: "overlay_wf ?ov" using assms by (simp add: builtin_space_def)
  obtain all where "ov_rows ?ov ''relation'' = Inr all"
    using ov_rows_Inr [OF builtin_space_get(3) [OF assms]] by blast
  then obtain rows where rows: "relation_rows ?ov (eg_space e) = Inr rows"
    by (simp add: relation_rows_def)
  note edges = blocking_edges_graph [OF wf rows]
  let ?d = "detect_cycle_incremental (blocking_edges rows) (eg_from e, eg_to e)"
  have d: "fst ?d \<longleftrightarrow> (eg_to e, eg_from e) \<in> (blocking_graph ?ov (eg_space e))\<^sup>*"
    using conjunct1 [OF cycle_detected_facts [of "blocking_edges rows" "eg_from e" "eg_to e"]] unfolding edges .
  show "(eg_to e, eg_from e) \<in> (blocking_graph ?ov (eg_space e))\<^sup>*"
    if "insert_relation cx rq e = Inl (cycle_violation e path [])"
  proof (rule ccontr)
    assume "(eg_to e, eg_from e) \<notin> (blocking_graph ?ov (eg_space e))\<^sup>*"
    then have "\<not> fst ?d" using d by simp
    then have "rbind (DbMutationPlan ''relations'' (dict [(''id'', JStr (eg_id e))]) Insert None None
        (Some (new_relation e (cx_now cx)))) (\<lambda>plan.
      rbind (SyncEventPlan ''relation'' (eg_id e) EvCreate (new_relation e (cx_now cx)) (JInt 1) (JStr (cx_now cx)))
        (\<lambda>event. cx_command cx rq [plan] [event] (new_relation e (cx_now cx)) None)) =
      Inl (cycle_violation e path [])"
      using that by (simp add: insert_relation_def rows Let_def)
    then show False
      by (auto simp: cycle_violation_rule rbind_Inl DbMutationPlan_def SyncEventPlan_def cx_command_None
          validate_expected_version_def validate_canonical_timestamp_def require_Inl parse_timestamp_def Let_def
          split: if_splits json.splits)
  qed
  show "\<exists>path. insert_relation cx rq e = Inl (cycle_violation e path []) \<and> hd path = eg_from e \<and>
        last path = eg_from e \<and> successively (\<lambda>a b. (a, b) \<in> blocking_graph ?ov (eg_space e)) (tl path)"
    if "(eg_to e, eg_from e) \<in> (blocking_graph ?ov (eg_space e))\<^sup>*"
  proof -
    have f: "fst ?d" using that d by simp
    then have "?d = (True, snd ?d)" by (cases ?d) simp
    then have "hd (snd ?d) = eg_from e" "last (snd ?d) = eg_from e"
      "successively (\<lambda>a b. (a, b) \<in> blocking_graph ?ov (eg_space e)) (tl (snd ?d))"
      using cycle_detected_facts [of "blocking_edges rows" "eg_from e" "eg_to e"] unfolding edges by simp_all
    moreover have "insert_relation cx rq e = Inl (cycle_violation e (snd ?d) [])"
      using f by (simp add: insert_relation_def rows Let_def)
    ultimately show ?thesis by blast
  qed
qed

lemma create_relation_is_insert:
  assumes "relation_identity cx rq = Inr e" "eg_type e \<in> set RELATION_TYPES"
    "require_relation_endpoints (cx_overlay cx) [eg_from e, eg_to e] = Inr ()" "eg_from e \<noteq> eg_to e"
    "ov_row (cx_overlay cx) ''relation'' [JStr (eg_id e)] = None"
  shows "compile_CreateRelation cx rq = insert_relation cx rq e"
  using assms by (simp add: compile_CreateRelation_def)

lemma create_relation_cycle_iff:
  assumes "builtin_space (cx_overlay cx)" "relation_identity cx rq = Inr e" "eg_type e \<in> set RELATION_TYPES"
    "require_relation_endpoints (cx_overlay cx) [eg_from e, eg_to e] = Inr ()" "eg_from e \<noteq> eg_to e"
    "ov_row (cx_overlay cx) ''relation'' [JStr (eg_id e)] = None"
  shows "(\<exists>path. compile_CreateRelation cx rq = Inl (cycle_violation e path [])) \<longleftrightarrow>
      (eg_to e, eg_from e) \<in> (blocking_graph (cx_overlay cx) (eg_space e))\<^sup>+"
proof -
  have "(eg_to e, eg_from e) \<in> R\<^sup>* \<longleftrightarrow> (eg_to e, eg_from e) \<in> R\<^sup>+" for R
    using assms(5) by (auto simp: rtrancl_eq_or_trancl)
  then show ?thesis
    using create_relation_is_insert [OF assms(2-6)] insert_relation_cycle [OF assms(1)] by metis
qed


text \<open>
  C18: A \<open>relates_to\<close> association is no blocking edge: with its row in place the blocking graph of every
  Space is what it was, so it cannot close a cycle. The detector is run for it all the same: an
  association from an item to another that already depends on it, directly or through other items, is refused
  with \<open>cycle_detected\<close>, and with that error no other new association is. The schema, the comment of
  \<open>_blocking_edges\<close> and a test say that \<open>relates_to\<close> takes no part in the detection.
\<close>

theorem relates_to_refused_against_dependencies:
  assumes "builtin_space (cx_overlay cx)" "relation_identity cx rq = Inr e" "eg_type e = ''relates_to''"
    "require_relation_endpoints (cx_overlay cx) [eg_from e, eg_to e] = Inr ()" "eg_from e \<noteq> eg_to e"
    "ov_row (cx_overlay cx) ''relation'' [JStr (eg_id e)] = None"
  shows "(\<forall>s. blocking_graph (with_row (cx_overlay cx) ''relation'' [JStr (eg_id e)] (new_relation e (cx_now cx))) s =
      blocking_graph (cx_overlay cx) s) \<and>
    ((\<exists>path. compile_CreateRelation cx rq = Inl (cycle_violation e path [])) \<longleftrightarrow>
      (eg_to e, eg_from e) \<in> (blocking_graph (cx_overlay cx) (eg_space e))\<^sup>+)"
proof -
  have "eg_type e \<in> set RELATION_TYPES" using assms(3) by (simp add: RELATION_TYPES_def)
  moreover have "eg_type e \<notin> set BLOCKING_RELATION_TYPES" using assms(3) by (simp add: BLOCKING_RELATION_TYPES_def)
  ultimately show ?thesis
    using create_relation_cycle_iff [OF assms(1,2) _ assms(4-6)] assms(6)
    by (simp add: blocking_graph_unblocking new_relation_facts)
qed

text \<open>
  C35: Creating an edge that exists and confirming one that is confirmed are receipts
  without effect: they return the stored row, write nothing and publish nothing.
\<close>

theorem relation_commands_idempotent:
  assumes "relation_identity cx rq = Inr e" "ov_row (cx_overlay cx) ''relation'' [JStr (eg_id e)] = Some stored"
    "eg_type e \<in> set BLOCKING_RELATION_TYPES"
  shows "(require_relation_endpoints (cx_overlay cx) [eg_from e, eg_to e] = Inr () \<longrightarrow> eg_from e \<noteq> eg_to e \<longrightarrow>
      (\<exists>c. compile_CreateRelation cx rq = Inr c \<and> cm_value c = stored \<and> cm_plans c = [] \<and> cm_events c = [] \<and>
         ov_apply (cx_overlay cx) c = Inr (cx_overlay cx))) \<and>
    (rq_expected_version rq = Some (int_of (fld stored ''version'')) \<longrightarrow> fld stored ''resolution'' \<noteq> JNull \<longrightarrow>
      (\<exists>c. compile_ResolveDependency cx rq = Inr c \<and> cm_value c = stored \<and> cm_plans c = [] \<and> cm_events c = [] \<and>
         ov_apply (cx_overlay cx) c = Inr (cx_overlay cx)))"
proof -
  have "eg_type e \<in> set RELATION_TYPES"
    using assms(3) by (auto simp: BLOCKING_RELATION_TYPES_def RELATION_TYPES_def)
  then show ?thesis
    using assms
    by (auto simp: compile_CreateRelation_def compile_ResolveDependency_def relation_row_def
        require_expected_version_def cx_command_None ov_apply_def)
qed

lemma removal_facts:
  assumes "builtin_space (cx_overlay cx)" "relations_ok (cx_overlay cx)" "compile_RemoveRelation cx rq = Inr c"
    "relation_identity cx rq = Inr e"
  shows "\<exists>stored ov'. ov_row (cx_overlay cx) ''relation'' [JStr (eg_id e)] = Some stored \<and>
    rq_expected_version rq = Some (int_of (fld stored ''version'')) \<and>
    (\<forall>i \<in> {eg_from e, eg_to e}. \<exists>r. ov_row (cx_overlay cx) ''work_item'' [JStr i] = Some r \<and>
       fld r ''archived_at'' = JNull) \<and>
    ov_apply (cx_overlay cx) c = Inr ov' \<and> ov_row ov' ''relation'' [JStr (eg_id e)] = None \<and>
    is_tombstoned ov' ''relation'' (eg_id e) \<and>
    (\<forall>t ident. (t, ident) \<noteq> (''relation'', [JStr (eg_id e)]) \<longrightarrow> ov_row ov' t ident = ov_row (cx_overlay cx) t ident)"
proof -
  obtain stored where stored: "ov_row (cx_overlay cx) ''relation'' [JStr (eg_id e)] = Some stored"
      "rq_expected_version rq = Some (int_of (fld stored ''version''))"
    and ends: "require_relation_endpoints (cx_overlay cx) [eg_from e, eg_to e] = Inr ()"
    using assms(3,4) unfolding compile_RemoveRelation_def Let_def rbind_Inr relation_row_Inr
      require_expected_version_Inr by auto
  have "ov_apply (cx_overlay cx) c = Inr ((without_row (cx_overlay cx) ''relation'' [JStr (eg_id e)])
      \<lparr>ov_tombstones := insert (effective_sync_entity_type relation_spec, eg_id e) (ov_tombstones (cx_overlay cx))\<rparr>)"
    using RemoveRelation_Inr [OF assms(1-3)] assms(4) by auto
  then show ?thesis
    using stored ends by (auto simp: rbind_Inr require_Inr require_row_Inr is_tombstoned_def)
qed

lemma insert_relation_succeeds:
  assumes "builtin_space (cx_overlay cx)" "(eg_to e, eg_from e) \<notin> (blocking_graph (cx_overlay cx) (eg_space e))\<^sup>*"
    "validate_canonical_timestamp (JStr (cx_now cx)) = Inr ()"
  shows "\<exists>c. insert_relation cx rq e = Inr c"
proof -
  let ?ov = "cx_overlay cx"
  have wf: "overlay_wf ?ov" using assms(1) by (simp add: builtin_space_def)
  obtain all where "ov_rows ?ov ''relation'' = Inr all"
    using ov_rows_Inr [OF builtin_space_get(3) [OF assms(1)]] by blast
  then obtain rows where rows: "relation_rows ?ov (eg_space e) = Inr rows"
    by (simp add: relation_rows_def)
  have "\<not> fst (detect_cycle_incremental (blocking_edges rows) (eg_from e, eg_to e))"
    using assms(2) conjunct1 [OF cycle_detected_facts [of "blocking_edges rows" "eg_from e" "eg_to e"]]
    unfolding blocking_edges_graph [OF wf rows] by blast
  then show ?thesis
    using assms(3) by (simp add: insert_relation_def rows Let_def DbMutationPlan_def validate_expected_version_def
        SyncEventPlan_def cx_command_None)
qed

text \<open>
  C19: A removal that compiles needs the stored version and live endpoints; it
  deletes exactly the edge named by its content, and records a tombstone under which other devices
  learn of it.
\<close>

theorem removed_relation_leaves_tombstone:
  assumes "builtin_space (cx_overlay cx)" "relations_ok (cx_overlay cx)" "compile_RemoveRelation cx rq = Inr c"
  shows "\<exists>e stored ov'. relation_identity cx rq = Inr e \<and>
    ov_row (cx_overlay cx) ''relation'' [JStr (eg_id e)] = Some stored \<and>
    rq_expected_version rq = Some (int_of (fld stored ''version'')) \<and>
    (\<forall>i \<in> {eg_from e, eg_to e}. \<exists>r. ov_row (cx_overlay cx) ''work_item'' [JStr i] = Some r \<and>
       fld r ''archived_at'' = JNull) \<and>
    ov_apply (cx_overlay cx) c = Inr ov' \<and> ov_row ov' ''relation'' [JStr (eg_id e)] = None \<and>
    is_tombstoned ov' ''relation'' (eg_id e) \<and>
    (\<forall>t ident. (t, ident) \<noteq> (''relation'', [JStr (eg_id e)]) \<longrightarrow> ov_row ov' t ident = ov_row (cx_overlay cx) t ident)"
proof -
  obtain e where "relation_identity cx rq = Inr e"
    using RemoveRelation_Inr [OF assms] by blast
  with removal_facts [OF assms this] show ?thesis by blast
qed

text \<open>
  C20: A removed relation is not gone for good. Its identifier is derived from its content, and the
  tombstone check is made for \<open>entity.create\<close> and \<open>entity.update\<close> requests only: over the Space a removal
  leaves, creating the same relation again compiles whenever its items are live and different and no
  path of blocking edges leads back, and applies; the new row starts at version 1 beside its own tombstone.
\<close>

theorem removed_relation_can_return:
  assumes "dependency_space (cx_overlay cx)" "compile_RemoveRelation cx rq = Inr c" "relation_identity cx rq = Inr e"
    "ov_apply (cx_overlay cx) c = Inr (cx_overlay cx')" "relation_identity cx' rq' = Inr e"
    "validate_canonical_timestamp (JStr (cx_now cx')) = Inr ()" "eg_type e \<in> set RELATION_TYPES"
    "eg_from e \<noteq> eg_to e" "(eg_to e, eg_from e) \<notin> (blocking_graph (cx_overlay cx') (eg_space e))\<^sup>+"
  shows "\<exists>c' ov'. compile_CreateRelation cx' rq' = Inr c' \<and> ov_apply (cx_overlay cx') c' = Inr ov' \<and>
    ov_row ov' ''relation'' [JStr (eg_id e)] = Some (new_relation e (cx_now cx')) \<and>
    fld (new_relation e (cx_now cx')) ''version'' = JInt 1 \<and> is_tombstoned ov' ''relation'' (eg_id e)"
proof -
  let ?ov = "cx_overlay cx'"
  have d: "builtin_space (cx_overlay cx)" "relations_ok (cx_overlay cx)"
    using assms(1) by (simp_all add: dependency_space_def)
  obtain ov' where ov': "ov_apply (cx_overlay cx) c = Inr ov'" "ov_row ov' ''relation'' [JStr (eg_id e)] = None"
    "is_tombstoned ov' ''relation'' (eg_id e)"
    and other: "\<And>t ident. (t, ident) \<noteq> (''relation'', [JStr (eg_id e)]) \<Longrightarrow> ov_row ov' t ident = ov_row (cx_overlay cx) t ident"
    and live: "\<And>i. i \<in> {eg_from e, eg_to e} \<Longrightarrow>
      \<exists>r. ov_row (cx_overlay cx) ''work_item'' [JStr i] = Some r \<and> fld r ''archived_at'' = JNull"
    using removal_facts [OF d assms(2,3)] by (elim exE conjE) (rule that, assumption+, simp, erule (1) bspec)
  have ov: "ov' = ?ov" using ov'(1) assms(4) by simp
  have "dependency_space ?ov"
    using RemoveRelation_keeps [OF assms(1,2)] assms(4) by (auto simp: keeps_def)
  then have b: "builtin_space ?ov" by (simp add: dependency_space_def)
  have ends: "require_relation_endpoints ?ov [eg_from e, eg_to e] = Inr ()"
    using live other [of "''work_item''"] by (auto simp: ov rbind_Inr require_Inr require_row_Inr)
  have "(eg_to e, eg_from e) \<notin> (blocking_graph ?ov (eg_space e))\<^sup>*"
    using assms(8,9) by (auto simp: rtrancl_eq_or_trancl)
  then obtain c' where c': "insert_relation cx' rq' e = Inr c'"
    using insert_relation_succeeds [OF b _ assms(6)] by blast
  have "compile_CreateRelation cx' rq' = Inr c'"
    using create_relation_is_insert [OF assms(5,7) ends assms(8)] ov'(2) c' by (simp add: ov)
  moreover note insert_relation_Inr(2) [OF b _ c'] ov'(2,3)
  ultimately show ?thesis by (auto simp: ov new_relation_facts is_tombstoned_def)
qed

section \<open>Dependencies of the small Space\<close>

definition sample_edge_row :: "string \<Rightarrow> string \<Rightarrow> string \<Rightarrow> row" where
  "sample_edge_row i f t = blank_row relation_spec
     [(''id'', JStr i), (''space_id'', JStr ''s1''), (''from_work_item_id'', JStr f), (''to_work_item_id'', JStr t),
      (''relation_type'', JStr ''depends_on''), (''version'', JInt 1), (''updated_at'', sample_stamp)]"

definition edge_rows :: "string \<Rightarrow> string \<Rightarrow> string \<Rightarrow> ((string \<times> json list) \<times> row) list" where
  "edge_rows i f t = ((''relation'', [JStr i]), sample_edge_row i f t) # sample_rows"

lemma edge_columns:
  "fld (sample_edge_row i f t) ''id'' = JStr i" "fld (sample_edge_row i f t) ''space_id'' = JStr ''s1''"
  "fld (sample_edge_row i f t) ''from_work_item_id'' = JStr f" "fld (sample_edge_row i f t) ''to_work_item_id'' = JStr t"
  "fld (sample_edge_row i f t) ''relation_type'' = JStr ''depends_on''"
  "fld (sample_edge_row i f t) ''version'' = JInt 1" "fld (sample_edge_row i f t) ''resolution'' = JNull"
  by (simp_all add: sample_edge_row_def fld_blank_row field_names_builtin)

lemma edge_rows_lookup:
  "ov_row (sample_overlay (edge_rows i f t)) t' ident =
     (if (t', ident) = (''relation'', [JStr i]) then Some (sample_edge_row i f t)
      else ov_row (sample_overlay sample_rows) t' ident)"
  by (auto simp: ov_row_def edge_rows_def)

lemma no_sample_relations: "ov_row (sample_overlay sample_rows) ''relation'' ident = None"
  unfolding sample_lookup by (auto simp: sample_rows_def)

lemma edge_rows_space: "builtin_space (sample_overlay (edge_rows i f t))" "relations_ok (sample_overlay (edge_rows i f t))"
proof -
  have "row_shape sample_catalog ''relation'' [JStr i] (sample_edge_row i f t)"
    unfolding sample_edge_row_def sample_stamp_def
    by (rule blank_row_shape [OF sample_catalog_get [of relation_spec, simplified builtin_specs_def, simplified]])
      (simp_all add: field_names_builtin pk_values_def pk_field_set_def fld_blank_row)
  moreover have "overlay_wf (sample_overlay sample_rows)" by (rule sample_wf)
  moreover have "(''relation'', [JStr i]) \<notin> fst ` set sample_rows" by (simp add: sample_rows_def)
  ultimately show "builtin_space (sample_overlay (edge_rows i f t))"
    by (simp add: sample_builtin overlay_wf_def edge_rows_def)
  show "relations_ok (sample_overlay (edge_rows i f t))"
    by (simp add: relations_ok_def edge_rows_lookup no_sample_relations edge_columns)
qed

lemma edge_rows_graph:
  "blocking_graph (sample_overlay (edge_rows i f t)) s = (if s = ''s1'' then {(f, t)} else {})"
  by (auto simp: blocking_graph_def edge_rows_lookup no_sample_relations edge_columns BLOCKING_RELATION_TYPES_def)

definition edge_request :: "string \<Rightarrow> string \<Rightarrow> int option \<Rightarrow> request" where
  "edge_request f t expected = sample_request ''task_space.CreateRelation'' ''task_space'' ''rel''
     [(''space_id'', JStr ''s1''), (''from_work_item_id'', JStr f), (''to_work_item_id'', JStr t),
      (''relation_type'', JStr ''depends_on'')] expected"

definition association_request :: "string \<Rightarrow> string \<Rightarrow> request" where
  "association_request f t = sample_request ''task_space.CreateRelation'' ''task_space'' ''rel''
     [(''space_id'', JStr ''s1''), (''from_work_item_id'', JStr f), (''to_work_item_id'', JStr t),
      (''relation_type'', JStr ''relates_to'')] None"

definition zero_edge :: "string \<Rightarrow> string \<Rightarrow> edge" where
  "zero_edge f t = \<lparr>eg_space = ''s1'', eg_from = f, eg_to = t, eg_type = ''depends_on'',
     eg_id = ''rel_'' @ replicate 32 (CHR ''0'')\<rparr>"

lemma edge_identity: "relation_identity (sample_ctx rows) (edge_request f t expected) = Inr (zero_edge f t)"
  by (simp add: relation_identity_def edge_request_def pget_def dict_def zero_edge_def relation_id_def
      canonical_payload_hash_def sample_digests_def)

lemma edge_endpoints:
  "require_relation_endpoints (sample_overlay (edge_rows i f t)) [''a'', ''b''] = Inr ()"
proof -
  have "ov_row (sample_overlay (edge_rows i f t)) ''work_item'' [JStr ''a''] = Some (sample_item ''a'' JNull)"
    "ov_row (sample_overlay (edge_rows i f t)) ''work_item'' [JStr ''b''] = Some (sample_item ''b'' (JStr ''a''))"
    by (simp_all add: edge_rows_lookup sample_items)
  then show ?thesis by (simp add: require_row_def sample_item_columns)
qed

lemma sample_removal:
  "\<exists>c. compile_RemoveRelation (sample_ctx (edge_rows (eg_id (zero_edge ''a'' ''b'')) ''a'' ''b''))
      (edge_request ''a'' ''b'' (Some 1)) = Inr c"
proof -
  let ?i = "eg_id (zero_edge ''a'' ''b'')"
  have "ov_row (sample_overlay (edge_rows ?i ''a'' ''b'')) ''relation'' [JStr ?i] = Some (sample_edge_row ?i ''a'' ''b'')"
    by (simp add: edge_rows_lookup)
  moreover have "eg_from (zero_edge ''a'' ''b'') = ''a''" "eg_to (zero_edge ''a'' ''b'') = ''b''"
    "rq_expected_version (edge_request ''a'' ''b'' (Some 1)) = Some 1"
    by (simp_all add: zero_edge_def edge_request_def)
  ultimately show ?thesis
    using edge_endpoints
    by (simp del: require_relation_endpoints.simps
        add: compile_RemoveRelation_def edge_identity relation_row_def require_expected_version_def
        edge_columns stored_version_def DbMutationPlan_def validate_expected_version_def
        SyncEventPlan_def validate_sample_now cx_command_None Let_def)
qed

lemma acyclic_empty_edges: "acyclic {}"
  by (simp add: acyclic_def)

lemma dependencies_stay_acyclic_witness:
  "\<exists>c ov'. compile_RemoveRelation (sample_ctx (edge_rows (eg_id (zero_edge ''a'' ''b'')) ''a'' ''b''))
      (edge_request ''a'' ''b'' (Some 1)) = Inr c \<and>
    ov_apply (sample_overlay (edge_rows (eg_id (zero_edge ''a'' ''b'')) ''a'' ''b'')) c = Inr ov' \<and>
    acyclic (blocking_graph ov' ''s1'')"
proof -
  let ?cx = "sample_ctx (edge_rows (eg_id (zero_edge ''a'' ''b'')) ''a'' ''b'')"
    and ?rq = "edge_request ''a'' ''b'' (Some 1)"
  obtain c where c: "compile_RemoveRelation ?cx ?rq = Inr c" using sample_removal by blast
  have "compile_RemoveRelation \<in> set relation_handlers" by (simp add: relation_handlers_def)
  moreover have "\<forall>s. acyclic (blocking_graph (cx_overlay ?cx) s)"
    using acyclic_empty_edges by (simp add: edge_rows_graph acyclic_insert)
  ultimately show ?thesis
    using dependencies_stay_acyclic [of compile_RemoveRelation ?cx ?rq c] edge_rows_space c by auto
qed


lemma relates_to_refused_against_dependencies_witness:
  "\<exists>path. compile_CreateRelation (sample_ctx (edge_rows ''r1'' ''b'' ''a'')) (association_request ''a'' ''b'') =
     Inl (cycle_violation ((zero_edge ''a'' ''b'')\<lparr>eg_type := ''relates_to''\<rparr>) path [])"
proof -
  let ?cx = "sample_ctx (edge_rows ''r1'' ''b'' ''a'')" and ?e = "(zero_edge ''a'' ''b'')\<lparr>eg_type := ''relates_to''\<rparr>"
  have e: "eg_from ?e = ''a''" "eg_to ?e = ''b''" "eg_space ?e = ''s1''" by (simp_all add: zero_edge_def)
  have "(''b'', ''a'') \<in> (blocking_graph (cx_overlay ?cx) ''s1'')\<^sup>+" by (auto simp: edge_rows_graph)
  moreover have "ov_row (cx_overlay ?cx) ''relation'' [JStr (eg_id ?e)] = None"
    by (simp add: edge_rows_lookup no_sample_relations zero_edge_def)
  moreover have "relation_identity ?cx (association_request ''a'' ''b'') = Inr ?e"
    by (simp add: relation_identity_def association_request_def pget_def dict_def zero_edge_def relation_id_def
        canonical_payload_hash_def sample_digests_def)
  ultimately show ?thesis
    using relates_to_refused_against_dependencies [of ?cx "association_request ''a'' ''b''" ?e]
      edge_rows_space(1) edge_endpoints e
    by (simp del: require_relation_endpoints.simps)
qed

lemma relation_commands_idempotent_witness:
  "\<exists>c. compile_CreateRelation (sample_ctx (edge_rows (eg_id (zero_edge ''a'' ''b'')) ''a'' ''b''))
      (edge_request ''a'' ''b'' None) = Inr c \<and> cm_plans c = []"
proof -
  let ?i = "eg_id (zero_edge ''a'' ''b'')"
  let ?cx = "sample_ctx (edge_rows ?i ''a'' ''b'')"
  have row: "ov_row (cx_overlay ?cx) ''relation'' [JStr ?i] = Some (sample_edge_row ?i ''a'' ''b'')"
    by (simp add: edge_rows_lookup)
  have e: "eg_from (zero_edge ''a'' ''b'') = ''a''" "eg_to (zero_edge ''a'' ''b'') = ''b''"
    "eg_type (zero_edge ''a'' ''b'') \<in> set BLOCKING_RELATION_TYPES"
    by (simp_all add: zero_edge_def BLOCKING_RELATION_TYPES_def)
  from relation_commands_idempotent [OF edge_identity [of _ _ _ None] row e(3)] e(1,2) edge_endpoints
  show ?thesis by (auto simp del: require_relation_endpoints.simps)
qed

lemma removed_relation_leaves_tombstone_witness:
  "\<exists>c ov' (e :: edge). compile_RemoveRelation (sample_ctx (edge_rows (eg_id (zero_edge ''a'' ''b'')) ''a'' ''b''))
      (edge_request ''a'' ''b'' (Some 1)) = Inr c \<and>
    ov_apply (sample_overlay (edge_rows (eg_id (zero_edge ''a'' ''b'')) ''a'' ''b'')) c = Inr ov' \<and>
    is_tombstoned ov' ''relation'' (eg_id e)"
proof -
  let ?cx = "sample_ctx (edge_rows (eg_id (zero_edge ''a'' ''b'')) ''a'' ''b'')"
    and ?rq = "edge_request ''a'' ''b'' (Some 1)"
  obtain c where c: "compile_RemoveRelation ?cx ?rq = Inr c" using sample_removal by blast
  have "builtin_space (cx_overlay ?cx)" "relations_ok (cx_overlay ?cx)" using edge_rows_space by simp_all
  from removed_relation_leaves_tombstone [OF this c] c show ?thesis by auto
qed

lemma removed_relation_can_return_witness:
  "\<exists>c ov1 c' ov2. compile_RemoveRelation (sample_ctx (edge_rows (eg_id (zero_edge ''a'' ''b'')) ''a'' ''b''))
      (edge_request ''a'' ''b'' (Some 1)) = Inr c \<and>
    ov_apply (sample_overlay (edge_rows (eg_id (zero_edge ''a'' ''b'')) ''a'' ''b'')) c = Inr ov1 \<and>
    compile_CreateRelation ((sample_ctx [])\<lparr>cx_overlay := ov1\<rparr>) (edge_request ''a'' ''b'' None) = Inr c' \<and>
    ov_apply ov1 c' = Inr ov2 \<and> is_tombstoned ov2 ''relation'' (eg_id (zero_edge ''a'' ''b''))"
proof -
  let ?i = "eg_id (zero_edge ''a'' ''b'')"
  let ?cx = "sample_ctx (edge_rows ?i ''a'' ''b'')" and ?rq = "edge_request ''a'' ''b'' (Some 1)"
  let ?ov1 = "(without_row (cx_overlay ?cx) ''relation'' [JStr ?i])
      \<lparr>ov_tombstones := insert (effective_sync_entity_type relation_spec, ?i) (ov_tombstones (cx_overlay ?cx))\<rparr>"
  let ?cx' = "(sample_ctx [])\<lparr>cx_overlay := ?ov1\<rparr>"
  obtain c where c: "compile_RemoveRelation ?cx ?rq = Inr c" using sample_removal by blast
  have d: "dependency_space (cx_overlay ?cx)"
    using edge_rows_space acyclic_empty_edges
    by (simp add: dependency_space_def dependencies_ok_def edge_rows_graph acyclic_insert)
  have ov1: "ov_apply (cx_overlay ?cx) c = Inr (cx_overlay ?cx')"
    using RemoveRelation_Inr [OF _ _ c] edge_rows_space by (auto simp: edge_identity)
  have "blocking_graph (cx_overlay ?cx') s = {}" for s
    by (auto simp: blocking_graph_def edge_rows_lookup no_sample_relations)
  moreover have "relation_identity ?cx' (edge_request ''a'' ''b'' None) = Inr (zero_edge ''a'' ''b'')"
    by (simp add: relation_identity_def edge_request_def pget_def dict_def zero_edge_def relation_id_def
      canonical_payload_hash_def sample_digests_def sample_ctx_def)
  moreover have "eg_type (zero_edge ''a'' ''b'') \<in> set RELATION_TYPES"
    "eg_from (zero_edge ''a'' ''b'') \<noteq> eg_to (zero_edge ''a'' ''b'')"
    by (simp_all add: zero_edge_def RELATION_TYPES_def)
  ultimately show ?thesis
    using removed_relation_can_return [OF d c edge_identity ov1] c ov1 validate_sample_now by force
qed

end
