(* ===== verification/NoteDocument.thy ===== *)
theory NoteDocument
  imports TaskSpace
begin

text \<open>
  The Note document (\<open>app/task_space/document.py\<close>): a closed tree of paragraphs and checklists, its
  validation, its canonical text, and the edits of one document.

  The classes of the document are pydantic models; what their declarations demand of a value (closed
  objects, strict types, lengths, the alias or the name of a field, the alias first, the discriminator)
  is written out here. The text of pydantic's error is the parameter \<open>describe\<close>.
\<close>

section \<open>The document\<close>

definition MAX_DOCUMENT_BYTES :: nat where "MAX_DOCUMENT_BYTES = 131072"
definition MAX_BLOCKS :: nat where "MAX_BLOCKS = 256"
definition MAX_ITEMS :: nat where "MAX_ITEMS = 2048"
definition MAX_TEXT :: nat where "MAX_TEXT = 10000"

definition id_start :: "char \<Rightarrow> bool" where
  "id_start c = ((CHR ''A'' \<le> c \<and> c \<le> CHR ''Z'') \<or> (CHR ''a'' \<le> c \<and> c \<le> CHR ''z'') \<or> is_digit c)"

definition ID_PATTERN :: "string \<Rightarrow> bool" where
  "ID_PATTERN s = (s \<noteq> [] \<and> length s \<le> 64 \<and> id_start (hd s) \<and>
     list_all (\<lambda>c. id_start c \<or> c = CHR ''_'' \<or> c = CHR ''-'') (tl s))"

datatype checklist_item =
  ChecklistItemV1 (item_id: string) (item_text: string) (item_checked: bool) (item_children: "checklist_item list")

datatype note_block =
    ParagraphBlockV1 (block_id: string) string
  | ChecklistBlockV1 (block_id: string) "checklist_item list"

datatype note_document = WorkItemNoteDocumentV1 (doc_blocks: "note_block list")

section \<open>Reading the models\<close>

text \<open>The key under which a field with these names is found; the keys that are not found this way are extra.\<close>

definition used_key :: "(string \<times> json) list \<Rightarrow> string list \<Rightarrow> string option" where
  "used_key kvs names = find (\<lambda>n. map_of kvs n \<noteq> None) names"

definition field :: "(string \<times> json) list \<Rightarrow> string list \<Rightarrow> json option" where
  "field kvs names = (case used_key kvs names of None \<Rightarrow> None | Some n \<Rightarrow> map_of kvs n)"

definition closed_model :: "(string \<times> json) list \<Rightarrow> string list list \<Rightarrow> bool" where
  "closed_model kvs declared = list_all (\<lambda>(k, _). \<exists>names \<in> set declared. used_key kvs names = Some k) kvs"

definition strict_text :: "nat \<Rightarrow> nat \<Rightarrow> json option \<Rightarrow> string option" where
  "strict_text lo hi v = (case v of
     Some (JStr s) \<Rightarrow> if lo \<le> length s \<and> length s \<le> hi then Some s else None
   | _ \<Rightarrow> None)"

definition strict_bool :: "json option \<Rightarrow> bool option" where
  "strict_bool v = (case v of Some (JBool b) \<Rightarrow> Some b | _ \<Rightarrow> None)"

definition strict_list :: "nat \<Rightarrow> json option \<Rightarrow> json list option" where
  "strict_list hi v = (case v of
     Some (JList xs) \<Rightarrow> if length xs \<le> hi then Some xs else None
   | _ \<Rightarrow> None)"

definition jget :: "(string \<times> json) list \<Rightarrow> string \<Rightarrow> json res" where
  "jget kvs k = (case map_of kvs k of None \<Rightarrow> Inl (KeyErr k) | Some v \<Rightarrow> Inr v)"

definition object :: "json \<Rightarrow> (string \<times> json) list option" where
  "object v = (case v of JObj kvs \<Rightarrow> Some kvs | _ \<Rightarrow> None)"

definition item_fields :: "string list list" where
  "item_fields = [[''itemId'', ''item_id''], [''text''], [''checked''], [''children'']]"

definition children_field :: "(string \<times> json) list \<Rightarrow> json list option" where
  "children_field kvs =
     (case field kvs [''children''] of None \<Rightarrow> Some [] | Some v \<Rightarrow> strict_list MAX_ITEMS (Some v))"

text \<open>\<open>freeze_children\<close> and \<open>validate_shape\<close> included.\<close>

definition checked_item :: "(string \<times> json) list \<Rightarrow> checklist_item list \<Rightarrow> checklist_item option" where
  "checked_item kvs children =
     (case (strict_text 1 64 (field kvs [''itemId'', ''item_id'']), strict_text 1 MAX_TEXT (field kvs [''text'']),
            strict_bool (field kvs [''checked''])) of
        (Some i, Some t, Some c) \<Rightarrow>
          if closed_model kvs item_fields \<and> ID_PATTERN i \<and> py_strip t \<noteq> []
          then Some (ChecklistItemV1 i t c children) else None
      | _ \<Rightarrow> None)"

lemma used_key_Some: "used_key kvs names = Some n \<Longrightarrow> \<exists>v. map_of kvs n = Some v"
  by (auto simp: used_key_def find_Some_iff)

lemma children_size:
  assumes "object v = Some kvs" "children_field kvs = Some cs" "c \<in> set cs"
  shows "size c < size v"
proof -
  have v: "v = JObj kvs" using assms(1) by (simp add: object_def split: json.splits)
  obtain k where "map_of kvs k = Some (JList cs)"
    using assms(2,3)
    by (auto simp: children_field_def field_def strict_list_def dest!: used_key_Some split: option.splits json.splits if_splits)
  then have "(k, JList cs) \<in> set kvs" by (rule map_of_SomeD)
  then have "size (JList cs) \<le> size_list (size_prod (\<lambda>_. 0) size) kvs"
    by (rule size_list_estimation') simp
  moreover have "size c \<le> size_list size cs" by (rule size_list_estimation' [OF assms(3)]) simp
  ultimately show ?thesis by (simp add: v)
qed

function item_of :: "json \<Rightarrow> checklist_item option" where
  "item_of v =
     (case object v of
        None \<Rightarrow> None
      | Some kvs \<Rightarrow>
          (case children_field kvs of
             None \<Rightarrow> None
           | Some cs \<Rightarrow> (case those (map item_of cs) of None \<Rightarrow> None | Some children \<Rightarrow> checked_item kvs children)))"
  by pat_completeness auto
termination by (relation "measure size") (auto dest: children_size)

declare item_of.simps [simp del]

definition items_of :: "json option \<Rightarrow> checklist_item list option" where
  "items_of v = (case strict_list MAX_ITEMS v of None \<Rightarrow> None | Some xs \<Rightarrow> those (map item_of xs))"

definition block_of :: "json \<Rightarrow> note_block option" where
  "block_of v =
     (case object v of
        None \<Rightarrow> None
      | Some kvs \<Rightarrow>
          (case strict_text 1 64 (field kvs [''blockId'', ''block_id'']) of
             None \<Rightarrow> None
           | Some b \<Rightarrow>
               if map_of kvs ''type'' = Some (JStr ''paragraph'') \<and>
                  closed_model kvs [[''blockId'', ''block_id''], [''type''], [''text'']]
               then map_option (ParagraphBlockV1 b) (strict_text 0 MAX_TEXT (field kvs [''text'']))
               else if map_of kvs ''type'' = Some (JStr ''checklist'') \<and>
                  closed_model kvs [[''blockId'', ''block_id''], [''type''], [''items'']]
               then map_option (ChecklistBlockV1 b) (items_of (field kvs [''items'']))
               else None))"

definition model_validate :: "(string \<times> json) list \<Rightarrow> note_document option" where
  "model_validate kvs =
     (if field kvs [''contentVersion'', ''content_version''] = Some (JInt 1) \<and>
         closed_model kvs [[''contentVersion'', ''content_version''], [''blocks'']]
      then case strict_list MAX_BLOCKS (field kvs [''blocks'']) of
             None \<Rightarrow> None
           | Some xs \<Rightarrow> map_option WorkItemNoteDocumentV1 (those (map block_of xs))
      else None)"

section \<open>The canonical text\<close>

fun dump_item :: "checklist_item \<Rightarrow> json" where
  "dump_item (ChecklistItemV1 i t c children) = JObj
     [(''itemId'', JStr i), (''text'', JStr t), (''checked'', JBool c), (''children'', JList (map dump_item children))]"

fun dump_block :: "note_block \<Rightarrow> json" where
  "dump_block (ParagraphBlockV1 b t) = JObj [(''blockId'', JStr b), (''type'', JStr ''paragraph''), (''text'', JStr t)]"
| "dump_block (ChecklistBlockV1 b items) = JObj
     [(''blockId'', JStr b), (''type'', JStr ''checklist''), (''items'', JList (map dump_item items))]"

definition dump_blocks :: "json list \<Rightarrow> (string \<times> json) list" where
  "dump_blocks blocks = [(''contentVersion'', JInt 1), (''blocks'', JList blocks)]"

definition model_dump :: "note_document \<Rightarrow> (string \<times> json) list" where
  "model_dump doc = dump_blocks (map dump_block (doc_blocks doc))"

definition canonical_document_json :: "note_document \<Rightarrow> string" where
  "canonical_document_json doc = json_dumps (JObj (model_dump doc))"

definition utf8_length :: "string \<Rightarrow> nat" where
  "utf8_length s = sum_list (map (\<lambda>c. if (of_char c :: nat) < 128 then 1 else 2) s)"

section \<open>Validation\<close>

text \<open>\<open>_walk_items\<close> and the loop over it: the identifiers seen so far and the number of items.\<close>

fun walk_items :: "nat \<Rightarrow> string set \<times> nat \<Rightarrow> checklist_item list \<Rightarrow> (string set \<times> nat) res" where
  "walk_items depth s [] = Inr s"
| "walk_items depth (seen, n) (ChecklistItemV1 i t c children # items) =
     rbind (require (depth \<le> 2) (InvalidNoteDocument ''checklist depth exceeds two'')) (\<lambda>_.
     rbind (require (i \<notin> seen) (InvalidNoteDocument ''duplicate Note ID'')) (\<lambda>_.
     rbind (walk_items (Suc depth) (insert i seen, Suc n) children) (\<lambda>s.
     walk_items depth s items)))"

fun walk_blocks :: "string set \<times> nat \<Rightarrow> note_block list \<Rightarrow> (string set \<times> nat) res" where
  "walk_blocks s [] = Inr s"
| "walk_blocks (seen, n) (block # blocks) =
     rbind (require (ID_PATTERN (block_id block)) (InvalidNoteDocument ''invalid blockId'')) (\<lambda>_.
     rbind (require (block_id block \<notin> seen) (InvalidNoteDocument ''duplicate Note ID'')) (\<lambda>_.
     rbind (case block of
              ParagraphBlockV1 _ _ \<Rightarrow> Inr (insert (block_id block) seen, n)
            | ChecklistBlockV1 _ items \<Rightarrow> walk_items 1 (insert (block_id block) seen, n) items) (\<lambda>s.
     walk_blocks s blocks)))"

definition validate_document :: "note_document \<Rightarrow> note_document res" where
  "validate_document doc =
     rbind (walk_blocks ({}, 0) (doc_blocks doc)) (\<lambda>(_, item_count).
     rbind (require (item_count \<le> MAX_ITEMS) (InvalidNoteDocument ''Note item count exceeds limit'')) (\<lambda>_.
     rbind (require (utf8_length (canonical_document_json doc) \<le> MAX_DOCUMENT_BYTES)
              (InvalidNoteDocument ''Note document exceeds byte limit'')) (\<lambda>_.
     Inr doc)))"

definition parse_document_v1 :: "(json \<Rightarrow> string) \<Rightarrow> json \<Rightarrow> note_document res" where
  "parse_document_v1 describe raw =
     (case raw of
        JObj kvs \<Rightarrow>
          (case map_of kvs ''contentVersion'' of
             Some (JInt n) \<Rightarrow>
               if n \<noteq> 1 then Inl (UnsupportedContentVersion ''unsupported contentVersion'')
               else (case model_validate kvs of
                       None \<Rightarrow> Inl (InvalidNoteDocument (describe raw))
                     | Some doc \<Rightarrow> validate_document doc)
           | _ \<Rightarrow> Inl (InvalidNoteDocument ''contentVersion must be integer 1''))
      | _ \<Rightarrow> Inl (InvalidNoteDocument ''Note document root must be an object''))"

section \<open>Edits\<close>

text \<open>\<open>dict(block)\<close> of anything but an object is outside the model, and an error here.\<close>

definition append_blocks :: "(json \<Rightarrow> string) \<Rightarrow> note_document \<Rightarrow> json list \<Rightarrow> note_document res" where
  "append_blocks describe doc blocks =
     rbind (rforeach (\<lambda>block. require (object block \<noteq> None) (TypeErr ''block'')) blocks) (\<lambda>_.
     parse_document_v1 describe (JObj (dump_blocks (map dump_block (doc_blocks doc) @ blocks))))"

text \<open>\<open>item.get("children", [])\<close>; iterating over anything but an array is outside the model.\<close>

definition raw_children :: "(string \<times> json) list \<Rightarrow> json list res" where
  "raw_children kvs =
     (case map_of kvs ''children'' of
        None \<Rightarrow> Inr [] | Some (JList cs) \<Rightarrow> Inr cs | _ \<Rightarrow> Inl (TypeErr ''children''))"

lemma raw_children_size:
  assumes "object v = Some kvs" "raw_children kvs = Inr cs" "c \<in> set cs"
  shows "size c < size v"
proof -
  have v: "v = JObj kvs" using assms(1) by (simp add: object_def split: json.splits)
  have "map_of kvs ''children'' = Some (JList cs)"
    using assms(2,3) by (auto simp: raw_children_def split: option.splits json.splits)
  then have "(''children'', JList cs) \<in> set kvs" by (rule map_of_SomeD)
  then have "size (JList cs) \<le> size_list (size_prod (\<lambda>_. 0) size) kvs"
    by (rule size_list_estimation') simp
  moreover have "size c \<le> size_list size cs" by (rule size_list_estimation' [OF assms(3)]) simp
  ultimately show ?thesis by (simp add: v)
qed

function rewrite_item ::
  "string \<Rightarrow> ((string \<times> json) list \<Rightarrow> (string \<times> json) list res) \<Rightarrow> json \<Rightarrow> (json \<times> bool) res" where
  "rewrite_item target rewrite v =
     (case object v of
        None \<Rightarrow> Inl (TypeErr ''item'')
      | Some kvs \<Rightarrow>
          rbind (jget kvs ''itemId'') (\<lambda>i.
          if i = JStr target then rbind (rewrite kvs) (\<lambda>kvs'. Inr (JObj kvs', True))
          else
            rbind (raw_children kvs) (\<lambda>children.
            rbind (rmap (rewrite_item target rewrite) children) (\<lambda>rewritten.
            Inr (JObj (AList.update ''children'' (JList (map fst rewritten)) kvs), list_ex snd rewritten)))))"
  by pat_completeness auto
termination by (relation "measure (size \<circ> snd \<circ> snd)") (auto dest: raw_children_size)

declare rewrite_item.simps [simp del]

text \<open>One block: its rewritten form and how many of its items contain the target.\<close>

definition rewrite_block ::
  "string option \<Rightarrow> string \<Rightarrow> ((string \<times> json) list \<Rightarrow> (string \<times> json) list res) \<Rightarrow> json \<Rightarrow> (json \<times> nat) res" where
  "rewrite_block only target rewrite v =
     (case object v of
        None \<Rightarrow> Inl (TypeErr ''block'')
      | Some kvs \<Rightarrow>
          rbind (case only of None \<Rightarrow> Inr False | Some b \<Rightarrow>
                   rbind (jget kvs ''blockId'') (\<lambda>found. Inr (found \<noteq> JStr b))) (\<lambda>skip.
          if skip then Inr (v, 0)
          else case map_of kvs ''items'' of
                 None \<Rightarrow> Inr (v, 0)
               | Some (JList items) \<Rightarrow>
                   rbind (rmap (rewrite_item target rewrite) items) (\<lambda>rewritten.
                   Inr (JObj (AList.update ''items'' (JList (map fst rewritten)) kvs),
                        length (filter snd rewritten)))
               | _ \<Rightarrow> Inl (TypeErr ''items'')))"

definition rewrite_document_item ::
  "(json \<Rightarrow> string) \<Rightarrow> note_document \<Rightarrow> string option \<Rightarrow> string \<Rightarrow>
     ((string \<times> json) list \<Rightarrow> (string \<times> json) list res) \<Rightarrow> note_document res" where
  "rewrite_document_item describe doc only target rewrite =
     rbind (rmap (rewrite_block only target rewrite) (map dump_block (doc_blocks doc))) (\<lambda>blocks.
     rbind (require (sum_list (map snd blocks) = 1)
              (InvalidNoteDocument ''itemId must identify exactly one item'')) (\<lambda>_.
     parse_document_v1 describe (JObj (dump_blocks (map fst blocks)))))"

definition set_checked :: "bool \<Rightarrow> (string \<times> json) list \<Rightarrow> (string \<times> json) list res" where
  "set_checked checked kvs =
     (case map_of kvs ''checked'' of
        Some (JBool _) \<Rightarrow> Inr (AList.update ''checked'' (JBool checked) kvs)
      | _ \<Rightarrow> Inl (InvalidNoteDocument ''item is not a checklist item''))"

definition set_checklist_item_checked ::
  "(json \<Rightarrow> string) \<Rightarrow> note_document \<Rightarrow> string \<Rightarrow> bool \<Rightarrow> note_document res" where
  "set_checklist_item_checked describe doc target checked =
     rewrite_document_item describe doc None target (set_checked checked)"

section \<open>Documents that are read are well shaped\<close>

fun item_shape :: "checklist_item \<Rightarrow> bool" where
  "item_shape (ChecklistItemV1 i t c children) =
     (ID_PATTERN i \<and> t \<noteq> [] \<and> length t \<le> MAX_TEXT \<and> py_strip t \<noteq> [] \<and> length children \<le> MAX_ITEMS \<and>
      (\<forall>child \<in> set children. item_shape child))"

fun block_shape :: "note_block \<Rightarrow> bool" where
  "block_shape (ParagraphBlockV1 b t) = (b \<noteq> [] \<and> length b \<le> 64 \<and> length t \<le> MAX_TEXT)"
| "block_shape (ChecklistBlockV1 b items) =
     (b \<noteq> [] \<and> length b \<le> 64 \<and> length items \<le> MAX_ITEMS \<and> (\<forall>item \<in> set items. item_shape item))"

definition document_shape :: "note_document \<Rightarrow> bool" where
  "document_shape doc = (length (doc_blocks doc) \<le> MAX_BLOCKS \<and> (\<forall>b \<in> set (doc_blocks doc). block_shape b))"

lemma those_Some: "those xs = Some ys \<longleftrightarrow> xs = map Some ys"
  by (induction xs arbitrary: ys) (auto split: option.splits)

lemma those_map:
  assumes "those (map f xs) = Some ys"
  shows "length ys = length xs" "y \<in> set ys \<Longrightarrow> \<exists>x \<in> set xs. f x = Some y"
proof -
  have m: "map f xs = map Some ys" using assms by (simp add: those_Some)
  then show "length ys = length xs" by (metis length_map)
  show "\<exists>x \<in> set xs. f x = Some y" if "y \<in> set ys"
  proof -
    have "Some y \<in> set (map f xs)" using that unfolding m by simp
    then show ?thesis by auto
  qed
qed

lemma strict_text_Some: "strict_text lo hi v = Some s \<longleftrightarrow> v = Some (JStr s) \<and> lo \<le> length s \<and> length s \<le> hi"
  by (auto simp: strict_text_def split: option.splits json.splits if_splits)

lemma strict_bool_Some: "strict_bool v = Some b \<longleftrightarrow> v = Some (JBool b)"
  by (auto simp: strict_bool_def split: option.splits json.splits)

lemma strict_list_Some: "strict_list hi v = Some xs \<longleftrightarrow> v = Some (JList xs) \<and> length xs \<le> hi"
  by (auto simp: strict_list_def split: option.splits json.splits if_splits)

lemma children_field_length: "children_field kvs = Some cs \<Longrightarrow> length cs \<le> MAX_ITEMS"
  by (auto simp: children_field_def strict_list_Some split: option.splits)

lemma ID_PATTERN_length: "ID_PATTERN i \<Longrightarrow> i \<noteq> [] \<and> length i \<le> 64"
  by (simp add: ID_PATTERN_def)

lemma item_of_shape: "item_of v = Some item \<Longrightarrow> item_shape item"
proof (induction v arbitrary: item rule: item_of.induct)
  case (1 v)
  from 1(2) obtain kvs cs children where
    v: "object v = Some kvs" "children_field kvs = Some cs" "those (map item_of cs) = Some children"
      "checked_item kvs children = Some item"
    by (subst (asm) item_of.simps) (auto split: option.splits)
  have "length children = length cs" using those_map(1) [OF v(3)] .
  moreover have "item_shape child" if "child \<in> set children" for child
    using those_map(2) [OF v(3) that] 1(1) [OF v(1,2)] by blast
  ultimately show ?case
    using v(4) children_field_length [OF v(2)]
    by (auto simp: checked_item_def strict_text_Some strict_bool_Some Suc_le_eq split: option.splits if_splits)
qed

lemma those_item_shape: "those (map item_of xs) = Some items \<Longrightarrow>
    length items = length xs \<and> (\<forall>item \<in> set items. item_shape item)"
  using those_map [of item_of xs items] item_of_shape by blast

lemma block_of_shape: "block_of v = Some block \<Longrightarrow> block_shape block"
  by (auto simp: block_of_def items_of_def strict_text_Some strict_list_Some Suc_le_eq
      dest!: those_item_shape split: option.splits if_splits)

lemma model_validate_shape: "model_validate kvs = Some doc \<Longrightarrow> document_shape doc"
proof -
  assume "model_validate kvs = Some doc"
  then obtain xs blocks where xs: "length xs \<le> MAX_BLOCKS" "those (map block_of xs) = Some blocks"
    "doc = WorkItemNoteDocumentV1 blocks"
    by (auto simp: model_validate_def strict_list_Some split: option.splits if_splits)
  then show ?thesis
    using those_map [OF xs(2)] block_of_shape by (fastforce simp: document_shape_def)
qed

section \<open>Dumped documents are read back\<close>

lemma closed_model_simps [simp]:
  "closed_model [] declared"
  "closed_model ((k, v) # kvs) declared \<longleftrightarrow> (\<exists>names \<in> set declared. used_key ((k, v) # kvs) names = Some k) \<and>
     list_all (\<lambda>(k', _). \<exists>names \<in> set declared. used_key ((k, v) # kvs) names = Some k') kvs"
  by (simp_all add: closed_model_def)

lemma those_map_Some: "\<forall>x \<in> set xs. f (g x) = Some x \<Longrightarrow> those (map f (map g xs)) = Some xs"
  by (simp add: those_Some)

lemma item_of_dump: "item_shape item \<Longrightarrow> item_of (dump_item item) = Some item"
proof (induction item)
  case (ChecklistItemV1 i t c children)
  then have ch: "those (map item_of (map dump_item children)) = Some children"
    by (intro those_map_Some) simp
  let ?kvs = "[(''itemId'', JStr i), (''text'', JStr t), (''checked'', JBool c), (''children'', JList (map dump_item children))]"
  have "children_field ?kvs = Some (map dump_item children)"
    using ChecklistItemV1.prems by (simp add: children_field_def field_def used_key_def strict_list_def)
  moreover have "checked_item ?kvs children = Some (ChecklistItemV1 i t c children)"
    using ChecklistItemV1.prems ID_PATTERN_length [of i]
    by (simp add: checked_item_def field_def used_key_def strict_text_def strict_bool_def item_fields_def Suc_le_eq)
  ultimately show ?case using ch by (subst item_of.simps) (simp add: object_def)
qed

lemma block_of_dump: "block_shape block \<Longrightarrow> block_of (dump_block block) = Some block"
proof (cases block)
  case (ParagraphBlockV1 b t)
  then show "block_shape block \<Longrightarrow> ?thesis"
    by (simp add: block_of_def object_def field_def used_key_def strict_text_def Suc_le_eq)
next
  case (ChecklistBlockV1 b items)
  assume shape: "block_shape block"
  then have "those (map item_of (map dump_item items)) = Some items"
    by (intro those_map_Some) (simp add: ChecklistBlockV1 item_of_dump)
  with shape show ?thesis
    by (simp add: ChecklistBlockV1 block_of_def object_def field_def used_key_def strict_text_def strict_list_def
        items_of_def Suc_le_eq)
qed

lemma model_validate_dump: "document_shape doc \<Longrightarrow> model_validate (model_dump doc) = Some doc"
proof -
  assume shape: "document_shape doc"
  then have "those (map block_of (map dump_block (doc_blocks doc))) = Some (doc_blocks doc)"
    by (intro those_map_Some) (simp add: document_shape_def block_of_dump)
  with shape show ?thesis
    by (simp add: model_validate_def model_dump_def dump_blocks_def field_def used_key_def strict_list_def
        document_shape_def)
qed

section \<open>The order of keys does not matter\<close>

definition sorted_object :: "(string \<times> json) list \<Rightarrow> (string \<times> json) list" where
  "sorted_object kvs = sort_key fst (map (\<lambda>(k, v). (k, normal v)) kvs)"

lemma object_normal: "object (normal v) = map_option sorted_object (object v)"
  by (cases v) (simp_all add: object_def sorted_object_def)

lemma sorted_object_lookup:
  "distinct (map fst kvs) \<Longrightarrow> map_of (sorted_object kvs) k = map_option normal (map_of kvs k)"
  by (simp add: sorted_object_def map_of_sort map_of_map)

lemma sorted_object_keys: "fst ` set (sorted_object kvs) = fst ` set kvs"
  by (force simp: sorted_object_def)

lemma used_key_normal: "distinct (map fst kvs) \<Longrightarrow> used_key (sorted_object kvs) names = used_key kvs names"
  by (simp add: used_key_def sorted_object_lookup)

lemma field_normal: "distinct (map fst kvs) \<Longrightarrow> field (sorted_object kvs) names = map_option normal (field kvs names)"
  by (simp add: field_def used_key_normal sorted_object_lookup split: option.split)

lemma closed_model_keys: "closed_model kvs declared \<longleftrightarrow> (\<forall>k \<in> fst ` set kvs. \<exists>names \<in> set declared. used_key kvs names = Some k)"
  by (force simp: closed_model_def list_all_iff)

lemma closed_model_normal: "distinct (map fst kvs) \<Longrightarrow> closed_model (sorted_object kvs) declared = closed_model kvs declared"
  by (simp add: closed_model_keys sorted_object_keys used_key_normal)

lemma normal_simps: "normal v = JNull \<longleftrightarrow> v = JNull" "normal v = JBool b \<longleftrightarrow> v = JBool b"
  "normal v = JInt n \<longleftrightarrow> v = JInt n" "normal v = JStr s \<longleftrightarrow> v = JStr s"
  by (cases v; simp)+

lemma strict_normal:
  "strict_text lo hi (map_option normal v) = strict_text lo hi v"
  "strict_bool (map_option normal v) = strict_bool v"
  "strict_list hi' (map_option normal v) = map_option (map normal) (strict_list hi' v)"
  by (auto simp: strict_text_def strict_bool_def strict_list_def split: option.split json.split)

lemma field_member: "field kvs names = Some v \<Longrightarrow> \<exists>k. (k, v) \<in> set kvs"
  by (auto simp: field_def dest: map_of_SomeD split: option.splits)

lemma object_distinct:
  "distinct_keys v \<Longrightarrow> object v = Some kvs \<Longrightarrow> distinct (map fst kvs) \<and> (\<forall>k w. (k, w) \<in> set kvs \<longrightarrow> distinct_keys w)"
  by (auto simp: object_def split: json.splits)

lemma list_field_distinct:
  assumes "\<forall>k w. (k, w) \<in> set kvs \<longrightarrow> distinct_keys w" "strict_list hi (field kvs names) = Some xs" "x \<in> set xs"
  shows "distinct_keys x"
  using assms field_member by (fastforce simp: strict_list_Some)

lemma children_field_normal: "distinct (map fst kvs) \<Longrightarrow>
    children_field (sorted_object kvs) = map_option (map normal) (children_field kvs)"
  by (auto simp: children_field_def field_normal strict_normal(3) [of _ "Some _", simplified] split: option.split)

lemma children_field_distinct:
  "\<forall>k w. (k, w) \<in> set kvs \<longrightarrow> distinct_keys w \<Longrightarrow> children_field kvs = Some cs \<Longrightarrow> c \<in> set cs \<Longrightarrow> distinct_keys c"
  by (fastforce simp: children_field_def strict_list_Some dest!: field_member split: option.splits)

lemma checked_item_normal:
  assumes "distinct (map fst kvs)"
  shows "checked_item (sorted_object kvs) = checked_item kvs"
  unfolding checked_item_def field_normal [OF assms] strict_normal closed_model_normal [OF assms] ..

lemma item_of_normal: "distinct_keys v \<Longrightarrow> item_of (normal v) = item_of v"
proof (induction v rule: item_of.induct)
  case (1 v)
  show ?case
  proof (cases "object v")
    case None
    then show ?thesis by (simp add: item_of.simps [of v] item_of.simps [of "normal v"] object_normal)
  next
    case (Some kvs)
    note d = object_distinct [OF 1(2) Some]
    show ?thesis
    proof (cases "children_field kvs")
      case None
      then show ?thesis using Some d
        by (simp add: item_of.simps [of v] item_of.simps [of "normal v"] object_normal children_field_normal)
    next
      case (Some cs)
      note cs = Some
      have "map item_of (map normal cs) = map item_of cs"
        using 1(1) [OF \<open>object v = Some kvs\<close> cs] children_field_distinct [OF conjunct2 [OF d] cs] by simp
      with cs \<open>object v = Some kvs\<close> d show ?thesis
        by (simp add: item_of.simps [of v] item_of.simps [of "normal v"] object_normal children_field_normal
            checked_item_normal del: map_map split: option.split)
    qed
  qed
qed

lemma items_of_normal:
  assumes "\<And>x xs. strict_list MAX_ITEMS v = Some xs \<Longrightarrow> x \<in> set xs \<Longrightarrow> distinct_keys x"
  shows "items_of (map_option normal v) = items_of v"
proof (cases "strict_list MAX_ITEMS v")
  case (Some xs)
  then have "map item_of (map normal xs) = map item_of xs" using assms by (simp add: item_of_normal)
  with Some show ?thesis by (simp add: items_of_def strict_normal del: map_map)
qed (simp add: items_of_def strict_normal)

lemma block_of_normal:
  assumes "distinct_keys v"
  shows "block_of (normal v) = block_of v"
proof (cases "object v")
  case (Some kvs)
  note d = object_distinct [OF assms Some]
  have items: "items_of (map_option normal (field kvs [''items''])) = items_of (field kvs [''items''])"
    using d list_field_distinct [of kvs] by (simp add: items_of_normal)
  have type: "map_of (sorted_object kvs) ''type'' = Some (JStr s) \<longleftrightarrow> map_of kvs ''type'' = Some (JStr s)" for s
    using d by (auto simp: sorted_object_lookup normal_simps)
  show ?thesis
    unfolding block_of_def object_normal Some option.map(2) option.case(2) field_normal [OF conjunct1 [OF d]]
      strict_normal closed_model_normal [OF conjunct1 [OF d]] items type ..
qed (simp add: block_of_def object_normal)

lemma model_validate_normal:
  assumes "distinct_keys (JObj kvs)"
  shows "model_validate (sorted_object kvs) = model_validate kvs"
proof -
  have d: "distinct (map fst kvs)" "\<forall>k w. (k, w) \<in> set kvs \<longrightarrow> distinct_keys w" using assms by auto
  have "map block_of (map normal xs) = map block_of xs" if "strict_list MAX_BLOCKS (field kvs [''blocks'']) = Some xs" for xs
    using list_field_distinct [OF d(2) that] by (simp add: block_of_normal)
  moreover have "map_option normal w = Some (JInt 1) \<longleftrightarrow> w = Some (JInt 1)" for w
    by (auto simp: normal_simps)
  ultimately show ?thesis
    using d(1)
    by (auto simp: model_validate_def field_normal strict_normal closed_model_normal simp del: map_map split: option.split)
qed

lemma parse_normal:
  assumes "distinct_keys raw" "parse_document_v1 describe raw = Inr doc"
  shows "parse_document_v1 describe' (normal raw) = Inr doc"
proof -
  obtain kvs doc' where kvs: "raw = JObj kvs" "map_of kvs ''contentVersion'' = Some (JInt 1)"
    "model_validate kvs = Some doc'" "validate_document doc' = Inr doc"
    using assms(2) by (auto simp: parse_document_v1_def split: json.splits option.splits if_splits)
  show ?thesis
    using kvs assms(1) model_validate_normal [of kvs]
    by (simp add: parse_document_v1_def sorted_object_def [symmetric] sorted_object_lookup)
qed

section \<open>What validation demands\<close>

fun item_ids :: "checklist_item \<Rightarrow> string list" where
  "item_ids (ChecklistItemV1 i t c children) = i # concat (map item_ids children)"

fun fits :: "nat \<Rightarrow> checklist_item \<Rightarrow> bool" where
  "fits depth (ChecklistItemV1 i t c children) = (depth \<le> 2 \<and> (\<forall>child \<in> set children. fits (Suc depth) child))"

fun block_items :: "note_block \<Rightarrow> checklist_item list" where
  "block_items (ParagraphBlockV1 b t) = []"
| "block_items (ChecklistBlockV1 b items) = items"

definition block_ids :: "note_block \<Rightarrow> string list" where
  "block_ids block = block_id block # concat (map item_ids (block_items block))"

definition document_items :: "note_document \<Rightarrow> checklist_item list" where
  "document_items doc = concat (map block_items (doc_blocks doc))"

definition all_item_ids :: "note_document \<Rightarrow> string list" where
  "all_item_ids doc = concat (map item_ids (document_items doc))"

definition document_ids :: "note_document \<Rightarrow> string list" where
  "document_ids doc = concat (map block_ids (doc_blocks doc))"

text \<open>Identifiers seen before, those of one part, and those of the rest.\<close>

lemma ids_join:
  fixes n k l :: nat
  assumes "i \<notin> seen"
  shows "(P \<and> distinct xs \<and> set xs \<inter> insert i seen = {} \<and> Q \<and> distinct ys \<and>
      set ys \<inter> (insert i seen \<union> set xs) = {} \<and> s = (insert i seen \<union> set xs \<union> set ys, n + k + l)) \<longleftrightarrow>
    (P \<and> Q) \<and> distinct (i # xs @ ys) \<and> set (i # xs @ ys) \<inter> seen = {} \<and>
      s = (seen \<union> set (i # xs @ ys), n + (k + l))"
proof -
  have h1: "insert i seen \<union> set xs \<union> set ys = seen \<union> set (i # xs @ ys)" by auto
  have h2: "n + k + l = n + (k + l)" by simp
  have h3: "distinct (i # xs @ ys) \<longleftrightarrow> distinct xs \<and> distinct ys \<and> (i \<notin> set xs \<union> set ys \<and> set xs \<inter> set ys = {})"
    by auto
  have h4: "set xs \<inter> insert i seen = {} \<and> set ys \<inter> (insert i seen \<union> set xs) = {} \<longleftrightarrow>
      (i \<notin> set xs \<union> set ys \<and> set xs \<inter> set ys = {}) \<and> set (i # xs @ ys) \<inter> seen = {}"
    using assms by auto
  show ?thesis unfolding h1 h2 h3 using h4 by argo
qed

lemma walk_items_Inr:
  "walk_items depth (seen, n) items = Inr s \<longleftrightarrow>
     (\<forall>item \<in> set items. fits depth item) \<and> distinct (concat (map item_ids items)) \<and>
     set (concat (map item_ids items)) \<inter> seen = {} \<and>
     s = (seen \<union> set (concat (map item_ids items)), n + length (concat (map item_ids items)))"
proof (induction depth "(seen, n)" items arbitrary: seen n s rule: walk_items.induct)
  case (2 depth seen n i t c children items)
  define xs ys where lists: "xs = concat (map item_ids children)" "ys = concat (map item_ids items)"
  have ids: "concat (map item_ids (ChecklistItemV1 i t c children # items)) = i # xs @ ys" by (simp add: lists)
  show ?case
  proof (cases "depth \<le> 2 \<and> i \<notin> seen")
    case True
    note ch = 2(1) [OF require_Inr [THEN iffD2] require_Inr [THEN iffD2], OF conjunct1 [OF True] conjunct2 [OF True],
        folded lists]
    have rest: "walk_items depth (insert i seen \<union> set xs, Suc n + length xs) items = Inr s \<longleftrightarrow>
        (\<forall>item \<in> set items. fits depth item) \<and> distinct ys \<and> set ys \<inter> (insert i seen \<union> set xs) = {} \<and>
        s = (insert i seen \<union> set xs \<union> set ys, Suc n + length xs + length ys)"
      if "(\<forall>child \<in> set children. fits (Suc depth) child) \<and> distinct xs \<and> set xs \<inter> insert i seen = {}"
    proof -
      have "walk_items (Suc depth) (insert i seen, Suc n) children = Inr (insert i seen \<union> set xs, Suc n + length xs)"
        unfolding ch using that by simp
      from 2(2) [OF require_Inr [THEN iffD2] require_Inr [THEN iffD2] this, OF conjunct1 [OF True] conjunct2 [OF True],
          folded lists] show ?thesis .
    qed
    have "walk_items depth (seen, n) (ChecklistItemV1 i t c children # items) = Inr s \<longleftrightarrow>
        (\<exists>s'. walk_items (Suc depth) (insert i seen, Suc n) children = Inr s' \<and> walk_items depth s' items = Inr s)"
      using True by (simp add: rbind_Inr)
    also have "\<dots> \<longleftrightarrow> (\<forall>child \<in> set children. fits (Suc depth) child) \<and> distinct xs \<and> set xs \<inter> insert i seen = {} \<and>
        walk_items depth (insert i seen \<union> set xs, Suc n + length xs) items = Inr s"
      unfolding ch by blast
    also have "\<dots> \<longleftrightarrow> (\<forall>child \<in> set children. fits (Suc depth) child) \<and> distinct xs \<and> set xs \<inter> insert i seen = {} \<and>
        (\<forall>item \<in> set items. fits depth item) \<and> distinct ys \<and> set ys \<inter> (insert i seen \<union> set xs) = {} \<and>
        s = (insert i seen \<union> set xs \<union> set ys, Suc n + length xs + length ys)"
      using rest by argo
    also note ids_join [OF conjunct2 [OF True]]
    also have "(\<forall>child \<in> set children. fits (Suc depth) child) \<and> (\<forall>item \<in> set items. fits depth item) \<longleftrightarrow>
        (\<forall>item \<in> set (ChecklistItemV1 i t c children # items). fits depth item)" using True by simp
    finally show ?thesis unfolding ids by simp
  next
    case False
    then show ?thesis by (auto simp: rbind_Inr require_def)
  qed
qed auto

lemma walk_block_Inr:
  "(case block of ParagraphBlockV1 _ _ \<Rightarrow> Inr (insert (block_id block) seen, n)
      | ChecklistBlockV1 _ items \<Rightarrow> walk_items 1 (insert (block_id block) seen, n) items) = Inr s \<longleftrightarrow>
    (\<forall>item \<in> set (block_items block). fits 1 item) \<and> distinct (concat (map item_ids (block_items block))) \<and>
    set (concat (map item_ids (block_items block))) \<inter> insert (block_id block) seen = {} \<and>
    s = (insert (block_id block) seen \<union> set (concat (map item_ids (block_items block))),
         n + length (concat (map item_ids (block_items block))))"
  by (cases block) (auto simp: walk_items_Inr simp del: set_concat)

lemma walk_blocks_Inr:
  "walk_blocks (seen, n) blocks = Inr s \<longleftrightarrow>
     (\<forall>block \<in> set blocks. ID_PATTERN (block_id block) \<and> (\<forall>item \<in> set (block_items block). fits 1 item)) \<and>
     distinct (concat (map block_ids blocks)) \<and> set (concat (map block_ids blocks)) \<inter> seen = {} \<and>
     s = (seen \<union> set (concat (map block_ids blocks)),
          n + length (concat (map item_ids (concat (map block_items blocks)))))"
proof (induction "(seen, n)" blocks arbitrary: seen n s rule: walk_blocks.induct)
  case (2 seen n block blocks)
  let ?b = "block_id block" and ?l = "length (concat (map item_ids (concat (map block_items blocks))))"
  define xs ys where lists: "xs = concat (map item_ids (block_items block))" "ys = concat (map block_ids blocks)"
  have ids: "concat (map block_ids (block # blocks)) = ?b # xs @ ys" by (simp add: lists block_ids_def)
  show ?case
  proof (cases "ID_PATTERN ?b \<and> ?b \<notin> seen")
    case True
    have rest: "walk_blocks (insert ?b seen \<union> set xs, n + length xs) blocks = Inr s \<longleftrightarrow>
        (\<forall>block \<in> set blocks. ID_PATTERN (block_id block) \<and> (\<forall>item \<in> set (block_items block). fits 1 item)) \<and>
        distinct ys \<and> set ys \<inter> (insert ?b seen \<union> set xs) = {} \<and>
        s = (insert ?b seen \<union> set xs \<union> set ys, n + length xs + ?l)"
      if "(\<forall>item \<in> set (block_items block). fits 1 item) \<and> distinct xs \<and> set xs \<inter> insert ?b seen = {}"
    proof -
      have "(case block of ParagraphBlockV1 _ _ \<Rightarrow> Inr (insert ?b seen, n)
        | ChecklistBlockV1 _ items \<Rightarrow> walk_items 1 (insert ?b seen, n) items) =
          Inr (insert ?b seen \<union> set xs, n + length xs)"
        unfolding walk_block_Inr using that by (simp add: lists)
      from 2 [OF require_Inr [THEN iffD2] require_Inr [THEN iffD2] this, OF conjunct1 [OF True] conjunct2 [OF True],
          folded lists] show ?thesis .
    qed
    have "walk_blocks (seen, n) (block # blocks) = Inr s \<longleftrightarrow> (\<exists>s'. (case block of
          ParagraphBlockV1 _ _ \<Rightarrow> Inr (insert ?b seen, n)
        | ChecklistBlockV1 _ items \<Rightarrow> walk_items 1 (insert ?b seen, n) items) = Inr s' \<and>
        walk_blocks s' blocks = Inr s)"
      using True by (simp add: rbind_Inr)
    also have "\<dots> \<longleftrightarrow> (\<forall>item \<in> set (block_items block). fits 1 item) \<and> distinct xs \<and> set xs \<inter> insert ?b seen = {} \<and>
        walk_blocks (insert ?b seen \<union> set xs, n + length xs) blocks = Inr s"
      unfolding walk_block_Inr lists by blast
    also have "\<dots> \<longleftrightarrow> (\<forall>item \<in> set (block_items block). fits 1 item) \<and> distinct xs \<and> set xs \<inter> insert ?b seen = {} \<and>
        (\<forall>block \<in> set blocks. ID_PATTERN (block_id block) \<and> (\<forall>item \<in> set (block_items block). fits 1 item)) \<and>
        distinct ys \<and> set ys \<inter> (insert ?b seen \<union> set xs) = {} \<and>
        s = (insert ?b seen \<union> set xs \<union> set ys, n + length xs + ?l)"
      using rest by argo
    also note ids_join [OF conjunct2 [OF True]]
    also have "(\<forall>item \<in> set (block_items block). fits 1 item) \<and>
        (\<forall>block \<in> set blocks. ID_PATTERN (block_id block) \<and> (\<forall>item \<in> set (block_items block). fits 1 item)) \<longleftrightarrow>
        (\<forall>block \<in> set (block # blocks). ID_PATTERN (block_id block) \<and> (\<forall>item \<in> set (block_items block). fits 1 item))"
      using True by auto
    also have "length xs + ?l = length (concat (map item_ids (concat (map block_items (block # blocks)))))"
      by (simp add: lists)
    finally show ?thesis unfolding ids .
  next
    case False
    then show ?thesis by (auto simp: rbind_Inr require_def block_ids_def)
  qed
qed auto

definition small :: "note_document \<Rightarrow> bool" where
  "small doc = (utf8_length (canonical_document_json doc) \<le> MAX_DOCUMENT_BYTES)"

definition document_rules :: "note_document \<Rightarrow> bool" where
  "document_rules doc = ((\<forall>block \<in> set (doc_blocks doc). ID_PATTERN (block_id block)) \<and>
     (\<forall>item \<in> set (document_items doc). fits 1 item) \<and> distinct (document_ids doc) \<and>
     length (all_item_ids doc) \<le> MAX_ITEMS)"

lemma walk_document:
  "walk_blocks ({}, 0) (doc_blocks doc) = Inr s \<longleftrightarrow>
     (\<forall>block \<in> set (doc_blocks doc). ID_PATTERN (block_id block)) \<and>
     (\<forall>item \<in> set (document_items doc). fits 1 item) \<and> distinct (document_ids doc) \<and>
     s = (set (document_ids doc), length (all_item_ids doc))"
  unfolding walk_blocks_Inr document_items_def document_ids_def all_item_ids_def by auto

lemma validate_document_good:
  "document_rules doc \<Longrightarrow> validate_document doc =
     (if small doc then Inr doc else Inl (InvalidNoteDocument ''Note document exceeds byte limit''))"
  using walk_document [of doc "(set (document_ids doc), length (all_item_ids doc))"]
  by (simp add: validate_document_def document_rules_def small_def require_def)

lemma validate_document_Inr: "validate_document doc = Inr d \<longleftrightarrow> d = doc \<and> document_rules doc \<and> small doc"
proof (cases "document_rules doc")
  case True
  then show ?thesis by (auto simp: validate_document_good)
next
  case False
  then show ?thesis
    by (auto simp: validate_document_def rbind_Inr require_Inr walk_document document_rules_def)
qed

definition document_ok :: "note_document \<Rightarrow> bool" where
  "document_ok doc = (document_shape doc \<and> document_rules doc \<and> small doc)"

lemma parse_document_ok: "parse_document_v1 describe raw = Inr doc \<Longrightarrow> document_ok doc"
  using model_validate_shape
  by (auto simp: parse_document_v1_def document_ok_def validate_document_Inr split: json.splits option.splits if_splits)

lemma parse_dump: "document_ok doc \<Longrightarrow> parse_document_v1 describe (JObj (model_dump doc)) = Inr doc"
  using model_validate_dump [of doc] validate_document_Inr [of doc doc]
  by (simp add: parse_document_v1_def document_ok_def model_dump_def dump_blocks_def)

section \<open>What the operations promise\<close>

lemma fits_shallow: "fits 1 item \<Longrightarrow> child \<in> set (item_children item) \<Longrightarrow> item_children child = []"
proof -
  assume "fits 1 item" "child \<in> set (item_children item)"
  then have "fits 2 child" by (cases item) (auto simp: numeral_2_eq_2)
  then show ?thesis by (cases child) (metis checklist_item.sel(4) fits.elims(2) fits.simps list.set_intros(1) neq_Nil_conv
        not_less_eq_eq order_refl checklist_item.inject)
qed

lemma distinct_document_items: "distinct (document_ids doc) \<Longrightarrow> distinct (all_item_ids doc)"
proof -
  have "set (concat (map item_ids (concat (map block_items blocks)))) \<subseteq> set (concat (map block_ids blocks)) \<and>
      (distinct (concat (map block_ids blocks)) \<longrightarrow> distinct (concat (map item_ids (concat (map block_items blocks)))))" for blocks
    by (induction blocks) (simp_all add: block_ids_def, blast)
  then show "distinct (document_ids doc) \<Longrightarrow> ?thesis"
    by (simp add: document_ids_def all_item_ids_def document_items_def)
qed

text \<open>
  C26: A Note document that is accepted has at most 256 blocks and 2048 checklist
  items, which nest at most two deep; all its identifiers, of blocks and items together, are different
  and have the declared form; and its canonical text takes at most 128 KiB of UTF-8.
\<close>

theorem accepted_documents_bounded:
  assumes "parse_document_v1 describe raw = Inr doc"
  shows "length (doc_blocks doc) \<le> 256 \<and> length (all_item_ids doc) \<le> 2048 \<and> distinct (document_ids doc) \<and>
    (\<forall>i \<in> set (all_item_ids doc). ID_PATTERN i) \<and> (\<forall>b \<in> set (doc_blocks doc). ID_PATTERN (block_id b)) \<and>
    (\<forall>item \<in> set (document_items doc). \<forall>child \<in> set (item_children item). item_children child = []) \<and>
    utf8_length (canonical_document_json doc) \<le> 131072"
proof -
  have ok: "document_ok doc" using parse_document_ok [OF assms] .
  have ids: "item_shape item \<Longrightarrow> i \<in> set (item_ids item) \<Longrightarrow> ID_PATTERN i" for item i
    by (induction item) auto
  have "item_shape item" if item: "item \<in> set (document_items doc)" for item
  proof -
    obtain b where "b \<in> set (doc_blocks doc)" "item \<in> set (block_items b)"
      using item by (auto simp: document_items_def)
    with ok show ?thesis by (cases b) (force simp: document_ok_def document_shape_def)+
  qed
  then have "\<forall>i \<in> set (all_item_ids doc). ID_PATTERN i" using ids by (auto simp: all_item_ids_def)
  moreover have "\<forall>item \<in> set (document_items doc). \<forall>child \<in> set (item_children item). item_children child = []"
    using ok fits_shallow by (auto simp: document_ok_def document_rules_def)
  ultimately show ?thesis
    using ok by (auto simp: document_ok_def document_shape_def document_rules_def small_def MAX_BLOCKS_def
        MAX_ITEMS_def MAX_DOCUMENT_BYTES_def)
qed

lemma distinct_keys_dump: "distinct_keys (JObj (model_dump doc))"
proof -
  have item: "distinct_keys (dump_item item)" for item
    by (induction item) auto
  have "distinct_keys (dump_block block)" for block
    by (cases block) (auto simp: item)
  then show ?thesis by (auto simp: model_dump_def dump_blocks_def)
qed

lemma loads_canonical: "json_loads (canonical_document_json doc) = Some (normal (JObj (model_dump doc)))"
  unfolding canonical_document_json_def using json_loads_dumps [OF distinct_keys_dump] .

lemma stored_document_reads:
  assumes "document_ok doc" "json_loads (canonical_document_json doc) = Some w"
  shows "parse_document_v1 describe w = Inr doc"
  using parse_normal [OF distinct_keys_dump parse_dump [OF assms(1)]] assms(2) by (simp add: loads_canonical)

text \<open>
  C28: The canonical text of an accepted document is JSON, and reading it back gives the
  same document, whatever the order and the spelling of the keys the document came with; so different
  documents have different canonical texts.
\<close>

theorem note_document_round_trip:
  assumes "parse_document_v1 describe raw = Inr doc"
  shows "(\<exists>w. json_loads (canonical_document_json doc) = Some w \<and> parse_document_v1 describe' w = Inr doc) \<and>
    (\<forall>raw' doc'. parse_document_v1 describe raw' = Inr doc' \<longrightarrow>
       canonical_document_json doc' = canonical_document_json doc \<longrightarrow> doc' = doc)"
proof -
  have read: "parse_document_v1 describe' (normal (JObj (model_dump d))) = Inr d"
    if "parse_document_v1 describe r = Inr d" for r d
    using stored_document_reads [OF parse_document_ok [OF that] loads_canonical] .
  moreover have "doc' = doc" if "parse_document_v1 describe raw' = Inr doc'"
    "canonical_document_json doc' = canonical_document_json doc" for raw' doc'
  proof -
    have "normal (JObj (model_dump doc')) = normal (JObj (model_dump doc))"
      using loads_canonical [of doc] loads_canonical [of doc'] that(2) by simp
    then show ?thesis using read [OF assms] read [OF that(1)] by simp
  qed
  ultimately show ?thesis using assms loads_canonical by blast
qed

text \<open>Setting one box of the document.\<close>

fun mark :: "string \<Rightarrow> bool \<Rightarrow> checklist_item \<Rightarrow> checklist_item" where
  "mark target b (ChecklistItemV1 i t c children) =
     (if i = target then ChecklistItemV1 i t b children
      else ChecklistItemV1 i t c (map (mark target b) children))"

fun mark_block :: "string \<Rightarrow> bool \<Rightarrow> note_block \<Rightarrow> note_block" where
  "mark_block target b (ParagraphBlockV1 i t) = ParagraphBlockV1 i t"
| "mark_block target b (ChecklistBlockV1 i items) = ChecklistBlockV1 i (map (mark target b) items)"

definition mark_document :: "string \<Rightarrow> bool \<Rightarrow> note_document \<Rightarrow> note_document" where
  "mark_document target b doc = WorkItemNoteDocumentV1 (map (mark_block target b) (doc_blocks doc))"

lemma rmap_map: "\<forall>x \<in> set xs. f (g x) = Inr (h x) \<Longrightarrow> rmap f (map g xs) = Inr (map h xs)"
  by (induction xs) simp_all

lemma rewrite_item_dump:
  "rewrite_item target (set_checked b) (dump_item item) = Inr (dump_item (mark target b item), target \<in> set (item_ids item))"
proof (induction item)
  case (ChecklistItemV1 i t c children)
  then have "rmap (rewrite_item target (set_checked b)) (map dump_item children) =
      Inr (map (\<lambda>child. (dump_item (mark target b child), target \<in> set (item_ids child))) children)"
    by (intro rmap_map) simp
  then show ?case
    by (subst rewrite_item.simps)
      (auto simp: object_def jget_def raw_children_def set_checked_def list_ex_iff comp_def)
qed

lemma rewrite_block_dump:
  "rewrite_block None target (set_checked b) (dump_block block) =
     Inr (dump_block (mark_block target b block),
          length (filter (\<lambda>item. target \<in> set (item_ids item)) (block_items block)))"
proof (cases block)
  case (ChecklistBlockV1 i items)
  have "rmap (rewrite_item target (set_checked b)) (map dump_item items) =
      Inr (map (\<lambda>item. (dump_item (mark target b item), target \<in> set (item_ids item))) items)"
    by (intro rmap_map) (simp add: rewrite_item_dump)
  then show ?thesis
    by (simp add: ChecklistBlockV1 rewrite_block_def object_def filter_map comp_def)
qed (simp add: rewrite_block_def object_def)

lemma count_owner:
  assumes "distinct (concat (map f xs))"
  shows "length (filter (\<lambda>x. t \<in> set (f x)) xs) = of_bool (t \<in> set (concat (map f xs)))"
  using assms
proof (induction xs)
  case (Cons x xs)
  have "\<not> (\<exists>y \<in> set xs. t \<in> set (f y))" if "t \<in> set (f x)" using Cons.prems that by auto
  with Cons show ?case by (auto simp: filter_empty_conv)
qed simp

lemma mark_item_ids: "item_ids (mark target b item) = item_ids item"
  by (induction item) (simp_all add: comp_def cong: map_cong)

lemma mark_fits: "fits depth (mark target b item) = fits depth item"
  by (induction item arbitrary: depth) simp

lemma mark_shape: "item_shape (mark target b item) = item_shape item"
  by (induction item) simp

lemma mark_block_facts:
  "block_id (mark_block target b block) = block_id block"
  "block_items (mark_block target b block) = map (mark target b) (block_items block)"
  "block_shape (mark_block target b block) = block_shape block"
  by (cases block; simp add: mark_shape)+

lemma mark_document_items: "document_items (mark_document target b doc) = map (mark target b) (document_items doc)"
  by (simp add: document_items_def mark_document_def mark_block_facts map_concat comp_def)

lemma mark_document_blocks: "doc_blocks (mark_document target b doc) = map (mark_block target b) (doc_blocks doc)"
  by (simp add: mark_document_def)

lemma mark_document_ids:
  "all_item_ids (mark_document target b doc) = all_item_ids doc" "document_ids (mark_document target b doc) = document_ids doc"
proof -
  have "block_ids (mark_block target b block) = block_ids block" for block
    by (simp add: block_ids_def mark_block_facts comp_def mark_item_ids)
  then show "document_ids (mark_document target b doc) = document_ids doc"
    by (simp add: document_ids_def mark_document_blocks comp_def)
qed (simp add: all_item_ids_def mark_document_items comp_def mark_item_ids)

lemma mark_document_rules: "document_rules (mark_document target b doc) = document_rules doc"
  "document_shape (mark_document target b doc) = document_shape doc"
  by (simp_all add: document_rules_def document_shape_def mark_document_ids mark_document_items mark_fits
      mark_document_blocks mark_block_facts)

lemma parse_dump_good:
  assumes "document_shape doc" "document_rules doc"
  shows "parse_document_v1 describe (JObj (model_dump doc)) =
    (if small doc then Inr doc else Inl (InvalidNoteDocument ''Note document exceeds byte limit''))"
  using model_validate_dump [OF assms(1)] validate_document_good [OF assms(2)]
  by (simp add: parse_document_v1_def model_dump_def dump_blocks_def)

text \<open>All items of a document in reading order, with text and box.\<close>

fun flat_item :: "checklist_item \<Rightarrow> (string \<times> string \<times> bool) list" where
  "flat_item (ChecklistItemV1 i t c children) = (i, t, c) # concat (map flat_item children)"

definition flat_items :: "note_document \<Rightarrow> (string \<times> string \<times> bool) list" where
  "flat_items doc = concat (map flat_item (document_items doc))"

lemma flat_item_ids: "map fst (flat_item item) = item_ids item"
  by (induction item) (simp add: map_concat comp_def cong: map_cong)

lemma flat_item_mark:
  "distinct (item_ids item) \<Longrightarrow> flat_item (mark target b item) =
     map (\<lambda>(i, t, c). (i, t, if i = target then b else c)) (flat_item item)"
proof (induction item)
  case (ChecklistItemV1 i t c children)
  have same: "map (\<lambda>(i, t, c). (i, t, if i = target then b else c)) xs = xs" if "target \<notin> fst ` set xs"
    for xs :: "(string \<times> string \<times> bool) list"
    using that by (induction xs) auto
  have "fst ` set (flat_item child) = set (item_ids child)" for child
    using flat_item_ids [of child] by (metis list.set_map)
  then have keep: "map (\<lambda>(i, t, c). (i, t, if i = target then b else c)) (concat (map flat_item children)) =
      concat (map flat_item children)" if "i = target"
    using ChecklistItemV1.prems that by (intro same) auto
  have d: "\<forall>child \<in> set children. distinct (item_ids child)"
    using ChecklistItemV1.prems by (auto simp: distinct_concat_iff)
  show ?case
  proof (cases "i = target")
    case True
    with keep show ?thesis by simp
  next
    case False
    with d ChecklistItemV1.IH show ?thesis by (simp add: map_concat comp_def cong: map_cong)
  qed
qed

lemma flat_items_mark: "distinct (all_item_ids doc) \<Longrightarrow> flat_items (mark_document target b doc) =
    map (\<lambda>(i, t, c). (i, t, if i = target then b else c)) (flat_items doc)"
  by (simp add: flat_items_def mark_document_items map_concat comp_def all_item_ids_def distinct_concat_iff
      flat_item_mark cong: map_cong)

lemma set_checked_good:
  assumes "document_ok doc"
  shows "set_checklist_item_checked describe doc target checked =
      (if target \<notin> set (all_item_ids doc)
       then Inl (InvalidNoteDocument ''itemId must identify exactly one item'')
       else if utf8_length (canonical_document_json (mark_document target checked doc)) \<le> 131072
       then Inr (mark_document target checked doc)
       else Inl (InvalidNoteDocument ''Note document exceeds byte limit'')) \<and>
    flat_items (mark_document target checked doc) =
      map (\<lambda>(i, t, c). (i, t, if i = target then checked else c)) (flat_items doc) \<and>
    document_ids (mark_document target checked doc) = document_ids doc"
proof -
  have ok: "document_shape doc" "document_rules doc" using assms by (simp_all add: document_ok_def)
  have d: "distinct (all_item_ids doc)" using ok(2) distinct_document_items by (simp add: document_rules_def)
  have "rmap (rewrite_block None target (set_checked checked)) (map dump_block (doc_blocks doc)) =
      Inr (map (\<lambda>block. (dump_block (mark_block target checked block),
        length (filter (\<lambda>item. target \<in> set (item_ids item)) (block_items block)))) (doc_blocks doc))"
    by (intro rmap_map) (simp add: rewrite_block_dump)
  moreover have "sum_list (map (\<lambda>block. length (filter (\<lambda>item. target \<in> set (item_ids item)) (block_items block)))
      (doc_blocks doc)) = of_bool (target \<in> set (all_item_ids doc))"
  proof -
    have "sum_list (map (\<lambda>block. length (filter (\<lambda>item. target \<in> set (item_ids item)) (block_items block))) blocks) =
        length (filter (\<lambda>item. target \<in> set (item_ids item)) (concat (map block_items blocks)))" for blocks
      by (induction blocks) simp_all
    then show ?thesis using count_owner [of item_ids "document_items doc" target] d
      by (simp add: document_items_def all_item_ids_def)
  qed
  moreover have "parse_document_v1 describe (JObj (dump_blocks (map dump_block (doc_blocks (mark_document target checked doc))))) =
      (if small (mark_document target checked doc) then Inr (mark_document target checked doc)
       else Inl (InvalidNoteDocument ''Note document exceeds byte limit''))"
    using parse_dump_good [of "mark_document target checked doc"] ok
    by (simp add: mark_document_rules model_dump_def)
  ultimately have "set_checklist_item_checked describe doc target checked =
      (if target \<notin> set (all_item_ids doc)
       then Inl (InvalidNoteDocument ''itemId must identify exactly one item'')
       else if small (mark_document target checked doc) then Inr (mark_document target checked doc)
       else Inl (InvalidNoteDocument ''Note document exceeds byte limit''))"
    by (simp add: set_checklist_item_checked_def rewrite_document_item_def require_def comp_def mark_document_blocks)
  then show ?thesis
    using flat_items_mark [OF d] mark_document_ids(2) by (simp add: small_def MAX_DOCUMENT_BYTES_def)
qed

lemma append_blocks_Inr:
  assumes "document_ok doc"
  shows "append_blocks describe doc blocks = Inr doc' \<longleftrightarrow>
    (\<exists>new. map block_of blocks = map Some new \<and> doc' = WorkItemNoteDocumentV1 (doc_blocks doc @ new) \<and> document_ok doc')"
proof -
  let ?kvs = "dump_blocks (map dump_block (doc_blocks doc) @ blocks)"
  have shape: "\<forall>b \<in> set (doc_blocks doc). block_shape b"
    using assms by (simp add: document_ok_def document_shape_def)
  then have old: "map block_of (map dump_block (doc_blocks doc)) = map Some (doc_blocks doc)"
    by (simp add: block_of_dump)
  have "model_validate ?kvs = Some d \<longleftrightarrow> length (map dump_block (doc_blocks doc) @ blocks) \<le> MAX_BLOCKS \<and>
      (\<exists>new. map block_of blocks = map Some new \<and> d = WorkItemNoteDocumentV1 (doc_blocks doc @ new))" for d
  proof -
    have "model_validate ?kvs = Some d \<longleftrightarrow> length (map dump_block (doc_blocks doc) @ blocks) \<le> MAX_BLOCKS \<and>
        map_option WorkItemNoteDocumentV1 (those (map block_of (map dump_block (doc_blocks doc) @ blocks))) = Some d"
      by (simp add: model_validate_def dump_blocks_def field_def used_key_def strict_list_def del: map_append)
    moreover have "those (map block_of (map dump_block (doc_blocks doc) @ blocks)) = Some bs \<longleftrightarrow>
        (\<exists>new. map block_of blocks = map Some new \<and> bs = doc_blocks doc @ new)" for bs
    proof -
      have "map Some (doc_blocks doc) @ map block_of blocks = map Some bs \<longleftrightarrow>
          (\<exists>new. map block_of blocks = map Some new \<and> bs = doc_blocks doc @ new)"
        by (auto simp: append_eq_map_conv map_eq_append_conv)
      then show ?thesis unfolding those_Some map_append old .
    qed
    ultimately show ?thesis by auto
  qed
  moreover have "append_blocks describe doc blocks = Inr doc' \<longleftrightarrow>
      (\<forall>block \<in> set blocks. object block \<noteq> None) \<and> (\<exists>d. model_validate ?kvs = Some d \<and> validate_document d = Inr doc')"
    by (auto simp: append_blocks_def rbind_Inr rforeach_Inr require_Inr)
      (auto simp: parse_document_v1_def dump_blocks_def split: option.splits)
  moreover have "\<forall>block \<in> set blocks. object block \<noteq> None" if "map block_of blocks = map Some new" for new
  proof
    fix block assume "block \<in> set blocks"
    then have "block_of block \<in> set (map Some new)" unfolding that [symmetric] by simp
    then show "object block \<noteq> None" by (cases "object block") (auto simp: block_of_def)
  qed
  ultimately have "append_blocks describe doc blocks = Inr doc' \<longleftrightarrow> length (map dump_block (doc_blocks doc) @ blocks) \<le> MAX_BLOCKS \<and>
      (\<exists>new. map block_of blocks = map Some new \<and> doc' = WorkItemNoteDocumentV1 (doc_blocks doc @ new)) \<and>
      document_rules doc' \<and> small doc'"
    by (simp add: validate_document_Inr) blast
  moreover have "length (map dump_block (doc_blocks doc) @ blocks) \<le> MAX_BLOCKS \<longleftrightarrow> document_shape doc'"
    if "map block_of blocks = map Some new" "doc' = WorkItemNoteDocumentV1 (doc_blocks doc @ new)" for new
  proof -
    have "those (map block_of blocks) = Some new" using that(1) by (simp add: those_Some)
    from those_map [OF this] show ?thesis
      using shape block_of_shape that(2) by (auto simp: document_shape_def)
  qed
  ultimately show ?thesis by (auto simp: document_ok_def)
qed

text \<open>
  C27: Setting a box of an accepted document finds the item if and only if its identifier
  occurs; the result then has the same items in the same order with the same texts, the box of that
  item set and every other box as it was. The only other failure is a document that grows over the
  byte limit, since \<open>false\<close> is longer than \<open>true\<close>.
\<close>

theorem toggle_changes_one_box:
  assumes "parse_document_v1 describe raw = Inr doc"
  shows "set_checklist_item_checked describe doc target checked =
      (if target \<notin> set (all_item_ids doc)
       then Inl (InvalidNoteDocument ''itemId must identify exactly one item'')
       else if utf8_length (canonical_document_json (mark_document target checked doc)) \<le> 131072
       then Inr (mark_document target checked doc)
       else Inl (InvalidNoteDocument ''Note document exceeds byte limit'')) \<and>
    flat_items (mark_document target checked doc) =
      map (\<lambda>(i, t, c). (i, t, if i = target then checked else c)) (flat_items doc) \<and>
    document_ids (mark_document target checked doc) = document_ids doc"
  using set_checked_good [OF parse_document_ok [OF assms]] .

text \<open>
  C31: Appending succeeds exactly when every new block is valid by itself and the
  longer document is valid as a whole; the result has the old blocks followed by the new ones.
\<close>

theorem append_extends:
  assumes "parse_document_v1 describe raw = Inr doc"
  shows "append_blocks describe doc blocks = Inr doc' \<longleftrightarrow>
    (\<exists>new. map block_of blocks = map Some new \<and> doc' = WorkItemNoteDocumentV1 (doc_blocks doc @ new) \<and> document_ok doc')"
  using append_blocks_Inr [OF parse_document_ok [OF assms]] .

section \<open>A small document\<close>

definition sample_raw :: json where
  "sample_raw = JObj [(''blocks'', JList
     [JObj [(''type'', JStr ''paragraph''), (''block_id'', JStr ''p1''), (''text'', JStr ''hi'')],
      JObj [(''items'', JList [JObj [(''text'', JStr ''buy''), (''itemId'', JStr ''i1''), (''checked'', JBool False),
               (''children'', JList [JObj [(''text'', JStr ''milk''), (''itemId'', JStr ''i2''), (''checked'', JBool False)]])]]),
            (''blockId'', JStr ''c1''), (''type'', JStr ''checklist'')]]),
     (''contentVersion'', JInt 1)]"

definition sample_document :: note_document where
  "sample_document = WorkItemNoteDocumentV1
     [ParagraphBlockV1 ''p1'' ''hi'',
      ChecklistBlockV1 ''c1'' [ChecklistItemV1 ''i1'' ''buy'' False [ChecklistItemV1 ''i2'' ''milk'' False []]]]"

lemma item_of_JObj: "item_of (JObj kvs) = (case children_field kvs of
    None \<Rightarrow> None
  | Some cs \<Rightarrow> (case those (map item_of cs) of None \<Rightarrow> None | Some children \<Rightarrow> checked_item kvs children))"
  by (subst item_of.simps) (simp add: object_def)

lemmas reading = field_def used_key_def closed_model_def strict_text_def strict_bool_def strict_list_def
  object_def children_field_def checked_item_def item_fields_def items_of_def block_of_def item_of_JObj
  ID_PATTERN_def id_start_def is_digit_def py_strip_def is_space_def MAX_ITEMS_def MAX_TEXT_def MAX_BLOCKS_def

lemmas writing = canonical_document_json_def json_dumps_def model_dump_def dump_blocks_def utf8_length_def
  quote_def escape_char_def int_text_def nat_digits.simps digit_char_def

lemma sample_rules: "document_rules sample_document"
  by (simp add: sample_document_def document_rules_def document_items_def document_ids_def all_item_ids_def
      block_ids_def ID_PATTERN_def id_start_def is_digit_def MAX_ITEMS_def)

lemma sample_parses: "parse_document_v1 (\<lambda>_. []) sample_raw = Inr sample_document"
proof -
  have "model_validate [(''blocks'', JList
     [JObj [(''type'', JStr ''paragraph''), (''block_id'', JStr ''p1''), (''text'', JStr ''hi'')],
      JObj [(''items'', JList [JObj [(''text'', JStr ''buy''), (''itemId'', JStr ''i1''), (''checked'', JBool False),
               (''children'', JList [JObj [(''text'', JStr ''milk''), (''itemId'', JStr ''i2''), (''checked'', JBool False)]])]]),
            (''blockId'', JStr ''c1''), (''type'', JStr ''checklist'')]]),
     (''contentVersion'', JInt 1)] = Some sample_document"
    by (simp add: model_validate_def reading sample_document_def)
  moreover have "small sample_document"
    by (simp add: small_def sample_document_def writing MAX_DOCUMENT_BYTES_def)
  ultimately show ?thesis
    by (simp add: parse_document_v1_def sample_raw_def validate_document_Inr sample_rules)
qed

lemma accepted_documents_bounded_witness: "length (document_ids sample_document) = 4 \<and> distinct (document_ids sample_document)"
  using accepted_documents_bounded [OF sample_parses] by (simp add: sample_document_def document_ids_def block_ids_def)

lemma note_document_round_trip_witness:
  "\<exists>w. json_loads (canonical_document_json sample_document) = Some w \<and> parse_document_v1 (\<lambda>_. []) w = Inr sample_document"
  using note_document_round_trip [OF sample_parses] by blast

lemma toggle_changes_one_box_witness:
  "set_checklist_item_checked (\<lambda>_. []) sample_document ''i2'' True = Inr (mark_document ''i2'' True sample_document) \<and>
   flat_items (mark_document ''i2'' True sample_document) = [(''i1'', ''buy'', False), (''i2'', ''milk'', True)]"
proof -
  have "utf8_length (canonical_document_json (mark_document ''i2'' True sample_document)) \<le> 131072"
    by (simp add: sample_document_def mark_document_def writing)
  then show ?thesis
    using toggle_changes_one_box [OF sample_parses, of "''i2''" True]
    by (simp add: all_item_ids_def document_items_def flat_items_def sample_document_def)
qed

lemma append_extends_witness:
  "\<exists>doc'. append_blocks (\<lambda>_. []) sample_document [JObj [(''type'', JStr ''paragraph''), (''blockId'', JStr ''p2''), (''text'', JStr [])]] =
     Inr doc' \<and> length (doc_blocks doc') = 3"
proof -
  let ?new = "[ParagraphBlockV1 ''p2'' []]"
  have "document_ok (WorkItemNoteDocumentV1 (doc_blocks sample_document @ ?new))"
    unfolding document_ok_def small_def
    by (simp add: sample_document_def document_shape_def document_rules_def document_items_def document_ids_def
        all_item_ids_def block_ids_def writing MAX_DOCUMENT_BYTES_def reading)
  moreover have "map block_of [JObj [(''type'', JStr ''paragraph''), (''blockId'', JStr ''p2''), (''text'', JStr [])]] = map Some ?new"
    by (simp add: reading)
  ultimately show ?thesis
    using append_extends [OF sample_parses] by (intro exI [of _ "WorkItemNoteDocumentV1 (doc_blocks sample_document @ ?new)"])
      (auto simp: sample_document_def)
qed

end
