(* ===== verification/Notes.thy ===== *)
theory Notes
  imports NoteDocument WorkItemProperties
begin

text \<open>
  The Notes of work items (\<open>_note_for_work_item\<close> to \<open>_compile_sync_work_item_note\<close> of
  \<open>app/task_space/compiler.py\<close>): the three commands on a Note, and the replay of a Note row that a
  client wrote offline. A row carries its document as canonical text.
\<close>

section \<open>The commands\<close>

definition note_for_work_item :: "overlay \<Rightarrow> string \<Rightarrow> row option res" where
  "note_for_work_item ov work_item_id =
     rbind (ov_rows ov ''work_item_note'') (\<lambda>rows.
     case filter (\<lambda>r. str_of (fld r ''work_item_id'') = work_item_id) rows of
       [] \<Rightarrow> Inr None
     | [r] \<Rightarrow> Inr (Some r)
     | _ \<Rightarrow> violate ''invalid_note_document'' [(''reason'', JStr ''duplicate_note_rows'')] False)"

definition stored_json :: "row \<Rightarrow> json res" where
  "stored_json r =
     (case json_loads (str_of (fld r ''document_json'')) of
        None \<Rightarrow> Inl (ValueErr ''JSONDecodeError'') | Some v \<Rightarrow> Inr v)"

definition stored_document :: "(json \<Rightarrow> string) \<Rightarrow> row \<Rightarrow> note_document res" where
  "stored_document describe r = rbind (stored_json r) (parse_document_v1 describe)"

definition candidate_now :: "ctx \<Rightarrow> request \<Rightarrow> string" where
  "candidate_now cx rq =
     (case rq_client_updated_at rq of Some (c # cs) \<Rightarrow> c # cs | _ \<Rightarrow> cx_now cx)"

definition note_row :: "string \<Rightarrow> json \<Rightarrow> note_document \<Rightarrow> json \<Rightarrow> string \<Rightarrow> int \<Rightarrow> row" where
  "note_row note_id work_item document created_at now version = dict
     [(''id'', JStr note_id),
      (''work_item_id'', work_item),
      (''document_json'', JStr (canonical_document_json document)),
      (''created_at'', created_at),
      (''updated_at'', JStr now),
      (''version'', JInt version)]"

definition write_note :: "ctx \<Rightarrow> request \<Rightarrow> row option \<Rightarrow> row \<Rightarrow> string \<Rightarrow> command res" where
  "write_note cx rq before after now =
     (let note_id = str_of (fld after ''id'') in
      rbind (DbMutationPlan ''work_item_notes'' (dict [(''id'', JStr note_id)])
               (if before = None then Insert else Update) (rq_expected_version rq) before (Some after)) (\<lambda>plan.
      rbind (SyncEventPlan ''work_item_note'' note_id (if before = None then EvCreate else EvUpdate) after
               (fld after ''version'') (JStr now)) (\<lambda>event.
      cx_command cx rq [plan] [event] after None)))"

text \<open>The version check of an existing Note; the conflict reports the stored document.\<close>

definition require_note_version :: "row \<Rightarrow> int option \<Rightarrow> unit res" where
  "require_note_version before expected =
     (if expected = Some (int_of (fld before ''version'')) then Inr ()
      else rbind (stored_json before) (\<lambda>document.
           violate ''version_conflict''
             [(''current_version'', fld before ''version''), (''current_document'', document)] False))"

definition note_command ::
  "(json \<Rightarrow> string) \<Rightarrow> ctx \<Rightarrow> request \<Rightarrow> (note_document option \<Rightarrow> note_document res) \<Rightarrow> command res" where
  "note_command describe cx rq transform =
     rbind (pget (rq_payload rq) ''work_item_id'') (\<lambda>work_item.
     rbind (require_row (cx_overlay cx) ''work_item'' (JStr (str_of work_item))) (\<lambda>_.
     rbind (note_for_work_item (cx_overlay cx) (str_of work_item)) (\<lambda>before.
     case before of
       None \<Rightarrow>
         rbind (require (rq_expected_version rq = None)
                  (violation ''version_conflict'' [(''current_version'', JNull)] False)) (\<lambda>_.
         rbind (transform None) (\<lambda>document.
         let now = candidate_now cx rq in
         write_note cx rq None
           (note_row (stable_id cx ''work_item_note'' (str_of work_item)) work_item document (JStr now) now 1) now))
     | Some r \<Rightarrow>
         rbind (require_note_version r (rq_expected_version rq)) (\<lambda>_.
         rbind (stored_document describe r) (\<lambda>current.
         rbind (transform (Some current)) (\<lambda>document.
         rbind (monotonic_updated_at (str_of (fld r ''updated_at'')) (candidate_now cx rq)) (\<lambda>now.
         write_note cx rq (Some r)
           (note_row (str_of (fld r ''id'')) work_item document (fld r ''created_at'') now
              (int_of (fld r ''version'') + 1)) now)))))))"

definition existing_document :: "note_document option \<Rightarrow> note_document res" where
  "existing_document current =
     (case current of
        None \<Rightarrow> violate ''not_found'' [(''entity_type'', JStr ''work_item_note'')] False
      | Some doc \<Rightarrow> Inr doc)"

definition compile_ReplaceDocument :: "(json \<Rightarrow> string) \<Rightarrow> ctx \<Rightarrow> request \<Rightarrow> command res" where
  "compile_ReplaceDocument describe cx rq =
     rbind (pget (rq_payload rq) ''document'') (\<lambda>raw.
     rbind (parse_document_v1 describe raw) (\<lambda>document.
     note_command describe cx rq (\<lambda>_. Inr document)))"

definition appended :: "(json \<Rightarrow> string) \<Rightarrow> row \<Rightarrow> note_document option \<Rightarrow> note_document res" where
  "appended describe payload current =
     rbind (existing_document current) (\<lambda>doc.
     rbind (pget payload ''blocks'') (\<lambda>blocks.
     case blocks of
       JList bs \<Rightarrow> append_blocks describe doc bs
     | _ \<Rightarrow> Inl (TypeErr ''blocks'')))"

definition compile_AppendBlocks :: "(json \<Rightarrow> string) \<Rightarrow> ctx \<Rightarrow> request \<Rightarrow> command res" where
  "compile_AppendBlocks describe cx rq = note_command describe cx rq (appended describe (rq_payload rq))"

definition toggled :: "(json \<Rightarrow> string) \<Rightarrow> row \<Rightarrow> note_document option \<Rightarrow> note_document res" where
  "toggled describe payload current =
     rbind (existing_document current) (\<lambda>doc.
     rbind (pget payload ''item_id'') (\<lambda>item.
     rbind (pget payload ''checked'') (\<lambda>checked.
     set_checklist_item_checked describe doc (str_of item) (truthy checked))))"

definition compile_ToggleChecklistItem :: "(json \<Rightarrow> string) \<Rightarrow> ctx \<Rightarrow> request \<Rightarrow> command res" where
  "compile_ToggleChecklistItem describe cx rq = note_command describe cx rq (toggled describe (rq_payload rq))"

section \<open>Replay of synchronised Notes\<close>

definition NOTE_SYNC_FIELDS :: "string list" where
  "NOTE_SYNC_FIELDS = [''id'', ''work_item_id'', ''document_json'', ''created_at'', ''updated_at'', ''version'']"

text \<open>The details are written with \<open>ensure_ascii\<close>, the default of \<open>json.dumps\<close>.\<close>

definition ascii_only :: "string \<Rightarrow> string" where
  "ascii_only s = concat (map (\<lambda>c. if (of_char c :: nat) < 127 then [c]
     else [CHR 0x5C, CHR ''u'', CHR ''0'', CHR ''0'', hex_digit (of_char c div 16), hex_digit (of_char c mod 16)]) s)"

definition invalid_sync_note :: "string \<Rightarrow> (string \<times> json) list \<Rightarrow> exc" where
  "invalid_sync_note reason details =
     InvalidNoteDocument (ascii_only (json_dumps (JObj ((''reason'', JStr reason) # details))))"

definition client_stamp :: "request \<Rightarrow> json" where
  "client_stamp rq = (case rq_client_updated_at rq of None \<Rightarrow> JNull | Some s \<Rightarrow> JStr s)"

definition reject_formal_sync :: "request \<Rightarrow> string \<Rightarrow> exc" where
  "reject_formal_sync rq reason = violation ''offline_formal_creation_forbidden''
     [(''entity_type'', JStr (rq_entity_type rq)), (''reason'', JStr reason)] False"

definition sorted_texts :: "string set \<Rightarrow> json" where
  "sorted_texts names = JList (map JStr (sorted_list_of_set names))"

definition is_int :: "json \<Rightarrow> bool" where
  "is_int v = (case v of JInt _ \<Rightarrow> True | _ \<Rightarrow> False)"

definition is_str :: "json \<Rightarrow> bool" where
  "is_str v = (case v of JStr _ \<Rightarrow> True | _ \<Rightarrow> False)"

text \<open>The candidate's own text: JSON, a document, and canonical.\<close>

definition sync_document :: "(json \<Rightarrow> string) \<Rightarrow> string \<Rightarrow> note_document res" where
  "sync_document describe t =
     (case json_loads t of
        None \<Rightarrow> Inl (InvalidNoteDocument ''document_json must be canonical JSON'')
      | Some raw \<Rightarrow>
          rbind (parse_document_v1 describe raw) (\<lambda>document.
          rbind (require (canonical_document_json document = t) (invalid_sync_note ''document_json_not_canonical'' []))
            (\<lambda>_. Inr document)))"

definition check_sync_create :: "ctx \<Rightarrow> request \<Rightarrow> row \<Rightarrow> unit res" where
  "check_sync_create cx rq candidate =
     rbind (require (rq_expected_version rq = None \<and> fld candidate ''version'' = JInt 1)
              (invalid_sync_note ''invalid_create_version'' [])) (\<lambda>_.
     rbind (require (fld candidate ''id'' = JStr (stable_id cx ''work_item_note'' (str_of (fld candidate ''work_item_id''))))
              (invalid_sync_note ''noncanonical_note_identity'' [])) (\<lambda>_.
     require (py_eq (fld candidate ''created_at'') (client_stamp rq))
       (invalid_sync_note ''created_at_not_client_timestamp'' [])))"

definition note_snapshot :: "row \<Rightarrow> json" where
  "note_snapshot r = JObj
     [(''id'', JStr (str_of (fld r ''id''))),
      (''work_item_id'', JStr (str_of (fld r ''work_item_id''))),
      (''document_json'', JStr (str_of (fld r ''document_json''))),
      (''created_at'', JStr (str_of (fld r ''created_at''))),
      (''updated_at'', JStr (str_of (fld r ''updated_at''))),
      (''version'', JInt (int_of (fld r ''version'')))]"

definition check_sync_update :: "request \<Rightarrow> row option \<Rightarrow> row \<Rightarrow> unit res" where
  "check_sync_update rq before candidate =
     (case before of
        None \<Rightarrow> violate ''not_found'' [(''entity_type'', JStr ''work_item_note'')] False
      | Some r \<Rightarrow>
          rbind (require (str_of (fld r ''id'') = rq_entity_id rq) (invalid_sync_note ''note_identity_changed'' [])) (\<lambda>_.
          rbind (require (str_of (fld r ''work_item_id'') = str_of (fld candidate ''work_item_id''))
                   (invalid_sync_note ''note_owner_changed'' [])) (\<lambda>_.
          rbind (require (py_eq (fld candidate ''created_at'') (fld r ''created_at''))
                   (invalid_sync_note ''created_at_changed'' [])) (\<lambda>_.
          rbind (require (rq_expected_version rq = Some (int_of (fld r ''version'')))
                   (violation ''version_conflict''
                      [(''entityId'', JStr (rq_entity_id rq)), (''snapshot'', note_snapshot r),
                       (''version'', JInt (int_of (fld r ''version'')))] False)) (\<lambda>_.
          require (fld candidate ''version'' = JInt (int_of (fld r ''version'') + 1))
            (invalid_sync_note ''invalid_candidate_version'' []))))))"

definition sync_note_document :: "(json \<Rightarrow> string) \<Rightarrow> ctx \<Rightarrow> request \<Rightarrow> row option \<Rightarrow> (row \<times> note_document) res" where
  "sync_note_document describe cx rq before =
     (let expected = (if rq_name rq = ''entity.create'' then set NOTE_SYNC_FIELDS else set NOTE_SYNC_FIELDS - {''id''});
          actual = fmdom' (rq_payload rq);
          candidate = fmupd ''id'' (JStr (rq_entity_id rq)) fmempty ++\<^sub>f rq_payload rq in
      rbind (require (actual = expected)
               (invalid_sync_note ''full_post_image_required''
                  [(''missing'', sorted_texts (expected - actual)), (''extra'', sorted_texts (actual - expected))])) (\<lambda>_.
      rbind (require (is_int (fld candidate ''version'')) (invalid_sync_note ''version_must_be_integer'' [])) (\<lambda>_.
      rbind (require (py_eq (fld candidate ''updated_at'') (client_stamp rq))
               (invalid_sync_note ''updated_at_not_client_timestamp'' [])) (\<lambda>_.
      rbind (require (is_str (fld candidate ''document_json''))
               (invalid_sync_note ''document_json_must_be_string'' [])) (\<lambda>_.
      rbind (sync_document describe (str_of (fld candidate ''document_json''))) (\<lambda>document.
      rbind (if rq_name rq = ''entity.create'' then check_sync_create cx rq candidate
             else check_sync_update rq before candidate) (\<lambda>_.
      Inr (candidate, document))))))))"

definition compile_sync_work_item_note :: "(json \<Rightarrow> string) \<Rightarrow> ctx \<Rightarrow> request \<Rightarrow> command res" where
  "compile_sync_work_item_note describe cx rq =
     rbind (require (rq_name rq \<noteq> ''entity.delete'')
              (reject_formal_sync rq ''note_delete_requires_future_typed_command'')) (\<lambda>_.
     rbind (require (rq_name rq = ''entity.create'' \<or> rq_name rq = ''entity.update'')
              (RuntimeErr (''unregistered WorkItemNote action: '' @ rq_name rq))) (\<lambda>_.
     let owner_id = str_of (get_or (rq_payload rq) ''work_item_id'' (JStr [])) in
     rbind (if owner_id = [] then Inr None else note_for_work_item (cx_overlay cx) owner_id) (\<lambda>before.
     rbind (sync_note_document describe cx rq before) (\<lambda>(_, document).
     note_command describe cx rq (\<lambda>_. Inr document)))))"

section \<open>The Notes of a Space\<close>

text \<open>
  Every Note belongs to one work item, carries the identifier derived from that item, and holds the
  canonical text of an acceptable document.
\<close>

definition note_id_of :: "(string \<Rightarrow> string) \<Rightarrow> string \<Rightarrow> string" where
  "note_id_of uu item = uu (''work_item_note'' @ [CHR 0x00] @ item)"

definition note_ok :: "(string \<Rightarrow> string) \<Rightarrow> row \<Rightarrow> bool" where
  "note_ok uu r = (\<exists>item v doc. fld r ''work_item_id'' = JStr item \<and> fld r ''id'' = JStr (note_id_of uu item) \<and>
     fld r ''version'' = JInt v \<and> fld r ''document_json'' = JStr (canonical_document_json doc) \<and> document_ok doc)"

definition notes_ok :: "(string \<Rightarrow> string) \<Rightarrow> overlay \<Rightarrow> bool" where
  "notes_ok uu ov = (\<forall>ident r. ov_row ov ''work_item_note'' ident = Some r \<longrightarrow> note_ok uu r)"

definition note_space :: "(string \<Rightarrow> string) \<Rightarrow> overlay \<Rightarrow> bool" where
  "note_space uu ov = (builtin_space ov \<and> notes_ok uu ov)"

lemma builtin_space_note: "builtin_space ov \<Longrightarrow> catalog_get (ov_catalog ov) ''work_item_note'' = Some work_item_note_spec"
  by (rule builtin_space_get(6))

lemma note_identity:
  assumes "builtin_space ov" "ov_row ov ''work_item_note'' ident = Some r"
  shows "ident = [fld r ''id'']"
  using table_row(2) [OF assms(1) builtin_space_note [OF assms(1)] note_keys assms(2)] .

text \<open>Finding the Note of an item never fails in such a Space, and finds the one with the derived identifier.\<close>

lemma note_for_work_item_Inr:
  assumes "note_space uu ov"
  obtains (none) "note_for_work_item ov item = Inr None"
      "\<forall>ident r. ov_row ov ''work_item_note'' ident = Some r \<longrightarrow> fld r ''work_item_id'' \<noteq> JStr item"
    | (found) r where "note_for_work_item ov item = Inr (Some r)" "fld r ''work_item_id'' = JStr item"
      "ov_row ov ''work_item_note'' [JStr (note_id_of uu item)] = Some r" "note_ok uu r"
proof -
  have b: "builtin_space ov" and n: "notes_ok uu ov" using assms by (simp_all add: note_space_def)
  have wf: "overlay_wf ov" using b by (simp add: builtin_space_def)
  obtain rows where rows: "ov_rows ov ''work_item_note'' = Inr rows" using ov_rows_Inr [OF builtin_space_note [OF b]] by blast
  note mem = ov_rows_iff [OF wf rows]
  let ?own = "filter (\<lambda>r. str_of (fld r ''work_item_id'') = item) rows"
  have own: "fld r ''work_item_id'' = JStr item \<and> ov_row ov ''work_item_note'' [JStr (note_id_of uu item)] = Some r \<and> note_ok uu r"
    if r: "r \<in> set ?own" for r
  proof -
    obtain ident where i: "ov_row ov ''work_item_note'' ident = Some r" using r mem by auto
    then have ok: "note_ok uu r" using n by (simp add: notes_ok_def)
    then show ?thesis using i r note_identity [OF b i] by (auto simp: note_ok_def)
  qed
  have "distinct ?own" using ov_rows_distinct [OF wf rows] by simp
  then have "?own = [] \<or> (\<exists>r. ?own = [r])"
    using own by (cases ?own) (auto, metis (no_types, lifting) list.set_intros(1) neq_Nil_conv option.inject)
  then show ?thesis
  proof
    assume e: "?own = []"
    then have "\<forall>ident r. ov_row ov ''work_item_note'' ident = Some r \<longrightarrow> fld r ''work_item_id'' \<noteq> JStr item"
    proof (intro allI impI notI)
      fix ident r assume "ov_row ov ''work_item_note'' ident = Some r" "fld r ''work_item_id'' = JStr item"
      then have "r \<in> set ?own" using mem by auto
      then show False unfolding e by simp
    qed
    moreover have "note_for_work_item ov item = Inr None" by (simp add: note_for_work_item_def rows e)
    ultimately show ?thesis by (rule none [rotated])
  next
    assume "\<exists>r. ?own = [r]"
    then obtain r where r: "?own = [r]" by blast
    then have "note_for_work_item ov item = Inr (Some r)" by (simp add: note_for_work_item_def rows)
    moreover have "r \<in> set ?own" by (simp add: r)
    ultimately show ?thesis using own found by blast
  qed
qed

lemma stored_document_ok: "note_ok uu r \<Longrightarrow> \<exists>doc. stored_document describe r = Inr doc \<and> document_ok doc"
  using loads_canonical stored_document_reads
  by (fastforce simp: note_ok_def stored_document_def stored_json_def)

lemma note_row_facts:
  "fmdom' (note_row i item doc created now v) = set (field_names work_item_note_spec)"
  "fld (note_row i item doc created now v) ''id'' = JStr i"
  "fld (note_row i item doc created now v) ''work_item_id'' = item"
  "fld (note_row i item doc created now v) ''document_json'' = JStr (canonical_document_json doc)"
  "fld (note_row i item doc created now v) ''created_at'' = created"
  "fld (note_row i item doc created now v) ''updated_at'' = JStr now"
  "fld (note_row i item doc created now v) ''version'' = JInt v"
  by (auto simp: note_row_def dict_def field_names_builtin)

lemma note_row_ok: "distinct_keys item \<Longrightarrow> distinct_keys created \<Longrightarrow> row_ok (note_row i item doc created now v)"
  by (simp add: note_row_def dict_def row_ok_fmupd)

lemma note_row_document:
  "document_ok doc \<Longrightarrow> stored_document describe (note_row i item doc created now v) = Inr doc"
  using loads_canonical stored_document_reads by (simp add: stored_document_def stored_json_def note_row_facts)

lemma notes_ok_with_row:
  "notes_ok uu ov \<Longrightarrow> note_ok uu r \<Longrightarrow> notes_ok uu (with_row ov ''work_item_note'' ident r)"
  by (simp add: notes_ok_def)

section \<open>What the commands do\<close>

lemma write_note_insert:
  assumes "builtin_space (cx_overlay cx)" "ov_row (cx_overlay cx) ''work_item_note'' [fld after ''id''] = None"
    "fmdom' after = set (field_names work_item_note_spec)" "row_ok after" "fld after ''id'' = JStr i"
    "rq_expected_version rq = None" "write_note cx rq None after now = Inr c"
  shows "ov_apply (cx_overlay cx) c = Inr (with_row (cx_overlay cx) ''work_item_note'' [JStr i] after)"
    "builtin_space (with_row (cx_overlay cx) ''work_item_note'' [JStr i] after)" "cm_value c = after"
proof -
  obtain plan event where plan: "DbMutationPlan ''work_item_notes'' (dict [(''id'', JStr i)]) Insert None None (Some after) = Inr plan"
    and event: "SyncEventPlan ''work_item_note'' i EvCreate after (fld after ''version'') (JStr now) = Inr event"
    and c: "cx_command cx rq [plan] [event] after None = Inr c"
    using assms(5-7) by (auto simp: write_note_def Let_def rbind_Inr)
  show "ov_apply (cx_overlay cx) c = Inr (with_row (cx_overlay cx) ''work_item_note'' [JStr i] after)"
    "builtin_space (with_row (cx_overlay cx) ''work_item_note'' [JStr i] after)"
    using insert_command [OF assms(1) builtin_space_note [OF assms(1)] note_keys tables(5) _ plan event _ c assms(3) _ assms(4)]
      assms(2,5) by simp_all
  show "cm_value c = after" using cx_command_Inr [OF c] by simp
qed

lemma write_note_update:
  assumes "builtin_space (cx_overlay cx)" "ov_row (cx_overlay cx) ''work_item_note'' [JStr i] = Some before"
    "fmdom' after = set (field_names work_item_note_spec)" "row_ok after" "fld after ''id'' = JStr i"
    "fld before ''version'' = JInt v" "rq_expected_version rq = Some (int_of (fld before ''version''))"
    "write_note cx rq (Some before) after now = Inr c"
  shows "ov_apply (cx_overlay cx) c = Inr (with_row (cx_overlay cx) ''work_item_note'' [JStr i] after)"
    "builtin_space (with_row (cx_overlay cx) ''work_item_note'' [JStr i] after)" "cm_value c = after"
proof -
  note row = table_row [OF assms(1) builtin_space_note [OF assms(1)] note_keys assms(2)]
  obtain plan event where plan: "DbMutationPlan ''work_item_notes'' (dict [(''id'', JStr i)]) Update
        (Some (int_of (fld before ''version''))) (Some before) (Some after) = Inr plan"
    and event: "SyncEventPlan ''work_item_note'' i EvUpdate after (fld after ''version'') (JStr now) = Inr event"
    and c: "cx_command cx rq [plan] [event] after None = Inr c"
    using assms(8) unfolding write_note_def Let_def assms(5,7) by (auto simp: rbind_Inr)
  have "fmdom' after = fmdom' before" "fld after ''id'' = fld before ''id''" using row(1,2) assms(3,5) by simp_all
  then show "ov_apply (cx_overlay cx) c = Inr (with_row (cx_overlay cx) ''work_item_note'' [JStr i] after)"
    "builtin_space (with_row (cx_overlay cx) ''work_item_note'' [JStr i] after)"
    using update_command [OF assms(1) builtin_space_note [OF assms(1)] note_keys tables(5) assms(2,6) plan event _ c _ _ assms(4)]
    by simp_all
  show "cm_value c = after" using cx_command_Inr [OF c] by simp
qed

text \<open>
  The Note of the item before the command, as far as the commands depend on it: the expected version
  and the document. There is a Note exactly when the command expects a version.
\<close>

definition note_before :: "(json \<Rightarrow> string) \<Rightarrow> ctx \<Rightarrow> string \<Rightarrow> int option \<Rightarrow> note_document option \<Rightarrow> bool" where
  "note_before describe cx item expected current =
     (case expected of
        None \<Rightarrow> current = None \<and>
          (\<forall>ident r. ov_row (cx_overlay cx) ''work_item_note'' ident = Some r \<longrightarrow> fld r ''work_item_id'' \<noteq> JStr item)
      | Some v \<Rightarrow> (\<exists>r doc. ov_row (cx_overlay cx) ''work_item_note'' [JStr (stable_id cx ''work_item_note'' item)] = Some r \<and>
          fld r ''work_item_id'' = JStr item \<and> fld r ''version'' = JInt v \<and>
          stored_document describe r = Inr doc \<and> current = Some doc))"

text \<open>What the Space holds after it.\<close>

definition note_after :: "(json \<Rightarrow> string) \<Rightarrow> ctx \<Rightarrow> string \<Rightarrow> int option \<Rightarrow> note_document \<Rightarrow> command \<Rightarrow> bool" where
  "note_after describe cx item expected document c =
     (\<exists>note now. ov_apply (cx_overlay cx) c =
          Inr (with_row (cx_overlay cx) ''work_item_note'' [JStr (stable_id cx ''work_item_note'' item)] note) \<and>
        note_space (cx_uuid5 cx)
          (with_row (cx_overlay cx) ''work_item_note'' [JStr (stable_id cx ''work_item_note'' item)] note) \<and>
        cm_value c = note \<and> fld note ''work_item_id'' = JStr item \<and> stored_document describe note = Inr document \<and>
        fld note ''id'' = JStr (stable_id cx ''work_item_note'' item) \<and>
        fld note ''document_json'' = JStr (canonical_document_json document) \<and>
        fld note ''version'' = JInt (case expected of None \<Rightarrow> 1 | Some v \<Rightarrow> v + 1) \<and> fld note ''updated_at'' = JStr now)"

lemma note_command_Inr:
  assumes space: "note_space (cx_uuid5 cx) (cx_overlay cx)" and item: "fmlookup (rq_payload rq) ''work_item_id'' = Some (JStr item)"
    and own: "\<forall>r. ov_row (cx_overlay cx) ''work_item_note'' [JStr (stable_id cx ''work_item_note'' item)] = Some r \<longrightarrow>
      fld r ''work_item_id'' = JStr item"
    and ok: "\<And>current d. note_before describe cx item (rq_expected_version rq) current \<Longrightarrow> transform current = Inr d \<Longrightarrow> document_ok d"
    and c: "note_command describe cx rq transform = Inr c"
  shows "\<exists>current document. note_before describe cx item (rq_expected_version rq) current \<and> transform current = Inr document \<and>
    note_after describe cx item (rq_expected_version rq) document c"
proof -
  let ?ov = "cx_overlay cx" and ?i = "stable_id cx ''work_item_note'' item"
  have b: "builtin_space ?ov" and n: "notes_ok (cx_uuid5 cx) ?ov" using space by (simp_all add: note_space_def)
  have id: "note_id_of (cx_uuid5 cx) item = ?i" by (simp add: note_id_of_def stable_id_def)
  from space show ?thesis
  proof (cases rule: note_for_work_item_Inr [where item = item])
    case none
    let ?now = "candidate_now cx rq"
    obtain document where d: "rq_expected_version rq = None" "transform None = Inr document"
      and w: "write_note cx rq None (note_row ?i (JStr item) document (JStr ?now) ?now 1) ?now = Inr c"
      using c none(1) item by (auto simp: note_command_def pget_def rbind_Inr require_Inr Let_def)
    let ?note = "note_row ?i (JStr item) document (JStr ?now) ?now 1"
    have before: "note_before describe cx item (rq_expected_version rq) None" using none(2) d(1) by (simp add: note_before_def)
    have fresh: "ov_row ?ov ''work_item_note'' [fld ?note ''id''] = None"
      using none(2) own by (cases "ov_row ?ov ''work_item_note'' [JStr ?i]") (auto simp: note_row_facts)
    have dok: "document_ok document" using ok [OF before d(2)] .
    have rok: "row_ok ?note" by (intro note_row_ok) simp_all
    note ins = write_note_insert [OF b fresh note_row_facts(1) rok note_row_facts(2) d(1) w]
    have "note_ok (cx_uuid5 cx) ?note" using dok by (auto simp: note_ok_def note_row_facts id)
    then have "note_after describe cx item (rq_expected_version rq) document c"
      unfolding note_after_def using ins n d(1)
      by (intro exI [of _ ?note] exI [of _ ?now])
        (simp add: note_space_def notes_ok_with_row note_row_facts note_row_document [OF dok])
    with before d(2) show ?thesis by blast
  next
    case (found r)
    have row: "ov_row ?ov ''work_item_note'' [JStr ?i] = Some r" using found(3) by (simp add: id)
    obtain v where v: "fld r ''version'' = JInt v" "fld r ''id'' = JStr ?i" using found(2,4) by (auto simp: note_ok_def id)
    obtain current document now where d: "rq_expected_version rq = Some v" "stored_document describe r = Inr current"
      "transform (Some current) = Inr document"
      and w: "write_note cx rq (Some r) (note_row ?i (JStr item) document (fld r ''created_at'') now (v + 1)) now = Inr c"
      using c found(1) item v
      by (auto simp: note_command_def pget_def rbind_Inr require_note_version_def split: if_splits)
    let ?note = "note_row ?i (JStr item) document (fld r ''created_at'') now (v + 1)"
    have before: "note_before describe cx item (rq_expected_version rq) (Some current)"
      using row found(2) v d by (simp add: note_before_def)
    have dok: "document_ok document" using ok [OF before d(3)] .
    note cols = table_row [OF b builtin_space_note [OF b] note_keys row]
    have rok: "row_ok ?note"
      using row_ok_fld [OF cols(3)] cols(1) by (intro note_row_ok) (simp_all add: field_names_builtin)
    have e: "rq_expected_version rq = Some (int_of (fld r ''version''))" using d(1) v(1) by simp
    note upd = write_note_update [OF b row note_row_facts(1) rok note_row_facts(2) v(1) e w]
    have "note_ok (cx_uuid5 cx) ?note" using dok by (auto simp: note_ok_def note_row_facts id)
    then have "note_after describe cx item (rq_expected_version rq) document c"
      unfolding note_after_def using upd n d(1)
      by (intro exI [of _ ?note] exI [of _ now])
        (simp add: note_space_def notes_ok_with_row note_row_facts note_row_document [OF dok])
    with before d(3) show ?thesis by blast
  qed
qed

lemma note_before_ok:
  assumes "note_space (cx_uuid5 cx) (cx_overlay cx)" "note_before describe cx item expected (Some current)"
  shows "document_ok current"
proof -
  obtain ident r where "ov_row (cx_overlay cx) ''work_item_note'' ident = Some r" "stored_document describe r = Inr current"
    using assms(2) by (auto simp: note_before_def split: option.splits)
  moreover from this assms(1) have "note_ok (cx_uuid5 cx) r" by (simp add: note_space_def notes_ok_def)
  ultimately show ?thesis using stored_document_ok [of "cx_uuid5 cx" r describe] by auto
qed

section \<open>The properties\<close>

text \<open>What each command makes of the document of the item.\<close>

definition note_handlers :: "(json \<Rightarrow> string) \<Rightarrow>
    ((ctx \<Rightarrow> request \<Rightarrow> command res) \<times> (row \<Rightarrow> note_document option \<Rightarrow> note_document \<Rightarrow> bool)) list" where
  "note_handlers describe =
     [(compile_ReplaceDocument describe,
       \<lambda>payload _ after. \<exists>raw. fmlookup payload ''document'' = Some raw \<and> parse_document_v1 describe raw = Inr after),
      (compile_AppendBlocks describe,
       \<lambda>payload current after. \<exists>before blocks new. current = Some before \<and> fmlookup payload ''blocks'' = Some (JList blocks) \<and>
         map block_of blocks = map Some new \<and> doc_blocks after = doc_blocks before @ new),
      (compile_ToggleChecklistItem describe,
       \<lambda>payload current after. \<exists>before target checked. current = Some before \<and>
         fmlookup payload ''item_id'' = Some target \<and> fmlookup payload ''checked'' = Some checked \<and>
         str_of target \<in> set (all_item_ids before) \<and> after = mark_document (str_of target) (truthy checked) before)]"

lemma existing_document_Inr: "existing_document current = Inr d \<longleftrightarrow> current = Some d"
  by (auto simp: existing_document_def split: option.splits)

text \<open>Every command is \<open>note_command\<close> with a function that yields acceptable documents, as described.\<close>

lemma note_handler_command:
  assumes "(handler, effect) \<in> set (note_handlers describe)" "handler cx rq = Inr c"
  obtains transform where "note_command describe cx rq transform = Inr c"
    "\<And>current d. transform current = Inr d \<Longrightarrow> (\<forall>before. current = Some before \<longrightarrow> document_ok before) \<Longrightarrow>
       document_ok d \<and> effect (rq_payload rq) current d"
proof -
  consider (replace) raw doc where "fmlookup (rq_payload rq) ''document'' = Some raw" "parse_document_v1 describe raw = Inr doc"
      "note_command describe cx rq (\<lambda>_. Inr doc) = Inr c" "(handler, effect) = note_handlers describe ! 0"
    | (append) "note_command describe cx rq (appended describe (rq_payload rq)) = Inr c" "(handler, effect) = note_handlers describe ! 1"
    | (toggle) "note_command describe cx rq (toggled describe (rq_payload rq)) = Inr c" "(handler, effect) = note_handlers describe ! 2"
    using assms
    by (auto simp: note_handlers_def compile_ReplaceDocument_def compile_AppendBlocks_def compile_ToggleChecklistItem_def
        rbind_Inr pget_Inr)
  then show ?thesis
  proof cases
    case replace
    then show ?thesis using that parse_document_ok by (fastforce simp: note_handlers_def)
  next
    case append
    show ?thesis
    proof (rule that [OF append(1)])
      fix current d assume d: "appended describe (rq_payload rq) current = Inr d" "\<forall>before. current = Some before \<longrightarrow> document_ok before"
      then obtain before v where v: "current = Some before" "fmlookup (rq_payload rq) ''blocks'' = Some v"
        "(case v of JList bs \<Rightarrow> append_blocks describe before bs | _ \<Rightarrow> Inl (TypeErr ''blocks'')) = Inr d"
        by (auto simp: appended_def rbind_Inr existing_document_Inr pget_Inr)
      then obtain blocks where b: "current = Some before" "fmlookup (rq_payload rq) ''blocks'' = Some (JList blocks)"
        "append_blocks describe before blocks = Inr d" by (cases v) auto
      with d(2) append_blocks_Inr [of before describe blocks d] obtain new where
        "map block_of blocks = map Some new" "d = WorkItemNoteDocumentV1 (doc_blocks before @ new)" "document_ok d" by auto
      with b append(2) show "document_ok d \<and> effect (rq_payload rq) current d" by (auto simp: note_handlers_def)
    qed
  next
    case toggle
    show ?thesis
    proof (rule that [OF toggle(1)])
      fix current d assume d: "toggled describe (rq_payload rq) current = Inr d" "\<forall>before. current = Some before \<longrightarrow> document_ok before"
      then obtain before target checked where b: "current = Some before" "fmlookup (rq_payload rq) ''item_id'' = Some target"
        "fmlookup (rq_payload rq) ''checked'' = Some checked"
        "set_checklist_item_checked describe before (str_of target) (truthy checked) = Inr d"
        by (auto simp: toggled_def rbind_Inr existing_document_Inr pget_Inr)
      then have "d = mark_document (str_of target) (truthy checked) before \<and> str_of target \<in> set (all_item_ids before)"
        using d(2) set_checked_good [of before describe "str_of target" "truthy checked"] by (auto split: if_splits)
      moreover have "document_ok d"
        using b(4) parse_document_ok by (auto simp: set_checklist_item_checked_def rewrite_document_item_def rbind_Inr)
      ultimately show "document_ok d \<and> effect (rq_payload rq) current d"
        using b toggle(2) by (auto simp: note_handlers_def)
    qed
  qed
qed

lemma note_handler_Inr:
  assumes "(handler, effect) \<in> set (note_handlers describe)" "note_space (cx_uuid5 cx) (cx_overlay cx)"
    "fmlookup (rq_payload rq) ''work_item_id'' = Some (JStr item)"
    "\<forall>r. ov_row (cx_overlay cx) ''work_item_note'' [JStr (stable_id cx ''work_item_note'' item)] = Some r \<longrightarrow>
      fld r ''work_item_id'' = JStr item"
    "handler cx rq = Inr c"
  shows "\<exists>current document. note_before describe cx item (rq_expected_version rq) current \<and>
    effect (rq_payload rq) current document \<and> note_after describe cx item (rq_expected_version rq) document c"
proof -
  obtain transform where t: "note_command describe cx rq transform = Inr c"
    "\<And>current d. transform current = Inr d \<Longrightarrow> (\<forall>before. current = Some before \<longrightarrow> document_ok before) \<Longrightarrow>
       document_ok d \<and> effect (rq_payload rq) current d"
    using note_handler_command [OF assms(1,5)] by metis
  have ok: "\<forall>before. current = Some before \<longrightarrow> document_ok before"
    if "note_before describe cx item (rq_expected_version rq) current" for current
    using note_before_ok [OF assms(2)] that by blast
  have d: "document_ok d" if "note_before describe cx item (rq_expected_version rq) current" "transform current = Inr d" for current d
    using t(2) [OF that(2) ok [OF that(1)]] by blast
  have "\<exists>current document. note_before describe cx item (rq_expected_version rq) current \<and>
      transform current = Inr document \<and> note_after describe cx item (rq_expected_version rq) document c"
    by (rule note_command_Inr [OF assms(2-4) _ t(1)]) (rule d)
  then obtain current document where n: "note_before describe cx item (rq_expected_version rq) current"
    "transform current = Inr document" "note_after describe cx item (rq_expected_version rq) document c"
    by blast
  with t(2) [OF n(2) ok [OF n(1)]] show ?thesis by blast
qed

text \<open>
  C25: After every command on a Note that compiles, as before it, every Note row of the
  Space names its work item by a text, carries the identifier derived from that item and an integer
  version, and holds the canonical text of a document that reads back. The Note of an item is found
  under the derived identifier, which no other item may have taken.
\<close>

theorem note_rows_stay_typed:
  assumes "(handler, effect) \<in> set (note_handlers describe)" "builtin_space (cx_overlay cx)"
    "notes_ok (cx_uuid5 cx) (cx_overlay cx)" "fmlookup (rq_payload rq) ''work_item_id'' = Some (JStr item)"
    "\<forall>r. ov_row (cx_overlay cx) ''work_item_note'' [JStr (stable_id cx ''work_item_note'' item)] = Some r \<longrightarrow>
      fld r ''work_item_id'' = JStr item"
    "handler cx rq = Inr c"
  shows "\<exists>ov'. ov_apply (cx_overlay cx) c = Inr ov' \<and> overlay_wf ov' \<and>
    (\<forall>ident r. ov_row ov' ''work_item_note'' ident = Some r \<longrightarrow>
       (\<exists>owner v doc. fld r ''work_item_id'' = JStr owner \<and> fld r ''id'' = JStr (stable_id cx ''work_item_note'' owner) \<and>
          fld r ''version'' = JInt v \<and> fld r ''document_json'' = JStr (canonical_document_json doc) \<and>
          (\<exists>w. json_loads (canonical_document_json doc) = Some w \<and> parse_document_v1 describe w = Inr doc)))"
proof -
  have space: "note_space (cx_uuid5 cx) (cx_overlay cx)" using assms(2,3) by (simp add: note_space_def)
  obtain ov' where ov': "ov_apply (cx_overlay cx) c = Inr ov'" "note_space (cx_uuid5 cx) ov'"
    using note_handler_Inr [OF assms(1) space assms(4-6)] unfolding note_after_def by blast
  have "\<exists>w. json_loads (canonical_document_json doc) = Some w \<and> parse_document_v1 describe w = Inr doc"
    if "document_ok doc" for doc
    using stored_document_reads [OF that loads_canonical] loads_canonical by blast
  then have "\<exists>owner v doc. fld r ''work_item_id'' = JStr owner \<and> fld r ''id'' = JStr (stable_id cx ''work_item_note'' owner) \<and>
      fld r ''version'' = JInt v \<and> fld r ''document_json'' = JStr (canonical_document_json doc) \<and>
      (\<exists>w. json_loads (canonical_document_json doc) = Some w \<and> parse_document_v1 describe w = Inr doc)"
    if "ov_row ov' ''work_item_note'' ident = Some r" for ident r
    using ov'(2) that unfolding note_space_def notes_ok_def note_ok_def note_id_of_def stable_id_def by blast
  then show ?thesis using ov' by (auto simp: note_space_def builtin_space_def)
qed

text \<open>
  C29: A command on a Note replaces the document of its item by the given one, extends it
  by the given blocks, or sets the box of one item in it; it writes one row, with the next version (1
  for a new Note), and touches nothing else. Without a Note it needs the command to expect none.
\<close>

theorem note_commands_edit_document:
  assumes "(handler, effect) \<in> set (note_handlers describe)" "builtin_space (cx_overlay cx)"
    "notes_ok (cx_uuid5 cx) (cx_overlay cx)" "fmlookup (rq_payload rq) ''work_item_id'' = Some (JStr item)"
    "\<forall>r. ov_row (cx_overlay cx) ''work_item_note'' [JStr (stable_id cx ''work_item_note'' item)] = Some r \<longrightarrow>
      fld r ''work_item_id'' = JStr item"
    "handler cx rq = Inr c"
  shows "\<exists>current document ov' note. note_before describe cx item (rq_expected_version rq) current \<and>
    effect (rq_payload rq) current document \<and> ov_apply (cx_overlay cx) c = Inr ov' \<and>
    ov_row ov' ''work_item_note'' [JStr (stable_id cx ''work_item_note'' item)] = Some note \<and>
    cm_value c = note \<and> fld note ''work_item_id'' = JStr item \<and> stored_document describe note = Inr document \<and>
    fld note ''version'' = JInt (case rq_expected_version rq of None \<Rightarrow> 1 | Some v \<Rightarrow> v + 1) \<and>
    (\<forall>t ident. (t, ident) \<noteq> (''work_item_note'', [JStr (stable_id cx ''work_item_note'' item)]) \<longrightarrow>
       ov_row ov' t ident = ov_row (cx_overlay cx) t ident)"
proof -
  have space: "note_space (cx_uuid5 cx) (cx_overlay cx)" using assms(2,3) by (simp add: note_space_def)
  obtain current document where *: "note_before describe cx item (rq_expected_version rq) current"
    "effect (rq_payload rq) current document" "note_after describe cx item (rq_expected_version rq) document c"
    using note_handler_Inr [OF assms(1) space assms(4-6)] by blast
  then show ?thesis unfolding note_after_def
    by (elim exE) (intro exI [of _ current] exI [of _ document] exI conjI, auto)
qed

section \<open>Replayed Notes\<close>

lemma sync_candidate: "k \<in> fmdom' payload \<Longrightarrow> fld (fmupd ''id'' v fmempty ++\<^sub>f payload) k = fld payload k"
  by (simp add: fld_def fmdom'_alt_def)

lemma sync_document_Inr:
  "sync_document describe t = Inr d \<Longrightarrow> document_ok d \<and> canonical_document_json d = t"
  using parse_document_ok by (fastforce simp: sync_document_def rbind_Inr require_Inr split: option.splits)

lemma sync_note_document_Inr:
  assumes "sync_note_document describe cx rq before = Inr (candidate, document)"
  shows "document_ok document" "fld (rq_payload rq) ''document_json'' = JStr (canonical_document_json document)"
    "rq_name rq = ''entity.create'' \<Longrightarrow> rq_expected_version rq = None \<and> fld (rq_payload rq) ''version'' = JInt 1 \<and>
       fld (rq_payload rq) ''id'' = JStr (stable_id cx ''work_item_note'' (str_of (fld (rq_payload rq) ''work_item_id'')))"
    "rq_name rq \<noteq> ''entity.create'' \<Longrightarrow> \<exists>r. before = Some r \<and> str_of (fld r ''id'') = rq_entity_id rq \<and>
       rq_expected_version rq = Some (int_of (fld r ''version'')) \<and>
       fld (rq_payload rq) ''version'' = JInt (int_of (fld r ''version'') + 1)"
proof -
  let ?candidate = "fmupd ''id'' (JStr (rq_entity_id rq)) fmempty ++\<^sub>f rq_payload rq"
  have domain: "fmdom' (rq_payload rq) = (if rq_name rq = ''entity.create'' then set NOTE_SYNC_FIELDS else set NOTE_SYNC_FIELDS - {''id''})"
    and body: "is_str (fld ?candidate ''document_json'')" "sync_document describe (str_of (fld ?candidate ''document_json'')) = Inr document"
    and checks: "(if rq_name rq = ''entity.create'' then check_sync_create cx rq ?candidate
             else check_sync_update rq before ?candidate) = Inr ()"
    using assms by (auto simp: sync_note_document_def Let_def rbind_Inr require_Inr)
  have col: "fld ?candidate k = fld (rq_payload rq) k" if "k \<in> {''work_item_id'', ''document_json'', ''version''}" for k
    by (rule sync_candidate) (use domain that in \<open>auto simp: NOTE_SYNC_FIELDS_def\<close>)
  show "document_ok document" "fld (rq_payload rq) ''document_json'' = JStr (canonical_document_json document)"
    using body sync_document_Inr by (auto simp: col is_str_def split: json.splits)
  show "rq_expected_version rq = None \<and> fld (rq_payload rq) ''version'' = JInt 1 \<and>
       fld (rq_payload rq) ''id'' = JStr (stable_id cx ''work_item_note'' (str_of (fld (rq_payload rq) ''work_item_id'')))"
    if "rq_name rq = ''entity.create''"
  proof -
    have "fld ?candidate ''id'' = fld (rq_payload rq) ''id''"
      by (rule sync_candidate) (use domain that in \<open>auto simp: NOTE_SYNC_FIELDS_def\<close>)
    with checks that show ?thesis by (simp add: check_sync_create_def rbind_Inr require_Inr col)
  qed
  show "\<exists>r. before = Some r \<and> str_of (fld r ''id'') = rq_entity_id rq \<and>
       rq_expected_version rq = Some (int_of (fld r ''version'')) \<and>
       fld (rq_payload rq) ''version'' = JInt (int_of (fld r ''version'') + 1)"
    if "rq_name rq \<noteq> ''entity.create''"
    using checks that by (auto simp: check_sync_update_def rbind_Inr require_Inr col split: option.splits)
qed

text \<open>
  C30: A replayed Note row that is accepted is a creation or an update, its text is the canonical
  text of an acceptable document, and the Space then holds that very text, the version of the row and
  its identifier, and still only well typed Notes.
\<close>

theorem sync_note_adopted:
  assumes "builtin_space (cx_overlay cx)" "notes_ok (cx_uuid5 cx) (cx_overlay cx)"
    "fmlookup (rq_payload rq) ''work_item_id'' = Some (JStr item)"
    "\<forall>r. ov_row (cx_overlay cx) ''work_item_note'' [JStr (stable_id cx ''work_item_note'' item)] = Some r \<longrightarrow>
      fld r ''work_item_id'' = JStr item"
    "compile_sync_work_item_note describe cx rq = Inr c"
  shows "(rq_name rq = ''entity.create'' \<or> rq_name rq = ''entity.update'') \<and>
    (\<exists>ov' note. ov_apply (cx_overlay cx) c = Inr ov' \<and> builtin_space ov' \<and> notes_ok (cx_uuid5 cx) ov' \<and>
       ov_row ov' ''work_item_note'' [JStr (stable_id cx ''work_item_note'' item)] = Some note \<and>
       fld note ''work_item_id'' = JStr item \<and> fld note ''document_json'' = fld (rq_payload rq) ''document_json'' \<and>
       fld note ''version'' = fld (rq_payload rq) ''version'' \<and>
       fld note ''id'' = (if rq_name rq = ''entity.create'' then fld (rq_payload rq) ''id'' else JStr (rq_entity_id rq)))"
proof -
  have space: "note_space (cx_uuid5 cx) (cx_overlay cx)" using assms(1,2) by (simp add: note_space_def)
  have owner: "fld (rq_payload rq) ''work_item_id'' = JStr item" using assms(3) by (simp add: fld_def)
  obtain before candidate document where name: "rq_name rq = ''entity.create'' \<or> rq_name rq = ''entity.update''"
    and b: "(if item = [] then Inr None else note_for_work_item (cx_overlay cx) item) = Inr before"
    and d: "sync_note_document describe cx rq before = Inr (candidate, document)"
    and c: "note_command describe cx rq (\<lambda>_. Inr document) = Inr c"
    using assms(3,5) by (auto simp: compile_sync_work_item_note_def rbind_Inr require_Inr Let_def get_or_def)
  note sync = sync_note_document_Inr [OF d]
  have "\<exists>current document'. note_before describe cx item (rq_expected_version rq) current \<and>
      (Inr document :: note_document res) = Inr document' \<and> note_after describe cx item (rq_expected_version rq) document' c"
    by (rule note_command_Inr [OF space assms(3,4) _ c]) (use sync(1) in simp)
  then have "note_after describe cx item (rq_expected_version rq) document c" by simp
  then obtain note' where stored: "ov_apply (cx_overlay cx) c =
        Inr (with_row (cx_overlay cx) ''work_item_note'' [JStr (stable_id cx ''work_item_note'' item)] note')"
    "note_space (cx_uuid5 cx) (with_row (cx_overlay cx) ''work_item_note'' [JStr (stable_id cx ''work_item_note'' item)] note')"
    "fld note' ''work_item_id'' = JStr item" "fld note' ''id'' = JStr (stable_id cx ''work_item_note'' item)"
    "fld note' ''document_json'' = JStr (canonical_document_json document)"
    "fld note' ''version'' = JInt (case rq_expected_version rq of None \<Rightarrow> 1 | Some v \<Rightarrow> v + 1)"
    by (auto simp: note_after_def)
  have id: "rq_entity_id rq = stable_id cx ''work_item_note'' item" if upd: "rq_name rq \<noteq> ''entity.create''"
  proof -
    obtain r where r: "before = Some r" "str_of (fld r ''id'') = rq_entity_id rq" using sync(4) [OF upd] by blast
    then have "note_for_work_item (cx_overlay cx) item = Inr (Some r)" using b by (auto split: if_splits)
    with space have "ov_row (cx_overlay cx) ''work_item_note'' [JStr (note_id_of (cx_uuid5 cx) item)] = Some r"
      by (cases rule: note_for_work_item_Inr [where item = item]) auto
    then have "fld r ''id'' = JStr (note_id_of (cx_uuid5 cx) item)" using note_identity [OF assms(1)] by fastforce
    with r show ?thesis by (simp add: note_id_of_def stable_id_def)
  qed
  have "fld note' ''version'' = fld (rq_payload rq) ''version''"
    using sync(3,4) stored(6) by (cases "rq_name rq = ''entity.create''") auto
  moreover have "fld note' ''id'' = (if rq_name rq = ''entity.create'' then fld (rq_payload rq) ''id'' else JStr (rq_entity_id rq))"
    using sync(3) id stored(4) owner by simp
  ultimately show ?thesis using name stored sync(2) by (auto simp: note_space_def)
qed

section \<open>Notes of the small Space\<close>

lemma no_sample_notes: "ov_row (sample_overlay sample_rows) ''work_item_note'' ident = None"
  unfolding sample_lookup by (auto simp: sample_rows_def)

lemma sample_note_space: "note_space uu (sample_overlay sample_rows)"
  by (simp add: note_space_def notes_ok_def no_sample_notes sample_builtin sample_wf)

lemma sample_no_note: "note_for_work_item (sample_overlay sample_rows) i = Inr None"
  using sample_note_space by (cases rule: note_for_work_item_Inr [where item = i]) (auto simp: no_sample_notes)

definition replace_request :: request where
  "replace_request = sample_request ''task_space.ReplaceDocument'' ''task_space'' ''b''
     [(''work_item_id'', JStr ''b''), (''document'', sample_raw)] None"

lemma sample_note_command:
  assumes "fmlookup (rq_payload rq) ''work_item_id'' = Some (JStr ''b'')" "rq_expected_version rq = None"
    "rq_client_updated_at rq = None \<or> rq_client_updated_at rq = Some ''2026-01-02T03:04:05.678Z''"
  shows "\<exists>c. note_command describe (sample_ctx sample_rows) rq (\<lambda>_. Inr doc) = Inr c"
proof -
  have "ov_row (sample_overlay sample_rows) ''work_item'' [JStr ''b''] = Some (sample_item ''b'' (JStr ''a''))"
    by (simp add: sample_items)
  moreover have "candidate_now (sample_ctx sample_rows) rq = ''2026-01-02T03:04:05.678Z''"
    using assms(3) by (auto simp: candidate_now_def)
  ultimately show ?thesis
    using assms(1,2)
    by (simp add: note_command_def pget_def require_row_def sample_no_note Let_def write_note_def note_row_facts
        DbMutationPlan_def validate_expected_version_def SyncEventPlan_def validate_sample_now cx_command_None)
qed

lemma sample_replace: "\<exists>c. compile_ReplaceDocument (\<lambda>_. []) (sample_ctx sample_rows) replace_request = Inr c"
proof -
  have "fmlookup (rq_payload replace_request) ''document'' = Some sample_raw"
    "fmlookup (rq_payload replace_request) ''work_item_id'' = Some (JStr ''b'')"
    by (simp_all add: replace_request_def dict_def)
  then show ?thesis
    using sample_note_command [of replace_request "\<lambda>_. []" sample_document]
    by (simp add: compile_ReplaceDocument_def pget_def sample_parses) (simp add: replace_request_def)
qed

lemma note_rows_stay_typed_witness:
  "\<exists>c ov'. compile_ReplaceDocument (\<lambda>_. []) (sample_ctx sample_rows) replace_request = Inr c \<and>
    ov_apply (sample_overlay sample_rows) c = Inr ov' \<and> overlay_wf ov'"
proof -
  obtain c where c: "compile_ReplaceDocument (\<lambda>_. []) (sample_ctx sample_rows) replace_request = Inr c"
    using sample_replace by blast
  have h: "(compile_ReplaceDocument (\<lambda>_. []), \<lambda>payload _ after. \<exists>raw. fmlookup payload ''document'' = Some raw \<and>
      parse_document_v1 (\<lambda>_. []) raw = Inr after) \<in> set (note_handlers (\<lambda>_. []))"
    by (simp add: note_handlers_def)
  have "builtin_space (cx_overlay (sample_ctx sample_rows))" "notes_ok (cx_uuid5 (sample_ctx sample_rows)) (cx_overlay (sample_ctx sample_rows))"
    "fmlookup (rq_payload replace_request) ''work_item_id'' = Some (JStr ''b'')"
    using sample_note_space [of "cx_uuid5 (sample_ctx sample_rows)"]
    by (simp_all add: note_space_def replace_request_def dict_def)
  from note_rows_stay_typed [OF h this _ c] c show ?thesis by (auto simp: no_sample_notes)
qed

lemma note_commands_edit_document_witness:
  "\<exists>c ov' note. compile_ReplaceDocument (\<lambda>_. []) (sample_ctx sample_rows) replace_request = Inr c \<and>
    ov_apply (sample_overlay sample_rows) c = Inr ov' \<and> stored_document (\<lambda>_. []) note = Inr sample_document \<and>
    ov_row ov' ''work_item_note'' [JStr (stable_id (sample_ctx sample_rows) ''work_item_note'' ''b'')] = Some note"
proof -
  obtain c where c: "compile_ReplaceDocument (\<lambda>_. []) (sample_ctx sample_rows) replace_request = Inr c"
    using sample_replace by blast
  have h: "(compile_ReplaceDocument (\<lambda>_. []), \<lambda>payload _ after. \<exists>raw. fmlookup payload ''document'' = Some raw \<and>
      parse_document_v1 (\<lambda>_. []) raw = Inr after) \<in> set (note_handlers (\<lambda>_. []))"
    by (simp add: note_handlers_def)
  have "builtin_space (cx_overlay (sample_ctx sample_rows))" "notes_ok (cx_uuid5 (sample_ctx sample_rows)) (cx_overlay (sample_ctx sample_rows))"
    "fmlookup (rq_payload replace_request) ''work_item_id'' = Some (JStr ''b'')"
    using sample_note_space [of "cx_uuid5 (sample_ctx sample_rows)"]
    by (simp_all add: note_space_def replace_request_def dict_def)
  moreover have "fmlookup (rq_payload replace_request) ''document'' = Some sample_raw"
    by (simp add: replace_request_def dict_def)
  ultimately show ?thesis
    using note_commands_edit_document [OF h _ _ _ _ c] c by (auto simp: no_sample_notes sample_parses)
qed

definition sync_note_request :: request where
  "sync_note_request = (sample_request ''entity.create'' ''work_item_note'' ''u-n'' 
     [(''id'', JStr (stable_id (sample_ctx sample_rows) ''work_item_note'' ''b'')), (''work_item_id'', JStr ''b''),
      (''document_json'', JStr (canonical_document_json sample_document)),
      (''created_at'', JStr ''2026-01-02T03:04:05.678Z''), (''updated_at'', JStr ''2026-01-02T03:04:05.678Z''),
      (''version'', JInt 1)] None)\<lparr>rq_client_updated_at := Some ''2026-01-02T03:04:05.678Z''\<rparr>"

lemma sync_note_columns:
  "fmlookup (rq_payload sync_note_request) ''work_item_id'' = Some (JStr ''b'')"
  "fmdom' (rq_payload sync_note_request) = set NOTE_SYNC_FIELDS"
  by (auto simp: sync_note_request_def dict_def NOTE_SYNC_FIELDS_def)

lemma sample_sync_note: "\<exists>c. compile_sync_work_item_note (\<lambda>_. []) (sample_ctx sample_rows) sync_note_request = Inr c"
proof -
  have ok: "document_ok sample_document" using parse_document_ok [OF sample_parses] .
  have "sync_document (\<lambda>_. []) (canonical_document_json sample_document) = Inr sample_document"
    using stored_document_reads [OF ok loads_canonical] by (simp add: sync_document_def loads_canonical)
  then have "\<exists>candidate. sync_note_document (\<lambda>_. []) (sample_ctx sample_rows) sync_note_request None = Inr (candidate, sample_document)"
    using sync_note_columns(2)
    by (simp add: sync_note_document_def Let_def)
      (simp add: sync_note_request_def sync_candidate dict_def is_int_def is_str_def client_stamp_def check_sync_create_def)
  moreover have "\<exists>c. note_command (\<lambda>_. []) (sample_ctx sample_rows) sync_note_request (\<lambda>_. Inr sample_document) = Inr c"
    by (rule sample_note_command) (simp_all add: sync_note_columns, simp_all add: sync_note_request_def)
  moreover have "rq_name sync_note_request = ''entity.create''" by (simp add: sync_note_request_def)
  ultimately show ?thesis
    by (auto simp: compile_sync_work_item_note_def Let_def get_or_def sync_note_columns sample_no_note)
qed

lemma sync_note_adopted_witness:
  "\<exists>c ov'. compile_sync_work_item_note (\<lambda>_. []) (sample_ctx sample_rows) sync_note_request = Inr c \<and>
    ov_apply (sample_overlay sample_rows) c = Inr ov' \<and> builtin_space ov'"
proof -
  obtain c where c: "compile_sync_work_item_note (\<lambda>_. []) (sample_ctx sample_rows) sync_note_request = Inr c"
    using sample_sync_note by blast
  have "builtin_space (cx_overlay (sample_ctx sample_rows))" "notes_ok (cx_uuid5 (sample_ctx sample_rows)) (cx_overlay (sample_ctx sample_rows))"
    using sample_note_space [of "cx_uuid5 (sample_ctx sample_rows)"] by (simp_all add: note_space_def)
  from sync_note_adopted [OF this sync_note_columns(1) _ c] c show ?thesis by (auto simp: no_sample_notes)
qed

end
