(* ===== verification/Labels.thy ===== *)
theory Labels
  imports WorkItemInvariant
begin

text \<open>
  Labels and the label sets of work items (\<open>_compile_CreateLabel\<close> to
  \<open>_compile_RemoveWorkItemLabels\<close> of \<open>app/task_space/compiler.py\<close>). The labels of an item are the
  rows of a junction table keyed by item and label; a change of the set is compiled into the
  insertions and deletions of that table that lead to the declared set.

  The loop that checks the declared labels runs over a Python set, whose order is not fixed; the
  model takes the sorted order, which only decides which missing label is reported.
\<close>

section \<open>Labels\<close>

definition require_unique_label_name :: "overlay \<Rightarrow> string \<Rightarrow> string option \<Rightarrow> unit res" where
  "require_unique_label_name ov name excluding_id =
     rbind (ov_rows ov ''label'') (\<lambda>rows.
     require (\<forall>r \<in> set rows. \<not> (str_of (fld r ''name'') = name \<and>
                (excluding_id = None \<or> Some (str_of (fld r ''id'')) \<noteq> excluding_id)))
       (violation ''label_name_conflict'' [(''name'', JStr name)] False))"

definition require_label_name :: "json \<Rightarrow> string res" where
  "require_label_name raw =
     (let name = py_strip (str_of raw) in
      rbind (require (name \<noteq> [])
               (violation ''label_name_conflict''
                  [(''name'', JStr []), (''reason'', JStr ''name_required'')] False)) (\<lambda>_. Inr name))"

definition new_label :: "string \<Rightarrow> string \<Rightarrow> json \<Rightarrow> string \<Rightarrow> row" where
  "new_label label_id name color now = dict
     [(''id'', JStr label_id),
      (''name'', JStr name),
      (''color'', color),
      (''archived_at'', JNull),
      (''created_at'', JStr now),
      (''updated_at'', JStr now),
      (''version'', JInt 1)]"

definition compile_CreateLabel :: "ctx \<Rightarrow> request \<Rightarrow> command res" where
  "compile_CreateLabel cx rq =
     rbind (pget (rq_payload rq) ''name'') (\<lambda>raw.
     rbind (require_label_name raw) (\<lambda>name.
     rbind (require_unique_label_name (cx_overlay cx) name None) (\<lambda>_.
     rbind (pget (rq_payload rq) ''command_id'') (\<lambda>command_id.
     let label_id = stable_id cx ''label'' (str_of command_id); now = cx_now cx;
         after = new_label label_id name (get (rq_payload rq) ''color'') now in
     rbind (DbMutationPlan ''labels'' (dict [(''id'', JStr label_id)]) Insert None None (Some after)) (\<lambda>plan.
     rbind (SyncEventPlan ''label'' label_id EvCreate after (JInt 1) (JStr now)) (\<lambda>event.
     cx_command cx rq [plan] [event] after None))))))"

definition label_update_command :: "ctx \<Rightarrow> request \<Rightarrow> row \<Rightarrow> row \<Rightarrow> string \<Rightarrow> command res" where
  "label_update_command cx rq label after now =
     rbind (DbMutationPlan ''labels'' (dict [(''id'', fld label ''id'')]) Update
              (rq_expected_version rq) (Some label) (Some after)) (\<lambda>plan.
     rbind (SyncEventPlan ''label'' (str_of (fld label ''id'')) EvUpdate after
              (JInt (int_of (fld after ''version''))) (JStr now)) (\<lambda>event.
     cx_command cx rq [plan] [event] after None))"

text \<open>The entries of \<open>name\<close> and \<open>color\<close> that are present in the payload, the name in its final form.\<close>

definition label_patch :: "overlay \<Rightarrow> request \<Rightarrow> row \<Rightarrow> (string \<times> json) list res" where
  "label_patch ov rq label =
     rbind (case fmlookup (rq_payload rq) ''name'' of
              None \<Rightarrow> Inr []
            | Some raw \<Rightarrow>
                rbind (require_label_name raw) (\<lambda>name.
                rbind (require_unique_label_name ov name (Some (str_of (fld label ''id'')))) (\<lambda>_.
                Inr [(''name'', JStr name)]))) (\<lambda>name_patch.
     Inr (name_patch @ (case fmlookup (rq_payload rq) ''color'' of None \<Rightarrow> [] | Some c \<Rightarrow> [(''color'', c)])))"

definition compile_UpdateLabel :: "ctx \<Rightarrow> request \<Rightarrow> command res" where
  "compile_UpdateLabel cx rq =
     rbind (require_row (cx_overlay cx) ''label'' (JStr (rq_entity_id rq))) (\<lambda>label.
     rbind (require_expected_version label (rq_expected_version rq)) (\<lambda>_.
     if fmlookup (rq_payload rq) ''name'' = None \<and> fmlookup (rq_payload rq) ''color'' = None
     then cx_command cx rq [] [] label None
     else
       rbind (label_patch (cx_overlay cx) rq label) (\<lambda>patch.
       rbind (monotonic_updated_at (str_of (fld label ''updated_at'')) (cx_now cx)) (\<lambda>now.
       label_update_command cx rq label (stamped label patch now) now))))"

definition compile_ArchiveLabel :: "ctx \<Rightarrow> request \<Rightarrow> command res" where
  "compile_ArchiveLabel cx rq =
     rbind (require_row (cx_overlay cx) ''label'' (JStr (rq_entity_id rq))) (\<lambda>label.
     rbind (require_expected_version label (rq_expected_version rq)) (\<lambda>_.
     rbind (monotonic_updated_at (str_of (fld label ''updated_at'')) (cx_now cx)) (\<lambda>now.
     label_update_command cx rq label (stamped label [(''archived_at'', JStr now)] now) now)))"

section \<open>Label sets\<close>

definition junction_row :: "string \<Rightarrow> string \<Rightarrow> row" where
  "junction_row item label = dict [(''work_item_id'', JStr item), (''label_id'', JStr label)]"

definition junction_insert :: "string \<Rightarrow> string \<Rightarrow> db_plan" where
  "junction_insert item label = \<lparr>pl_table = ''work_item_labels'', pl_pk = junction_row item label,
     pl_op = Insert, pl_expected = None, pl_before = None, pl_after = Some (junction_row item label)\<rparr>"

definition junction_delete :: "string \<Rightarrow> string \<Rightarrow> db_plan" where
  "junction_delete item label = \<lparr>pl_table = ''work_item_labels'', pl_pk = junction_row item label,
     pl_op = Delete, pl_expected = None, pl_before = Some (junction_row item label), pl_after = None\<rparr>"

text \<open>The plans that lead from the set \<open>current\<close> to the set \<open>target\<close>.\<close>

definition junction_plans :: "string \<Rightarrow> string set \<Rightarrow> string set \<Rightarrow> db_plan list" where
  "junction_plans item current target =
     map (junction_insert item) (sorted_list_of_set (target - current)) @
     map (junction_delete item) (sorted_list_of_set (current - target))"

definition text_set :: "json \<Rightarrow> string list res" where
  "text_set v = (case v of
     JList xs \<Rightarrow> Inr (sorted_list_of_set (set (map str_of xs)))
   | _ \<Rightarrow> Inl (TypeErr ''label_ids is not a list''))"

definition label_target :: "bool \<Rightarrow> string set \<Rightarrow> string list \<Rightarrow> string set" where
  "label_target remove current declared = (if remove then current - set declared else current \<union> set declared)"

definition value_ids :: "string set \<Rightarrow> json" where
  "value_ids target = JList (map JStr (sorted_list_of_set target))"

definition label_set_command :: "ctx \<Rightarrow> request \<Rightarrow> row \<Rightarrow> string set \<Rightarrow> string set \<Rightarrow> command res" where
  "label_set_command cx rq item current target =
     (if target = current then cx_command cx rq [] [] (updates item [(''label_ids'', value_ids target)]) None
      else
        rbind (monotonic_updated_at (str_of (fld item ''updated_at'')) (cx_now cx)) (\<lambda>now.
        let after = stamped item [] now; payload = updates after [(''label_ids'', value_ids target)] in
        rbind (DbMutationPlan ''work_items'' (dict [(''id'', JStr (rq_entity_id rq))]) Update
                 (rq_expected_version rq) (Some item) (Some after)) (\<lambda>plan.
        rbind (SyncEventPlan ''work_item'' (rq_entity_id rq) EvUpdate payload
                 (JInt (int_of (fld after ''version''))) (JStr now)) (\<lambda>event.
        cx_command cx rq (plan # junction_plans (rq_entity_id rq) current target) [event] payload None))))"

definition compile_label_set_mutation :: "bool \<Rightarrow> ctx \<Rightarrow> request \<Rightarrow> command res" where
  "compile_label_set_mutation remove cx rq =
     (let ov = cx_overlay cx in
      rbind (require_row ov ''work_item'' (JStr (rq_entity_id rq))) (\<lambda>item.
      rbind (require_expected_version item (rq_expected_version rq)) (\<lambda>_.
      rbind (pget (rq_payload rq) ''label_ids'') (\<lambda>raw.
      rbind (text_set raw) (\<lambda>declared.
      rbind (rforeach (\<lambda>label. rbind (require_row ov ''label'' (JStr label)) (\<lambda>_. Inr ())) declared) (\<lambda>_.
      rbind (label_ids_for_work_item ov (rq_entity_id rq)) (\<lambda>labels.
      label_set_command cx rq item (set labels) (label_target remove (set labels) declared))))))))"

definition compile_AddWorkItemLabels :: "ctx \<Rightarrow> request \<Rightarrow> command res" where
  "compile_AddWorkItemLabels = compile_label_set_mutation False"

definition compile_RemoveWorkItemLabels :: "ctx \<Rightarrow> request \<Rightarrow> command res" where
  "compile_RemoveWorkItemLabels = compile_label_set_mutation True"

section \<open>The junction table\<close>

definition labels_of :: "overlay \<Rightarrow> string \<Rightarrow> string set" where
  "labels_of ov item = {label. ov_row ov ''work_item_label'' [JStr item, JStr label] \<noteq> None}"

definition junctions_ok :: "overlay \<Rightarrow> bool" where
  "junctions_ok ov = (\<forall>ident. ov_row ov ''work_item_label'' ident \<noteq> None \<longrightarrow> (\<exists>i l. ident = [JStr i, JStr l]))"

lemma junction_pk: "pk_field_set work_item_label_spec = [''work_item_id'', ''label_id'']"
  by (simp add: pk_field_set_def)

lemma junction_row_facts:
  "fmdom' (junction_row i l) = {''work_item_id'', ''label_id''}" "row_ok (junction_row i l)"
  "fld (junction_row i l) ''work_item_id'' = JStr i" "fld (junction_row i l) ''label_id'' = JStr l"
  by (auto simp: junction_row_def dict_def row_ok_fmupd)

lemma junction_stored:
  assumes "builtin_space ov" "ov_row ov ''work_item_label'' [JStr i, JStr l] = Some r"
  shows "r = junction_row i l"
proof -
  have wf: "overlay_wf ov" using assms(1) by (simp add: builtin_space_def)
  note row = overlay_wf_row [OF wf assms(2) builtin_space_get(5) [OF assms(1)]]
  have d: "fmdom' r = {''work_item_id'', ''label_id''}" using row(1) by (simp add: field_names_builtin)
  have v: "fld r ''work_item_id'' = JStr i" "fld r ''label_id'' = JStr l"
    using row(2) by (simp_all add: pk_values_def junction_pk)
  have "fmlookup r k = fmlookup (junction_row i l) k" for k
  proof (cases "k \<in> fmdom' r")
    case True
    have "fmlookup r k = Some (fld r k)" using True by (rule fld_lookup)
    moreover have "fmlookup (junction_row i l) k = Some (fld (junction_row i l) k)"
      using True unfolding d junction_row_facts(1) [of i l, symmetric] by (rule fld_lookup)
    moreover have "fld r k = fld (junction_row i l) k"
      using True unfolding d by (auto simp: v junction_row_facts)
    ultimately show ?thesis by simp
  next
    case False
    then show ?thesis using d junction_row_facts(1) by (metis fmdom'_notD)
  qed
  then show ?thesis by (rule fmap_ext)
qed

text \<open>The label projection of an item is the sorted list of the labels the junction table holds for it.\<close>

lemma label_ids_set:
  assumes "builtin_space ov" "junctions_ok ov" "label_ids_for_work_item ov i = Inr labels"
  shows "set labels = labels_of ov i"
proof -
  have wf: "overlay_wf ov" using assms(1) by (simp add: builtin_space_def)
  obtain rows where rows: "ov_rows ov ''work_item_label'' = Inr rows"
    "labels = sort (map (\<lambda>r. str_of (fld r ''label_id'')) (filter (\<lambda>r. str_of (fld r ''work_item_id'') = i) rows))"
    using assms(3) by (auto simp: label_ids_for_work_item_def rbind_Inr)
  note mem = ov_rows_iff [OF wf rows(1)]
  have "l \<in> set labels \<longleftrightarrow> l \<in> labels_of ov i" for l
  proof
    assume "l \<in> set labels"
    then obtain r where r: "r \<in> set rows" "l = str_of (fld r ''label_id'')" "str_of (fld r ''work_item_id'') = i"
      by (auto simp: rows(2))
    then obtain ident where ident: "ov_row ov ''work_item_label'' ident = Some r" using mem by blast
    then obtain i' l' where "ident = [JStr i', JStr l']" using assms(2) by (force simp: junctions_ok_def)
    with ident junction_stored [OF assms(1)] have "r = junction_row i' l'" by blast
    with r ident \<open>ident = _\<close> show "l \<in> labels_of ov i" by (simp add: junction_row_facts labels_of_def)
  next
    assume "l \<in> labels_of ov i"
    then obtain r where r: "ov_row ov ''work_item_label'' [JStr i, JStr l] = Some r" by (auto simp: labels_of_def)
    with junction_stored [OF assms(1)] have "r = junction_row i l" by blast
    with r mem have "junction_row i l \<in> set rows" by blast
    then show "l \<in> set labels" by (force simp: rows(2) junction_row_facts)
  qed
  then show ?thesis by blast
qed

text \<open>Adding and removing junction rows.\<close>

definition with_label :: "string \<Rightarrow> string \<Rightarrow> overlay \<Rightarrow> overlay" where
  "with_label i l ov = with_row ov ''work_item_label'' [JStr i, JStr l] (junction_row i l)"

definition without_label :: "string \<Rightarrow> string \<Rightarrow> overlay \<Rightarrow> overlay" where
  "without_label i l ov = without_row ov ''work_item_label'' [JStr i, JStr l]"

lemma junction_insert_applies:
  assumes "builtin_space ov" "l \<notin> labels_of ov i"
  shows "apply_plan ov (junction_insert i l) = Inr (with_label i l ov)" "builtin_space (with_label i l ov)"
proof -
  let ?p = "junction_insert i l"
  have wf: "overlay_wf ov" using assms(1) by (simp add: builtin_space_def)
  note get = builtin_space_get(5) [OF assms(1)]
  have pk: "pk_values work_item_label_spec (pl_pk ?p) = [JStr i, JStr l]"
    by (simp add: junction_insert_def pk_values_def junction_pk junction_row_facts)
  have shape: "row_shape (ov_catalog ov) ''work_item_label'' [JStr i, JStr l] (junction_row i l)"
    using get by (simp add: row_shape_def junction_row_facts pk_values_def junction_pk field_names_builtin)
  have none: "ov_row ov ''work_item_label'' [JStr i, JStr l] = None" using assms(2) by (simp add: labels_of_def)
  have dom: "fmdom' (pl_pk ?p) = set (pk_field_set work_item_label_spec)"
    by (simp add: junction_insert_def junction_pk junction_row_facts)
  have "apply_plan ov ?p = Inr (with_label i l ov) \<and> overlay_wf (with_label i l ov)"
    using apply_insert [OF wf get _ dom, of "junction_row i l"] shape none
    unfolding pk with_label_def by (simp add: junction_insert_def)
  then show "apply_plan ov ?p = Inr (with_label i l ov)" "builtin_space (with_label i l ov)"
    using builtin_space_with_row [OF assms(1)] by (simp_all add: with_label_def)
qed

lemma junction_delete_applies:
  assumes "builtin_space ov" "l \<in> labels_of ov i"
  shows "apply_plan ov (junction_delete i l) = Inr (without_label i l ov)" "builtin_space (without_label i l ov)"
proof -
  let ?p = "junction_delete i l"
  have wf: "overlay_wf ov" using assms(1) by (simp add: builtin_space_def)
  note get = builtin_space_get(5) [OF assms(1)]
  have pk: "pk_values work_item_label_spec (pl_pk ?p) = [JStr i, JStr l]"
    by (simp add: junction_delete_def pk_values_def junction_pk junction_row_facts)
  obtain r where r: "ov_row ov ''work_item_label'' [JStr i, JStr l] = Some r"
    using assms(2) by (auto simp: labels_of_def)
  then have row: "ov_row ov ''work_item_label'' [JStr i, JStr l] = Some (junction_row i l)"
    using junction_stored [OF assms(1)] by blast
  have dom: "fmdom' (pl_pk ?p) = set (pk_field_set work_item_label_spec)"
    by (simp add: junction_delete_def junction_pk junction_row_facts)
  have "apply_plan ov ?p = Inr (without_label i l ov)"
    using apply_delete(1) [OF wf get _ dom, of "junction_row i l"] row
    unfolding pk without_label_def by (simp add: junction_delete_def version_is_def)
  then show "apply_plan ov ?p = Inr (without_label i l ov)" "builtin_space (without_label i l ov)"
    using builtin_space_without_row [OF assms(1)] by (simp_all add: without_label_def)
qed

lemma labels_of_with_label: "labels_of (with_label i l ov) j = (if j = i then insert l (labels_of ov j) else labels_of ov j)"
  by (auto simp: labels_of_def with_label_def)

lemma labels_of_without_label: "labels_of (without_label i l ov) j = (if j = i then labels_of ov j - {l} else labels_of ov j)"
  by (auto simp: labels_of_def without_label_def)

definition relabelled :: "overlay \<Rightarrow> string \<Rightarrow> string set \<Rightarrow> overlay \<Rightarrow> bool" where
  "relabelled ov i target ov' = (builtin_space ov' \<and> junctions_ok ov' \<and> labels_of ov' i = target \<and>
     (\<forall>j. j \<noteq> i \<longrightarrow> labels_of ov' j = labels_of ov j) \<and>
     (\<forall>t ident. t \<noteq> ''work_item_label'' \<longrightarrow> ov_row ov' t ident = ov_row ov t ident))"

lemma relabelled_trans:
  "relabelled ov i A ov1 \<Longrightarrow> relabelled ov1 i B ov2 \<Longrightarrow> relabelled ov i B ov2"
  by (simp add: relabelled_def)

lemma relabelled_refl: "builtin_space ov \<Longrightarrow> junctions_ok ov \<Longrightarrow> relabelled ov i (labels_of ov i) ov"
  by (simp add: relabelled_def)

lemma with_label_rows:
  "junctions_ok ov \<Longrightarrow> junctions_ok (with_label i l ov)"
  "t \<noteq> ''work_item_label'' \<Longrightarrow> ov_row (with_label i l ov) t ident = ov_row ov t ident"
  by (auto simp: junctions_ok_def with_label_def)

lemma without_label_rows:
  "junctions_ok ov \<Longrightarrow> junctions_ok (without_label i l ov)"
  "t \<noteq> ''work_item_label'' \<Longrightarrow> ov_row (without_label i l ov) t ident = ov_row ov t ident"
  by (auto simp: junctions_ok_def without_label_def)

lemma relabelled_with_label:
  "builtin_space ov \<Longrightarrow> junctions_ok ov \<Longrightarrow> builtin_space (with_label i l ov) \<Longrightarrow>
    relabelled ov i (insert l (labels_of ov i)) (with_label i l ov)"
  by (simp add: relabelled_def labels_of_with_label with_label_rows)

lemma relabelled_without_label:
  "builtin_space ov \<Longrightarrow> junctions_ok ov \<Longrightarrow> builtin_space (without_label i l ov) \<Longrightarrow>
    relabelled ov i (labels_of ov i - {l}) (without_label i l ov)"
  by (simp add: relabelled_def labels_of_without_label without_label_rows)

lemma junction_inserts:
  assumes "builtin_space ov" "junctions_ok ov" "distinct ls" "set ls \<inter> labels_of ov i = {}"
  shows "\<exists>ov'. rfold apply_plan ov (map (junction_insert i) ls) = Inr ov' \<and>
    relabelled ov i (labels_of ov i \<union> set ls) ov'"
  using assms
proof (induction ls arbitrary: ov)
  case Nil
  then show ?case by (simp add: relabelled_refl)
next
  case (Cons l ls)
  then have l: "l \<notin> labels_of ov i" by simp
  note ins = junction_insert_applies [OF Cons.prems(1) l]
  note re = relabelled_with_label [OF Cons.prems(1,2) ins(2)]
  obtain ov' where "rfold apply_plan (with_label i l ov) (map (junction_insert i) ls) = Inr ov'"
    "relabelled (with_label i l ov) i (insert l (labels_of ov i) \<union> set ls) ov'"
    using Cons.IH [of "with_label i l ov"] Cons.prems re by (auto simp: relabelled_def)
  moreover have "insert l (labels_of ov i) \<union> set ls = labels_of ov i \<union> set (l # ls)" by simp
  ultimately show ?case using ins(1) relabelled_trans [OF re] by auto
qed

lemma junction_deletes:
  assumes "builtin_space ov" "junctions_ok ov" "distinct ls" "set ls \<subseteq> labels_of ov i"
  shows "\<exists>ov'. rfold apply_plan ov (map (junction_delete i) ls) = Inr ov' \<and>
    relabelled ov i (labels_of ov i - set ls) ov'"
  using assms
proof (induction ls arbitrary: ov)
  case Nil
  then show ?case by (simp add: relabelled_refl)
next
  case (Cons l ls)
  then have l: "l \<in> labels_of ov i" by simp
  note del = junction_delete_applies [OF Cons.prems(1) l]
  note re = relabelled_without_label [OF Cons.prems(1,2) del(2)]
  have sub: "set ls \<subseteq> labels_of (without_label i l ov) i"
    using Cons.prems(3,4) by (auto simp: labels_of_without_label)
  obtain ov' where "rfold apply_plan (without_label i l ov) (map (junction_delete i) ls) = Inr ov'"
    "relabelled (without_label i l ov) i (labels_of ov i - {l} - set ls) ov'"
    using Cons.IH [of "without_label i l ov"] Cons.prems(3) re sub by (auto simp: relabelled_def)
  moreover have "labels_of ov i - {l} - set ls = labels_of ov i - set (l # ls)" by auto
  ultimately show ?case using del(1) relabelled_trans [OF re] by auto
qed

text \<open>The plans between two sets apply, and lead to the second.\<close>

lemma junction_plans_apply:
  assumes "builtin_space ov" "junctions_ok ov" "finite (labels_of ov i)" "finite target"
  shows "\<exists>ov'. rfold apply_plan ov (junction_plans i (labels_of ov i) target) = Inr ov' \<and> relabelled ov i target ov'"
proof -
  let ?adds = "sorted_list_of_set (target - labels_of ov i)" and ?dels = "sorted_list_of_set (labels_of ov i - target)"
  have fin: "set ?adds = target - labels_of ov i" "set ?dels = labels_of ov i - target"
    using assms(3,4) by simp_all
  obtain ov1 where ov1: "rfold apply_plan ov (map (junction_insert i) ?adds) = Inr ov1"
    "relabelled ov i (labels_of ov i \<union> set ?adds) ov1"
    using junction_inserts [OF assms(1,2), of ?adds i] fin by auto
  then have l1: "labels_of ov1 i = labels_of ov i \<union> set ?adds" by (simp add: relabelled_def)
  have "\<exists>ov2. rfold apply_plan ov1 (map (junction_delete i) ?dels) = Inr ov2 \<and>
      relabelled ov1 i (labels_of ov1 i - set ?dels) ov2"
    using ov1(2) l1 fin by (intro junction_deletes) (auto simp: relabelled_def)
  then obtain ov2 where ov2: "rfold apply_plan ov1 (map (junction_delete i) ?dels) = Inr ov2"
    "relabelled ov1 i (labels_of ov1 i - set ?dels) ov2" by blast
  moreover have "labels_of ov1 i - set ?dels = target" using l1 fin by auto
  ultimately show ?thesis
    using ov1(1) relabelled_trans [OF ov1(2)] by (auto simp: junction_plans_def rfold_append)
qed

section \<open>The commands\<close>

text \<open>What a change of a label set compiles to.\<close>

lemma label_set_Inr:
  assumes "compile_label_set_mutation remove cx rq = Inr c"
  obtains item raw declared labels where
    "ov_row (cx_overlay cx) ''work_item'' [JStr (rq_entity_id rq)] = Some item"
    "rq_expected_version rq = Some (int_of (fld item ''version''))"
    "fmlookup (rq_payload rq) ''label_ids'' = Some raw" "text_set raw = Inr declared"
    "\<forall>l \<in> set declared. ov_row (cx_overlay cx) ''label'' [JStr l] \<noteq> None"
    "label_ids_for_work_item (cx_overlay cx) (rq_entity_id rq) = Inr labels"
    "label_set_command cx rq item (set labels) (label_target remove (set labels) declared) = Inr c"
  using assms unfolding compile_label_set_mutation_def Let_def
  by (auto simp: rbind_Inr require_row_Inr require_expected_version_Inr pget_Inr rforeach_Inr)

text \<open>An update of an item together with the plans between two label sets.\<close>

lemma item_with_junctions:
  assumes "builtin_space (cx_overlay cx)" "tree_ok (cx_overlay cx)" "junctions_ok (cx_overlay cx)"
    "ov_row (cx_overlay cx) ''work_item'' [JStr i] = Some item"
    "DbMutationPlan ''work_items'' (dict [(''id'', JStr i)]) Update (Some (int_of (fld item ''version'')))
       (Some item) (Some after) = Inr plan"
    "SyncEventPlan ''work_item'' ei EvUpdate payload ver ts = Inr event"
    "cx_command cx rq (plan # junction_plans i (labels_of (cx_overlay cx) i) target) [event] post None = Inr c"
    "fmdom' after = fmdom' item" "fld after ''id'' = fld item ''id''" "row_ok after"
    "finite (labels_of (cx_overlay cx) i)" "finite target"
  shows "\<exists>ov'. ov_apply (cx_overlay cx) c = Inr ov' \<and>
    builtin_space (with_row (cx_overlay cx) ''work_item'' [JStr i] after) \<and>
    relabelled (with_row (cx_overlay cx) ''work_item'' [JStr i] after) i target ov' \<and>
    length (cm_events c) = 1 \<and> cm_value c = post"
proof -
  let ?ov = "cx_overlay cx"
  let ?ov1 = "with_row ?ov ''work_item'' [JStr i] after"
  obtain v where v: "fld item ''version'' = JInt v"
    using tree_ok_row(1) [OF assms(2,4)] by (auto simp: work_item_ok_def)
  note get = builtin_space_get(1) [OF assms(1)]
  obtain c1 where c1: "cx_command cx rq [plan] [event] fmempty None = Inr c1" by (simp add: cx_command_None)
  have "ov_apply ?ov c1 = Inr ?ov1" and b1: "builtin_space ?ov1"
    using update_command [OF assms(1) get work_item_keys tables(1) assms(4) v assms(5,6) _ c1 assms(8-10)] by simp_all
  then have step: "apply_plan ?ov plan = Inr ?ov1" and ev: "rfold apply_event ov' [event] = Inr ov'" for ov'
    using cx_command_Inr [OF c1] SyncEventPlan_Inr [OF assms(6)]
    by (auto simp: ov_apply_def apply_event_def rbind_Inr)
  have "labels_of ?ov1 i = labels_of ?ov i" by (simp add: labels_of_def)
  moreover have "junctions_ok ?ov1" using assms(3) by (simp add: junctions_ok_def)
  ultimately obtain ov' where "rfold apply_plan ?ov1 (junction_plans i (labels_of ?ov i) target) = Inr ov'"
    "relabelled ?ov1 i target ov'"
    using junction_plans_apply [OF b1, of i target] assms(11,12) by auto
  then show ?thesis
    using cx_command_Inr [OF assms(7)] step ev b1 by (auto simp: ov_apply_def)
qed

lemma label_set_command_Inr:
  assumes "builtin_space (cx_overlay cx)" "tree_ok (cx_overlay cx)" "junctions_ok (cx_overlay cx)"
    "ov_row (cx_overlay cx) ''work_item'' [JStr (rq_entity_id rq)] = Some item"
    "rq_expected_version rq = Some (int_of (fld item ''version''))"
    "label_set_command cx rq item current target = Inr c" "target \<noteq> current"
    "current = labels_of (cx_overlay cx) (rq_entity_id rq)" "finite current" "finite target"
  shows "\<exists>now ov'. ov_apply (cx_overlay cx) c = Inr ov' \<and>
    builtin_space (with_row (cx_overlay cx) ''work_item'' [JStr (rq_entity_id rq)] (stamped item [] now)) \<and>
    relabelled (with_row (cx_overlay cx) ''work_item'' [JStr (rq_entity_id rq)] (stamped item [] now))
      (rq_entity_id rq) target ov' \<and> length (cm_events c) = 1 \<and> fld (cm_value c) ''label_ids'' = value_ids target"
proof -
  let ?ov = "cx_overlay cx" and ?i = "rq_entity_id rq"
  obtain now plan event where
    plan: "DbMutationPlan ''work_items'' (dict [(''id'', JStr ?i)]) Update
             (Some (int_of (fld item ''version''))) (Some item) (Some (stamped item [] now)) = Inr plan"
    and event: "SyncEventPlan ''work_item'' ?i EvUpdate (updates (stamped item [] now) [(''label_ids'', value_ids target)])
             (JInt (int_of (fld (stamped item [] now) ''version''))) (JStr now) = Inr event"
    and c: "cx_command cx rq (plan # junction_plans ?i current target) [event]
             (updates (stamped item [] now) [(''label_ids'', value_ids target)]) None = Inr c"
    using assms(6,7) unfolding label_set_command_def Let_def assms(5) if_not_P [OF assms(7)] rbind_Inr by blast
  have row: "fmdom' (stamped item [] now) = fmdom' item" "row_ok (stamped item [] now)"
    using table_row [OF assms(1) builtin_space_get(1) [OF assms(1)] work_item_keys assms(4)]
    by (simp_all add: fmdom_stamped row_ok_stamped field_names_builtin)
  have "fld (stamped item [] now) ''id'' = fld item ''id''" by (simp add: fld_stamped)
  then show ?thesis
    using item_with_junctions [OF assms(1-4) plan event c [unfolded assms(8)] row(1) _ row(2)] assms(8-10)
    by (intro exI [of _ now]) (auto simp: fld_updates)
qed

end
