(* ===== verification/SyncReplay.thy ===== *)
theory SyncReplay
  imports Notes Labels
begin

text \<open>
  Replay of a work item a client changed offline (\<open>_typed_sync_request\<close> to \<open>_compile_sync_work_item\<close> of
  \<open>app/task_space/compiler.py\<close>). The client sends the whole row after its change; the change must lie in
  one family of columns, is checked by the typed command of that family, and is adopted as sent.
\<close>

section \<open>Columns and families\<close>

definition WORK_ITEM_SYNC_FIELDS :: "string list" where
  "WORK_ITEM_SYNC_FIELDS =
     [''id'', ''project_id'', ''display_key'', ''title'', ''description'', ''type_definition_id'',
      ''status_definition_id'', ''priority'', ''parent_id'', ''child_rank'', ''completion_window_start'',
      ''completion_window_end'', ''review_point'', ''hard_deadline'', ''effort_estimate_lower_seconds'',
      ''effort_estimate_upper_seconds'', ''effort_actual_seconds'', ''confidence'', ''completed_at'',
      ''cancelled_at'', ''archived_at'', ''marked_as_attention'', ''created_at'', ''updated_at'', ''version'',
      ''label_ids'']"

definition WORK_ITEM_MOVE_FIELDS :: "string list" where
  "WORK_ITEM_MOVE_FIELDS = [''project_id'', ''parent_id'', ''child_rank'']"

definition WORK_ITEM_STATUS_FIELDS :: "string list" where
  "WORK_ITEM_STATUS_FIELDS = [''status_definition_id'', ''completed_at'', ''cancelled_at'']"

definition WORK_ITEM_LABELS_FIELDS :: "string list" where
  "WORK_ITEM_LABELS_FIELDS = [''label_ids'']"

definition WORK_ITEM_IMMUTABLE_FIELDS :: "string list" where
  "WORK_ITEM_IMMUTABLE_FIELDS = [''display_key'', ''effort_actual_seconds'', ''created_at'']"

section \<open>The candidate\<close>

definition reject_sync_enum :: "string \<Rightarrow> json \<Rightarrow> string list \<Rightarrow> unit res" where
  "reject_sync_enum name v allowed =
     (case require_enum_value name v allowed of
        Inl (ValueErr m) \<Rightarrow> reject_work_item_sync m [(''field'', JStr name)]
      | r \<Rightarrow> r)"

definition sync_candidate_row :: "request \<Rightarrow> row" where
  "sync_candidate_row rq = fmupd ''id'' (JStr (rq_entity_id rq)) fmempty ++\<^sub>f rq_payload rq"

definition full_work_item_sync_candidate :: "request \<Rightarrow> row \<Rightarrow> row res" where
  "full_work_item_sync_candidate rq before =
     (let expected = set WORK_ITEM_SYNC_FIELDS - {''id''}; actual = fmdom' (rq_payload rq);
          candidate = sync_candidate_row rq in
      rbind (if actual = expected then Inr ()
             else reject_work_item_sync ''full_post_image_required''
               [(''missing'', sorted_texts (expected - actual)), (''extra'', sorted_texts (actual - expected))]) (\<lambda>_.
      rbind (reject_sync_enum ''priority'' (get (rq_payload rq) ''priority'') WORK_ITEM_PRIORITY_VALUES) (\<lambda>_.
      rbind (reject_sync_enum ''confidence'' (get (rq_payload rq) ''confidence'') WORK_ITEM_CONFIDENCE_VALUES) (\<lambda>_.
      rbind (require_expected_version before (rq_expected_version rq)) (\<lambda>_.
      rbind (if py_eq (fld candidate ''id'') (fld before ''id'') then Inr ()
             else reject_work_item_sync ''entity_id_changed'' []) (\<lambda>_.
      rbind (if fld candidate ''version'' = JInt (int_of (fld before ''version'') + 1) then Inr ()
             else reject_work_item_sync ''invalid_candidate_version'' []) (\<lambda>_.
      rbind (if py_eq (fld candidate ''updated_at'') (client_stamp rq) then Inr ()
             else reject_work_item_sync ''updated_at_not_client_timestamp'' []) (\<lambda>_.
      Inr candidate))))))))"

text \<open>The columns whose value differs from that of the stored row with its labels.\<close>

definition semantic_changes :: "row \<Rightarrow> row \<Rightarrow> string set" where
  "semantic_changes candidate before_projected =
     {k \<in> set WORK_ITEM_SYNC_FIELDS - {''id'', ''version'', ''updated_at''}.
        \<not> py_eq (fld candidate k) (fld before_projected k)}"

datatype family = Scalar | Move | Status | LabelSet

definition family_name :: "family \<Rightarrow> string" where
  "family_name f = (case f of Scalar \<Rightarrow> ''scalar'' | Move \<Rightarrow> ''move'' | Status \<Rightarrow> ''status'' | LabelSet \<Rightarrow> ''labels'')"

definition family_fields :: "family \<Rightarrow> string set" where
  "family_fields f = set (case f of Scalar \<Rightarrow> WORK_ITEM_SCALAR_FIELDS | Move \<Rightarrow> WORK_ITEM_MOVE_FIELDS
     | Status \<Rightarrow> WORK_ITEM_STATUS_FIELDS | LabelSet \<Rightarrow> WORK_ITEM_LABELS_FIELDS)"

definition changed_family :: "string set \<Rightarrow> family res" where
  "changed_family changes =
     (let immutable = changes \<inter> set WORK_ITEM_IMMUTABLE_FIELDS;
          unknown = changes - (\<Union>f \<in> {Scalar, Move, Status, LabelSet}. family_fields f) - set WORK_ITEM_IMMUTABLE_FIELDS;
          families = filter (\<lambda>f. changes \<inter> family_fields f \<noteq> {}) [Scalar, Move, Status, LabelSet] in
      rbind (if immutable = {} then Inr ()
             else reject_work_item_sync ''server_managed_field_changed'' [(''fields'', sorted_texts immutable)]) (\<lambda>_.
      rbind (if unknown = {} then Inr ()
             else reject_work_item_sync ''unowned_field_changed'' [(''fields'', sorted_texts unknown)]) (\<lambda>_.
      rbind (if changes \<inter> family_fields Status = {} \<or> ''status_definition_id'' \<in> changes then Inr ()
             else reject_work_item_sync ''status_projection_changed_without_transition'' []) (\<lambda>_.
      case families of
        [f] \<Rightarrow> Inr f
      | _ \<Rightarrow> reject_work_item_sync ''exactly_one_operation_family_required''
               [(''families'', JList (map (\<lambda>f. JStr (family_name f)) families))]))))"

section \<open>The typed command of a family\<close>

definition typed_sync_request :: "ctx \<Rightarrow> request \<Rightarrow> string \<Rightarrow> (string \<times> json) list \<Rightarrow> request res" where
  "typed_sync_request cx original handler_name payload =
     request_from_payload (cx_digests cx) (''task_space.'' @ handler_name) ''task_space'' (rq_entity_id original)
       (dict ([(''command_id'', JStr (cx_operation_id cx)), (''space_id'', JStr (cx_space_id cx)),
               (''payload_hash'', JStr (canonical_payload_hash (cx_digests cx) (dict payload)))] @ payload))
       (rq_expected_version original) None"

definition replay_scalar :: "ctx \<Rightarrow> request \<Rightarrow> row \<Rightarrow> string set \<Rightarrow> unit res" where
  "replay_scalar cx rq candidate changes =
     rbind (typed_sync_request cx rq ''UpdateWorkItem''
       [(''patch'', JObj (map (\<lambda>k. (k, fld candidate k)) (sorted_list_of_set (changes \<inter> family_fields Scalar))))]) (\<lambda>typed.
     rbind (compile_UpdateWorkItem cx typed) (\<lambda>_. Inr ()))"

definition replay_move :: "ctx \<Rightarrow> request \<Rightarrow> row \<Rightarrow> unit res" where
  "replay_move cx rq candidate =
     rbind (case fld candidate ''child_rank'' of
              JInt n \<Rightarrow> if n < 0 then reject_work_item_sync ''invalid_child_rank'' [] else Inr ()
            | _ \<Rightarrow> reject_work_item_sync ''invalid_child_rank'' []) (\<lambda>_.
     rbind (typed_sync_request cx rq ''MoveWorkItem''
       [(''project_id'', fld candidate ''project_id''), (''new_parent_id'', fld candidate ''parent_id''),
        (''child_rank'', fld candidate ''child_rank'')]) (\<lambda>typed.
     rbind (compile_MoveWorkItem cx typed) (\<lambda>_. Inr ())))"

definition replay_status :: "ctx \<Rightarrow> request \<Rightarrow> row \<Rightarrow> json res" where
  "replay_status cx rq candidate =
     rbind (typed_sync_request cx rq ''TransitionWorkItem''
       [(''status_definition_id'', fld candidate ''status_definition_id'')]) (\<lambda>typed.
     rbind (compile_TransitionWorkItem cx typed) (\<lambda>command.
     Inr (fld (the (pl_after (hd (cm_plans command)))) PRE_WAITING_STATUS_FIELD)))"

text \<open>
  The labels of a replay: texts in order. The check compares with \<open>sorted\<close>, so equal texts may
  stand next to each other.
\<close>

definition declared_labels :: "json \<Rightarrow> string list res" where
  "declared_labels raw =
     (case raw of
        JList vs \<Rightarrow> if list_all is_str vs \<and> sorted (map str_of vs) then Inr (map str_of vs)
                   else reject_work_item_sync ''label_ids_must_be_sorted_unique_ids'' [(''label_ids'', raw)]
      | _ \<Rightarrow> reject_work_item_sync ''label_ids_must_be_sorted_unique_ids'' [(''label_ids'', raw)])"

definition replay_labels :: "ctx \<Rightarrow> request \<Rightarrow> row \<Rightarrow> db_plan list res" where
  "replay_labels cx rq candidate =
     rbind (declared_labels (fld candidate ''label_ids'')) (\<lambda>declared.
     rbind (rforeach (\<lambda>label. rbind (require_row (cx_overlay cx) ''label'' (JStr label)) (\<lambda>_. Inr ())) declared) (\<lambda>_.
     rbind (label_ids_for_work_item (cx_overlay cx) (rq_entity_id rq)) (\<lambda>current.
     Inr (junction_plans (rq_entity_id rq) (set current) (set declared)))))"

text \<open>The remembered status and the junction plans of the replay.\<close>

definition replay_family :: "ctx \<Rightarrow> request \<Rightarrow> row \<Rightarrow> row \<Rightarrow> string set \<Rightarrow> family \<Rightarrow> (json \<times> db_plan list) res" where
  "replay_family cx rq before candidate changes f =
     (let inherited = fld before PRE_WAITING_STATUS_FIELD in
      case f of
        Scalar \<Rightarrow> rbind (replay_scalar cx rq candidate changes) (\<lambda>_. Inr (inherited, []))
      | Move \<Rightarrow> rbind (replay_move cx rq candidate) (\<lambda>_. Inr (inherited, []))
      | Status \<Rightarrow> rbind (replay_status cx rq candidate) (\<lambda>pre. Inr (pre, []))
      | LabelSet \<Rightarrow> rbind (replay_labels cx rq candidate) (\<lambda>plans. Inr (inherited, plans)))"

definition replayed_row :: "row \<Rightarrow> json \<Rightarrow> row" where
  "replayed_row candidate pre = fmupd PRE_WAITING_STATUS_FIELD pre (fmdrop ''label_ids'' candidate)"

definition compile_sync_work_item :: "ctx \<Rightarrow> request \<Rightarrow> command res" where
  "compile_sync_work_item cx rq =
     rbind (require (rq_name rq = ''entity.update'') (reject_formal_sync rq ''typed_create_or_delete_required'')) (\<lambda>_.
     rbind (require_row (cx_overlay cx) ''work_item'' (JStr (rq_entity_id rq))) (\<lambda>before.
     rbind (full_work_item_sync_candidate rq before) (\<lambda>candidate.
     rbind (label_ids_for_work_item (cx_overlay cx) (rq_entity_id rq)) (\<lambda>labels.
     let changes = semantic_changes candidate (updates before [(''label_ids'', JList (map JStr labels))]) in
     rbind (changed_family changes) (\<lambda>f.
     rbind (replay_family cx rq before candidate changes f) (\<lambda>(pre, junctions).
     let after = replayed_row candidate pre; event_payload = fmupd PRE_WAITING_STATUS_FIELD pre candidate in
     rbind (DbMutationPlan ''work_items'' (dict [(''id'', fld after ''id'')]) Update (rq_expected_version rq)
              (Some before) (Some after)) (\<lambda>plan.
     rbind (SyncEventPlan ''work_item'' (str_of (fld after ''id'')) EvUpdate event_payload
              (JInt (int_of (fld after ''version''))) (JStr (str_of (fld after ''updated_at'')))) (\<lambda>event.
     cx_command cx rq (plan # junctions) [event] event_payload None))))))))"

section \<open>What a replay that compiles establishes\<close>

lemma reject_work_item_sync_Inr [simp]: "reject_work_item_sync reason details \<noteq> Inr x"
  by (simp add: reject_work_item_sync_def)

lemma work_item_row_fields:
  "set (field_names work_item_spec) = insert PRE_WAITING_STATUS_FIELD (set WORK_ITEM_SYNC_FIELDS - {''label_ids''})"
  by (auto simp: field_names_builtin PRE_WAITING_STATUS_FIELD_def WORK_ITEM_SYNC_FIELDS_def)

lemma full_candidate_Inr:
  assumes "full_work_item_sync_candidate rq before = Inr candidate"
  shows "candidate = sync_candidate_row rq" "fmdom' (rq_payload rq) = set WORK_ITEM_SYNC_FIELDS - {''id''}"
    "rq_expected_version rq = Some (int_of (fld before ''version''))"
    "fld candidate ''version'' = JInt (int_of (fld before ''version'') + 1)"
  using assms by (auto simp: full_work_item_sync_candidate_def Let_def rbind_Inr require_expected_version_Inr split: if_splits)

lemma sync_candidate_facts:
  assumes "fmdom' (rq_payload rq) = set WORK_ITEM_SYNC_FIELDS - {''id''}" "row_ok (rq_payload rq)"
  shows "fmdom' (sync_candidate_row rq) = set WORK_ITEM_SYNC_FIELDS" "fld (sync_candidate_row rq) ''id'' = JStr (rq_entity_id rq)"
    "k \<in> set WORK_ITEM_SYNC_FIELDS - {''id''} \<Longrightarrow> fld (sync_candidate_row rq) k = fld (rq_payload rq) k"
    "row_ok (sync_candidate_row rq)"
proof -
  have "''id'' \<in> set WORK_ITEM_SYNC_FIELDS" by (simp add: WORK_ITEM_SYNC_FIELDS_def)
  then show "fmdom' (sync_candidate_row rq) = set WORK_ITEM_SYNC_FIELDS"
    using assms(1) by (auto simp: sync_candidate_row_def)
  have no: "fmlookup (rq_payload rq) ''id'' = None"
    using assms(1) by (metis Diff_iff fmdom'_notI insertI1 fmdom'_notD)
  then show "fld (sync_candidate_row rq) ''id'' = JStr (rq_entity_id rq)" by (simp add: sync_candidate_row_def fld_def fmdom_notI)
  show "fld (sync_candidate_row rq) k = fld (rq_payload rq) k" if "k \<in> set WORK_ITEM_SYNC_FIELDS - {''id''}"
    unfolding sync_candidate_row_def by (rule sync_candidate) (use that assms(1) in simp)
  show "row_ok (sync_candidate_row rq)"
    using assms(2) by (auto simp: row_ok_iff sync_candidate_row_def split: if_splits)
qed

lemma if_reject: "(if b then Inr () else reject_work_item_sync reason details) = Inr u \<longleftrightarrow> b"
  by simp

lemma only_family:
  "(case fs of [g] \<Rightarrow> Inr g | _ \<Rightarrow> reject_work_item_sync reason details) = Inr f \<Longrightarrow> fs = [f]"
  by (auto split: list.splits)

lemma diff_cover: "A \<inter> I = {} \<Longrightarrow> A - U - I = {} \<Longrightarrow> x \<in> A \<Longrightarrow> x \<in> U"
  by blast

lemma changed_family_Inr:
  assumes "changed_family changes = Inr f"
  shows "changes \<subseteq> family_fields f" "f = Status \<Longrightarrow> ''status_definition_id'' \<in> changes"
proof -
  let ?all = "[Scalar, Move, Status, LabelSet]"
  have all: "changes \<inter> set WORK_ITEM_IMMUTABLE_FIELDS = {} \<and>
    changes - (\<Union>g \<in> {Scalar, Move, Status, LabelSet}. family_fields g) - set WORK_ITEM_IMMUTABLE_FIELDS = {} \<and>
    (changes \<inter> family_fields Status = {} \<or> ''status_definition_id'' \<in> changes) \<and>
    filter (\<lambda>g. changes \<inter> family_fields g \<noteq> {}) ?all = [f]"
    using assms unfolding changed_family_def Let_def rbind_Inr if_reject
    by (elim exE conjE) (intro conjI; (assumption | erule only_family))
  note * = conjunct1 [OF all] conjunct1 [OF conjunct2 [OF all]] conjunct1 [OF conjunct2 [OF conjunct2 [OF all]]]
    and single = conjunct2 [OF conjunct2 [OF conjunct2 [OF all]]]
  have other: "changes \<inter> family_fields g = {}" if "g \<noteq> f" for g
  proof (rule ccontr)
    assume "changes \<inter> family_fields g \<noteq> {}"
    moreover have "g \<in> set ?all" by (cases g) simp_all
    ultimately have "g \<in> set (filter (\<lambda>g. changes \<inter> family_fields g \<noteq> {}) ?all)"
      unfolding set_filter by blast
    then show False using that unfolding single by simp
  qed
  show "changes \<subseteq> family_fields f"
  proof
    fix x assume x: "x \<in> changes"
    have "x \<in> (\<Union>g \<in> {Scalar, Move, Status, LabelSet}. family_fields g)" by (rule diff_cover [OF *(1,2) x])
    then obtain g where g: "x \<in> family_fields g" by (rule UN_E)
    have "x \<in> changes \<inter> family_fields g" using x g by (rule IntI)
    then have "g = f" using other [of g] by (cases "g = f") simp_all
    with g show "x \<in> family_fields f" by simp
  qed
  have "f \<in> set (filter (\<lambda>g. changes \<inter> family_fields g \<noteq> {}) ?all)" unfolding single by simp
  then have ne: "changes \<inter> family_fields f \<noteq> {}" unfolding set_filter by blast
  show "''status_definition_id'' \<in> changes" if f: "f = Status" using *(3) ne unfolding f by simp
qed

lemma typed_sync_request_Inr:
  "typed_sync_request cx rq name payload = Inr typed \<Longrightarrow> rq_entity_id typed = rq_entity_id rq \<and>
     rq_expected_version typed = rq_expected_version rq \<and>
     rq_payload typed = dict ([(''command_id'', JStr (cx_operation_id cx)), (''space_id'', JStr (cx_space_id cx)),
               (''payload_hash'', JStr (canonical_payload_hash (cx_digests cx) (dict payload)))] @ payload)"
  by (auto simp: typed_sync_request_def dest: request_from_payload_Inr)

text \<open>The place a replayed move leads to was accepted by the checks of the move.\<close>

lemma replay_move_Inr:
  assumes "replay_move cx rq candidate = Inr u" "ov_row (cx_overlay cx) ''work_item'' [JStr (rq_entity_id rq)] = Some before"
  shows "require_move_target (cx_overlay cx) before (str_of (fld before ''project_id'')) (fld candidate ''parent_id'') = Inr ()"
    "str_of (fld candidate ''project_id'') = str_of (fld before ''project_id'')"
proof -
  obtain typed c where typed: "typed_sync_request cx rq ''MoveWorkItem''
       [(''project_id'', fld candidate ''project_id''), (''new_parent_id'', fld candidate ''parent_id''),
        (''child_rank'', fld candidate ''child_rank'')] = Inr typed"
    and c: "compile_MoveWorkItem cx typed = Inr c"
    using assms(1) by (auto simp: replay_move_def rbind_Inr)
  note t = typed_sync_request_Inr [OF typed]
  have p: "get (rq_payload typed) ''new_parent_id'' = fld candidate ''parent_id''"
    "fmlookup (rq_payload typed) ''project_id'' = Some (fld candidate ''project_id'')"
    using t by (simp_all add: dict_def)
  show "require_move_target (cx_overlay cx) before (str_of (fld before ''project_id'')) (fld candidate ''parent_id'') = Inr ()"
    "str_of (fld candidate ''project_id'') = str_of (fld before ''project_id'')"
    using c t p assms(2) by (auto simp: compile_MoveWorkItem_def Let_def rbind_Inr require_row_Inr require_tree_Inr pget_Inr)
qed

lemma replay_status_Inr:
  assumes "replay_status cx rq candidate = Inr pre" "ov_row (cx_overlay cx) ''work_item'' [JStr (rq_entity_id rq)] = Some before"
  shows "pre = fld before PRE_WAITING_STATUS_FIELD \<or> pre = fld before ''status_definition_id''"
proof -
  obtain typed c where typed: "typed_sync_request cx rq ''TransitionWorkItem''
       [(''status_definition_id'', fld candidate ''status_definition_id'')] = Inr typed"
    and c: "compile_TransitionWorkItem cx typed = Inr c"
    and pre: "pre = fld (the (pl_after (hd (cm_plans c)))) PRE_WAITING_STATUS_FIELD"
    using assms(1) by (auto simp: replay_status_def rbind_Inr)
  obtain item status now where item: "require_row (cx_overlay cx) ''work_item'' (JStr (rq_entity_id typed)) = Inr item"
    and cmd: "work_item_update_command cx typed item (stamped item
       ([(''status_definition_id'', fld status ''id''),
         (''completed_at'', closing_stamp (str_of (fld status ''category'')) ''completed'' now),
         (''cancelled_at'', closing_stamp (str_of (fld status ''category'')) ''cancelled'' now)] @
        pre_waiting (cx_overlay cx) item (str_of (fld status ''category''))) now) now = Inr c"
    by (rule TransitionWorkItem_Inr [OF c])
  have "item = before" using item assms(2) typed_sync_request_Inr [OF typed] by (simp add: require_row_Inr)
  moreover have "the (pl_after (hd (cm_plans c))) = stamped item
       ([(''status_definition_id'', fld status ''id''),
         (''completed_at'', closing_stamp (str_of (fld status ''category'')) ''completed'' now),
         (''cancelled_at'', closing_stamp (str_of (fld status ''category'')) ''cancelled'' now)] @
        pre_waiting (cx_overlay cx) item (str_of (fld status ''category''))) now"
    using cmd by (auto simp: work_item_update_command_def Let_def rbind_Inr DbMutationPlan_Inr dest!: cx_command_Inr)
  ultimately show ?thesis
    using pre_waiting_cases [of "cx_overlay cx" before "str_of (fld status ''category'')"]
    by (auto simp: pre fld_stamped PRE_WAITING_STATUS_FIELD_def)
qed

end
