(* ===== verification/LabelProperties.thy ===== *)
theory LabelProperties
  imports Labels WorkItemProperties
begin

text \<open>
  What the label commands promise: a change of a label set is the union or the difference of sets,
  and the names of the labels of a Space stay different and non-empty.
\<close>

section \<open>Label sets\<close>

text \<open>
  C21: Adding labels to an item leads to the union of its labels and the declared ones,
  removing labels to the difference; the labels of other items stay, the published projection is the
  sorted list of the new set, the version of the item rises by one when the set changes, and nothing
  is written or published when it does not.
\<close>

theorem label_sets_are_sets:
  assumes "builtin_space (cx_overlay cx)" "tree_ok (cx_overlay cx)" "junctions_ok (cx_overlay cx)"
    "compile_label_set_mutation remove cx rq = Inr c"
  shows "\<exists>raw declared item ov' target. fmlookup (rq_payload rq) ''label_ids'' = Some raw \<and>
    text_set raw = Inr declared \<and> ov_row (cx_overlay cx) ''work_item'' [JStr (rq_entity_id rq)] = Some item \<and>
    target = (if remove then labels_of (cx_overlay cx) (rq_entity_id rq) - set declared
              else labels_of (cx_overlay cx) (rq_entity_id rq) \<union> set declared) \<and>
    ov_apply (cx_overlay cx) c = Inr ov' \<and> labels_of ov' (rq_entity_id rq) = target \<and>
    (\<forall>j. j \<noteq> rq_entity_id rq \<longrightarrow> labels_of ov' j = labels_of (cx_overlay cx) j) \<and>
    fld (cm_value c) ''label_ids'' = value_ids target \<and>
    (if target = labels_of (cx_overlay cx) (rq_entity_id rq)
     then cm_plans c = [] \<and> cm_events c = [] \<and> ov' = cx_overlay cx
     else \<exists>item'. ov_row ov' ''work_item'' [JStr (rq_entity_id rq)] = Some item' \<and>
       fld item' ''version'' = JInt (int_of (fld item ''version'') + 1) \<and> length (cm_events c) = 1)"
proof -
  let ?ov = "cx_overlay cx" and ?i = "rq_entity_id rq"
  obtain item raw declared labels where
    item: "ov_row ?ov ''work_item'' [JStr ?i] = Some item"
    and ver: "rq_expected_version rq = Some (int_of (fld item ''version''))"
    and raw: "fmlookup (rq_payload rq) ''label_ids'' = Some raw" "text_set raw = Inr declared"
    and labels: "label_ids_for_work_item ?ov ?i = Inr labels"
    and c: "label_set_command cx rq item (set labels) (label_target remove (set labels) declared) = Inr c"
    by (rule label_set_Inr [OF assms(4)])
  let ?target = "label_target remove (set labels) declared"
  have current: "set labels = labels_of ?ov ?i" by (rule label_ids_set [OF assms(1,3) labels])
  have target: "?target = (if remove then labels_of ?ov ?i - set declared else labels_of ?ov ?i \<union> set declared)"
    by (simp add: label_target_def current)
  show ?thesis
  proof (cases "?target = set labels")
    case True
    then have "cx_command cx rq [] [] (updates item [(''label_ids'', value_ids ?target)]) None = Inr c"
      using c by (simp add: label_set_command_def)
    note eff = cx_command_Inr [OF this]
    have "?target = labels_of ?ov ?i" using True current by simp
    moreover have "ov_apply ?ov c = Inr ?ov" using eff by (simp add: ov_apply_def)
    moreover have "fld (cm_value c) ''label_ids'' = value_ids ?target" using eff by (simp add: fld_updates)
    ultimately show ?thesis
      using raw item target eff by (intro exI [of _ raw] exI [of _ declared] exI [of _ item] exI [of _ ?ov]) auto
  next
    case False
    have fin: "finite (set labels)" "finite ?target" by (simp_all add: label_target_def)
    obtain now ov' where ov': "ov_apply ?ov c = Inr ov'" "length (cm_events c) = 1"
      "fld (cm_value c) ''label_ids'' = value_ids ?target"
      "relabelled (with_row ?ov ''work_item'' [JStr ?i] (stamped item [] now)) ?i ?target ov'"
      using label_set_command_Inr [OF assms(1-3) item ver c False current fin] by blast
    let ?ov1 = "with_row ?ov ''work_item'' [JStr ?i] (stamped item [] now)"
    have "labels_of ?ov1 j = labels_of ?ov j" for j by (simp add: labels_of_def)
    then have other: "labels_of ov' ?i = ?target" "\<forall>j. j \<noteq> ?i \<longrightarrow> labels_of ov' j = labels_of ?ov j"
      "ov_row ov' ''work_item'' [JStr ?i] = Some (stamped item [] now)"
      using ov'(4) by (simp_all add: relabelled_def)
    moreover have "?target \<noteq> labels_of ?ov ?i" using False current by simp
    ultimately show ?thesis
      using raw item target ov'(1-3)
      by (intro exI [of _ raw] exI [of _ declared] exI [of _ item] exI [of _ ov'] exI [of _ ?target])
        (simp add: fld_stamped)
  qed
qed

section \<open>Label names\<close>

definition labels_ok :: "overlay \<Rightarrow> bool" where
  "labels_ok ov = ((\<forall>ident r. ov_row ov ''label'' ident = Some r \<longrightarrow>
      (\<exists>i. ident = [JStr i]) \<and> (\<exists>v. fld r ''version'' = JInt v) \<and> str_of (fld r ''name'') \<noteq> []) \<and>
    (\<forall>ident r ident' r'. ov_row ov ''label'' ident = Some r \<longrightarrow> ov_row ov ''label'' ident' = Some r' \<longrightarrow>
      str_of (fld r ''name'') = str_of (fld r' ''name'') \<longrightarrow> ident = ident'))"

definition label_space :: "overlay \<Rightarrow> bool" where
  "label_space ov = (builtin_space ov \<and> labels_ok ov)"

lemma label_identity:
  assumes "builtin_space ov" "ov_row ov ''label'' ident = Some r"
  shows "ident = [fld r ''id'']"
  using table_row(2) [OF assms(1) builtin_space_get(4) [OF assms(1)] label_keys assms(2)] .

lemma unique_name:
  assumes "builtin_space ov" "require_unique_label_name ov name excluding = Inr u" "ov_row ov ''label'' ident = Some r"
    "str_of (fld r ''name'') = name"
  shows "excluding = Some (str_of (fld r ''id''))"
proof -
  have wf: "overlay_wf ov" using assms(1) by (simp add: builtin_space_def)
  obtain rows where rows: "ov_rows ov ''label'' = Inr rows"
    "\<forall>r \<in> set rows. \<not> (str_of (fld r ''name'') = name \<and>
        (excluding = None \<or> Some (str_of (fld r ''id'')) \<noteq> excluding))"
    using assms(2) unfolding require_unique_label_name_def rbind_Inr require_Inr by blast
  have "r \<in> set rows" using ov_rows_iff [OF wf rows(1)] assms(3) by blast
  with rows(2) assms(4) show ?thesis by (cases excluding) auto
qed

lemma labels_ok_with_row:
  assumes "labels_ok ov" "str_of (fld r ''name'') \<noteq> []" "fld r ''version'' = JInt v"
    "\<And>ident' r'. ov_row ov ''label'' ident' = Some r' \<Longrightarrow> str_of (fld r' ''name'') = str_of (fld r ''name'') \<Longrightarrow> ident' = [JStr j]"
  shows "labels_ok (with_row ov ''label'' [JStr j] r)"
  unfolding labels_ok_def
proof (intro conjI allI impI)
  let ?ov = "with_row ov ''label'' [JStr j] r"
  show "\<exists>i'. i = [JStr i']" "\<exists>v. fld q ''version'' = JInt v" "str_of (fld q ''name'') \<noteq> []" if "ov_row ?ov ''label'' i = Some q" for i q
    using that assms(1-3) by (auto simp: labels_ok_def split: if_splits)
  show "i = k" if "ov_row ?ov ''label'' i = Some q" "ov_row ?ov ''label'' k = Some q'"
    "str_of (fld q ''name'') = str_of (fld q' ''name'')" for i q k q'
    using that assms(1,4) unfolding labels_ok_def by (auto split: if_splits)
qed

lemma label_update_command_Inr:
  assumes "label_space (cx_overlay cx)" "ov_row (cx_overlay cx) ''label'' [JStr (rq_entity_id rq)] = Some label"
    "rq_expected_version rq = Some (int_of (fld label ''version''))"
    "label_update_command cx rq label (stamped label changes now) now = Inr c"
    "fst ` set changes \<subseteq> {''name'', ''color'', ''archived_at''}" "\<forall>(k, v) \<in> set changes. distinct_keys v"
  shows "ov_apply (cx_overlay cx) c =
      Inr (with_row (cx_overlay cx) ''label'' [JStr (rq_entity_id rq)] (stamped label changes now))"
    "builtin_space (with_row (cx_overlay cx) ''label'' [JStr (rq_entity_id rq)] (stamped label changes now))"
proof -
  let ?after = "stamped label changes now"
  have b: "builtin_space (cx_overlay cx)" and l: "labels_ok (cx_overlay cx)"
    using assms(1) by (simp_all add: label_space_def)
  note get = builtin_space_get(4) [OF b]
  note row = table_row [OF b get label_keys assms(2)]
  obtain v where v: "fld label ''version'' = JInt v" using l assms(2) unfolding labels_ok_def by blast
  have i: "fld label ''id'' = JStr (rq_entity_id rq)" using row(2) by simp
  obtain plan event where
    plan: "DbMutationPlan ''labels'' (dict [(''id'', JStr (rq_entity_id rq))]) Update
             (Some (int_of (fld label ''version''))) (Some label) (Some ?after) = Inr plan"
    and event: "SyncEventPlan ''label'' (str_of (fld label ''id'')) EvUpdate ?after
             (JInt (int_of (fld ?after ''version''))) (JStr now) = Inr event"
    and c: "cx_command cx rq [plan] [event] ?after None = Inr c"
    using assms(4) unfolding label_update_command_def rbind_Inr assms(3) i by auto
  have "set [''name'', ''color'', ''archived_at''] \<subseteq> fmdom' label" using row(1) by (simp add: field_names_builtin)
  then have "fmdom' ?after = fmdom' label"
    using assms(5) row(1) by (intro fmdom_stamped) (auto simp: field_names_builtin)
  moreover have "map_of (rev changes) ''id'' = None"
    using assms(5) unfolding map_of_eq_None_iff set_rev by (auto dest!: subsetD)
  then have "fld ?after ''id'' = fld label ''id''" by (simp add: fld_stamped)
  moreover have "row_ok ?after" by (intro row_ok_stamped row(3) assms(6))
  ultimately show "ov_apply (cx_overlay cx) c = Inr (with_row (cx_overlay cx) ''label'' [JStr (rq_entity_id rq)] ?after)"
    "builtin_space (with_row (cx_overlay cx) ''label'' [JStr (rq_entity_id rq)] ?after)"
    using update_command [OF b get label_keys tables(4) assms(2) v plan event _ c] by simp_all
qed

lemma label_update_keeps:
  assumes "label_space (cx_overlay cx)" "ov_row (cx_overlay cx) ''label'' [JStr (rq_entity_id rq)] = Some label"
    "rq_expected_version rq = Some (int_of (fld label ''version''))"
    "label_update_command cx rq label (stamped label changes now) now = Inr c"
    "fst ` set changes \<subseteq> {''name'', ''color'', ''archived_at''}" "\<forall>(k, v) \<in> set changes. distinct_keys v"
    "str_of (fld (stamped label changes now) ''name'') \<noteq> []"
    "\<And>ident' r'. ov_row (cx_overlay cx) ''label'' ident' = Some r' \<Longrightarrow>
       str_of (fld r' ''name'') = str_of (fld (stamped label changes now) ''name'') \<Longrightarrow> ident' = [JStr (rq_entity_id rq)]"
  shows "keeps label_space (cx_overlay cx) c"
proof -
  have "labels_ok (cx_overlay cx)" using assms(1) by (simp add: label_space_def)
  then have "labels_ok (with_row (cx_overlay cx) ''label'' [JStr (rq_entity_id rq)] (stamped label changes now))"
    using assms(7,8) by (intro labels_ok_with_row) (simp_all add: fld_stamped)
  then show ?thesis
    using label_update_command_Inr [OF assms(1-6)] by (simp add: keeps_def label_space_def)
qed

lemma require_label_name_Inr:
  "require_label_name raw = Inr name \<longleftrightarrow> name = py_strip (str_of raw) \<and> name \<noteq> []"
  by (auto simp: require_label_name_def Let_def result_simps)

lemma new_label_facts:
  "fmdom' (new_label i name color now) = set (field_names label_spec)"
  "fld (new_label i name color now) ''id'' = JStr i" "fld (new_label i name color now) ''name'' = JStr name"
  "fld (new_label i name color now) ''version'' = JInt 1"
  by (auto simp: new_label_def dict_def field_names_builtin)

lemma new_label_row_ok: "distinct_keys color \<Longrightarrow> row_ok (new_label i name color now)"
  by (simp add: new_label_def dict_def row_ok_fmupd)

lemma row_ok_get: "row_ok r \<Longrightarrow> distinct_keys (get r k)"
  by (auto simp: get_or_def row_ok_lookup split: option.splits)

lemma CreateLabel_keeps:
  assumes "label_space (cx_overlay cx)" "row_ok (rq_payload rq)" "compile_CreateLabel cx rq = Inr c"
    "ov_row (cx_overlay cx) ''label''
       [JStr (stable_id cx ''label'' (str_of (fld (rq_payload rq) ''command_id'')))] = None"
  shows "keeps label_space (cx_overlay cx) c"
proof -
  let ?ov = "cx_overlay cx"
  obtain raw name command_id plan event where
    name: "require_label_name raw = Inr name" "require_unique_label_name ?ov name None = Inr ()"
    and id: "pget (rq_payload rq) ''command_id'' = Inr command_id"
    and plan: "DbMutationPlan ''labels'' (dict [(''id'', JStr (stable_id cx ''label'' (str_of command_id)))]) Insert None None
       (Some (new_label (stable_id cx ''label'' (str_of command_id)) name (get (rq_payload rq) ''color'') (cx_now cx))) = Inr plan"
    and event: "SyncEventPlan ''label'' (stable_id cx ''label'' (str_of command_id)) EvCreate
       (new_label (stable_id cx ''label'' (str_of command_id)) name (get (rq_payload rq) ''color'') (cx_now cx))
       (JInt 1) (JStr (cx_now cx)) = Inr event"
    and c: "cx_command cx rq [plan] [event]
       (new_label (stable_id cx ''label'' (str_of command_id)) name (get (rq_payload rq) ''color'') (cx_now cx)) None = Inr c"
    using assms(3) unfolding compile_CreateLabel_def Let_def by (auto simp: rbind_Inr)
  let ?i = "stable_id cx ''label'' (str_of command_id)"
  let ?r = "new_label ?i name (get (rq_payload rq) ''color'') (cx_now cx)"
  have b: "builtin_space ?ov" and l: "labels_ok ?ov" using assms(1) by (simp_all add: label_space_def)
  have fresh: "ov_row ?ov ''label'' [JStr ?i] = None" using assms(4) id by (simp add: pget_Inr fld_def)
  have ok: "row_ok ?r" by (intro new_label_row_ok row_ok_get assms(2))
  note ins = insert_command [OF b builtin_space_get(4) [OF b] label_keys tables(4) fresh plan event _ c
      new_label_facts(1,2) ok]
  have "labels_ok (with_row ?ov ''label'' [JStr ?i] ?r)"
    using name unique_name [OF b name(2)]
    by (intro labels_ok_with_row [OF l]) (auto simp: new_label_facts require_label_name_Inr)
  then show ?thesis using ins by (simp add: keeps_def label_space_def)
qed

lemma label_patch_Inr:
  assumes "label_space ov" "row_ok (rq_payload rq)" "label_patch ov rq label = Inr patch"
    "ov_row ov ''label'' [JStr i] = Some label"
  shows "fst ` set patch \<subseteq> {''name'', ''color'', ''archived_at''}" "\<forall>(k, v) \<in> set patch. distinct_keys v"
    "str_of (fld (stamped label patch now) ''name'') \<noteq> []"
    "ov_row ov ''label'' ident' = Some r' \<Longrightarrow>
       str_of (fld r' ''name'') = str_of (fld (stamped label patch now) ''name'') \<Longrightarrow> ident' = [JStr i]"
proof -
  have b: "builtin_space ov" and l: "labels_ok ov" using assms(1) by (simp_all add: label_space_def)
  obtain name_patch where np: "patch = name_patch @
      (case fmlookup (rq_payload rq) ''color'' of None \<Rightarrow> [] | Some c \<Rightarrow> [(''color'', c)])"
    "name_patch = [] \<or> (\<exists>name. name_patch = [(''name'', JStr name)] \<and> name \<noteq> [] \<and>
       require_unique_label_name ov name (Some (str_of (fld label ''id''))) = Inr ())"
    using assms(3)
    by (auto simp: label_patch_def rbind_Inr require_label_name_Inr split: option.splits)
  show "fst ` set patch \<subseteq> {''name'', ''color'', ''archived_at''}" "\<forall>(k, v) \<in> set patch. distinct_keys v"
    using np row_ok_lookup [OF assms(2)] by (auto split: option.splits)
  have stored: "str_of (fld label ''name'') \<noteq> []" using l assms(4) unfolding labels_ok_def by blast
  have name: "fld (stamped label patch now) ''name'' =
      (case map_of name_patch ''name'' of None \<Rightarrow> fld label ''name'' | Some v \<Rightarrow> v)"
    using np by (auto simp: fld_stamped split: option.splits)
  show "str_of (fld (stamped label patch now) ''name'') \<noteq> []" using np(2) stored unfolding name by auto
  show "ident' = [JStr i]" if r': "ov_row ov ''label'' ident' = Some r'"
    "str_of (fld r' ''name'') = str_of (fld (stamped label patch now) ''name'')"
    using np(2)
  proof
    assume "name_patch = []"
    then have "str_of (fld r' ''name'') = str_of (fld label ''name'')" using r'(2) unfolding name by simp
    with l r'(1) assms(4) show ?thesis unfolding labels_ok_def by blast
  next
    assume "\<exists>name. name_patch = [(''name'', JStr name)] \<and> name \<noteq> [] \<and>
       require_unique_label_name ov name (Some (str_of (fld label ''id''))) = Inr ()"
    then obtain new where new: "name_patch = [(''name'', JStr new)]"
      "require_unique_label_name ov new (Some (str_of (fld label ''id''))) = Inr ()" by blast
    have "str_of (fld r' ''name'') = new" using r'(2) new(1) unfolding name by simp
    then have "str_of (fld label ''id'') = str_of (fld r' ''id'')" using unique_name [OF b new(2) r'(1)] by simp
    moreover have "fld label ''id'' = JStr i" using label_identity [OF b assms(4)] by simp
    ultimately have same: "str_of (fld r' ''id'') = i" by simp
    obtain j where j: "ident' = [JStr j]" using l r'(1) unfolding labels_ok_def by blast
    then have "fld r' ''id'' = JStr j" using label_identity [OF b r'(1)] by simp
    with same j show ?thesis by simp
  qed
qed

lemma UpdateLabel_keeps:
  assumes "label_space (cx_overlay cx)" "row_ok (rq_payload rq)" "compile_UpdateLabel cx rq = Inr c"
  shows "keeps label_space (cx_overlay cx) c"
proof -
  obtain label where label: "ov_row (cx_overlay cx) ''label'' [JStr (rq_entity_id rq)] = Some label"
    "rq_expected_version rq = Some (int_of (fld label ''version''))"
    using assms(3) by (auto simp: compile_UpdateLabel_def result_simps)
  show ?thesis
  proof (cases "fmlookup (rq_payload rq) ''name'' = None \<and> fmlookup (rq_payload rq) ''color'' = None")
    case True
    then have "cx_command cx rq [] [] label None = Inr c"
      using assms(3) label by (simp add: compile_UpdateLabel_def require_row_def require_expected_version_def)
    from keeps_no_effect [OF this] assms(1) show ?thesis by blast
  next
    case False
    then obtain patch now where patch: "label_patch (cx_overlay cx) rq label = Inr patch"
      and c: "label_update_command cx rq label (stamped label patch now) now = Inr c"
      using assms(3) label unfolding compile_UpdateLabel_def if_not_P [OF False] by (auto simp: result_simps)
    note p = label_patch_Inr [OF assms(1,2) patch label(1)]
    show ?thesis using label_update_keeps [OF assms(1) label c p(1,2,3)] p(4) by blast
  qed
qed

lemma ArchiveLabel_keeps:
  assumes "label_space (cx_overlay cx)" "compile_ArchiveLabel cx rq = Inr c"
  shows "keeps label_space (cx_overlay cx) c"
proof -
  obtain label now where label: "ov_row (cx_overlay cx) ''label'' [JStr (rq_entity_id rq)] = Some label"
    "rq_expected_version rq = Some (int_of (fld label ''version''))"
    and c: "label_update_command cx rq label (stamped label [(''archived_at'', JStr now)] now) now = Inr c"
    using assms(2) by (auto simp: compile_ArchiveLabel_def result_simps)
  have l: "labels_ok (cx_overlay cx)" using assms(1) by (simp add: label_space_def)
  have name: "fld (stamped label [(''archived_at'', JStr now)] now) ''name'' = fld label ''name''"
    by (simp add: fld_stamped)
  have "str_of (fld label ''name'') \<noteq> []" using l label(1) unfolding labels_ok_def by blast
  moreover have "ident' = [JStr (rq_entity_id rq)]"
    if "ov_row (cx_overlay cx) ''label'' ident' = Some r'" "str_of (fld r' ''name'') = str_of (fld label ''name'')" for ident' r'
    using l label(1) that unfolding labels_ok_def by blast
  ultimately show ?thesis using label_update_keeps [OF assms(1) label c] unfolding name by simp
qed

definition label_handlers :: "(string \<times> (ctx \<Rightarrow> request \<Rightarrow> command res)) list" where
  "label_handlers = [(''CreateLabel'', compile_CreateLabel), (''UpdateLabel'', compile_UpdateLabel),
     (''ArchiveLabel'', compile_ArchiveLabel)]"

lemma label_handler_keeps:
  assumes "(name, handler) \<in> set label_handlers" "label_space (cx_overlay cx)" "row_ok (rq_payload rq)"
    "handler cx rq = Inr c"
    "name = ''CreateLabel'' \<longrightarrow> ov_row (cx_overlay cx) ''label''
       [JStr (stable_id cx ''label'' (str_of (fld (rq_payload rq) ''command_id'')))] = None"
  shows "keeps label_space (cx_overlay cx) c"
  using assms CreateLabel_keeps UpdateLabel_keeps ArchiveLabel_keeps by (auto simp: label_handlers_def)

text \<open>
  C22: Every command on a label that compiles applies to its Space; afterwards, as before,
  no two labels of the Space have the same name and no name is empty, archived labels included. The
  creation of a label needs that the identifier derived from its command is new.
\<close>

theorem label_names_stay_unique:
  assumes "(name, handler) \<in> set label_handlers" "builtin_space (cx_overlay cx)" "labels_ok (cx_overlay cx)"
    "row_ok (rq_payload rq)" "handler cx rq = Inr c"
    "name = ''CreateLabel'' \<longrightarrow> ov_row (cx_overlay cx) ''label''
       [JStr (stable_id cx ''label'' (str_of (fld (rq_payload rq) ''command_id'')))] = None"
  shows "\<exists>ov'. ov_apply (cx_overlay cx) c = Inr ov' \<and> overlay_wf ov' \<and>
    (\<forall>ident r. ov_row ov' ''label'' ident = Some r \<longrightarrow> str_of (fld r ''name'') \<noteq> []) \<and>
    (\<forall>ident r ident' r'. ov_row ov' ''label'' ident = Some r \<longrightarrow> ov_row ov' ''label'' ident' = Some r' \<longrightarrow>
       str_of (fld r ''name'') = str_of (fld r' ''name'') \<longrightarrow> ident = ident')"
proof -
  have "label_space (cx_overlay cx)" using assms(2,3) by (simp add: label_space_def)
  from label_handler_keeps [OF assms(1) this assms(4,5,6)] obtain ov' where
    "ov_apply (cx_overlay cx) c = Inr ov'" "label_space ov'" by (auto simp: keeps_def)
  then show ?thesis unfolding label_space_def labels_ok_def builtin_space_def by blast
qed

section \<open>Labels of the small Space\<close>

definition sample_label :: row where
  "sample_label = blank_row label_spec
     [(''id'', JStr ''l1''), (''name'', JStr ''home''), (''version'', JInt 1), (''updated_at'', sample_stamp)]"

definition label_rows :: "((string \<times> json list) \<times> row) list" where
  "label_rows = ((''label'', [JStr ''l1'']), sample_label) # sample_rows"

lemma sample_label_columns:
  "fld sample_label ''id'' = JStr ''l1''" "fld sample_label ''name'' = JStr ''home''"
  "fld sample_label ''version'' = JInt 1" "fld sample_label ''updated_at'' = sample_stamp"
  by (simp_all add: sample_label_def fld_blank_row field_names_builtin)

lemma label_rows_lookup:
  "ov_row (sample_overlay label_rows) t ident =
     (if (t, ident) = (''label'', [JStr ''l1'']) then Some sample_label
      else ov_row (sample_overlay sample_rows) t ident)"
  by (auto simp: ov_row_def label_rows_def)

lemma no_sample_labels: "ov_row (sample_overlay sample_rows) ''label'' ident = None"
  unfolding sample_lookup by (auto simp: sample_rows_def)

lemma label_rows_space: "builtin_space (sample_overlay label_rows)" "labels_ok (sample_overlay label_rows)"
proof -
  have "row_shape sample_catalog ''label'' [JStr ''l1''] sample_label"
    unfolding sample_label_def sample_stamp_def
    by (rule blank_row_shape [OF sample_catalog_get [of label_spec, simplified builtin_specs_def, simplified]])
      (simp_all add: field_names_builtin pk_values_def pk_field_set_def fld_blank_row)
  moreover have "overlay_wf (sample_overlay sample_rows)" by (rule sample_wf)
  moreover have "(''label'', [JStr ''l1'']) \<notin> fst ` set sample_rows" by (simp add: sample_rows_def)
  ultimately show "builtin_space (sample_overlay label_rows)"
    by (simp add: sample_builtin overlay_wf_def label_rows_def)
  show "labels_ok (sample_overlay label_rows)"
    by (simp add: labels_ok_def label_rows_lookup no_sample_labels sample_label_columns)
qed

definition archive_request :: request where
  "archive_request = sample_request ''task_space.ArchiveLabel'' ''task_space'' ''l1'' [] (Some 1)"

lemma sample_archive: "\<exists>c. compile_ArchiveLabel (sample_ctx label_rows) archive_request = Inr c"
proof -
  have "ov_row (sample_overlay label_rows) ''label'' [JStr ''l1''] = Some sample_label"
    by (simp add: label_rows_lookup)
  moreover have "monotonic_updated_at ''2026-01-01T00:00:00.000Z'' ''2026-01-02T03:04:05.678Z'' =
      Inr ''2026-01-02T03:04:05.678Z''" by (simp add: monotonic_updated_at_def)
  ultimately show ?thesis
    by (simp add: compile_ArchiveLabel_def archive_request_def require_row_def require_expected_version_def
        sample_label_columns sample_stamp_def label_update_command_def DbMutationPlan_def
        validate_expected_version_def SyncEventPlan_def validate_sample_now cx_command_None fld_stamped)
qed

lemma label_names_stay_unique_witness:
  "\<exists>c ov'. compile_ArchiveLabel (sample_ctx label_rows) archive_request = Inr c \<and>
    ov_apply (sample_overlay label_rows) c = Inr ov' \<and> overlay_wf ov'"
proof -
  obtain c where c: "compile_ArchiveLabel (sample_ctx label_rows) archive_request = Inr c"
    using sample_archive by blast
  have h: "(''ArchiveLabel'', compile_ArchiveLabel) \<in> set label_handlers" by (simp add: label_handlers_def)
  have "builtin_space (cx_overlay (sample_ctx label_rows))" "labels_ok (cx_overlay (sample_ctx label_rows))"
    "row_ok (rq_payload archive_request)"
    using label_rows_space by (simp_all add: archive_request_def)
  from label_names_stay_unique [OF h this c] c show ?thesis by auto
qed

definition add_label_request :: request where
  "add_label_request = sample_request ''task_space.AddWorkItemLabels'' ''task_space'' ''b''
     [(''label_ids'', JList [JStr ''l1''])] (Some 1)"

lemma label_rows_junctions: "ov_row (sample_overlay label_rows) ''work_item_label'' ident = None"
  unfolding label_rows_lookup sample_lookup by (auto simp: sample_rows_def)

lemma label_rows_no_labels: "label_ids_for_work_item (sample_overlay label_rows) i = Inr []"
proof -
  obtain labels where labels: "label_ids_for_work_item (sample_overlay label_rows) i = Inr labels"
    using label_ids_total label_rows_space(1) by blast
  have "set labels = labels_of (sample_overlay label_rows) i"
    by (rule label_ids_set [OF label_rows_space(1) _ labels]) (simp add: junctions_ok_def label_rows_junctions)
  then show ?thesis using labels by (simp add: labels_of_def label_rows_junctions)
qed

lemma sample_add_label: "\<exists>c. compile_AddWorkItemLabels (sample_ctx label_rows) add_label_request = Inr c"
proof -
  have "ov_row (sample_overlay label_rows) ''work_item'' [JStr ''b''] = Some (sample_item ''b'' (JStr ''a''))"
    "ov_row (sample_overlay label_rows) ''label'' [JStr ''l1''] = Some sample_label"
    by (simp_all add: label_rows_lookup sample_items)
  moreover have "monotonic_updated_at ''2026-01-01T00:00:00.000Z'' ''2026-01-02T03:04:05.678Z'' =
      Inr ''2026-01-02T03:04:05.678Z''" by (simp add: monotonic_updated_at_def)
  ultimately show ?thesis
    by (simp add: compile_AddWorkItemLabels_def compile_label_set_mutation_def add_label_request_def Let_def
        require_row_def require_expected_version_def sample_item_columns sample_stamp_def pget_def dict_def
        text_set_def label_rows_no_labels label_target_def label_set_command_def
        DbMutationPlan_def validate_expected_version_def SyncEventPlan_def validate_sample_now cx_command_None fld_stamped)
qed

lemma label_sets_are_sets_witness:
  "\<exists>c ov'. compile_AddWorkItemLabels (sample_ctx label_rows) add_label_request = Inr c \<and>
    ov_apply (sample_overlay label_rows) c = Inr ov' \<and> labels_of ov' ''b'' = {''l1''}"
proof -
  obtain c where c: "compile_AddWorkItemLabels (sample_ctx label_rows) add_label_request = Inr c"
    using sample_add_label by blast
  have "tree_ok (sample_overlay label_rows)"
    by (rule tree_ok_cong [of _ "sample_overlay sample_rows"])
      (use sample_space in \<open>simp_all add: label_rows_lookup work_space_def\<close>)
  then have "builtin_space (cx_overlay (sample_ctx label_rows))" "tree_ok (cx_overlay (sample_ctx label_rows))"
    "junctions_ok (cx_overlay (sample_ctx label_rows))"
    using label_rows_space by (simp_all add: junctions_ok_def label_rows_junctions)
  from label_sets_are_sets [OF this c [unfolded compile_AddWorkItemLabels_def]] c show ?thesis
    by (auto simp: add_label_request_def dict_def text_set_def labels_of_def label_rows_junctions)
qed

end
