(* ===== verification/SyncProperties.thy ===== *)
theory SyncProperties
  imports SyncReplay LabelProperties
begin

text \<open>
  What the replay of a work item promises: the row is adopted as the client sent it, it differs from
  the stored row in the columns of one family only, and the tree and the label sets stay sound. The
  life cycle does not: a replayed change of status takes the closing stamps from the client.
\<close>

section \<open>The parts of a replay\<close>

lemma py_eq_JStr_list: "py_eq v (JList (map JStr ls)) \<Longrightarrow> v = JList (map JStr ls)"
proof (cases v)
  case (JList vs)
  assume "py_eq v (JList (map JStr ls))"
  then have len: "length vs = length ls" and eq: "\<forall>(x, y) \<in> set (zip vs (map JStr ls)). py_eq x y"
    using JList by auto
  have "vs = map JStr ls"
  proof (rule nth_equalityI)
    fix k assume "k < length vs"
    then have "(vs ! k, JStr (ls ! k)) \<in> set (zip vs (map JStr ls))" using len by (force simp: set_zip)
    with eq have "py_eq (vs ! k) (JStr (ls ! k))" by blast
    then show "vs ! k = map JStr ls ! k" using \<open>k < length vs\<close> len by (cases "vs ! k") auto
  qed (use len in simp)
  then show ?thesis using JList by simp
qed auto

lemma py_eq_place: "py_eq v w \<Longrightarrow> w = JNull \<or> (\<exists>s. w = JStr s) \<Longrightarrow> v = w"
  by (cases v) auto

lemma family_other_place: "f \<noteq> Move \<Longrightarrow> ''project_id'' \<notin> family_fields f \<and> ''parent_id'' \<notin> family_fields f"
  by (cases f) (simp_all add: family_fields_def WORK_ITEM_SCALAR_FIELDS_def WORK_ITEM_STATUS_FIELDS_def
      WORK_ITEM_LABELS_FIELDS_def)

lemma family_other_labels: "f \<noteq> LabelSet \<Longrightarrow> ''label_ids'' \<notin> family_fields f"
  by (cases f) (simp_all add: family_fields_def WORK_ITEM_SCALAR_FIELDS_def WORK_ITEM_STATUS_FIELDS_def
      WORK_ITEM_MOVE_FIELDS_def)

text \<open>The remembered status and the junction plans of each family.\<close>

lemma junction_plans_same: "junction_plans i cur cur = []"
  by (simp add: junction_plans_def)

lemma is_str_text: "is_str v \<Longrightarrow> JStr (str_of v) = v"
  by (cases v) (simp_all add: is_str_def)

lemma replay_labels_Inr:
  assumes "replay_labels cx rq candidate = Inr plans" "label_ids_for_work_item (cx_overlay cx) (rq_entity_id rq) = Inr labels"
  obtains declared where "fld candidate ''label_ids'' = JList (map JStr declared)"
    "plans = junction_plans (rq_entity_id rq) (set labels) (set declared)"
    "\<forall>l \<in> set declared. ov_row (cx_overlay cx) ''label'' [JStr l] \<noteq> None"
proof -
  obtain declared where d: "declared_labels (fld candidate ''label_ids'') = Inr declared"
    "plans = junction_plans (rq_entity_id rq) (set labels) (set declared)"
    "\<forall>l \<in> set declared. ov_row (cx_overlay cx) ''label'' [JStr l] \<noteq> None"
    using assms by (auto simp: replay_labels_def rbind_Inr rforeach_Inr require_row_Inr)
  obtain vs where vs: "fld candidate ''label_ids'' = JList vs" "list_all is_str vs" "declared = map str_of vs"
    using d(1) by (cases "fld candidate ''label_ids''") (auto simp: declared_labels_def split: if_splits)
  have "map JStr declared = vs"
    using vs(2,3) by (auto simp: list_all_iff is_str_text intro!: map_idI)
  then have "fld candidate ''label_ids'' = JList (map JStr declared)" using vs(1) by simp
  then show ?thesis using d(2,3) by (rule that)
qed

lemma replay_family_Inr:
  assumes "replay_family cx rq before candidate changes f = Inr (pre, plans)"
    "label_ids_for_work_item (cx_overlay cx) (rq_entity_id rq) = Inr labels"
    "ov_row (cx_overlay cx) ''work_item'' [JStr (rq_entity_id rq)] = Some before"
    "f \<noteq> LabelSet \<longrightarrow> fld candidate ''label_ids'' = JList (map JStr labels)"
  obtains declared where "fld candidate ''label_ids'' = JList (map JStr declared)"
    "plans = junction_plans (rq_entity_id rq) (set labels) (set declared)"
    "pre = fld before PRE_WAITING_STATUS_FIELD \<or> pre = fld before ''status_definition_id''"
    "f = Move \<longrightarrow> replay_move cx rq candidate = Inr ()"
proof (cases "f = LabelSet")
  case True
  then have "replay_labels cx rq candidate = Inr plans" "pre = fld before PRE_WAITING_STATUS_FIELD"
    using assms(1) by (auto simp: replay_family_def rbind_Inr)
  with that True show ?thesis by (elim replay_labels_Inr [OF _ assms(2)]) blast
next
  case False
  then have "plans = []" "f = Move \<longrightarrow> replay_move cx rq candidate = Inr ()"
    "f = Status \<longrightarrow> replay_status cx rq candidate = Inr pre" "f \<noteq> Status \<longrightarrow> pre = fld before PRE_WAITING_STATUS_FIELD"
    using assms(1) by (cases f; auto simp: replay_family_def rbind_Inr)+
  with that [of labels] False assms(4) replay_status_Inr [OF _ assms(3)] show ?thesis
    by (cases "f = Status") (auto simp: junction_plans_same)
qed

text \<open>Everything a replay that compiles has passed.\<close>

lemma compile_sync_work_item_Inr:
  assumes "compile_sync_work_item cx rq = Inr c"
  obtains before candidate labels f pre plans plan event where
    "rq_name rq = ''entity.update''"
    "ov_row (cx_overlay cx) ''work_item'' [JStr (rq_entity_id rq)] = Some before"
    "full_work_item_sync_candidate rq before = Inr candidate"
    "label_ids_for_work_item (cx_overlay cx) (rq_entity_id rq) = Inr labels"
    "changed_family (semantic_changes candidate (updates before [(''label_ids'', JList (map JStr labels))])) = Inr f"
    "replay_family cx rq before candidate
       (semantic_changes candidate (updates before [(''label_ids'', JList (map JStr labels))])) f = Inr (pre, plans)"
    "DbMutationPlan ''work_items'' (dict [(''id'', fld (replayed_row candidate pre) ''id'')]) Update
       (rq_expected_version rq) (Some before) (Some (replayed_row candidate pre)) = Inr plan"
    "SyncEventPlan ''work_item'' (str_of (fld (replayed_row candidate pre) ''id'')) EvUpdate
       (fmupd PRE_WAITING_STATUS_FIELD pre candidate) (JInt (int_of (fld (replayed_row candidate pre) ''version'')))
       (JStr (str_of (fld (replayed_row candidate pre) ''updated_at''))) = Inr event"
    "cx_command cx rq (plan # plans) [event] (fmupd PRE_WAITING_STATUS_FIELD pre candidate) None = Inr c"
  using assms unfolding compile_sync_work_item_def Let_def
  by (auto simp: rbind_Inr require_row_Inr require_def split: if_splits)

lemma unchanged_column:
  assumes "changed_family (semantic_changes candidate projected) = Inr f"
    "k \<in> set WORK_ITEM_SYNC_FIELDS - {''id'', ''version'', ''updated_at''}" "k \<notin> family_fields f"
  shows "py_eq (fld candidate k) (fld projected k)"
proof (rule ccontr)
  assume "\<not> py_eq (fld candidate k) (fld projected k)"
  then have "k \<in> semantic_changes candidate projected" using assms(2) by (simp add: semantic_changes_def)
  then show False using changed_family_Inr(1) [OF assms(1)] assms(3) by blast
qed

text \<open>The columns of the adopted row.\<close>

lemma replayed_row_columns:
  assumes "fmdom' candidate = set WORK_ITEM_SYNC_FIELDS"
  shows "fmdom' (replayed_row candidate pre) = set (field_names work_item_spec)"
    "k \<noteq> PRE_WAITING_STATUS_FIELD \<Longrightarrow> k \<noteq> ''label_ids'' \<Longrightarrow> fld (replayed_row candidate pre) k = fld candidate k"
    "fld (replayed_row candidate pre) PRE_WAITING_STATUS_FIELD = pre"
    "row_ok candidate \<Longrightarrow> distinct_keys pre \<Longrightarrow> row_ok (replayed_row candidate pre)"
proof -
  show "fmdom' (replayed_row candidate pre) = set (field_names work_item_spec)"
    unfolding work_item_row_fields replayed_row_def using assms by auto
  show "fld (replayed_row candidate pre) k = fld candidate k" if "k \<noteq> PRE_WAITING_STATUS_FIELD" "k \<noteq> ''label_ids''"
    using that by (simp add: replayed_row_def fld_def)
  show "fld (replayed_row candidate pre) PRE_WAITING_STATUS_FIELD = pre" by (simp add: replayed_row_def fld_def)
  show "row_ok (replayed_row candidate pre)" if "row_ok candidate" "distinct_keys pre"
    using that by (auto simp: replayed_row_def row_ok_iff split: if_splits)
qed


text \<open>The place of the adopted row.\<close>

lemma replayed_place:
  assumes "builtin_space ov" "tree_ok ov" "ov = cx_overlay cx" "i = rq_entity_id rq"
    "ov_row ov ''work_item'' [JStr i] = Some before"
    "f = Move \<longrightarrow> replay_move cx rq candidate = Inr ()"
    "f \<noteq> Move \<Longrightarrow> py_eq (fld candidate ''project_id'') (fld before ''project_id'') \<and>
       py_eq (fld candidate ''parent_id'') (fld before ''parent_id'')"
    "fld candidate ''project_id'' = JStr pid" "fld after ''id'' = fld before ''id''"
    "fld after ''project_id'' = fld candidate ''project_id''" "fld after ''parent_id'' = fld candidate ''parent_id''"
    "fld after ''version'' = JInt v"
  shows "tree_ok (with_row ov ''work_item'' [JStr i] after)"
proof (cases "f = Move")
  case True
  note before = tree_ok_row [OF assms(2,5)]
  have mv: "replay_move cx rq candidate = Inr ()" using assms(6) True by simp
  have row: "ov_row (cx_overlay cx) ''work_item'' [JStr (rq_entity_id rq)] = Some before" using assms(3-5) by simp
  obtain n where n: "at_depth ov (str_of (fld before ''project_id'')) (fld candidate ''parent_id'') n"
    "\<nexists>k. below ov (JStr i) (fld candidate ''parent_id'') k" "\<And>y k. below ov (JStr i) y k \<Longrightarrow> n + k < MAX_DEPTH"
    using require_move_target_Inr [OF assms(1,2,5) replay_move_Inr(1) [OF mv row, folded assms(3)]] by blast
  obtain p where "fld before ''project_id'' = JStr p" using before(1) by (auto simp: work_item_ok_def)
  then have "fld after ''project_id'' = fld before ''project_id''"
    using replay_move_Inr(2) [OF mv row] assms(8,10) by simp
  then show ?thesis
    using n by (intro tree_ok_move [OF assms(1,2,5), of _ n v]) (simp_all add: assms(9,11,12))
next
  case False
  note before = tree_ok_row [OF assms(2,5)]
  obtain p where p: "fld before ''project_id'' = JStr p" using before(1) by (auto simp: work_item_ok_def)
  obtain d where "at_depth ov p (JStr (id_of before)) d" using before(2) p by auto
  moreover have "id_of before = i" using work_item_identity(2) [OF assms(1,5) before(1)] by simp
  ultimately have "at_depth ov p (fld before ''parent_id'') (d - 1)" using at_depth_project assms(5) by blast
  then have "fld before ''parent_id'' = JNull \<or> (\<exists>s. fld before ''parent_id'' = JStr s)" by (auto elim: at_depth.cases)
  then have "same_place before after"
    using assms(7) [OF False] p by (auto simp: same_place_def assms(9-12) dest!: py_eq_place)
  then show ?thesis by (rule tree_ok_same_place [OF assms(2,5)])
qed


section \<open>The properties\<close>

text \<open>
  C33: A replayed work item is adopted with every column the client sent; it agrees with the
  row it replaces in every column outside one family and the stamp, its version is the next one, its
  labels are the ones the client declared, no other row and no other label set changes, and the tree
  is kept.
\<close>

theorem sync_replay_one_family:
  assumes "builtin_space (cx_overlay cx)" "tree_ok (cx_overlay cx)" "junctions_ok (cx_overlay cx)"
    "row_ok (rq_payload rq)" "fmlookup (rq_payload rq) ''project_id'' = Some (JStr pid)"
    "compile_sync_work_item cx rq = Inr c"
  shows "\<exists>f before after ov' labels. ov_row (cx_overlay cx) ''work_item'' [JStr (rq_entity_id rq)] = Some before \<and>
    ov_apply (cx_overlay cx) c = Inr ov' \<and> ov_row ov' ''work_item'' [JStr (rq_entity_id rq)] = Some after \<and>
    (\<forall>k \<in> set WORK_ITEM_SYNC_FIELDS - {''id'', ''label_ids''}. fld after k = fld (rq_payload rq) k) \<and>
    (\<forall>k \<in> set WORK_ITEM_SYNC_FIELDS - {''label_ids'', ''version'', ''updated_at''}.
       k \<in> family_fields f \<or> py_eq (fld after k) (fld before k)) \<and>
    fld after ''version'' = JInt (int_of (fld before ''version'') + 1) \<and>
    fld (rq_payload rq) ''label_ids'' = JList (map JStr labels) \<and> labels_of ov' (rq_entity_id rq) = set labels \<and>
    (f \<noteq> LabelSet \<longrightarrow> set labels = labels_of (cx_overlay cx) (rq_entity_id rq)) \<and>
    (\<forall>t ident. t \<noteq> ''work_item_label'' \<longrightarrow> (t, ident) \<noteq> (''work_item'', [JStr (rq_entity_id rq)]) \<longrightarrow>
       ov_row ov' t ident = ov_row (cx_overlay cx) t ident) \<and>
    (\<forall>j. j \<noteq> rq_entity_id rq \<longrightarrow> labels_of ov' j = labels_of (cx_overlay cx) j) \<and>
    builtin_space ov' \<and> tree_ok ov'"
proof -
  let ?ov = "cx_overlay cx" and ?i = "rq_entity_id rq"
  obtain before candidate labels f pre plans plan event where
    row: "ov_row ?ov ''work_item'' [JStr ?i] = Some before"
    and cand: "full_work_item_sync_candidate rq before = Inr candidate"
    and labels: "label_ids_for_work_item ?ov ?i = Inr labels"
    and f: "changed_family (semantic_changes candidate (updates before [(''label_ids'', JList (map JStr labels))])) = Inr f"
    and fam: "replay_family cx rq before candidate
       (semantic_changes candidate (updates before [(''label_ids'', JList (map JStr labels))])) f = Inr (pre, plans)"
    and plan: "DbMutationPlan ''work_items'' (dict [(''id'', fld (replayed_row candidate pre) ''id'')]) Update
       (rq_expected_version rq) (Some before) (Some (replayed_row candidate pre)) = Inr plan"
    and event: "SyncEventPlan ''work_item'' (str_of (fld (replayed_row candidate pre) ''id'')) EvUpdate
       (fmupd PRE_WAITING_STATUS_FIELD pre candidate) (JInt (int_of (fld (replayed_row candidate pre) ''version'')))
       (JStr (str_of (fld (replayed_row candidate pre) ''updated_at''))) = Inr event"
    and c: "cx_command cx rq (plan # plans) [event] (fmupd PRE_WAITING_STATUS_FIELD pre candidate) None = Inr c"
    by (rule compile_sync_work_item_Inr [OF assms(6)])
  note cf = full_candidate_Inr [OF cand]
  note sc = sync_candidate_facts [OF cf(2) assms(4), folded cf(1)]
  note unch = unchanged_column [OF f, unfolded fld_updates]
  note wr = work_item_row [OF assms(1) row]
  let ?after = "replayed_row candidate pre"
  have pf: "PRE_WAITING_STATUS_FIELD \<notin> set WORK_ITEM_SYNC_FIELDS"
    by (simp add: PRE_WAITING_STATUS_FIELD_def WORK_ITEM_SYNC_FIELDS_def)
  have col: "fld ?after k = fld candidate k" if "k \<in> set WORK_ITEM_SYNC_FIELDS - {''label_ids''}" for k
    using that pf by (intro replayed_row_columns(2) [OF sc(1)]) auto
  have mem: "''id'' \<in> set WORK_ITEM_SYNC_FIELDS" "''version'' \<in> set WORK_ITEM_SYNC_FIELDS"
    "''project_id'' \<in> set WORK_ITEM_SYNC_FIELDS" "''parent_id'' \<in> set WORK_ITEM_SYNC_FIELDS"
    "''label_ids'' \<in> set WORK_ITEM_SYNC_FIELDS" by (simp_all add: WORK_ITEM_SYNC_FIELDS_def)
  have id: "fld ?after ''id'' = fld before ''id''" "fld before ''id'' = JStr ?i"
    using wr(2) sc(2) col [of "''id''"] mem by simp_all
  have pc: "fld candidate ''project_id'' = JStr pid"
    using sc(3) [of "''project_id''"] assms(5) mem by (simp add: fld_def)
  have lab: "f \<noteq> LabelSet \<longrightarrow> fld candidate ''label_ids'' = JList (map JStr labels)"
    using unch [of "''label_ids''"] family_other_labels [of f] mem by (simp add: py_eq_JStr_list)
  obtain declared where d: "fld candidate ''label_ids'' = JList (map JStr declared)"
    "plans = junction_plans ?i (set labels) (set declared)"
    "pre = fld before PRE_WAITING_STATUS_FIELD \<or> pre = fld before ''status_definition_id''"
    "f = Move \<longrightarrow> replay_move cx rq candidate = Inr ()"
    by (rule replay_family_Inr [OF fam labels row lab])
  have ls: "set labels = labels_of ?ov ?i" by (rule label_ids_set [OF assms(1,3) labels])
  have "PRE_WAITING_STATUS_FIELD \<in> fmdom' before" "''status_definition_id'' \<in> fmdom' before"
    unfolding wr(1) by (simp_all add: field_names_builtin PRE_WAITING_STATUS_FIELD_def)
  then have "distinct_keys pre" using d(3) wr(3) row_ok_fld by metis
  then have ok: "fmdom' ?after = fmdom' before" "row_ok ?after"
    using replayed_row_columns(1,4) [OF sc(1)] sc(4) wr(1) by simp_all
  have ver: "fld ?after ''version'' = JInt (int_of (fld before ''version'') + 1)"
    using col [of "''version''"] cf(4) mem by simp
  obtain ov' where ov': "ov_apply ?ov c = Inr ov'" "relabelled (with_row ?ov ''work_item'' [JStr ?i] ?after) ?i (set declared) ov'"
    using item_with_junctions [OF assms(1-3) row plan [unfolded id cf(3)] event c [unfolded d(2) ls] ok(1) id(1) ok(2)] ls
    by (metis List.finite_set)
  have rows: "ov_row ov' ''work_item'' ident = ov_row (with_row ?ov ''work_item'' [JStr ?i] ?after) ''work_item'' ident" for ident
    using ov'(2) by (simp add: relabelled_def)
  have "tree_ok (with_row ?ov ''work_item'' [JStr ?i] ?after)"
    using unch [of "''project_id''"] unch [of "''parent_id''"] family_other_place [of f] mem col
    by (intro replayed_place [OF assms(1,2) refl refl row d(4) _ pc id(1) _ _ ver]) simp_all
  then have tree: "tree_ok ov'" by (rule tree_ok_cong [rotated]) (simp add: rows)
  have space: "builtin_space ov'" "labels_of ov' ?i = set declared" using ov'(2) by (simp_all add: relabelled_def)
  have sent: "\<forall>k \<in> set WORK_ITEM_SYNC_FIELDS - {''id'', ''label_ids''}. fld ?after k = fld (rq_payload rq) k"
    using col sc(3) by auto
  have same_id: "py_eq (fld ?after ''id'') (fld before ''id'')" unfolding id by simp
  have kept: "\<forall>k \<in> set WORK_ITEM_SYNC_FIELDS - {''label_ids'', ''version'', ''updated_at''}.
      k \<in> family_fields f \<or> py_eq (fld ?after k) (fld before k)"
  proof
    fix k assume k: "k \<in> set WORK_ITEM_SYNC_FIELDS - {''label_ids'', ''version'', ''updated_at''}"
    then show "k \<in> family_fields f \<or> py_eq (fld ?after k) (fld before k)"
      using unch [of k] col [of k] same_id by (cases "k = ''id''") auto
  qed
  have declares: "fld (rq_payload rq) ''label_ids'' = JList (map JStr declared)"
    using d(1) sc(3) [of "''label_ids''"] mem by simp
  have same: "f \<noteq> LabelSet \<longrightarrow> set declared = labels_of ?ov ?i"
  proof
    assume "f \<noteq> LabelSet"
    then have "map JStr declared = map JStr labels" using lab d(1) by simp
    then have "declared = labels" by (simp add: inj_map_eq_map inj_def)
    then show "set declared = labels_of ?ov ?i" using ls by (rule ssubst)
  qed
  have stored: "ov_row ov' ''work_item'' [JStr ?i] = Some ?after" using rows by simp
  have others: "\<forall>t ident. t \<noteq> ''work_item_label'' \<longrightarrow> (t, ident) \<noteq> (''work_item'', [JStr ?i]) \<longrightarrow>
      ov_row ov' t ident = ov_row ?ov t ident"
    using ov'(2) by (simp add: relabelled_def)
  have other_labels: "\<forall>j. j \<noteq> ?i \<longrightarrow> labels_of ov' j = labels_of ?ov j"
    using ov'(2) by (simp add: relabelled_def) (simp add: labels_of_def)
  show ?thesis
    by (rule exI [of _ f], rule exI [of _ before], rule exI [of _ ?after], rule exI [of _ ov'], rule exI [of _ declared])
      (intro conjI row ov'(1) stored sent kept ver declares space same others other_labels tree)
qed


section \<open>A replay on the small Space\<close>

text \<open>The item \<open>b\<close> after a change of its status to a completed one, sent without a closing stamp.\<close>

definition sync_status_request :: request where
  "sync_status_request = (sample_request ''entity.update'' ''work_item'' ''b''
     (map (\<lambda>k. (k, JNull)) (filter (\<lambda>k. k \<noteq> ''id'') WORK_ITEM_SYNC_FIELDS) @
      [(''project_id'', JStr ''p1''), (''parent_id'', JStr ''a''), (''version'', JInt 2), (''child_rank'', JInt 0),
       (''updated_at'', JStr ''2026-01-02T03:04:05.678Z''), (''status_definition_id'', JStr ''s2''),
       (''label_ids'', JList [])]) (Some 1))\<lparr>rq_client_updated_at := Some ''2026-01-02T03:04:05.678Z''\<rparr>"

abbreviation "item_b \<equiv> sample_item ''b'' (JStr ''a'')"

lemma sync_status_columns:
  "fmdom' (rq_payload sync_status_request) = set WORK_ITEM_SYNC_FIELDS - {''id''}"
  "row_ok (rq_payload sync_status_request)"
  "fld (rq_payload sync_status_request) k = (if k \<in> set WORK_ITEM_SYNC_FIELDS - {''id''} then
     (case map_of [(''project_id'', JStr ''p1''), (''parent_id'', JStr ''a''), (''version'', JInt 2), (''child_rank'', JInt 0),
       (''updated_at'', JStr ''2026-01-02T03:04:05.678Z''), (''status_definition_id'', JStr ''s2''),
       (''label_ids'', JList [])] k of Some v \<Rightarrow> v | None \<Rightarrow> JNull) else fld fmempty k)"
proof -
  show "fmdom' (rq_payload sync_status_request) = set WORK_ITEM_SYNC_FIELDS - {''id''}"
    by (auto simp: sync_status_request_def dom_dict WORK_ITEM_SYNC_FIELDS_def)
  show "row_ok (rq_payload sync_status_request)"
    unfolding sync_status_request_def by (auto simp: dict_def intro!: row_ok_updates)
  have nulls: "map_of (map (\<lambda>k. (k, JNull)) ks) k = (if k \<in> set ks then Some JNull else None)" for ks
    by (induction ks) auto
  show "fld (rq_payload sync_status_request) k = (if k \<in> set WORK_ITEM_SYNC_FIELDS - {''id''} then
     (case map_of [(''project_id'', JStr ''p1''), (''parent_id'', JStr ''a''), (''version'', JInt 2), (''child_rank'', JInt 0),
       (''updated_at'', JStr ''2026-01-02T03:04:05.678Z''), (''status_definition_id'', JStr ''s2''),
       (''label_ids'', JList [])] k of Some v \<Rightarrow> v | None \<Rightarrow> JNull) else fld fmempty k)"
    unfolding sync_status_request_def
    by (simp add: fld_dict rev_map nulls map_add_def) (simp add: WORK_ITEM_SYNC_FIELDS_def)
qed

lemma item_b_columns:
  assumes "k \<in> set WORK_ITEM_SYNC_FIELDS - {''label_ids''}"
  shows "fld item_b k = (case map_of [(''id'', JStr ''b''), (''project_id'', JStr ''p1''), (''parent_id'', JStr ''a''),
      (''version'', JInt 1), (''child_rank'', JInt 0), (''updated_at'', sample_stamp),
      (''status_definition_id'', JStr ''s1'')] k of Some v \<Rightarrow> v | None \<Rightarrow> JNull)"
proof -
  have "k \<in> set (field_names work_item_spec)" using assms work_item_row_fields by auto
  then show ?thesis by (simp add: sample_item_def fld_blank_row)
qed

lemma sample_candidate:
  "full_work_item_sync_candidate sync_status_request item_b = Inr (sync_candidate_row sync_status_request)"
proof -
  let ?p = "rq_payload sync_status_request" and ?c = "sync_candidate_row sync_status_request"
  note sc = sync_candidate_facts [OF sync_status_columns(1,2)]
  have mem: "''priority'' \<in> set WORK_ITEM_SYNC_FIELDS - {''id''}" "''confidence'' \<in> set WORK_ITEM_SYNC_FIELDS - {''id''}"
    "''version'' \<in> set WORK_ITEM_SYNC_FIELDS - {''id''}" "''updated_at'' \<in> set WORK_ITEM_SYNC_FIELDS - {''id''}"
    by (simp_all add: WORK_ITEM_SYNC_FIELDS_def)
  have "get ?p ''priority'' = JNull" "get ?p ''confidence'' = JNull"
    using mem by (subst get_fld; simp add: sync_status_columns)+
  moreover have "fld ?c ''version'' = JInt 2" "fld ?c ''updated_at'' = JStr ''2026-01-02T03:04:05.678Z''"
    "fld ?c ''id'' = JStr ''b''"
    using mem sc(2) by (simp_all add: sc(3) sync_status_columns) (simp add: sync_status_request_def)
  moreover have "rq_expected_version sync_status_request = Some 1" "client_stamp sync_status_request = JStr ''2026-01-02T03:04:05.678Z''"
    by (simp_all add: sync_status_request_def client_stamp_def)
  ultimately show ?thesis
    by (simp add: full_work_item_sync_candidate_def Let_def sync_status_columns(1) reject_sync_enum_def require_enum_value_def
        require_expected_version_def sample_item_columns)
qed

lemma sample_no_children:
  "require_no_active_children (sample_overlay sample_rows) item_b = Inr ()"
proof -
  let ?ov = "sample_overlay sample_rows"
  have b: "builtin_space ?ov" using sample_space by (simp add: work_space_def)
  obtain statuses rows where rows: "ov_rows ?ov ''status_definition'' = Inr statuses" "ov_rows ?ov ''work_item'' = Inr rows"
    using ov_rows_Inr builtin_space_get(1,7) [OF b] by metis
  have none: "\<forall>r \<in> set rows. fld r ''parent_id'' \<noteq> JStr ''b'' \<Longrightarrow> active_children st (JStr ''b'') rows = Inr []" for st rows
    by (induction rows) simp_all
  have "\<forall>r \<in> set rows. fld r ''parent_id'' \<noteq> JStr ''b''"
    using ov_rows_iff [OF sample_wf rows(2)] by (auto simp: sample_items sample_item_columns)
  then show ?thesis using rows none by (simp add: require_no_active_children_def sample_item_columns)
qed

lemma sample_no_envelope: "ov_row (sample_overlay sample_rows) ''session_command_envelope'' ident = None"
  unfolding sample_lookup by (simp add: sample_rows_def)

lemma sample_status: "ov_row (sample_overlay sample_rows) ''status_definition'' [JStr ''s2''] =
    Some (blank_row status_definition_spec [(''id'', JStr ''s2''), (''category'', JStr ''completed'')])"
  unfolding sample_lookup by (simp add: sample_rows_def)

lemma sample_transition:
  assumes "fld candidate ''status_definition_id'' = JStr ''s2''"
  shows "\<exists>pre. replay_status (sample_ctx sample_rows) sync_status_request candidate = Inr pre"
proof -
  let ?cx = "sample_ctx sample_rows"
  have waiting: "pre_waiting (sample_overlay sample_rows) item_b ''completed'' = []"
    by (simp add: pre_waiting_def split: option.split)
  have eid: "rq_entity_id sync_status_request = ''b''" "rq_expected_version sync_status_request = Some 1"
    by (simp_all add: sync_status_request_def)
  have "\<exists>typed. typed_sync_request ?cx sync_status_request ''TransitionWorkItem'' [(''status_definition_id'', JStr ''s2'')] = Inr typed"
    by (simp add: typed_sync_request_def request_from_payload_def MutationRequest_def eid validate_expected_version_def
        validate_canonical_timestamp_def json_opt_def)
  then obtain typed where typed: "typed_sync_request ?cx sync_status_request ''TransitionWorkItem''
      [(''status_definition_id'', JStr ''s2'')] = Inr typed" by blast
  note t = typed_sync_request_Inr [OF typed]
  have "get (rq_payload typed) ''command_id'' = JStr (cx_operation_id ?cx)"
    "fmlookup (rq_payload typed) ''status_definition_id'' = Some (JStr ''s2'')"
    "rq_entity_id typed = ''b''" "rq_expected_version typed = Some 1"
    using t eid by (simp_all add: dict_def get_or_def)
  moreover have "parent_depth (sample_overlay sample_rows) (JStr ''a'') ''p1'' = Inr 1"
    using parent_depth_at_depth sample_depths(1) by blast
  moreover have "ov_row (sample_overlay sample_rows) ''work_item'' [JStr ''b''] = Some item_b" by (simp add: sample_items)
  moreover have "monotonic_updated_at ''2026-01-01T00:00:00.000Z'' ''2026-01-02T03:04:05.678Z'' =
      Inr ''2026-01-02T03:04:05.678Z''" by (simp add: monotonic_updated_at_def)
  ultimately have "\<exists>c. compile_TransitionWorkItem ?cx typed = Inr c"
    by (simp add: compile_TransitionWorkItem_def require_session_envelope_dispatch_claim_def Let_def sample_no_envelope
        pget_def require_row_def sample_status fld_blank_row field_names_builtin require_expected_version_def
        sample_item_columns sample_no_children sample_stamp_def work_item_update_command_def sample_labels
        DbMutationPlan_def validate_expected_version_def SyncEventPlan_def validate_sample_now cx_command_None
        fld_stamped fld_updates waiting)
  then show ?thesis using typed by (auto simp: replay_status_def assms)
qed

lemma sample_changes:
  "changed_family (semantic_changes (sync_candidate_row sync_status_request)
     (updates item_b [(''label_ids'', JList [])])) = Inr Status"
proof -
  let ?c = "sync_candidate_row sync_status_request"
  note sc = sync_candidate_facts [OF sync_status_columns(1,2)]
  have fields: "set WORK_ITEM_SYNC_FIELDS - {''id'', ''version'', ''updated_at''} =
      {k \<in> set WORK_ITEM_SYNC_FIELDS - {''id''}. k \<noteq> ''version'' \<and> k \<noteq> ''updated_at''}" by auto
  have st: "''status_definition_id'' \<in> set WORK_ITEM_SYNC_FIELDS" by (simp add: WORK_ITEM_SYNC_FIELDS_def)
  have "semantic_changes ?c (updates item_b [(''label_ids'', JList [])]) = {''status_definition_id''}"
  proof (rule set_eqI)
    fix k
    show "k \<in> semantic_changes ?c (updates item_b [(''label_ids'', JList [])]) \<longleftrightarrow> k \<in> {''status_definition_id''}"
      by (cases "k \<in> set WORK_ITEM_SYNC_FIELDS - {''id''}")
        (auto simp: semantic_changes_def sc(3) sync_status_columns item_b_columns fld_updates st split: if_splits)
  qed
  then show ?thesis
    by (simp add: changed_family_def Let_def family_fields_def WORK_ITEM_IMMUTABLE_FIELDS_def WORK_ITEM_SCALAR_FIELDS_def
        WORK_ITEM_MOVE_FIELDS_def WORK_ITEM_STATUS_FIELDS_def WORK_ITEM_LABELS_FIELDS_def)
qed

lemma sample_replay: "\<exists>c. compile_sync_work_item (sample_ctx sample_rows) sync_status_request = Inr c"
proof -
  let ?c = "sync_candidate_row sync_status_request"
  note sc = sync_candidate_facts [OF sync_status_columns(1,2)]
  have mem: "''status_definition_id'' \<in> set WORK_ITEM_SYNC_FIELDS - {''id''}" "''version'' \<in> set WORK_ITEM_SYNC_FIELDS - {''id''}"
    "''updated_at'' \<in> set WORK_ITEM_SYNC_FIELDS - {''id''}"
    by (simp_all add: WORK_ITEM_SYNC_FIELDS_def)
  have cols: "fld ?c ''status_definition_id'' = JStr ''s2''" "fld ?c ''version'' = JInt 2"
    "fld ?c ''updated_at'' = JStr ''2026-01-02T03:04:05.678Z''" "fld ?c ''id'' = JStr ''b''"
    using mem sc(2) by (simp_all add: sc(3) sync_status_columns) (simp add: sync_status_request_def)
  obtain pre where pre: "replay_status (sample_ctx sample_rows) sync_status_request ?c = Inr pre"
    using sample_transition [OF cols(1)] by blast
  have "fld (replayed_row ?c pre) k = fld ?c k" if "k \<in> {''id'', ''version'', ''updated_at''}" for k
    using that by (intro replayed_row_columns(2) [OF sc(1)]) (auto simp: PRE_WAITING_STATUS_FIELD_def)
  then have rep: "fld (replayed_row ?c pre) ''id'' = JStr ''b''" "fld (replayed_row ?c pre) ''version'' = JInt 2"
    "fld (replayed_row ?c pre) ''updated_at'' = JStr ''2026-01-02T03:04:05.678Z''"
    using cols by simp_all
  have rq: "rq_name sync_status_request = ''entity.update''" "rq_entity_id sync_status_request = ''b''"
    "rq_expected_version sync_status_request = Some 1" by (simp_all add: sync_status_request_def)
  have "ov_row (sample_overlay sample_rows) ''work_item'' [JStr ''b''] = Some item_b" by (simp add: sample_items)
  then show ?thesis
    by (simp add: compile_sync_work_item_def Let_def require_def rq require_row_def sample_candidate sample_labels
        sample_changes [simplified] replay_family_def pre rep DbMutationPlan_def validate_expected_version_def SyncEventPlan_def
        validate_sample_now cx_command_None)
qed

text \<open>
  The property at this replay. The item now has a completed status and no closing stamp, so the
  life cycle that every typed command keeps does not survive a replay.
\<close>

lemma sync_replay_one_family_witness:
  "\<exists>c ov' after. compile_sync_work_item (sample_ctx sample_rows) sync_status_request = Inr c \<and>
    ov_apply (sample_overlay sample_rows) c = Inr ov' \<and> ov_row ov' ''work_item'' [JStr ''b''] = Some after \<and>
    fld after ''version'' = JInt 2 \<and> tree_ok ov' \<and> lifecycle_ok (sample_overlay sample_rows) \<and> \<not> lifecycle_ok ov'"
proof -
  obtain c where c: "compile_sync_work_item (sample_ctx sample_rows) sync_status_request = Inr c"
    using sample_replay by blast
  have space: "builtin_space (cx_overlay (sample_ctx sample_rows))" "tree_ok (cx_overlay (sample_ctx sample_rows))"
    "junctions_ok (cx_overlay (sample_ctx sample_rows))"
    using sample_space unfolding work_space_def junctions_ok_def sample_ctx_def ctx.simps sample_lookup
    by (auto simp: sample_rows_def)
  have pid: "fmlookup (rq_payload sync_status_request) ''project_id'' = Some (JStr ''p1'')"
    and eid: "rq_entity_id sync_status_request = ''b''"
    by (simp_all add: sync_status_request_def dict_def fmlookup_updates)
  have cols: "''status_definition_id'' \<in> set WORK_ITEM_SYNC_FIELDS - {''id'', ''label_ids''}"
    "''completed_at'' \<in> set WORK_ITEM_SYNC_FIELDS - {''id'', ''label_ids''}"
    by (simp_all add: WORK_ITEM_SYNC_FIELDS_def)
  obtain before after ov' where r: "ov_row (sample_overlay sample_rows) ''work_item'' [JStr ''b''] = Some before"
    "ov_apply (sample_overlay sample_rows) c = Inr ov'" "ov_row ov' ''work_item'' [JStr ''b''] = Some after"
    "\<forall>k \<in> set WORK_ITEM_SYNC_FIELDS - {''id'', ''label_ids''}. fld after k = fld (rq_payload sync_status_request) k"
    "fld after ''version'' = JInt (int_of (fld before ''version'') + 1)"
    "\<forall>t ident. t \<noteq> ''work_item_label'' \<longrightarrow> (t, ident) \<noteq> (''work_item'', [JStr ''b'']) \<longrightarrow>
       ov_row ov' t ident = ov_row (sample_overlay sample_rows) t ident" "tree_ok ov'"
    using sync_replay_one_family [OF space sync_status_columns(2) pid c] unfolding eid sample_ctx_def ctx.simps
    by (elim exE conjE) (rule that; assumption)
  have after: "fld after ''status_definition_id'' = JStr ''s2''" "fld after ''completed_at'' = JNull"
    using cols r(4) by (simp_all add: sync_status_columns)
  have "category_of ov' (JStr ''s2'') = Some ''completed''"
    using r(6) sample_status by (simp add: category_of_def fld_blank_row)
  then have "\<not> lifecycle_ok ov'" using r(3) after unfolding lifecycle_ok_def row_lifecycle_def by fastforce
  moreover have "lifecycle_ok (sample_overlay sample_rows)" using sample_space by (simp add: work_space_def)
  moreover have "before = item_b" using r(1) by (simp add: sample_items)
  ultimately show ?thesis using c r by (auto simp: sample_item_columns)
qed

end
