(* ===== verification/Journal.thy ===== *)
theory Journal
  imports Mutation
begin

text \<open>
  The mutation journal (\<open>app/mutation/journal.py\<close>): the tables of batches, their operations, the
  projection steps of the operations, and the ledger of sync events, with the compare-and-swap
  operations on them. A table is the list of its rows in the order of insertion. Each operation is one
  database transaction: it returns the new tables, or the exception that rolls them back.

  A column that holds the JSON text of a record (the receipt of a batch, the command of an operation)
  is kept as that record. Time stamps of the tables are left out; nothing reads them.
\<close>

section \<open>States\<close>

definition LEGAL_TRANSITIONS :: "mutation_state \<Rightarrow> mutation_state list" where
  "LEGAL_TRANSITIONS s = (case s of
     INTENT \<Rightarrow> [STAGED, ABORTED]
   | STAGED \<Rightarrow> [DB_COMMITTED, ABORTED]
   | DB_COMMITTED \<Rightarrow> [FINALIZING, COMPENSATING, FAILED_MANUAL]
   | FINALIZING \<Rightarrow> [FORWARD_APPLIED, COMPENSATING, FAILED_MANUAL]
   | FORWARD_APPLIED \<Rightarrow> [FINALIZED, COMPENSATING, FAILED_MANUAL]
   | COMPENSATING \<Rightarrow> [COMPENSATED, FAILED_MANUAL]
   | FINALIZED \<Rightarrow> []
   | ABORTED \<Rightarrow> []
   | COMPENSATED \<Rightarrow> []
   | FAILED_MANUAL \<Rightarrow> [])"

definition state_text :: "mutation_state \<Rightarrow> string" where
  "state_text s = (case s of
     INTENT \<Rightarrow> ''INTENT'' | STAGED \<Rightarrow> ''STAGED'' | DB_COMMITTED \<Rightarrow> ''DB_COMMITTED''
   | FINALIZING \<Rightarrow> ''FINALIZING'' | FORWARD_APPLIED \<Rightarrow> ''FORWARD_APPLIED'' | FINALIZED \<Rightarrow> ''FINALIZED''
   | ABORTED \<Rightarrow> ''ABORTED'' | COMPENSATING \<Rightarrow> ''COMPENSATING'' | COMPENSATED \<Rightarrow> ''COMPENSATED''
   | FAILED_MANUAL \<Rightarrow> ''FAILED_MANUAL'')"

section \<open>Tables\<close>

record journal_batch =
  jb_id :: string
  jb_hash :: string
  jb_state :: mutation_state
  jb_accepted :: int
  jb_result :: batch_result

record journal_op =
  jo_id :: string
  jo_batch :: string
  jo_sequence :: int
  jo_command :: persisted_command
  jo_state :: mutation_state
  jo_manifest :: "string option"
  jo_images :: "(row option list \<times> row option list) option"
  jo_result :: "row option"
  jo_error :: "string option"

record journal_step =
  js_op :: string
  js_ordinal :: int
  js_tag :: projection_action_tag
  js_target :: string
  js_before :: "string option"
  js_after :: "string option"
  js_applied :: "string option"
  js_state :: step_state

record ledger_event =
  le_seq :: int
  le_type :: string
  le_id :: string
  le_action :: sync_action
  le_payload :: string
  le_op :: "string option"
  le_batch :: "string option"
  le_version :: "int option"
  le_created :: string
  le_visible :: bool

record journal =
  jr_batches :: "journal_batch list"
  jr_ops :: "journal_op list"
  jr_steps :: "journal_step list"
  jr_ledger :: "ledger_event list"

text \<open>The manifest of a published stage.\<close>

record stage_manifest =
  mf_operation_id :: string
  mf_descriptors :: "persisted_projection_descriptor list"
  mf_sha256 :: string

definition get_batch :: "journal \<Rightarrow> string \<Rightarrow> journal_batch option" where
  "get_batch j b = find (\<lambda>r. jb_id r = b) (jr_batches j)"

definition get_op :: "journal \<Rightarrow> string \<Rightarrow> journal_op option" where
  "get_op j i = find (\<lambda>r. jo_id r = i) (jr_ops j)"

definition ops_of :: "journal \<Rightarrow> string \<Rightarrow> journal_op list" where
  "ops_of j b = filter (\<lambda>r. jo_batch r = b) (jr_ops j)"

text \<open>\<open>ORDER BY sequence\<close>.\<close>

definition ordered_ops :: "journal \<Rightarrow> string \<Rightarrow> journal_op list" where
  "ordered_ops j b = sort_key jo_sequence (ops_of j b)"

text \<open>\<open>UPDATE ... WHERE ...\<close> on a table, with the number of rows it changed.\<close>

definition update_where :: "('a \<Rightarrow> bool) \<Rightarrow> ('a \<Rightarrow> 'a) \<Rightarrow> 'a list \<Rightarrow> 'a list" where
  "update_where p f rs = map (\<lambda>r. if p r then f r else r) rs"

definition rowcount :: "('a \<Rightarrow> bool) \<Rightarrow> 'a list \<Rightarrow> nat" where
  "rowcount p rs = length (filter p rs)"

section \<open>Reading\<close>

definition is_clean :: "journal \<Rightarrow> bool" where
  "is_clean j = (rowcount (\<lambda>b. jb_state b \<notin> {FINALIZED, ABORTED, COMPENSATED}) (jr_batches j) = 0)"

definition find_operation_batch_bindings :: "journal \<Rightarrow> string list \<Rightarrow> (string \<times> string) list" where
  "find_operation_batch_bindings j ids =
     (if ids = [] then [] else map (\<lambda>q. (jo_id q, jo_batch q)) (filter (\<lambda>q. jo_id q \<in> set ids) (jr_ops j)))"

definition op_state :: "journal \<Rightarrow> string \<Rightarrow> mutation_state res" where
  "op_state j i = (case get_op j i of
     None \<Rightarrow> Inl (IllegalMutationTransition (''unknown operation: '' @ i))
   | Some r \<Rightarrow> Inr (jo_state r))"

definition visible_event_count :: "journal \<Rightarrow> string \<Rightarrow> nat" where
  "visible_event_count j b = rowcount (\<lambda>e. le_batch e = Some b \<and> le_visible e) (jr_ledger j)"

definition hydrate_result :: "digests \<Rightarrow> journal \<Rightarrow> batch_result \<Rightarrow> batch_result res" where
  "hydrate_result dg j result =
     (if br_applied result = [] then Inr result
      else
        let values = map_of (map (\<lambda>q. (jo_id q, the (jo_result q)))
               (filter (\<lambda>q. jo_id q \<in> mr_operation_id ` set (br_applied result) \<and> jo_result q \<noteq> None) (jr_ops j)));
            applied = map (\<lambda>item. case values (mr_operation_id item) of
               None \<Rightarrow> item | Some v \<Rightarrow> item\<lparr>mr_value := v\<rparr>) (br_applied result) in
        BatchMutationResult dg (br_batch_id result) applied (br_rejected result) (br_derivations result) None)"

section \<open>Creating batches\<close>

text \<open>\<open>session.add\<close> of a row whose primary key is taken fails when the transaction flushes.\<close>

definition add_batch :: "journal \<Rightarrow> journal_batch \<Rightarrow> journal res" where
  "add_batch j b =
     (if jb_id b \<in> set (map jb_id (jr_batches j)) then Inl (IntegrityErr ''mutation_batches'')
      else Inr (j\<lparr>jr_batches := jr_batches j @ [b]\<rparr>))"

definition add_op :: "journal \<Rightarrow> journal_op \<Rightarrow> journal res" where
  "add_op j r =
     (if jo_id r \<in> set (map jo_id (jr_ops j)) \<or>
         (jo_batch r, jo_sequence r) \<in> set (map (\<lambda>q. (jo_batch q, jo_sequence q)) (jr_ops j))
      then Inl (IntegrityErr ''mutation_operations'')
      else Inr (j\<lparr>jr_ops := jr_ops j @ [r]\<rparr>))"

definition add_step :: "journal \<Rightarrow> journal_step \<Rightarrow> journal res" where
  "add_step j s =
     (if (js_op s, js_ordinal s) \<in> set (map (\<lambda>q. (js_op q, js_ordinal q)) (jr_steps j))
      then Inl (IntegrityErr ''mutation_steps'')
      else Inr (j\<lparr>jr_steps := jr_steps j @ [s]\<rparr>))"

fun add_all :: "(journal \<Rightarrow> 'a \<Rightarrow> journal res) \<Rightarrow> journal \<Rightarrow> 'a list \<Rightarrow> journal res" where
  "add_all f j [] = Inr j"
| "add_all f j (x # xs) = rbind (f j x) (\<lambda>j'. add_all f j' xs)"

definition intent_op :: "string \<Rightarrow> int \<Rightarrow> string \<Rightarrow> persisted_command \<Rightarrow> row \<Rightarrow> journal_op" where
  "intent_op batch_id sequence operation_id command value =
     \<lparr>jo_id = operation_id, jo_batch = batch_id, jo_sequence = sequence, jo_command = command,
      jo_state = INTENT, jo_manifest = None, jo_images = None, jo_result = Some value, jo_error = None\<rparr>"

definition pending_step :: "string \<Rightarrow> persisted_projection_descriptor \<Rightarrow> journal_step" where
  "pending_step operation_id d =
     \<lparr>js_op = operation_id, js_ordinal = pd_ordinal d, js_tag = pd_tag d, js_target = pd_target d,
      js_before = pd_before_sha256 d, js_after = pd_after_sha256 d, js_applied = None, js_state = StepPending\<rparr>"

definition derivation_entries :: "(string \<times> string \<times> string) list \<Rightarrow> (string \<times> (string \<times> json) list) list" where
  "derivation_entries ds =
     map (\<lambda>(operation_id, parent_id, suffix).
       (operation_id, [(''parent_id'', JStr parent_id), (''suffix'', JStr suffix)])) ds"

text \<open>\<open>MutationResult(...)\<close> of an accepted command; its version is that of the last event.\<close>

definition MutationResult :: "string \<Rightarrow> string \<Rightarrow> string \<Rightarrow> string \<Rightarrow> int option \<Rightarrow> string option \<Rightarrow>
    mutation_state \<Rightarrow> row \<Rightarrow> mutation_result res" where
  "MutationResult operation_id batch_id entity_type entity_id version resolution state value =
     rbind (validate_expected_version version) (\<lambda>_.
     rbind (validate_resolution resolution) (\<lambda>_.
     Inr \<lparr>mr_operation_id = operation_id, mr_batch_id = batch_id, mr_entity_type = entity_type,
          mr_entity_id = entity_id, mr_version = version, mr_resolution = resolution, mr_state = state,
          mr_value = value\<rparr>))"

definition accepted_result :: "string \<Rightarrow> string \<times> command \<Rightarrow> mutation_result res" where
  "accepted_result batch_id entry = (case entry of (operation_id, c) \<Rightarrow>
     MutationResult operation_id batch_id (rq_entity_type (cm_request c)) (rq_entity_id (cm_request c))
       (if cm_events c = [] then None else Some (ev_version (last (cm_events c))))
       (cm_resolution c) FINALIZED (cm_value c))"

definition create_batch_intent :: "digests \<Rightarrow> journal \<Rightarrow> string \<Rightarrow> string \<Rightarrow> string list \<Rightarrow> command list \<Rightarrow>
    mutation_rejection list \<Rightarrow> (string \<times> string \<times> string) list \<Rightarrow> journal res" where
  "create_batch_intent dg j batch_id request_hash operation_ids commands rejections derivations =
     rbind (require (length operation_ids = length commands \<and> operation_ids \<noteq> [])
              (ValueErr ''accepted operation IDs must align with commands'')) (\<lambda>_.
     rbind (rmap (accepted_result batch_id) (zip operation_ids commands)) (\<lambda>applied.
     rbind (BatchMutationResult dg batch_id applied rejections (derivation_entries derivations) None) (\<lambda>result.
     rbind (rmap (persisted dg) commands) (\<lambda>ps.
     rbind (add_batch j \<lparr>jb_id = batch_id, jb_hash = request_hash, jb_state = INTENT,
              jb_accepted = int (length operation_ids), jb_result = result\<rparr>) (\<lambda>j1.
     rbind (add_all add_op j1 (map (\<lambda>(sequence, operation_id, p, c). intent_op batch_id (int sequence) operation_id p (cm_value c))
              (zip [0..<length operation_ids] (zip operation_ids (zip ps commands))))) (\<lambda>j2.
     add_all add_step j2 (concat (map (\<lambda>(operation_id, p). map (pending_step operation_id) (pc_projections p))
       (zip operation_ids ps)))))))))"

section \<open>Transitions\<close>

definition transition_batch :: "journal \<Rightarrow> string \<Rightarrow> mutation_state \<Rightarrow> mutation_state \<Rightarrow> journal res" where
  "transition_batch j batch_id expected target =
     (if target \<notin> set (LEGAL_TRANSITIONS expected)
      then Inl (IllegalMutationTransition (''illegal transition: '' @ state_text expected @ '' -> '' @ state_text target))
      else if rowcount (\<lambda>b. jb_id b = batch_id \<and> jb_state b = expected) (jr_batches j) \<noteq> 1
      then Inl (IllegalMutationTransition (''batch '' @ batch_id @ '' is not in expected state '' @ state_text expected))
      else Inr (j\<lparr>jr_batches := update_where (\<lambda>b. jb_id b = batch_id \<and> jb_state b = expected)
                   (jb_state_update (\<lambda>_. target)) (jr_batches j)\<rparr>))"

definition record_rejected_batch :: "digests \<Rightarrow> journal \<Rightarrow> string \<Rightarrow> string \<Rightarrow> mutation_rejection list \<Rightarrow>
    (string \<times> string \<times> string) list \<Rightarrow> (batch_result \<times> journal) res" where
  "record_rejected_batch dg j batch_id request_hash rejections derivations =
     rbind (BatchMutationResult dg batch_id [] rejections (derivation_entries derivations) None) (\<lambda>result.
     rbind (add_batch j \<lparr>jb_id = batch_id, jb_hash = request_hash, jb_state = INTENT, jb_accepted = 0,
              jb_result = result\<rparr>) (\<lambda>j1.
     rbind (transition_batch j1 batch_id INTENT ABORTED) (\<lambda>j2. Inr (result, j2))))"

definition transition_op :: "journal \<Rightarrow> string \<Rightarrow> mutation_state \<Rightarrow> mutation_state \<Rightarrow> journal res" where
  "transition_op j operation_id expected target =
     (if target \<notin> set (LEGAL_TRANSITIONS expected)
      then Inl (IllegalMutationTransition (''illegal transition: '' @ state_text expected @ '' -> '' @ state_text target))
      else case get_op j operation_id of
        None \<Rightarrow> Inl (IllegalMutationTransition (''unknown operation: '' @ operation_id))
      | Some r \<Rightarrow>
        let batch_id = jo_batch r in
        rbind (require (case get_batch j batch_id of None \<Rightarrow> False
                 | Some b \<Rightarrow> jb_state b = expected \<and> int (length (ops_of j batch_id)) = jb_accepted b)
                 (IllegalMutationTransition ''batch child set or state is inconsistent'')) (\<lambda>_.
        rbind (require (rowcount (\<lambda>q. jo_id q = operation_id \<and> jo_state q = expected) (jr_ops j) = 1)
                 (IllegalMutationTransition
                    (''operation '' @ operation_id @ '' is not in expected state '' @ state_text expected))) (\<lambda>_.
        let j1 = j\<lparr>jr_ops := update_where (\<lambda>q. jo_id q = operation_id \<and> jo_state q = expected)
                     (jo_state_update (\<lambda>_. target)) (jr_ops j)\<rparr> in
        if rowcount (\<lambda>q. jo_batch q = batch_id \<and> jo_state q \<noteq> target) (jr_ops j1) \<noteq> 0 then Inr j1
        else
          rbind (require (rowcount (\<lambda>b. jb_id b = batch_id \<and> jb_state b = expected) (jr_batches j1) = 1)
                   (IllegalMutationTransition
                      (''batch '' @ batch_id @ '' is not in expected state '' @ state_text expected))) (\<lambda>_.
          Inr (j1\<lparr>jr_batches := update_where (\<lambda>b. jb_id b = batch_id \<and> jb_state b = expected)
                    (jb_state_update (\<lambda>_. target)) (jr_batches j1)\<rparr>)))))"

definition transition :: "journal \<Rightarrow> string \<Rightarrow> mutation_state \<Rightarrow> journal res" where
  "transition j operation_id target =
     rbind (op_state j operation_id) (\<lambda>current. transition_op j operation_id current target)"

fun transition_all :: "journal \<Rightarrow> mutation_state \<Rightarrow> mutation_state \<Rightarrow> string list \<Rightarrow> journal res" where
  "transition_all j expected target [] = Inr j"
| "transition_all j expected target (i # rest) =
     rbind (transition_op j i expected target) (\<lambda>j'. transition_all j' expected target rest)"

definition mark_finalizing :: "journal \<Rightarrow> string \<Rightarrow> journal res" where
  "mark_finalizing j batch_id =
     transition_all j DB_COMMITTED FINALIZING (map jo_id (ordered_ops j batch_id))"

definition mark_forward_applied :: "journal \<Rightarrow> string \<Rightarrow> journal res" where
  "mark_forward_applied j batch_id =
     transition_all j FINALIZING FORWARD_APPLIED (map jo_id (ordered_ops j batch_id))"

text \<open>The operations of the batch receive the digests of their manifests.\<close>

definition stage_ops :: "(string \<times> string) list \<Rightarrow> journal_op list \<Rightarrow> journal_op list" where
  "stage_ops manifests ops = map (\<lambda>q. case map_of manifests (jo_id q) of
      None \<Rightarrow> q | Some sha \<Rightarrow> q\<lparr>jo_manifest := Some sha, jo_state := STAGED\<rparr>) ops"

definition mark_staged :: "journal \<Rightarrow> string \<Rightarrow> stage_manifest list \<Rightarrow> journal res" where
  "mark_staged j batch_id manifests =
     (let operations = ordered_ops j batch_id in
      rbind (require (length operations = length manifests \<and> operations \<noteq> [])
               (IllegalMutationTransition ''stage manifest set is incomplete'')) (\<lambda>_.
      rbind (require (map mf_operation_id manifests = map jo_id operations)
               (IllegalMutationTransition ''stage manifest operation mismatch'')) (\<lambda>_.
      rbind (require (case get_batch j batch_id of None \<Rightarrow> False | Some b \<Rightarrow> jb_state b = INTENT)
               (IllegalMutationTransition ''batch is not awaiting stages'')) (\<lambda>_.
      Inr (j\<lparr>jr_ops := stage_ops (map (\<lambda>m. (mf_operation_id m, mf_sha256 m)) manifests) (jr_ops j),
             jr_batches := update_where (\<lambda>b. jb_id b = batch_id) (jb_state_update (\<lambda>_. STAGED)) (jr_batches j)\<rparr>)))))"

definition mark_step_applied :: "journal \<Rightarrow> string \<Rightarrow> int \<Rightarrow> string option \<Rightarrow> journal res" where
  "mark_step_applied j operation_id ordinal applied_hash =
     (let hit = (\<lambda>s. js_op s = operation_id \<and> js_ordinal s = ordinal \<and> js_state s = StepPending \<and>
                  js_after s = applied_hash \<and> js_applied s = None) in
      if rowcount hit (jr_steps j) \<noteq> 1
      then Inl (IllegalMutationTransition (''projection step '' @ operation_id @ '':'' @ int_text ordinal @
                  '' is not pending with the expected after hash''))
      else Inr (j\<lparr>jr_steps := update_where hit (\<lambda>s. s\<lparr>js_state := StepApplied, js_applied := applied_hash\<rparr>) (jr_steps j)\<rparr>))"

section \<open>Finalization\<close>

definition invalid_steps :: "journal \<Rightarrow> string \<Rightarrow> journal_step list" where
  "invalid_steps j batch_id =
     filter (\<lambda>s. js_op s \<in> jo_id ` set (ops_of j batch_id) \<and>
       (js_state s \<noteq> StepApplied \<or> js_applied s \<noteq> js_after s)) (jr_steps j)"

definition finalize_batch_in_transaction :: "journal \<Rightarrow> string \<Rightarrow> journal res" where
  "finalize_batch_in_transaction j batch_id =
     (let child_rows = ops_of j batch_id; child_ids = set (map jo_id child_rows) in
      rbind (require ((case get_batch j batch_id of None \<Rightarrow> False
                | Some b \<Rightarrow> jb_state b = FORWARD_APPLIED \<and> int (length child_rows) = jb_accepted b) \<and>
               child_rows \<noteq> [] \<and> set (map jo_state child_rows) = {FORWARD_APPLIED} \<and>
               rowcount (\<lambda>e. le_batch e = Some batch_id \<and> le_visible e) (jr_ledger j) = 0 \<and>
               invalid_steps j batch_id = [])
               (IllegalMutationTransition ''all accepted children must be FORWARD_APPLIED before finalization'')) (\<lambda>_.
      let ops' = update_where (\<lambda>q. jo_batch q = batch_id \<and> jo_state q = FORWARD_APPLIED)
                   (jo_state_update (\<lambda>_. FINALIZED)) (jr_ops j);
          batches' = update_where (\<lambda>b. jb_id b = batch_id \<and> jb_state b = FORWARD_APPLIED)
                   (jb_state_update (\<lambda>_. FINALIZED)) (jr_batches j);
          ledger' = update_where (\<lambda>e. le_batch e = Some batch_id \<and> \<not> le_visible e)
                   (le_visible_update (\<lambda>_. True)) (jr_ledger j) in
      rbind (require (rowcount (\<lambda>q. jo_batch q = batch_id \<and> jo_state q = FORWARD_APPLIED) (jr_ops j) = length child_rows)
               (IllegalMutationTransition ''batch child finalization CAS failed'')) (\<lambda>_.
      rbind (require (rowcount (\<lambda>b. jb_id b = batch_id \<and> jb_state b = FORWARD_APPLIED) (jr_batches j) = 1)
               (IllegalMutationTransition ''batch finalization CAS failed'')) (\<lambda>_.
      rbind (require (\<forall>e \<in> set ledger'. le_batch e = Some batch_id \<and> le_visible e \<longrightarrow>
                 (case le_op e of None \<Rightarrow> False | Some i \<Rightarrow> i \<in> child_ids))
               (IllegalMutationTransition ''foreign operation in batch ledger'')) (\<lambda>_.
      Inr (j\<lparr>jr_ops := ops', jr_batches := batches', jr_ledger := ledger'\<rparr>))))))"

definition finalize_batch :: "journal \<Rightarrow> string \<Rightarrow> (batch_result \<times> journal) res" where
  "finalize_batch j batch_id =
     rbind (finalize_batch_in_transaction j batch_id) (\<lambda>j'.
     case get_batch j' batch_id of
       None \<Rightarrow> Inl (IllegalMutationTransition ''finalized batch receipt disappeared'')
     | Some b \<Rightarrow> Inr (jb_result b, j'))"

definition update_operation_result :: "journal \<Rightarrow> string \<Rightarrow> row \<Rightarrow> journal res" where
  "update_operation_result j operation_id value =
     (case get_op j operation_id of
        None \<Rightarrow> Inl (IllegalMutationTransition ''operation result target is missing'')
      | Some r \<Rightarrow>
        rbind (require (jo_state r = FINALIZED)
                 (IllegalMutationTransition ''operation result target is not finalized'')) (\<lambda>_.
        Inr (j\<lparr>jr_ops := update_where (\<lambda>q. jo_id q = operation_id) (jo_result_update (\<lambda>_. Some value)) (jr_ops j)\<rparr>)))"

end
