(* ===== verification/Staging.thy ===== *)
theory Staging
  imports Overlay Journal
begin

text \<open>
  The staged images of a command's projections (\<open>app/mutation/staging.py\<close>): publishing, verification,
  materialization of one side, and collection. A stage directory is found under its name; it holds the
  parsed manifest and the content of the other files by relative name. Publication is the atomic rename
  of a temporary directory, so a crash leaves a whole stage or none; temporary directories, flushing to
  disk and the fencing receipts of the leases are not modelled.
\<close>

section \<open>Stages\<close>

datatype image_side = BeforeImage | AfterImage

definition side_text :: "image_side \<Rightarrow> string" where
  "side_text side = (case side of BeforeImage \<Rightarrow> ''before'' | AfterImage \<Rightarrow> ''after'')"

record staged_step =
  ss_tag :: projection_action_tag
  ss_source :: "string option"
  ss_target :: string
  ss_ordinal :: int
  ss_before :: "(string \<times> int) option"
  ss_after :: "(string \<times> int) option"

record stage =
  st_operation :: string
  st_key :: string
  st_steps :: "staged_step list"
  st_files :: "(string, string) fmap"

type_synonym stages = "(string, stage) fmap"

record materialized_action =
  ma_tag :: projection_action_tag
  ma_source :: "string option"
  ma_target :: string
  ma_ordinal :: int
  ma_blob :: "string option"

definition MaterializedProjectionAction :: "projection_action_tag \<Rightarrow> string option \<Rightarrow> string \<Rightarrow> int \<Rightarrow>
    string option \<Rightarrow> materialized_action res" where
  "MaterializedProjectionAction tag source target ordinal blob =
     rbind (require (0 \<le> ordinal) (ValueErr ''projection ordinal must be nonnegative'')) (\<lambda>_.
     rbind (require ((tag = PATH_RENAME) = (source \<noteq> None))
              (ValueErr ''projection source is required only for path rename'')) (\<lambda>_.
     Inr \<lparr>ma_tag = tag, ma_source = source, ma_target = target, ma_ordinal = ordinal, ma_blob = blob\<rparr>))"

definition side_image :: "image_side \<Rightarrow> staged_step \<Rightarrow> (string \<times> int) option" where
  "side_image side s = (case side of BeforeImage \<Rightarrow> ss_before s | AfterImage \<Rightarrow> ss_after s)"

definition blob_name :: "image_side \<Rightarrow> int \<Rightarrow> string" where
  "blob_name side ordinal = side_text side @ ''/'' @ int_text ordinal @ ''.bin''"

definition directory_key :: "digests \<Rightarrow> string \<Rightarrow> string res" where
  "directory_key dg operation_id = rbind (validate_operation_id operation_id) (\<lambda>_. Inr (sha256_hex dg operation_id))"

section \<open>The text of a manifest\<close>

definition image_json :: "image_side \<Rightarrow> int \<Rightarrow> (string \<times> int) option \<Rightarrow> json" where
  "image_json side ordinal img = (case img of None \<Rightarrow> JNull
     | Some (digest, n) \<Rightarrow> JObj [(''path'', JStr (blob_name side ordinal)), (''sha256'', JStr digest), (''size'', JInt n)])"

definition manifest_json :: "stage \<Rightarrow> json" where
  "manifest_json s = JObj
     [(''directoryKey'', JStr (st_key s)), (''operationId'', JStr (st_operation s)),
      (''steps'', JList (map (\<lambda>i. JObj
        [(''after'', image_json AfterImage (ss_ordinal i) (ss_after i)),
         (''before'', image_json BeforeImage (ss_ordinal i) (ss_before i)),
         (''ordinal'', JInt (ss_ordinal i)), (''source'', json_opt JStr (ss_source i)),
         (''tag'', JStr (tag_text (ss_tag i))), (''target'', JStr (ss_target i))]) (st_steps s)))]"

definition manifest_sha256 :: "digests \<Rightarrow> stage \<Rightarrow> string" where
  "manifest_sha256 dg s = sha256_hex dg (canonical_ascii (manifest_json s))"

section \<open>Verification\<close>

definition read_blob :: "stage \<Rightarrow> string \<Rightarrow> string res" where
  "read_blob s name = (case fmlookup (st_files s) name of None \<Rightarrow> Inl (FileNotFound name) | Some b \<Rightarrow> Inr b)"

definition image_descriptor_ok :: "string \<times> int \<Rightarrow> bool" where
  "image_descriptor_ok img = (PAYLOAD_SHA256 (fst img) \<and> 0 \<le> snd img)"

definition verify_image :: "digests \<Rightarrow> stage \<Rightarrow> image_side \<Rightarrow> int \<Rightarrow> (string \<times> int) option \<Rightarrow> unit res" where
  "verify_image dg s side ordinal img = (case img of None \<Rightarrow> Inr ()
     | Some (digest, n) \<Rightarrow>
        rbind (require (image_descriptor_ok (digest, n)) (StageIntegrity ''staged image descriptor is invalid'')) (\<lambda>_.
        rbind (read_blob s (blob_name side ordinal)) (\<lambda>content.
        require (sha256_hex dg content = digest \<and> int (length content) = n)
          (StageIntegrity ''staged image hash or size mismatch''))))"

definition contained_action :: "staged_step \<Rightarrow> unit res" where
  "contained_action i =
     (case (case ss_source i of None \<Rightarrow> Inr [] | Some p \<Rightarrow> contained_projection_action_field p) of
        Inl _ \<Rightarrow> Inl (StageIntegrity ''manifest projection action is invalid'')
      | Inr _ \<Rightarrow> (case contained_projection_action_field (ss_target i) of
          Inl _ \<Rightarrow> Inl (StageIntegrity ''manifest projection action is invalid'') | Inr _ \<Rightarrow> Inr ()))"

definition step_descriptor :: "staged_step \<Rightarrow> persisted_projection_descriptor res" where
  "step_descriptor i = PersistedProjectionDescriptor (ss_tag i) (ss_source i) (ss_target i) (ss_ordinal i)
     (map_option fst (ss_before i)) (map_option snd (ss_before i))
     (map_option fst (ss_after i)) (map_option snd (ss_after i))"

definition verify_step :: "digests \<Rightarrow> stage \<Rightarrow> int \<times> staged_step \<Rightarrow> persisted_projection_descriptor res" where
  "verify_step dg s entry = (case entry of (expected, i) \<Rightarrow>
     rbind (require (ss_ordinal i = expected) (StageIntegrity ''manifest ordinals must be contiguous'')) (\<lambda>_.
     rbind (contained_action i) (\<lambda>_.
     rbind (verify_image dg s BeforeImage expected (ss_before i)) (\<lambda>_.
     rbind (verify_image dg s AfterImage expected (ss_after i)) (\<lambda>_.
     step_descriptor i)))))"

definition referenced_files :: "staged_step list \<Rightarrow> string set" where
  "referenced_files steps = (\<Union>i \<in> set steps.
     (if ss_before i = None then {} else {blob_name BeforeImage (ss_ordinal i)}) \<union>
     (if ss_after i = None then {} else {blob_name AfterImage (ss_ordinal i)}))"

definition enumerated :: "'a list \<Rightarrow> (int \<times> 'a) list" where
  "enumerated xs = zip (map int [0..<length xs]) xs"

definition verify :: "digests \<Rightarrow> stages \<Rightarrow> string \<Rightarrow> stage_manifest res" where
  "verify dg ss operation_id =
     rbind (directory_key dg operation_id) (\<lambda>key.
     case fmlookup ss key of
       None \<Rightarrow> Inl (StageIntegrity ''stage manifest is missing or invalid'')
     | Some s \<Rightarrow>
        rbind (require (st_operation s = operation_id \<and> st_key s = key) (StageIntegrity ''stage identity mismatch'')) (\<lambda>_.
        rbind (rmap (verify_step dg s) (enumerated (st_steps s))) (\<lambda>descriptors.
        rbind (require (fmdom' (st_files s) = referenced_files (st_steps s))
                 (StageIntegrity ''stage contains unreferenced or missing files'')) (\<lambda>_.
        Inr \<lparr>mf_operation_id = operation_id, mf_descriptors = descriptors, mf_sha256 = manifest_sha256 dg s\<rparr>))))"

section \<open>Publication\<close>

definition validate_target :: "string \<Rightarrow> string res" where
  "validate_target target =
     (if target = [] \<or> hd target = CHR ''/'' \<or> CHR 0x5C \<in> set target \<or> CHR '':'' \<in> set target \<or>
         (\<exists>part \<in> set (split_on (CHR ''/'') target). part \<in> {'''', ''.'', ''..''})
      then Inl (ValueErr ''projection target is not contained'') else Inr target)"

definition image_of :: "digests \<Rightarrow> string option \<Rightarrow> (string \<times> int) option" where
  "image_of dg v = map_option (\<lambda>b. (sha256_hex dg b, int (length b))) v"

definition staged :: "digests \<Rightarrow> projection_plan \<Rightarrow> staged_step" where
  "staged dg p = \<lparr>ss_tag = pj_tag p, ss_source = pj_source p, ss_target = pj_target p, ss_ordinal = pj_ordinal p,
     ss_before = image_of dg (pj_before p), ss_after = image_of dg (pj_after p)\<rparr>"

definition blobs_of :: "projection_plan \<Rightarrow> (string \<times> string) list" where
  "blobs_of p =
     (case pj_before p of None \<Rightarrow> [] | Some b \<Rightarrow> [(blob_name BeforeImage (pj_ordinal p), b)]) @
     (case pj_after p of None \<Rightarrow> [] | Some b \<Rightarrow> [(blob_name AfterImage (pj_ordinal p), b)])"

definition manifest_value :: "digests \<Rightarrow> string \<Rightarrow> projection_plan list \<Rightarrow> stage res" where
  "manifest_value dg operation_id plans =
     rbind (validate_projection_ordinals (map pj_ordinal plans)) (\<lambda>_.
     rbind (directory_key dg operation_id) (\<lambda>key.
     rbind (rmap (\<lambda>p. validate_target (pj_target p)) plans) (\<lambda>_.
     Inr \<lparr>st_operation = operation_id, st_key = key, st_steps = map (staged dg) plans,
          st_files = fmap_of_list (concat (map blobs_of plans))\<rparr>)))"

definition publish :: "digests \<Rightarrow> stages \<Rightarrow> string \<Rightarrow> projection_plan list \<Rightarrow> (stage_manifest \<times> stages) res" where
  "publish dg ss operation_id plans =
     rbind (manifest_value dg operation_id plans) (\<lambda>s.
     if fmlookup ss (st_key s) \<noteq> None then
       rbind (verify dg ss operation_id) (\<lambda>existing.
       rbind (require (mf_sha256 existing = manifest_sha256 dg s)
                (StageIntegrity ''operation stage already has different content'')) (\<lambda>_.
       Inr (existing, ss)))
     else
       let ss' = fmupd (st_key s) s ss in
       rbind (verify dg ss' operation_id) (\<lambda>m. Inr (m, ss')))"

section \<open>Materialization\<close>

text \<open>One side of an action; the inverse of a rename swaps its paths, and writes and removals turn over.\<close>

definition inverse_action :: "persisted_projection_descriptor \<Rightarrow> string option \<Rightarrow>
    (projection_action_tag \<times> string option \<times> string) res" where
  "inverse_action d blob =
     (case pd_tag d of
        PATH_RENAME \<Rightarrow> (case pd_source d of
            None \<Rightarrow> Inl (TypeErr ''projection target must be contained'')
          | Some source \<Rightarrow> Inr (PATH_RENAME, Some (pd_target d), source))
      | PATH_REMOVE \<Rightarrow> Inr (MARKDOWN_WRITE, pd_source d, pd_target d)
      | MARKDOWN_WRITE \<Rightarrow> Inr (if blob = None then PATH_REMOVE else MARKDOWN_WRITE, pd_source d, pd_target d)
      | tag \<Rightarrow> Inr (tag, pd_source d, pd_target d))"

definition side_digest :: "image_side \<Rightarrow> persisted_projection_descriptor \<Rightarrow> string option \<times> int option" where
  "side_digest side d = (case side of
     BeforeImage \<Rightarrow> (pd_before_sha256 d, pd_before_size d) | AfterImage \<Rightarrow> (pd_after_sha256 d, pd_after_size d))"

definition materialize_one :: "digests \<Rightarrow> stage \<Rightarrow> image_side \<Rightarrow> persisted_projection_descriptor \<Rightarrow>
    materialized_action res" where
  "materialize_one dg s side d =
     (case side_digest side d of (digest, n) \<Rightarrow>
        rbind (case digest of None \<Rightarrow> Inr None
          | Some h \<Rightarrow>
            (case fmlookup (st_files s) (blob_name side (pd_ordinal d)) of
               None \<Rightarrow> Inl (StageIntegrity ''selected staged image is missing'')
             | Some blob \<Rightarrow>
               rbind (require (sha256_hex dg blob = h \<and> Some (int (length blob)) = n)
                        (StageIntegrity ''staged image hash or size mismatch'')) (\<lambda>_. Inr (Some blob)))) (\<lambda>blob.
        rbind (if side = BeforeImage then inverse_action d blob
               else Inr (pd_tag d, pd_source d, pd_target d)) (\<lambda>(tag, source, target).
        MaterializedProjectionAction tag source target (pd_ordinal d) blob)))"

definition manifest_descriptor :: "int \<times> staged_step \<Rightarrow> persisted_projection_descriptor res" where
  "manifest_descriptor entry = (case entry of (expected, i) \<Rightarrow>
     rbind (require (ss_ordinal i = expected) (StageIntegrity ''manifest ordinals must be contiguous'')) (\<lambda>_.
     rbind (contained_action i) (\<lambda>_.
     rbind (require (\<forall>img \<in> set_option (ss_before i) \<union> set_option (ss_after i). image_descriptor_ok img)
              (StageIntegrity ''staged image descriptor is invalid'')) (\<lambda>_.
     step_descriptor i))))"

definition materialize_side :: "digests \<Rightarrow> stages \<Rightarrow> string \<Rightarrow> persisted_projection_descriptor list \<Rightarrow>
    image_side \<Rightarrow> int list \<Rightarrow> materialized_action list res" where
  "materialize_side dg ss operation_id descriptors side ordinals =
     rbind (require (distinct ordinals \<and> (\<forall>n \<in> set ordinals. 0 \<le> n \<and> n < int (length descriptors)))
              (ValueErr ''ordinals must be a unique canonical descriptor subset'')) (\<lambda>_.
     rbind (directory_key dg operation_id) (\<lambda>key.
     case fmlookup ss key of
       None \<Rightarrow> Inl (StageIntegrity ''stage manifest is missing or invalid'')
     | Some s \<Rightarrow>
        rbind (require (st_operation s = operation_id \<and> st_key s = key) (StageIntegrity ''stage identity mismatch'')) (\<lambda>_.
        rbind (require (length (st_steps s) = length descriptors)
                 (StageIntegrity ''staged descriptors do not exactly match manifest'')) (\<lambda>_.
        rbind (rmap manifest_descriptor (enumerated (st_steps s))) (\<lambda>found.
        rbind (require (found = descriptors)
                 (StageIntegrity ''staged descriptors do not exactly match manifest'')) (\<lambda>_.
        rbind (require (fmdom' (st_files s) \<subseteq> referenced_files (st_steps s))
                 (StageIntegrity ''stage contains an unreferenced file'')) (\<lambda>_.
        rmap (\<lambda>n. materialize_one dg s side (descriptors ! nat n)) ordinals)))))))"

section \<open>Collection\<close>

definition orphan_key :: "digests \<Rightarrow> stages \<Rightarrow> string set \<Rightarrow> string \<times> stage \<Rightarrow> string option res" where
  "orphan_key dg ss live entry = (case entry of (name, s) \<Rightarrow>
     if st_operation s \<in> live then Inr None
     else
       rbind (directory_key dg (st_operation s)) (\<lambda>key.
       rbind (require (key = name) (StageIntegrity ''orphan manifest identity mismatch'')) (\<lambda>_.
       rbind (verify dg ss (st_operation s)) (\<lambda>_. Inr (Some name)))))"

definition collect_orphans :: "digests \<Rightarrow> stages \<Rightarrow> string set \<Rightarrow> stages res" where
  "collect_orphans dg ss live =
     rbind (rmap (orphan_key dg ss live) (sorted_list_of_fmap ss)) (\<lambda>names.
     Inr (fmfilter (\<lambda>k. Some k \<notin> set names) ss))"

definition collect_terminal_step :: "digests \<Rightarrow> stages \<Rightarrow> string \<Rightarrow> stages res" where
  "collect_terminal_step dg ss operation_id =
     rbind (directory_key dg operation_id) (\<lambda>key.
     case fmlookup ss key of
       None \<Rightarrow> Inr ss
     | Some s \<Rightarrow>
        rbind (require (st_operation s = operation_id) (StageIntegrity ''terminal manifest identity mismatch'')) (\<lambda>_.
        Inr (fmdrop key ss)))"

fun collect_terminal_operations :: "digests \<Rightarrow> stages \<Rightarrow> string list \<Rightarrow> stages \<times> unit res" where
  "collect_terminal_operations dg ss [] = (ss, Inr ())"
| "collect_terminal_operations dg ss (i # rest) = (case collect_terminal_step dg ss i of
     Inl e \<Rightarrow> (ss, Inl e)
   | Inr ss' \<Rightarrow> collect_terminal_operations dg ss' rest)"

end
