(* ===== verification/Schema.thy ===== *)
theory Schema
  imports Overlay
begin

text \<open>
  The tables of a Space as their ORM models declare them (\<open>app/models/*.py\<close>): the columns with their
  types and nullability, and the CHECK, UNIQUE and FOREIGN KEY constraints, which SQLite enforces on
  every statement (foreign keys too: \<open>PRAGMA foreign_keys=ON\<close> in \<open>app/runtime/sqlite_vfs.py\<close>).
  A table that satisfies them is accepted; \<open>broken_table\<close> names the table of the first row that is not.

  A condition is true, false or unknown, as in SQL; a CHECK refuses a row when it is false. The models
  of the Meta database (\<open>app/db/models\<close>) have no table in a Space and no entry here.
\<close>

section \<open>Conditions\<close>

text \<open>\<open>None\<close> is SQL's NULL.\<close>

fun sql_and :: "bool option \<Rightarrow> bool option \<Rightarrow> bool option" where
  "sql_and (Some False) b = Some False"
| "sql_and (Some True) b = b"
| "sql_and None (Some False) = Some False"
| "sql_and None b = None"

fun sql_or :: "bool option \<Rightarrow> bool option \<Rightarrow> bool option" where
  "sql_or (Some True) b = Some True"
| "sql_or (Some False) b = b"
| "sql_or None (Some True) = Some True"
| "sql_or None b = None"

definition sql_null :: "row \<Rightarrow> string \<Rightarrow> bool option" where
  "sql_null r c = Some (get r c = JNull)"

definition sql_in :: "row \<Rightarrow> string \<Rightarrow> string list \<Rightarrow> bool option" where
  "sql_in r c vs = (case get r c of JNull \<Rightarrow> None | JStr s \<Rightarrow> Some (s \<in> set vs) | _ \<Rightarrow> Some False)"

text \<open>A number is below every text.\<close>

definition sql_at_least :: "row \<Rightarrow> string \<Rightarrow> int \<Rightarrow> bool option" where
  "sql_at_least r c n = (case get r c of JNull \<Rightarrow> None | JInt i \<Rightarrow> Some (n \<le> i)
     | JBool b \<Rightarrow> Some (n \<le> of_bool b) | _ \<Rightarrow> Some True)"

definition sql_at_most :: "row \<Rightarrow> string \<Rightarrow> string \<Rightarrow> bool option" where
  "sql_at_most r c d = (case (get r c, get r d) of
     (JNull, _) \<Rightarrow> None | (_, JNull) \<Rightarrow> None
   | (JInt i, JInt k) \<Rightarrow> Some (i \<le> k)
   | (JInt i, JBool k) \<Rightarrow> Some (i \<le> of_bool k)
   | (JBool i, JInt k) \<Rightarrow> Some (of_bool i \<le> k)
   | (JBool i, JBool k) \<Rightarrow> Some (i \<le> k)
   | (JStr s, JStr t) \<Rightarrow> Some (map (of_char :: char \<Rightarrow> nat) s \<le> map of_char t)
   | (JStr s, _) \<Rightarrow> Some False
   | _ \<Rightarrow> Some True)"

definition sql_differ :: "row \<Rightarrow> string \<Rightarrow> string \<Rightarrow> bool option" where
  "sql_differ r c d = (if get r c = JNull \<or> get r d = JNull then None else Some (\<not> py_eq (get r c) (get r d)))"

definition sql_is_one :: "row \<Rightarrow> string \<Rightarrow> bool option" where
  "sql_is_one r c = (if get r c = JNull then None else Some (py_eq (get r c) (JInt 1)))"

definition sql_length :: "row \<Rightarrow> string \<Rightarrow> nat \<Rightarrow> bool option" where
  "sql_length r c n = (case get r c of JNull \<Rightarrow> None | v \<Rightarrow> Some (length (str_of v) = n))"

text \<open>
  \<open>length(key) BETWEEN 2 AND 10 AND substr(key, 1, 1) GLOB '[A-Z]' AND key NOT GLOB '*[^A-Z0-9]*'\<close>,
  \<open>length(trim(name)) > 0\<close>, which trims spaces only, and the range of an estimate.
\<close>

definition upper_letter :: "char \<Rightarrow> bool" where
  "upper_letter c = (65 \<le> (of_char c :: nat) \<and> (of_char c :: nat) \<le> 90)"

definition key_format :: "row \<Rightarrow> bool option" where
  "key_format r = (case get r ''key'' of JNull \<Rightarrow> None
     | v \<Rightarrow> (let s = str_of v in Some (2 \<le> length s \<and> length s \<le> 10 \<and> upper_letter (hd s) \<and>
         (\<forall>c \<in> set s. upper_letter c \<or> is_digit c))))"

definition name_nonblank :: "row \<Rightarrow> bool option" where
  "name_nonblank r = (case get r ''name'' of JNull \<Rightarrow> None
     | v \<Rightarrow> Some (\<exists>c \<in> set (str_of v). c \<noteq> CHR '' ''))"

definition effort_range :: "row \<Rightarrow> bool option" where
  "effort_range r =
     (let lower = ''effort_estimate_lower_seconds''; upper = ''effort_estimate_upper_seconds'' in
      sql_or (sql_and (sql_null r lower) (sql_null r upper))
        (sql_and (sql_at_least r lower 0) (sql_and (sql_at_least r upper 1) (sql_at_most r lower upper))))"

section \<open>Models\<close>

datatype column_type = TextColumn | IntegerColumn | BooleanColumn

datatype column = Column (co_name: string) (co_type: column_type) (co_nullable: bool)

datatype constraint =
    CheckRow "row \<Rightarrow> bool option"
  | UniqueColumns "string list"
  | UniqueWhere "row \<Rightarrow> bool option" "string list"
  | ForeignKey string string string

text \<open>The flag says whether \<open>updated_at\<close> has an \<open>onupdate\<close> default, as \<open>SyncMixin\<close> declares it.\<close>

datatype table_model = TableModel (tm_onupdate: bool) (tm_columns: "column list") (tm_constraints: "constraint list")

definition sync_columns :: "column list" where
  "sync_columns = [Column ''id'' TextColumn False, Column ''created_at'' TextColumn False,
     Column ''updated_at'' TextColumn False, Column ''version'' IntegerColumn False]"

definition note_model :: table_model where
  "note_model = TableModel True (sync_columns @ [
     Column ''title'' TextColumn False, Column ''content_hash'' TextColumn False,
     Column ''word_count'' IntegerColumn False, Column ''summary'' TextColumn False,
     Column ''tags'' TextColumn False, Column ''category'' TextColumn True,
     Column ''folder_id'' TextColumn True, Column ''status'' TextColumn False,
     Column ''trashed_at'' TextColumn True])
   [CheckRow (\<lambda>r. sql_in r ''status'' [''active'', ''archived''])]"

definition folder_model :: table_model where
  "folder_model = TableModel True (sync_columns @ [
     Column ''name'' TextColumn False, Column ''parent_id'' TextColumn True,
     Column ''icon'' TextColumn True, Column ''color'' TextColumn True,
     Column ''sort_order'' IntegerColumn False, Column ''is_system'' BooleanColumn False,
     Column ''trashed_at'' TextColumn True])
   [UniqueColumns [''parent_id'', ''name''],
     UniqueWhere (\<lambda>r. sql_null r ''parent_id'') [''name'']]"

definition quick_note_model :: table_model where
  "quick_note_model = TableModel True (sync_columns @ [
     Column ''content'' TextColumn False, Column ''mood'' TextColumn True,
     Column ''tags'' TextColumn False, Column ''pinned'' BooleanColumn False,
     Column ''archived_at'' TextColumn True, Column ''archive_file_path'' TextColumn True,
     Column ''folder_id'' TextColumn True, Column ''trashed_at'' TextColumn True,
     Column ''migrated_to_note_id'' TextColumn True])
   [CheckRow (\<lambda>r. sql_or (sql_in r ''mood'' [''normal'', ''happy'', ''sad'', ''tired'', ''excited'', ''calm'']) (sql_null r ''mood''))]"

definition reflection_model :: table_model where
  "reflection_model = TableModel True (sync_columns @ [
     Column ''date'' TextColumn False, Column ''content'' TextColumn False,
     Column ''mood'' TextColumn True, Column ''tags'' TextColumn False,
     Column ''sections'' TextColumn False, Column ''is_structured'' BooleanColumn False])
   [CheckRow (\<lambda>r. sql_in r ''mood'' [''great'', ''good'', ''normal'', ''bad'', ''terrible''])]"

definition habit_model :: table_model where
  "habit_model = TableModel True (sync_columns @ [
     Column ''title'' TextColumn False, Column ''description'' TextColumn False,
     Column ''color'' TextColumn False, Column ''icon'' TextColumn False,
     Column ''target_count'' IntegerColumn False,
     Column ''rest_day_protection'' BooleanColumn False, Column ''rest_days'' TextColumn False,
     Column ''sort_order'' IntegerColumn False, Column ''archived'' BooleanColumn False])
   []"

definition habit_check_in_model :: table_model where
  "habit_check_in_model = TableModel True (sync_columns @ [
     Column ''habit_id'' TextColumn False, Column ''date'' TextColumn False,
     Column ''count'' IntegerColumn False, Column ''note'' TextColumn False])
   []"

definition schedule_model :: table_model where
  "schedule_model = TableModel True (sync_columns @ [
     Column ''title'' TextColumn False, Column ''due_at'' TextColumn False,
     Column ''completed_at'' TextColumn True, Column ''priority'' TextColumn False,
     Column ''color'' TextColumn False, Column ''all_day'' BooleanColumn False,
     Column ''start_time'' TextColumn True, Column ''end_time'' TextColumn True])
   [CheckRow (\<lambda>r. sql_in r ''priority'' [''high'', ''medium'', ''low''])]"

definition time_block_model :: table_model where
  "time_block_model = TableModel True (sync_columns @ [
     Column ''title'' TextColumn False, Column ''date'' TextColumn False,
     Column ''start_time'' TextColumn False, Column ''end_time'' TextColumn False,
     Column ''planned_duration'' IntegerColumn False,
     Column ''actual_duration'' IntegerColumn False, Column ''block_type'' TextColumn False,
     Column ''status'' TextColumn False, Column ''sort_order'' IntegerColumn False])
   [CheckRow (\<lambda>r. sql_in r ''block_type'' [''work'', ''short_break'', ''long_break'']),
     CheckRow (\<lambda>r. sql_in r ''status'' [''planned'', ''in_progress'', ''completed'', ''skipped''])]"

definition memo_comment_model :: table_model where
  "memo_comment_model = TableModel True (sync_columns @ [
     Column ''note_id'' TextColumn False, Column ''content'' TextColumn False])
   []"

definition schedule_quick_note_model :: table_model where
  "schedule_quick_note_model = TableModel True (sync_columns @ [
     Column ''schedule_id'' TextColumn False, Column ''quick_note_id'' TextColumn False])
   []"

definition project_model :: table_model where
  "project_model = TableModel True (sync_columns @ [
     Column ''key'' TextColumn False, Column ''next_work_item_number'' IntegerColumn False,
     Column ''name'' TextColumn False, Column ''description'' TextColumn True,
     Column ''rank'' IntegerColumn False, Column ''default_status_definition_id'' TextColumn False,
     Column ''default_type_definition_id'' TextColumn False, Column ''archived_at'' TextColumn True])
   [ForeignKey ''default_status_definition_id'' ''status_definitions'' ''id'',
     ForeignKey ''default_type_definition_id'' ''type_definitions'' ''id'', UniqueColumns [''key''],
     CheckRow key_format, CheckRow (\<lambda>r. sql_at_least r ''next_work_item_number'' 1)]"

definition status_definition_model :: table_model where
  "status_definition_model = TableModel True (sync_columns @ [
     Column ''name'' TextColumn False, Column ''category'' TextColumn False,
     Column ''icon'' TextColumn True, Column ''color'' TextColumn True,
     Column ''rank'' IntegerColumn False, Column ''system'' BooleanColumn False,
     Column ''archived_at'' TextColumn True])
   [CheckRow (\<lambda>r. sql_in r ''category''
       [''not_started'', ''in_progress'', ''paused'', ''waiting'', ''completed'', ''cancelled'']),
     UniqueColumns [''category'', ''system'']]"

definition type_definition_model :: table_model where
  "type_definition_model = TableModel True (sync_columns @ [
     Column ''name'' TextColumn False, Column ''icon'' TextColumn True,
     Column ''color'' TextColumn True, Column ''rank'' IntegerColumn False,
     Column ''system'' BooleanColumn False, Column ''archived_at'' TextColumn True])
   [CheckRow name_nonblank]"

definition label_model :: table_model where
  "label_model = TableModel True (sync_columns @ [
     Column ''name'' TextColumn False, Column ''color'' TextColumn True,
     Column ''archived_at'' TextColumn True])
   [UniqueColumns [''name'']]"

definition work_item_label_model :: table_model where
  "work_item_label_model = TableModel False ([
     Column ''work_item_id'' TextColumn False, Column ''label_id'' TextColumn False])
   [ForeignKey ''work_item_id'' ''work_items'' ''id'', ForeignKey ''label_id'' ''labels'' ''id'']"

definition asset_model :: table_model where
  "asset_model = TableModel True (sync_columns @ [
     Column ''filename'' TextColumn False, Column ''mime'' TextColumn False,
     Column ''size'' IntegerColumn False, Column ''sha256'' TextColumn False,
     Column ''storage_key'' TextColumn False])
   []"

definition work_item_model :: table_model where
  "work_item_model = TableModel True (sync_columns @ [
     Column ''project_id'' TextColumn False, Column ''display_key'' TextColumn False,
     Column ''title'' TextColumn False, Column ''description'' TextColumn True,
     Column ''type_definition_id'' TextColumn False,
     Column ''status_definition_id'' TextColumn False,
     Column ''pre_waiting_status_definition_id'' TextColumn True,
     Column ''priority'' TextColumn True, Column ''parent_id'' TextColumn True,
     Column ''child_rank'' IntegerColumn False, Column ''completion_window_start'' TextColumn True,
     Column ''completion_window_end'' TextColumn True, Column ''review_point'' TextColumn True,
     Column ''hard_deadline'' TextColumn True,
     Column ''effort_estimate_lower_seconds'' IntegerColumn True,
     Column ''effort_estimate_upper_seconds'' IntegerColumn True,
     Column ''effort_actual_seconds'' IntegerColumn False, Column ''confidence'' TextColumn True,
     Column ''completed_at'' TextColumn True, Column ''cancelled_at'' TextColumn True,
     Column ''archived_at'' TextColumn True, Column ''marked_as_attention'' BooleanColumn False])
   [ForeignKey ''project_id'' ''projects'' ''id'',
     ForeignKey ''type_definition_id'' ''type_definitions'' ''id'',
     ForeignKey ''status_definition_id'' ''status_definitions'' ''id'',
     ForeignKey ''pre_waiting_status_definition_id'' ''status_definitions'' ''id'',
     ForeignKey ''parent_id'' ''work_items'' ''id'',
     UniqueColumns [''project_id'', ''display_key''],
     CheckRow (\<lambda>r. sql_or (sql_null r ''priority'') (sql_in r ''priority'' [''low'', ''medium'', ''high'', ''urgent''])),
     CheckRow (\<lambda>r. sql_or (sql_null r ''confidence'') (sql_in r ''confidence'' [''low'', ''medium'', ''high''])),
     CheckRow (\<lambda>r. sql_at_least r ''effort_actual_seconds'' 0), CheckRow effort_range]"

definition work_item_note_model :: table_model where
  "work_item_note_model = TableModel True (sync_columns @ [
     Column ''work_item_id'' TextColumn False, Column ''document_json'' TextColumn False])
   [ForeignKey ''work_item_id'' ''work_items'' ''id'', UniqueColumns [''work_item_id'']]"

definition relation_model :: table_model where
  "relation_model = TableModel True (sync_columns @ [
     Column ''space_id'' TextColumn False, Column ''from_work_item_id'' TextColumn False,
     Column ''to_work_item_id'' TextColumn False, Column ''relation_type'' TextColumn False,
     Column ''resolution'' TextColumn True, Column ''resolved_at'' TextColumn True])
   [ForeignKey ''from_work_item_id'' ''work_items'' ''id'',
     ForeignKey ''to_work_item_id'' ''work_items'' ''id'',
     CheckRow (\<lambda>r. sql_differ r ''from_work_item_id'' ''to_work_item_id''),
     UniqueColumns [''space_id'', ''from_work_item_id'', ''to_work_item_id'', ''relation_type'']]"

definition focus_session_model :: table_model where
  "focus_session_model = TableModel True (sync_columns @ [
     Column ''session_revision'' IntegerColumn False, Column ''session_type'' TextColumn False,
     Column ''started_at'' TextColumn False, Column ''ended_at'' TextColumn True,
     Column ''pause_started_at'' TextColumn True, Column ''planned_seconds'' IntegerColumn False,
     Column ''gross_seconds'' IntegerColumn False, Column ''paused_seconds'' IntegerColumn False,
     Column ''break_seconds'' IntegerColumn False, Column ''focused_seconds'' IntegerColumn False,
     Column ''timer_completion'' TextColumn True, Column ''validity'' TextColumn False,
     Column ''validity_reason'' TextColumn True, Column ''overall_progress'' TextColumn True,
     Column ''mood'' TextColumn True, Column ''session_note'' TextColumn False,
     Column ''review_state'' TextColumn False, Column ''ownership_state'' TextColumn False])
   [CheckRow (\<lambda>r. foldr (\<lambda>c b. sql_and (sql_at_least r c 0) b)
       [''planned_seconds'', ''gross_seconds'', ''paused_seconds'', ''break_seconds'', ''focused_seconds''] (Some True)),
     CheckRow (\<lambda>r. sql_in r ''validity'' [''pending'', ''valid'', ''invalid'']),
     CheckRow (\<lambda>r. sql_in r ''review_state'' [''not_required'', ''pending'', ''completed'', ''skipped'']),
     CheckRow (\<lambda>r. sql_in r ''ownership_state'' [''authoritative'', ''local_provisional'', ''activation_conflict''])]"

definition session_task_context_model :: table_model where
  "session_task_context_model = TableModel True (sync_columns @ [
     Column ''session_id'' TextColumn False, Column ''project_id'' TextColumn False,
     Column ''level2_work_item_id'' TextColumn False, Column ''title_snapshot'' TextColumn False,
     Column ''parent_snapshot'' TextColumn True, Column ''estimate_snapshot'' TextColumn True,
     Column ''status_snapshot'' TextColumn True, Column ''structure_snapshot'' TextColumn False,
     Column ''linked_at'' TextColumn False, Column ''link_method'' TextColumn False])
   [ForeignKey ''session_id'' ''focus_sessions'' ''id'', UniqueColumns [''session_id'']]"

definition session_attribution_revision_model :: table_model where
  "session_attribution_revision_model = TableModel True (sync_columns @ [
     Column ''session_id'' TextColumn False, Column ''revision'' IntegerColumn False,
     Column ''project_id'' TextColumn False, Column ''level2_work_item_id'' TextColumn False,
     Column ''reason'' TextColumn True, Column ''corrected_from_revision'' IntegerColumn True,
     Column ''effective'' BooleanColumn False])
   [ForeignKey ''session_id'' ''focus_sessions'' ''id'',
     UniqueColumns [''session_id'', ''revision''],
     UniqueWhere (\<lambda>r. sql_is_one r ''effective'') [''session_id'']]"

definition session_work_item_plan_model :: table_model where
  "session_work_item_plan_model = TableModel True (sync_columns @ [
     Column ''session_id'' TextColumn False, Column ''work_item_id'' TextColumn False,
     Column ''title_snapshot'' TextColumn False, Column ''level2_snapshot'' TextColumn True,
     Column ''work_item_version_snapshot'' IntegerColumn False,
     Column ''plan_rank'' IntegerColumn False, Column ''source'' TextColumn False,
     Column ''added_at'' TextColumn False, Column ''removed_at'' TextColumn True,
     Column ''removal_reason'' TextColumn True,
     Column ''current_during_session'' BooleanColumn False,
     Column ''completion_draft'' BooleanColumn False])
   [ForeignKey ''session_id'' ''focus_sessions'' ''id'',
     UniqueColumns [''session_id'', ''work_item_id''],
     CheckRow (\<lambda>r. sql_at_least r ''plan_rank'' 0),
     CheckRow (\<lambda>r. sql_in r ''source'' [''before_start'', ''during_session'', ''review_materialized''])]"

definition session_work_item_outcome_model :: table_model where
  "session_work_item_outcome_model = TableModel True (sync_columns @ [
     Column ''session_id'' TextColumn False, Column ''session_revision'' IntegerColumn False,
     Column ''revision'' IntegerColumn False, Column ''corrected_from_revision'' IntegerColumn True,
     Column ''effective'' BooleanColumn False, Column ''work_item_id'' TextColumn False,
     Column ''touched'' BooleanColumn False, Column ''result'' TextColumn False,
     Column ''persona'' TextColumn True, Column ''execution_persona'' TextColumn True,
     Column ''persona_switched'' BooleanColumn True, Column ''persona_note'' TextColumn True,
     Column ''state_command'' TextColumn False, Column ''command_id'' TextColumn True,
     Column ''reviewed_at'' TextColumn True])
   [ForeignKey ''session_id'' ''focus_sessions'' ''id'',
     UniqueColumns [''session_id'', ''work_item_id'', ''revision''],
     CheckRow (\<lambda>r. sql_in r ''result'' [''completed'', ''progressed'', ''stuck'', ''untouched'', ''cancelled'']),
     CheckRow (\<lambda>r. sql_in r ''state_command'' [''complete'', ''cancel'', ''none'']),
     UniqueWhere (\<lambda>r. sql_is_one r ''effective'') [''session_id'', ''work_item_id'']]"

definition session_command_envelope_model :: table_model where
  "session_command_envelope_model = TableModel False ([
     Column ''command_id'' TextColumn False, Column ''space_id'' TextColumn False,
     Column ''session_id'' TextColumn False, Column ''session_revision'' IntegerColumn False,
     Column ''work_item_id'' TextColumn False, Column ''expected_version'' IntegerColumn False,
     Column ''target_transition'' TextColumn False, Column ''replay_safe'' BooleanColumn False,
     Column ''payload_hash'' TextColumn False, Column ''created_at'' TextColumn False])
   [ForeignKey ''session_id'' ''focus_sessions'' ''id'',
     CheckRow (\<lambda>r. sql_at_least r ''expected_version'' 0),
     CheckRow (\<lambda>r. sql_in r ''target_transition'' [''complete'', ''cancel'']),
     CheckRow (\<lambda>r. sql_length r ''payload_hash'' 64)]"

definition session_command_receipt_model :: table_model where
  "session_command_receipt_model = TableModel False ([
     Column ''command_id'' TextColumn False, Column ''state'' TextColumn False,
     Column ''error_code'' TextColumn True, Column ''retryable'' BooleanColumn False,
     Column ''details_json'' TextColumn True, Column ''result_json'' TextColumn True,
     Column ''updated_at'' TextColumn False])
   [ForeignKey ''command_id'' ''session_command_envelopes'' ''command_id'',
     CheckRow (\<lambda>r. sql_in r ''state''
       [''not_needed'', ''pending'', ''succeeded'', ''failed'', ''conflict'', ''unknown'', ''abandoned''])]"

definition tombstone_model :: table_model where
  "tombstone_model = TableModel False ([
     Column ''id'' IntegerColumn False, Column ''entity_type'' TextColumn False,
     Column ''entity_id'' TextColumn False, Column ''deleted_at'' TextColumn False,
     Column ''delete_sequence'' IntegerColumn True])
   [UniqueColumns [''entity_type'', ''entity_id''],
     CheckRow (\<lambda>r. sql_or (sql_null r ''delete_sequence'') (sql_at_least r ''delete_sequence'' 0))]"

definition sync_outbox_model :: table_model where
  "sync_outbox_model = TableModel False ([
     Column ''id'' IntegerColumn False, Column ''entity_type'' TextColumn False,
     Column ''entity_id'' TextColumn False, Column ''action'' TextColumn False,
     Column ''payload'' TextColumn False, Column ''created_at'' TextColumn False,
     Column ''synced_at'' TextColumn True, Column ''operation_id'' TextColumn True,
     Column ''batch_id'' TextColumn True, Column ''version'' IntegerColumn True,
     Column ''visible'' BooleanColumn False])
   [CheckRow (\<lambda>r. sql_or (sql_null r ''version'') (sql_at_least r ''version'' 0))]"

definition sync_audit_log_model :: table_model where
  "sync_audit_log_model = TableModel False ([
     Column ''id'' IntegerColumn False, Column ''event_type'' TextColumn False,
     Column ''entity_type'' TextColumn False, Column ''entity_id'' TextColumn False,
     Column ''details'' TextColumn False, Column ''created_at'' TextColumn False])
   []"

definition setting_model :: table_model where
  "setting_model = TableModel False ([
     Column ''key'' TextColumn False, Column ''value'' TextColumn False,
     Column ''updated_at'' TextColumn False])
   []"

text \<open>\<open>catalog.model_for(spec.name)\<close>: the model its path names.\<close>

definition space_models :: "(string \<times> table_model) list" where
  "space_models = [
     (''app.models.note.Note'', note_model),
     (''app.models.folder.Folder'', folder_model),
     (''app.models.quick_note.QuickNote'', quick_note_model),
     (''app.models.reflection.Reflection'', reflection_model),
     (''app.models.habit.Habit'', habit_model),
     (''app.models.habit_check_in.HabitCheckIn'', habit_check_in_model),
     (''app.models.schedule.Schedule'', schedule_model),
     (''app.models.time_block.TimeBlock'', time_block_model),
     (''app.models.memo_comment.MemoComment'', memo_comment_model),
     (''app.models.schedule_quick_note.ScheduleQuickNote'', schedule_quick_note_model),
     (''app.models.project.Project'', project_model),
     (''app.models.work_item_definition.StatusDefinition'', status_definition_model),
     (''app.models.work_item_definition.TypeDefinition'', type_definition_model),
     (''app.models.work_item_definition.Label'', label_model),
     (''app.models.work_item_definition.WorkItemLabel'', work_item_label_model),
     (''app.models.asset.Asset'', asset_model),
     (''app.models.work_item.WorkItem'', work_item_model),
     (''app.models.work_item_note.WorkItemNote'', work_item_note_model),
     (''app.models.relation.Relation'', relation_model),
     (''app.models.focus_session.FocusSession'', focus_session_model),
     (''app.models.focus_session.SessionTaskContext'', session_task_context_model),
     (''app.models.session_revision.SessionAttributionRevision'', session_attribution_revision_model),
     (''app.models.session_revision.SessionWorkItemPlan'', session_work_item_plan_model),
     (''app.models.session_revision.SessionWorkItemOutcome'', session_work_item_outcome_model),
     (''app.models.session_command.SessionCommandEnvelope'', session_command_envelope_model),
     (''app.models.session_command.SessionCommandReceipt'', session_command_receipt_model),
     (''app.models.tombstone.Tombstone'', tombstone_model),
     (''app.models.sync_outbox.SyncOutbox'', sync_outbox_model),
     (''app.models.sync_audit_log.SyncAuditLog'', sync_audit_log_model),
     (''app.models.setting.Setting'', setting_model)]"

definition model_for :: "entity_spec \<Rightarrow> table_model" where
  "model_for spec = (case map_of space_models (es_model_path spec) of Some m \<Rightarrow> m | None \<Rightarrow> TableModel False [] [])"

section \<open>Enforcement\<close>

type_synonym table_rows = "((string \<times> json list) \<times> row) list"

text \<open>A value SQLite stores as it is; \<open>Integer\<close> columns hold 64 bits.\<close>

fun column_holds :: "column_type \<Rightarrow> json \<Rightarrow> bool" where
  "column_holds t JNull = True"
| "column_holds TextColumn (JStr s) = True"
| "column_holds IntegerColumn (JInt i) = (- (2 ^ 63) \<le> i \<and> i < 2 ^ 63)"
| "column_holds BooleanColumn (JBool b) = True"
| "column_holds _ _ = False"

text \<open>Rows with a NULL among the columns are distinct from all others.\<close>

definition same_values :: "string list \<Rightarrow> row \<Rightarrow> row \<Rightarrow> bool" where
  "same_values cs r q = (\<forall>c \<in> set cs. get r c \<noteq> JNull \<and> py_eq (get r c) (get q c))"

definition constraint_holds :: "catalog \<Rightarrow> table_rows \<Rightarrow> string \<times> json list \<Rightarrow> row \<Rightarrow> constraint \<Rightarrow> bool" where
  "constraint_holds ct rows key r k = (case k of
     CheckRow p \<Rightarrow> p r \<noteq> Some False
   | UniqueColumns cs \<Rightarrow> \<not> (\<exists>(key', q) \<in> set rows. fst key' = fst key \<and> key' \<noteq> key \<and> same_values cs r q)
   | UniqueWhere p cs \<Rightarrow> p r = Some True \<longrightarrow>
       \<not> (\<exists>(key', q) \<in> set rows. fst key' = fst key \<and> key' \<noteq> key \<and> p q = Some True \<and> same_values cs r q)
   | ForeignKey c table target \<Rightarrow> get r c = JNull \<or>
       (\<exists>(key', q) \<in> set rows. (case catalog_get ct (fst key') of None \<Rightarrow> False | Some s \<Rightarrow> es_table_name s = table) \<and>
          py_eq (get r c) (get q target)))"

text \<open>A column that is missing from a row takes the default of its model.\<close>

definition row_accepted :: "catalog \<Rightarrow> table_rows \<Rightarrow> string \<times> json list \<Rightarrow> row \<Rightarrow> bool" where
  "row_accepted ct rows key r = (case catalog_get ct (fst key) of None \<Rightarrow> True | Some spec \<Rightarrow>
     (\<forall>c \<in> set (tm_columns (model_for spec)). co_nullable c \<or> fmlookup r (co_name c) \<noteq> Some JNull) \<and>
     (\<forall>k \<in> set (tm_constraints (model_for spec)). constraint_holds ct rows key r k))"

definition broken_table :: "catalog \<Rightarrow> table_rows \<Rightarrow> string option" where
  "broken_table ct rows = map_option (\<lambda>(key, r). case catalog_get ct (fst key) of None \<Rightarrow> [] | Some spec \<Rightarrow> es_table_name spec)
     (find (\<lambda>(key, r). \<not> row_accepted ct rows key r) rows)"

text \<open>The first table broken in a sequence of states.\<close>

fun first_broken :: "catalog \<Rightarrow> table_rows list \<Rightarrow> string option" where
  "first_broken ct [] = None"
| "first_broken ct (rows # states) = (case broken_table ct rows of None \<Rightarrow> first_broken ct states | Some t \<Rightarrow> Some t)"

lemma first_broken_append: "first_broken ct (xs @ ys) = (case first_broken ct xs of None \<Rightarrow> first_broken ct ys | Some t \<Rightarrow> Some t)"
  by (induction xs) (auto split: option.splits)

lemma broken_table_None: "broken_table ct rows = None \<longleftrightarrow> (\<forall>(key, r) \<in> set rows. row_accepted ct rows key r)"
  by (auto simp: broken_table_def find_None_iff)

lemma first_broken_None: "first_broken ct states = None \<longleftrightarrow> (\<forall>rows \<in> set states. broken_table ct rows = None)"
  by (induction states) (auto split: option.splits)

end
