(* ===== verification/Commit.thy ===== *)
theory Commit
  imports TaskSpace Journal Schema
begin

text \<open>
  What a batch does to the database of a Space (\<open>app/mutation/unit_of_work.py\<close>,
  \<open>app/services/sync_outbox.py\<close>): the interpreter of persisted plans, the ledger of sync events, the
  tombstones, and the one transaction that commits the business effects of a batch. The rows of all
  entity tables are one association list under entity type and identity, in the order of insertion.

  A transaction is a function from a database to the next one, or the exception that rolls it back. The
  interpreter works on a SQLAlchemy session that flushes before every query, so each plan sees the
  effects of the plans before it; the flush at the end fails when a declared constraint of a table is
  broken. What SQLAlchemy and SQLite decide is a parameter, \<open>engine\<close>.
\<close>

section \<open>The database of a Space\<close>

record space_db =
  sd_rows :: table_rows
  sd_tombstones :: "(string \<times> string, string \<times> int option) fmap"
  sd_cursor :: int
  sd_journal :: journal

record projection_snapshot =
  sn_markdown :: "(string, string) fmap"
  sn_index :: "(string, string) fmap"
  sn_fts :: "(string, string) fmap"

text \<open>\<open>AuthorityOverlay.from_locked_authorities\<close>; the two kinds of derived projections have disjoint keys.\<close>

definition derived_of :: "projection_snapshot \<Rightarrow> (projection_action_tag \<times> string, string option) fmap" where
  "derived_of sn = fmap_of_list (
     map (\<lambda>(t, v). ((INDEX_REPLACE, t), Some v)) (sorted_list_of_fmap (sn_index sn)) @
     map (\<lambda>(t, v). ((FTS_REPLACE, t), Some v)) (sorted_list_of_fmap (sn_fts sn)))"

definition from_locked_authorities :: "catalog \<Rightarrow> space_db \<Rightarrow> projection_snapshot \<Rightarrow> overlay" where
  "from_locked_authorities ct db sn =
     \<lparr>ov_catalog = ct,
      ov_map = concat (map (\<lambda>spec. if es_category spec = META then []
          else filter (\<lambda>((kind, _), _). kind = es_name spec) (sd_rows db)) (catalog_list ct)),
      ov_tombstones = fmdom' (sd_tombstones db),
      ov_markdown = sn_markdown sn,
      ov_derived = derived_of sn,
      ov_reserved = fmdom' (sn_markdown sn)\<rparr>"

section \<open>Interpreting plans\<close>

definition valid_shape :: "db_plan \<Rightarrow> bool" where
  "valid_shape plan = (case pl_op plan of
     Insert \<Rightarrow> pl_before plan = None \<and> pl_after plan \<noteq> None \<and> pl_expected plan = None
   | Update \<Rightarrow> pl_before plan \<noteq> None \<and> pl_after plan \<noteq> None
   | Delete \<Rightarrow> pl_before plan \<noteq> None \<and> pl_after plan = None)"

definition validate_persisted_plan :: "catalog \<Rightarrow> db_plan \<Rightarrow> entity_spec res" where
  "validate_persisted_plan ct plan =
     (case find (\<lambda>spec. es_table_name spec = pl_table plan) (catalog_list ct) of
        None \<Rightarrow> Inl (SpaceRecoveryRequired (''unknown persisted mutation table: '' @ pl_table plan))
      | Some spec \<Rightarrow>
        rbind (require (fmdom' (pl_pk plan) = set (pk_field_set spec))
                 (SpaceRecoveryRequired ''persisted mutation primary key conflicts with the catalog'')) (\<lambda>_.
        rbind (require (\<forall>r \<in> set_option (pl_before plan) \<union> set_option (pl_after plan). complete_row spec plan r)
                 (SpaceRecoveryRequired ''persisted mutation row conflicts with the catalog'')) (\<lambda>_.
        rbind (require (valid_shape plan)
                 (SpaceRecoveryRequired ''persisted mutation operation has invalid row images'')) (\<lambda>_.
        rbind (require (pl_op plan = Insert \<or> (case pl_before plan of None \<Rightarrow> True
                 | Some before \<Rightarrow> version_is before (pl_expected plan)))
                 (SpaceRecoveryRequired ''persisted mutation CAS conflicts with its before image'')) (\<lambda>_.
        Inr spec)))))"

definition plan_key :: "entity_spec \<Rightarrow> db_plan \<Rightarrow> string \<times> json list" where
  "plan_key spec plan = (es_name spec, pk_values spec (pl_pk plan))"

definition identity_for_plan :: "entity_spec \<Rightarrow> db_plan \<Rightarrow> json" where
  "identity_for_plan spec plan =
     (if es_composite_primary_key spec \<noteq> None then json_of_row (pl_pk plan)
      else fld (pl_pk plan) (es_primary_key spec))"

text \<open>
  What the database library decides: what becomes of a value that is not of its column's type (it is
  converted or refused), the clock reading an \<open>onupdate\<close> default takes when a row is written, and the
  states the tables pass through while one flush writes its statements in an order of its own.
\<close>

record engine =
  en_bind :: "column_type \<Rightarrow> json \<Rightarrow> json res"
  en_clock :: "row \<Rightarrow> string"
  en_between :: "table_rows \<Rightarrow> table_rows \<Rightarrow> table_rows list"

definition bind_column :: "engine \<Rightarrow> row \<Rightarrow> column \<Rightarrow> row res" where
  "bind_column en r c = (case fmlookup r (co_name c) of
     None \<Rightarrow> Inr r
   | Some v \<Rightarrow> if column_holds (co_type c) v then Inr r
       else rbind (en_bind en (co_type c) v) (\<lambda>w. Inr (fmupd (co_name c) w r)))"

definition bind_row :: "engine \<Rightarrow> table_model \<Rightarrow> row \<Rightarrow> row res" where
  "bind_row en m r = rfold (bind_column en) r (tm_columns m)"

text \<open>\<open>setattr\<close> for every column of an image.\<close>

definition set_columns :: "row \<Rightarrow> row \<Rightarrow> row" where
  "set_columns r img = r ++\<^sub>f img"

text \<open>
  An \<open>UPDATE\<close> names the columns whose value changed; when \<open>updated_at\<close> is not among them, its
  \<open>onupdate\<close> default is written. Without a change there is no statement.
\<close>

definition update_row :: "engine \<Rightarrow> table_model \<Rightarrow> row \<Rightarrow> row \<Rightarrow> row res" where
  "update_row en m r img =
     (let changed = fmfilter (\<lambda>k. fmlookup r k \<noteq> fmlookup img k) img in
      if changed = fmempty then Inr r
      else
        rbind (bind_row en m (if tm_onupdate m \<and> ''updated_at'' \<notin> fmdom' changed
                 then fmupd ''updated_at'' (JStr (en_clock en (set_columns r img))) changed else changed)) (\<lambda>written.
        Inr (set_columns r written)))"

text \<open>
  \<open>session.flush()\<close>. SQLite checks the rows that a statement writes or that refer to it; since every
  earlier statement was checked, only such rows can break a constraint of the tables.
\<close>

definition flush_states :: "engine \<Rightarrow> table_rows \<Rightarrow> table_rows \<Rightarrow> table_rows list" where
  "flush_states en before after = (if after = before then [] else en_between en before after @ [after])"

definition flush :: "catalog \<Rightarrow> engine \<Rightarrow> table_rows \<Rightarrow> table_rows \<Rightarrow> table_rows res" where
  "flush ct en before after = (case first_broken ct (flush_states en before after) of
     None \<Rightarrow> Inr after | Some t \<Rightarrow> Inl (IntegrityErr t))"

definition db_apply_plan :: "catalog \<Rightarrow> engine \<Rightarrow> table_rows \<Rightarrow> db_plan \<Rightarrow> table_rows res" where
  "db_apply_plan ct en rows plan =
     rbind (validate_persisted_plan ct plan) (\<lambda>spec.
     let key = plan_key spec plan; identity = identity_for_plan spec plan in
     if pl_op plan = Insert then
       (case pl_after plan of
          None \<Rightarrow> Inl (SpaceRecoveryRequired ''insert plan has no after image'')
        | Some after \<Rightarrow>
          if map_of rows key \<noteq> None then Inl (IntegrityErr (es_table_name spec))
          else rbind (bind_row en (model_for spec) after) (\<lambda>r. Inr (AList.update key r rows)))
     else
       (case map_of rows key of
          None \<Rightarrow> violate ''not_found'' [(''entityId'', identity)] False
        | Some r \<Rightarrow>
          if \<not> version_is r (pl_expected plan) then violate ''version_conflict'' [(''entityId'', identity)] False
          else if pl_op plan = Update then
            (case pl_after plan of
               None \<Rightarrow> Inl (SpaceRecoveryRequired ''update plan has no after image'')
             | Some after \<Rightarrow> rbind (update_row en (model_for spec) r after) (\<lambda>q. Inr (AList.update key q rows)))
          else Inr (AList.delete key rows)))"

definition db_restore_plan :: "catalog \<Rightarrow> engine \<Rightarrow> table_rows \<Rightarrow> db_plan \<Rightarrow> table_rows res" where
  "db_restore_plan ct en rows plan =
     rbind (validate_persisted_plan ct plan) (\<lambda>spec.
     let key = plan_key spec plan in
     if pl_op plan = Insert then Inr (AList.delete key rows)
     else
       (case pl_before plan of
          None \<Rightarrow> Inr rows
        | Some before \<Rightarrow>
          (case map_of rows key of
             None \<Rightarrow> rbind (bind_row en (model_for spec) before) (\<lambda>r. Inr (AList.update key r rows))
           | Some r \<Rightarrow> rbind (update_row en (model_for spec) r before) (\<lambda>q. Inr (AList.update key q rows)))))"

definition interpreter_apply :: "catalog \<Rightarrow> engine \<Rightarrow> table_rows \<Rightarrow> db_plan list \<Rightarrow> table_rows res" where
  "interpreter_apply ct en rows plans = rbind (rfold (db_apply_plan ct en) rows plans) (flush ct en rows)"

definition interpreter_restore :: "catalog \<Rightarrow> engine \<Rightarrow> table_rows \<Rightarrow> db_plan list \<Rightarrow> table_rows res" where
  "interpreter_restore ct en rows plans = rbind (rfold (db_restore_plan ct en) rows (rev plans)) (flush ct en rows)"

section \<open>The ledger\<close>

text \<open>\<open>json.dumps\<close> with its default separators and sorted keys.\<close>

fun spaced :: "string list \<Rightarrow> string" where
  "spaced [] = []"
| "spaced [x] = x"
| "spaced (x # y # xs) = x @ '', '' @ spaced (y # xs)"

fun dumps_spaced :: "json \<Rightarrow> string" where
  "dumps_spaced JNull = ''null''"
| "dumps_spaced (JBool b) = (if b then ''true'' else ''false'')"
| "dumps_spaced (JInt i) = int_text i"
| "dumps_spaced (JStr s) = quote s"
| "dumps_spaced (JList xs) = CHR ''['' # spaced (map dumps_spaced xs) @ '']''"
| "dumps_spaced (JObj kvs) = CHR ''{'' # spaced (map (\<lambda>(k, v). quote k @ '': '' @ dumps_spaced v) kvs) @ ''}''"

definition payload_text :: "row \<Rightarrow> string" where
  "payload_text payload = dumps_spaced (normal (json_of_row payload))"

text \<open>The next value of an integer primary key.\<close>

definition next_sequence :: "ledger_event list \<Rightarrow> int" where
  "next_sequence ledger = 1 + foldr max (map le_seq ledger) 0"

definition with_ledger :: "space_db \<Rightarrow> (ledger_event list \<Rightarrow> ledger_event list) \<Rightarrow> space_db" where
  "with_ledger db f = db\<lparr>sd_journal := (sd_journal db)\<lparr>jr_ledger := f (jr_ledger (sd_journal db))\<rparr>\<rparr>"

definition record_sync_event :: "space_db \<Rightarrow> string \<Rightarrow> string \<Rightarrow> sync_action \<Rightarrow> row \<Rightarrow> string option \<Rightarrow>
    string option \<Rightarrow> int option \<Rightarrow> string \<Rightarrow> bool \<Rightarrow> (int \<times> space_db) res" where
  "record_sync_event db entity_type entity_id action payload operation_id batch_id version created_at visible =
     rbind (require (py_strip entity_type \<noteq> []) (ValueErr ''entity_type must not be empty'')) (\<lambda>_.
     rbind (require (py_strip entity_id \<noteq> []) (ValueErr ''entity_id must not be empty'')) (\<lambda>_.
     rbind (require (case version of None \<Rightarrow> True | Some n \<Rightarrow> 0 \<le> n)
              (ValueErr ''version must be a nonnegative integer or null'')) (\<lambda>_.
     let sequence = next_sequence (jr_ledger (sd_journal db));
         event = \<lparr>le_seq = sequence, le_type = entity_type, le_id = entity_id, le_action = action,
           le_payload = payload_text payload, le_op = operation_id, le_batch = batch_id, le_version = version,
           le_created = created_at, le_visible = visible\<rparr> in
     Inr (sequence, (with_ledger db (\<lambda>l. l @ [event]))\<lparr>sd_cursor := max (sd_cursor db) sequence\<rparr>))))"

section \<open>The business transaction\<close>

definition with_journal :: "space_db \<Rightarrow> (journal \<Rightarrow> journal res) \<Rightarrow> space_db res" where
  "with_journal db f = rbind (f (sd_journal db)) (\<lambda>j. Inr (db\<lparr>sd_journal := j\<rparr>))"

text \<open>The images of the plans are stored with the operation; \<open>missing\<close> is the exception when it is gone.\<close>

definition store_images :: "string \<Rightarrow> exc \<Rightarrow> db_plan list \<Rightarrow> journal \<Rightarrow> string \<Rightarrow> journal res" where
  "store_images batch_id missing plans j operation_id =
     rbind (require (case get_op j operation_id of None \<Rightarrow> False | Some q \<Rightarrow> jo_batch q = batch_id) missing) (\<lambda>_.
     Inr (j\<lparr>jr_ops := update_where (\<lambda>q. jo_id q = operation_id)
       (jo_images_update (\<lambda>_. Some (map pl_before plans, map pl_after plans))) (jr_ops j)\<rparr>))"

definition apply_operation :: "catalog \<Rightarrow> engine \<Rightarrow> string \<Rightarrow> exc \<Rightarrow> space_db \<Rightarrow> string \<times> db_plan list \<Rightarrow> space_db res" where
  "apply_operation ct en batch_id missing db entry = (case entry of (operation_id, plans) \<Rightarrow>
     rbind (interpreter_apply ct en (sd_rows db) plans) (\<lambda>rows.
     with_journal (db\<lparr>sd_rows := rows\<rparr>) (\<lambda>j. store_images batch_id missing plans j operation_id)))"

definition spec_of :: "catalog \<Rightarrow> string \<Rightarrow> entity_spec res" where
  "spec_of ct t = (case catalog_get ct t of None \<Rightarrow> Inl (KeyErr t) | Some spec \<Rightarrow> Inr spec)"

type_synonym delete_sequences = "(string \<times> string, int) fmap"

definition commit_event :: "catalog \<Rightarrow> string \<Rightarrow> string \<Rightarrow> space_db \<times> delete_sequences \<Rightarrow> sync_event \<Rightarrow>
    (space_db \<times> delete_sequences) res" where
  "commit_event ct batch_id operation_id st e = (case st of (db, deletes) \<Rightarrow>
     rbind (spec_of ct (ev_type e)) (\<lambda>spec.
     rbind (require (es_sync_enabled spec) (violation ''not_found'' [(''entityType'', JStr (ev_type e))] False)) (\<lambda>_.
     rbind (sync_wire_payload spec (ev_payload e)) (\<lambda>payload.
     rbind (record_sync_event db (effective_sync_entity_type spec) (ev_id e) (ev_action e) payload
              (Some operation_id) (Some batch_id) (Some (ev_version e)) (ev_created_at e) False) (\<lambda>(sequence, db').
     Inr (db', if ev_action e = EvDelete then fmupd (effective_sync_entity_type spec, ev_id e) sequence deletes
               else deletes))))))"

definition commit_operation :: "catalog \<Rightarrow> string \<Rightarrow> space_db \<times> delete_sequences \<Rightarrow> string \<times> sync_event list \<Rightarrow>
    (space_db \<times> delete_sequences) res" where
  "commit_operation ct batch_id st entry = (case (st, entry) of ((db, deletes), (operation_id, events)) \<Rightarrow>
     rbind (with_journal db (\<lambda>j. transition_op j operation_id STAGED DB_COMMITTED)) (\<lambda>db'.
     rfold (commit_event ct batch_id operation_id) (db', deletes) events))"

text \<open>\<open>DELETE\<close> then \<open>INSERT\<close>: one deletion proof per entity, with the sequence of its event.\<close>

definition put_tombstone :: "catalog \<Rightarrow> delete_sequences \<Rightarrow> space_db \<Rightarrow> sync_event \<Rightarrow> space_db res" where
  "put_tombstone ct deletes db e =
     (if ev_action e \<noteq> EvDelete then Inr db
      else rbind (spec_of ct (ev_type e)) (\<lambda>spec.
        let key = (effective_sync_entity_type spec, ev_id e) in
        Inr (db\<lparr>sd_tombstones := fmupd key (ev_created_at e, fmlookup deletes key) (sd_tombstones db)\<rparr>)))"

definition commit_business :: "catalog \<Rightarrow> engine \<Rightarrow> string \<Rightarrow> space_db \<Rightarrow> (string \<times> command) list \<Rightarrow> space_db res" where
  "commit_business ct en batch_id db entries =
     rbind (rfold (apply_operation ct en batch_id
              (SpaceRecoveryRequired ''journal operation disappeared during business commit''))
              db (map (\<lambda>(i, c). (i, cm_plans c)) entries)) (\<lambda>db1.
     rbind (rfold (commit_operation ct batch_id) (db1, fmempty) (map (\<lambda>(i, c). (i, cm_events c)) entries)) (\<lambda>(db2, deletes).
     rfold (put_tombstone ct deletes) db2 (concat (map (\<lambda>(i, c). cm_events c) entries))))"

end
