(* ===== verification/Projections.thy ===== *)
theory Projections
  imports Staging Commit
begin

text \<open>
  The file projections of a Space (\<open>app/file_system/engine/base.py\<close>): Markdown files, the rows of the
  index database and the full text table, the contained actions on them, and the snapshot the
  authority overlay and recovery read. A Markdown file is found under its path relative to the Notes
  directory, where the leading \<open>notes/\<close> of a target is dropped; the contained storage is modelled.
  The index holds the tables of \<open>app/file_system/schema.py\<close>; its foreign key and unique constraints
  are left out, its triggers on the full text table are kept.
\<close>

section \<open>State\<close>

record file_system =
  fs_text :: "(string, string) fmap"
  fs_index :: "(string \<times> string, row) fmap"
  fs_search :: "(string, string \<times> string) fmap"

text \<open>Table, primary key and columns.\<close>

definition INDEX_TABLES :: "(string \<times> string \<times> string list) list" where
  "INDEX_TABLES =
     [(''notes'', ''note_id'', [''note_id'', ''title'', ''current_path'', ''content_hash'', ''folder_id'', ''level'',
         ''status'', ''tags'', ''word_count'', ''is_deleted'', ''summary'', ''category'', ''trashed_at'',
         ''created_at'', ''updated_at'']),
      (''folders'', ''id'', [''id'', ''name'', ''parent_id'', ''icon'', ''color'', ''sort_order'', ''is_system'',
         ''trashed_at'', ''created_at'', ''updated_at'']),
      (''note_versions'', ''version_id'', [''version_id'', ''note_id'', ''content_hash'', ''change_summary'',
         ''created_at''])]"

definition has_prefix :: "string \<Rightarrow> string \<Rightarrow> bool" where
  "has_prefix p s = (take (length p) s = p)"

text \<open>\<open>_BoundNotesAuthority._translate\<close>.\<close>

definition translate :: "string \<Rightarrow> string res" where
  "translate p =
     (let parts = split_on (CHR ''/'') p in
      if p = [] \<or> CHR 0x5C \<in> set p \<or> CHR '':'' \<in> set p \<or> (\<exists>part \<in> set parts. part \<in> {'''', ''.'', ''..''})
      then Inl (ValueErr ''note storage path must be normalized and relative'')
      else if hd parts \<noteq> ''notes'' then Inr p
      else if tl parts = [] then Inl (ValueErr ''note storage path cannot name the authority root'')
      else Inr (drop (length ''notes/'') p))"

definition file_exists :: "file_system \<Rightarrow> string \<Rightarrow> bool res" where
  "file_exists fs p = rbind (translate p) (\<lambda>k. Inr (fmlookup (fs_text fs) k \<noteq> None))"

section \<open>Actions\<close>

definition canonical_projection_blob :: "json \<Rightarrow> string" where
  "canonical_projection_blob v = canonical_ascii v"

definition projection_payload :: "string option \<Rightarrow> (string \<times> json) list res" where
  "projection_payload blob =
     (case blob of
        None \<Rightarrow> Inl (ValueErr ''projection action requires a JSON payload'')
      | Some b \<Rightarrow>
        (case json_loads b of
           None \<Rightarrow> Inl (ValueErr ''projection action payload is not canonical JSON'')
         | Some (JObj kvs) \<Rightarrow> rbind (require (canonical_projection_blob (JObj kvs) = b)
             (ValueErr ''projection action payload is not canonical JSON'')) (\<lambda>_. Inr kvs)
         | Some _ \<Rightarrow> Inl (ValueErr ''projection action payload must be a JSON object'')))"

definition apply_markdown_write :: "file_system \<Rightarrow> materialized_action \<Rightarrow> file_system res" where
  "apply_markdown_write fs a =
     (case ma_blob a of
        None \<Rightarrow> Inl (ValueErr ''markdown write requires bytes'')
      | Some content \<Rightarrow> rbind (translate (ma_target a)) (\<lambda>k. Inr (fs\<lparr>fs_text := fmupd k content (fs_text fs)\<rparr>)))"

definition apply_path_rename :: "file_system \<Rightarrow> materialized_action \<Rightarrow> file_system res" where
  "apply_path_rename fs a =
     (case ma_source a of
        None \<Rightarrow> Inl (ValueErr ''path rename requires a source'')
      | Some source \<Rightarrow>
        rbind (translate source) (\<lambda>s.
        case fmlookup (fs_text fs) s of
          None \<Rightarrow> rbind (file_exists fs (ma_target a)) (\<lambda>there. if there then Inr fs else Inl (FileNotFound source))
        | Some content \<Rightarrow>
          rbind (translate (ma_target a)) (\<lambda>t.
          rbind (require (fmlookup (fs_text fs) t = None) (FileExistsErr (ma_target a))) (\<lambda>_.
          Inr (fs\<lparr>fs_text := fmupd t content (fmdrop s (fs_text fs))\<rparr>)))))"

text \<open>The copy of a removed Note below \<open>.trash/\<close> goes too.\<close>

definition unlink_if_exists :: "file_system \<Rightarrow> string \<Rightarrow> file_system res" where
  "unlink_if_exists fs p = rbind (translate p) (\<lambda>k. Inr (fs\<lparr>fs_text := fmdrop k (fs_text fs)\<rparr>))"

definition apply_path_remove :: "file_system \<Rightarrow> materialized_action \<Rightarrow> file_system res" where
  "apply_path_remove fs a =
     rbind (unlink_if_exists fs (ma_target a)) (\<lambda>fs1.
     if has_prefix ''notes/'' (ma_target a)
     then unlink_if_exists fs1 (''.trash/'' @ drop (length ''notes/'') (ma_target a)) else Inr fs1)"

text \<open>The triggers on \<open>notes\<close>: a new Note gets an empty body, an updated one its title, a deleted one goes.\<close>

definition search_upsert :: "(string, string \<times> string) fmap \<Rightarrow> string \<Rightarrow> string \<Rightarrow> bool \<Rightarrow>
    (string, string \<times> string) fmap" where
  "search_upsert search identity title existed =
     (if \<not> existed then fmupd identity (title, []) search
      else case fmlookup search identity of
        None \<Rightarrow> search | Some (_, content) \<Rightarrow> fmupd identity (title, content) search)"

definition delete_versions :: "(string \<times> string, row) fmap \<Rightarrow> string \<Rightarrow> (string \<times> string, row) fmap" where
  "delete_versions index identity = fmfilter (\<lambda>k. \<not> (fst k = ''note_versions'' \<and>
     (case fmlookup index k of None \<Rightarrow> False | Some r \<Rightarrow> get r ''note_id'' = JStr identity))) index"

definition index_projection_identity :: "materialized_action \<Rightarrow> (string \<times> string \<times> string list \<times> string) res" where
  "index_projection_identity a =
     (case split_on (CHR ''/'') (ma_target a) of
        [prefix, table, key, identity] \<Rightarrow>
          if prefix \<noteq> ''index'' then Inl (ValueErr ''index target must be index/<table>/<primary-key>/<value>'')
          else (case map_of INDEX_TABLES table of
              None \<Rightarrow> Inl (ValueErr ''index target is not owned by the index schema'')
            | Some (pk, columns) \<Rightarrow> if pk \<noteq> key then Inl (ValueErr ''index target is not owned by the index schema'')
                else Inr (table, pk, columns, identity))
      | _ \<Rightarrow> Inl (ValueErr ''index target must be index/<table>/<primary-key>/<value>''))"

definition apply_index_replace :: "file_system \<Rightarrow> materialized_action \<Rightarrow> file_system res" where
  "apply_index_replace fs a =
     rbind (index_projection_identity a) (\<lambda>(table, pk, columns, identity).
     let key = (table, identity); existed = (fmlookup (fs_index fs) key \<noteq> None) in
     if ma_blob a = None then
       Inr (fs\<lparr>fs_index := fmdrop key (if table = ''notes'' then delete_versions (fs_index fs) identity else fs_index fs),
              fs_search := (if table = ''notes'' then fmdrop identity (fs_search fs) else fs_search fs)\<rparr>)
     else
       rbind (projection_payload (ma_blob a)) (\<lambda>payload.
       case payload of
         [(k, JObj kvs)] \<Rightarrow>
           rbind (require (k = ''row'') (ValueErr ''index projection payload must contain one complete row'')) (\<lambda>_.
           let r = dict kvs in
           rbind (require (fmdom' r = set columns \<and> str_of (fld r pk) = identity)
                    (ValueErr ''index projection row does not match its target'')) (\<lambda>_.
           Inr (fs\<lparr>fs_index := fmupd key r (fs_index fs),
                  fs_search := (if table = ''notes'' then search_upsert (fs_search fs) identity (str_of (fld r ''title'')) existed
                                else fs_search fs)\<rparr>)))
       | _ \<Rightarrow> Inl (ValueErr ''index projection payload must contain one complete row'')))"

definition apply_fts_replace :: "file_system \<Rightarrow> materialized_action \<Rightarrow> file_system res" where
  "apply_fts_replace fs a =
     (case split_on (CHR ''/'') (ma_target a) of
        [prefix, note_id] \<Rightarrow>
          if prefix \<noteq> ''fts'' then Inl (ValueErr ''FTS target must be fts/<note-id>'')
          else if fmlookup (fs_index fs) (''notes'', note_id) = None then
            (if ma_blob a = None then Inr fs else Inl (KeyErr note_id))
          else if ma_blob a = None then Inr (fs\<lparr>fs_search := fmdrop note_id (fs_search fs)\<rparr>)
          else
            rbind (projection_payload (ma_blob a)) (\<lambda>payload.
            case (map_of payload ''title'', map_of payload ''content'') of
              (Some (JStr title), Some (JStr content)) \<Rightarrow>
                rbind (require (set (map fst payload) = {''content'', ''title''}) (ValueErr ''FTS projection payload is invalid'')) (\<lambda>_.
                Inr (fs\<lparr>fs_search := fmupd note_id (title, content) (fs_search fs)\<rparr>))
            | _ \<Rightarrow> Inl (ValueErr ''FTS projection payload is invalid''))
      | _ \<Rightarrow> Inl (ValueErr ''FTS target must be fts/<note-id>''))"

definition apply_one_contained_action :: "file_system \<Rightarrow> materialized_action \<Rightarrow> file_system res" where
  "apply_one_contained_action fs a = (case ma_tag a of
     MARKDOWN_WRITE \<Rightarrow> apply_markdown_write fs a
   | PATH_RENAME \<Rightarrow> apply_path_rename fs a
   | PATH_REMOVE \<Rightarrow> apply_path_remove fs a
   | INDEX_REPLACE \<Rightarrow> apply_index_replace fs a
   | FTS_REPLACE \<Rightarrow> apply_fts_replace fs a)"

section \<open>The snapshot\<close>

definition is_markdown :: "string \<Rightarrow> bool" where
  "is_markdown k = (has_prefix (rev ''.md'') (rev k))"

definition note_files :: "file_system \<Rightarrow> (string \<times> string) list" where
  "note_files fs = map (\<lambda>(k, v). (''notes/'' @ k, v))
     (filter (\<lambda>(k, v). is_markdown k \<and> hd (split_on (CHR ''/'') k) \<notin> {''.meta'', ''.trash''})
       (sorted_list_of_fmap (fs_text fs)))"

definition trash_files :: "file_system \<Rightarrow> (string \<times> string) list" where
  "trash_files fs = filter (\<lambda>(k, v). is_markdown k \<and> has_prefix ''.trash/'' k) (sorted_list_of_fmap (fs_text fs))"

definition index_blobs :: "file_system \<Rightarrow> (string \<times> string) list" where
  "index_blobs fs = concat (map (\<lambda>((table, identity), r). case map_of INDEX_TABLES table of
       None \<Rightarrow> []
     | Some (pk, _) \<Rightarrow> [(''index/'' @ table @ ''/'' @ pk @ ''/'' @ identity,
         canonical_projection_blob (JObj [(''row'', json_of_row r)]))])
     (sorted_list_of_fmap (fs_index fs)))"

definition fts_blobs :: "file_system \<Rightarrow> (string \<times> string) list" where
  "fts_blobs fs = concat (map (\<lambda>(note_id, (title, content)).
       if fmlookup (fs_index fs) (''notes'', note_id) = None then []
       else [(''fts/'' @ note_id, canonical_projection_blob (JObj [(''content'', JStr content), (''title'', JStr title)]))])
     (sorted_list_of_fmap (fs_search fs)))"

definition snapshot_projection_authority :: "file_system \<Rightarrow> projection_snapshot" where
  "snapshot_projection_authority fs =
     \<lparr>sn_markdown = fmap_of_list (note_files fs @ trash_files fs),
      sn_index = fmap_of_list (index_blobs fs),
      sn_fts = fmap_of_list (fts_blobs fs)\<rparr>"

end
