(* ===== verification/Validation.thy ===== *)
theory Validation
  imports Projections
begin

text \<open>
  The checks a compiled command passes before it is accepted, and a persisted one before it is replayed
  (\<open>app/mutation/unit_of_work.py\<close>): its plans, events and projections must fit the catalog and each
  other, and the projections of Notes must fit the authoritative paths and bodies. The texts of Markdown
  files and their UTF-8 encodings are identified, so decoding never fails. The slug of a title, from the
  package \<open>slugify\<close>, is the parameter \<open>slug\<close>.
\<close>

section \<open>Front matter and file names\<close>

fun after_delimiter :: "string list \<Rightarrow> string list option" where
  "after_delimiter [] = None"
| "after_delimiter (l # ls) = (if py_strip l = ''---'' then Some ls else after_delimiter ls)"

fun has_pair :: "char \<Rightarrow> char \<Rightarrow> string \<Rightarrow> bool" where
  "has_pair a b (x # y # s) = ((x = a \<and> y = b) \<or> has_pair a b (y # s))"
| "has_pair a b _ = False"

definition is_mapping_line :: "string \<Rightarrow> bool" where
  "is_mapping_line line = (has_pair (CHR '':'') (CHR '' '') line \<or> (line \<noteq> [] \<and> last line = CHR '':''))"

fun mapping_block :: "bool \<Rightarrow> string list \<Rightarrow> bool" where
  "mapping_block seen [] = False"
| "mapping_block seen (l # ls) =
     (if py_strip l = ''---'' then seen else mapping_block (seen \<or> is_mapping_line (py_strip l)) ls)"

definition has_frontmatter :: "string \<Rightarrow> bool" where
  "has_frontmatter content =
     (content \<noteq> [] \<and> (case split_on (CHR 0x0A) content of
        [] \<Rightarrow> False
      | first # rest \<Rightarrow> py_strip first = ''---'' \<and> mapping_block False rest))"

fun join_lines :: "string list \<Rightarrow> string" where
  "join_lines [] = []"
| "join_lines [l] = l"
| "join_lines (l # m # ls) = l @ CHR 0x0A # join_lines (m # ls)"

definition strip_frontmatter :: "string \<Rightarrow> string" where
  "strip_frontmatter content =
     (if \<not> has_frontmatter content then content
      else case after_delimiter (tl (split_on (CHR 0x0A) content)) of
        None \<Rightarrow> content
      | Some rest \<Rightarrow> dropWhile (\<lambda>c. c = CHR 0x0A) (join_lines rest))"

definition make_filename :: "(string \<Rightarrow> string) \<Rightarrow> string \<Rightarrow> string \<Rightarrow> string" where
  "make_filename slug note_id title =
     note_id @ ''-'' @ (if slug title = [] then ''untitled'' else slug title) @ ''.md''"

definition note_file :: "(string \<Rightarrow> string) \<Rightarrow> string \<Rightarrow> string \<Rightarrow> json \<Rightarrow> string" where
  "note_file slug identity title folder_id =
     (if folder_id = JNull then ''notes/'' @ make_filename slug identity title
      else ''notes/'' @ str_of folder_id @ ''/'' @ make_filename slug identity title)"

section \<open>Commands under check\<close>

datatype projection_ref = PlanRef projection_plan | DescRef persisted_projection_descriptor

fun pr_tag :: "projection_ref \<Rightarrow> projection_action_tag" where
  "pr_tag (PlanRef p) = pj_tag p"
| "pr_tag (DescRef d) = pd_tag d"

fun pr_source :: "projection_ref \<Rightarrow> string option" where
  "pr_source (PlanRef p) = pj_source p"
| "pr_source (DescRef d) = pd_source d"

fun pr_target :: "projection_ref \<Rightarrow> string" where
  "pr_target (PlanRef p) = pj_target p"
| "pr_target (DescRef d) = pd_target d"

fun pr_ordinal :: "projection_ref \<Rightarrow> int" where
  "pr_ordinal (PlanRef p) = pj_ordinal p"
| "pr_ordinal (DescRef d) = pd_ordinal d"

fun before_digest :: "digests \<Rightarrow> projection_ref \<Rightarrow> string option" where
  "before_digest dg (PlanRef p) = map_option (sha256_hex dg) (pj_before p)"
| "before_digest dg (DescRef d) = pd_before_sha256 d"

fun projection_after_digest :: "digests \<Rightarrow> projection_ref \<Rightarrow> string option" where
  "projection_after_digest dg (PlanRef p) = map_option (sha256_hex dg) (pj_after p)"
| "projection_after_digest dg (DescRef d) = pd_after_sha256 d"

text \<open>A \<open>MutationCommand\<close> or a \<open>PersistedMutationCommand\<close>.\<close>

datatype any_command = Compiled command | Persisted persisted_command

fun ck_request :: "any_command \<Rightarrow> request" where
  "ck_request (Compiled c) = cm_request c"
| "ck_request (Persisted p) = pc_request p"

fun ck_plans :: "any_command \<Rightarrow> db_plan list" where
  "ck_plans (Compiled c) = cm_plans c"
| "ck_plans (Persisted p) = pc_plans p"

fun ck_events :: "any_command \<Rightarrow> sync_event list" where
  "ck_events (Compiled c) = cm_events c"
| "ck_events (Persisted p) = pc_events p"

fun ck_projections :: "any_command \<Rightarrow> projection_ref list" where
  "ck_projections (Compiled c) = map PlanRef (cm_projections c)"
| "ck_projections (Persisted p) = map DescRef (pc_projections p)"

fun ck_value :: "any_command \<Rightarrow> row" where
  "ck_value (Compiled c) = cm_value c"
| "ck_value (Persisted p) = pc_value p"

fun is_compiled :: "any_command \<Rightarrow> bool" where
  "is_compiled (Compiled c) = True"
| "is_compiled (Persisted p) = False"

abbreviation recovery_required :: "string \<Rightarrow> 'a res" where
  "recovery_required message \<equiv> Inl (SpaceRecoveryRequired message)"

section \<open>Events\<close>

definition event_payload_ok :: "digests \<Rightarrow> entity_spec \<Rightarrow> sync_event \<Rightarrow> bool" where
  "event_payload_ok dg spec e =
     (if ev_action e = EvDelete then row_eq (ev_payload e) (dict [(''deleted_at'', JStr (ev_created_at e))])
      else
        let base = set (field_names spec);
            expected = base \<union> (if es_name spec = ''note'' then {''content''} else {}) \<union>
              (if es_name spec = ''work_item'' then {''label_ids''} else {});
            payload = ev_payload e in
        (fmdom' payload = expected \<or>
         es_name spec = ''work_item'' \<and> fmdom' payload = expected - {''label_ids''}) \<and>
        str_of (get payload (es_primary_key spec)) = ev_id e \<and>
        py_eq (get payload ''version'') (JInt (ev_version e)) \<and>
        (es_name spec = ''note'' \<longrightarrow> (case get payload ''content'' of
           JStr content \<Rightarrow> get payload ''content_hash'' = JStr (sha256_hex dg content) | _ \<Rightarrow> False)))"

definition validate_sync_event :: "digests \<Rightarrow> catalog \<Rightarrow> sync_event \<Rightarrow> entity_spec res" where
  "validate_sync_event dg ct e =
     (case catalog_get ct (ev_type e) of
        None \<Rightarrow> recovery_required ''persisted sync entity is outside the compiled catalog''
      | Some spec \<Rightarrow>
        rbind (require (es_sync_enabled spec) (SpaceRecoveryRequired ''persisted sync entity is not sync-enabled'')) (\<lambda>_.
        rbind (require (event_payload_ok dg spec e)
                 (SpaceRecoveryRequired ''persisted sync event conflicts with the catalog'')) (\<lambda>_. Inr spec)))"

text \<open>\<open>str(plan.primary_key[spec.primary_key])\<close>.\<close>

definition plan_identity :: "db_plan \<Rightarrow> entity_spec \<Rightarrow> string res" where
  "plan_identity plan spec = rbind (pget (pl_pk plan) (es_primary_key spec)) (\<lambda>v. Inr (str_of v))"

definition event_action :: "operation \<Rightarrow> sync_action" where
  "event_action op = (case op of Insert \<Rightarrow> EvCreate | Update \<Rightarrow> EvUpdate | Delete \<Rightarrow> EvDelete)"

definition matching_sync_events :: "any_command \<Rightarrow> db_plan \<Rightarrow> entity_spec \<Rightarrow> sync_event list res" where
  "matching_sync_events c plan spec =
     (if filter (\<lambda>e. ev_type e = es_name spec) (ck_events c) = [] then Inr []
      else
        rbind (plan_identity plan spec) (\<lambda>identity.
        Inr (filter (\<lambda>e. ev_type e = es_name spec \<and> ev_id e = identity \<and> ev_action e = event_action (pl_op plan))
          (ck_events c))))"

section \<open>Note paths\<close>

definition NOTE_COLUMNS :: "string list" where
  "NOTE_COLUMNS = (case map_of INDEX_TABLES ''notes'' of None \<Rightarrow> [] | Some (_, columns) \<Rightarrow> columns)"

definition note_index_row_from_blob :: "string option \<Rightarrow> string \<Rightarrow> string \<Rightarrow> row option res" where
  "note_index_row_from_blob payload identity label =
     (case payload of
        None \<Rightarrow> Inr None
      | Some b \<Rightarrow>
        (case json_loads b of
           Some (JObj kvs) \<Rightarrow>
             (case map_of kvs ''row'' of
                Some (JObj columns) \<Rightarrow>
                  let r = dict columns in
                  rbind (require (fmdom' r = set NOTE_COLUMNS)
                           (SpaceRecoveryRequired (label @ '' Note index row is incomplete''))) (\<lambda>_.
                  rbind (require (get r ''note_id'' = JStr identity \<and>
                             (case get r ''current_path'' of JStr p \<Rightarrow> p \<noteq> [] | _ \<Rightarrow> False))
                           (SpaceRecoveryRequired (label @ '' Note path projection is invalid''))) (\<lambda>_.
                  rbind (require (get r ''level'' \<in> {JStr ''L1'', JStr ''L2'', JStr ''L3''} \<and>
                             (case get r ''is_deleted'' of JBool _ \<Rightarrow> True | _ \<Rightarrow> False))
                           (SpaceRecoveryRequired (label @ '' Note index row does not match the database image''))) (\<lambda>_.
                  Inr (Some r))))
              | _ \<Rightarrow> recovery_required (label @ '' Note path projection is invalid''))
         | _ \<Rightarrow> recovery_required (label @ '' Note path projection is invalid'')))"

definition note_path_from_index_blob :: "string option \<Rightarrow> string \<Rightarrow> string \<Rightarrow> string option res" where
  "note_path_from_index_blob payload identity label =
     rbind (note_index_row_from_blob payload identity label) (\<lambda>r.
     Inr (map_option (\<lambda>x. str_of (fld x ''current_path'')) r))"

definition derived_projection :: "overlay \<Rightarrow> projection_action_tag \<Rightarrow> string \<Rightarrow> string option" where
  "derived_projection ov tag target = (case fmlookup (ov_derived ov) (tag, target) of None \<Rightarrow> None | Some v \<Rightarrow> v)"

definition authority_note_path :: "overlay \<Rightarrow> string \<Rightarrow> string option res" where
  "authority_note_path ov identity = note_path_from_index_blob
     (derived_projection ov INDEX_REPLACE (''index/notes/note_id/'' @ identity)) identity ''authority''"

definition note_index_row_matches :: "row \<Rightarrow> row \<Rightarrow> bool" where
  "note_index_row_matches index_row db_row =
     (py_eq (fld index_row ''note_id'') (get db_row ''id'') \<and>
      (\<forall>field \<in> fmdom' db_row \<inter> fmdom' index_row. py_eq (fld index_row field) (fld db_row field)) \<and>
      truthy (fld index_row ''is_deleted'') = (get db_row ''trashed_at'' \<noteq> JNull))"

definition validate_note_index_row :: "row option \<Rightarrow> row option \<Rightarrow> string \<Rightarrow> unit res" where
  "validate_note_index_row index_row db_row label =
     require (case (index_row, db_row) of
         (None, None) \<Rightarrow> True
       | (Some i, Some r) \<Rightarrow> note_index_row_matches i r
       | _ \<Rightarrow> False)
       (SpaceRecoveryRequired (label @ '' Note index row does not match the database image''))"

record note_paths =
  np_before :: "string option"
  np_after :: "string option"

definition note_projection_paths :: "command \<Rightarrow> db_plan \<Rightarrow> string \<Rightarrow> overlay \<Rightarrow> note_paths res" where
  "note_projection_paths c plan identity ov =
     (case filter (\<lambda>p. pj_tag p = INDEX_REPLACE \<and> pj_target p = ''index/notes/note_id/'' @ identity) (cm_projections c) of
        [p] \<Rightarrow>
          rbind (note_index_row_from_blob (pj_before p) identity ''before-image'') (\<lambda>before_row.
          rbind (note_index_row_from_blob (pj_after p) identity ''after-image'') (\<lambda>after_row.
          rbind (validate_note_index_row before_row (pl_before plan) ''before-image'') (\<lambda>_.
          rbind (validate_note_index_row after_row (pl_after plan) ''after-image'') (\<lambda>_.
          let before = map_option (\<lambda>r. str_of (fld r ''current_path'')) before_row;
              after = map_option (\<lambda>r. str_of (fld r ''current_path'')) after_row in
          rbind (authority_note_path ov identity) (\<lambda>authoritative.
          rbind (require (case pl_op plan of
               Insert \<Rightarrow> authoritative = None \<and> before = None \<and> after \<noteq> None
             | Update \<Rightarrow> authoritative \<noteq> None \<and> before = authoritative \<and> after \<noteq> None
             | Delete \<Rightarrow> authoritative \<noteq> None \<and> before = authoritative \<and> after = None)
             (SpaceRecoveryRequired ''projection does not match the authoritative Note path'')) (\<lambda>_.
          Inr \<lparr>np_before = before, np_after = after\<rparr>))))))
      | _ \<Rightarrow> recovery_required ''projection-backed entity requires complete bound projections'')"

definition persisted_note_path :: "(string \<Rightarrow> string) \<Rightarrow> string \<Rightarrow> row \<Rightarrow> string option" where
  "persisted_note_path slug identity r = (case get r ''title'' of JNull \<Rightarrow> None
     | title \<Rightarrow> Some (note_file slug identity (str_of title) (get r ''folder_id'')))"

section \<open>Binding the bodies of Notes to their events\<close>

definition note_after_body :: "command \<Rightarrow> db_plan \<Rightarrow> string \<Rightarrow> overlay \<Rightarrow> string res" where
  "note_after_body c plan identity ov =
     rbind (note_projection_paths c plan identity ov) (\<lambda>paths.
     let writes = filter (\<lambda>p. pj_tag p = MARKDOWN_WRITE \<and> Some (pj_target p) = np_after paths) (cm_projections c) in
     rbind (require (length writes \<le> 1)
              (SpaceRecoveryRequired ''Note mutation has multiple authoritative Markdown bodies'')) (\<lambda>_.
     case (case writes of
        w # _ \<Rightarrow> pj_after w
      | [] \<Rightarrow> (case np_before paths of None \<Rightarrow> None | Some p \<Rightarrow> fmlookup (ov_markdown ov) p)) of
       None \<Rightarrow> recovery_required ''Note mutation has no authoritative Markdown after-body''
     | Some body \<Rightarrow> Inr (strip_frontmatter body)))"

text \<open>\<open>events[events.index(event)] = replacement\<close>: the first equal event is replaced.\<close>

fun replace_first :: "('a \<Rightarrow> bool) \<Rightarrow> 'a \<Rightarrow> 'a list \<Rightarrow> 'a list" where
  "replace_first p y [] = []"
| "replace_first p y (x # xs) = (if p x then y # xs else x # replace_first p y xs)"

definition bind_plan :: "command \<Rightarrow> catalog \<Rightarrow> overlay \<Rightarrow> sync_event list \<times> bool \<Rightarrow> db_plan \<Rightarrow>
    (sync_event list \<times> bool) res" where
  "bind_plan c ct ov st plan = (case st of (events, changed) \<Rightarrow>
     rbind (validate_persisted_plan ct plan) (\<lambda>spec.
     if es_name spec \<noteq> ''note'' \<or> pl_op plan = Delete then Inr (events, changed)
     else
       rbind (matching_sync_events (Compiled c) plan spec) (\<lambda>matching.
       case matching of
         [event] \<Rightarrow>
           rbind (plan_identity plan spec) (\<lambda>identity.
           rbind (note_after_body c plan identity ov) (\<lambda>content.
           rbind (require (\<not> has_key (ev_payload event) ''content'' \<or> get (ev_payload event) ''content'' = JStr content)
                    (SpaceRecoveryRequired ''compiled Note event conflicts with the authoritative Markdown body'')) (\<lambda>_.
           rbind (SyncEventPlan (ev_type event) (ev_id event) (ev_action event)
                    (updates (ev_payload event) [(''content'', JStr content)])
                    (JInt (ev_version event)) (JStr (ev_created_at event))) (\<lambda>replacement.
           Inr (replace_first (\<lambda>e. e = event) replacement events, True)))))
       | _ \<Rightarrow> Inr (events, changed))))"

definition bind_authoritative_note_event_bodies :: "digests \<Rightarrow> command \<Rightarrow> catalog \<Rightarrow> overlay \<Rightarrow> command res" where
  "bind_authoritative_note_event_bodies dg c ct ov =
     rbind (rfold (bind_plan c ct ov) (cm_events c, False) (cm_plans c)) (\<lambda>(events, changed).
     if \<not> changed then Inr c
     else command_from_effects dg (cm_request c) (cm_plans c) (cm_projections c) events (cm_value c) (cm_resolution c))"

section \<open>Which projection belongs to which plan\<close>

definition projection_belongs_to_plan :: "projection_ref \<Rightarrow> entity_spec \<Rightarrow> string \<Rightarrow> note_paths option \<Rightarrow>
    string option \<Rightarrow> bool" where
  "projection_belongs_to_plan p spec identity paths persisted_identity =
     (let target = pr_target p; tag = pr_tag p in
      if es_name spec = ''note'' then
        (case tag of
           INDEX_REPLACE \<Rightarrow> target = ''index/notes/note_id/'' @ identity
         | FTS_REPLACE \<Rightarrow> target = ''fts/'' @ identity
         | MARKDOWN_WRITE \<Rightarrow> if persisted_identity \<noteq> None then persisted_identity = Some identity
             else (case paths of None \<Rightarrow> False | Some np \<Rightarrow> Some target = np_after np)
         | PATH_RENAME \<Rightarrow> if persisted_identity \<noteq> None then persisted_identity = Some identity
             else (case paths of None \<Rightarrow> False
               | Some np \<Rightarrow> (case pr_source p of None \<Rightarrow> Some ''None'' | s \<Rightarrow> s) = np_before np \<and> Some target = np_after np)
         | PATH_REMOVE \<Rightarrow> if persisted_identity \<noteq> None then persisted_identity = Some identity
             else (case paths of None \<Rightarrow> False | Some np \<Rightarrow> Some target = np_before np))
      else es_name spec = ''folder'' \<and> tag = INDEX_REPLACE \<and> target = ''index/folders/id/'' @ identity)"

definition content_changed :: "any_command \<Rightarrow> db_plan \<Rightarrow> bool" where
  "content_changed c plan = (rq_name (ck_request c) = ''knowledge.note.update_content'' \<and>
     (case (pl_before plan, pl_after plan) of
        (Some before, Some after) \<Rightarrow> \<not> py_eq (get before ''content_hash'') (get after ''content_hash'')
      | _ \<Rightarrow> False))"

definition version_id :: "any_command \<Rightarrow> string" where
  "version_id c = ''v_'' @ take 12 (rq_hash (ck_request c))"

definition projection_belongs_to_note_version :: "projection_ref \<Rightarrow> any_command \<Rightarrow> db_plan \<Rightarrow> bool" where
  "projection_belongs_to_note_version p c plan =
     (content_changed c plan \<and>
      (pr_tag p = MARKDOWN_WRITE \<and> pr_target p = ''.meta/version_backups/'' @ version_id c @ ''.md'' \<or>
       pr_tag p = INDEX_REPLACE \<and> pr_target p = ''index/note_versions/version_id/'' @ version_id c))"

definition note_version_expected :: "any_command \<Rightarrow> db_plan \<Rightarrow> string \<Rightarrow> json" where
  "note_version_expected c plan identity = JObj [(''row'', JObj
     [(''version_id'', JStr (version_id c)), (''note_id'', JStr identity),
      (''content_hash'', JStr (str_of (get_or (the (pl_before plan)) ''content_hash'' (JStr [])))),
      (''change_summary'', JStr ''edit''), (''created_at'', JStr (str_of (fld (the (pl_after plan)) ''updated_at'')))])]"

definition validate_version_images :: "any_command \<Rightarrow> db_plan \<Rightarrow> string \<Rightarrow> overlay option \<Rightarrow> projection_ref list \<Rightarrow>
    unit res" where
  "validate_version_images c plan identity authority found =
     (case (find (\<lambda>p. pr_tag p = MARKDOWN_WRITE) found, find (\<lambda>p. pr_tag p = INDEX_REPLACE) found) of
        (Some (PlanRef backup), Some (PlanRef index)) \<Rightarrow>
          rbind (case authority of None \<Rightarrow> Inr None
             | Some ov \<Rightarrow> rbind (authority_note_path ov identity) (\<lambda>path.
                 Inr (case path of None \<Rightarrow> None | Some p \<Rightarrow> fmlookup (ov_markdown ov) p))) (\<lambda>authoritative.
          rbind (require (pj_before backup = None \<and> pj_after backup = authoritative)
                   (SpaceRecoveryRequired ''Note version backup differs from authoritative Markdown'')) (\<lambda>_.
          rbind (case pj_after index of None \<Rightarrow> Inr JNull
             | Some b \<Rightarrow> (case json_loads b of None \<Rightarrow> recovery_required ''Note version index is invalid'' | Some v \<Rightarrow> Inr v))
            (\<lambda>index_payload.
          require (pj_before index = None \<and> py_eq index_payload (note_version_expected c plan identity))
            (SpaceRecoveryRequired ''Note version index is invalid''))))
      | _ \<Rightarrow> require (\<forall>p \<in> set found. case p of DescRef d \<Rightarrow> pd_before_sha256 d = None \<and> pd_after_sha256 d \<noteq> None | _ \<Rightarrow> False)
               (SpaceRecoveryRequired ''persisted Note version projection images are invalid''))"

definition validate_note_version_projections :: "any_command \<Rightarrow> db_plan \<Rightarrow> string \<Rightarrow> overlay option \<Rightarrow> unit res" where
  "validate_note_version_projections c plan identity authority =
     (let found = filter (\<lambda>p. projection_belongs_to_note_version p c plan) (ck_projections c) in
      if \<not> content_changed c plan
      then require (found = []) (SpaceRecoveryRequired ''Note version projection exists without a content change'')
      else
        rbind (require (length found = 2 \<and> pr_tag ` set found = {MARKDOWN_WRITE, INDEX_REPLACE})
                 (SpaceRecoveryRequired ''Note content update requires complete version projections'')) (\<lambda>_.
        validate_version_images c plan identity authority found))"

definition required_projection_tags :: "db_plan \<Rightarrow> entity_spec \<Rightarrow> projection_action_tag set" where
  "required_projection_tags plan spec =
     (if es_name spec = ''folder'' then {INDEX_REPLACE}
      else if es_storage_type spec \<noteq> FS_DB_SPLIT then {}
      else case pl_op plan of
        Insert \<Rightarrow> {MARKDOWN_WRITE, INDEX_REPLACE, FTS_REPLACE}
      | Delete \<Rightarrow> {PATH_REMOVE, INDEX_REPLACE, FTS_REPLACE}
      | Update \<Rightarrow>
          let differs = (\<lambda>field. \<not> py_eq (get (the (pl_before plan)) field) (get (the (pl_after plan)) field)) in
          {INDEX_REPLACE} \<union>
          (if differs ''content_hash'' then {MARKDOWN_WRITE, FTS_REPLACE} else {}) \<union>
          (if differs ''folder_id'' \<or> differs ''title'' then {PATH_RENAME} else {}) \<union>
          (if differs ''title'' then {FTS_REPLACE} else {}))"

section \<open>Maintenance commands\<close>

definition validate_focus_session_rebuild_command :: "digests \<Rightarrow> any_command \<Rightarrow> catalog \<Rightarrow> unit res" where
  "validate_focus_session_rebuild_command dg c ct =
     (let rq = ck_request c; payload = rq_payload rq;
          text_at = (\<lambda>k. case get payload k of JStr _ \<Rightarrow> True | _ \<Rightarrow> False) in
      rbind (require (rq_entity_type rq = ''focus_session'' \<and> rq_expected_version rq = None \<and>
               rq_client_updated_at rq = None \<and>
               fmdom' payload \<subseteq> {''space_id'', ''operation'', ''requested_at'', ''work_item_id'', ''payload_hash''} \<and>
               (has_key payload ''operation'' \<longrightarrow> get payload ''operation'' = JStr ''rebuild_effort_projection'') \<and>
               text_at ''space_id'' \<and> text_at ''requested_at'' \<and>
               {''rebuilt'', ''count'', ''mismatches_repaired''} \<subseteq> fmdom' (ck_value c))
               (SpaceRecoveryRequired ''invalid focus_session effort rebuild command'')) (\<lambda>_.
      rbind (if get payload ''payload_hash'' = JNull then Inr ()
             else case require_payload_hash dg (str_of (get payload ''payload_hash''))
                 (fmfilter (\<lambda>k. k \<notin> {''space_id'', ''payload_hash''}) payload) of
               Inr _ \<Rightarrow> Inr ()
             | Inl (ValueErr _) \<Rightarrow> recovery_required ''invalid focus_session effort rebuild payload hash''
             | Inl e \<Rightarrow> Inl e) (\<lambda>_.
      rbind (require (has_key payload ''work_item_id'' \<longrightarrow> text_at ''work_item_id'')
               (SpaceRecoveryRequired ''invalid focus_session effort rebuild target'')) (\<lambda>_.
      rforeach (\<lambda>plan. rbind (validate_persisted_plan ct plan) (\<lambda>spec.
        require (es_name spec = ''work_item'' \<and> pl_op plan = Update)
          (SpaceRecoveryRequired ''focus_session effort rebuild may update WorkItem projections only''))) (ck_plans c)))))"

definition rebuild_targets_valid :: "string list \<Rightarrow> (string \<times> row) list \<Rightarrow> string set \<Rightarrow> overlay \<Rightarrow> projection_ref \<Rightarrow> bool" where
  "rebuild_targets_valid folder_ids note_rows note_targets ov p =
     (let target = pr_target p; notes = fst ` set note_rows in
      case pr_tag p of
        INDEX_REPLACE \<Rightarrow> target \<in> (\<lambda>i. ''index/folders/id/'' @ i) ` set folder_ids \<or>
          target \<in> (\<lambda>i. ''index/notes/note_id/'' @ i) ` notes
      | FTS_REPLACE \<Rightarrow> target \<in> (\<lambda>i. ''fts/'' @ i) ` notes
      | MARKDOWN_WRITE \<Rightarrow> target \<in> note_targets
      | PATH_RENAME \<Rightarrow> target \<in> note_targets \<and>
          (case pr_source p of None \<Rightarrow> False | Some s \<Rightarrow> fmlookup (ov_markdown ov) s \<noteq> None)
      | PATH_REMOVE \<Rightarrow> False)"

definition projection_count :: "projection_ref list \<Rightarrow> projection_action_tag \<Rightarrow> string \<Rightarrow> nat" where
  "projection_count ps tag target = length (filter (\<lambda>p. pr_tag p = tag \<and> pr_target p = target) ps)"

definition validate_rebuild_authority :: "(string \<Rightarrow> string) \<Rightarrow> any_command \<Rightarrow> overlay \<Rightarrow> unit res" where
  "validate_rebuild_authority slug c ov =
     rbind (ov_rows ov ''folder'') (\<lambda>folders.
     rbind (ov_rows ov ''note'') (\<lambda>notes.
     let folder_ids = map (\<lambda>r. str_of (fld r ''id'')) folders;
         note_rows = map (\<lambda>r. (str_of (fld r ''id''), r)) notes;
         ps = ck_projections c;
         note_targets = (\<lambda>(i, r). note_file slug i (str_of (fld r ''title'')) (get r ''folder_id'')) ` set note_rows in
     rbind (require (row_eq (ck_value c) (dict [(''rebuiltFolders'', JInt (int (card (set folder_ids)))),
                                                (''rebuiltNotes'', JInt (int (card (fst ` set note_rows))))]))
              (SpaceRecoveryRequired ''knowledge rebuild result count is invalid'')) (\<lambda>_.
     rbind (require (\<forall>p \<in> set ps. rebuild_targets_valid folder_ids note_rows note_targets ov p)
              (SpaceRecoveryRequired ''knowledge rebuild projection is outside locked authority'')) (\<lambda>_.
     require ((\<forall>i \<in> set folder_ids. projection_count ps INDEX_REPLACE (''index/folders/id/'' @ i) = 1) \<and>
              (\<forall>(i, r) \<in> set note_rows. projection_count ps INDEX_REPLACE (''index/notes/note_id/'' @ i) = 1 \<and>
                 projection_count ps FTS_REPLACE (''fts/'' @ i) = 1) \<and>
              (\<forall>f \<in> note_targets. projection_count ps MARKDOWN_WRITE f \<le> 1 \<and> projection_count ps PATH_RENAME f \<le> 1))
       (SpaceRecoveryRequired ''knowledge rebuild projections do not cover complete locked authority'')))))"

definition validate_knowledge_rebuild_command :: "(string \<Rightarrow> string) \<Rightarrow> any_command \<Rightarrow> overlay option \<Rightarrow> unit res" where
  "validate_knowledge_rebuild_command slug c authority =
     (let rq = ck_request c;
          count_ok = (\<lambda>k. case get (ck_value c) k of JInt n \<Rightarrow> 0 \<le> n | _ \<Rightarrow> False) in
      rbind (require (rq_entity_type rq = ''note'' \<and> rq_payload rq = fmempty \<and> rq_expected_version rq = None \<and>
               rq_client_updated_at rq = None \<and> ck_plans c = [] \<and> ck_events c = [] \<and>
               fmdom' (ck_value c) = {''rebuiltFolders'', ''rebuiltNotes''} \<and>
               count_ok ''rebuiltFolders'' \<and> count_ok ''rebuiltNotes'')
               (SpaceRecoveryRequired ''knowledge rebuild command shape is invalid'')) (\<lambda>_.
      rbind (require (\<forall>p \<in> set (ck_projections c). pr_tag p \<noteq> PATH_REMOVE)
               (SpaceRecoveryRequired ''knowledge rebuild projection tag is invalid'')) (\<lambda>_.
      case authority of
        None \<Rightarrow> require (\<forall>p \<in> set (ck_projections c). \<exists>prefix \<in> {''notes/'', ''index/folders/id/'', ''index/notes/note_id/'', ''fts/''}.
             has_prefix prefix (pr_target p))
             (SpaceRecoveryRequired ''knowledge rebuild projection target is invalid'')
      | Some ov \<Rightarrow> validate_rebuild_authority slug c ov)))"

section \<open>A whole command\<close>

definition path_tags :: "projection_action_tag list" where
  "path_tags = [MARKDOWN_WRITE, PATH_RENAME, PATH_REMOVE]"

type_synonym checked_plan = "db_plan \<times> entity_spec \<times> projection_action_tag set"

definition legacy_path_owner :: "checked_plan list \<Rightarrow> projection_action_tag \<Rightarrow> string option res" where
  "legacy_path_owner plans tag =
     (case filter (\<lambda>(plan, spec, required). es_name spec = ''note'' \<and> tag \<in> required) plans of
        [(plan, spec, _)] \<Rightarrow> rbind (plan_identity plan spec) (\<lambda>i. Inr (Some i))
      | _ \<Rightarrow> Inr None)"

definition persisted_match :: "(string \<Rightarrow> string) \<Rightarrow> projection_ref \<Rightarrow> checked_plan \<Rightarrow> string list res" where
  "persisted_match slug p entry = (case entry of (plan, spec, _) \<Rightarrow>
     if es_name spec \<noteq> ''note'' then Inr []
     else
       rbind (plan_identity plan spec) (\<lambda>identity.
       let path_of = (\<lambda>r. case r of None \<Rightarrow> None | Some x \<Rightarrow> persisted_note_path slug identity x);
           before = path_of (pl_before plan); after = path_of (pl_after plan); target = Some (pr_target p);
           belongs = (case pr_tag p of
              MARKDOWN_WRITE \<Rightarrow> after \<noteq> None \<and> target = after
            | PATH_RENAME \<Rightarrow> before \<noteq> None \<and> after \<noteq> None \<and> pr_source p = before \<and> target = after
            | PATH_REMOVE \<Rightarrow> before \<noteq> None \<and> target = before
            | _ \<Rightarrow> False) in
       Inr (if belongs then [identity] else [])))"

definition persisted_identity :: "(string \<Rightarrow> string) \<Rightarrow> checked_plan list \<Rightarrow> projection_ref \<Rightarrow> (int \<times> string) list res" where
  "persisted_identity slug plans p =
     (if pr_tag p \<notin> set path_tags then Inr []
      else
        rbind (rmap (persisted_match slug p) plans) (\<lambda>found.
        case concat found of
          [i] \<Rightarrow> Inr [(pr_ordinal p, i)]
        | _ # _ \<Rightarrow> recovery_required ''persisted Note projection matches multiple database mutations''
        | [] \<Rightarrow> rbind (legacy_path_owner plans (pr_tag p)) (\<lambda>owner.
            Inr (case owner of None \<Rightarrow> [] | Some i \<Rightarrow> [(pr_ordinal p, i)]))))"

definition persisted_identities :: "(string \<Rightarrow> string) \<Rightarrow> any_command \<Rightarrow> checked_plan list \<Rightarrow> (int \<times> string) list res" where
  "persisted_identities slug c plans =
     (if is_compiled c then Inr []
      else
        rbind (rforeach (\<lambda>tag. rbind (legacy_path_owner plans tag) (\<lambda>_. Inr ())) path_tags) (\<lambda>_.
        rbind (rmap (persisted_identity slug plans) (ck_projections c)) (\<lambda>found. Inr (concat found))))"

definition note_paths_of :: "any_command \<Rightarrow> overlay option \<Rightarrow> checked_plan \<Rightarrow> note_paths option res" where
  "note_paths_of c authority entry = (case entry of (plan, spec, _) \<Rightarrow>
     (case c of
        Persisted _ \<Rightarrow> Inr None
      | Compiled cmd \<Rightarrow>
        if es_name spec \<noteq> ''note'' then Inr None
        else (case authority of
            None \<Rightarrow> recovery_required ''compiled Note projections require authoritative paths''
          | Some ov \<Rightarrow> rbind (plan_identity plan spec) (\<lambda>identity.
              rbind (note_projection_paths cmd plan identity ov) (\<lambda>np. Inr (Some np))))))"

definition event_matches_plan :: "entity_spec \<Rightarrow> db_plan \<Rightarrow> sync_event \<Rightarrow> unit res" where
  "event_matches_plan spec plan e =
     (if pl_op plan = Delete then
        require (case pl_before plan of None \<Rightarrow> False
                 | Some before \<Rightarrow> (case get before ''version'' of JInt n \<Rightarrow> ev_version e = n + 1 | _ \<Rightarrow> False))
          (SpaceRecoveryRequired ''compiled delete event version differs from the database before image'')
      else
        let p1 = (if es_name spec = ''note'' then fmdrop ''content'' (ev_payload e) else ev_payload e);
            event_after = (if es_name spec = ''work_item'' then fmdrop ''label_ids'' p1 else p1) in
        require (case pl_after plan of None \<Rightarrow> False
                 | Some after \<Rightarrow> row_eq event_after after \<and> py_eq (get after ''version'') (JInt (ev_version e)))
          (SpaceRecoveryRequired ''compiled sync event differs from the database after image''))"

definition check_required_tag :: "digests \<Rightarrow> any_command \<Rightarrow> overlay option \<Rightarrow> db_plan \<Rightarrow> projection_ref list \<Rightarrow>
    projection_action_tag \<Rightarrow> unit res" where
  "check_required_tag dg c authority plan owned tag =
     (case filter (\<lambda>p. pr_tag p = tag) owned of
        [p] \<Rightarrow>
          (if tag \<in> {MARKDOWN_WRITE, INDEX_REPLACE, FTS_REPLACE} then
             rbind (require ((pl_op plan = Delete) = (projection_after_digest dg p = None))
                      (SpaceRecoveryRequired ''projection image does not match the database operation'')) (\<lambda>_.
             case (tag, pl_after plan, p) of
               (MARKDOWN_WRITE, Some after, PlanRef plan_ref) \<Rightarrow>
                 (case pj_after plan_ref of
                    None \<Rightarrow> recovery_required ''Note Markdown projection has no after image''
                  | Some body \<Rightarrow> require (JStr (sha256_hex dg (strip_frontmatter body)) = get after ''content_hash'')
                      (SpaceRecoveryRequired ''Markdown projection differs from the Note content hash''))
             | _ \<Rightarrow> Inr ())
           else if tag = PATH_RENAME then
             rbind (require (before_digest dg p = projection_after_digest dg p)
                      (SpaceRecoveryRequired ''path rename projection changes the Note artifact'')) (\<lambda>_.
             case (p, authority) of
               (PlanRef plan_ref, Some ov) \<Rightarrow>
                 require (case pj_source plan_ref of None \<Rightarrow> False | Some s \<Rightarrow> fmlookup (ov_markdown ov) s = pj_before plan_ref)
                   (SpaceRecoveryRequired ''path rename projection differs from authoritative Markdown'')
             | _ \<Rightarrow> Inr ())
           else Inr ())
      | _ \<Rightarrow> recovery_required ''projection-backed entity requires complete bound projections'')"

definition all_tags :: "projection_action_tag list" where
  "all_tags = [MARKDOWN_WRITE, PATH_RENAME, PATH_REMOVE, INDEX_REPLACE, FTS_REPLACE]"

definition validate_plan_effects :: "digests \<Rightarrow> any_command \<Rightarrow> overlay option \<Rightarrow> (int \<times> string) list \<Rightarrow>
    checked_plan \<times> note_paths option \<Rightarrow> unit res" where
  "validate_plan_effects dg c authority identities entry = (case entry of ((plan, spec, required), paths) \<Rightarrow>
     rbind (matching_sync_events c plan spec) (\<lambda>matching.
     rbind (require (es_sync_enabled spec \<longrightarrow> length matching = 1)
              (SpaceRecoveryRequired ''compiled sync event is missing for a database mutation'')) (\<lambda>_.
     rbind (case matching of [] \<Rightarrow> Inr () | e # _ \<Rightarrow> event_matches_plan spec plan e) (\<lambda>_.
     rbind (plan_identity plan spec) (\<lambda>identity.
     rbind (if es_name spec = ''note'' then validate_note_version_projections c plan identity authority else Inr ()) (\<lambda>_.
     let owned = filter (\<lambda>p. \<not> projection_belongs_to_note_version p c plan \<and>
           projection_belongs_to_plan p spec identity paths (map_of identities (pr_ordinal p))) (ck_projections c) in
     rforeach (check_required_tag dg c authority plan owned) (filter (\<lambda>t. t \<in> required) all_tags)))))))"

definition projection_bound :: "any_command \<Rightarrow> (int \<times> string) list \<Rightarrow> (checked_plan \<times> note_paths option) list \<Rightarrow>
    projection_ref \<Rightarrow> bool" where
  "projection_bound c identities entries p = (\<exists>((plan, spec, required), paths) \<in> set entries.
     es_name spec \<in> {''folder'', ''note''} \<and>
     (projection_belongs_to_plan p spec (str_of (fld (pl_pk plan) (es_primary_key spec))) paths
        (map_of identities (pr_ordinal p)) \<or>
      es_name spec = ''note'' \<and> projection_belongs_to_note_version p c plan))"

definition validate_compiled_command :: "digests \<Rightarrow> (string \<Rightarrow> string) \<Rightarrow> any_command \<Rightarrow> catalog \<Rightarrow> overlay option \<Rightarrow> unit res" where
  "validate_compiled_command dg slug c ct authority =
     (let rq = ck_request c; request_spec = catalog_get ct (rq_entity_type rq) in
      rbind (require (request_spec \<noteq> None \<or> CHR ''.'' \<in> set (rq_name rq) \<and>
                takeWhile (\<lambda>x. x \<noteq> CHR ''.'') (rq_name rq) = rq_entity_type rq)
               (SpaceRecoveryRequired ''compiled request entity is outside the compiled catalog'')) (\<lambda>_.
      rbind (rmap (validate_persisted_plan ct) (ck_plans c)) (\<lambda>specs.
      if rq_name rq = ''knowledge.projection.rebuild'' then validate_knowledge_rebuild_command slug c authority
      else
        let focus_rebuild = (rq_name rq = ''focus_session.rebuild_effort_projection'') in
        rbind (if focus_rebuild then validate_focus_session_rebuild_command dg c ct else Inr ()) (\<lambda>_.
        rbind (require (case request_spec of None \<Rightarrow> True
                 | Some rs \<Rightarrow> specs = [] \<or> es_name rs \<in> es_name ` set specs \<or> focus_rebuild)
                 (SpaceRecoveryRequired ''compiled database effects do not include the request entity'')) (\<lambda>_.
        rbind (rforeach (\<lambda>e. rbind (validate_sync_event dg ct e) (\<lambda>_. Inr ())) (ck_events c)) (\<lambda>_.
        let plans = map (\<lambda>(plan, spec). (plan, spec, required_projection_tags plan spec)) (zip (ck_plans c) specs) in
        rbind (persisted_identities slug c plans) (\<lambda>identities.
        rbind (rmap (note_paths_of c authority) plans) (\<lambda>paths.
        rbind (rforeach (validate_plan_effects dg c authority identities) (zip plans paths)) (\<lambda>_.
        rbind (require (ck_projections c = [] \<or> specs \<noteq> [])
                 (SpaceRecoveryRequired ''compiled projection effects require a database mutation'')) (\<lambda>_.
        require (\<forall>p \<in> set (ck_projections c). projection_bound c identities (zip plans paths) p)
          (SpaceRecoveryRequired ''compiled projection target is not bound to a database mutation'')))))))))))"

end
