(* ===== verification/Execution.thy ===== *)
theory Execution
  imports Validation
begin

text \<open>
  The execution of a batch (\<open>app/mutation/unit_of_work.py\<close>): compiling its requests one after the other
  against the overlay, recording the intent, publishing the stages, committing the business effects,
  applying the projections and finalizing. A Space is its database, its published stages and its files.
  An action runs on a Space; when it fails, what it did before stays done, and each transaction is rolled
  back as a whole. Leases, the running recovery of other batches and the threads are not modelled here.
\<close>

section \<open>Actions on a Space\<close>

record space =
  sp_db :: space_db
  sp_stages :: stages
  sp_files :: file_system

type_synonym 'a act = "space \<Rightarrow> 'a res \<times> space"

definition areturn :: "'a \<Rightarrow> 'a act" where
  "areturn x s = (Inr x, s)"

definition araise :: "exc \<Rightarrow> 'a act" where
  "araise e s = (Inl e, s)"

definition abind :: "'a act \<Rightarrow> ('a \<Rightarrow> 'b act) \<Rightarrow> 'b act" where
  "abind m f s = (case m s of (Inl e, s') \<Rightarrow> (Inl e, s') | (Inr x, s') \<Rightarrow> f x s')"

definition alift :: "'a res \<Rightarrow> 'a act" where
  "alift r s = (r, s)"

definition arequire :: "bool \<Rightarrow> exc \<Rightarrow> unit act" where
  "arequire b e = alift (require b e)"

definition gets :: "(space \<Rightarrow> 'a) \<Rightarrow> 'a act" where
  "gets f s = (Inr (f s), s)"

text \<open>Transactions on the database, on the journal tables, and changes of the stages and files.\<close>

definition transact :: "(space_db \<Rightarrow> ('a \<times> space_db) res) \<Rightarrow> 'a act" where
  "transact f s = (case f (sp_db s) of Inl e \<Rightarrow> (Inl e, s) | Inr (x, db) \<Rightarrow> (Inr x, s\<lparr>sp_db := db\<rparr>))"

definition db_transaction :: "(space_db \<Rightarrow> space_db res) \<Rightarrow> unit act" where
  "db_transaction f = transact (\<lambda>db. rbind (f db) (\<lambda>db'. Inr ((), db')))"

definition journal_transaction :: "(journal \<Rightarrow> journal res) \<Rightarrow> unit act" where
  "journal_transaction f = db_transaction (\<lambda>db. with_journal db f)"

definition on_stages :: "(stages \<Rightarrow> ('a \<times> stages) res) \<Rightarrow> 'a act" where
  "on_stages f s = (case f (sp_stages s) of Inl e \<Rightarrow> (Inl e, s) | Inr (x, ss) \<Rightarrow> (Inr x, s\<lparr>sp_stages := ss\<rparr>))"

definition on_files :: "(file_system \<Rightarrow> file_system res) \<Rightarrow> unit act" where
  "on_files f s = (case f (sp_files s) of Inl e \<Rightarrow> (Inl e, s) | Inr fs \<Rightarrow> (Inr (), s\<lparr>sp_files := fs\<rparr>))"

fun aforeach :: "('a \<Rightarrow> unit act) \<Rightarrow> 'a list \<Rightarrow> unit act" where
  "aforeach f [] = areturn ()"
| "aforeach f (x # xs) = abind (f x) (\<lambda>_. aforeach f xs)"

fun amap :: "('a \<Rightarrow> 'b act) \<Rightarrow> 'a list \<Rightarrow> 'b list act" where
  "amap f [] = areturn []"
| "amap f (x # xs) = abind (f x) (\<lambda>y. abind (amap f xs) (\<lambda>ys. areturn (y # ys)))"

section \<open>Compiling a batch\<close>

record compiler =
  ce_space_id :: string
  ce_catalog :: catalog
  ce_policies :: policies
  ce_digests :: digests
  ce_uuid5 :: "string \<Rightarrow> string"
  ce_slug :: "string \<Rightarrow> string"
  ce_clock :: "string \<Rightarrow> string"
  ce_engine :: engine

definition context_of :: "compiler \<Rightarrow> overlay \<Rightarrow> string \<Rightarrow> ctx" where
  "context_of ce ov operation_id =
     \<lparr>cx_space_id = ce_space_id ce, cx_overlay = ov, cx_operation_id = operation_id,
      cx_now = ce_clock ce operation_id, cx_digests = ce_digests ce, cx_uuid5 = ce_uuid5 ce\<rparr>"

record compilation =
  co_overlay :: overlay
  co_accepted :: "(string \<times> command) list"
  co_rejected :: "mutation_rejection list"

text \<open>
  One item: a violation rejects it; any other exception ends the batch; an accepted command, with the
  bodies of its Notes bound and checked, is applied to the overlay the later items are compiled against.
\<close>

definition compile_item :: "compiler \<Rightarrow> compilation \<Rightarrow> prepared_item \<Rightarrow> compilation res" where
  "compile_item ce co item =
     (case pi_request item of
        None \<Rightarrow> Inr co
      | Some rq \<Rightarrow>
        (case compile_against_overlay (ce_policies ce) (context_of ce (co_overlay co) (pi_operation_id item)) rq of
           Inl (RuleViolation code details retryable) \<Rightarrow>
             rbind (MutationRejection (pi_request_index item) (pi_operation_id item) (rq_entity_type rq)
                      (rq_entity_id rq) code retryable details) (\<lambda>rejection.
             Inr (co\<lparr>co_rejected := co_rejected co @ [rejection]\<rparr>))
         | Inl e \<Rightarrow> Inl e
         | Inr c \<Rightarrow>
             rbind (bind_authoritative_note_event_bodies (ce_digests ce) c (ce_catalog ce) (co_overlay co)) (\<lambda>bound.
             rbind (validate_compiled_command (ce_digests ce) (ce_slug ce) (Compiled bound) (ce_catalog ce)
                      (Some (co_overlay co))) (\<lambda>_.
             rbind (ov_apply (co_overlay co) bound) (\<lambda>ov.
             Inr (co\<lparr>co_overlay := ov, co_accepted := co_accepted co @ [(pi_operation_id item, bound)]\<rparr>))))))"

definition compile_batch :: "compiler \<Rightarrow> space \<Rightarrow> prepared_item list \<Rightarrow> compilation res" where
  "compile_batch ce s items = rfold (compile_item ce)
     \<lparr>co_overlay = from_locked_authorities (ce_catalog ce) (sp_db s) (snapshot_projection_authority (sp_files s)),
      co_accepted = [], co_rejected = []\<rparr> items"

section \<open>The phases of a batch\<close>

definition execute_actions :: "materialized_action list \<Rightarrow> unit act" where
  "execute_actions actions = aforeach (\<lambda>a. on_files (\<lambda>fs. apply_one_contained_action fs a)) actions"

definition apply_side :: "digests \<Rightarrow> string \<Rightarrow> persisted_projection_descriptor list \<Rightarrow> image_side \<Rightarrow> int list \<Rightarrow> unit act" where
  "apply_side dg operation_id descriptors side ordinals =
     abind (on_stages (\<lambda>ss. rbind (materialize_side dg ss operation_id descriptors side ordinals) (\<lambda>a. Inr (a, ss))))
       execute_actions"

definition apply_forward :: "digests \<Rightarrow> string \<Rightarrow> persisted_projection_descriptor list \<Rightarrow> int list \<Rightarrow> unit act" where
  "apply_forward dg operation_id descriptors ordinals = apply_side dg operation_id descriptors AfterImage ordinals"

definition restore_before :: "digests \<Rightarrow> string \<Rightarrow> persisted_projection_descriptor list \<Rightarrow> int list \<Rightarrow> unit act" where
  "restore_before dg operation_id descriptors ordinals = apply_side dg operation_id descriptors BeforeImage ordinals"

definition publish_stages :: "digests \<Rightarrow> (string \<times> command) list \<Rightarrow> stage_manifest list act" where
  "publish_stages dg entries = amap (\<lambda>(i, c). on_stages (\<lambda>ss. publish dg ss i (cm_projections c))) entries"

definition finalize_step :: "digests \<Rightarrow> string \<Rightarrow> persisted_command \<Rightarrow> persisted_projection_descriptor \<Rightarrow> unit act" where
  "finalize_step dg operation_id p d =
     abind (apply_forward dg operation_id (pc_projections p) [pd_ordinal d]) (\<lambda>_.
     journal_transaction (\<lambda>j. mark_step_applied j operation_id (pd_ordinal d) (pd_after_sha256 d)))"

definition finalize_operation :: "digests \<Rightarrow> string \<times> command \<Rightarrow> unit act" where
  "finalize_operation dg entry = (case entry of (operation_id, c) \<Rightarrow>
     abind (alift (persisted dg c)) (\<lambda>p.
     abind (aforeach (finalize_step dg operation_id p) (pc_projections p)) (\<lambda>_.
     journal_transaction (\<lambda>j. transition j operation_id FORWARD_APPLIED))))"

definition finalize_forward :: "digests \<Rightarrow> (string \<times> command) list \<Rightarrow> unit act" where
  "finalize_forward dg entries = aforeach (finalize_operation dg) entries"

text \<open>Sorting is stable, so rejections of one index stay in order.\<close>

definition batch_rejections :: "prepared_item list \<Rightarrow> mutation_rejection list \<Rightarrow> mutation_rejection list" where
  "batch_rejections items rejected = sort_key mj_request_index
     (concat (map (\<lambda>i. case pi_pre_rejection i of None \<Rightarrow> [] | Some r \<Rightarrow> [r]) items) @ rejected)"

text \<open>From the recorded intent to the finalized receipt.\<close>

definition run_accepted :: "compiler \<Rightarrow> string \<Rightarrow> string \<Rightarrow> (string \<times> command) list \<Rightarrow> mutation_rejection list \<Rightarrow>
    (string \<times> string \<times> string) list \<Rightarrow> batch_result act" where
  "run_accepted ce batch_id request_hash entries rejections derivations =
     abind (journal_transaction (\<lambda>j. create_batch_intent (ce_digests ce) j batch_id request_hash (map fst entries)
              (map snd entries) rejections derivations)) (\<lambda>_.
     abind (publish_stages (ce_digests ce) entries) (\<lambda>manifests.
     abind (journal_transaction (\<lambda>j. mark_staged j batch_id manifests)) (\<lambda>_.
     abind (db_transaction (\<lambda>db. commit_business (ce_catalog ce) (ce_engine ce) batch_id db entries)) (\<lambda>_.
     abind (journal_transaction (\<lambda>j. mark_finalizing j batch_id)) (\<lambda>_.
     abind (finalize_forward (ce_digests ce) entries) (\<lambda>_.
     transact (\<lambda>db. rbind (finalize_batch (sd_journal db) batch_id) (\<lambda>(result, j). Inr (result, db\<lparr>sd_journal := j\<rparr>)))))))))"

definition run_batch :: "compiler \<Rightarrow> string \<Rightarrow> string \<Rightarrow> prepared_item list \<Rightarrow> (string \<times> string \<times> string) list \<Rightarrow>
    batch_result act" where
  "run_batch ce batch_id request_hash items derivations =
     abind (\<lambda>s. (compile_batch ce s items, s)) (\<lambda>co.
     let rejections = batch_rejections items (co_rejected co) in
     if co_accepted co = [] then
       transact (\<lambda>db. rbind (record_rejected_batch (ce_digests ce) (sd_journal db) batch_id request_hash rejections derivations)
         (\<lambda>(result, j). Inr (result, db\<lparr>sd_journal := j\<rparr>)))
     else run_accepted ce batch_id request_hash (co_accepted co) rejections derivations)"

end
