(* ===== verification/Recovery.thy ===== *)
theory Recovery
  imports Execution
begin

text \<open>
  Recovery after a crash (\<open>app/mutation/recovery.py\<close>): every batch that is not terminal is driven to a
  terminal state from what the journal, the stages and the files show. The command of an operation is
  kept as a record, so decoding its text means running the constructors on it again. The checks of the
  leases and the degradation of a Space are not modelled.
\<close>

section \<open>Loading a batch\<close>

record recovery_op =
  ro_row :: journal_op
  ro_command :: persisted_command
  ro_manifest :: "stage_manifest option"
  ro_steps :: "journal_step list"

definition acatch :: "'a act \<Rightarrow> (exc \<Rightarrow> 'a act) \<Rightarrow> 'a act" where
  "acatch m h s = (case m s of (Inl e, s') \<Rightarrow> h e s' | (Inr x, s') \<Rightarrow> (Inr x, s'))"

definition decode_persisted_command :: "digests \<Rightarrow> persisted_command \<Rightarrow> persisted_command res" where
  "decode_persisted_command dg p =
     (let q = pc_request p in
      rbind (MutationRequest dg (rq_name q) (rq_entity_type q) (rq_entity_id q) (rq_payload q)
               (rq_expected_version q) (rq_client_updated_at q) (rq_hash q)) (\<lambda>rq.
      rbind (rmap (\<lambda>x. DbMutationPlan (pl_table x) (pl_pk x) (pl_op x) (pl_expected x) (pl_before x) (pl_after x))
               (pc_plans p)) (\<lambda>plans.
      rbind (rmap (\<lambda>d. PersistedProjectionDescriptor (pd_tag d) (pd_source d) (pd_target d) (pd_ordinal d)
               (pd_before_sha256 d) (pd_before_size d) (pd_after_sha256 d) (pd_after_size d)) (pc_projections p)) (\<lambda>ds.
      rbind (rmap (\<lambda>e. SyncEventPlan (ev_type e) (ev_id e) (ev_action e) (ev_payload e) (JInt (ev_version e))
               (JStr (ev_created_at e))) (pc_events p)) (\<lambda>events.
      PersistedMutationCommand dg rq plans ds events (pc_value p) (pc_resolution p) (pc_hash p))))))"

definition decode_command :: "compiler \<Rightarrow> persisted_command \<Rightarrow> persisted_command res" where
  "decode_command ce p =
     (case rbind (decode_persisted_command (ce_digests ce) p) (\<lambda>c.
         rbind (validate_compiled_command (ce_digests ce) (ce_slug ce) (Persisted c) (ce_catalog ce) None) (\<lambda>_. Inr c)) of
        Inl (ValueErr _) \<Rightarrow> Inl (RecoveryUnprovable ''persisted mutation command is invalid'')
      | Inl (TypeErr _) \<Rightarrow> Inl (RecoveryUnprovable ''persisted mutation command is invalid'')
      | Inl (SpaceRecoveryRequired _) \<Rightarrow> Inl (RecoveryUnprovable ''persisted mutation command is invalid'')
      | r \<Rightarrow> r)"

definition verified_stage :: "digests \<Rightarrow> stages \<Rightarrow> string \<Rightarrow> bool \<Rightarrow> stage_manifest option res" where
  "verified_stage dg ss operation_id tolerate =
     (case verify dg ss operation_id of
        Inr m \<Rightarrow> Inr (Some m)
      | Inl (FileNotFound _) \<Rightarrow> if tolerate then Inr None
          else Inl (RecoveryUnprovable ''published stage is missing or invalid'')
      | Inl (StageIntegrity _) \<Rightarrow> if tolerate then Inr None
          else Inl (RecoveryUnprovable ''published stage is missing or invalid'')
      | Inl e \<Rightarrow> Inl e)"

definition checked_manifest :: "journal_op \<Rightarrow> persisted_command \<Rightarrow> bool \<Rightarrow> stage_manifest option \<Rightarrow>
    stage_manifest option res" where
  "checked_manifest row c tolerate manifest =
     (case manifest of
        None \<Rightarrow> Inr None
      | Some m \<Rightarrow>
        rbind (require (mf_descriptors m = pc_projections c)
                 (RecoveryUnprovable ''published stage does not match the persisted command'')) (\<lambda>_.
        if jo_manifest row \<noteq> None \<and> jo_manifest row \<noteq> Some (mf_sha256 m)
        then (if tolerate then Inr None else Inl (RecoveryUnprovable ''published stage hash does not match the journal''))
        else Inr (Some m)))"

definition expected_applied :: "step_state \<Rightarrow> persisted_projection_descriptor \<Rightarrow> string option" where
  "expected_applied st d = (case st of
     StepPending \<Rightarrow> None | StepApplied \<Rightarrow> pd_after_sha256 d | StepCompensated \<Rightarrow> pd_before_sha256 d)"

definition check_step :: "journal_step \<times> persisted_projection_descriptor \<Rightarrow> unit res" where
  "check_step entry = (case entry of (s, d) \<Rightarrow>
     rbind (require (js_ordinal s = pd_ordinal d \<and> js_tag s = pd_tag d \<and> js_target s = pd_target d \<and>
              js_before s = pd_before_sha256 d \<and> js_after s = pd_after_sha256 d)
              (RecoveryUnprovable ''mutation projection step differs from persisted command'')) (\<lambda>_.
     require (js_applied s = expected_applied (js_state s) d)
       (RecoveryUnprovable ''mutation projection step hash evidence is invalid'')))"

definition steps_of :: "journal \<Rightarrow> string \<Rightarrow> journal_step list" where
  "steps_of j operation_id = sort_key js_ordinal (filter (\<lambda>s. js_op s = operation_id) (jr_steps j))"

definition load_operation :: "compiler \<Rightarrow> space \<Rightarrow> bool \<Rightarrow> journal_op \<Rightarrow> recovery_op res" where
  "load_operation ce s tolerate row =
     rbind (decode_command ce (jo_command row)) (\<lambda>c.
     rbind (verified_stage (ce_digests ce) (sp_stages s) (jo_id row) tolerate) (\<lambda>found.
     rbind (checked_manifest row c tolerate found) (\<lambda>manifest.
     let steps = steps_of (sd_journal (sp_db s)) (jo_id row) in
     rbind (require (length steps = length (pc_projections c))
              (RecoveryUnprovable ''mutation projection step set is incomplete'')) (\<lambda>_.
     rbind (rforeach check_step (zip steps (pc_projections c))) (\<lambda>_.
     Inr \<lparr>ro_row = row, ro_command = c, ro_manifest = manifest, ro_steps = steps\<rparr>)))))"

definition load_operations :: "compiler \<Rightarrow> string \<Rightarrow> bool \<Rightarrow> recovery_op list act" where
  "load_operations ce batch_id tolerate s =
     (let j = sd_journal (sp_db s); rows = ordered_ops j batch_id in
      (rbind (require (case get_batch j batch_id of None \<Rightarrow> False
                | Some b \<Rightarrow> int (length rows) = jb_accepted b \<and> rows \<noteq> [])
                (RecoveryUnprovable ''mutation batch child set is not complete'')) (\<lambda>_.
       rbind (require (map jo_sequence rows = map int [0..<length rows])
                (RecoveryUnprovable ''mutation batch child sequence is not contiguous'')) (\<lambda>_.
       rmap (load_operation ce s tolerate) rows)), s))"

section \<open>Changing the journal\<close>

text \<open>Each row takes the target state if it is not there yet and the transition is legal.\<close>

definition legal_or_there :: "mutation_state \<Rightarrow> mutation_state \<Rightarrow> bool" where
  "legal_or_there state target = (state = target \<or> target \<in> set (LEGAL_TRANSITIONS state))"

definition set_batch_state :: "journal \<Rightarrow> string \<Rightarrow> mutation_state \<Rightarrow> journal res" where
  "set_batch_state j batch_id target =
     (case get_batch j batch_id of
        None \<Rightarrow> Inl (IllegalMutationTransition ''batch child set changed during recovery'')
      | Some b \<Rightarrow>
        rbind (require (int (length (ops_of j batch_id)) = jb_accepted b)
                 (IllegalMutationTransition ''batch child set changed during recovery'')) (\<lambda>_.
        rbind (require (legal_or_there (jb_state b) target)
                 (IllegalMutationTransition (''illegal batch transition: '' @ state_text (jb_state b) @ '' -> '' @ state_text target))) (\<lambda>_.
        rbind (rforeach (\<lambda>q. require (legal_or_there (jo_state q) target)
                 (IllegalMutationTransition (''illegal child transition: '' @ state_text (jo_state q) @ '' -> '' @ state_text target)))
                 (ordered_ops j batch_id)) (\<lambda>_.
        Inr (j\<lparr>jr_batches := update_where (\<lambda>x. jb_id x = batch_id) (jb_state_update (\<lambda>_. target)) (jr_batches j),
               jr_ops := update_where (\<lambda>q. jo_batch q = batch_id) (jo_state_update (\<lambda>_. target)) (jr_ops j)\<rparr>)))))"

definition terminal_state :: "mutation_state \<Rightarrow> bool" where
  "terminal_state s = (s \<in> {FINALIZED, ABORTED, COMPENSATED})"

definition mark_failed_manual :: "journal \<Rightarrow> string \<Rightarrow> journal res" where
  "mark_failed_manual j batch_id =
     (case get_batch j batch_id of
        None \<Rightarrow> Inr j
      | Some b \<Rightarrow>
        if terminal_state (jb_state b) then Inr j
        else Inr (j\<lparr>jr_batches := update_where (\<lambda>x. jb_id x = batch_id) (jb_state_update (\<lambda>_. FAILED_MANUAL)) (jr_batches j),
               jr_ops := update_where (\<lambda>q. jo_batch q = batch_id)
                 (\<lambda>q. q\<lparr>jo_state := FAILED_MANUAL, jo_error := Some ''mutation_recovery_required''\<rparr>) (jr_ops j)\<rparr>))"

definition mark_step :: "journal \<Rightarrow> journal_step \<Rightarrow> step_state \<Rightarrow> string option \<Rightarrow> journal res" where
  "mark_step j step state applied =
     (let this = (\<lambda>s. js_op s = js_op step \<and> js_ordinal s = js_ordinal step) in
      rbind (require (\<exists>s \<in> set (jr_steps j). this s) (RecoveryUnprovable ''mutation projection step disappeared'')) (\<lambda>_.
      Inr (j\<lparr>jr_steps := update_where this (\<lambda>s. s\<lparr>js_state := state, js_applied := applied\<rparr>) (jr_steps j)\<rparr>)))"

section \<open>The ledger of an operation\<close>

type_synonym ledger_row = "string \<times> string \<times> sync_action \<times> string \<times> int option \<times> string option"

definition ledger_row :: "ledger_event \<Rightarrow> ledger_row" where
  "ledger_row e = (le_type e, le_id e, le_action e, le_payload e, le_version e, le_batch e)"

definition expected_event :: "catalog \<Rightarrow> string \<Rightarrow> sync_event \<Rightarrow> ledger_row res" where
  "expected_event ct batch_id e =
     rbind (spec_of ct (ev_type e)) (\<lambda>spec.
     rbind (require (es_sync_enabled spec) (RecoveryUnprovable ''persisted event entity is not sync enabled'')) (\<lambda>_.
     Inr (effective_sync_entity_type spec, ev_id e, ev_action e, payload_text (ev_payload e), Some (ev_version e),
          Some batch_id)))"

definition ledger_consistent :: "ledger_event list \<Rightarrow> ledger_row list \<Rightarrow> bool" where
  "ledger_consistent actual expected = (actual = [] \<or> mset (map ledger_row actual) = mset expected)"

definition assert_invisible_ledger :: "catalog \<Rightarrow> journal \<Rightarrow> string \<Rightarrow> recovery_op \<Rightarrow> unit res" where
  "assert_invisible_ledger ct j batch_id op =
     rbind (rmap (expected_event ct batch_id) (pc_events (ro_command op))) (\<lambda>expected.
     require (ledger_consistent
         (filter (\<lambda>e. le_op e = Some (jo_id (ro_row op)) \<and> \<not> le_visible e) (jr_ledger j)) expected)
       (RecoveryUnprovable ''replayed ledger set is inconsistent''))"

definition record_replayed_event :: "catalog \<Rightarrow> string \<Rightarrow> string \<Rightarrow> space_db \<Rightarrow> sync_event \<Rightarrow> space_db res" where
  "record_replayed_event ct batch_id operation_id db e =
     rbind (spec_of ct (ev_type e)) (\<lambda>spec.
     rbind (record_sync_event db (effective_sync_entity_type spec) (ev_id e) (ev_action e) (ev_payload e)
              (Some operation_id) (Some batch_id) (Some (ev_version e)) (ev_created_at e) False) (\<lambda>(_, db').
     Inr db'))"

text \<open>\<open>sorted(actual) != sorted(expected)\<close> also compares that the removed events were hidden, as they are.\<close>

definition replay_operation :: "catalog \<Rightarrow> engine \<Rightarrow> string \<Rightarrow> space_db \<Rightarrow> recovery_op \<Rightarrow> space_db res" where
  "replay_operation ct en batch_id db op =
     (let operation_id = jo_id (ro_row op); c = ro_command op in
      rbind (require (jo_state (ro_row op) = STAGED) (RecoveryUnprovable ''STAGED batch has a mixed child state'')) (\<lambda>_.
      rbind (apply_operation ct en batch_id (RecoveryUnprovable ''journal operation disappeared during replay'') db
               (operation_id, pc_plans c)) (\<lambda>db1.
      let ledger = jr_ledger (sd_journal db1) in
      rbind (require (\<forall>e \<in> set ledger. le_op e = Some operation_id \<longrightarrow> \<not> le_visible e)
               (RecoveryUnprovable ''replayed ledger set is inconsistent: visible events found before batch finalize'')) (\<lambda>_.
      rbind (rmap (expected_event ct batch_id) (pc_events c)) (\<lambda>expected.
      rbind (require (ledger_consistent (filter (\<lambda>e. le_op e = Some operation_id) ledger) expected)
               (RecoveryUnprovable ''replayed ledger set is inconsistent'')) (\<lambda>_.
      rfold (record_replayed_event ct batch_id operation_id)
        (with_ledger db1 (filter (\<lambda>e. le_op e \<noteq> Some operation_id))) (pc_events c)))))))"

definition apply_business :: "catalog \<Rightarrow> engine \<Rightarrow> string \<Rightarrow> recovery_op list \<Rightarrow> space_db \<Rightarrow> space_db res" where
  "apply_business ct en batch_id ops db =
     rbind (rfold (replay_operation ct en batch_id) db ops) (\<lambda>db1.
     with_journal db1 (\<lambda>j. transition_all j STAGED DB_COMMITTED (map (\<lambda>q. jo_id (ro_row q)) ops)))"

section \<open>Where a projection stands\<close>

datatype descriptor_state = AfterState | BeforeState | NeitherState

definition digest :: "digests \<Rightarrow> string option \<Rightarrow> string option \<times> int option" where
  "digest dg v = (map_option (sha256_hex dg) v, map_option (\<lambda>b. int (length b)) v)"

definition descriptor_state :: "digests \<Rightarrow> projection_snapshot \<Rightarrow> persisted_projection_descriptor \<Rightarrow> descriptor_state" where
  "descriptor_state dg sn d =
     (let target = pd_target d;
          before_image = (pd_before_sha256 d, pd_before_size d); after_image = (pd_after_sha256 d, pd_after_size d);
          (before, after) =
            (if pd_tag d = PATH_RENAME then
               (case pd_source d of
                  None \<Rightarrow> (False, False)
                | Some source \<Rightarrow>
                    (digest dg (fmlookup (sn_markdown sn) source) = before_image \<and> fmlookup (sn_markdown sn) target = None,
                     fmlookup (sn_markdown sn) source = None \<and> digest dg (fmlookup (sn_markdown sn) target) = after_image))
             else
               let bucket = (if has_prefix ''notes/'' target then sn_markdown sn
                             else if has_prefix ''index/'' target then sn_index sn else sn_fts sn);
                   actual = digest dg (fmlookup bucket target) in
               (actual = before_image, actual = after_image)) in
      if after then AfterState else if before then BeforeState else NeitherState)"

definition current_state :: "compiler \<Rightarrow> persisted_projection_descriptor \<Rightarrow> descriptor_state act" where
  "current_state ce d = gets (\<lambda>s. descriptor_state (ce_digests ce) (snapshot_projection_authority (sp_files s)) d)"

section \<open>Forward\<close>

definition finish_projection_step :: "compiler \<Rightarrow> recovery_op \<Rightarrow> persisted_projection_descriptor \<Rightarrow> unit act" where
  "finish_projection_step ce op d =
     (let step = ro_steps op ! nat (pd_ordinal d); id = jo_id (ro_row op);
          mark = journal_transaction (\<lambda>j. mark_step j step StepApplied (pd_after_sha256 d)) in
      if js_state step = StepApplied then
        abind (current_state ce d) (\<lambda>st. arequire (st = AfterState)
          (RecoveryUnprovable ''applied projection step no longer matches its after evidence''))
      else
        abind (arequire (js_state step = StepPending)
                 (RecoveryUnprovable ''forward projection step has an invalid durable state'')) (\<lambda>_.
        abind (current_state ce d) (\<lambda>st.
        if st = AfterState then mark
        else
          abind (arequire (st = BeforeState)
                   (RecoveryUnprovable ''projection step matches neither before nor after evidence'')) (\<lambda>_.
          abind (apply_forward (ce_digests ce) id (pc_projections (ro_command op)) [pd_ordinal d]) (\<lambda>_.
          abind (current_state ce d) (\<lambda>st'.
          abind (arequire (st' = AfterState)
                   (RecoveryUnprovable ''forward projection step did not produce its after image'')) (\<lambda>_.
          mark)))))))"

definition finish_operation :: "compiler \<Rightarrow> recovery_op \<Rightarrow> unit act" where
  "finish_operation ce op =
     (if jo_state (ro_row op) = FORWARD_APPLIED then
        abind (arequire (\<forall>s \<in> set (ro_steps op). js_state s = StepApplied \<and> js_applied s = js_after s)
                 (RecoveryUnprovable ''FORWARD_APPLIED child has incomplete step receipts'')) (\<lambda>_.
        abind (amap (current_state ce) (pc_projections (ro_command op))) (\<lambda>states.
        arequire (\<forall>st \<in> set states. st = AfterState)
          (RecoveryUnprovable ''FORWARD_APPLIED child does not match its after images'')))
      else
        abind (arequire (jo_state (ro_row op) = FINALIZING)
                 (RecoveryUnprovable ''FINALIZING batch has an invalid child state'')) (\<lambda>_.
        abind (aforeach (finish_projection_step ce op) (pc_projections (ro_command op))) (\<lambda>_.
        journal_transaction (\<lambda>j. transition j (jo_id (ro_row op)) FORWARD_APPLIED))))"

definition finish_forward :: "compiler \<Rightarrow> string \<Rightarrow> unit act" where
  "finish_forward ce batch_id =
     abind (load_operations ce batch_id True) (\<lambda>ops. aforeach (finish_operation ce) ops)"

section \<open>Compensation\<close>

definition compensate_projection_step :: "compiler \<Rightarrow> recovery_op \<Rightarrow> persisted_projection_descriptor \<Rightarrow> unit act" where
  "compensate_projection_step ce op d =
     (let step = ro_steps op ! nat (pd_ordinal d); id = jo_id (ro_row op);
          mark = journal_transaction (\<lambda>j. mark_step j step StepCompensated (pd_before_sha256 d)) in
      if js_state step = StepCompensated then
        abind (current_state ce d) (\<lambda>st. arequire (st = BeforeState)
          (RecoveryUnprovable ''compensated projection step no longer matches its before evidence''))
      else
        abind (current_state ce d) (\<lambda>st.
        if st = BeforeState then mark
        else
          abind (arequire (st = AfterState)
                   (RecoveryUnprovable ''inverse projection step matches neither before nor after evidence'')) (\<lambda>_.
          abind (restore_before (ce_digests ce) id (pc_projections (ro_command op)) [pd_ordinal d]) (\<lambda>_.
          abind (current_state ce d) (\<lambda>st'.
          abind (arequire (st' = BeforeState)
                   (RecoveryUnprovable ''inverse projection step did not produce its before image'')) (\<lambda>_.
          mark))))))"

text \<open>The tombstones of every delete of the batch are removed, whoever created them.\<close>

definition drop_tombstone :: "catalog \<Rightarrow> space_db \<Rightarrow> sync_event \<Rightarrow> space_db res" where
  "drop_tombstone ct db e =
     (if ev_action e \<noteq> EvDelete then Inr db
      else rbind (spec_of ct (ev_type e)) (\<lambda>spec.
        Inr (db\<lparr>sd_tombstones := fmdrop (effective_sync_entity_type spec, ev_id e) (sd_tombstones db)\<rparr>)))"

definition restore_business :: "catalog \<Rightarrow> engine \<Rightarrow> string \<Rightarrow> recovery_op list \<Rightarrow> space_db \<Rightarrow> space_db res" where
  "restore_business ct en batch_id ops db =
     rbind (rfold (\<lambda>rows q. interpreter_restore ct en rows (pc_plans (ro_command q))) (sd_rows db) (rev ops)) (\<lambda>rows.
     rbind (rfold (drop_tombstone ct) (db\<lparr>sd_rows := rows\<rparr>)
              (concat (map (\<lambda>q. pc_events (ro_command q)) (rev ops)))) (\<lambda>db1.
     Inr (with_ledger db1 (filter (\<lambda>e. le_batch e \<noteq> Some batch_id)))))"

definition collect_terminal :: "digests \<Rightarrow> string list \<Rightarrow> unit act" where
  "collect_terminal dg ids s = (case collect_terminal_operations dg (sp_stages s) ids of
     (ss, r) \<Rightarrow> (r, s\<lparr>sp_stages := ss\<rparr>))"

definition compensate :: "compiler \<Rightarrow> string \<Rightarrow> mutation_state act" where
  "compensate ce batch_id =
     abind (load_operations ce batch_id True) (\<lambda>ops.
     abind (gets (\<lambda>s. visible_event_count (sd_journal (sp_db s)) batch_id)) (\<lambda>visible.
     abind (arequire (visible = 0) (RecoveryUnprovable ''visible ledger cannot be compensated'')) (\<lambda>_.
     abind (journal_transaction (\<lambda>j. set_batch_state j batch_id COMPENSATING)) (\<lambda>_.
     abind (aforeach (\<lambda>q. aforeach (compensate_projection_step ce q) (rev (pc_projections (ro_command q)))) (rev ops)) (\<lambda>_.
     abind (db_transaction (restore_business (ce_catalog ce) (ce_engine ce) batch_id ops)) (\<lambda>_.
     abind (journal_transaction (\<lambda>j. set_batch_state j batch_id COMPENSATED)) (\<lambda>_.
     abind (collect_terminal (ce_digests ce) (map (\<lambda>q. jo_id (ro_row q)) ops)) (\<lambda>_.
     areturn COMPENSATED))))))))"

section \<open>Recovering a batch\<close>

definition live_operations :: "journal \<Rightarrow> string set" where
  "live_operations j = jo_id ` {q \<in> set (jr_ops j). \<not> terminal_state (jo_state q)}"

definition collect_live :: "digests \<Rightarrow> unit act" where
  "collect_live dg = abind (gets (\<lambda>s. live_operations (sd_journal (sp_db s)))) (\<lambda>live.
     on_stages (\<lambda>ss. rbind (collect_orphans dg ss live) (\<lambda>ss'. Inr ((), ss'))))"

definition abort_batch :: "compiler \<Rightarrow> string \<Rightarrow> mutation_state act" where
  "abort_batch ce batch_id =
     abind (journal_transaction (\<lambda>j. set_batch_state j batch_id ABORTED)) (\<lambda>_.
     abind (collect_live (ce_digests ce)) (\<lambda>_. areturn ABORTED))"

definition all_staged :: "recovery_op list \<Rightarrow> bool" where
  "all_staged ops = (\<forall>q \<in> set ops. ro_manifest q \<noteq> None)"

definition finish_batch :: "compiler \<Rightarrow> string \<Rightarrow> mutation_state act" where
  "finish_batch ce batch_id =
     abind (finish_forward ce batch_id) (\<lambda>_.
     abind (journal_transaction (\<lambda>j. finalize_batch_in_transaction j batch_id)) (\<lambda>_. areturn FINALIZED))"

definition is_unprovable :: "exc \<Rightarrow> bool" where
  "is_unprovable e = (case e of RecoveryUnprovable _ \<Rightarrow> True | _ \<Rightarrow> False)"

definition finish_or_compensate :: "compiler \<Rightarrow> string \<Rightarrow> mutation_state act" where
  "finish_or_compensate ce batch_id =
     abind (acatch (abind (finish_forward ce batch_id) (\<lambda>_. areturn None))
              (\<lambda>e. if is_unprovable e then araise e
                 else acatch (abind (compensate ce batch_id) (\<lambda>st. areturn (Some st)))
                   (\<lambda>_. araise (RecoveryUnprovable ''neither forward nor inverse projection can be proven''))))
       (\<lambda>outcome. case outcome of Some st \<Rightarrow> areturn st | None \<Rightarrow> finish_batch ce batch_id)"

definition recover_committed :: "compiler \<Rightarrow> string \<Rightarrow> recovery_op list \<Rightarrow> mutation_state act" where
  "recover_committed ce batch_id ops =
     abind (\<lambda>s. (rforeach (assert_invisible_ledger (ce_catalog ce) (sd_journal (sp_db s)) batch_id) ops, s)) (\<lambda>_.
     abind (journal_transaction (\<lambda>j. mark_finalizing j batch_id)) (\<lambda>_.
     finish_or_compensate ce batch_id))"

definition recover_staged :: "compiler \<Rightarrow> string \<Rightarrow> recovery_op list \<Rightarrow> mutation_state act" where
  "recover_staged ce batch_id ops =
     (if \<not> all_staged ops then abort_batch ce batch_id
      else
        abind (db_transaction (apply_business (ce_catalog ce) (ce_engine ce) batch_id ops)) (\<lambda>_.
        recover_committed ce batch_id ops))"

definition recover_batch :: "compiler \<Rightarrow> string \<Rightarrow> mutation_state \<Rightarrow> mutation_state act" where
  "recover_batch ce batch_id state =
     abind (load_operations ce batch_id True) (\<lambda>ops.
     case state of
       INTENT \<Rightarrow>
         if \<not> all_staged ops then abort_batch ce batch_id
         else
           abind (journal_transaction (\<lambda>j. mark_staged j batch_id (map (\<lambda>q. the (ro_manifest q)) ops))) (\<lambda>_.
           abind (load_operations ce batch_id False) (\<lambda>ops'. recover_staged ce batch_id ops'))
     | STAGED \<Rightarrow> recover_staged ce batch_id ops
     | DB_COMMITTED \<Rightarrow> recover_committed ce batch_id ops
     | FINALIZING \<Rightarrow> finish_or_compensate ce batch_id
     | FORWARD_APPLIED \<Rightarrow> finish_batch ce batch_id
     | COMPENSATING \<Rightarrow> compensate ce batch_id
     | _ \<Rightarrow> areturn state)"

section \<open>Recovering a Space\<close>

record recovery_result =
  rr_finalized :: "string list"
  rr_aborted :: "string list"
  rr_compensated :: "string list"
  rr_failed_manual :: "string list"

definition ordered_batches :: "journal \<Rightarrow> journal_batch list" where
  "ordered_batches j = sort_key jb_id (jr_batches j)"

definition record_outcome :: "recovery_result \<Rightarrow> string \<Rightarrow> mutation_state \<Rightarrow> recovery_result" where
  "record_outcome r i st = (case st of
     FINALIZED \<Rightarrow> r\<lparr>rr_finalized := rr_finalized r @ [i]\<rparr>
   | ABORTED \<Rightarrow> r\<lparr>rr_aborted := rr_aborted r @ [i]\<rparr>
   | COMPENSATED \<Rightarrow> r\<lparr>rr_compensated := rr_compensated r @ [i]\<rparr>
   | FAILED_MANUAL \<Rightarrow> r\<lparr>rr_failed_manual := rr_failed_manual r @ [i]\<rparr>
   | _ \<Rightarrow> r)"

definition failed :: "recovery_result \<Rightarrow> string \<Rightarrow> recovery_result" where
  "failed r i = r\<lparr>rr_failed_manual := rr_failed_manual r @ [i]\<rparr>"

fun recover_batches :: "compiler \<Rightarrow> recovery_result \<Rightarrow> journal_batch list \<Rightarrow> recovery_result act" where
  "recover_batches ce r [] = areturn r"
| "recover_batches ce r (b # rest) =
     (if terminal_state (jb_state b) then recover_batches ce r rest
      else if jb_state b = FAILED_MANUAL then areturn (failed r (jb_id b))
      else
        abind (acatch (abind (recover_batch ce (jb_id b) (jb_state b)) (\<lambda>st. areturn (Some st)))
                 (\<lambda>e. if is_unprovable e
                    then abind (journal_transaction (\<lambda>j. mark_failed_manual j (jb_id b))) (\<lambda>_. areturn None)
                    else araise e))
          (\<lambda>outcome. case outcome of
             None \<Rightarrow> areturn (failed r (jb_id b))
           | Some st \<Rightarrow> recover_batches ce (record_outcome r (jb_id b) st) rest))"

definition recover_under_lease :: "compiler \<Rightarrow> recovery_result act" where
  "recover_under_lease ce =
     abind (gets (\<lambda>s. ordered_batches (sd_journal (sp_db s)))) (\<lambda>batches.
     let existing = map jb_id (filter (\<lambda>b. jb_state b = FAILED_MANUAL) batches) in
     if existing \<noteq> [] then areturn \<lparr>rr_finalized = [], rr_aborted = [], rr_compensated = [], rr_failed_manual = existing\<rparr>
     else
       abind (collect_live (ce_digests ce)) (\<lambda>_.
       recover_batches ce \<lparr>rr_finalized = [], rr_aborted = [], rr_compensated = [], rr_failed_manual = []\<rparr> batches))"

record recovery_inspection =
  ri_pending :: "string list"
  ri_failed :: "string list"
  ri_clean :: bool
  ri_reasons :: "string list"

definition inspect :: "journal \<Rightarrow> recovery_inspection" where
  "inspect j =
     (let pending = filter (\<lambda>b. \<not> terminal_state (jb_state b)) (ordered_batches j);
          stuck = filter (\<lambda>b. jb_state b = FAILED_MANUAL) pending in
      \<lparr>ri_pending = map jb_id pending, ri_failed = map jb_id stuck, ri_clean = (pending = []),
       ri_reasons = map (\<lambda>_. ''mutation_recovery_required'') stuck\<rparr>)"

definition require_clean_under_lease :: "compiler \<Rightarrow> unit act" where
  "require_clean_under_lease ce = abind (recover_under_lease ce) (\<lambda>r.
     arequire (rr_failed_manual r = []) (SpaceRecoveryRequired ''space recovery requires manual intervention''))"

end
