(* ===== verification/UnitOfWork.thy ===== *)
theory UnitOfWork
  imports Recovery
begin

text \<open>
  The entry points of the mutation unit of work (\<open>app/mutation/unit_of_work.py\<close>): identity checks of a
  batch, recovery before it runs, the receipt of an earlier run, and the result hook. The lease under
  which all of this happens is not modelled; a hook is a function of the applied result.
\<close>

definition hash_prepared_batch_identity :: "digests \<Rightarrow> prepared_item list \<Rightarrow> string" where
  "hash_prepared_batch_identity dg items = sha256_hex dg (rfc8785_dumps dg
     (JList (map (\<lambda>i. JList [JInt (pi_request_index i), JStr (pi_operation_id i), JStr (pi_intent_hash i)]) items)))"

definition resume_or_return :: "digests \<Rightarrow> journal \<Rightarrow> journal_batch \<Rightarrow> string \<Rightarrow> batch_result res" where
  "resume_or_return dg j existing request_hash =
     (if jb_hash existing \<noteq> request_hash
      then Inl (IdempotencyConflict [(''requested_batch_id'', jb_id existing)])
      else if jb_state existing \<notin> {FINALIZED, ABORTED}
      then Inl (SpaceRecoveryRequired ''existing mutation receipt requires recovery'')
      else hydrate_result dg j (jb_result existing))"

text \<open>\<open>f"{index:04d}"\<close>.\<close>

definition four_digits :: "nat \<Rightarrow> string" where
  "four_digits n = (let t = nat_digits n in replicate (4 - length t) (CHR ''0'') @ t)"

definition child_operation_ids :: "digests \<Rightarrow> string \<Rightarrow> nat \<Rightarrow> string list res" where
  "child_operation_ids dg batch_id n = rmap (\<lambda>i. bounded_child_operation_id dg batch_id (four_digits i)) [0..<n]"

definition check_derivation :: "digests \<Rightarrow> string \<Rightarrow> string \<times> string \<times> string \<Rightarrow> unit res" where
  "check_derivation dg batch_id entry = (case entry of (operation_id, parent_id, suffix) \<Rightarrow>
     rbind (if parent_id \<noteq> batch_id then Inr [] else bounded_child_operation_id dg parent_id suffix) (\<lambda>derived.
     require (parent_id = batch_id \<and> derived = operation_id)
       (ValueErr ''operation ID derivation does not match its child'')))"

definition check_identity :: "digests \<Rightarrow> string \<Rightarrow> prepared_item list \<Rightarrow> (string \<times> string \<times> string) list \<Rightarrow> unit res" where
  "check_identity dg batch_id items derivations =
     (let ids = map pi_operation_id items in
      rbind (require (map pi_request_index items = map int [0..<length items])
               (ValueErr ''prepared items must have contiguous input-order indices'')) (\<lambda>_.
      rbind (require (distinct ids) (ValueErr ''prepared operation IDs must be unique'')) (\<lambda>_.
      rbind (rforeach validate_operation_id ids) (\<lambda>_.
      rbind (require (fst ` set derivations \<subseteq> set ids)
               (ValueErr ''operation ID derivations must belong to this batch'')) (\<lambda>_.
      rforeach (check_derivation dg batch_id) derivations)))))"

definition check_bindings :: "journal \<Rightarrow> string \<Rightarrow> string list \<Rightarrow> unit res" where
  "check_bindings j batch_id ids =
     (let bindings = find_operation_batch_bindings j ids;
          foreign = sort_key id (filter (\<lambda>(i, owner). owner \<noteq> batch_id) bindings) in
      case foreign of
        (operation_id, owner) # _ \<Rightarrow> Inl (IdempotencyConflict
          [(''operation_id'', operation_id), (''existing_batch_id'', owner), (''requested_batch_id'', batch_id)])
      | [] \<Rightarrow> require (bindings = []) (SpaceRecoveryRequired ''operation binding exists without its owning batch receipt''))"

type_synonym result_hook = "(mutation_result \<Rightarrow> row res) option"

definition run_hook :: "digests \<Rightarrow> result_hook \<Rightarrow> batch_result \<Rightarrow> batch_result act" where
  "run_hook dg hook result =
     (case hook of
        None \<Rightarrow> areturn result
      | Some f \<Rightarrow>
        abind (aforeach (\<lambda>applied. abind (alift (f applied)) (\<lambda>value.
                 journal_transaction (\<lambda>j. update_operation_result j (mr_operation_id applied) value))) (br_applied result)) (\<lambda>_.
        (\<lambda>s. (hydrate_result dg (sd_journal (sp_db s)) result, s))))"

definition execute_prepared_batch :: "compiler \<Rightarrow> prepared_item list \<Rightarrow> string \<Rightarrow> (string \<times> string \<times> string) list \<Rightarrow>
    result_hook \<Rightarrow> batch_result act" where
  "execute_prepared_batch ce items batch_id derivations hook =
     abind (alift (validate_operation_id batch_id)) (\<lambda>_.
     if items = [] then alift (BatchMutationResult (ce_digests ce) batch_id [] [] [] None)
     else
       abind (alift (check_identity (ce_digests ce) batch_id items derivations)) (\<lambda>_.
       let request_hash = hash_prepared_batch_identity (ce_digests ce) items in
       abind (require_clean_under_lease ce) (\<lambda>_.
       abind (gets (\<lambda>s. sd_journal (sp_db s))) (\<lambda>j.
       case get_batch j batch_id of
         Some existing \<Rightarrow> alift (resume_or_return (ce_digests ce) j existing request_hash)
       | None \<Rightarrow>
         abind (alift (check_bindings j batch_id (map pi_operation_id items))) (\<lambda>_.
         abind (run_batch ce batch_id request_hash items derivations) (\<lambda>result.
         run_hook (ce_digests ce) (if br_applied result = [] then None else hook) result))))))"

definition prepared_items :: "string list \<Rightarrow> request list \<Rightarrow> prepared_item list res" where
  "prepared_items ids requests = rmap (\<lambda>(index, operation_id, rq).
       PreparedBatchItem index operation_id (rq_hash rq) (Some rq) None) (enumerated (zip ids requests))"

definition execute_batch :: "compiler \<Rightarrow> request list \<Rightarrow> string \<Rightarrow> string list option \<Rightarrow> result_hook \<Rightarrow> batch_result act" where
  "execute_batch ce requests batch_id operation_ids hook =
     abind (alift (case operation_ids of
         Some ids \<Rightarrow> Inr (ids, [])
       | None \<Rightarrow> rbind (child_operation_ids (ce_digests ce) batch_id (length requests)) (\<lambda>ids.
           Inr (ids, map (\<lambda>(index, i). (i, batch_id, four_digits index)) (zip [0..<length ids] ids))))) (\<lambda>(ids, derivations).
     abind (arequire (length ids = length requests \<and> distinct ids)
              (ValueErr ''operation_ids must be unique and align with requests'')) (\<lambda>_.
     abind (alift (prepared_items ids requests)) (\<lambda>items.
     execute_prepared_batch ce items batch_id derivations hook)))"

definition execute :: "compiler \<Rightarrow> request \<Rightarrow> string \<Rightarrow> result_hook \<Rightarrow> mutation_result act" where
  "execute ce rq operation_id hook =
     abind (execute_batch ce [rq] operation_id (Some [operation_id]) hook) (\<lambda>outcome.
     case br_rejected outcome of
       r # _ \<Rightarrow> araise (MutationRejected (mj_code r))
     | [] \<Rightarrow> (case br_applied outcome of x # _ \<Rightarrow> areturn x | [] \<Rightarrow> araise (ValueErr ''IndexError'')))"

end
