(* ===== verification/JournalInvariant.thy ===== *)
theory JournalInvariant
  imports Journal
begin

text \<open>
  The invariant of the journal tables and that every operation of the journal keeps it: keys are
  unique, a batch counts its operations, an operation is in the state of its batch or one legal step
  ahead, events of a batch are visible only when it is finalized, and a finalized batch has all its
  projection steps applied and all its events visible.
\<close>

section \<open>Tables\<close>

lemma find_key:
  assumes "distinct (map f xs)"
  shows "find (\<lambda>r. f r = k) xs = Some r \<longleftrightarrow> r \<in> set xs \<and> f r = k"
  using assms by (induction xs) auto

lemma find_key_None: "find (\<lambda>r. f r = k) xs = None \<longleftrightarrow> k \<notin> f ` set xs"
  by (auto simp: find_None_iff)

lemma rowcount_key:
  assumes "distinct (map f xs)"
  shows "rowcount (\<lambda>r. f r = k \<and> p r) xs = (if \<exists>r \<in> set xs. f r = k \<and> p r then 1 else 0)"
  using assms
proof (induction xs)
  case (Cons x xs)
  then have ih: "rowcount (\<lambda>r. f r = k \<and> p r) xs = (if \<exists>r \<in> set xs. f r = k \<and> p r then 1 else 0)" by simp
  have "\<not> (\<exists>r \<in> set xs. f r = k)" if "f x = k" using Cons.prems that by (auto simp: rev_image_eqI)
  then show ?case using ih by (auto simp: rowcount_def)
qed (simp add: rowcount_def)

lemma rowcount_zero: "rowcount p xs = 0 \<longleftrightarrow> (\<forall>x \<in> set xs. \<not> p x)"
  by (simp add: rowcount_def filter_empty_conv)

lemma update_where_key:
  assumes "distinct (map f xs)" "r \<in> set xs" "f r = k" "p r"
  shows "update_where (\<lambda>r. f r = k \<and> p r) g xs = update_where (\<lambda>r. f r = k) g xs"
proof -
  have "x = r" if "x \<in> set xs" "f x = k" for x
    using assms(1-3) that by (auto simp: distinct_map dest: inj_onD)
  then show ?thesis using assms(4) by (auto simp: update_where_def)
qed

section \<open>Keys and counts\<close>

definition journal_keys :: "journal \<Rightarrow> bool" where
  "journal_keys j = (distinct (map jb_id (jr_batches j)) \<and> distinct (map jo_id (jr_ops j)) \<and>
     distinct (map (\<lambda>q. (jo_batch q, jo_sequence q)) (jr_ops j)) \<and>
     distinct (map (\<lambda>s. (js_op s, js_ordinal s)) (jr_steps j)) \<and>
     (\<forall>q \<in> set (jr_ops j). jo_batch q \<in> jb_id ` set (jr_batches j)) \<and>
     (\<forall>b \<in> set (jr_batches j). jb_accepted b = int (length (ops_of j (jb_id b)))) \<and>
     (\<forall>s \<in> set (jr_steps j). js_op s \<in> jo_id ` set (jr_ops j)))"

lemma keys_parts:
  assumes "journal_keys j"
  shows "distinct (map jb_id (jr_batches j))" "distinct (map jo_id (jr_ops j))"
    "distinct (map (\<lambda>q. (jo_batch q, jo_sequence q)) (jr_ops j))"
    "distinct (map (\<lambda>s. (js_op s, js_ordinal s)) (jr_steps j))"
    "\<forall>q \<in> set (jr_ops j). jo_batch q \<in> jb_id ` set (jr_batches j)"
    "\<forall>b \<in> set (jr_batches j). jb_accepted b = int (length (ops_of j (jb_id b)))"
    "\<forall>s \<in> set (jr_steps j). js_op s \<in> jo_id ` set (jr_ops j)"
proof -
  note k = assms [unfolded journal_keys_def]
  note k2 = conjunct2 [OF k] note k3 = conjunct2 [OF k2] note k4 = conjunct2 [OF k3] note k5 = conjunct2 [OF k4]
  note k6 = conjunct2 [OF k5]
  show "distinct (map jb_id (jr_batches j))" "distinct (map jo_id (jr_ops j))"
    "distinct (map (\<lambda>q. (jo_batch q, jo_sequence q)) (jr_ops j))"
    "distinct (map (\<lambda>s. (js_op s, js_ordinal s)) (jr_steps j))"
    "\<forall>q \<in> set (jr_ops j). jo_batch q \<in> jb_id ` set (jr_batches j)"
    "\<forall>b \<in> set (jr_batches j). jb_accepted b = int (length (ops_of j (jb_id b)))"
    "\<forall>s \<in> set (jr_steps j). js_op s \<in> jo_id ` set (jr_ops j)"
    by (fact conjunct1 [OF k] conjunct1 [OF k2] conjunct1 [OF k3] conjunct1 [OF k4] conjunct1 [OF k5]
        conjunct1 [OF k6] conjunct2 [OF k6])+
qed

lemma journal_keysD:
  assumes "journal_keys j"
  shows "get_batch j i = Some b \<longleftrightarrow> b \<in> set (jr_batches j) \<and> jb_id b = i"
    "get_op j k = Some q \<longleftrightarrow> q \<in> set (jr_ops j) \<and> jo_id q = k"
    "b \<in> set (jr_batches j) \<Longrightarrow> jb_accepted b = int (length (ops_of j (jb_id b)))"
    "b \<in> set (jr_batches j) \<Longrightarrow> b' \<in> set (jr_batches j) \<Longrightarrow> jb_id b = jb_id b' \<Longrightarrow> b = b'"
    "q \<in> set (jr_ops j) \<Longrightarrow> q' \<in> set (jr_ops j) \<Longrightarrow> jo_id q = jo_id q' \<Longrightarrow> q = q'"
    "q \<in> set (jr_ops j) \<Longrightarrow> \<exists>b \<in> set (jr_batches j). jb_id b = jo_batch q"
proof -
  note d = keys_parts(1,2) [OF assms] and own = keys_parts(5) [OF assms] and count = keys_parts(6) [OF assms]
  show "get_batch j i = Some b \<longleftrightarrow> b \<in> set (jr_batches j) \<and> jb_id b = i"
    unfolding get_batch_def by (rule find_key [OF d(1)])
  show "get_op j k = Some q \<longleftrightarrow> q \<in> set (jr_ops j) \<and> jo_id q = k"
    unfolding get_op_def by (rule find_key [OF d(2)])
  show "b \<in> set (jr_batches j) \<Longrightarrow> jb_accepted b = int (length (ops_of j (jb_id b)))"
    using count by blast
  show "b \<in> set (jr_batches j) \<Longrightarrow> b' \<in> set (jr_batches j) \<Longrightarrow> jb_id b = jb_id b' \<Longrightarrow> b = b'"
    using d(1) by (simp add: distinct_map inj_on_def)
  show "q \<in> set (jr_ops j) \<Longrightarrow> q' \<in> set (jr_ops j) \<Longrightarrow> jo_id q = jo_id q' \<Longrightarrow> q = q'"
    using d(2) by (simp add: distinct_map inj_on_def)
  show "q \<in> set (jr_ops j) \<Longrightarrow> \<exists>b \<in> set (jr_batches j). jb_id b = jo_batch q"
    using own by (metis imageE)
qed

text \<open>Operations that change rows in place keep keys and counts.\<close>

definition rows_in_place :: "journal \<Rightarrow> journal \<Rightarrow> bool" where
  "rows_in_place j j' = (map (\<lambda>b. (jb_id b, jb_accepted b)) (jr_batches j') = map (\<lambda>b. (jb_id b, jb_accepted b)) (jr_batches j) \<and>
     map (\<lambda>q. (jo_id q, jo_batch q, jo_sequence q)) (jr_ops j') = map (\<lambda>q. (jo_id q, jo_batch q, jo_sequence q)) (jr_ops j) \<and>
     map (\<lambda>s. (js_op s, js_ordinal s)) (jr_steps j') = map (\<lambda>s. (js_op s, js_ordinal s)) (jr_steps j))"

lemma map_via: "map (\<lambda>x. (f x, g x)) xs = map (\<lambda>x. (f x, g x)) ys \<Longrightarrow> map (\<lambda>x. h (f x) (g x)) xs = map (\<lambda>x. h (f x) (g x)) ys"
proof -
  assume a: "map (\<lambda>x. (f x, g x)) xs = map (\<lambda>x. (f x, g x)) ys"
  have "map (\<lambda>x. h (f x) (g x)) zs = map (\<lambda>(a, b). h a b) (map (\<lambda>x. (f x, g x)) zs)" for zs by simp
  then show ?thesis using a by metis
qed

lemma ops_of_length: "length (ops_of j b) = length (filter (\<lambda>x. x = b) (map jo_batch (jr_ops j)))"
  by (simp add: ops_of_def filter_map comp_def)

lemma keys_in_place:
  assumes "journal_keys j" "rows_in_place j j'"
  shows "journal_keys j'"
proof -
  have r: "map (\<lambda>b. (jb_id b, jb_accepted b)) (jr_batches j') = map (\<lambda>b. (jb_id b, jb_accepted b)) (jr_batches j)"
    "map (\<lambda>q. (jo_id q, jo_batch q, jo_sequence q)) (jr_ops j') = map (\<lambda>q. (jo_id q, jo_batch q, jo_sequence q)) (jr_ops j)"
    "map (\<lambda>s. (js_op s, js_ordinal s)) (jr_steps j') = map (\<lambda>s. (js_op s, js_ordinal s)) (jr_steps j)"
    using assms(2) unfolding rows_in_place_def by blast+
  have ids: "map jb_id (jr_batches j') = map jb_id (jr_batches j)"
    "map jo_id (jr_ops j') = map jo_id (jr_ops j)"
    "map (\<lambda>q. (jo_batch q, jo_sequence q)) (jr_ops j') = map (\<lambda>q. (jo_batch q, jo_sequence q)) (jr_ops j)"
    "map jo_batch (jr_ops j') = map jo_batch (jr_ops j)" "map js_op (jr_steps j') = map js_op (jr_steps j)"
    by (fact map_via [OF r(1), of "\<lambda>a b. a"] map_via [OF r(2), of "\<lambda>a b. a"] map_via [OF r(2), of "\<lambda>a b. b"]
        map_via [OF r(2), of "\<lambda>a b. fst b", unfolded fst_conv] map_via [OF r(3), of "\<lambda>a b. a"])+
  have len: "length (ops_of j' b) = length (ops_of j b)" for b by (simp add: ops_of_length ids(4))
  have acc: "(jb_id b, jb_accepted b) \<in> set (map (\<lambda>b. (jb_id b, jb_accepted b)) (jr_batches j))"
    if "b \<in> set (jr_batches j')" for b
  proof -
    have "(jb_id b, jb_accepted b) \<in> set (map (\<lambda>b. (jb_id b, jb_accepted b)) (jr_batches j'))" using that by force
    then show ?thesis using assms(2) by (simp only: rows_in_place_def)
  qed
  have count: "\<forall>b \<in> set (jr_batches j'). jb_accepted b = int (length (ops_of j' (jb_id b)))"
  proof
    fix b assume "b \<in> set (jr_batches j')"
    from acc [OF this] obtain b' where "b' \<in> set (jr_batches j)" "jb_id b' = jb_id b" "jb_accepted b' = jb_accepted b" by auto
    with journal_keysD(3) [OF assms(1)] len show "jb_accepted b = int (length (ops_of j' (jb_id b)))" by metis
  qed
  have images: "jo_batch ` set (jr_ops j') = jo_batch ` set (jr_ops j)" "jb_id ` set (jr_batches j') = jb_id ` set (jr_batches j)"
    "jo_id ` set (jr_ops j') = jo_id ` set (jr_ops j)" "js_op ` set (jr_steps j') = js_op ` set (jr_steps j)"
    using ids by (metis list.set_map)+
  note d = keys_parts(1-4) [OF assms(1)] and own0 = keys_parts(5,7) [OF assms(1)]
  have "jo_batch ` set (jr_ops j') \<subseteq> jb_id ` set (jr_batches j')" "js_op ` set (jr_steps j') \<subseteq> jo_id ` set (jr_ops j')"
    unfolding images using own0 by (blast intro: image_subsetI)+
  then have own: "\<forall>q \<in> set (jr_ops j'). jo_batch q \<in> jb_id ` set (jr_batches j')"
    "\<forall>s \<in> set (jr_steps j'). js_op s \<in> jo_id ` set (jr_ops j')"
    by blast+
  show ?thesis unfolding journal_keys_def ids r(3) by (intro conjI d own count)
qed

section \<open>The invariant\<close>

text \<open>An operation is in the state of its batch or has taken one legal step from it.\<close>

definition states_ok :: "journal \<Rightarrow> bool" where
  "states_ok j = (\<forall>b \<in> set (jr_batches j). \<forall>q \<in> set (jr_ops j). jo_batch q = jb_id b \<longrightarrow>
     jo_state q = jb_state b \<or> jo_state q \<in> set (LEGAL_TRANSITIONS (jb_state b)))"

text \<open>Events of a batch are shown only when the batch is finalized.\<close>

definition ledger_hidden :: "journal \<Rightarrow> bool" where
  "ledger_hidden j = (\<forall>e \<in> set (jr_ledger j). \<forall>i. le_batch e = Some i \<longrightarrow> le_visible e \<longrightarrow>
     (\<exists>b \<in> set (jr_batches j). jb_id b = i \<and> jb_state b = FINALIZED))"

text \<open>What finalization leaves behind: applied steps, and shown events of the operations of the batch.\<close>

definition batch_complete :: "journal \<Rightarrow> string \<Rightarrow> bool" where
  "batch_complete j i = (invalid_steps j i = [] \<and> (\<forall>e \<in> set (jr_ledger j). le_batch e = Some i \<longrightarrow>
     le_visible e \<and> le_op e \<in> Some ` jo_id ` set (ops_of j i)))"

definition finalized_complete :: "journal \<Rightarrow> bool" where
  "finalized_complete j = (\<forall>b \<in> set (jr_batches j). jb_state b = FINALIZED \<longrightarrow> batch_complete j (jb_id b))"

definition journal_ok :: "journal \<Rightarrow> bool" where
  "journal_ok j = (journal_keys j \<and> states_ok j \<and> ledger_hidden j \<and> finalized_complete j)"

lemma legal_cases:
  "t \<in> set (LEGAL_TRANSITIONS s) \<Longrightarrow> t \<noteq> s"
  "LEGAL_TRANSITIONS FINALIZED = []"
  "FINALIZED \<in> set (LEGAL_TRANSITIONS s) \<longleftrightarrow> s = FORWARD_APPLIED"
  by (cases s; auto simp: LEGAL_TRANSITIONS_def)+

lemma set_update_where: "set (update_where p f xs) = (\<lambda>r. if p r then f r else r) ` set xs"
  by (simp add: update_where_def)

lemma ops_of_mem: "q \<in> set (ops_of j i) \<longleftrightarrow> q \<in> set (jr_ops j) \<and> jo_batch q = i"
  by (auto simp: ops_of_def)

section \<open>One operation takes a step\<close>

text \<open>
  The effect of a transition: the operation gets the new state, and when all operations of the batch
  have it, so does the batch.
\<close>

definition siblings_at :: "journal \<Rightarrow> journal_op \<Rightarrow> mutation_state \<Rightarrow> bool" where
  "siblings_at j q t = (\<forall>q' \<in> set (jr_ops j). jo_batch q' = jo_batch q \<longrightarrow> jo_id q' \<noteq> jo_id q \<longrightarrow> jo_state q' = t)"

definition moved :: "journal \<Rightarrow> journal_op \<Rightarrow> mutation_state \<Rightarrow> journal" where
  "moved j q t = j\<lparr>jr_ops := update_where (\<lambda>q'. jo_id q' = jo_id q) (jo_state_update (\<lambda>_. t)) (jr_ops j),
     jr_batches := (if siblings_at j q t
       then update_where (\<lambda>b. jb_id b = jo_batch q) (jb_state_update (\<lambda>_. t)) (jr_batches j) else jr_batches j)\<rparr>"

lemma transition_op_iff:
  assumes "journal_keys j"
  shows "transition_op j i s t = Inr j' \<longleftrightarrow> t \<in> set (LEGAL_TRANSITIONS s) \<and>
    (\<exists>q b. q \<in> set (jr_ops j) \<and> jo_id q = i \<and> jo_state q = s \<and> b \<in> set (jr_batches j) \<and> jb_id b = jo_batch q \<and>
       jb_state b = s \<and> j' = moved j q t)"
proof (cases "t \<in> set (LEGAL_TRANSITIONS s) \<and> (\<exists>q \<in> set (jr_ops j). jo_id q = i)")
  case True
  then obtain q where t: "t \<in> set (LEGAL_TRANSITIONS s)" and q: "q \<in> set (jr_ops j)" "jo_id q = i" by blast
  obtain b where b: "b \<in> set (jr_batches j)" "jb_id b = jo_batch q" using journal_keysD(6) [OF assms q(1)] by blast
  note keys = keys_parts [OF assms]
  have get: "get_op j i = Some q" "get_batch j (jo_batch q) = Some b"
    using journal_keysD(1,2) [OF assms] q b by simp_all
  have count: "int (length (ops_of j (jo_batch q))) = jb_accepted b" using keys(6) b by simp
  have only: "q' = q" if "q' \<in> set (jr_ops j)" "jo_id q' = i" for q'
    using journal_keysD(5) [OF assms that(1) q(1)] that(2) q(2) by simp
  have only_b: "b' = b" if "b' \<in> set (jr_batches j)" "jb_id b' = jo_batch q" for b'
    using journal_keysD(4) [OF assms that(1) b(1)] that(2) b(2) by simp
  have hit: "rowcount (\<lambda>q. jo_id q = i \<and> jo_state q = s) (jr_ops j) = 1 \<longleftrightarrow> jo_state q = s"
  proof -
    have "(\<exists>r \<in> set (jr_ops j). jo_id r = i \<and> jo_state r = s) \<longleftrightarrow> jo_state q = s" using q only by metis
    then show ?thesis unfolding rowcount_key [OF keys(2)] by simp
  qed
  show ?thesis
  proof (cases "jo_state q = s \<and> jb_state b = s")
    case st: True
    let ?ops = "update_where (\<lambda>q'. jo_id q' = jo_id q) (jo_state_update (\<lambda>_. t)) (jr_ops j)"
    have ops: "update_where (\<lambda>q'. jo_id q' = i \<and> jo_state q' = s) (jo_state_update (\<lambda>_. t)) (jr_ops j) = ?ops"
      unfolding q(2) by (rule update_where_key [OF keys(2) q]) (use st in simp)
    have batches: "update_where (\<lambda>b'. jb_id b' = jo_batch q \<and> jb_state b' = s) (jb_state_update (\<lambda>_. t)) (jr_batches j) =
        update_where (\<lambda>b'. jb_id b' = jo_batch q) (jb_state_update (\<lambda>_. t)) (jr_batches j)"
      by (rule update_where_key [OF keys(1) b]) (use st in simp)
    have bhit: "rowcount (\<lambda>b'. jb_id b' = jo_batch q \<and> jb_state b' = s) (jr_batches j) = 1"
      unfolding rowcount_key [OF keys(1)] using b st by auto
    have rest: "rowcount (\<lambda>q'. jo_batch q' = jo_batch q \<and> jo_state q' \<noteq> t) ?ops = 0 \<longleftrightarrow> siblings_at j q t"
    proof -
      have "jo_batch (if jo_id x = jo_id q then x\<lparr>jo_state := t\<rparr> else x) = jo_batch q \<and>
          jo_state (if jo_id x = jo_id q then x\<lparr>jo_state := t\<rparr> else x) \<noteq> t \<longleftrightarrow>
          jo_batch x = jo_batch q \<and> jo_id x \<noteq> jo_id q \<and> jo_state x \<noteq> t" for x by simp
      then show ?thesis unfolding rowcount_zero set_update_where siblings_at_def Set.ball_simps(9) by blast
    qed
    have "transition_op j i s t = Inr (moved j q t)"
      using t st get count hit bhit rest unfolding transition_op_def
      by (cases "siblings_at j q t") (simp_all add: Let_def ops batches moved_def)
    moreover have "q' = q" if "q' \<in> set (jr_ops j) \<and> jo_id q' = i" for q' using only that by blast
    ultimately show ?thesis using t st q b by (metis (no_types, lifting) Inr_inject)
  next
    case False
    then have "transition_op j i s t \<noteq> Inr j'"
      using t get hit unfolding transition_op_def by (auto simp: Let_def rbind_Inr)
    moreover have "\<not> (\<exists>q b. q \<in> set (jr_ops j) \<and> jo_id q = i \<and> jo_state q = s \<and> b \<in> set (jr_batches j) \<and>
        jb_id b = jo_batch q \<and> jb_state b = s \<and> j' = moved j q t)"
      using False only only_b by metis
    ultimately show ?thesis by blast
  qed
next
  case False
  have "get_op j i = None" if "\<not> (\<exists>q \<in> set (jr_ops j). jo_id q = i)"
    using that by (auto simp: get_op_def find_None_iff)
  then show ?thesis using False unfolding transition_op_def by auto
qed

section \<open>The operations keep the invariant\<close>

lemma map_update_where: "(\<And>x. p x \<Longrightarrow> g (f x) = g x) \<Longrightarrow> map g (update_where p f xs) = map g xs"
  by (simp add: update_where_def)

lemma moved_select [simp]:
  "jr_steps (moved j q t) = jr_steps j" "jr_ledger (moved j q t) = jr_ledger j"
  "jr_ops (moved j q t) = update_where (\<lambda>q'. jo_id q' = jo_id q) (jo_state_update (\<lambda>_. t)) (jr_ops j)"
  by (simp_all add: moved_def)

lemma moved_in_place: "rows_in_place j (moved j q t)"
  by (simp add: rows_in_place_def moved_def map_update_where)

text \<open>The state of a batch after the change, and that of its operations.\<close>

lemma moved_batch:
  assumes "b' \<in> set (jr_batches (moved j q t))"
  obtains b where "b \<in> set (jr_batches j)" "jb_id b' = jb_id b"
    "jb_state b' = (if siblings_at j q t \<and> jb_id b = jo_batch q then t else jb_state b)"
proof (cases "siblings_at j q t")
  case True
  with assms obtain b where b: "b \<in> set (jr_batches j)" "b' = (if jb_id b = jo_batch q then b\<lparr>jb_state := t\<rparr> else b)"
    by (auto simp: moved_def set_update_where)
  show ?thesis by (rule that [of b]) (use b True in auto)
next
  case False
  with assms show ?thesis by (intro that [of b']) (simp_all add: moved_def)
qed

lemma moved_op:
  assumes "q' \<in> set (jr_ops (moved j q t))"
  obtains p where "p \<in> set (jr_ops j)" "jo_id q' = jo_id p" "jo_batch q' = jo_batch p"
    "jo_state q' = (if jo_id p = jo_id q then t else jo_state p)"
  using assms by (auto simp: set_update_where)

text \<open>What depends on the identifiers of operations only.\<close>

lemma ops_ids_in_place:
  assumes "rows_in_place j j'"
  shows "jo_id ` set (ops_of j' i) = jo_id ` set (ops_of j i)"
proof -
  have r: "map (\<lambda>q. (jo_id q, jo_batch q, jo_sequence q)) (jr_ops j') = map (\<lambda>q. (jo_id q, jo_batch q, jo_sequence q)) (jr_ops j)"
    using assms unfolding rows_in_place_def by blast
  have "jo_id ` set (ops_of h i) = {k. (k, i) \<in> set (map (\<lambda>q. (jo_id q, jo_batch q)) (jr_ops h))}" for h
    by (auto simp: ops_of_def)
  moreover have "map (\<lambda>q. (jo_id q, jo_batch q)) (jr_ops j') = map (\<lambda>q. (jo_id q, jo_batch q)) (jr_ops j)"
    using map_via [OF r, of "\<lambda>a b. (a, fst b)"] by simp
  ultimately show ?thesis by (simp only:)
qed

lemma complete_in_place:
  assumes "rows_in_place j j'" "jr_steps j' = jr_steps j" "jr_ledger j' = jr_ledger j"
  shows "batch_complete j' i \<longleftrightarrow> batch_complete j i"
  by (simp add: batch_complete_def invalid_steps_def assms(2,3) ops_ids_in_place [OF assms(1)])

lemma transition_op_keeps:
  assumes "journal_ok j" "transition_op j i s t = Inr j'" "t \<noteq> FINALIZED"
  shows "journal_ok j'"
proof -
  have keys: "journal_keys j" and st: "states_ok j" and led: "ledger_hidden j" and fin: "finalized_complete j"
    using assms(1) by (simp_all add: journal_ok_def)
  obtain q b where t: "t \<in> set (LEGAL_TRANSITIONS s)" and q: "q \<in> set (jr_ops j)" "jo_state q = s"
    and b: "b \<in> set (jr_batches j)" "jb_id b = jo_batch q" "jb_state b = s" and j': "j' = moved j q t"
    using assms(2) unfolding transition_op_iff [OF keys] by blast
  have only: "p = q" if "p \<in> set (jr_ops j)" "jo_id p = jo_id q" for p using journal_keysD(5) [OF keys that(1) q(1) that(2)] .
  have only_b: "p = b" if "p \<in> set (jr_batches j)" "jb_id p = jo_batch q" for p
    using journal_keysD(4) [OF keys that(1) b(1)] that(2) b(2) by simp
  have "journal_keys j'" unfolding j' by (rule keys_in_place [OF keys moved_in_place])
  moreover have "states_ok j'"
    unfolding states_ok_def
  proof (intro ballI impI)
    fix b' q' assume b': "b' \<in> set (jr_batches j')" and q': "q' \<in> set (jr_ops j')" and own: "jo_batch q' = jb_id b'"
    obtain c where c: "c \<in> set (jr_batches j)" "jb_id b' = jb_id c"
      "jb_state b' = (if siblings_at j q t \<and> jb_id c = jo_batch q then t else jb_state c)"
      by (rule moved_batch [OF b' [unfolded j']])
    obtain p where p: "p \<in> set (jr_ops j)" "jo_id q' = jo_id p" "jo_batch q' = jo_batch p"
      "jo_state q' = (if jo_id p = jo_id q then t else jo_state p)"
      by (rule moved_op [OF q' [unfolded j']])
    have old: "jo_state p = jb_state c \<or> jo_state p \<in> set (LEGAL_TRANSITIONS (jb_state c))"
      using st p(1,3) c(1,2) own by (simp add: states_ok_def)
    show "jo_state q' = jb_state b' \<or> jo_state q' \<in> set (LEGAL_TRANSITIONS (jb_state b'))"
    proof (cases "jb_id c = jo_batch q")
      case True
      then have cb: "c = b" using only_b c(1) by blast
      show ?thesis
      proof (cases "siblings_at j q t")
        case True
        then have "jo_state q' = t" using p own c(2) \<open>jb_id c = jo_batch q\<close> by (auto simp: siblings_at_def)
        then show ?thesis using c(3) True \<open>jb_id c = jo_batch q\<close> by simp
      next
        case False
        then show ?thesis using p(4) c(3) cb b(3) t old by auto
      qed
    next
      case False
      then have "jo_id p \<noteq> jo_id q" using only p(1,3) own c(2) by metis
      then show ?thesis using False p(4) c(3) old by simp
    qed
  qed
  moreover have fin_b: "c \<in> set (jr_batches j') \<and> jb_id c = i' \<and> jb_state c = FINALIZED \<Longrightarrow>
      \<exists>c' \<in> set (jr_batches j). jb_id c' = i' \<and> jb_state c' = FINALIZED" for c i'
    using assms(3) unfolding j' by (auto elim!: moved_batch split: if_splits)
  have keep_b: "c \<in> set (jr_batches j) \<Longrightarrow> jb_state c = FINALIZED \<Longrightarrow> c \<in> set (jr_batches j')" for c
    using only_b [of c] b(3) t unfolding j' by (auto simp: moved_def set_update_where LEGAL_TRANSITIONS_def image_iff)
  have "ledger_hidden j'"
    using led keep_b unfolding ledger_hidden_def j' by (simp add: moved_select) blast
  moreover have "finalized_complete j'"
    using fin fin_b complete_in_place [OF moved_in_place, of j q t] unfolding finalized_complete_def j'
    by (metis moved_select(1,2))
  ultimately show ?thesis by (simp add: journal_ok_def)
qed

text \<open>A change that brings a whole batch to one state.\<close>

definition whole_batch :: "journal \<Rightarrow> string \<Rightarrow> mutation_state \<Rightarrow> journal \<Rightarrow> bool" where
  "whole_batch j i t j' = (rows_in_place j j' \<and>
     (\<forall>b' \<in> set (jr_batches j'). \<exists>b \<in> set (jr_batches j). jb_id b' = jb_id b \<and>
        jb_state b' = (if jb_id b = i then t else jb_state b)) \<and>
     (\<forall>b \<in> set (jr_batches j). jb_id b \<noteq> i \<longrightarrow> b \<in> set (jr_batches j')) \<and>
     (\<forall>q' \<in> set (jr_ops j'). \<exists>q \<in> set (jr_ops j). jo_id q' = jo_id q \<and> jo_batch q' = jo_batch q \<and>
        jo_state q' = (if jo_batch q = i then t else jo_state q)))"

lemma whole_batch_states:
  assumes "states_ok j" "whole_batch j i t j'"
  shows "states_ok j'"
  unfolding states_ok_def
proof (intro ballI impI)
  fix b' q' assume b': "b' \<in> set (jr_batches j')" and q': "q' \<in> set (jr_ops j')" and own: "jo_batch q' = jb_id b'"
  obtain b where b: "b \<in> set (jr_batches j)" "jb_id b' = jb_id b" "jb_state b' = (if jb_id b = i then t else jb_state b)"
    using assms(2) b' unfolding whole_batch_def by blast
  obtain q where q: "q \<in> set (jr_ops j)" "jo_batch q' = jo_batch q" "jo_state q' = (if jo_batch q = i then t else jo_state q)"
    using assms(2) q' unfolding whole_batch_def by blast
  show "jo_state q' = jb_state b' \<or> jo_state q' \<in> set (LEGAL_TRANSITIONS (jb_state b'))"
    using assms(1) b q own by (auto simp: states_ok_def)
qed

lemma whole_batch_keeps:
  assumes "journal_ok j" "whole_batch j i t j'" "jr_steps j' = jr_steps j" "jr_ledger j' = jr_ledger j"
    "t \<noteq> FINALIZED" "\<forall>b \<in> set (jr_batches j). jb_id b = i \<longrightarrow> jb_state b \<noteq> FINALIZED"
  shows "journal_ok j'"
proof -
  have keys: "journal_keys j" and st: "states_ok j" and led: "ledger_hidden j" and fin: "finalized_complete j"
    using assms(1) by (simp_all add: journal_ok_def)
  have rows: "rows_in_place j j'"
    and old: "\<And>b'. b' \<in> set (jr_batches j') \<Longrightarrow> \<exists>b \<in> set (jr_batches j). jb_id b' = jb_id b \<and>
        jb_state b' = (if jb_id b = i then t else jb_state b)"
    and stay: "\<And>b. b \<in> set (jr_batches j) \<Longrightarrow> jb_id b \<noteq> i \<Longrightarrow> b \<in> set (jr_batches j')"
    using assms(2) unfolding whole_batch_def by blast+
  have "ledger_hidden j'"
    using led stay assms(4,6) unfolding ledger_hidden_def by metis
  moreover have "finalized_complete j'"
    unfolding finalized_complete_def
  proof (intro ballI impI)
    fix b' assume "b' \<in> set (jr_batches j')" "jb_state b' = FINALIZED"
    with old assms(5) obtain b where "b \<in> set (jr_batches j)" "jb_id b' = jb_id b" "jb_state b = FINALIZED" by metis
    then show "batch_complete j' (jb_id b')"
      using fin complete_in_place [OF rows assms(3,4)] by (simp add: finalized_complete_def)
  qed
  ultimately show ?thesis
    using keys_in_place [OF keys rows] whole_batch_states [OF st assms(2)] by (simp add: journal_ok_def)
qed

lemma mark_staged_keeps:
  assumes "journal_ok j" "mark_staged j i manifests = Inr j'"
  shows "journal_ok j'" "\<exists>b \<in> set (jr_batches j). jb_id b = i \<and> jb_state b = INTENT"
proof -
  let ?ms = "map (\<lambda>m. (mf_operation_id m, mf_sha256 m)) manifests"
  have keys: "journal_keys j" using assms(1) by (simp add: journal_ok_def)
  obtain b where b: "get_batch j i = Some b" "jb_state b = INTENT"
    and ids: "map mf_operation_id manifests = map jo_id (ordered_ops j i)"
    and j': "j' = j\<lparr>jr_ops := stage_ops ?ms (jr_ops j),
       jr_batches := update_where (\<lambda>b. jb_id b = i) (jb_state_update (\<lambda>_. STAGED)) (jr_batches j)\<rparr>"
    using assms(2) unfolding mark_staged_def Let_def
    by (auto simp: rbind_Inr require_Inr split: option.splits)
  note mem = journal_keysD(1) [OF keys, of i b]
  then show "\<exists>b \<in> set (jr_batches j). jb_id b = i \<and> jb_state b = INTENT" using b by blast
  have dom: "map_of ?ms k = None \<longleftrightarrow> k \<notin> jo_id ` set (ops_of j i)" for k
  proof -
    have "fst ` set ?ms = set (map mf_operation_id manifests)" by (auto simp: image_image)
    also have "\<dots> = jo_id ` set (ops_of j i)" unfolding ids by (simp add: ordered_ops_def)
    finally show ?thesis by (simp add: map_of_eq_None_iff)
  qed
  have hit: "jo_id q \<in> jo_id ` set (ops_of j i) \<longleftrightarrow> jo_batch q = i" if "q \<in> set (jr_ops j)" for q
  proof
    assume "jo_id q \<in> jo_id ` set (ops_of j i)"
    then obtain x where "x \<in> set (jr_ops j)" "jo_batch x = i" "jo_id q = jo_id x" by (auto simp: ops_of_mem)
    then show "jo_batch q = i" using journal_keysD(5) [OF keys that] by metis
  qed (use that in \<open>simp add: ops_of_mem\<close>)
  have row: "jo_id (case map_of ?ms (jo_id q) of None \<Rightarrow> q | Some sha \<Rightarrow> q\<lparr>jo_manifest := Some sha, jo_state := STAGED\<rparr>) = jo_id q \<and>
     jo_batch (case map_of ?ms (jo_id q) of None \<Rightarrow> q | Some sha \<Rightarrow> q\<lparr>jo_manifest := Some sha, jo_state := STAGED\<rparr>) = jo_batch q \<and>
     jo_sequence (case map_of ?ms (jo_id q) of None \<Rightarrow> q | Some sha \<Rightarrow> q\<lparr>jo_manifest := Some sha, jo_state := STAGED\<rparr>) = jo_sequence q \<and>
     (q \<in> set (jr_ops j) \<longrightarrow> jo_state (case map_of ?ms (jo_id q) of None \<Rightarrow> q | Some sha \<Rightarrow> q\<lparr>jo_manifest := Some sha, jo_state := STAGED\<rparr>) =
        (if jo_batch q = i then STAGED else jo_state q))" for q
    using dom [of "jo_id q"] hit [of q] by (cases "map_of ?ms (jo_id q)") auto
  have "rows_in_place j j'"
    using row by (simp add: rows_in_place_def j' map_update_where stage_ops_def comp_def)
  moreover have "\<exists>b \<in> set (jr_batches j). jb_id b' = jb_id b \<and> jb_state b' = (if jb_id b = i then STAGED else jb_state b)"
    if "b' \<in> set (jr_batches j')" for b'
    using that by (auto simp: j' set_update_where)
  moreover have "b \<in> set (jr_batches j')" if "b \<in> set (jr_batches j)" "jb_id b \<noteq> i" for b
    using that by (auto simp: j' set_update_where image_iff)
  moreover have "\<exists>q \<in> set (jr_ops j). jo_id q' = jo_id q \<and> jo_batch q' = jo_batch q \<and>
      jo_state q' = (if jo_batch q = i then STAGED else jo_state q)" if "q' \<in> set (jr_ops j')" for q'
    using that row by (auto simp: j' stage_ops_def)
  ultimately have whole: "whole_batch j i STAGED j'" unfolding whole_batch_def by blast
  have "\<forall>b \<in> set (jr_batches j). jb_id b = i \<longrightarrow> jb_state b \<noteq> FINALIZED"
    using b mem journal_keysD(4) [OF keys] by fastforce
  then show "journal_ok j'" by (intro whole_batch_keeps [OF assms(1) whole]) (simp_all add: j')
qed

lemma transition_all_keeps:
  assumes "journal_ok j" "transition_all j s t is = Inr j'" "t \<noteq> FINALIZED"
  shows "journal_ok j'"
  using assms by (induction j s t "is" rule: transition_all.induct) (auto simp: rbind_Inr intro: transition_op_keeps)

text \<open>Steps and ledger rows.\<close>

lemma mark_step_applied_keeps:
  assumes "journal_ok j" "mark_step_applied j i n h = Inr j'"
  shows "journal_ok j'"
proof -
  let ?hit = "\<lambda>s. js_op s = i \<and> js_ordinal s = n \<and> js_state s = StepPending \<and> js_after s = h \<and> js_applied s = None"
  have j': "j' = j\<lparr>jr_steps := update_where ?hit (\<lambda>s. s\<lparr>js_state := StepApplied, js_applied := h\<rparr>) (jr_steps j)\<rparr>"
    using assms(2) by (auto simp: mark_step_applied_def Let_def split: if_splits)
  have rows: "rows_in_place j j'" by (simp add: rows_in_place_def j' map_update_where)
  have ops: "ops_of j' k = ops_of j k" "jr_batches j' = jr_batches j" "jr_ledger j' = jr_ledger j" for k
    by (simp_all add: ops_of_def j')
  have "invalid_steps j' k = []" if "invalid_steps j k = []" for k
  proof -
    have old: "\<forall>s \<in> set (jr_steps j). js_op s \<in> jo_id ` set (ops_of j k) \<longrightarrow> js_state s = StepApplied \<and> js_applied s = js_after s"
      using that by (simp add: invalid_steps_def filter_empty_conv)
    have "js_state s' = StepApplied \<and> js_applied s' = js_after s'"
      if s': "s' \<in> set (jr_steps j')" "js_op s' \<in> jo_id ` set (ops_of j k)" for s'
    proof -
      obtain s where s: "s \<in> set (jr_steps j)" "s' = (if ?hit s then s\<lparr>js_state := StepApplied, js_applied := h\<rparr> else s)"
        using s'(1) by (auto simp: j' set_update_where)
      with old s'(2) show ?thesis by (cases "?hit s") auto
    qed
    then show ?thesis by (simp add: invalid_steps_def filter_empty_conv ops(1))
  qed
  then have "finalized_complete j'"
    using assms(1) by (simp add: journal_ok_def finalized_complete_def batch_complete_def ops)
  then show ?thesis
    using assms(1) keys_in_place [OF _ rows] by (simp add: journal_ok_def states_ok_def ledger_hidden_def j')
qed

text \<open>Hidden events of a batch that is not finalized.\<close>

lemma hidden_events_keep:
  assumes "journal_ok j" "set (jr_ledger j') \<subseteq> set (jr_ledger j) \<union> new"
    "\<forall>e \<in> new. \<not> le_visible e \<and> (\<forall>i. le_batch e = Some i \<longrightarrow>
       (\<forall>b \<in> set (jr_batches j). jb_id b = i \<longrightarrow> jb_state b \<noteq> FINALIZED))"
    "jr_batches j' = jr_batches j" "jr_ops j' = jr_ops j" "jr_steps j' = jr_steps j"
  shows "journal_ok j'"
proof -
  have ops: "ops_of j' k = ops_of j k" for k by (simp add: ops_of_def assms(5))
  have "ledger_hidden j'" using assms(1-4) unfolding journal_ok_def ledger_hidden_def by fastforce
  moreover have "finalized_complete j'"
    unfolding finalized_complete_def
  proof (intro ballI impI)
    fix b assume b: "b \<in> set (jr_batches j')" "jb_state b = FINALIZED"
    then have old: "batch_complete j (jb_id b)" using assms(1,4) by (simp add: journal_ok_def finalized_complete_def)
    have "e \<in> set (jr_ledger j)" if "e \<in> set (jr_ledger j')" "le_batch e = Some (jb_id b)" for e
    proof (rule ccontr)
      assume "e \<notin> set (jr_ledger j)"
      then have "e \<in> new" using assms(2) that(1) by (meson UnE subsetD)
      then show False using assms(3,4) b that(2) by metis
    qed
    then show "batch_complete j' (jb_id b)"
      using old by (simp add: batch_complete_def invalid_steps_def ops assms(6))
  qed
  moreover have "journal_keys j'" using assms(1,4-6) by (simp add: journal_ok_def journal_keys_def ops)
  moreover have "states_ok j'" using assms(1,4,5) by (simp add: journal_ok_def states_ok_def)
  ultimately show ?thesis by (simp add: journal_ok_def)
qed

text \<open>The stored response of a finalized operation.\<close>

lemma update_operation_result_keeps:
  assumes "journal_ok j" "update_operation_result j i v = Inr j'"
  shows "journal_ok j'"
proof -
  have j': "j' = j\<lparr>jr_ops := update_where (\<lambda>q. jo_id q = i) (jo_result_update (\<lambda>_. Some v)) (jr_ops j)\<rparr>"
    using assms(2) by (auto simp: update_operation_result_def rbind_Inr split: option.splits)
  have rows: "rows_in_place j j'" by (simp add: rows_in_place_def j' map_update_where)
  have "states_ok j'"
    unfolding states_ok_def
  proof (intro ballI impI)
    fix b q' assume b: "b \<in> set (jr_batches j')" and q': "q' \<in> set (jr_ops j')" "jo_batch q' = jb_id b"
    obtain q where "q \<in> set (jr_ops j)" "jo_batch q' = jo_batch q" "jo_state q' = jo_state q"
      using q'(1) by (auto simp: j' set_update_where)
    then show "jo_state q' = jb_state b \<or> jo_state q' \<in> set (LEGAL_TRANSITIONS (jb_state b))"
      using assms(1) b q'(2) by (simp add: journal_ok_def states_ok_def j')
  qed
  moreover have "finalized_complete j'"
    using assms(1) complete_in_place [OF rows] by (simp add: journal_ok_def finalized_complete_def j')
  moreover have "ledger_hidden j'" using assms(1) by (simp add: journal_ok_def ledger_hidden_def j')
  ultimately show ?thesis using assms(1) keys_in_place [OF _ rows] by (simp add: journal_ok_def)
qed

text \<open>New batches.\<close>

lemma add_all_ops:
  assumes "add_all add_op j qs = Inr j'" "distinct (map jo_id (jr_ops j))"
    "distinct (map (\<lambda>q. (jo_batch q, jo_sequence q)) (jr_ops j))"
  shows "j' = j\<lparr>jr_ops := jr_ops j @ qs\<rparr> \<and> distinct (map jo_id (jr_ops j @ qs)) \<and>
    distinct (map (\<lambda>q. (jo_batch q, jo_sequence q)) (jr_ops j @ qs))"
  using assms
proof (induction qs arbitrary: j)
  case (Cons q qs)
  then obtain j1 where "add_op j q = Inr j1" and tail: "add_all add_op j1 qs = Inr j'" by (auto simp: rbind_Inr)
  then have new: "jo_id q \<notin> set (map jo_id (jr_ops j))"
    "(jo_batch q, jo_sequence q) \<notin> set (map (\<lambda>q. (jo_batch q, jo_sequence q)) (jr_ops j))"
    and rest: "add_all add_op (j\<lparr>jr_ops := jr_ops j @ [q]\<rparr>) qs = Inr j'"
    unfolding add_op_def by (simp_all del: set_map split: if_splits)
  have "distinct (map jo_id (jr_ops j @ [q]))" "distinct (map (\<lambda>q. (jo_batch q, jo_sequence q)) (jr_ops j @ [q]))"
    using Cons.prems(2,3) new by simp_all
  with Cons.IH [OF rest] show ?case by simp
qed simp

lemma add_all_steps:
  assumes "add_all add_step j ss = Inr j'" "distinct (map (\<lambda>s. (js_op s, js_ordinal s)) (jr_steps j))"
  shows "j' = j\<lparr>jr_steps := jr_steps j @ ss\<rparr> \<and> distinct (map (\<lambda>s. (js_op s, js_ordinal s)) (jr_steps j @ ss))"
  using assms
proof (induction ss arbitrary: j)
  case (Cons s ss)
  then obtain j1 where "add_step j s = Inr j1" and tail: "add_all add_step j1 ss = Inr j'" by (auto simp: rbind_Inr)
  then have new: "(js_op s, js_ordinal s) \<notin> set (map (\<lambda>s. (js_op s, js_ordinal s)) (jr_steps j))"
    and rest: "add_all add_step (j\<lparr>jr_steps := jr_steps j @ [s]\<rparr>) ss = Inr j'"
    unfolding add_step_def by (simp_all del: set_map split: if_splits)
  have "distinct (map (\<lambda>s. (js_op s, js_ordinal s)) (jr_steps j @ [s]))" using Cons.prems(2) new by simp
  with Cons.IH [OF rest] show ?case by simp
qed simp

lemma journal_extended:
  assumes "journal_ok j" "jb_id b \<notin> set (map jb_id (jr_batches j))" "jb_state b \<noteq> FINALIZED"
    "jb_accepted b = int (length qs)" "\<forall>q \<in> set qs. jo_batch q = jb_id b \<and> jo_state q = jb_state b"
    "distinct (map jo_id (jr_ops j @ qs))" "distinct (map (\<lambda>q. (jo_batch q, jo_sequence q)) (jr_ops j @ qs))"
    "distinct (map (\<lambda>s. (js_op s, js_ordinal s)) (jr_steps j @ ss))" "\<forall>s \<in> set ss. js_op s \<in> jo_id ` set qs"
  shows "journal_ok (j\<lparr>jr_batches := jr_batches j @ [b], jr_ops := jr_ops j @ qs, jr_steps := jr_steps j @ ss\<rparr>)"
proof -
  let ?j = "j\<lparr>jr_batches := jr_batches j @ [b], jr_ops := jr_ops j @ qs, jr_steps := jr_steps j @ ss\<rparr>"
  have keys: "journal_keys j" and st: "states_ok j" and led: "ledger_hidden j" and fin: "finalized_complete j"
    using assms(1) by (simp_all add: journal_ok_def)
  note k = keys_parts [OF keys]
  have fresh: "jo_batch q \<noteq> jb_id b" if "q \<in> set (jr_ops j)" for q
    using k(5) assms(2) that by (metis list.set_map)
  have old: "ops_of ?j (jb_id c) = ops_of j (jb_id c)" if "c \<in> set (jr_batches j)" for c
    using assms(2,5) that by (auto simp: ops_of_def filter_empty_conv)
  have new: "ops_of ?j (jb_id b) = qs"
    using fresh assms(5) by (simp add: ops_of_def filter_empty_conv filter_id_conv)
  have "journal_keys ?j"
    unfolding journal_keys_def
  proof (intro conjI)
    show "distinct (map jb_id (jr_batches ?j))" using k(1) assms(2) by simp
    show "distinct (map jo_id (jr_ops ?j))" "distinct (map (\<lambda>q. (jo_batch q, jo_sequence q)) (jr_ops ?j))"
      "distinct (map (\<lambda>s. (js_op s, js_ordinal s)) (jr_steps ?j))" using assms(6-8) by simp_all
    show "\<forall>q \<in> set (jr_ops ?j). jo_batch q \<in> jb_id ` set (jr_batches ?j)" using k(5) assms(5) by auto
    show "\<forall>c \<in> set (jr_batches ?j). jb_accepted c = int (length (ops_of ?j (jb_id c)))"
      using k(6) old new assms(4) by auto
    show "\<forall>s \<in> set (jr_steps ?j). js_op s \<in> jo_id ` set (jr_ops ?j)" using k(7) assms(9) by auto
  qed
  moreover have "states_ok ?j"
    using st fresh assms(2,5) unfolding states_ok_def by (auto simp: image_iff)
  moreover have "ledger_hidden ?j" using led unfolding ledger_hidden_def by auto
  moreover have "batch_complete ?j (jb_id c)" if c: "c \<in> set (jr_batches j)" "jb_state c = FINALIZED" for c
  proof -
    have "jo_id q \<notin> jo_id ` set qs" if "q \<in> set (jr_ops j)" for q using assms(6) that by auto
    then have "js_op s \<notin> jo_id ` set (ops_of j (jb_id c))" if "s \<in> set ss" for s
      using assms(9) that by (metis imageE ops_of_mem)
    then have "invalid_steps ?j (jb_id c) = invalid_steps j (jb_id c)"
      using old [OF c(1)] by (simp add: invalid_steps_def filter_empty_conv)
    then show ?thesis using fin c old [OF c(1)] by (simp add: finalized_complete_def batch_complete_def)
  qed
  then have "finalized_complete ?j" using assms(3) by (auto simp: finalized_complete_def)
  ultimately show ?thesis by (simp add: journal_ok_def)
qed

lemma create_batch_intent_Inr:
  assumes "journal_ok j" "create_batch_intent dg j i h ids cs rejections ds = Inr j'"
  obtains result ps where "rmap (persisted dg) cs = Inr ps" "length ids = length cs" "ids \<noteq> []"
    "i \<notin> jb_id ` set (jr_batches j)"
    "j' = j\<lparr>jr_batches := jr_batches j @ [\<lparr>jb_id = i, jb_hash = h, jb_state = INTENT, jb_accepted = int (length ids), jb_result = result\<rparr>],
       jr_ops := jr_ops j @ map (\<lambda>(sequence, operation_id, p, c). intent_op i (int sequence) operation_id p (cm_value c))
         (zip [0..<length ids] (zip ids (zip ps cs))),
       jr_steps := jr_steps j @ concat (map (\<lambda>(operation_id, p). map (pending_step operation_id) (pc_projections p)) (zip ids ps))\<rparr>"
    "journal_ok j'" "br_applied result \<noteq> []"
proof -
  let ?b = "\<lambda>r. \<lparr>jb_id = i, jb_hash = h, jb_state = INTENT, jb_accepted = int (length ids), jb_result = r\<rparr>"
  let ?qs = "\<lambda>ps. map (\<lambda>(sequence, operation_id, p, c). intent_op i (int sequence) operation_id p (cm_value c))
      (zip [0..<length ids] (zip ids (zip ps cs)))"
  let ?ss = "\<lambda>ps. concat (map (\<lambda>(operation_id, p). map (pending_step operation_id) (pc_projections p)) (zip ids ps))"
  have keys: "journal_keys j" using assms(1) by (simp add: journal_ok_def)
  note k = keys_parts [OF keys]
  obtain applied result ps j1 j2 where r: "rmap (persisted dg) cs = Inr ps" "length ids = length cs" "ids \<noteq> []"
    and applied: "rmap (accepted_result i) (zip ids cs) = Inr applied"
    and result: "BatchMutationResult dg i applied rejections (derivation_entries ds) None = Inr result"
    and j1: "add_batch j (?b result) = Inr j1" and j2: "add_all add_op j1 (?qs ps) = Inr j2"
    and j': "add_all add_step j2 (?ss ps) = Inr j'"
    using assms(2) unfolding create_batch_intent_def rbind_Inr require_Inr by blast
  have b: "i \<notin> jb_id ` set (jr_batches j)" "j1 = j\<lparr>jr_batches := jr_batches j @ [?b result]\<rparr>"
    using j1 by (simp_all add: add_batch_def split: if_splits)
  have ops: "j2 = j1\<lparr>jr_ops := jr_ops j1 @ ?qs ps\<rparr>" "distinct (map jo_id (jr_ops j1 @ ?qs ps))"
    "distinct (map (\<lambda>q. (jo_batch q, jo_sequence q)) (jr_ops j1 @ ?qs ps))"
    using add_all_ops [OF j2] k(2,3) unfolding b(2) by simp_all
  have steps: "j' = j2\<lparr>jr_steps := jr_steps j2 @ ?ss ps\<rparr>"
    "distinct (map (\<lambda>s. (js_op s, js_ordinal s)) (jr_steps j2 @ ?ss ps))"
    using add_all_steps [OF j'] k(4) unfolding ops(1) b(2) by simp_all
  have eq: "j' = j\<lparr>jr_batches := jr_batches j @ [?b result], jr_ops := jr_ops j @ ?qs ps, jr_steps := jr_steps j @ ?ss ps\<rparr>"
    by (simp add: steps(1) ops(1) b(2))
  have len: "length ps = length ids" using rmap_Inr_length [OF r(1)] r(2) by simp
  have "jo_id ` set (?qs ps) = set ids"
  proof -
    have "map jo_id (?qs ps) = map (fst \<circ> snd) (zip [0..<length ids] (zip ids (zip ps cs)))"
      by (simp add: intent_op_def comp_def case_prod_unfold)
    also have "\<dots> = ids" using len r(2) by (simp flip: map_map)
    finally show ?thesis by (metis list.set_map)
  qed
  then have own: "\<forall>s \<in> set (?ss ps). js_op s \<in> jo_id ` set (?qs ps)"
    by (auto simp: pending_step_def dest: set_zip_leftD)
  have "journal_ok j'"
    unfolding eq
  proof (rule journal_extended [OF assms(1)])
    show "jb_accepted (?b result) = int (length (?qs ps))" using len r(2) by simp
    show "\<forall>q \<in> set (?qs ps). jo_batch q = jb_id (?b result) \<and> jo_state q = jb_state (?b result)"
      by (auto simp: intent_op_def)
    show "distinct (map jo_id (jr_ops j @ ?qs ps))" "distinct (map (\<lambda>q. (jo_batch q, jo_sequence q)) (jr_ops j @ ?qs ps))"
      using ops(2,3) unfolding b(2) by simp_all
    show "distinct (map (\<lambda>s. (js_op s, js_ordinal s)) (jr_steps j @ ?ss ps))" using steps(2) unfolding ops(1) b(2) by simp
  qed (use b(1) own in simp_all)
  moreover have "br_applied result \<noteq> []"
  proof -
    have "length applied = length ids" using rmap_Inr_length [OF applied] r(2) by simp
    then have "applied \<noteq> []" using r(3) by auto
    then show ?thesis using result by (auto simp: BatchMutationResult_def Let_def rbind_Inr)
  qed
  ultimately show ?thesis using that [OF r b(1) eq] by blast
qed

lemma transition_batch_keeps:
  assumes "journal_ok j" "transition_batch j i s t = Inr j'" "t \<noteq> FINALIZED" "ops_of j i = []"
  shows "journal_ok j'"
proof -
  have keys: "journal_keys j" using assms(1) by (simp add: journal_ok_def)
  let ?hit = "\<lambda>b. jb_id b = i \<and> jb_state b = s"
  have t: "t \<in> set (LEGAL_TRANSITIONS s)" and n: "rowcount ?hit (jr_batches j) = 1"
    and j': "j' = j\<lparr>jr_batches := update_where ?hit (jb_state_update (\<lambda>_. t)) (jr_batches j)\<rparr>"
    using assms(2) by (simp_all add: transition_batch_def split: if_splits)
  from n obtain b where b: "b \<in> set (jr_batches j)" "jb_id b = i" "jb_state b = s"
    unfolding rowcount_key [OF keys_parts(1) [OF keys]] by (auto split: if_splits)
  have only: "c = b" if "c \<in> set (jr_batches j)" "jb_id c = i" for c
    using journal_keysD(4) [OF keys that(1) b(1)] that(2) b(2) by simp
  have "jo_batch q \<noteq> i" if "q \<in> set (jr_ops j)" for q
    using assms(4) that by (auto simp: ops_of_def filter_empty_conv)
  then have ops: "\<forall>q \<in> set (jr_ops j). jo_state q = (if jo_batch q = i then t else jo_state q)" by auto
  have eq: "j' = j\<lparr>jr_batches := update_where (\<lambda>b. jb_id b = i) (jb_state_update (\<lambda>_. t)) (jr_batches j)\<rparr>"
    unfolding j' update_where_key [where f = jb_id and p = "\<lambda>b. jb_state b = s", OF keys_parts(1) [OF keys] b] by (rule refl)
  have "rows_in_place j j'" by (simp add: rows_in_place_def eq map_update_where)
  moreover have "\<exists>b \<in> set (jr_batches j). jb_id b' = jb_id b \<and> jb_state b' = (if jb_id b = i then t else jb_state b)"
    if "b' \<in> set (jr_batches j')" for b'
    using that by (auto simp: eq set_update_where)
  moreover have "b \<in> set (jr_batches j')" if "b \<in> set (jr_batches j)" "jb_id b \<noteq> i" for b
    using that by (auto simp: eq set_update_where image_iff)
  ultimately have "whole_batch j i t j'" using ops unfolding whole_batch_def by (auto simp: eq)
  moreover have "s \<noteq> FINALIZED" using t by (cases s) (auto simp: LEGAL_TRANSITIONS_def)
  then have "\<forall>c \<in> set (jr_batches j). jb_id c = i \<longrightarrow> jb_state c \<noteq> FINALIZED" using only b(3) by blast
  ultimately show ?thesis by (intro whole_batch_keeps [OF assms(1) _ _ _ assms(3)]) (simp_all add: j')
qed


lemma record_rejected_batch_keeps:
  assumes "journal_ok j" "record_rejected_batch dg j i h rejections ds = Inr (r, j')"
  shows "journal_ok j'"
proof -
  have keys: "journal_keys j" using assms(1) by (simp add: journal_ok_def)
  note k = keys_parts [OF keys]
  let ?b = "\<lparr>jb_id = i, jb_hash = h, jb_state = INTENT, jb_accepted = 0, jb_result = r\<rparr>"
  obtain j1 where j1: "add_batch j ?b = Inr j1" "transition_batch j1 i INTENT ABORTED = Inr j'"
    using assms(2) by (auto simp: record_rejected_batch_def rbind_Inr)
  have new: "i \<notin> jb_id ` set (jr_batches j)" "j1 = j\<lparr>jr_batches := jr_batches j @ [?b]\<rparr>"
    using j1(1) by (simp_all add: add_batch_def split: if_splits)
  have "journal_ok (j\<lparr>jr_batches := jr_batches j @ [?b], jr_ops := jr_ops j @ [], jr_steps := jr_steps j @ []\<rparr>)"
    by (rule journal_extended [OF assms(1)]) (use new k in simp_all)
  then have ok: "journal_ok j1" by (simp add: new(2))
  have "jo_batch q \<noteq> i" if "q \<in> set (jr_ops j)" for q using k(5) new(1) that by metis
  then have "ops_of j1 i = []" by (simp add: ops_of_def new(2) filter_empty_conv)
  then show ?thesis using transition_batch_keeps [OF ok j1(2)] by simp
qed

text \<open>Finalization.\<close>

lemma finalize_Inr:
  assumes "journal_ok j" "finalize_batch_in_transaction j i = Inr j'"
  obtains b where "b \<in> set (jr_batches j)" "jb_id b = i" "jb_state b = FORWARD_APPLIED" "ops_of j i \<noteq> []"
    "\<forall>q \<in> set (jr_ops j). jo_batch q = i \<longrightarrow> jo_state q = FORWARD_APPLIED" "invalid_steps j i = []"
    "jr_batches j' = update_where (\<lambda>b. jb_id b = i) (jb_state_update (\<lambda>_. FINALIZED)) (jr_batches j)"
    "jr_ops j' = update_where (\<lambda>q. jo_batch q = i) (jo_state_update (\<lambda>_. FINALIZED)) (jr_ops j)"
    "jr_steps j' = jr_steps j"
    "jr_ledger j' = update_where (\<lambda>e. le_batch e = Some i) (le_visible_update (\<lambda>_. True)) (jr_ledger j)"
    "\<forall>e \<in> set (jr_ledger j). le_batch e = Some i \<longrightarrow> \<not> le_visible e \<and> le_op e \<in> Some ` jo_id ` set (ops_of j i)"
proof -
  let ?hit = "\<lambda>q. jo_batch q = i \<and> jo_state q = FORWARD_APPLIED"
  let ?bhit = "\<lambda>b. jb_id b = i \<and> jb_state b = FORWARD_APPLIED"
  let ?ehit = "\<lambda>e. le_batch e = Some i \<and> \<not> le_visible e"
  let ?ledger = "update_where ?ehit (le_visible_update (\<lambda>_. True)) (jr_ledger j)"
  have keys: "journal_keys j" using assms(1) by (simp add: journal_ok_def)
  obtain b where b: "get_batch j i = Some b" "jb_state b = FORWARD_APPLIED" and ne: "ops_of j i \<noteq> []"
    and st: "jo_state ` set (ops_of j i) = {FORWARD_APPLIED}"
    and hidden: "rowcount (\<lambda>e. le_batch e = Some i \<and> le_visible e) (jr_ledger j) = 0"
    and steps: "invalid_steps j i = []"
    and foreign: "\<forall>e \<in> set ?ledger. le_batch e = Some i \<and> le_visible e \<longrightarrow>
      (case le_op e of None \<Rightarrow> False | Some k \<Rightarrow> k \<in> set (map jo_id (ops_of j i)))"
    and j': "j' = j\<lparr>jr_ops := update_where ?hit (jo_state_update (\<lambda>_. FINALIZED)) (jr_ops j),
       jr_batches := update_where ?bhit (jb_state_update (\<lambda>_. FINALIZED)) (jr_batches j), jr_ledger := ?ledger\<rparr>"
    using assms(2) unfolding finalize_batch_in_transaction_def Let_def
    by (auto simp: rbind_Inr require_Inr split: option.splits)
  have mem: "b \<in> set (jr_batches j)" "jb_id b = i" using b(1) journal_keysD(1) [OF keys] by simp_all
  have ops: "\<forall>q \<in> set (jr_ops j). jo_batch q = i \<longrightarrow> jo_state q = FORWARD_APPLIED"
    using st by (auto simp: ops_of_def)
  have hid: "\<forall>e \<in> set (jr_ledger j). le_batch e = Some i \<longrightarrow> \<not> le_visible e" using hidden by (simp add: rowcount_zero)
  have eq: "update_where ?hit (jo_state_update (\<lambda>_. FINALIZED)) (jr_ops j) =
      update_where (\<lambda>q. jo_batch q = i) (jo_state_update (\<lambda>_. FINALIZED)) (jr_ops j)"
    "?ledger = update_where (\<lambda>e. le_batch e = Some i) (le_visible_update (\<lambda>_. True)) (jr_ledger j)"
    using ops hid by (simp_all add: update_where_def)
  have eqb: "update_where ?bhit (jb_state_update (\<lambda>_. FINALIZED)) (jr_batches j) =
      update_where (\<lambda>b. jb_id b = i) (jb_state_update (\<lambda>_. FINALIZED)) (jr_batches j)"
    using update_where_key [where f = jb_id and p = "\<lambda>b. jb_state b = FORWARD_APPLIED", OF keys_parts(1) [OF keys] mem b(2)] .
  have "le_op e \<in> Some ` jo_id ` set (ops_of j i)" if e: "e \<in> set (jr_ledger j)" "le_batch e = Some i" for e
  proof -
    have "e\<lparr>le_visible := True\<rparr> \<in> set ?ledger" using e unfolding eq(2) by (force simp: set_update_where)
    with foreign e(2) show ?thesis by (cases "le_op e") force+
  qed
  then show ?thesis
    using that [OF mem b(2) ne ops steps] hid by (simp add: j' eq eqb)
qed

lemma finalize_keeps:
  assumes "journal_ok j" "finalize_batch_in_transaction j i = Inr j'"
  shows "journal_ok j'"
proof -
  have keys: "journal_keys j" and led: "ledger_hidden j" and fin: "finalized_complete j" and st: "states_ok j"
    using assms(1) by (simp_all add: journal_ok_def)
  obtain b where b: "b \<in> set (jr_batches j)" "jb_id b = i" "jb_state b = FORWARD_APPLIED"
    and steps: "invalid_steps j i = []"
    and batches': "jr_batches j' = update_where (\<lambda>b. jb_id b = i) (jb_state_update (\<lambda>_. FINALIZED)) (jr_batches j)"
    and ops': "jr_ops j' = update_where (\<lambda>q. jo_batch q = i) (jo_state_update (\<lambda>_. FINALIZED)) (jr_ops j)"
    and steps': "jr_steps j' = jr_steps j"
    and ledger': "jr_ledger j' = update_where (\<lambda>e. le_batch e = Some i) (le_visible_update (\<lambda>_. True)) (jr_ledger j)"
    and own: "\<forall>e \<in> set (jr_ledger j). le_batch e = Some i \<longrightarrow> \<not> le_visible e \<and> le_op e \<in> Some ` jo_id ` set (ops_of j i)"
    by (rule finalize_Inr [OF assms])
  have rows: "rows_in_place j j'" by (simp add: rows_in_place_def batches' ops' steps' map_update_where)
  note ids = ops_ids_in_place [OF rows]
  have inv: "invalid_steps j' k = invalid_steps j k" for k by (simp add: invalid_steps_def ids steps')
  have b_old: "\<exists>c \<in> set (jr_batches j). jb_id c' = jb_id c \<and> jb_state c' = (if jb_id c = i then FINALIZED else jb_state c)"
    if "c' \<in> set (jr_batches j')" for c' using that by (auto simp: batches' set_update_where)
  have b_new: "\<exists>c' \<in> set (jr_batches j'). jb_id c' = jb_id c \<and> jb_state c' = (if jb_id c = i then FINALIZED else jb_state c)"
    if "c \<in> set (jr_batches j)" for c
    using that unfolding batches' set_update_where
    by (intro bexI [of _ "if jb_id c = i then c\<lparr>jb_state := FINALIZED\<rparr> else c"]) auto
  have stay: "c \<in> set (jr_batches j')" if "c \<in> set (jr_batches j)" "jb_id c \<noteq> i" for c
    using that by (auto simp: batches' set_update_where image_iff)
  have op_back: "\<exists>q \<in> set (jr_ops j). jo_id q' = jo_id q \<and> jo_batch q' = jo_batch q \<and>
      jo_state q' = (if jo_batch q = i then FINALIZED else jo_state q)" if "q' \<in> set (jr_ops j')" for q'
    using that by (auto simp: ops' set_update_where)
  have ledger_back: "\<exists>e \<in> set (jr_ledger j). le_batch e' = le_batch e \<and> le_op e' = le_op e \<and>
      le_visible e' = (le_batch e = Some i \<or> le_visible e)" if e': "e' \<in> set (jr_ledger j')" for e'
  proof -
    obtain e where "e \<in> set (jr_ledger j)" "e' = (if le_batch e = Some i then e\<lparr>le_visible := True\<rparr> else e)"
      using e' by (auto simp: ledger' set_update_where)
    then show ?thesis by (intro bexI [of _ e]) auto
  qed
  have "whole_batch j i FINALIZED j'" using rows b_old stay op_back unfolding whole_batch_def by blast
  then have "states_ok j'" by (rule whole_batch_states [OF st])
  moreover have "ledger_hidden j'"
    unfolding ledger_hidden_def
  proof (intro ballI allI impI)
    fix e' k assume e': "e' \<in> set (jr_ledger j')" "le_batch e' = Some k" "le_visible e'"
    obtain e where e: "e \<in> set (jr_ledger j)" "le_batch e = Some k" "k = i \<or> le_visible e"
      using ledger_back [OF e'(1)] e'(2,3) by auto
    then have "\<exists>c \<in> set (jr_batches j). jb_id c = k \<and> (k = i \<or> jb_state c = FINALIZED)"
      using led b unfolding ledger_hidden_def by blast
    then obtain c where c: "c \<in> set (jr_batches j)" "jb_id c = k" "k = i \<or> jb_state c = FINALIZED" by blast
    with b_new [OF c(1)] show "\<exists>b \<in> set (jr_batches j'). jb_id b = k \<and> jb_state b = FINALIZED" by (metis (full_types))
  qed
  moreover have "finalized_complete j'"
    unfolding finalized_complete_def
  proof (intro ballI impI)
    fix c' assume c': "c' \<in> set (jr_batches j')" "jb_state c' = FINALIZED"
    obtain c where c: "c \<in> set (jr_batches j)" "jb_id c' = jb_id c" "jb_id c \<noteq> i \<longrightarrow> jb_state c = FINALIZED"
      using b_old [OF c'(1)] c'(2) by (metis (full_types))
    show "batch_complete j' (jb_id c')"
    proof (cases "jb_id c = i")
      case True
      have "le_visible e' \<and> le_op e' \<in> Some ` jo_id ` set (ops_of j i)"
        if e': "e' \<in> set (jr_ledger j')" "le_batch e' = Some i" for e'
      proof -
        obtain e where e: "e \<in> set (jr_ledger j)" "le_batch e' = le_batch e" "le_op e' = le_op e"
          "le_visible e' = (le_batch e = Some i \<or> le_visible e)" using ledger_back [OF e'(1)] by blast
        then have "le_batch e = Some i" using e'(2) by simp
        then have "le_op e \<in> Some ` jo_id ` set (ops_of j i)" using own e(1) by blast
        then show ?thesis using e(3,4) \<open>le_batch e = Some i\<close> by simp
      qed
      then show ?thesis using True c(2) steps by (simp add: batch_complete_def inv ids)
    next
      case False
      have old: "batch_complete j (jb_id c)" using fin c(1,3) False by (simp add: finalized_complete_def)
      have "le_visible e' \<and> le_op e' \<in> Some ` jo_id ` set (ops_of j (jb_id c))"
        if e': "e' \<in> set (jr_ledger j')" "le_batch e' = Some (jb_id c)" for e'
      proof -
        obtain e where e: "e \<in> set (jr_ledger j)" "le_batch e' = le_batch e" "le_op e' = le_op e"
          "le_visible e' = (le_batch e = Some i \<or> le_visible e)" using ledger_back [OF e'(1)] by blast
        then have "le_batch e = Some (jb_id c)" using e'(2) by simp
        then have "le_visible e \<and> le_op e \<in> Some ` jo_id ` set (ops_of j (jb_id c))"
          using old e(1) unfolding batch_complete_def by blast
        then show ?thesis using e(3,4) by simp
      qed
      then show ?thesis using c(2) old by (simp add: batch_complete_def inv ids)
    qed
  qed
  ultimately show ?thesis using keys_in_place [OF keys rows] by (simp add: journal_ok_def)
qed

end
