(* ===== verification/CommitProperties.thy ===== *)
theory CommitProperties
  imports UnitOfWork JournalInvariant
begin

text \<open>
  The interpreter refines the overlay: what the overlay accepts, the database writes with the same rows,
  unless a flush breaks a constraint of its tables.
\<close>

section \<open>Interpreter and overlay\<close>

definition rows_match :: "((string \<times> json list) \<times> row) list \<Rightarrow> overlay \<Rightarrow> bool" where
  "rows_match rows ov = (map_of rows = map_of (ov_map ov))"

definition rows_shaped :: "catalog \<Rightarrow> ((string \<times> json list) \<times> row) list \<Rightarrow> bool" where
  "rows_shaped ct rows = (\<forall>t ident r. map_of rows (t, ident) = Some r \<longrightarrow>
     (\<exists>spec. catalog_get ct t = Some spec \<and> fmdom' r = set (field_names spec)))"

lemma find_map_of:
  assumes "distinct (map f xs)"
  shows "find (\<lambda>x. f x = k) xs = map_of (rev (map (\<lambda>x. (f x, x)) xs)) k"
  using assms by (induction xs) (auto simp: map_add_def split: option.splits dest!: map_of_SomeD)

lemma catalog_wf_get:
  assumes "catalog_wf ct" "spec \<in> set (catalog_list ct)"
  shows "catalog_get ct (es_name spec) = Some spec"
proof -
  obtain n where "(n, spec) \<in> set (ct_by_name ct)" using assms(2) by (auto simp: catalog_list_def)
  moreover from this have "n = es_name spec" using assms(1) by (auto simp: catalog_wf_def)
  ultimately show ?thesis using assms(1) by (simp add: catalog_get_def catalog_wf_def)
qed

lemma spec_by_table_find:
  assumes "catalog_wf (ov_catalog ov)"
  shows "spec_by_table ov tn = find (\<lambda>s. es_table_name s = tn) (catalog_list (ov_catalog ov))"
  using assms unfolding spec_by_table_def by (simp add: find_map_of catalog_wf_def)

lemma py_eq_version: "py_eq v (JInt n) \<Longrightarrow> py_eq v w \<Longrightarrow> py_eq w (JInt n)"
  by (cases v; cases w) auto

lemma version_is_row_eq:
  assumes "row_eq c r" "version_is c expected"
  shows "version_is r expected"
proof -
  have "rel_option py_eq (fmlookup c ''version'') (fmlookup r ''version'')"
    using assms(1) by (simp add: row_eq_def fmrel_iff)
  then show ?thesis using assms(2)
    by (cases expected; cases "fmlookup c ''version''"; cases "fmlookup r ''version''")
      (auto simp: version_is_def get_or_def intro: py_eq_version)
qed

text \<open>What the overlay accepts, in the terms of the interpreter.\<close>

lemma apply_plan_parts:
  assumes "apply_plan ov plan = Inr ov'" "catalog_wf (ov_catalog ov)"
  obtains spec where "validate_persisted_plan (ov_catalog ov) plan = Inr spec"
    "catalog_get (ov_catalog ov) (es_name spec) = Some spec" "ov_catalog ov' = ov_catalog ov"
    "(case pl_op plan of
        Insert \<Rightarrow> map_of (ov_map ov) (plan_key spec plan) = None \<and>
          (\<exists>after. pl_after plan = Some after \<and> ov_map ov' = AList.update (plan_key spec plan) after (ov_map ov))
      | Update \<Rightarrow> (\<exists>r before after. map_of (ov_map ov) (plan_key spec plan) = Some r \<and> version_is r (pl_expected plan) \<and>
          pl_before plan = Some before \<and> row_eq r before \<and>
          pl_after plan = Some after \<and> ov_map ov' = AList.update (plan_key spec plan) after (ov_map ov))
      | Delete \<Rightarrow> (\<exists>r before. map_of (ov_map ov) (plan_key spec plan) = Some r \<and> version_is r (pl_expected plan) \<and>
          pl_before plan = Some before \<and> row_eq r before \<and>
          ov_map ov' = AList.delete (plan_key spec plan) (ov_map ov)))"
proof -
  obtain spec where s: "find (\<lambda>s. es_table_name s = pl_table plan) (catalog_list (ov_catalog ov)) = Some spec"
    "fmdom' (pl_pk plan) = set (pk_field_set spec)"
    using assms unfolding apply_plan_def spec_by_table_find [OF assms(2)] by (auto split: option.splits if_splits)
  have get: "catalog_get (ov_catalog ov) (es_name spec) = Some spec"
    using catalog_wf_get [OF assms(2)] s(1) by (simp add: find_Some_iff) (metis nth_mem)
  have bt: "spec_by_table ov (pl_table plan) = Some spec" using spec_by_table_find [OF assms(2)] s(1) by simp
  note ap = assms(1) [unfolded apply_plan_def bt, simplified, unfolded s(2), simplified]
  have complete: "complete_row spec plan r" if "require_complete_row spec plan v l = Inr r" for v l r
    using that by (auto simp: require_complete_row_def split: option.splits if_splits)
  have some: "v = Some r" if "require_complete_row spec plan v l = Inr r" for v l r
    using that by (auto simp: require_complete_row_def split: option.splits if_splits)
  show ?thesis
  proof (cases "pl_op plan")
    case Insert
    with ap obtain after where a: "require_complete_row spec plan (pl_after plan) ''after'' = Inr after"
      "map_of (ov_map ov) (plan_key spec plan) = None" "pl_before plan = None" "pl_expected plan = None"
      "ov' = ov\<lparr>ov_map := AList.update (plan_key spec plan) after (ov_map ov)\<rparr>"
      by (auto simp: Let_def rbind_Inr require_Inr plan_key_def)
    show ?thesis
      by (rule that [of spec]) (use a Insert get s complete [OF a(1)] some [OF a(1)] in
          \<open>simp_all add: validate_persisted_plan_def valid_shape_def\<close>)
  next
    case Update
    with ap obtain before after where a: "require_complete_row spec plan (pl_before plan) ''before'' = Inr before"
      "require_complete_row spec plan (pl_after plan) ''after'' = Inr after"
      and c: "case map_of (ov_map ov) (plan_key spec plan) of None \<Rightarrow> False | Some c \<Rightarrow> row_eq c before"
      and v: "version_is (the (map_of (ov_map ov) (plan_key spec plan))) (pl_expected plan)"
      and o': "ov' = ov\<lparr>ov_map := AList.update (plan_key spec plan) after (ov_map ov)\<rparr>"
      by (auto simp: Let_def rbind_Inr require_Inr plan_key_def)
    from c obtain r where r: "map_of (ov_map ov) (plan_key spec plan) = Some r" "row_eq r before"
      by (auto split: option.splits)
    have "version_is before (pl_expected plan)" using version_is_row_eq [OF r(2)] v r(1) by simp
    moreover note b = some [OF a(1)] some [OF a(2)] complete [OF a(1)] complete [OF a(2)]
    ultimately show ?thesis
      by (intro that [of spec]) (use Update get s r v o' in
          \<open>simp_all add: validate_persisted_plan_def valid_shape_def\<close>)
  next
    case Delete
    with ap obtain before where a: "require_complete_row spec plan (pl_before plan) ''before'' = Inr before"
      and c: "case map_of (ov_map ov) (plan_key spec plan) of None \<Rightarrow> False | Some c \<Rightarrow> row_eq c before"
      and n: "pl_after plan = None"
      and v: "version_is (the (map_of (ov_map ov) (plan_key spec plan))) (pl_expected plan)"
      and o': "ov' = ov\<lparr>ov_map := AList.delete (plan_key spec plan) (ov_map ov)\<rparr>"
      by (auto simp: Let_def rbind_Inr require_Inr plan_key_def)
    from c obtain r where r: "map_of (ov_map ov) (plan_key spec plan) = Some r" "row_eq r before"
      by (auto split: option.splits)
    have "version_is before (pl_expected plan)" using version_is_row_eq [OF r(2)] v r(1) by simp
    moreover note b = some [OF a] complete [OF a]
    ultimately show ?thesis
      by (intro that [of spec]) (use Delete get s r v n o' in
          \<open>simp_all add: validate_persisted_plan_def valid_shape_def\<close>)
  qed
qed

lemma complete_domain: "validate_persisted_plan ct plan = Inr spec \<Longrightarrow>
    r \<in> set_option (pl_before plan) \<union> set_option (pl_after plan) \<Longrightarrow> fmdom' r = set (field_names spec)"
  by (auto simp: validate_persisted_plan_def rbind_Inr require_Inr complete_row_def split: option.splits)

lemma rows_shaped_get:
  assumes "rows_shaped ct rows" "catalog_get ct (es_name spec) = Some spec" "map_of rows (plan_key spec plan) = Some r"
  shows "fmdom' r = set (field_names spec)"
proof -
  obtain spec' where "catalog_get ct (es_name spec) = Some spec'" "fmdom' r = set (field_names spec')"
    using assms(1,3) unfolding rows_shaped_def plan_key_def by blast
  then show ?thesis using assms(2) by simp
qed

lemma rows_shaped_update: "rows_shaped ct rows \<Longrightarrow> catalog_get ct (fst key) = Some spec \<Longrightarrow>
    fmdom' r = set (field_names spec) \<Longrightarrow> rows_shaped ct (AList.update key r rows)"
  unfolding rows_shaped_def by (cases key) (auto simp: update_conv')

lemma rows_shaped_delete: "rows_shaped ct rows \<Longrightarrow> rows_shaped ct (AList.delete key rows)"
  unfolding rows_shaped_def by (auto simp: delete_conv' split: if_splits)

text \<open>
  A plan whose image the database stores as it is: every value is of its column's type, and an update
  of a table with an \<open>onupdate\<close> stamp brings a new stamp.
\<close>

definition row_typed :: "table_model \<Rightarrow> row \<Rightarrow> bool" where
  "row_typed m r = (\<forall>c \<in> set (tm_columns m). case fmlookup r (co_name c) of None \<Rightarrow> True | Some v \<Rightarrow> column_holds (co_type c) v)"

definition plan_writable :: "catalog \<Rightarrow> db_plan \<Rightarrow> bool" where
  "plan_writable ct plan = (case (find (\<lambda>s. es_table_name s = pl_table plan) (catalog_list ct), pl_after plan) of
     (Some spec, Some after) \<Rightarrow> row_typed (model_for spec) after \<and>
       (pl_op plan = Update \<and> tm_onupdate (model_for spec) \<longrightarrow>
          (case pl_before plan of None \<Rightarrow> True
           | Some before \<Rightarrow> \<not> py_eq (get after ''updated_at'') (get before ''updated_at'')))
   | _ \<Rightarrow> True)"

lemma bind_row_typed: "row_typed m r \<Longrightarrow> bind_row en m r = Inr r"
proof -
  assume "row_typed m r"
  then have "\<forall>c \<in> set (tm_columns m). bind_column en r c = Inr r"
    by (auto simp: row_typed_def bind_column_def split: option.splits)
  then have "rfold (bind_column en) r cs = Inr r" if "set cs \<subseteq> set (tm_columns m)" for cs
    using that by (induction cs) auto
  then show ?thesis by (simp add: bind_row_def)
qed

lemma row_typed_filter: "row_typed m r \<Longrightarrow> row_typed m (fmfilter P r)"
  unfolding row_typed_def by (auto split: option.splits if_splits)

lemma set_columns_changed:
  assumes "fmdom' r = fmdom' img"
  shows "set_columns r (fmfilter (\<lambda>k. fmlookup r k \<noteq> fmlookup img k) img) = img"
proof (rule fmap_ext)
  fix k
  let ?c = "fmfilter (\<lambda>k. fmlookup r k \<noteq> fmlookup img k) img"
  have none: "fmlookup r k = None \<longleftrightarrow> fmlookup img k = None" using assms by (metis fmdom'_notD fmdom'_notI)
  show "fmlookup (set_columns r ?c) k = fmlookup img k"
  proof (cases "fmlookup ?c k")
    case None
    then have "k |\<notin>| fmdom ?c" by (rule fmdom_notI)
    then have "fmlookup (set_columns r ?c) k = fmlookup r k" unfolding set_columns_def by (simp only: fmlookup_add if_False)
    then show ?thesis using None none by (simp split: if_splits)
  next
    case (Some v)
    then have "k |\<in>| fmdom ?c" by (rule fmdomI)
    then have "fmlookup (set_columns r ?c) k = fmlookup ?c k" unfolding set_columns_def by (simp only: fmlookup_add if_True)
    then show ?thesis using Some by (simp split: if_splits)
  qed
qed

lemma update_row_typed:
  assumes "row_typed m img" "fmdom' r = fmdom' img" "tm_onupdate m \<longrightarrow> fmlookup r ''updated_at'' \<noteq> fmlookup img ''updated_at''"
  shows "update_row en m r img = Inr img"
proof -
  let ?c = "fmfilter (\<lambda>k. fmlookup r k \<noteq> fmlookup img k) img"
  have same: "set_columns r ?c = img" by (rule set_columns_changed [OF assms(2)])
  have stamp: "''updated_at'' \<in> fmdom' ?c" if "tm_onupdate m"
  proof -
    have differ: "fmlookup r ''updated_at'' \<noteq> fmlookup img ''updated_at''" using assms(3) that by simp
    then have "fmlookup img ''updated_at'' \<noteq> None" using assms(2) by (metis fmdom'_notD fmdom'_notI)
    then show ?thesis using differ by (simp add: fmlookup_dom'_iff)
  qed
  show ?thesis
  proof (cases "?c = fmempty")
    case True
    then show ?thesis using same by (simp add: update_row_def Let_def set_columns_def)
  next
    case False
    have "\<not> (tm_onupdate m \<and> ''updated_at'' \<notin> fmdom' ?c)" using stamp by blast
    then have "update_row en m r img = rbind (bind_row en m ?c) (\<lambda>written. Inr (set_columns r written))"
      using False unfolding update_row_def Let_def by (simp only: if_False)
    then show ?thesis by (simp only: bind_row_typed [OF row_typed_filter [OF assms(1)]] rbind_simps same)
  qed
qed

lemma fresh_stamp:
  assumes "row_eq r before" "\<not> py_eq (get after ''updated_at'') (get before ''updated_at'')"
  shows "fmlookup r ''updated_at'' \<noteq> fmlookup after ''updated_at''"
proof
  assume "fmlookup r ''updated_at'' = fmlookup after ''updated_at''"
  moreover have "rel_option py_eq (fmlookup r ''updated_at'') (fmlookup before ''updated_at'')"
    using assms(1) by (simp add: row_eq_def fmrel_iff)
  ultimately show False using assms(2) by (auto simp: get_or_def rel_option_iff split: option.splits)
qed

text \<open>What a plan says of the tables.\<close>

definition planned :: "catalog \<Rightarrow> table_rows \<Rightarrow> db_plan \<Rightarrow> table_rows" where
  "planned ct rows plan = (case find (\<lambda>s. es_table_name s = pl_table plan) (catalog_list ct) of
     None \<Rightarrow> rows
   | Some spec \<Rightarrow> (case pl_after plan of
       Some after \<Rightarrow> AList.update (plan_key spec plan) after rows
     | None \<Rightarrow> AList.delete (plan_key spec plan) rows))"

definition step_ok :: "catalog \<Rightarrow> overlay \<Rightarrow> table_rows \<Rightarrow> bool" where
  "step_ok ct ov rows = (rows_match rows ov \<and> rows_shaped ct rows \<and> ov_catalog ov = ct)"

lemma validate_persisted_plan_spec: "validate_persisted_plan ct plan = Inr spec \<Longrightarrow>
    find (\<lambda>s. es_table_name s = pl_table plan) (catalog_list ct) = Some spec \<and> valid_shape plan"
  by (auto simp: validate_persisted_plan_def rbind_Inr require_Inr split: option.splits)

lemma plan_step:
  assumes "apply_plan ov plan = Inr ov'" "catalog_wf ct" "step_ok ct ov rows" "plan_writable ct plan"
  shows "db_apply_plan ct en rows plan = Inr (planned ct rows plan)" "step_ok ct ov' (planned ct rows plan)"
proof -
  have ct: "ov_catalog ov = ct" and shaped: "rows_shaped ct rows" and rows: "map_of rows = map_of (ov_map ov)"
    using assms(3) by (simp_all add: step_ok_def rows_match_def)
  obtain spec where p: "validate_persisted_plan ct plan = Inr spec"
    "catalog_get ct (es_name spec) = Some spec" "ov_catalog ov' = ct"
    and op: "case pl_op plan of
        Insert \<Rightarrow> map_of (ov_map ov) (plan_key spec plan) = None \<and>
          (\<exists>after. pl_after plan = Some after \<and> ov_map ov' = AList.update (plan_key spec plan) after (ov_map ov))
      | Update \<Rightarrow> (\<exists>r before after. map_of (ov_map ov) (plan_key spec plan) = Some r \<and> version_is r (pl_expected plan) \<and>
          pl_before plan = Some before \<and> row_eq r before \<and>
          pl_after plan = Some after \<and> ov_map ov' = AList.update (plan_key spec plan) after (ov_map ov))
      | Delete \<Rightarrow> (\<exists>r before. map_of (ov_map ov) (plan_key spec plan) = Some r \<and> version_is r (pl_expected plan) \<and>
          pl_before plan = Some before \<and> row_eq r before \<and>
          ov_map ov' = AList.delete (plan_key spec plan) (ov_map ov))"
    by (rule apply_plan_parts [OF assms(1) assms(2) [folded ct], unfolded ct])
  note spec = validate_persisted_plan_spec [OF p(1)]
  note dom = complete_domain [OF p(1)]
  have fst_key: "fst (plan_key spec plan) = es_name spec" by (simp add: plan_key_def)
  have "db_apply_plan ct en rows plan = Inr (planned ct rows plan) \<and> step_ok ct ov' (planned ct rows plan)"
  proof (cases "pl_op plan")
    case Insert
    with op obtain after where a: "map_of (ov_map ov) (plan_key spec plan) = None" "pl_after plan = Some after"
      "ov_map ov' = AList.update (plan_key spec plan) after (ov_map ov)" by auto
    have d: "fmdom' after = set (field_names spec)" using dom a(2) by simp
    have "row_typed (model_for spec) after" using assms(4) spec a(2) by (simp add: plan_writable_def)
    then show ?thesis
      using a p Insert rows spec rows_shaped_update [OF shaped, of "plan_key spec plan" spec after] d
      by (simp add: db_apply_plan_def Let_def planned_def bind_row_typed step_ok_def rows_match_def update_conv' fst_key)
  next
    case Update
    with op obtain r before after where a: "map_of (ov_map ov) (plan_key spec plan) = Some r" "version_is r (pl_expected plan)"
      "pl_after plan = Some after" "ov_map ov' = AList.update (plan_key spec plan) after (ov_map ov)"
      and b: "pl_before plan = Some before" "row_eq r before" by auto
    have d: "fmdom' after = set (field_names spec)" using dom a(3) by simp
    have typed: "row_typed (model_for spec) after" and
      stamp: "tm_onupdate (model_for spec) \<longrightarrow> \<not> py_eq (get after ''updated_at'') (get before ''updated_at'')"
      using assms(4) spec a(3) b(1) Update by (simp_all add: plan_writable_def)
    have "fmdom' r = fmdom' after" using rows_shaped_get [OF shaped p(2)] a(1) rows d by simp
    then have "update_row en (model_for spec) r after = Inr after"
      using fresh_stamp [OF b(2)] stamp by (intro update_row_typed [OF typed]) simp_all
    then show ?thesis
      using a p Update rows spec rows_shaped_update [OF shaped, of "plan_key spec plan" spec after] d
      by (simp add: db_apply_plan_def Let_def planned_def step_ok_def rows_match_def update_conv' fst_key)
  next
    case Delete
    with op obtain r where a: "map_of (ov_map ov) (plan_key spec plan) = Some r" "version_is r (pl_expected plan)"
      "ov_map ov' = AList.delete (plan_key spec plan) (ov_map ov)" by auto
    have "pl_after plan = None" using spec Delete by (simp add: valid_shape_def)
    then show ?thesis
      using a p Delete rows spec rows_shaped_delete [OF shaped]
      by (simp add: db_apply_plan_def Let_def planned_def step_ok_def rows_match_def delete_conv')
  qed
  then show "db_apply_plan ct en rows plan = Inr (planned ct rows plan)" "step_ok ct ov' (planned ct rows plan)" by simp_all
qed

lemma plans_step:
  assumes "rfold apply_plan ov plans = Inr ov'" "catalog_wf ct" "step_ok ct ov rows" "\<forall>p \<in> set plans. plan_writable ct p"
  shows "rfold (db_apply_plan ct en) rows plans = Inr (foldl (planned ct) rows plans) \<and>
    step_ok ct ov' (foldl (planned ct) rows plans)"
  using assms
proof (induction plans arbitrary: ov rows)
  case (Cons plan plans)
  then obtain ov1 where ov1: "apply_plan ov plan = Inr ov1" "rfold apply_plan ov1 plans = Inr ov'"
    by (auto simp: rbind_Inr)
  have w: "plan_writable ct plan" using Cons.prems(4) by simp
  note step = plan_step [OF ov1(1) Cons.prems(2,3) w]
  show ?case using Cons.IH [OF ov1(2) Cons.prems(2) step(2)] Cons.prems(4) step(1) by simp
qed simp

lemma apply_event_rows: "apply_event ov e = Inr ov' \<Longrightarrow> ov_map ov' = ov_map ov \<and> ov_catalog ov' = ov_catalog ov"
  by (auto simp: apply_event_def split: if_splits option.splits)

lemma apply_projection_rows: "apply_projection ov p = Inr ov' \<Longrightarrow> ov_map ov' = ov_map ov \<and> ov_catalog ov' = ov_catalog ov"
  unfolding apply_projection_def Let_def
  by (cases "pj_tag p") (auto simp: rbind_Inr require_Inr split: option.splits if_splits)

definition same_rows :: "overlay \<Rightarrow> overlay \<Rightarrow> bool" where
  "same_rows a b = (ov_map b = ov_map a \<and> ov_catalog b = ov_catalog a)"

lemma rows_untouched:
  "rfold apply_event ov es = Inr ov' \<Longrightarrow> same_rows ov ov'"
  "rfold apply_projection ov ps = Inr ov' \<Longrightarrow> same_rows ov ov'"
  by (erule rfold_invariant; auto simp: same_rows_def dest: apply_event_rows apply_projection_rows)+

lemma ov_apply_parts:
  assumes "ov_apply ov c = Inr ov'"
  obtains ov1 ov2 where "rfold apply_plan ov (cm_plans c) = Inr ov1" "rfold apply_event ov1 (cm_events c) = Inr ov2"
    "rfold apply_projection ov2 (cm_projections c) = Inr ov'" "same_rows ov1 ov2" "same_rows ov2 ov'"
  using assms rows_untouched by (auto simp: ov_apply_def rbind_Inr)

text \<open>
  The states the flushes of a batch lead through when each operation writes what its plans say, and
  the rows they end with.
\<close>

fun batch_states :: "catalog \<Rightarrow> engine \<Rightarrow> table_rows \<Rightarrow> db_plan list list \<Rightarrow> table_rows list" where
  "batch_states ct en rows [] = []"
| "batch_states ct en rows (plans # rest) =
     (let after = foldl (planned ct) rows plans in flush_states en rows after @ batch_states ct en after rest)"

definition batch_rows :: "catalog \<Rightarrow> table_rows \<Rightarrow> db_plan list list \<Rightarrow> table_rows" where
  "batch_rows ct rows planss = foldl (foldl (planned ct)) rows planss"

definition commands_writable :: "catalog \<Rightarrow> command list \<Rightarrow> bool" where
  "commands_writable ct cs = (\<forall>c \<in> set cs. \<forall>p \<in> set (cm_plans c). plan_writable ct p)"

lemma command_step:
  assumes "ov_apply ov c = Inr ov'" "catalog_wf ct" "step_ok ct ov rows" "\<forall>p \<in> set (cm_plans c). plan_writable ct p"
  shows "interpreter_apply ct en rows (cm_plans c) = flush ct en rows (foldl (planned ct) rows (cm_plans c))"
    "step_ok ct ov' (foldl (planned ct) rows (cm_plans c))"
proof -
  obtain ov1 ov2 where o: "rfold apply_plan ov (cm_plans c) = Inr ov1" "same_rows ov1 ov2" "same_rows ov2 ov'"
    by (rule ov_apply_parts [OF assms(1)])
  note plans = plans_step [OF o(1) assms(2-4), of en]
  from plans show "interpreter_apply ct en rows (cm_plans c) = flush ct en rows (foldl (planned ct) rows (cm_plans c))"
    by (simp add: interpreter_apply_def)
  from plans o show "step_ok ct ov' (foldl (planned ct) rows (cm_plans c))"
    by (auto simp: step_ok_def same_rows_def rows_match_def)
qed

text \<open>Tombstones of the overlay: those of the delete events.\<close>

definition deleted_keys :: "catalog \<Rightarrow> sync_event list \<Rightarrow> (string \<times> string) set" where
  "deleted_keys ct es = {(effective_sync_entity_type spec, ev_id e) | e spec.
     e \<in> set es \<and> ev_action e = EvDelete \<and> catalog_get ct (ev_type e) = Some spec}"

lemma deleted_keys_simps [simp]:
  "deleted_keys ct [] = {}"
  "deleted_keys ct (es @ fs) = deleted_keys ct es \<union> deleted_keys ct fs"
  by (auto simp: deleted_keys_def)

lemma deleted_keys_Cons: "deleted_keys ct (e # es) = deleted_keys ct [e] \<union> deleted_keys ct es"
  by (auto simp: deleted_keys_def)

lemma events_tombstones:
  "rfold apply_event ov es = Inr ov' \<Longrightarrow> ov_tombstones ov' = ov_tombstones ov \<union> deleted_keys (ov_catalog ov) es"
proof (induction es arbitrary: ov)
  case (Cons e es)
  then obtain ov1 where ov1: "apply_event ov e = Inr ov1" "rfold apply_event ov1 es = Inr ov'" by (auto simp: rbind_Inr)
  have "ov_tombstones ov1 = ov_tombstones ov \<union> deleted_keys (ov_catalog ov) [e]" "ov_catalog ov1 = ov_catalog ov"
    using ov1(1) by (auto simp: apply_event_def deleted_keys_def split: if_splits option.splits)
  with Cons.IH [OF ov1(2)] show ?case by (subst deleted_keys_Cons) auto
qed simp

lemma ov_apply_tombstones:
  assumes "ov_apply ov c = Inr ov'"
  shows "ov_tombstones ov' = ov_tombstones ov \<union> deleted_keys (ov_catalog ov) (cm_events c)"
proof -
  obtain ov1 ov2 where f: "rfold apply_plan ov (cm_plans c) = Inr ov1" "rfold apply_event ov1 (cm_events c) = Inr ov2"
    "rfold apply_projection ov2 (cm_projections c) = Inr ov'"
    using assms by (auto simp: ov_apply_def rbind_Inr)
  define same where "same a b \<longleftrightarrow> ov_tombstones b = ov_tombstones a \<and> ov_catalog b = ov_catalog a" for a b :: overlay
  have "same ov ov1" by (rule rfold_invariant [OF f(1)]) (auto simp: same_def dest: apply_plan_tombstones)
  moreover have "same ov2 ov'"
    by (rule rfold_invariant [OF f(3)]) (auto simp: same_def dest: apply_projection_tombstones)
  ultimately show ?thesis using events_tombstones [OF f(2)] by (simp add: same_def)
qed

section \<open>Loading and compiling\<close>

text \<open>The rows of a Space are of catalog entities outside the metadata database, and complete.\<close>

definition space_rows_ok :: "catalog \<Rightarrow> ((string \<times> json list) \<times> row) list \<Rightarrow> bool" where
  "space_rows_ok ct rows = (rows_shaped ct rows \<and>
     (\<forall>((t, ident), r) \<in> set rows. \<exists>spec \<in> set (catalog_list ct). es_name spec = t \<and> es_category spec \<noteq> META))"

lemma map_of_kind: "map_of (filter (\<lambda>((kind, _), _). kind = n) rows) (t, i) = (if t = n then map_of rows (t, i) else None)"
  by (induction rows) auto

lemma map_of_kinds: "map_of (concat (map (\<lambda>spec. if es_category spec = META then []
    else filter (\<lambda>((kind, _), _). kind = es_name spec) rows) specs)) (t, i) =
  (if \<exists>spec \<in> set specs. es_name spec = t \<and> es_category spec \<noteq> META then map_of rows (t, i) else None)"
  by (induction specs) (auto simp: map_of_kind map_add_def split: option.splits)

lemma load_matches:
  assumes "space_rows_ok ct (sd_rows db)"
  shows "rows_match (sd_rows db) (from_locked_authorities ct db sn)"
proof -
  have "map_of (sd_rows db) (t, i) = map_of (ov_map (from_locked_authorities ct db sn)) (t, i)" for t i
  proof (cases "map_of (sd_rows db) (t, i)")
    case None
    then show ?thesis unfolding from_locked_authorities_def by (simp add: map_of_kinds)
  next
    case (Some r)
    then have "((t, i), r) \<in> set (sd_rows db)" by (rule map_of_SomeD)
    then have "\<exists>spec \<in> set (catalog_list ct). es_name spec = t \<and> es_category spec \<noteq> META"
      using assms unfolding space_rows_ok_def by blast
    then show ?thesis using Some unfolding from_locked_authorities_def by (simp add: map_of_kinds)
  qed
  then show ?thesis by (auto simp: rows_match_def fun_eq_iff)
qed

definition accepted_commands :: "compilation \<Rightarrow> command list" where
  "accepted_commands co = map snd (co_accepted co)"

lemma compile_item_overlay:
  assumes "compile_item ce co item = Inr co'"
  shows "co_accepted co' = co_accepted co \<and> co_overlay co' = co_overlay co \<or>
    (\<exists>c. co_accepted co' = co_accepted co @ [(pi_operation_id item, c)] \<and> ov_apply (co_overlay co) c = Inr (co_overlay co'))"
  using assms by (auto simp: compile_item_def rbind_Inr split: option.splits sum.splits exc.splits)

lemma compile_items_overlay:
  assumes "rfold (compile_item ce) co items = Inr co'" "rfold ov_apply ov (accepted_commands co) = Inr (co_overlay co)"
  shows "rfold ov_apply ov (accepted_commands co') = Inr (co_overlay co')"
  using assms
proof (induction items arbitrary: co)
  case (Cons item items)
  then obtain co1 where co1: "compile_item ce co item = Inr co1" "rfold (compile_item ce) co1 items = Inr co'"
    by (auto simp: rbind_Inr)
  have "rfold ov_apply ov (accepted_commands co1) = Inr (co_overlay co1)"
    using compile_item_overlay [OF co1(1)] Cons.prems(2) by (auto simp: accepted_commands_def rfold_append)
  with Cons.IH [OF co1(2)] show ?case .
qed simp

lemma compile_batch_overlay:
  assumes "compile_batch ce s items = Inr co"
  shows "rfold ov_apply (from_locked_authorities (ce_catalog ce) (sp_db s) (snapshot_projection_authority (sp_files s)))
    (accepted_commands co) = Inr (co_overlay co)"
  using assms unfolding compile_batch_def by (rule compile_items_overlay) (simp add: accepted_commands_def)

end
