(* ===== verification/JournalProgress.thy ===== *)
theory JournalProgress
  imports JournalInvariant
begin

text \<open>
  What the operations of the journal do to one batch, seen as its row and its operations in order: each
  step of the life of a batch succeeds from the state before it, and leaves the rest alone.
\<close>

section \<open>One batch\<close>

lemma ordered_ops_map:
  assumes "jr_ops j' = map f (jr_ops j)" "\<And>q. jo_sequence (f q) = jo_sequence q" "\<And>q. jo_batch (f q) = jo_batch q"
  shows "ordered_ops j' b = map f (ordered_ops j b)"
  using assms(2,3) by (simp add: ordered_ops_def ops_of_def assms(1) filter_map comp_def sort_key_keeps)

lemma set_ordered_ops [simp]: "set (ordered_ops j b) = set (ops_of j b)"
  by (simp add: ordered_ops_def)

lemma ordered_ops_distinct:
  assumes "journal_keys j"
  shows "distinct (map jo_id (ordered_ops j b))"
proof -
  have "distinct (map jo_id (ops_of j b))"
    using keys_parts(2) [OF assms] by (simp add: ops_of_def distinct_map_filter)
  then show ?thesis by (simp add: ordered_ops_def distinct_map)
qed

lemma get_batch_moved:
  assumes "journal_keys j" "get_batch j b = Some r" "jo_batch q = b"
  shows "get_batch (moved j q t) b = Some (if siblings_at j q t then r\<lparr>jb_state := t\<rparr> else r)"
proof -
  have r: "r \<in> set (jr_batches j)" "jb_id r = b" using journal_keysD(1) [OF assms(1)] assms(2) by simp_all
  have "journal_keys (moved j q t)" by (rule keys_in_place [OF assms(1) moved_in_place])
  moreover have "(if siblings_at j q t then r\<lparr>jb_state := t\<rparr> else r) \<in> set (jr_batches (moved j q t))"
    using r assms(3) by (auto simp: moved_def set_update_where intro: rev_image_eqI)
  ultimately show ?thesis using r(2) by (simp add: journal_keysD(1))
qed

lemma transition_view:
  assumes "journal_keys j" "get_batch j b = Some r" "q \<in> set (ordered_ops j b)" "jo_state q = s" "jb_state r = s"
    "t \<in> set (LEGAL_TRANSITIONS s)"
  obtains j' where "transition_op j (jo_id q) s t = Inr j'" "journal_keys j'"
    "get_batch j' b = Some (if \<forall>q' \<in> set (ordered_ops j b). jo_id q' \<noteq> jo_id q \<longrightarrow> jo_state q' = t then r\<lparr>jb_state := t\<rparr> else r)"
    "ordered_ops j' b = map (\<lambda>q'. if jo_id q' = jo_id q then q'\<lparr>jo_state := t\<rparr> else q') (ordered_ops j b)"
    "jr_steps j' = jr_steps j" "jr_ledger j' = jr_ledger j"
proof -
  have q: "q \<in> set (jr_ops j)" "jo_batch q = b" using assms(3) by (simp_all add: ops_of_mem)
  have r: "r \<in> set (jr_batches j)" "jb_id r = b" using journal_keysD(1) [OF assms(1)] assms(2) by simp_all
  have "transition_op j (jo_id q) s t = Inr (moved j q t)"
    unfolding transition_op_iff [OF assms(1)] using assms(4-6) q r by blast
  moreover have "siblings_at j q t \<longleftrightarrow> (\<forall>q' \<in> set (ordered_ops j b). jo_id q' \<noteq> jo_id q \<longrightarrow> jo_state q' = t)"
    using q(2) by (auto simp: siblings_at_def ops_of_mem)
  moreover have "ordered_ops (moved j q t) b = map (\<lambda>q'. if jo_id q' = jo_id q then q'\<lparr>jo_state := t\<rparr> else q') (ordered_ops j b)"
    by (rule ordered_ops_map) (simp_all add: update_where_def)
  ultimately show ?thesis
    using keys_in_place [OF assms(1) moved_in_place] get_batch_moved [OF assms(1,2) q(2), of t]
    by (intro that [of "moved j q t"]) simp_all
qed

text \<open>The operations of a batch take a step in their order; with the last of them the batch follows.\<close>

lemma transition_next:
  assumes "journal_keys j" "get_batch j b = Some r" "ordered_ops j b = done @ q # rest" "jb_state r = s"
    "\<forall>q \<in> set done. jo_state q = t" "\<forall>q \<in> set (q # rest). jo_state q = s" "t \<in> set (LEGAL_TRANSITIONS s)"
  obtains j' where "transition_op j (jo_id q) s t = Inr j'" "journal_keys j'"
    "get_batch j' b = Some (if rest = [] then r\<lparr>jb_state := t\<rparr> else r)"
    "ordered_ops j' b = (done @ [q\<lparr>jo_state := t\<rparr>]) @ rest" "jr_steps j' = jr_steps j" "jr_ledger j' = jr_ledger j"
proof -
  have "distinct (map jo_id (done @ q # rest))" using ordered_ops_distinct [OF assms(1), of b] assms(3) by simp
  then have other: "jo_id q' \<noteq> jo_id q" if "q' \<in> set done \<union> set rest" for q' using that by (auto simp: image_iff)
  obtain j1 where j1: "transition_op j (jo_id q) s t = Inr j1" "journal_keys j1"
    "get_batch j1 b = Some (if \<forall>q' \<in> set (ordered_ops j b). jo_id q' \<noteq> jo_id q \<longrightarrow> jo_state q' = t then r\<lparr>jb_state := t\<rparr> else r)"
    "ordered_ops j1 b = map (\<lambda>q'. if jo_id q' = jo_id q then q'\<lparr>jo_state := t\<rparr> else q') (ordered_ops j b)"
    "jr_steps j1 = jr_steps j" "jr_ledger j1 = jr_ledger j"
    by (rule transition_view [OF assms(1,2), of q s t]) (use assms in simp_all)
  have ops: "ordered_ops j1 b = (done @ [q\<lparr>jo_state := t\<rparr>]) @ rest"
    unfolding j1(4) assms(3) using other by (auto intro!: map_idI)
  have "t \<noteq> s" using assms(7) by (rule legal_cases(1))
  have "(\<forall>q' \<in> set (ordered_ops j b). jo_id q' \<noteq> jo_id q \<longrightarrow> jo_state q' = t) \<longleftrightarrow> rest = []"
  proof (cases "rest = []")
    case True
    then show ?thesis unfolding assms(3) using assms(5) by auto
  next
    case False
    then obtain q2 where q2: "q2 \<in> set rest" by (cases rest) auto
    then have "q2 \<in> set (ordered_ops j b)" "jo_id q2 \<noteq> jo_id q" "jo_state q2 = s"
      using other [of q2] assms(6) unfolding assms(3) by simp_all
    then show ?thesis using \<open>t \<noteq> s\<close> False by blast
  qed
  with j1 ops show ?thesis by (intro that [of j1]) simp_all
qed

lemma transition_all_view:
  assumes "journal_keys j" "get_batch j b = Some r" "ordered_ops j b = done @ todo" "todo \<noteq> []" "jb_state r = s"
    "\<forall>q \<in> set done. jo_state q = t" "\<forall>q \<in> set todo. jo_state q = s" "t \<in> set (LEGAL_TRANSITIONS s)"
  shows "\<exists>j'. transition_all j s t (map jo_id todo) = Inr j' \<and> journal_keys j' \<and>
    get_batch j' b = Some (r\<lparr>jb_state := t\<rparr>) \<and>
    ordered_ops j' b = done @ map (jo_state_update (\<lambda>_. t)) todo \<and> jr_steps j' = jr_steps j \<and> jr_ledger j' = jr_ledger j"
  using assms(1-7)
proof (induction todo arbitrary: j "done")
  case (Cons q rest)
  obtain j1 where j1: "transition_op j (jo_id q) s t = Inr j1" "journal_keys j1"
    "get_batch j1 b = Some (if rest = [] then r\<lparr>jb_state := t\<rparr> else r)"
    "ordered_ops j1 b = (done @ [q\<lparr>jo_state := t\<rparr>]) @ rest" "jr_steps j1 = jr_steps j" "jr_ledger j1 = jr_ledger j"
    by (rule transition_next [OF Cons.prems(1-3) Cons.prems(5-7) assms(8)])
  show ?case
  proof (cases "rest = []")
    case True
    then show ?thesis using j1 by simp
  next
    case False
    have states: "\<forall>q' \<in> set (done @ [q\<lparr>jo_state := t\<rparr>]). jo_state q' = t" "\<forall>q' \<in> set rest. jo_state q' = s"
      using Cons.prems(6,7) by auto
    have "get_batch j1 b = Some r" using j1(3) False by simp
    from Cons.IH [OF j1(2) this j1(4) False Cons.prems(5) states] show ?thesis
      using j1(1,5,6) by simp
  qed
qed simp

text \<open>A whole batch takes one step.\<close>

lemma whole_batch_step:
  assumes "journal_keys j" "get_batch j b = Some r" "ordered_ops j b \<noteq> []" "jb_state r = s"
    "\<forall>q \<in> set (ordered_ops j b). jo_state q = s" "t \<in> set (LEGAL_TRANSITIONS s)"
  obtains j' where "transition_all j s t (map jo_id (ordered_ops j b)) = Inr j'" "journal_keys j'"
    "get_batch j' b = Some (r\<lparr>jb_state := t\<rparr>)" "ordered_ops j' b = map (jo_state_update (\<lambda>_. t)) (ordered_ops j b)"
    "jr_steps j' = jr_steps j" "jr_ledger j' = jr_ledger j"
proof -
  have "\<exists>j'. transition_all j s t (map jo_id (ordered_ops j b)) = Inr j' \<and> journal_keys j' \<and>
    get_batch j' b = Some (r\<lparr>jb_state := t\<rparr>) \<and>
    ordered_ops j' b = [] @ map (jo_state_update (\<lambda>_. t)) (ordered_ops j b) \<and> jr_steps j' = jr_steps j \<and> jr_ledger j' = jr_ledger j"
    by (rule transition_all_view [OF assms(1,2) _ assms(3,4) _ assms(5,6)]) simp_all
  then show ?thesis using that by auto
qed

section \<open>From intent to staged\<close>

definition intent_ops :: "string \<Rightarrow> string list \<Rightarrow> persisted_command list \<Rightarrow> command list \<Rightarrow> journal_op list" where
  "intent_ops b ids ps cs = map (\<lambda>(sequence, operation_id, p, c). intent_op b (int sequence) operation_id p (cm_value c))
     (zip [0..<length ids] (zip ids (zip ps cs)))"

lemma intent_ops_select:
  assumes "length ps = length ids" "length cs = length ids"
  shows "map jo_id (intent_ops b ids ps cs) = ids" "map jo_sequence (intent_ops b ids ps cs) = map int [0..<length ids]"
    "map jo_command (intent_ops b ids ps cs) = ps" "length (intent_ops b ids ps cs) = length ids"
    "\<forall>q \<in> set (intent_ops b ids ps cs). jo_batch q = b \<and> jo_state q = INTENT \<and> jo_manifest q = None"
proof -
  show len: "length (intent_ops b ids ps cs) = length ids" using assms by (simp add: intent_ops_def)
  have at: "intent_ops b ids ps cs ! n = intent_op b (int n) (ids ! n) (ps ! n) (cm_value (cs ! n))" if "n < length ids" for n
    using assms that by (simp add: intent_ops_def)
  show "map jo_id (intent_ops b ids ps cs) = ids" "map jo_sequence (intent_ops b ids ps cs) = map int [0..<length ids]"
    "map jo_command (intent_ops b ids ps cs) = ps"
    using assms(1) by (intro nth_equalityI; simp add: len at intent_op_def)+
  show "\<forall>q \<in> set (intent_ops b ids ps cs). jo_batch q = b \<and> jo_state q = INTENT \<and> jo_manifest q = None"
    unfolding all_set_conv_all_nth len by (simp add: at intent_op_def)
qed

lemma sort_key_sorted: "sorted (map k xs) \<Longrightarrow> sort_key k xs = xs"
  by (induction xs) (auto simp: insort_is_Cons)

text \<open>A batch whose operations, in order, all are in one state.\<close>

definition batch_at :: "journal \<Rightarrow> string \<Rightarrow> mutation_state \<Rightarrow> string list \<Rightarrow> bool" where
  "batch_at j b s ids = ((case get_batch j b of None \<Rightarrow> False | Some r \<Rightarrow> jb_state r = s) \<and> ids \<noteq> [] \<and>
     map jo_id (ordered_ops j b) = ids \<and> (\<forall>q \<in> set (ordered_ops j b). jo_state q = s))"

lemma batch_atI:
  assumes "get_batch j b = Some r" "jb_state r = s" "ids \<noteq> []" "map jo_id (ordered_ops j b) = ids"
    "\<forall>q \<in> set (ordered_ops j b). jo_state q = s"
  shows "batch_at j b s ids"
  unfolding batch_at_def assms(1) option.case using assms(2-5) by blast

lemma batch_atE:
  assumes "batch_at j b s ids"
  obtains r where "get_batch j b = Some r" "jb_state r = s" "ids \<noteq> []" "map jo_id (ordered_ops j b) = ids"
    "ordered_ops j b \<noteq> []" "\<forall>q \<in> set (ordered_ops j b). jo_state q = s"
  using assms unfolding batch_at_def by (cases "get_batch j b") auto

lemma intent_view:
  assumes "journal_ok j" "create_batch_intent dg j b h ids cs rejections ds = Inr j'"
  obtains ps where "rmap (persisted dg) cs = Inr ps" "length ids = length cs" "journal_ok j'" "batch_at j' b INTENT ids"
    "ordered_ops j' b = intent_ops b ids ps cs" "jr_ledger j' = jr_ledger j"
    "jr_steps j' = jr_steps j @ concat (map (\<lambda>(i, p). map (pending_step i) (pc_projections p)) (zip ids ps))"
    "set ids \<inter> jo_id ` set (jr_ops j) = {}" "b \<notin> jb_id ` set (jr_batches j)"
proof -
  obtain result ps where c: "rmap (persisted dg) cs = Inr ps" "length ids = length cs" "ids \<noteq> []"
    "b \<notin> jb_id ` set (jr_batches j)"
    "j' = j\<lparr>jr_batches := jr_batches j @ [\<lparr>jb_id = b, jb_hash = h, jb_state = INTENT, jb_accepted = int (length ids), jb_result = result\<rparr>],
       jr_ops := jr_ops j @ map (\<lambda>(sequence, operation_id, p, c). intent_op b (int sequence) operation_id p (cm_value c))
         (zip [0..<length ids] (zip ids (zip ps cs))),
       jr_steps := jr_steps j @ concat (map (\<lambda>(operation_id, p). map (pending_step operation_id) (pc_projections p)) (zip ids ps))\<rparr>"
    "journal_ok j'"
    by (rule create_batch_intent_Inr [OF assms])
  let ?r = "\<lparr>jb_id = b, jb_hash = h, jb_state = INTENT, jb_accepted = int (length ids), jb_result = result\<rparr>"
  let ?qs = "intent_ops b ids ps cs"
  have parts: "jr_batches j' = jr_batches j @ [?r]" "jr_ops j' = jr_ops j @ ?qs" "jr_ledger j' = jr_ledger j"
    "jr_steps j' = jr_steps j @ concat (map (\<lambda>(i, p). map (pending_step i) (pc_projections p)) (zip ids ps))"
    by (simp_all add: c(5) intent_ops_def)
  have keys: "journal_keys j" "journal_keys j'" using assms(1) c(6) by (simp_all add: journal_ok_def)
  note k = keys_parts [OF keys(1)] and k' = keys_parts [OF keys(2)]
  have len: "length ps = length ids" using rmap_Inr_length [OF c(1)] c(2) by simp
  note sel = intent_ops_select [OF len c(2) [symmetric], of b]
  have fresh: "jo_batch q \<noteq> b" if "q \<in> set (jr_ops j)" for q using k(5) c(4) that by metis
  have own: "jo_batch q = b" if "q \<in> set ?qs" for q using sel(5) that by simp
  have ops: "ordered_ops j' b = ?qs"
  proof -
    have "ops_of j' b = ?qs" using fresh own by (simp add: ops_of_def parts(2) filter_empty_conv filter_id_conv)
    moreover have "sorted (map jo_sequence ?qs)" unfolding sel(2) by (simp add: sorted_map sorted_wrt_iff_nth_less)
    ultimately show ?thesis unfolding ordered_ops_def by (simp add: sort_key_sorted)
  qed
  have "get_batch j' b = Some ?r" using journal_keysD(1) [OF keys(2), of b ?r] parts(1) by simp
  then have "batch_at j' b INTENT ids"
    by (rule batch_atI) (use c(3) sel(1,5) in \<open>simp_all add: ops\<close>)
  moreover have "set ids \<inter> jo_id ` set (jr_ops j) = {}"
  proof -
    have "set (map jo_id ?qs) \<inter> jo_id ` set (jr_ops j) = {}" using k'(2) by (auto simp: parts(2))
    then show ?thesis unfolding sel(1) .
  qed
  ultimately show ?thesis using that [OF c(1,2,6) _ ops parts(3,4)] c(4) by simp
qed

lemma mark_staged_view:
  assumes "journal_keys j" "get_batch j b = Some r" "jb_state r = INTENT" "ordered_ops j b \<noteq> []"
    "map mf_operation_id manifests = map jo_id (ordered_ops j b)"
  obtains j' where "mark_staged j b manifests = Inr j'" "journal_keys j'" "get_batch j' b = Some (r\<lparr>jb_state := STAGED\<rparr>)"
    "ordered_ops j' b = map (\<lambda>(q, m). q\<lparr>jo_manifest := Some (mf_sha256 m), jo_state := STAGED\<rparr>) (zip (ordered_ops j b) manifests)"
    "jr_steps j' = jr_steps j" "jr_ledger j' = jr_ledger j"
proof -
  let ?ms = "map (\<lambda>m. (mf_operation_id m, mf_sha256 m)) manifests"
  let ?j = "j\<lparr>jr_ops := stage_ops ?ms (jr_ops j),
     jr_batches := update_where (\<lambda>x. jb_id x = b) (jb_state_update (\<lambda>_. STAGED)) (jr_batches j)\<rparr>"
  let ?f = "\<lambda>q. case map_of ?ms (jo_id q) of None \<Rightarrow> q | Some sha \<Rightarrow> q\<lparr>jo_manifest := Some sha, jo_state := STAGED\<rparr>"
  have len: "length manifests = length (ordered_ops j b)" using assms(5) by (metis length_map)
  have run: "mark_staged j b manifests = Inr ?j"
    using assms(2-5) len by (simp add: mark_staged_def Let_def)
  have sel: "jo_id (?f q) = jo_id q" "jo_batch (?f q) = jo_batch q" "jo_sequence (?f q) = jo_sequence q" for q
    by (simp_all split: option.splits)
  have "rows_in_place j ?j" by (simp add: rows_in_place_def map_update_where stage_ops_def comp_def sel)
  then have keys: "journal_keys ?j" by (rule keys_in_place [OF assms(1)])
  have r: "r \<in> set (jr_batches j)" "jb_id r = b" using journal_keysD(1) [OF assms(1)] assms(2) by simp_all
  then have "r\<lparr>jb_state := STAGED\<rparr> \<in> set (jr_batches ?j)" by (auto simp: set_update_where intro: rev_image_eqI)
  then have "get_batch ?j b = Some (r\<lparr>jb_state := STAGED\<rparr>)" using r(2) by (simp add: journal_keysD(1) [OF keys])
  moreover have "ordered_ops ?j b = map ?f (ordered_ops j b)"
    by (rule ordered_ops_map) (simp_all add: stage_ops_def sel)
  moreover have "map ?f (ordered_ops j b) =
      map (\<lambda>(q, m). q\<lparr>jo_manifest := Some (mf_sha256 m), jo_state := STAGED\<rparr>) (zip (ordered_ops j b) manifests)"
  proof (rule nth_equalityI)
    fix n assume "n < length (map ?f (ordered_ops j b))"
    then have n: "n < length (ordered_ops j b)" "n < length manifests" using len by simp_all
    have fst: "map fst ?ms = map jo_id (ordered_ops j b)" using assms(5) by (simp add: comp_def)
    have "jo_id (ordered_ops j b ! n) = mf_operation_id (manifests ! n)"
      using assms(5) n by (metis nth_map)
    then have "map_of ?ms (jo_id (ordered_ops j b ! n)) = Some (mf_sha256 (manifests ! n))"
      using n ordered_ops_distinct [OF assms(1), of b] fst
      by (intro map_of_is_SomeI) (simp_all only:, auto intro: image_eqI [OF _ nth_mem])
    then show "map ?f (ordered_ops j b) ! n = map (\<lambda>(q, m). q\<lparr>jo_manifest := Some (mf_sha256 m), jo_state := STAGED\<rparr>)
        (zip (ordered_ops j b) manifests) ! n" using n by simp
  qed (simp add: len)
  ultimately show ?thesis using run keys by (intro that [of ?j]) simp_all
qed

section \<open>The life of a batch\<close>

lemma batch_at_step:
  assumes "journal_keys j" "batch_at j b s ids" "t \<in> set (LEGAL_TRANSITIONS s)"
  obtains j' where "transition_all j s t ids = Inr j'" "journal_keys j'" "batch_at j' b t ids"
    "jr_steps j' = jr_steps j" "jr_ledger j' = jr_ledger j"
proof -
  obtain r where at: "get_batch j b = Some r" "jb_state r = s" "ids \<noteq> []" "map jo_id (ordered_ops j b) = ids"
    "ordered_ops j b \<noteq> []" "\<forall>q \<in> set (ordered_ops j b). jo_state q = s"
    by (rule batch_atE [OF assms(2)])
  obtain j' where j': "transition_all j s t (map jo_id (ordered_ops j b)) = Inr j'" "journal_keys j'"
    "get_batch j' b = Some (r\<lparr>jb_state := t\<rparr>)" "ordered_ops j' b = map (jo_state_update (\<lambda>_. t)) (ordered_ops j b)"
    "jr_steps j' = jr_steps j" "jr_ledger j' = jr_ledger j"
    by (rule whole_batch_step [OF assms(1) at(1,5,2,6) assms(3)])
  have "batch_at j' b t ids"
    by (rule batch_atI [OF j'(3)]) (use at(3,4) in \<open>auto simp: j'(4) comp_def\<close>)
  then show ?thesis using that j' at(4) by simp
qed

lemma batch_at_staged:
  assumes "journal_keys j" "batch_at j b INTENT ids" "map mf_operation_id manifests = ids"
  obtains j' where "mark_staged j b manifests = Inr j'" "journal_keys j'" "batch_at j' b STAGED ids"
    "jr_steps j' = jr_steps j" "jr_ledger j' = jr_ledger j"
proof -
  obtain r where at: "get_batch j b = Some r" "jb_state r = INTENT" "ids \<noteq> []" "map jo_id (ordered_ops j b) = ids"
    "ordered_ops j b \<noteq> []" "\<forall>q \<in> set (ordered_ops j b). jo_state q = INTENT"
    by (rule batch_atE [OF assms(2)])
  have same: "map mf_operation_id manifests = map jo_id (ordered_ops j b)" using at(4) assms(3) by simp
  obtain j' where j': "mark_staged j b manifests = Inr j'" "journal_keys j'" "get_batch j' b = Some (r\<lparr>jb_state := STAGED\<rparr>)"
    "ordered_ops j' b = map (\<lambda>(q, m). q\<lparr>jo_manifest := Some (mf_sha256 m), jo_state := STAGED\<rparr>) (zip (ordered_ops j b) manifests)"
    "jr_steps j' = jr_steps j" "jr_ledger j' = jr_ledger j"
    by (rule mark_staged_view [OF assms(1) at(1,2,5) same])
  have len: "length manifests = length (ordered_ops j b)" using same by (metis length_map)
  have "map jo_id (ordered_ops j' b) = map jo_id (map fst (zip (ordered_ops j b) manifests))"
    unfolding j'(4) by (simp add: comp_def case_prod_unfold)
  then have "map jo_id (ordered_ops j' b) = ids" using len at(4) by simp
  moreover have "\<forall>q \<in> set (ordered_ops j' b). jo_state q = STAGED" unfolding j'(4) by auto
  ultimately have "batch_at j' b STAGED ids" by (intro batch_atI [OF j'(3) _ at(3)]) simp_all
  then show ?thesis using that j' by simp
qed

text \<open>Finalization shows the events of the batch.\<close>

lemma batch_at_finalized:
  assumes "journal_keys j" "batch_at j b FORWARD_APPLIED ids" "invalid_steps j b = []"
    "\<forall>e \<in> set (jr_ledger j). le_batch e = Some b \<longrightarrow> \<not> le_visible e \<and> le_op e \<in> Some ` set ids"
  obtains j' result where "finalize_batch j b = Inr (result, j')" "journal_keys j'" "batch_at j' b FINALIZED ids"
    "jr_ledger j' = map (\<lambda>e. if le_batch e = Some b then e\<lparr>le_visible := True\<rparr> else e) (jr_ledger j)"
proof -
  let ?ohit = "\<lambda>q. jo_batch q = b \<and> jo_state q = FORWARD_APPLIED"
  let ?bhit = "\<lambda>r. jb_id r = b \<and> jb_state r = FORWARD_APPLIED"
  obtain r where at: "get_batch j b = Some r" "jb_state r = FORWARD_APPLIED" "ids \<noteq> []" "map jo_id (ordered_ops j b) = ids"
    "ordered_ops j b \<noteq> []" "\<forall>q \<in> set (ordered_ops j b). jo_state q = FORWARD_APPLIED"
    by (rule batch_atE [OF assms(2)])
  have r: "r \<in> set (jr_batches j)" "jb_id r = b" using journal_keysD(1) [OF assms(1)] at(1) by simp_all
  have ops: "ops_of j b \<noteq> []" "\<forall>q \<in> set (ops_of j b). jo_state q = FORWARD_APPLIED"
    using at(5,6) by (auto simp: ordered_ops_def)
  have ids: "set ids = set (map jo_id (ops_of j b))" using at(4) by (metis set_map set_ordered_ops)
  have states: "jo_state ` set (ops_of j b) = {FORWARD_APPLIED}" using ops by (cases "ops_of j b") auto
  have count: "int (length (ops_of j b)) = jb_accepted r" using journal_keysD(3) [OF assms(1) r(1)] r(2) by simp
  have hidden: "rowcount (\<lambda>e. le_batch e = Some b \<and> le_visible e) (jr_ledger j) = 0"
    using assms(4) by (auto simp: rowcount_zero)
  have hit: "filter ?ohit (jr_ops j) = ops_of j b"
    unfolding ops_of_def using ops(2) by (intro filter_cong) (auto simp: ops_of_mem)
  have one: "rowcount ?bhit (jr_batches j) = 1"
    using rowcount_key [OF keys_parts(1) [OF assms(1)], of b "\<lambda>x. jb_state x = FORWARD_APPLIED"] r at(2) by auto
  let ?ledger = "update_where (\<lambda>e. le_batch e = Some b \<and> \<not> le_visible e) (le_visible_update (\<lambda>_. True)) (jr_ledger j)"
  let ?j = "j\<lparr>jr_ops := update_where ?ohit (jo_state_update (\<lambda>_. FINALIZED)) (jr_ops j),
    jr_batches := update_where ?bhit (jb_state_update (\<lambda>_. FINALIZED)) (jr_batches j), jr_ledger := ?ledger\<rparr>"
  have own: "\<forall>e \<in> set ?ledger. le_batch e = Some b \<and> le_visible e \<longrightarrow>
      (case le_op e of None \<Rightarrow> False | Some i \<Rightarrow> i \<in> set (map jo_id (ops_of j b)))"
    using assms(4) unfolding ids by (auto simp: set_update_where split: if_splits)
  have fin: "finalize_batch_in_transaction j b = Inr ?j"
    unfolding finalize_batch_in_transaction_def Let_def
    using at(1,2) count ops(1) states hidden assms(3) one own by (simp add: rowcount_def hit)
  have rows: "rows_in_place j ?j" by (simp add: rows_in_place_def map_update_where)
  then have keys: "journal_keys ?j" by (rule keys_in_place [OF assms(1)])
  have "r\<lparr>jb_state := FINALIZED\<rparr> \<in> set (jr_batches ?j)" using r at(2) by (auto simp: set_update_where intro: rev_image_eqI)
  then have got: "get_batch ?j b = Some (r\<lparr>jb_state := FINALIZED\<rparr>)" using r(2) by (simp add: journal_keysD(1) [OF keys])
  have ordered: "ordered_ops ?j b = map (\<lambda>q. if ?ohit q then q\<lparr>jo_state := FINALIZED\<rparr> else q) (ordered_ops j b)"
    by (rule ordered_ops_map) (simp_all add: update_where_def)
  have finals: "\<forall>q \<in> set (ordered_ops ?j b). jo_state q = FINALIZED"
    unfolding ordered using at(6) by (auto simp: ops_of_mem)
  have "map jo_id (ordered_ops ?j b) = ids"
    unfolding ordered at(4) [symmetric] by simp
  then have "batch_at ?j b FINALIZED ids"
    using finals by (intro batch_atI [OF got _ at(3)]) simp_all
  moreover have "finalize_batch j b = Inr (jb_result r, ?j)" using fin got by (simp add: finalize_batch_def)
  moreover have "?ledger = map (\<lambda>e. if le_batch e = Some b then e\<lparr>le_visible := True\<rparr> else e) (jr_ledger j)"
    using assms(4) by (auto simp: update_where_def)
  ultimately show ?thesis using keys by (intro that [of "jb_result r" ?j]) simp_all
qed

end
