(* ===== verification/CommitRun.thy ===== *)
theory CommitRun
  imports CommitProperties JournalProgress
begin

text \<open>
  The business transaction of a staged batch whose sync events can all be sent: it fails only when a
  flush breaks a constraint of the tables; else it ends with the rows the overlay promised, and leaves
  one hidden ledger row for each event, numbered in order, and one tombstone for each deleted entity.
\<close>

section \<open>Rows\<close>

text \<open>Storing the row images changes nothing else of the journal.\<close>

definition images_only :: "journal \<Rightarrow> journal \<Rightarrow> bool" where
  "images_only j j' = (\<exists>f. jr_ops j' = map f (jr_ops j) \<and> (\<forall>q. (f q)\<lparr>jo_images := None\<rparr> = q\<lparr>jo_images := None\<rparr>) \<and>
     jr_batches j' = jr_batches j \<and> jr_steps j' = jr_steps j \<and> jr_ledger j' = jr_ledger j)"

lemma images_only_refl: "images_only j j"
  unfolding images_only_def by (rule exI [of _ id]) simp

lemma images_only_trans: "images_only j1 j2 \<Longrightarrow> images_only j2 j3 \<Longrightarrow> images_only j1 j3"
  unfolding images_only_def by (elim exE conjE, rule_tac x = "fa \<circ> f" in exI) simp

lemma same_but_images:
  assumes "(q' :: journal_op)\<lparr>jo_images := None\<rparr> = q\<lparr>jo_images := None\<rparr>"
  shows "jo_id q' = jo_id q" "jo_batch q' = jo_batch q" "jo_sequence q' = jo_sequence q" "jo_state q' = jo_state q"
    "jo_command q' = jo_command q"
  using arg_cong [OF assms, of jo_id] arg_cong [OF assms, of jo_batch] arg_cong [OF assms, of jo_sequence]
    arg_cong [OF assms, of jo_state] arg_cong [OF assms, of jo_command] by simp_all

lemma images_only_view:
  assumes "images_only j j'" "journal_keys j"
  obtains f where "journal_keys j'" "get_batch j' b = get_batch j b" "ordered_ops j' b = map f (ordered_ops j b)"
    "\<forall>q. (f q)\<lparr>jo_images := None\<rparr> = q\<lparr>jo_images := None\<rparr>" "jr_steps j' = jr_steps j" "jr_ledger j' = jr_ledger j"
    "\<forall>q \<in> set (jr_ops j'). \<exists>q0 \<in> set (jr_ops j). jo_id q = jo_id q0 \<and> jo_batch q = jo_batch q0"
proof -
  obtain f where f: "jr_ops j' = map f (jr_ops j)" "\<forall>q. (f q)\<lparr>jo_images := None\<rparr> = q\<lparr>jo_images := None\<rparr>"
    "jr_batches j' = jr_batches j" "jr_steps j' = jr_steps j" "jr_ledger j' = jr_ledger j"
    using assms(1) unfolding images_only_def by blast
  note same = same_but_images [OF f(2) [rule_format]]
  have "rows_in_place j j'" by (simp add: rows_in_place_def f same comp_def)
  then have "journal_keys j'" by (rule keys_in_place [OF assms(2)])
  moreover have "ordered_ops j' b = map f (ordered_ops j b)" by (rule ordered_ops_map) (simp_all add: f(1) same)
  moreover have "\<forall>q \<in> set (jr_ops j'). \<exists>q0 \<in> set (jr_ops j). jo_id q = jo_id q0 \<and> jo_batch q = jo_batch q0"
    using f(1) same(1,2) by auto
  ultimately show ?thesis using f by (intro that [of f]) (simp_all add: get_batch_def)
qed

lemma store_images_run:
  assumes "journal_keys j" "q \<in> set (jr_ops j)" "jo_batch q = b"
  obtains j' where "store_images b e plans j (jo_id q) = Inr j'" "images_only j j'"
proof -
  let ?f = "jo_images_update (\<lambda>_. Some (map pl_before plans, map pl_after plans))"
  have "get_op j (jo_id q) = Some q" using journal_keysD(2) [OF assms(1)] assms(2) by simp
  then have "store_images b e plans j (jo_id q) =
      Inr (j\<lparr>jr_ops := update_where (\<lambda>x. jo_id x = jo_id q) ?f (jr_ops j)\<rparr>)"
    using assms(3) by (simp add: store_images_def)
  moreover have "images_only j (j\<lparr>jr_ops := update_where (\<lambda>x. jo_id x = jo_id q) ?f (jr_ops j)\<rparr>)"
    unfolding images_only_def by (rule exI [of _ "\<lambda>x. if jo_id x = jo_id q then ?f x else x"]) (simp add: update_where_def)
  ultimately show ?thesis by (rule that)
qed

text \<open>All plans of a batch, one operation after the other.\<close>

definition with_rows :: "((string \<times> json list) \<times> row) list \<Rightarrow> journal \<Rightarrow> space_db \<Rightarrow> space_db" where
  "with_rows rows j db = db\<lparr>sd_rows := rows, sd_journal := j\<rparr>"

lemma apply_operations_run:
  assumes "journal_keys (sd_journal db)" "\<forall>i \<in> set (map fst entries). \<exists>q \<in> set (jr_ops (sd_journal db)). jo_id q = i \<and> jo_batch q = b"
  shows "case rfold (interpreter_apply ct en) (sd_rows db) (map (\<lambda>(i, c). cm_plans c) entries) of
      Inl x \<Rightarrow> rfold (apply_operation ct en b e) db (map (\<lambda>(i, c). (i, cm_plans c)) entries) = Inl x
    | Inr rows \<Rightarrow> \<exists>j. rfold (apply_operation ct en b e) db (map (\<lambda>(i, c). (i, cm_plans c)) entries) =
        Inr (with_rows rows j db) \<and> images_only (sd_journal db) j"
  using assms
proof (induction entries arbitrary: db)
  case Nil
  have "with_rows (sd_rows db) (sd_journal db) db = db" by (simp add: with_rows_def)
  then show ?case by (simp add: images_only_refl exI [of _ "sd_journal db"])
next
  case (Cons entry entries)
  obtain i c where entry: "entry = (i, c)" by (cases entry)
  show ?case
  proof (cases "interpreter_apply ct en (sd_rows db) (cm_plans c)")
    case (Inl x)
    then show ?thesis by (simp add: entry apply_operation_def)
  next
    case (Inr rows1)
    obtain q where q: "q \<in> set (jr_ops (sd_journal db))" "jo_id q = i" "jo_batch q = b"
      using Cons.prems(2) by (auto simp: entry)
    obtain j1 where j1: "store_images b e (cm_plans c) (sd_journal db) i = Inr j1" "images_only (sd_journal db) j1"
      using store_images_run [OF Cons.prems(1) q(1,3)] q(2) by metis
    let ?db = "with_rows rows1 j1 db"
    have step: "apply_operation ct en b e db (i, cm_plans c) = Inr ?db"
      by (simp add: apply_operation_def Inr with_journal_def j1(1) with_rows_def)
    obtain f where f: "jr_ops j1 = map f (jr_ops (sd_journal db))" "\<forall>q. (f q)\<lparr>jo_images := None\<rparr> = q\<lparr>jo_images := None\<rparr>"
      using j1(2) unfolding images_only_def by blast
    note same = same_but_images [OF f(2) [rule_format]]
    have keys1: "journal_keys j1" by (rule images_only_view [OF j1(2) Cons.prems(1)])
    have ids1: "\<forall>i \<in> set (map fst entries). \<exists>q \<in> set (jr_ops j1). jo_id q = i \<and> jo_batch q = b"
      using Cons.prems(2) by (auto simp: f(1) same)
    have rest: "with_rows rows j ?db = with_rows rows j db" "sd_journal ?db = j1" "sd_rows ?db = rows1" for rows j
      by (simp_all add: with_rows_def)
    show ?thesis
      using Cons.IH [of ?db] keys1 ids1 step images_only_trans [OF j1(2)]
      by (auto simp: entry rest Inr split: sum.splits)
  qed
qed

text \<open>
  The rows of a batch: written as the plans say, unless a state of its flushes breaks a constraint.
\<close>

lemma batch_rows_run:
  assumes "rfold ov_apply ov cs = Inr ov'" "catalog_wf ct" "step_ok ct ov rows" "commands_writable ct cs"
  shows "rfold (interpreter_apply ct en) rows (map cm_plans cs) =
      (case first_broken ct (batch_states ct en rows (map cm_plans cs)) of
         None \<Rightarrow> Inr (batch_rows ct rows (map cm_plans cs)) | Some t \<Rightarrow> Inl (IntegrityErr t)) \<and>
    step_ok ct ov' (batch_rows ct rows (map cm_plans cs))"
  using assms
proof (induction cs arbitrary: ov rows)
  case (Cons c cs)
  obtain ov1 where ov1: "ov_apply ov c = Inr ov1" "rfold ov_apply ov1 cs = Inr ov'"
    using Cons.prems(1) by (auto simp: rbind_Inr)
  have w: "\<forall>p \<in> set (cm_plans c). plan_writable ct p" "commands_writable ct cs"
    using Cons.prems(4) by (simp_all add: commands_writable_def)
  note step = command_step [OF ov1(1) Cons.prems(2,3) w(1)]
  note rest = Cons.IH [OF ov1(2) Cons.prems(2) step(2) w(2)]
  have rows: "batch_rows ct rows (map cm_plans (c # cs)) = batch_rows ct (foldl (planned ct) rows (cm_plans c)) (map cm_plans cs)"
    by (simp add: batch_rows_def)
  show ?case using rest unfolding rows
    by (cases "first_broken ct (flush_states en rows (foldl (planned ct) rows (cm_plans c)))")
      (simp_all add: step(1) [of en] flush_def Let_def first_broken_append)
qed (simp add: batch_rows_def)

section \<open>Events\<close>

text \<open>An event the transaction can write: of a synchronised entity, with a payload that goes on the wire.\<close>

definition sendable :: "catalog \<Rightarrow> sync_event \<Rightarrow> bool" where
  "sendable ct e = (case catalog_get ct (ev_type e) of
     None \<Rightarrow> False
   | Some spec \<Rightarrow> es_sync_enabled spec \<and> (\<exists>payload. sync_wire_payload spec (ev_payload e) = Inr payload) \<and>
       py_strip (effective_sync_entity_type spec) \<noteq> [] \<and> py_strip (ev_id e) \<noteq> [] \<and> 0 \<le> ev_version e)"

text \<open>The ledger row of an event, and those of a batch, numbered from \<open>n\<close>.\<close>

definition ledger_of :: "catalog \<Rightarrow> string \<Rightarrow> int \<Rightarrow> string \<Rightarrow> sync_event \<Rightarrow> ledger_event" where
  "ledger_of ct b n i e = (let spec = the (catalog_get ct (ev_type e)) in
     \<lparr>le_seq = n, le_type = effective_sync_entity_type spec, le_id = ev_id e, le_action = ev_action e,
      le_payload = (case sync_wire_payload spec (ev_payload e) of Inr payload \<Rightarrow> payload_text payload | Inl _ \<Rightarrow> []),
      le_op = Some i, le_batch = Some b, le_version = Some (ev_version e), le_created = ev_created_at e,
      le_visible = False\<rparr>)"

fun ledger_rows :: "catalog \<Rightarrow> string \<Rightarrow> int \<Rightarrow> (string \<times> sync_event) list \<Rightarrow> ledger_event list" where
  "ledger_rows ct b n [] = []"
| "ledger_rows ct b n ((i, e) # es) = ledger_of ct b n i e # ledger_rows ct b (n + 1) es"

definition flat_events :: "(string \<times> command) list \<Rightarrow> (string \<times> sync_event) list" where
  "flat_events entries = concat (map (\<lambda>(i, c). map (Pair i) (cm_events c)) entries)"

lemma ledger_rows_append:
  "ledger_rows ct b n (es @ fs) = ledger_rows ct b n es @ ledger_rows ct b (n + int (length es)) fs"
  by (induction es arbitrary: n) (auto simp: algebra_simps)

lemma length_ledger_rows [simp]: "length (ledger_rows ct b n es) = length es"
  by (induction es arbitrary: n) auto

lemma ledger_rows_nth: "k < length es \<Longrightarrow>
    ledger_rows ct b n es ! k = ledger_of ct b (n + int k) (fst (es ! k)) (snd (es ! k))"
proof (induction es arbitrary: n k)
  case (Cons x es)
  then show ?case by (cases x; cases k) (auto simp: algebra_simps)
qed simp

lemma ledger_of_select [simp]: "le_seq (ledger_of ct b n i e) = n" "le_op (ledger_of ct b n i e) = Some i"
  "le_batch (ledger_of ct b n i e) = Some b" "le_action (ledger_of ct b n i e) = ev_action e"
  "\<not> le_visible (ledger_of ct b n i e)" "le_id (ledger_of ct b n i e) = ev_id e" "le_created (ledger_of ct b n i e) = ev_created_at e"
  by (simp_all add: ledger_of_def Let_def)

lemma next_sequence_grows: "next_sequence (l @ [e]) = (if next_sequence l \<le> le_seq e then le_seq e + 1 else next_sequence l)"
proof -
  have "foldr max xs (max m (0::int)) = max (foldr max xs 0) m" for xs m by (induction xs) (auto simp: max_def)
  then have "next_sequence (l @ [e]) = 1 + max (foldr max (map le_seq l) 0) (le_seq e)"
    by (simp add: next_sequence_def)
  then show ?thesis by (simp add: next_sequence_def max_def)
qed

lemma ledger_below_next: "e \<in> set l \<Longrightarrow> le_seq e < next_sequence l"
  unfolding next_sequence_def by (induction l) auto

text \<open>The sequences of the delete events.\<close>

definition note_delete :: "delete_sequences \<Rightarrow> ledger_event \<Rightarrow> delete_sequences" where
  "note_delete d le = (if le_action le = EvDelete then fmupd (le_type le, le_id le) (le_seq le) d else d)"

text \<open>The database with more ledger rows.\<close>

definition with_events :: "ledger_event list \<Rightarrow> space_db \<Rightarrow> space_db" where
  "with_events les db = (with_ledger db (\<lambda>l. l @ les))\<lparr>sd_cursor := foldl (\<lambda>c le. max c (le_seq le)) (sd_cursor db) les\<rparr>"

lemma with_events_Nil [simp]: "with_events [] db = db"
  by (simp add: with_events_def with_ledger_def)

lemma with_events_append: "with_events (xs @ ys) db = with_events ys (with_events xs db)"
  by (simp add: with_events_def with_ledger_def comp_def)

lemma with_events_select [simp]:
  "sd_rows (with_events les db) = sd_rows db" "sd_tombstones (with_events les db) = sd_tombstones db"
  "sd_journal (with_events les db) = (sd_journal db)\<lparr>jr_ledger := jr_ledger (sd_journal db) @ les\<rparr>"
  by (simp_all add: with_events_def with_ledger_def)

lemma commit_event_run:
  assumes "sendable ct e"
  shows "commit_event ct b i (db, d) e =
    (let le = ledger_of ct b (next_sequence (jr_ledger (sd_journal db))) i e in Inr (with_events [le] db, note_delete d le))"
proof -
  obtain spec payload where s: "catalog_get ct (ev_type e) = Some spec" "es_sync_enabled spec"
    "sync_wire_payload spec (ev_payload e) = Inr payload"
    "py_strip (effective_sync_entity_type spec) \<noteq> []" "py_strip (ev_id e) \<noteq> []" "0 \<le> ev_version e"
    using assms unfolding sendable_def by (auto split: option.splits)
  show ?thesis
    using s by (simp add: commit_event_def spec_of_def record_sync_event_def Let_def ledger_of_def note_delete_def
        with_events_def with_ledger_def)
qed

lemma commit_events_run:
  assumes "\<forall>e \<in> set es. sendable ct e"
  shows "rfold (commit_event ct b i) (db, d) es =
    (let les = ledger_rows ct b (next_sequence (jr_ledger (sd_journal db))) (map (Pair i) es) in
     Inr (with_events les db, foldl note_delete d les))"
  using assms
proof (induction es arbitrary: db d)
  case (Cons e es)
  let ?n = "next_sequence (jr_ledger (sd_journal db))"
  let ?le = "ledger_of ct b ?n i e"
  have "next_sequence (jr_ledger (sd_journal (with_events [?le] db))) = ?n + 1"
    by (simp add: next_sequence_grows)
  then have run: "rfold (commit_event ct b i) (with_events [?le] db, note_delete d ?le) es =
      (let les = ledger_rows ct b (?n + 1) (map (Pair i) es) in
       Inr (with_events les (with_events [?le] db), foldl note_delete (note_delete d ?le) les))"
    using Cons.IH [of "with_events [?le] db" "note_delete d ?le"] Cons.prems by simp
  have first: "commit_event ct b i (db, d) e = Inr (with_events [?le] db, note_delete d ?le)"
    using Cons.prems by (simp add: commit_event_run Let_def)
  show ?case
    by (simp only: rfold.simps first rbind_simps run Let_def list.map ledger_rows.simps foldl.simps
        with_events_append [symmetric] append_Cons append_Nil)
qed simp

text \<open>Every operation takes its step and writes its events; with the last one the batch is committed.\<close>

lemma extended_ledger_view:
  assumes "journal_keys j"
  shows "journal_keys (j\<lparr>jr_ledger := l\<rparr>)" "get_batch (j\<lparr>jr_ledger := l\<rparr>) b = get_batch j b"
    "ordered_ops (j\<lparr>jr_ledger := l\<rparr>) b = ordered_ops j b"
  using keys_in_place [OF assms, of "j\<lparr>jr_ledger := l\<rparr>"]
  by (simp_all add: rows_in_place_def get_batch_def ordered_ops_def ops_of_def)

lemma commit_operation_run:
  assumes "transition_op (sd_journal db) i STAGED DB_COMMITTED = Inr j1" "jr_ledger j1 = jr_ledger (sd_journal db)"
    "\<forall>e \<in> set es. sendable ct e"
  shows "commit_operation ct b (db, d) (i, es) =
    (let les = ledger_rows ct b (next_sequence (jr_ledger (sd_journal db))) (map (Pair i) es) in
     Inr ((with_events les db)\<lparr>sd_journal := j1\<lparr>jr_ledger := jr_ledger (sd_journal db) @ les\<rparr>\<rparr>, foldl note_delete d les))"
  using commit_events_run [OF assms(3), of b i "db\<lparr>sd_journal := j1\<rparr>" d] assms(1,2)
  by (simp add: commit_operation_def with_journal_def Let_def with_events_def with_ledger_def)

lemma flat_events_Cons [simp]: "flat_events [] = []" "flat_events ((i, c) # entries) = map (Pair i) (cm_events c) @ flat_events entries"
  by (simp_all add: flat_events_def)

lemma next_sequence_ledger_rows:
  "next_sequence (l @ ledger_rows ct b (next_sequence l) es) = next_sequence l + int (length es)"
proof (induction es arbitrary: l rule: list.induct)
  case (Cons x es)
  obtain i e where x: "x = (i, e)" by (cases x)
  have "next_sequence (l @ [ledger_of ct b (next_sequence l) i e]) = next_sequence l + 1" by (simp add: next_sequence_grows)
  then show ?case using Cons [of "l @ [ledger_of ct b (next_sequence l) i e]"] by (simp add: x)
qed simp

lemma commit_operations_run:
  assumes "journal_keys (sd_journal db)" "get_batch (sd_journal db) b = Some r" "jb_state r = STAGED"
    "ordered_ops (sd_journal db) b = done @ todo" "todo \<noteq> []" "\<forall>q \<in> set done. jo_state q = DB_COMMITTED"
    "\<forall>q \<in> set todo. jo_state q = STAGED" "map jo_id todo = map fst entries"
    "\<forall>c \<in> set (map snd entries). \<forall>e \<in> set (cm_events c). sendable ct e"
  shows "\<exists>j. rfold (commit_operation ct b) (db, d) (map (\<lambda>(i, c). (i, cm_events c)) entries) =
      (let les = ledger_rows ct b (next_sequence (jr_ledger (sd_journal db))) (flat_events entries) in
       Inr ((with_events les db)\<lparr>sd_journal := j\<rparr>, foldl note_delete d les)) \<and>
    journal_keys j \<and> get_batch j b = Some (r\<lparr>jb_state := DB_COMMITTED\<rparr>) \<and>
    ordered_ops j b = done @ map (jo_state_update (\<lambda>_. DB_COMMITTED)) todo \<and> jr_steps j = jr_steps (sd_journal db) \<and>
    jr_ledger j = jr_ledger (sd_journal db) @
      ledger_rows ct b (next_sequence (jr_ledger (sd_journal db))) (flat_events entries)"
  using assms
proof (induction todo arbitrary: db d "done" entries)
  case (Cons q rest)
  let ?j = "sd_journal db"
  let ?n = "next_sequence (jr_ledger ?j)"
  obtain c entries' where entries: "entries = (jo_id q, c) # entries'" "map jo_id rest = map fst entries'"
    using Cons.prems(8) by (cases entries) auto
  have states: "\<forall>q' \<in> set (q # rest). jo_state q' = STAGED" using Cons.prems(7) .
  obtain j1 where j1: "transition_op ?j (jo_id q) STAGED DB_COMMITTED = Inr j1" "journal_keys j1"
    "get_batch j1 b = Some (if rest = [] then r\<lparr>jb_state := DB_COMMITTED\<rparr> else r)"
    "ordered_ops j1 b = (done @ [q\<lparr>jo_state := DB_COMMITTED\<rparr>]) @ rest" "jr_steps j1 = jr_steps ?j" "jr_ledger j1 = jr_ledger ?j"
    by (rule transition_next [OF Cons.prems(1,2,4,3,6) states]) (simp add: LEGAL_TRANSITIONS_def)
  define les where "les = ledger_rows ct b ?n (map (Pair (jo_id q)) (cm_events c))"
  define j2 where "j2 = j1\<lparr>jr_ledger := jr_ledger ?j @ les\<rparr>"
  define db1 where "db1 = (with_events les db)\<lparr>sd_journal := j2\<rparr>"
  have step: "commit_operation ct b (db, d) (jo_id q, cm_events c) = Inr (db1, foldl note_delete d les)"
    using commit_operation_run [OF j1(1,6), of "cm_events c" ct b d] Cons.prems(9)
    by (simp add: entries(1) les_def j2_def db1_def Let_def)
  note view = extended_ledger_view [OF j1(2), of "jr_ledger ?j @ les"]
  have n2: "next_sequence (jr_ledger j2) = ?n + int (length (cm_events c))"
    unfolding j2_def les_def by (simp add: next_sequence_ledger_rows)
  have flat: "ledger_rows ct b ?n (flat_events entries) =
      les @ ledger_rows ct b (next_sequence (jr_ledger j2)) (flat_events entries')"
    by (simp add: entries(1) ledger_rows_append les_def n2)
  show ?case
  proof (cases "rest = []")
    case True
    then have "entries' = []" using entries(2) by simp
    with step j1 view True show ?thesis
      unfolding flat by (intro exI [of _ j2]) (simp add: entries(1) db1_def Let_def j2_def)
  next
    case False
    define more where "more = ledger_rows ct b (next_sequence (jr_ledger j2)) (flat_events entries')"
    have states': "\<forall>q' \<in> set (done @ [q\<lparr>jo_state := DB_COMMITTED\<rparr>]). jo_state q' = DB_COMMITTED" "\<forall>q' \<in> set rest. jo_state q' = STAGED"
      using Cons.prems(6,7) by auto
    have now: "journal_keys (sd_journal db1)" "get_batch (sd_journal db1) b = Some r"
      "ordered_ops (sd_journal db1) b = (done @ [q\<lparr>jo_state := DB_COMMITTED\<rparr>]) @ rest"
      using j1(3,4) view False by (simp_all add: db1_def j2_def)
    have sends: "\<forall>c \<in> set (map snd entries'). \<forall>e \<in> set (cm_events c). sendable ct e"
      using Cons.prems(9) by (simp add: entries(1))
    obtain j where j: "rfold (commit_operation ct b) (db1, foldl note_delete d les) (map (\<lambda>(i, c). (i, cm_events c)) entries') =
        Inr ((with_events more db1)\<lparr>sd_journal := j\<rparr>, foldl note_delete (foldl note_delete d les) more)"
      "journal_keys j" "get_batch j b = Some (r\<lparr>jb_state := DB_COMMITTED\<rparr>)"
      "ordered_ops j b = (done @ [q\<lparr>jo_state := DB_COMMITTED\<rparr>]) @ map (jo_state_update (\<lambda>_. DB_COMMITTED)) rest"
      "jr_steps j = jr_steps (sd_journal db1)" "jr_ledger j = jr_ledger (sd_journal db1) @ more"
      using Cons.IH [OF now(1,2) Cons.prems(3) now(3) False states' entries(2) sends, of "foldl note_delete d les"]
      by (auto simp: Let_def more_def db1_def)
    have same: "(with_events more db1)\<lparr>sd_journal := j\<rparr> = (with_events (les @ more) db)\<lparr>sd_journal := j\<rparr>"
      by (simp add: db1_def with_events_def with_ledger_def)
    show ?thesis
      unfolding flat more_def [symmetric]
      by (intro exI [of _ j]) (use step j j1(5) same in \<open>simp add: entries(1) Let_def db1_def j2_def\<close>)
  qed
qed simp

section \<open>Tombstones\<close>

definition delete_of :: "string \<times> string \<Rightarrow> ledger_event \<Rightarrow> bool" where
  "delete_of key le = (le_action le = EvDelete \<and> (le_type le, le_id le) = key)"

definition last_delete :: "ledger_event list \<Rightarrow> string \<times> string \<Rightarrow> ledger_event option" where
  "last_delete les key = find (delete_of key) (rev les)"

definition put_row :: "delete_sequences \<Rightarrow> (string \<times> string, string \<times> int option) fmap \<Rightarrow> ledger_event \<Rightarrow>
    (string \<times> string, string \<times> int option) fmap" where
  "put_row d ts le = (if le_action le = EvDelete
     then fmupd (le_type le, le_id le) (le_created le, fmlookup d (le_type le, le_id le)) ts else ts)"

lemma last_delete_simps [simp]: "last_delete [] key = None"
  "last_delete (les @ [le]) key = (if delete_of key le then Some le else last_delete les key)"
  by (simp_all add: last_delete_def)

lemma note_deletes_lookup: "fmlookup (foldl note_delete d les) key =
    (case last_delete les key of None \<Rightarrow> fmlookup d key | Some le \<Rightarrow> Some (le_seq le))"
  by (induction les rule: rev_induct) (auto simp: note_delete_def delete_of_def)

lemma put_rows_lookup: "fmlookup (foldl (put_row d) ts les) key =
    (case last_delete les key of None \<Rightarrow> fmlookup ts key | Some le \<Rightarrow> Some (le_created le, fmlookup d key))"
  by (induction les rule: rev_induct) (auto simp: put_row_def delete_of_def)

lemma put_tombstones_run:
  assumes "\<forall>x \<in> set es. sendable ct (snd x)"
  shows "rfold (put_tombstone ct d) db (map snd es) =
    Inr (db\<lparr>sd_tombstones := foldl (put_row d) (sd_tombstones db) (ledger_rows ct b n es)\<rparr>)"
  using assms
proof (induction es arbitrary: db n)
  case (Cons x es)
  obtain i e where x: "x = (i, e)" by (cases x)
  then obtain spec where "catalog_get ct (ev_type e) = Some spec"
    using Cons.prems by (auto simp: sendable_def split: option.splits)
  then have "put_tombstone ct d db e =
      Inr (db\<lparr>sd_tombstones := put_row d (sd_tombstones db) (ledger_of ct b n i e)\<rparr>)"
    by (simp add: put_tombstone_def spec_of_def put_row_def ledger_of_def Let_def)
  moreover have "rfold (put_tombstone ct d) db1 (map snd es) =
      Inr (db1\<lparr>sd_tombstones := foldl (put_row d) (sd_tombstones db1) (ledger_rows ct b (n + 1) es)\<rparr>)" for db1
    by (rule Cons.IH) (use Cons.prems in simp)
  ultimately show ?case by (simp add: x)
qed simp

lemma flat_events_snd: "map snd (flat_events entries) = concat (map (\<lambda>(i, c). cm_events c) entries)"
  by (induction entries) (auto simp: comp_def)

lemma last_delete_None: "last_delete les key = None \<longleftrightarrow> (\<forall>le \<in> set les. \<not> delete_of key le)"
  by (auto simp: last_delete_def find_None_iff)

lemma deleted_keys_rows:
  assumes "\<forall>x \<in> set es. sendable ct (snd x)"
  shows "{key. last_delete (ledger_rows ct b n es) key \<noteq> None} = deleted_keys ct (map snd es)"
  using assms
proof (induction es arbitrary: n)
  case (Cons x es)
  obtain i e where x: "x = (i, e)" by (cases x)
  obtain spec where spec: "catalog_get ct (ev_type e) = Some spec"
    using Cons.prems by (auto simp: x sendable_def split: option.splits)
  have "{key. delete_of key (ledger_of ct b n i e)} = deleted_keys ct [e]"
    by (auto simp: delete_of_def deleted_keys_def ledger_of_def spec)
  moreover have "{key. last_delete (ledger_rows ct b n (x # es)) key \<noteq> None} =
      {key. delete_of key (ledger_of ct b n i e)} \<union> {key. last_delete (ledger_rows ct b (n + 1) es) key \<noteq> None}"
    by (auto simp: x last_delete_None)
  ultimately show ?case using Cons by (simp add: x deleted_keys_Cons [of ct e "map snd es"])
qed simp

lemma commands_tombstones:
  "rfold ov_apply ov cs = Inr ov' \<Longrightarrow> catalog_wf (ov_catalog ov) \<Longrightarrow>
   ov_tombstones ov' = ov_tombstones ov \<union> deleted_keys (ov_catalog ov) (concat (map cm_events cs))"
proof (induction cs arbitrary: ov)
  case (Cons c cs)
  then obtain ov1 where ov1: "ov_apply ov c = Inr ov1" "rfold ov_apply ov1 cs = Inr ov'" by (auto simp: rbind_Inr)
  have "ov_catalog ov1 = ov_catalog ov" using ov_apply_grows [OF ov1(1)] by (simp add: grows_def)
  with Cons.IH [OF ov1(2)] ov_apply_tombstones [OF ov1(1)] Cons.prems(2) show ?case by auto
qed simp

section \<open>The whole transaction\<close>

definition all_sendable :: "catalog \<Rightarrow> command list \<Rightarrow> bool" where
  "all_sendable ct cs = (\<forall>c \<in> set cs. \<forall>e \<in> set (cm_events c). sendable ct e)"

definition batch_ledger :: "catalog \<Rightarrow> string \<Rightarrow> journal \<Rightarrow> (string \<times> command) list \<Rightarrow> ledger_event list" where
  "batch_ledger ct b j entries = ledger_rows ct b (next_sequence (jr_ledger j)) (flat_events entries)"

lemma batch_ids_present:
  assumes "batch_at j b st (map fst entries)"
  shows "\<forall>i \<in> set (map fst entries). \<exists>q \<in> set (jr_ops j). jo_id q = i \<and> jo_batch q = b"
proof
  fix i assume "i \<in> set (map fst entries)"
  then have "i \<in> set (map jo_id (ordered_ops j b))" using assms unfolding batch_at_def by metis
  then show "\<exists>q \<in> set (jr_ops j). jo_id q = i \<and> jo_batch q = b" by (auto simp: ops_of_mem)
qed

lemma commit_business_refused:
  assumes "journal_keys (sd_journal db)" "batch_at (sd_journal db) b st (map fst entries)"
    "rfold (interpreter_apply ct en) (sd_rows db) (map (\<lambda>(i, c). cm_plans c) entries) = Inl x"
  shows "commit_business ct en b db entries = Inl x"
  using apply_operations_run [OF assms(1) batch_ids_present [OF assms(2)], of ct en] assms(3)
  by (simp add: commit_business_def)

lemma commit_business_run:
  assumes "journal_keys (sd_journal db)" "batch_at (sd_journal db) b STAGED (map fst entries)" "all_sendable ct (map snd entries)"
    "rfold (interpreter_apply ct en) (sd_rows db) (map (\<lambda>(i, c). cm_plans c) entries) = Inr rows"
  obtains db' where "commit_business ct en b db entries = Inr db'" "sd_rows db' = rows" "journal_keys (sd_journal db')"
    "batch_at (sd_journal db') b DB_COMMITTED (map fst entries)"
    "jr_steps (sd_journal db') = jr_steps (sd_journal db)"
    "jr_ledger (sd_journal db') = jr_ledger (sd_journal db) @ batch_ledger ct b (sd_journal db) entries"
    "\<And>key. fmlookup (sd_tombstones db') key = (case last_delete (batch_ledger ct b (sd_journal db) entries) key of
       None \<Rightarrow> fmlookup (sd_tombstones db) key | Some le \<Rightarrow> Some (le_created le, Some (le_seq le)))"
    "\<exists>r. get_batch (sd_journal db) b = Some r \<and> get_batch (sd_journal db') b = Some (r\<lparr>jb_state := DB_COMMITTED\<rparr>)"
proof -
  define les where "les = batch_ledger ct b (sd_journal db) entries"
  obtain r where r: "get_batch (sd_journal db) b = Some r" "jb_state r = STAGED"
    using assms(2) by (auto simp: batch_at_def split: option.splits)
  note at = assms(2) [unfolded batch_at_def]
  obtain j1 where one: "rfold (apply_operation ct en b (SpaceRecoveryRequired ''journal operation disappeared during business commit''))
      db (map (\<lambda>(i, c). (i, cm_plans c)) entries) = Inr (with_rows rows j1 db)"
    "images_only (sd_journal db) j1"
    using apply_operations_run [OF assms(1) batch_ids_present [OF assms(2)], of ct en] assms(4) by auto
  obtain f where j1: "journal_keys j1" "get_batch j1 b = get_batch (sd_journal db) b" "ordered_ops j1 b = map f (ordered_ops (sd_journal db) b)"
    "\<forall>q. (f q)\<lparr>jo_images := None\<rparr> = q\<lparr>jo_images := None\<rparr>" "jr_steps j1 = jr_steps (sd_journal db)"
    "jr_ledger j1 = jr_ledger (sd_journal db)"
    by (rule images_only_view [OF one(2) assms(1), of b]) (rule that; assumption)
  note same = same_but_images [OF j1(4) [rule_format]]
  let ?ops = "ordered_ops j1 b"
  have ids: "map jo_id ?ops = map fst entries" and staged: "\<forall>q \<in> set ?ops. jo_state q = STAGED" and some: "?ops \<noteq> []"
    using at j1(3) by (auto simp: comp_def same)
  have sends: "\<forall>c \<in> set (map snd entries). \<forall>e \<in> set (cm_events c). sendable ct e"
    using assms(3) by (simp add: all_sendable_def)
  have les1: "ledger_rows ct b (next_sequence (jr_ledger (sd_journal (with_rows rows j1 db)))) (flat_events entries) = les"
    by (simp add: les_def batch_ledger_def with_rows_def j1(6))
  obtain j2 where two: "rfold (commit_operation ct b) (with_rows rows j1 db, fmempty) (map (\<lambda>(i, c). (i, cm_events c)) entries) =
      Inr ((with_events les (with_rows rows j1 db))\<lparr>sd_journal := j2\<rparr>, foldl note_delete fmempty les)"
    "journal_keys j2" "get_batch j2 b = Some (r\<lparr>jb_state := DB_COMMITTED\<rparr>)"
    "ordered_ops j2 b = map (jo_state_update (\<lambda>_. DB_COMMITTED)) ?ops" "jr_steps j2 = jr_steps j1"
    "jr_ledger j2 = jr_ledger j1 @ les"
    using commit_operations_run [of "with_rows rows j1 db" b r "[]" ?ops entries ct fmempty]
      r j1(1,2) ids staged some sends unfolding les1 by (auto simp: with_rows_def Let_def)
  define db2 where "db2 = (with_events les (with_rows rows j1 db))\<lparr>sd_journal := j2\<rparr>"
  have "\<forall>x \<in> set (flat_events entries). sendable ct (snd x)" using sends by (auto simp: flat_events_def)
  note three = put_tombstones_run [OF this, of "foldl note_delete fmempty les" db2 b "next_sequence (jr_ledger (sd_journal db))"]
  let ?db3 = "db2\<lparr>sd_tombstones := foldl (put_row (foldl note_delete fmempty les)) (sd_tombstones db2) les\<rparr>"
  have "commit_business ct en b db entries = Inr ?db3"
    using one(1) two(1) three by (simp add: commit_business_def flat_events_snd db2_def les_def batch_ledger_def)
  moreover have "batch_at j2 b DB_COMMITTED (map fst entries)"
    using ids some two(3,4) by (auto simp: batch_at_def comp_def)
  moreover have "fmlookup (sd_tombstones ?db3) key = (case last_delete les key of
       None \<Rightarrow> fmlookup (sd_tombstones db) key | Some le \<Rightarrow> Some (le_created le, Some (le_seq le)))" for key
    by (simp add: db2_def with_rows_def put_rows_lookup note_deletes_lookup split: option.splits)
  ultimately show ?thesis
    using two(2,3,5,6) j1(5,6) r(1) les_def
    by (intro that [of ?db3]) (simp_all add: db2_def with_rows_def)
qed

end
