(* ===== verification/BatchRun.thy ===== *)
theory BatchRun
  imports CommitRun
begin

text \<open>
  A batch without projections from its intent to its receipt: once the intent is recorded and the database
  takes the rows, every phase succeeds, and the Space ends with the rows and tombstones the compilation
  promised, the batch finalized and its events shown. When the database refuses the rows, the batch stays
  staged, with the rows, ledger and files as they were.
\<close>

section \<open>Actions\<close>

lemma abind_simps [simp]:
  "m s = (Inr x, s') \<Longrightarrow> abind m f s = f x s'"
  "m s = (Inl e, s') \<Longrightarrow> abind m f s = (Inl e, s')"
  by (simp_all add: abind_def)

lemma journal_transaction_Inr:
  "f (sd_journal (sp_db s)) = Inr j \<Longrightarrow> journal_transaction f s = (Inr (), s\<lparr>sp_db := (sp_db s)\<lparr>sd_journal := j\<rparr>\<rparr>)"
  by (simp add: journal_transaction_def db_transaction_def transact_def with_journal_def)

lemma db_transaction_Inr: "f (sp_db s) = Inr db \<Longrightarrow> db_transaction f s = (Inr (), s\<lparr>sp_db := db\<rparr>)"
  by (simp add: db_transaction_def transact_def)

section \<open>Stages\<close>

text \<open>The empty stages of the operations of a batch without projections.\<close>

definition empty_stage :: "digests \<Rightarrow> string \<Rightarrow> stage" where
  "empty_stage dg i = \<lparr>st_operation = i, st_key = sha256_hex dg i, st_steps = [], st_files = fmempty\<rparr>"

definition empty_manifest :: "digests \<Rightarrow> string \<Rightarrow> stage_manifest" where
  "empty_manifest dg i = \<lparr>mf_operation_id = i, mf_descriptors = [], mf_sha256 = manifest_sha256 dg (empty_stage dg i)\<rparr>"

definition free_stages :: "digests \<Rightarrow> stages \<Rightarrow> string list \<Rightarrow> bool" where
  "free_stages dg ss ids = (distinct (map (sha256_hex dg) ids) \<and>
     (\<forall>i \<in> set ids. validate_operation_id i = Inr () \<and> fmlookup ss (sha256_hex dg i) = None))"

lemma publish_empty:
  assumes "validate_operation_id i = Inr ()" "fmlookup ss (sha256_hex dg i) = None"
  shows "publish dg ss i [] = Inr (empty_manifest dg i, fmupd (sha256_hex dg i) (empty_stage dg i) ss)"
proof -
  have key: "directory_key dg i = Inr (sha256_hex dg i)" using assms(1) by (simp add: directory_key_def)
  have "manifest_value dg i [] = Inr (empty_stage dg i)"
    by (simp add: manifest_value_def key empty_stage_def validate_projection_ordinals_def)
  moreover have "verify dg (fmupd (sha256_hex dg i) (empty_stage dg i) ss) i = Inr (empty_manifest dg i)"
    by (simp add: verify_def key empty_manifest_def enumerated_def referenced_files_def) (simp add: empty_stage_def)
  ultimately show ?thesis using assms(2) by (simp add: publish_def Let_def empty_stage_def)
qed

lemma publish_stages_empty:
  assumes "free_stages dg (sp_stages s) (map fst entries)" "\<forall>c \<in> set (map snd entries). cm_projections c = []"
  obtains ss where "publish_stages dg entries s = (Inr (map (empty_manifest dg) (map fst entries)), s\<lparr>sp_stages := ss\<rparr>)"
proof -
  have "\<exists>ss. publish_stages dg entries s = (Inr (map (empty_manifest dg) (map fst entries)), s\<lparr>sp_stages := ss\<rparr>)"
    using assms
  proof (induction entries arbitrary: s)
    case Nil
    then show ?case by (intro exI [of _ "sp_stages s"]) (simp add: publish_stages_def areturn_def)
  next
    case (Cons entry entries)
    obtain i c where entry: "entry = (i, c)" by (cases entry)
    let ?s = "s\<lparr>sp_stages := fmupd (sha256_hex dg i) (empty_stage dg i) (sp_stages s)\<rparr>"
    have "publish dg (sp_stages s) i [] = Inr (empty_manifest dg i, fmupd (sha256_hex dg i) (empty_stage dg i) (sp_stages s))"
      using Cons.prems by (intro publish_empty) (simp_all add: entry free_stages_def)
    then have one: "on_stages (\<lambda>ss. publish dg ss i (cm_projections c)) s = (Inr (empty_manifest dg i), ?s)"
      using Cons.prems(2) by (simp add: entry on_stages_def)
    have "free_stages dg (sp_stages ?s) (map fst entries)"
      using Cons.prems(1) by (auto simp: entry free_stages_def)
    then obtain ss where "publish_stages dg entries ?s = (Inr (map (empty_manifest dg) (map fst entries)), ?s\<lparr>sp_stages := ss\<rparr>)"
      using Cons.IH [of ?s] Cons.prems(2) by auto
    then show ?case using one by (intro exI [of _ ss]) (simp add: entry publish_stages_def areturn_def)
  qed
  then show ?thesis using that by blast
qed

section \<open>Forward\<close>

lemma finalize_operation_run:
  assumes "persisted dg c = Inr p" "pc_projections p = []" "op_state (sd_journal (sp_db s)) i = Inr FINALIZING"
    "transition_op (sd_journal (sp_db s)) i FINALIZING FORWARD_APPLIED = Inr j"
  shows "finalize_operation dg (i, c) s = (Inr (), s\<lparr>sp_db := (sp_db s)\<lparr>sd_journal := j\<rparr>\<rparr>)"
proof -
  have "journal_transaction (\<lambda>j. transition j i FORWARD_APPLIED) s = (Inr (), s\<lparr>sp_db := (sp_db s)\<lparr>sd_journal := j\<rparr>\<rparr>)"
    by (rule journal_transaction_Inr) (use assms(3,4) in \<open>simp add: transition_def\<close>)
  then show ?thesis using assms(1,2) by (simp add: finalize_operation_def alift_def areturn_def)
qed

lemma finalize_forward_run:
  assumes "journal_keys (sd_journal (sp_db s))" "get_batch (sd_journal (sp_db s)) b = Some r" "jb_state r = FINALIZING"
    "ordered_ops (sd_journal (sp_db s)) b = done @ todo" "todo \<noteq> []" "\<forall>q \<in> set done. jo_state q = FORWARD_APPLIED"
    "\<forall>q \<in> set todo. jo_state q = FINALIZING" "map jo_id todo = map fst entries"
    "\<forall>c \<in> set (map snd entries). \<exists>p. persisted dg c = Inr p \<and> pc_projections p = []"
  shows "\<exists>j. finalize_forward dg entries s = (Inr (), s\<lparr>sp_db := (sp_db s)\<lparr>sd_journal := j\<rparr>\<rparr>) \<and>
    transition_all (sd_journal (sp_db s)) FINALIZING FORWARD_APPLIED (map fst entries) = Inr j"
  using assms
proof (induction todo arbitrary: s "done" entries)
  case (Cons q rest)
  let ?j = "sd_journal (sp_db s)"
  obtain c entries' where entries: "entries = (jo_id q, c) # entries'" "map jo_id rest = map fst entries'"
    using Cons.prems(8) by (cases entries) auto
  obtain p where p: "persisted dg c = Inr p" "pc_projections p = []" using Cons.prems(9) by (auto simp: entries(1))
  have states: "\<forall>q' \<in> set (q # rest). jo_state q' = FINALIZING" using Cons.prems(7) .
  obtain j1 where j1: "transition_op ?j (jo_id q) FINALIZING FORWARD_APPLIED = Inr j1" "journal_keys j1"
    "get_batch j1 b = Some (if rest = [] then r\<lparr>jb_state := FORWARD_APPLIED\<rparr> else r)"
    "ordered_ops j1 b = (done @ [q\<lparr>jo_state := FORWARD_APPLIED\<rparr>]) @ rest"
    by (rule transition_next [OF Cons.prems(1,2,4,3,6) states]) (simp add: LEGAL_TRANSITIONS_def)
  have "q \<in> set (jr_ops ?j)" using Cons.prems(4) set_ordered_ops [of ?j b] by (auto simp: ops_of_mem)
  then have "op_state ?j (jo_id q) = Inr FINALIZING"
    using journal_keysD(2) [OF Cons.prems(1), of "jo_id q" q] states by (simp add: op_state_def)
  note step = finalize_operation_run [OF p this j1(1)]
  let ?s = "s\<lparr>sp_db := (sp_db s)\<lparr>sd_journal := j1\<rparr>\<rparr>"
  show ?case
  proof (cases "rest = []")
    case True
    then have "entries' = []" using entries(2) by simp
    then show ?thesis using step j1(1) by (intro exI [of _ j1]) (simp add: entries(1) finalize_forward_def areturn_def)
  next
    case False
    have states': "\<forall>q' \<in> set (done @ [q\<lparr>jo_state := FORWARD_APPLIED\<rparr>]). jo_state q' = FORWARD_APPLIED" "\<forall>q' \<in> set rest. jo_state q' = FINALIZING"
      using Cons.prems(6,7) by auto
    have "\<exists>j. finalize_forward dg entries' ?s = (Inr (), ?s\<lparr>sp_db := (sp_db ?s)\<lparr>sd_journal := j\<rparr>\<rparr>) \<and>
        transition_all (sd_journal (sp_db ?s)) FINALIZING FORWARD_APPLIED (map fst entries') = Inr j"
      by (rule Cons.IH [OF _ _ Cons.prems(3) _ False states' entries(2)])
        (use j1 False Cons.prems(9) in \<open>simp_all add: entries(1)\<close>)
    then show ?thesis using step j1(1) by (auto simp: entries(1) finalize_forward_def)
  qed
qed simp

section \<open>From the intent to the receipt\<close>

text \<open>The ledger before a batch holds nothing of it.\<close>

definition unused_batch :: "journal \<Rightarrow> string \<Rightarrow> bool" where
  "unused_batch j b = (\<forall>e \<in> set (jr_ledger j). le_batch e \<noteq> Some b)"

lemma rmap_member: "rmap f xs = Inr ys \<Longrightarrow> x \<in> set xs \<Longrightarrow> \<exists>y. f x = Inr y \<and> y \<in> set ys"
  by (metis in_set_conv_nth rmap_Inr_nth rmap_Inr_length)

lemma no_projections_persisted: "persisted dg c = Inr p \<Longrightarrow> cm_projections c = [] \<Longrightarrow> pc_projections p = []"
  by (auto simp: persisted_def PersistedMutationCommand_def rbind_Inr)

lemma no_steps_invalid:
  assumes "\<forall>x \<in> set (jr_steps j). js_op x \<notin> set ids" "map jo_id (ordered_ops j b) = ids"
  shows "invalid_steps j b = []"
proof -
  have "jo_id ` set (ops_of j b) = set ids" using assms(2) by (metis set_map set_ordered_ops)
  with assms(1) show ?thesis by (simp add: invalid_steps_def filter_empty_conv)
qed

lemma set_ledger_rows: "le \<in> set (ledger_rows ct b n es) \<Longrightarrow> le_batch le = Some b \<and> \<not> le_visible le \<and> le_op le \<in> Some ` fst ` set es"
proof (induction es arbitrary: n)
  case (Cons x es)
  obtain i e where x: "x = (i, e)" by (cases x)
  then have "le = ledger_of ct b n i e \<or> le \<in> set (ledger_rows ct b (n + 1) es)" using Cons.prems by simp
  then show ?case using Cons.IH [of "n + 1"] by (auto simp: x)
qed simp

lemma batch_ledger_facts:
  assumes "le \<in> set (batch_ledger ct b j entries)"
  shows "le_batch le = Some b" "\<not> le_visible le" "le_op le \<in> Some ` set (map fst entries)"
proof -
  have "fst ` set (flat_events entries) \<subseteq> set (map fst entries)" by (force simp: flat_events_def)
  with set_ledger_rows [OF assms [unfolded batch_ledger_def]]
  show "le_batch le = Some b" "\<not> le_visible le" "le_op le \<in> Some ` set (map fst entries)" by blast+
qed

definition shown :: "ledger_event list \<Rightarrow> ledger_event list" where
  "shown les = map (le_visible_update (\<lambda>_. True)) les"

text \<open>The second half: what follows the business transaction.\<close>

definition finish_committed :: "digests \<Rightarrow> string \<Rightarrow> (string \<times> command) list \<Rightarrow> batch_result act" where
  "finish_committed dg b entries =
     abind (journal_transaction (\<lambda>j. mark_finalizing j b)) (\<lambda>_.
     abind (finalize_forward dg entries) (\<lambda>_.
     transact (\<lambda>db. rbind (finalize_batch (sd_journal db) b) (\<lambda>(result, j). Inr (result, db\<lparr>sd_journal := j\<rparr>)))))"

lemma finish_committed_run:
  assumes "journal_keys (sd_journal (sp_db s))" "batch_at (sd_journal (sp_db s)) b DB_COMMITTED (map fst entries)"
    "\<forall>c \<in> set (map snd entries). \<exists>p. persisted dg c = Inr p \<and> pc_projections p = []"
    "\<forall>x \<in> set (jr_steps (sd_journal (sp_db s))). js_op x \<notin> set (map fst entries)"
    "\<forall>e \<in> set (jr_ledger (sd_journal (sp_db s))). le_batch e = Some b \<longrightarrow> \<not> le_visible e \<and> le_op e \<in> Some ` set (map fst entries)"
  obtains j result where "finish_committed dg b entries s = (Inr result, s\<lparr>sp_db := (sp_db s)\<lparr>sd_journal := j\<rparr>\<rparr>)"
    "journal_keys j" "batch_at j b FINALIZED (map fst entries)"
    "jr_ledger j = map (\<lambda>e. if le_batch e = Some b then e\<lparr>le_visible := True\<rparr> else e) (jr_ledger (sd_journal (sp_db s)))"
proof -
  let ?j = "sd_journal (sp_db s)" and ?ids = "map fst entries"
  let ?with = "\<lambda>j. s\<lparr>sp_db := (sp_db s)\<lparr>sd_journal := j\<rparr>\<rparr>"
  have "map jo_id (ordered_ops ?j b) = ?ids" using assms(2) by (auto elim: batch_atE)
  then obtain j4 where j4: "mark_finalizing ?j b = Inr j4" "journal_keys j4" "batch_at j4 b FINALIZING ?ids"
    "jr_steps j4 = jr_steps ?j" "jr_ledger j4 = jr_ledger ?j"
    using batch_at_step [OF assms(1,2), of FINALIZING] by (auto simp: mark_finalizing_def LEGAL_TRANSITIONS_def)
  obtain r where r: "get_batch j4 b = Some r" "jb_state r = FINALIZING" "map jo_id (ordered_ops j4 b) = ?ids"
    "ordered_ops j4 b \<noteq> []" "\<forall>q \<in> set (ordered_ops j4 b). jo_state q = FINALIZING"
    by (rule batch_atE [OF j4(3)])
  obtain j5 where j5: "finalize_forward dg entries (?with j4) = (Inr (), ?with j5)"
    "transition_all j4 FINALIZING FORWARD_APPLIED ?ids = Inr j5"
    using finalize_forward_run [of "?with j4" b r "[]" "ordered_ops j4 b" entries dg] j4(2) r assms(3) by auto
  have at5: "journal_keys j5" "batch_at j5 b FORWARD_APPLIED ?ids" "jr_steps j5 = jr_steps ?j" "jr_ledger j5 = jr_ledger ?j"
    using batch_at_step [OF j4(2,3), of FORWARD_APPLIED] j5(2) j4(4,5) by (auto simp: LEGAL_TRANSITIONS_def)
  have "map jo_id (ordered_ops j5 b) = ?ids" using at5(2) by (auto elim: batch_atE)
  then have inv: "invalid_steps j5 b = []" using assms(4) at5(3) by (intro no_steps_invalid) simp_all
  have own: "\<forall>e \<in> set (jr_ledger j5). le_batch e = Some b \<longrightarrow> \<not> le_visible e \<and> le_op e \<in> Some ` set ?ids"
    unfolding at5(4) by (rule assms(5))
  obtain j6 result where j6: "finalize_batch j5 b = Inr (result, j6)" "journal_keys j6" "batch_at j6 b FINALIZED ?ids"
    "jr_ledger j6 = map (\<lambda>e. if le_batch e = Some b then e\<lparr>le_visible := True\<rparr> else e) (jr_ledger j5)"
    by (rule batch_at_finalized [OF at5(1,2) inv own])
  have t4: "journal_transaction (\<lambda>j. mark_finalizing j b) s = (Inr (), ?with j4)"
    using journal_transaction_Inr [of "\<lambda>j. mark_finalizing j b" s j4] j4(1) by simp
  have t6: "transact (\<lambda>db. rbind (finalize_batch (sd_journal db) b) (\<lambda>(result, j). Inr (result, db\<lparr>sd_journal := j\<rparr>)))
      (?with j5) = (Inr result, ?with j6)"
    using j6(1) by (simp add: transact_def)
  show ?thesis
    by (rule that [of result j6])
      (use j6(2-4) at5(4) in \<open>simp_all only: finish_committed_def abind_def t4 j5(1) t6 prod.case sum.case\<close>)
qed

text \<open>The first half: the batch is staged, and its business transaction is next.\<close>

lemma run_accepted_staged:
  assumes cmds: "\<forall>c \<in> set (map snd entries). cm_projections c = []"
    and journal: "journal_ok (sd_journal (sp_db s))"
    and stages: "free_stages dg (sp_stages s) (map fst entries)"
    and intent: "create_batch_intent dg (sd_journal (sp_db s)) b h (map fst entries) (map snd entries) rejections ds = Inr j1"
    and dg: "dg = ce_digests ce"
  obtains j2 ss where
    "run_accepted ce b h entries rejections ds s =
      abind (db_transaction (\<lambda>db. commit_business (ce_catalog ce) (ce_engine ce) b db entries)) (\<lambda>_. finish_committed dg b entries)
        (s\<lparr>sp_stages := ss, sp_db := (sp_db s)\<lparr>sd_journal := j2\<rparr>\<rparr>)"
    "journal_keys j2" "batch_at j2 b STAGED (map fst entries)" "jr_steps j2 = jr_steps (sd_journal (sp_db s))"
    "jr_ledger j2 = jr_ledger (sd_journal (sp_db s))" "\<forall>x \<in> set (jr_steps (sd_journal (sp_db s))). js_op x \<notin> set (map fst entries)"
    "\<forall>c \<in> set (map snd entries). \<exists>p. persisted dg c = Inr p \<and> pc_projections p = []"
proof -
  let ?j0 = "sd_journal (sp_db s)" and ?ids = "map fst entries"
  let ?db = "\<lambda>j. (sp_db s)\<lparr>sd_journal := j\<rparr>"
  have keys0: "journal_keys ?j0" using journal by (simp add: journal_ok_def)
  obtain ps where ps: "rmap (persisted dg) (map snd entries) = Inr ps" and j1: "journal_ok j1" "batch_at j1 b INTENT ?ids"
    and led1: "jr_ledger j1 = jr_ledger ?j0"
    and st1: "jr_steps j1 = jr_steps ?j0 @ concat (map (\<lambda>(i, p). map (pending_step i) (pc_projections p)) (zip ?ids ps))"
    and fresh: "set ?ids \<inter> jo_id ` set (jr_ops ?j0) = {}"
    by (rule intent_view [OF journal intent])
  have plain: "\<forall>c \<in> set (map snd entries). \<exists>p. persisted dg c = Inr p \<and> pc_projections p = []"
    using rmap_member [OF ps] no_projections_persisted cmds by blast
  have "\<forall>p \<in> set ps. pc_projections p = []"
  proof
    fix p assume "p \<in> set ps"
    then obtain n where n: "n < length ps" "p = ps ! n" by (auto simp: in_set_conv_nth)
    then have m: "n < length (map snd entries)" using rmap_Inr_length [OF ps] by simp
    then have "persisted dg (map snd entries ! n) = Inr p" using rmap_Inr_nth [OF ps m] n(2) by simp
    moreover have "cm_projections (map snd entries ! n) = []" using cmds m nth_mem by blast
    ultimately show "pc_projections p = []" by (rule no_projections_persisted)
  qed
  then have steps1: "jr_steps j1 = jr_steps ?j0" unfolding st1 by (auto dest: set_zip_rightD)
  let ?s1 = "s\<lparr>sp_db := ?db j1\<rparr>"
  have stages1: "free_stages dg (sp_stages ?s1) ?ids" using stages by simp
  obtain ss where pub: "publish_stages dg entries ?s1 = (Inr (map (empty_manifest dg) ?ids), ?s1\<lparr>sp_stages := ss\<rparr>)"
    by (rule publish_stages_empty [OF stages1 cmds])
  have "map mf_operation_id (map (empty_manifest dg) ?ids) = ?ids" by (simp add: empty_manifest_def comp_def)
  then obtain j2 where j2: "mark_staged j1 b (map (empty_manifest dg) ?ids) = Inr j2" "journal_keys j2" "batch_at j2 b STAGED ?ids"
    "jr_steps j2 = jr_steps j1" "jr_ledger j2 = jr_ledger j1"
    using batch_at_staged [OF _ j1(2)] j1(1) journal_ok_def by metis
  have t1: "journal_transaction (\<lambda>j. create_batch_intent dg j b h ?ids (map snd entries) rejections ds) s = (Inr (), ?s1)"
    using journal_transaction_Inr [where f = "\<lambda>j. create_batch_intent dg j b h ?ids (map snd entries) rejections ds", OF intent] .
  have t2: "journal_transaction (\<lambda>j. mark_staged j b (map (empty_manifest dg) ?ids)) (?s1\<lparr>sp_stages := ss\<rparr>) =
      (Inr (), s\<lparr>sp_stages := ss, sp_db := ?db j2\<rparr>)"
    using journal_transaction_Inr [of "\<lambda>j. mark_staged j b (map (empty_manifest dg) ?ids)" "?s1\<lparr>sp_stages := ss\<rparr>" j2] j2(1) by simp
  have run: "run_accepted ce b h entries rejections ds s =
      abind (db_transaction (\<lambda>db. commit_business (ce_catalog ce) (ce_engine ce) b db entries)) (\<lambda>_. finish_committed dg b entries)
        (s\<lparr>sp_stages := ss, sp_db := ?db j2\<rparr>)"
    unfolding run_accepted_def finish_committed_def [symmetric] dg [symmetric]
    by (simp only: abind_def t1 pub t2 prod.case sum.case)
  have "\<forall>x \<in> set (jr_steps ?j0). js_op x \<notin> set ?ids" using keys_parts(7) [OF keys0] fresh by blast
  then show ?thesis using that [OF run j2(2,3)] j2(4,5) steps1 led1 plain by metis
qed

text \<open>A refused flush rolls the business transaction back; the batch stays staged.\<close>

lemma run_accepted_refused:
  assumes cmds: "\<forall>c \<in> set (map snd entries). cm_projections c = []"
    and journal: "journal_ok (sd_journal (sp_db s))"
    and stages: "free_stages (ce_digests ce) (sp_stages s) (map fst entries)"
    and intent: "create_batch_intent (ce_digests ce) (sd_journal (sp_db s)) b h (map fst entries) (map snd entries) rejections ds = Inr j1"
    and rows: "rfold (interpreter_apply (ce_catalog ce) (ce_engine ce)) (sd_rows (sp_db s)) (map (\<lambda>(i, c). cm_plans c) entries) = Inl x"
  obtains j ss where "run_accepted ce b h entries rejections ds s = (Inl x, s\<lparr>sp_stages := ss, sp_db := (sp_db s)\<lparr>sd_journal := j\<rparr>\<rparr>)"
    "batch_at j b STAGED (map fst entries)" "jr_ledger j = jr_ledger (sd_journal (sp_db s))"
proof -
  obtain j ss where r: "run_accepted ce b h entries rejections ds s =
      abind (db_transaction (\<lambda>db. commit_business (ce_catalog ce) (ce_engine ce) b db entries)) (\<lambda>_. finish_committed (ce_digests ce) b entries)
        (s\<lparr>sp_stages := ss, sp_db := (sp_db s)\<lparr>sd_journal := j\<rparr>\<rparr>)"
    "journal_keys j" "batch_at j b STAGED (map fst entries)" "jr_ledger j = jr_ledger (sd_journal (sp_db s))"
    by (rule run_accepted_staged [OF cmds journal stages intent refl])
  have "commit_business (ce_catalog ce) (ce_engine ce) b ((sp_db s)\<lparr>sd_journal := j\<rparr>) entries = Inl x"
    by (rule commit_business_refused [where st = STAGED]) (use r(2,3) rows in simp_all)
  then have "run_accepted ce b h entries rejections ds s = (Inl x, s\<lparr>sp_stages := ss, sp_db := (sp_db s)\<lparr>sd_journal := j\<rparr>\<rparr>)"
    unfolding r(1) by (simp add: abind_def db_transaction_def transact_def)
  then show ?thesis using that r(3,4) by blast
qed

lemma run_accepted_completes:
  assumes cmds: "\<forall>c \<in> set (map snd entries). cm_projections c = []" "all_sendable (ce_catalog ce) (map snd entries)"
    and journal: "journal_ok (sd_journal (sp_db s))" "unused_batch (sd_journal (sp_db s)) b"
    and stages: "free_stages (ce_digests ce) (sp_stages s) (map fst entries)"
    and intent: "create_batch_intent (ce_digests ce) (sd_journal (sp_db s)) b h (map fst entries) (map snd entries) rejections ds = Inr j1"
    and rows: "rfold (interpreter_apply (ce_catalog ce) (ce_engine ce)) (sd_rows (sp_db s)) (map (\<lambda>(i, c). cm_plans c) entries) = Inr rows"
  obtains result s' where "run_accepted ce b h entries rejections ds s = (Inr result, s')"
    "batch_at (sd_journal (sp_db s')) b FINALIZED (map fst entries)" "journal_keys (sd_journal (sp_db s'))"
    "sd_rows (sp_db s') = rows"
    "\<And>key. fmlookup (sd_tombstones (sp_db s')) key =
      (case last_delete (batch_ledger (ce_catalog ce) b (sd_journal (sp_db s)) entries) key of
         None \<Rightarrow> fmlookup (sd_tombstones (sp_db s)) key | Some le \<Rightarrow> Some (le_created le, Some (le_seq le)))"
    "jr_ledger (sd_journal (sp_db s')) = jr_ledger (sd_journal (sp_db s)) @
       shown (batch_ledger (ce_catalog ce) b (sd_journal (sp_db s)) entries)"
    "sp_files s' = sp_files s"
proof -
  let ?j0 = "sd_journal (sp_db s)" and ?ids = "map fst entries" and ?dg = "ce_digests ce" and ?ct = "ce_catalog ce"
  let ?db = "\<lambda>j. (sp_db s)\<lparr>sd_journal := j\<rparr>"
  obtain j2 ss where r: "run_accepted ce b h entries rejections ds s =
      abind (db_transaction (\<lambda>db. commit_business ?ct (ce_engine ce) b db entries)) (\<lambda>_. finish_committed ?dg b entries)
        (s\<lparr>sp_stages := ss, sp_db := ?db j2\<rparr>)"
    and j2: "journal_keys j2" "batch_at j2 b STAGED ?ids" "jr_steps j2 = jr_steps ?j0" "jr_ledger j2 = jr_ledger ?j0"
      "\<forall>x \<in> set (jr_steps ?j0). js_op x \<notin> set ?ids"
    and plain: "\<forall>c \<in> set (map snd entries). \<exists>p. persisted ?dg c = Inr p \<and> pc_projections p = []"
    by (rule run_accepted_staged [OF cmds(1) journal(1) stages intent refl]) (rule that; assumption)
  obtain db3 where db3: "commit_business ?ct (ce_engine ce) b (?db j2) entries = Inr db3" "sd_rows db3 = rows"
    "journal_keys (sd_journal db3)" "batch_at (sd_journal db3) b DB_COMMITTED ?ids"
    "jr_steps (sd_journal db3) = jr_steps (sd_journal (?db j2))"
    "jr_ledger (sd_journal db3) = jr_ledger (sd_journal (?db j2)) @ batch_ledger ?ct b (sd_journal (?db j2)) entries"
    "\<And>key. fmlookup (sd_tombstones db3) key = (case last_delete (batch_ledger ?ct b (sd_journal (?db j2)) entries) key of
       None \<Rightarrow> fmlookup (sd_tombstones (?db j2)) key | Some le \<Rightarrow> Some (le_created le, Some (le_seq le)))"
    by (rule commit_business_run [of "?db j2" b entries ?ct "ce_engine ce" rows]) (use j2(1,2) cmds(2) rows in simp_all)
  let ?new = "batch_ledger ?ct b ?j0 entries"
  have new: "batch_ledger ?ct b j2 entries = ?new" by (simp add: batch_ledger_def j2(4))
  let ?s3 = "s\<lparr>sp_stages := ss, sp_db := db3\<rparr>"
  have led3: "jr_ledger (sd_journal db3) = jr_ledger ?j0 @ ?new" by (simp add: db3(6) j2(4) new)
  have own: "\<forall>e \<in> set (jr_ledger (sd_journal (sp_db ?s3))). le_batch e = Some b \<longrightarrow> \<not> le_visible e \<and> le_op e \<in> Some ` set ?ids"
    using journal(2) batch_ledger_facts by (fastforce simp: led3 unused_batch_def)
  have nosteps: "\<forall>x \<in> set (jr_steps (sd_journal (sp_db ?s3))). js_op x \<notin> set ?ids"
    using j2(5) by (simp add: db3(5) j2(3))
  obtain j6 result where j6: "finish_committed ?dg b entries ?s3 = (Inr result, ?s3\<lparr>sp_db := (sp_db ?s3)\<lparr>sd_journal := j6\<rparr>\<rparr>)"
    "journal_keys j6" "batch_at j6 b FINALIZED ?ids"
    "jr_ledger j6 = map (\<lambda>e. if le_batch e = Some b then e\<lparr>le_visible := True\<rparr> else e) (jr_ledger (sd_journal (sp_db ?s3)))"
    by (rule finish_committed_run [OF _ _ plain nosteps own]) (use db3(3,4) in \<open>simp_all\<close>)
  have led6: "jr_ledger j6 = jr_ledger ?j0 @ shown ?new"
    using journal(2) batch_ledger_facts(1) by (auto simp: j6(4) led3 shown_def unused_batch_def intro!: map_idI)
  have t3: "db_transaction (\<lambda>db. commit_business ?ct (ce_engine ce) b db entries) (s\<lparr>sp_stages := ss, sp_db := ?db j2\<rparr>) = (Inr (), ?s3)"
    using db_transaction_Inr [of "\<lambda>db. commit_business ?ct (ce_engine ce) b db entries" "s\<lparr>sp_stages := ss, sp_db := ?db j2\<rparr>" db3] db3(1) by simp
  have run: "run_accepted ce b h entries rejections ds s = (Inr result, s\<lparr>sp_stages := ss, sp_db := db3\<lparr>sd_journal := j6\<rparr>\<rparr>)"
    unfolding r by (simp only: abind_def t3 prod.case sum.case j6(1)) simp
  show ?thesis
    by (rule that [OF run]) (use j6(2,3) db3(2,7) led6 new in \<open>simp_all cong: option.case_cong\<close>)
qed

end
