(* ===== verification/BatchProperties.thy ===== *)
theory BatchProperties
  imports BatchRun
begin

text \<open>
  What holds of a batch as a whole: the database ends with what the compilation promised, the ledger
  records the events in order, and a batch without projections always gets to its receipt.
\<close>

lemma compiled_start:
  assumes "space_rows_ok (ce_catalog ce) (sd_rows (sp_db s))" "compile_batch ce s items = Inr co"
  obtains ov where "ov_catalog ov = ce_catalog ce" "rfold ov_apply ov (map snd (co_accepted co)) = Inr (co_overlay co)"
    "rows_match (sd_rows (sp_db s)) ov" "rows_shaped (ce_catalog ce) (sd_rows (sp_db s))"
    "ov_tombstones ov = fmdom' (sd_tombstones (sp_db s))"
proof -
  let ?ov = "from_locked_authorities (ce_catalog ce) (sp_db s) (snapshot_projection_authority (sp_files s))"
  have "rfold ov_apply ?ov (map snd (co_accepted co)) = Inr (co_overlay co)"
    using compile_batch_overlay [OF assms(2)] by (simp add: accepted_commands_def)
  moreover have "ov_catalog ?ov = ce_catalog ce" "ov_tombstones ?ov = fmdom' (sd_tombstones (sp_db s))"
    by (simp_all add: from_locked_authorities_def)
  moreover have "rows_shaped (ce_catalog ce) (sd_rows (sp_db s))" using assms(1) by (simp add: space_rows_ok_def)
  ultimately show ?thesis using load_matches [OF assms(1)] by (intro that [of ?ov]) simp_all
qed

lemma tombstone_domain:
  assumes "rfold ov_apply ov (map snd entries) = Inr ov'" "catalog_wf (ov_catalog ov)" "all_sendable (ov_catalog ov) (map snd entries)"
    "ov_tombstones ov = fmdom' ts"
    "\<And>key. fmlookup ts' key = (case last_delete (batch_ledger (ov_catalog ov) b j entries) key of
       None \<Rightarrow> fmlookup ts key | Some le \<Rightarrow> Some (le_created le, Some (le_seq le)))"
  shows "fmdom' ts' = ov_tombstones ov'"
proof -
  have sends: "\<forall>x \<in> set (flat_events entries). sendable (ov_catalog ov) (snd x)"
    using assms(3) by (auto simp: all_sendable_def flat_events_def)
  have events: "concat (map cm_events (map snd entries)) = map snd (flat_events entries)"
    by (simp add: flat_events_snd comp_def case_prod_unfold)
  have "fmdom' ts' = fmdom' ts \<union> {key. last_delete (batch_ledger (ov_catalog ov) b j entries) key \<noteq> None}"
    by (auto simp: fmlookup_dom'_iff assms(5) split: option.splits)
  also have "\<dots> = ov_tombstones ov'"
    using commands_tombstones [OF assms(1,2)] deleted_keys_rows [OF sends] assms(4)
    unfolding events by (simp add: batch_ledger_def)
  finally show ?thesis .
qed

text \<open>What the flushes leave satisfies the constraints of the tables.\<close>

lemma batch_states_end:
  "first_broken ct (batch_states ct en rows planss) = None \<Longrightarrow>
   batch_rows ct rows planss = rows \<or> broken_table ct (batch_rows ct rows planss) = None"
proof (induction planss arbitrary: rows)
  case (Cons plans rest)
  let ?after = "foldl (planned ct) rows plans"
  have "first_broken ct (flush_states en rows ?after) = None" "first_broken ct (batch_states ct en ?after rest) = None"
    using Cons.prems by (auto simp: Let_def first_broken_append split: option.splits)
  moreover have "batch_rows ct rows (plans # rest) = batch_rows ct ?after rest" by (simp add: batch_rows_def)
  ultimately show ?case
    using Cons.IH [of ?after] by (auto simp: flush_states_def first_broken_append split: if_splits option.splits)
qed (simp add: batch_rows_def)

lemma batch_rows_outcome:
  assumes "catalog_wf (ce_catalog ce)" "space_rows_ok (ce_catalog ce) (sd_rows (sp_db s))"
    "compile_batch ce s items = Inr co" "commands_writable (ce_catalog ce) (accepted_commands co)"
  shows "rfold (interpreter_apply (ce_catalog ce) en) (sd_rows (sp_db s)) (map (\<lambda>(i, c). cm_plans c) (co_accepted co)) =
      (case first_broken (ce_catalog ce) (batch_states (ce_catalog ce) en (sd_rows (sp_db s)) (map cm_plans (accepted_commands co))) of
         None \<Rightarrow> Inr (batch_rows (ce_catalog ce) (sd_rows (sp_db s)) (map cm_plans (accepted_commands co)))
       | Some t \<Rightarrow> Inl (IntegrityErr t))"
    "rows_match (batch_rows (ce_catalog ce) (sd_rows (sp_db s)) (map cm_plans (accepted_commands co))) (co_overlay co)"
proof -
  obtain ov where ov: "ov_catalog ov = ce_catalog ce" "rfold ov_apply ov (map snd (co_accepted co)) = Inr (co_overlay co)"
    "rows_match (sd_rows (sp_db s)) ov" "rows_shaped (ce_catalog ce) (sd_rows (sp_db s))"
    by (rule compiled_start [OF assms(2,3)])
  have "step_ok (ce_catalog ce) ov (sd_rows (sp_db s))" using ov by (simp add: step_ok_def)
  note run = batch_rows_run [OF ov(2) assms(1) this assms(4) [unfolded accepted_commands_def], of en]
  have plans: "map (\<lambda>(i, c). cm_plans c) (co_accepted co) = map cm_plans (map snd (co_accepted co))"
    by (simp add: comp_def case_prod_unfold)
  from run show "rfold (interpreter_apply (ce_catalog ce) en) (sd_rows (sp_db s)) (map (\<lambda>(i, c). cm_plans c) (co_accepted co)) =
      (case first_broken (ce_catalog ce) (batch_states (ce_catalog ce) en (sd_rows (sp_db s)) (map cm_plans (accepted_commands co))) of
         None \<Rightarrow> Inr (batch_rows (ce_catalog ce) (sd_rows (sp_db s)) (map cm_plans (accepted_commands co)))
       | Some t \<Rightarrow> Inl (IntegrityErr t))"
    unfolding plans accepted_commands_def by blast
  from run show "rows_match (batch_rows (ce_catalog ce) (sd_rows (sp_db s)) (map cm_plans (accepted_commands co))) (co_overlay co)"
    by (simp add: step_ok_def accepted_commands_def)
qed


text \<open>The ledger row that records an event, up to its number.\<close>

definition records_event :: "catalog \<Rightarrow> string \<Rightarrow> ledger_event \<Rightarrow> string \<times> sync_event \<Rightarrow> bool" where
  "records_event ct b le entry = (case entry of (i, e) \<Rightarrow>
     (case catalog_get ct (ev_type e) of None \<Rightarrow> False | Some spec \<Rightarrow>
        le_type le = effective_sync_entity_type spec \<and>
        (case sync_wire_payload spec (ev_payload e) of Inl _ \<Rightarrow> False | Inr payload \<Rightarrow> le_payload le = payload_text payload)) \<and>
     le_id le = ev_id e \<and> le_action le = ev_action e \<and> le_version le = Some (ev_version e) \<and>
     le_created le = ev_created_at e \<and> le_op le = Some i \<and> le_batch le = Some b \<and> \<not> le_visible le)"

lemma ledger_rows_record:
  assumes "\<forall>x \<in> set es. sendable ct (snd x)"
  shows "list_all2 (records_event ct b) (ledger_rows ct b n es) es"
  using assms
proof (induction es arbitrary: n)
  case (Cons x es)
  obtain i e where x: "x = (i, e)" by (cases x)
  have "records_event ct b (ledger_of ct b n i e) (i, e)"
    using Cons.prems by (auto simp: x records_event_def ledger_of_def Let_def sendable_def split: option.splits)
  then show ?case using Cons by (simp add: x)
qed simp

lemma ledger_rows_numbers: "map le_seq (ledger_rows ct b n es) = map (\<lambda>k. n + int k) [0..<length es]"
  by (intro nth_equalityI) (simp_all add: ledger_rows_nth)

text \<open>
  C10: The ledger of a committed batch. Behind the rows that were there stand exactly
  one row for each event of the accepted commands, in the order of the operations and of their events,
  with the payload as it goes on the wire, still hidden, and numbered consecutively above every
  number used before. A deletion proof that the batch writes carries the stamp and the number of the
  last delete of its entity; the other proofs stay as they were.
\<close>

theorem committed_ledger:
  assumes "catalog_wf (ce_catalog ce)" "space_rows_ok (ce_catalog ce) (sd_rows (sp_db s))"
    "compile_batch ce s items = Inr co" "all_sendable (ce_catalog ce) (accepted_commands co)"
    "journal_keys j" "batch_at j b STAGED (map fst (co_accepted co))"
    "commit_business (ce_catalog ce) en b ((sp_db s)\<lparr>sd_journal := j\<rparr>) (co_accepted co) = Inr db"
  shows "\<exists>new first. jr_ledger (sd_journal db) = jr_ledger j @ new \<and>
    list_all2 (records_event (ce_catalog ce) b) new (flat_events (co_accepted co)) \<and>
    map le_seq new = map (\<lambda>k. first + int k) [0..<length new] \<and> (\<forall>le \<in> set (jr_ledger j). le_seq le < first) \<and>
    (\<forall>key. fmlookup (sd_tombstones db) key = (case last_delete new key of
       None \<Rightarrow> fmlookup (sd_tombstones (sp_db s)) key | Some le \<Rightarrow> Some (le_created le, Some (le_seq le))))"
proof -
  let ?db0 = "(sp_db s)\<lparr>sd_journal := j\<rparr>"
  have sends: "all_sendable (ce_catalog ce) (map snd (co_accepted co))" using assms(4) by (simp add: accepted_commands_def)
  obtain rows where rows: "rfold (interpreter_apply (ce_catalog ce) en) (sd_rows ?db0) (map (\<lambda>(i, c). cm_plans c) (co_accepted co)) = Inr rows"
    using commit_business_refused [of ?db0 b STAGED "co_accepted co" "ce_catalog ce" en] assms(5-7)
    by (cases "rfold (interpreter_apply (ce_catalog ce) en) (sd_rows ?db0) (map (\<lambda>(i, c). cm_plans c) (co_accepted co))") simp_all
  obtain db' where "commit_business (ce_catalog ce) en b ?db0 (co_accepted co) = Inr db'"
    "jr_ledger (sd_journal db') = jr_ledger (sd_journal ?db0) @ batch_ledger (ce_catalog ce) b (sd_journal ?db0) (co_accepted co)"
    "\<And>key. fmlookup (sd_tombstones db') key = (case last_delete (batch_ledger (ce_catalog ce) b (sd_journal ?db0) (co_accepted co)) key of
         None \<Rightarrow> fmlookup (sd_tombstones ?db0) key | Some le \<Rightarrow> Some (le_created le, Some (le_seq le)))"
    by (rule commit_business_run [OF _ _ sends rows, of b]) (use assms(5,6) in simp_all)
  then have db: "jr_ledger (sd_journal db) = jr_ledger j @ batch_ledger (ce_catalog ce) b j (co_accepted co)"
    "\<And>key. fmlookup (sd_tombstones db) key = (case last_delete (batch_ledger (ce_catalog ce) b j (co_accepted co)) key of
         None \<Rightarrow> fmlookup (sd_tombstones (sp_db s)) key | Some le \<Rightarrow> Some (le_created le, Some (le_seq le)))"
    using assms(7) by (simp_all cong: option.case_cong)
  let ?new = "batch_ledger (ce_catalog ce) b j (co_accepted co)" and ?first = "next_sequence (jr_ledger j)"
  have "\<forall>x \<in> set (flat_events (co_accepted co)). sendable (ce_catalog ce) (snd x)"
    using sends by (auto simp: all_sendable_def flat_events_def)
  then have "list_all2 (records_event (ce_catalog ce) b) ?new (flat_events (co_accepted co))"
    unfolding batch_ledger_def by (rule ledger_rows_record)
  moreover have "map le_seq ?new = map (\<lambda>k. ?first + int k) [0..<length ?new]"
    by (simp add: batch_ledger_def ledger_rows_numbers)
  moreover have "\<forall>le \<in> set (jr_ledger j). le_seq le < ?first" by (simp add: ledger_below_next)
  ultimately show ?thesis
    using db by (intro exI [of _ ?new] exI [of _ ?first]) (simp cong: option.case_cong)
qed


end
