(* ===== verification/BatchWitness.thy ===== *)
theory BatchWitness
  imports BatchProperties RowCommands
begin

text \<open>
  One concrete batch: the creation of a label in an empty Space, under the catalog of the program,
  compiled, recorded, staged and run. The theorems on batches are applied to it.
\<close>

section \<open>The batch\<close>

definition sample_engine :: engine where
  "sample_engine = \<lparr>en_bind = (\<lambda>_ v. Inr v), en_clock = (\<lambda>_. ''2026-01-02T03:04:05.700Z''), en_between = (\<lambda>_ _. [])\<rparr>"

definition sample_compiler :: compiler where
  "sample_compiler = \<lparr>ce_space_id = ''s1'', ce_catalog = sample_catalog, ce_policies = [], ce_digests = sample_digests,
     ce_uuid5 = (\<lambda>s. ''u-'' @ s), ce_slug = id, ce_clock = (\<lambda>_. ''2026-01-02T03:04:05.678Z''),
     ce_engine = sample_engine\<rparr>"

definition sample_journal :: journal where
  "sample_journal = \<lparr>jr_batches = [], jr_ops = [], jr_steps = [], jr_ledger = []\<rparr>"

definition sample_files :: file_system where
  "sample_files = \<lparr>fs_text = fmempty, fs_index = fmempty, fs_search = fmempty\<rparr>"

definition sample_empty_space :: space where
  "sample_empty_space = \<lparr>sp_db = \<lparr>sd_rows = [], sd_tombstones = fmempty, sd_cursor = 0, sd_journal = sample_journal\<rparr>,
     sp_stages = fmempty, sp_files = sample_files\<rparr>"

definition sample_create :: request where
  "sample_create = sample_request ''entity.create'' ''label'' ''l1'' [(''name'', JStr ''red'')] None"

definition sample_item :: prepared_item where
  "sample_item = \<lparr>pi_request_index = 0, pi_operation_id = ''op-1'', pi_intent_hash = replicate 64 (CHR ''0''),
     pi_request = Some sample_create, pi_pre_rejection = None\<rparr>"

lemma sample_compiler_select [simp]:
  "ce_space_id sample_compiler = ''s1''" "ce_catalog sample_compiler = sample_catalog" "ce_policies sample_compiler = []"
  "ce_digests sample_compiler = sample_digests" "ce_engine sample_compiler = sample_engine" "ce_clock sample_compiler = (\<lambda>_. ''2026-01-02T03:04:05.678Z'')"
  by (simp_all add: sample_compiler_def)

lemma sample_space_select [simp]:
  "sp_db sample_empty_space = \<lparr>sd_rows = [], sd_tombstones = fmempty, sd_cursor = 0, sd_journal = sample_journal\<rparr>"
  "sp_stages sample_empty_space = fmempty" "sp_files sample_empty_space = sample_files"
  by (simp_all add: sample_empty_space_def)

lemma sample_create_select [simp]:
  "rq_name sample_create = ''entity.create''" "rq_entity_type sample_create = ''label''" "rq_entity_id sample_create = ''l1''"
  "rq_payload sample_create = dict [(''name'', JStr ''red'')]" "rq_expected_version sample_create = None"
  "rq_client_updated_at sample_create = None"
  by (simp_all add: sample_create_def)

definition sample_start :: overlay where
  "sample_start = from_locked_authorities sample_catalog (sp_db sample_empty_space)
     (snapshot_projection_authority (sp_files sample_empty_space))"

lemma sample_start_select [simp]: "ov_catalog sample_start = sample_catalog" "ov_map sample_start = []" "ov_tombstones sample_start = {}"
  by (auto simp: sample_start_def from_locked_authorities_def)

lemma sample_start_wf: "overlay_wf sample_start"
  by (simp add: overlay_wf_def sample_catalog_wf)

section \<open>Its command\<close>

lemma label_columns: "es_name label_spec = ''label''" "es_table_name label_spec = ''labels''" "es_primary_key label_spec = ''id''"
  "es_composite_primary_key label_spec = None" "es_sync_enabled label_spec" "effective_sync_entity_type label_spec = ''label''"
  "es_storage_type label_spec = DB_ONLY" "es_delete_strategy label_spec \<noteq> ''cascade_soft_delete''"
  by (simp_all add: label_spec_def EntitySpec_def effective_sync_entity_type_def or_default_def)

definition label_values :: "row \<Rightarrow> bool" where
  "label_values r = (fmlookup r ''id'' = Some (JStr ''l1'') \<and> fmlookup r ''version'' = Some (JInt 1) \<and>
     fmlookup r ''created_at'' = Some (JStr ''2026-01-02T03:04:05.678Z'') \<and>
     fmlookup r ''updated_at'' = Some (JStr ''2026-01-02T03:04:05.678Z'') \<and> fmlookup r ''name'' = Some (JStr ''red'') \<and>
     fmlookup r ''color'' = Some JNull \<and> fmlookup r ''archived_at'' = Some JNull)"

lemma label_model: "model_for label_spec = label_model"
  by (simp add: model_for_def space_models_def label_spec_def EntitySpec_def)

lemma label_values_typed: "label_values r \<Longrightarrow> row_typed label_model r"
  by (simp add: label_values_def row_typed_def label_model_def sync_columns_def)

lemma label_values_accepted: "label_values r \<Longrightarrow> broken_table sample_catalog [((''label'', [JStr ''l1'']), r)] = None"
  by (simp add: label_values_def broken_table_None row_accepted_def sample_label label_model label_model_def sync_columns_def
      constraint_holds_def)

lemma sample_label_row:
  obtains after where "complete_create_row label_spec sample_create ''2026-01-02T03:04:05.678Z'' = Inr after"
    "fmdom' after = set (field_names label_spec)" "row_ok after" "fmlookup after ''id'' = Some (JStr ''l1'')"
    "fmlookup after ''version'' = Some (JInt 1)" "label_values after"
proof -
  have flds: "\<exists>after. rfold (create_field label_spec sample_create ''2026-01-02T03:04:05.678Z'') fmempty (es_fields label_spec) = Inr after \<and>
      label_values after"
    by (simp add: label_spec_def EntitySpec_def sync_fields_def create_field_def Let_def stamp_or_def
        or_default_def dict_single has_key_def get_or_def label_values_def fld_def)
  then obtain after where a: "rfold (create_field label_spec sample_create ''2026-01-02T03:04:05.678Z'') fmempty (es_fields label_spec) = Inr after"
    and vals: "label_values after" by blast
  have "require_payload_fields label_spec (rq_payload sample_create) = Inr ()"
    by (simp add: require_payload_fields_Inr field_names_builtin dict_single)
  moreover have "require_entity_id label_spec sample_create = Inr ()"
    by (simp add: require_entity_id_def Let_def dict_single label_columns)
  ultimately have "complete_create_row label_spec sample_create ''2026-01-02T03:04:05.678Z'' = Inr after"
    using a by (simp add: complete_create_row_def)
  moreover have "row_ok (rq_payload sample_create)" by (simp add: dict_single row_ok_fmupd)
  moreover have "''id'' \<in> f_name ` set (es_fields label_spec)"
    using field_names_builtin by (simp add: field_names_def label_spec_def EntitySpec_def sync_fields_def)
  ultimately show ?thesis
    using that create_fields_shape [OF a] version_field [OF a] label_generic vals
    by (auto simp: generic_entity_def field_names_def label_columns)
qed

text \<open>The shape of the command: one insertion, one event with the same row, no projection.\<close>

definition sample_shape :: "command \<Rightarrow> row \<Rightarrow> bool" where
  "sample_shape c after = (cm_request c = sample_create \<and> cm_projections c = [] \<and> cm_value c = after \<and> cm_resolution c = None \<and>
     cm_plans c = [\<lparr>pl_table = ''labels'', pl_pk = dict [(''id'', JStr ''l1'')], pl_op = Insert, pl_expected = None,
       pl_before = None, pl_after = Some after\<rparr>] \<and>
     cm_events c = [\<lparr>ev_type = ''label'', ev_id = ''l1'', ev_action = EvCreate, ev_payload = after, ev_version = 1,
       ev_created_at = ''2026-01-02T03:04:05.678Z''\<rparr>])"

lemma sample_command:
  obtains c after where "compile_against_overlay [] (context_of sample_compiler sample_start ''op-1'') sample_create = Inr c"
    "sample_shape c after" "fmdom' after = set (field_names label_spec)" "row_ok after" "fmlookup after ''id'' = Some (JStr ''l1'')"
    "fmlookup after ''version'' = Some (JInt 1)" "\<exists>p. persisted sample_digests c = Inr p"
    "\<exists>ov. ov_apply sample_start c = Inr ov" "label_values after"
proof -
  let ?cx = "context_of sample_compiler sample_start ''op-1''"
  obtain after where a: "complete_create_row label_spec sample_create ''2026-01-02T03:04:05.678Z'' = Inr after"
    "fmdom' after = set (field_names label_spec)" "row_ok after" "fmlookup after ''id'' = Some (JStr ''l1'')"
    "fmlookup after ''version'' = Some (JInt 1)" "label_values after"
    by (rule sample_label_row)
  have cx: "cx_catalog ?cx = sample_catalog" "cx_overlay ?cx = sample_start" "cx_now ?cx = ''2026-01-02T03:04:05.678Z''"
    "cx_digests ?cx = sample_digests"
    by (simp_all add: context_of_def cx_catalog_def)
  have row: "ov_row sample_start ''label'' [JStr ''l1''] = None" by (simp add: ov_row_def)
  have p: "require_payload_fields label_spec (dict [(''name'', JStr ''red'')]) = Inr ()"
    by (simp add: require_payload_fields_Inr field_names_builtin dict_single)
  have version: "get after ''version'' = JInt 1" using a(5) by (simp add: get_or_def)
  obtain c where c: "compile_catalog_entity_command ?cx sample_create = Inr c" "sample_shape c after"
    "command_from_effects sample_digests sample_create (cm_plans c) [] (cm_events c) after None = Inr c"
    "compile_create ?cx sample_create label_spec None = Inr (hd (cm_plans c), EvCreate, after, None)"
    using a(1) version
    by (simp add: compile_catalog_entity_command_def require_catalog_spec_def sample_label p row Let_def cx label_columns
        compile_branch_def compile_create_def DbMutationPlan_def validate_expected_version_def
        entity_events_def SyncEventPlan_def validate_sample_now cx_command_def command_from_effects_def MutationCommand_def
        validate_projection_ordinals_def validate_resolution_def sample_shape_def)
  have "compile_against_overlay [] ?cx sample_create = Inr c"
    using c(1) by (simp add: compile_against_overlay_def cx sample_label is_tombstoned_def label_columns)
  moreover have "\<exists>ov. ov_apply sample_start c = Inr ov"
  proof -
    have "apply_plan sample_start (hd (cm_plans c)) = Inr (with_row sample_start ''label'' [JStr ''l1''] after)"
      using compile_create_Inr [of ?cx "''label''" label_spec sample_create None] c(4) sample_start_wf sample_label label_generic row
      by (simp add: cx dict_single row_ok_fmupd)
    moreover have "rfold apply_event ov (cm_events c) = Inr ov" for ov
      using c(2) by (simp add: sample_shape_def apply_event_def)
    ultimately show ?thesis using c(2) by (simp add: ov_apply_def sample_shape_def)
  qed
  ultimately show ?thesis using that c(2) a(2-6) persisted_Inr [OF c(3)] by blast
qed

section \<open>Its compilation\<close>

lemma sample_table: "find (\<lambda>spec. es_table_name spec = ''labels'') (catalog_list sample_catalog) = Some label_spec"
  using spec_by_table_find [of sample_start "''labels''"] spec_by_table_catalog(1) [of sample_start "''label''" label_spec]
  by (simp add: sample_catalog_wf sample_label label_columns)

lemma sample_plan_valid:
  assumes "sample_shape c after" "fmdom' after = set (field_names label_spec)" "fmlookup after ''id'' = Some (JStr ''l1'')"
    "plan \<in> set (cm_plans c)"
  shows "validate_persisted_plan sample_catalog plan = Inr label_spec"
proof -
  note sample_table
  moreover have "plan = \<lparr>pl_table = ''labels'', pl_pk = dict [(''id'', JStr ''l1'')], pl_op = Insert, pl_expected = None,
       pl_before = None, pl_after = Some after\<rparr>"
    using assms(1,4) by (simp add: sample_shape_def)
  ultimately show ?thesis
    using assms(2,3)
    by (simp add: validate_persisted_plan_def valid_shape_def complete_row_def pk_field_set_def label_columns dict_single fld_def get_or_def)
qed

lemma sample_bound:
  assumes "sample_shape c after" "fmdom' after = set (field_names label_spec)" "fmlookup after ''id'' = Some (JStr ''l1'')"
  shows "bind_authoritative_note_event_bodies sample_digests c sample_catalog ov = Inr c"
  using assms(1) sample_plan_valid [OF assms]
  by (simp add: bind_authoritative_note_event_bodies_def bind_plan_def sample_shape_def label_columns)

lemma sample_validated:
  assumes "sample_shape c after" "fmdom' after = set (field_names label_spec)" "row_ok after" "fmlookup after ''id'' = Some (JStr ''l1'')"
    "fmlookup after ''version'' = Some (JInt 1)"
  shows "validate_compiled_command sample_digests slug (Compiled c) sample_catalog authority = Inr ()"
proof -
  note valid = sample_plan_valid [OF assms(1,2,4)]
  have shape: "cm_request c = sample_create" "cm_projections c = []"
    "cm_plans c = [\<lparr>pl_table = ''labels'', pl_pk = dict [(''id'', JStr ''l1'')], pl_op = Insert, pl_expected = None,
       pl_before = None, pl_after = Some after\<rparr>]"
    "cm_events c = [\<lparr>ev_type = ''label'', ev_id = ''l1'', ev_action = EvCreate, ev_payload = after, ev_version = 1,
       ev_created_at = ''2026-01-02T03:04:05.678Z''\<rparr>]"
    using assms(1) by (simp_all add: sample_shape_def)
  have event: "validate_sync_event sample_digests sample_catalog (hd (cm_events c)) = Inr label_spec"
    using assms(2,4,5) by (simp add: shape validate_sync_event_def sample_label label_columns event_payload_ok_def get_or_def)
  have identity: "plan_identity (hd (cm_plans c)) label_spec = Inr ''l1''"
    by (simp add: shape plan_identity_def pget_def label_columns dict_single)
  have same: "row_eq after after" by (rule row_eq_refl [OF assms(3)])
  show ?thesis
    using valid event identity same assms(5)
    by (simp add: validate_compiled_command_def Let_def sample_label shape label_columns persisted_identities_def
        note_paths_of_def required_projection_tags_def validate_plan_effects_def matching_sync_events_def event_action_def
        event_matches_plan_def get_or_def)
qed

text \<open>The database takes its row.\<close>

lemma nothing_broken: "broken_table ct [] = None"
  by (simp add: broken_table_def)

lemma sample_taken:
  assumes "sample_shape c after" "label_values after"
  shows "commands_writable sample_catalog [c]"
    "first_broken sample_catalog (batch_states sample_catalog sample_engine [] [cm_plans c]) = None"
proof -
  have plans: "cm_plans c = [\<lparr>pl_table = ''labels'', pl_pk = dict [(''id'', JStr ''l1'')], pl_op = Insert, pl_expected = None,
       pl_before = None, pl_after = Some after\<rparr>]"
    using assms(1) by (simp add: sample_shape_def)
  show "commands_writable sample_catalog [c]"
    using label_values_typed [OF assms(2)]
    by (simp add: commands_writable_def plans plan_writable_def sample_table label_model)
  have "planned sample_catalog [] (hd (cm_plans c)) = [((''label'', [JStr ''l1'']), after)]"
    by (simp add: plans planned_def sample_table plan_key_def pk_values_def pk_field_set_def label_columns dict_single fld_def)
  then show "first_broken sample_catalog (batch_states sample_catalog sample_engine [] [cm_plans c]) = None"
    using label_values_accepted [OF assms(2)] by (simp add: plans flush_states_def sample_engine_def)
qed

lemma sample_compiled:
  obtains c co where "compile_batch sample_compiler sample_empty_space [sample_item] = Inr co" "co_accepted co = [(''op-1'', c)]"
    "co_rejected co = []" "cm_projections c = []" "all_sendable sample_catalog [c]" "\<exists>p. persisted sample_digests c = Inr p"
    "cm_resolution c = None" "\<exists>e. cm_events c = [e] \<and> ev_version e = 1" "commands_writable sample_catalog [c]"
    "first_broken sample_catalog (batch_states sample_catalog sample_engine [] [cm_plans c]) = None"
proof -
  obtain c after where c: "compile_against_overlay [] (context_of sample_compiler sample_start ''op-1'') sample_create = Inr c"
    "sample_shape c after" "fmdom' after = set (field_names label_spec)" "row_ok after" "fmlookup after ''id'' = Some (JStr ''l1'')"
    "fmlookup after ''version'' = Some (JInt 1)" "\<exists>p. persisted sample_digests c = Inr p"
    "\<exists>ov. ov_apply sample_start c = Inr ov" "label_values after"
    by (rule sample_command)
  obtain ov where ov: "ov_apply sample_start c = Inr ov" using c(8) by blast
  let ?co = "\<lparr>co_overlay = ov, co_accepted = [(''op-1'', c)], co_rejected = []\<rparr>"
  have "compile_batch sample_compiler sample_empty_space [sample_item] = Inr ?co"
    using c(1) ov sample_bound [OF c(2,3,5)] sample_validated [OF c(2-6)]
    by (simp add: compile_batch_def sample_start_def [symmetric] compile_item_def sample_item_def del: sample_space_select)
  moreover have "sync_wire_payload label_spec after = Inr after"
    by (simp add: sync_wire_payload_def label_spec_def EntitySpec_def wire_field_def sync_fields_def)
  then have "all_sendable sample_catalog [c]"
    using c(2) by (simp add: all_sendable_def sample_shape_def sendable_def sample_label label_columns py_strip_def is_space_def)
  ultimately show ?thesis using that [of ?co c] c(2,7) sample_taken [OF c(2,9)] by (simp add: sample_shape_def)
qed

section \<open>Its run\<close>

lemma sample_journal_ok: "journal_ok sample_journal"
  by (simp add: sample_journal_def journal_ok_def journal_keys_def states_ok_def ledger_hidden_def finalized_complete_def)

lemma sample_intent:
  assumes "\<exists>p. persisted sample_digests c = Inr p" "cm_projections c = []" "cm_resolution c = None"
    "\<exists>e. cm_events c = [e] \<and> ev_version e = 1"
  obtains j where "create_batch_intent sample_digests sample_journal ''b-1'' ''h'' [''op-1''] [c] [] [] = Inr j"
proof -
  obtain p where p: "persisted sample_digests c = Inr p" using assms(1) by blast
  obtain e where e: "cm_events c = [e]" "ev_version e = 1" using assms(4) by blast
  have none: "pc_projections p = []" by (rule no_projections_persisted [OF p assms(2)])
  have "\<exists>j. create_batch_intent sample_digests sample_journal ''b-1'' ''h'' [''op-1''] [c] [] [] = Inr j"
    using p e assms(3) none
    by (simp add: create_batch_intent_def accepted_result_def MutationResult_def validate_expected_version_def
        validate_resolution_def BatchMutationResult_def derivation_entries_def add_batch_def add_op_def sample_journal_def
        intent_op_def)
  then show ?thesis using that by blast
qed

lemma sample_staged:
  assumes "create_batch_intent sample_digests sample_journal ''b-1'' ''h'' [''op-1''] [c] [] [] = Inr j1"
  obtains j where "journal_keys j" "batch_at j ''b-1'' STAGED [''op-1'']"
proof -
  obtain ps where i: "journal_ok j1" "batch_at j1 ''b-1'' INTENT [''op-1'']"
    by (rule intent_view [OF sample_journal_ok assms])
  have keys: "journal_keys j1" using i(1) by (simp add: journal_ok_def)
  have ids: "map mf_operation_id [empty_manifest sample_digests ''op-1''] = [''op-1'']" by (simp add: empty_manifest_def)
  obtain j where "journal_keys j" "batch_at j ''b-1'' STAGED [''op-1'']"
    by (rule batch_at_staged [OF keys i(2) ids])
  then show ?thesis by (rule that)
qed

lemma sample_no_rows: "space_rows_ok sample_catalog []"
  by (simp add: space_rows_ok_def rows_shaped_def)


lemma committed_ledger_witness:
  "\<exists>co c j db le. compile_batch sample_compiler sample_empty_space [sample_item] = Inr co \<and> co_accepted co = [(''op-1'', c)] \<and>
     commit_business sample_catalog sample_engine ''b-1'' ((sp_db sample_empty_space)\<lparr>sd_journal := j\<rparr>) [(''op-1'', c)] = Inr db \<and>
     jr_ledger (sd_journal db) = jr_ledger j @ [le] \<and> records_event sample_catalog ''b-1'' le (''op-1'', hd (cm_events c))"
proof -
  obtain c co where c: "compile_batch sample_compiler sample_empty_space [sample_item] = Inr co" "co_accepted co = [(''op-1'', c)]"
    "co_rejected co = []" "cm_projections c = []" "all_sendable sample_catalog [c]" "\<exists>p. persisted sample_digests c = Inr p"
    "cm_resolution c = None" "\<exists>e. cm_events c = [e] \<and> ev_version e = 1" "commands_writable sample_catalog [c]"
    "first_broken sample_catalog (batch_states sample_catalog sample_engine [] [cm_plans c]) = None"
    by (rule sample_compiled)
  obtain j1 where "create_batch_intent sample_digests sample_journal ''b-1'' ''h'' [''op-1''] [c] [] [] = Inr j1"
    by (rule sample_intent [OF c(6,4,7,8)])
  then obtain j where j: "journal_keys j" "batch_at j ''b-1'' STAGED [''op-1'']" by (rule sample_staged)
  obtain e where e: "cm_events c = [e]" using c(8) by blast
  have rows: "rfold (interpreter_apply sample_catalog sample_engine) [] [cm_plans c] = Inr (batch_rows sample_catalog [] [cm_plans c])"
    using batch_rows_outcome(1) [of sample_compiler sample_empty_space "[sample_item]" co sample_engine] c(1,2,9,10)
      sample_catalog_wf sample_no_rows by (simp add: accepted_commands_def)
  obtain db where db: "commit_business sample_catalog sample_engine ''b-1'' ((sp_db sample_empty_space)\<lparr>sd_journal := j\<rparr>) [(''op-1'', c)] = Inr db"
    by (rule commit_business_run [of "(sp_db sample_empty_space)\<lparr>sd_journal := j\<rparr>" "''b-1''" "[(''op-1'', c)]" sample_catalog sample_engine])
      (use c(5) j rows in simp_all)
  obtain new where "jr_ledger (sd_journal db) = jr_ledger j @ new" "list_all2 (records_event sample_catalog ''b-1'') new (flat_events [(''op-1'', c)])"
    using committed_ledger [of sample_compiler sample_empty_space "[sample_item]" co j "''b-1''" sample_engine db] c(1,2,5) j db
      sample_catalog_wf sample_no_rows by (auto simp: accepted_commands_def)
  then show ?thesis using c(1,2) e db by (auto simp: list_all2_Cons2)
qed


end
