(* ===== verification/JournalSystem.thy ===== *)
theory JournalSystem
  imports JournalProgress Recovery
begin

text \<open>
  The journal as a system of steps: every transaction that the execution of batches and the recovery
  make on its tables. The states of a batch are ordered by how far it has come; every step keeps the
  invariant and moves no batch back.
\<close>

section \<open>The order of the states\<close>

fun progress :: "mutation_state \<Rightarrow> nat" where
  "progress INTENT = 0"
| "progress STAGED = 1"
| "progress DB_COMMITTED = 2"
| "progress FINALIZING = 3"
| "progress FORWARD_APPLIED = 4"
| "progress COMPENSATING = 5"
| "progress FINALIZED = 6"
| "progress ABORTED = 7"
| "progress COMPENSATED = 8"
| "progress FAILED_MANUAL = 9"

lemma progress_inject: "progress s = progress t \<Longrightarrow> s = t"
  by (cases s; cases t) simp_all

instantiation mutation_state :: linorder
begin

definition less_eq_mutation_state :: "mutation_state \<Rightarrow> mutation_state \<Rightarrow> bool" where
  "less_eq_mutation_state s t = (progress s \<le> progress t)"

definition less_mutation_state :: "mutation_state \<Rightarrow> mutation_state \<Rightarrow> bool" where
  "less_mutation_state s t = (progress s < progress t)"

instance
  by standard (auto simp: less_eq_mutation_state_def less_mutation_state_def dest: progress_inject)

end

lemma legal_advances: "t \<in> set (LEGAL_TRANSITIONS s) \<Longrightarrow> s < t"
  by (cases s) (auto simp: LEGAL_TRANSITIONS_def less_mutation_state_def)

text \<open>A state without a way out.\<close>

definition settled :: "mutation_state \<Rightarrow> bool" where
  "settled s = (LEGAL_TRANSITIONS s = [])"

lemma settled_iff: "settled s \<longleftrightarrow> s \<in> {FINALIZED, ABORTED, COMPENSATED, FAILED_MANUAL}"
  by (cases s) (simp_all add: settled_def LEGAL_TRANSITIONS_def)

section \<open>What a step does to the batches\<close>

text \<open>No batch disappears or changes anything but its state, which only advances, and only if it is not settled.\<close>

definition advanced :: "journal_batch \<Rightarrow> journal_batch \<Rightarrow> bool" where
  "advanced b b' = (b' = b\<lparr>jb_state := jb_state b'\<rparr> \<and> (b' = b \<or> jb_state b < jb_state b' \<and> \<not> settled (jb_state b)))"

definition advances :: "journal \<Rightarrow> journal \<Rightarrow> bool" where
  "advances j j' = (\<forall>b \<in> set (jr_batches j). \<exists>b' \<in> set (jr_batches j'). advanced b b')"

lemma advanced_refl [simp]: "advanced b b"
  by (simp add: advanced_def)

lemma advanced_trans: "advanced a b \<Longrightarrow> advanced b c \<Longrightarrow> advanced a c"
  by (cases a; cases b; cases c) (auto simp: advanced_def)

lemma advances_same: "jr_batches j' = jr_batches j \<Longrightarrow> advances j j'"
  unfolding advances_def by (auto intro!: bexI)

lemma advances_more: "set (jr_batches j) \<subseteq> set (jr_batches j') \<Longrightarrow> advances j j'"
  unfolding advances_def by (auto intro!: bexI)

lemma advances_trans: "advances i j \<Longrightarrow> advances j k \<Longrightarrow> advances i k"
  unfolding advances_def by (meson advanced_trans)

lemma advances_update:
  assumes "jr_batches j' = update_where p (jb_state_update (\<lambda>_. t)) (jr_batches j)"
    "\<And>b. b \<in> set (jr_batches j) \<Longrightarrow> p b \<Longrightarrow> jb_state b = t \<or> jb_state b < t \<and> \<not> settled (jb_state b)"
  shows "advances j j'"
  unfolding advances_def
proof
  fix b assume b: "b \<in> set (jr_batches j)"
  let ?b = "if p b then b\<lparr>jb_state := t\<rparr> else b"
  have "b\<lparr>jb_state := t\<rparr> = b" if "jb_state b = t" using that by (cases b) simp
  then have "advanced b ?b" using assms(2) [OF b] by (auto simp: advanced_def)
  moreover have "?b \<in> set (jr_batches j')" using b by (simp add: assms(1) set_update_where)
  ultimately show "\<exists>b' \<in> set (jr_batches j'). advanced b b'" by blast
qed

section \<open>The contract of an operation\<close>

locale journal_operation =
  fixes allowed :: "'a \<Rightarrow> journal \<Rightarrow> bool" and run :: "'a \<Rightarrow> journal \<Rightarrow> journal res"
  assumes keeps: "journal_ok j \<Longrightarrow> allowed x j \<Longrightarrow> run x j = Inr j' \<Longrightarrow> journal_ok j'"
    and moves: "journal_ok j \<Longrightarrow> allowed x j \<Longrightarrow> run x j = Inr j' \<Longrightarrow> advances j j'"
begin

text \<open>The same operation on several arguments in a row.\<close>

lemma all_keep:
  assumes "journal_ok j" "\<forall>x \<in> set xs. \<forall>i. allowed x i" "rfold (\<lambda>i x. run x i) j xs = Inr j'"
  shows "journal_ok j' \<and> advances j j'"
  using assms
proof (induction xs arbitrary: j)
  case Nil
  then show ?case by (simp add: advances_same)
next
  case (Cons x xs)
  then obtain j1 where j1: "run x j = Inr j1" "rfold (\<lambda>i x. run x i) j1 xs = Inr j'" by (auto simp: rbind_Inr)
  have "journal_ok j1" "advances j j1" using keeps [OF _ _ j1(1)] moves [OF _ _ j1(1)] Cons.prems(1,2) by simp_all
  with Cons.IH [OF _ _ j1(2)] Cons.prems(2) show ?case by (auto intro: advances_trans)
qed

end

section \<open>The operations\<close>

text \<open>Batches that keep their rows, and a whole batch that is moved.\<close>

lemma no_row_back: "journal_ok j \<Longrightarrow> b \<in> set (jr_batches j) \<Longrightarrow> jb_id b = i \<Longrightarrow> get_batch j i = Some b"
  by (simp add: journal_ok_def journal_keysD(1))

type_synonym transition_request = "string \<times> mutation_state \<times> mutation_state"

definition run_transition :: "transition_request \<Rightarrow> journal \<Rightarrow> journal res" where
  "run_transition x j = (case x of (i, s, t) \<Rightarrow> transition_op j i s t)"

definition not_final :: "transition_request \<Rightarrow> journal \<Rightarrow> bool" where
  "not_final x j = (case x of (i, s, t) \<Rightarrow> t \<noteq> FINALIZED)"

lemma transition_advances:
  assumes "journal_ok j" "transition_op j i s t = Inr j'"
  shows "advances j j'"
proof -
  have keys: "journal_keys j" using assms(1) by (simp add: journal_ok_def)
  obtain q b where q: "t \<in> set (LEGAL_TRANSITIONS s)" "b \<in> set (jr_batches j)" "jb_id b = jo_batch q" "jb_state b = s"
    "j' = moved j q t"
    using assms(2) unfolding transition_op_iff [OF keys] by blast
  have "jb_state b' = s" if "b' \<in> set (jr_batches j)" "jb_id b' = jo_batch q" for b'
    using journal_keysD(4) [OF keys that(1) q(2)] that(2) q(3,4) by simp
  moreover have "s < t" "\<not> settled s" using legal_advances [OF q(1)] q(1) by (auto simp: settled_def)
  ultimately show ?thesis
    by (cases "siblings_at j q t")
      (auto simp: q(5) moved_def intro: advances_same advances_update [where p = "\<lambda>b. jb_id b = jo_batch q" and t = t])
qed

interpretation transitions: journal_operation not_final run_transition
proof
  fix j x j' assume a: "journal_ok j" "not_final x j" "run_transition x j = Inr j'"
  obtain i s t where x: "x = (i, s, t)" by (cases x)
  show "journal_ok j'" using transition_op_keeps [OF a(1)] a(2,3) by (simp add: x not_final_def run_transition_def)
  show "advances j j'" using transition_advances [OF a(1)] a(3) by (simp add: x run_transition_def)
qed

definition run_staged :: "string \<times> stage_manifest list \<Rightarrow> journal \<Rightarrow> journal res" where
  "run_staged x j = mark_staged j (fst x) (snd x)"

interpretation staging: journal_operation "\<lambda>_ _. True" run_staged
proof
  fix j j' :: journal and x assume a: "journal_ok j" "run_staged x j = Inr j'"
  note m = a(2) [unfolded run_staged_def]
  show "journal_ok j'" by (rule mark_staged_keeps(1) [OF a(1) m])
  obtain b where b: "get_batch j (fst x) = Some b" "jb_state b = INTENT"
    "jr_batches j' = update_where (\<lambda>b. jb_id b = fst x) (jb_state_update (\<lambda>_. STAGED)) (jr_batches j)"
    using m unfolding mark_staged_def Let_def by (auto simp: rbind_Inr require_Inr split: option.splits)
  show "advances j j'"
    by (rule advances_update [OF b(3)]) (use b(1,2) no_row_back [OF a(1)] in \<open>auto simp: less_mutation_state_def settled_iff\<close>)
qed

text \<open>Recovery moves a whole batch to one of its own end states.\<close>

definition run_batch_state :: "string \<times> mutation_state \<Rightarrow> journal \<Rightarrow> journal res" where
  "run_batch_state x j = set_batch_state j (fst x) (snd x)"

lemma legal_or_there_advances: "legal_or_there s t \<Longrightarrow> s = t \<or> s < t \<and> \<not> settled s"
  using legal_advances by (auto simp: legal_or_there_def settled_def)

text \<open>All rows of a batch take one state.\<close>

lemma uniform_whole_batch:
  assumes "jr_batches j' = update_where (\<lambda>x. jb_id x = i) (jb_state_update (\<lambda>_. t)) (jr_batches j)"
    "jr_ops j' = update_where (\<lambda>q. jo_batch q = i) f (jr_ops j)" "jr_steps j' = jr_steps j"
    "\<And>q. jo_id (f q) = jo_id q \<and> jo_batch (f q) = jo_batch q \<and> jo_sequence (f q) = jo_sequence q \<and> jo_state (f q) = t"
  shows "whole_batch j i t j'"
  unfolding whole_batch_def
proof (intro conjI)
  show "rows_in_place j j'" using assms(4) by (simp add: rows_in_place_def assms(1-3) map_update_where)
qed (use assms(4) in \<open>auto simp: assms(1,2) set_update_where\<close>)

lemma set_batch_state_Inr:
  assumes "set_batch_state j i t = Inr j'"
  obtains b where "get_batch j i = Some b" "legal_or_there (jb_state b) t"
    "jr_batches j' = update_where (\<lambda>x. jb_id x = i) (jb_state_update (\<lambda>_. t)) (jr_batches j)"
    "jr_ops j' = update_where (\<lambda>q. jo_batch q = i) (jo_state_update (\<lambda>_. t)) (jr_ops j)"
    "jr_steps j' = jr_steps j" "jr_ledger j' = jr_ledger j"
  using assms unfolding set_batch_state_def by (auto simp: rbind_Inr require_Inr split: option.splits)

interpretation batch_states: journal_operation "\<lambda>x _. snd x \<noteq> FINALIZED" run_batch_state
proof
  fix j j' :: journal and x :: "string \<times> mutation_state"
  assume a: "journal_ok j" "snd x \<noteq> FINALIZED" "run_batch_state x j = Inr j'"
  obtain b where b: "get_batch j (fst x) = Some b" "legal_or_there (jb_state b) (snd x)"
    "jr_batches j' = update_where (\<lambda>y. jb_id y = fst x) (jb_state_update (\<lambda>_. snd x)) (jr_batches j)"
    "jr_ops j' = update_where (\<lambda>q. jo_batch q = fst x) (jo_state_update (\<lambda>_. snd x)) (jr_ops j)"
    "jr_steps j' = jr_steps j" "jr_ledger j' = jr_ledger j"
    by (rule set_batch_state_Inr [OF a(3) [unfolded run_batch_state_def]])
  have own: "y = b" if "y \<in> set (jr_batches j)" "jb_id y = fst x" for y using no_row_back [OF a(1) that] b(1) by simp
  show "advances j j'"
    by (rule advances_update [OF b(3)]) (use own legal_or_there_advances [OF b(2)] in auto)
  have "jb_state b \<noteq> FINALIZED" using b(2) a(2) by (auto simp: legal_or_there_def LEGAL_TRANSITIONS_def)
  then show "journal_ok j'"
    using own by (intro whole_batch_keeps [OF a(1) uniform_whole_batch [OF b(3,4,5)] b(5,6) a(2)]) auto
qed

definition run_failed :: "string \<Rightarrow> journal \<Rightarrow> journal res" where
  "run_failed i j = mark_failed_manual j i"

interpretation failing: journal_operation "\<lambda>_ _. True" run_failed
proof
  fix j j' :: journal and i assume a: "journal_ok j" "run_failed i j = Inr j'"
  show "journal_ok j'" "advances j j'"
  proof (atomize (full), cases "j' = j")
    case True
    then show "journal_ok j' \<and> advances j j'" using a(1) by (simp add: advances_same)
  next
    case False
    then obtain b where b: "get_batch j i = Some b" "\<not> terminal_state (jb_state b)"
      "j' = j\<lparr>jr_batches := update_where (\<lambda>x. jb_id x = i) (jb_state_update (\<lambda>_. FAILED_MANUAL)) (jr_batches j),
         jr_ops := update_where (\<lambda>q. jo_batch q = i)
           (\<lambda>q. q\<lparr>jo_state := FAILED_MANUAL, jo_error := Some ''mutation_recovery_required''\<rparr>) (jr_ops j)\<rparr>"
      using a(2) unfolding run_failed_def mark_failed_manual_def by (auto split: option.splits if_splits)
    have parts: "jr_batches j' = update_where (\<lambda>x. jb_id x = i) (jb_state_update (\<lambda>_. FAILED_MANUAL)) (jr_batches j)"
      "jr_ops j' = update_where (\<lambda>q. jo_batch q = i)
           (\<lambda>q. q\<lparr>jo_state := FAILED_MANUAL, jo_error := Some ''mutation_recovery_required''\<rparr>) (jr_ops j)"
      "jr_steps j' = jr_steps j" "jr_ledger j' = jr_ledger j"
      by (simp_all add: b(3))
    have own: "y = b" if "y \<in> set (jr_batches j)" "jb_id y = i" for y using no_row_back [OF a(1) that] b(1) by simp
    have "jb_state b = FAILED_MANUAL \<or> jb_state b < FAILED_MANUAL \<and> \<not> settled (jb_state b)"
      using b(2) by (cases "jb_state b") (simp_all add: terminal_state_def settled_iff less_mutation_state_def)
    then have "advances j j'" using own by (intro advances_update [OF parts(1)]) auto
    moreover have "journal_ok j'"
      using own b(2) by (intro whole_batch_keeps [OF a(1) uniform_whole_batch [OF parts(1-3)] parts(3,4)]) (auto simp: terminal_state_def)
    ultimately show "journal_ok j' \<and> advances j j'" by simp
  qed
qed

definition run_finalize :: "string \<Rightarrow> journal \<Rightarrow> journal res" where
  "run_finalize i j = finalize_batch_in_transaction j i"

interpretation finalizing: journal_operation "\<lambda>_ _. True" run_finalize
proof
  fix j j' :: journal and i assume a: "journal_ok j" "run_finalize i j = Inr j'"
  note m = a(2) [unfolded run_finalize_def]
  show "journal_ok j'" by (rule finalize_keeps [OF a(1) m])
  obtain b where b: "b \<in> set (jr_batches j)" "jb_id b = i" "jb_state b = FORWARD_APPLIED"
    "jr_batches j' = update_where (\<lambda>b. jb_id b = i) (jb_state_update (\<lambda>_. FINALIZED)) (jr_batches j)"
    by (rule finalize_Inr [OF a(1) m])
  have "y = b" if "y \<in> set (jr_batches j)" "jb_id y = i" for y
    using no_row_back [OF a(1) that] no_row_back [OF a(1) b(1,2)] by simp
  then show "advances j j'"
    by (intro advances_update [OF b(4)]) (use b(3) in \<open>auto simp: less_mutation_state_def settled_iff\<close>)
qed

text \<open>The rest leaves the rows of the old batches alone.\<close>

definition run_intent :: "digests \<Rightarrow> string \<times> string \<times> string list \<times> command list \<times> mutation_rejection list \<times>
    (string \<times> string \<times> string) list \<Rightarrow> journal \<Rightarrow> journal res" where
  "run_intent dg x j = (case x of (b, h, ids, cs, rejections, ds) \<Rightarrow> create_batch_intent dg j b h ids cs rejections ds)"

interpretation intents: journal_operation "\<lambda>_ _. True" "run_intent dg" for dg
proof
  fix j j' :: journal and x assume a: "journal_ok j" "run_intent dg x j = Inr j'"
  obtain b h ids cs rejections ds where x: "x = (b, h, ids, cs, rejections, ds)" by (cases x)
  have m: "create_batch_intent dg j b h ids cs rejections ds = Inr j'" using a(2) by (simp add: run_intent_def x)
  show "journal_ok j'" "advances j j'"
    by (rule create_batch_intent_Inr [OF a(1) m], auto intro: advances_more)+
qed

definition run_rejected :: "digests \<Rightarrow> string \<times> string \<times> mutation_rejection list \<times> (string \<times> string \<times> string) list \<Rightarrow>
    journal \<Rightarrow> journal res" where
  "run_rejected dg x j = (case x of (b, h, rejections, ds) \<Rightarrow>
     rbind (record_rejected_batch dg j b h rejections ds) (\<lambda>(_, j'). Inr j'))"

interpretation rejecting: journal_operation "\<lambda>_ _. True" "run_rejected dg" for dg
proof
  fix j j' :: journal and x assume a: "journal_ok j" "run_rejected dg x j = Inr j'"
  obtain b h rejections ds where x: "x = (b, h, rejections, ds)" by (cases x)
  obtain r where m: "record_rejected_batch dg j b h rejections ds = Inr (r, j')"
    using a(2) by (auto simp: run_rejected_def x rbind_Inr)
  show "journal_ok j'" by (rule record_rejected_batch_keeps [OF a(1) m])
  let ?b = "\<lparr>jb_id = b, jb_hash = h, jb_state = INTENT, jb_accepted = 0, jb_result = r\<rparr>"
  obtain j1 where j1: "add_batch j ?b = Inr j1" "transition_batch j1 b INTENT ABORTED = Inr j'"
    using m by (auto simp: record_rejected_batch_def rbind_Inr)
  have rows: "jr_batches j' = update_where (\<lambda>r. jb_id r = b \<and> jb_state r = INTENT) (jb_state_update (\<lambda>_. ABORTED)) (jr_batches j @ [?b])"
    "b \<notin> jb_id ` set (jr_batches j)"
    using j1 by (auto simp: add_batch_def transition_batch_def split: if_splits)
  have "set (jr_batches j) \<subseteq> set (jr_batches j')"
  proof
    fix y assume y: "y \<in> set (jr_batches j)"
    then have "jb_id y \<noteq> b" using rows(2) by blast
    with y show "y \<in> set (jr_batches j')" unfolding rows(1) set_update_where by (auto intro: rev_image_eqI)
  qed
  then show "advances j j'" by (rule advances_more)
qed

definition run_step :: "string \<times> int \<times> string option \<Rightarrow> journal \<Rightarrow> journal res" where
  "run_step x j = (case x of (i, ordinal, hash) \<Rightarrow> mark_step_applied j i ordinal hash)"

interpretation steps: journal_operation "\<lambda>_ _. True" run_step
proof
  fix j j' :: journal and x assume a: "journal_ok j" "run_step x j = Inr j'"
  obtain i n h where m: "mark_step_applied j i n h = Inr j'" using a(2) by (auto simp: run_step_def split: prod.splits)
  show "journal_ok j'" by (rule mark_step_applied_keeps [OF a(1) m])
  show "advances j j'" by (rule advances_same) (use m in \<open>auto simp: mark_step_applied_def Let_def split: if_splits\<close>)
qed

definition run_result :: "string \<times> row \<Rightarrow> journal \<Rightarrow> journal res" where
  "run_result x j = update_operation_result j (fst x) (snd x)"

interpretation results: journal_operation "\<lambda>_ _. True" run_result
proof
  fix j j' :: journal and x assume a: "journal_ok j" "run_result x j = Inr j'"
  note m = a(2) [unfolded run_result_def]
  show "journal_ok j'" by (rule update_operation_result_keeps [OF a(1) m])
  show "advances j j'"
    by (rule advances_same) (use m in \<open>auto simp: update_operation_result_def rbind_Inr split: option.splits\<close>)
qed

text \<open>Operations whose states stay, with the same steps and events.\<close>

lemma same_states_keep:
  assumes "journal_ok j" "rows_in_place j j'" "jr_batches j' = jr_batches j" "jr_steps j' = jr_steps j" "jr_ledger j' = jr_ledger j"
    "\<And>q'. q' \<in> set (jr_ops j') \<Longrightarrow> \<exists>q \<in> set (jr_ops j). jo_batch q' = jo_batch q \<and> jo_state q' = jo_state q"
  shows "journal_ok j'"
proof -
  have "states_ok j'"
    unfolding states_ok_def
  proof (intro ballI impI)
    fix b q' assume b: "b \<in> set (jr_batches j')" and q': "q' \<in> set (jr_ops j')" "jo_batch q' = jb_id b"
    obtain q where "q \<in> set (jr_ops j)" "jo_batch q' = jo_batch q" "jo_state q' = jo_state q" using assms(6) [OF q'(1)] by blast
    then show "jo_state q' = jb_state b \<or> jo_state q' \<in> set (LEGAL_TRANSITIONS (jb_state b))"
      using assms(1,3) b q'(2) by (simp add: journal_ok_def states_ok_def)
  qed
  moreover have "finalized_complete j'"
    using assms(1) complete_in_place [OF assms(2,4,5)] by (simp add: journal_ok_def finalized_complete_def assms(3))
  moreover have "ledger_hidden j'" using assms(1) by (simp add: journal_ok_def ledger_hidden_def assms(3,5))
  ultimately show ?thesis using assms(1) keys_in_place [OF _ assms(2)] by (simp add: journal_ok_def)
qed

definition run_images :: "string \<times> exc \<times> db_plan list \<times> string \<Rightarrow> journal \<Rightarrow> journal res" where
  "run_images x j = (case x of (b, missing, plans, i) \<Rightarrow> store_images b missing plans j i)"

interpretation images: journal_operation "\<lambda>_ _. True" run_images
proof
  fix j j' :: journal and x assume a: "journal_ok j" "run_images x j = Inr j'"
  obtain b missing plans i where "store_images b missing plans j i = Inr j'"
    using a(2) by (auto simp: run_images_def split: prod.splits)
  then have j': "j' = j\<lparr>jr_ops := update_where (\<lambda>q. jo_id q = i)
       (jo_images_update (\<lambda>_. Some (map pl_before plans, map pl_after plans))) (jr_ops j)\<rparr>"
    by (auto simp: store_images_def rbind_Inr)
  show "advances j j'" by (rule advances_same) (simp add: j')
  show "journal_ok j'"
    by (rule same_states_keep [OF a(1)]) (auto simp: j' rows_in_place_def map_update_where set_update_where)
qed

text \<open>Events are written hidden, for a batch that is not finalized, and can be dropped again.\<close>

definition run_events :: "ledger_event list \<Rightarrow> journal \<Rightarrow> journal res" where
  "run_events es j = Inr (j\<lparr>jr_ledger := jr_ledger j @ es\<rparr>)"

definition hidden_for :: "ledger_event list \<Rightarrow> journal \<Rightarrow> bool" where
  "hidden_for es j = (\<forall>e \<in> set es. \<not> le_visible e \<and>
     (\<forall>b \<in> set (jr_batches j). le_batch e = Some (jb_id b) \<longrightarrow> jb_state b \<noteq> FINALIZED))"

interpretation events: journal_operation hidden_for run_events
proof
  fix j j' :: journal and es assume a: "journal_ok j" "hidden_for es j" "run_events es j = Inr j'"
  then have j': "j' = j\<lparr>jr_ledger := jr_ledger j @ es\<rparr>" by (simp add: run_events_def)
  show "journal_ok j'"
    by (rule hidden_events_keep [OF a(1), of j' "set es"]) (use a(2) in \<open>auto simp: j' hidden_for_def\<close>)
  show "advances j j'" by (rule advances_same) (simp add: j')
qed

definition run_drop :: "(ledger_event \<Rightarrow> bool) \<Rightarrow> journal \<Rightarrow> journal res" where
  "run_drop keep j = Inr (j\<lparr>jr_ledger := filter keep (jr_ledger j)\<rparr>)"

interpretation dropping: journal_operation "\<lambda>_ _. True" run_drop
proof
  fix j j' :: journal and keep assume a: "journal_ok j" "run_drop keep j = Inr j'"
  then have j': "j' = j\<lparr>jr_ledger := filter keep (jr_ledger j)\<rparr>" by (simp add: run_drop_def)
  show "journal_ok j'" by (rule hidden_events_keep [OF a(1), of j' "{}"]) (auto simp: j')
  show "advances j j'" by (rule advances_same) (simp add: j')
qed

text \<open>Recovery marks the steps of a batch that is not finalized.\<close>

definition run_mark :: "journal_step \<times> step_state \<times> string option \<Rightarrow> journal \<Rightarrow> journal res" where
  "run_mark x j = (case x of (s, st, applied) \<Rightarrow> mark_step j s st applied)"

definition step_open :: "journal_step \<times> step_state \<times> string option \<Rightarrow> journal \<Rightarrow> bool" where
  "step_open x j = (\<forall>q \<in> set (jr_ops j). jo_id q = js_op (fst x) \<longrightarrow>
     (\<forall>b \<in> set (jr_batches j). jb_id b = jo_batch q \<longrightarrow> jb_state b \<noteq> FINALIZED))"

interpretation marking: journal_operation step_open run_mark
proof
  fix j j' :: journal and x assume a: "journal_ok j" "step_open x j" "run_mark x j = Inr j'"
  obtain s st applied where x: "x = (s, st, applied)" by (cases x)
  let ?this = "\<lambda>y. js_op y = js_op s \<and> js_ordinal y = js_ordinal s"
  have j': "j' = j\<lparr>jr_steps := update_where ?this (\<lambda>s. s\<lparr>js_state := st, js_applied := applied\<rparr>) (jr_steps j)\<rparr>"
    using a(3) by (auto simp: run_mark_def x mark_step_def Let_def rbind_Inr)
  show "advances j j'" by (rule advances_same) (simp add: j')
  have rows: "rows_in_place j j'" by (simp add: rows_in_place_def j' map_update_where)
  have "finalized_complete j'"
    unfolding finalized_complete_def
  proof (intro ballI impI)
    fix b assume b: "b \<in> set (jr_batches j')" "jb_state b = FINALIZED"
    then have old: "batch_complete j (jb_id b)" using a(1) by (simp add: journal_ok_def finalized_complete_def j')
    have "js_op s \<notin> jo_id ` set (ops_of j (jb_id b))"
      using a(2) b by (auto simp: step_open_def x ops_of_mem j')
    then have "invalid_steps j' (jb_id b) = []"
      using old by (auto simp: batch_complete_def invalid_steps_def filter_empty_conv ops_of_def j' set_update_where)
    then show "batch_complete j' (jb_id b)" using old by (simp add: batch_complete_def ops_of_def j')
  qed
  then show "journal_ok j'"
    using a(1) keys_in_place [OF _ rows] by (simp add: journal_ok_def states_ok_def ledger_hidden_def j')
qed

section \<open>The system\<close>

text \<open>
  One transaction on the journal: of the unit of work, or of the recovery. A transition to
  \<open>FINALIZED\<close> is made by the finalization of a batch only.
\<close>

inductive journal_step :: "digests \<Rightarrow> journal \<Rightarrow> journal \<Rightarrow> bool" for dg where
  intent: "run_intent dg x j = Inr j' \<Longrightarrow> journal_step dg j j'"
| rejected: "run_rejected dg x j = Inr j' \<Longrightarrow> journal_step dg j j'"
| staged: "run_staged x j = Inr j' \<Longrightarrow> journal_step dg j j'"
| transition: "not_final x j \<Longrightarrow> run_transition x j = Inr j' \<Longrightarrow> journal_step dg j j'"
| images: "run_images x j = Inr j' \<Longrightarrow> journal_step dg j j'"
| events: "hidden_for es j \<Longrightarrow> run_events es j = Inr j' \<Longrightarrow> journal_step dg j j'"
| step: "run_step x j = Inr j' \<Longrightarrow> journal_step dg j j'"
| finalize: "run_finalize i j = Inr j' \<Longrightarrow> journal_step dg j j'"
| outcome: "run_result x j = Inr j' \<Longrightarrow> journal_step dg j j'"
| batch_state: "snd x \<noteq> FINALIZED \<Longrightarrow> run_batch_state x j = Inr j' \<Longrightarrow> journal_step dg j j'"
| failure: "run_failed i j = Inr j' \<Longrightarrow> journal_step dg j j'"
| mark: "step_open x j \<Longrightarrow> run_mark x j = Inr j' \<Longrightarrow> journal_step dg j j'"
| drop: "run_drop keep j = Inr j' \<Longrightarrow> journal_step dg j j'"

inductive_cases journal_stepE: "journal_step dg j j'"

text \<open>The laws of all operations at once.\<close>

lemma journal_step_law:
  assumes "journal_step dg j j'" "journal_ok j"
  shows "journal_ok j' \<and> advances j j'"
  using assms
proof (cases rule: journal_step.cases)
  case (intent x)
  then show ?thesis using intents.keeps intents.moves assms(2) by blast
next
  case (rejected x)
  then show ?thesis using rejecting.keeps rejecting.moves assms(2) by blast
next
  case (staged x)
  then show ?thesis using staging.keeps staging.moves assms(2) by blast
next
  case (transition x)
  then show ?thesis using transitions.keeps transitions.moves assms(2) by blast
next
  case (images x)
  then show ?thesis using images.keeps images.moves assms(2) by blast
next
  case (events es)
  then show ?thesis using events.keeps events.moves assms(2) by blast
next
  case (step x)
  then show ?thesis using steps.keeps steps.moves assms(2) by blast
next
  case (finalize i)
  then show ?thesis using finalizing.keeps finalizing.moves assms(2) by blast
next
  case (outcome x)
  then show ?thesis using results.keeps results.moves assms(2) by blast
next
  case (batch_state x)
  then show ?thesis using batch_states.keeps batch_states.moves assms(2) by blast
next
  case (failure i)
  then show ?thesis using failing.keeps failing.moves assms(2) by blast
next
  case (mark x)
  then show ?thesis using marking.keeps marking.moves assms(2) by blast
next
  case (drop keep)
  then show ?thesis using dropping.keeps dropping.moves assms(2) by blast
qed

inductive journal_run :: "digests \<Rightarrow> journal \<Rightarrow> journal \<Rightarrow> bool" for dg where
  here: "journal_run dg j j"
| next_step: "journal_run dg i j \<Longrightarrow> journal_step dg j k \<Longrightarrow> journal_run dg i k"

lemma journal_run_law:
  assumes "journal_run dg i j" "journal_ok i"
  shows "journal_ok j \<and> advances i j"
  using assms
proof (induction rule: journal_run.induct)
  case (here j)
  then show ?case by (simp add: advances_same)
next
  case (next_step i j k)
  then show ?case using journal_step_law advances_trans by blast
qed

definition empty_journal :: journal where
  "empty_journal = \<lparr>jr_batches = [], jr_ops = [], jr_steps = [], jr_ledger = []\<rparr>"

lemma empty_journal_ok: "journal_ok empty_journal"
  by (simp add: empty_journal_def journal_ok_def journal_keys_def states_ok_def ledger_hidden_def finalized_complete_def)

text \<open>
  C3: In every state the journal of a Space can reach, under any
  sequence of transactions of the unit of work and of the recovery, of any number of batches: a sync
  event of a batch is shown only when that batch is finalized; a finalized batch has all its events
  shown, every one of an operation of its own, all its operations finalized and all its projection
  steps applied with the digest they were to produce; and every batch has exactly the operations that
  were accepted.
\<close>

theorem journal_shows_finalized_only:
  assumes "journal_run dg empty_journal j"
  shows "(\<forall>e \<in> set (jr_ledger j). \<forall>i. le_batch e = Some i \<and> le_visible e \<longrightarrow>
      (\<exists>b. get_batch j i = Some b \<and> jb_state b = FINALIZED)) \<and>
    (\<forall>i b. get_batch j i = Some b \<longrightarrow> int (length (ordered_ops j i)) = jb_accepted b \<and>
      (jb_state b = FINALIZED \<longrightarrow>
        (\<forall>q \<in> set (ordered_ops j i). jo_state q = FINALIZED) \<and>
        (\<forall>e \<in> set (jr_ledger j). le_batch e = Some i \<longrightarrow> le_visible e \<and> le_op e \<in> Some ` jo_id ` set (ordered_ops j i)) \<and>
        (\<forall>s \<in> set (jr_steps j). js_op s \<in> jo_id ` set (ordered_ops j i) \<longrightarrow>
           js_state s = StepApplied \<and> js_applied s = js_after s)))"
proof -
  have ok: "journal_ok j" using journal_run_law [OF assms empty_journal_ok] by blast
  then have keys: "journal_keys j" and st: "states_ok j" and led: "ledger_hidden j" and fin: "finalized_complete j"
    by (simp_all add: journal_ok_def)
  note got = journal_keysD(1) [OF keys]
  have complete: "batch_complete j i" if "get_batch j i = Some b" "jb_state b = FINALIZED" for i b
    using fin that unfolding finalized_complete_def by (auto simp: got)
  show ?thesis
  proof (intro conjI ballI allI impI)
    fix e i assume e: "e \<in> set (jr_ledger j)" "le_batch e = Some i \<and> le_visible e"
    then obtain b where "b \<in> set (jr_batches j)" "jb_id b = i" "jb_state b = FINALIZED"
      using led unfolding ledger_hidden_def by blast
    then show "\<exists>b. get_batch j i = Some b \<and> jb_state b = FINALIZED" by (auto simp: got)
  next
    fix i b assume "get_batch j i = Some b"
    then show "int (length (ordered_ops j i)) = jb_accepted b"
      using journal_keysD(3) [OF keys, of b] by (simp add: got ordered_ops_def)
  next
    fix i b q assume b: "get_batch j i = Some b" "jb_state b = FINALIZED" and q: "q \<in> set (ordered_ops j i)"
    have mem: "b \<in> set (jr_batches j)" "q \<in> set (jr_ops j)" "jo_batch q = jb_id b"
      using b(1) q by (simp_all add: got ops_of_mem)
    have "jo_state q = jb_state b \<or> jo_state q \<in> set (LEGAL_TRANSITIONS (jb_state b))"
      using st mem unfolding states_ok_def by blast
    then show "jo_state q = FINALIZED" using b(2) by (simp add: LEGAL_TRANSITIONS_def)
  next
    fix i b e assume b: "get_batch j i = Some b" "jb_state b = FINALIZED" and e: "e \<in> set (jr_ledger j)" "le_batch e = Some i"
    have "le_visible e \<and> le_op e \<in> Some ` jo_id ` set (ops_of j i)"
      using complete [OF b] e unfolding batch_complete_def by blast
    then show "le_visible e" "le_op e \<in> Some ` jo_id ` set (ordered_ops j i)" by simp_all
  next
    fix i b s assume b: "get_batch j i = Some b" "jb_state b = FINALIZED"
      and s: "s \<in> set (jr_steps j)" "js_op s \<in> jo_id ` set (ordered_ops j i)"
    have "invalid_steps j i = []" using complete [OF b] by (simp add: batch_complete_def)
    then show "js_state s = StepApplied" "js_applied s = js_after s"
      using s by (simp_all add: invalid_steps_def filter_empty_conv)
  qed
qed

lemma advanced_select:
  assumes "advanced b b'"
  shows "jb_id b' = jb_id b" "jb_hash b' = jb_hash b" "jb_accepted b' = jb_accepted b" "jb_result b' = jb_result b"
    "jb_state b \<le> jb_state b'" "settled (jb_state b) \<Longrightarrow> b' = b"
  using assms by (cases b; cases b'; auto simp: advanced_def less_imp_le)+

text \<open>
  C8: Whatever runs on the journal of a Space, no batch ever disappears, its
  request hash, number of operations and receipt stay as recorded, and its state only moves forward in
  the order of the phases. A batch that is finalized, aborted, compensated or has failed stays as it is.
\<close>

theorem batches_only_advance:
  assumes "journal_run dg empty_journal j" "journal_run dg j j'" "get_batch j i = Some b"
  shows "\<exists>b'. get_batch j' i = Some b' \<and> jb_hash b' = jb_hash b \<and> jb_accepted b' = jb_accepted b \<and>
    jb_result b' = jb_result b \<and> jb_state b \<le> jb_state b' \<and> (settled (jb_state b) \<longrightarrow> b' = b)"
proof -
  have ok: "journal_ok j" using journal_run_law [OF assms(1) empty_journal_ok] by blast
  with journal_run_law [OF assms(2)] have ok': "journal_ok j'" and adv: "advances j j'" by blast+
  have keys: "journal_keys j" "journal_keys j'" using ok ok' by (simp_all add: journal_ok_def)
  have b: "b \<in> set (jr_batches j)" "jb_id b = i" using assms(3) by (simp_all add: journal_keysD(1) [OF keys(1)])
  obtain b' where b': "b' \<in> set (jr_batches j')" "advanced b b'" using adv b(1) unfolding advances_def by blast
  note same = advanced_select [OF b'(2)]
  have "get_batch j' i = Some b'" using b'(1) same(1) b(2) by (simp add: journal_keysD(1) [OF keys(2)])
  then show ?thesis using same by blast
qed

end
