(* ===== verification/ExecutionSystem.thy ===== *)
theory ExecutionSystem
  imports JournalSystem
begin

text \<open>
  The execution of a batch, seen from the journal: whatever happens, success or an exception at any
  point, its effect on the journal is a sequence of the steps of the journal system, and the events it
  leaves are hidden until the last step.
\<close>

section \<open>Actions and the journal\<close>

abbreviation journal_of :: "space \<Rightarrow> journal" where
  "journal_of s \<equiv> sd_journal (sp_db s)"

text \<open>An action under which the journal stays in a relation, however the action ends.\<close>

definition within :: "(journal \<Rightarrow> journal \<Rightarrow> bool) \<Rightarrow> 'a act \<Rightarrow> bool" where
  "within R m = (\<forall>s. R (journal_of s) (journal_of (snd (m s))))"

locale journal_relation =
  fixes R :: "journal \<Rightarrow> journal \<Rightarrow> bool"
  assumes same: "R j j" and chain: "R i j \<Longrightarrow> R j k \<Longrightarrow> R i k"
begin

lemma still: "(\<And>s. sp_db (snd (m s)) = sp_db s) \<Longrightarrow> within R m"
  by (simp add: within_def same)

lemma bind: "within R m \<Longrightarrow> (\<And>x. within R (f x)) \<Longrightarrow> within R (abind m f)"
  unfolding within_def abind_def by (auto split: prod.splits sum.splits) (metis chain snd_conv)+

lemma return: "within R (areturn x)"
  by (rule still) (simp add: areturn_def)

lemma lift: "within R (alift r)"
  by (rule still) (simp add: alift_def)

lemma stages: "within R (on_stages f)"
  by (rule still) (auto simp: on_stages_def split: sum.splits)

lemma files: "within R (on_files f)"
  by (rule still) (auto simp: on_files_def split: sum.splits)

lemma foreach: "(\<And>x. within R (f x)) \<Longrightarrow> within R (aforeach f xs)"
  by (induction xs) (simp_all add: return bind)

lemma mapping: "(\<And>x. within R (f x)) \<Longrightarrow> within R (amap f xs)"
  by (induction xs) (simp_all add: return bind)

lemma journal_change:
  assumes "\<And>j j'. f j = Inr j' \<Longrightarrow> R j j'"
  shows "within R (journal_transaction f)"
  using assms
  by (auto simp: within_def journal_transaction_def db_transaction_def transact_def with_journal_def same split: sum.splits
      dest!: rbind_Inr [THEN iffD1])

lemma database_change:
  assumes "\<And>db db'. f db = Inr db' \<Longrightarrow> R (sd_journal db) (sd_journal db')"
  shows "within R (db_transaction f)"
  using assms
  by (auto simp: within_def db_transaction_def transact_def same split: sum.splits dest!: rbind_Inr [THEN iffD1])

text \<open>Every phase before the last is within the relation when its transactions are.\<close>

lemma forward:
  assumes "\<And>j j' i n h. mark_step_applied j i n h = Inr j' \<Longrightarrow> R j j'" "\<And>j j' i. transition j i FORWARD_APPLIED = Inr j' \<Longrightarrow> R j j'"
  shows "within R (finalize_forward dg entries)"
  unfolding finalize_forward_def
proof (rule foreach)
  fix entry :: "string \<times> command"
  obtain i c where entry: "entry = (i, c)" by (cases entry)
  have side: "within R (apply_forward dg i ds ordinals)" for ds ordinals
    unfolding apply_forward_def apply_side_def execute_actions_def by (intro bind stages foreach files)
  have step: "within R (finalize_step dg i p d)" for p d
    unfolding finalize_step_def by (intro bind side journal_change) (rule assms(1))
  show "within R (finalize_operation dg entry)"
    unfolding finalize_operation_def entry prod.case
    by (intro bind lift foreach step journal_change) (rule assms(2))
qed

lemma publication: "within R (publish_stages dg entries)"
  unfolding publish_stages_def by (intro mapping) (auto intro: stages split: prod.splits)

end

section \<open>Steps of the system\<close>

definition by_steps :: "digests \<Rightarrow> journal \<Rightarrow> journal \<Rightarrow> bool" where
  "by_steps dg j j' = (journal_ok j \<longrightarrow> journal_run dg j j' \<and> journal_ok j')"

lemma journal_run_trans: "journal_run dg j k \<Longrightarrow> journal_run dg i j \<Longrightarrow> journal_run dg i k"
  by (induction rule: journal_run.induct) (auto intro: journal_run.intros)

interpretation stepping: journal_relation "by_steps dg" for dg
  by unfold_locales (auto simp: by_steps_def intro: journal_run.here journal_run_trans)

lemma one_step: "(journal_ok j \<Longrightarrow> journal_step dg j j') \<Longrightarrow> by_steps dg j j'"
  unfolding by_steps_def using journal_run_law journal_run.here journal_run.next_step by blast

text \<open>Ledgers that only grow, by hidden events.\<close>

definition hides :: "journal \<Rightarrow> journal \<Rightarrow> bool" where
  "hides j j' = (\<exists>es. jr_ledger j' = jr_ledger j @ es \<and> (\<forall>e \<in> set es. \<not> le_visible e))"

lemma hides_same: "jr_ledger j' = jr_ledger j \<Longrightarrow> hides j j'"
  by (simp add: hides_def)

interpretation hiding: journal_relation hides
proof
  fix i j k assume "hides i j" "hides j k"
  then obtain es fs where "jr_ledger j = jr_ledger i @ es" "\<forall>e \<in> set es. \<not> le_visible e"
    "jr_ledger k = jr_ledger j @ fs" "\<forall>e \<in> set fs. \<not> le_visible e" unfolding hides_def by blast
  then show "hides i k" unfolding hides_def by (intro exI [of _ "es @ fs"]) auto
qed (simp add: hides_same)

section \<open>The business transaction\<close>

text \<open>Which operation belongs to which batch does not change.\<close>

definition owners :: "journal \<Rightarrow> (string \<times> string) list" where
  "owners j = map (\<lambda>q. (jo_id q, jo_batch q)) (jr_ops j)"

definition owned :: "string \<Rightarrow> string list \<Rightarrow> journal \<Rightarrow> bool" where
  "owned b ids j = (\<forall>i \<in> set ids. (i, b) \<in> set (owners j))"

lemma owned_same: "owners j' = owners j \<Longrightarrow> owned b ids j' \<longleftrightarrow> owned b ids j"
  by (simp add: owned_def)

lemma apply_operation_steps:
  assumes "apply_operation ct en b missing db (i, plans) = Inr db'"
  shows "by_steps dg (sd_journal db) (sd_journal db')" "owners (sd_journal db') = owners (sd_journal db)"
    "jr_ledger (sd_journal db') = jr_ledger (sd_journal db)" "journal_ok (sd_journal db) \<Longrightarrow> owned b [i] (sd_journal db')"
proof -
  let ?f = "jo_images_update (\<lambda>_. Some (map pl_before plans, map pl_after plans))"
  obtain rows j' where r: "store_images b missing plans (sd_journal db) i = Inr j'" "sd_journal db' = j'"
    using assms by (auto simp: apply_operation_def with_journal_def rbind_Inr)
  have j': "j' = (sd_journal db)\<lparr>jr_ops := update_where (\<lambda>q. jo_id q = i) ?f (jr_ops (sd_journal db))\<rparr>"
    and got: "case get_op (sd_journal db) i of None \<Rightarrow> False | Some q \<Rightarrow> jo_batch q = b"
    using r(1) by (auto simp: store_images_def rbind_Inr require_Inr)
  have "run_images (b, missing, plans, i) (sd_journal db) = Inr (sd_journal db')" using r by (simp add: run_images_def)
  then show "by_steps dg (sd_journal db) (sd_journal db')" by (intro one_step journal_step.images)
  show own: "owners (sd_journal db') = owners (sd_journal db)" by (simp add: owners_def r(2) j' map_update_where)
  show "jr_ledger (sd_journal db') = jr_ledger (sd_journal db)" by (simp add: r(2) j')
  show "owned b [i] (sd_journal db')" if "journal_ok (sd_journal db)"
  proof -
    have keys: "journal_keys (sd_journal db)" using that by (simp add: journal_ok_def)
    obtain q where "q \<in> set (jr_ops (sd_journal db))" "jo_id q = i" "jo_batch q = b"
      using got journal_keysD(2) [OF keys] by (auto split: option.splits)
    then show ?thesis unfolding owned_same [OF own] by (auto simp: owned_def owners_def)
  qed
qed

lemma apply_operations_steps:
  assumes "rfold (apply_operation ct en b missing) db entries = Inr db'" "journal_ok (sd_journal db)"
  shows "by_steps dg (sd_journal db) (sd_journal db') \<and> owners (sd_journal db') = owners (sd_journal db) \<and>
    jr_ledger (sd_journal db') = jr_ledger (sd_journal db) \<and> owned b (map fst entries) (sd_journal db')"
  using assms
proof (induction entries arbitrary: db)
  case Nil
  then show ?case by (simp add: stepping.same owned_def)
next
  case (Cons entry entries)
  obtain i plans where entry: "entry = (i, plans)" by (cases entry)
  obtain db1 where db1: "apply_operation ct en b missing db (i, plans) = Inr db1" "rfold (apply_operation ct en b missing) db1 entries = Inr db'"
    using Cons.prems(1) by (auto simp: entry rbind_Inr)
  note one = apply_operation_steps [OF db1(1)]
  have ok: "journal_ok (sd_journal db1)" using one(1) Cons.prems(2) by (simp add: by_steps_def)
  note rest = Cons.IH [OF db1(2) ok]
  have "owned b [i] (sd_journal db')" using one(4) [OF Cons.prems(2)] owned_same [of "sd_journal db'" "sd_journal db1"] rest by simp
  moreover have "by_steps dg (sd_journal db) (sd_journal db')" using stepping.chain [OF one(1) conjunct1 [OF rest]] .
  ultimately show ?case using rest one(2,3) by (auto simp: entry owned_def)
qed

lemma commit_events_shape:
  assumes "rfold (commit_event ct b i) (db, d) es = Inr (db', d')"
  shows "\<exists>les. sd_journal db' = (sd_journal db)\<lparr>jr_ledger := jr_ledger (sd_journal db) @ les\<rparr> \<and>
    (\<forall>le \<in> set les. \<not> le_visible le \<and> le_batch le = Some b)"
  using assms
proof (induction es arbitrary: db d)
  case Nil
  then show ?case by (intro exI [of _ "[]"]) simp
next
  case (Cons e es)
  obtain db1 d1 where s: "commit_event ct b i (db, d) e = Inr (db1, d1)" "rfold (commit_event ct b i) (db1, d1) es = Inr (db', d')"
    using Cons.prems by (auto simp: rbind_Inr)
  obtain le where le: "sd_journal db1 = (sd_journal db)\<lparr>jr_ledger := jr_ledger (sd_journal db) @ [le]\<rparr>"
    "\<not> le_visible le" "le_batch le = Some b"
    using s(1) by (auto simp: commit_event_def record_sync_event_def with_ledger_def Let_def rbind_Inr)
  obtain les where "sd_journal db' = (sd_journal db1)\<lparr>jr_ledger := jr_ledger (sd_journal db1) @ les\<rparr>"
    "\<forall>le \<in> set les. \<not> le_visible le \<and> le_batch le = Some b"
    using Cons.IH [OF s(2)] by blast
  then show ?case using le by (intro exI [of _ "le # les"]) simp
qed

lemma transition_owners: "journal_ok j \<Longrightarrow> transition_op j i s t = Inr j' \<Longrightarrow> owners j' = owners j \<and> jr_ledger j' = jr_ledger j"
  unfolding journal_ok_def using transition_op_iff [of j i s t j'] by (auto simp: owners_def moved_def map_update_where)

lemma commit_operation_steps:
  assumes "commit_operation ct b (db, d) (i, es) = Inr (db', d')" "journal_ok (sd_journal db)" "owned b [i] (sd_journal db)"
  shows "by_steps dg (sd_journal db) (sd_journal db') \<and> owners (sd_journal db') = owners (sd_journal db) \<and>
    hides (sd_journal db) (sd_journal db')"
proof -
  let ?j = "sd_journal db"
  have keys: "journal_keys ?j" using assms(2) by (simp add: journal_ok_def)
  obtain j1 where j1: "transition_op ?j i STAGED DB_COMMITTED = Inr j1"
    "rfold (commit_event ct b i) (db\<lparr>sd_journal := j1\<rparr>, d) es = Inr (db', d')"
    using assms(1) by (auto simp: commit_operation_def with_journal_def rbind_Inr)
  obtain les where les: "sd_journal db' = j1\<lparr>jr_ledger := jr_ledger j1 @ les\<rparr>" "\<forall>le \<in> set les. \<not> le_visible le \<and> le_batch le = Some b"
    using commit_events_shape [OF j1(2)] by auto
  have step: "by_steps dg ?j j1"
    by (rule one_step, rule journal_step.transition [of "(i, STAGED, DB_COMMITTED)"])
      (use j1(1) in \<open>simp_all add: not_final_def run_transition_def\<close>)
  have ok: "journal_ok j1" using step assms(2) by (simp add: by_steps_def)
  obtain q r where q: "q \<in> set (jr_ops ?j)" "jo_id q = i" "r \<in> set (jr_batches ?j)" "jb_id r = jo_batch q" "jb_state r = STAGED"
    "j1 = moved ?j q DB_COMMITTED"
    using j1(1) unfolding transition_op_iff [OF keys] by blast
  obtain q' where q': "q' \<in> set (jr_ops ?j)" "jo_id q' = i" "jo_batch q' = b"
    using assms(3) by (auto simp: owned_def owners_def)
  have "q' = q" using journal_keysD(5) [OF keys q'(1) q(1)] q'(2) q(2) by simp
  then have "jo_batch q = b" using q'(3) by simp
  have "jb_state x \<noteq> FINALIZED" if x: "x \<in> set (jr_batches j1)" "jb_id x = b" for x
  proof -
    obtain y where y: "y \<in> set (jr_batches ?j)" "jb_id x = jb_id y" "x = y \<or> jb_state x = DB_COMMITTED"
      using x(1) by (cases "siblings_at ?j q DB_COMMITTED") (auto simp: q(6) moved_def set_update_where)
    have "y = r" using journal_keysD(4) [OF keys y(1) q(3)] y(2) x(2) q(4) \<open>jo_batch q = b\<close> by simp
    then show ?thesis using y(3) q(5) by auto
  qed
  then have "hidden_for les j1" using les(2) by (auto simp: hidden_for_def)
  then have "by_steps dg j1 (sd_journal db')"
    by (intro one_step) (rule journal_step.events [of les], simp_all add: run_events_def les(1))
  then have "by_steps dg ?j (sd_journal db')" using step by (rule stepping.chain [rotated])
  moreover note transition_owners [OF assms(2) j1(1)]
  ultimately show ?thesis using les by (auto simp: hides_def owners_def)
qed

lemma commit_operations_steps:
  assumes "rfold (commit_operation ct b) (db, d) entries = Inr (db', d')" "journal_ok (sd_journal db)"
    "owned b (map fst entries) (sd_journal db)"
  shows "by_steps dg (sd_journal db) (sd_journal db') \<and> hides (sd_journal db) (sd_journal db')"
  using assms
proof (induction entries arbitrary: db d)
  case Nil
  then show ?case by (simp add: stepping.same hiding.same)
next
  case (Cons entry entries)
  obtain i es where entry: "entry = (i, es)" by (cases entry)
  obtain db1 d1 where s: "commit_operation ct b (db, d) (i, es) = Inr (db1, d1)" "rfold (commit_operation ct b) (db1, d1) entries = Inr (db', d')"
    using Cons.prems(1) by (auto simp: entry rbind_Inr)
  have own: "owned b [i] (sd_journal db)" "owned b (map fst entries) (sd_journal db)"
    using Cons.prems(3) by (simp_all add: entry owned_def)
  note one = commit_operation_steps [OF s(1) Cons.prems(2) own(1), of dg]
  have ok: "journal_ok (sd_journal db1)" using one Cons.prems(2) by (simp add: by_steps_def)
  have "owners (sd_journal db1) = owners (sd_journal db)" using one by (rule conjunct1 [OF conjunct2])
  then have "owned b (map fst entries) (sd_journal db1)" using own(2) by (simp add: owned_def)
  note rest = Cons.IH [OF s(2) ok this]
  show ?case
    using stepping.chain [OF conjunct1 [OF one] conjunct1 [OF rest]]
      hiding.chain [OF conjunct2 [OF conjunct2 [OF one]] conjunct2 [OF rest]] by (rule conjI)
qed

lemma commit_business_steps:
  assumes "commit_business ct en b db entries = Inr db'" "journal_ok (sd_journal db)"
  shows "by_steps dg (sd_journal db) (sd_journal db') \<and> hides (sd_journal db) (sd_journal db')"
proof -
  obtain db1 db2 d where c: "rfold (apply_operation ct en b (SpaceRecoveryRequired ''journal operation disappeared during business commit''))
      db (map (\<lambda>(i, c). (i, cm_plans c)) entries) = Inr db1"
    "rfold (commit_operation ct b) (db1, fmempty) (map (\<lambda>(i, c). (i, cm_events c)) entries) = Inr (db2, d)"
    "rfold (put_tombstone ct d) db2 (concat (map (\<lambda>(i, c). cm_events c) entries)) = Inr db'"
    using assms(1) unfolding commit_business_def by (auto simp: rbind_Inr)
  have fst: "map fst (map (\<lambda>(i, c). (i, f c)) entries) = map fst entries" for f :: "command \<Rightarrow> 'x"
    by (simp add: comp_def case_prod_unfold)
  note one = apply_operations_steps [OF c(1) assms(2), of dg, unfolded fst]
  have ok: "journal_ok (sd_journal db1)" using one assms(2) by (simp add: by_steps_def)
  have own: "owned b (map fst (map (\<lambda>(i, c). (i, cm_events c)) entries)) (sd_journal db1)" unfolding fst using one by simp
  note two = commit_operations_steps [OF c(2) ok own, of dg]
  define same where "same x y \<longleftrightarrow> sd_journal y = sd_journal x" for x y :: space_db
  have "same db2 db'"
    by (rule rfold_invariant [OF c(3)]) (auto simp: same_def put_tombstone_def Let_def rbind_Inr split: if_splits)
  then have final: "sd_journal db' = sd_journal db2" by (simp add: same_def)
  have "hides (sd_journal db) (sd_journal db1)" using one by (intro hides_same) simp
  from hiding.chain [OF this conjunct2 [OF two]] stepping.chain [OF conjunct1 [OF one] conjunct1 [OF two]]
  show ?thesis by (simp add: final)
qed

section \<open>The whole execution\<close>

lemma transition_all_steps: "t \<noteq> FINALIZED \<Longrightarrow> transition_all j s t ids = Inr j' \<Longrightarrow> by_steps dg j j'"
proof (induction j s t ids rule: transition_all.induct)
  case (2 j s t i rest)
  obtain j1 where j1: "transition_op j i s t = Inr j1" "transition_all j1 s t rest = Inr j'"
    using "2.prems"(2) by (auto simp: rbind_Inr)
  have "by_steps dg j j1"
    by (rule one_step, rule journal_step.transition [of "(i, s, t)"])
      (use j1(1) "2.prems"(1) in \<open>simp_all add: not_final_def run_transition_def\<close>)
  from stepping.chain [OF this "2.IH" [OF j1(1) "2.prems"(1) j1(2)]] show ?case .
qed (simp add: stepping.same)

lemma transition_op_ledger: "transition_op j i s t = Inr j' \<Longrightarrow> jr_ledger j' = jr_ledger j"
  by (auto simp: transition_op_def Let_def rbind_Inr split: option.splits if_splits)

lemma transition_all_ledger: "transition_all j s t ids = Inr j' \<Longrightarrow> jr_ledger j' = jr_ledger j"
proof (induction j s t ids rule: transition_all.induct)
  case (2 j s t i rest)
  obtain j1 where j1: "transition_op j i s t = Inr j1" "transition_all j1 s t rest = Inr j'"
    using "2.prems" by (auto simp: rbind_Inr)
  show ?case using "2.IH" [OF j1] transition_op_ledger [OF j1(1)] by simp
qed simp

text \<open>The transactions of the phases before the last one.\<close>

lemma phase_steps:
  "create_batch_intent dg j b h ids cs rejections ds = Inr j' \<Longrightarrow> by_steps dg j j'"
  "mark_staged j b manifests = Inr j' \<Longrightarrow> by_steps dg j j'"
  "mark_finalizing j b = Inr j' \<Longrightarrow> by_steps dg j j'"
  "mark_step_applied j i n hash = Inr j' \<Longrightarrow> by_steps dg j j'"
  "transition j i FORWARD_APPLIED = Inr j' \<Longrightarrow> by_steps dg j j'"
  "finalize_batch_in_transaction j b = Inr j' \<Longrightarrow> by_steps dg j j'"
  "record_rejected_batch dg j b h rejections ds = Inr (r, j') \<Longrightarrow> by_steps dg j j'"
proof -
  show "create_batch_intent dg j b h ids cs rejections ds = Inr j' \<Longrightarrow> by_steps dg j j'"
    by (rule one_step, rule journal_step.intent [of dg "(b, h, ids, cs, rejections, ds)"]) (simp add: run_intent_def)
  show "mark_staged j b manifests = Inr j' \<Longrightarrow> by_steps dg j j'"
    by (rule one_step, rule journal_step.staged [of "(b, manifests)"]) (simp add: run_staged_def)
  show "mark_finalizing j b = Inr j' \<Longrightarrow> by_steps dg j j'"
    unfolding mark_finalizing_def by (rule transition_all_steps) simp_all
  show "mark_step_applied j i n hash = Inr j' \<Longrightarrow> by_steps dg j j'"
    by (rule one_step, rule journal_step.step [of "(i, n, hash)"]) (simp add: run_step_def)
  show "transition j i FORWARD_APPLIED = Inr j' \<Longrightarrow> by_steps dg j j'"
  proof -
    assume "transition j i FORWARD_APPLIED = Inr j'"
    then obtain s where "transition_op j i s FORWARD_APPLIED = Inr j'" by (auto simp: transition_def rbind_Inr)
    then show "by_steps dg j j'"
      by (intro one_step) (rule journal_step.transition [of "(i, s, FORWARD_APPLIED)"], simp_all add: not_final_def run_transition_def)
  qed
  show "finalize_batch_in_transaction j b = Inr j' \<Longrightarrow> by_steps dg j j'"
    by (rule one_step, rule journal_step.finalize [of b]) (simp add: run_finalize_def)
  show "record_rejected_batch dg j b h rejections ds = Inr (r, j') \<Longrightarrow> by_steps dg j j'"
    by (rule one_step, rule journal_step.rejected [of dg "(b, h, rejections, ds)"]) (simp add: run_rejected_def)
qed

lemma phase_hides:
  "create_batch_intent dg j b h ids cs rejections ds = Inr j' \<Longrightarrow> hides j j'"
  "mark_staged j b manifests = Inr j' \<Longrightarrow> hides j j'"
  "mark_finalizing j b = Inr j' \<Longrightarrow> hides j j'"
  "mark_step_applied j i n hash = Inr j' \<Longrightarrow> hides j j'"
  "transition j i FORWARD_APPLIED = Inr j' \<Longrightarrow> hides j j'"
proof -
  show "create_batch_intent dg j b h ids cs rejections ds = Inr j' \<Longrightarrow> hides j j'"
  proof -
    have add: "add_all add_op i qs = Inr k \<Longrightarrow> jr_ledger k = jr_ledger i" "add_all add_step i ss = Inr k \<Longrightarrow> jr_ledger k = jr_ledger i"
      for i k qs ss
      by (induction qs arbitrary: i, auto simp: rbind_Inr add_op_def split: if_splits)
        (induction ss arbitrary: i, auto simp: rbind_Inr add_step_def split: if_splits)
    assume "create_batch_intent dg j b h ids cs rejections ds = Inr j'"
    then show "hides j j'"
      by (intro hides_same) (auto simp: create_batch_intent_def rbind_Inr add_batch_def dest!: add split: if_splits)
  qed
  show "mark_staged j b manifests = Inr j' \<Longrightarrow> hides j j'"
    by (rule hides_same) (auto simp: mark_staged_def Let_def rbind_Inr)
  show "mark_finalizing j b = Inr j' \<Longrightarrow> hides j j'"
    unfolding mark_finalizing_def by (rule hides_same) (rule transition_all_ledger)
  show "mark_step_applied j i n hash = Inr j' \<Longrightarrow> hides j j'"
    by (rule hides_same) (auto simp: mark_step_applied_def Let_def split: if_splits)
  show "transition j i FORWARD_APPLIED = Inr j' \<Longrightarrow> hides j j'"
    by (rule hides_same) (auto simp: transition_def rbind_Inr dest: transition_op_ledger)
qed

lemma within_alone: "within R m \<Longrightarrow> R (journal_of s) (journal_of (snd (m s)))"
  by (simp add: within_def)

text \<open>Everything before the last transaction, and the last one.\<close>

definition before_receipt :: "compiler \<Rightarrow> string \<Rightarrow> string \<Rightarrow> (string \<times> command) list \<Rightarrow> mutation_rejection list \<Rightarrow>
    (string \<times> string \<times> string) list \<Rightarrow> unit act" where
  "before_receipt ce b h entries rejections ds =
     abind (journal_transaction (\<lambda>j. create_batch_intent (ce_digests ce) j b h (map fst entries) (map snd entries) rejections ds)) (\<lambda>_.
     abind (publish_stages (ce_digests ce) entries) (\<lambda>manifests.
     abind (journal_transaction (\<lambda>j. mark_staged j b manifests)) (\<lambda>_.
     abind (db_transaction (\<lambda>db. commit_business (ce_catalog ce) (ce_engine ce) b db entries)) (\<lambda>_.
     abind (journal_transaction (\<lambda>j. mark_finalizing j b)) (\<lambda>_.
     finalize_forward (ce_digests ce) entries)))))"

definition receipt :: "string \<Rightarrow> batch_result act" where
  "receipt b = transact (\<lambda>db. rbind (finalize_batch (sd_journal db) b) (\<lambda>(result, j). Inr (result, db\<lparr>sd_journal := j\<rparr>)))"

lemma abind_assoc: "abind (abind m f) g = abind m (\<lambda>x. abind (f x) g)"
  by (rule ext) (simp add: abind_def split: prod.splits sum.splits)

lemma run_accepted_split: "run_accepted ce b h entries rejections ds = abind (before_receipt ce b h entries rejections ds) (\<lambda>_. receipt b)"
  by (simp add: run_accepted_def before_receipt_def receipt_def abind_assoc)

lemma before_receipt_steps: "within (by_steps (ce_digests ce)) (before_receipt ce b h entries rejections ds)"
proof -
  have business: "within (by_steps (ce_digests ce)) (db_transaction (\<lambda>db. commit_business (ce_catalog ce) (ce_engine ce) b db entries))"
  proof (rule stepping.database_change)
    fix db db' assume c: "commit_business (ce_catalog ce) (ce_engine ce) b db entries = Inr db'"
    show "by_steps (ce_digests ce) (sd_journal db) (sd_journal db')"
      unfolding by_steps_def
    proof
      assume "journal_ok (sd_journal db)"
      with commit_business_steps [OF c this, of "ce_digests ce"]
      show "journal_run (ce_digests ce) (sd_journal db) (sd_journal db') \<and> journal_ok (sd_journal db')" by (simp add: by_steps_def)
    qed
  qed
  show ?thesis
    unfolding before_receipt_def
    by (intro stepping.bind stepping.publication business stepping.forward stepping.journal_change) (erule phase_steps)+
qed

text \<open>Hidden events, in a journal that satisfies its invariant.\<close>

definition hides_ok :: "digests \<Rightarrow> journal \<Rightarrow> journal \<Rightarrow> bool" where
  "hides_ok dg j j' = (journal_ok j \<longrightarrow> journal_ok j' \<and> hides j j')"

interpretation hiding_ok: journal_relation "hides_ok dg" for dg
  by unfold_locales (auto simp: hides_ok_def intro: hiding.same hiding.chain)

lemma hides_okI: "by_steps dg j j' \<Longrightarrow> hides j j' \<Longrightarrow> hides_ok dg j j'"
  by (simp add: hides_ok_def by_steps_def)

lemma before_receipt_hides: "within (hides_ok (ce_digests ce)) (before_receipt ce b h entries rejections ds)"
proof -
  have business: "within (hides_ok (ce_digests ce)) (db_transaction (\<lambda>db. commit_business (ce_catalog ce) (ce_engine ce) b db entries))"
  proof (rule hiding_ok.database_change)
    fix db db' assume c: "commit_business (ce_catalog ce) (ce_engine ce) b db entries = Inr db'"
    show "hides_ok (ce_digests ce) (sd_journal db) (sd_journal db')"
      unfolding hides_ok_def
    proof
      assume "journal_ok (sd_journal db)"
      with commit_business_steps [OF c this, of "ce_digests ce"]
      show "journal_ok (sd_journal db') \<and> hides (sd_journal db) (sd_journal db')" by (simp add: by_steps_def)
    qed
  qed
  show ?thesis
    unfolding before_receipt_def
    by (intro hiding_ok.bind hiding_ok.publication business hiding_ok.forward hiding_ok.journal_change hides_okI)
      (erule phase_steps phase_hides)+
qed

lemma finalize_batch_step: "finalize_batch j b = Inr (result, j') \<Longrightarrow> by_steps dg j j'"
  by (auto simp: finalize_batch_def rbind_Inr split: option.splits intro: phase_steps(6))

lemma receipt_steps: "within (by_steps dg) (receipt b)"
  by (auto simp: within_def receipt_def transact_def rbind_Inr stepping.same split: sum.splits intro: finalize_batch_step
      dest!: rbind_Inr [THEN iffD1])

lemma run_batch_steps:
  assumes "journal_ok (journal_of s)" "run_batch ce b h items ds s = (outcome, s')"
  shows "by_steps (ce_digests ce) (journal_of s) (journal_of s') \<and> (\<forall>e. outcome = Inl e \<longrightarrow> hides (journal_of s) (journal_of s'))"
proof -
  let ?dg = "ce_digests ce"
  have wrap: "?thesis" if "by_steps ?dg (journal_of s) (journal_of s')" "\<And>e. outcome = Inl e \<Longrightarrow> hides (journal_of s) (journal_of s')"
    using that by blast
  show ?thesis
  proof (cases "compile_batch ce s items")
    case (Inl e)
    then have "s' = s" using assms(2) by (simp add: run_batch_def abind_def)
    then show ?thesis using wrap by (simp add: stepping.same hiding.same)
  next
    case (Inr co)
    let ?rejections = "batch_rejections items (co_rejected co)"
    show ?thesis
    proof (cases "co_accepted co = []")
      case True
      then have "by_steps ?dg (journal_of s) (journal_of s') \<and> (\<forall>e. outcome = Inl e \<longrightarrow> s' = s)"
        using assms(2) Inr phase_steps(7)
        by (auto simp: run_batch_def abind_def Let_def transact_def stepping.same split: sum.splits dest!: rbind_Inr [THEN iffD1])
      then show ?thesis using wrap by (auto simp: hiding.same)
    next
      case False
      then have run: "abind (before_receipt ce b h (co_accepted co) ?rejections ds) (\<lambda>_. receipt b) s = (outcome, s')"
        using assms(2) Inr by (simp add: run_batch_def abind_def Let_def run_accepted_split)
      let ?m = "before_receipt ce b h (co_accepted co) ?rejections ds"
      obtain r s1 where m: "?m s = (r, s1)" by (cases "?m s")
      have steps: "by_steps ?dg (journal_of s) (journal_of s1)" and hid: "hides (journal_of s) (journal_of s1)"
        using assms(1) within_alone [OF before_receipt_steps [of ce b h "co_accepted co" ?rejections ds], of s]
          within_alone [OF before_receipt_hides [of ce b h "co_accepted co" ?rejections ds], of s] m by (simp_all add: hides_ok_def)
      show ?thesis
      proof (cases r)
        case (Inl e)
        then have "s' = s1" using run m by (simp add: abind_def)
        then show ?thesis using wrap steps hid by blast
      next
        case (Inr u)
        then have last: "receipt b s1 = (outcome, s')" using run m by (simp add: abind_def)
        have "by_steps ?dg (journal_of s1) (journal_of s')" using within_alone [OF receipt_steps [of ?dg b], of s1] last by simp
        moreover have "s' = s1" if "outcome = Inl e" for e
          using last that by (auto simp: receipt_def transact_def split: sum.splits prod.splits)
        ultimately show ?thesis using wrap stepping.chain [OF steps] hid by blast
      qed
    qed
  qed
qed

text \<open>
  C7: Whatever becomes of the execution of a batch, on a journal reached
  before, the journal is left in a state that its transactions can reach, so that all their invariants
  hold for the batches that follow and for recovery. And when the execution of a new batch ends with an
  exception, in whichever phase, the ledger holds what it held before and after that hidden events only.
\<close>

theorem failed_batch_shows_nothing:
  assumes "journal_run (ce_digests ce) empty_journal (sd_journal (sp_db s))"
    "run_batch ce b h items ds s = (outcome, s')"
  shows "journal_run (ce_digests ce) empty_journal (sd_journal (sp_db s')) \<and>
    (\<forall>e. outcome = Inl e \<longrightarrow> (\<exists>new. jr_ledger (sd_journal (sp_db s')) = jr_ledger (sd_journal (sp_db s)) @ new \<and>
       (\<forall>le \<in> set new. \<not> le_visible le)))"
proof -
  have ok: "journal_ok (journal_of s)" using journal_run_law [OF assms(1) empty_journal_ok] by blast
  note steps = run_batch_steps [OF ok assms(2)]
  then have "journal_run (ce_digests ce) (journal_of s) (journal_of s')" using ok by (simp add: by_steps_def)
  from journal_run_trans [OF this assms(1)] steps show ?thesis unfolding hides_def by blast
qed

end
