(* ===== verification/SystemWitness.thy ===== *)
theory SystemWitness
  imports BatchWitness ExecutionSystem
begin

text \<open>
  The theorems on the journal system, applied to the journal of the sample batch, before and after its
  run, and to a batch whose identifier is taken.
\<close>

lemma sample_journal_empty: "sample_journal = empty_journal"
  by (simp add: sample_journal_def empty_journal_def)

text \<open>The sample batch runs to its receipt and shows its event.\<close>

lemma sample_run:
  obtains c co s result where "compile_batch sample_compiler sample_empty_space [sample_item] = Inr co"
    "co_accepted co = [(''op-1'', c)]" "run_batch sample_compiler ''b-1'' ''h'' [sample_item] [] sample_empty_space = (Inr result, s)"
    "batch_at (sd_journal (sp_db s)) ''b-1'' FINALIZED [''op-1'']"
    "\<exists>e. jr_ledger (sd_journal (sp_db s)) = [e] \<and> le_visible e \<and> le_batch e = Some ''b-1''"
proof -
  obtain c co where c: "compile_batch sample_compiler sample_empty_space [sample_item] = Inr co" "co_accepted co = [(''op-1'', c)]"
    "co_rejected co = []" "cm_projections c = []" "all_sendable sample_catalog [c]" "\<exists>p. persisted sample_digests c = Inr p"
    "cm_resolution c = None" "\<exists>e. cm_events c = [e] \<and> ev_version e = 1" "commands_writable sample_catalog [c]"
    "first_broken sample_catalog (batch_states sample_catalog sample_engine [] [cm_plans c]) = None"
    by (rule sample_compiled)
  obtain j1 where j1: "create_batch_intent sample_digests sample_journal ''b-1'' ''h'' [''op-1''] [c] [] [] = Inr j1"
    by (rule sample_intent [OF c(6,4,7,8)])
  have rows: "rfold (interpreter_apply sample_catalog sample_engine) [] [cm_plans c] = Inr (batch_rows sample_catalog [] [cm_plans c])"
    using batch_rows_outcome(1) [of sample_compiler sample_empty_space "[sample_item]" co sample_engine] c(1,2,9,10)
      sample_catalog_wf sample_no_rows by (simp add: accepted_commands_def)
  have id: "validate_operation_id ''op-1'' = Inr ()"
    by (simp add: validate_operation_id_def PRINTABLE_ASCII_OPERATION_ID_def)
  have unused: "unused_batch sample_journal ''b-1''" by (simp add: unused_batch_def sample_journal_def)
  let ?new = "batch_ledger (ce_catalog sample_compiler) ''b-1'' (sd_journal (sp_db sample_empty_space)) [(''op-1'', c)]"
  obtain result s where run: "run_accepted sample_compiler ''b-1'' ''h'' [(''op-1'', c)] [] [] sample_empty_space = (Inr result, s)"
    "batch_at (sd_journal (sp_db s)) ''b-1'' FINALIZED (map fst [(''op-1'', c)])"
    "jr_ledger (sd_journal (sp_db s)) = jr_ledger (sd_journal (sp_db sample_empty_space)) @ shown ?new"
    by (rule run_accepted_completes [of "[(''op-1'', c)]" sample_compiler sample_empty_space "''b-1''" "''h''" "[]" "[]" j1])
      (use rows c(4,5) sample_journal_ok unused id j1 in \<open>simp_all add: free_stages_def\<close>)
  have "batch_rejections [sample_item] [] = []" by (simp add: batch_rejections_def sample_item_def)
  then have batch: "run_batch sample_compiler ''b-1'' ''h'' [sample_item] [] sample_empty_space = (Inr result, s)"
    using c(1-3) run(1) by (simp add: run_batch_def abind_def Let_def)
  obtain e where "cm_events c = [e]" using c(8) by blast
  then have "\<exists>e. jr_ledger (sd_journal (sp_db s)) = [e] \<and> le_visible e \<and> le_batch e = Some ''b-1''"
    by (simp add: run(3) batch_ledger_def shown_def sample_journal_def)
  with that c(1,2) batch run(2) [simplified] show ?thesis by blast
qed

lemma sample_reached:
  assumes "run_batch sample_compiler ''b-1'' ''h'' [sample_item] [] sample_empty_space = (outcome, s)"
  shows "journal_run sample_digests empty_journal (sd_journal (sp_db s))"
  using run_batch_steps [of sample_empty_space sample_compiler, OF _ assms] sample_journal_ok
  by (simp add: by_steps_def sample_journal_empty)

lemma journal_shows_finalized_only_witness:
  "\<exists>j e b. journal_run sample_digests empty_journal j \<and> e \<in> set (jr_ledger j) \<and> le_visible e \<and>
     get_batch j ''b-1'' = Some b \<and> jb_state b = FINALIZED \<and> int (length (ordered_ops j ''b-1'')) = jb_accepted b"
proof -
  obtain c co s result where run: "compile_batch sample_compiler sample_empty_space [sample_item] = Inr co"
    "co_accepted co = [(''op-1'', c)]" "run_batch sample_compiler ''b-1'' ''h'' [sample_item] [] sample_empty_space = (Inr result, s)"
    "batch_at (sd_journal (sp_db s)) ''b-1'' FINALIZED [''op-1'']"
    "\<exists>e. jr_ledger (sd_journal (sp_db s)) = [e] \<and> le_visible e \<and> le_batch e = Some ''b-1''"
    by (rule sample_run)
  let ?j = "sd_journal (sp_db s)"
  obtain e where e: "jr_ledger ?j = [e]" "le_visible e" "le_batch e = Some ''b-1''" using run(5) by blast
  note reached = sample_reached [OF run(3)]
  obtain b where b: "get_batch ?j ''b-1'' = Some b" "jb_state b = FINALIZED"
    using journal_shows_finalized_only [OF reached] e by auto
  moreover have "int (length (ordered_ops ?j ''b-1'')) = jb_accepted b"
    using journal_shows_finalized_only [OF reached] b(1) by blast
  ultimately show ?thesis using reached e by auto
qed

lemma batches_only_advance_witness:
  "\<exists>j b. journal_run sample_digests empty_journal j \<and> get_batch j ''b-1'' = Some b \<and> jb_state b \<le> FINALIZED \<and> settled (jb_state b)"
proof -
  obtain c co s result where run: "compile_batch sample_compiler sample_empty_space [sample_item] = Inr co"
    "co_accepted co = [(''op-1'', c)]" "run_batch sample_compiler ''b-1'' ''h'' [sample_item] [] sample_empty_space = (Inr result, s)"
    "batch_at (sd_journal (sp_db s)) ''b-1'' FINALIZED [''op-1'']"
    "\<exists>e. jr_ledger (sd_journal (sp_db s)) = [e] \<and> le_visible e \<and> le_batch e = Some ''b-1''"
    by (rule sample_run)
  note reached = sample_reached [OF run(3)]
  obtain b where b: "get_batch (sd_journal (sp_db s)) ''b-1'' = Some b" "jb_state b = FINALIZED"
    by (rule batch_atE [OF run(4)])
  have "jb_state b \<le> jb_state b" using batches_only_advance [OF reached journal_run.here b(1)] b(1) by auto
  with reached b show ?thesis by (auto simp: settled_iff)
qed

text \<open>Compiling does not look at the journal.\<close>

lemma compile_other_journal: "compile_batch ce (s\<lparr>sp_db := (sp_db s)\<lparr>sd_journal := j\<rparr>\<rparr>) items = compile_batch ce s items"
proof -
  have "from_locked_authorities ct (db\<lparr>sd_journal := j\<rparr>) sn = from_locked_authorities ct db sn" for ct db sn
    by (simp add: from_locked_authorities_def cong: if_cong)
  then show ?thesis by (simp add: compile_batch_def)
qed

text \<open>The same batch once more, after a crash that left its intent: the identifier is taken.\<close>

lemma failed_batch_shows_nothing_witness:
  "\<exists>j e s. journal_run sample_digests empty_journal j \<and>
     run_batch sample_compiler ''b-1'' ''h'' [sample_item] [] (sample_empty_space\<lparr>sp_db := (sp_db sample_empty_space)\<lparr>sd_journal := j\<rparr>\<rparr>) = (Inl e, s) \<and>
     journal_run sample_digests empty_journal (sd_journal (sp_db s)) \<and> (\<forall>le \<in> set (jr_ledger (sd_journal (sp_db s))). \<not> le_visible le)"
proof -
  obtain c co where c: "compile_batch sample_compiler sample_empty_space [sample_item] = Inr co" "co_accepted co = [(''op-1'', c)]"
    "co_rejected co = []" "cm_projections c = []" "all_sendable sample_catalog [c]" "\<exists>p. persisted sample_digests c = Inr p"
    "cm_resolution c = None" "\<exists>e. cm_events c = [e] \<and> ev_version e = 1" "commands_writable sample_catalog [c]"
    "first_broken sample_catalog (batch_states sample_catalog sample_engine [] [cm_plans c]) = None"
    by (rule sample_compiled)
  obtain j where j: "create_batch_intent sample_digests sample_journal ''b-1'' ''h'' [''op-1''] [c] [] [] = Inr j"
    by (rule sample_intent [OF c(6,4,7,8)])
  let ?s = "sample_empty_space\<lparr>sp_db := (sp_db sample_empty_space)\<lparr>sd_journal := j\<rparr>\<rparr>"
  obtain ps where i: "journal_ok j" "batch_at j ''b-1'' INTENT [''op-1'']" "jr_ledger j = jr_ledger sample_journal"
    by (rule intent_view [OF sample_journal_ok j])
  have reached: "journal_run sample_digests empty_journal j"
    using phase_steps(1) [OF j] empty_journal_ok by (simp add: by_steps_def sample_journal_empty)
  have compiled: "compile_batch sample_compiler ?s [sample_item] = Inr co" using c(1) by (simp only: compile_other_journal)
  obtain r where "get_batch j ''b-1'' = Some r" by (rule batch_atE [OF i(2)])
  then have "r \<in> set (jr_batches j)" "jb_id r = ''b-1''" using i(1) by (simp_all add: journal_ok_def journal_keysD(1))
  then have taken: "''b-1'' \<in> jb_id ` set (jr_batches j)" by (metis imageI)
  obtain e where e: "create_batch_intent sample_digests j ''b-1'' ''h'' [''op-1''] [c] [] [] = Inl e"
  proof (cases "create_batch_intent sample_digests j ''b-1'' ''h'' [''op-1''] [c] [] []")
    case (Inr j2)
    then show ?thesis using intent_view [OF i(1) Inr] taken by metis
  qed
  have "batch_rejections [sample_item] [] = []" by (simp add: batch_rejections_def sample_item_def)
  then have run: "run_batch sample_compiler ''b-1'' ''h'' [sample_item] [] ?s = (Inl e, ?s)"
    using compiled c(2,3) e
    by (simp add: run_batch_def abind_def Let_def run_accepted_def journal_transaction_def db_transaction_def transact_def with_journal_def)
  have "journal_run (ce_digests sample_compiler) empty_journal (sd_journal (sp_db ?s))" using reached by simp
  from failed_batch_shows_nothing [OF this run] have "journal_run sample_digests empty_journal (sd_journal (sp_db ?s))"
    "\<exists>new. jr_ledger (sd_journal (sp_db ?s)) = jr_ledger (sd_journal (sp_db ?s)) @ new \<and> (\<forall>le \<in> set new. \<not> le_visible le)" by auto
  moreover have "\<forall>le \<in> set (jr_ledger (sd_journal (sp_db ?s))). \<not> le_visible le" using i(3) by (simp add: sample_journal_def)
  ultimately show ?thesis using reached run by blast
qed

end
