(* ===== verification/SessionClock.thy ===== *)
theory SessionClock
  imports Mutation
begin

text \<open>
  The clock of a Focus Session (\<open>app/focus_session/policy.py\<close>, from \<open>_require_session_type\<close> and
  \<open>_require_canonical_timestamp\<close> to \<open>_clock_transition_after\<close>): a session runs, is paused, runs again and
  ends, and its row carries the counters of elapsed, paused, break and focused seconds. Typed commands and
  replayed rows both go through \<open>clock_transition_after\<close>.

  \<open>_parse_timestamp\<close> is only applied to texts that were validated before, so it is the parser of
  \<open>Timestamps\<close>; the counters are integers by \<open>_validate_duration_row\<close> before \<open>int(...)\<close> reads them.
\<close>

section \<open>Session types\<close>

definition FOCUS_SESSION_TYPES :: "string list" where
  "FOCUS_SESSION_TYPES = [''work'', ''short_break'', ''long_break'', ''free'', ''countdown'']"

definition FOCUS_BREAK_TYPES :: "string list" where
  "FOCUS_BREAK_TYPES = [''short_break'', ''long_break'']"

definition DEFAULT_SESSION_TYPE :: string where
  "DEFAULT_SESSION_TYPE = ''work''"

definition require_session_type :: "json \<Rightarrow> string res" where
  "require_session_type v =
     (case v of
        JNull \<Rightarrow> Inr DEFAULT_SESSION_TYPE
      | JStr s \<Rightarrow> if s \<in> set FOCUS_SESSION_TYPES then Inr s
          else violate ''work_item_structure_changed'' [(''reason'', JStr ''invalid_session_type''), (''value'', v)] False
      | _ \<Rightarrow> violate ''work_item_structure_changed'' [(''reason'', JStr ''invalid_session_type''), (''value'', v)] False)"

definition session_type_of :: "row \<Rightarrow> string" where
  "session_type_of r = str_of (or_else (get r ''session_type'') (JStr DEFAULT_SESSION_TYPE))"

definition is_break_session :: "row \<Rightarrow> bool" where
  "is_break_session r = (session_type_of r \<in> set FOCUS_BREAK_TYPES)"

section \<open>Time stamps\<close>

abbreviation conflict :: "string \<Rightarrow> exc" where
  "conflict reason \<equiv> violation ''version_conflict'' [(''reason'', JStr reason)] False"

abbreviation field_conflict :: "string \<Rightarrow> string \<Rightarrow> exc" where
  "field_conflict reason field \<equiv>
     violation ''version_conflict'' [(''reason'', JStr reason), (''field'', JStr field)] False"

definition require_canonical_timestamp :: "json \<Rightarrow> string res" where
  "require_canonical_timestamp v =
     (case v of
        JStr s \<Rightarrow> (case validate_canonical_timestamp v of
            Inr _ \<Rightarrow> Inr s
          | Inl _ \<Rightarrow> Inl (conflict ''invalid_timestamp''))
      | _ \<Rightarrow> Inl (conflict ''invalid_timestamp''))"

definition non_regressing_timestamp :: "json \<Rightarrow> string \<Rightarrow> string res" where
  "non_regressing_timestamp current requested =
     (case current of
        JStr c \<Rightarrow>
          if c = [] then Inr requested
          else (case validate_canonical_timestamp current of
              Inl _ \<Rightarrow> Inr requested
            | Inr _ \<Rightarrow>
                rbind (parse_timestamp requested) (\<lambda>r.
                rbind (parse_timestamp c) (\<lambda>p.
                Inr (if instant r < instant p then c else requested))))
      | _ \<Rightarrow> Inr requested)"

definition lifecycle_fields :: "string list" where
  "lifecycle_fields = [''started_at'', ''pause_started_at'', ''ended_at'', ''updated_at'']"

definition persisted_instant :: "row \<Rightarrow> string \<Rightarrow> int list res" where
  "persisted_instant current field =
     (case get current field of
        JNull \<Rightarrow> Inr []
      | JStr s \<Rightarrow> (case rbind (validate_canonical_timestamp (JStr s)) (\<lambda>_. parse_timestamp s) of
            Inr t \<Rightarrow> Inr [instant t]
          | Inl _ \<Rightarrow> Inl (field_conflict ''invalid_timestamp'' field))
      | _ \<Rightarrow> Inl (field_conflict ''invalid_timestamp'' field))"

definition require_non_regressing_timestamp :: "row \<Rightarrow> string \<Rightarrow> unit res" where
  "require_non_regressing_timestamp current occurred_at =
     rbind (parse_timestamp occurred_at) (\<lambda>occurred.
     rbind (rmap (persisted_instant current) lifecycle_fields) (\<lambda>found.
     let persisted = concat found in
     require (\<not> (persisted \<noteq> [] \<and> instant occurred < Max (set persisted))) (conflict ''time_regression'')))"

text \<open>\<open>(end - start) // timedelta(seconds=1)\<close>.\<close>

definition integer_seconds_between :: "string \<Rightarrow> string \<Rightarrow> int res" where
  "integer_seconds_between start_iso end_iso =
     rbind (parse_timestamp start_iso) (\<lambda>start.
     rbind (parse_timestamp end_iso) (\<lambda>stop.
     Inr ((instant stop - instant start) div 1000000)))"

section \<open>Counters\<close>

definition strict_counter :: "row \<Rightarrow> string \<Rightarrow> int res" where
  "strict_counter r field =
     (case get r field of
        JInt n \<Rightarrow> if n < 0 then Inl (field_conflict ''invalid_duration'' field) else Inr n
      | _ \<Rightarrow> Inl (field_conflict ''invalid_duration'' field))"

definition focused_seconds :: "row \<Rightarrow> int res" where
  "focused_seconds r =
     (if is_break_session r
      then rbind (strict_counter r ''gross_seconds'') (\<lambda>_.
           rbind (strict_counter r ''paused_seconds'') (\<lambda>_.
           rbind (strict_counter r ''break_seconds'') (\<lambda>_. Inr 0)))
      else rbind (strict_counter r ''gross_seconds'') (\<lambda>gross.
           rbind (strict_counter r ''paused_seconds'') (\<lambda>paused.
           rbind (strict_counter r ''break_seconds'') (\<lambda>breaks.
           rbind (require (paused + breaks \<le> gross) (conflict ''invalid_duration'')) (\<lambda>_.
           Inr (max 0 (gross - paused - breaks)))))))"

definition validate_duration_row :: "row \<Rightarrow> unit res" where
  "validate_duration_row r =
     rbind (strict_counter r ''planned_seconds'') (\<lambda>planned.
     rbind (require (0 < planned) (field_conflict ''invalid_duration'' ''planned_seconds'')) (\<lambda>_.
     rbind (focused_seconds r) (\<lambda>expected.
     rbind (strict_counter r ''focused_seconds'') (\<lambda>focused.
     require (focused = expected) (field_conflict ''invalid_duration'' ''focused_seconds'')))))"

section \<open>The transition\<close>

text \<open>The stamp and the break seconds a client may report.\<close>

definition clock_start :: "row \<Rightarrow> string \<Rightarrow> row \<Rightarrow> row res" where
  "clock_start current occurred_at payload =
     (let after = updates current [(''updated_at'', JStr occurred_at)] in
      case fmlookup payload ''break_seconds'' of
        None \<Rightarrow> Inr after
      | Some v \<Rightarrow> (case v of
            JInt n \<Rightarrow> if n < 0 then Inl (field_conflict ''invalid_duration'' ''break_seconds'')
              else Inr (updates after [(''break_seconds'', v)])
          | _ \<Rightarrow> Inl (field_conflict ''invalid_duration'' ''break_seconds'')))"

text \<open>The last two lines of every branch: elapsed and focused seconds.\<close>

definition with_elapsed :: "row \<Rightarrow> string \<Rightarrow> string \<Rightarrow> row res" where
  "with_elapsed after started_at occurred_at =
     rbind (integer_seconds_between started_at occurred_at) (\<lambda>gross.
     let after = updates after [(''gross_seconds'', JInt gross)] in
     rbind (focused_seconds after) (\<lambda>focused.
     Inr (updates after [(''focused_seconds'', JInt focused)])))"

text \<open>A pause that is over is added to the paused seconds.\<close>

definition close_pause :: "row \<Rightarrow> row \<Rightarrow> string \<Rightarrow> row res" where
  "close_pause current after occurred_at =
     rbind (integer_seconds_between (str_of (get current ''pause_started_at'')) occurred_at) (\<lambda>elapsed_pause.
     Inr (updates after
       [(''paused_seconds'', JInt (int_of (get_or current ''paused_seconds'' (JInt 0)) + elapsed_pause)),
        (''pause_started_at'', JNull)]))"

definition clock_pause :: "row \<Rightarrow> row \<Rightarrow> string \<Rightarrow> string \<Rightarrow> row res" where
  "clock_pause current after started_at occurred_at =
     rbind (require (get current ''pause_started_at'' = JNull \<and> get current ''ended_at'' = JNull)
              (conflict ''not_running'')) (\<lambda>_.
     with_elapsed (updates after [(''pause_started_at'', JStr occurred_at)]) started_at occurred_at)"

definition clock_resume :: "row \<Rightarrow> row \<Rightarrow> string \<Rightarrow> string \<Rightarrow> row res" where
  "clock_resume current after started_at occurred_at =
     rbind (require (get current ''pause_started_at'' \<noteq> JNull \<and> get current ''ended_at'' = JNull)
              (conflict ''not_paused'')) (\<lambda>_.
     rbind (close_pause current after occurred_at) (\<lambda>after.
     with_elapsed after started_at occurred_at))"

text \<open>How the session ended, as the client says, and the review that is now due.\<close>

definition end_outcome :: "row \<Rightarrow> row \<Rightarrow> row \<Rightarrow> row res" where
  "end_outcome current after payload =
     (let completion = str_of (get_or payload ''timer_completion''
            (or_else (get current ''timer_completion'') (JStr ''completed'')));
          validity = str_of (get_or payload ''validity'' (get_or current ''validity'' (JStr ''pending'')));
          after = updates after
            [(''timer_completion'', JStr completion), (''validity'', JStr validity),
             (''validity_reason'', get_or payload ''validity_reason'' (get current ''validity_reason''))] in
      rbind (require (completion \<in> {''completed'', ''ended_early'', ''interrupted''})
               (conflict ''invalid_timer_completion'')) (\<lambda>_.
      rbind (require (validity \<in> {''pending'', ''valid'', ''invalid''}) (conflict ''invalid_validity'')) (\<lambda>_.
      Inr (if get current ''review_state'' = JStr ''not_required'' \<and> \<not> is_break_session after
           then updates after [(''review_state'', JStr ''pending'')] else after))))"

definition clock_end :: "row \<Rightarrow> row \<Rightarrow> string \<Rightarrow> string \<Rightarrow> row \<Rightarrow> row res" where
  "clock_end current after started_at occurred_at payload =
     rbind (require (get current ''ended_at'' = JNull) (conflict ''already_ended'')) (\<lambda>_.
     rbind (if get current ''pause_started_at'' \<noteq> JNull then close_pause current after occurred_at
            else Inr after) (\<lambda>after.
     rbind (with_elapsed (updates after [(''ended_at'', JStr occurred_at)]) started_at occurred_at) (\<lambda>after.
     end_outcome current after payload)))"

text \<open>The net time of a break session belongs to its break seconds.\<close>

definition settle_break :: "row \<Rightarrow> row" where
  "settle_break after =
     (if is_break_session after
      then updates after
        [(''break_seconds'', JInt (max 0 (int_of (get_or after ''gross_seconds'' (JInt 0)) -
            int_of (get_or after ''paused_seconds'' (JInt 0))))),
         (''focused_seconds'', JInt 0)]
      else after)"

definition clock_transition_after :: "row \<Rightarrow> string \<Rightarrow> string \<Rightarrow> row \<Rightarrow> row res" where
  "clock_transition_after current action occurred_at payload =
     rbind (require_canonical_timestamp (JStr occurred_at)) (\<lambda>_.
     rbind (require_non_regressing_timestamp current occurred_at) (\<lambda>_.
     rbind (validate_duration_row current) (\<lambda>_.
     rbind (clock_start current occurred_at payload) (\<lambda>after.
     let started_at = str_of (get_or current ''started_at'' (JStr [])) in
     rbind (require_canonical_timestamp (JStr started_at)) (\<lambda>_.
     rbind (if action = ''pause'' then clock_pause current after started_at occurred_at
            else if action = ''resume'' then clock_resume current after started_at occurred_at
            else if action = ''end'' then clock_end current after started_at occurred_at payload
            else Inl (conflict ''unsupported_clock_action'')) (\<lambda>after.
     let after = settle_break after in
     rbind (validate_duration_row after) (\<lambda>_. Inr after)))))))"

end
