(* ===== verification/Effort.thy ===== *)
theory Effort
  imports RowCommands SessionClock
begin

text \<open>
  The effort projection (\<open>app/focus_session/effort_projection.py\<close>, and the parts of
  \<open>app/focus_session/policy.py\<close> that write it): the focused seconds of the ended, valid and authoritative
  sessions are summed up per work item, and the sum is stored in the column \<open>effort_actual_seconds\<close> of the item.

  An override of the attributions of a session is the list of its rows after the change; the values that the
  code refuses as overrides (no row and no sequence of rows) have no counterpart here. The columns that \<open>int\<close>
  reads are integers, as the registry declares them.
\<close>

section \<open>Rows\<close>

text \<open>\<open>str(row.get(k, ""))\<close>.\<close>

definition text_of :: "row \<Rightarrow> string \<Rightarrow> string" where
  "text_of r k = str_of (get_or r k (JStr []))"

section \<open>The sums\<close>

definition SAFE_INTEGER_MAX :: int where
  "SAFE_INTEGER_MAX = 9007199254740991"

text \<open>The loop of \<open>_work_item_depth\<close>, which gives up below the third level.\<close>

function depth_loop :: "overlay \<Rightarrow> nat \<Rightarrow> json \<Rightarrow> nat" where
  "depth_loop ov depth parent_id =
     (if parent_id = JNull then depth
      else case ov_row ov ''work_item'' [JStr (str_of parent_id)] of
          None \<Rightarrow> depth
        | Some parent \<Rightarrow> if depth + 1 > 3 then depth + 1 else depth_loop ov (depth + 1) (get parent ''parent_id''))"
  by pat_completeness auto

termination depth_loop
  by (relation "measure (\<lambda>(ov, depth, parent). 4 - depth)") auto

declare depth_loop.simps [simp del]

definition effort_depth :: "overlay \<Rightarrow> row \<Rightarrow> nat" where
  "effort_depth ov r = depth_loop ov 1 (get r ''parent_id'')"

definition effective_of :: "row list \<Rightarrow> string \<Rightarrow> row list" where
  "effective_of attributions session_id =
     filter (\<lambda>a. get a ''effective'' = JBool True \<and> text_of a ''session_id'' = session_id) attributions"

text \<open>Only ended, valid, authoritative sessions that are no breaks contribute.\<close>

definition contributes :: "row \<Rightarrow> bool" where
  "contributes session = (\<not> is_break_session session \<and> get session ''ended_at'' \<noteq> JNull \<and>
     get session ''validity'' = JStr ''valid'' \<and> get session ''ownership_state'' = JStr ''authoritative'')"

text \<open>The checks of a contributing session: the target of its attribution and its seconds.\<close>

definition effort_target :: "overlay \<Rightarrow> row \<Rightarrow> row \<Rightarrow> (string \<times> int) res" where
  "effort_target ov session attribution =
     (let target = text_of attribution ''level2_work_item_id''; project = text_of attribution ''project_id'' in
      case ov_row ov ''work_item'' [JStr target] of
        None \<Rightarrow> violate ''not_found''
          [(''entityId'', JStr target), (''reason'', JStr ''attribution_target_missing'')] False
      | Some work_item \<Rightarrow>
          rbind (require (effort_depth ov work_item = 2) (violation ''invalid_work_item_tree''
             [(''reason'', JStr ''attribution_target_not_level2''), (''entityId'', JStr target)] False)) (\<lambda>_.
          let item_project = text_of work_item ''project_id'' in
          rbind (require (\<not> (project \<noteq> [] \<and> item_project \<noteq> [] \<and> project \<noteq> item_project))
             (violation ''invalid_work_item_tree'' [(''reason'', JStr ''attribution_target_cross_project''),
                (''entityId'', JStr target), (''attributionProjectId'', JStr project),
                (''workItemProjectId'', JStr item_project)] False)) (\<lambda>_.
          let refused = violation ''version_conflict'' [(''reason'', JStr ''invalid_focused_seconds''),
                (''sessionId'', JStr (text_of session ''id'')), (''value'', get session ''focused_seconds'')] False in
          case get session ''focused_seconds'' of
            JInt focused \<Rightarrow> if focused < 0 then Inl refused else Inr (target, focused)
          | _ \<Rightarrow> Inl refused)))"

definition effort_step :: "overlay \<Rightarrow> row list \<Rightarrow> (string, int) fmap \<Rightarrow> row \<Rightarrow> (string, int) fmap res" where
  "effort_step ov attributions effort session =
     (let session_id = text_of session ''id''; effective = effective_of attributions session_id in
      rbind (require (length effective \<le> 1) (violation ''work_item_structure_changed''
         [(''reason'', JStr ''multiple_effective_attribution''), (''sessionId'', JStr session_id)] False)) (\<lambda>_.
      rbind (require (effective \<noteq> []) (violation ''work_item_structure_changed''
         [(''reason'', JStr ''no_effective_attribution''), (''sessionId'', JStr session_id)] False)) (\<lambda>_.
      if \<not> contributes session then Inr effort
      else rbind (effort_target ov session (hd effective)) (\<lambda>(target, focused).
        let total = (case fmlookup effort target of None \<Rightarrow> 0 | Some n \<Rightarrow> n) + focused in
        rbind (require (total \<le> SAFE_INTEGER_MAX) (violation ''version_conflict''
           [(''reason'', JStr ''effort_total_unsafe_integer''), (''workItemId'', JStr target)] False)) (\<lambda>_.
        Inr (fmupd target total effort))))))"

definition overridden :: "(string \<times> row) list \<Rightarrow> row \<Rightarrow> row" where
  "overridden overrides session = (case map_of overrides (text_of session ''id'') of None \<Rightarrow> session | Some r \<Rightarrow> r)"

definition compute_effort_map ::
    "overlay \<Rightarrow> (string \<times> row) list \<Rightarrow> (string \<times> row list) list \<Rightarrow> (string, int) fmap res" where
  "compute_effort_map ov session_overrides attribution_overrides =
     rbind (ov_rows ov ''focus_session'') (\<lambda>raw_sessions.
     rbind (ov_rows ov ''session_attribution_revision'') (\<lambda>raw_attributions.
     let sessions = map (overridden session_overrides) raw_sessions;
         attributions = filter (\<lambda>a. text_of a ''session_id'' \<notin> fst ` set attribution_overrides) raw_attributions @
           concat (map snd attribution_overrides) in
     rfold (effort_step ov attributions) fmempty sessions))"

definition effort_of :: "(string, int) fmap \<Rightarrow> string \<Rightarrow> int" where
  "effort_of effort i = (case fmlookup effort i of None \<Rightarrow> 0 | Some n \<Rightarrow> n)"

definition compute_effort_for_work_item ::
    "overlay \<Rightarrow> string \<Rightarrow> (string \<times> row) list \<Rightarrow> (string \<times> row list) list \<Rightarrow> int res" where
  "compute_effort_for_work_item ov work_item_id session_overrides attribution_overrides =
     rbind (compute_effort_map ov session_overrides attribution_overrides) (\<lambda>effort. Inr (effort_of effort work_item_id))"

definition collect_affected_work_item_ids :: "overlay \<Rightarrow> string \<Rightarrow> string list res" where
  "collect_affected_work_item_ids ov session_id =
     rbind (ov_rows ov ''session_attribution_revision'') (\<lambda>attributions.
     Inr (sort (remdups (filter (\<lambda>i. i \<noteq> [] \<and> ov_row ov ''work_item'' [JStr i] \<noteq> None)
       (map (\<lambda>a. str_of (or_else (get a ''level2_work_item_id'') (JStr [])))
         (filter (\<lambda>a. str_of (get a ''session_id'') = session_id) attributions))))))"

section \<open>Plans and events\<close>

definition expected_of :: "row \<Rightarrow> int option" where
  "expected_of before = (case get before ''version'' of JInt n \<Rightarrow> Some n | JBool b \<Rightarrow> Some (of_bool b) | _ \<Rightarrow> None)"

definition insert_plan :: "ctx \<Rightarrow> string \<Rightarrow> row \<Rightarrow> db_plan res" where
  "insert_plan cx t r =
     (case catalog_get (cx_catalog cx) t of
        None \<Rightarrow> Inl (KeyErr t)
      | Some spec \<Rightarrow> DbMutationPlan (es_table_name spec)
          (dict [(es_primary_key spec, fld r (es_primary_key spec))]) Insert None None (Some r))"

definition update_plan :: "ctx \<Rightarrow> string \<Rightarrow> row \<Rightarrow> row \<Rightarrow> db_plan res" where
  "update_plan cx t before after =
     (case catalog_get (cx_catalog cx) t of
        None \<Rightarrow> Inl (KeyErr t)
      | Some spec \<Rightarrow> DbMutationPlan (es_table_name spec)
          (dict [(es_primary_key spec, fld after (es_primary_key spec))]) Update (expected_of before) (Some before) (Some after))"

definition create_sync :: "string \<Rightarrow> row \<Rightarrow> string \<Rightarrow> sync_event res" where
  "create_sync t r timestamp =
     SyncEventPlan t (text_of r ''id'') EvCreate r (JInt (int_of (get_or r ''version'' (JInt 1)))) (JStr timestamp)"

definition update_sync :: "string \<Rightarrow> row \<Rightarrow> string \<Rightarrow> sync_event res" where
  "update_sync t r timestamp =
     SyncEventPlan t (text_of r ''id'') EvUpdate r (JInt (int_of (get_or r ''version'' (JInt 1)))) (JStr timestamp)"

definition row_update :: "ctx \<Rightarrow> string \<Rightarrow> row \<Rightarrow> row \<Rightarrow> string \<Rightarrow> (db_plan \<times> sync_event) res" where
  "row_update cx t before after timestamp =
     rbind (update_plan cx t before after) (\<lambda>plan.
     rbind (update_sync t after timestamp) (\<lambda>event. Inr (plan, event)))"

section \<open>Writing the sums\<close>

text \<open>One work item: nothing when its sum is as stored.\<close>

definition effort_update :: "ctx \<Rightarrow> string \<Rightarrow> string \<Rightarrow> (string \<times> row) list \<Rightarrow> (string \<times> row list) list \<Rightarrow> string \<Rightarrow>
    (db_plan \<times> sync_event) option res" where
  "effort_update cx missing now session_overrides attribution_overrides work_item_id =
     (case ov_row (cx_overlay cx) ''work_item'' [JStr work_item_id] of
        None \<Rightarrow> violate ''not_found'' [(''entityId'', JStr work_item_id), (''reason'', JStr missing)] False
      | Some work_item \<Rightarrow>
          rbind (compute_effort_for_work_item (cx_overlay cx) work_item_id session_overrides attribution_overrides) (\<lambda>effort.
          if int_of (get_or work_item ''effort_actual_seconds'' (JInt 0)) = effort then Inr None
          else rbind (non_regressing_timestamp (get work_item ''updated_at'') now) (\<lambda>stamp.
            let after = updates work_item [(''effort_actual_seconds'', JInt effort), (''updated_at'', JStr stamp),
                  (''version'', JInt (int_of (get_or work_item ''version'' (JInt 1)) + 1))] in
            rbind (row_update cx ''work_item'' work_item after stamp) (\<lambda>u. Inr (Some u)))))"

definition recalc_effort_for_targets :: "ctx \<Rightarrow> string list \<Rightarrow> string \<Rightarrow> (string \<times> row) list \<Rightarrow>
    (string \<times> row list) list \<Rightarrow> (db_plan \<times> sync_event) list res" where
  "recalc_effort_for_targets cx targets now session_overrides attribution_overrides =
     rbind (rmap (effort_update cx ''effort_target_missing'' now session_overrides attribution_overrides) targets) (\<lambda>us.
     Inr (List.map_filter id us))"

definition compile_rebuild_effort_impl :: "ctx \<Rightarrow> request \<Rightarrow> command res" where
  "compile_rebuild_effort_impl cx rq =
     rbind (require_space cx (text_of (rq_payload rq) ''space_id'')) (\<lambda>_.
     let now = str_of (get_or (rq_payload rq) ''requested_at'' (JStr ''2026-07-15T12:00:00Z'')) in
     rbind (require_canonical_timestamp (JStr now)) (\<lambda>_.
     rbind (case get (rq_payload rq) ''work_item_id'' of
              JNull \<Rightarrow> rbind (ov_rows (cx_overlay cx) ''work_item'') (\<lambda>rows. Inr (map (\<lambda>r. str_of (get r ''id'')) rows))
            | v \<Rightarrow> Inr [str_of v]) (\<lambda>targets.
     rbind (rmap (effort_update cx ''rebuild_target_missing'' now [] []) targets) (\<lambda>us.
     let repaired = List.map_filter id us; count = JInt (int (length repaired)) in
     cx_command cx rq (map fst repaired) (map snd repaired)
       (dict [(''rebuilt'', JBool True), (''count'', count), (''mismatches_repaired'', count)]) None))))"

definition compile_rebuild_effort :: "ctx \<Rightarrow> request \<Rightarrow> command res" where
  "compile_rebuild_effort cx rq =
     rbind (case get (rq_payload rq) ''payload_hash'' of
              JNull \<Rightarrow> Inr ()
            | v \<Rightarrow> (case require_payload_hash (cx_digests cx) (str_of v)
                  (fmdrop ''space_id'' (fmdrop ''payload_hash'' (rq_payload rq))) of
                Inl (ValueErr m) \<Rightarrow> violate ''invalid_payload_hash'' [(''reason'', JStr ''body_hash_mismatch'')] False
              | checked \<Rightarrow> checked)) (\<lambda>_.
     compile_rebuild_effort_impl cx rq)"

end
