(* ===== verification/FocusSession.thy ===== *)
theory FocusSession
  imports Effort
begin

text \<open>
  The commands of a Focus Session (\<open>FocusSessionMutationPolicy\<close> of \<open>app/focus_session/policy.py\<close>): the claim
  on the active session, the start of a session, the commands of its clock, the note, the correction of its
  attribution, and the rows and values these commands build.

  The locator reader is injected into the policy; what it returns for a request, a row or nothing, is the
  parameter \<open>locator\<close>.
\<close>

section \<open>The claim on the active session\<close>

definition snake_to_camel :: "string \<Rightarrow> string" where
  "snake_to_camel name = (case map_of
     [(''space_id'', ''spaceId''), (''session_id'', ''sessionId''), (''operation_id'', ''operationId''),
      (''owner_device_id'', ''ownerDeviceId''), (''owner_tab_id'', ''ownerTabId''),
      (''ownership_epoch'', ''ownershipEpoch'')] name of None \<Rightarrow> name | Some n \<Rightarrow> n)"

definition locator_value :: "row \<Rightarrow> string \<Rightarrow> json" where
  "locator_value r name = get_or r name (get r (snake_to_camel name))"

definition reject_activation_conflict :: "row \<Rightarrow> unit res" where
  "reject_activation_conflict session =
     require (get session ''ownership_state'' \<noteq> JStr ''activation_conflict'')
       (violation ''session_activation_conflict''
          [(''sessionId'', get session ''id''), (''reason'', JStr ''conflict_read_only'')] False)"

definition session_id_of :: "request \<Rightarrow> string" where
  "session_id_of rq = str_of (get_or (rq_payload rq) ''session_id'' (JStr (rq_entity_id rq)))"

definition require_locator_claim :: "ctx \<Rightarrow> request \<Rightarrow> row option \<Rightarrow> bool \<Rightarrow> row res" where
  "require_locator_claim cx rq locator require_owner =
     (let payload = rq_payload rq; epoch = get payload ''ownership_epoch'';
          stale = violation ''stale_session_owner''
            [(''sessionId'', JStr (rq_entity_id rq)), (''operationId'', JStr (cx_operation_id cx))] False in
      case locator of
        None \<Rightarrow> Inl stale
      | Some r \<Rightarrow>
          rbind (require (locator_value r ''state'' = JStr ''claiming'' \<and>
                    locator_value r ''operation_id'' = JStr (cx_operation_id cx) \<and>
                    py_eq (locator_value r ''space_id'') (get payload ''space_id'') \<and>
                    py_eq (locator_value r ''session_id'') (get_or payload ''session_id'' (JStr (rq_entity_id rq))) \<and>
                    (epoch = JNull \<or> py_eq (locator_value r ''ownership_epoch'') epoch)) stale) (\<lambda>_.
          rbind (if require_owner
                 then rforeach (\<lambda>name. require (get payload name = JNull \<or> py_eq (get payload name) (locator_value r name))
                        (violation ''stale_session_owner''
                           [(''sessionId'', JStr (rq_entity_id rq)), (''reason'', JStr name)] False))
                        [''owner_device_id'', ''owner_tab_id'']
                 else Inr ()) (\<lambda>_.
          Inr r)))"

section \<open>Rows\<close>

text \<open>\<open>dict(row)\<close> in a result: the columns named, as JSON object.\<close>

definition camel :: "row \<Rightarrow> (string \<times> string) list \<Rightarrow> (string \<times> json) list" where
  "camel r = map (\<lambda>(name, column). (name, get r column))"

definition stamps_json :: "row \<Rightarrow> string \<Rightarrow> (string \<times> json) list" where
  "stamps_json r space_id = [(''id'', get r ''id''), (''spaceId'', get_or r ''space_id'' (JStr space_id)),
     (''createdAt'', get r ''created_at''), (''updatedAt'', get r ''updated_at''), (''version'', get r ''version'')]"

definition to_camel_session :: "row \<Rightarrow> string \<Rightarrow> json" where
  "to_camel_session r space_id = JObj (stamps_json r space_id @
     [(''sessionRevision'', get r ''session_revision''),
      (''sessionType'', or_else (get r ''session_type'') (JStr DEFAULT_SESSION_TYPE))] @
     camel r [(''startedAt'', ''started_at''), (''endedAt'', ''ended_at''), (''pauseStartedAt'', ''pause_started_at''),
       (''plannedSeconds'', ''planned_seconds''), (''grossSeconds'', ''gross_seconds''),
       (''pausedSeconds'', ''paused_seconds''), (''breakSeconds'', ''break_seconds''),
       (''focusedSeconds'', ''focused_seconds''), (''timerCompletion'', ''timer_completion''),
       (''validity'', ''validity''), (''validityReason'', ''validity_reason''),
       (''overallProgress'', ''overall_progress''), (''mood'', ''mood''), (''sessionNote'', ''session_note''),
       (''reviewState'', ''review_state''), (''ownershipState'', ''ownership_state'')])"

definition to_camel_attribution :: "row \<Rightarrow> string \<Rightarrow> json" where
  "to_camel_attribution r space_id = JObj (stamps_json r space_id @
     camel r [(''sessionId'', ''session_id''), (''revision'', ''revision''), (''projectId'', ''project_id''),
       (''level2WorkItemId'', ''level2_work_item_id''), (''reason'', ''reason''),
       (''correctedFromRevision'', ''corrected_from_revision''), (''effective'', ''effective'')])"

text \<open>A stored snapshot, read back; anything but an object counts as empty.\<close>

definition snapshot_mapping :: "row \<Rightarrow> (string \<times> json) list" where
  "snapshot_mapping r = (case get r ''structure_snapshot'' of
       JStr s \<Rightarrow> (case json_loads s of Some (JObj kvs) \<Rightarrow> kvs | _ \<Rightarrow> [])
     | _ \<Rightarrow> [])"

definition member_or :: "(string \<times> json) list \<Rightarrow> string \<Rightarrow> json \<Rightarrow> json" where
  "member_or kvs k d = (case map_of kvs k of None \<Rightarrow> d | Some v \<Rightarrow> v)"

definition object_member :: "(string \<times> json) list \<Rightarrow> string \<Rightarrow> (string \<times> json) list" where
  "object_member kvs k = (case map_of kvs k of Some (JObj vs) \<Rightarrow> vs | _ \<Rightarrow> [])"

definition to_camel_context :: "row \<Rightarrow> string \<Rightarrow> json" where
  "to_camel_context r space_id =
     (let snapshot = snapshot_mapping r; project = object_member snapshot ''project'';
          level2 = object_member snapshot ''level2'' in
      JObj (stamps_json r space_id @
       [(''sessionId'', get r ''session_id''), (''projectId'', get r ''project_id''),
        (''level2WorkItemId'', get r ''level2_work_item_id''),
        (''projectTitleSnapshot'', or_else (member_or project ''name'' JNull) (get r ''project_title_snapshot'')),
        (''level2TitleSnapshot'', or_else (member_or level2 ''title'' JNull) (get r ''title_snapshot'')),
        (''level2ParentIdSnapshot'', member_or level2 ''parent_id'' (get r ''parent_snapshot'')),
        (''level2StatusDefinitionIdSnapshot'',
           or_else (member_or level2 ''status_definition_id'' JNull) (get r ''status_snapshot'')),
        (''level2VersionSnapshot'', member_or level2 ''version'' (get_or r ''level2_version_snapshot'' (JInt 0))),
        (''level2EffortLowerSecondsSnapshot'', member_or level2 ''effort_estimate_lower_seconds'' (get r ''effort_lower'')),
        (''level2EffortUpperSecondsSnapshot'', member_or level2 ''effort_estimate_upper_seconds''
           (get_or r ''effort_upper'' (get r ''estimate_snapshot''))),
        (''linkedAt'', get r ''linked_at''),
        (''linkMethod'', if get r ''link_method'' = JStr ''manual'' then JStr ''explicit'' else get r ''link_method'')]))"

definition to_camel_plan :: "row \<Rightarrow> string \<Rightarrow> (string \<times> json) list \<Rightarrow> json" where
  "to_camel_plan r space_id snapshot =
     (let frozen = object_member (object_member snapshot ''plan'') (str_of (get r ''work_item_id'')) in
      JObj (stamps_json r space_id @
       [(''sessionId'', get r ''session_id''), (''workItemId'', get r ''work_item_id''),
        (''titleSnapshot'', get r ''title_snapshot''),
        (''level2WorkItemIdSnapshot'', member_or frozen ''parent_id'' (get r ''level2_snapshot'')),
        (''workItemVersionSnapshot'', get_or r ''work_item_version_snapshot'' (member_or frozen ''version'' JNull))] @
       camel r [(''planRank'', ''plan_rank''), (''source'', ''source''), (''addedAt'', ''added_at''),
         (''removedAt'', ''removed_at''), (''removalReason'', ''removal_reason''),
         (''currentDuringSession'', ''current_during_session''), (''completionDraft'', ''completion_draft'')]))"

text \<open>The rows a session is made of.\<close>

definition focus_session_row :: "string \<Rightarrow> string \<Rightarrow> string \<Rightarrow> int \<Rightarrow> row" where
  "focus_session_row i session_type started_at planned_seconds = dict
     [(''id'', JStr i), (''created_at'', JStr started_at), (''updated_at'', JStr started_at), (''version'', JInt 1),
      (''session_revision'', JInt 1), (''session_type'', JStr session_type), (''started_at'', JStr started_at),
      (''ended_at'', JNull), (''pause_started_at'', JNull), (''planned_seconds'', JInt planned_seconds),
      (''gross_seconds'', JInt 0), (''paused_seconds'', JInt 0), (''break_seconds'', JInt 0),
      (''focused_seconds'', JInt 0), (''timer_completion'', JNull), (''validity'', JStr ''pending''),
      (''validity_reason'', JNull), (''overall_progress'', JNull), (''mood'', JNull), (''session_note'', JStr []),
      (''review_state'', JStr ''not_required''), (''ownership_state'', JStr ''authoritative'')]"

definition attribution_row ::
    "string \<Rightarrow> int \<Rightarrow> string \<Rightarrow> string \<Rightarrow> json \<Rightarrow> json \<Rightarrow> string \<Rightarrow> row" where
  "attribution_row session_id revision project_id level2_id reason corrected_from now = dict
     [(''id'', JStr (''attr-'' @ session_id @ ''-'' @ int_text revision)), (''created_at'', JStr now),
      (''updated_at'', JStr now), (''version'', JInt 1), (''session_id'', JStr session_id), (''revision'', JInt revision),
      (''project_id'', JStr project_id), (''level2_work_item_id'', JStr level2_id), (''reason'', reason),
      (''corrected_from_revision'', corrected_from), (''effective'', JBool True)]"

definition plan_row_id :: "digests \<Rightarrow> string \<Rightarrow> string \<Rightarrow> string" where
  "plan_row_id dg session_id work_item_id =
     take 32 (sha256_hex dg (''session-plan-v1'' @ [CHR 0x00] @ session_id @ [CHR 0x00] @ work_item_id))"

definition plan_row :: "digests \<Rightarrow> string \<Rightarrow> string \<Rightarrow> string \<Rightarrow> json \<Rightarrow> int \<Rightarrow> int \<Rightarrow> string \<Rightarrow> string \<Rightarrow> bool \<Rightarrow>
    string \<Rightarrow> row" where
  "plan_row dg session_id work_item_id title level2 item_version rank source added_at current now = dict
     [(''id'', JStr (plan_row_id dg session_id work_item_id)), (''created_at'', JStr now), (''updated_at'', JStr now),
      (''version'', JInt 1), (''session_id'', JStr session_id), (''work_item_id'', JStr work_item_id),
      (''title_snapshot'', JStr title), (''level2_snapshot'', level2), (''work_item_version_snapshot'', JInt item_version),
      (''plan_rank'', JInt rank), (''source'', JStr source), (''added_at'', JStr added_at), (''removed_at'', JNull),
      (''removal_reason'', JNull), (''current_during_session'', JBool current), (''completion_draft'', JBool False)]"

definition WORK_ITEM_FROZEN_FIELDS :: "string list" where
  "WORK_ITEM_FROZEN_FIELDS =
     [''id'', ''created_at'', ''project_id'', ''display_key'', ''title'', ''description'', ''type_definition_id'',
      ''status_definition_id'', ''priority'', ''parent_id'', ''child_rank'', ''completion_window_start'',
      ''completion_window_end'', ''review_point'', ''hard_deadline'', ''effort_estimate_lower_seconds'',
      ''effort_estimate_upper_seconds'', ''effort_actual_seconds'', ''confidence'', ''completed_at'', ''cancelled_at'',
      ''archived_at'', ''marked_as_attention'', ''version'']"

definition PROJECT_FROZEN_FIELDS :: "string list" where
  "PROJECT_FROZEN_FIELDS =
     [''id'', ''created_at'', ''key'', ''name'', ''description'', ''rank'', ''default_status_definition_id'',
      ''default_type_definition_id'', ''archived_at'', ''version'']"

definition identity_snapshot :: "string list \<Rightarrow> row \<Rightarrow> json" where
  "identity_snapshot fs r = JObj (map (\<lambda>f. (f, if f = ''id'' then JStr (str_of (get r f)) else get r f)) fs)"

text \<open>The plan of the snapshot is a dictionary under the identifiers; a later row of the same identifier wins.\<close>

definition put_member :: "string \<Rightarrow> json \<Rightarrow> (string \<times> json) list \<Rightarrow> (string \<times> json) list" where
  "put_member k v kvs = AList.update k v kvs"

definition work_item_structure_snapshot :: "row option \<Rightarrow> row option list \<Rightarrow> row option \<Rightarrow> string" where
  "work_item_structure_snapshot level2 level3_rows project =
     (case level2 of
        None \<Rightarrow> ''{}''
      | Some l2 \<Rightarrow>
          let plan = fold (\<lambda>r. put_member (str_of (fld r ''id'')) (identity_snapshot WORK_ITEM_FROZEN_FIELDS r))
                (filter (\<lambda>r. truthy (get r ''id'')) (List.map_filter id level3_rows)) [] in
          canonical_ascii (JObj
            [(''project'', case project of None \<Rightarrow> JObj [] | Some p \<Rightarrow> identity_snapshot PROJECT_FROZEN_FIELDS p),
             (''level2'', identity_snapshot WORK_ITEM_FROZEN_FIELDS l2), (''plan'', JObj plan)]))"

section \<open>Starting a session\<close>

text \<open>\<open>_work_item_depth\<close> of the policy, which fails on a cycle or a missing parent.\<close>

function policy_depth :: "overlay \<Rightarrow> string list \<Rightarrow> nat \<Rightarrow> row \<Rightarrow> nat res" where
  "policy_depth ov visited depth current =
     (if get current ''parent_id'' = JNull then Inr depth
      else let parent_id = str_of (get current ''parent_id'') in
        if parent_id \<in> set visited
        then violate ''invalid_work_item_tree'' [(''reason'', JStr ''parent_cycle'')] False
        else case ov_row ov ''work_item'' [JStr parent_id] of
            None \<Rightarrow> violate ''invalid_work_item_tree''
              [(''reason'', JStr ''missing_parent''), (''entityId'', JStr parent_id)] False
          | Some parent \<Rightarrow> policy_depth ov (parent_id # visited) (depth + 1) parent)"
  by pat_completeness auto

termination policy_depth
proof (relation "measure (\<lambda>(ov, visited, d, c). card (work_item_ids ov - JStr ` set visited))", simp)
  fix ov visited depth current parent_id parent
  assume p: "parent_id = str_of (get current ''parent_id'')" "parent_id \<notin> set visited"
    "ov_row ov ''work_item'' [JStr parent_id] = Some parent"
  have "JStr parent_id \<in> work_item_ids ov" using p(3) by (rule ov_row_id)
  then have "work_item_ids ov - JStr ` set (parent_id # visited) \<subset> work_item_ids ov - JStr ` set visited"
    using p(2) by auto
  then show "((ov, parent_id # visited, depth + 1, parent), ov, visited, depth, current) \<in>
      measure (\<lambda>(ov, visited, d, c). card (work_item_ids ov - JStr ` set visited))"
    by (simp add: psubset_card_mono finite_work_item_ids)
qed

declare policy_depth.simps [simp del]

definition work_item_depth :: "overlay \<Rightarrow> row \<Rightarrow> nat res" where
  "work_item_depth ov r = policy_depth ov [text_of r ''id''] 1 r"

definition terminal_work_item :: "row \<Rightarrow> exc" where
  "terminal_work_item r = violation ''version_conflict''
     [(''entityId'', get r ''id''), (''reason'', JStr ''terminal_work_item'')] False"

definition validate_work_item_snapshot :: "ctx \<Rightarrow> row \<Rightarrow> json \<Rightarrow> unit res" where
  "validate_work_item_snapshot cx r expected_version =
     rbind (require (py_eq (get r ''version'') expected_version) (violation ''version_conflict''
        [(''entityId'', get r ''id''), (''expectedVersion'', expected_version)] False)) (\<lambda>_.
     rbind (require (get r ''completed_at'' = JNull \<and> get r ''cancelled_at'' = JNull) (terminal_work_item r)) (\<lambda>_.
     require (\<not> (get r ''status_definition_id'' \<noteq> JNull \<and>
       (case ov_row (cx_overlay cx) ''status_definition'' [get r ''status_definition_id''] of
          None \<Rightarrow> False
        | Some status \<Rightarrow> get status ''category'' \<in> {JStr ''completed'', JStr ''cancelled''}))) (terminal_work_item r)))"

text \<open>\<open>type(value) is int and value >= 0\<close>.\<close>

definition is_version :: "json \<Rightarrow> bool" where
  "is_version v = (case v of JInt n \<Rightarrow> 0 \<le> n | _ \<Rightarrow> False)"

definition start_item_ok :: "ctx \<Rightarrow> string \<Rightarrow> string \<Rightarrow> (string \<times> json) list \<Rightarrow> string \<Rightarrow> unit res" where
  "start_item_ok cx project_id level2_id expected item_id =
     (case ov_row (cx_overlay cx) ''work_item'' [JStr item_id] of
        None \<Rightarrow> violate ''not_found'' [(''entityId'', JStr item_id)] False
      | Some item \<Rightarrow>
          rbind (require (str_of (get item ''project_id'') = project_id \<and> get item ''parent_id'' = JStr level2_id)
            (violation ''invalid_work_item_tree''
               [(''reason'', JStr ''parent_project_mismatch''), (''entityId'', JStr item_id)] False)) (\<lambda>_.
          rbind (work_item_depth (cx_overlay cx) item) (\<lambda>depth.
          rbind (require (depth = 3) (violation ''invalid_work_item_tree''
               [(''reason'', JStr ''level3_depth''), (''entityId'', JStr item_id)] False)) (\<lambda>_.
          validate_work_item_snapshot cx item (member_or expected item_id JNull)))))"

definition validate_start_work_items :: "ctx \<Rightarrow> string \<Rightarrow> string list \<Rightarrow> json \<Rightarrow> unit res" where
  "validate_start_work_items cx level2_id level3_ids expected_versions =
     (case expected_versions of
        JObj expected \<Rightarrow>
          rbind (require (fst ` set expected = set (level2_id # level3_ids) \<and>
                   (\<forall>(k, v) \<in> set expected. is_version v))
            (violation ''work_item_structure_changed'' [(''reason'', JStr ''expected_versions'')] False)) (\<lambda>_.
          case ov_row (cx_overlay cx) ''work_item'' [JStr level2_id] of
            None \<Rightarrow> violate ''not_found'' [(''entityId'', JStr level2_id)] False
          | Some level2 \<Rightarrow>
              rbind (work_item_depth (cx_overlay cx) level2) (\<lambda>depth.
              rbind (require (depth = 2)
                (violation ''invalid_work_item_tree'' [(''reason'', JStr ''level2_depth'')] False)) (\<lambda>_.
              rbind (validate_work_item_snapshot cx level2 (member_or expected level2_id JNull)) (\<lambda>_.
              rforeach (start_item_ok cx (text_of level2 ''project_id'') level2_id expected) level3_ids))))
      | _ \<Rightarrow> violate ''invalid_work_item_tree'' [(''reason'', JStr ''expected_versions_not_mapping'')] False)"

definition start_plan_ids :: "request \<Rightarrow> string \<Rightarrow> string list res" where
  "start_plan_ids rq session_type =
     (case get_or (rq_payload rq) ''level3_work_item_ids'' (JList []) of
        JList vs \<Rightarrow>
          let l3_ids = map str_of vs in
          rbind (require (distinct l3_ids)
            (violation ''invalid_work_item_tree'' [(''reason'', JStr ''duplicate_level3_ids'')] False)) (\<lambda>_.
          rbind (require (\<not> (session_type \<in> set FOCUS_BREAK_TYPES \<and> l3_ids \<noteq> []))
            (violation ''invalid_work_item_tree'' [(''reason'', JStr ''break_session_has_no_plan'')] False)) (\<lambda>_.
          Inr l3_ids))
      | _ \<Rightarrow> violate ''invalid_work_item_tree'' [(''reason'', JStr ''level3_ids_not_collection'')] False)"

definition start_context_row :: "request \<Rightarrow> string \<Rightarrow> string \<Rightarrow> string \<Rightarrow> row option \<Rightarrow> string \<Rightarrow> string \<Rightarrow> row" where
  "start_context_row rq session_id project_id l2_id l2 snapshot started_at =
     (let fallback = get_or (rq_payload rq) ''level2_title_snapshot'' (JStr []);
          column = (\<lambda>k. case l2 of None \<Rightarrow> JNull | Some r \<Rightarrow> get r k) in dict
     [(''id'', JStr (''ctx-'' @ session_id)), (''created_at'', JStr started_at), (''updated_at'', JStr started_at),
      (''version'', JInt 1), (''session_id'', JStr session_id), (''project_id'', JStr project_id),
      (''level2_work_item_id'', JStr l2_id),
      (''title_snapshot'', JStr (str_of (case l2 of None \<Rightarrow> fallback | Some r \<Rightarrow> get_or r ''title'' fallback))),
      (''parent_snapshot'', column ''parent_id''), (''estimate_snapshot'', column ''effort_estimate_upper_seconds''),
      (''status_snapshot'', column ''status_definition_id''), (''structure_snapshot'', JStr snapshot),
      (''linked_at'', JStr started_at), (''link_method'', JStr ''manual'')])"

definition start_plan_row :: "ctx \<Rightarrow> request \<Rightarrow> string \<Rightarrow> string \<Rightarrow> string \<Rightarrow> nat \<times> string \<Rightarrow> row" where
  "start_plan_row cx rq session_id l2_id started_at = (\<lambda>(index, l3_id).
     let item = ov_row (cx_overlay cx) ''work_item'' [JStr l3_id];
         fallback = get_or (rq_payload rq) ''level3_title_snapshot'' (JStr []) in
     plan_row (cx_digests cx) session_id l3_id
       (str_of (case item of None \<Rightarrow> fallback | Some r \<Rightarrow> get_or r ''title'' fallback)) (JStr l2_id)
       (case item of None \<Rightarrow> 0 | Some r \<Rightarrow> int_of (get_or r ''version'' (JInt 0)))
       (int index) ''before_start'' started_at (index = 0) started_at)"

definition insert_all :: "ctx \<Rightarrow> string \<Rightarrow> (string \<times> row) list \<Rightarrow> (db_plan list \<times> sync_event list) res" where
  "insert_all cx now rows =
     rbind (rmap (\<lambda>(t, r). insert_plan cx t r) rows) (\<lambda>plans.
     rbind (rmap (\<lambda>(t, r). create_sync t r now) rows) (\<lambda>events. Inr (plans, events)))"

text \<open>The project of the session: that of its second-level item, or the one the client names.\<close>

definition start_project_id :: "request \<Rightarrow> row option \<Rightarrow> string" where
  "start_project_id rq l2 =
     (let named = text_of (rq_payload rq) ''project_id'';
          project_id = (case l2 of None \<Rightarrow> named | Some r \<Rightarrow> str_of (get_or r ''project_id'' (JStr named))) in
      if project_id = [] then named else project_id)"

definition compile_start :: "row option \<Rightarrow> ctx \<Rightarrow> request \<Rightarrow> command res" where
  "compile_start locator cx rq =
     (let payload = rq_payload rq; session_id = session_id_of rq; ov = cx_overlay cx; space = cx_space_id cx;
          refused = (\<lambda>reason. violation ''version_conflict''
            [(''entityId'', JStr session_id), (''reason'', JStr reason)] False) in
      rbind (require_space cx (text_of payload ''space_id'')) (\<lambda>_.
      rbind (require_locator_claim cx rq locator True) (\<lambda>_.
      rbind (require (ov_row ov ''focus_session'' [JStr session_id] = None)
        (violation ''version_conflict'' [(''entityId'', JStr session_id)] False)) (\<lambda>_.
      let started_at = text_of payload ''started_at'' in
      rbind (case validate_canonical_timestamp (JStr started_at) of
               Inl _ \<Rightarrow> Inl (refused ''invalid_timestamp'') | Inr _ \<Rightarrow> Inr ()) (\<lambda>_.
      rbind (case get_or payload ''planned_seconds'' (JInt 0) of
               JInt n \<Rightarrow> if n \<le> 0 then Inl (refused ''invalid_planned_seconds'') else Inr n
             | _ \<Rightarrow> Inl (refused ''invalid_planned_seconds'')) (\<lambda>planned_seconds.
      rbind (require_session_type (get payload ''session_type'')) (\<lambda>session_type.
      let l2_id = text_of payload ''level2_work_item_id'' in
      rbind (start_plan_ids rq session_type) (\<lambda>l3_ids.
      rbind (case get payload ''expected_work_item_versions'' of
               JNull \<Rightarrow> Inr ()
             | versions \<Rightarrow> validate_start_work_items cx l2_id l3_ids versions) (\<lambda>_.
      let l2 = ov_row ov ''work_item'' [JStr l2_id]; project_id = start_project_id rq l2;
          level3_rows = map (\<lambda>i. ov_row ov ''work_item'' [JStr i]) l3_ids in
      case ov_row ov ''project'' [JStr project_id] of
        None \<Rightarrow> violate ''not_found'' [(''entityId'', JStr project_id)] False
      | Some project \<Rightarrow>
          let session = focus_session_row session_id session_type started_at planned_seconds;
              context = start_context_row rq session_id project_id l2_id l2
                (work_item_structure_snapshot l2 level3_rows (Some project)) started_at;
              attribution = attribution_row session_id 1 project_id l2_id JNull JNull started_at;
              plan = map (start_plan_row cx rq session_id l2_id started_at) (enumerate 0 l3_ids) in
          rbind (insert_all cx started_at ([(''focus_session'', session), (''session_task_context'', context),
             (''session_attribution_revision'', attribution)] @ map (Pair ''session_work_item_plan'') plan)) (\<lambda>(plans, events).
          cx_command cx rq plans events (dict
            [(''session'', to_camel_session session space), (''context'', to_camel_context context space),
             (''attribution'', to_camel_attribution attribution space),
             (''plan'', JList (map (\<lambda>p. to_camel_plan p space (snapshot_mapping context)) plan))]) None))))))))))"

section \<open>The commands of the clock\<close>

definition require_version :: "request \<Rightarrow> string \<Rightarrow> row \<Rightarrow> unit res" where
  "require_version rq session_id current =
     require (case rq_expected_version rq of None \<Rightarrow> False | Some v \<Rightarrow> py_eq (get current ''version'') (JInt v))
       (violation ''version_conflict'' [(''entityId'', JStr session_id),
          (''expectedVersion'', json_opt JInt (rq_expected_version rq))] False)"

definition require_session :: "ctx \<Rightarrow> string \<Rightarrow> row res" where
  "require_session cx session_id =
     (case ov_row (cx_overlay cx) ''focus_session'' [JStr session_id] of
        None \<Rightarrow> violate ''not_found'' [(''entityId'', JStr session_id)] False
      | Some r \<Rightarrow> Inr r)"

definition next_version :: "row \<Rightarrow> json" where
  "next_version r = JInt (int_of (get_or r ''version'' (JInt 1)) + 1)"

definition session_value :: "ctx \<Rightarrow> row \<Rightarrow> row" where
  "session_value cx r = dict [(''session'', to_camel_session r (cx_space_id cx))]"

definition action_of :: "request \<Rightarrow> string" where
  "action_of rq = last (split_on CHR ''.'' (rq_name rq))"

definition compile_clock_transition :: "row option \<Rightarrow> ctx \<Rightarrow> request \<Rightarrow> command res" where
  "compile_clock_transition locator cx rq =
     (let payload = rq_payload rq; session_id = session_id_of rq; action = action_of rq in
      rbind (require_space cx (text_of payload ''space_id'')) (\<lambda>_.
      rbind (require_locator_claim cx rq locator True) (\<lambda>_.
      rbind (require_session cx session_id) (\<lambda>current.
      rbind (require_version rq session_id current) (\<lambda>_.
      let occurred_at = text_of payload ''occurred_at'' in
      rbind (reject_activation_conflict current) (\<lambda>_.
      rbind (clock_transition_after current action occurred_at payload) (\<lambda>moved_row.
      let after = updates moved_row [(''version'', next_version current)] in
      rbind (row_update cx ''focus_session'' current after occurred_at) (\<lambda>u.
      rbind (if action = ''end''
             then rbind (collect_affected_work_item_ids (cx_overlay cx) session_id) (\<lambda>affected.
                  if affected \<noteq> [] then recalc_effort_for_targets cx affected occurred_at [(session_id, after)] []
                  else Inr [])
             else Inr []) (\<lambda>efforts.
      cx_command cx rq (map fst (u # efforts)) (map snd (u # efforts)) (session_value cx after) None)))))))))"

definition compile_field_update ::
    "row option \<Rightarrow> ctx \<Rightarrow> request \<Rightarrow> (string \<times> json) list \<Rightarrow> bool \<Rightarrow> bool \<Rightarrow> command res" where
  "compile_field_update locator cx rq overrides require_owner require_cas =
     (let payload = rq_payload rq; session_id = session_id_of rq in
      rbind (require_space cx (text_of payload ''space_id'')) (\<lambda>_.
      rbind (if require_owner then rbind (require_locator_claim cx rq locator True) (\<lambda>_. Inr ()) else Inr ()) (\<lambda>_.
      rbind (require_session cx session_id) (\<lambda>current.
      rbind (if require_owner then reject_activation_conflict current else Inr ()) (\<lambda>_.
      rbind (if require_cas then require_version rq session_id current else Inr ()) (\<lambda>_.
      let after = updates current (overrides @ [(''version'', next_version current)]);
          occurred_at = text_of payload ''occurred_at'' in
      rbind (if occurred_at \<noteq> []
             then rbind (require_canonical_timestamp (JStr occurred_at)) (\<lambda>_.
                  rbind (require_non_regressing_timestamp current occurred_at) (\<lambda>_.
                  Inr (updates after [(''updated_at'', JStr occurred_at)])))
             else Inr after) (\<lambda>after.
      rbind (row_update cx ''focus_session'' current after (text_of after ''updated_at'')) (\<lambda>(plan, event).
      cx_command cx rq [plan] [event] (session_value cx after) None))))))))"

definition compile_note :: "row option \<Rightarrow> ctx \<Rightarrow> request \<Rightarrow> command res" where
  "compile_note locator cx rq = compile_field_update locator cx rq
     [(''session_note'', JStr (text_of (rq_payload rq) ''session_note''))] True True"

definition compile_conflict :: "row option \<Rightarrow> ctx \<Rightarrow> request \<Rightarrow> command res" where
  "compile_conflict locator cx rq = compile_field_update locator cx rq
     [(''ownership_state'', JStr ''activation_conflict'')] False False"

definition compile_owner_claim :: "row option \<Rightarrow> ctx \<Rightarrow> request \<Rightarrow> command res" where
  "compile_owner_claim locator cx rq =
     (let session_id = session_id_of rq in
      rbind (require_space cx (text_of (rq_payload rq) ''space_id'')) (\<lambda>_.
      rbind (require_locator_claim cx rq locator True) (\<lambda>_.
      rbind (require_session cx session_id) (\<lambda>session.
      rbind (reject_activation_conflict session) (\<lambda>_.
      rbind (require (get session ''ended_at'' = JNull) (violation ''version_conflict''
         [(''sessionId'', JStr session_id), (''reason'', JStr ''terminal_session'')] False)) (\<lambda>_.
      cx_command cx rq [] [] (dict [(''claimed'', JBool True)]) None))))))"

section \<open>Correcting the attribution\<close>

definition attributions_of :: "overlay \<Rightarrow> string \<Rightarrow> row list res" where
  "attributions_of ov session_id =
     rbind (ov_rows ov ''session_attribution_revision'') (\<lambda>rows.
     Inr (sort_key (\<lambda>r. int_of (get_or r ''revision'' (JInt 0)))
       (filter (\<lambda>r. get r ''session_id'' = JStr session_id) rows)))"

definition last_revision :: "row list \<Rightarrow> int" where
  "last_revision rows = (if rows = [] then 0 else Max (set (map (\<lambda>r. int_of (get_or r ''revision'' (JInt 0))) rows)))"

text \<open>Project and item the correction names; the context of the session decides the project.\<close>

definition correction_target :: "ctx \<Rightarrow> request \<Rightarrow> string \<Rightarrow> row option \<Rightarrow> (string \<times> string) res" where
  "correction_target cx rq session_id effective =
     (let payload = rq_payload rq; named = text_of payload ''project_id'';
          level2_id = text_of payload ''level2_work_item_id'';
          missing = violation ''work_item_structure_changed'' [(''reason'', JStr ''attribution_target_missing'')] False;
          project_id = (case ov_row (cx_overlay cx) ''session_task_context'' [JStr (''ctx-'' @ session_id)] of
            None \<Rightarrow> named | Some c \<Rightarrow> str_of (get_or c ''project_id'' (JStr named))) in
      rbind (require (project_id \<noteq> []) missing) (\<lambda>_.
      rbind (require (level2_id \<noteq> []) missing) (\<lambda>_.
      rbind (require (ov_row (cx_overlay cx) ''work_item'' [JStr level2_id] \<noteq> None)
        (violation ''not_found'' [(''entityId'', JStr level2_id)] False)) (\<lambda>_.
      rbind (require (case effective of None \<Rightarrow> True | Some r \<Rightarrow> str_of (get r ''level2_work_item_id'') \<noteq> level2_id)
        (violation ''version_conflict'' [(''sessionId'', JStr session_id),
           (''reason'', JStr ''attribution_target_unchanged'')] False)) (\<lambda>_.
      Inr (project_id, level2_id))))))"

definition retired :: "row \<Rightarrow> string \<Rightarrow> row" where
  "retired effective now = updates effective
     [(''effective'', JBool False), (''version'', next_version effective), (''updated_at'', JStr now)]"

definition compile_attribution_append :: "ctx \<Rightarrow> request \<Rightarrow> command res" where
  "compile_attribution_append cx rq =
     (let payload = rq_payload rq; session_id = session_id_of rq; space = cx_space_id cx in
      rbind (require_space cx (text_of payload ''space_id'')) (\<lambda>_.
      rbind (require_session cx session_id) (\<lambda>session.
      rbind (reject_activation_conflict session) (\<lambda>_.
      rbind (attributions_of (cx_overlay cx) session_id) (\<lambda>current.
      let next_revision = last_revision current + 1; revision = int_of (get_or payload ''revision'' (JInt next_revision)) in
      rbind (require (revision = next_revision) (violation ''version_conflict''
         [(''sessionId'', JStr session_id), (''reason'', JStr ''attribution_revision'')] False)) (\<lambda>_.
      let effective = find (\<lambda>r. get r ''effective'' = JBool True) (rev current) in
      rbind (correction_target cx rq session_id effective) (\<lambda>(project_id, level2_id).
      let now = str_of (get_or payload ''occurred_at'' (get_or session ''updated_at'' (JStr []))) in
      rbind (require_canonical_timestamp (JStr now)) (\<lambda>_.
      rbind (require_non_regressing_timestamp session now) (\<lambda>_.
      let new_row = attribution_row session_id revision project_id level2_id (get payload ''reason'')
            (case effective of None \<Rightarrow> JNull | Some r \<Rightarrow> JInt (int_of (get r ''revision''))) now in
      rbind (non_regressing_timestamp (get session ''updated_at'') now) (\<lambda>stamp.
      let image = updates session [(''updated_at'', JStr stamp), (''version'', next_version session),
            (''session_revision'', JInt (int_of (get_or session ''session_revision'' (JInt 1)) + 1))] in
      rbind (row_update cx ''focus_session'' session image stamp) (\<lambda>u.
      rbind (case effective of
               None \<Rightarrow> Inr []
             | Some r \<Rightarrow> rbind (row_update cx ''session_attribution_revision'' r (retired r now) now) (\<lambda>v. Inr [v])) (\<lambda>vs.
      rbind (insert_plan cx ''session_attribution_revision'' new_row) (\<lambda>plan.
      rbind (create_sync ''session_attribution_revision'' new_row now) (\<lambda>event.
      let post = map (\<lambda>r. case effective of
              None \<Rightarrow> r
            | Some e \<Rightarrow> if py_eq (get r ''id'') (get e ''id'') then retired e now else r) current @ [new_row] in
      rbind (collect_affected_work_item_ids (cx_overlay cx) session_id) (\<lambda>affected.
      rbind (recalc_effort_for_targets cx (sort (remdups (level2_id # affected))) now [] [(session_id, post)]) (\<lambda>efforts.
      let written = [u] @ vs @ [(plan, event)] @ efforts in
      cx_command cx rq (map fst written) (map snd written) (dict
        [(''session'', to_camel_session image space), (''attribution'', to_camel_attribution new_row space)])
        None))))))))))))))))"

end
