(* ===== verification/SessionPlans.thy ===== *)
theory SessionPlans
  imports FocusSession
begin

text \<open>
  The plan of a running session (\<open>_compile_plan_transition\<close> of \<open>app/focus_session/policy.py\<close>): the third-level
  items a session works on. One of them is current, each may be marked as done in a draft, items are added and
  removed while the session runs. Every command also rewrites the session row as it is, so that it has an
  effect on the entity it names.
\<close>

definition plan_rows :: "overlay \<Rightarrow> string \<Rightarrow> row list res" where
  "plan_rows ov session_id =
     rbind (ov_rows ov ''session_work_item_plan'') (\<lambda>rows. Inr (filter (\<lambda>r. get r ''session_id'' = JStr session_id) rows))"

definition find_plan :: "row list \<Rightarrow> json \<Rightarrow> row res" where
  "find_plan rows plan_item_id =
     (case plan_item_id of
        JStr i \<Rightarrow>
          (case (if i = [] then None else find (\<lambda>r. get r ''id'' = JStr i) rows) of
             None \<Rightarrow> violate ''not_found'' [(''entityId'', plan_item_id)] False
           | Some r \<Rightarrow> Inr r)
      | _ \<Rightarrow> violate ''not_found'' [(''entityId'', plan_item_id)] False)"

definition require_plan_version :: "row \<Rightarrow> json \<Rightarrow> unit res" where
  "require_plan_version r expected =
     require (case expected of JInt n \<Rightarrow> py_eq (get r ''version'') (JInt n) | _ \<Rightarrow> False)
       (violation ''version_conflict'' [(''entityId'', get r ''id''), (''expectedVersion'', expected)] False)"

definition plan_stamp :: "row \<Rightarrow> string \<Rightarrow> (string \<times> json) list" where
  "plan_stamp r now = [(''updated_at'', JStr now), (''version'', JInt (int_of (fld r ''version'') + 1))]"

text \<open>What a command on the plan writes: rows, and the plan and context its answer shows.\<close>

record plan_change =
  pc_written :: "(db_plan \<times> sync_event) list"
  pc_rows :: "row list"
  pc_context :: row

definition structure_changed :: "string \<Rightarrow> exc" where
  "structure_changed reason = violation ''work_item_structure_changed'' [(''reason'', JStr reason)] False"

section \<open>The current item\<close>

definition set_current :: "ctx \<Rightarrow> json \<Rightarrow> string \<Rightarrow> (string \<times> json) list \<Rightarrow> row \<Rightarrow> (row \<times> db_plan \<times> sync_event) res" where
  "set_current cx target now expected r =
     rbind (require (py_eq (fld r ''version'') (member_or expected (str_of (fld r ''id'')) JNull))
       (violation ''version_conflict'' [(''entityId'', fld r ''id'')] False)) (\<lambda>_.
     let after = updates r ((''current_during_session'',
           JBool (target \<noteq> JNull \<and> py_eq (get r ''work_item_id'') target \<and> get r ''removed_at'' = JNull)) # plan_stamp r now) in
     rbind (row_update cx ''session_work_item_plan'' r after now) (\<lambda>u. Inr (after, u)))"

definition plan_current :: "ctx \<Rightarrow> request \<Rightarrow> string \<Rightarrow> row list \<Rightarrow> row \<Rightarrow> plan_change res" where
  "plan_current cx rq now rows context =
     (case get_or (rq_payload rq) ''expected_plan_versions'' (JObj []) of
        JObj expected \<Rightarrow>
          rbind (require (fst ` set expected = (\<lambda>r. str_of (fld r ''id'')) ` set rows \<and> (\<forall>(k, v) \<in> set expected. is_version v))
            (structure_changed ''plan_versions'')) (\<lambda>_.
          let target = get (rq_payload rq) ''work_item_id'' in
          rbind (require (target = JNull \<or> (\<exists>r \<in> set rows. py_eq (get r ''work_item_id'') target \<and> get r ''removed_at'' = JNull))
            (violation ''not_found'' [(''entityId'', target)] False)) (\<lambda>_.
          rbind (rmap (set_current cx target now expected) rows) (\<lambda>us.
          Inr \<lparr>pc_written = map snd us, pc_rows = map fst us, pc_context = context\<rparr>)))
      | _ \<Rightarrow> Inl (structure_changed ''plan_versions''))"

section \<open>One row of the plan\<close>

text \<open>\<open>rows[rows.index(row)] = after\<close>: the first equal row.\<close>

fun replace_row :: "row \<Rightarrow> row \<Rightarrow> row list \<Rightarrow> row list" where
  "replace_row r r' [] = []"
| "replace_row r r' (x # xs) = (if row_eq x r then r' # xs else x # replace_row r r' xs)"

definition plan_draft :: "ctx \<Rightarrow> request \<Rightarrow> string \<Rightarrow> row list \<Rightarrow> row \<Rightarrow> plan_change res" where
  "plan_draft cx rq now rows context =
     (let payload = rq_payload rq in
      rbind (find_plan rows (get payload ''plan_item_id'')) (\<lambda>r.
      rbind (require_plan_version r (get payload ''expected_plan_version'')) (\<lambda>_.
      case get payload ''completion_draft'' of
        JBool draft \<Rightarrow>
          let after = updates r ((''completion_draft'', JBool draft) # plan_stamp r now) in
          rbind (row_update cx ''session_work_item_plan'' r after now) (\<lambda>u.
          Inr \<lparr>pc_written = [u], pc_rows = replace_row r after rows, pc_context = context\<rparr>)
      | _ \<Rightarrow> Inl (structure_changed ''completion_draft''))))"

definition plan_remove :: "ctx \<Rightarrow> request \<Rightarrow> string \<Rightarrow> row list \<Rightarrow> row \<Rightarrow> plan_change res" where
  "plan_remove cx rq now rows context =
     (let payload = rq_payload rq in
      rbind (find_plan rows (get payload ''plan_item_id'')) (\<lambda>r.
      rbind (require_plan_version r (get payload ''expected_plan_version'')) (\<lambda>_.
      rbind (require (get r ''removed_at'' = JNull) (violation ''version_conflict'' [(''entityId'', get r ''id'')] False)) (\<lambda>_.
      case get payload ''removal_reason'' of
        JStr reason \<Rightarrow>
          rbind (require (py_strip reason \<noteq> []) (structure_changed ''removal_reason'')) (\<lambda>_.
          let removed_at = get_or payload ''removed_at'' (JStr now);
              after = updates r ([(''removed_at'', removed_at), (''removal_reason'', JStr reason),
                (''current_during_session'', JBool False)] @ plan_stamp r now) in
          rbind (require_canonical_timestamp removed_at) (\<lambda>_.
          rbind (row_update cx ''session_work_item_plan'' r after now) (\<lambda>u.
          Inr \<lparr>pc_written = [u], pc_rows = replace_row r after rows, pc_context = context\<rparr>)))
      | _ \<Rightarrow> Inl (structure_changed ''removal_reason'')))))"

section \<open>A new item\<close>

text \<open>The frozen structure of the context, which must be an object with a plan.\<close>

definition frozen_structure :: "row \<Rightarrow> ((string \<times> json) list \<times> (string \<times> json) list) res" where
  "frozen_structure context =
     (let broken = structure_changed ''invalid_frozen_work_item_snapshot''; raw = get context ''structure_snapshot'' in
      rbind (require (raw \<notin> {JNull, JStr [], JStr ''{}''}) broken) (\<lambda>_.
      case json_loads (str_of raw) of
        Some (JObj kvs) \<Rightarrow> (case map_of kvs ''plan'' of Some (JObj plan) \<Rightarrow> Inr (kvs, plan) | _ \<Rightarrow> Inl broken)
      | _ \<Rightarrow> Inl broken))"

definition require_plan_item :: "ctx \<Rightarrow> request \<Rightarrow> string \<Rightarrow> string \<Rightarrow> (row \<times> row) res" where
  "require_plan_item cx rq session_id work_item_id =
     (case ov_row (cx_overlay cx) ''work_item'' [JStr work_item_id] of
        None \<Rightarrow> violate ''not_found'' [(''entityId'', JStr work_item_id)] False
      | Some item \<Rightarrow>
          rbind (validate_work_item_snapshot cx item (get (rq_payload rq) ''expected_work_item_version'')) (\<lambda>_.
          case ov_row (cx_overlay cx) ''session_task_context'' [JStr (''ctx-'' @ session_id)] of
            None \<Rightarrow> violate ''not_found''
              [(''entityId'', JStr session_id), (''reason'', JStr ''session_context_missing'')] False
          | Some context \<Rightarrow>
              let level2_id = get context ''level2_work_item_id'' in
              rbind (require (level2_id = JNull \<or> py_eq (get item ''parent_id'') level2_id)
                (violation ''invalid_work_item_tree'' [(''reason'', JStr ''plan_parent'')] False)) (\<lambda>_.
              rbind (work_item_depth (cx_overlay cx) item) (\<lambda>depth.
              rbind (require (depth = 3) (violation ''invalid_work_item_tree'' [(''reason'', JStr ''plan_depth'')] False)) (\<lambda>_.
              Inr (item, context))))))"

definition plan_add :: "ctx \<Rightarrow> request \<Rightarrow> string \<Rightarrow> string \<Rightarrow> row list \<Rightarrow> plan_change res" where
  "plan_add cx rq session_id now rows =
     (let payload = rq_payload rq; work_item_id = text_of payload ''work_item_id'' in
      rbind (require (\<forall>r \<in> set rows. get r ''work_item_id'' \<noteq> JStr work_item_id)
        (violation ''version_conflict'' [(''entityId'', JStr work_item_id)] False)) (\<lambda>_.
      rbind (require_plan_item cx rq session_id work_item_id) (\<lambda>(item, context).
      let plan = plan_row (cx_digests cx) session_id work_item_id (text_of item ''title'') (get context ''level2_work_item_id'')
            (int_of (get_or item ''version'' (JInt 0))) (int_of (get_or payload ''plan_rank'' (JInt (int (length rows)))))
            ''during_session'' (str_of (get_or payload ''added_at'' (JStr now))) False now in
      rbind (insert_plan cx ''session_work_item_plan'' plan) (\<lambda>p.
      rbind (create_sync ''session_work_item_plan'' plan now) (\<lambda>e.
      rbind (frozen_structure context) (\<lambda>(structure, frozen_plan).
      let structure_after = put_member ''plan''
            (JObj (put_member work_item_id (identity_snapshot WORK_ITEM_FROZEN_FIELDS item) frozen_plan)) structure;
          after = updates context [(''structure_snapshot'', JStr (canonical_ascii (JObj structure_after))),
            (''updated_at'', JStr now), (''version'', next_version context)] in
      rbind (row_update cx ''session_task_context'' context after now) (\<lambda>u.
      Inr \<lparr>pc_written = [(p, e), u], pc_rows = rows @ [plan], pc_context = after\<rparr>)))))))"

section \<open>The command\<close>

definition plan_action :: "ctx \<Rightarrow> request \<Rightarrow> string \<Rightarrow> string \<Rightarrow> string \<Rightarrow> row list \<Rightarrow> row \<Rightarrow> plan_change res" where
  "plan_action cx rq action session_id now rows context =
     (if action = ''current'' then plan_current cx rq now rows context
      else if action = ''completion_draft'' then plan_draft cx rq now rows context
      else if action = ''add'' then plan_add cx rq session_id now rows
      else if action = ''remove'' then plan_remove cx rq now rows context
      else Inl (structure_changed ''unknown_plan_action''))"

definition compile_plan_transition :: "row option \<Rightarrow> string \<Rightarrow> ctx \<Rightarrow> request \<Rightarrow> command res" where
  "compile_plan_transition locator action cx rq =
     (let payload = rq_payload rq; session_id = session_id_of rq; space = cx_space_id cx;
          refused = (\<lambda>reason. violation ''version_conflict''
            [(''sessionId'', JStr session_id), (''reason'', JStr reason)] False) in
      rbind (require_space cx (text_of payload ''space_id'')) (\<lambda>_.
      rbind (require_locator_claim cx rq locator True) (\<lambda>_.
      rbind (require_session cx session_id) (\<lambda>session.
      rbind (reject_activation_conflict session) (\<lambda>_.
      rbind (require (\<not> is_break_session session) (refused ''break_session_has_no_plan'')) (\<lambda>_.
      rbind (require (get session ''ended_at'' = JNull) (refused ''terminal_session'')) (\<lambda>_.
      rbind (plan_rows (cx_overlay cx) session_id) (\<lambda>rows.
      let context = (case ov_row (cx_overlay cx) ''session_task_context'' [JStr (''ctx-'' @ session_id)] of
            None \<Rightarrow> fmempty | Some r \<Rightarrow> r);
          now = str_of (or_else (or_else (get payload ''occurred_at'') (get payload ''added_at''))
            (get_or session ''updated_at'' (JStr []))) in
      rbind (require_canonical_timestamp (JStr now)) (\<lambda>_.
      rbind (row_update cx ''focus_session'' session session (str_of (get_or session ''updated_at'' (JStr now)))) (\<lambda>u.
      rbind (plan_action cx rq action session_id now rows context) (\<lambda>change.
      let written = u # pc_written change in
      cx_command cx rq (map fst written) (map snd written) (dict
        [(''session'', to_camel_session session space),
         (''plan'', JList (map (\<lambda>r. to_camel_plan r space (snapshot_mapping (pc_context change))) (pc_rows change)))])
        None)))))))))))"

end
