(* ===== verification/SessionSync.thy ===== *)
theory SessionSync
  imports FocusSession
begin

text \<open>
  The replay of session rows that a client wrote offline (\<open>_compile_sync_entity\<close> to
  \<open>_compile_sync_focus_session_update\<close> of \<open>app/focus_session/policy.py\<close>, with \<open>_require_provisional_session\<close>,
  \<open>_validate_sync_create_row\<close> and \<open>_validate_sync_update_row\<close>). Only provisional sessions are replayed; a change
  of a clock column must be one legal transition, whose counters the server computes itself. Where the code
  walks over a set or the payload and names the first column it refuses, the model leaves the name out.
\<close>

section \<open>What may be replayed\<close>

definition SYNC_MATRIX :: "(string \<times> string) set" where
  "SYNC_MATRIX = {(''focus_session'', ''create''), (''focus_session'', ''update''), (''session_task_context'', ''create''),
     (''session_attribution_revision'', ''create''), (''session_work_item_plan'', ''create''),
     (''session_work_item_plan'', ''update''), (''session_work_item_outcome'', ''create'')}"

definition FOCUS_CLOCK_FIELDS :: "string list" where
  "FOCUS_CLOCK_FIELDS = [''ended_at'', ''pause_started_at'', ''gross_seconds'', ''paused_seconds'', ''break_seconds'',
     ''focused_seconds'', ''timer_completion'']"

definition FOCUS_SYNC_MUTABLE_FIELDS :: "string list" where
  "FOCUS_SYNC_MUTABLE_FIELDS = [''session_note'', ''overall_progress'', ''mood'']"

definition entity_action :: "request \<Rightarrow> string option" where
  "entity_action rq = (let action = action_of rq in
     if action \<in> {''create'', ''update'', ''delete''} then Some action else None)"

abbreviation changed :: "string \<Rightarrow> exc" where
  "changed reason \<equiv> violation ''work_item_structure_changed'' [(''reason'', JStr reason)] False"

definition require_provisional_session :: "ctx \<Rightarrow> json \<Rightarrow> row res" where
  "require_provisional_session cx session_id =
     (let missing = violation ''not_found'' [(''entityId'', session_id)] False in
      case session_id of
        JStr i \<Rightarrow>
          rbind (require (i \<noteq> []) missing) (\<lambda>_.
          case ov_row (cx_overlay cx) ''focus_session'' [JStr i] of
            None \<Rightarrow> Inl missing
          | Some session \<Rightarrow>
              rbind (require (get session ''ownership_state'' \<noteq> JStr ''activation_conflict'')
                (violation ''session_activation_conflict''
                   [(''sessionId'', session_id), (''reason'', JStr ''conflict_read_only'')] False)) (\<lambda>_.
              rbind (require (get session ''ownership_state'' = JStr ''local_provisional'')
                (violation ''stale_session_owner''
                   [(''sessionId'', session_id), (''reason'', JStr ''authoritative_session'')] False)) (\<lambda>_.
              rbind (require (get session ''validity'' = JStr ''pending'')
                (violation ''work_item_structure_changed''
                   [(''sessionId'', session_id), (''reason'', JStr ''session_not_pending'')] False)) (\<lambda>_.
              Inr session))))
      | _ \<Rightarrow> Inl missing)"

section \<open>New rows\<close>

definition sync_create_session :: "row \<Rightarrow> unit res" where
  "sync_create_session r =
     rbind (require (get r ''ownership_state'' \<in> {JStr ''local_provisional'', JStr ''activation_conflict''})
       (changed ''session_must_be_provisional'')) (\<lambda>_.
     rbind (require_session_type (get r ''session_type'')) (\<lambda>_.
     rbind (require (get r ''validity'' = JStr ''pending'' \<and> get r ''review_state'' = JStr ''not_required'')
       (changed ''session_post_image_state'')) (\<lambda>_.
     rbind (require_canonical_timestamp (get r ''started_at'')) (\<lambda>_.
     rbind (require_canonical_timestamp (get r ''updated_at'')) (\<lambda>_.
     validate_duration_row r)))))"

definition entity_taken :: "request \<Rightarrow> exc" where
  "entity_taken rq = violation ''version_conflict'' [(''entityId'', JStr (rq_entity_id rq))] False"

definition sync_create_attribution :: "ctx \<Rightarrow> row \<Rightarrow> unit res" where
  "sync_create_attribution cx r =
     rbind (require_canonical_timestamp (get r ''created_at'')) (\<lambda>_.
     rbind (require_canonical_timestamp (get r ''updated_at'')) (\<lambda>_.
     rbind (ov_rows (cx_overlay cx) ''session_attribution_revision'') (\<lambda>all_rows.
     let rows = filter (\<lambda>a. py_eq (get a ''session_id'') (get r ''session_id'')) all_rows in
     rbind (require (py_eq (get r ''revision'') (JInt (last_revision rows + 1)) \<and> get r ''effective'' = JBool True)
       (changed ''attribution_revision'')) (\<lambda>_.
     require (\<forall>a \<in> set rows. get a ''effective'' \<noteq> JBool True) (changed ''attribution_effective'')))))"

definition sync_create_plan :: "ctx \<Rightarrow> request \<Rightarrow> row \<Rightarrow> row \<Rightarrow> unit res" where
  "sync_create_plan cx rq session r =
     rbind (require (get r ''removed_at'' = JNull) (changed ''plan_post_image'')) (\<lambda>_.
     rbind (require (\<not> is_break_session session) (changed ''break_session_has_no_plan'')) (\<lambda>_.
     rbind (require_canonical_timestamp (get r ''added_at'')) (\<lambda>_.
     rbind (require (ov_row (cx_overlay cx) ''session_work_item_plan'' [JStr (rq_entity_id rq)] = None) (entity_taken rq)) (\<lambda>_.
     require (case ov_row (cx_overlay cx) ''session_task_context'' [JStr (''ctx-'' @ str_of (get r ''session_id''))] of
         None \<Rightarrow> True | Some c \<Rightarrow> py_eq (get r ''level2_snapshot'') (get c ''level2_work_item_id'')) (changed ''plan_parent'')))))"

definition validate_sync_create_row :: "ctx \<Rightarrow> request \<Rightarrow> string \<Rightarrow> row \<Rightarrow> unit res" where
  "validate_sync_create_row cx rq entity_type r =
     (if entity_type = ''focus_session'' then sync_create_session r
      else rbind (require_provisional_session cx (get r ''session_id'')) (\<lambda>session.
        if entity_type = ''session_task_context''
        then rbind (require (py_eq (get r ''session_id'') (get session ''id'')) (changed ''context_session'')) (\<lambda>_.
             rbind (require_canonical_timestamp (get r ''linked_at'')) (\<lambda>_.
             require (ov_row (cx_overlay cx) entity_type [JStr (rq_entity_id rq)] = None) (entity_taken rq)))
        else if entity_type = ''session_attribution_revision'' then sync_create_attribution cx r
        else if entity_type = ''session_work_item_plan'' then sync_create_plan cx rq session r
        else if entity_type = ''session_work_item_outcome''
        then rbind (require (get session ''ended_at'' \<noteq> JNull) (changed ''outcome_session'')) (\<lambda>_.
             if get r ''reviewed_at'' \<noteq> JNull then rbind (require_canonical_timestamp (get r ''reviewed_at'')) (\<lambda>_. Inr ())
             else Inr ())
        else Inr ()))"

text \<open>\<open>setdefault\<close>, and the defaults of the columns the client left out.\<close>

definition set_default :: "string \<Rightarrow> json \<Rightarrow> row \<Rightarrow> row" where
  "set_default k v r = (if has_key r k then r else fmupd k v r)"

definition default_field :: "string \<Rightarrow> row \<Rightarrow> field_spec \<Rightarrow> row res" where
  "default_field entity_type r f =
     (if has_key r (f_name f) then Inr r
      else if f_default f \<noteq> JNull then Inr (fmupd (f_name f) (f_default f) r)
      else if f_nullable f then Inr (fmupd (f_name f) JNull r)
      else violate ''version_conflict'' [(''entityType'', JStr entity_type), (''missing'', JStr (f_name f))] False)"

definition unknown_fields :: "entity_spec \<Rightarrow> row \<Rightarrow> unit res" where
  "unknown_fields spec r =
     (let unknown = filter (\<lambda>k. k \<notin> set (field_names spec)) (sorted_list_of_fset (fmdom r)) in
      require (unknown = []) (violation ''work_item_structure_changed''
        [(''reason'', JStr ''unknown_fields''), (''fields'', JList (map JStr unknown))] False))"

definition client_stamp :: "request \<Rightarrow> json" where
  "client_stamp rq = json_opt JStr (rq_client_updated_at rq)"

definition compile_sync_create :: "ctx \<Rightarrow> request \<Rightarrow> string \<Rightarrow> command res" where
  "compile_sync_create cx rq entity_type =
     (case catalog_get (cx_catalog cx) entity_type of
        None \<Rightarrow> Inl (KeyErr entity_type)
      | Some spec \<Rightarrow>
          let data = rq_payload rq in
          rbind (unknown_fields spec data) (\<lambda>_.
          rbind (require (ov_row (cx_overlay cx) entity_type [JStr (rq_entity_id rq)] = None) (entity_taken rq)) (\<lambda>_.
          let timestamp = str_of (or_else (or_else (or_else (get data ''updated_at'') (get data ''created_at'')) (client_stamp rq))
                (JStr ''2026-07-15T08:00:00Z'')) in
          rbind (require_canonical_timestamp (JStr timestamp)) (\<lambda>_.
          let data = (if entity_type = ''focus_session'' then fmupd ''version'' (JInt 1) data else set_default ''version'' (JInt 1) data);
              data = set_default ''updated_at'' (or_else (client_stamp rq) (JStr timestamp))
                (set_default ''created_at'' (JStr timestamp) data) in
          rbind (rfold (default_field entity_type) data (es_fields spec)) (\<lambda>data.
          rbind (validate_sync_create_row cx rq entity_type data) (\<lambda>_.
          rbind (insert_plan cx entity_type data) (\<lambda>plan.
          rbind (create_sync entity_type data timestamp) (\<lambda>event.
          cx_command cx rq [plan] [event] (dict [(''created'', JBool True), (''entityType'', JStr entity_type)]) None))))))))"

section \<open>Changed rows\<close>

definition validate_sync_plan_update :: "row \<Rightarrow> row \<Rightarrow> unit res" where
  "validate_sync_plan_update before after =
     rbind (require (\<forall>k \<in> {''id'', ''session_id'', ''work_item_id'', ''title_snapshot'', ''level2_snapshot'', ''plan_rank'',
           ''source'', ''added_at''}. py_eq (get before k) (get after k)) (changed ''plan_immutable_field'')) (\<lambda>_.
     rbind (require (if get after ''removed_at'' = JNull then get after ''removal_reason'' = JNull
           else py_strip (str_of (or_else (get after ''removal_reason'') (JStr []))) \<noteq> []) (changed ''plan_removal_reason'')) (\<lambda>_.
     rbind (require_canonical_timestamp (get after ''added_at'')) (\<lambda>_.
     if get after ''removed_at'' \<noteq> JNull then rbind (require_canonical_timestamp (get after ''removed_at'')) (\<lambda>_. Inr ())
     else Inr ())))"

definition validate_sync_session_update :: "row \<Rightarrow> row \<Rightarrow> bool \<Rightarrow> unit res" where
  "validate_sync_session_update before after allow_terminal_validity =
     (let immutable = [''id'', ''created_at'', ''ownership_state'', ''session_type''] @
        (if allow_terminal_validity \<and> get before ''review_state'' = JStr ''not_required'' \<and>
            get after ''review_state'' = JStr ''pending'' then []
         else ''review_state'' # (if allow_terminal_validity then [] else [''validity''])) in
      rbind (require (\<forall>k \<in> set immutable. py_eq (get before k) (get after k)) (changed ''session_immutable_field'')) (\<lambda>_.
      rbind (require_canonical_timestamp (get after ''started_at'')) (\<lambda>_.
      rbind (require_canonical_timestamp (get after ''updated_at'')) (\<lambda>_.
      validate_duration_row after))))"

text \<open>A payload column that differs from the stored one.\<close>

definition differs :: "row \<Rightarrow> row \<Rightarrow> string \<Rightarrow> bool" where
  "differs payload current field = (has_key payload field \<and> \<not> py_eq (fld payload field) (get current field))"

definition session_immutable :: "row \<Rightarrow> row \<Rightarrow> bool \<Rightarrow> unit res" where
  "session_immutable payload current end_pending_review =
     rforeach (\<lambda>field. require (\<not> differs payload current field) (violation ''work_item_structure_changed''
         [(''reason'', JStr ''session_immutable_field''), (''field'', JStr field)] False))
       ([''id'', ''created_at'', ''started_at'', ''session_type'', ''planned_seconds'', ''ownership_state''] @
        (if end_pending_review then [] else [''review_state'']))"

text \<open>The transition the changed clock columns describe.\<close>

definition clock_action_of :: "row \<Rightarrow> row \<Rightarrow> string res" where
  "clock_action_of payload current =
     (if differs payload current ''ended_at''
      then rbind (require (get current ''ended_at'' = JNull \<and> get payload ''ended_at'' \<noteq> JNull)
             (changed ''invalid_clock_transition'')) (\<lambda>_. Inr ''end'')
      else if differs payload current ''pause_started_at''
      then if get current ''ended_at'' = JNull \<and> get current ''pause_started_at'' = JNull \<and> get payload ''pause_started_at'' \<noteq> JNull
           then Inr ''pause''
           else if get current ''ended_at'' = JNull \<and> get current ''pause_started_at'' \<noteq> JNull \<and> get payload ''pause_started_at'' = JNull
           then Inr ''resume''
           else Inl (changed ''invalid_clock_transition'')
      else Inl (changed ''clock_counter_direct_update''))"

text \<open>\<open>payload.get("updated_at") not in {None, stamp}\<close>, asked only when the request carries its own stamp.\<close>

definition stamp_matches :: "request \<Rightarrow> string \<Rightarrow> unit res" where
  "stamp_matches rq stamp_text =
     require (rq_client_updated_at rq = None \<or> get (rq_payload rq) ''updated_at'' \<in> {JNull, JStr stamp_text})
       (changed ''updated_at_mismatch'')"

definition replayed_clock :: "request \<Rightarrow> row \<Rightarrow> bool \<Rightarrow> (row \<times> bool) res" where
  "replayed_clock rq current end_pending_review =
     (let payload = rq_payload rq in
      rbind (clock_action_of payload current) (\<lambda>action.
      case or_else (client_stamp rq) (get payload ''updated_at'') of
        JStr transition_at \<Rightarrow>
          rbind (require (action = ''resume'' \<or>
              get payload (if action = ''end'' then ''ended_at'' else ''pause_started_at'') = JStr transition_at)
            (changed ''clock_timestamp_mismatch'')) (\<lambda>_.
          rbind (stamp_matches rq transition_at) (\<lambda>_.
          rbind (clock_transition_after current action transition_at (fmdrop ''break_seconds'' payload)) (\<lambda>generated.
          rbind (require (\<forall>f \<in> set (FOCUS_CLOCK_FIELDS @ [''validity'', ''validity_reason'', ''updated_at'']).
              \<not> differs payload generated f) (changed ''clock_post_image_mismatch'')) (\<lambda>_.
          Inr (if end_pending_review then updates generated [(''review_state'', JStr ''pending'')] else generated,
               action = ''end'')))))
      | _ \<Rightarrow> Inl (changed ''clock_timestamp_mismatch'')))"

definition replayed_content :: "request \<Rightarrow> row \<Rightarrow> row res" where
  "replayed_content rq current =
     (let payload = rq_payload rq in
      rbind (require (\<not> differs payload current ''validity'' \<and> \<not> differs payload current ''validity_reason'')
        (changed ''session_state_direct_update'')) (\<lambda>_.
      case or_else (or_else (client_stamp rq) (get payload ''updated_at'')) (get current ''updated_at'') of
        JStr client_ts \<Rightarrow>
          rbind (require_canonical_timestamp (JStr client_ts)) (\<lambda>_.
          rbind (require_non_regressing_timestamp current client_ts) (\<lambda>_.
          rbind (stamp_matches rq client_ts) (\<lambda>_.
          Inr (updates current [(''updated_at'', JStr client_ts)]))))
      | _ \<Rightarrow> Inl (conflict ''invalid_timestamp'')))"

text \<open>The columns a client may write; every other column must be one the checks above have covered.\<close>

definition covered_fields :: "string list" where
  "covered_fields = [''id'', ''created_at'', ''version'', ''updated_at'', ''session_revision'', ''started_at'', ''planned_seconds'',
     ''validity'', ''validity_reason'', ''ownership_state'', ''review_state'', ''session_type''] @ FOCUS_CLOCK_FIELDS"

definition put_content :: "row \<Rightarrow> row \<Rightarrow> row res" where
  "put_content payload after =
     rbind (require (\<forall>k \<in> fset (fmdom payload). k \<in> set FOCUS_SYNC_MUTABLE_FIELDS \<or> k \<in> set covered_fields)
       (changed ''session_field_not_sync_mutable'')) (\<lambda>_.
     Inr (updates after (List.map_filter (\<lambda>k. map_option (Pair k) (fmlookup payload k)) FOCUS_SYNC_MUTABLE_FIELDS)))"

definition compile_sync_focus_session_update :: "ctx \<Rightarrow> request \<Rightarrow> row \<Rightarrow> command res" where
  "compile_sync_focus_session_update cx rq current =
     (let payload = rq_payload rq;
          end_pending_review = (get payload ''ended_at'' \<noteq> JNull \<and> get current ''ended_at'' = JNull \<and>
            get current ''review_state'' = JStr ''not_required'' \<and> get payload ''review_state'' = JStr ''pending'') in
      rbind (session_immutable payload current end_pending_review) (\<lambda>_.
      rbind (require (\<not> differs payload current ''version'') (conflict ''session_version_post_image'')) (\<lambda>_.
      rbind (if \<exists>f \<in> set FOCUS_CLOCK_FIELDS. differs payload current f
             then replayed_clock rq current end_pending_review
             else rbind (replayed_content rq current) (\<lambda>after. Inr (after, False))) (\<lambda>(after, ended).
      rbind (put_content payload after) (\<lambda>after.
      rbind (validate_sync_session_update current after ended) (\<lambda>_.
      let after = updates after [(''version'', next_version current)] in
      rbind (row_update cx ''focus_session'' current after (text_of after ''updated_at'')) (\<lambda>(plan, event).
      cx_command cx rq [plan] [event] (dict [(''updated'', JBool True), (''entityType'', JStr ''focus_session'')]) None)))))))"

definition compile_sync_update :: "ctx \<Rightarrow> request \<Rightarrow> string \<Rightarrow> command res" where
  "compile_sync_update cx rq entity_type =
     (case catalog_get (cx_catalog cx) entity_type of
        None \<Rightarrow> Inl (KeyErr entity_type)
      | Some spec \<Rightarrow>
         (case ov_row (cx_overlay cx) entity_type [JStr (rq_entity_id rq)] of
            None \<Rightarrow> violate ''not_found'' [(''entityId'', JStr (rq_entity_id rq))] False
          | Some current \<Rightarrow>
              rbind (require_version rq (rq_entity_id rq) current) (\<lambda>_.
              rbind (unknown_fields spec (rq_payload rq)) (\<lambda>_.
              if entity_type = ''focus_session''
              then rbind (require_provisional_session cx (get current ''id'')) (\<lambda>_. compile_sync_focus_session_update cx rq current)
              else rbind (require_provisional_session cx (get current ''session_id'')) (\<lambda>_.
                let after = fmadd current (fmfilter (\<lambda>k. k \<notin> {''id'', ''created_at'', ''version''}) (rq_payload rq));
                    after = updates after [(''version'', next_version current)];
                    client_ts = str_of (or_else (client_stamp rq) (get_or after ''updated_at'' (JStr []))) in
                rbind (require_canonical_timestamp (JStr client_ts)) (\<lambda>_.
                let after = updates after [(''updated_at'', JStr client_ts)] in
                rbind (if entity_type = ''session_work_item_plan'' then validate_sync_plan_update current after
                       else violate ''work_item_structure_changed''
                         [(''entityType'', JStr entity_type), (''action'', JStr ''update'')] False) (\<lambda>_.
                rbind (row_update cx entity_type current after client_ts) (\<lambda>(plan, event).
                cx_command cx rq [plan] [event] (dict [(''updated'', JBool True), (''entityType'', JStr entity_type)]) None))))))))"

definition compile_sync_entity :: "ctx \<Rightarrow> request \<Rightarrow> string \<Rightarrow> command res" where
  "compile_sync_entity cx rq action =
     (if (rq_entity_type rq, action) \<notin> SYNC_MATRIX
      then violate ''work_item_structure_changed''
        [(''entityType'', JStr (rq_entity_type rq)), (''action'', JStr action)] False
      else if action = ''create'' then compile_sync_create cx rq (rq_entity_type rq)
      else compile_sync_update cx rq (rq_entity_type rq))"

end
