(* ===== verification/ClockProperties.thy ===== *)
theory ClockProperties
  imports SessionClock
begin

text \<open>
  What the clock of a session promises: a command that is legal in the state of the session never fails on
  the arithmetic of the counters, the counters stay consistent, and over a whole session the recorded
  seconds stay within one second per pause of the exact time.
\<close>

section \<open>Time stamps and counters\<close>

text \<open>A text denotes an instant; a column holds no instant later than a bound.\<close>

definition stamp :: "string \<Rightarrow> int \<Rightarrow> bool" where
  "stamp x i = (\<exists>t. parse_timestamp x = Inr t \<and> instant t = i)"

definition until :: "int \<Rightarrow> json \<Rightarrow> bool" where
  "until m v = (v = JNull \<or> (\<exists>x i. v = JStr x \<and> stamp x i \<and> i \<le> m))"

lemma stamp_unique: "stamp x i \<Longrightarrow> stamp x j \<Longrightarrow> i = j"
  by (auto simp: stamp_def)

lemma stamp_valid: "stamp x i \<Longrightarrow> validate_canonical_timestamp (JStr x) = Inr ()"
  by (auto simp: stamp_def validate_canonical_timestamp_def parse_timestamp_def split: if_splits)

lemma valid_stamp: "validate_canonical_timestamp (JStr x) = Inr () \<Longrightarrow> \<exists>i. stamp x i"
  by (auto simp: stamp_def validate_canonical_timestamp_def rbind_Inr split: if_splits)

lemma require_canonical_timestamp_iff [result_simps]:
  "require_canonical_timestamp v = Inr x \<longleftrightarrow> v = JStr x \<and> (\<exists>i. stamp x i)"
proof -
  have "require_canonical_timestamp (JStr y) = Inr x \<longleftrightarrow> y = x \<and> (\<exists>i. stamp x i)" for y
  proof (cases "validate_canonical_timestamp (JStr y)")
    case (Inl e)
    then have "\<not> (\<exists>i. stamp y i)" using stamp_valid by force
    with Inl show ?thesis by (auto simp: require_canonical_timestamp_def)
  next
    case (Inr u)
    then show ?thesis using valid_stamp [of y] by (auto simp: require_canonical_timestamp_def)
  qed
  then show ?thesis by (cases v) (auto simp: require_canonical_timestamp_def)
qed

lemma persisted_instant_until: "until m (get r f) \<Longrightarrow>
    \<exists>is. persisted_instant r f = Inr is \<and> (\<forall>i \<in> set is. i \<le> m)"
  by (auto simp: until_def persisted_instant_def stamp_valid) (auto simp: stamp_def)

lemma persisted_instant_stamp: "get r f = JStr x \<Longrightarrow> stamp x i \<Longrightarrow> persisted_instant r f = Inr [i]"
  by (auto simp: persisted_instant_def stamp_valid) (auto simp: stamp_def)

lemma seconds_between: "stamp x i \<Longrightarrow> stamp y j \<Longrightarrow> integer_seconds_between x y = Inr ((j - i) div 1000000)"
  by (auto simp: stamp_def integer_seconds_between_def)

lemma strict_counter_JInt: "get r f = JInt n \<Longrightarrow> 0 \<le> n \<Longrightarrow> strict_counter r f = Inr n"
  by (simp add: strict_counter_def)

lemma strict_counter_Inr [result_simps]: "strict_counter r f = Inr n \<longleftrightarrow> get r f = JInt n \<and> 0 \<le> n"
  by (auto simp: strict_counter_def split: json.splits)

text \<open>The counters of a row: planned, elapsed, paused, break and focused seconds.\<close>

definition counters :: "row \<Rightarrow> int \<Rightarrow> int \<Rightarrow> int \<Rightarrow> int \<Rightarrow> bool" where
  "counters r gross paused breaks focused = (get r ''gross_seconds'' = JInt gross \<and> 0 \<le> gross \<and>
     get r ''paused_seconds'' = JInt paused \<and> 0 \<le> paused \<and> get r ''break_seconds'' = JInt breaks \<and> 0 \<le> breaks \<and>
     get r ''focused_seconds'' = JInt focused \<and> (\<exists>p > 0. get r ''planned_seconds'' = JInt p) \<and>
     (if is_break_session r then focused = 0
      else paused + breaks \<le> gross \<and> focused = gross - paused - breaks))"

lemma validate_duration_row_iff [result_simps]:
  "validate_duration_row r = Inr u \<longleftrightarrow> (\<exists>g p b f. counters r g p b f)"
  by (auto simp: validate_duration_row_def focused_seconds_def counters_def rbind_Inr require_Inr strict_counter_Inr)

lemma get_or_updates: "get_or (updates r kvs) k d = (case map_of (rev kvs) k of None \<Rightarrow> get_or r k d | Some v \<Rightarrow> v)"
  by (simp add: get_or_def fmlookup_updates split: option.split)

lemma get_or_kept [simp]: "k \<notin> fst ` set kvs \<Longrightarrow> get_or (updates r kvs) k d = get_or r k d"
  by (simp add: get_or_updates map_of_eq_None_iff split: option.split) (metis map_of_eq_None_iff option.distinct(1) rev_rev_ident set_rev)

lemma is_break_session_updates [simp]:
  "''session_type'' \<notin> fst ` set kvs \<Longrightarrow> is_break_session (updates r kvs) = is_break_session r"
  by (simp add: is_break_session_def session_type_of_def)

section \<open>The columns a transition writes\<close>

text \<open>Two rows agree outside some columns.\<close>

definition same_but :: "string set \<Rightarrow> row \<Rightarrow> row \<Rightarrow> bool" where
  "same_but ks r r' = (\<forall>k d. k \<notin> ks \<longrightarrow> get_or r' k d = get_or r k d)"

lemma same_butD: "same_but ks r r' \<Longrightarrow> k \<notin> ks \<Longrightarrow> get_or r' k d = get_or r k d"
  by (simp add: same_but_def)

lemma same_but_refl [simp]: "same_but ks r r"
  by (simp add: same_but_def)

lemma same_but_trans [trans]: "same_but ks r r' \<Longrightarrow> same_but ks r' r'' \<Longrightarrow> same_but ks r r''"
  by (simp add: same_but_def)

lemma same_but_mono: "same_but ks r r' \<Longrightarrow> ks \<subseteq> ls \<Longrightarrow> same_but ls r r'"
  unfolding same_but_def by blast

lemma same_but_updates: "fst ` set kvs \<subseteq> ks \<Longrightarrow> same_but ks r (updates r kvs)"
  unfolding same_but_def using get_or_kept by blast

lemma clock_start_columns:
  assumes "clock_start r occ payload = Inr a"
  shows "same_but {''updated_at'', ''break_seconds''} r a \<and> get a ''updated_at'' = JStr occ"
  using assms by (auto simp: clock_start_def Let_def same_but_def split: option.splits json.splits if_splits)

lemma with_elapsed_columns:
  assumes "with_elapsed a started occ = Inr r'"
  shows "same_but {''gross_seconds'', ''focused_seconds''} a r' \<and>
    (\<exists>g. integer_seconds_between started occ = Inr g \<and> get r' ''gross_seconds'' = JInt g)"
  using assms by (auto simp: with_elapsed_def rbind_Inr same_but_def Let_def)

lemma close_pause_columns:
  assumes "close_pause r a occ = Inr a'"
  shows "same_but {''paused_seconds'', ''pause_started_at''} a a' \<and> get a' ''pause_started_at'' = JNull \<and>
    (\<exists>e. integer_seconds_between (str_of (get r ''pause_started_at'')) occ = Inr e \<and>
       get a' ''paused_seconds'' = JInt (int_of (get_or r ''paused_seconds'' (JInt 0)) + e))"
  using assms by (auto simp: close_pause_def rbind_Inr same_but_def)

lemma settle_break_columns: "same_but {''break_seconds'', ''focused_seconds''} a (settle_break a)"
  by (auto simp: settle_break_def same_but_def)

text \<open>The columns after each of the three commands, before the break is settled.\<close>

definition clock_moved :: "string \<Rightarrow> row \<Rightarrow> row \<Rightarrow> string \<Rightarrow> row \<Rightarrow> bool" where
  "clock_moved action r a occ r' =
     (if action = ''pause'' then get r ''pause_started_at'' = JNull \<and> get r ''ended_at'' = JNull \<and>
        get r' ''pause_started_at'' = JStr occ \<and> get r' ''ended_at'' = JNull \<and>
        get r' ''paused_seconds'' = get a ''paused_seconds''
      else get r ''ended_at'' = JNull \<and> get r' ''pause_started_at'' = JNull \<and>
        (action = ''resume'' \<and> get r ''pause_started_at'' \<noteq> JNull \<and> get r' ''ended_at'' = JNull \<or>
         action = ''end'' \<and> get r' ''ended_at'' = JStr occ) \<and>
        (if get r ''pause_started_at'' = JNull then get r' ''paused_seconds'' = get a ''paused_seconds''
         else \<exists>e. integer_seconds_between (str_of (get r ''pause_started_at'')) occ = Inr e \<and>
           get r' ''paused_seconds'' = JInt (int_of (get_or r ''paused_seconds'' (JInt 0)) + e)))"

definition clock_columns :: "string set" where
  "clock_columns = {''updated_at'', ''break_seconds'', ''gross_seconds'', ''focused_seconds'', ''paused_seconds'',
     ''pause_started_at'', ''ended_at'', ''timer_completion'', ''validity'', ''validity_reason'', ''review_state''}"

definition acted :: "string \<Rightarrow> row \<Rightarrow> row \<Rightarrow> string \<Rightarrow> string \<Rightarrow> row \<Rightarrow> bool" where
  "acted action r a started occ r' = (clock_moved action r a occ r' \<and> same_but (clock_columns - {''updated_at'', ''break_seconds''}) a r' \<and>
     (\<exists>g. integer_seconds_between started occ = Inr g \<and> get r' ''gross_seconds'' = JInt g))"

lemma clock_pause_acted:
  assumes "clock_pause r a started occ = Inr r'" "same_but {''updated_at'', ''break_seconds''} r a"
  shows "acted ''pause'' r a started occ r'"
proof -
  have "get r ''pause_started_at'' = JNull" "get r ''ended_at'' = JNull"
    and w: "with_elapsed (updates a [(''pause_started_at'', JStr occ)]) started occ = Inr r'"
    using assms(1) unfolding clock_pause_def rbind_Inr require_Inr by blast+
  with with_elapsed_columns [OF w] assms(2) show ?thesis
    by (auto simp: acted_def clock_moved_def same_but_def clock_columns_def)
qed

lemma clock_resume_acted:
  assumes "clock_resume r a started occ = Inr r'" "same_but {''updated_at'', ''break_seconds''} r a"
  shows "acted ''resume'' r a started occ r'"
proof -
  obtain a' where "get r ''pause_started_at'' \<noteq> JNull" "get r ''ended_at'' = JNull"
    and c: "close_pause r a occ = Inr a'" and w: "with_elapsed a' started occ = Inr r'"
    using assms(1) unfolding clock_resume_def rbind_Inr require_Inr by blast
  with with_elapsed_columns [OF w] close_pause_columns [OF c] assms(2) show ?thesis
    by (auto simp: acted_def clock_moved_def same_but_def clock_columns_def)
qed

lemma end_outcome_columns:
  assumes "end_outcome r a payload = Inr r'"
  shows "same_but {''timer_completion'', ''validity'', ''validity_reason'', ''review_state''} a r'"
  using assms by (auto simp: end_outcome_def Let_def rbind_Inr require_Inr same_but_def split: if_splits)

lemma clock_end_acted:
  assumes "clock_end r a started occ payload = Inr r'" "same_but {''updated_at'', ''break_seconds''} r a"
  shows "acted ''end'' r a started occ r'"
proof -
  obtain a' a'' where "get r ''ended_at'' = JNull"
    and c: "(if get r ''pause_started_at'' \<noteq> JNull then close_pause r a occ else Inr a) = Inr a'"
    and w: "with_elapsed (updates a' [(''ended_at'', JStr occ)]) started occ = Inr a''"
    and e: "end_outcome r a'' payload = Inr r'"
    using assms(1) unfolding clock_end_def rbind_Inr require_Inr by blast
  note r' = end_outcome_columns [OF e]
  show ?thesis
  proof (cases "get r ''pause_started_at'' = JNull")
    case True
    with c have "a' = a" by simp
    with True with_elapsed_columns [OF w] r' assms(2) \<open>get r ''ended_at'' = JNull\<close> show ?thesis
      by (auto simp: acted_def clock_moved_def same_but_def clock_columns_def)
  next
    case False
    with c have "close_pause r a occ = Inr a'" by simp
    with False with_elapsed_columns [OF w] close_pause_columns [OF this] r' assms(2) \<open>get r ''ended_at'' = JNull\<close>
    show ?thesis by (auto simp: acted_def clock_moved_def same_but_def clock_columns_def)
  qed
qed

section \<open>The invariant of the clock\<close>

text \<open>
  The clock of a session that started at the instant \<open>s\<close>, was last clock_moved at \<open>m\<close> and whose closed pauses, \<open>n\<close> of
  them, took \<open>P\<close> microseconds: the counters are consistent, every pause has lost less than a second, and
  neither the pauses nor the elapsed seconds reach beyond the time the clock stands at.
\<close>

definition stands_at :: "row \<Rightarrow> int \<Rightarrow> int \<Rightarrow> bool" where
  "stands_at r m i = (if get r ''pause_started_at'' = JNull then i = m
     else \<exists>x. get r ''pause_started_at'' = JStr x \<and> stamp x i)"

definition clock_inv :: "row \<Rightarrow> int \<Rightarrow> int \<Rightarrow> int \<Rightarrow> nat \<Rightarrow> bool" where
  "clock_inv r s m P n = ((\<exists>x. get r ''started_at'' = JStr x \<and> stamp x s) \<and>
     (\<exists>x. get r ''updated_at'' = JStr x \<and> stamp x m) \<and> until m (get r ''pause_started_at'') \<and>
     until m (get r ''ended_at'') \<and> s \<le> m \<and>
     (\<exists>g p b f i. counters r g p b f \<and> stands_at r m i \<and> p * 1000000 \<le> P \<and> P \<le> p * 1000000 + int n * 999999 \<and>
        P \<le> i - s \<and> g * 1000000 \<le> i - s))"

lemma seconds_le: "(a::int) * 1000000 \<le> b \<longleftrightarrow> a \<le> b div 1000000"
  by linarith

lemma time_not_before:
  assumes "clock_inv r s m P n" "require_non_regressing_timestamp r occ = Inr u" "stamp occ t"
  shows "m \<le> t"
proof -
  obtain x where "get r ''updated_at'' = JStr x" "stamp x m" using assms(1) unfolding clock_inv_def by blast
  then have m: "persisted_instant r ''updated_at'' = Inr [m]" by (rule persisted_instant_stamp)
  obtain o' found where "parse_timestamp occ = Inr o'" "rmap (persisted_instant r) lifecycle_fields = Inr found"
    "\<not> (concat found \<noteq> [] \<and> instant o' < Max (set (concat found)))"
    using assms(2) unfolding require_non_regressing_timestamp_def rbind_Inr require_Inr Let_def by blast
  moreover have here: "m \<in> set (concat found)"
    using calculation(2) m by (auto simp: lifecycle_fields_def rbind_Inr)
  then have "m \<le> Max (set (concat found))" "concat found \<noteq> []"
    by (rule Max_ge [rotated], simp) (use here in force)
  moreover have "instant o' = t" using assms(3) calculation(1) by (auto simp: stamp_def)
  ultimately show ?thesis by linarith
qed

lemma time_not_before_ok:
  assumes "clock_inv r s m P n" "stamp occ t" "m \<le> t"
  shows "require_non_regressing_timestamp r occ = Inr ()"
proof -
  have u: "until m (get r f)" if "f \<in> set lifecycle_fields" for f
    using that assms(1) by (auto simp: clock_inv_def lifecycle_fields_def until_def)
  have e: "\<exists>is. persisted_instant r f = Inr is \<and> (\<forall>i \<in> set is. i \<le> m)" if "f \<in> set lifecycle_fields" for f
    by (rule persisted_instant_until [OF u [OF that]])
  obtain A where A: "persisted_instant r ''started_at'' = Inr A" "\<forall>i \<in> set A. i \<le> m"
    using e [of "''started_at''"] by (auto simp: lifecycle_fields_def)
  obtain B where B: "persisted_instant r ''pause_started_at'' = Inr B" "\<forall>i \<in> set B. i \<le> m"
    using e [of "''pause_started_at''"] by (auto simp: lifecycle_fields_def)
  obtain C where C: "persisted_instant r ''ended_at'' = Inr C" "\<forall>i \<in> set C. i \<le> m"
    using e [of "''ended_at''"] by (auto simp: lifecycle_fields_def)
  obtain D where D: "persisted_instant r ''updated_at'' = Inr D" "\<forall>i \<in> set D. i \<le> m"
    using e [of "''updated_at''"] by (auto simp: lifecycle_fields_def)
  have le: "\<forall>i \<in> set (A @ B @ C @ D). i \<le> m" using A(2) B(2) C(2) D(2) by auto
  have "rmap (persisted_instant r) lifecycle_fields = Inr [A, B, C, D]"
    using A(1) B(1) C(1) D(1) by (simp add: lifecycle_fields_def)
  moreover have "\<not> (concat [A, B, C, D] \<noteq> [] \<and> t < Max (set (concat [A, B, C, D])))"
  proof
    assume x: "concat [A, B, C, D] \<noteq> [] \<and> t < Max (set (concat [A, B, C, D]))"
    then have "Max (set (concat [A, B, C, D])) \<in> set (concat [A, B, C, D])" by (intro Max_in) auto
    with le have "Max (set (concat [A, B, C, D])) \<le> m" by auto
    with x assms(3) show False by linarith
  qed
  ultimately show ?thesis using assms(2) unfolding require_non_regressing_timestamp_def by (auto simp: stamp_def)
qed

section \<open>One transition\<close>

lemma clock_transition_parts:
  assumes "clock_transition_after r action occ payload = Inr r'"
  obtains a a' t where "stamp occ t" "require_non_regressing_timestamp r occ = Inr ()" "validate_duration_row r = Inr ()"
    "same_but {''updated_at'', ''break_seconds''} r a" "get a ''updated_at'' = JStr occ"
    "acted action r a (str_of (get_or r ''started_at'' (JStr []))) occ a'"
    "r' = settle_break a'" "validate_duration_row r' = Inr ()" "action \<in> {''pause'', ''resume'', ''end''}"
proof -
  let ?st = "str_of (get_or r ''started_at'' (JStr []))"
  obtain a a' t where p: "stamp occ t" "require_non_regressing_timestamp r occ = Inr ()" "validate_duration_row r = Inr ()"
    and a: "clock_start r occ payload = Inr a"
    and b: "(if action = ''pause'' then clock_pause r a ?st occ
            else if action = ''resume'' then clock_resume r a ?st occ
            else if action = ''end'' then clock_end r a ?st occ payload
            else Inl (conflict ''unsupported_clock_action'')) = Inr a'"
    and r': "validate_duration_row (settle_break a') = Inr ()" "r' = settle_break a'"
    using assms unfolding clock_transition_after_def rbind_Inr require_canonical_timestamp_iff Let_def by auto
  note c = clock_start_columns [OF a]
  have "acted action r a ?st occ a' \<and> action \<in> {''pause'', ''resume'', ''end''}"
    using b c clock_pause_acted [of r a ?st occ a'] clock_resume_acted [of r a ?st occ a']
      clock_end_acted [of r a ?st occ payload a'] by (auto split: if_splits)
  with that p c r' show ?thesis by blast
qed

text \<open>The pause a command closes: its length in microseconds.\<close>

definition closed_pause :: "row \<Rightarrow> string \<Rightarrow> int" where
  "closed_pause r occ = (if get r ''pause_started_at'' = JNull then 0
     else (case parse_timestamp occ of Inl _ \<Rightarrow> 0 | Inr t \<Rightarrow>
       (case parse_timestamp (str_of (get r ''pause_started_at'')) of Inl _ \<Rightarrow> 0 | Inr p \<Rightarrow> instant t - instant p)))"

lemma closed_pause_stamp: "get r ''pause_started_at'' = JStr x \<Longrightarrow> stamp x p \<Longrightarrow> stamp occ t \<Longrightarrow> closed_pause r occ = t - p"
  by (auto simp: closed_pause_def stamp_def)

lemma moved_paused:
  assumes "clock_moved action r a occ r'" "get a ''paused_seconds'' = JInt pd" "int_of (get_or r ''paused_seconds'' (JInt 0)) = pd"
    "stands_at r m i" "i \<le> t" "stamp occ t" "P \<le> i - s"
  shows "get r' ''paused_seconds'' = JInt (pd + closed_pause r occ div 1000000) \<and> 0 \<le> closed_pause r occ \<and>
    P + closed_pause r occ \<le> t - s \<and>
    closed_pause r occ \<le> closed_pause r occ div 1000000 * 1000000 + of_bool (get r ''pause_started_at'' \<noteq> JNull) * 999999"
proof (cases "get r ''pause_started_at'' = JNull")
  case True
  then have "closed_pause r occ = 0" by (simp add: closed_pause_def)
  with True assms show ?thesis by (auto simp: clock_moved_def split: if_splits)
next
  case False
  then obtain y where y: "get r ''pause_started_at'' = JStr y" "stamp y i" using assms(4) by (auto simp: stands_at_def)
  note len = closed_pause_stamp [OF y assms(6)]
  have "(t - i) - (t - i) div 1000000 * 1000000 \<le> 999999" by linarith
  with False assms y len seconds_between [OF y(2) assms(6)] show ?thesis
    by (auto simp: clock_moved_def split: if_splits)
qed

lemma clock_invI:
  assumes "get r ''started_at'' = JStr x" "stamp x s" "get r ''updated_at'' = JStr y" "stamp y m"
    "until m (get r ''pause_started_at'')" "until m (get r ''ended_at'')" "s \<le> m" "counters r g p b f" "stands_at r m i"
    "p * 1000000 \<le> P" "P \<le> p * 1000000 + int n * 999999" "P \<le> i - s" "g * 1000000 \<le> i - s"
  shows "clock_inv r s m P n"
  using assms unfolding clock_inv_def by blast

lemma clock_step:
  assumes inv: "clock_inv r s m P n" and step: "clock_transition_after r action occ payload = Inr r'"
  obtains t where "stamp occ t" "m \<le> t"
    "clock_inv r' s t (P + closed_pause r occ) (n + of_bool (get r ''pause_started_at'' \<noteq> JNull))"
    "get r' ''gross_seconds'' = JInt ((t - s) div 1000000)" "get r ''ended_at'' = JNull"
    "get r' ''pause_started_at'' = (if action = ''pause'' then JStr occ else JNull)"
    "action = ''pause'' \<longrightarrow> get r ''pause_started_at'' = JNull" "get r' ''ended_at'' = (if action = ''end'' then JStr occ else JNull)"
    "is_break_session r' = is_break_session r" "0 \<le> closed_pause r occ"
proof -
  obtain a a' t where p: "stamp occ t" "require_non_regressing_timestamp r occ = Inr ()" "validate_duration_row r = Inr ()"
    and a: "same_but {''updated_at'', ''break_seconds''} r a" "get a ''updated_at'' = JStr occ"
    and a': "acted action r a (str_of (get_or r ''started_at'' (JStr []))) occ a'"
    and r': "r' = settle_break a'" "validate_duration_row r' = Inr ()" "action \<in> {''pause'', ''resume'', ''end''}"
    by (rule clock_transition_parts [OF step])
  note mt = time_not_before [OF inv p(2,1)]
  obtain x g pd b f i where x: "get r ''started_at'' = JStr x" "stamp x s" and "s \<le> m"
    and c: "counters r g pd b f" "stands_at r m i" "pd * 1000000 \<le> P" "P \<le> pd * 1000000 + int n * 999999"
      "P \<le> i - s" "g * 1000000 \<le> i - s" and u: "until m (get r ''pause_started_at'')"
    using inv unfolding clock_inv_def by blast
  have x': "str_of (get_or r ''started_at'' (JStr [])) = x" using x(1) by (simp add: get_or_def split: option.splits)
  note same = settle_break_columns [of a', folded r'(1), THEN same_butD]
  have keep: "get r' k = get r k" if "k \<notin> clock_columns" for k
    using that same [of k JNull] a a' by (auto simp: acted_def same_but_def clock_columns_def)
  have col: "get r' k = get a' k" if "k \<notin> {''break_seconds'', ''focused_seconds''}" for k
    using same that by simp
  have upd: "get r' ''updated_at'' = JStr occ" using col [of "''updated_at''"] a' a(2) by (auto simp: acted_def same_but_def)
  have gross: "get r' ''gross_seconds'' = JInt ((t - s) div 1000000)"
    using col [of "''gross_seconds''"] a' seconds_between [OF x(2) p(1)] by (auto simp: acted_def x')
  have pd: "get a ''paused_seconds'' = JInt pd" "int_of (get_or r ''paused_seconds'' (JInt 0)) = pd"
    using a(1) c(1) by (simp_all add: same_but_def counters_def get_or_def split: option.splits)
  have mv: "clock_moved action r a occ r'"
    using a' col unfolding acted_def clock_moved_def by simp
  have i: "i \<le> m" using c(2) u stamp_unique by (fastforce simp: stands_at_def until_def split: if_splits)
  from moved_paused [OF mv pd c(2) _ p(1) c(5)] i mt
  have paused: "get r' ''paused_seconds'' = JInt (pd + closed_pause r occ div 1000000)"
    and cl: "0 \<le> closed_pause r occ" "P + closed_pause r occ \<le> t - s"
      "closed_pause r occ \<le> closed_pause r occ div 1000000 * 1000000 + of_bool (get r ''pause_started_at'' \<noteq> JNull) * 999999"
    by simp_all
  have new: "stands_at r' t t" "until t (get r' ''pause_started_at'')" "until t (get r' ''ended_at'')"
      "get r ''ended_at'' = JNull" "get r' ''pause_started_at'' = (if action = ''pause'' then JStr occ else JNull)"
      "action = ''pause'' \<longrightarrow> get r ''pause_started_at'' = JNull" "get r' ''ended_at'' = (if action = ''end'' then JStr occ else JNull)"
    using mv p(1) by (auto simp: clock_moved_def stands_at_def until_def split: if_splits)
  obtain g' p' b' f' where c': "counters r' g' p' b' f'" using r'(2) by (auto simp: validate_duration_row_iff)
  then have "g' = (t - s) div 1000000" "p' = pd + closed_pause r occ div 1000000"
    using gross paused by (simp_all add: counters_def)
  then have sums: "p' * 1000000 \<le> P + closed_pause r occ"
      "P + closed_pause r occ \<le> p' * 1000000 + int (n + of_bool (get r ''pause_started_at'' \<noteq> JNull)) * 999999"
      "g' * 1000000 \<le> t - s"
    using c(3,4) cl(3) by (auto simp: algebra_simps)
  have start: "get r' ''started_at'' = JStr x" using keep [of "''started_at''"] x(1) by (simp add: clock_columns_def)
  have "s \<le> t" using mt \<open>s \<le> m\<close> by simp
  then have "clock_inv r' s t (P + closed_pause r occ) (n + of_bool (get r ''pause_started_at'' \<noteq> JNull))"
    using clock_invI [OF start x(2) upd p(1) new(2,3) _ c' new(1) sums(1,2) cl(2) sums(3)] by blast
  moreover have "is_break_session r' = is_break_session r"
    using keep [of "''session_type''"] by (simp add: is_break_session_def session_type_of_def clock_columns_def)
  ultimately show ?thesis using that p(1) mt gross new(4-7) cl(1) by blast
qed

section \<open>Legal commands are accepted\<close>

definition outcome_ok :: "row \<Rightarrow> row \<Rightarrow> bool" where
  "outcome_ok r payload =
     (str_of (get_or payload ''timer_completion'' (or_else (get r ''timer_completion'') (JStr ''completed'')))
        \<in> {''completed'', ''ended_early'', ''interrupted''} \<and>
      str_of (get_or payload ''validity'' (get_or r ''validity'' (JStr ''pending''))) \<in> {''pending'', ''valid'', ''invalid''})"

definition clock_legal :: "row \<Rightarrow> string \<Rightarrow> row \<Rightarrow> bool" where
  "clock_legal r action payload = (get r ''ended_at'' = JNull \<and>
     (action = ''pause'' \<and> get r ''pause_started_at'' = JNull \<or>
      action = ''resume'' \<and> get r ''pause_started_at'' \<noteq> JNull \<or>
      action = ''end'' \<and> outcome_ok r payload))"

text \<open>A row whose counters fit the elapsed time.\<close>

definition counters_fit :: "row \<Rightarrow> int \<Rightarrow> int \<Rightarrow> int \<Rightarrow> bool" where
  "counters_fit a p b g = (get a ''paused_seconds'' = JInt p \<and> 0 \<le> p \<and> get a ''break_seconds'' = JInt b \<and> 0 \<le> b \<and> 0 \<le> g \<and>
     (\<exists>n > 0. get a ''planned_seconds'' = JInt n) \<and> (is_break_session a \<or> p + b \<le> g))"

lemma with_elapsed_ok:
  assumes "counters_fit a p b ((t - s) div 1000000)" "stamp x s" "stamp occ t"
  shows "\<exists>a'. with_elapsed a x occ = Inr a' \<and> same_but {''gross_seconds'', ''focused_seconds''} a a' \<and>
    get a' ''gross_seconds'' = JInt ((t - s) div 1000000) \<and>
    get a' ''focused_seconds'' = JInt (if is_break_session a then 0 else (t - s) div 1000000 - p - b)"
  using assms(1) unfolding with_elapsed_def seconds_between [OF assms(2,3)] counters_fit_def
  by (auto simp: focused_seconds_def strict_counter_JInt same_but_def is_break_session_def session_type_of_def)

lemma same_type: "same_but ks r r' \<Longrightarrow> ''session_type'' \<notin> ks \<Longrightarrow> is_break_session r' = is_break_session r"
  by (simp add: same_but_def is_break_session_def session_type_of_def)

lemma settled_valid:
  assumes "counters_fit a p b g" "get a ''gross_seconds'' = JInt g"
    "get a ''focused_seconds'' = JInt (if is_break_session a then 0 else g - p - b)"
  shows "validate_duration_row (settle_break a) = Inr ()"
proof -
  have "get_or a ''gross_seconds'' d = JInt g" "get_or a ''paused_seconds'' d = JInt p" for d
    using assms by (auto simp: counters_fit_def get_or_def split: option.splits)
  then have "counters (settle_break a) g p (if is_break_session a then max 0 (g - p) else b)
      (if is_break_session a then 0 else g - p - b)"
    using assms by (auto simp: counters_def settle_break_def counters_fit_def is_break_session_def session_type_of_def)
  then show ?thesis by (auto simp: validate_duration_row_iff)
qed

lemma counters_fit_same: "counters_fit a p b g \<Longrightarrow> same_but ks a a' \<Longrightarrow>
    ks \<inter> {''paused_seconds'', ''break_seconds'', ''planned_seconds'', ''session_type''} = {} \<Longrightarrow> counters_fit a' p b g"
  by (auto simp: counters_fit_def same_but_def is_break_session_def session_type_of_def)

lemma end_outcome_ok: "outcome_ok r payload \<Longrightarrow> \<exists>a'. end_outcome r a payload = Inr a'"
  by (simp add: end_outcome_def outcome_ok_def Let_def)

text \<open>The three commands, once the row counters_fit the time that will have elapsed.\<close>

lemma clock_pause_ok:
  assumes "get r ''pause_started_at'' = JNull" "get r ''ended_at'' = JNull" "counters_fit a p b ((t - s) div 1000000)"
    "stamp x s" "stamp occ t"
  shows "\<exists>a'. clock_pause r a x occ = Inr a' \<and> validate_duration_row (settle_break a') = Inr ()"
proof -
  let ?a = "updates a [(''pause_started_at'', JStr occ)]"
  have same: "same_but {''pause_started_at''} a ?a" by (rule same_but_updates) simp
  have f: "counters_fit ?a p b ((t - s) div 1000000)" by (rule counters_fit_same [OF assms(3) same]) simp
  obtain a' where a': "with_elapsed ?a x occ = Inr a'" "same_but {''gross_seconds'', ''focused_seconds''} ?a a'"
    "get a' ''gross_seconds'' = JInt ((t - s) div 1000000)"
    "get a' ''focused_seconds'' = JInt (if is_break_session ?a then 0 else (t - s) div 1000000 - p - b)"
    using with_elapsed_ok [OF f assms(4,5)] by blast
  have "counters_fit a' p b ((t - s) div 1000000)" by (rule counters_fit_same [OF f a'(2)]) simp
  from settled_valid [OF this a'(3)] a' same_type [OF a'(2)] assms(1,2) show ?thesis
    by (simp add: clock_pause_def)
qed

lemma close_pause_ok:
  assumes "get r ''pause_started_at'' = JStr y" "stamp y i" "stamp occ t" "int_of (get_or r ''paused_seconds'' (JInt 0)) = p"
    "counters_fit a p b g" "i \<le> t" "g + (t - i) div 1000000 \<le> g'"
  shows "\<exists>a'. close_pause r a occ = Inr a' \<and> counters_fit a' (p + (t - i) div 1000000) b g' \<and> get a' ''pause_started_at'' = JNull"
  using assms by (auto simp: close_pause_def seconds_between counters_fit_def is_break_session_def session_type_of_def)

lemma clock_resume_ok:
  assumes "get r ''pause_started_at'' \<noteq> JNull" "get r ''ended_at'' = JNull" "close_pause r a occ = Inr a1"
    "counters_fit a1 p b ((t - s) div 1000000)" "stamp x s" "stamp occ t"
  shows "\<exists>a'. clock_resume r a x occ = Inr a' \<and> validate_duration_row (settle_break a') = Inr ()"
proof -
  obtain a' where a': "with_elapsed a1 x occ = Inr a'" "same_but {''gross_seconds'', ''focused_seconds''} a1 a'"
    "get a' ''gross_seconds'' = JInt ((t - s) div 1000000)"
    "get a' ''focused_seconds'' = JInt (if is_break_session a1 then 0 else (t - s) div 1000000 - p - b)"
    using with_elapsed_ok [OF assms(4,5,6)] by blast
  have "counters_fit a' p b ((t - s) div 1000000)" by (rule counters_fit_same [OF assms(4) a'(2)]) simp
  from settled_valid [OF this a'(3)] a' same_type [OF a'(2)] assms(1-3) show ?thesis
    by (simp add: clock_resume_def)
qed

lemma clock_end_ok:
  assumes "get r ''ended_at'' = JNull" "outcome_ok r payload"
    "(if get r ''pause_started_at'' \<noteq> JNull then close_pause r a occ else Inr a) = Inr a1"
    "counters_fit a1 p b ((t - s) div 1000000)" "stamp x s" "stamp occ t"
  shows "\<exists>a'. clock_end r a x occ payload = Inr a' \<and> validate_duration_row (settle_break a') = Inr ()"
proof -
  let ?a = "updates a1 [(''ended_at'', JStr occ)]"
  have same: "same_but {''ended_at''} a1 ?a" by (rule same_but_updates) simp
  have f: "counters_fit ?a p b ((t - s) div 1000000)" by (rule counters_fit_same [OF assms(4) same]) simp
  obtain a' where a': "with_elapsed ?a x occ = Inr a'" "same_but {''gross_seconds'', ''focused_seconds''} ?a a'"
    "get a' ''gross_seconds'' = JInt ((t - s) div 1000000)"
    "get a' ''focused_seconds'' = JInt (if is_break_session ?a then 0 else (t - s) div 1000000 - p - b)"
    using with_elapsed_ok [OF f assms(5,6)] by blast
  have f': "counters_fit a' p b ((t - s) div 1000000)" by (rule counters_fit_same [OF f a'(2)]) simp
  obtain e where e: "end_outcome r a' payload = Inr e" using end_outcome_ok [OF assms(2)] by blast
  note same_e = end_outcome_columns [OF e]
  have "counters_fit e p b ((t - s) div 1000000)" by (rule counters_fit_same [OF f' same_e]) simp
  moreover have "get e ''gross_seconds'' = JInt ((t - s) div 1000000)"
    "get e ''focused_seconds'' = JInt (if is_break_session e then 0 else (t - s) div 1000000 - p - b)"
    using a'(3,4) same_e same_type [OF same_e] same_type [OF a'(2)] by (simp_all add: same_but_def)
  ultimately have "validate_duration_row (settle_break e) = Inr ()" by (rule settled_valid)
  with assms(1,3) a'(1) e show ?thesis by (simp add: clock_end_def)
qed

lemma clock_accepts:
  assumes inv: "clock_inv r s m P n" and t: "stamp occ t" "m \<le> t" and b: "\<not> has_key payload ''break_seconds''"
    and legal: "clock_legal r action payload"
  shows "\<exists>r'. clock_transition_after r action occ payload = Inr r'"
proof -
  obtain x g pd b f i where x: "get r ''started_at'' = JStr x" "stamp x s" and "s \<le> m"
    and c: "counters r g pd b f" "stands_at r m i" "g * 1000000 \<le> i - s" and u: "until m (get r ''pause_started_at'')"
    using inv unfolding clock_inv_def by blast
  have x': "str_of (get_or r ''started_at'' (JStr [])) = x" using x(1) by (simp add: get_or_def split: option.splits)
  have i: "i \<le> m" using c(2) u stamp_unique by (fastforce simp: stands_at_def until_def split: if_splits)
  let ?a = "updates r [(''updated_at'', JStr occ)]"
  have start: "clock_start r occ payload = Inr ?a" using b by (simp add: clock_start_def has_key_def Let_def)
  have "same_but {''updated_at''} r ?a" by (rule same_but_updates) simp
  note f = counters_fit_same [OF _ this]
  have fit: "counters_fit r pd b g" using c(1) by (auto simp: counters_def counters_fit_def split: if_splits)
  have running: "counters_fit ?a pd b ((t - s) div 1000000)" if "get r ''pause_started_at'' = JNull"
  proof -
    have "i = m" using that c(2) by (simp add: stands_at_def)
    then have "g \<le> (t - s) div 1000000" using c(3) t(2) by linarith
    with fit have "counters_fit r pd b ((t - s) div 1000000)" by (auto simp: counters_fit_def)
    then show ?thesis by (rule f) simp
  qed
  have closed: "\<exists>a1. close_pause r ?a occ = Inr a1 \<and> counters_fit a1 (pd + (t - i) div 1000000) b ((t - s) div 1000000)"
    if paused: "get r ''pause_started_at'' \<noteq> JNull"
  proof -
    obtain y where y: "get r ''pause_started_at'' = JStr y" "stamp y i" using paused c(2) by (auto simp: stands_at_def)
    have "int_of (get_or r ''paused_seconds'' (JInt 0)) = pd"
      using c(1) by (simp add: counters_def get_or_def split: option.splits)
    moreover have "counters_fit ?a pd b g" by (rule f [OF fit]) simp
    moreover have "g + (t - i) div 1000000 \<le> (t - s) div 1000000" using c(3) by linarith
    ultimately show ?thesis using close_pause_ok [OF y t(1)] i t(2) by fastforce
  qed
  have end_null: "get r ''ended_at'' = JNull" using legal by (simp add: clock_legal_def)
  obtain a' where a': "(if action = ''pause'' then clock_pause r ?a x occ else if action = ''resume'' then clock_resume r ?a x occ
      else if action = ''end'' then clock_end r ?a x occ payload else Inl (conflict ''unsupported_clock_action'')) = Inr a'"
    "validate_duration_row (settle_break a') = Inr ()"
  proof -
    consider (pause) "action = ''pause''" "get r ''pause_started_at'' = JNull" | (resume) "action = ''resume''" "get r ''pause_started_at'' \<noteq> JNull"
      | (stop) "action = ''end''" "outcome_ok r payload" "get r ''pause_started_at'' = JNull"
      | (over) "action = ''end''" "outcome_ok r payload" "get r ''pause_started_at'' \<noteq> JNull"
      using legal unfolding clock_legal_def by blast
    then show ?thesis
    proof cases
      case pause
      with clock_pause_ok [OF pause(2) end_null running [OF pause(2)] x(2) t(1)] show ?thesis by (auto intro: that)
    next
      case resume
      from closed [OF resume(2)] obtain a1 where "close_pause r ?a occ = Inr a1"
        "counters_fit a1 (pd + (t - i) div 1000000) b ((t - s) div 1000000)" by blast
      from clock_resume_ok [OF resume(2) end_null this x(2) t(1)] resume(1) show ?thesis by (auto intro: that)
    next
      case stop
      with clock_end_ok [OF end_null stop(2) _ running [OF stop(3)] x(2) t(1)] show ?thesis by (auto intro: that)
    next
      case over
      from closed [OF over(3)] obtain a1 where "close_pause r ?a occ = Inr a1"
        "counters_fit a1 (pd + (t - i) div 1000000) b ((t - s) div 1000000)" by blast
      with clock_end_ok [OF end_null over(2) _ this(2) x(2) t(1), where a = ?a] over show ?thesis by (auto intro: that)
    qed
  qed
  have "validate_duration_row r = Inr ()" using c(1) by (auto simp: validate_duration_row_iff)
  moreover have "require_canonical_timestamp (JStr occ) = Inr occ" "require_canonical_timestamp (JStr x) = Inr x"
    using t(1) x(2) by (auto simp: require_canonical_timestamp_iff)
  ultimately have "clock_transition_after r action occ payload = Inr (settle_break a')"
    by (simp only: clock_transition_after_def time_not_before_ok [OF inv t] start x' Let_def rbind_simps a')
  then show ?thesis by blast
qed

text \<open>A session runs through a list of commands: their names, times and payloads.\<close>

type_synonym clock_command = "string \<times> string \<times> row"

fun run_clock :: "row \<Rightarrow> clock_command list \<Rightarrow> row res" where
  "run_clock r [] = Inr r"
| "run_clock r ((action, occ, payload) # cs) =
     rbind (clock_transition_after r action occ payload) (\<lambda>r'. run_clock r' cs)"

text \<open>The exact lengths of the pauses, in microseconds, from the times of the commands alone.\<close>

definition time_of :: "string \<Rightarrow> int" where
  "time_of x = (case parse_timestamp x of Inl _ \<Rightarrow> 0 | Inr t \<Rightarrow> instant t)"

fun pause_lengths :: "string option \<Rightarrow> clock_command list \<Rightarrow> int list" where
  "pause_lengths p [] = []"
| "pause_lengths None ((action, occ, _) # cs) = pause_lengths (if action = ''pause'' then Some occ else None) cs"
| "pause_lengths (Some p) ((_, occ, _) # cs) = (time_of occ - time_of p) # pause_lengths None cs"

lemma run_clock_append: "run_clock r (cs @ ds) = rbind (run_clock r cs) (\<lambda>r'. run_clock r' ds)"
proof (induction cs arbitrary: r)
  case (Cons c cs)
  then show ?case by (cases c, cases "clock_transition_after r (fst c) (fst (snd c)) (snd (snd c))") simp_all
qed simp

definition just_started :: "row \<Rightarrow> string \<Rightarrow> bool" where
  "just_started r x = (get r ''started_at'' = JStr x \<and> get r ''updated_at'' = JStr x \<and> (\<exists>i. stamp x i) \<and>
     get r ''pause_started_at'' = JNull \<and> get r ''ended_at'' = JNull \<and> get r ''gross_seconds'' = JInt 0 \<and>
     get r ''paused_seconds'' = JInt 0 \<and> validate_duration_row r = Inr ())"

lemma time_of_stamp: "stamp x i \<Longrightarrow> time_of x = i"
  by (auto simp: stamp_def time_of_def)

definition open_pause :: "row \<Rightarrow> string option" where
  "open_pause r = (case get r ''pause_started_at'' of JStr x \<Rightarrow> Some x | _ \<Rightarrow> None)"

lemma just_started_inv: "just_started r x \<Longrightarrow> clock_inv r (time_of x) (time_of x) 0 0 \<and> open_pause r = None"
  by (auto simp: just_started_def clock_inv_def time_of_stamp validate_duration_row_iff open_pause_def until_def stands_at_def
      counters_def) force+

lemma pause_step:
  assumes inv: "clock_inv r s m P n" and step: "clock_transition_after r action occ payload = Inr r'"
  shows "pause_lengths (open_pause r) ((action, occ, payload) # cs) =
      (if get r ''pause_started_at'' = JNull then [] else [closed_pause r occ]) @ pause_lengths (open_pause r') cs"
proof -
  obtain t where t: "stamp occ t" "get r' ''pause_started_at'' = (if action = ''pause'' then JStr occ else JNull)"
    "action = ''pause'' \<longrightarrow> get r ''pause_started_at'' = JNull"
    by (rule clock_step [OF inv step])
  show ?thesis
  proof (cases "get r ''pause_started_at'' = JNull")
    case True
    then show ?thesis using t(2) by (simp add: open_pause_def)
  next
    case False
    then obtain y i where y: "get r ''pause_started_at'' = JStr y" "stamp y i"
      using inv by (auto simp: clock_inv_def until_def)
    with closed_pause_stamp [OF y t(1)] t show ?thesis by (simp add: open_pause_def time_of_stamp)
  qed
qed

lemma run_clock_inv:
  assumes "clock_inv r s m P n" "run_clock r cs = Inr r'"
  shows "\<exists>m'. clock_inv r' s m' (P + sum_list (pause_lengths (open_pause r) cs)) (n + length (pause_lengths (open_pause r) cs)) \<and>
    is_break_session r' = is_break_session r \<and>
    pause_lengths (open_pause r) (cs @ ds) = pause_lengths (open_pause r) cs @ pause_lengths (open_pause r') ds"
  using assms
proof (induction cs arbitrary: r m P n)
  case Nil
  then show ?case by auto
next
  case (Cons c cs)
  obtain action occ payload where c: "c = (action, occ, payload)" by (cases c)
  obtain r1 where step: "clock_transition_after r action occ payload = Inr r1" and run: "run_clock r1 cs = Inr r'"
    using Cons.prems(2) by (auto simp: c rbind_Inr)
  obtain t where "clock_inv r1 s t (P + closed_pause r occ) (n + of_bool (get r ''pause_started_at'' \<noteq> JNull))"
    "is_break_session r1 = is_break_session r"
    by (rule clock_step [OF Cons.prems(1) step])
  note next_inv = this
  note ih = Cons.IH [OF next_inv(1) run] and ps = pause_step [OF Cons.prems(1) step]
  show ?case
  proof (cases "get r ''pause_started_at'' = JNull")
    case True
    then have "closed_pause r occ = 0" by (simp add: closed_pause_def)
    with True ih ps next_inv(2) show ?thesis by (simp add: c)
  next
    case False
    with ih ps next_inv(2) show ?thesis by (simp add: c add.assoc)
  qed
qed

section \<open>The properties\<close>

lemma clock_success_legal:
  assumes "clock_transition_after r action occ payload = Inr r'"
  shows "clock_legal r action payload"
proof -
  obtain a a' where "acted action r a (str_of (get_or r ''started_at'' (JStr []))) occ a'" "action \<in> {''pause'', ''resume'', ''end''}"
    by (rule clock_transition_parts [OF assms])
  moreover have "outcome_ok r payload" if "action = ''end''"
    using assms that unfolding clock_transition_after_def clock_end_def rbind_Inr Let_def
    by (auto simp: rbind_Inr require_Inr end_outcome_def outcome_ok_def Let_def)
  ultimately show ?thesis by (auto simp: clock_legal_def acted_def clock_moved_def split: if_splits)
qed

text \<open>
  C14: On a session whose clock is consistent, a command at a time not before the last one, which
  reports no break seconds of its own, is accepted exactly when the session is in the right state: pause when it
  runs, resume when it is paused, end when it has not ended and the completion and validity are known words. The
  counters never stand in the way, and the clock is consistent afterwards.
\<close>

theorem clock_accepts_iff:
  assumes "clock_inv r s m P n" "stamp occ t" "m \<le> t" "\<not> has_key payload ''break_seconds''"
  shows "(clock_legal r action payload \<longleftrightarrow> (\<exists>r'. clock_transition_after r action occ payload = Inr r')) \<and>
    (\<forall>r'. clock_transition_after r action occ payload = Inr r' \<longrightarrow>
       (\<exists>P' n'. clock_inv r' s t P' n' \<and> (P \<le> P' \<and> n \<le> n') \<and> get r' ''gross_seconds'' = JInt ((t - s) div 1000000)))"
proof (intro conjI iffI allI impI)
  assume "clock_legal r action payload"
  then show "\<exists>r'. clock_transition_after r action occ payload = Inr r'" by (rule clock_accepts [OF assms])
next
  assume "\<exists>r'. clock_transition_after r action occ payload = Inr r'"
  then show "clock_legal r action payload" using clock_success_legal by blast
next
  fix r' assume step: "clock_transition_after r action occ payload = Inr r'"
  obtain t' where t': "stamp occ t'" "get r' ''gross_seconds'' = JInt ((t' - s) div 1000000)" "m \<le> t'"
    "clock_inv r' s t' (P + closed_pause r occ) (n + of_bool (get r ''pause_started_at'' \<noteq> JNull))" "0 \<le> closed_pause r occ"
    by (rule clock_step [OF assms(1) step])
  with stamp_unique [OF assms(2) t'(1)] show "\<exists>P' n'. clock_inv r' s t P' n' \<and> (P \<le> P' \<and> n \<le> n') \<and>
      get r' ''gross_seconds'' = JInt ((t - s) div 1000000)" by fastforce
qed

lemma settled_break:
  assumes "clock_transition_after r action occ payload = Inr r'" "counters r' g p b f"
  shows "is_break_session r' \<longrightarrow> b = max 0 (g - p)"
proof -
  obtain a' where r': "r' = settle_break a'" by (rule clock_transition_parts [OF assms(1)])
  note same = settle_break_columns [of a', folded r', THEN same_butD]
  have "get a' ''gross_seconds'' = JInt g" "get a' ''paused_seconds'' = JInt p"
    using assms(2) same [of "''gross_seconds''" JNull] same [of "''paused_seconds''" JNull] by (simp_all add: counters_def)
  then have "int_of (get_or a' ''gross_seconds'' (JInt 0)) = g" "int_of (get_or a' ''paused_seconds'' (JInt 0)) = p"
    by (auto simp: get_or_def split: option.splits)
  moreover have "is_break_session a' = is_break_session r'"
    using same [of "''session_type''" JNull] by (simp add: is_break_session_def session_type_of_def)
  ultimately show ?thesis using assms(2) by (auto simp: r' settle_break_def counters_def)
qed

lemma net_seconds:
  fixes p :: int
  assumes "p * 1000000 \<le> l" "g = d div 1000000"
  shows "(d - l) div 1000000 \<le> g - p"
proof -
  have "(d - l) div 1000000 \<le> (d - p * 1000000) div 1000000" using assms(1) by (intro zdiv_mono1) auto
  also have "\<dots> = g - p" using assms(2) by (simp add: div_diff)
  finally show ?thesis .
qed

text \<open>
  C13: Whatever sequence of pauses, resumptions and reported breaks a session goes through before
  it ends, the seconds it records as focus and break together are at least the exact time the clock ran, in
  full seconds, and exceed it by at most one second for each pause. A break session records no focus.
\<close>

theorem net_time_bounds:
  assumes "just_started r x" "run_clock r (cs @ [(''end'', stop, payload)]) = Inr r'"
  shows "\<exists>focused breaks. get r' ''focused_seconds'' = JInt focused \<and> get r' ''break_seconds'' = JInt breaks \<and>
    0 \<le> focused \<and> 0 \<le> breaks \<and> (is_break_session r \<longrightarrow> focused = 0) \<and>
    (let pauses = pause_lengths None (cs @ [(''end'', stop, payload)]);
         net = (time_of stop - time_of x - sum_list pauses) div 1000000 in
     net \<le> focused + breaks \<and> focused + breaks \<le> net + int (length pauses))"
proof -
  let ?cs = "cs @ [(''end'', stop, payload)]"
  have start: "clock_inv r (time_of x) (time_of x) 0 0" "open_pause r = None" using just_started_inv [OF assms(1)] by simp_all
  obtain r1 where r1: "run_clock r cs = Inr r1" and step: "clock_transition_after r1 ''end'' stop payload = Inr r'"
    using assms(2) by (auto simp: run_clock_append rbind_Inr)
  let ?L = "pause_lengths None cs"
  obtain m where inv1: "clock_inv r1 (time_of x) m (sum_list ?L) (length ?L)" and ty: "is_break_session r1 = is_break_session r"
    and L: "pause_lengths None ?cs = ?L @ pause_lengths (open_pause r1) [(''end'', stop, payload)]"
    using run_clock_inv [OF start(1) r1] start(2) by auto
  obtain t where t: "stamp stop t" "get r' ''gross_seconds'' = JInt ((t - time_of x) div 1000000)" "m \<le> t"
    "clock_inv r' (time_of x) t (sum_list ?L + closed_pause r1 stop) (length ?L + of_bool (get r1 ''pause_started_at'' \<noteq> JNull))"
    "is_break_session r' = is_break_session r1" "get r' ''pause_started_at'' = JNull"
    by (rule clock_step [OF inv1 step]) (rule that, assumption+, simp)
  have len: "sum_list (pause_lengths None ?cs) = sum_list ?L + closed_pause r1 stop"
    "length (pause_lengths None ?cs) = length ?L + of_bool (get r1 ''pause_started_at'' \<noteq> JNull)"
    using pause_step [OF inv1 step, of "[]"] L by (simp_all add: closed_pause_def)
  obtain g p b f i where c: "counters r' g p b f" "p * 1000000 \<le> sum_list (pause_lengths None ?cs)"
    "sum_list (pause_lengths None ?cs) \<le> p * 1000000 + int (length (pause_lengths None ?cs)) * 999999"
    "stands_at r' t i" "sum_list (pause_lengths None ?cs) \<le> i - time_of x"
    using t(4) unfolding clock_inv_def len [symmetric] by blast
  have g: "g = (t - time_of x) div 1000000" using c(1) t(2) by (simp add: counters_def)
  have i: "i = t" using c(4) t(6) by (simp add: stands_at_def)
  let ?net = "(t - time_of x - sum_list (pause_lengths None ?cs)) div 1000000" and ?n = "int (length (pause_lengths None ?cs))"
  have p: "p \<le> g" using c(2,5) i g seconds_le by (meson order.trans)
  have fb: "f + b = g - p" using c(1) settled_break [OF step c(1)] p by (auto simp: counters_def split: if_splits)
  have "(g - p - ?n) * 1000000 \<le> t - time_of x - sum_list (pause_lengths None ?cs)"
    using c(3) seconds_le [of g "t - time_of x"] g by (simp add: algebra_simps)
  then have "g - p - ?n \<le> ?net" by (simp only: seconds_le)
  moreover have "?net \<le> g - p" using c(2) g by (intro net_seconds)
  moreover have "is_break_session r \<longrightarrow> f = 0" using c(1) t(5) ty by (auto simp: counters_def)
  ultimately show ?thesis using c(1) fb p time_of_stamp [OF t(1)]
    by (auto simp: counters_def Let_def intro!: exI [of _ f] exI [of _ b] split: if_splits)
qed

section \<open>Witnesses\<close>

text \<open>A morning session: it starts at eight, is paused once for almost two minutes, and ends after 25 minutes.\<close>

definition sample_session :: row where
  "sample_session = dict [(''id'', JStr ''s-1''), (''session_type'', JStr ''work''), (''started_at'', JStr ''2026-01-01T08:00:00Z''),
     (''updated_at'', JStr ''2026-01-01T08:00:00Z''), (''planned_seconds'', JInt 1500), (''gross_seconds'', JInt 0),
     (''paused_seconds'', JInt 0), (''break_seconds'', JInt 0), (''focused_seconds'', JInt 0),
     (''validity'', JStr ''pending''), (''review_state'', JStr ''not_required'')]"

lemmas calendar = SYNC_UTC_RFC3339_def digits_at_def is_digit_def valid_datetime_def split_timestamp_def slice_def num_of_def
  digit_val_def days_in_month_def is_leap_def

lemma sample_times:
  "stamp ''2026-01-01T08:00:00Z'' (63902937600 * 1000000)"
  "stamp ''2026-01-01T08:10:00.5Z'' (63902938200 * 1000000 + 500000)"
  "stamp ''2026-01-01T08:12:00.25Z'' (63902938320 * 1000000 + 250000)"
  "stamp ''2026-01-01T08:25:00Z'' (63902939100 * 1000000)"
  by (simp_all add: stamp_def parse_timestamp_def calendar instant_def ymd2ord_def days_before_year_def days_before_month_def)

lemma sample_started: "just_started sample_session ''2026-01-01T08:00:00Z''"
  using sample_times(1) unfolding just_started_def
  by (auto simp: sample_session_def dict_def validate_duration_row_iff counters_def is_break_session_def session_type_of_def
      or_else_def FOCUS_BREAK_TYPES_def)

definition sample_commands :: "clock_command list" where
  "sample_commands = [(''pause'', ''2026-01-01T08:10:00.5Z'', fmempty), (''resume'', ''2026-01-01T08:12:00.25Z'', fmempty)]"

definition sample_outcome :: row where
  "sample_outcome = dict [(''timer_completion'', JStr ''completed''), (''validity'', JStr ''valid'')]"

lemma sample_session_run: "\<exists>r'. run_clock sample_session (sample_commands @ [(''end'', ''2026-01-01T08:25:00Z'', sample_outcome)]) = Inr r'"
proof -
  note started = just_started_inv [OF sample_started, THEN conjunct1]
  have s: "time_of ''2026-01-01T08:00:00Z'' = 63902937600 * 1000000" by (rule time_of_stamp [OF sample_times(1)])
  have null: "get sample_session ''pause_started_at'' = JNull" "get sample_session ''ended_at'' = JNull"
    using sample_started by (simp_all add: just_started_def)
  obtain r1 where r1: "clock_transition_after sample_session ''pause'' ''2026-01-01T08:10:00.5Z'' fmempty = Inr r1"
    using clock_accepts [OF started sample_times(2), of fmempty "''pause''"] null s by (auto simp: has_key_def clock_legal_def)
  obtain t1 where t1: "stamp ''2026-01-01T08:10:00.5Z'' t1" "clock_inv r1 (time_of ''2026-01-01T08:00:00Z'') t1
      (0 + closed_pause sample_session ''2026-01-01T08:10:00.5Z'') (0 + of_bool (get sample_session ''pause_started_at'' \<noteq> JNull))"
    "get r1 ''pause_started_at'' = JStr ''2026-01-01T08:10:00.5Z''" "get r1 ''ended_at'' = JNull"
    by (rule clock_step [OF started r1]) (rule that, assumption+, simp_all)
  note t1' = stamp_unique [OF t1(1) sample_times(2)]
  obtain r2 where r2: "clock_transition_after r1 ''resume'' ''2026-01-01T08:12:00.25Z'' fmempty = Inr r2"
    using clock_accepts [OF t1(2) sample_times(3), of fmempty "''resume''"] t1 t1' by (auto simp: has_key_def clock_legal_def)
  obtain t2 where t2: "stamp ''2026-01-01T08:12:00.25Z'' t2" "clock_inv r2 (time_of ''2026-01-01T08:00:00Z'') t2
      (0 + closed_pause sample_session ''2026-01-01T08:10:00.5Z'' + closed_pause r1 ''2026-01-01T08:12:00.25Z'')
      (0 + of_bool (get sample_session ''pause_started_at'' \<noteq> JNull) + of_bool (get r1 ''pause_started_at'' \<noteq> JNull))"
    "get r2 ''ended_at'' = JNull"
    by (rule clock_step [OF t1(2) r2]) (rule that, assumption+, simp_all)
  note t2' = stamp_unique [OF t2(1) sample_times(3)]
  have "\<exists>r'. clock_transition_after r2 ''end'' ''2026-01-01T08:25:00Z'' sample_outcome = Inr r'"
    by (rule clock_accepts [OF t2(2) sample_times(4)])
      (use t2(3) t2' in \<open>simp_all add: has_key_def clock_legal_def outcome_ok_def sample_outcome_def dict_def\<close>)
  with r1 r2 show ?thesis by (auto simp: sample_commands_def)
qed

lemma clock_accepts_iff_witness:
  "\<exists>r'. clock_transition_after sample_session ''pause'' ''2026-01-01T08:10:00.5Z'' fmempty = Inr r' \<and>
     get r' ''gross_seconds'' = JInt 600"
proof -
  have s: "time_of ''2026-01-01T08:00:00Z'' = 63902937600 * 1000000" by (rule time_of_stamp [OF sample_times(1)])
  have "clock_legal sample_session ''pause'' fmempty" using sample_started by (simp add: just_started_def clock_legal_def)
  with clock_accepts_iff [OF just_started_inv [OF sample_started, THEN conjunct1] sample_times(2), of fmempty "''pause''"]
  show ?thesis by (auto simp: s has_key_def)
qed

lemma net_time_bounds_witness:
  "\<exists>r' focused breaks. run_clock sample_session (sample_commands @ [(''end'', ''2026-01-01T08:25:00Z'', sample_outcome)]) = Inr r' \<and>
     get r' ''focused_seconds'' = JInt focused \<and> get r' ''break_seconds'' = JInt breaks \<and>
     1380 \<le> focused + breaks \<and> focused + breaks \<le> 1381"
proof -
  obtain r' where r': "run_clock sample_session (sample_commands @ [(''end'', ''2026-01-01T08:25:00Z'', sample_outcome)]) = Inr r'"
    using sample_session_run by blast
  from net_time_bounds [OF sample_started this] r' show ?thesis
    by (auto simp: sample_commands_def time_of_stamp [OF sample_times(1)] time_of_stamp [OF sample_times(2)]
        time_of_stamp [OF sample_times(3)] time_of_stamp [OF sample_times(4)])
qed

end
