(* ===== verification/EffortProperties.thy ===== *)
theory EffortProperties
  imports FocusSession
begin

text \<open>
  What the effort projection promises: the stored sums are those of the sessions. First what an update of one
  row does to a Space and to the lists of its rows, then the sums, then the commands.
\<close>

section \<open>Updates of one row\<close>

lemma session_specs:
  assumes "builtin_space ov"
  shows "catalog_get (ov_catalog ov) ''focus_session'' = Some focus_session_spec"
    "catalog_get (ov_catalog ov) ''session_attribution_revision'' = Some session_attribution_revision_spec"
    "catalog_get (ov_catalog ov) ''session_task_context'' = Some session_task_context_spec"
    "catalog_get (ov_catalog ov) ''session_work_item_plan'' = Some session_work_item_plan_spec"
    "catalog_get (ov_catalog ov) ''work_item'' = Some work_item_spec"
proof -
  have *: "s \<in> set builtin_specs \<Longrightarrow> catalog_get (ov_catalog ov) (es_name s) = Some s" for s
    using assms by (simp add: builtin_space_def)
  show "catalog_get (ov_catalog ov) ''focus_session'' = Some focus_session_spec"
    "catalog_get (ov_catalog ov) ''session_attribution_revision'' = Some session_attribution_revision_spec"
    "catalog_get (ov_catalog ov) ''session_task_context'' = Some session_task_context_spec"
    "catalog_get (ov_catalog ov) ''session_work_item_plan'' = Some session_work_item_plan_spec"
    "catalog_get (ov_catalog ov) ''work_item'' = Some work_item_spec"
    using * [of focus_session_spec] * [of session_attribution_revision_spec] * [of session_task_context_spec]
      * [of session_work_item_plan_spec] * [of work_item_spec] by (simp_all add: builtin_specs_def)
qed

lemma session_keys:
  "id_keyed focus_session_spec" "id_keyed session_attribution_revision_spec" "id_keyed session_task_context_spec"
  "id_keyed session_work_item_plan_spec"
  by (simp_all add: id_keyed_def pk_field_set_def field_names_builtin)

lemma session_primary_keys [simp]:
  "es_primary_key focus_session_spec = ''id''" "es_primary_key session_attribution_revision_spec = ''id''"
  "es_primary_key session_task_context_spec = ''id''" "es_primary_key session_work_item_plan_spec = ''id''"
  by simp_all

lemma row_update_apply:
  assumes ov: "builtin_space ov" "ov_catalog ov = cx_catalog cx" "catalog_get (ov_catalog ov) t = Some spec"
      "id_keyed spec" "es_primary_key spec = ''id''"
    and rows: "ov_row ov t [i] = Some before" "fld before ''version'' = JInt v"
      "fmdom' after = fmdom' before" "fld after ''id'' = fld before ''id''" "row_ok after"
    and u: "row_update cx t before after ts = Inr (plan, event)"
  shows "apply_plan ov plan = Inr (with_row ov t [i] after)" "builtin_space (with_row ov t [i] after)"
    "ev_action event \<noteq> EvDelete"
proof -
  have wf: "overlay_wf ov" using ov(1) by (simp add: builtin_space_def)
  note row = table_row [OF ov(1,3,4) rows(1)]
  have k: "pk_field_set spec = [''id'']" using ov(4) by (simp add: id_keyed_def)
  have version: "get before ''version'' = JInt v" using rows(2) row(1) ov(4) by (simp add: get_fld id_keyed_def)
  have p: "plan = \<lparr>pl_table = es_table_name spec, pl_pk = dict [(''id'', i)], pl_op = Update,
      pl_expected = Some v, pl_before = Some before, pl_after = Some after\<rparr>"
    and e: "update_sync t after ts = Inr event"
    using u ov(2,3,5) row(2) rows(3,4) version
    by (auto simp: row_update_def update_plan_def rbind_Inr DbMutationPlan_Inr expected_of_def)
  have "version_is before (pl_expected plan)" using version by (simp add: version_is_def p)
  moreover have "row_shape (ov_catalog ov) t (pk_values spec (pl_pk plan)) after"
    using ov(3) row(1,2) rows k by (simp add: row_shape_def pk_values_def p dict_single)
  ultimately show "apply_plan ov plan = Inr (with_row ov t [i] after)"
    and "builtin_space (with_row ov t [i] after)"
    using apply_update [OF wf ov(3), of plan before after] rows(1) k builtin_space_with_row [OF ov(1)]
    by (simp_all add: p pk_values_def dict_single)
  show "ev_action event \<noteq> EvDelete" using SyncEventPlan_Inr [OF e [unfolded update_sync_def]] by simp
qed

text \<open>The lists of rows after the change of a row that is there.\<close>

lemma update_present:
  assumes "distinct (map fst m)" "map_of m k = Some x"
  shows "AList.update k v m = map (\<lambda>(j, y). if j = k then (k, v) else (j, y)) m"
  using assms by (induction m) (auto split: if_splits intro!: map_idI [symmetric] simp: rev_image_eqI)

lemma entries_with_row:
  assumes "overlay_wf ov" "ov_row ov t ident = Some r0"
  shows "sort_key (\<lambda>((kind, ident), _). (kind, identity_text ident)) (ov_map (with_row ov t ident r)) =
    map (\<lambda>(j, y). if j = (t, ident) then ((t, ident), r) else (j, y))
      (sort_key (\<lambda>((kind, ident), _). (kind, identity_text ident)) (ov_map ov))"
proof -
  have "distinct (map fst (ov_map ov))" "map_of (ov_map ov) (t, ident) = Some r0"
    using assms by (simp_all add: overlay_wf_iff ov_row_def)
  then have "ov_map (with_row ov t ident r) =
      map (\<lambda>(j, y). if j = (t, ident) then ((t, ident), r) else (j, y)) (ov_map ov)"
    by (simp add: with_row_def update_present)
  then show ?thesis by (simp only:) (rule sort_key_keeps, auto)
qed

lemma filter_other:
  "t' \<noteq> t \<Longrightarrow> map snd (filter (\<lambda>((kind, _), x). kind = t' \<and> P x)
      (map (\<lambda>(j, y). if j = (t, ident) then ((t, ident), r) else (j, y)) es)) =
    map snd (filter (\<lambda>((kind, _), x). kind = t' \<and> P x) es)"
  by (induction es) (auto split: if_splits)

lemma filter_same:
  assumes "\<And>ident x. ((t, ident), x) \<in> set es \<Longrightarrow> ident = [fld x ''id''] \<and> P x" "P r"
  shows "map snd (filter (\<lambda>((kind, _), x). kind = t \<and> P x)
      (map (\<lambda>(j, y). if j = (t, [i]) then ((t, [i]), r) else (j, y)) es)) =
    map (\<lambda>x. if fld x ''id'' = i then r else x) (map snd (filter (\<lambda>((kind, _), x). kind = t \<and> P x) es))"
  using assms(1)
proof (induction es)
  case (Cons e es)
  have ih: "map snd (filter (\<lambda>((kind, _), x). kind = t \<and> P x)
      (map (\<lambda>(j, y). if j = (t, [i]) then ((t, [i]), r) else (j, y)) es)) =
    map (\<lambda>x. if fld x ''id'' = i then r else x) (map snd (filter (\<lambda>((kind, _), x). kind = t \<and> P x) es))"
    by (rule Cons.IH) (use Cons.prems in auto)
  obtain kind ident x where e: "e = ((kind, ident), x)" by (metis surj_pair)
  show ?case
  proof (cases "kind = t")
    case True
    then have "ident = [fld x ''id'']" "P x" using Cons.prems [of ident x] by (simp_all add: e)
    with True ih assms(2) show ?thesis by (simp add: e)
  next
    case False
    with ih show ?thesis by (simp add: e)
  qed
qed simp

lemma ov_rows_with_other:
  assumes "overlay_wf ov" "ov_row ov t ident = Some r0" "t' \<noteq> t"
  shows "ov_rows (with_row ov t ident r) t' = ov_rows ov t'"
  unfolding ov_rows_def entries_with_row [OF assms(1,2)] ov_select_with_row filter_other [OF assms(3)] ..

lemma ov_rows_with_row:
  assumes "builtin_space ov" "catalog_get (ov_catalog ov) t = Some spec" "id_keyed spec" "es_primary_key spec = ''id''"
    "ov_row ov t [i] = Some r0" "has_key r ''id''" "ov_rows ov t = Inr rows"
  shows "ov_rows (with_row ov t [i] r) t = Inr (map (\<lambda>x. if fld x ''id'' = i then r else x) rows)"
proof -
  have wf: "overlay_wf ov" using assms(1) by (simp add: builtin_space_def)
  let ?es = "sort_key (\<lambda>((kind, ident), _). (kind, identity_text ident)) (ov_map ov)"
  have keyed: "ident = [fld x ''id''] \<and> has_key x ''id''" if "((t, ident), x) \<in> set ?es" for ident x
  proof -
    have "ov_row ov t ident = Some x" using that wf by (simp add: overlay_wf_iff ov_row_def)
    from table_row [OF assms(1-3) this] show ?thesis using assms(3)
      by (auto simp: id_keyed_def has_key_def dest!: fld_lookup [of "''id''" x, rotated])
  qed
  have "rows = map snd (filter (\<lambda>((kind, _), x). kind = t \<and> has_key x ''id'') ?es)"
    using assms(2,4,7) by (simp add: ov_rows_def)
  then show ?thesis
    unfolding ov_rows_def entries_with_row [OF wf assms(5)] ov_select_with_row
    using assms(2,4) filter_same [where t = t and es = ?es and P = "\<lambda>x. has_key x ''id''" and r = r and i = i, OF keyed assms(6)] by simp
qed

end
