(* ===== verification/SessionReplay.thy ===== *)
theory SessionReplay
  imports SessionSync ClockProperties EffortProperties
begin

text \<open>
  What the replay of a session promises: a client that was offline cannot invent clock facts. Whatever row it
  sends, the stored clock either stands still or has made one legal transition, computed by the server.
\<close>

section \<open>The clock under other changes\<close>

text \<open>The columns the invariant of the clock reads.\<close>

definition clock_reads :: "string set" where
  "clock_reads = {''started_at'', ''updated_at'', ''pause_started_at'', ''ended_at'', ''gross_seconds'', ''paused_seconds'',
     ''break_seconds'', ''focused_seconds'', ''planned_seconds'', ''session_type''}"

lemma clock_inv_same:
  assumes "clock_inv r s m P n" "same_but ks r r'" "ks \<inter> clock_reads = {}"
  shows "clock_inv r' s m P n"
proof -
  have "get r' k = get r k" if "k \<in> clock_reads" for k using that assms(3) same_butD [OF assms(2)] by blast
  then have "\<forall>k \<in> clock_reads. get r' k = get r k" by blast
  note k = this [unfolded clock_reads_def, simplified]
  have "is_break_session r' = is_break_session r" by (simp add: is_break_session_def session_type_of_def k)
  then have "clock_inv r' s m P n = clock_inv r s m P n" by (simp only: clock_inv_def counters_def stands_at_def k)
  then show ?thesis using assms(1) by simp
qed

lemma clock_inv_later:
  assumes "clock_inv r s m P n" "stamp x t" "m \<le> t"
  shows "clock_inv (updates r [(''updated_at'', JStr x)]) s t P n"
proof -
  let ?r = "updates r [(''updated_at'', JStr x)]"
  obtain y g p b f i where y: "get r ''started_at'' = JStr y" "stamp y s" "s \<le> m"
    and u: "until m (get r ''pause_started_at'')" "until m (get r ''ended_at'')"
    and c: "counters r g p b f" "stands_at r m i" "p * 1000000 \<le> P" "P \<le> p * 1000000 + int n * 999999"
      "P \<le> i - s" "g * 1000000 \<le> i - s"
    using assms(1) unfolding clock_inv_def by blast
  have i: "i \<le> m" using c(2) u stamp_unique by (fastforce simp: stands_at_def until_def split: if_splits)
  have later: "until t v" if "until m v" for v using that assms(3) by (force simp: until_def)
  let ?i = "if get r ''pause_started_at'' = JNull then t else i"
  have "counters ?r g p b f" using c(1) by (simp add: counters_def is_break_session_def session_type_of_def)
  moreover have "stands_at ?r t ?i" using c(2) by (auto simp: stands_at_def)
  moreover have "P \<le> ?i - s" "g * 1000000 \<le> ?i - s" using c(5,6) i assms(3) by auto
  ultimately show ?thesis
    using y u assms(2,3) c(3,4) by (intro clock_invI [of ?r y s x t g p b f ?i]) (simp_all add: later)
qed

section \<open>The parts of a replay\<close>

lemma put_content_same:
  assumes "put_content payload a = Inr b"
  shows "same_but (set FOCUS_SYNC_MUTABLE_FIELDS) a b"
proof -
  have "b = updates a (List.map_filter (\<lambda>k. map_option (Pair k) (fmlookup payload k)) FOCUS_SYNC_MUTABLE_FIELDS)"
    using assms by (simp add: put_content_def rbind_Inr)
  moreover have "fst ` set (List.map_filter (\<lambda>k. map_option (Pair k) (fmlookup payload k)) ks) \<subseteq> set ks" for ks
    by (induction ks) (auto simp: List.map_filter_def)
  ultimately show ?thesis by (auto intro: same_but_updates)
qed

lemma replayed_clock_Inr:
  assumes "replayed_clock rq current pending = Inr (a, ended)"
  obtains action occ payload g where "clock_transition_after current action occ payload = Inr g" "\<not> has_key payload ''break_seconds''"
    "same_but {''review_state''} g a"
proof -
  obtain action where v: "clock_action_of (rq_payload rq) current = Inr action"
    using assms unfolding replayed_clock_def rbind_Inr Let_def by blast
  show ?thesis
  proof (cases "or_else (client_stamp rq) (get (rq_payload rq) ''updated_at'')")
    case (JStr x)
    obtain g where "clock_transition_after current action x (fmdrop ''break_seconds'' (rq_payload rq)) = Inr g"
      "a = (if pending then updates g [(''review_state'', JStr ''pending'')] else g)"
      using assms unfolding replayed_clock_def v JStr Let_def rbind_simps json.case rbind_Inr by blast
    then show ?thesis by (intro that [of action x "fmdrop ''break_seconds'' (rq_payload rq)" g]) (auto simp: has_key_def same_but_def)
  qed (use assms in \<open>simp_all add: replayed_clock_def v\<close>)
qed

lemma replayed_content_Inr:
  assumes "replayed_content rq current = Inr a"
  obtains x t where "stamp x t" "require_non_regressing_timestamp current x = Inr ()" "a = updates current [(''updated_at'', JStr x)]"
proof (cases "or_else (or_else (client_stamp rq) (get (rq_payload rq) ''updated_at'')) (get current ''updated_at'')")
  case (JStr x)
  then show ?thesis using assms that
    by (auto simp: replayed_content_def rbind_Inr Let_def require_canonical_timestamp_iff simp del: updates.simps)
qed (use assms in \<open>auto simp: replayed_content_def rbind_Inr Let_def\<close>)

lemma sync_session_Inr:
  assumes c: "compile_sync_update cx rq ''focus_session'' = Inr c"
    and current: "ov_row (cx_overlay cx) ''focus_session'' [JStr (rq_entity_id rq)] = Some current"
  obtains session pending a ended b plan where "require_provisional_session cx (get current ''id'') = Inr session"
    "replayed_clock rq current pending = Inr (a, ended) \<or> replayed_content rq current = Inr a"
    "put_content (rq_payload rq) a = Inr b" "cm_plans c = [plan]"
    "pl_after plan = Some (updates b [(''version'', next_version current)])"
proof -
  have "\<exists>spec. catalog_get (cx_catalog cx) ''focus_session'' = Some spec"
    using c by (auto simp: compile_sync_update_def split: option.splits)
  then obtain session where p: "require_provisional_session cx (get current ''id'') = Inr session"
    and s: "compile_sync_focus_session_update cx rq current = Inr c"
    using c current by (auto simp: compile_sync_update_def rbind_Inr)
  define pending where "pending = (get (rq_payload rq) ''ended_at'' \<noteq> JNull \<and> get current ''ended_at'' = JNull \<and>
            get current ''review_state'' = JStr ''not_required'' \<and> get (rq_payload rq) ''review_state'' = JStr ''pending'')"
  obtain a ended b plan event where a: "(if \<exists>f \<in> set FOCUS_CLOCK_FIELDS. differs (rq_payload rq) current f
             then replayed_clock rq current pending
             else rbind (replayed_content rq current) (\<lambda>after. Inr (after, False))) = Inr (a, ended)"
    and b: "put_content (rq_payload rq) a = Inr b"
    and u: "row_update cx ''focus_session'' current (updates b [(''version'', next_version current)])
      (text_of (updates b [(''version'', next_version current)]) ''updated_at'') = Inr (plan, event)"
    and cmd: "cx_command cx rq [plan] [event] (dict [(''updated'', JBool True), (''entityType'', JStr ''focus_session'')]) None = Inr c"
    using s unfolding compile_sync_focus_session_update_def Let_def pending_def [symmetric]
    by (auto simp: rbind_Inr simp del: updates.simps split: prod.splits)
  have "pl_after plan = Some (updates b [(''version'', next_version current)])"
    using u by (auto simp: row_update_def update_plan_def rbind_Inr DbMutationPlan_Inr simp del: updates.simps split: option.splits)
  moreover have "replayed_clock rq current pending = Inr (a, ended) \<or> replayed_content rq current = Inr a"
    using a by (auto simp: rbind_Inr split: if_splits)
  ultimately show ?thesis using that p b cx_command_Inr [OF cmd] by metis
qed

lemma provisional_session:
  assumes "require_provisional_session cx (JStr i) = Inr session" "ov_row (cx_overlay cx) ''focus_session'' [JStr i] = Some current"
  shows "get current ''ownership_state'' = JStr ''local_provisional'' \<and> get current ''validity'' = JStr ''pending''"
  using assms by (auto simp: require_provisional_session_def rbind_Inr require_Inr)

text \<open>
  C12: when a client replays a changed session row, the stored session was provisional and pending, and its
  clock afterwards is as it was (only the stamp may move forward) or is what one legal command of the clock makes of
  it, with break seconds the client may not choose. Beside that, only the note, the progress, the mood, the state of
  the review and the version may differ. The invariant of the clock is kept, and its time does not run backwards.
\<close>

theorem replay_cannot_invent_clock:
  assumes space: "builtin_space (cx_overlay cx)" and inv: "clock_inv before s m P n"
    and before: "ov_row (cx_overlay cx) ''focus_session'' [JStr (rq_entity_id rq)] = Some before"
    and c: "compile_sync_update cx rq ''focus_session'' = Inr c"
  shows "get before ''ownership_state'' = JStr ''local_provisional'' \<and> get before ''validity'' = JStr ''pending'' \<and>
    (\<exists>after g. map pl_after (cm_plans c) = [Some after] \<and>
       same_but {''session_note'', ''overall_progress'', ''mood'', ''review_state'', ''version''} g after \<and>
       ((\<exists>x. g = updates before [(''updated_at'', JStr x)]) \<or>
        (\<exists>action occ payload. clock_transition_after before action occ payload = Inr g \<and> \<not> has_key payload ''break_seconds'')) \<and>
       (\<exists>m' P' n'. m \<le> m' \<and> clock_inv after s m' P' n'))"
proof -
  obtain session pending a ended b plan where p: "require_provisional_session cx (get before ''id'') = Inr session"
    and a: "replayed_clock rq before pending = Inr (a, ended) \<or> replayed_content rq before = Inr a"
    and b: "put_content (rq_payload rq) a = Inr b"
    and plan: "cm_plans c = [plan]" "pl_after plan = Some (updates b [(''version'', next_version before)])"
    by (rule sync_session_Inr [OF c before])
  note row = table_row [OF space session_specs(1) [OF space] session_keys(1) before]
  have "''id'' \<in> fmdom' before" by (simp add: row(1) field_names_builtin)
  then have "get before ''id'' = JStr (rq_entity_id rq)" using row(2) by (simp add: get_fld)
  then have prov: "get before ''ownership_state'' = JStr ''local_provisional'' \<and> get before ''validity'' = JStr ''pending''"
    using provisional_session [OF _ before] p by simp
  let ?ks = "{''session_note'', ''overall_progress'', ''mood'', ''review_state'', ''version''}"
    and ?after = "updates b [(''version'', next_version before)]"
  have ab: "same_but ?ks a ?after"
    using same_but_trans [OF same_but_mono [OF put_content_same [OF b], of ?ks] same_but_updates [of "[(''version'', next_version before)]" ?ks b]]
    by (simp add: FOCUS_SYNC_MUTABLE_FIELDS_def del: updates.simps)
  have free: "?ks \<inter> clock_reads = {}" by (simp add: clock_reads_def)
  have "\<exists>g m' P' n'. same_but ?ks g ?after \<and> m \<le> m' \<and> clock_inv g s m' P' n' \<and>
      ((\<exists>x. g = updates before [(''updated_at'', JStr x)]) \<or>
       (\<exists>action occ payload. clock_transition_after before action occ payload = Inr g \<and> \<not> has_key payload ''break_seconds''))"
  proof (cases "replayed_content rq before = Inr a")
    case True
    obtain x t where x: "stamp x t" "require_non_regressing_timestamp before x = Inr ()" "a = updates before [(''updated_at'', JStr x)]"
      by (rule replayed_content_Inr [OF True])
    have "m \<le> t" by (rule time_not_before [OF inv x(2,1)])
    with clock_inv_later [OF inv x(1)] x(3) ab show ?thesis by blast
  next
    case False
    then obtain action occ payload g where g: "clock_transition_after before action occ payload = Inr g"
      "\<not> has_key payload ''break_seconds''" "same_but {''review_state''} g a"
      using a replayed_clock_Inr by blast
    have "same_but ?ks g ?after" by (rule same_but_trans [OF same_but_mono [OF g(3)] ab]) simp
    moreover obtain t where "m \<le> t" "clock_inv g s t (P + closed_pause before occ) (n + of_bool (get before ''pause_started_at'' \<noteq> JNull))"
      by (rule clock_step [OF inv g(1)])
    ultimately show ?thesis using g(1,2) by blast
  qed
  then show ?thesis using prov plan clock_inv_same [OF _ _ free] by fastforce
qed

end
