(* ===== verification/EffortSums.thy ===== *)
theory EffortSums
  imports EffortProperties
begin

text \<open>
  The effort projection as a sum: what the loop over the sessions accumulates is, for every work item, the sum
  of the focused seconds of the sessions that contribute to it, and which changes of a Space leave it alone.
\<close>

section \<open>One session\<close>

text \<open>The item a session counts for, and the seconds it counts there.\<close>

definition target_of :: "row list \<Rightarrow> row \<Rightarrow> string" where
  "target_of attributions session = text_of (hd (effective_of attributions (text_of session ''id''))) ''level2_work_item_id''"

definition share :: "row list \<Rightarrow> string \<Rightarrow> row \<Rightarrow> int" where
  "share attributions i session =
     (if contributes session \<and> target_of attributions session = i then int_of (get session ''focused_seconds'') else 0)"

lemma effort_of_simps [simp]:
  "effort_of fmempty i = 0" "effort_of (fmupd k n m) i = (if i = k then n else effort_of m i)"
  by (simp_all add: effort_of_def)

lemma effort_target_Inr:
  assumes "effort_target ov session a = Inr (target, focused)"
  shows "target = text_of a ''level2_work_item_id''" "get session ''focused_seconds'' = JInt focused" "0 \<le> focused"
    "\<exists>w. ov_row ov ''work_item'' [JStr target] = Some w \<and> effort_depth ov w = 2"
  using assms by (auto simp: effort_target_def Let_def rbind_Inr require_Inr split: option.splits json.splits if_splits)

lemma effort_step_cases:
  assumes "effort_step ov attributions m session = Inr m'"
  obtains "\<not> contributes session" "m' = m"
  | focused where "contributes session" "get session ''focused_seconds'' = JInt focused" "0 \<le> focused"
      "\<exists>w. ov_row ov ''work_item'' [JStr (target_of attributions session)] = Some w \<and> effort_depth ov w = 2"
      "effort_of m (target_of attributions session) + focused \<le> SAFE_INTEGER_MAX"
      "m' = fmupd (target_of attributions session) (effort_of m (target_of attributions session) + focused) m"
proof (cases "contributes session")
  case False
  then show ?thesis using assms that(1) by (auto simp: effort_step_def Let_def rbind_Inr)
next
  case True
  then obtain target focused
    where t: "effort_target ov session (hd (effective_of attributions (text_of session ''id''))) = Inr (target, focused)"
      and m': "effort_of m target + focused \<le> SAFE_INTEGER_MAX" "m' = fmupd target (effort_of m target + focused) m"
    using assms by (auto simp: effort_step_def Let_def rbind_Inr require_Inr effort_of_def)
  show ?thesis using effort_target_Inr [OF t] m' True by (intro that(2) [of focused]) (auto simp: target_of_def)
qed

lemma effort_step_Inr:
  assumes "effort_step ov attributions m session = Inr m'"
  shows "effort_of m' i = effort_of m i + share attributions i session" "0 \<le> share attributions i session"
    "effort_of m i \<le> SAFE_INTEGER_MAX \<Longrightarrow> effort_of m' i \<le> SAFE_INTEGER_MAX"
    "share attributions i session \<noteq> 0 \<Longrightarrow> \<exists>w. ov_row ov ''work_item'' [JStr i] = Some w \<and> effort_depth ov w = 2"
  using assms by (auto elim!: effort_step_cases simp: share_def split: if_splits)

section \<open>All sessions\<close>

lemma efforts_sum:
  assumes "rfold (effort_step ov attributions) m sessions = Inr m'"
  shows "effort_of m' i = effort_of m i + sum_list (map (share attributions i) sessions)"
  using assms by (induction sessions arbitrary: m) (auto simp: rbind_Inr effort_step_Inr(1))

lemma efforts_bounded:
  assumes "rfold (effort_step ov attributions) m sessions = Inr m'" "effort_of m i \<le> SAFE_INTEGER_MAX"
  shows "effort_of m' i \<le> SAFE_INTEGER_MAX"
  using assms by (induction sessions arbitrary: m) (auto simp: rbind_Inr dest: effort_step_Inr(3))

lemma efforts_shares:
  assumes "rfold (effort_step ov attributions) m sessions = Inr m'" "session \<in> set sessions"
  shows "0 \<le> share attributions i session"
    "share attributions i session \<noteq> 0 \<Longrightarrow> \<exists>w. ov_row ov ''work_item'' [JStr i] = Some w \<and> effort_depth ov w = 2"
  using assms by (induction sessions arbitrary: m) (auto simp: rbind_Inr dest: effort_step_Inr(2,4))

text \<open>The sessions and the attributions the computation reads.\<close>

definition read_sessions :: "overlay \<Rightarrow> (string \<times> row) list \<Rightarrow> row list" where
  "read_sessions ov session_overrides =
     (case ov_rows ov ''focus_session'' of Inl _ \<Rightarrow> [] | Inr rows \<Rightarrow> map (overridden session_overrides) rows)"

definition read_attributions :: "overlay \<Rightarrow> (string \<times> row list) list \<Rightarrow> row list" where
  "read_attributions ov attribution_overrides =
     (case ov_rows ov ''session_attribution_revision'' of Inl _ \<Rightarrow> [] | Inr rows \<Rightarrow>
        filter (\<lambda>a. text_of a ''session_id'' \<notin> fst ` set attribution_overrides) rows @ concat (map snd attribution_overrides))"

lemma compute_effort_map_Inr:
  assumes "compute_effort_map ov so ao = Inr m"
  shows "rfold (effort_step ov (read_attributions ov ao)) fmempty (read_sessions ov so) = Inr m"
  using assms by (auto simp: compute_effort_map_def rbind_Inr read_sessions_def read_attributions_def)

lemma compute_effort_map_read:
  assumes "builtin_space ov"
  shows "compute_effort_map ov so ao = rfold (effort_step ov (read_attributions ov ao)) fmempty (read_sessions ov so)"
  using ov_rows_Inr [OF session_specs(1) [OF assms]] ov_rows_Inr [OF session_specs(2) [OF assms]]
  by (auto simp: compute_effort_map_def read_sessions_def read_attributions_def)

lemma computed_sum:
  assumes "compute_effort_map ov so ao = Inr m"
  shows "effort_of m i = sum_list (map (share (read_attributions ov ao) i) (read_sessions ov so))"
  using efforts_sum [OF compute_effort_map_Inr [OF assms]] by simp

text \<open>
  C16: what the effort projection computes for a work item is the sum of the focused seconds of the sessions
  that have ended, are valid, authoritative and no breaks, and whose sole effective attribution names the item. The
  sum is never negative and never above the largest integer a client can hold exactly, and a sum other than zero
  belongs to an item of the second level.
\<close>

theorem effort_is_a_sum:
  assumes "compute_effort_map ov so ao = Inr m"
  shows "effort_of m i = sum_list (map (share (read_attributions ov ao) i) (read_sessions ov so)) \<and>
    0 \<le> effort_of m i \<and> effort_of m i \<le> SAFE_INTEGER_MAX \<and>
    (effort_of m i \<noteq> 0 \<longrightarrow> (\<exists>w. ov_row ov ''work_item'' [JStr i] = Some w \<and> effort_depth ov w = 2))"
proof -
  note r = compute_effort_map_Inr [OF assms]
  let ?sh = "share (read_attributions ov ao) i" and ?s = "read_sessions ov so"
  have sum: "effort_of m i = sum_list (map ?sh ?s)" by (rule computed_sum [OF assms])
  moreover have "0 \<le> sum_list (map ?sh ?s)" using efforts_shares(1) [OF r] by (intro sum_list_nonneg) auto
  moreover have "\<exists>s \<in> set ?s. ?sh s \<noteq> 0" if "effort_of m i \<noteq> 0"
    using that sum by (metis (no_types, lifting) sum_list_0 map_eq_conv)
  then have "effort_of m i \<noteq> 0 \<longrightarrow> (\<exists>w. ov_row ov ''work_item'' [JStr i] = Some w \<and> effort_depth ov w = 2)"
    using efforts_shares(2) [OF r] by blast
  ultimately show ?thesis using efforts_bounded [OF r, of i] by (simp add: SAFE_INTEGER_MAX_def)
qed

end
