(* ===== verification/EffortCommands.thy ===== *)
theory EffortCommands
  imports EffortSums ClockProperties
begin

text \<open>
  What the commands of the Focus Session do to the stored efforts. First, which changes of a Space the sums
  do not see; then the updates a recomputation writes; then the rebuild and the commands of the clock.
\<close>

section \<open>Changes the sums do not see\<close>

text \<open>Only efforts, with stamps and versions, differ.\<close>

definition effort_columns :: "string set" where
  "effort_columns = {''effort_actual_seconds'', ''updated_at'', ''version''}"

definition same_items :: "overlay \<Rightarrow> overlay \<Rightarrow> bool" where
  "same_items ov ov' =
     (\<forall>ident. rel_option (same_but effort_columns) (ov_row ov ''work_item'' ident) (ov_row ov' ''work_item'' ident))"

definition efforts_only :: "overlay \<Rightarrow> overlay \<Rightarrow> bool" where
  "efforts_only ov ov' = (ov_catalog ov' = ov_catalog ov \<and> same_items ov ov' \<and>
     (\<forall>t. t \<noteq> ''work_item'' \<longrightarrow> ov_rows ov' t = ov_rows ov t))"

lemma same_items_refl [simp]: "same_items ov ov"
  by (simp add: same_items_def option.rel_refl)

lemma rel_option_trans:
  "rel_option P x y \<Longrightarrow> rel_option P y z \<Longrightarrow> (\<And>a b c. P a b \<Longrightarrow> P b c \<Longrightarrow> P a c) \<Longrightarrow> rel_option P x z"
  by (auto elim!: option.rel_cases)

lemma same_items_trans: "same_items ov ov1 \<Longrightarrow> same_items ov1 ov2 \<Longrightarrow> same_items ov ov2"
  unfolding same_items_def by (blast intro: rel_option_trans same_but_trans)

lemma efforts_only_refl [simp]: "efforts_only ov ov"
  by (simp add: efforts_only_def)

lemma efforts_only_trans: "efforts_only ov ov1 \<Longrightarrow> efforts_only ov1 ov2 \<Longrightarrow> efforts_only ov ov2"
  unfolding efforts_only_def by (auto intro: same_items_trans)

lemma efforts_only_with_row:
  assumes "overlay_wf ov" "ov_row ov ''work_item'' ident = Some r" "same_but effort_columns r r'"
  shows "efforts_only ov (with_row ov ''work_item'' ident r')"
  using ov_rows_with_other [OF assms(1,2)] assms(2,3) by (simp add: efforts_only_def same_items_def option.rel_refl)

lemma same_items_cases:
  assumes "same_items ov ov'"
  obtains "ov_row ov ''work_item'' ident = None" "ov_row ov' ''work_item'' ident = None"
  | r r' where "ov_row ov ''work_item'' ident = Some r" "ov_row ov' ''work_item'' ident = Some r'" "same_but effort_columns r r'"
  using assms unfolding same_items_def by (metis option.rel_cases)

lemma same_parent: "same_but effort_columns r r' \<Longrightarrow> get r' ''parent_id'' = get r ''parent_id''"
  by (simp add: same_but_def effort_columns_def)

lemma same_items_depth:
  assumes "same_items ov ov'"
  shows "depth_loop ov' d p = depth_loop ov d p"
proof (induction "4 - d" arbitrary: d p rule: less_induct)
  case less
  show ?case
  proof (cases rule: same_items_cases [OF assms, where ident = "[JStr (str_of p)]"])
    case 1
    then show ?thesis by (simp add: depth_loop.simps [of ov] depth_loop.simps [of ov'])
  next
    case (2 r r')
    then show ?thesis using less [of "d + 1" "get r ''parent_id''"] same_parent [OF 2(3)]
      by (simp add: depth_loop.simps [of ov d] depth_loop.simps [of ov' d])
  qed
qed

lemma same_items_target:
  assumes "same_items ov ov'"
  shows "effort_target ov' session a = effort_target ov session a"
proof (cases rule: same_items_cases [OF assms, where ident = "[JStr (text_of a ''level2_work_item_id'')]"])
  case 1
  then show ?thesis by (simp add: effort_target_def)
next
  case (2 r r')
  then have "effort_depth ov' r' = effort_depth ov r" "text_of r' ''project_id'' = text_of r ''project_id''"
    using same_items_depth [OF assms] same_parent [OF 2(3)]
    by (simp_all add: effort_depth_def text_of_def same_but_def effort_columns_def)
  with 2 show ?thesis by (simp add: effort_target_def Let_def)
qed

lemma same_items_step:
  assumes "same_items ov ov'"
  shows "effort_step ov' = effort_step ov"
proof -
  have "effort_target ov' = effort_target ov" by (intro ext) (rule same_items_target [OF assms])
  then show ?thesis by (simp only: effort_step_def [abs_def])
qed

lemma same_efforts:
  assumes "efforts_only ov ov'"
  shows "compute_effort_map ov' so ao = compute_effort_map ov so ao"
  using assms same_items_step [of ov ov'] by (simp add: efforts_only_def compute_effort_map_def)

text \<open>A changed session row, as the Space holds it and as the override of the computation.\<close>

lemma efforts_with_session:
  assumes "builtin_space ov" "ov_row ov ''focus_session'' [JStr sid] = Some before" "fld after ''id'' = JStr sid" "has_key after ''id''"
    and strings: "\<And>ident r. ov_row ov ''focus_session'' ident = Some r \<Longrightarrow> \<exists>i. ident = [JStr i]"
  shows "compute_effort_map (with_row ov ''focus_session'' [JStr sid] after) [] [] = compute_effort_map ov [(sid, after)] []"
proof -
  let ?ov = "with_row ov ''focus_session'' [JStr sid] after"
  note spec = session_specs(1) [OF assms(1)]
  have wf: "overlay_wf ov" using assms(1) by (simp add: builtin_space_def)
  obtain rows where rows: "ov_rows ov ''focus_session'' = Inr rows" using ov_rows_Inr [OF spec] ..
  have new: "ov_rows ?ov ''focus_session'' = Inr (map (\<lambda>x. if fld x ''id'' = JStr sid then after else x) rows)"
    by (rule ov_rows_with_row [OF assms(1) spec session_keys(1) _ assms(2,4) rows]) simp
  have "text_of x ''id'' = sid \<longleftrightarrow> fld x ''id'' = JStr sid" if "x \<in> set rows" for x
  proof -
    obtain ident where x: "ov_row ov ''focus_session'' ident = Some x" using \<open>x \<in> set rows\<close> ov_rows_iff [OF wf rows] by blast
    obtain i where i: "ident = [JStr i]" using strings [OF x] ..
    note t = table_row [OF assms(1) spec session_keys(1) x]
    have "''id'' \<in> fmdom' x" using t(1) session_keys(1) by (simp add: id_keyed_def)
    moreover have "fld x ''id'' = JStr i" using t(2) i by simp
    ultimately show ?thesis by (simp add: text_of_def get_fld)
  qed
  then have "map (\<lambda>x. if fld x ''id'' = JStr sid then after else x) rows = map (overridden [(sid, after)]) rows"
    by (auto simp: overridden_def)
  moreover have "same_items ov ?ov" by (simp add: same_items_def option.rel_refl)
  moreover have "ov_rows ?ov ''session_attribution_revision'' = ov_rows ov ''session_attribution_revision''"
    by (rule ov_rows_with_other [OF wf assms(2)]) simp
  moreover have "overridden [] = (\<lambda>x. x)" by (auto simp: overridden_def)
  ultimately show ?thesis
    using new rows same_items_step [of ov ?ov] by (simp add: compute_effort_map_def del: map_eq_conv)
qed

section \<open>What a recomputation writes\<close>

definition effort_space :: "overlay \<Rightarrow> bool" where
  "effort_space ov = (builtin_space ov \<and> ov_row ov ''work_item'' [JStr []] = None \<and>
     (\<forall>t \<in> {''focus_session'', ''work_item''}. \<forall>ident r. ov_row ov t ident = Some r \<longrightarrow>
        (\<exists>i v. ident = [JStr i] \<and> fld r ''version'' = JInt v)) \<and>
     (\<forall>ident r. ov_row ov ''session_attribution_revision'' ident = Some r \<longrightarrow>
        (\<exists>i j. fld r ''session_id'' = JStr i \<and> fld r ''level2_work_item_id'' = JStr j)))"

definition stored_effort :: "row \<Rightarrow> int" where
  "stored_effort r = int_of (get_or r ''effort_actual_seconds'' (JInt 0))"

lemma effort_spaceD:
  assumes "effort_space ov"
  shows "builtin_space ov" "overlay_wf ov" "ov_row ov ''work_item'' [JStr []] = None"
    "ov_row ov ''focus_session'' ident = Some r \<Longrightarrow> \<exists>i v. ident = [JStr i] \<and> fld r ''version'' = JInt v"
    "ov_row ov ''work_item'' ident = Some r \<Longrightarrow> \<exists>i v. ident = [JStr i] \<and> fld r ''version'' = JInt v"
    "ov_row ov ''session_attribution_revision'' ident = Some r \<Longrightarrow>
      \<exists>i j. fld r ''session_id'' = JStr i \<and> fld r ''level2_work_item_id'' = JStr j"
  using assms by (auto simp: effort_space_def builtin_space_def)

lemma effort_space_with_row:
  assumes "effort_space ov" "builtin_space (with_row ov t [JStr i] r)" "fld r ''version'' = JInt v" "ov_row ov t [JStr i] = Some r0"
    "t \<noteq> ''session_attribution_revision''"
  shows "effort_space (with_row ov t [JStr i] r)"
  using assms by (auto simp: effort_space_def split: if_splits)

lemma item_row_columns:
  assumes "builtin_space ov" "ov_row ov ''work_item'' ident = Some w" "k \<in> set (field_names work_item_spec)"
  shows "k \<in> fmdom' w"
  using table_row(1) [OF assms(1) session_specs(5) [OF assms(1)] work_item_keys assms(2)] assms(3) by simp

lemma effort_update_Inr:
  assumes ov: "effort_space ov" "ov_catalog ov = cx_catalog cx"
      "ov_row ov ''work_item'' [JStr i] = ov_row (cx_overlay cx) ''work_item'' [JStr i]"
    and u: "effort_update cx missing now so ao i = Inr u" and m: "compute_effort_map (cx_overlay cx) so ao = Inr m"
  obtains w where "u = None" "ov_row ov ''work_item'' [JStr i] = Some w" "stored_effort w = effort_of m i"
  | w plan event after where "u = Some (plan, event)" "ov_row ov ''work_item'' [JStr i] = Some w"
      "apply_plan ov plan = Inr (with_row ov ''work_item'' [JStr i] after)" "effort_space (with_row ov ''work_item'' [JStr i] after)"
      "same_but effort_columns w after" "stored_effort after = effort_of m i" "ev_action event \<noteq> EvDelete"
proof -
  obtain w where w: "ov_row ov ''work_item'' [JStr i] = Some w"
    using u ov(3) by (auto simp: effort_update_def split: option.splits)
  note b = effort_spaceD(1) [OF ov(1)]
  show ?thesis
  proof (cases "stored_effort w = effort_of m i")
    case True
    then show ?thesis
      using u w ov(3) m by (intro that(1) [of w]) (auto simp: effort_update_def compute_effort_for_work_item_def stored_effort_def rbind_Inr)
  next
    case False
    obtain stamp where up: "rbind (row_update cx ''work_item'' w (updates w [(''effort_actual_seconds'', JInt (effort_of m i)),
        (''updated_at'', JStr stamp), (''version'', JInt (int_of (get_or w ''version'' (JInt 1)) + 1))]) stamp) (\<lambda>u. Inr (Some u)) = Inr u"
      using u w ov(3) m False
      by (auto simp: effort_update_def compute_effort_for_work_item_def stored_effort_def rbind_Inr Let_def simp del: updates.simps)
    define after where "after = updates w [(''effort_actual_seconds'', JInt (effort_of m i)), (''updated_at'', JStr stamp),
        (''version'', JInt (int_of (get_or w ''version'' (JInt 1)) + 1))]"
    obtain plan event where pe: "u = Some (plan, event)" "row_update cx ''work_item'' w after stamp = Inr (plan, event)"
      using up unfolding after_def rbind_Inr by (metis Inr_inject surj_pair)
    obtain v where v: "fld w ''version'' = JInt v" using effort_spaceD(5) [OF ov(1) w] by auto
    have pk: "es_primary_key work_item_spec = ''id''" by simp
    have dom: "fmdom' after = fmdom' w"
      using item_row_columns [OF b w] unfolding after_def fmdom_updates by (auto simp: field_names_builtin)
    have ok: "row_ok after" unfolding after_def
      using table_row(3) [OF b session_specs(5) [OF b] work_item_keys w] by (intro row_ok_updates) auto
    have "fld after ''id'' = fld w ''id''" by (simp add: after_def)
    note step = row_update_apply [OF b ov(2) session_specs(5) [OF b] work_item_keys pk w v dom this ok pe(2)]
    show ?thesis
    proof (rule that(2) [OF pe(1) w step(1)])
      show "effort_space (with_row ov ''work_item'' [JStr i] after)"
        by (rule effort_space_with_row [OF ov(1) step(2) _ w]) (simp_all add: after_def)
      show "same_but effort_columns w after" unfolding after_def
        by (rule same_but_updates) (simp add: effort_columns_def)
    qed (simp_all add: after_def stored_effort_def step(3))
  qed
qed

lemma map_filter_id_Cons:
  "List.map_filter id (None # us) = List.map_filter id us" "List.map_filter id (Some u # us) = u # List.map_filter id us"
  by (simp_all add: List.map_filter_def)

definition holds_efforts :: "overlay \<Rightarrow> (string, int) fmap \<Rightarrow> string set \<Rightarrow> bool" where
  "holds_efforts ov m targets = (\<forall>i \<in> targets. \<exists>w. ov_row ov ''work_item'' [JStr i] = Some w \<and> stored_effort w = effort_of m i)"

text \<open>The effect of the written rows \<open>us\<close>, which store the sums \<open>m\<close> of the items \<open>targets\<close>.\<close>

definition written :: "overlay \<Rightarrow> (string, int) fmap \<Rightarrow> string set \<Rightarrow> (db_plan \<times> sync_event) list \<Rightarrow> overlay \<Rightarrow> bool" where
  "written ov m targets us ov' = (rfold apply_plan ov (map fst us) = Inr ov' \<and> effort_space ov' \<and> efforts_only ov ov' \<and>
     holds_efforts ov' m targets \<and>
     (\<forall>i. i \<notin> targets \<longrightarrow> ov_row ov' ''work_item'' [JStr i] = ov_row ov ''work_item'' [JStr i]) \<and>
     (\<forall>u \<in> set us. ev_action (snd u) \<noteq> EvDelete))"

lemma written_kept:
  assumes "written ov m targets us ov'" "ov_row ov ''work_item'' [JStr i] = Some w" "stored_effort w = effort_of m i"
  shows "written ov m (insert i targets) us ov'"
  using assms by (cases "i \<in> targets") (auto simp: written_def holds_efforts_def)

lemma written_more:
  assumes "written (with_row ov ''work_item'' [JStr i] after) m targets us ov'" "i \<notin> targets" "overlay_wf ov"
    "ov_row ov ''work_item'' [JStr i] = Some w" "apply_plan ov plan = Inr (with_row ov ''work_item'' [JStr i] after)"
    "same_but effort_columns w after" "stored_effort after = effort_of m i" "ev_action event \<noteq> EvDelete"
  shows "written ov m (insert i targets) ((plan, event) # us) ov'"
proof -
  have "efforts_only ov ov'"
    using efforts_only_with_row [OF assms(3,4,6)] assms(1) unfolding written_def by (blast intro: efforts_only_trans)
  then show ?thesis using assms by (auto simp: written_def holds_efforts_def)
qed

lemma efforts_written:
  assumes "rmap (effort_update cx missing now so ao) targets = Inr us" "distinct targets"
    "compute_effort_map (cx_overlay cx) so ao = Inr m" "effort_space ov" "ov_catalog ov = cx_catalog cx"
    "\<And>i. i \<in> set targets \<Longrightarrow> ov_row ov ''work_item'' [JStr i] = ov_row (cx_overlay cx) ''work_item'' [JStr i]"
  shows "\<exists>ov'. written ov m (set targets) (List.map_filter id us) ov'"
  using assms(1,2,4-)
proof (induction targets arbitrary: us ov)
  case Nil
  then show ?case by (simp add: written_def List.map_filter_def holds_efforts_def)
next
  case (Cons i targets)
  obtain u us' where u: "effort_update cx missing now so ao i = Inr u" and us: "rmap (effort_update cx missing now so ao) targets = Inr us'"
    "us = u # us'" using Cons.prems(1) by (auto simp: rbind_Inr)
  have i: "ov_row ov ''work_item'' [JStr i] = ov_row (cx_overlay cx) ''work_item'' [JStr i]" by (rule Cons.prems(5)) simp
  have d: "distinct targets" "i \<notin> set targets" using Cons.prems(2) by simp_all
  show ?case
  proof (cases rule: effort_update_Inr [OF Cons.prems(3,4) i u assms(3)])
    case (1 w)
    have "ov_row ov ''work_item'' [JStr j] = ov_row (cx_overlay cx) ''work_item'' [JStr j]" if "j \<in> set targets" for j
      using that Cons.prems(5) by simp
    from Cons.IH [OF us(1) d(1) Cons.prems(3,4) this]
    obtain ov' where "written ov m (set targets) (List.map_filter id us') ov'" by blast
    from written_kept [OF this 1(2,3)] show ?thesis by (intro exI) (simp only: us(2) 1(1) map_filter_id_Cons list.set)
  next
    case (2 w plan event after)
    let ?ov = "with_row ov ''work_item'' [JStr i] after"
    have cat: "ov_catalog ?ov = cx_catalog cx" using Cons.prems(4) by simp
    have "ov_row ?ov ''work_item'' [JStr j] = ov_row (cx_overlay cx) ''work_item'' [JStr j]" if "j \<in> set targets" for j
      using that d(2) Cons.prems(5) [of j] by auto
    from Cons.IH [OF us(1) d(1) 2(4) cat this]
    obtain ov' where "written ?ov m (set targets) (List.map_filter id us') ov'" by blast
    from written_more [OF this d(2) effort_spaceD(2) [OF Cons.prems(3)] 2(2,3,5,6,7)]
    show ?thesis by (intro exI) (simp only: us(2) 2(1) map_filter_id_Cons list.set)
  qed
qed

end
