(* ===== verification/EffortExact.thy ===== *)
theory EffortExact
  imports EffortCommands
begin

text \<open>
  The stored efforts are exact when every work item holds the sum the sessions give it. A rebuild makes them
  exact, and the commands of the clock keep them so.
\<close>

section \<open>Exact efforts\<close>

definition efforts_exact :: "overlay \<Rightarrow> bool" where
  "efforts_exact ov = (\<exists>m. compute_effort_map ov [] [] = Inr m \<and>
     (\<forall>i w. ov_row ov ''work_item'' [JStr i] = Some w \<longrightarrow> stored_effort w = effort_of m i))"

lemma written_exact:
  assumes "written ov m targets us ov'" "compute_effort_map ov [] [] = Inr m"
    "\<And>i w. i \<notin> targets \<Longrightarrow> ov_row ov ''work_item'' [JStr i] = Some w \<Longrightarrow> stored_effort w = effort_of m i"
  shows "efforts_exact ov'"
proof -
  have "compute_effort_map ov' [] [] = Inr m" using assms(1,2) same_efforts [of ov ov'] by (simp add: written_def)
  moreover have "stored_effort w = effort_of m i" if "ov_row ov' ''work_item'' [JStr i] = Some w" for i w
    using that assms(1,3) by (cases "i \<in> targets") (force simp: written_def holds_efforts_def)+
  ultimately show ?thesis unfolding efforts_exact_def by blast
qed

lemma written_apply:
  assumes "written ov m targets us ov'" "cx_command cx rq (map fst us) (map snd us) v r = Inr c"
  shows "ov_apply ov c = Inr ov'"
  using assms cx_command_Inr [OF assms(2)] apply_events_nodelete [of "map snd us" ov']
  by (simp add: ov_apply_def written_def)

text \<open>Nothing is written where the sums are as stored.\<close>

lemma no_updates:
  assumes "rmap (effort_update cx missing now so ao) targets = Inr us" "compute_effort_map (cx_overlay cx) so ao = Inr m"
    "\<And>i w. ov_row (cx_overlay cx) ''work_item'' [JStr i] = Some w \<Longrightarrow> stored_effort w = effort_of m i"
  shows "List.map_filter id us = []"
proof -
  have none: "u = None" if "effort_update cx missing now so ao i = Inr u" for i u
    using that assms(2) assms(3) [of i]
    by (auto simp: effort_update_def compute_effort_for_work_item_def stored_effort_def rbind_Inr split: option.splits if_splits)
  then show ?thesis using assms(1)
    by (induction targets arbitrary: us) (auto simp: rbind_Inr List.map_filter_def dest!: none)
qed

section \<open>The rebuild\<close>

lemma rebuild_Inr:
  assumes "compile_rebuild_effort cx rq = Inr c"
  obtains now targets us v where
    "(case get (rq_payload rq) ''work_item_id'' of
        JNull \<Rightarrow> rbind (ov_rows (cx_overlay cx) ''work_item'') (\<lambda>rows. Inr (map (\<lambda>r. str_of (get r ''id'')) rows))
      | v \<Rightarrow> Inr [str_of v]) = Inr targets"
    "rmap (effort_update cx ''rebuild_target_missing'' now [] []) targets = Inr us"
    "cx_command cx rq (map fst (List.map_filter id us)) (map snd (List.map_filter id us)) v None = Inr c"
  using assms unfolding compile_rebuild_effort_def compile_rebuild_effort_impl_def rbind_Inr Let_def by blast

text \<open>The targets of a full rebuild: every item, once.\<close>

lemma item_identity:
  assumes "builtin_space ov" "ov_row ov ''work_item'' ident = Some r"
  shows "ident = [get r ''id'']"
proof -
  have "''id'' \<in> fmdom' r"
    using table_row(1) [OF assms(1) session_specs(5) [OF assms(1)] work_item_keys assms(2)] work_item_keys by (simp add: id_keyed_def)
  then show ?thesis
    using table_row(2) [OF assms(1) session_specs(5) [OF assms(1)] work_item_keys assms(2)] by (simp only: get_fld)
qed

lemma all_targets:
  assumes "effort_space ov" "ov_rows ov ''work_item'' = Inr rows"
  shows "distinct (map (\<lambda>r. str_of (get r ''id'')) rows)"
    "i \<in> set (map (\<lambda>r. str_of (get r ''id'')) rows) \<longleftrightarrow> ov_row ov ''work_item'' [JStr i] \<noteq> None"
proof -
  note b = effort_spaceD(1) [OF assms(1)] and wf = effort_spaceD(2) [OF assms(1)]
  have row: "ov_row ov ''work_item'' [JStr (str_of (get r ''id''))] = Some r" if mem: "r \<in> set rows" for r
  proof -
    obtain ident where r: "ov_row ov ''work_item'' ident = Some r" using mem ov_rows_iff [OF wf assms(2), of r] by blast
    obtain j where j: "ident = [JStr j]" using effort_spaceD(5) [OF assms(1) r] by auto
    then have "get r ''id'' = JStr j" using item_identity [OF b r] by simp
    then show ?thesis using r j by simp
  qed
  have inj: "inj_on (\<lambda>r. str_of (get r ''id'')) (set rows)"
  proof (rule inj_onI)
    fix x y assume "x \<in> set rows" "y \<in> set rows" "str_of (get x ''id'') = str_of (get y ''id'')"
    then show "x = y" using row [of x] row [of y] by (metis option.inject)
  qed
  show "distinct (map (\<lambda>r. str_of (get r ''id'')) rows)"
    using inj ov_rows_distinct [OF wf assms(2)] by (simp add: distinct_map)
  show "i \<in> set (map (\<lambda>r. str_of (get r ''id'')) rows) \<longleftrightarrow> ov_row ov ''work_item'' [JStr i] \<noteq> None"
  proof
    assume "i \<in> set (map (\<lambda>r. str_of (get r ''id'')) rows)"
    then show "ov_row ov ''work_item'' [JStr i] \<noteq> None" using row by fastforce
  next
    assume "ov_row ov ''work_item'' [JStr i] \<noteq> None"
    then obtain r where r: "ov_row ov ''work_item'' [JStr i] = Some r" by blast
    then have "get r ''id'' = JStr i" using item_identity [OF b r] by simp
    moreover have "r \<in> set rows" using ov_rows_iff [OF wf assms(2), of r] r by blast
    ultimately show "i \<in> set (map (\<lambda>r. str_of (get r ''id'')) rows)" by force
  qed
qed

text \<open>
  C15: a rebuild of all efforts that is accepted applies to the Space, changes work items only in their
  effort, stamp and version, and leaves every item with the exact sum of its sessions; a rebuild of the Space it
  leaves behind writes nothing.
\<close>

theorem rebuild_makes_efforts_exact:
  assumes space: "effort_space (cx_overlay cx)" and item: "ov_row (cx_overlay cx) ''work_item'' ident = Some w0"
    and all: "get (rq_payload rq) ''work_item_id'' = JNull" and c: "compile_rebuild_effort cx rq = Inr c"
  shows "\<exists>ov'. ov_apply (cx_overlay cx) c = Inr ov' \<and> effort_space ov' \<and> efforts_only (cx_overlay cx) ov' \<and> efforts_exact ov' \<and>
    (\<forall>cx' rq' c'. cx_overlay cx' = ov' \<longrightarrow> compile_rebuild_effort cx' rq' = Inr c' \<longrightarrow> cm_plans c' = [] \<and> cm_events c' = [])"
proof -
  let ?ov = "cx_overlay cx"
  obtain now targets us v where t: "(case get (rq_payload rq) ''work_item_id'' of
        JNull \<Rightarrow> rbind (ov_rows ?ov ''work_item'') (\<lambda>rows. Inr (map (\<lambda>r. str_of (get r ''id'')) rows))
      | v \<Rightarrow> Inr [str_of v]) = Inr targets"
    and us: "rmap (effort_update cx ''rebuild_target_missing'' now [] []) targets = Inr us"
    and cmd: "cx_command cx rq (map fst (List.map_filter id us)) (map snd (List.map_filter id us)) v None = Inr c"
    by (rule rebuild_Inr [OF c])
  obtain rows where rows: "ov_rows ?ov ''work_item'' = Inr rows" "targets = map (\<lambda>r. str_of (get r ''id'')) rows"
    using t all by (auto simp: rbind_Inr)
  note t = all_targets [OF space rows(1), folded rows(2)]
  obtain i0 where "ident = [JStr i0]" using effort_spaceD(5) [OF space item] by auto
  then have "i0 \<in> set targets" using t(2) item by simp
  then obtain k where k: "k < length targets" "targets ! k = i0" by (auto simp: in_set_conv_nth)
  obtain m where m: "compute_effort_map ?ov [] [] = Inr m"
    using rmap_Inr_nth [OF us k(1)] t(2) [of i0] \<open>i0 \<in> set targets\<close>
    by (auto simp: k(2) effort_update_def compute_effort_for_work_item_def rbind_Inr)
  obtain ov' where w: "written ?ov m (set targets) (List.map_filter id us) ov'"
    using efforts_written [OF us t(1) m space] by (auto simp: cx_catalog_def)
  have exact: "efforts_exact ov'" by (rule written_exact [OF w m]) (simp add: t(2))
  moreover have "cm_plans c' = [] \<and> cm_events c' = []"
    if o': "cx_overlay cx' = ov'" and c': "compile_rebuild_effort cx' rq' = Inr c'" for cx' rq' c'
  proof -
    obtain m' where m': "compute_effort_map ov' [] [] = Inr m'"
      "\<And>i w. ov_row ov' ''work_item'' [JStr i] = Some w \<Longrightarrow> stored_effort w = effort_of m' i"
      using exact unfolding efforts_exact_def by blast
    obtain now targets us' v where us': "rmap (effort_update cx' ''rebuild_target_missing'' now [] []) targets = Inr us'"
      and cmd': "cx_command cx' rq' (map fst (List.map_filter id us')) (map snd (List.map_filter id us')) v None = Inr c'"
      using rebuild_Inr [OF c'] by metis
    have "List.map_filter id us' = []" using no_updates [OF us'] m' by (simp add: o')
    then show ?thesis using cx_command_Inr [OF cmd'] by simp
  qed
  ultimately show ?thesis using w written_apply [OF w cmd] unfolding written_def by blast
qed

section \<open>The commands of the clock\<close>

text \<open>A transition changes no column but those of the clock, and adds none.\<close>

definition sound :: "row \<Rightarrow> row \<Rightarrow> bool" where
  "sound r a = (fmdom' a = fmdom' r \<and> row_ok a)"

lemma sound_updates:
  "sound r a \<Longrightarrow> fst ` set kvs \<subseteq> fmdom' r \<Longrightarrow> \<forall>(k, v) \<in> set kvs. distinct_keys v \<Longrightarrow> sound r (updates a kvs)"
  by (auto simp: sound_def fmdom_updates intro: row_ok_updates)

lemma row_ok_get_or: "row_ok r \<Longrightarrow> distinct_keys d \<Longrightarrow> distinct_keys (get_or r k d)"
  by (auto simp: get_or_def row_ok_lookup split: option.splits)

lemma sound_steps:
  assumes "clock_columns \<subseteq> fmdom' r"
  shows "clock_start r occ payload = Inr a \<Longrightarrow> row_ok r \<Longrightarrow> sound r a"
    "with_elapsed a st occ = Inr b \<Longrightarrow> sound r a \<Longrightarrow> sound r b"
    "close_pause q a occ = Inr b \<Longrightarrow> sound r a \<Longrightarrow> sound r b"
    "end_outcome r a payload = Inr b \<Longrightarrow> sound r a \<Longrightarrow> row_ok r \<Longrightarrow> row_ok payload \<Longrightarrow> sound r b"
    "sound r a \<Longrightarrow> sound r (settle_break a)"
proof -
  note c = assms [unfolded clock_columns_def] and u = sound_updates [of r]
  show "clock_start r occ payload = Inr a \<Longrightarrow> row_ok r \<Longrightarrow> sound r a"
    using c by (auto simp: clock_start_def Let_def simp del: updates.simps split: option.splits json.splits if_splits
        intro!: u) (simp_all add: sound_def)
  show "with_elapsed a st occ = Inr b \<Longrightarrow> sound r a \<Longrightarrow> sound r b"
    using c by (auto simp: with_elapsed_def Let_def rbind_Inr simp del: updates.simps intro!: u)
  show "close_pause q a occ = Inr b \<Longrightarrow> sound r a \<Longrightarrow> sound r b"
    using c by (auto simp: close_pause_def rbind_Inr simp del: updates.simps intro!: u)
  show "end_outcome r a payload = Inr b \<Longrightarrow> sound r a \<Longrightarrow> row_ok r \<Longrightarrow> row_ok payload \<Longrightarrow> sound r b"
    using c by (auto simp: end_outcome_def Let_def rbind_Inr simp del: updates.simps split: if_splits intro!: u row_ok_get_or)
  show "sound r a \<Longrightarrow> sound r (settle_break a)"
    using c by (auto simp: settle_break_def simp del: updates.simps intro!: u)
qed

lemma clock_sound:
  assumes "clock_transition_after r action occ payload = Inr r'" "clock_columns \<subseteq> fmdom' r" "row_ok r" "row_ok payload"
  shows "sound r r'"
proof -
  have c: "''pause_started_at'' \<in> fmdom' r" "''ended_at'' \<in> fmdom' r" using assms(2) by (auto simp: clock_columns_def)
  note st = sound_steps [OF assms(2)]
  have u: "sound r (updates a [(''pause_started_at'', JStr occ)])" "sound r (updates a [(''ended_at'', JStr occ)])" if "sound r a" for a
    using c by (auto intro!: sound_updates that simp del: updates.simps)
  obtain a b where a: "clock_start r occ payload = Inr a"
    and b: "(if action = ''pause'' then clock_pause r a (str_of (get_or r ''started_at'' (JStr []))) occ
            else if action = ''resume'' then clock_resume r a (str_of (get_or r ''started_at'' (JStr []))) occ
            else if action = ''end'' then clock_end r a (str_of (get_or r ''started_at'' (JStr []))) occ payload
            else Inl (conflict ''unsupported_clock_action'')) = Inr b" and r': "r' = settle_break b"
    using assms(1) unfolding clock_transition_after_def rbind_Inr Let_def by auto
  have "sound r a" using st(1) [OF a assms(3)] .
  then have "sound r b" using b assms(3,4)
    by (auto simp: clock_pause_def clock_resume_def clock_end_def rbind_Inr require_Inr simp del: updates.simps
        split: if_splits intro: st(2,3) u) (metis st(2-4) u(2))+
  then show ?thesis using r' st(5) by simp
qed

text \<open>The items a session may count for.\<close>

lemma attribution_columns:
  assumes "effort_space ov" "ov_row ov ''session_attribution_revision'' ident = Some a"
  shows "\<exists>i j. get a ''session_id'' = JStr i \<and> get a ''level2_work_item_id'' = JStr j \<and>
    text_of a ''session_id'' = i \<and> text_of a ''level2_work_item_id'' = j"
proof -
  note b = effort_spaceD(1) [OF assms(1)]
  have "{''session_id'', ''level2_work_item_id''} \<subseteq> fmdom' a"
    using table_row(1) [OF b session_specs(2) [OF b] session_keys(2) assms(2)] by (simp add: field_names_builtin)
  then show ?thesis using effort_spaceD(6) [OF assms] by (auto simp: text_of_def get_fld)
qed

lemma affected_items:
  assumes "effort_space ov" "collect_affected_work_item_ids ov sid = Inr affected"
  shows "distinct affected" "i \<in> set affected \<longleftrightarrow> ov_row ov ''work_item'' [JStr i] \<noteq> None \<and>
    (\<exists>ident a. ov_row ov ''session_attribution_revision'' ident = Some a \<and> text_of a ''session_id'' = sid \<and>
       text_of a ''level2_work_item_id'' = i)"
proof -
  obtain rows where rows: "ov_rows ov ''session_attribution_revision'' = Inr rows"
    and a: "affected = sort (remdups (filter (\<lambda>i. i \<noteq> [] \<and> ov_row ov ''work_item'' [JStr i] \<noteq> None)
       (map (\<lambda>a. str_of (or_else (get a ''level2_work_item_id'') (JStr [])))
         (filter (\<lambda>a. str_of (get a ''session_id'') = sid) rows))))"
    using assms(2) by (auto simp: collect_affected_work_item_ids_def rbind_Inr)
  show "distinct affected" by (simp add: a)
  have n: "i \<noteq> []" if "ov_row ov ''work_item'' [JStr i] \<noteq> None" using that effort_spaceD(3) [OF assms(1)] by auto
  have m: "r \<in> set rows \<longleftrightarrow> (\<exists>ident. ov_row ov ''session_attribution_revision'' ident = Some r)" for r
    by (rule ov_rows_iff [OF effort_spaceD(2) [OF assms(1)] rows])
  have t: "str_of (get r ''session_id'') = text_of r ''session_id'' \<and>
      str_of (or_else (get r ''level2_work_item_id'') (JStr [])) = text_of r ''level2_work_item_id''" if "r \<in> set rows" for r
    using that m attribution_columns [OF assms(1), of _ r] by (fastforce simp: or_else_def)
  have "i \<in> set affected \<longleftrightarrow> ov_row ov ''work_item'' [JStr i] \<noteq> None \<and> i \<noteq> [] \<and>
      (\<exists>r \<in> set rows. text_of r ''session_id'' = sid \<and> text_of r ''level2_work_item_id'' = i)"
    using t by (auto simp: a image_iff)
  then show "i \<in> set affected \<longleftrightarrow> ov_row ov ''work_item'' [JStr i] \<noteq> None \<and>
    (\<exists>ident a. ov_row ov ''session_attribution_revision'' ident = Some a \<and> text_of a ''session_id'' = sid \<and>
       text_of a ''level2_work_item_id'' = i)" using n m by blast
qed

lemma efforts_effective:
  assumes "rfold (effort_step ov attributions) m sessions = Inr m'" "session \<in> set sessions"
  shows "effective_of attributions (text_of session ''id'') \<noteq> []"
  using assms by (induction sessions arbitrary: m) (auto simp: rbind_Inr effort_step_def Let_def require_Inr)

lemma target_in_affected:
  assumes "effort_space ov" "collect_affected_work_item_ids ov sid = Inr affected"
    "compute_effort_map ov so [] = Inr m" "session \<in> set (read_sessions ov so)" "text_of session ''id'' = sid"
    "ov_row ov ''work_item'' [JStr (target_of (read_attributions ov []) session)] \<noteq> None"
  shows "target_of (read_attributions ov []) session \<in> set affected"
proof -
  let ?e = "effective_of (read_attributions ov []) sid"
  have "?e \<noteq> []" using efforts_effective [OF compute_effort_map_Inr [OF assms(3)] assms(4)] assms(5) by simp
  then have "hd ?e \<in> set (read_attributions ov [])" "text_of (hd ?e) ''session_id'' = sid"
    using hd_in_set [of ?e] by (simp_all add: effective_of_def)
  moreover have "\<exists>ident. ov_row ov ''session_attribution_revision'' ident = Some a" if "a \<in> set (read_attributions ov [])" for a
    using that ov_rows_iff [OF effort_spaceD(2) [OF assms(1)], of "''session_attribution_revision''" _ a]
    by (auto simp: read_attributions_def split: sum.splits)
  ultimately show ?thesis
    using assms(5,6) unfolding affected_items(2) [OF assms(1,2)] target_of_def by blast
qed

text \<open>The sums of the other items do not change with the session.\<close>

lemma other_efforts_kept:
  assumes "effort_space ov" "collect_affected_work_item_ids ov sid = Inr affected" "text_of after ''id'' = sid"
    "compute_effort_map ov [] [] = Inr m" "compute_effort_map ov [(sid, after)] [] = Inr m'"
    "i \<notin> set affected" "ov_row ov ''work_item'' [JStr i] \<noteq> None"
  shows "effort_of m' i = effort_of m i"
proof -
  let ?at = "read_attributions ov []"
  obtain rows where rows: "read_sessions ov [] = rows" "read_sessions ov [(sid, after)] = map (overridden [(sid, after)]) rows"
    by (auto simp: read_sessions_def overridden_def split: sum.splits)
  have "share ?at i (overridden [(sid, after)] x) = share ?at i x" if x: "x \<in> set rows" for x
  proof (cases "text_of x ''id'' = sid")
    case True
    have "target_of ?at x \<noteq> i"
      using target_in_affected [OF assms(1,2,4), of x] x rows(1) True assms(6,7) by auto
    moreover have "target_of ?at after = target_of ?at x" using True assms(3) by (simp add: target_of_def)
    ultimately show ?thesis using True by (simp add: share_def overridden_def)
  qed (simp add: overridden_def)
  then have "map (share ?at i) (read_sessions ov [(sid, after)]) = map (share ?at i) (read_sessions ov [])"
    by (simp add: rows)
  then show ?thesis
    using computed_sum [OF assms(4), of i] computed_sum [OF assms(5), of i] by simp
qed

text \<open>A session that does not contribute, before and after, does not change the sums at all.\<close>

lemma silent_session:
  assumes "text_of before ''id'' = text_of after ''id''" "\<not> contributes before" "\<not> contributes after"
  shows "effort_step ov attributions m after = effort_step ov attributions m before"
  using assms by (simp add: effort_step_def Let_def)

lemma rbind_InrE:
  assumes "rbind m f = Inr y"
  obtains x where "m = Inr x" "f x = Inr y"
  using assms by (auto simp: rbind_Inr)

lemma clock_command_Inr:
  assumes "compile_clock_transition locator cx rq = Inr c"
  obtains current moved_row plan event efforts v where
    "ov_row (cx_overlay cx) ''focus_session'' [JStr (session_id_of rq)] = Some current"
    "clock_transition_after current (action_of rq) (text_of (rq_payload rq) ''occurred_at'') (rq_payload rq) = Inr moved_row"
    "row_update cx ''focus_session'' current (updates moved_row [(''version'', next_version current)])
       (text_of (rq_payload rq) ''occurred_at'') = Inr (plan, event)"
    "(if action_of rq = ''end''
      then rbind (collect_affected_work_item_ids (cx_overlay cx) (session_id_of rq)) (\<lambda>affected.
           if affected \<noteq> [] then recalc_effort_for_targets cx affected (text_of (rq_payload rq) ''occurred_at'')
             [(session_id_of rq, updates moved_row [(''version'', next_version current)])] []
           else Inr [])
      else Inr []) = Inr efforts"
    "cx_command cx rq (map fst ((plan, event) # efforts)) (map snd ((plan, event) # efforts)) v None = Inr c"
proof -
  obtain current moved_row u efforts v where s: "require_session cx (session_id_of rq) = Inr current"
    and a: "clock_transition_after current (action_of rq) (text_of (rq_payload rq) ''occurred_at'') (rq_payload rq) = Inr moved_row"
    and b: "row_update cx ''focus_session'' current (updates moved_row [(''version'', next_version current)])
        (text_of (rq_payload rq) ''occurred_at'') = Inr u"
    and d: "(if action_of rq = ''end''
       then rbind (collect_affected_work_item_ids (cx_overlay cx) (session_id_of rq)) (\<lambda>affected.
            if affected \<noteq> [] then recalc_effort_for_targets cx affected (text_of (rq_payload rq) ''occurred_at'')
              [(session_id_of rq, updates moved_row [(''version'', next_version current)])] []
            else Inr [])
       else Inr []) = Inr efforts"
    and e: "cx_command cx rq (map fst (u # efforts)) (map snd (u # efforts)) v None = Inr c"
    using assms unfolding compile_clock_transition_def Let_def by (elim rbind_InrE) (rule that, assumption+)
  have "ov_row (cx_overlay cx) ''focus_session'' [JStr (session_id_of rq)] = Some current"
    using s by (simp add: require_session_def split: option.splits)
  then show ?thesis using a b d e by (cases u) (rule that, simp_all only:)
qed

lemma clock_same:
  assumes "clock_transition_after r action occ payload = Inr r'"
  shows "same_but clock_columns r r'"
proof -
  obtain a a' where "same_but {''updated_at'', ''break_seconds''} r a"
    "acted action r a (str_of (get_or r ''started_at'' (JStr []))) occ a'" "r' = settle_break a'"
    using clock_transition_parts [OF assms] by metis
  then have "same_but clock_columns r a" "same_but clock_columns a a'" "same_but clock_columns a' r'"
    using settle_break_columns [of a'] by (auto simp: acted_def clock_columns_def elim!: same_but_mono)
  then show ?thesis by (meson same_but_trans)
qed

text \<open>The session row a command of the clock writes.\<close>

lemma session_written:
  assumes space: "effort_space (cx_overlay cx)" and payload: "row_ok (rq_payload rq)"
    and current: "ov_row (cx_overlay cx) ''focus_session'' [JStr sid] = Some current"
    and step: "clock_transition_after current action occ (rq_payload rq) = Inr moved_row"
    and after: "after = updates moved_row [(''version'', next_version current)]"
    and u: "row_update cx ''focus_session'' current after occ = Inr (plan, event)"
  shows "apply_plan (cx_overlay cx) plan = Inr (with_row (cx_overlay cx) ''focus_session'' [JStr sid] after)"
    "effort_space (with_row (cx_overlay cx) ''focus_session'' [JStr sid] after)" "ev_action event \<noteq> EvDelete"
    "text_of after ''id'' = sid" "text_of current ''id'' = sid"
    "compute_effort_map (with_row (cx_overlay cx) ''focus_session'' [JStr sid] after) [] [] =
       compute_effort_map (cx_overlay cx) [(sid, after)] []"
proof -
  let ?ov = "cx_overlay cx"
  note b = effort_spaceD(1) [OF space]
  note row = table_row [OF b session_specs(1) [OF b] session_keys(1) current]
  obtain v where v: "fld current ''version'' = JInt v" using effort_spaceD(4) [OF space current] by auto
  have cols: "clock_columns \<subseteq> fmdom' current" "{''id'', ''version''} \<subseteq> fmdom' current"
    by (simp_all add: row(1) clock_columns_def field_names_builtin)
  have s: "sound current moved_row" by (rule clock_sound [OF step cols(1) row(3) payload])
  then have s': "sound current after" unfolding after next_version_def using cols(2) by (intro sound_updates) auto
  have dom: "fmdom' after = fmdom' current" and ok: "row_ok after" using s' by (simp_all add: sound_def)
  have "get moved_row ''id'' = get current ''id''"
    using same_butD [OF clock_same [OF step]] by (simp add: clock_columns_def)
  then have get_id: "get after ''id'' = get current ''id''" by (simp add: after)
  then have id: "fld after ''id'' = fld current ''id''" using cols(2) dom by (simp add: get_fld)
  have here: "fld current ''id'' = JStr sid" using row(2) by simp
  have pk: "es_primary_key focus_session_spec = ''id''" by simp
  note st = row_update_apply [OF b _ session_specs(1) [OF b] session_keys(1) pk current v dom id ok u]
  show "apply_plan ?ov plan = Inr (with_row ?ov ''focus_session'' [JStr sid] after)" "ev_action event \<noteq> EvDelete"
    using st by (simp_all add: cx_catalog_def)
  show "effort_space (with_row ?ov ''focus_session'' [JStr sid] after)"
    by (rule effort_space_with_row [OF space _ _ current]) (use st in \<open>simp_all add: cx_catalog_def after next_version_def\<close>)
  have ids: "text_of r ''id'' = sid" if "fmdom' r = fmdom' current" "fld r ''id'' = JStr sid" for r
    using that cols(2) by (simp add: text_of_def get_fld)
  show "text_of after ''id'' = sid" "text_of current ''id'' = sid" using ids dom id here by simp_all
  show "compute_effort_map (with_row ?ov ''focus_session'' [JStr sid] after) [] [] = compute_effort_map ?ov [(sid, after)] []"
  proof (rule efforts_with_session [OF b current])
    show "fld after ''id'' = JStr sid" "has_key after ''id''"
      using id here dom cols(2) by (auto simp: has_key_def fmlookup_dom'_iff)
  qed (use effort_spaceD(4) [OF space] in blast)
qed

lemma paused_sessions_silent:
  assumes "clock_transition_after current action occ payload = Inr moved_row" "action \<noteq> ''end''"
  shows "\<not> contributes current" "\<not> contributes (updates moved_row [(''version'', v)])"
proof -
  obtain a a' where "acted action current a (str_of (get_or current ''started_at'' (JStr []))) occ a'" "moved_row = settle_break a'"
    "action \<in> {''pause'', ''resume'', ''end''}"
    using clock_transition_parts [OF assms(1)] by metis
  then have "get current ''ended_at'' = JNull \<and> get moved_row ''ended_at'' = JNull"
    using assms(2) same_butD [OF settle_break_columns, of "''ended_at''" a' JNull]
    by (auto simp: acted_def clock_moved_def)
  then show "\<not> contributes current" "\<not> contributes (updates moved_row [(''version'', v)])"
    by (simp_all add: contributes_def)
qed

lemma silent_efforts:
  assumes space: "effort_space ov" and current: "ov_row ov ''focus_session'' [JStr sid] = Some current"
    and ids: "text_of after ''id'' = sid" "text_of current ''id'' = sid"
    and silent: "\<not> contributes current" "\<not> contributes after"
  shows "compute_effort_map ov [(sid, after)] [] = compute_effort_map ov [] []"
proof -
  note b = effort_spaceD(1) [OF space]
  obtain rows where rows: "ov_rows ov ''focus_session'' = Inr rows" using ov_rows_Inr [OF session_specs(1) [OF b]] ..
  have same: "x = current" if x: "x \<in> set rows" and t: "text_of x ''id'' = sid" for x
  proof -
    obtain ident where i: "ov_row ov ''focus_session'' ident = Some x"
      using x ov_rows_iff [OF effort_spaceD(2) [OF space] rows, of x] by blast
    obtain j where j: "ident = [JStr j]" using effort_spaceD(4) [OF space i] by auto
    note row = table_row [OF b session_specs(1) [OF b] session_keys(1) i]
    have "''id'' \<in> fmdom' x" by (simp add: row(1) field_names_builtin)
    moreover have "fld x ''id'' = JStr j" using row(2) j by simp
    ultimately have "text_of x ''id'' = j" by (simp add: text_of_def get_fld)
    then show ?thesis using i j t current by simp
  qed
  have "rfold (effort_step ov at) m (map (overridden [(sid, after)]) xs) = rfold (effort_step ov at) m xs"
    if "set xs \<subseteq> set rows" for at m xs
    using that
  proof (induction xs arbitrary: m)
    case (Cons x xs)
    have "effort_step ov at m (overridden [(sid, after)] x) = effort_step ov at m x"
      using same [of x] Cons.prems silent_session [of current after ov at m] ids silent by (auto simp: overridden_def)
    then show ?case using Cons.IH Cons.prems by simp
  qed simp
  moreover have "overridden [] = (\<lambda>x. x)" by (auto simp: overridden_def)
  ultimately show ?thesis by (simp add: compute_effort_map_def rows)
qed

text \<open>The item a session is attributed to exists.\<close>

definition attributed :: "overlay \<Rightarrow> string \<Rightarrow> bool" where
  "attributed ov sid = (\<exists>ident a. ov_row ov ''session_attribution_revision'' ident = Some a \<and> text_of a ''session_id'' = sid \<and>
     ov_row ov ''work_item'' [JStr (text_of a ''level2_work_item_id'')] \<noteq> None)"

text \<open>The rows a recomputation after the end of a session writes.\<close>

lemma ended_efforts:
  assumes space: "effort_space ov1" "effort_space (cx_overlay cx)" "ov_catalog ov1 = cx_catalog cx"
    and items: "\<And>i. ov_row ov1 ''work_item'' [JStr i] = ov_row (cx_overlay cx) ''work_item'' [JStr i]"
    and at: "attributed (cx_overlay cx) sid" and exact: "efforts_exact (cx_overlay cx)" and id: "text_of after ''id'' = sid"
    and sums: "compute_effort_map ov1 [] [] = compute_effort_map (cx_overlay cx) [(sid, after)] []"
    and r: "rbind (collect_affected_work_item_ids (cx_overlay cx) sid) (\<lambda>affected.
           if affected \<noteq> [] then recalc_effort_for_targets cx affected now [(sid, after)] [] else Inr []) = Inr efforts"
  obtains m targets ov' where "written ov1 m targets efforts ov'" "efforts_exact ov'"
proof -
  let ?ov = "cx_overlay cx"
  obtain affected where a: "collect_affected_work_item_ids ?ov sid = Inr affected" using r by (auto simp: rbind_Inr)
  note aff = affected_items [OF space(2) a]
  obtain i0 where "i0 \<in> set affected" using at unfolding attributed_def aff(2) by blast
  then have "affected \<noteq> []" by auto
  then obtain us where us: "rmap (effort_update cx ''effort_target_missing'' now [(sid, after)] []) affected = Inr us"
    "efforts = List.map_filter id us"
    using r a by (auto simp: recalc_effort_for_targets_def rbind_Inr)
  obtain k where k: "k < length affected" "affected ! k = i0" using \<open>i0 \<in> set affected\<close> by (auto simp: in_set_conv_nth)
  obtain m' where m': "compute_effort_map ?ov [(sid, after)] [] = Inr m'"
    using rmap_Inr_nth [OF us(1) k(1)] \<open>i0 \<in> set affected\<close> aff(2) [of i0]
    by (auto simp: k(2) effort_update_def compute_effort_for_work_item_def rbind_Inr)
  obtain m where m: "compute_effort_map ?ov [] [] = Inr m"
    "\<And>i w. ov_row ?ov ''work_item'' [JStr i] = Some w \<Longrightarrow> stored_effort w = effort_of m i"
    using exact unfolding efforts_exact_def by blast
  obtain ov' where w: "written ov1 m' (set affected) efforts ov'"
    using efforts_written [OF us(1) aff(1) m' space(1,3)] items us(2) by auto
  have "stored_effort w = effort_of m' i" if "i \<notin> set affected" "ov_row ov1 ''work_item'' [JStr i] = Some w" for i w
    using that other_efforts_kept [OF space(2) a id m(1) m', of i] m(2) [of i w] items by simp
  then have "efforts_exact ov'" using w m' by (intro written_exact [OF w]) (simp_all add: sums)
  then show ?thesis by (rule that [OF w])
qed

text \<open>
  C11: an accepted pause, resume or end of a session whose attribution names an existing item applies to
  the Space and keeps the stored efforts exact: every work item holds the sum of the sessions as they are afterwards.
\<close>

theorem clock_commands_keep_efforts_exact:
  assumes space: "effort_space (cx_overlay cx)" and exact: "efforts_exact (cx_overlay cx)"
    and at: "attributed (cx_overlay cx) (session_id_of rq)" and payload: "row_ok (rq_payload rq)"
    and c: "compile_clock_transition locator cx rq = Inr c"
  shows "\<exists>ov'. ov_apply (cx_overlay cx) c = Inr ov' \<and> effort_space ov' \<and> efforts_exact ov'"
proof -
  let ?ov = "cx_overlay cx" and ?sid = "session_id_of rq" and ?occ = "text_of (rq_payload rq) ''occurred_at''"
  obtain current moved_row plan event efforts v where current: "ov_row ?ov ''focus_session'' [JStr ?sid] = Some current"
    and step: "clock_transition_after current (action_of rq) ?occ (rq_payload rq) = Inr moved_row"
    and u: "row_update cx ''focus_session'' current (updates moved_row [(''version'', next_version current)]) ?occ = Inr (plan, event)"
    and e: "(if action_of rq = ''end''
      then rbind (collect_affected_work_item_ids ?ov ?sid) (\<lambda>affected.
           if affected \<noteq> [] then recalc_effort_for_targets cx affected ?occ
             [(?sid, updates moved_row [(''version'', next_version current)])] []
           else Inr [])
      else Inr []) = Inr efforts"
    and cmd: "cx_command cx rq (map fst ((plan, event) # efforts)) (map snd ((plan, event) # efforts)) v None = Inr c"
    by (rule clock_command_Inr [OF c])
  define after where "after = updates moved_row [(''version'', next_version current)]"
  let ?ov1 = "with_row ?ov ''focus_session'' [JStr ?sid] after"
  note s = session_written [OF space payload current step after_def u [folded after_def]]
  have "\<exists>m targets ov'. written ?ov1 m targets efforts ov' \<and> efforts_exact ov'"
  proof (cases "action_of rq = ''end''")
    case True
    show ?thesis
      by (rule ended_efforts [where now = ?occ, OF s(2) space _ _ at exact s(4,6)])
        (use e [folded after_def] True in \<open>auto simp: cx_catalog_def\<close>)
  next
    case False
    then have "compute_effort_map ?ov1 [] [] = compute_effort_map ?ov [] []"
      using silent_efforts [OF space current s(4,5)] paused_sessions_silent [OF step] s(6) by (simp add: after_def)
    then have "efforts_exact ?ov1" using exact by (auto simp: efforts_exact_def)
    moreover have "written ?ov1 fmempty {} [] ?ov1" using s(2) by (simp add: written_def holds_efforts_def)
    ultimately show ?thesis using e False by auto
  qed
  then obtain m targets ov' where w: "written ?ov1 m targets efforts ov'" and x: "efforts_exact ov'" by blast
  have "ov_apply ?ov c = Inr ov'"
    using w s(1,3) cx_command_Inr [OF cmd] apply_events_nodelete [of "map snd efforts" ov']
    by (simp add: ov_apply_def written_def apply_event_def)
  with w x show ?thesis by (auto simp: written_def)
qed

end
