(* ===== verification/EffortWitness.thy ===== *)
theory EffortWitness
  imports EffortExact WorkItemProperties
begin

text \<open>
  Witnesses for the effort properties: a Space with two items, a session that is attributed to the second-level
  item, and the commands that end the session and rebuild the efforts.
\<close>

section \<open>A Space with one session\<close>

definition effort_item :: "string \<Rightarrow> json \<Rightarrow> row" where
  "effort_item i parent = blank_row work_item_spec
     [(''id'', JStr i), (''project_id'', JStr ''p1''), (''parent_id'', parent), (''version'', JInt 1),
      (''effort_actual_seconds'', JInt 0), (''updated_at'', sample_stamp)]"

definition effort_attribution :: row where
  "effort_attribution = blank_row session_attribution_revision_spec
     [(''id'', JStr ''t-1''), (''session_id'', JStr ''s-1''), (''revision'', JInt 1), (''project_id'', JStr ''p1''),
      (''level2_work_item_id'', JStr ''b''), (''effective'', JBool True), (''version'', JInt 1)]"

definition effort_rows :: "row \<Rightarrow> ((string \<times> json list) \<times> row) list" where
  "effort_rows s = [((''work_item'', [JStr ''a'']), effort_item ''a'' JNull), ((''work_item'', [JStr ''b'']), effort_item ''b'' (JStr ''a'')),
     ((''focus_session'', [JStr ''s-1'']), s), ((''session_attribution_revision'', [JStr ''t-1'']), effort_attribution)]"

abbreviation effort_overlay :: "row \<Rightarrow> overlay" where
  "effort_overlay s \<equiv> sample_overlay (effort_rows s)"

lemmas effort_specs = sample_specs(3) sample_catalog_get [of focus_session_spec, simplified builtin_specs_def, simplified]
  sample_catalog_get [of session_attribution_revision_spec, simplified builtin_specs_def, simplified]

lemma effort_lookup: "ov_row (effort_overlay s) t ident = map_of (effort_rows s) (t, ident)"
  by (simp add: ov_row_def)

lemma effort_items:
  "ov_row (effort_overlay s) ''work_item'' ident = Some r \<longleftrightarrow>
     ident = [JStr ''a''] \<and> r = effort_item ''a'' JNull \<or> ident = [JStr ''b''] \<and> r = effort_item ''b'' (JStr ''a'')"
  "ov_row (effort_overlay s) ''focus_session'' ident = Some r \<longleftrightarrow> ident = [JStr ''s-1''] \<and> r = s"
  "ov_row (effort_overlay s) ''session_attribution_revision'' ident = Some r \<longleftrightarrow> ident = [JStr ''t-1''] \<and> r = effort_attribution"
  unfolding effort_lookup by (auto simp: effort_rows_def)

lemma get_blank_row: "get_or (blank_row spec kvs) k d =
    (case map_of (rev kvs) k of Some v \<Rightarrow> v | None \<Rightarrow> if k \<in> set (field_names spec) then JNull else d)"
proof -
  have "map_of (rev (map (\<lambda>f. (f, JNull)) xs)) k = (if k \<in> set xs then Some JNull else None)" for xs
    by (induction xs) (auto simp: map_add_def)
  then show ?thesis by (simp add: blank_row_def get_or_def fmlookup_updates dict_def split: option.split)
qed

lemma effort_columns_of:
  "fld (effort_item i p) ''version'' = JInt 1" "get_or (effort_item i p) ''version'' d = JInt 1"
  "get_or (effort_item i p) ''parent_id'' d = p" "get_or (effort_item i p) ''project_id'' d = JStr ''p1''"
  "get_or (effort_item i p) ''effort_actual_seconds'' d = JInt 0" "get_or (effort_item i p) ''updated_at'' d = sample_stamp"
  "get_or (effort_item i p) ''id'' d = JStr i"
  "fld effort_attribution ''session_id'' = JStr ''s-1''" "fld effort_attribution ''level2_work_item_id'' = JStr ''b''"
  "get_or effort_attribution ''session_id'' d = JStr ''s-1''" "get_or effort_attribution ''level2_work_item_id'' d = JStr ''b''"
  "get_or effort_attribution ''effective'' d = JBool True" "get_or effort_attribution ''project_id'' d = JStr ''p1''"
  by (simp_all add: effort_item_def effort_attribution_def fld_blank_row get_blank_row)

definition session_row_ok :: "row \<Rightarrow> bool" where
  "session_row_ok s = (row_shape sample_catalog ''focus_session'' [JStr ''s-1''] s \<and> (\<exists>v. fld s ''version'' = JInt v))"

lemma effort_wf:
  assumes "session_row_ok s"
  shows "overlay_wf (effort_overlay s)"
proof -
  have "row_shape sample_catalog t ident r" if "((t, ident), r) \<in> set (effort_rows s)" for t ident r
    using that assms
    by (auto simp: effort_rows_def session_row_ok_def effort_item_def effort_attribution_def sample_stamp_def
        intro!: blank_row_shape [OF effort_specs(1)] blank_row_shape [OF effort_specs(3)])
      (simp_all add: field_names_builtin pk_values_def pk_field_set_def fld_blank_row)
  moreover have "distinct (map fst (effort_rows s))" by (simp add: effort_rows_def)
  ultimately show ?thesis by (auto simp: overlay_wf_def sample_catalog_wf)
qed

lemma effort_sample_space:
  assumes "session_row_ok s"
  shows "effort_space (effort_overlay s)"
proof -
  have "ov_row (effort_overlay s) ''work_item'' [JStr []] = None"
    using effort_items(1) [of s "[JStr []]"] by (cases "ov_row (effort_overlay s) ''work_item'' [JStr []]") auto
  then show ?thesis using effort_wf [OF assms] assms
    by (auto simp: effort_space_def sample_builtin effort_items effort_columns_of session_row_ok_def)
qed

lemma one_row:
  assumes "overlay_wf ov" "catalog_get (ov_catalog ov) t = Some spec" "\<And>ident r. ov_row ov t ident = Some r \<longleftrightarrow> ident = i \<and> r = r0"
  shows "ov_rows ov t = Inr [r0]"
proof -
  obtain rows where rows: "ov_rows ov t = Inr rows" using ov_rows_Inr [OF assms(2)] by blast
  have "set rows = {r0}" using ov_rows_iff [OF assms(1) rows] assms(3) by blast
  then have "rows = [r0]" using ov_rows_distinct [OF assms(1) rows]
    by (metis distinct_length_2_or_more empty_iff insert_iff list.set(1) list.set_intros(1,2) neq_Nil_conv singletonD)
  with rows show ?thesis by simp
qed

lemma effort_row_lists:
  assumes "session_row_ok s"
  shows "ov_rows (effort_overlay s) ''focus_session'' = Inr [s]"
    "ov_rows (effort_overlay s) ''session_attribution_revision'' = Inr [effort_attribution]"
  by (rule one_row [OF effort_wf [OF assms]]; simp add: effort_specs effort_items)+

text \<open>The sums of this Space, for the session as it is stored or as an override.\<close>

lemma effort_sums:
  assumes s: "session_row_ok s" and s': "text_of s' ''id'' = ''s-1''" "get s' ''focused_seconds'' = JInt f" "0 \<le> f" "f \<le> SAFE_INTEGER_MAX"
    and so: "overridden so s = s'"
  shows "compute_effort_map (effort_overlay s) so [] = Inr (if contributes s' then fmupd ''b'' f fmempty else fmempty)"
proof -
  have e: "effective_of [effort_attribution] ''s-1'' = [effort_attribution]"
    by (simp add: effective_of_def effort_columns_of text_of_def)
  have b: "ov_row (effort_overlay s) ''work_item'' [JStr ''b''] = Some (effort_item ''b'' (JStr ''a''))"
    "ov_row (effort_overlay s) ''work_item'' [JStr ''a''] = Some (effort_item ''a'' JNull)"
    by (simp_all add: effort_items)
  have d: "effort_depth (effort_overlay s) (effort_item ''b'' (JStr ''a'')) = 2"
    using b(2) by (simp add: effort_depth_def effort_columns_of depth_loop.simps [of "effort_overlay s"])
  have t: "effort_target (effort_overlay s) s' effort_attribution = Inr (''b'', f)"
    using s' by (simp add: effort_target_def Let_def text_of_def effort_columns_of b d)
  show ?thesis using s' t
    by (simp add: compute_effort_map_def effort_row_lists [OF s] so effort_step_def Let_def e)
qed

section \<open>The rebuild\<close>

lemma non_regressing_ok:
  assumes "stamp now n"
  shows "\<exists>x. non_regressing_timestamp current now = Inr x \<and> validate_canonical_timestamp (JStr x) = Inr ()"
proof (cases "\<exists>c. current = JStr c \<and> c \<noteq> [] \<and> validate_canonical_timestamp current = Inr ()")
  case True
  then obtain c i where c: "current = JStr c" "c \<noteq> []" "stamp c i" "validate_canonical_timestamp current = Inr ()"
    using valid_stamp by blast
  then show ?thesis using assms stamp_valid [OF assms] by (auto simp: non_regressing_timestamp_def stamp_def)
next
  case False
  then show ?thesis using stamp_valid [OF assms]
    by (cases current) (auto simp: non_regressing_timestamp_def split: sum.splits)
qed

lemma work_item_update_ok:
  assumes "ov_row (cx_overlay cx) ''work_item'' [JStr i] = Some (effort_item i p)" "cx_catalog cx = sample_catalog"
    "compute_effort_map (cx_overlay cx) so ao = Inr m" "stamp now n"
  shows "\<exists>u. effort_update cx missing now so ao i = Inr u"
proof -
  obtain x where x: "non_regressing_timestamp sample_stamp now = Inr x" "validate_canonical_timestamp (JStr x) = Inr ()"
    using non_regressing_ok [OF assms(4)] by blast
  show ?thesis using assms x effort_specs(1)
    by (simp add: effort_update_def compute_effort_for_work_item_def effort_columns_of row_update_def update_plan_def update_sync_def
        DbMutationPlan_def SyncEventPlan_def validate_expected_version_def expected_of_def Let_def)
qed

lemma rmap_ok: "\<forall>x \<in> set xs. \<exists>y. f x = Inr y \<Longrightarrow> \<exists>ys. rmap f xs = Inr ys"
  by (induction xs) auto

definition ended_session :: row where
  "ended_session = blank_row focus_session_spec
     [(''id'', JStr ''s-1''), (''version'', JInt 3), (''session_type'', JStr ''work''), (''ended_at'', JStr ''2026-01-01T08:25:00Z''),
      (''validity'', JStr ''valid''), (''ownership_state'', JStr ''authoritative''), (''focused_seconds'', JInt 1380)]"

definition rebuild_request :: request where
  "rebuild_request = sample_request ''focus_session.rebuild_effort_projection'' ''focus_session'' ''all''
     [(''space_id'', JStr ''s1''), (''requested_at'', JStr ''2026-01-02T03:04:05.678Z'')] None"

lemma ended_session_ok: "session_row_ok ended_session"
  unfolding session_row_ok_def ended_session_def
  by (auto simp: fld_blank_row pk_values_def pk_field_set_def field_names_builtin intro!: blank_row_shape [OF effort_specs(2)])

lemma ended_session_counts: "compute_effort_map (effort_overlay ended_session) [] [] = Inr (fmupd ''b'' 1380 fmempty)"
proof -
  have "contributes ended_session"
    by (simp add: contributes_def ended_session_def get_blank_row is_break_session_def session_type_of_def or_else_def FOCUS_BREAK_TYPES_def)
  then show ?thesis
    using effort_sums [OF ended_session_ok, of ended_session 1380 "[]"]
    by (simp add: text_of_def ended_session_def get_blank_row SAFE_INTEGER_MAX_def overridden_def)
qed

lemma sample_rebuild: "\<exists>c. compile_rebuild_effort (sample_ctx (effort_rows ended_session)) rebuild_request = Inr c"
proof -
  let ?cx = "sample_ctx (effort_rows ended_session)" and ?now = "''2026-01-02T03:04:05.678Z''"
  obtain n where n: "stamp ?now n" using valid_stamp [OF validate_sample_now] by blast
  obtain rows where rows: "ov_rows (effort_overlay ended_session) ''work_item'' = Inr rows"
    using ov_rows_Inr [of "effort_overlay ended_session" "''work_item''" work_item_spec] effort_specs(1) by auto
  note mem = ov_rows_iff [OF effort_wf [OF ended_session_ok] rows]
  have "\<exists>u. effort_update ?cx ''rebuild_target_missing'' ?now [] [] (str_of (get r ''id'')) = Inr u" if r0: "r \<in> set rows" for r
  proof -
    obtain i p where r: "r = effort_item i p" "ov_row (effort_overlay ended_session) ''work_item'' [JStr i] = Some (effort_item i p)"
      using r0 unfolding mem by (auto simp: effort_items)
    have "get r ''id'' = JStr i" by (simp add: r effort_columns_of)
    then show ?thesis using work_item_update_ok [of ?cx i p "[]" "[]" _ ?now n] r(2) n ended_session_counts by simp
  qed
  then obtain us where "rmap (effort_update ?cx ''rebuild_target_missing'' ?now [] []) (map (\<lambda>r. str_of (get r ''id'')) rows) = Inr us"
    using rmap_ok [of "map (\<lambda>r. str_of (get r ''id'')) rows" "effort_update ?cx ''rebuild_target_missing'' ?now [] []"] by auto
  moreover have "require_canonical_timestamp (JStr ?now) = Inr ?now" using n by (auto simp: require_canonical_timestamp_iff)
  ultimately show ?thesis
    by (simp add: compile_rebuild_effort_def compile_rebuild_effort_impl_def rebuild_request_def dict_def require_space_def text_of_def
        rows cx_command_None Let_def)
qed

lemma rebuild_makes_efforts_exact_witness:
  "\<exists>c ov'. compile_rebuild_effort (sample_ctx (effort_rows ended_session)) rebuild_request = Inr c \<and>
     ov_apply (effort_overlay ended_session) c = Inr ov' \<and> efforts_exact ov' \<and>
     compute_effort_map ov' [] [] = Inr (fmupd ''b'' 1380 fmempty)"
proof -
  obtain c where c: "compile_rebuild_effort (sample_ctx (effort_rows ended_session)) rebuild_request = Inr c"
    using sample_rebuild by blast
  let ?cx = "sample_ctx (effort_rows ended_session)"
  have "effort_space (cx_overlay ?cx)" "ov_row (cx_overlay ?cx) ''work_item'' [JStr ''a''] = Some (effort_item ''a'' JNull)"
    "get (rq_payload rebuild_request) ''work_item_id'' = JNull"
    using effort_sample_space [OF ended_session_ok] by (simp_all add: effort_items rebuild_request_def dict_def)
  from rebuild_makes_efforts_exact [OF this c]
  obtain ov' where "ov_apply (effort_overlay ended_session) c = Inr ov'" "efforts_exact ov'" "efforts_only (effort_overlay ended_session) ov'"
    by auto
  then show ?thesis using c same_efforts ended_session_counts by metis
qed

lemma effort_is_a_sum_witness:
  "compute_effort_map (effort_overlay ended_session) [] [] = Inr (fmupd ''b'' 1380 fmempty) \<and>
   sum_list (map (share (read_attributions (effort_overlay ended_session) []) ''b'') (read_sessions (effort_overlay ended_session) [])) = 1380"
  using effort_is_a_sum [OF ended_session_counts, of "''b''"] ended_session_counts by simp

section \<open>The end of a session\<close>

definition running_session :: row where
  "running_session = blank_row focus_session_spec
     [(''id'', JStr ''s-1''), (''version'', JInt 2), (''session_type'', JStr ''work''), (''started_at'', JStr ''2026-01-01T08:00:00Z''),
      (''updated_at'', JStr ''2026-01-01T08:00:00Z''), (''planned_seconds'', JInt 1500), (''gross_seconds'', JInt 0),
      (''paused_seconds'', JInt 0), (''break_seconds'', JInt 0), (''focused_seconds'', JInt 0), (''validity'', JStr ''pending''),
      (''review_state'', JStr ''not_required''), (''ownership_state'', JStr ''authoritative'')]"

definition end_request :: request where
  "end_request = sample_request ''focus_session.end'' ''focus_session'' ''s-1''
     [(''space_id'', JStr ''s1''), (''session_id'', JStr ''s-1''), (''occurred_at'', JStr ''2026-01-01T08:25:00Z''),
      (''timer_completion'', JStr ''completed''), (''validity'', JStr ''valid'')] (Some 2)"

definition claiming :: row where
  "claiming = dict [(''state'', JStr ''claiming''), (''operation_id'', JStr ''op-1''), (''space_id'', JStr ''s1''), (''session_id'', JStr ''s-1'')]"

lemma running_session_ok: "session_row_ok running_session"
  unfolding session_row_ok_def running_session_def
  by (auto simp: fld_blank_row pk_values_def pk_field_set_def field_names_builtin intro!: blank_row_shape [OF effort_specs(2)])

lemma running_session_columns:
  "get_or running_session ''version'' d = JInt 2" "get_or running_session ''id'' d = JStr ''s-1''"
  "get_or running_session ''ownership_state'' d = JStr ''authoritative''" "get_or running_session ''ended_at'' d = JNull"
  "get_or running_session ''pause_started_at'' d = JNull" "get_or running_session ''validity'' d = JStr ''pending''"
  "get_or running_session ''session_type'' d = JStr ''work''"
  by (simp_all add: running_session_def get_blank_row field_names_builtin)

lemma running_started: "just_started running_session ''2026-01-01T08:00:00Z''"
  using sample_times(1) unfolding just_started_def running_session_def
  by (auto simp: get_blank_row field_names_builtin validate_duration_row_iff counters_def is_break_session_def session_type_of_def
      or_else_def FOCUS_BREAK_TYPES_def)

lemma sample_end:
  "\<exists>r f. clock_transition_after running_session ''end'' ''2026-01-01T08:25:00Z'' (rq_payload end_request) = Inr r \<and>
     get r ''version'' = JInt 2 \<and> get_or r ''id'' d = JStr ''s-1'' \<and> get r ''focused_seconds'' = JInt f \<and> 0 \<le> f \<and> f \<le> 1500"
proof -
  note started = just_started_inv [OF running_started, THEN conjunct1]
  have s: "time_of ''2026-01-01T08:00:00Z'' = 63902937600 * 1000000" by (rule time_of_stamp [OF sample_times(1)])
  have "clock_legal running_session ''end'' (rq_payload end_request)"
    by (simp add: clock_legal_def running_session_columns outcome_ok_def end_request_def dict_def)
  then obtain r where r: "clock_transition_after running_session ''end'' ''2026-01-01T08:25:00Z'' (rq_payload end_request) = Inr r"
    using clock_accepts [OF started sample_times(4), of "rq_payload end_request" "''end''"] s
    by (auto simp: end_request_def dict_def has_key_def)
  obtain t where t: "stamp ''2026-01-01T08:25:00Z'' t" "get r ''gross_seconds'' = JInt ((t - 63902937600 * 1000000) div 1000000)"
    by (rule clock_step [OF started r, unfolded s]) (rule that, assumption+)
  have gross: "get r ''gross_seconds'' = JInt 1500" using t(2) stamp_unique [OF t(1) sample_times(4)] by simp
  obtain g p b f where c: "counters r g p b f"
    using clock_transition_parts [OF r] by (metis validate_duration_row_iff)
  have "get r k = get running_session k" if "k \<notin> clock_columns" for k
    using same_butD [OF clock_same [OF r] that] .
  moreover have "get_or r ''id'' d = get_or running_session ''id'' d"
    using same_butD [OF clock_same [OF r], of "''id''"] by (simp add: clock_columns_def)
  ultimately show ?thesis using r c gross
    by (intro exI [of _ r] exI [of _ f]) (auto simp: counters_def clock_columns_def running_session_columns split: if_splits)
qed

lemma sample_end_command: "\<exists>c. compile_clock_transition (Some claiming) (sample_ctx (effort_rows running_session)) end_request = Inr c"
proof -
  let ?cx = "sample_ctx (effort_rows running_session)" and ?occ = "''2026-01-01T08:25:00Z''"
  obtain r f where r: "clock_transition_after running_session ''end'' ?occ (rq_payload end_request) = Inr r"
    "get r ''version'' = JInt 2" "get_or r ''id'' (JStr []) = JStr ''s-1''" "get r ''focused_seconds'' = JInt f" "0 \<le> f" "f \<le> 1500"
    using sample_end [of "JStr []"] by blast
  define after where "after = updates r [(''version'', next_version running_session)]"
  have after: "text_of after ''id'' = ''s-1''" "get after ''focused_seconds'' = JInt f" "get_or after ''version'' (JInt 1) = JInt 3"
    using r by (simp_all add: after_def text_of_def next_version_def running_session_columns)
  have "overridden [(''s-1'', after)] running_session = after" by (simp add: overridden_def text_of_def running_session_columns)
  from effort_sums [OF running_session_ok after(1,2) r(5) _ this] r(6)
  obtain m where m: "compute_effort_map (effort_overlay running_session) [(''s-1'', after)] [] = Inr m"
    by (auto simp: SAFE_INTEGER_MAX_def)
  have b: "ov_row (effort_overlay running_session) ''work_item'' [JStr ''b''] = Some (effort_item ''b'' (JStr ''a''))"
    "ov_row (effort_overlay running_session) ''focus_session'' [JStr ''s-1''] = Some running_session"
    by (simp_all add: effort_items)
  have affected: "collect_affected_work_item_ids (effort_overlay running_session) ''s-1'' = Inr [''b'']"
    by (simp add: collect_affected_work_item_ids_def effort_row_lists [OF running_session_ok] effort_columns_of or_else_def b)
  obtain u where u: "effort_update ?cx ''effort_target_missing'' ?occ [(''s-1'', after)] [] ''b'' = Inr u"
    using work_item_update_ok [where cx = ?cx and missing = "''effort_target_missing''", OF _ _ _ sample_times(4)] b(1) m by fastforce
  then obtain us where us: "recalc_effort_for_targets ?cx [''b''] ?occ [(''s-1'', after)] [] = Inr us"
    by (simp add: recalc_effort_for_targets_def)
  obtain p where p: "row_update ?cx ''focus_session'' running_session after ?occ = Inr p"
    using effort_specs(2) stamp_valid [OF sample_times(4)] after(3)
    by (simp add: row_update_def update_plan_def update_sync_def DbMutationPlan_def SyncEventPlan_def validate_expected_version_def
        expected_of_def running_session_columns)
  have rq: "session_id_of end_request = ''s-1''" "action_of end_request = ''end''"
    "text_of (rq_payload end_request) ''occurred_at'' = ?occ" "text_of (rq_payload end_request) ''space_id'' = ''s1''"
    "rq_expected_version end_request = Some 2"
    by (simp_all add: session_id_of_def action_of_def end_request_def dict_def text_of_def)
  have claim: "require_locator_claim ?cx end_request (Some claiming) True = Inr claiming"
    by (simp add: require_locator_claim_def claiming_def end_request_def dict_def locator_value_def Let_def)
  show ?thesis using r(1) p us affected
    by (simp add: compile_clock_transition_def rq claim require_space_def require_session_def require_version_def b
        reject_activation_conflict_def running_session_columns Let_def after_def [symmetric] cx_command_None del: updates.simps)
qed

lemma running_efforts_exact: "efforts_exact (effort_overlay running_session)"
proof -
  have "\<not> contributes running_session" by (simp add: contributes_def running_session_columns)
  moreover have "get running_session ''focused_seconds'' = JInt 0"
    by (simp add: running_session_def get_blank_row)
  ultimately have "compute_effort_map (effort_overlay running_session) [] [] = Inr fmempty"
    using effort_sums [OF running_session_ok, of running_session 0 "[]"]
    by (simp add: text_of_def running_session_columns SAFE_INTEGER_MAX_def overridden_def)
  then show ?thesis by (auto simp: efforts_exact_def effort_items stored_effort_def effort_columns_of)
qed

lemma clock_commands_keep_efforts_exact_witness:
  "\<exists>c ov'. compile_clock_transition (Some claiming) (sample_ctx (effort_rows running_session)) end_request = Inr c \<and>
     ov_apply (effort_overlay running_session) c = Inr ov' \<and> effort_space ov' \<and> efforts_exact ov'"
proof -
  let ?cx = "sample_ctx (effort_rows running_session)"
  obtain c where c: "compile_clock_transition (Some claiming) ?cx end_request = Inr c" using sample_end_command by blast
  have "attributed (effort_overlay running_session) ''s-1''"
    unfolding attributed_def by (simp add: effort_items text_of_def effort_columns_of)
  then have "effort_space (cx_overlay ?cx)" "efforts_exact (cx_overlay ?cx)" "attributed (cx_overlay ?cx) (session_id_of end_request)"
    "row_ok (rq_payload end_request)"
    using effort_sample_space [OF running_session_ok] running_efforts_exact
    by (simp_all add: session_id_of_def end_request_def dict_def row_ok_fmupd)
  from clock_commands_keep_efforts_exact [OF this c] c show ?thesis by auto
qed

end
