(* ===== verification/SessionWitness.thy ===== *)
theory SessionWitness
  imports SessionReplay EffortWitness
begin

text \<open>A provisional session that a client paused offline, and the replay of the pause.\<close>

definition provisional :: row where
  "provisional = blank_row focus_session_spec
     [(''id'', JStr ''s-1''), (''version'', JInt 1), (''session_type'', JStr ''work''), (''started_at'', JStr ''2026-01-01T08:00:00Z''),
      (''updated_at'', JStr ''2026-01-01T08:00:00Z''), (''planned_seconds'', JInt 1500), (''gross_seconds'', JInt 0),
      (''paused_seconds'', JInt 0), (''break_seconds'', JInt 0), (''focused_seconds'', JInt 0), (''validity'', JStr ''pending''),
      (''review_state'', JStr ''not_required''), (''ownership_state'', JStr ''local_provisional'')]"

definition paused_row :: request where
  "paused_row = sample_request ''entity.update'' ''focus_session'' ''s-1''
     [(''pause_started_at'', JStr ''2026-01-01T08:10:00.5Z''), (''updated_at'', JStr ''2026-01-01T08:10:00.5Z''),
      (''session_note'', JStr ''tea'')] (Some 1)"

abbreviation provisional_rows :: "((string \<times> json list) \<times> row) list" where
  "provisional_rows \<equiv> [((''focus_session'', [JStr ''s-1'']), provisional)]"

lemma provisional_columns:
  "get_or provisional ''version'' d = JInt 1" "get_or provisional ''id'' d = JStr ''s-1''" "get_or provisional ''created_at'' d = JNull"
  "get_or provisional ''ownership_state'' d = JStr ''local_provisional''" "get_or provisional ''ended_at'' d = JNull"
  "get_or provisional ''pause_started_at'' d = JNull" "get_or provisional ''validity'' d = JStr ''pending''"
  "get_or provisional ''session_type'' d = JStr ''work''" "get_or provisional ''review_state'' d = JStr ''not_required''"
  "get_or provisional ''started_at'' d = JStr ''2026-01-01T08:00:00Z''"
  by (simp_all add: provisional_def get_blank_row field_names_builtin)

lemma provisional_started: "just_started provisional ''2026-01-01T08:00:00Z''"
  using sample_times(1) unfolding just_started_def provisional_def
  by (auto simp: get_blank_row field_names_builtin validate_duration_row_iff counters_def is_break_session_def session_type_of_def
      or_else_def FOCUS_BREAK_TYPES_def)

lemma provisional_space: "builtin_space (sample_overlay provisional_rows)"
proof -
  have "row_shape sample_catalog ''focus_session'' [JStr ''s-1''] provisional" unfolding provisional_def
    by (auto simp: fld_blank_row pk_values_def pk_field_set_def field_names_builtin intro!: blank_row_shape [OF effort_specs(2)])
  then show ?thesis by (simp add: sample_builtin overlay_wf_def sample_catalog_wf)
qed

lemma provisional_pause:
  "\<exists>g. clock_transition_after provisional ''pause'' ''2026-01-01T08:10:00.5Z'' (fmdrop ''break_seconds'' (rq_payload paused_row)) = Inr g \<and>
     get g ''pause_started_at'' = JStr ''2026-01-01T08:10:00.5Z'' \<and> get g ''updated_at'' = JStr ''2026-01-01T08:10:00.5Z'' \<and>
     same_but clock_columns provisional g \<and> validate_duration_row g = Inr () \<and> get g ''validity'' = JStr ''pending'' \<and>
     get g ''review_state'' = JStr ''not_required''"
proof -
  note started = just_started_inv [OF provisional_started, THEN conjunct1]
  have s: "time_of ''2026-01-01T08:00:00Z'' = 63902937600 * 1000000" by (rule time_of_stamp [OF sample_times(1)])
  have "clock_legal provisional ''pause'' (fmdrop ''break_seconds'' (rq_payload paused_row))"
    by (simp add: clock_legal_def provisional_columns)
  then obtain g where g: "clock_transition_after provisional ''pause'' ''2026-01-01T08:10:00.5Z'' (fmdrop ''break_seconds'' (rq_payload paused_row)) = Inr g"
    using clock_accepts [OF started sample_times(2), of "fmdrop ''break_seconds'' (rq_payload paused_row)" "''pause''"] s
    by (auto simp: has_key_def)
  have "get g ''validity'' = JStr ''pending'' \<and> get g ''review_state'' = JStr ''not_required'' \<and>
      get g ''pause_started_at'' = JStr ''2026-01-01T08:10:00.5Z'' \<and> get g ''updated_at'' = JStr ''2026-01-01T08:10:00.5Z'' \<and>
      validate_duration_row g = Inr ()"
  proof -
    obtain a b st where a: "clock_start provisional ''2026-01-01T08:10:00.5Z'' (fmdrop ''break_seconds'' (rq_payload paused_row)) = Inr a"
      and b: "with_elapsed (updates a [(''pause_started_at'', JStr ''2026-01-01T08:10:00.5Z'')]) st ''2026-01-01T08:10:00.5Z'' = Inr b"
      and "g = settle_break b" "validate_duration_row g = Inr ()"
      using g unfolding clock_transition_after_def rbind_Inr Let_def clock_pause_def
      by (auto simp: rbind_Inr simp del: updates.simps)
    then show ?thesis
      using clock_start_columns [OF a] with_elapsed_columns [OF b] settle_break_columns [of b]
      by (auto simp: same_but_def provisional_columns)
  qed
  with g clock_same [OF g] show ?thesis by blast
qed

lemma paused_row_replays: "\<exists>c. compile_sync_update (sample_ctx provisional_rows) paused_row ''focus_session'' = Inr c"
proof -
  let ?cx = "sample_ctx provisional_rows" and ?T = "''2026-01-01T08:10:00.5Z''"
  obtain g where g: "clock_transition_after provisional ''pause'' ?T (fmdrop ''break_seconds'' (rq_payload paused_row)) = Inr g"
    and cols: "get g ''pause_started_at'' = JStr ?T" "get g ''updated_at'' = JStr ?T" "validate_duration_row g = Inr ()"
      "get g ''validity'' = JStr ''pending''" "get g ''review_state'' = JStr ''not_required''"
    and same: "same_but clock_columns provisional g"
    using provisional_pause by blast
  have kept: "get_or g k d = get_or provisional k d" if "k \<notin> clock_columns" for k d using same_butD [OF same that] .
  have keep: "get_or g ''id'' d = JStr ''s-1''" "get_or g ''created_at'' d = JNull" "get_or g ''ownership_state'' d = JStr ''local_provisional''"
    "get_or g ''session_type'' d = JStr ''work''" "get_or g ''started_at'' d = JStr ''2026-01-01T08:00:00Z''" for d
    using kept by (simp_all add: clock_columns_def provisional_columns)
  have row: "ov_row (sample_overlay provisional_rows) ''focus_session'' [JStr ''s-1''] = Some provisional" by (simp add: ov_row_def)
  have known: "unknown_fields focus_session_spec (rq_payload paused_row) = Inr ()"
    by (simp add: unknown_fields_def paused_row_def dict_def field_names_builtin Let_def)
  have action: "replayed_clock paused_row provisional False = Inr (g, False)"
    using g cols by (simp add: replayed_clock_def clock_action_of_def differs_def paused_row_def dict_def provisional_columns has_key_def
        fld_def client_stamp_def json_opt_def or_else_def stamp_matches_def FOCUS_CLOCK_FIELDS_def Let_def)
  let ?b = "updates g [(''session_note'', JStr ''tea'')]"
  have content: "put_content (rq_payload paused_row) g = Inr ?b"
    by (simp add: put_content_def paused_row_def dict_def covered_fields_def FOCUS_CLOCK_FIELDS_def FOCUS_SYNC_MUTABLE_FIELDS_def
        List.map_filter_def)
  have times: "require_canonical_timestamp (JStr ''2026-01-01T08:00:00Z'') = Inr ''2026-01-01T08:00:00Z''"
    "require_canonical_timestamp (JStr ?T) = Inr ?T"
    using sample_times(1,2) by (auto simp: require_canonical_timestamp_iff)
  have still: "validate_duration_row (fmupd ''session_note'' (JStr ''tea'') g) = Inr ()"
    using cols(3) by (auto simp: validate_duration_row_iff counters_def is_break_session_def session_type_of_def)
  have valid: "validate_sync_session_update provisional ?b False = Inr ()"
    using cols keep times still
    by (simp add: validate_sync_session_update_def provisional_columns Let_def)
  have keep_b: "get_or ?b ''version'' d = get_or provisional ''version'' d" "get_or ?b ''updated_at'' d' = JStr ?T" for d d'
    using kept [of "''version''" d] cols(2) by (auto simp: clock_columns_def get_or_def split: option.splits)
  obtain p where p: "row_update ?cx ''focus_session'' provisional (updates ?b [(''version'', next_version provisional)])
      (text_of (updates ?b [(''version'', next_version provisional)]) ''updated_at'') = Inr p"
    using effort_specs(2) stamp_valid [OF sample_times(2)] keep_b
    by (simp add: row_update_def update_plan_def update_sync_def DbMutationPlan_def SyncEventPlan_def validate_expected_version_def
        expected_of_def provisional_columns next_version_def text_of_def)
  have changed: "\<exists>f \<in> set FOCUS_CLOCK_FIELDS. differs (rq_payload paused_row) provisional f"
    by (simp add: FOCUS_CLOCK_FIELDS_def differs_def paused_row_def dict_def fld_def provisional_columns)
  have imm: "session_immutable (rq_payload paused_row) provisional False = Inr ()" "\<not> differs (rq_payload paused_row) provisional ''version''"
    "get (rq_payload paused_row) ''ended_at'' = JNull"
    by (simp_all add: session_immutable_def differs_def paused_row_def dict_def has_key_def)
  have "\<exists>c. compile_sync_focus_session_update ?cx paused_row provisional = Inr c"
    using imm changed action content valid p
    by (simp add: compile_sync_focus_session_update_def Let_def cx_command_None del: updates.simps split: prod.splits)
  moreover have "require_provisional_session ?cx (JStr ''s-1'') = Inr provisional"
    by (simp add: require_provisional_session_def row provisional_columns)
  moreover have "rq_entity_id paused_row = ''s-1''" "require_version paused_row ''s-1'' provisional = Inr ()"
    by (simp_all add: paused_row_def require_version_def provisional_columns)
  ultimately show ?thesis
    using effort_specs(2) known row by (auto simp: compile_sync_update_def provisional_columns)
qed

lemma replay_cannot_invent_clock_witness:
  "\<exists>c after P' n' m'. compile_sync_update (sample_ctx provisional_rows) paused_row ''focus_session'' = Inr c \<and>
     map pl_after (cm_plans c) = [Some after] \<and> clock_inv after (63902937600 * 1000000) m' P' n'"
proof -
  obtain c where c: "compile_sync_update (sample_ctx provisional_rows) paused_row ''focus_session'' = Inr c"
    using paused_row_replays by blast
  have s: "time_of ''2026-01-01T08:00:00Z'' = 63902937600 * 1000000" by (rule time_of_stamp [OF sample_times(1)])
  have "ov_row (cx_overlay (sample_ctx provisional_rows)) ''focus_session'' [JStr (rq_entity_id paused_row)] = Some provisional"
    "builtin_space (cx_overlay (sample_ctx provisional_rows))"
    using provisional_space by (simp_all add: ov_row_def paused_row_def)
  from replay_cannot_invent_clock [OF this(2) just_started_inv [OF provisional_started, THEN conjunct1, unfolded s] this(1) c]
  obtain after m' P' n' where "map pl_after (cm_plans c) = [Some after]" "clock_inv after (63902937600 * 1000000) m' P' n'"
    by metis
  with c show ?thesis by metis
qed

end
