(* ===== verification/Spec2Isabelle.thy ===== *)
theory Spec2Isabelle
  imports RelationProperties SyncProperties SystemWitness SessionPlans SessionWitness
begin

text \<open>
  A verification library for the mutation core of the PomodoroXII backend (\<open>src/backend/app\<close>).

  The program. Every change of a Space (a personal workspace with an SQL database, Markdown files and an
  index) is a request that names an entity, an action, an expected version and a payload. The mutation unit
  of work compiles a batch of requests, one after the other, against an overlay of the rows the Space
  holds; a domain policy of the entity turns a request into a command, which is a list of row plans, sync
  events and file projections. A batch with an accepted command is recorded in the journal (intent), its
  projections are staged on disk, its row plans and events are committed in one transaction with the events
  hidden, the projections are applied to the files, and the last transaction finalizes the batch and shows
  its events to the clients. After a crash, recovery drives every open batch to a terminal state from the
  journal, the stages and the files.

  Vocabulary.

  \<^item> \<open>Prelude\<close>: JSON values, rows, the exceptions of the backend as values
    (\<open>exc\<close>), the result type \<open>'a res\<close> with \<open>rbind\<close>,
    \<open>require\<close>, \<open>rforeach\<close> and \<open>rmap\<close>, and the collections
    \<open>result_simps\<close> and \<open>row_simps\<close>.
  \<^item> \<open>Timestamps\<close>: the wire form of time stamps, the calendar behind it, and the monotonic
    update stamp (\<open>services/time.py\<close>, \<open>_monotonic_updated_at\<close>); and \<open>datetime.fromisoformat\<close>, by which
    the concurrency check compares instants.
  \<^item> \<open>Json\<close>: \<open>json.dumps\<close> with sorted keys and \<open>json.loads\<close> as a
    writer and a reader of texts, with their round trip.

  Records and catalog.

  \<^item> \<open>Mutation\<close>: the immutable records of \<open>mutation/types.py\<close> with the checks
    of their constructors, the table of rejection codes of \<open>errors.py\<close>, derived operation
    identifiers and contained projection paths.
  \<^item> \<open>Catalog\<close> and \<open>Builtin\<close>: registration and compilation of entity
    declarations (\<open>registry/\<close>) and the 33 built-in ones.

  \<^item> \<open>Schema\<close>: the tables the models of \<open>app/models\<close> declare, with the types and nullability of
    their columns and their CHECK, UNIQUE and FOREIGN KEY constraints, and what of them a set of rows breaks.

  Compilation.

  \<^item> \<open>Overlay\<close>: \<open>AuthorityOverlay\<close> with its reading and its
    \<open>apply\<close>, and the compile context.
  \<^item> \<open>EntityCommand\<close>: \<open>compile_catalog_entity_command\<close>, the concurrency
    check, policy dispatch and the Session envelope check.
  \<^item> \<open>TaskSpace\<close>, \<open>RowCommands\<close>, \<open>WorkItemTree\<close>,
    \<open>WorkItems\<close>: projects and work items (\<open>task_space/compiler.py\<close>);
    \<open>WorkItemInvariant\<close> and \<open>WorkItemProperties\<close> prove that every command
    keeps the tree of depth three and the life cycle columns.
  \<^item> \<open>CycleDetector\<close>, \<open>Relations\<close>, \<open>RelationProperties\<close>:
    dependencies and the cycle detector.
  \<^item> \<open>Labels\<close>, \<open>LabelProperties\<close>: labels and label sets.
  \<^item> \<open>NoteDocument\<close>, \<open>Notes\<close>: the Note document and its commands.
  \<^item> \<open>SyncReplay\<close>, \<open>SyncProperties\<close>: the replay of work items changed
    offline.

  Focus Session (\<open>focus_session/policy.py\<close>, \<open>focus_session/effort_projection.py\<close>). A session has a
  clock (it is paused, resumed and ended, and counts elapsed, paused, break and focused seconds), an
  attribution that names a second-level work item, and a plan of third-level items; the focused seconds of
  the sessions that count are summed up in the column \<open>effort_actual_seconds\<close> of the item.

  \<^item> \<open>SessionClock\<close>: \<open>_clock_transition_after\<close> and its parts;
    \<open>ClockProperties\<close> proves which commands are accepted and how close the recorded seconds come
    to the exact time.
  \<^item> \<open>Effort\<close>: the effort projection and the commands that write it;
    \<open>EffortProperties\<close> (updates of one row), \<open>EffortSums\<close> (the sums),
    \<open>EffortCommands\<close> (what a recomputation writes) and \<open>EffortExact\<close> prove that a
    rebuild makes the stored efforts exact and that the commands of the clock keep them so.
  \<^item> \<open>FocusSession\<close>: the claim on the active session, start, clock, note, conflict, owner
    claim and attribution; \<open>SessionPlans\<close>: the commands on the plan.
  \<^item> \<open>SessionSync\<close>: the replay of session rows written offline; \<open>SessionReplay\<close>
    proves that a replay cannot invent clock facts.
  \<^item> \<open>EffortWitness\<close>, \<open>SessionWitness\<close>: a Space with a session, and the
    commands of the properties run on it.

  Execution.

  \<^item> \<open>Journal\<close>: the tables and the transactions of \<open>MutationJournal\<close>;
    \<open>JournalInvariant\<close> proves that each keeps \<open>journal_ok\<close>,
    \<open>JournalProgress\<close> what each does to one batch.
  \<^item> \<open>Commit\<close>: loading the overlay, the interpreter of row plans with the flush that ends every
    operation, the ledger, tombstones and \<open>_commit_business\<close>; \<open>CommitProperties\<close> and \<open>CommitRun\<close>
    prove that the interpreter does to the tables what the overlay promised, or fails with the integrity
    error of the first table a flush finds broken.
  \<^item> \<open>Staging\<close> and \<open>Projections\<close>: staged images
    (\<open>mutation/staging.py\<close>) and the contained actions on files, index and full text
    (\<open>file_system/engine/base.py\<close>).
  \<^item> \<open>Validation\<close>: what the unit of work demands of a compiled command, and the binding of
    Note bodies to their files.
  \<^item> \<open>Execution\<close>: \<open>compile_batch\<close> and the phases of a batch on a Space
    (\<open>run_batch\<close>); \<open>UnitOfWork\<close>: the idempotent entry points.
  \<^item> \<open>BatchRun\<close>, \<open>BatchProperties\<close>, \<open>BatchWitness\<close>: a batch from
    its requests to its receipt.
  \<^item> \<open>Recovery\<close>: \<open>MutationRecovery\<close>.
  \<^item> \<open>JournalSystem\<close>: the step relation \<open>journal_step\<close> of all transactions on
    the journal, of the unit of work and of recovery, with the invariants of its reachable states.
  \<^item> \<open>ExecutionSystem\<close>: the execution of a batch as a sequence of those steps, whatever fails.
\<close>

text \<open>
  Interfaces. The locale \<open>journal_operation\<close> (\<open>JournalSystem\<close>) is the contract of a transaction on the
  journal: it keeps the invariant and moves no batch back. It is interpreted on the thirteen operations
  the program has, and the reachability theorems use these interpretations only. The locale
  \<open>journal_relation\<close> (\<open>ExecutionSystem\<close>) is the contract of a relation between journals that carries
  over from the parts of an action to the whole; it is interpreted on reachability and on hiding.
  \<open>mutation_state\<close> is an instance of \<open>linorder\<close>, by how far a batch has come.

  Effects. Compilation is pure: it returns a value of \<open>'a res\<close>. A transaction maps a database to the next
  one or to the exception that rolls it back. An action on a Space returns its result and the Space as it
  was left, since what a failed action did before its failure stays done.

  Loops. The climb of \<open>parent_depth\<close> has a guard on visited parents and a measure. The two loops of the tree
  helpers that have no guard in the code (\<open>descend\<close>, \<open>chain_depth\<close>) are partial functions; not returning is
  the value \<open>Diverges\<close> of the result, and \<open>tree_helpers_return\<close> proves that on a sound tree they return.
  The search of the cycle detector is total by a measure on the nodes not yet seen. Two definitions carry
  fuel. \<open>walk_back\<close>, the path the detector reports, gets the number of recorded parents: every step goes to
  an entry recorded earlier, and \<open>cycle_detected_iff\<close> states that the path is whole. \<open>parse_value\<close>, the
  reader of JSON texts, gets the length of the text and one more: every nested call has consumed a
  character, and \<open>json_round_trip\<close> shows it enough for every written value.

  Parameters. \<open>digests\<close> (SHA-256 and the RFC 8785 serialiser), \<open>uuid5\<close> and the slug of a file name, the clock,
  the text of pydantic's errors, the importable modules, the mapped models (\<open>process\<close>), and what the locator
  reader of a session returns (\<open>locator\<close>). \<open>engine\<close> is what SQLAlchemy and SQLite decide at a flush: what becomes
  of a value that is not of its column's type, the clock an \<open>onupdate\<close> default reads, and the states the
  tables pass through while one flush writes its statements. Their documented
  behaviour, where a theorem needs it, is a hypothesis of that theorem. A character is a code point below
  U+0100; numbers in JSON are integers.

  Not modelled. Leases, fencing receipts and the running recovery of other processes: they are threads,
  asyncio tasks and file locks, and the model starts where a lease is held. Of the database: the
  constraints of the tables the core writes itself (ledger, tombstones, journal), and the models of the Meta
  database, which has no table in a Space. Temporary directories,
  flushing and atomic rename: a publication is one step. The time stamps of the journal tables, which
  nothing reads. Of the Focus Session policy: the review of a session, the reconciliation of its commands,
  the activation of a provisional snapshot, the resolution of conflicts and the receipts; and the coordinator
  around it. The legacy storage interface of \<open>StorageBase\<close>. Routes, schemas, services, migrations,
  MCP and frontends: input and output over this core, or code of other languages.
\<close>

end
